(* ===== verification/Prelude.thy ===== *)
theory Prelude
  imports Main "HOL-Library.Word" "HOL-Library.Monad_Syntax"
begin

text \<open>
  Shared vocabulary of the development: the C integer types of \<^verbatim>\<open>kernel/types.h\<close> as
  words, the linear search that many loops of the kernel are, and the facts about words and
  lists the component theories use.  A result of type \<^typ>\<open>'a option\<close> in the component
  theories is \<^const>\<open>None\<close> when the C code dereferences a NULL pointer or does not return.
\<close>

unbundle bit_operations_syntax

type_synonym u8 = "8 word"
type_synonym u16 = "16 word"
type_synonym u32 = "32 word"
type_synonym u64 = "64 word"

named_theorems frame_simps \<open>what an operation leaves unchanged\<close>

subsection \<open>The first index of an array that satisfies a test\<close>

text \<open>\<^verbatim>\<open>for(ui = i; ui < n; ui++) if(P(ui)) break;\<close>\<close>

function first_index :: "(nat \<Rightarrow> bool) \<Rightarrow> nat \<Rightarrow> nat \<Rightarrow> nat option" where
  "first_index P i n =
     (if i < n then (if P i then Some i else first_index P (Suc i) n) else None)"
  by pat_completeness auto
termination
  by (relation "measure (\<lambda>(P, i, n). n - i)") auto

declare first_index.simps [simp del]

lemma first_index_step:
  "first_index P i n =
     (if i < n then (if P i then Some i else first_index P (Suc i) n) else None)"
  by (rule first_index.simps)

lemma first_index_SomeD:
  "first_index P i n = Some k \<Longrightarrow> i \<le> k \<and> k < n \<and> P k \<and> (\<forall>j. i \<le> j \<and> j < k \<longrightarrow> \<not> P j)"
proof (induction P i n rule: first_index.induct)
  case (1 P i n)
  have lt: "i < n"
    using 1(2) by (subst (asm) first_index_step) (simp split: if_splits)
  show ?case
  proof (cases "P i")
    case True
    then have "k = i"
      using 1(2) lt by (subst (asm) first_index_step) simp
    with True lt show ?thesis by auto
  next
    case False
    then have "first_index P (Suc i) n = Some k"
      using 1(2) lt by (subst (asm) first_index_step) simp
    then have IH: "Suc i \<le> k" "k < n" "P k" "\<forall>j. Suc i \<le> j \<and> j < k \<longrightarrow> \<not> P j"
      using 1(1) [OF lt False] by auto
    have "\<not> P j" if "i \<le> j" "j < k" for j
      using that IH(4) False by (cases "j = i") auto
    with IH show ?thesis by simp
  qed
qed

lemma first_index_NoneD: "first_index P i n = None \<Longrightarrow> i \<le> j \<Longrightarrow> j < n \<Longrightarrow> \<not> P j"
proof (induction P i n rule: first_index.induct)
  case (1 P i n)
  have lt: "i < n"
    using 1(3,4) by simp
  have ni: "\<not> P i"
    using 1(2) lt by (subst (asm) first_index_step) (simp split: if_splits)
  moreover have "first_index P (Suc i) n = None"
    using 1(2) lt ni by (subst (asm) first_index_step) simp
  ultimately show ?case
    using 1(1) [OF lt ni] 1(3,4) by (cases "i = j") auto
qed

lemma first_index_ex: "i \<le> j \<Longrightarrow> j < n \<Longrightarrow> P j \<Longrightarrow> \<exists>k. first_index P i n = Some k"
  using first_index_NoneD by (cases "first_index P i n") auto

lemma first_index_cong:
  "(\<And>j. i \<le> j \<Longrightarrow> j < n \<Longrightarrow> P j = Q j) \<Longrightarrow> first_index P i n = first_index Q i n"
proof (induction P i n rule: first_index.induct)
  case (1 P i n)
  then show ?case
    by (subst (1 2) first_index_step) simp
qed

subsection \<open>Ends of a list as pointers\<close>

definition opt_hd :: "'a list \<Rightarrow> 'a option" where
  "opt_hd xs = (case xs of [] \<Rightarrow> None | x # _ \<Rightarrow> Some x)"

definition opt_last :: "'a list \<Rightarrow> 'a option" where
  "opt_last xs = (if xs = [] then None else Some (last xs))"

lemma opt_hd_simps [simp]: "opt_hd [] = None" "opt_hd (x # xs) = Some x"
  by (simp_all add: opt_hd_def)

lemma opt_last_simps [simp]: "opt_last [] = None" "opt_last (xs @ [x]) = Some x"
  "xs \<noteq> [] \<Longrightarrow> opt_last xs = Some (last xs)" "opt_last (x # xs) = Some (last (x # xs))"
  by (simp_all add: opt_last_def)

lemma opt_hd_None [simp]: "opt_hd xs = None \<longleftrightarrow> xs = []" "None = opt_hd xs \<longleftrightarrow> xs = []"
  by (cases xs; simp)+

lemma opt_last_None [simp]: "opt_last xs = None \<longleftrightarrow> xs = []" "None = opt_last xs \<longleftrightarrow> xs = []"
  by (auto simp: opt_last_def)

lemma opt_hd_neq [simp]: "xs \<noteq> [] \<Longrightarrow> opt_hd xs = Some (hd xs)"
  by (cases xs) auto

lemma opt_hd_append [simp]: "opt_hd (xs @ ys) = (if xs = [] then opt_hd ys else opt_hd xs)"
  by (cases xs) auto

lemma opt_last_append [simp]: "opt_last (xs @ ys) = (if ys = [] then opt_last xs else opt_last ys)"
  by (auto simp: opt_last_def)

subsection \<open>Words\<close>

lemma unat_plus_if_lt: "unat (a::'a::len word) + unat b < 2 ^ LENGTH('a) \<Longrightarrow> unat (a + b) = unat a + unat b"
  by (simp add: unat_word_ariths)

lemma unat_minus_le: "unat (b::'a::len word) \<le> unat a \<Longrightarrow> unat (a - b) = unat a - unat b"
  by (simp add: unat_sub word_le_nat_alt)

lemma unat_mod_eq: "unat (a mod b) = unat a mod unat (b::'a::len word)"
  by (rule unat_mod_distrib)

lemma unat32_lt: "unat (x::u32) < 4294967296"
  using unsigned_less [of x] by simp

lemma unat_ucast_32_64 [simp]: "unat (ucast (x::u32) :: u64) = unat x"
  using unat32_lt [of x] by (simp add: unsigned_ucast_eq take_bit_nat_eq_self_iff)

text \<open>The bytes of a word, joined from the lowest on.\<close>

lemma first_byte: "ucast (ucast w :: u8) = take_bit 8 w" for w :: "'a::len word"
  by (rule bit_word_eqI) (auto simp: bit_simps)

lemma next_byte: "take_bit m w OR push_bit m (take_bit 8 (drop_bit m w)) = take_bit (m + 8) w" for w :: "'a::len word"
proof (rule bit_word_eqI)
  fix n
  show "bit (take_bit m w OR push_bit m (take_bit 8 (drop_bit m w))) n = bit (take_bit (m + 8) w) n" if "n < LENGTH('a)"
    using that by (cases "n < m") (auto simp: bit_simps not_less)
qed

end
