(* ===== verification/Dll.thy ===== *)
theory Dll
  imports Prelude
begin

text \<open>
  Doubly linked lists in a store.  \<^verbatim>\<open>memory.c\<close>, \<^verbatim>\<open>dslib/linked_list.c\<close> and
  \<^verbatim>\<open>mempoollib.c\<close> each keep their own \<open>prev\<close>/\<open>next\<close> pointers and update them with the
  same few assignments; here is the relation between such a store and the list of nodes it
  represents, and what the assignments do to that list.
\<close>

text \<open>
  \<open>dchain nx pv b ps e\<close>: the nodes \<open>ps\<close> are linked in this order, the first one's
  \<open>prev\<close> is \<open>b\<close> and the last one's \<open>next\<close> is \<open>e\<close>.
\<close>

fun dchain :: "('p \<Rightarrow> 'p option) \<Rightarrow> ('p \<Rightarrow> 'p option) \<Rightarrow> 'p option \<Rightarrow> 'p list \<Rightarrow> 'p option \<Rightarrow> bool" where
  "dchain nx pv b [] e = True"
| "dchain nx pv b (x # xs) e =
     (pv x = b \<and> nx x = (if xs = [] then e else opt_hd xs) \<and> dchain nx pv (Some x) xs e)"

definition dlist :: "('p \<Rightarrow> 'p option) \<Rightarrow> ('p \<Rightarrow> 'p option) \<Rightarrow> 'p option \<Rightarrow> 'p option \<Rightarrow> 'p list \<Rightarrow> bool" where
  "dlist nx pv h f ps \<longleftrightarrow>
     distinct ps \<and> h = opt_hd ps \<and> f = opt_last ps \<and> dchain nx pv None ps None"

lemma dchain_append:
  "dchain nx pv b (xs @ ys) e \<longleftrightarrow>
     dchain nx pv b xs (if ys = [] then e else opt_hd ys) \<and>
     dchain nx pv (if xs = [] then b else opt_last xs) ys e"
  by (induction xs arbitrary: b) (auto simp: opt_last_def)

lemma dchain_frame:
  "(\<And>x. x \<in> set xs \<Longrightarrow> nx' x = nx x \<and> pv' x = pv x) \<Longrightarrow>
     dchain nx' pv' b xs e = dchain nx pv b xs e"
  by (induction xs arbitrary: b) auto

lemma dchain_nx_upd [simp]: "q \<notin> set xs \<Longrightarrow> dchain (nx(q := v)) pv b xs e = dchain nx pv b xs e"
  by (rule dchain_frame) auto

lemma dchain_pv_upd [simp]: "q \<notin> set xs \<Longrightarrow> dchain nx (pv(q := v)) b xs e = dchain nx pv b xs e"
  by (rule dchain_frame) auto

lemma dlist_cong:
  "(\<And>x. x \<in> set ps \<Longrightarrow> nx' x = nx x \<and> pv' x = pv x) \<Longrightarrow>
     dlist nx' pv' h f ps = dlist nx pv h f ps"
  unfolding dlist_def using dchain_frame [of ps nx' nx pv' pv] by auto

lemma dlist_Nil [simp]: "dlist nx pv h f [] \<longleftrightarrow> h = None \<and> f = None"
  by (auto simp: dlist_def)

lemma dlist_None: "dlist nx pv h f ps \<Longrightarrow> h = None \<longleftrightarrow> ps = []" "dlist nx pv h f ps \<Longrightarrow> f = None \<longleftrightarrow> ps = []"
  by (auto simp: dlist_def)

lemma dlist_ends: "dlist nx pv h f ps \<Longrightarrow> h = opt_hd ps \<and> f = opt_last ps"
  by (simp add: dlist_def)

lemma dlist_distinct: "dlist nx pv h f ps \<Longrightarrow> distinct ps"
  by (simp add: dlist_def)

text \<open>The links around a node.\<close>

lemma dlist_split:
  assumes "dlist nx pv h f (xs @ p # ys)"
  shows "pv p = opt_last xs" "nx p = opt_hd ys" "p \<notin> set xs" "p \<notin> set ys"
    "set xs \<inter> set ys = {}" "h = Some p \<longleftrightarrow> xs = []" "f = Some p \<longleftrightarrow> ys = []"
proof -
  have d: "distinct (xs @ p # ys)" and h: "h = opt_hd (xs @ p # ys)" and f: "f = opt_last (xs @ p # ys)"
    and c: "dchain nx pv None (xs @ p # ys) None"
    using assms by (simp_all add: dlist_def)
  show "pv p = opt_last xs" "nx p = opt_hd ys"
    using c by (auto simp: dchain_append split: if_splits)
  show "p \<notin> set xs" "p \<notin> set ys" "set xs \<inter> set ys = {}"
    using d by auto
  show "h = Some p \<longleftrightarrow> xs = []"
    using h d by (cases xs) auto
  show "f = Some p \<longleftrightarrow> ys = []"
    using f d by (cases "ys = []") (auto simp: opt_last_def)
qed

subsection \<open>Appending, prepending, removing\<close>

lemma dlist_append_empty:
  "dlist nx pv None None ps \<Longrightarrow> dlist (nx(q := None)) (pv(q := None)) (Some q) (Some q) [q]"
  by (auto simp: dlist_def)

lemma dlist_append:
  assumes "dlist nx pv h f ps" "f = Some l" "q \<notin> set ps"
  shows "dlist (nx(l := Some q, q := None)) (pv(q := Some l)) h (Some q) (ps @ [q])"
proof -
  from assms have "ps \<noteq> []" "l = last ps"
    by (auto simp: dlist_def opt_last_def split: if_splits)
  then obtain xs where ps: "ps = xs @ [l]"
    by (metis append_butlast_last_id)
  with assms show ?thesis
    by (auto simp: dlist_def dchain_append)
qed

lemma dlist_prepend:
  assumes "dlist nx pv h f ps" "h = Some a" "q \<notin> set ps"
  shows "dlist (nx(q := Some a)) (pv(a := Some q, q := None)) (Some q) f (q # ps)"
proof -
  from assms obtain xs where ps: "ps = a # xs"
    by (cases ps) (auto simp: dlist_def)
  with assms show ?thesis
    by (auto simp: dlist_def)
qed

text \<open>
  Unlinking the node between \<open>xs\<close> and \<open>ys\<close>: the neighbours skip it, and an end that
  was the node moves to its neighbour.
\<close>

definition unlink_next :: "('p \<Rightarrow> 'p option) \<Rightarrow> 'p list \<Rightarrow> 'p list \<Rightarrow> 'p \<Rightarrow> 'p option" where
  "unlink_next nx xs ys = (if xs = [] then nx else nx(last xs := opt_hd ys))"

definition unlink_prev :: "('p \<Rightarrow> 'p option) \<Rightarrow> 'p list \<Rightarrow> 'p list \<Rightarrow> 'p \<Rightarrow> 'p option" where
  "unlink_prev pv xs ys = (if ys = [] then pv else pv(hd ys := opt_last xs))"

lemma dlist_unlink:
  assumes "dlist nx pv h f (xs @ p # ys)"
  shows "dlist (unlink_next nx xs ys) (unlink_prev pv xs ys)
           (opt_hd (xs @ ys)) (opt_last (xs @ ys)) (xs @ ys)"
proof -
  have d: "distinct (xs @ p # ys)" and c: "dchain nx pv None (xs @ p # ys) None"
    using assms by (simp_all add: dlist_def)
  have cx: "dchain nx pv None xs (Some p)" and cy: "dchain nx pv (Some p) ys None"
    using c by (auto simp: dchain_append split: if_splits)
  have "dchain (unlink_next nx xs ys) (unlink_prev pv xs ys) None xs (opt_hd ys)"
  proof (cases xs rule: rev_cases)
    case (snoc us u)
    then have "dchain nx pv None us (Some u)" "pv u = opt_last us"
      using cx by (auto simp: dchain_append split: if_splits)
    moreover have "hd ys \<notin> set us" "hd ys \<noteq> u" if "ys \<noteq> []"
      using d snoc that by (cases ys; auto)+
    ultimately show ?thesis
      using d snoc by (auto simp: dchain_append unlink_next_def unlink_prev_def)
  qed simp
  moreover have "dchain (unlink_next nx xs ys) (unlink_prev pv xs ys) (opt_last xs) ys None"
  proof (cases ys)
    case (Cons v vs)
    moreover have "last xs \<notin> set ys" if "xs \<noteq> []"
      using d that by (auto dest: last_in_set)
    ultimately show ?thesis
      using cy d by (auto simp: unlink_next_def unlink_prev_def)
  qed simp
  ultimately show ?thesis
    using d by (auto simp: dlist_def dchain_append)
qed

subsection \<open>Stores of records\<close>

lemma comp_upd [simp]: "f \<circ> h(p := r) = (f \<circ> h)(p := f r)"
  by (rule fun_upd_comp)

lemma comp_upd_same [simp]: "(f \<circ> h)(p := f (h p)) = f \<circ> h"
  by (rule fun_upd_idem) simp

lemma comp_upd_other [simp]: "p \<noteq> a \<Longrightarrow> (f \<circ> h)(a := x, p := f (h p)) = (f \<circ> h)(a := x)"
  by auto

end
