(* ===== verification/Lock.thy ===== *)
theory Lock
  imports Prelude
begin

text \<open>
  \<^verbatim>\<open>kernel/lock.c\<close> and the macro \<open>DEFINE_LOCK_IMPL\<close> of \<^verbatim>\<open>kernel/lock.h\<close>: the
  kernel's mutual exclusion is one nesting counter \<open>lock_level\<close> and the interrupt flag.
  Each component has its own switch (\<open>name##_lock_state\<close>), the argument \<open>on\<close> below; the
  functions of \<^verbatim>\<open>lock.c\<close> are the same code over \<open>_common_lock_state\<close>.  The message
  the code prints and logs on an unlock at level 0 is counted in \<open>lk_errors\<close>.
\<close>

record lock_state =
  lock_level :: "u32"   \<comment> \<open>an \<open>int32\<close> that is only incremented, decremented and compared with 0\<close>
  irq_on :: bool        \<comment> \<open>the interrupt flag: \<open>cli\<close> clears it, \<open>sti\<close> sets it\<close>
  lk_errors :: nat

definition lk_lock :: "bool \<Rightarrow> lock_state \<Rightarrow> lock_state" where
  "lk_lock on k = (if on then k\<lparr>lock_level := lock_level k + 1, irq_on := False\<rparr> else k)"

definition lk_unlock :: "bool \<Rightarrow> lock_state \<Rightarrow> lock_state" where
  "lk_unlock on k =
     (if on then
        if lock_level k = 0 then k\<lparr>lk_errors := Suc (lk_errors k)\<rparr>
        else (let k' = k\<lparr>lock_level := lock_level k - 1\<rparr> in
              if lock_level k' = 0 then k'\<lparr>irq_on := True\<rparr> else k')
      else k)"

definition lk_unlock_without_sti :: "bool \<Rightarrow> lock_state \<Rightarrow> lock_state" where
  "lk_unlock_without_sti on k =
     (if on then
        if lock_level k = 0 then k\<lparr>lk_errors := Suc (lk_errors k)\<rparr>
        else k\<lparr>lock_level := lock_level k - 1\<rparr>
      else k)"

text \<open>\<^verbatim>\<open>kernel/lock.c\<close>: the common lock and its switch.\<close>

record common_lock =
  common_lock_state :: bool
  kernel_lock :: lock_state

definition KnlEnableCommonLock :: "common_lock \<Rightarrow> common_lock" where
  "KnlEnableCommonLock c = c\<lparr>common_lock_state := True\<rparr>"

definition KnlDisableCommonLock :: "common_lock \<Rightarrow> common_lock" where
  "KnlDisableCommonLock c = c\<lparr>common_lock_state := False\<rparr>"

definition KnlCommonLock :: "common_lock \<Rightarrow> common_lock" where
  "KnlCommonLock c =
     (if common_lock_state c
      then c\<lparr>kernel_lock := (kernel_lock c)
               \<lparr>lock_level := lock_level (kernel_lock c) + 1, irq_on := False\<rparr>\<rparr>
      else c)"

definition KnlCommonUnlock :: "common_lock \<Rightarrow> common_lock" where
  "KnlCommonUnlock c =
     (if common_lock_state c then
        let k = kernel_lock c in
        if lock_level k = 0 then c\<lparr>kernel_lock := k\<lparr>lk_errors := Suc (lk_errors k)\<rparr>\<rparr>
        else (let k' = k\<lparr>lock_level := lock_level k - 1\<rparr> in
              if lock_level k' = 0 then c\<lparr>kernel_lock := k'\<lparr>irq_on := True\<rparr>\<rparr>
              else c\<lparr>kernel_lock := k'\<rparr>)
      else c)"

definition KnlCommonUnlockWithoutSti :: "common_lock \<Rightarrow> common_lock" where
  "KnlCommonUnlockWithoutSti c =
     (if common_lock_state c then
        let k = kernel_lock c in
        if lock_level k = 0 then c\<lparr>kernel_lock := k\<lparr>lk_errors := Suc (lk_errors k)\<rparr>\<rparr>
        else c\<lparr>kernel_lock := k\<lparr>lock_level := lock_level k - 1\<rparr>\<rparr>
      else c)"

text \<open>
  A public entry point of a component: \<open>lock(); r = f(...); unlock(); return r;\<close>.
\<close>

definition locked ::
  "bool \<Rightarrow> ('s \<Rightarrow> ('r \<times> 's) option) \<Rightarrow> lock_state \<times> 's \<Rightarrow> ('r \<times> lock_state \<times> 's) option" where
  "locked on f ks =
     (case f (snd ks) of
        None \<Rightarrow> None
      | Some (r, s') \<Rightarrow> Some (r, lk_unlock on (lk_lock on (fst ks)), s'))"

subsection \<open>The counter and the interrupt flag\<close>

text \<open>Interrupts are off while a lock is held.\<close>

definition lk_inv :: "lock_state \<Rightarrow> bool" where
  "lk_inv k \<longleftrightarrow> (lock_level k \<noteq> 0 \<longrightarrow> \<not> irq_on k)"

lemma lk_lock_inv: "lk_inv k \<Longrightarrow> lk_inv (lk_lock on k)"
  by (simp add: lk_inv_def lk_lock_def)

lemma lk_unlock_inv: "lk_inv k \<Longrightarrow> lk_inv (lk_unlock on k)"
  by (simp add: lk_inv_def lk_unlock_def Let_def)

lemma lk_lock_irq: "on \<Longrightarrow> \<not> irq_on (lk_lock on k)"
  by (simp add: lk_lock_def)

text \<open>
  A bracket leaves the counter as it was; it turns interrupts on only as the outermost
  one, and a bracket never unlocks at level 0.
\<close>

lemma lk_bracket:
  assumes "lock_level k \<noteq> - 1"
  shows "lk_unlock on (lk_lock on k) =
     (if on then k\<lparr>irq_on := (lock_level k = 0)\<rparr> else k)"
proof -
  have "lock_level k + 1 \<noteq> 0"
    using assms by (metis add.commute add_eq_0_iff minus_minus)
  then show ?thesis
    by (simp add: lk_unlock_def lk_lock_def Let_def)
qed

lemma lk_bracket_idle:
  "lk_inv k \<Longrightarrow> lock_level k \<noteq> - 1 \<Longrightarrow> lock_level k \<noteq> 0 \<Longrightarrow> lk_unlock on (lk_lock on k) = k"
  by (simp add: lk_bracket lk_inv_def)

lemma locked_Some:
  "locked on f (k, s) = Some (r, k', s') \<longleftrightarrow>
     f s = Some (r, s') \<and> k' = lk_unlock on (lk_lock on k)"
  by (auto simp: locked_def split: option.splits)

text \<open>
  Code under the lock: a run of \<open>lock\<close> and \<open>unlock\<close> calls of the components.  When every
  \<open>unlock\<close> has its \<open>lock\<close> (\<open>nested\<close>), the counter comes back to where it was, and at
  every point in between interrupts are off.
\<close>

datatype lk_call = Lock | Unlock

fun lk_step :: "lock_state \<Rightarrow> lk_call \<Rightarrow> lock_state" where
  "lk_step k Lock = lk_lock True k"
| "lk_step k Unlock = lk_unlock True k"

definition lk_run :: "lock_state \<Rightarrow> lk_call list \<Rightarrow> lock_state" where
  "lk_run k cs = foldl lk_step k cs"

fun depth :: "nat \<Rightarrow> lk_call list \<Rightarrow> nat option" where
  "depth d [] = Some d"
| "depth d (Lock # cs) = depth (Suc d) cs"
| "depth 0 (Unlock # cs) = None"
| "depth (Suc d) (Unlock # cs) = depth d cs"

lemma lk_run_Nil [simp]: "lk_run k [] = k" and lk_run_Cons [simp]: "lk_run k (c # cs) = lk_run (lk_step k c) cs"
  by (simp_all add: lk_run_def)

lemma depth_length: "depth d cs = Some e \<Longrightarrow> e \<le> d + length cs"
  by (induction d cs rule: depth.induct) auto

text \<open>Whatever balanced or unbalanced run of \<open>lock\<close> and \<open>unlock\<close> calls a component makes, as long
  as no \<open>unlock\<close> comes without its \<open>lock\<close> the level is the nesting depth, interrupts are off wherever
  it is not 0, and no error is reported.\<close>

theorem lk_run_depth:
  "lk_inv k \<Longrightarrow> lock_level k = of_nat d \<Longrightarrow> d + length cs < 2 ^ 32 \<Longrightarrow> depth d cs = Some e \<Longrightarrow>
     lk_inv (lk_run k cs) \<and> lock_level (lk_run k cs) = of_nat e \<and> lk_errors (lk_run k cs) = lk_errors k"
proof (induction d cs arbitrary: k rule: depth.induct)
  case (2 d cs)
  have "lk_inv (lk_lock True k)" "lock_level (lk_lock True k) = of_nat (Suc d)"
    "lk_errors (lk_lock True k) = lk_errors k"
    using 2 by (auto simp: lk_lock_inv) (simp_all add: lk_lock_def)
  with 2 show ?case
    by simp
next
  case (4 d cs)
  have "(of_nat (Suc d) :: u32) \<noteq> 0"
    using 4(4) by (subst word_of_nat_eq_0_iff) (auto dest: dvd_imp_le)
  then have "lk_inv (lk_unlock True k)" "lock_level (lk_unlock True k) = of_nat d"
    "lk_errors (lk_unlock True k) = lk_errors k"
    using 4 by (auto simp: lk_unlock_inv) (simp_all add: lk_unlock_def Let_def)
  with 4 show ?case
    by simp
qed auto

theorem lk_run_depth_witness:
  "lock_level (lk_run \<lparr>lock_level = 0, irq_on = True, lk_errors = 0\<rparr> [Lock, Lock, Unlock]) = of_nat 1"
  using lk_run_depth [of "\<lparr>lock_level = 0, irq_on = True, lk_errors = 0\<rparr>" 0 "[Lock, Lock, Unlock]" 1]
  by (simp add: lk_inv_def)

end
