(* ===== verification/Memory.thy ===== *)
theory Memory
  imports Dll Lock
begin

text \<open>
  \<^verbatim>\<open>kernel/memory.c\<close>: the physical page allocator.  Two tables of block descriptors at
  fixed addresses (\<open>MBDT\<close> for free blocks, \<open>UMBDT\<close> for allocated ones); the descriptors in
  use are threaded on two doubly linked lists.  A descriptor pointer names its table and its
  slot, so that the code's copying of a whole descriptor from one table to the other, link
  fields included, is the same copy here.
\<close>

section \<open>State\<close>

datatype mbd_ptr = Mbd nat | Umbd nat

record mbd =
  mbd_used :: u8
  mbd_start :: u32
  mbd_length :: u32
  mbd_prev :: "mbd_ptr option"
  mbd_next :: "mbd_ptr option"

datatype mem_msg = CannotAllocate u32 | CannotRelease u32

type_synonym descs = "mbd_ptr \<Rightarrow> mbd"

record mem_state =
  memory_limit :: u32
  mem_used :: u64
  mbdt_head :: "mbd_ptr option"
  mbdt_foot :: "mbd_ptr option"
  umbdt_head :: "mbd_ptr option"
  umbdt_foot :: "mbd_ptr option"
  descs :: descs
  mem_log :: "mem_msg list"
  mem_lock_state :: bool

text \<open>\<open>sizeof(struct MemoryBlockDescriptor)\<close> is 17 (packed): 61680 slots in 1 MB.\<close>

definition MBDT_LENGTH :: nat where "MBDT_LENGTH = 0x100000"
definition MBD_COUNT :: nat where "MBD_COUNT = MBDT_LENGTH div 17"
definition UMBD_COUNT :: nat where "UMBD_COUNT = 0x100000 div 17"
definition ALLOC_START_ADDRESS :: u32 where "ALLOC_START_ADDRESS = 0x01000000"

definition zero_mbd :: mbd where
  "zero_mbd = \<lparr>mbd_used = 0, mbd_start = 0, mbd_length = 0, mbd_prev = None, mbd_next = None\<rparr>"

section \<open>Byte operations\<close>

text \<open>\<open>MemCopy\<close> and \<open>MemClear\<close> over a byte store; the loop index is a 32-bit offset.\<close>

fun mem_copy_loop :: "u32 \<Rightarrow> u32 \<Rightarrow> nat \<Rightarrow> nat \<Rightarrow> (u32 \<Rightarrow> u8) \<Rightarrow> (u32 \<Rightarrow> u8)" where
  "mem_copy_loop src dst ui 0 m = m"
| "mem_copy_loop src dst ui (Suc n) m =
     mem_copy_loop src dst (Suc ui) n (m(dst + of_nat ui := m (src + of_nat ui)))"

definition MemCopy :: "u32 \<Rightarrow> u32 \<Rightarrow> u32 \<Rightarrow> (u32 \<Rightarrow> u8) \<Rightarrow> (u32 \<Rightarrow> u8)" where
  "MemCopy src dst len m = mem_copy_loop src dst 0 (unat len) m"

fun mem_clear_loop :: "u32 \<Rightarrow> u8 \<Rightarrow> nat \<Rightarrow> nat \<Rightarrow> (u32 \<Rightarrow> u8) \<Rightarrow> (u32 \<Rightarrow> u8)" where
  "mem_clear_loop dst b ui 0 m = m"
| "mem_clear_loop dst b ui (Suc n) m = mem_clear_loop dst b (Suc ui) n (m(dst + of_nat ui := b))"

definition MemClear :: "u32 \<Rightarrow> u8 \<Rightarrow> u32 \<Rightarrow> (u32 \<Rightarrow> u8) \<Rightarrow> (u32 \<Rightarrow> u8)" where
  "MemClear dst b len m = mem_clear_loop dst b 0 (unat len) m"

section \<open>Descriptor tables and lists\<close>

definition MemGetUsedLength :: "mem_state \<Rightarrow> u64" where
  "MemGetUsedLength s = mem_used s"

text \<open>\<open>_MemGetUnusedMBD(table, count)\<close>; \<open>tbl\<close> is the table as its slot constructor.\<close>

definition MemGetUnusedMBD :: "(nat \<Rightarrow> mbd_ptr) \<Rightarrow> nat \<Rightarrow> descs \<Rightarrow> mbd_ptr option" where
  "MemGetUnusedMBD tbl mbd_count ds =
     map_option tbl (first_index (\<lambda>ui. mbd_used (ds (tbl ui)) = 0) 0 mbd_count)"

text \<open>\<open>_MemAppendMBD(&head, &foot, mbd)\<close>: the result, the two ends and the store.\<close>

definition MemAppendMBD ::
  "mbd_ptr option \<Rightarrow> mbd_ptr option \<Rightarrow> mbd_ptr \<Rightarrow> descs \<Rightarrow>
   bool \<times> mbd_ptr option \<times> mbd_ptr option \<times> descs" where
  "MemAppendMBD head foot m ds =
     (case (head, foot) of
        (None, None) \<Rightarrow> (True, Some m, Some m, ds(m := (ds m)\<lparr>mbd_prev := None, mbd_next := None\<rparr>))
      | (Some h, Some f) \<Rightarrow>
          (let ds1 = ds(f := (ds f)\<lparr>mbd_next := Some m\<rparr>);
               ds2 = ds1(m := (ds1 m)\<lparr>mbd_prev := foot\<rparr>);
               ds3 = ds2(m := (ds2 m)\<lparr>mbd_next := None\<rparr>)
           in (True, head, Some m, ds3))
      | _ \<Rightarrow> (False, head, foot, ds))"

text \<open>
  \<open>_MemRemoveMBD(&head, &foot, mbd)\<close>.  \<^const>\<open>None\<close> where it writes through a NULL
  \<open>prev\<close> or \<open>next\<close>.
\<close>

definition MemRemoveMBD ::
  "mbd_ptr option \<Rightarrow> mbd_ptr option \<Rightarrow> mbd_ptr \<Rightarrow> descs \<Rightarrow>
   (bool \<times> mbd_ptr option \<times> mbd_ptr option \<times> descs) option" where
  "MemRemoveMBD head foot m ds =
     (if head = Some m \<and> foot = Some m then Some (True, None, None, ds)
      else if head = Some m \<and> foot \<noteq> Some m then do {
        n \<leftarrow> mbd_next (ds m);
        Some (True, mbd_next (ds m), foot, ds(n := (ds n)\<lparr>mbd_prev := None\<rparr>)) }
      else if head \<noteq> Some m \<and> foot = Some m then do {
        p \<leftarrow> mbd_prev (ds m);
        Some (True, head, mbd_prev (ds m), ds(p := (ds p)\<lparr>mbd_next := None\<rparr>)) }
      else do {
        p \<leftarrow> mbd_prev (ds m);
        let ds1 = ds(p := (ds p)\<lparr>mbd_next := mbd_next (ds m)\<rparr>);
        n \<leftarrow> mbd_next (ds1 m);
        Some (True, head, foot, ds1(n := (ds1 n)\<lparr>mbd_prev := mbd_prev (ds1 m)\<rparr>)) })"

definition append_free :: "mbd_ptr \<Rightarrow> mem_state \<Rightarrow> bool \<times> mem_state" where
  "append_free m s =
     (case MemAppendMBD (mbdt_head s) (mbdt_foot s) m (descs s) of
        (b, h, f, ds) \<Rightarrow> (b, s\<lparr>mbdt_head := h, mbdt_foot := f, descs := ds\<rparr>))"

definition append_used :: "mbd_ptr \<Rightarrow> mem_state \<Rightarrow> bool \<times> mem_state" where
  "append_used m s =
     (case MemAppendMBD (umbdt_head s) (umbdt_foot s) m (descs s) of
        (b, h, f, ds) \<Rightarrow> (b, s\<lparr>umbdt_head := h, umbdt_foot := f, descs := ds\<rparr>))"

definition remove_free :: "mbd_ptr \<Rightarrow> mem_state \<Rightarrow> (bool \<times> mem_state) option" where
  "remove_free m s = do {
     (b, h, f, ds) \<leftarrow> MemRemoveMBD (mbdt_head s) (mbdt_foot s) m (descs s);
     Some (b, s\<lparr>mbdt_head := h, mbdt_foot := f, descs := ds\<rparr>) }"

definition remove_used :: "mbd_ptr \<Rightarrow> mem_state \<Rightarrow> (bool \<times> mem_state) option" where
  "remove_used m s = do {
     (b, h, f, ds) \<leftarrow> MemRemoveMBD (umbdt_head s) (umbdt_foot s) m (descs s);
     Some (b, s\<lparr>umbdt_head := h, umbdt_foot := f, descs := ds\<rparr>) }"

definition upd_mbd :: "mbd_ptr \<Rightarrow> (mbd \<Rightarrow> mbd) \<Rightarrow> mem_state \<Rightarrow> mem_state" where
  "upd_mbd m g s = s\<lparr>descs := (descs s)(m := g (descs s m))\<rparr>"

section \<open>Operations\<close>

text \<open>\<^verbatim>\<open>kernel/kfuncs.c\<close>: the size reported by the loader's two 16-bit counters.\<close>

definition get_memory_size :: "u16 \<Rightarrow> u16 \<Rightarrow> u64" where
  "get_memory_size ax bx = (1 * 1024 * 1024) + (ucast ax * 1024) + (ucast bx * 64 * 1024)"

text \<open>
  \<open>MemInit\<close>.  The two \<open>MemClear\<close> calls zero the tables, that is every descriptor; the
  kernel's statics start as in the C file.
\<close>

definition mem_boot :: mem_state where
  "mem_boot = \<lparr>memory_limit = 0xFFFFFFFF, mem_used = 0x1000000, mbdt_head = None, mbdt_foot = None,
     umbdt_head = None, umbdt_foot = None, descs = (\<lambda>_. zero_mbd), mem_log = [], mem_lock_state = False\<rparr>"

definition MemInit :: "u64 \<Rightarrow> mem_state \<Rightarrow> mem_state option" where
  "MemInit msize s = do {
     let s = s\<lparr>memory_limit := ucast (msize - 1)\<rparr>;
     let s = s\<lparr>descs := (\<lambda>_. zero_mbd)\<rparr>;
     m \<leftarrow> MemGetUnusedMBD Mbd MBD_COUNT (descs s);
     let s = upd_mbd m (\<lambda>d. d\<lparr>mbd_used := 1, mbd_start := ALLOC_START_ADDRESS,
               mbd_length := memory_limit s - ALLOC_START_ADDRESS + 1\<rparr>) s;
     Some (snd (append_free m s)) }"

text \<open>\<open>MemGetMBDTableInfo\<close>, \<open>MemGetUsedMBDTableInfo\<close>: (total, used descriptors, bytes).\<close>

fun table_info_loop :: "(nat \<Rightarrow> mbd_ptr) \<Rightarrow> descs \<Rightarrow> nat \<Rightarrow> nat \<Rightarrow> u32 \<times> u32 \<Rightarrow> u32 \<times> u32" where
  "table_info_loop tbl ds ui 0 acc = acc"
| "table_info_loop tbl ds ui (Suc n) (used_count, m_size) =
     table_info_loop tbl ds (Suc ui) n
       (if mbd_used (ds (tbl ui)) \<noteq> 0
        then (used_count + 1, m_size + mbd_length (ds (tbl ui)))
        else (used_count, m_size))"

definition MemGetMBDTableInfo :: "mem_state \<Rightarrow> u32 \<times> u32 \<times> u32" where
  "MemGetMBDTableInfo s =
     (of_nat MBD_COUNT, table_info_loop Mbd (descs s) 0 MBD_COUNT (0, 0))"

definition MemGetUsedMBDTableInfo :: "mem_state \<Rightarrow> u32 \<times> u32 \<times> u32" where
  "MemGetUsedMBDTableInfo s =
     (of_nat UMBD_COUNT, table_info_loop Umbd (descs s) 0 UMBD_COUNT (0, ALLOC_START_ADDRESS))"

definition MemAlign4KB :: "u32 \<Rightarrow> u32" where
  "MemAlign4KB n = (if n mod 4096 = 0 then n else n + (4096 - n mod 4096))"

text \<open>
  The two ways \<open>_MemAllocWithStart\<close> takes \<open>length\<close> bytes from a free block: its end, when
  the block begins below \<open>m_start\<close>, or its beginning.  A returned 0 is NULL.
\<close>

definition alloc_from_end :: "u32 \<Rightarrow> mbd_ptr \<Rightarrow> mem_state \<Rightarrow> (u32 \<times> mem_state) option" where
  "alloc_from_end len m s =
     (case MemGetUnusedMBD Umbd UMBD_COUNT (descs s) of
        None \<Rightarrow> Some (0, s)
      | Some u \<Rightarrow>
          (let address = mbd_start (descs s m) + mbd_length (descs s m) - len;
               s = upd_mbd u (\<lambda>d. d\<lparr>mbd_used := 1, mbd_start := address, mbd_length := len\<rparr>) s;
               s = upd_mbd m (\<lambda>d. d\<lparr>mbd_length := mbd_length d - len\<rparr>) s
           in case append_used u s of
                (False, s) \<Rightarrow> Some (0, s)
              | (True, s) \<Rightarrow> Some (address, s\<lparr>mem_used := mem_used s + ucast len\<rparr>)))"

definition alloc_from_start :: "u32 \<Rightarrow> mbd_ptr \<Rightarrow> mem_state \<Rightarrow> (u32 \<times> mem_state) option" where
  "alloc_from_start len m s =
     (case MemGetUnusedMBD Umbd MBD_COUNT (descs s) of
        None \<Rightarrow> Some (0, s)
      | Some u \<Rightarrow> do {
          let address = mbd_start (descs s m);
          let s = upd_mbd u (\<lambda>d. d\<lparr>mbd_used := 1, mbd_start := mbd_start (descs s m), mbd_length := len\<rparr>) s;
          let s = upd_mbd m (\<lambda>d. d\<lparr>mbd_length := mbd_length d - len\<rparr>) s;
          let s = upd_mbd m (\<lambda>d. d\<lparr>mbd_start := mbd_start d + len\<rparr>) s;
          (removed, s) \<leftarrow>
            (if mbd_length (descs s m) = 0
             then remove_free m (upd_mbd m (\<lambda>d. d\<lparr>mbd_used := 0\<rparr>) s)
             else Some (True, s));
          if \<not> removed then Some (0, s)
          else (case append_used u s of
                  (False, s) \<Rightarrow> Some (0, s)
                | (True, s) \<Rightarrow> Some (address, s\<lparr>mem_used := mem_used s + ucast len\<rparr>)) })"

text \<open>The search walks the free list from its foot along \<open>prev\<close>.\<close>

partial_function (option) alloc_search ::
  "u32 \<Rightarrow> u32 \<Rightarrow> mbd_ptr option \<Rightarrow> mem_state \<Rightarrow> (u32 \<times> mem_state) option" where
  "alloc_search m_start len m s =
     (case m of
        None \<Rightarrow> Some (0, s)
      | Some p \<Rightarrow>
          if mbd_start (descs s p) < m_start \<and>
             m_start + len < mbd_start (descs s p) + mbd_length (descs s p)
          then alloc_from_end len p s
          else if m_start \<le> mbd_start (descs s p) \<and> len \<le> mbd_length (descs s p)
          then alloc_from_start len p s
          else alloc_search m_start len (mbd_prev (descs s p)) s)"

definition MemAllocWithStart_u :: "u32 \<Rightarrow> u32 \<Rightarrow> mem_state \<Rightarrow> (u32 \<times> mem_state) option" where
  "MemAllocWithStart_u m_start len s = alloc_search m_start (MemAlign4KB len) (mbdt_foot s) s"

definition MemAllocWithStart ::
  "u32 \<Rightarrow> u32 \<Rightarrow> lock_state \<times> mem_state \<Rightarrow> (u32 \<times> lock_state \<times> mem_state) option" where
  "MemAllocWithStart m_start len ks =
     locked (mem_lock_state (snd ks)) (MemAllocWithStart_u m_start len) ks"

definition MemAlloc_u :: "u32 \<Rightarrow> mem_state \<Rightarrow> (u32 \<times> mem_state) option" where
  "MemAlloc_u len = MemAllocWithStart_u ALLOC_START_ADDRESS len"

definition MemAlloc_logged :: "u32 \<Rightarrow> mem_state \<Rightarrow> (u32 \<times> mem_state) option" where
  "MemAlloc_logged len s = do {
     (r, s) \<leftarrow> MemAlloc_u len s;
     Some (r, if r = 0 then s\<lparr>mem_log := mem_log s @ [CannotAllocate len]\<rparr> else s) }"

definition MemAlloc :: "u32 \<Rightarrow> lock_state \<times> mem_state \<Rightarrow> (u32 \<times> lock_state \<times> mem_state) option" where
  "MemAlloc len ks = locked (mem_lock_state (snd ks)) (MemAlloc_logged len) ks"

text \<open>
  \<open>_MemFree\<close>: the block is unlinked from the used list and merged with the first free block
  it touches, at either side, or appended to the free list.
\<close>

partial_function (option) free_merge ::
  "mbd_ptr \<Rightarrow> mbd_ptr option \<Rightarrow> mem_state \<Rightarrow> (bool \<times> mem_state) option" where
  "free_merge n m s =
     (case m of
        None \<Rightarrow> Some (append_free n s)
      | Some p \<Rightarrow>
          if mbd_start (descs s n) + mbd_length (descs s n) = mbd_start (descs s p)
          then Some (True,
                 upd_mbd n (\<lambda>d. d\<lparr>mbd_used := 0\<rparr>)
                  (upd_mbd p (\<lambda>d. d\<lparr>mbd_length := mbd_length d + mbd_length (descs s n)\<rparr>)
                   (upd_mbd p (\<lambda>d. d\<lparr>mbd_start := mbd_start (descs s n)\<rparr>) s)))
          else if mbd_start (descs s p) + mbd_length (descs s p) = mbd_start (descs s n)
          then Some (True,
                 upd_mbd n (\<lambda>d. d\<lparr>mbd_used := 0\<rparr>)
                  (upd_mbd p (\<lambda>d. d\<lparr>mbd_length := mbd_length d + mbd_length (descs s n)\<rparr>) s))
          else free_merge n (mbd_next (descs s p)) s)"

definition free_block :: "mbd_ptr \<Rightarrow> mem_state \<Rightarrow> (bool \<times> mem_state) option" where
  "free_block u s =
     (case MemGetUnusedMBD Mbd MBD_COUNT (descs s) of
        None \<Rightarrow> Some (False, s)
      | Some n \<Rightarrow> do {
          let s = upd_mbd n (\<lambda>_. descs s u) s;
          let s = upd_mbd u (\<lambda>d. d\<lparr>mbd_used := 0\<rparr>) s;
          (removed, s) \<leftarrow> remove_used u s;
          if \<not> removed then Some (False, s)
          else do {
            (ok, s) \<leftarrow>
              (case (mbdt_head s, mbdt_foot s) of
                 (None, None) \<Rightarrow> Some (True, s\<lparr>mbdt_head := Some n, mbdt_foot := Some n\<rparr>)
               | (Some h, Some _) \<Rightarrow> free_merge n (Some h) s
               | _ \<Rightarrow> Some (False, s));
            if \<not> ok then Some (False, s)
            else Some (True, s\<lparr>mem_used := mem_used s - ucast (mbd_length (descs s u))\<rparr>) } })"

partial_function (option) free_search :: "u32 \<Rightarrow> mbd_ptr option \<Rightarrow> mem_state \<Rightarrow> (bool \<times> mem_state) option" where
  "free_search ptr u s =
     (case u of
        None \<Rightarrow> Some (False, s)
      | Some p \<Rightarrow>
          if mbd_start (descs s p) = ptr then free_block p s
          else free_search ptr (mbd_next (descs s p)) s)"

definition MemFree_u :: "u32 \<Rightarrow> mem_state \<Rightarrow> (bool \<times> mem_state) option" where
  "MemFree_u ptr s = free_search ptr (umbdt_head s) s"

definition MemFree_logged :: "u32 \<Rightarrow> mem_state \<Rightarrow> (bool \<times> mem_state) option" where
  "MemFree_logged ptr s = do {
     (r, s) \<leftarrow> MemFree_u ptr s;
     Some (r, if \<not> r then s\<lparr>mem_log := mem_log s @ [CannotRelease ptr]\<rparr> else s) }"

definition MemFree :: "u32 \<Rightarrow> lock_state \<times> mem_state \<Rightarrow> (bool \<times> lock_state \<times> mem_state) option" where
  "MemFree ptr ks = locked (mem_lock_state (snd ks)) (MemFree_logged ptr) ks"

partial_function (option) block_size_search :: "u32 \<Rightarrow> mbd_ptr option \<Rightarrow> mem_state \<Rightarrow> u32 option" where
  "block_size_search ptr u s =
     (case u of
        None \<Rightarrow> Some 0
      | Some p \<Rightarrow>
          if mbd_start (descs s p) = ptr then Some (mbd_length (descs s p))
          else block_size_search ptr (mbd_next (descs s p)) s)"

definition MemGetBlockSise_u :: "u32 \<Rightarrow> mem_state \<Rightarrow> (u32 \<times> mem_state) option" where
  "MemGetBlockSise_u ptr s = map_option (\<lambda>r. (r, s)) (block_size_search ptr (umbdt_head s) s)"

definition MemGetBlockSise :: "u32 \<Rightarrow> lock_state \<times> mem_state \<Rightarrow> (u32 \<times> lock_state \<times> mem_state) option" where
  "MemGetBlockSise ptr ks = locked (mem_lock_state (snd ks)) (MemGetBlockSise_u ptr) ks"

section \<open>The two lists\<close>

definition payload :: "mbd \<Rightarrow> u8 \<times> u32 \<times> u32" where
  "payload d = (mbd_used d, mbd_start d, mbd_length d)"

definition mbd_list :: "descs \<Rightarrow> mbd_ptr option \<Rightarrow> mbd_ptr option \<Rightarrow> mbd_ptr list \<Rightarrow> bool" where
  "mbd_list ds h f ps \<longleftrightarrow> dlist (mbd_next \<circ> ds) (mbd_prev \<circ> ds) h f ps"

lemma mbd_list_frame:
  "(\<And>q. q \<in> set ps \<Longrightarrow> ds' q = ds q) \<Longrightarrow> mbd_list ds' h f ps = mbd_list ds h f ps"
  unfolding mbd_list_def by (rule dlist_cong) simp

lemma MemAppendMBD_spec:
  assumes "mbd_list ds h f ps" "m \<notin> set ps"
  obtains h' f' ds' where "MemAppendMBD h f m ds = (True, h', f', ds')" "mbd_list ds' h' f' (ps @ [m])"
    "\<And>q. payload (ds' q) = payload (ds q)" "\<And>q. q \<notin> set (ps @ [m]) \<Longrightarrow> ds' q = ds q"
proof (cases f)
  case None
  then have [simp]: "ps = []" "h = None"
    using assms(1) by (auto simp: mbd_list_def dlist_def)
  show thesis
    by (rule that [of "Some m" "Some m" "ds(m := (ds m)\<lparr>mbd_prev := None, mbd_next := None\<rparr>)"])
      (auto simp: MemAppendMBD_def None mbd_list_def payload_def dlist_def)
next
  case (Some l)
  then have "ps \<noteq> []" and l: "l \<in> set ps" "l \<noteq> m"
    using assms by (auto simp: mbd_list_def dlist_def opt_last_def split: if_splits)
  then obtain a where h: "h = Some a"
    using assms(1) by (cases ps) (auto simp: mbd_list_def dlist_def)
  let ?ds = "ds(l := (ds l)\<lparr>mbd_next := Some m\<rparr>, m := (ds m)\<lparr>mbd_prev := Some l, mbd_next := None\<rparr>)"
  have "mbd_list ?ds h (Some m) (ps @ [m])"
    using dlist_append [OF assms(1) [unfolded mbd_list_def] Some assms(2)] l
    by (simp add: mbd_list_def fun_upd_twist)
  then show thesis
    using l by (intro that [of h "Some m" ?ds])
      (auto simp: MemAppendMBD_def Some h Let_def payload_def)
qed

lemma MemRemoveMBD_spec:
  assumes "mbd_list ds h f (xs @ m # ys)"
  obtains h' f' ds' where "MemRemoveMBD h f m ds = Some (True, h', f', ds')" "mbd_list ds' h' f' (xs @ ys)"
    "\<And>q. payload (ds' q) = payload (ds q)" "\<And>q. q \<notin> set (xs @ ys) \<Longrightarrow> ds' q = ds q"
proof -
  note s = dlist_split [OF assms [unfolded mbd_list_def]]
  note u = dlist_unlink [OF assms [unfolded mbd_list_def]]
  have d: "distinct (xs @ m # ys)"
    using assms unfolding mbd_list_def by (rule dlist_distinct)
  consider "xs = []" "ys = []" | n ns where "xs = []" "ys = n # ns" | ps p where "xs = ps @ [p]" "ys = []"
    | ps p n ns where "xs = ps @ [p]" "ys = n # ns"
    by (metis list.exhaust rev_exhaust)
  then show thesis
  proof cases
    case 1
    then show thesis
      using s by (intro that [of None None ds]) (auto simp: MemRemoveMBD_def mbd_list_def)
  next
    case 2
    then have hf: "h = Some m" "f \<noteq> Some m" "mbd_next (ds m) = Some n" and ne: "n \<noteq> m"
      using s d by auto
    let ?ds = "ds(n := (ds n)\<lparr>mbd_prev := None\<rparr>)"
    have "opt_last ys = f"
      using 2 assms by (auto simp: mbd_list_def dlist_def)
    then have "mbd_list ?ds (Some n) f (xs @ ys)"
      using u 2 by (simp add: mbd_list_def unlink_next_def unlink_prev_def)
    then show thesis
      using 2 hf ne by (intro that [of "Some n" f ?ds]) (auto simp: MemRemoveMBD_def payload_def)
  next
    case 3
    then have hf: "h \<noteq> Some m" "f = Some m" "mbd_prev (ds m) = Some p" and ne: "p \<noteq> m"
      using s d by auto
    let ?ds = "ds(p := (ds p)\<lparr>mbd_next := None\<rparr>)"
    have "opt_hd xs = h"
      using 3 assms by (auto simp: mbd_list_def dlist_def)
    then have "mbd_list ?ds h (Some p) (xs @ ys)"
      using u 3 by (simp add: mbd_list_def unlink_next_def unlink_prev_def)
    then show thesis
      using 3 hf ne by (intro that [of h "Some p" ?ds]) (auto simp: MemRemoveMBD_def payload_def)
  next
    case 4
    then have hf: "h \<noteq> Some m" "f \<noteq> Some m" "mbd_prev (ds m) = Some p" "mbd_next (ds m) = Some n"
      and ne: "p \<noteq> n" "p \<noteq> m" "n \<noteq> m"
      using s d by auto
    let ?ds = "ds(p := (ds p)\<lparr>mbd_next := Some n\<rparr>, n := (ds n)\<lparr>mbd_prev := Some p\<rparr>)"
    have "MemRemoveMBD h f m ds = Some (True, h, f, ?ds)"
      using hf ne by (auto simp: MemRemoveMBD_def)
    moreover have "opt_hd (xs @ ys) = h" "opt_last (xs @ ys) = f"
      using 4 assms by (auto simp: mbd_list_def dlist_def)
    then have "mbd_list ?ds h f (xs @ ys)"
      using u 4 ne by (simp add: mbd_list_def unlink_next_def unlink_prev_def)
    ultimately show thesis
      using 4 by (intro that [of h f ?ds]) (auto simp: payload_def)
  qed
qed

end
