(* ===== verification/Memory_Blocks.thy ===== *)
theory Memory_Blocks
  imports Memory
begin

text \<open>
  The allocator seen as two lists of blocks (start, length): what taking a block from the free
  list, giving one back and merging two do to the layout of memory, and the abstraction from
  \<^verbatim>\<open>memory.c\<close>'s descriptor lists to them.
\<close>

section \<open>Layouts\<close>

type_synonym block = "nat \<times> nat"

definition disj :: "block \<Rightarrow> block \<Rightarrow> bool" where
  "disj p q \<longleftrightarrow> fst p + snd p \<le> fst q \<or> fst q + snd q \<le> fst p"

definition mem_base :: nat where "mem_base = 0x1000000"

definition block_ok :: "nat \<Rightarrow> block \<Rightarrow> bool" where
  "block_ok hi b \<longleftrightarrow>
     0 < snd b \<and> mem_base \<le> fst b \<and> fst b + snd b \<le> hi \<and> 4096 dvd fst b \<and> 4096 dvd snd b"

text \<open>Well-formed blocks, pairwise disjoint, that fill \<open>[mem_base, hi)\<close>.\<close>

definition layout :: "nat \<Rightarrow> block list \<Rightarrow> bool" where
  "layout hi bs \<longleftrightarrow>
     list_all (block_ok hi) bs \<and> sorted_wrt disj bs \<and> mem_base + sum_list (map snd bs) = hi"

lemma disj_sym: "disj p q \<longleftrightarrow> disj q p"
  by (auto simp: disj_def)

lemma disj_sub: "disj (a, l) q \<Longrightarrow> a \<le> a' \<Longrightarrow> a' + l' \<le> a + l \<Longrightarrow> disj (a', l') q"
  by (auto simp: disj_def)

lemma disj_join: "disj (a, l) q \<Longrightarrow> disj (a + l, m) q \<Longrightarrow> 0 < snd q \<Longrightarrow> disj (a, l + m) q"
  by (auto simp: disj_def)

lemma all_disj_sym: "(\<forall>x \<in> A. \<forall>y \<in> B. disj x y) \<longleftrightarrow> (\<forall>y \<in> B. \<forall>x \<in> A. disj y x)"
  using disj_sym by blast

lemma sorted_wrt_disj_mid:
  "sorted_wrt disj (xs @ ys) \<longleftrightarrow>
     sorted_wrt disj xs \<and> sorted_wrt disj ys \<and> (\<forall>y \<in> set ys. \<forall>x \<in> set xs. disj y x)"
  unfolding sorted_wrt_append using all_disj_sym by blast

lemma layout_swap: "layout hi (xs @ ys @ zs @ ws) \<longleftrightarrow> layout hi (xs @ zs @ ys @ ws)"
proof -
  have "sorted_wrt disj (xs @ ys @ zs @ ws) \<longleftrightarrow> sorted_wrt disj (xs @ zs @ ys @ ws)"
    unfolding sorted_wrt_append set_append
    using all_disj_sym [of "set ys" "set zs"] by blast
  then show ?thesis
    by (auto simp: layout_def)
qed

text \<open>Splitting a block in two, at both of its ends, and joining two neighbours.\<close>

lemma block_ok_split:
  "block_ok hi (a, l) \<Longrightarrow> 0 < k \<Longrightarrow> k < l \<Longrightarrow> 4096 dvd k \<Longrightarrow>
     block_ok hi (a, k) \<and> block_ok hi (a + k, l - k)"
  by (auto simp: block_ok_def intro: dvd_diff_nat)

lemma layout_split:
  assumes L: "layout hi (xs @ (a, l) # ys)" and k: "0 < k" "k < l" "4096 dvd k"
  shows "layout hi (xs @ (a, k) # (a + k, l - k) # ys)"
proof -
  have "block_ok hi (a, k) \<and> block_ok hi (a + k, l - k)"
    using L k by (intro block_ok_split) (auto simp: layout_def)
  moreover have old: "disj (a, l) q" if "q \<in> set xs \<union> set ys" for q
    using L that by (auto simp: layout_def sorted_wrt_append disj_sym)
  moreover have "disj (a, k) q \<and> disj (a + k, l - k) q" if "q \<in> set xs \<union> set ys" for q
    using k disj_sub [OF old [OF that], of a k] disj_sub [OF old [OF that], of "a + k" "l - k"] by simp
  moreover have "disj (a, k) (a + k, l - k)"
    by (simp add: disj_def)
  ultimately have "sorted_wrt disj (xs @ (a, k) # (a + k, l - k) # ys)"
    using L unfolding layout_def sorted_wrt_disj_mid by auto
  with \<open>block_ok hi (a, k) \<and> _\<close> L k show ?thesis
    by (auto simp: layout_def)
qed

lemma layout_join:
  assumes L: "layout hi (xs @ (a, l) # (a + l, m) # ys)"
  shows "layout hi (xs @ (a, l + m) # ys)"
proof -
  have "block_ok hi (a, l + m)"
    using L by (auto simp: layout_def block_ok_def)
  moreover have "disj (a, l + m) q" if "q \<in> set xs \<union> set ys" for q
  proof (rule disj_join)
    show "disj (a, l) q" "disj (a + l, m) q"
      using L that by (auto simp: layout_def sorted_wrt_append disj_sym)
    show "0 < snd q"
      using L that by (auto simp: layout_def block_ok_def list_all_iff)
  qed
  ultimately have "sorted_wrt disj (xs @ (a, l + m) # ys)"
    using L unfolding layout_def sorted_wrt_disj_mid by auto
  with \<open>block_ok hi (a, l + m)\<close> L show ?thesis
    by (auto simp: layout_def)
qed

lemma layout_move: "layout hi (xs @ b # ys @ zs) \<longleftrightarrow> layout hi (xs @ ys @ b # zs)"
  using layout_swap [of hi xs "[b]" ys zs] by simp

text \<open>The three moves of a block between the free list \<open>fs\<close> and the used list \<open>us\<close>.\<close>

lemma layout_take_start:
  assumes "layout hi ((xs @ (a, l) # ys) @ us)" "0 < k" "k < l" "4096 dvd k"
  shows "layout hi ((xs @ (a + k, l - k) # ys) @ us @ [(a, k)])"
proof -
  have "layout hi (xs @ (a, k) # ((a + k, l - k) # ys @ us) @ [])"
    using layout_split [of hi xs a l "ys @ us" k] assms by simp
  then show ?thesis
    unfolding layout_move by simp
qed

lemma layout_take_all:
  assumes "layout hi ((xs @ b # ys) @ us)"
  shows "layout hi ((xs @ ys) @ us @ [b])"
  using assms layout_move [of hi xs b "ys @ us" "[]"] by simp

lemma layout_take_end:
  assumes "layout hi ((xs @ (a, l) # ys) @ us)" "0 < k" "k < l" "4096 dvd k"
  shows "layout hi ((xs @ (a, l - k) # ys) @ us @ [(a + (l - k), k)])"
proof -
  have "4096 dvd l"
    using assms(1) by (auto simp: layout_def block_ok_def)
  then have "layout hi (xs @ (a, l - k) # (a + (l - k), k) # ys @ us)"
    using layout_split [of hi xs a l "ys @ us" "l - k"] assms by (simp add: dvd_diff_nat)
  then have "layout hi ((xs @ [(a, l - k)]) @ (a + (l - k), k) # (ys @ us) @ [])"
    by simp
  then show ?thesis
    unfolding layout_move by simp
qed

lemma layout_give:
  assumes "layout hi (fs @ us @ b # vs)"
  shows "layout hi ((fs @ [b]) @ us @ vs)"
  using assms layout_move [of hi fs b us vs] by simp

lemma layout_give_before:
  assumes "layout hi ((xs @ (a + l, m) # ys) @ us @ (a, l) # vs)"
  shows "layout hi ((xs @ (a, l + m) # ys) @ us @ vs)"
proof -
  have "layout hi (xs @ (a, l) # ((a + l, m) # ys @ us) @ vs)"
    using assms unfolding layout_move by simp
  then show ?thesis
    using layout_join [of hi xs a l m "ys @ us @ vs"] by simp
qed

lemma layout_give_after:
  assumes "layout hi ((xs @ (a, l) # ys) @ us @ (a + l, m) # vs)"
  shows "layout hi ((xs @ (a, l + m) # ys) @ us @ vs)"
proof -
  have "layout hi ((xs @ [(a, l)]) @ (a + l, m) # (ys @ us) @ vs)"
    using assms unfolding layout_move by simp
  then show ?thesis
    using layout_join [of hi xs a l m "ys @ us @ vs"] by simp
qed

text \<open>Two different blocks of a layout do not overlap.\<close>

lemma layout_disj: "layout hi (xs @ b # ys) \<Longrightarrow> c \<in> set (xs @ ys) \<Longrightarrow> disj b c"
  by (auto simp: layout_def sorted_wrt_append disj_sym)

lemma layout_block_ok: "layout hi bs \<Longrightarrow> b \<in> set bs \<Longrightarrow> block_ok hi b"
  by (auto simp: layout_def list_all_iff)

lemma disj_starts: "sorted_wrt disj bs \<Longrightarrow> list_all (\<lambda>b. 0 < snd b) bs \<Longrightarrow> distinct (map fst bs)"
  by (induction bs) (fastforce simp: disj_def list_all_iff)+

lemma layout_distinct: "layout hi bs \<Longrightarrow> distinct (map fst bs)"
  by (rule disj_starts) (auto simp: layout_def block_ok_def list_all_iff)

end
