(* ===== verification/Memory_Proofs.thy ===== *)
theory Memory_Proofs
  imports Memory_Blocks
begin

text \<open>
  The allocator of \<^verbatim>\<open>memory.c\<close> refines the layout of two block lists: which block each
  search finds, what \<open>_MemAllocWithStart\<close> and \<open>_MemFree\<close> do to the lists, and that the
  layout invariant is kept.
\<close>

section \<open>Abstraction\<close>

definition ext :: "mem_state \<Rightarrow> mbd_ptr \<Rightarrow> block" where
  "ext s p = (unat (mbd_start (descs s p)), unat (mbd_length (descs s p)))"

lemma ext_pair: "ext s p = (unat (mbd_start (descs s p)), unat (mbd_length (descs s p)))"
  by (simp add: ext_def)

definition slots :: "(nat \<Rightarrow> mbd_ptr) \<Rightarrow> nat \<Rightarrow> descs \<Rightarrow> mbd_ptr set" where
  "slots tbl n ds = {tbl i | i. i < n \<and> mbd_used (ds (tbl i)) \<noteq> 0}"

definition free_list :: "mem_state \<Rightarrow> mbd_ptr list \<Rightarrow> bool" where
  "free_list s F \<longleftrightarrow>
     mbd_list (descs s) (mbdt_head s) (mbdt_foot s) F \<and> set F = slots Mbd MBD_COUNT (descs s)"

definition used_list :: "mem_state \<Rightarrow> mbd_ptr list \<Rightarrow> bool" where
  "used_list s U \<longleftrightarrow>
     mbd_list (descs s) (umbdt_head s) (umbdt_foot s) U \<and> set U = slots Umbd UMBD_COUNT (descs s)"

definition mem_inv :: "nat \<Rightarrow> mem_state \<Rightarrow> mbd_ptr list \<Rightarrow> mbd_ptr list \<Rightarrow> bool" where
  "mem_inv hi s F U \<longleftrightarrow>
     free_list s F \<and> used_list s U \<and> hi \<le> 2 ^ 32 \<and> layout hi (map (ext s) F @ map (ext s) U) \<and>
     unat (mem_used s) = mem_base + sum_list (map (snd \<circ> ext s) U)"

lemma counts [simp]: "UMBD_COUNT = MBD_COUNT"
  by (simp add: UMBD_COUNT_def MBD_COUNT_def MBDT_LENGTH_def)

lemma slots_Mbd: "slots Mbd n ds \<subseteq> range Mbd" and slots_Umbd: "slots Umbd n ds \<subseteq> range Umbd"
  by (auto simp: slots_def)

lemma slots_disjoint [simp]: "slots Mbd n ds \<inter> slots Umbd m es = {}"
  by (auto simp: slots_def)

lemma lists_disjoint: "free_list s F \<Longrightarrow> used_list s U \<Longrightarrow> set F \<inter> set U = {}"
  by (simp add: free_list_def used_list_def)

lemma free_list_Mbd: "free_list s F \<Longrightarrow> p \<in> set F \<Longrightarrow> p \<in> range Mbd"
  and used_list_Umbd: "used_list s U \<Longrightarrow> q \<in> set U \<Longrightarrow> q \<in> range Umbd"
  by (auto simp: free_list_def used_list_def slots_def)

lemma MemGetUnusedMBD_SomeD:
  "MemGetUnusedMBD tbl n ds = Some p \<Longrightarrow> inj tbl \<Longrightarrow>
     p \<notin> slots tbl n ds \<and> (\<exists>i < n. p = tbl i) \<and> mbd_used (ds p) = 0"
  by (auto simp: MemGetUnusedMBD_def slots_def dest!: first_index_SomeD)

lemma inj_tables [simp]: "inj Mbd" "inj Umbd"
  by (auto simp: inj_def)

section \<open>The searches\<close>

definition fits :: "mem_state \<Rightarrow> u32 \<Rightarrow> u32 \<Rightarrow> mbd_ptr \<Rightarrow> bool" where
  "fits s m_start len p \<longleftrightarrow>
     mbd_start (descs s p) < m_start \<and> m_start + len < mbd_start (descs s p) + mbd_length (descs s p) \<or>
     m_start \<le> mbd_start (descs s p) \<and> len \<le> mbd_length (descs s p)"

definition take_from :: "u32 \<Rightarrow> u32 \<Rightarrow> mbd_ptr \<Rightarrow> mem_state \<Rightarrow> (u32 \<times> mem_state) option" where
  "take_from m_start len p s =
     (if mbd_start (descs s p) < m_start then alloc_from_end len p s else alloc_from_start len p s)"

text \<open>
  Along a well-formed list each search returns, with the answer of a search of the list.
\<close>

lemma mbd_list_prev:
  "mbd_list ds h f (xs @ p # ys) \<Longrightarrow> mbd_prev (ds p) = opt_last xs"
  "mbd_list ds h f (xs @ p # ys) \<Longrightarrow> mbd_next (ds p) = opt_hd ys"
  by (auto simp: mbd_list_def dest: dlist_split)

lemma alloc_search_find:
  "mbd_list (descs s) h f (xs @ ys) \<Longrightarrow>
     alloc_search m_start len (opt_last xs) s =
       (case find (fits s m_start len) (rev xs) of
          None \<Rightarrow> Some (0, s) | Some p \<Rightarrow> take_from m_start len p s)"
proof (induction xs arbitrary: ys rule: rev_induct)
  case Nil
  then show ?case by (simp add: alloc_search.simps)
next
  case (snoc p xs)
  then have "mbd_prev (descs s p) = opt_last xs"
    by (simp add: mbd_list_prev)
  with snoc show ?case
    using snoc.IH [of "p # ys"]
    by (subst alloc_search.simps) (auto simp: fits_def [of s m_start len p] take_from_def)
qed

lemma free_search_find:
  "mbd_list (descs s) h f (xs @ ys) \<Longrightarrow>
     free_search ptr (opt_hd ys) s =
       (case find (\<lambda>p. mbd_start (descs s p) = ptr) ys of
          None \<Rightarrow> Some (False, s) | Some p \<Rightarrow> free_block p s)"
proof (induction ys arbitrary: xs)
  case Nil
  then show ?case by (simp add: free_search.simps)
next
  case (Cons p ys)
  then have "mbd_next (descs s p) = opt_hd ys"
    by (simp add: mbd_list_prev)
  moreover have "mbd_list (descs s) h f ((xs @ [p]) @ ys)"
    using Cons.prems by simp
  ultimately show ?case
    using Cons.IH [of "xs @ [p]"] by (subst free_search.simps) auto
qed

lemma block_size_find:
  "mbd_list (descs s) h f (xs @ ys) \<Longrightarrow>
     block_size_search ptr (opt_hd ys) s =
       (case find (\<lambda>p. mbd_start (descs s p) = ptr) ys of
          None \<Rightarrow> Some 0 | Some p \<Rightarrow> Some (mbd_length (descs s p)))"
proof (induction ys arbitrary: xs)
  case Nil
  then show ?case by (simp add: block_size_search.simps)
next
  case (Cons p ys)
  then have "mbd_next (descs s p) = opt_hd ys"
    by (simp add: mbd_list_prev)
  moreover have "mbd_list (descs s) h f ((xs @ [p]) @ ys)"
    using Cons.prems by simp
  ultimately show ?case
    using Cons.IH [of "xs @ [p]"] by (subst block_size_search.simps) auto
qed

definition touches :: "mem_state \<Rightarrow> mbd_ptr \<Rightarrow> mbd_ptr \<Rightarrow> bool" where
  "touches s n p \<longleftrightarrow>
     mbd_start (descs s n) + mbd_length (descs s n) = mbd_start (descs s p) \<or>
     mbd_start (descs s p) + mbd_length (descs s p) = mbd_start (descs s n)"

definition merge_into :: "mbd_ptr \<Rightarrow> mbd_ptr \<Rightarrow> mem_state \<Rightarrow> mem_state" where
  "merge_into n p s =
     upd_mbd n (\<lambda>d. d\<lparr>mbd_used := 0\<rparr>)
      (upd_mbd p (\<lambda>d. d\<lparr>mbd_length := mbd_length d + mbd_length (descs s n)\<rparr>)
       (if mbd_start (descs s n) + mbd_length (descs s n) = mbd_start (descs s p)
        then upd_mbd p (\<lambda>d. d\<lparr>mbd_start := mbd_start (descs s n)\<rparr>) s else s))"

lemma free_merge_find:
  "mbd_list (descs s) h f (xs @ ys) \<Longrightarrow>
     free_merge n (opt_hd ys) s =
       (case find (touches s n) ys of
          None \<Rightarrow> Some (append_free n s) | Some p \<Rightarrow> Some (True, merge_into n p s))"
proof (induction ys arbitrary: xs)
  case Nil
  then show ?case by (simp add: free_merge.simps)
next
  case (Cons p ys)
  then have "mbd_next (descs s p) = opt_hd ys"
    by (simp add: mbd_list_prev)
  moreover have "mbd_list (descs s) h f ((xs @ [p]) @ ys)"
    using Cons.prems by simp
  ultimately show ?case
    using Cons.IH [of "xs @ [p]"]
    by (subst free_merge.simps) (auto simp: touches_def [of s n p] merge_into_def)
qed

section \<open>Allocation\<close>

lemma payload_fields:
  "payload d' = payload d \<Longrightarrow> mbd_used d' = mbd_used d \<and> mbd_start d' = mbd_start d \<and> mbd_length d' = mbd_length d"
  by (simp add: payload_def)

lemma slots_payload: "(\<And>q. payload (ds' q) = payload (ds q)) \<Longrightarrow> slots tbl n ds' = slots tbl n ds"
  by (simp add: slots_def payload_def)

lemma mbd_list_links:
  "(\<And>q. q \<in> set ps \<Longrightarrow> mbd_next (ds' q) = mbd_next (ds q) \<and> mbd_prev (ds' q) = mbd_prev (ds q)) \<Longrightarrow>
     mbd_list ds' h f ps = mbd_list ds h f ps"
  unfolding mbd_list_def by (rule dlist_cong) simp

lemma append_used_spec:
  assumes "mbd_list (descs s) (umbdt_head s) (umbdt_foot s) U" "u \<notin> set U"
  obtains h f ds where "append_used u s = (True, s\<lparr>umbdt_head := h, umbdt_foot := f, descs := ds\<rparr>)"
    "mbd_list ds h f (U @ [u])" "\<And>q. payload (ds q) = payload (descs s q)"
    "\<And>q. q \<notin> set (U @ [u]) \<Longrightarrow> ds q = descs s q"
proof -
  obtain h f ds where "MemAppendMBD (umbdt_head s) (umbdt_foot s) u (descs s) = (True, h, f, ds)"
    "mbd_list ds h f (U @ [u])" "\<And>q. payload (ds q) = payload (descs s q)"
    "\<And>q. q \<notin> set (U @ [u]) \<Longrightarrow> ds q = descs s q"
    using MemAppendMBD_spec [OF assms] by metis
  then show thesis
    by (intro that [of ds f h]) (simp_all add: append_used_def)
qed

text \<open>
  The common end of both ways to allocate: the new descriptor \<open>u\<close> joins the used list and
  the byte count grows.
\<close>

lemma alloc_finish:
  assumes F: "free_list s F"
    and U: "mbd_list (descs s) (umbdt_head s) (umbdt_foot s) U" "u \<notin> set U"
    and US: "set (U @ [u]) = slots Umbd MBD_COUNT (descs s)"
    and L: "layout hi (map (ext s) F @ map (ext s) U @ [ext s u])" and hi: "hi \<le> 2 ^ 32"
    and used: "unat (mem_used s) = mem_base + sum_list (map (snd \<circ> ext s) U)"
    and len: "mbd_length (descs s u) = len"
  shows "\<exists>s'. append_used u s = (True, s') \<and>
     mem_inv hi (s'\<lparr>mem_used := mem_used s' + ucast len\<rparr>) F (U @ [u]) \<and>
     ext (s'\<lparr>mem_used := mem_used s' + ucast len\<rparr>) = ext s"
proof -
  obtain h f ds where app: "append_used u s = (True, s\<lparr>umbdt_head := h, umbdt_foot := f, descs := ds\<rparr>)"
    and l: "mbd_list ds h f (U @ [u])" and pl: "\<And>q. payload (ds q) = payload (descs s q)"
    and fr: "\<And>q. q \<notin> set (U @ [u]) \<Longrightarrow> ds q = descs s q"
    using append_used_spec [OF U] by metis
  let ?s = "s\<lparr>umbdt_head := h, umbdt_foot := f, descs := ds\<rparr>"
  let ?s' = "?s\<lparr>mem_used := mem_used ?s + ucast len\<rparr>"
  have e: "ext ?s' = ext s"
    by (rule ext) (use payload_fields [OF pl] in \<open>simp add: ext_def\<close>)
  have sl: "slots tbl n ds = slots tbl n (descs s)" for tbl n
    using pl by (rule slots_payload)
  have "set F \<inter> set (U @ [u]) = {}"
    using F unfolding free_list_def US by (simp add: slots_disjoint)
  then have "ds q = descs s q" if "q \<in> set F" for q
    using fr that by blast
  then have "mbd_list ds (mbdt_head s) (mbdt_foot s) F"
    using F mbd_list_frame [of F ds "descs s"] by (auto simp: free_list_def)
  then have FL: "free_list ?s' F"
    using F by (simp add: free_list_def sl)
  have UL: "used_list ?s' (U @ [u])"
    using l US by (simp add: used_list_def sl)
  have "unat (mem_used s) + unat len \<le> hi"
    using L used len by (auto simp: layout_def ext_def comp_def)
  then have "unat (mem_used s + ucast len) = unat (mem_used s) + unat len"
    using hi by (subst unat_plus_if_lt) auto
  then have "mem_inv hi ?s' F (U @ [u])"
    using FL UL L hi used len e by (simp add: mem_inv_def) (simp add: ext_def)
  with app e show ?thesis by auto
qed

lemma remove_free_spec:
  assumes "mbd_list (descs s) (mbdt_head s) (mbdt_foot s) (xs @ p # ys)"
  obtains h f ds where "remove_free p s = Some (True, s\<lparr>mbdt_head := h, mbdt_foot := f, descs := ds\<rparr>)"
    "mbd_list ds h f (xs @ ys)" "\<And>q. payload (ds q) = payload (descs s q)"
    "\<And>q. q \<notin> set (xs @ ys) \<Longrightarrow> ds q = descs s q"
proof -
  obtain h f ds where "MemRemoveMBD (mbdt_head s) (mbdt_foot s) p (descs s) = Some (True, h, f, ds)"
    "mbd_list ds h f (xs @ ys)" "\<And>q. payload (ds q) = payload (descs s q)"
    "\<And>q. q \<notin> set (xs @ ys) \<Longrightarrow> ds q = descs s q"
    using MemRemoveMBD_spec [OF assms] by metis
  then show thesis
    by (intro that [of ds f h]) (simp_all add: remove_free_def)
qed

lemma slots_insert:
  assumes "u = tbl j" "j < n" "inj tbl" "mbd_used (ds' u) \<noteq> 0"
    "\<And>q. q \<noteq> u \<Longrightarrow> mbd_used (ds' q) = mbd_used (ds q)"
  shows "slots tbl n ds' = insert u (slots tbl n ds)"
proof (rule set_eqI)
  fix q
  show "q \<in> slots tbl n ds' \<longleftrightarrow> q \<in> insert u (slots tbl n ds)"
    using assms by (cases "q = u") (auto simp: slots_def)
qed

lemma slots_remove:
  assumes "mbd_used (ds' u) = 0" "\<And>q. q \<noteq> u \<Longrightarrow> mbd_used (ds' q) = mbd_used (ds q)"
  shows "slots tbl n ds' = slots tbl n ds - {u}"
proof (rule set_eqI)
  fix q
  show "q \<in> slots tbl n ds' \<longleftrightarrow> q \<in> slots tbl n ds - {u}"
    using assms by (cases "q = u") (auto simp: slots_def)
qed

lemma slots_same:
  "(\<And>i. i < n \<Longrightarrow> mbd_used (ds' (tbl i)) = mbd_used (ds (tbl i))) \<Longrightarrow> slots tbl n ds' = slots tbl n ds"
  by (auto simp: slots_def)

lemma mem_inv_block:
  assumes "mem_inv hi s F U" "p \<in> set F \<union> set U"
  shows "block_ok hi (ext s p)" "unat (mbd_start (descs s p)) + unat (mbd_length (descs s p)) \<le> 2 ^ 32"
proof -
  have "ext s p \<in> set (map (ext s) F @ map (ext s) U)"
    using assms(2) by auto
  then show b: "block_ok hi (ext s p)"
    using assms(1) layout_block_ok unfolding mem_inv_def by blast
  show "unat (mbd_start (descs s p)) + unat (mbd_length (descs s p)) \<le> 2 ^ 32"
    using b assms(1) by (auto simp: mem_inv_def ext_def block_ok_def)
qed

lemma map_ext_cong: "(\<And>q. q \<in> set ps \<Longrightarrow> ext s' q = ext s q) \<Longrightarrow> map (ext s') ps = map (ext s) ps"
  by simp

text \<open>What every allocation knows about the free block \<open>p\<close> and the unused slot \<open>u\<close>.\<close>

lemma alloc_setup:
  assumes inv: "mem_inv hi s (xs @ p # ys) U" and u: "MemGetUnusedMBD Umbd MBD_COUNT (descs s) = Some u"
  shows "\<exists>j < MBD_COUNT. u = Umbd j" "u \<noteq> p" "u \<notin> set xs" "u \<notin> set ys" "u \<notin> set U" "p \<notin> set U"
    "p \<notin> set xs" "p \<notin> set ys" "\<exists>i. p = Mbd i"
proof -
  have F: "free_list s (xs @ p # ys)" and U: "used_list s U"
    using inv by (simp_all add: mem_inv_def)
  have un: "u \<notin> slots Umbd MBD_COUNT (descs s)" and j: "\<exists>j < MBD_COUNT. u = Umbd j"
    using MemGetUnusedMBD_SomeD [OF u] by auto
  show "\<exists>j < MBD_COUNT. u = Umbd j" by (rule j)
  show "u \<noteq> p" "u \<notin> set xs" "u \<notin> set ys"
    using free_list_Mbd [OF F, of u] j by auto
  show "u \<notin> set U"
    using U un by (simp add: used_list_def)
  show "p \<notin> set U" "p \<notin> set xs" "p \<notin> set ys"
    using lists_disjoint [OF F U] F by (auto simp: free_list_def mbd_list_def dest: dlist_split)
  show "\<exists>i. p = Mbd i"
    using free_list_Mbd [OF F, of p] by auto
qed

text \<open>
  Splitting the free block \<open>p\<close>: \<open>p\<close> keeps one part, the new descriptor \<open>u\<close> gets the
  other and joins the used list.
\<close>

lemma alloc_split:
  assumes inv: "mem_inv hi s (xs @ p # ys) U" and u: "MemGetUnusedMBD Umbd MBD_COUNT (descs s) = Some u"
    and L': "layout hi ((map (ext s) xs @ (unat a', unat l') # map (ext s) ys) @ map (ext s) U @ [(unat b, unat len)])"
    and g: "g (descs s p) = (descs s p)\<lparr>mbd_start := a', mbd_length := l'\<rparr>"
    and st: "st = upd_mbd p g
      (upd_mbd u (\<lambda>d. d\<lparr>mbd_used := 1, mbd_start := b, mbd_length := len\<rparr>) s)"
  shows "\<exists>s'. append_used u st = (True, s') \<and>
     mem_inv hi (s'\<lparr>mem_used := mem_used s' + ucast len\<rparr>) (xs @ p # ys) (U @ [u]) \<and>
     ext (s'\<lparr>mem_used := mem_used s' + ucast len\<rparr>) = (ext s)(p := (unat a', unat l'), u := (unat b, unat len))"
proof -
  have F: "free_list s (xs @ p # ys)" and U: "used_list s U" and hi: "hi \<le> 2 ^ 32"
    and used: "unat (mem_used s) = mem_base + sum_list (map (snd \<circ> ext s) U)"
    using inv by (simp_all add: mem_inv_def)
  note a = alloc_setup [OF inv u]
  obtain j where j: "u = Umbd j" "j < MBD_COUNT"
    using a(1) by blast
  have e: "ext st = (ext s)(p := (unat a', unat l'), u := (unat b, unat len))"
    using a(2) by (auto simp: st g fun_eq_iff ext_def upd_mbd_def)
  have same: "mbd_next (descs st q) = mbd_next (descs s q) \<and> mbd_prev (descs st q) = mbd_prev (descs s q)" for q
    using a(2) by (auto simp: st g upd_mbd_def)
  have sF: "slots Mbd n (descs st) = slots Mbd n (descs s)" for n
    using j by (intro slots_same) (auto simp: st g upd_mbd_def)
  have sU: "slots Umbd MBD_COUNT (descs st) = insert u (slots Umbd MBD_COUNT (descs s))"
    using a(2) by (intro slots_insert [of u Umbd j]) (auto simp: st g j upd_mbd_def)
  have heads: "mbdt_head st = mbdt_head s" "mbdt_foot st = mbdt_foot s" "umbdt_head st = umbdt_head s"
      "umbdt_foot st = umbdt_foot s" "mem_used st = mem_used s"
    by (simp_all add: st upd_mbd_def)
  have "\<exists>s'. append_used u st = (True, s') \<and>
     mem_inv hi (s'\<lparr>mem_used := mem_used s' + ucast len\<rparr>) (xs @ p # ys) (U @ [u]) \<and>
     ext (s'\<lparr>mem_used := mem_used s' + ucast len\<rparr>) = ext st"
  proof (rule alloc_finish)
    show "free_list st (xs @ p # ys)"
      using F same unfolding free_list_def sF heads by (subst mbd_list_links) auto
    show "mbd_list (descs st) (umbdt_head st) (umbdt_foot st) U"
      using U same unfolding used_list_def heads by (subst mbd_list_links) auto
    show "set (U @ [u]) = slots Umbd MBD_COUNT (descs st)"
      using U by (simp add: sU used_list_def)
    have "map (ext st) (xs @ p # ys) @ map (ext st) U @ [ext st u] =
        (map (ext s) xs @ (unat a', unat l') # map (ext s) ys) @ map (ext s) U @ [(unat b, unat len)]"
      using a(2-8) unfolding e by (auto intro!: map_cong)
    then show "layout hi (map (ext st) (xs @ p # ys) @ map (ext st) U @ [ext st u])"
      using L' by (simp only:)
    have "map (snd \<circ> ext st) U = map (snd \<circ> ext s) U"
      using a(2-8) unfolding e by auto
    then show "unat (mem_used st) = mem_base + sum_list (map (snd \<circ> ext st) U)"
      using used by (simp only: heads)
    show "mbd_length (descs st u) = len"
      using a(2) by (simp add: st g upd_mbd_def)
  qed (use a hi in auto)
  then show ?thesis
    unfolding e .
qed

text \<open>Taking the first \<open>len\<close> bytes of the free block \<open>p\<close>, and taking the last \<open>len\<close> bytes.\<close>

lemma mem_inv_layout:
  "mem_inv hi s (xs @ p # ys) U \<Longrightarrow>
     layout hi ((map (ext s) xs @ (unat (mbd_start (descs s p)), unat (mbd_length (descs s p))) # map (ext s) ys)
       @ map (ext s) U)"
  by (simp add: mem_inv_def ext_pair [symmetric])

lemma alloc_from_start_part:
  assumes inv: "mem_inv hi s (xs @ p # ys) U" and u: "MemGetUnusedMBD Umbd MBD_COUNT (descs s) = Some u"
    and len: "0 < len" "len < mbd_length (descs s p)" "4096 dvd unat len"
  shows "\<exists>s'. alloc_from_start len p s = Some (mbd_start (descs s p), s') \<and>
     mem_inv hi s' (xs @ p # ys) (U @ [u]) \<and>
     ext s' = (ext s)(p := (unat (mbd_start (descs s p)) + unat len, unat (mbd_length (descs s p)) - unat len),
                      u := (unat (mbd_start (descs s p)), unat len))"
proof -
  let ?a = "mbd_start (descs s p)" and ?l = "mbd_length (descs s p)"
  have ll: "unat len < unat ?l" "0 < unat len"
    using len(1,2) by (simp_all add: word_less_nat_alt)
  have al: "unat ?a + unat ?l \<le> 2 ^ 32"
    using mem_inv_block [OF inv] by simp
  have arith: "unat (?l - len) = unat ?l - unat len" "unat (?a + len) = unat ?a + unat len" "?l - len \<noteq> 0"
    using ll al by (auto simp: unat_minus_le unat_plus_if_lt)
  have "layout hi ((map (ext s) xs @ (unat (?a + len), unat (?l - len)) # map (ext s) ys)
      @ map (ext s) U @ [(unat ?a, unat len)])"
    unfolding arith using mem_inv_layout [OF inv] ll len(3) by (intro layout_take_start) auto
  note sp = alloc_split [OF inv u this, of "\<lambda>d. d\<lparr>mbd_length := ?l - len, mbd_start := ?a + len\<rparr>", OF _ refl]
  show ?thesis
    using sp u alloc_setup(2) [OF inv u] arith unfolding alloc_from_start_def
    by (auto simp: Let_def upd_mbd_def)
qed

lemma alloc_from_end_spec:
  assumes inv: "mem_inv hi s (xs @ p # ys) U" and u: "MemGetUnusedMBD Umbd MBD_COUNT (descs s) = Some u"
    and len: "0 < len" "len < mbd_length (descs s p)" "4096 dvd unat len"
  shows "\<exists>s' r. alloc_from_end len p s = Some (r, s') \<and>
     unat r = unat (mbd_start (descs s p)) + (unat (mbd_length (descs s p)) - unat len) \<and>
     mem_inv hi s' (xs @ p # ys) (U @ [u]) \<and>
     ext s' = (ext s)(p := (unat (mbd_start (descs s p)), unat (mbd_length (descs s p)) - unat len),
                      u := (unat r, unat len))"
proof -
  let ?a = "mbd_start (descs s p)" and ?l = "mbd_length (descs s p)"
  have ll: "unat len < unat ?l" "0 < unat len"
    using len(1,2) by (simp_all add: word_less_nat_alt)
  have al: "unat ?a + unat ?l \<le> 2 ^ 32"
    using mem_inv_block [OF inv] by simp
  have ar: "?a + ?l - len = ?a + (?l - len)"
    by simp
  have arith: "unat (?l - len) = unat ?l - unat len" "unat (?a + ?l - len) = unat ?a + (unat ?l - unat len)"
    unfolding ar using ll al by (auto simp: unat_minus_le unat_plus_if_lt)
  have "layout hi ((map (ext s) xs @ (unat ?a, unat (?l - len)) # map (ext s) ys)
      @ map (ext s) U @ [(unat (?a + ?l - len), unat len)])"
    unfolding arith using mem_inv_layout [OF inv] ll len(3) by (intro layout_take_end) auto
  note sp = alloc_split [OF inv u this, of "\<lambda>d. d\<lparr>mbd_length := ?l - len\<rparr>", OF _ refl]
  show ?thesis
    using sp u alloc_setup(2) [OF inv u] arith unfolding alloc_from_end_def
    by (auto simp: Let_def upd_mbd_def)
qed

text \<open>Taking all of the free block \<open>p\<close>: its descriptor leaves the free list.\<close>

lemma alloc_from_start_all:
  assumes inv: "mem_inv hi s (xs @ p # ys) U" and u: "MemGetUnusedMBD Umbd MBD_COUNT (descs s) = Some u"
    and len: "mbd_length (descs s p) = len"
  shows "\<exists>s'. alloc_from_start len p s = Some (mbd_start (descs s p), s') \<and>
     mem_inv hi s' (xs @ ys) (U @ [u]) \<and> ext s' u = ext s p \<and> (\<forall>q \<in> set U. ext s' q = ext s q)"
proof -
  let ?a = "mbd_start (descs s p)"
  let ?s = "upd_mbd p (\<lambda>d. d\<lparr>mbd_used := 0\<rparr>) (upd_mbd p (\<lambda>d. d\<lparr>mbd_start := mbd_start d + len\<rparr>)
    (upd_mbd p (\<lambda>d. d\<lparr>mbd_length := mbd_length d - len\<rparr>)
    (upd_mbd u (\<lambda>d. d\<lparr>mbd_used := 1, mbd_start := ?a, mbd_length := len\<rparr>) s)))"
  have F: "free_list s (xs @ p # ys)" and U: "used_list s U" and hi: "hi \<le> 2 ^ 32"
    and L: "layout hi (map (ext s) (xs @ p # ys) @ map (ext s) U)"
    and used: "unat (mem_used s) = mem_base + sum_list (map (snd \<circ> ext s) U)"
    using inv by (simp_all add: mem_inv_def)
  note a = alloc_setup [OF inv u]
  obtain j i where j: "u = Umbd j" "j < MBD_COUNT" and i: "p = Mbd i"
    using a(1) a(9) by blast
  have e: "ext ?s q = (if q = u then (unat ?a, unat len) else ext s q)" if "q \<noteq> p" for q
    using that a(2) by (auto simp: ext_def upd_mbd_def)
  have same: "mbd_next (descs ?s q) = mbd_next (descs s q) \<and> mbd_prev (descs ?s q) = mbd_prev (descs s q)" for q
    by (simp add: upd_mbd_def)
  have heads: "mbdt_head ?s = mbdt_head s" "mbdt_foot ?s = mbdt_foot s" "umbdt_head ?s = umbdt_head s"
      "umbdt_foot ?s = umbdt_foot s" "mem_used ?s = mem_used s"
    by (simp_all add: upd_mbd_def)
  have "mbd_list (descs ?s) (mbdt_head ?s) (mbdt_foot ?s) (xs @ p # ys)"
    using F same unfolding free_list_def heads by (subst mbd_list_links) auto
  then obtain h f ds where
    rm: "remove_free p ?s = Some (True, ?s\<lparr>mbdt_head := h, mbdt_foot := f, descs := ds\<rparr>)"
    and l: "mbd_list ds h f (xs @ ys)" and pl: "\<And>q. payload (ds q) = payload (descs ?s q)"
    and fr: "\<And>q. q \<notin> set (xs @ ys) \<Longrightarrow> ds q = descs ?s q"
    by (rule remove_free_spec) blast
  let ?t = "?s\<lparr>mbdt_head := h, mbdt_foot := f, descs := ds\<rparr>"
  have et: "ext ?t = ext ?s"
    by (rule HOL.ext) (use payload_fields [OF pl] in \<open>simp add: ext_def\<close>)
  have sl: "slots tbl n ds = slots tbl n (descs ?s)" for tbl n
    using pl by (rule slots_payload)
  have sF: "slots Mbd MBD_COUNT (descs ?s) = slots Mbd MBD_COUNT (descs s) - {p}"
  proof -
    have "slots Mbd MBD_COUNT (descs ?s) = slots Mbd MBD_COUNT (descs (upd_mbd p (\<lambda>d. d\<lparr>mbd_used := 0\<rparr>) s))"
      using a(2) j by (intro slots_same) (auto simp: upd_mbd_def)
    also have "\<dots> = slots Mbd MBD_COUNT (descs s) - {p}"
      by (intro slots_remove) (auto simp: upd_mbd_def)
    finally show ?thesis .
  qed
  have sU: "slots Umbd MBD_COUNT (descs ?s) = insert u (slots Umbd MBD_COUNT (descs s))"
  proof -
    have "slots Umbd MBD_COUNT (descs ?s) =
        slots Umbd MBD_COUNT (descs (upd_mbd u (\<lambda>d. d\<lparr>mbd_used := 1\<rparr>) s))"
      using a(2) i by (intro slots_same) (auto simp: upd_mbd_def)
    also have "\<dots> = insert u (slots Umbd MBD_COUNT (descs s))"
      using j by (intro slots_insert) (auto simp: upd_mbd_def)
    finally show ?thesis .
  qed
  have keep: "ext ?t q = ext s q" if "q \<in> set (xs @ ys) \<union> set U" for q
  proof -
    have "q \<noteq> p" "q \<noteq> u"
      using that a(2-8) by auto
    then show ?thesis
      using e [of q] unfolding et by simp
  qed
  have "\<exists>s'. append_used u ?t = (True, s') \<and>
     mem_inv hi (s'\<lparr>mem_used := mem_used s' + ucast len\<rparr>) (xs @ ys) (U @ [u]) \<and>
     ext (s'\<lparr>mem_used := mem_used s' + ucast len\<rparr>) = ext ?t"
  proof (rule alloc_finish)
    have "p \<notin> set (xs @ ys)" using a by simp
    then show "free_list ?t (xs @ ys)"
      using F l by (auto simp: free_list_def sl sF)
    have frU: "descs ?t q = descs ?s q" if "q \<in> set U" for q
    proof -
      have "q \<notin> set (xs @ ys)"
        using lists_disjoint [OF F U] that by auto
      then show ?thesis by (simp add: fr)
    qed
    have "mbd_list (descs ?t) (umbdt_head s) (umbdt_foot s) U"
      using U frU same unfolding used_list_def by (subst mbd_list_links) auto
    then show "mbd_list (descs ?t) (umbdt_head ?t) (umbdt_foot ?t) U"
      by (simp add: upd_mbd_def)
    show "set (U @ [u]) = slots Umbd MBD_COUNT (descs ?t)"
      using U by (simp add: sl sU used_list_def)
    have "ext ?t u = ext s p"
      using e [OF a(2)] len unfolding et by (simp add: ext_pair)
    moreover have "map (ext ?t) (xs @ ys) = map (ext s) (xs @ ys)"
      using keep by (auto intro!: map_cong simp del: map_append)
    moreover have mU: "map (ext ?t) U = map (ext s) U"
      using keep by (auto intro!: map_cong)
    ultimately have eq: "map (ext ?t) (xs @ ys) @ map (ext ?t) U @ [ext ?t u] =
        (map (ext s) xs @ map (ext s) ys) @ map (ext s) U @ [ext s p]"
      by simp
    show "layout hi (map (ext ?t) (xs @ ys) @ map (ext ?t) U @ [ext ?t u])"
      using L layout_take_all [of hi "map (ext s) xs" "ext s p" "map (ext s) ys" "map (ext s) U"]
      unfolding eq by simp
    have "map (snd \<circ> ext ?t) U = map (snd \<circ> ext s) U"
      by (simp only: map_map [symmetric] mU)
    moreover have "mem_used ?t = mem_used s"
      by (simp add: upd_mbd_def)
    ultimately show "unat (mem_used ?t) = mem_base + sum_list (map (snd \<circ> ext ?t) U)"
      using used by (simp only:)
    show "mbd_length (descs ?t u) = len"
      using a fr [of u] by (simp add: upd_mbd_def)
  qed (use a hi in auto)
  then obtain s' where s': "append_used u ?t = (True, s')"
    "mem_inv hi (s'\<lparr>mem_used := mem_used s' + ucast len\<rparr>) (xs @ ys) (U @ [u])"
    "ext (s'\<lparr>mem_used := mem_used s' + ucast len\<rparr>) = ext ?t"
    by blast
  let ?v = "upd_mbd p (\<lambda>d. d\<lparr>mbd_start := mbd_start d + len\<rparr>)
    (upd_mbd p (\<lambda>d. d\<lparr>mbd_length := mbd_length d - len\<rparr>)
    (upd_mbd u (\<lambda>d. d\<lparr>mbd_used := 1, mbd_start := ?a, mbd_length := len\<rparr>) s))"
  have "mbd_length (descs ?v p) = 0"
    using len a(2) by (simp add: upd_mbd_def)
  then have "alloc_from_start len p s = Some (?a, s'\<lparr>mem_used := mem_used s' + ucast len\<rparr>)"
    using u rm s'(1) by (simp add: alloc_from_start_def Let_def)
  moreover have "ext s p = ext ?s u"
    using e [OF a(2)] len by (simp add: ext_pair)
  moreover have "ext (s'\<lparr>mem_used := mem_used s' + ucast len\<rparr>) q = ext s q" if "q \<in> set U" for q
    using that unfolding s'(3) by (intro keep) simp
  ultimately show ?thesis
    using s'(2,3) et by (metis (no_types, lifting))
qed

text \<open>A free block that fits, with an unused slot at hand: the block is allocated.\<close>

lemma take_from_spec:
  assumes inv: "mem_inv hi s (xs @ p # ys) U" and u: "MemGetUnusedMBD Umbd MBD_COUNT (descs s) = Some u"
    and len: "0 < len" "4096 dvd unat len" and ms: "unat m_start + unat len < 2 ^ 32"
    and fits: "fits s m_start len p"
  shows "\<exists>r s' F' U'. take_from m_start len p s = Some (r, s') \<and> m_start \<le> r \<and> mem_inv hi s' F' U' \<and>
     map (ext s') U' = map (ext s) U @ [(unat r, unat len)]"
proof -
  let ?a = "mbd_start (descs s p)" and ?l = "mbd_length (descs s p)"
  note a = alloc_setup [OF inv u]
  have al: "unat ?a + unat ?l \<le> 2 ^ 32"
    using mem_inv_block [OF inv] by simp
  show ?thesis
  proof (cases "?a < m_start")
    case True
    then have b: "m_start + len < ?a + ?l"
      using fits by (auto simp: fits_def)
    then have "unat (m_start + len) < unat (?a + ?l)"
      by (simp add: word_less_nat_alt)
    moreover have "unat (m_start + len) = unat m_start + unat len"
      using ms by (simp add: unat_plus_if_lt)
    moreover have "unat (?a + ?l) \<le> unat ?a + unat ?l"
      by (simp add: unat_word_ariths)
    ultimately have ml: "unat m_start + unat len < unat ?a + unat ?l"
      by linarith
    moreover have "unat ?a < unat m_start"
      using True by (simp add: word_less_nat_alt)
    ultimately have l: "len < ?l"
      by (simp add: word_less_nat_alt)
    obtain s' r where r: "alloc_from_end len p s = Some (r, s')"
      "unat r = unat ?a + (unat ?l - unat len)" "mem_inv hi s' (xs @ p # ys) (U @ [u])"
      "ext s' = (ext s)(p := (unat ?a, unat ?l - unat len), u := (unat r, unat len))"
      using alloc_from_end_spec [OF inv u len(1) l len(2)] by blast
    moreover have "m_start \<le> r"
      using ml r(2) l by (simp add: word_le_nat_alt word_less_nat_alt)
    moreover have "map (ext s') (U @ [u]) = map (ext s) U @ [(unat r, unat len)]"
      using a(2-8) unfolding r(4) by auto
    moreover have "take_from m_start len p s = Some (r, s')"
      using True r(1) by (simp add: take_from_def)
    ultimately show ?thesis
      by blast
  next
    case ge: False
    then have l: "len \<le> ?l" "m_start \<le> ?a"
      using fits by (auto simp: fits_def)
    show ?thesis
    proof (cases "len = ?l")
      case False
      then have lt: "len < ?l"
        using l by simp
      obtain s' where r: "alloc_from_start len p s = Some (?a, s')" "mem_inv hi s' (xs @ p # ys) (U @ [u])"
        "ext s' = (ext s)(p := (unat ?a + unat len, unat ?l - unat len), u := (unat ?a, unat len))"
        using alloc_from_start_part [OF inv u len(1) lt len(2)] by blast
      moreover have "map (ext s') (U @ [u]) = map (ext s) U @ [(unat ?a, unat len)]"
        using a(2-8) unfolding r(3) by auto
      moreover have "take_from m_start len p s = Some (?a, s')"
        using ge r(1) by (simp add: take_from_def)
      ultimately show ?thesis
        using l(2) by blast
    next
      case True
      obtain s' where r: "alloc_from_start len p s = Some (?a, s')" "mem_inv hi s' (xs @ ys) (U @ [u])"
        "ext s' u = ext s p" "\<forall>q \<in> set U. ext s' q = ext s q"
        using alloc_from_start_all [OF inv u True [symmetric]] by blast
      moreover have "map (ext s') (U @ [u]) = map (ext s) U @ [(unat ?a, unat len)]"
        using r True by (simp add: ext_pair)
      moreover have "take_from m_start len p s = Some (?a, s')"
        using ge r(1) by (simp add: take_from_def)
      ultimately show ?thesis
        using l(2) by blast
    qed
  qed
qed

lemma take_from_full:
  "MemGetUnusedMBD Umbd MBD_COUNT (descs s) = None \<Longrightarrow> take_from m_start len p s = Some (0, s)"
  by (simp add: take_from_def alloc_from_end_def alloc_from_start_def)

subsection \<open>\<open>_MemAllocWithStart\<close>\<close>

lemma round_up: "n + (4096 - n mod 4096) = 4096 * Suc (n div (4096::nat))"
proof -
  have "m + (4096 - r) = 4096 * Suc q" if "m = 4096 * q + r" "r < 4096" for m q r :: nat
    using that by simp
  from this [of n "n div 4096" "n mod 4096"] show ?thesis
    by simp
qed

lemma unat_MemAlign4KB:
  assumes "unat n \<le> 0xFFFFF000"
  shows "unat (MemAlign4KB n) = (if unat n mod 4096 = 0 then unat n else unat n + (4096 - unat n mod 4096))"
proof (cases "n mod 4096 = 0")
  case True
  then have "unat (n mod 4096) = 0"
    by simp
  then have "unat n mod 4096 = 0"
    unfolding unat_mod_eq by simp
  then show ?thesis
    using True by (simp add: MemAlign4KB_def)
next
  case False
  have m: "unat (n mod 4096) = unat n mod 4096"
    by (simp add: unat_mod_eq)
  then have nz: "unat n mod 4096 \<noteq> 0"
    using False by (metis unat_eq_zero)
  have e: "unat (4096 - n mod 4096) = 4096 - unat n mod 4096"
    by (subst unat_minus_le) (simp_all add: m)
  have "unat n + (4096 - unat n mod 4096) < 2 ^ 32"
  proof -
    have "unat n < 0xFFFFF000"
      using assms nz by (cases "unat n = 0xFFFFF000") simp_all
    then have "n' div 4096 < 0xFFFFF" if "n' = unat n" for n'
      using that by (simp add: div_less_iff_less_mult)
    then show ?thesis
      unfolding round_up by simp
  qed
  then have "unat (n + (4096 - n mod 4096)) = unat n + (4096 - unat n mod 4096)"
    by (subst unat_plus_if_lt) (simp_all add: e)
  then show ?thesis
    using False nz by (simp add: MemAlign4KB_def)
qed

lemma MemAlign4KB_spec:
  assumes "unat n \<le> 0xFFFFF000"
  shows "4096 dvd unat (MemAlign4KB n)" "unat n \<le> unat (MemAlign4KB n)" "unat (MemAlign4KB n) < unat n + 4096"
proof -
  have "n' \<le> n' + (4096 - n' mod 4096)" for n' :: nat
    by (rule le_add1)
  then show "unat n \<le> unat (MemAlign4KB n)" "unat (MemAlign4KB n) < unat n + 4096"
    unfolding unat_MemAlign4KB [OF assms] by (auto simp del: Nat.diff_add_assoc)
  show "4096 dvd unat (MemAlign4KB n)"
    unfolding unat_MemAlign4KB [OF assms] round_up by (simp add: dvd_eq_mod_eq_0 del: mult_Suc_right)
qed

lemma search_split:
  "find P (rev xs) = Some p \<Longrightarrow> \<exists>as bs. xs = as @ p # bs \<and> P p"
  by (auto simp: find_Some_iff dest!: split_list) (metis in_set_conv_nth length_rev nth_mem set_rev split_list)

lemma MemAllocWithStart_u_find:
  assumes "mem_inv hi s F U"
  shows "MemAllocWithStart_u m_start len s =
    (case find (fits s m_start (MemAlign4KB len)) (rev F) of
       None \<Rightarrow> Some (0, s) | Some p \<Rightarrow> take_from m_start (MemAlign4KB len) p s)"
proof -
  have l: "mbd_list (descs s) (mbdt_head s) (mbdt_foot s) (F @ [])"
    using assms by (simp add: mem_inv_def free_list_def)
  then have "mbdt_foot s = opt_last F"
    by (simp add: mbd_list_def dlist_def)
  with alloc_search_find [OF l] show ?thesis
    by (simp add: MemAllocWithStart_u_def)
qed

lemma alloc_u_cases:
  assumes inv: "mem_inv hi s F U" and len: "0 < len" "unat len \<le> 0xFFFFF000"
    and ms: "unat m_start + unat (MemAlign4KB len) < 2 ^ 32"
  obtains "MemAllocWithStart_u m_start len s = Some (0, s)"
      "find (fits s m_start (MemAlign4KB len)) (rev F) = None \<or> MemGetUnusedMBD Umbd MBD_COUNT (descs s) = None"
  | r s' F' U' where "MemAllocWithStart_u m_start len s = Some (r, s')" "m_start \<le> r" "mem_inv hi s' F' U'"
      "map (ext s') U' = map (ext s) U @ [(unat r, unat (MemAlign4KB len))]"
proof (cases "find (fits s m_start (MemAlign4KB len)) (rev F)")
  case None
  then show thesis
    using that(1) by (simp add: MemAllocWithStart_u_find [OF inv])
next
  case (Some p)
  then obtain xs ys where F: "F = xs @ p # ys" and fits: "fits s m_start (MemAlign4KB len) p"
    using search_split by metis
  show thesis
  proof (cases "MemGetUnusedMBD Umbd MBD_COUNT (descs s)")
    case None
    then show thesis
      using that(1) Some by (simp add: MemAllocWithStart_u_find [OF inv] take_from_full)
  next
    case u: (Some u)
    have "0 < MemAlign4KB len"
      using MemAlign4KB_spec(2) [OF len(2)] len(1) by (simp add: word_less_nat_alt)
    then obtain r s' F' U' where "take_from m_start (MemAlign4KB len) p s = Some (r, s')" "m_start \<le> r"
      "mem_inv hi s' F' U'" "map (ext s') U' = map (ext s) U @ [(unat r, unat (MemAlign4KB len))]"
      using take_from_spec [OF inv [unfolded F] u _ MemAlign4KB_spec(1) [OF len(2)] ms fits] by blast
    then show thesis
      using that(2) [of r s' F' U'] Some by (simp add: MemAllocWithStart_u_find [OF inv])
  qed
qed

section \<open>Release\<close>

lemma append_free_spec:
  assumes "mbd_list (descs s) (mbdt_head s) (mbdt_foot s) F" "n \<notin> set F"
  shows "\<exists>h f ds. append_free n s = (True, s\<lparr>mbdt_head := h, mbdt_foot := f, descs := ds\<rparr>) \<and>
    mbd_list ds h f (F @ [n]) \<and> (\<forall>q. payload (ds q) = payload (descs s q)) \<and>
    (\<forall>q. q \<notin> set (F @ [n]) \<longrightarrow> ds q = descs s q)"
proof -
  obtain h f ds where "MemAppendMBD (mbdt_head s) (mbdt_foot s) n (descs s) = (True, h, f, ds)"
    "mbd_list ds h f (F @ [n])" "\<And>q. payload (ds q) = payload (descs s q)"
    "\<And>q. q \<notin> set (F @ [n]) \<Longrightarrow> ds q = descs s q"
    using MemAppendMBD_spec [OF assms] by metis
  then show ?thesis
    by (intro exI [of _ h] exI [of _ f] exI [of _ ds]) (simp add: append_free_def)
qed

lemma remove_used_spec:
  assumes "mbd_list (descs s) (umbdt_head s) (umbdt_foot s) (xs @ p # ys)"
  shows "\<exists>h f ds. remove_used p s = Some (True, s\<lparr>umbdt_head := h, umbdt_foot := f, descs := ds\<rparr>) \<and>
    mbd_list ds h f (xs @ ys) \<and> (\<forall>q. payload (ds q) = payload (descs s q)) \<and>
    (\<forall>q. q \<notin> set (xs @ ys) \<longrightarrow> ds q = descs s q)"
proof -
  obtain h f ds where "MemRemoveMBD (umbdt_head s) (umbdt_foot s) p (descs s) = Some (True, h, f, ds)"
    "mbd_list ds h f (xs @ ys)" "\<And>q. payload (ds q) = payload (descs s q)"
    "\<And>q. q \<notin> set (xs @ ys) \<Longrightarrow> ds q = descs s q"
    using MemRemoveMBD_spec [OF assms] by metis
  then show ?thesis
    by (intro exI [of _ h] exI [of _ f] exI [of _ ds]) (simp add: remove_used_def)
qed

text \<open>
  The first half of \<open>_MemFree\<close>: the descriptor \<open>u\<close> is copied to the free slot \<open>n\<close> and
  unlinked from the used list.
\<close>

definition copied :: "mbd_ptr \<Rightarrow> mbd_ptr \<Rightarrow> mem_state \<Rightarrow> mem_state" where
  "copied n u s = upd_mbd u (\<lambda>d. d\<lparr>mbd_used := 0\<rparr>) (upd_mbd n (\<lambda>_. descs s u) s)"

lemma free_unlink:
  assumes inv: "mem_inv hi s F (us @ u # vs)" and n: "MemGetUnusedMBD Mbd MBD_COUNT (descs s) = Some n"
  obtains t where "remove_used u (copied n u s) = Some (True, t)"
    "mbd_list (descs t) (umbdt_head t) (umbdt_foot t) (us @ vs)"
    "mbd_list (descs t) (mbdt_head t) (mbdt_foot t) F" "mbdt_head t = mbdt_head s" "mbdt_foot t = mbdt_foot s"
    "mem_used t = mem_used s"
    "\<And>q. payload (descs t q) = (if q = u then (0, snd (payload (descs s u)))
       else if q = n then payload (descs s u) else payload (descs s q))"
proof -
  have F: "free_list s F" and U: "used_list s (us @ u # vs)"
    using inv by (simp_all add: mem_inv_def)
  have nF: "n \<notin> set F" and nM: "n \<in> range Mbd"
    using MemGetUnusedMBD_SomeD [OF n] F by (auto simp: free_list_def)
  have nU: "n \<notin> set (us @ u # vs)"
    using used_list_Umbd [OF U, of n] nM by auto
  have uF: "u \<notin> set F"
    using free_list_Mbd [OF F, of u] used_list_Umbd [OF U, of u] by auto
  have "mbd_list (descs (copied n u s)) (umbdt_head (copied n u s)) (umbdt_foot (copied n u s)) (us @ u # vs)"
    using U nU unfolding used_list_def
    by (subst mbd_list_links [where ds = "descs s"]) (auto simp: copied_def upd_mbd_def)
  from remove_used_spec [OF this] obtain h f ds where r:
    "remove_used u (copied n u s) = Some (True, (copied n u s)\<lparr>umbdt_head := h, umbdt_foot := f, descs := ds\<rparr>)"
    "mbd_list ds h f (us @ vs)" "\<And>q. payload (ds q) = payload (descs (copied n u s) q)"
    "\<And>q. q \<notin> set (us @ vs) \<Longrightarrow> ds q = descs (copied n u s) q"
    by blast
  have "ds q = descs s q" if "q \<in> set F" for q
  proof -
    have "q \<notin> set (us @ vs)"
      using lists_disjoint [OF F U] that by auto
    then show ?thesis
      using r(4) that nF uF by (auto simp: copied_def upd_mbd_def)
  qed
  then have "mbd_list ds (mbdt_head s) (mbdt_foot s) F"
    using F mbd_list_frame [of F ds "descs s"] by (auto simp: free_list_def)
  moreover have "payload (descs (copied n u s) q) = (if q = u then (0, snd (payload (descs s u)))
       else if q = n then payload (descs s u) else payload (descs s q))" for q
    using nU by (simp add: copied_def upd_mbd_def payload_def)
  ultimately show thesis
    using r by (intro that [of "(copied n u s)\<lparr>umbdt_head := h, umbdt_foot := f, descs := ds\<rparr>"])
      (simp_all add: copied_def upd_mbd_def)
qed

lemma ext_payload: "payload (descs t q) = payload (descs s r) \<Longrightarrow> ext t q = ext s r"
  by (simp add: payload_def ext_def)

text \<open>The accounting at the end of a release.\<close>

lemma free_accounting:
  assumes used: "unat (mem_used s) = mem_base + sum_list (map (snd \<circ> ext s) (us @ u # vs))"
    and same: "map (ext t) (us @ vs) = map (ext s) (us @ vs)"
    and t: "mem_used t = mem_used s" "mbd_length (descs t u) = mbd_length (descs s u)"
  shows "unat (mem_used t - ucast (mbd_length (descs t u))) = mem_base + sum_list (map (snd \<circ> ext t) (us @ vs))"
proof -
  have e: "map (snd \<circ> ext t) (us @ vs) = map (snd \<circ> ext s) (us @ vs)"
    using same by (simp only: map_map [symmetric])
  have "snd (ext s u) = unat (mbd_length (descs s u))"
    by (simp add: ext_def)
  then have "unat (mem_used s) = mem_base + sum_list (map (snd \<circ> ext s) (us @ vs)) + unat (mbd_length (descs s u))"
    using used by simp
  then show ?thesis
    unfolding e t by (subst unat_minus_le) simp_all
qed

text \<open>How the layout of a state and its two slot sets look after \<open>copied\<close>.\<close>

lemma free_unlinked_slots:
  assumes inv: "mem_inv hi s F (us @ u # vs)" and n: "MemGetUnusedMBD Mbd MBD_COUNT (descs s) = Some n"
    and pl: "\<And>q. payload (descs t q) = (if q = u then (0, snd (payload (descs s u)))
       else if q = n then payload (descs s u) else payload (descs s q))"
  shows "slots Mbd MBD_COUNT (descs t) = insert n (set F)"
    "slots Umbd MBD_COUNT (descs t) = set (us @ vs)"
    "\<And>q. q \<in> set F \<union> set (us @ vs) \<Longrightarrow> ext t q = ext s q" "ext t n = ext s u" "n \<notin> set F" "n \<notin> set (us @ u # vs)"
    "u \<notin> set F" "mbd_length (descs t u) = mbd_length (descs s u)" "u \<noteq> n"
proof -
  have F: "free_list s F" and U: "used_list s (us @ u # vs)"
    using inv by (simp_all add: mem_inv_def)
  obtain i where i: "n = Mbd i" "i < MBD_COUNT"
    using MemGetUnusedMBD_SomeD [OF n] by auto
  have "u \<in> slots Umbd MBD_COUNT (descs s)"
    using U by (auto simp: used_list_def)
  then obtain j where j: "u = Umbd j" "mbd_used (descs s u) \<noteq> 0"
    by (auto simp: slots_def)
  show nF: "n \<notin> set F"
    using MemGetUnusedMBD_SomeD [OF n] F by (auto simp: free_list_def)
  show nU: "n \<notin> set (us @ u # vs)"
    using used_list_Umbd [OF U, of n] i by auto
  show uF: "u \<notin> set F"
    using free_list_Mbd [OF F, of u] j by auto
  show un: "u \<noteq> n" using i j by simp
  have d: "u \<notin> set us" "u \<notin> set vs"
    using U by (auto simp: used_list_def mbd_list_def dest: dlist_split)
  have used: "mbd_used (descs t q) = (if q = u then 0 else if q = n then mbd_used (descs s u) else mbd_used (descs s q))" for q
    using pl [of q] by (auto simp: payload_def split: if_splits)
  have "slots Mbd MBD_COUNT (descs t) = insert n (slots Mbd MBD_COUNT (descs (copied n u s)))"
    using i j(2) un used by (intro slots_insert) (auto simp: copied_def upd_mbd_def)
  also have "insert n (slots Mbd MBD_COUNT (descs (copied n u s))) = insert n (slots Mbd MBD_COUNT (descs s))"
    using i j un by (auto simp: slots_def copied_def upd_mbd_def)
  finally show "slots Mbd MBD_COUNT (descs t) = insert n (set F)"
    using F by (simp add: free_list_def)
  have "slots Umbd MBD_COUNT (descs t) = slots Umbd MBD_COUNT (descs s) - {u}"
    using i used by (auto simp: slots_def)
  then show "slots Umbd MBD_COUNT (descs t) = set (us @ vs)"
    using U d by (auto simp: used_list_def)
  show "ext t q = ext s q" if "q \<in> set F \<union> set (us @ vs)" for q
    using that nF nU uF d pl [of q] by (intro ext_payload) auto
  show "ext t n = ext s u"
    using un pl [of n] by (intro ext_payload) auto
  show "mbd_length (descs t u) = mbd_length (descs s u)"
    using pl [of u] by (simp add: payload_def)
qed

text \<open>No free block touches the released one: it joins the free list.\<close>

lemma free_finish_append:
  assumes inv: "mem_inv hi s F (us @ u # vs)" and n: "MemGetUnusedMBD Mbd MBD_COUNT (descs s) = Some n"
    and lU: "mbd_list (descs t) (umbdt_head t) (umbdt_foot t) (us @ vs)"
    and lF: "mbd_list (descs t) (mbdt_head t) (mbdt_foot t) F" and mu: "mem_used t = mem_used s"
    and pl: "\<And>q. payload (descs t q) = (if q = u then (0, snd (payload (descs s u)))
       else if q = n then payload (descs s u) else payload (descs s q))"
  shows "\<exists>t'. append_free n t = (True, t') \<and>
    mem_inv hi (t'\<lparr>mem_used := mem_used t' - ucast (mbd_length (descs t' u))\<rparr>) (F @ [n]) (us @ vs) \<and>
    map (ext t') (us @ vs) = map (ext s) (us @ vs)"
proof -
  note sl = free_unlinked_slots [OF inv n pl]
  obtain h f ds where app: "append_free n t = (True, t\<lparr>mbdt_head := h, mbdt_foot := f, descs := ds\<rparr>)"
    and l: "mbd_list ds h f (F @ [n])" and ep: "\<And>q. payload (ds q) = payload (descs t q)"
    and fr: "\<And>q. q \<notin> set (F @ [n]) \<Longrightarrow> ds q = descs t q"
    using append_free_spec [OF lF sl(5)] by blast
  define t' where "t' = t\<lparr>mbdt_head := h, mbdt_foot := f, descs := ds\<rparr>"
  have e: "ext t' = ext t"
    by (rule HOL.ext, rule ext_payload) (simp add: t'_def ep)
  have same: "map (ext t') (us @ vs) = map (ext s) (us @ vs)" "map (ext t') F = map (ext s) F"
    using sl(3) unfolding e by auto
  have s: "slots tbl m (descs t') = slots tbl m (descs t)" for tbl m
    by (rule slots_payload) (simp add: t'_def ep)
  have disj: "set F \<inter> set (us @ vs) = {}"
    using inv lists_disjoint [of s F "us @ u # vs"] by (auto simp: mem_inv_def)
  have "ds q = descs t q" if "q \<in> set (us @ vs)" for q
    using that disj sl(6) by (intro fr) auto
  then have "mbd_list ds (umbdt_head t) (umbdt_foot t) (us @ vs)"
    using lU mbd_list_frame by blast
  then have U': "used_list t' (us @ vs)"
    using s sl(2) by (simp add: used_list_def t'_def)
  have F': "free_list t' (F @ [n])"
    using l s sl(1) by (simp add: free_list_def t'_def)
  have eq: "map (ext t') (F @ [n]) @ map (ext t') (us @ vs) =
      (map (ext s) F @ [ext s u]) @ map (ext s) us @ map (ext s) vs"
    using same sl(4) by (simp add: e)
  have L: "layout hi (map (ext t') (F @ [n]) @ map (ext t') (us @ vs))"
    unfolding eq using inv by (intro layout_give) (simp add: mem_inv_def)
  have lu: "mbd_length (descs t' u) = mbd_length (descs s u)"
    using sl(8) ep [of u] by (simp add: t'_def payload_def)
  have "unat (mem_used t' - ucast (mbd_length (descs t' u))) = mem_base + sum_list (map (snd \<circ> ext t') (us @ vs))"
    using inv same(1) mu lu by (intro free_accounting) (auto simp: mem_inv_def t'_def)
  then have "mem_inv hi (t'\<lparr>mem_used := mem_used t' - ucast (mbd_length (descs t' u))\<rparr>) (F @ [n]) (us @ vs)"
    using U' F' L inv by (simp add: mem_inv_def used_list_def free_list_def ext_def [abs_def])
  then show ?thesis
    using app same(1) t'_def by blast
qed

text \<open>A free block \<open>p\<close> touches the released one: \<open>p\<close> grows by it.\<close>

lemma merge_layout:
  fixes wa wl wb wm :: u32
  assumes L: "layout hi ((as @ (a, l) # bs) @ us @ (b, m) # vs)" and hi: "hi \<le> 2 ^ 32"
    and w: "a = unat wa" "l = unat wl" "b = unat wb" "m = unat wm"
    and t: "wb + wm = wa \<or> wa + wl = wb"
  shows "layout hi ((as @ (unat (if wb + wm = wa then wb else wa), unat (wl + wm)) # bs) @ us @ vs)"
proof -
  have ok: "block_ok hi (a, l)" "block_ok hi (b, m)"
    using L by (auto simp: layout_def)
  have tot: "mem_base + (l + m) \<le> hi"
    using L by (auto simp: layout_def)
  have lm: "unat (wl + wm) = l + m"
    using tot hi w by (subst unat_plus_if_lt) (auto simp: mem_base_def)
  have wrap: "unat (x + y) = unat x + unat y \<or> x + y = 0" if "unat x + unat y \<le> 2 ^ 32" for x y :: u32
    using that by (cases "unat x + unat y = 2 ^ 32") (auto simp: unat_plus_if_lt unat_word_ariths unat_eq_zero [symmetric])
  have nz: "wa \<noteq> 0" "wb \<noteq> 0"
    using ok w by (auto simp: block_ok_def mem_base_def)
  have sums: "unat (wb + wm) = b + m \<or> wb + wm = 0" "unat (wa + wl) = a + l \<or> wa + wl = 0"
    using ok hi w wrap [of wb wm] wrap [of wa wl] by (auto simp: block_ok_def)
  show ?thesis
  proof (cases "wb + wm = wa")
    case True
    then have "a = b + m"
      using sums(1) nz w by auto
    then show ?thesis
      using layout_give_before [of hi as b m l bs us vs] L lm w True by (simp add: add.commute)
  next
    case False
    then have "wa + wl = wb" using t by simp
    then have "b = a + l"
      using sums(2) nz w by auto
    then show ?thesis
      using layout_give_after [of hi as a l bs us m vs] L lm w False by simp
  qed
qed

lemma free_finish_merge:
  assumes inv: "mem_inv hi s (xs @ p # ys) (us @ u # vs)"
    and n: "MemGetUnusedMBD Mbd MBD_COUNT (descs s) = Some n"
    and lU: "mbd_list (descs t) (umbdt_head t) (umbdt_foot t) (us @ vs)"
    and lF: "mbd_list (descs t) (mbdt_head t) (mbdt_foot t) (xs @ p # ys)" and mu: "mem_used t = mem_used s"
    and pl: "\<And>q. payload (descs t q) = (if q = u then (0, snd (payload (descs s u)))
       else if q = n then payload (descs s u) else payload (descs s q))"
    and touch: "touches t n p" and t': "t' = merge_into n p t"
  shows "mem_inv hi (t'\<lparr>mem_used := mem_used t' - ucast (mbd_length (descs t' u))\<rparr>) (xs @ p # ys) (us @ vs)"
    "map (ext t') (us @ vs) = map (ext s) (us @ vs)"
proof -
  note sl = free_unlinked_slots [OF inv n pl]
  let ?wa = "mbd_start (descs s p)" and ?wl = "mbd_length (descs s p)"
  let ?wb = "mbd_start (descs s u)" and ?wm = "mbd_length (descs s u)"
  have F: "free_list s (xs @ p # ys)" and U: "used_list s (us @ u # vs)"
    using inv by (simp_all add: mem_inv_def)
  have d: "p \<notin> set xs" "p \<notin> set ys" "p \<notin> set us" "p \<notin> set vs" "p \<noteq> u" "p \<noteq> n"
    using F lists_disjoint [OF F U] sl(5) by (auto simp: free_list_def mbd_list_def dest: dlist_split)
  have vp: "mbd_start (descs t p) = ?wa" "mbd_length (descs t p) = ?wl"
    and vn: "mbd_start (descs t n) = ?wb" "mbd_length (descs t n) = ?wm"
    using pl [of p] pl [of n] d sl(9) by (auto simp: payload_def)
  have fields: "mbd_next (descs t' q) = mbd_next (descs t q)" "mbd_prev (descs t' q) = mbd_prev (descs t q)"
      "mbd_used (descs t' q) = (if q = n then 0 else mbd_used (descs t q))" for q
    by (simp_all add: t' merge_into_def upd_mbd_def)
  have heads: "mbdt_head t' = mbdt_head t" "mbdt_foot t' = mbdt_foot t" "umbdt_head t' = umbdt_head t"
      "umbdt_foot t' = umbdt_foot t" "mem_used t' = mem_used t"
    by (simp_all add: t' merge_into_def upd_mbd_def)
  have ep: "ext t' p = (unat (if ?wb + ?wm = ?wa then ?wb else ?wa), unat (?wl + ?wm))"
    using d(6) vp vn by (simp add: t' merge_into_def upd_mbd_def ext_def)
  have eo: "ext t' q = ext t q" if "q \<noteq> p" "q \<noteq> n" for q
    using that by (simp add: t' merge_into_def upd_mbd_def ext_def)
  have eU: "ext t' q = ext s q" if "q \<in> set (us @ vs)" for q
    using that d sl(3) [of q] sl(6) by (subst eo) auto
  have eF: "ext t' q = ext s q" if "q \<in> set xs \<union> set ys" for q
    using that d sl(3) [of q] sl(5) by (subst eo) auto
  show same: "map (ext t') (us @ vs) = map (ext s) (us @ vs)"
    using eU by (auto simp del: map_append intro!: map_cong)
  have "slots Mbd MBD_COUNT (descs t') = slots Mbd MBD_COUNT (descs t) - {n}"
    using fields(3) by (intro slots_remove) auto
  then have "slots Mbd MBD_COUNT (descs t') = set (xs @ p # ys)"
    using sl(1,5) by auto
  moreover have "mbd_list (descs t') (mbdt_head t') (mbdt_foot t') (xs @ p # ys)"
    using lF fields unfolding heads by (subst mbd_list_links) auto
  ultimately have F': "free_list t' (xs @ p # ys)"
    by (simp add: free_list_def)
  have "\<exists>i. n = Mbd i"
    using MemGetUnusedMBD_SomeD [OF n] by auto
  then have "slots Umbd MBD_COUNT (descs t') = slots Umbd MBD_COUNT (descs t)"
    using fields(3) by (intro slots_same) auto
  then have "slots Umbd MBD_COUNT (descs t') = set (us @ vs)"
    using sl(2) by simp
  moreover have "mbd_list (descs t') (umbdt_head t') (umbdt_foot t') (us @ vs)"
    using lU fields unfolding heads by (subst mbd_list_links) auto
  ultimately have U': "used_list t' (us @ vs)"
    by (simp add: used_list_def)
  have eq: "map (ext t') (xs @ p # ys) @ map (ext t') (us @ vs) =
      (map (ext s) xs @ (unat (if ?wb + ?wm = ?wa then ?wb else ?wa), unat (?wl + ?wm)) # map (ext s) ys)
      @ map (ext s) us @ map (ext s) vs"
    using same eF ep by (simp del: map_append) simp
  have L: "layout hi (map (ext t') (xs @ p # ys) @ map (ext t') (us @ vs))"
    unfolding eq
  proof (rule merge_layout [OF _ _ refl refl refl refl])
    show "layout hi ((map (ext s) xs @ (unat ?wa, unat ?wl) # map (ext s) ys) @ map (ext s) us @
        (unat ?wb, unat ?wm) # map (ext s) vs)"
      using inv by (simp add: mem_inv_def ext_pair [symmetric])
    show "hi \<le> 2 ^ 32" using inv by (simp add: mem_inv_def)
    show "?wb + ?wm = ?wa \<or> ?wa + ?wl = ?wb"
      using touch by (simp add: touches_def vp vn)
  qed
  have "unat (mem_used t' - ucast (mbd_length (descs t' u))) = mem_base + sum_list (map (snd \<circ> ext t') (us @ vs))"
  proof (rule free_accounting [OF _ same])
    show "unat (mem_used s) = mem_base + sum_list (map (snd \<circ> ext s) (us @ u # vs))"
      using inv by (simp add: mem_inv_def)
    show "mem_used t' = mem_used s" using mu heads by simp
    show "mbd_length (descs t' u) = mbd_length (descs s u)"
      using sl(8,9) d by (simp add: t' merge_into_def upd_mbd_def)
  qed
  then show "mem_inv hi (t'\<lparr>mem_used := mem_used t' - ucast (mbd_length (descs t' u))\<rparr>) (xs @ p # ys) (us @ vs)"
    using U' F' L inv by (simp add: mem_inv_def used_list_def free_list_def ext_def [abs_def])
qed

subsection \<open>\<open>_MemFree\<close>\<close>

lemma ext_mem_used: "ext (s\<lparr>mem_used := m\<rparr>) = ext s"
  by (simp add: ext_def [abs_def])

lemma free_block_spec:
  assumes inv: "mem_inv hi s F (us @ u # vs)" and n: "MemGetUnusedMBD Mbd MBD_COUNT (descs s) = Some n"
    and F0: "F \<noteq> []"
  shows "\<exists>t F'. free_block u s = Some (True, t) \<and> mem_inv hi t F' (us @ vs) \<and>
     map (ext t) (us @ vs) = map (ext s) (us @ vs)"
proof -
  obtain t where rm: "remove_used u (copied n u s) = Some (True, t)"
    and lU: "mbd_list (descs t) (umbdt_head t) (umbdt_foot t) (us @ vs)"
    and lF: "mbd_list (descs t) (mbdt_head t) (mbdt_foot t) F"
    and same: "mbdt_head t = mbdt_head s" "mbdt_foot t = mbdt_foot s" "mem_used t = mem_used s"
    and pl: "\<And>q. payload (descs t q) = (if q = u then (0, snd (payload (descs s u)))
       else if q = n then payload (descs s u) else payload (descs s q))"
    using free_unlink [OF inv n] by blast
  obtain h f where ends: "mbdt_head t = Some h" "mbdt_foot t = Some f" "opt_hd F = Some h"
    using lF F0 by (auto simp: mbd_list_def dlist_def)
  have body: "free_block u s =
      (case free_merge n (opt_hd F) t of None \<Rightarrow> None
       | Some (ok, s') \<Rightarrow> if ok then Some (True, s'\<lparr>mem_used := mem_used s' - ucast (mbd_length (descs s' u))\<rparr>)
           else Some (False, s'))"
    using n rm ends by (simp add: free_block_def copied_def split: option.splits)
  note fm = free_merge_find [of t "mbdt_head t" "mbdt_foot t" "[]" F n, simplified, OF lF]
  show ?thesis
  proof (cases "find (touches t n) F")
    case None
    obtain t' where "append_free n t = (True, t')"
      "mem_inv hi (t'\<lparr>mem_used := mem_used t' - ucast (mbd_length (descs t' u))\<rparr>) (F @ [n]) (us @ vs)"
      "map (ext t') (us @ vs) = map (ext s) (us @ vs)"
      using free_finish_append [OF inv n lU lF same(3) pl] by blast
    moreover from this have "free_block u s = Some (True, t'\<lparr>mem_used := mem_used t' - ucast (mbd_length (descs t' u))\<rparr>)"
      unfolding body fm by (simp add: None)
    ultimately show ?thesis
      using ext_mem_used by metis
  next
    case (Some p)
    then obtain xs ys where xs: "F = xs @ p # ys" and tc: "touches t n p"
      by (auto simp: find_Some_iff dest!: nth_mem split_list)
    define t' where "t' = merge_into n p t"
    note free_finish_merge [OF inv [unfolded xs] n lU lF [unfolded xs] same(3) pl tc t'_def]
    moreover have "free_block u s = Some (True, t'\<lparr>mem_used := mem_used t' - ucast (mbd_length (descs t' u))\<rparr>)"
      unfolding body fm t'_def by (simp add: Some)
    ultimately show ?thesis
      using ext_mem_used by metis
  qed
qed

lemma free_block_full:
  "MemGetUnusedMBD Mbd MBD_COUNT (descs s) = None \<Longrightarrow> free_block u s = Some (False, s)"
  by (simp add: free_block_def)

lemma free_u_cases:
  assumes inv: "mem_inv hi s F U" and F0: "F \<noteq> []"
  obtains "MemFree_u ptr s = Some (False, s)"
      "(\<forall>q \<in> set U. mbd_start (descs s q) \<noteq> ptr) \<or> MemGetUnusedMBD Mbd MBD_COUNT (descs s) = None"
  | us u vs t F' where "U = us @ u # vs" "mbd_start (descs s u) = ptr" "MemFree_u ptr s = Some (True, t)"
      "mem_inv hi t F' (us @ vs)" "map (ext t) (us @ vs) = map (ext s) (us @ vs)"
proof -
  have l: "mbd_list (descs s) (umbdt_head s) (umbdt_foot s) ([] @ U)" and h: "umbdt_head s = opt_hd U"
    using inv by (auto simp: mem_inv_def used_list_def mbd_list_def dlist_def)
  have fs: "MemFree_u ptr s =
      (case find (\<lambda>p. mbd_start (descs s p) = ptr) U of None \<Rightarrow> Some (False, s) | Some p \<Rightarrow> free_block p s)"
    using free_search_find [OF l] h by (simp add: MemFree_u_def)
  show thesis
  proof (cases "find (\<lambda>p. mbd_start (descs s p) = ptr) U")
    case None
    then have "\<forall>q \<in> set U. mbd_start (descs s q) \<noteq> ptr"
      by (auto simp: find_None_iff)
    then show thesis
      using that(1) fs None by simp
  next
    case (Some u)
    then obtain us vs where us: "U = us @ u # vs" and su: "mbd_start (descs s u) = ptr"
      by (auto simp: find_Some_iff) (metis nth_mem split_list)
    show thesis
    proof (cases "MemGetUnusedMBD Mbd MBD_COUNT (descs s)")
      case None
      then show thesis
        using that(1) fs Some free_block_full by simp
    next
      case n: (Some n)
      obtain t F' where "free_block u s = Some (True, t)" "mem_inv hi t F' (us @ vs)"
        "map (ext t) (us @ vs) = map (ext s) (us @ vs)"
        using free_block_spec [OF inv [unfolded us] n F0] by blast
      then show thesis
        using that(2) [OF us su] fs Some by simp
    qed
  qed
qed

subsection \<open>\<open>MemInit\<close>\<close>

lemma slots_zero: "slots tbl n (\<lambda>_. zero_mbd) = {}"
  by (simp add: slots_def zero_mbd_def)

lemma get_unused_zero: "MemGetUnusedMBD tbl MBD_COUNT (\<lambda>_. zero_mbd) = Some (tbl 0)"
  by (simp add: MemGetUnusedMBD_def zero_mbd_def MBD_COUNT_def MBDT_LENGTH_def first_index_step)

lemma MemInit_spec:
  assumes "0x1001000 \<le> unat msize" "unat msize \<le> 2 ^ 32" "4096 dvd unat msize"
  shows "\<exists>s. MemInit msize mem_boot = Some s \<and> mem_inv (unat msize) s [Mbd 0] []"
proof -
  define d where "d = zero_mbd\<lparr>mbd_used := 1, mbd_start := ALLOC_START_ADDRESS,
    mbd_length := ucast (msize - 1) - ALLOC_START_ADDRESS + 1\<rparr>"
  define s where "s = mem_boot\<lparr>memory_limit := ucast (msize - 1), descs := (\<lambda>_. zero_mbd)(Mbd 0 := d),
    mbdt_head := Some (Mbd 0), mbdt_foot := Some (Mbd 0)\<rparr>"
  have i: "MemInit msize mem_boot = Some s"
    using get_unused_zero [of Mbd]
    by (simp add: MemInit_def append_free_def MemAppendMBD_def upd_mbd_def mem_boot_def s_def d_def zero_mbd_def)
  have m1: "unat (msize - 1) = unat msize - 1"
    using assms(1) by (subst unat_minus_le) simp_all
  have "unat (ucast (msize - 1) :: u32) = unat msize - 1"
    using assms(2) by (simp add: unsigned_ucast_eq m1 take_bit_nat_eq_self_iff)
  moreover have "unat (ucast (msize - 1) - ALLOC_START_ADDRESS :: u32) = unat msize - 1 - 0x1000000"
    using assms(1) calculation by (subst unat_minus_le) (simp_all add: ALLOC_START_ADDRESS_def)
  moreover from this have "unat (ucast (msize - 1) - ALLOC_START_ADDRESS + 1 :: u32) = unat msize - 0x1000000"
    using assms(1,2) by (subst unat_plus_if_lt) simp_all
  ultimately have e: "ext s (Mbd 0) = (mem_base, unat msize - mem_base)"
    by (simp add: ext_def s_def d_def mem_base_def ALLOC_START_ADDRESS_def)
  have "slots Mbd MBD_COUNT (descs s) = insert (Mbd 0) (slots Mbd MBD_COUNT (\<lambda>_. zero_mbd))"
    by (rule slots_insert [of _ Mbd 0]) (simp_all add: s_def d_def MBD_COUNT_def MBDT_LENGTH_def)
  then have "free_list s [Mbd 0]"
    unfolding slots_zero by (simp add: free_list_def mbd_list_def dlist_def s_def d_def zero_mbd_def)
  moreover have "slots Umbd MBD_COUNT (descs s) = {}"
    by (simp add: slots_def s_def zero_mbd_def)
  then have "used_list s []"
    by (simp add: used_list_def mbd_list_def s_def mem_boot_def)
  moreover have "4096 dvd (unat msize - mem_base)"
    using assms(3) by (intro dvd_diff_nat) (simp_all add: mem_base_def)
  then have "layout (unat msize) [(mem_base, unat msize - mem_base)]"
    using assms(1) by (auto simp: layout_def block_ok_def mem_base_def)
  moreover have "unat (mem_used s) = mem_base"
    by (simp add: s_def mem_boot_def mem_base_def)
  ultimately have "mem_inv (unat msize) s [Mbd 0] []"
    using assms(2) e by (simp add: mem_inv_def)
  with i show ?thesis by blast
qed

end
