(* ===== verification/Memory_Props.thy ===== *)
theory Memory_Props
  imports Memory_Proofs
begin

text \<open>
  What the kernel relies on of \<^verbatim>\<open>memory.c\<close>: an interface \<open>allocator\<close> with the laws of
  allocation and release over the set of live blocks, its interpretation on \<open>_MemAlloc\<close> and
  \<open>_MemFree\<close>, the properties of the public operations, and the two ways the code leaves the
  contract (a release when the free list is empty, an allocation of zero bytes).
\<close>

section \<open>The interface\<close>

locale allocator =
  fixes inv :: "'s \<Rightarrow> bool"
    and live :: "'s \<Rightarrow> block set"
    and ready :: "'s \<Rightarrow> bool"
    and legal :: "u32 \<Rightarrow> bool"
    and alloc :: "u32 \<Rightarrow> 's \<Rightarrow> (u32 \<times> 's) option"
    and free :: "u32 \<Rightarrow> 's \<Rightarrow> (bool \<times> 's) option"
  assumes live_disj: "inv s \<Longrightarrow> b \<in> live s \<Longrightarrow> c \<in> live s \<Longrightarrow> b \<noteq> c \<Longrightarrow> disj b c"
    and alloc_law: "inv s \<Longrightarrow> legal n \<Longrightarrow> \<exists>r s'. alloc n s = Some (r, s') \<and> inv s' \<and>
      (r = 0 \<and> live s' = live s \<or>
       r \<noteq> 0 \<and> (\<exists>l \<ge> unat n. (unat r, l) \<notin> live s \<and> live s' = insert (unat r, l) (live s)))"
    and free_law: "inv s \<Longrightarrow> ready s \<Longrightarrow> \<exists>ok s'. free p s = Some (ok, s') \<and> inv s' \<and>
      (if ok then \<exists>l. (unat p, l) \<in> live s \<and> live s' = live s - {(unat p, l)} else live s' = live s)"

datatype mem_op = OpAlloc u32 | OpFree u32

text \<open>A client's run of calls; it stops where \<open>ready\<close> fails before a release.\<close>

fun mem_run ::
  "('s \<Rightarrow> bool) \<Rightarrow> (u32 \<Rightarrow> 's \<Rightarrow> (u32 \<times> 's) option) \<Rightarrow> (u32 \<Rightarrow> 's \<Rightarrow> (bool \<times> 's) option) \<Rightarrow>
   mem_op list \<Rightarrow> 's \<Rightarrow> 's option" where
  "mem_run ready alloc free [] s = Some s"
| "mem_run ready alloc free (OpAlloc n # ops) s =
     (case alloc n s of None \<Rightarrow> None | Some (_, s') \<Rightarrow> mem_run ready alloc free ops s')"
| "mem_run ready alloc free (OpFree p # ops) s =
     (if ready s then (case free p s of None \<Rightarrow> None | Some (_, s') \<Rightarrow> mem_run ready alloc free ops s')
      else Some s)"

fun op_legal :: "(u32 \<Rightarrow> bool) \<Rightarrow> mem_op \<Rightarrow> bool" where
  "op_legal legal (OpAlloc n) = legal n"
| "op_legal legal (OpFree p) = True"

context allocator
begin

lemma run_inv:
  "inv s \<Longrightarrow> list_all (op_legal legal) ops \<Longrightarrow> \<exists>s'. mem_run ready alloc free ops s = Some s' \<and> inv s'"
proof (induction ops arbitrary: s)
  case (Cons op ops)
  show ?case
  proof (cases op)
    case (OpAlloc n)
    then obtain r s' where "alloc n s = Some (r, s')" "inv s'"
      using alloc_law [of s n] Cons.prems by auto
    then show ?thesis
      using Cons OpAlloc by simp
  next
    case (OpFree p)
    show ?thesis
    proof (cases "ready s")
      case True
      then obtain ok s' where "free p s = Some (ok, s')" "inv s'"
        using free_law [of s p] Cons.prems by auto
      then show ?thesis
        using Cons OpFree True by simp
    qed (use Cons.prems OpFree in simp)
  qed
qed simp

lemma run_live_disj:
  assumes "inv s" "list_all (op_legal legal) ops"
  shows "\<exists>s'. mem_run ready alloc free ops s = Some s' \<and>
    (\<forall>b \<in> live s'. \<forall>c \<in> live s'. b = c \<or> disj b c)"
  using run_inv [OF assms] live_disj by blast

end

section \<open>\<open>memory.c\<close> as an allocator\<close>

definition mem_ok :: "mem_state \<Rightarrow> bool" where
  "mem_ok s \<longleftrightarrow> (\<exists>hi F U. mem_inv hi s F U)"

definition live_blocks :: "mem_state \<Rightarrow> block set" where
  "live_blocks s = ext s ` slots Umbd MBD_COUNT (descs s)"

definition free_blocks :: "mem_state \<Rightarrow> block set" where
  "free_blocks s = ext s ` slots Mbd MBD_COUNT (descs s)"

definition mem_ready :: "mem_state \<Rightarrow> bool" where
  "mem_ready s \<longleftrightarrow> mbdt_head s \<noteq> None"

definition mem_legal :: "u32 \<Rightarrow> bool" where
  "mem_legal n \<longleftrightarrow> 0 < n \<and> unat n \<le> 0xFE000000"

lemma live_blocks_list: "mem_inv hi s F U \<Longrightarrow> live_blocks s = set (map (ext s) U)"
  by (simp add: mem_inv_def used_list_def live_blocks_def)

lemma free_blocks_list: "mem_inv hi s F U \<Longrightarrow> free_blocks s = set (map (ext s) F)"
  by (simp add: mem_inv_def free_list_def free_blocks_def)

lemma mem_ready_list: "mem_inv hi s F U \<Longrightarrow> mem_ready s \<longleftrightarrow> F \<noteq> []"
  by (auto simp: mem_inv_def free_list_def mem_ready_def mbd_list_def dlist_def)

lemma mem_inv_distinct: "mem_inv hi s F U \<Longrightarrow> distinct (map fst (map (ext s) F @ map (ext s) U))"
  using layout_distinct [of hi "map (ext s) F @ map (ext s) U"] unfolding mem_inv_def by blast

lemma distinct_fst_snoc: "distinct (map fst (xs @ [b])) \<Longrightarrow> b \<notin> set xs"
  by (auto simp: image_iff)

lemma live_in_layout:
  assumes "mem_inv hi s F U" "b \<in> live_blocks s" "c \<in> live_blocks s" "b \<noteq> c"
  shows "disj b c"
proof -
  have L: "layout hi (map (ext s) F @ map (ext s) U)"
    using assms(1) by (simp add: mem_inv_def)
  have "b \<in> set (map (ext s) U)" "c \<in> set (map (ext s) U)"
    using assms(2,3) live_blocks_list [OF assms(1)] by auto
  then obtain xs ys where "map (ext s) F @ map (ext s) U = xs @ b # ys" "c \<in> set (xs @ ys)"
    using split_list [of b "map (ext s) F @ map (ext s) U"] assms(4) by (metis Un_iff insert_iff list.set(2) set_append)
  then show ?thesis
    using L layout_disj by metis
qed

lemma MemAlign4KB_start: "mem_legal n \<Longrightarrow> unat ALLOC_START_ADDRESS + unat (MemAlign4KB n) < 2 ^ 32"
  using MemAlign4KB_spec(3) [of n] by (simp add: mem_legal_def ALLOC_START_ADDRESS_def)

text \<open>Both outcomes of an allocation, over the live blocks.\<close>

lemma alloc_u_live:
  assumes inv: "mem_inv hi s F U" and n: "0 < n" "unat n \<le> 0xFFFFF000"
    and ms: "unat m_start + unat (MemAlign4KB n) < 2 ^ 32"
  shows "\<exists>r s'. MemAllocWithStart_u m_start n s = Some (r, s') \<and>
    (r = 0 \<and> s' = s \<or> r \<noteq> 0 \<and> m_start \<le> r \<and> (\<exists>F' U'. mem_inv hi s' F' U') \<and>
       (unat r, unat (MemAlign4KB n)) \<notin> live_blocks s \<and>
       live_blocks s' = insert (unat r, unat (MemAlign4KB n)) (live_blocks s))"
proof (rule alloc_u_cases [OF inv n ms], goal_cases)
  case 1
  then show ?case by blast
next
  case (2 r s' F' U')
  let ?b = "(unat r, unat (MemAlign4KB n))"
  have live': "live_blocks s' = insert ?b (live_blocks s)"
    using live_blocks_list [OF 2(3)] live_blocks_list [OF inv] 2(4) by auto
  have "distinct (map fst (map (ext s) U @ [?b]))"
    using mem_inv_distinct [OF 2(3)] unfolding 2(4) [symmetric] by simp
  then have "?b \<notin> live_blocks s"
    using distinct_fst_snoc live_blocks_list [OF inv] by metis
  moreover have "?b \<in> set (map (ext s') F' @ map (ext s') U')"
    by (simp only: 2(4) set_append list.set) simp
  then have "block_ok hi ?b"
    using 2(3) layout_block_ok unfolding mem_inv_def by blast
  then have "r \<noteq> 0"
    by (auto simp: block_ok_def mem_base_def)
  ultimately show ?case
    using 2 live' by blast
qed

lemma free_u_live:
  assumes inv: "mem_inv hi s F U" and F: "F \<noteq> []"
  shows "\<exists>ok s'. MemFree_u p s = Some (ok, s') \<and> (\<exists>F' U'. mem_inv hi s' F' U') \<and>
    (if ok then \<exists>l. (unat p, l) \<in> live_blocks s \<and> live_blocks s' = live_blocks s - {(unat p, l)}
     else s' = s)"
proof (rule free_u_cases [OF inv F, of p], goal_cases)
  case 1
  then show ?case using inv by auto
next
  case (2 us u vs t F')
  have e: "ext s u = (unat p, snd (ext s u))"
    using 2(2) by (simp add: ext_def)
  have d: "distinct (map fst (map (ext s) U))"
    using mem_inv_distinct [OF inv] by simp
  have "live_blocks t = set (map (ext s) (us @ vs))"
    using live_blocks_list [OF 2(4)] 2(5) by simp
  moreover have "live_blocks s = insert (ext s u) (set (map (ext s) (us @ vs)))"
    using live_blocks_list [OF inv] 2(1) by auto
  moreover have "ext s u \<notin> set (map (ext s) (us @ vs))"
    using d 2(1) by (auto simp: image_iff)
  ultimately have "live_blocks t = live_blocks s - {ext s u}" "ext s u \<in> live_blocks s"
    by auto
  then show ?case
    using 2 e by (metis (full_types))
qed

interpretation mem: allocator mem_ok live_blocks mem_ready mem_legal MemAlloc_u MemFree_u
proof
  show "disj b c" if "mem_ok s" "b \<in> live_blocks s" "c \<in> live_blocks s" "b \<noteq> c" for s b c
    using that live_in_layout unfolding mem_ok_def by blast
next
  fix s n assume a: "mem_ok s" "mem_legal n"
  then have n: "0 < n" "unat n \<le> 0xFFFFF000"
    by (simp_all add: mem_legal_def)
  from a obtain hi F U where inv: "mem_inv hi s F U"
    by (auto simp: mem_ok_def)
  from alloc_u_live [OF inv n MemAlign4KB_start [OF a(2)]]
  obtain r s' where r: "MemAlloc_u n s = Some (r, s')"
    and c: "r = 0 \<and> s' = s \<or> r \<noteq> 0 \<and> (\<exists>F' U'. mem_inv hi s' F' U') \<and>
      (unat r, unat (MemAlign4KB n)) \<notin> live_blocks s \<and>
      live_blocks s' = insert (unat r, unat (MemAlign4KB n)) (live_blocks s)"
    unfolding MemAlloc_u_def by blast
  have le: "unat n \<le> unat (MemAlign4KB n)"
    using MemAlign4KB_spec(2) [OF n(2)] .
  show "\<exists>r s'. MemAlloc_u n s = Some (r, s') \<and> mem_ok s' \<and>
      (r = 0 \<and> live_blocks s' = live_blocks s \<or>
       r \<noteq> 0 \<and> (\<exists>l \<ge> unat n. (unat r, l) \<notin> live_blocks s \<and> live_blocks s' = insert (unat r, l) (live_blocks s)))"
    using r c a(1) le unfolding mem_ok_def by blast
next
  fix s p assume a: "mem_ok s" "mem_ready s"
  then obtain hi F U where inv: "mem_inv hi s F U" and F: "F \<noteq> []"
    using mem_ready_list by (auto simp: mem_ok_def)
  from free_u_live [OF this, of p]
  show "\<exists>ok s'. MemFree_u p s = Some (ok, s') \<and> mem_ok s' \<and>
      (if ok then \<exists>l. (unat p, l) \<in> live_blocks s \<and> live_blocks s' = live_blocks s - {(unat p, l)}
       else live_blocks s' = live_blocks s)"
    unfolding mem_ok_def by (metis (full_types))
qed

section \<open>Properties\<close>

lemma MemAlloc_logged_nz: "MemAlloc_u n s = Some (r, s') \<Longrightarrow> r \<noteq> 0 \<Longrightarrow> MemAlloc_logged n s = Some (r, s')"
  by (simp add: MemAlloc_logged_def)

lemma mem_inv_log [simp]: "mem_inv hi (s\<lparr>mem_log := l\<rparr>) F U = mem_inv hi s F U"
  by (simp add: mem_inv_def free_list_def used_list_def ext_def [abs_def])

lemma live_blocks_log [simp]: "live_blocks (s\<lparr>mem_log := l\<rparr>) = live_blocks s"
  by (simp add: live_blocks_def ext_def [abs_def])

lemma alloc_logged_live:
  assumes inv: "mem_inv hi s F U" and n: "mem_legal n"
  shows "\<exists>r s'. MemAlloc_logged n s = Some (r, s') \<and> (\<exists>F' U'. mem_inv hi s' F' U') \<and>
    (if r = 0 then live_blocks s' = live_blocks s
     else block_ok hi (unat r, unat (MemAlign4KB n)) \<and> (\<forall>b \<in> live_blocks s. disj (unat r, unat (MemAlign4KB n)) b) \<and>
       live_blocks s' = insert (unat r, unat (MemAlign4KB n)) (live_blocks s))"
proof -
  let ?b = "\<lambda>r :: u32. (unat r, unat (MemAlign4KB n))"
  obtain r s' where r: "MemAlloc_u n s = Some (r, s')"
    and c: "r = 0 \<and> s' = s \<or> r \<noteq> 0 \<and> (\<exists>F' U'. mem_inv hi s' F' U') \<and> ?b r \<notin> live_blocks s \<and>
      live_blocks s' = insert (?b r) (live_blocks s)"
    using alloc_u_live [OF inv _ _ MemAlign4KB_start [OF n]] n unfolding MemAlloc_u_def mem_legal_def by force
  show ?thesis
  proof (cases "r = 0")
    case True
    then have "MemAlloc_logged n s = Some (0, s\<lparr>mem_log := mem_log s @ [CannotAllocate n]\<rparr>)"
      using r c by (simp add: MemAlloc_logged_def)
    moreover have "mem_inv hi (s\<lparr>mem_log := mem_log s @ [CannotAllocate n]\<rparr>) F U"
      using inv by simp
    ultimately show ?thesis
      by (intro exI [of _ 0] exI [of _ "s\<lparr>mem_log := mem_log s @ [CannotAllocate n]\<rparr>"]) (auto intro: exI [of _ F] exI [of _ U])
  next
    case False
    then obtain F' U' where inv': "mem_inv hi s' F' U'" and l: "?b r \<notin> live_blocks s" "live_blocks s' = insert (?b r) (live_blocks s)"
      using c by blast
    have "?b r \<in> set (map (ext s') F' @ map (ext s') U')"
      using live_blocks_list [OF inv'] l(2) by auto
    then have "block_ok hi (?b r)"
      using inv' layout_block_ok unfolding mem_inv_def by blast
    moreover have "disj (?b r) b" if "b \<in> live_blocks s" for b
      using live_in_layout [OF inv', of "?b r" b] l that by auto
    ultimately show ?thesis
      using False inv' l(2) MemAlloc_logged_nz [OF r] by auto
  qed
qed

text \<open>A machine to instantiate the properties with: 32 MB, freshly booted.\<close>

definition mem32 :: mem_state where "mem32 = the (MemInit 0x2000000 mem_boot)"

lemma first_index_here: "i < n \<Longrightarrow> P i \<Longrightarrow> first_index P i n = Some i"
  and first_index_next: "i < n \<Longrightarrow> \<not> P i \<Longrightarrow> first_index P i n = first_index P (Suc i) n"
  by (subst first_index_step; simp)+

lemmas mem_eval = first_index_here first_index_next MBD_COUNT_def UMBD_COUNT_def MBDT_LENGTH_def
  mem_boot_def zero_mbd_def ALLOC_START_ADDRESS_def MemInit_def MemGetUnusedMBD_def MemAppendMBD_def MemRemoveMBD_def
  append_free_def append_used_def remove_free_def remove_used_def upd_mbd_def MemAlign4KB_def MemAlloc_u_def
  MemAllocWithStart_u_def alloc_search.simps alloc_from_start_def alloc_from_end_def MemFree_u_def free_search.simps
  free_block_def free_merge.simps Let_def

lemma mem32_inv: "mem_inv 0x2000000 mem32 [Mbd 0] []"
  using MemInit_spec [of "0x2000000"] by (auto simp: mem32_def dvd_eq_mod_eq_0)

lemma mem32_live: "live_blocks mem32 = {}"
  using live_blocks_list [OF mem32_inv] by simp

definition cpu0 :: lock_state where "cpu0 = \<lparr>lock_level = 0, irq_on = True, lk_errors = 0\<rparr>"

text \<open>C1: \<open>MemAllocWithStart\<close> on a well-formed allocator, for a length from 1 to FFFFF000H and a start such that
  the start and the rounded length add up to less than \<open>2 ^ 32\<close>, either returns NULL and changes nothing,
  or returns a 4 KB-aligned address at or above \<open>m_start\<close> of a block, rounded up to 4 KB, that
  overlaps no live block; the allocator stays well-formed, that block is exactly what becomes
  live, and the lock is released as it was taken.\<close>

theorem MemAllocWithStart_fresh:
  assumes inv: "mem_inv hi s F U" and n: "0 < n" "unat n \<le> 0xFFFFF000"
    and ms: "unat m_start + unat (MemAlign4KB n) < 2 ^ 32"
  shows "\<exists>r s'. MemAllocWithStart m_start n (k, s) = Some (r, lk_unlock (mem_lock_state s) (lk_lock (mem_lock_state s) k), s') \<and>
    (r = 0 \<and> s' = s \<or>
     r \<noteq> 0 \<and> m_start \<le> r \<and> 4096 dvd unat r \<and> (\<exists>F' U'. mem_inv hi s' F' U') \<and>
     (\<forall>b \<in> live_blocks s. disj (unat r, unat (MemAlign4KB n)) b) \<and>
     live_blocks s' = insert (unat r, unat (MemAlign4KB n)) (live_blocks s))"
proof -
  let ?b = "\<lambda>r :: u32. (unat r, unat (MemAlign4KB n))"
  obtain r s' where r: "MemAllocWithStart_u m_start n s = Some (r, s')"
    and c: "r = 0 \<and> s' = s \<or> r \<noteq> 0 \<and> m_start \<le> r \<and> (\<exists>F' U'. mem_inv hi s' F' U') \<and>
      ?b r \<notin> live_blocks s \<and> live_blocks s' = insert (?b r) (live_blocks s)"
    using alloc_u_live [OF inv n ms] by blast
  have "4096 dvd unat r \<and> (\<forall>b \<in> live_blocks s. disj (?b r) b)" if "r \<noteq> 0"
  proof -
    obtain F' U' where inv': "mem_inv hi s' F' U'" and l: "live_blocks s' = insert (?b r) (live_blocks s)"
      "?b r \<notin> live_blocks s"
      using c \<open>r \<noteq> 0\<close> by blast
    have "?b r \<in> set (map (ext s') F' @ map (ext s') U')"
      using live_blocks_list [OF inv'] l(1) by auto
    then have "block_ok hi (?b r)"
      using inv' layout_block_ok unfolding mem_inv_def by blast
    moreover have "disj (?b r) b" if "b \<in> live_blocks s" for b
      using live_in_layout [OF inv', of "?b r" b] l that by auto
    ultimately show ?thesis
      by (simp add: block_ok_def)
  qed
  then show ?thesis
    using r c by (auto simp: MemAllocWithStart_def locked_def)
qed

theorem MemAllocWithStart_fresh_witness:
  "\<exists>r s'. MemAllocWithStart 0x1800000 5000 (cpu0, mem32) = Some (r, lk_unlock (mem_lock_state mem32) (lk_lock (mem_lock_state mem32) cpu0), s') \<and>
    (r = 0 \<and> s' = mem32 \<or> r \<noteq> 0 \<and> 0x1800000 \<le> r \<and> live_blocks s' = {(unat r, 8192)})"
  using MemAllocWithStart_fresh [OF mem32_inv, of 5000 "0x1800000" cpu0] mem32_live
  by (auto simp: MemAlign4KB_def)

text \<open>C3: \<open>_MemAlloc\<close> succeeds whenever some free block is large enough for the rounded size
  and an unused \<open>UMBDT\<close> slot is left.\<close>

theorem MemAlloc_succeeds:
  assumes inv: "mem_inv hi s F U" and n: "mem_legal n"
    and b: "b \<in> free_blocks s" "unat (MemAlign4KB n) \<le> snd b"
    and slot: "i < MBD_COUNT" "mbd_used (descs s (Umbd i)) = 0"
  shows "\<exists>r s'. MemAlloc_u n s = Some (r, s') \<and> r \<noteq> 0"
proof -
  have n': "0 < n" "unat n \<le> 0xFFFFF000"
    using n by (simp_all add: mem_legal_def)
  obtain p where p: "p \<in> set F" "b = ext s p"
    using b(1) free_blocks_list [OF inv] by auto
  have "fits s ALLOC_START_ADDRESS (MemAlign4KB n) p"
    using b(2) p(2) mem_inv_block(1) [OF inv, of p] p(1)
    by (auto simp: fits_def ext_def word_le_nat_alt block_ok_def mem_base_def ALLOC_START_ADDRESS_def)
  then have 1: "find (fits s ALLOC_START_ADDRESS (MemAlign4KB n)) (rev F) \<noteq> None"
    using p(1) by (auto simp: find_None_iff)
  have 2: "MemGetUnusedMBD Umbd MBD_COUNT (descs s) \<noteq> None"
    using first_index_ex [of 0 i MBD_COUNT "\<lambda>ui. mbd_used (descs s (Umbd ui)) = 0"] slot
    by (auto simp: MemGetUnusedMBD_def)
  show ?thesis
  proof (rule alloc_u_cases [OF inv n' MemAlign4KB_start [OF n]], goal_cases)
    case a: 1
    show ?case using a(2) 1 2 by simp
  next
    case (2 r s' F' U')
    have "ALLOC_START_ADDRESS \<le> 0" if "r = 0"
      using 2(2) that by simp
    then have "r \<noteq> 0"
      by (auto simp: ALLOC_START_ADDRESS_def)
    with 2(1) show ?case
      by (auto simp: MemAlloc_u_def)
  qed
qed

theorem MemAlloc_succeeds_witness: "\<exists>r s'. MemAlloc_u 0xFFF000 mem32 = Some (r, s') \<and> r \<noteq> 0"
proof (rule MemAlloc_succeeds [OF mem32_inv])
  have d: "descs mem32 (Mbd 0) = \<lparr>mbd_used = 1, mbd_start = 0x1000000, mbd_length = 0x1000000, mbd_prev = None, mbd_next = None\<rparr>"
      "descs mem32 (Umbd 0) = zero_mbd"
    by (simp_all add: mem32_def mem_eval)
  show "(0x1000000, 0x1000000) \<in> free_blocks mem32"
    using free_blocks_list [OF mem32_inv] by (simp add: ext_def d)
  show "mbd_used (descs mem32 (Umbd 0)) = 0"
    by (simp add: d zero_mbd_def)
qed (simp_all add: mem_legal_def MemAlign4KB_def MBD_COUNT_def MBDT_LENGTH_def)

lemma free_releases:
  assumes inv: "mem_inv hi s F U" and F: "F \<noteq> []" and b: "(unat p, l) \<in> live_blocks s"
    and slot: "i < MBD_COUNT" "mbd_used (descs s (Mbd i)) = 0"
  shows "\<exists>s' F' U'. MemFree_logged p s = Some (True, s') \<and>
    mem_inv hi s' F' U' \<and> live_blocks s' = live_blocks s - {(unat p, l)} \<and>
    unat (MemGetUsedLength s') + l = unat (MemGetUsedLength s)"
proof -
  have nf: "\<not> ((\<forall>q \<in> set U. mbd_start (descs s q) \<noteq> p) \<or> MemGetUnusedMBD Mbd MBD_COUNT (descs s) = None)"
    using b live_blocks_list [OF inv] slot first_index_ex [of 0 i MBD_COUNT "\<lambda>ui. mbd_used (descs s (Mbd ui)) = 0"]
    by (fastforce simp: ext_def MemGetUnusedMBD_def word_unat_eq_iff)
  show ?thesis
  proof (rule free_u_cases [OF inv F, of p], goal_cases)
    case 1
    then show ?case using nf by blast
  next
    case (2 us u vs t F')
    have e: "ext s u = (unat p, snd (ext s u))"
      using 2(2) by (simp add: ext_def)
    have d: "distinct (map fst (map (ext s) U))"
      using mem_inv_distinct [OF inv] by simp
    have lt: "live_blocks t = set (map (ext s) (us @ vs))"
      using live_blocks_list [OF 2(4)] 2(5) by simp
    have ls: "live_blocks s = insert (ext s u) (set (map (ext s) (us @ vs)))"
      using live_blocks_list [OF inv] 2(1) by auto
    have un: "fst (ext s u) \<notin> fst ` set (map (ext s) (us @ vs))"
      using d 2(1) by (auto simp: image_iff)
    have l: "ext s u = (unat p, l)"
      using b un e unfolding ls by (metis fst_conv image_eqI insertE)
    have "live_blocks t = live_blocks s - {(unat p, l)}"
    proof -
      have "(unat p, l) \<notin> set (map (ext s) (us @ vs))"
        using un imageI [of "(unat p, l)" "set (map (ext s) (us @ vs))" fst] unfolding l by blast
      then show ?thesis
        using lt ls l by (simp only:) blast
    qed
    moreover have "unat (mem_used t) + l = unat (mem_used s)"
    proof -
      have "map (snd \<circ> ext t) (us @ vs) = map (snd \<circ> ext s) (us @ vs)"
        using 2(5) by (simp only: map_map [symmetric])
      moreover have "unat (mem_used s) = mem_base + (sum_list (map (snd \<circ> ext s) (us @ vs)) + l)"
        using inv l unfolding mem_inv_def 2(1) by simp
      moreover have "unat (mem_used t) = mem_base + sum_list (map (snd \<circ> ext t) (us @ vs))"
        using 2(4) unfolding mem_inv_def by blast
      ultimately show ?thesis
        by (simp only:)
    qed
    ultimately show ?case
      using 2(3,4) by (auto simp: MemFree_logged_def MemGetUsedLength_def)
  qed
qed

text \<open>C4: \<open>MemFree\<close> of a live block, with a free list that is not empty and an unused \<open>MBDT\<close>
  slot, succeeds: exactly that block stops being live, the byte count drops by its length, the
  allocator stays well-formed.\<close>

theorem MemFree_releases:
  assumes inv: "mem_inv hi s F U" and F: "F \<noteq> []" and b: "(unat p, l) \<in> live_blocks s"
    and slot: "i < MBD_COUNT" "mbd_used (descs s (Mbd i)) = 0"
  shows "\<exists>s' F' U'. MemFree p (k, s) = Some (True, lk_unlock (mem_lock_state s) (lk_lock (mem_lock_state s) k), s') \<and>
    mem_inv hi s' F' U' \<and> live_blocks s' = live_blocks s - {(unat p, l)} \<and>
    unat (MemGetUsedLength s') + l = unat (MemGetUsedLength s)"
  using free_releases [OF assms] by (fastforce simp: MemFree_def locked_def)

text \<open>\<open>_MemGetBlockSise\<close> of a well-formed allocator returns the length of the live block at
  that address, and 0 where no live block begins there.\<close>

theorem MemGetBlockSise_length:
  assumes inv: "mem_inv hi s F U"
  shows "\<exists>n. MemGetBlockSise_u p s = Some (n, s) \<and>
    ((unat p, unat n) \<in> live_blocks s \<and> n \<noteq> 0 \<or> n = 0 \<and> unat p \<notin> fst ` live_blocks s)"
proof -
  have l: "mbd_list (descs s) (umbdt_head s) (umbdt_foot s) ([] @ U)" and h: "umbdt_head s = opt_hd U"
    using inv by (auto simp: mem_inv_def used_list_def mbd_list_def dlist_def)
  note bs = block_size_find [OF l, of p]
  show ?thesis
  proof (cases "find (\<lambda>q. mbd_start (descs s q) = p) U")
    case None
    then have "\<forall>q \<in> set U. unat (mbd_start (descs s q)) \<noteq> unat p"
      by (auto simp: find_None_iff word_unat_eq_iff)
    then have "unat p \<notin> fst ` live_blocks s"
      unfolding live_blocks_list [OF inv] by (auto simp: ext_def)
    then show ?thesis
      using bs None h by (simp add: MemGetBlockSise_u_def)
  next
    case (Some q)
    then have q: "q \<in> set U" "mbd_start (descs s q) = p"
      by (auto simp: find_Some_iff)
    have "block_ok hi (ext s q)"
      using mem_inv_block(1) [OF inv] q(1) by blast
    moreover have "(unat p, unat (mbd_length (descs s q))) \<in> live_blocks s"
      using q unfolding live_blocks_list [OF inv] by (auto simp: ext_def)
    ultimately show ?thesis
      using bs Some h by (auto simp: MemGetBlockSise_u_def ext_def block_ok_def)
  qed
qed

lemma boot_size:
  assumes "0 < bx" "bx \<le> 0xFF00"
  shows "unat (get_memory_size 0x3C00 bx) = 0x1000000 + unat bx * 65536"
proof -
  have b: "0 < unat bx" "unat bx \<le> 0xFF00"
    using assms by (simp_all add: word_less_nat_alt word_le_nat_alt)
  have u: "unat (ucast bx :: u64) = unat bx"
    using b(2) by (simp add: unsigned_ucast_eq take_bit_nat_eq_self_iff)
  have "unat ((ucast bx :: u64) * 64) = unat bx * 64"
    using b u by (subst unat_mult_lem [THEN iffD1]) simp_all
  then have v: "unat ((ucast bx :: u64) * 64 * 1024) = unat bx * 65536"
    using b by (subst unat_mult_lem [THEN iffD1]) simp_all
  have e: "get_memory_size 0x3C00 bx = 0x1000000 + (ucast bx * 64 * 1024)"
    by (simp add: get_memory_size_def)
  show ?thesis
    unfolding e using b v by (subst unat_plus_if_lt) simp_all
qed

lemma MemInit_boot:
  assumes "0 < bx" "bx \<le> 0xFF00"
  shows "\<exists>s. MemInit (get_memory_size 0x3C00 bx) mem_boot = Some s \<and>
    mem_inv (0x1000000 + unat bx * 65536) s [Mbd 0] []"
proof -
  have "unat bx \<noteq> 0" "unat bx \<le> 0xFF00"
    using assms by (simp_all add: word_less_nat_alt word_le_nat_alt)
  moreover have "4096 dvd 0x1000000 + unat bx * 65536"
    by (intro dvd_add dvd_mult) (simp_all add: dvd_eq_mod_eq_0)
  ultimately show ?thesis
    using MemInit_spec [of "get_memory_size 0x3C00 bx"] unfolding boot_size [OF assms] by simp
qed

text \<open>\<open>MemInit\<close> on a machine whose loader reports \<open>bx\<close> blocks of 64 KB above 16 MB builds
  a well-formed allocator with nothing live.\<close>

theorem MemInit_wf:
  assumes "0 < bx" "bx \<le> 0xFF00"
  shows "\<exists>s. MemInit (get_memory_size 0x3C00 bx) mem_boot = Some s \<and>
    (\<exists>F. mem_inv (0x1000000 + unat bx * 65536) s F []) \<and> live_blocks s = {} \<and> MemGetUsedLength s = 0x1000000"
proof -
  obtain s where s: "MemInit (get_memory_size 0x3C00 bx) mem_boot = Some s"
    "mem_inv (0x1000000 + unat bx * 65536) s [Mbd 0] []"
    using MemInit_boot [OF assms] by blast
  then have "live_blocks s = {}" "unat (mem_used s) = mem_base"
    using live_blocks_list [OF s(2)] by (simp_all add: mem_inv_def)
  moreover from this have "mem_used s = 0x1000000"
    by (simp add: mem_base_def word_unat_eq_iff)
  ultimately show ?thesis
    using s by (auto simp: MemGetUsedLength_def)
qed

theorem MemInit_wf_witness:
  "\<exists>s. MemInit (get_memory_size 0x3C00 0x700) mem_boot = Some s \<and> live_blocks s = {}"
  using MemInit_wf [of "0x700"] by auto

text \<open>C2: From boot on, any sequence of legal \<open>_MemAlloc\<close> and \<open>_MemFree\<close> calls (as long as the
  free list is not empty when a block is released) runs without a NULL dereference and keeps any
  two live blocks disjoint.\<close>

theorem mem_run_disjoint:
  assumes "MemInit (get_memory_size 0x3C00 bx) mem_boot = Some s" "0 < bx" "bx \<le> 0xFF00"
    and "list_all (op_legal mem_legal) ops"
  shows "\<exists>s'. mem_run mem_ready MemAlloc_u MemFree_u ops s = Some s' \<and>
    (\<forall>b \<in> live_blocks s'. \<forall>c \<in> live_blocks s'. b = c \<or> disj b c)"
proof (rule mem.run_live_disj)
  show "mem_ok s"
    using assms(1) MemInit_boot [OF assms(2,3)] by (auto simp: mem_ok_def)
qed (rule assms(4))

theorem mem_run_disjoint_witness:
  "\<exists>s s'. MemInit (get_memory_size 0x3C00 0x700) mem_boot = Some s \<and>
     mem_run mem_ready MemAlloc_u MemFree_u [OpAlloc 100, OpAlloc 8192, OpFree 0x1000000, OpAlloc 1] s = Some s' \<and>
     (\<forall>b \<in> live_blocks s'. \<forall>c \<in> live_blocks s'. b = c \<or> disj b c)"
proof -
  obtain s where s: "MemInit (get_memory_size 0x3C00 0x700) mem_boot = Some s"
    using MemInit_boot [of "0x700"] by auto
  from mem_run_disjoint [OF s, of "[OpAlloc 100, OpAlloc 8192, OpFree 0x1000000, OpAlloc 1]"]
  have "\<exists>s'. mem_run mem_ready MemAlloc_u MemFree_u [OpAlloc 100, OpAlloc 8192, OpFree 0x1000000, OpAlloc 1] s = Some s' \<and>
     (\<forall>b \<in> live_blocks s'. \<forall>c \<in> live_blocks s'. b = c \<or> disj b c)"
    by (simp add: mem_legal_def)
  with s show ?thesis by blast
qed

theorem MemFree_releases_witness:
  "\<exists>r s s'. MemAlloc_u 4096 mem32 = Some (r, s) \<and> (unat r, 4096) \<in> live_blocks s \<and>
     MemFree r (cpu0, s) = Some (True, cpu0, s') \<and> live_blocks s' = {}"
proof -
  obtain s where a: "MemAlloc_u 4096 mem32 = Some (0x1000000, s)"
    and h: "mbdt_head s = Some (Mbd 0)" "mbd_used (descs s (Mbd 1)) = 0" "mem_lock_state s = False"
    by (simp add: mem32_def mem_eval)
  obtain F U where inv: "mem_inv 0x2000000 s F U" and live: "live_blocks s = {(0x1000000, 4096)}"
    using alloc_u_live [OF mem32_inv, of 4096 ALLOC_START_ADDRESS] a mem32_live
    by (auto simp: MemAlloc_u_def MemAlign4KB_def ALLOC_START_ADDRESS_def)
  have F: "F \<noteq> []"
    using mem_ready_list [OF inv] h by (simp add: mem_ready_def)
  have "(unat (0x1000000 :: u32), 4096) \<in> live_blocks s" "1 < MBD_COUNT"
    by (simp_all add: live MBD_COUNT_def MBDT_LENGTH_def)
  from MemFree_releases [OF inv F this h(2), of cpu0]
  have "\<exists>s'. MemFree 0x1000000 (cpu0, s) = Some (True, cpu0, s') \<and> live_blocks s' = {}"
    by (auto simp: live h(3) lk_unlock_def lk_lock_def)
  with a live show ?thesis by force
qed

theorem MemGetBlockSise_length_witness:
  "\<exists>n. MemGetBlockSise_u 0x1000000 mem32 = Some (n, mem32) \<and> n = 0"
  using MemGetBlockSise_length [OF mem32_inv, of "0x1000000"] mem32_live by auto

text \<open>Once the free list is empty, a release corrupts it: \<open>_MemFree\<close> leaves the used list's
  links in the copied descriptor, and the next \<open>_MemAlloc\<close> walks from the free list into the
  used list and hands out the address of a block that is still allocated.\<close>

theorem double_allocation:
  "do { s \<leftarrow> MemInit 0x1004000 mem_boot; (a, s) \<leftarrow> MemAlloc_u 12288 s; (b, s) \<leftarrow> MemAlloc_u 4096 s;
        (ok, s) \<leftarrow> MemFree_u b s; (c, s) \<leftarrow> MemAlloc_u 8192 s; Some (a, b, ok, c) } =
   Some (0x1000000, 0x1003000, True, 0x1000000)"
  by (simp add: mem_eval)

text \<open>\<open>_MemAlloc\<close> of zero bytes, and of a size that \<open>_MemAlign4KB\<close> wraps to zero, does not
  return NULL: it returns an address that the next allocation returns again.\<close>

theorem alloc_zero_aliases:
  "do { s \<leftarrow> MemInit 0x1004000 mem_boot; (a, s) \<leftarrow> MemAlloc_u 0 s; (b, s) \<leftarrow> MemAlloc_u 0xFFFFFFFF s;
        (c, s) \<leftarrow> MemAlloc_u 4096 s; Some (a, b, c) } =
   Some (0x1000000, 0x1000000, 0x1000000)"
  by (simp add: mem_eval)

end
