(* ===== verification/Linked_List.thy ===== *)
theory Linked_List
  imports Dll
begin

text \<open>
  \<^verbatim>\<open>libs/dslib/linked_list.c\<close> and \<^verbatim>\<open>value.c\<close>: doubly linked lists whose nodes are caller
  objects.  The store maps addresses to nodes and list headers; \<open>dsl_malloc\<close> and
  \<open>dsl_free\<close> are the client's (\<open>dsl_init\<close> installs them), so the answers of the allocator
  are an input of the model and the freed addresses an output.  A \<open>count\<close> is an \<^typ>\<open>int\<close>:
  the C code's \<open>int32\<close> as long as a list has fewer than \<open>2\<^sup>3\<^sup>1\<close> nodes.
\<close>

section \<open>State\<close>

type_synonym addr = nat

datatype dsl_value =
    VInt8 u8 | VInt16 u16 | VInt32 u32 | VInt64 u64
  | VUint8 u8 | VUint16 u16 | VUint32 u32 | VUint64 u64
  | VFloat u32 | VDouble u64 | VObject "addr option" | VBool bool

record lnode =
  n_value :: dsl_value
  n_prev :: "addr option"
  n_next :: "addr option"

record lnklst =
  l_head :: "addr option"
  l_foot :: "addr option"
  l_count :: int

record dsl =
  lnodes :: "addr \<Rightarrow> lnode"
  lnklsts :: "addr \<Rightarrow> lnklst"
  freed :: "addr list"            \<comment> \<open>the arguments of \<open>dsl_free\<close>, in order\<close>
  answers :: "addr option list"   \<comment> \<open>what \<open>dsl_malloc\<close> will answer\<close>

definition dsl_malloc :: "'a dsl_scheme \<Rightarrow> addr option \<times> 'a dsl_scheme" where
  "dsl_malloc s = (case answers s of [] \<Rightarrow> (None, s) | a # as \<Rightarrow> (a, s\<lparr>answers := as\<rparr>))"

definition dsl_free :: "addr \<Rightarrow> 'a dsl_scheme \<Rightarrow> 'a dsl_scheme" where
  "dsl_free a s = s\<lparr>freed := freed s @ [a]\<rparr>"

definition set_node :: "addr \<Rightarrow> (lnode \<Rightarrow> lnode) \<Rightarrow> 'a dsl_scheme \<Rightarrow> 'a dsl_scheme" where
  "set_node a f s = s\<lparr>lnodes := (lnodes s)(a := f (lnodes s a))\<rparr>"

definition set_list :: "addr \<Rightarrow> (lnklst \<Rightarrow> lnklst) \<Rightarrow> 'a dsl_scheme \<Rightarrow> 'a dsl_scheme" where
  "set_list a f s = s\<lparr>lnklsts := (lnklsts s)(a := f (lnklsts s a))\<rparr>"

section \<open>Operations\<close>

text \<open>
  The twelve \<open>dsl_lnklst_new_XXX_node\<close> of the macro \<open>DSL_LNKLST_NEW_XXX_NODE\<close>: one function,
  the type tag being the constructor of the value.  The links of the new node are whatever the
  allocated memory held.
\<close>

definition dsl_lnklst_new_node :: "dsl_value \<Rightarrow> 'a dsl_scheme \<Rightarrow> addr option \<times> 'a dsl_scheme" where
  "dsl_lnklst_new_node v s =
     (case dsl_malloc s of
        (None, s) \<Rightarrow> (None, s)
      | (Some n, s) \<Rightarrow> (Some n, set_node n (\<lambda>d. d\<lparr>n_value := v\<rparr>) s))"

definition dsl_lnklst_init :: "addr option \<Rightarrow> 'a dsl_scheme \<Rightarrow> 'a dsl_scheme" where
  "dsl_lnklst_init list s =
     (case list of
        None \<Rightarrow> s
      | Some l \<Rightarrow> set_list l (\<lambda>d. d\<lparr>l_head := None, l_foot := None, l_count := 0\<rparr>) s)"

definition dsl_lnklst_release :: "addr option \<Rightarrow> bool" where
  "dsl_lnklst_release list = (list \<noteq> None)"

definition dsl_lnklst_new :: "'a dsl_scheme \<Rightarrow> addr option \<times> 'a dsl_scheme" where
  "dsl_lnklst_new s =
     (case dsl_malloc s of
        (None, s) \<Rightarrow> (None, s)
      | (Some l, s) \<Rightarrow> (Some l, dsl_lnklst_init (Some l) s))"

text \<open>\<open>dsl_lnklst_free\<close> calls \<open>dsl_lnklst_release\<close>, which does nothing: no memory is freed.\<close>

definition dsl_lnklst_free :: "addr option \<Rightarrow> 'a dsl_scheme \<Rightarrow> bool \<times> 'a dsl_scheme" where
  "dsl_lnklst_free list s = (if list = None then (False, s) else (True, s))"

definition dsl_lnklst_add_node ::
  "addr option \<Rightarrow> addr option \<Rightarrow> 'a dsl_scheme \<Rightarrow> bool \<times> 'a dsl_scheme" where
  "dsl_lnklst_add_node list node s =
     (case (list, node) of
        (Some l, Some n) \<Rightarrow>
          (case (l_head (lnklsts s l), l_foot (lnklsts s l)) of
             (None, None) \<Rightarrow>
               (True, set_list l (\<lambda>d. d\<lparr>l_count := l_count d + 1\<rparr>)
                 (set_node n (\<lambda>d. d\<lparr>n_prev := None, n_next := None\<rparr>)
                 (set_list l (\<lambda>d. d\<lparr>l_head := Some n, l_foot := Some n\<rparr>) s)))
           | (Some h, Some f) \<Rightarrow>
               (True, set_list l (\<lambda>d. d\<lparr>l_foot := Some n, l_count := l_count d + 1\<rparr>)
                 (set_node n (\<lambda>d. d\<lparr>n_prev := Some f, n_next := None\<rparr>)
                 (set_node f (\<lambda>d. d\<lparr>n_next := Some n\<rparr>) s)))
           | _ \<Rightarrow> (False, s))
      | _ \<Rightarrow> (False, s))"

text \<open>\<^const>\<open>None\<close> where a NULL \<open>prev\<close> or \<open>next\<close> is dereferenced.\<close>

definition dsl_lnklst_remove_node ::
  "addr option \<Rightarrow> addr option \<Rightarrow> 'a dsl_scheme \<Rightarrow> (bool \<times> 'a dsl_scheme) option" where
  "dsl_lnklst_remove_node list node s =
     (case (list, node) of
        (Some l, Some n) \<Rightarrow> do {
          let h = l_head (lnklsts s l);
          let f = l_foot (lnklsts s l);
          s \<leftarrow>
            (if h = Some n \<and> f = Some n then
               Some (set_list l (\<lambda>d. d\<lparr>l_head := None, l_foot := None\<rparr>) s)
             else if h = Some n \<and> f \<noteq> Some n then do {
               x \<leftarrow> n_next (lnodes s n);
               let s = set_node x (\<lambda>d. d\<lparr>n_prev := None\<rparr>) s;
               Some (set_list l (\<lambda>d. d\<lparr>l_head := n_next (lnodes s n)\<rparr>) s) }
             else if h \<noteq> Some n \<and> f = Some n then do {
               p \<leftarrow> n_prev (lnodes s n);
               let s = set_node p (\<lambda>d. d\<lparr>n_next := None\<rparr>) s;
               Some (set_list l (\<lambda>d. d\<lparr>l_foot := n_prev (lnodes s n)\<rparr>) s) }
             else do {
               p \<leftarrow> n_prev (lnodes s n);
               let s = set_node p (\<lambda>d. d\<lparr>n_next := n_next (lnodes s n)\<rparr>) s;
               x \<leftarrow> n_next (lnodes s n);
               Some (set_node x (\<lambda>d. d\<lparr>n_prev := n_prev (lnodes s n)\<rparr>) s) });
          Some (True, set_list l (\<lambda>d. d\<lparr>l_count := l_count d - 1\<rparr>) s) }
      | _ \<Rightarrow> Some (False, s))"

definition dsl_lnklst_delete_node ::
  "addr option \<Rightarrow> addr option \<Rightarrow> 'a dsl_scheme \<Rightarrow> (bool \<times> 'a dsl_scheme) option" where
  "dsl_lnklst_delete_node list node s =
     (case (list, node) of
        (Some l, Some n) \<Rightarrow> do {
          (ok, s) \<leftarrow> dsl_lnklst_remove_node list node s;
          if ok then Some (True, dsl_free n s) else Some (False, s) }
      | _ \<Rightarrow> Some (False, s))"

partial_function (option) delete_all_loop :: "addr \<Rightarrow> 'a dsl_scheme \<Rightarrow> (bool \<times> 'a dsl_scheme) option" where
  "delete_all_loop l s =
     (case l_head (lnklsts s l) of
        None \<Rightarrow> Some (True, s)
      | Some h \<Rightarrow> do {
          (_, s) \<leftarrow> dsl_lnklst_delete_node (Some l) (Some h) s;
          delete_all_loop l s })"

definition dsl_lnklst_delete_all_node :: "addr option \<Rightarrow> 'a dsl_scheme \<Rightarrow> (bool \<times> 'a dsl_scheme) option" where
  "dsl_lnklst_delete_all_node list s =
     (case list of None \<Rightarrow> Some (False, s) | Some l \<Rightarrow> delete_all_loop l s)"

text \<open>\<open>dsl_free(NULL)\<close> is passed on like any pointer; it is not logged here.\<close>

definition dsl_free_ptr :: "addr option \<Rightarrow> 'a dsl_scheme \<Rightarrow> 'a dsl_scheme" where
  "dsl_free_ptr p s = (case p of None \<Rightarrow> s | Some a \<Rightarrow> dsl_free a s)"

definition dsl_lnklst_delete_object_node ::
  "addr option \<Rightarrow> addr option \<Rightarrow> 'a dsl_scheme \<Rightarrow> (bool \<times> 'a dsl_scheme) option" where
  "dsl_lnklst_delete_object_node list node s =
     (case (list, node) of
        (Some l, Some n) \<Rightarrow>
          (case n_value (lnodes s n) of
             VObject _ \<Rightarrow> do {
               (ok, s) \<leftarrow> dsl_lnklst_remove_node list node s;
               if ok
               then (case n_value (lnodes s n) of
                       VObject obj \<Rightarrow> Some (True, dsl_free n (dsl_free_ptr obj s))
                     | _ \<Rightarrow> Some (True, dsl_free n s))
               else Some (False, s) }
           | _ \<Rightarrow> Some (False, s))
      | _ \<Rightarrow> Some (False, s))"

partial_function (option) delete_all_object_loop ::
  "addr \<Rightarrow> 'a dsl_scheme \<Rightarrow> (bool \<times> 'a dsl_scheme) option" where
  "delete_all_object_loop l s =
     (case l_head (lnklsts s l) of
        None \<Rightarrow> Some (True, s)
      | Some h \<Rightarrow> do {
          (ok, s) \<leftarrow> dsl_lnklst_delete_object_node (Some l) (Some h) s;
          if \<not> ok then Some (False, s) else delete_all_object_loop l s })"

definition dsl_lnklst_delete_all_object_node ::
  "addr option \<Rightarrow> 'a dsl_scheme \<Rightarrow> (bool \<times> 'a dsl_scheme) option" where
  "dsl_lnklst_delete_all_object_node list s =
     (case list of None \<Rightarrow> Some (False, s) | Some l \<Rightarrow> delete_all_object_loop l s)"

definition dsl_lnklst_clear :: "addr option \<Rightarrow> 'a dsl_scheme \<Rightarrow> bool \<times> 'a dsl_scheme" where
  "dsl_lnklst_clear list s =
     (case list of
        None \<Rightarrow> (False, s)
      | Some l \<Rightarrow> (True, set_list l (\<lambda>d. d\<lparr>l_head := None, l_foot := None, l_count := 0\<rparr>) s))"

partial_function (option) find_loop :: "addr option \<Rightarrow> addr option \<Rightarrow> int \<Rightarrow> 'a dsl_scheme \<Rightarrow> int option" where
  "find_loop nxt node index s =
     (case nxt of
        None \<Rightarrow> Some (- 1)
      | Some x \<Rightarrow> if nxt = node then Some index else find_loop (n_next (lnodes s x)) node (index + 1) s)"

definition dsl_lnklst_find :: "addr option \<Rightarrow> addr option \<Rightarrow> 'a dsl_scheme \<Rightarrow> int option" where
  "dsl_lnklst_find list node s =
     (case list of None \<Rightarrow> Some (- 1) | Some l \<Rightarrow> find_loop (l_head (lnklsts s l)) node 0 s)"

fun get_loop :: "nat \<Rightarrow> addr option \<Rightarrow> 'a dsl_scheme \<Rightarrow> addr option option" where
  "get_loop 0 nxt s = Some nxt"
| "get_loop (Suc k) nxt s = (case nxt of None \<Rightarrow> None | Some x \<Rightarrow> get_loop k (n_next (lnodes s x)) s)"

definition dsl_lnklst_get :: "addr option \<Rightarrow> int \<Rightarrow> 'a dsl_scheme \<Rightarrow> addr option option" where
  "dsl_lnklst_get list index s =
     (case list of
        None \<Rightarrow> Some None
      | Some l \<Rightarrow>
          if index < 0 \<or> index \<ge> l_count (lnklsts s l) then Some None
          else get_loop (nat index) (l_head (lnklsts s l)) s)"

definition dsl_lnklst_count :: "addr option \<Rightarrow> 'a dsl_scheme \<Rightarrow> int" where
  "dsl_lnklst_count list s = (case list of None \<Rightarrow> - 1 | Some l \<Rightarrow> l_count (lnklsts s l))"

definition dsl_lnklst_shift_node ::
  "addr option \<Rightarrow> 'a dsl_scheme \<Rightarrow> (addr option \<times> 'a dsl_scheme) option" where
  "dsl_lnklst_shift_node list s =
     (case list of
        None \<Rightarrow> Some (None, s)
      | Some l \<Rightarrow>
          if l_count (lnklsts s l) = 0 then Some (None, s)
          else do {
            let node = l_head (lnklsts s l);
            (ok, s) \<leftarrow> dsl_lnklst_remove_node list node s;
            if \<not> ok then Some (None, s) else Some (node, s) })"

definition dsl_lnklst_unshift_node ::
  "addr option \<Rightarrow> addr option \<Rightarrow> 'a dsl_scheme \<Rightarrow> bool \<times> 'a dsl_scheme" where
  "dsl_lnklst_unshift_node list node s =
     (case (list, node) of
        (Some l, Some n) \<Rightarrow>
          (case (l_head (lnklsts s l), l_foot (lnklsts s l)) of
             (None, None) \<Rightarrow>
               (True, set_list l (\<lambda>d. d\<lparr>l_count := l_count d + 1\<rparr>)
                 (set_node n (\<lambda>d. d\<lparr>n_prev := None, n_next := None\<rparr>)
                 (set_list l (\<lambda>d. d\<lparr>l_head := Some n, l_foot := Some n\<rparr>) s)))
           | (Some h, Some f) \<Rightarrow>
               (let s = set_node n (\<lambda>d. d\<lparr>n_next := Some h\<rparr>) s;
                    s = set_node h (\<lambda>d. d\<lparr>n_prev := n_next (lnodes s n)\<rparr>) s;
                    s = set_node n (\<lambda>d. d\<lparr>n_prev := None\<rparr>) s
                in (True, set_list l (\<lambda>d. d\<lparr>l_head := Some n, l_count := l_count d + 1\<rparr>) s))
           | _ \<Rightarrow> (False, s))
      | _ \<Rightarrow> (False, s))"

definition dsl_lnklst_pop_node ::
  "addr option \<Rightarrow> 'a dsl_scheme \<Rightarrow> (addr option \<times> 'a dsl_scheme) option" where
  "dsl_lnklst_pop_node list s =
     (case list of
        None \<Rightarrow> Some (None, s)
      | Some l \<Rightarrow>
          if l_count (lnklsts s l) = 0 then Some (None, s)
          else do {
            let node = l_foot (lnklsts s l);
            (ok, s) \<leftarrow> dsl_lnklst_remove_node list node s;
            if \<not> ok then Some (None, s) else Some (node, s) })"

definition dsl_lnklst_insert_node ::
  "addr option \<Rightarrow> addr option \<Rightarrow> addr option \<Rightarrow> 'a dsl_scheme \<Rightarrow> (bool \<times> 'a dsl_scheme) option" where
  "dsl_lnklst_insert_node list pos node s =
     (case (list, node) of
        (Some l, Some n) \<Rightarrow>
          (if l_count (lnklsts s l) = 0 \<and> pos = None then Some (dsl_lnklst_add_node list node s)
           else (case pos of
             None \<Rightarrow> Some (False, s)
           | Some q \<Rightarrow>
               if l_count (lnklsts s l) \<noteq> 0 \<and> l_head (lnklsts s l) = pos
               then Some (dsl_lnklst_unshift_node list node s)
               else if l_count (lnklsts s l) \<noteq> 0 \<and> l_head (lnklsts s l) \<noteq> pos
               then do {
                 let prv = n_prev (lnodes s q);
                 let s = set_node n (\<lambda>d. d\<lparr>n_next := pos\<rparr>) s;
                 let s = set_node q (\<lambda>d. d\<lparr>n_prev := node\<rparr>) s;
                 let s = set_node n (\<lambda>d. d\<lparr>n_prev := prv\<rparr>) s;
                 p \<leftarrow> prv;
                 Some (True, set_node p (\<lambda>d. d\<lparr>n_next := node\<rparr>) s) }
               else Some (False, s)))
      | _ \<Rightarrow> Some (False, s))"

end
