(* ===== verification/Linked_List_Proofs.thy ===== *)
theory Linked_List_Proofs
  imports Linked_List
begin

text \<open>
  A list header of \<^verbatim>\<open>linked_list.c\<close> represents a list of distinct nodes; what each operation
  does to that list, which addresses the deleting ones free, the queue the kernel makes of
  \<open>add_node\<close> and \<open>shift_node\<close>, and the two operations that leave the representation.
\<close>

section \<open>Representation\<close>

definition lnk :: "'a dsl_scheme \<Rightarrow> addr \<Rightarrow> addr list \<Rightarrow> bool" where
  "lnk s l ps \<longleftrightarrow>
     dlist (n_next \<circ> lnodes s) (n_prev \<circ> lnodes s) (l_head (lnklsts s l)) (l_foot (lnklsts s l)) ps \<and>
     l_count (lnklsts s l) = int (length ps)"

lemma set_node_simps [simp]:
  "lnodes (set_node a f s) = (lnodes s)(a := f (lnodes s a))" "lnklsts (set_node a f s) = lnklsts s"
  "freed (set_node a f s) = freed s" "answers (set_node a f s) = answers s"
  "lnodes (set_list b g s) = lnodes s" "lnklsts (set_list b g s) = (lnklsts s)(b := g (lnklsts s b))"
  "freed (set_list b g s) = freed s" "answers (set_list b g s) = answers s"
  "dsl.more (set_node a f s) = dsl.more s" "dsl.more (set_list b g s) = dsl.more s"
  by (simp_all add: set_node_def set_list_def)

lemma dsl_free_simps [simp]:
  "lnodes (dsl_free a s) = lnodes s" "lnklsts (dsl_free a s) = lnklsts s"
  "freed (dsl_free a s) = freed s @ [a]" "answers (dsl_free a s) = answers s"
  "dsl.more (dsl_free a s) = dsl.more s"
  by (simp_all add: dsl_free_def)

lemma dsl_free_ptr_simps [simp]:
  "lnodes (dsl_free_ptr p s) = lnodes s" "lnklsts (dsl_free_ptr p s) = lnklsts s"
  "freed (dsl_free_ptr p s) = freed s @ (case p of None \<Rightarrow> [] | Some a \<Rightarrow> [a])"
  "answers (dsl_free_ptr p s) = answers s" "dsl.more (dsl_free_ptr p s) = dsl.more s"
  by (simp_all add: dsl_free_ptr_def split: option.splits)

lemma lnk_cong:
  "(\<And>p. p \<in> set ps \<Longrightarrow> n_next (lnodes s' p) = n_next (lnodes s p) \<and> n_prev (lnodes s' p) = n_prev (lnodes s p)) \<Longrightarrow>
   lnklsts s' l = lnklsts s l \<Longrightarrow> lnk s' l ps = lnk s l ps"
  unfolding lnk_def using dlist_cong [of ps "n_next \<circ> lnodes s'" "n_next \<circ> lnodes s" "n_prev \<circ> lnodes s'" "n_prev \<circ> lnodes s"]
  by simp

lemma lnk_free [simp]: "lnk (dsl_free a s) l ps = lnk s l ps" "lnk (dsl_free_ptr p s) l ps = lnk s l ps"
  by (simp_all add: lnk_def)

lemma lnk_head: "lnk s l ps \<Longrightarrow> l_head (lnklsts s l) = opt_hd ps"
  and lnk_foot: "lnk s l ps \<Longrightarrow> l_foot (lnklsts s l) = opt_last ps"
  by (simp_all add: lnk_def dlist_def)

lemma lnk_distinct: "lnk s l ps \<Longrightarrow> distinct ps"
  by (simp add: lnk_def dlist_def)

lemma lnk_next: "lnk s l (xs @ p # ys) \<Longrightarrow> n_next (lnodes s p) = opt_hd ys"
  unfolding lnk_def using dlist_split(2) by fastforce

section \<open>What the operations do to the list\<close>

lemma add_node_spec:
  assumes "lnk s l ps" "n \<notin> set ps"
  shows "\<exists>s'. dsl_lnklst_add_node (Some l) (Some n) s = (True, s') \<and> lnk s' l (ps @ [n]) \<and>
    (\<forall>q. n_value (lnodes s' q) = n_value (lnodes s q)) \<and> (\<forall>q. q \<notin> set (ps @ [n]) \<longrightarrow> lnodes s' q = lnodes s q) \<and>
    (\<forall>k. k \<noteq> l \<longrightarrow> lnklsts s' k = lnklsts s k) \<and> freed s' = freed s \<and> answers s' = answers s \<and> dsl.more s' = dsl.more s"
proof (cases ps rule: rev_cases)
  case Nil
  then show ?thesis
    using assms by (simp add: lnk_def dsl_lnklst_add_node_def dlist_def)
next
  case (snoc qs f)
  have hf: "l_head (lnklsts s l) = opt_hd ps" "l_foot (lnklsts s l) = Some f" "opt_hd ps = Some (hd ps)"
    using assms(1) snoc by (auto simp: lnk_def dlist_def)
  have d: "dlist ((n_next \<circ> lnodes s)(f := Some n, n := None)) ((n_prev \<circ> lnodes s)(n := Some f))
      (opt_hd ps) (Some n) (ps @ [n])"
    using dlist_append [of "n_next \<circ> lnodes s" "n_prev \<circ> lnodes s" _ _ ps f n] assms hf by (auto simp: lnk_def)
  have ne: "f \<noteq> n" "f \<in> set ps"
    using assms(2) snoc by auto
  have "lnk (set_list l (\<lambda>d. d\<lparr>l_foot := Some n, l_count := l_count d + 1\<rparr>)
       (set_node n (\<lambda>d. d\<lparr>n_prev := Some f, n_next := None\<rparr>)
       (set_node f (\<lambda>d. d\<lparr>n_next := Some n\<rparr>) s))) l (ps @ [n])"
    using assms(1) d ne hf by (simp add: lnk_def)
  then show ?thesis
    using hf ne by (simp add: dsl_lnklst_add_node_def)
qed

lemma remove_node_spec:
  assumes "lnk s l (xs @ n # ys)"
  shows "\<exists>s'. dsl_lnklst_remove_node (Some l) (Some n) s = Some (True, s') \<and> lnk s' l (xs @ ys) \<and>
    (\<forall>q. n_value (lnodes s' q) = n_value (lnodes s q)) \<and> (\<forall>q. q \<notin> set (xs @ ys) \<longrightarrow> lnodes s' q = lnodes s q) \<and>
    (\<forall>k. k \<noteq> l \<longrightarrow> lnklsts s' k = lnklsts s k) \<and> freed s' = freed s \<and> answers s' = answers s \<and> dsl.more s' = dsl.more s"
proof -
  have D: "dlist (n_next \<circ> lnodes s) (n_prev \<circ> lnodes s) (l_head (lnklsts s l)) (l_foot (lnklsts s l)) (xs @ n # ys)"
    and c: "l_count (lnklsts s l) = int (length (xs @ n # ys))"
    using assms by (simp_all add: lnk_def)
  note sp = dlist_split [OF D] and u = dlist_unlink [OF D] and e = dlist_ends [OF D]
  consider "xs = []" "ys = []" | x zs where "xs = []" "ys = x # zs" | zs p where "xs = zs @ [p]" "ys = []"
    | zs p x ws where "xs = zs @ [p]" "ys = x # ws"
    by (metis list.exhaust rev_exhaust)
  then show ?thesis
  proof cases
    case 1
    then show ?thesis
      using sp c by (simp add: dsl_lnklst_remove_node_def lnk_def Let_def)
  next
    case 2
    then have ne: "x \<noteq> n" and ends: "l_head (lnklsts s l) = Some n" "l_foot (lnklsts s l) \<noteq> Some n"
      "n_next (lnodes s n) = Some x"
      using sp by auto
    have "opt_last ys = l_foot (lnklsts s l)"
      using e 2 by simp
    then have "dlist (n_next \<circ> lnodes s) ((n_prev \<circ> lnodes s)(x := None)) (Some x) (l_foot (lnklsts s l)) (xs @ ys)"
      using u 2 by (simp add: unlink_next_def unlink_prev_def)
    then show ?thesis
      using 2 ne ends c by (simp add: dsl_lnklst_remove_node_def lnk_def Let_def)
  next
    case 3
    then have ne: "p \<noteq> n" and ends: "l_head (lnklsts s l) \<noteq> Some n" "l_foot (lnklsts s l) = Some n"
      "n_prev (lnodes s n) = Some p"
      using sp by auto
    have "opt_hd xs = l_head (lnklsts s l)"
      using e 3 by simp
    then have "dlist ((n_next \<circ> lnodes s)(p := None)) (n_prev \<circ> lnodes s) (l_head (lnklsts s l)) (Some p) (xs @ ys)"
      using u 3 by (simp add: unlink_next_def unlink_prev_def)
    then show ?thesis
      using 3 ne ends c by (simp add: dsl_lnklst_remove_node_def lnk_def Let_def)
  next
    case 4
    then have ne: "p \<noteq> n" "x \<noteq> n" "p \<noteq> x" and ends: "l_head (lnklsts s l) \<noteq> Some n" "l_foot (lnklsts s l) \<noteq> Some n"
      "n_prev (lnodes s n) = Some p" "n_next (lnodes s n) = Some x"
      using sp by auto
    have "opt_hd (xs @ ys) = l_head (lnklsts s l)" "opt_last (xs @ ys) = l_foot (lnklsts s l)"
      using e 4 by auto
    then have "dlist ((n_next \<circ> lnodes s)(p := Some x)) ((n_prev \<circ> lnodes s)(x := Some p))
        (l_head (lnklsts s l)) (l_foot (lnklsts s l)) (xs @ ys)"
      using u 4 by (simp add: unlink_next_def unlink_prev_def)
    then show ?thesis
      using 4 ne ends c by (simp add: dsl_lnklst_remove_node_def lnk_def Let_def)
  qed
qed

lemma delete_node_spec:
  assumes "lnk s l (xs @ n # ys)"
  shows "\<exists>s'. dsl_lnklst_delete_node (Some l) (Some n) s = Some (True, s') \<and> lnk s' l (xs @ ys) \<and>
    (\<forall>q. n_value (lnodes s' q) = n_value (lnodes s q)) \<and> freed s' = freed s @ [n]"
  using remove_node_spec [OF assms] by (auto simp: dsl_lnklst_delete_node_def)

lemma delete_all_loop_spec:
  "lnk s l ps \<Longrightarrow> \<exists>s'. delete_all_loop l s = Some (True, s') \<and> lnk s' l [] \<and> freed s' = freed s @ ps"
proof (induction ps arbitrary: s)
  case Nil
  then show ?case
    using lnk_head [OF Nil] by (simp add: delete_all_loop.simps)
next
  case (Cons n ps)
  from delete_node_spec [of s l "[]" n ps] Cons.prems obtain s' where
    d: "dsl_lnklst_delete_node (Some l) (Some n) s = Some (True, s')" "lnk s' l ps" "freed s' = freed s @ [n]"
    by auto
  show ?case
    using Cons.IH [OF d(2)] d lnk_head [OF Cons.prems] by (subst delete_all_loop.simps) simp
qed

definition objs :: "'a dsl_scheme \<Rightarrow> addr list \<Rightarrow> addr list" where
  "objs s ps = concat (map (\<lambda>n. (case n_value (lnodes s n) of VObject (Some a) \<Rightarrow> [a] | _ \<Rightarrow> []) @ [n]) ps)"

definition is_object :: "dsl_value \<Rightarrow> bool" where
  "is_object v = (case v of VObject _ \<Rightarrow> True | _ \<Rightarrow> False)"

lemma delete_object_node_spec:
  assumes "lnk s l (xs @ n # ys)" "is_object (n_value (lnodes s n))"
  shows "\<exists>s'. dsl_lnklst_delete_object_node (Some l) (Some n) s = Some (True, s') \<and> lnk s' l (xs @ ys) \<and>
    (\<forall>q. n_value (lnodes s' q) = n_value (lnodes s q)) \<and> freed s' = freed s @ objs s [n] \<and>
    (\<forall>q. q \<notin> set (xs @ ys) \<longrightarrow> lnodes s' q = lnodes s q) \<and>
    (\<forall>k. k \<noteq> l \<longrightarrow> lnklsts s' k = lnklsts s k) \<and> answers s' = answers s \<and> dsl.more s' = dsl.more s"
proof -
  obtain obj where v: "n_value (lnodes s n) = VObject obj"
    using assms(2) by (auto simp: is_object_def split: dsl_value.splits)
  obtain s' where r: "dsl_lnklst_remove_node (Some l) (Some n) s = Some (True, s')" "lnk s' l (xs @ ys)"
    "\<forall>q. n_value (lnodes s' q) = n_value (lnodes s q)" "\<forall>k. k \<noteq> l \<longrightarrow> lnklsts s' k = lnklsts s k" "freed s' = freed s"
    "\<forall>q. q \<notin> set (xs @ ys) \<longrightarrow> lnodes s' q = lnodes s q" "answers s' = answers s" "dsl.more s' = dsl.more s"
    using remove_node_spec [OF assms(1)] by blast
  show ?thesis
    using r v by (auto simp: dsl_lnklst_delete_object_node_def objs_def split: option.splits)
qed

lemma objs_cong: "(\<And>q. n_value (lnodes s' q) = n_value (lnodes s q)) \<Longrightarrow> objs s' ps = objs s ps"
  by (simp add: objs_def)

lemma delete_all_object_loop_spec:
  "lnk s l ps \<Longrightarrow> \<forall>n \<in> set ps. is_object (n_value (lnodes s n)) \<Longrightarrow>
     \<exists>s'. delete_all_object_loop l s = Some (True, s') \<and> lnk s' l [] \<and> freed s' = freed s @ objs s ps"
proof (induction ps arbitrary: s)
  case Nil
  then show ?case
    using lnk_head [OF Nil(1)] by (simp add: delete_all_object_loop.simps objs_def)
next
  case (Cons n ps)
  from delete_object_node_spec [of s l "[]" n ps] Cons.prems obtain s' where
    d: "dsl_lnklst_delete_object_node (Some l) (Some n) s = Some (True, s')" "lnk s' l ps"
      "\<forall>q. n_value (lnodes s' q) = n_value (lnodes s q)" "freed s' = freed s @ objs s [n]"
    by auto
  have "objs s' ps = objs s ps"
    using d(3) by (intro objs_cong) blast
  then show ?case
    using Cons.IH [OF d(2)] Cons.prems(2) d lnk_head [OF Cons.prems(1)]
    by (subst delete_all_object_loop.simps) (simp add: objs_def)
qed

lemma find_loop_spec:
  "lnk s l (xs @ ys) \<Longrightarrow>
     find_loop (opt_hd ys) (Some n) i s =
       Some (if n \<in> set ys then i + int (length (takeWhile (\<lambda>q. q \<noteq> n) ys)) else - 1)"
proof (induction ys arbitrary: xs i)
  case Nil
  then show ?case by (simp add: find_loop.simps)
next
  case (Cons y ys)
  have nx: "n_next (lnodes s y) = opt_hd ys"
    using lnk_next [OF Cons.prems] .
  have "lnk s l ((xs @ [y]) @ ys)"
    using Cons.prems by simp
  from Cons.IH [OF this, of "i + 1"] show ?case
    by (subst find_loop.simps) (auto simp: nx)
qed

lemma get_loop_spec:
  "lnk s l (xs @ ys) \<Longrightarrow> k < length ys \<Longrightarrow> get_loop k (opt_hd ys) s = Some (Some (ys ! k))"
proof (induction k arbitrary: xs ys)
  case 0
  then show ?case by (cases ys) auto
next
  case (Suc k)
  then obtain y zs where y: "ys = y # zs"
    by (cases ys) auto
  then have "n_next (lnodes s y) = opt_hd zs"
    using lnk_next Suc.prems(1) by blast
  moreover have "lnk s l ((xs @ [y]) @ zs)"
    using Suc.prems y by simp
  ultimately show ?case
    using Suc.IH [of "xs @ [y]" zs] Suc.prems y by simp
qed

section \<open>Queues\<close>

locale fifo =
  fixes repr :: "'s \<Rightarrow> 'p list \<Rightarrow> bool"
    and enq :: "'p \<Rightarrow> 's \<Rightarrow> (bool \<times> 's) option"
    and deq :: "'s \<Rightarrow> ('p option \<times> 's) option"
  assumes enq_law: "repr s ps \<Longrightarrow> p \<notin> set ps \<Longrightarrow> \<exists>s'. enq p s = Some (True, s') \<and> repr s' (ps @ [p])"
    and deq_empty: "repr s [] \<Longrightarrow> deq s = Some (None, s)"
    and deq_law: "repr s (p # ps) \<Longrightarrow> \<exists>s'. deq s = Some (Some p, s') \<and> repr s' ps"

fun enq_all :: "('p \<Rightarrow> 's \<Rightarrow> (bool \<times> 's) option) \<Rightarrow> 'p list \<Rightarrow> 's \<Rightarrow> 's option" where
  "enq_all enq [] s = Some s"
| "enq_all enq (p # ps) s = do { (_, s) \<leftarrow> enq p s; enq_all enq ps s }"

fun deq_n :: "('s \<Rightarrow> ('p option \<times> 's) option) \<Rightarrow> nat \<Rightarrow> 's \<Rightarrow> ('p option list \<times> 's) option" where
  "deq_n deq 0 s = Some ([], s)"
| "deq_n deq (Suc k) s = do { (p, s) \<leftarrow> deq s; (ps, s) \<leftarrow> deq_n deq k s; Some (p # ps, s) }"

context fifo
begin

lemma enq_all_repr:
  "repr s qs \<Longrightarrow> distinct (qs @ ps) \<Longrightarrow> \<exists>s'. enq_all enq ps s = Some s' \<and> repr s' (qs @ ps)"
proof (induction ps arbitrary: s qs)
  case (Cons p ps)
  then obtain s' where s': "enq p s = Some (True, s')" "repr s' (qs @ [p])"
    using enq_law [of s qs p] by auto
  have "\<exists>t. enq_all enq ps s' = Some t \<and> repr t ((qs @ [p]) @ ps)"
    using Cons.prems by (intro Cons.IH [OF s'(2)]) simp
  then show ?case
    using s'(1) by simp
qed simp

lemma deq_n_repr: "repr s (ps @ qs) \<Longrightarrow> \<exists>s'. deq_n deq (length ps) s = Some (map Some ps, s') \<and> repr s' qs"
proof (induction ps arbitrary: s)
  case (Cons p ps)
  then obtain s' where "deq s = Some (Some p, s')" "repr s' (ps @ qs)"
    using deq_law [of s p "ps @ qs"] by auto
  then show ?case
    using Cons.IH [of s'] by auto
qed simp

text \<open>What goes in comes out, once and in order; then the queue is empty.\<close>

lemma fifo_order:
  assumes "repr s []" "distinct ps"
  shows "\<exists>s' s''. enq_all enq ps s = Some s' \<and> deq_n deq (length ps) s' = Some (map Some ps, s'') \<and>
    deq s'' = Some (None, s'')"
proof -
  obtain s' where s': "enq_all enq ps s = Some s'" "repr s' ps"
    using enq_all_repr [OF assms(1), of ps] assms(2) by auto
  obtain s'' where "deq_n deq (length ps) s' = Some (map Some ps, s'')" "repr s'' []"
    using deq_n_repr [of s' ps "[]"] s'(2) by auto
  with s' deq_empty show ?thesis by blast
qed

end

interpretation lnkq: fifo "\<lambda>s. lnk s l" "\<lambda>p s. Some (dsl_lnklst_add_node (Some l) (Some p) s)"
  "dsl_lnklst_shift_node (Some l)" for l
proof
  show "\<exists>s'. Some (dsl_lnklst_add_node (Some l) (Some p) s) = Some (True, s') \<and> lnk s' l (ps @ [p])"
    if "lnk s l ps" "p \<notin> set ps" for s :: "'a dsl_scheme" and ps p
    using add_node_spec [OF that] by auto
  show "dsl_lnklst_shift_node (Some l) s = Some (None, s)" if "lnk s l []" for s :: "'a dsl_scheme"
    using that by (simp add: dsl_lnklst_shift_node_def lnk_def)
  show "\<exists>s'. dsl_lnklst_shift_node (Some l) s = Some (Some p, s') \<and> lnk s' l ps"
    if "lnk s l (p # ps)" for s :: "'a dsl_scheme" and p ps
    using that remove_node_spec [of s l "[]" p ps] lnk_head [OF that]
    by (auto simp: dsl_lnklst_shift_node_def lnk_def Let_def)
qed

section \<open>Properties\<close>

text \<open>A header with three nodes, for instances.\<close>

definition lst3 :: dsl where
  "lst3 = \<lparr>lnodes = (\<lambda>_. \<lparr>n_value = VBool False, n_prev = None, n_next = None\<rparr>)
      (1 := \<lparr>n_value = VObject (Some 11), n_prev = None, n_next = Some 2\<rparr>,
       2 := \<lparr>n_value = VObject (Some 12), n_prev = Some 1, n_next = Some 3\<rparr>,
       3 := \<lparr>n_value = VObject None, n_prev = Some 2, n_next = None\<rparr>),
     lnklsts = (\<lambda>_. \<lparr>l_head = None, l_foot = None, l_count = 0\<rparr>)(0 := \<lparr>l_head = Some 1, l_foot = Some 3, l_count = 3\<rparr>),
     freed = [], answers = []\<rparr>"

lemma takeWhile_pos:
  "n \<in> set ps \<Longrightarrow> length (takeWhile (\<lambda>q. q \<noteq> n) ps) < length ps \<and> ps ! length (takeWhile (\<lambda>q. q \<noteq> n) ps) = n"
  by (induction ps) auto

lemma lst3_lnk: "lnk lst3 0 [1, 2, 3]" and lst3_empty: "lnk lst3 7 []"
  by (simp_all add: lnk_def lst3_def dlist_def)

text \<open>\<open>dsl_lnklst_remove_node\<close> of a node of a well-formed list takes out exactly that node:
  the others keep their order and their values, nothing else in the store changes.\<close>

theorem lnklst_remove_node_list:
  assumes "lnk s l (xs @ n # ys)"
  shows "\<exists>s'. dsl_lnklst_remove_node (Some l) (Some n) s = Some (True, s') \<and> lnk s' l (xs @ ys) \<and>
    (\<forall>q. n_value (lnodes s' q) = n_value (lnodes s q)) \<and> freed s' = freed s"
  using remove_node_spec [OF assms] by blast

theorem lnklst_remove_node_list_witness:
  "\<exists>s'. dsl_lnklst_remove_node (Some 0) (Some 2) lst3 = Some (True, s') \<and> lnk s' 0 [1, 3]"
  using lnklst_remove_node_list [of lst3 0 "[1]" 2 "[3]"] lst3_lnk by auto

text \<open>Nodes added with \<open>dsl_lnklst_add_node\<close> to an empty list come back from
  \<open>dsl_lnklst_shift_node\<close> once each, in the order they were added, and then it returns NULL.\<close>

theorem lnklst_fifo_order:
  assumes "lnk s l []" "distinct ps"
  shows "\<exists>s' s''. enq_all (\<lambda>p s. Some (dsl_lnklst_add_node (Some l) (Some p) s)) ps s = Some s' \<and>
    deq_n (dsl_lnklst_shift_node (Some l)) (length ps) s' = Some (map Some ps, s'') \<and>
    dsl_lnklst_shift_node (Some l) s'' = Some (None, s'')"
  using assms by (rule lnkq.fifo_order)

theorem lnklst_fifo_order_witness:
  "\<exists>s' s''. enq_all (\<lambda>p s. Some (dsl_lnklst_add_node (Some 7) (Some p) s)) [4, 5, 6] lst3 = Some s' \<and>
    deq_n (dsl_lnklst_shift_node (Some 7)) 3 s' = Some ([Some 4, Some 5, Some 6], s'')"
  using lnklst_fifo_order [OF lst3_empty, of "[4, 5, 6]"] by (auto simp: eval_nat_numeral)

text \<open>\<open>dsl_lnklst_delete_all_object_node\<close> of a list of object nodes returns and frees each
  node's object and then the node, each exactly once and in list order.\<close>

theorem lnklst_delete_all_objects:
  assumes "lnk s l ps" "\<forall>n \<in> set ps. is_object (n_value (lnodes s n))"
  shows "\<exists>s'. dsl_lnklst_delete_all_object_node (Some l) s = Some (True, s') \<and> lnk s' l [] \<and>
    freed s' = freed s @ objs s ps"
  using delete_all_object_loop_spec [OF assms] by (simp add: dsl_lnklst_delete_all_object_node_def)

theorem lnklst_delete_all_objects_witness:
  "\<exists>s'. dsl_lnklst_delete_all_object_node (Some 0) lst3 = Some (True, s') \<and> freed s' = [11, 1, 12, 2, 3]"
  using lnklst_delete_all_objects [OF lst3_lnk] by (auto simp: lst3_def is_object_def objs_def)

text \<open>\<open>dsl_lnklst_find\<close> and \<open>dsl_lnklst_get\<close> are inverse on a well-formed list: the index
  found for a node is the one it is at, \<open>get\<close> at it returns the node, and a node that is not in
  the list is not found.\<close>

theorem lnklst_find_get:
  assumes "lnk s l ps"
  shows "(\<exists>i. dsl_lnklst_find (Some l) (Some n) s = Some i \<and> 0 \<le> i \<and> n \<in> set ps \<and>
            dsl_lnklst_get (Some l) i s = Some (Some n)) \<or>
         dsl_lnklst_find (Some l) (Some n) s = Some (- 1) \<and> n \<notin> set ps"
proof -
  have f: "dsl_lnklst_find (Some l) (Some n) s =
      Some (if n \<in> set ps then int (length (takeWhile (\<lambda>q. q \<noteq> n) ps)) else - 1)"
    using find_loop_spec [of s l "[]" ps n 0] assms lnk_head [OF assms] by (simp add: dsl_lnklst_find_def)
  show ?thesis
  proof (cases "n \<in> set ps")
    case True
    let ?k = "length (takeWhile (\<lambda>q. q \<noteq> n) ps)"
    have k: "?k < length ps" "ps ! ?k = n"
      using takeWhile_pos [OF True] by auto
    have "dsl_lnklst_get (Some l) (int ?k) s = Some (Some n)"
      using get_loop_spec [of s l "[]" ps ?k] assms lnk_head [OF assms] k
      by (simp add: dsl_lnklst_get_def lnk_def)
    then show ?thesis
      using f True by auto
  qed (use f in simp)
qed

theorem lnklst_find_get_witness:
  "(\<exists>i. dsl_lnklst_find (Some 0) (Some 3) lst3 = Some i \<and> 0 \<le> i \<and> dsl_lnklst_get (Some 0) i lst3 = Some (Some 3))"
  using lnklst_find_get [OF lst3_lnk, of 3] by auto

text \<open>After \<open>dsl_lnklst_unshift_node\<close> onto a list that is not empty, the old head's
  \<open>prev\<close> points at itself; popping it returns the node and leaves it in the list.\<close>

theorem lnklst_unshift_breaks:
  "case dsl_lnklst_unshift_node (Some 0) (Some 9) (set_list 0 (\<lambda>d. d\<lparr>l_foot := Some 1, l_count := 1\<rparr>) (set_node 1 (\<lambda>d. d\<lparr>n_next := None\<rparr>) lst3)) of
     (ok, s) \<Rightarrow> ok \<and> n_prev (lnodes s 1) = Some 1 \<and>
       (case dsl_lnklst_pop_node (Some 0) s of
          Some (r, s') \<Rightarrow> r = Some 1 \<and> l_foot (lnklsts s' 0) = Some 1 \<and> dsl_lnklst_find (Some 0) (Some 1) s' = Some 1
        | None \<Rightarrow> False)"
  by (simp add: dsl_lnklst_unshift_node_def lst3_def dsl_lnklst_pop_node_def dsl_lnklst_remove_node_def Let_def
      dsl_lnklst_find_def find_loop.simps)

text \<open>\<open>dsl_lnklst_insert_node\<close> in the middle links the node and does not count it: the
  last node of the list can no longer be reached with \<open>dsl_lnklst_get\<close>.\<close>

theorem lnklst_insert_miscounts:
  "case dsl_lnklst_insert_node (Some 0) (Some 2) (Some 9) lst3 of
     Some (ok, s) \<Rightarrow> ok \<and> dsl_lnklst_count (Some 0) s = 3 \<and> dsl_lnklst_find (Some 0) (Some 3) s = Some 3 \<and>
       dsl_lnklst_get (Some 0) 3 s = Some None
   | None \<Rightarrow> False"
  by (simp add: dsl_lnklst_insert_node_def lst3_def Let_def dsl_lnklst_count_def
      dsl_lnklst_find_def find_loop.simps dsl_lnklst_get_def)

end
