(* ===== verification/Array_List.thy ===== *)
theory Array_List
  imports Linked_List_Proofs
begin

text \<open>
  \<^verbatim>\<open>libs/dslib/list.c\<close> and \<^verbatim>\<open>value.c\<close>: growing arrays of pointers to values.  The store of
  \<^verbatim>\<open>Linked_List\<close> is extended with the headers, the arrays (an array is its base address and
  an index into it; a cell that was never written holds whatever the store has there) and the
  values.  An \<open>int32\<close> is an \<^typ>\<open>int\<close>.
\<close>

section \<open>State\<close>

record dsl_lst =
  a_values :: "addr option"
  a_size :: int
  a_count :: int

record lst_state = dsl +
  lsts :: "addr \<Rightarrow> dsl_lst"
  cells :: "addr \<Rightarrow> nat \<Rightarrow> addr option"
  vals :: "addr \<Rightarrow> dsl_value"

definition set_lst :: "addr \<Rightarrow> (dsl_lst \<Rightarrow> dsl_lst) \<Rightarrow> lst_state \<Rightarrow> lst_state" where
  "set_lst l f s = s\<lparr>lsts := (lsts s)(l := f (lsts s l))\<rparr>"

definition set_cell :: "addr \<Rightarrow> nat \<Rightarrow> addr option \<Rightarrow> lst_state \<Rightarrow> lst_state" where
  "set_cell a i v s = s\<lparr>cells := (cells s)(a := (cells s a)(i := v))\<rparr>"

section \<open>Operations\<close>

text \<open>The twelve \<open>dsl_val_XXX\<close> of the macro \<open>DSL_VAL_XXX\<close>.\<close>

definition dsl_val :: "dsl_value \<Rightarrow> lst_state \<Rightarrow> addr option \<times> lst_state" where
  "dsl_val v s =
     (case dsl_malloc s of
        (None, s) \<Rightarrow> (None, s)
      | (Some a, s) \<Rightarrow> (Some a, s\<lparr>vals := (vals s)(a := v)\<rparr>))"

definition dsl_lst_init_with_size :: "addr option \<Rightarrow> int \<Rightarrow> lst_state \<Rightarrow> bool \<times> lst_state" where
  "dsl_lst_init_with_size list sz s =
     (case list of
        None \<Rightarrow> (False, s)
      | Some l \<Rightarrow>
          if sz \<le> 0 then (False, s)
          else (case dsl_malloc s of
                  (None, s) \<Rightarrow> (False, set_lst l (\<lambda>d. d\<lparr>a_values := None\<rparr>) s)
                | (Some a, s) \<Rightarrow>
                    (True, set_lst l (\<lambda>d. d\<lparr>a_values := Some a, a_size := sz, a_count := 0\<rparr>) s)))"

definition DSL_LIST_DEFAULT_SIZE :: int where "DSL_LIST_DEFAULT_SIZE = 16"

definition dsl_lst_init :: "addr option \<Rightarrow> lst_state \<Rightarrow> bool \<times> lst_state" where
  "dsl_lst_init list s = dsl_lst_init_with_size list DSL_LIST_DEFAULT_SIZE s"

definition dsl_lst_new_with_size :: "int \<Rightarrow> lst_state \<Rightarrow> addr option \<times> lst_state" where
  "dsl_lst_new_with_size sz s =
     (if sz \<le> 0 then (None, s)
      else (case dsl_malloc s of
              (None, s) \<Rightarrow> (None, s)
            | (Some l, s) \<Rightarrow>
                (case dsl_lst_init_with_size (Some l) sz s of
                   (False, s) \<Rightarrow> (None, dsl_free l s)
                 | (True, s) \<Rightarrow> (Some l, s))))"

definition dsl_lst_new :: "lst_state \<Rightarrow> addr option \<times> lst_state" where
  "dsl_lst_new s = dsl_lst_new_with_size DSL_LIST_DEFAULT_SIZE s"

definition dsl_lst_release :: "addr option \<Rightarrow> lst_state \<Rightarrow> bool \<times> lst_state" where
  "dsl_lst_release list s =
     (case list of
        None \<Rightarrow> (False, s)
      | Some l \<Rightarrow> (True, dsl_free_ptr (a_values (lsts s l)) s))"

definition dsl_lst_free :: "addr option \<Rightarrow> lst_state \<Rightarrow> bool \<times> lst_state" where
  "dsl_lst_free list s =
     (case list of
        None \<Rightarrow> (False, s)
      | Some l \<Rightarrow> (True, dsl_free l (snd (dsl_lst_release list s))))"

text \<open>\<open>dsl_lib_memcpy\<close> of the first \<open>n\<close> cells; \<^const>\<open>None\<close> where a NULL array is used.\<close>

definition copy_cells :: "addr \<Rightarrow> addr \<Rightarrow> nat \<Rightarrow> lst_state \<Rightarrow> lst_state" where
  "copy_cells dst src n s =
     s\<lparr>cells := (cells s)(dst := (\<lambda>i. if i < n then cells s src i else cells s dst i))\<rparr>"

definition dsl_lst_resize :: "addr option \<Rightarrow> lst_state \<Rightarrow> (bool \<times> lst_state) option" where
  "dsl_lst_resize list s =
     (case list of
        None \<Rightarrow> Some (False, s)
      | Some l \<Rightarrow>
          (let new_size = a_size (lsts s l) * 2 in
           case dsl_malloc s of
             (None, s) \<Rightarrow> Some (False, s)
           | (Some new_space, s) \<Rightarrow> do {
               a \<leftarrow> a_values (lsts s l);
               let s = copy_cells new_space a (nat (a_size (lsts s l))) s;
               let s = dsl_free a s;
               Some (True, set_lst l (\<lambda>d. d\<lparr>a_values := Some new_space, a_size := new_size\<rparr>) s) }))"

definition room :: "addr \<Rightarrow> lst_state \<Rightarrow> (bool \<times> lst_state) option" where
  "room l s = (if a_count (lsts s l) = a_size (lsts s l) then dsl_lst_resize (Some l) s else Some (True, s))"

definition dsl_lst_add_value :: "addr option \<Rightarrow> addr option \<Rightarrow> lst_state \<Rightarrow> (bool \<times> lst_state) option" where
  "dsl_lst_add_value list value s =
     (case (list, value) of
        (Some l, Some v) \<Rightarrow> do {
          (ok, s) \<leftarrow> room l s;
          if \<not> ok then Some (False, s)
          else do {
            a \<leftarrow> a_values (lsts s l);
            let s = set_cell a (nat (a_count (lsts s l))) (Some v) s;
            Some (True, set_lst l (\<lambda>d. d\<lparr>a_count := a_count d + 1\<rparr>) s) } }
      | _ \<Rightarrow> Some (False, s))"

text \<open>\<open>for(ui = index; ui < count - 1; ui++) values[ui] = values[ui + 1];\<close>\<close>

fun shift_down :: "addr \<Rightarrow> nat \<Rightarrow> nat \<Rightarrow> lst_state \<Rightarrow> lst_state" where
  "shift_down a ui 0 s = s"
| "shift_down a ui (Suc k) s = shift_down a (Suc ui) k (set_cell a ui (cells s a (Suc ui)) s)"

definition dsl_lst_remove_value_at_index :: "addr option \<Rightarrow> int \<Rightarrow> lst_state \<Rightarrow> (bool \<times> lst_state) option" where
  "dsl_lst_remove_value_at_index list index s =
     (case list of
        None \<Rightarrow> Some (False, s)
      | Some l \<Rightarrow>
          if index < 0 \<or> index \<ge> a_count (lsts s l) then Some (False, s)
          else do {
            a \<leftarrow> a_values (lsts s l);
            let s = shift_down a (nat index) (nat (a_count (lsts s l) - 1 - index)) s;
            Some (True, set_lst l (\<lambda>d. d\<lparr>a_count := a_count d - 1\<rparr>) s) })"

definition dsl_lst_find_value :: "addr option \<Rightarrow> addr option \<Rightarrow> lst_state \<Rightarrow> int option" where
  "dsl_lst_find_value list value s =
     (case list of
        None \<Rightarrow> Some (- 1)
      | Some l \<Rightarrow>
          if a_count (lsts s l) \<le> 0 then Some (- 1)
          else do {
            a \<leftarrow> a_values (lsts s l);
            (case first_index (\<lambda>i. cells s a i = value) 0 (nat (a_count (lsts s l))) of
               None \<Rightarrow> Some (- 1) | Some i \<Rightarrow> Some (int i)) })"

definition dsl_lst_remove_value :: "addr option \<Rightarrow> addr option \<Rightarrow> lst_state \<Rightarrow> (bool \<times> lst_state) option" where
  "dsl_lst_remove_value list value s = do {
     i \<leftarrow> dsl_lst_find_value list value s;
     dsl_lst_remove_value_at_index list i s }"

text \<open>\<open>for(ui = count; ui > index; ui--) values[ui] = values[ui - 1];\<close>\<close>

fun shift_up :: "addr \<Rightarrow> nat \<Rightarrow> nat \<Rightarrow> lst_state \<Rightarrow> lst_state" where
  "shift_up a index 0 s = s"
| "shift_up a index (Suc k) s =
     shift_up a index k (set_cell a (index + Suc k) (cells s a (index + k)) s)"

definition dsl_lst_insert_value_at_index ::
  "addr option \<Rightarrow> int \<Rightarrow> addr option \<Rightarrow> lst_state \<Rightarrow> (bool \<times> lst_state) option" where
  "dsl_lst_insert_value_at_index list index value s =
     (case (list, value) of
        (Some l, Some v) \<Rightarrow>
          if index < 0 \<or> index > a_count (lsts s l) then Some (False, s)
          else do {
            (ok, s) \<leftarrow> room l s;
            if \<not> ok then Some (False, s)
            else do {
              a \<leftarrow> a_values (lsts s l);
              let s = shift_up a (nat index) (nat (a_count (lsts s l) - index)) s;
              let s = set_cell a (nat index) (Some v) s;
              Some (True, set_lst l (\<lambda>d. d\<lparr>a_count := a_count d + 1\<rparr>) s) } }
      | _ \<Rightarrow> Some (False, s))"

definition dsl_lst_get :: "addr option \<Rightarrow> int \<Rightarrow> lst_state \<Rightarrow> addr option option" where
  "dsl_lst_get list index s =
     (case list of
        None \<Rightarrow> Some None
      | Some l \<Rightarrow>
          if index < 0 \<or> index \<ge> a_count (lsts s l) then Some None
          else do { a \<leftarrow> a_values (lsts s l); Some (cells s a (nat index)) })"

definition dsl_lst_set :: "addr option \<Rightarrow> int \<Rightarrow> addr option \<Rightarrow> lst_state \<Rightarrow> (bool \<times> lst_state) option" where
  "dsl_lst_set list index value s =
     (case list of
        None \<Rightarrow> Some (False, s)
      | Some l \<Rightarrow>
          if index < 0 \<or> index \<ge> a_count (lsts s l) then Some (False, s)
          else do { a \<leftarrow> a_values (lsts s l); Some (True, set_cell a (nat index) value s) })"

definition dsl_lst_clear :: "addr option \<Rightarrow> lst_state \<Rightarrow> bool \<times> lst_state" where
  "dsl_lst_clear list s =
     (case list of None \<Rightarrow> (False, s) | Some l \<Rightarrow> (True, set_lst l (\<lambda>d. d\<lparr>a_count := 0\<rparr>) s))"

definition dsl_lst_delete_value_at_index :: "addr option \<Rightarrow> int \<Rightarrow> lst_state \<Rightarrow> (bool \<times> lst_state) option" where
  "dsl_lst_delete_value_at_index list index s = do {
     value \<leftarrow> dsl_lst_get list index s;
     (case value of
        None \<Rightarrow> Some (False, s)
      | Some v \<Rightarrow> do {
          (ok, s) \<leftarrow> dsl_lst_remove_value_at_index list index s;
          if \<not> ok then Some (False, s) else Some (True, dsl_free v s) }) }"

text \<open>\<open>value->value.object_value\<close> of a value that is not an object is the union's bits, no
  address: \<^const>\<open>None\<close>.\<close>

definition dsl_lst_delete_object_value_at_index :: "addr option \<Rightarrow> int \<Rightarrow> lst_state \<Rightarrow> (bool \<times> lst_state) option" where
  "dsl_lst_delete_object_value_at_index list index s = do {
     value \<leftarrow> dsl_lst_get list index s;
     (case value of
        None \<Rightarrow> Some (False, s)
      | Some v \<Rightarrow> do {
          (ok, s) \<leftarrow> dsl_lst_remove_value_at_index list index s;
          if \<not> ok then Some (False, s)
          else (case vals s v of
                  VObject obj \<Rightarrow> Some (True, dsl_free v (dsl_free_ptr obj s))
                | _ \<Rightarrow> None) }) }"

partial_function (option) lst_delete_loop ::
  "(int \<Rightarrow> lst_state \<Rightarrow> (bool \<times> lst_state) option) \<Rightarrow> addr \<Rightarrow> lst_state \<Rightarrow> (bool \<times> lst_state) option" where
  "lst_delete_loop del l s =
     (if a_count (lsts s l) = 0 then Some (True, s)
      else (case del (a_count (lsts s l) - 1) s of
              None \<Rightarrow> None
            | Some (ok, s') \<Rightarrow> if \<not> ok then Some (False, s') else lst_delete_loop del l s'))"

definition dsl_lst_delete_all_value :: "addr option \<Rightarrow> lst_state \<Rightarrow> (bool \<times> lst_state) option" where
  "dsl_lst_delete_all_value list s =
     (case list of
        None \<Rightarrow> Some (False, s)
      | Some l \<Rightarrow> lst_delete_loop (dsl_lst_delete_value_at_index list) l s)"

definition dsl_lst_delete_all_object_value :: "addr option \<Rightarrow> lst_state \<Rightarrow> (bool \<times> lst_state) option" where
  "dsl_lst_delete_all_object_value list s =
     (case list of
        None \<Rightarrow> Some (False, s)
      | Some l \<Rightarrow> lst_delete_loop (dsl_lst_delete_object_value_at_index list) l s)"

section \<open>What the operations do to the sequence\<close>

text \<open>The header \<open>l\<close> represents the sequence \<open>xs\<close> of value pointers.\<close>

definition lst :: "lst_state \<Rightarrow> addr \<Rightarrow> addr option list \<Rightarrow> bool" where
  "lst s l xs \<longleftrightarrow>
     (\<exists>a. a_values (lsts s l) = Some a \<and> a_count (lsts s l) = int (length xs) \<and>
        int (length xs) \<le> a_size (lsts s l) \<and> 0 < a_size (lsts s l) \<and> (\<forall>i < length xs. cells s a i = xs ! i))"

lemma set_lst_simps [simp]:
  "lsts (set_lst l f s) = (lsts s)(l := f (lsts s l))" "cells (set_lst l f s) = cells s"
  "vals (set_lst l f s) = vals s" "freed (set_lst l f s) = freed s" "answers (set_lst l f s) = answers s"
  "lsts (set_cell a i v s) = lsts s" "cells (set_cell a i v s) = (cells s)(a := (cells s a)(i := v))"
  "vals (set_cell a i v s) = vals s" "freed (set_cell a i v s) = freed s" "answers (set_cell a i v s) = answers s"
  "lsts (copy_cells d c n s) = lsts s" "vals (copy_cells d c n s) = vals s" "freed (copy_cells d c n s) = freed s"
  "lsts (dsl_free p s) = lsts s" "cells (dsl_free p s) = cells s" "vals (dsl_free p s) = vals s"
  "lsts (dsl_free_ptr q s) = lsts s" "cells (dsl_free_ptr q s) = cells s" "vals (dsl_free_ptr q s) = vals s"
  by (simp_all add: set_lst_def set_cell_def copy_cells_def dsl_free_def dsl_free_ptr_def split: option.splits)

lemma shift_down_spec:
  "cells (shift_down a ui k s) = (cells s)(a := (\<lambda>i. if ui \<le> i \<and> i < ui + k then cells s a (Suc i) else cells s a i))"
  "lsts (shift_down a ui k s) = lsts s" "vals (shift_down a ui k s) = vals s" "freed (shift_down a ui k s) = freed s"
  by (induction a ui k s rule: shift_down.induct) (auto simp: fun_eq_iff)

lemma shift_up_spec:
  "cells (shift_up a index k s) =
     (cells s)(a := (\<lambda>i. if index < i \<and> i \<le> index + k then cells s a (i - 1) else cells s a i))"
  "lsts (shift_up a index k s) = lsts s" "vals (shift_up a index k s) = vals s"
  "freed (shift_up a index k s) = freed s"
  by (induction a index k s rule: shift_up.induct) (auto simp: fun_eq_iff)

text \<open>Making room keeps the sequence and leaves a free cell, or fails and changes nothing of it.\<close>

lemma room_spec:
  assumes "lst s l xs"
  obtains "\<exists>s'. room l s = Some (False, s') \<and> lst s' l xs" "int (length xs) = a_size (lsts s l)"
      "fst (dsl_malloc s) = None"
  | s' where "room l s = Some (True, s')" "lst s' l xs" "int (length xs) < a_size (lsts s' l)"
      "vals s' = vals s"
proof -
  obtain a where a: "a_values (lsts s l) = Some a" "a_count (lsts s l) = int (length xs)"
    "int (length xs) \<le> a_size (lsts s l)" "0 < a_size (lsts s l)" "\<forall>i < length xs. cells s a i = xs ! i"
    using assms by (auto simp: lst_def)
  show thesis
  proof (cases "int (length xs) = a_size (lsts s l)")
    case False
    then show thesis
      using a assms by (intro that(2) [of s]) (auto simp: room_def)
  next
    case True
    show thesis
    proof (cases "answers s")
      case Nil
      then show thesis
        using True a assms by (intro that(1)) (auto simp: room_def dsl_lst_resize_def dsl_malloc_def)
    next
      case (Cons x as)
      show thesis
      proof (cases x)
        case None
        then show thesis
          using True a Cons by (intro that(1)) (auto simp: room_def dsl_lst_resize_def dsl_malloc_def lst_def)
      next
        case (Some b)
        let ?t = "set_lst l (\<lambda>d. d\<lparr>a_values := Some b, a_size := a_size (lsts s l) * 2\<rparr>)
          (dsl_free a (copy_cells b a (nat (a_size (lsts s l))) (s\<lparr>answers := as\<rparr>)))"
        show thesis
          using True a Cons Some
          by (intro that(2) [of ?t]) (auto simp: room_def dsl_lst_resize_def dsl_malloc_def Let_def lst_def copy_cells_def)
      qed
    qed
  qed
qed

lemma add_value_spec:
  assumes "lst s l xs" "fst (dsl_malloc s) \<noteq> None"
  shows "\<exists>s'. dsl_lst_add_value (Some l) (Some v) s = Some (True, s') \<and> lst s' l (xs @ [Some v]) \<and> vals s' = vals s"
proof (rule room_spec [OF assms(1)], goal_cases)
  case 1
  then show ?case using assms(2) by simp
next
  case (2 t)
  obtain a where a: "a_values (lsts t l) = Some a" "a_count (lsts t l) = int (length xs)"
    "\<forall>i < length xs. cells t a i = xs ! i"
    using 2(2) by (auto simp: lst_def)
  then show ?case
    using 2 by (auto simp: dsl_lst_add_value_def lst_def nth_append)
qed

lemma remove_at_spec:
  assumes "lst s l xs"
  shows "dsl_lst_remove_value_at_index (Some l) i s =
    (if 0 \<le> i \<and> i < int (length xs) then dsl_lst_remove_value_at_index (Some l) i s else Some (False, s))"
    "0 \<le> i \<Longrightarrow> i < int (length xs) \<Longrightarrow>
     \<exists>s'. dsl_lst_remove_value_at_index (Some l) i s = Some (True, s') \<and>
       lst s' l (take (nat i) xs @ drop (Suc (nat i)) xs) \<and> vals s' = vals s \<and> freed s' = freed s"
proof -
  obtain a where a: "a_values (lsts s l) = Some a" "a_count (lsts s l) = int (length xs)"
    "int (length xs) \<le> a_size (lsts s l)" "0 < a_size (lsts s l)" "\<forall>i < length xs. cells s a i = xs ! i"
    using assms by (auto simp: lst_def)
  show "dsl_lst_remove_value_at_index (Some l) i s =
    (if 0 \<le> i \<and> i < int (length xs) then dsl_lst_remove_value_at_index (Some l) i s else Some (False, s))"
    using a by (auto simp: dsl_lst_remove_value_at_index_def)
  assume i: "0 \<le> i" "i < int (length xs)"
  let ?k = "nat (int (length xs) - 1 - i)"
  let ?t = "set_lst l (\<lambda>d. d\<lparr>a_count := a_count d - 1\<rparr>) (shift_down a (nat i) ?k s)"
  have "(take (nat i) xs @ drop (Suc (nat i)) xs) ! j = (if j < nat i then xs ! j else xs ! Suc j)"
    if "j < length xs - 1" for j
    using that i by (auto simp: nth_append min_def)
  then have "lst ?t l (take (nat i) xs @ drop (Suc (nat i)) xs)"
    using a i by (auto simp: lst_def shift_down_spec of_nat_diff)
  then show "\<exists>s'. dsl_lst_remove_value_at_index (Some l) i s = Some (True, s') \<and>
       lst s' l (take (nat i) xs @ drop (Suc (nat i)) xs) \<and> vals s' = vals s \<and> freed s' = freed s"
    using a i by (intro exI [of _ ?t]) (auto simp: dsl_lst_remove_value_at_index_def shift_down_spec)
qed

lemma nth_insert:
  assumes "k \<le> length xs" "j < Suc (length xs)"
  shows "(take k xs @ x # drop k xs) ! j = (if j < k then xs ! j else if j = k then x else xs ! (j - 1))"
proof (cases "j < k")
  case True
  with assms show ?thesis by (simp add: nth_append)
next
  case False
  show ?thesis
  proof (cases "j = k")
    case neq: False
    then have "j - k = Suc (j - 1 - k)" "k + (j - 1 - k) = j - 1"
      using \<open>\<not> j < k\<close> by simp_all
    with assms neq \<open>\<not> j < k\<close> show ?thesis
      by (simp add: nth_append)
  qed (use assms in \<open>simp add: nth_append\<close>)
qed

lemma insert_at_spec:
  assumes "lst s l xs" "fst (dsl_malloc s) \<noteq> None" and i: "0 \<le> i" "i \<le> int (length xs)"
  shows "\<exists>s'. dsl_lst_insert_value_at_index (Some l) i (Some v) s = Some (True, s') \<and>
    lst s' l (take (nat i) xs @ Some v # drop (nat i) xs) \<and> vals s' = vals s"
proof (rule room_spec [OF assms(1)], goal_cases)
  case 1
  then show ?case using assms(2) by simp
next
  case (2 t)
  have c: "a_count (lsts s l) = int (length xs)"
    using assms(1) by (auto simp: lst_def)
  obtain a where a: "a_values (lsts t l) = Some a" "a_count (lsts t l) = int (length xs)"
    "\<forall>i < length xs. cells t a i = xs ! i"
    using 2(2) by (auto simp: lst_def)
  let ?u = "set_lst l (\<lambda>d. d\<lparr>a_count := a_count d + 1\<rparr>)
    (set_cell a (nat i) (Some v) (shift_up a (nat i) (nat (int (length xs) - i)) t))"
  have k: "nat i \<le> length xs" "nat (int (length xs) - i) = length xs - nat i"
    using i by simp_all
  have "cells ?u a j = (take (nat i) xs @ Some v # drop (nat i) xs) ! j" if "j < Suc (length xs)" for j
  proof -
    have "cells ?u a j = (if j < nat i then cells t a j else if j = nat i then Some v else cells t a (j - 1))"
      using that k(1) unfolding k(2) by (simp add: shift_up_spec)
    then show ?thesis
      using nth_insert [OF k(1) that, of "Some v"] a(3) k(1) that by simp
  qed
  moreover have "length (take (nat i) xs @ Some v # drop (nat i) xs) = Suc (length xs)"
    using k(1) by simp
  moreover have "a_values (lsts ?u l) = Some a" "a_count (lsts ?u l) = int (Suc (length xs))"
    "int (Suc (length xs)) \<le> a_size (lsts ?u l)"
    using a 2(3) by (simp_all add: shift_up_spec)
  ultimately have "lst ?u l (take (nat i) xs @ Some v # drop (nat i) xs)"
    unfolding lst_def by (intro exI [of _ a] conjI) (simp_all only:, simp_all)
  then show ?case
    using 2 a i c by (intro exI [of _ ?u]) (auto simp: dsl_lst_insert_value_at_index_def shift_up_spec)
qed

lemma get_spec:
  "lst s l xs \<Longrightarrow> dsl_lst_get (Some l) i s = Some (if 0 \<le> i \<and> i < int (length xs) then xs ! nat i else None)"
  by (auto simp: lst_def dsl_lst_get_def nat_less_iff)

lemma delete_at_spec:
  assumes "lst s l (xs @ [Some v])"
  shows "\<exists>s'. dsl_lst_delete_value_at_index (Some l) (int (length xs)) s = Some (True, s') \<and> lst s' l xs \<and>
    freed s' = freed s @ [v]"
proof -
  obtain s' where "dsl_lst_remove_value_at_index (Some l) (int (length xs)) s = Some (True, s')"
    "lst s' l xs" "freed s' = freed s"
    using remove_at_spec(2) [OF assms, of "int (length xs)"] by auto
  then show ?thesis
    using get_spec [OF assms, of "int (length xs)"]
    by (auto simp: dsl_lst_delete_value_at_index_def lst_def)
qed

lemma delete_loop_spec:
  "lst s l (map Some vs) \<Longrightarrow>
     \<exists>s'. lst_delete_loop (dsl_lst_delete_value_at_index (Some l)) l s = Some (True, s') \<and> lst s' l [] \<and>
       freed s' = freed s @ rev vs"
proof (induction vs arbitrary: s rule: rev_induct)
  case Nil
  then show ?case
    by (auto simp: lst_delete_loop.simps lst_def)
next
  case (snoc v vs)
  have l: "lst s l (map Some vs @ [Some v])"
    using snoc.prems by simp
  obtain s' where d: "dsl_lst_delete_value_at_index (Some l) (int (length vs)) s = Some (True, s')"
    "lst s' l (map Some vs)" "freed s' = freed s @ [v]"
    using delete_at_spec [OF l] by auto
  have "a_count (lsts s l) = int (length vs) + 1"
    using snoc.prems by (auto simp: lst_def)
  then show ?case
    using snoc.IH [OF d(2)] d by (subst lst_delete_loop.simps) auto
qed

section \<open>Properties\<close>

definition arr2 :: lst_state where
  "arr2 = \<lparr>lnodes = (\<lambda>_. \<lparr>n_value = VBool False, n_prev = None, n_next = None\<rparr>),
     lnklsts = (\<lambda>_. \<lparr>l_head = None, l_foot = None, l_count = 0\<rparr>), freed = [], answers = [Some 50],
     lsts = (\<lambda>_. \<lparr>a_values = Some 20, a_size = 2, a_count = 2\<rparr>),
     cells = (\<lambda>_ _. None)(20 := (\<lambda>_. None)(0 := Some 7, 1 := Some 8)), vals = (\<lambda>_. VBool True)\<rparr>"

lemma arr2_lst: "lst arr2 l [Some 7, Some 8]"
  by (auto simp: lst_def arr2_def nth_Cons split: nat.splits)

text \<open>\<open>dsl_lst_insert_value_at_index\<close> with memory left inserts exactly there: the values
  before keep their index, the ones from there on move up by one, also when the array had to be
  moved to one of twice its size.\<close>

theorem lst_insert_at:
  assumes "lst s l xs" "fst (dsl_malloc s) \<noteq> None" "0 \<le> i" "i \<le> int (length xs)"
  shows "\<exists>s'. dsl_lst_insert_value_at_index (Some l) i (Some v) s = Some (True, s') \<and>
    lst s' l (take (nat i) xs @ Some v # drop (nat i) xs)"
  using insert_at_spec [OF assms] by blast

theorem lst_insert_at_witness:
  "\<exists>s'. dsl_lst_insert_value_at_index (Some 3) 1 (Some 9) arr2 = Some (True, s') \<and> lst s' 3 [Some 7, Some 9, Some 8]"
  using lst_insert_at [OF arr2_lst, of 1 3 9] by (simp add: arr2_def dsl_malloc_def)

text \<open>Inserting at an index and removing at the same index gives back the sequence.\<close>

theorem lst_insert_remove:
  assumes "lst s l xs" "fst (dsl_malloc s) \<noteq> None" "0 \<le> i" "i \<le> int (length xs)"
  shows "\<exists>s' s''. dsl_lst_insert_value_at_index (Some l) i (Some v) s = Some (True, s') \<and>
    dsl_lst_remove_value_at_index (Some l) i s' = Some (True, s'') \<and> lst s'' l xs"
proof -
  obtain s' where s': "dsl_lst_insert_value_at_index (Some l) i (Some v) s = Some (True, s')"
    "lst s' l (take (nat i) xs @ Some v # drop (nat i) xs)"
    using insert_at_spec [OF assms] by blast
  have k: "nat i \<le> length xs" "i < int (length (take (nat i) xs @ Some v # drop (nat i) xs))"
    using assms(3,4) by auto
  then have "take (nat i) (take (nat i) xs @ Some v # drop (nat i) xs) @
      drop (Suc (nat i)) (take (nat i) xs @ Some v # drop (nat i) xs) = xs"
    by (simp add: Suc_diff_le min_def)
  then show ?thesis
    using s'(1) remove_at_spec(2) [OF s'(2) assms(3) k(2)] by auto
qed

theorem lst_insert_remove_witness:
  "\<exists>s' s''. dsl_lst_insert_value_at_index (Some 3) 2 (Some 9) arr2 = Some (True, s') \<and>
    dsl_lst_remove_value_at_index (Some 3) 2 s' = Some (True, s'') \<and> lst s'' 3 [Some 7, Some 8]"
  using lst_insert_remove [OF arr2_lst, of 2 3 9] by (simp add: arr2_def dsl_malloc_def)

text \<open>\<open>dsl_lst_delete_all_value\<close> returns, empties the list and frees every value of it
  exactly once, the last first.\<close>

theorem lst_delete_all:
  assumes "lst s l (map Some vs)"
  shows "\<exists>s'. dsl_lst_delete_all_value (Some l) s = Some (True, s') \<and> lst s' l [] \<and> freed s' = freed s @ rev vs"
  using delete_loop_spec [OF assms] by (simp add: dsl_lst_delete_all_value_def)

theorem lst_delete_all_witness:
  "\<exists>s'. dsl_lst_delete_all_value (Some 3) arr2 = Some (True, s') \<and> lst s' 3 [] \<and> freed s' = [8, 7]"
  using lst_delete_all [of arr2 3 "[7, 8]"] arr2_lst by (simp add: arr2_def)

end
