(* ===== verification/Hash_Table.thy ===== *)
theory Hash_Table
  imports Array_List
begin

text \<open>
  \<^verbatim>\<open>libs/dslib/hashtable.c\<close>: 256 buckets, each a linked list whose nodes hold a pointer to a
  (name, value) pair.  A C string is the list of its characters before the terminating NUL.
\<close>

section \<open>State\<close>

record ht_pair =
  p_name :: string
  p_value :: dsl_value

record ht_state = dsl +
  ht_table :: "addr \<Rightarrow> nat \<Rightarrow> addr option"   \<comment> \<open>\<open>hashtable->table[ui]\<close>\<close>
  ht_pairs :: "addr \<Rightarrow> ht_pair"
  ht_bufs :: "addr \<Rightarrow> string"

definition DSLHASHTABLE_SIZE :: nat where "DSLHASHTABLE_SIZE = 256"
definition DSLHASHTABLE_MAX_NAME_LEN :: nat where "DSLHASHTABLE_MAX_NAME_LEN = 255"

definition set_table :: "addr \<Rightarrow> nat \<Rightarrow> addr option \<Rightarrow> ht_state \<Rightarrow> ht_state" where
  "set_table h i v s = s\<lparr>ht_table := (ht_table s)(h := (ht_table s h)(i := v))\<rparr>"

section \<open>Operations\<close>

definition dsl_hashtable_new :: "ht_state \<Rightarrow> addr option \<times> ht_state" where
  "dsl_hashtable_new s =
     (case dsl_malloc s of
        (None, s) \<Rightarrow> (None, s)
      | (Some h, s) \<Rightarrow>
          (Some h, s\<lparr>ht_table := (ht_table s)(h := (\<lambda>ui. if ui < DSLHASHTABLE_SIZE then None else ht_table s h ui))\<rparr>))"

text \<open>\<open>name[ui]\<close> is an \<open>int8\<close>: it is sign-extended before it is added to the \<open>uint32\<close>.\<close>

definition int8_of :: "char \<Rightarrow> int" where
  "int8_of c = (let n = int (of_char c :: nat) in if n < 128 then n else n - 256)"

definition hash_name :: "string \<Rightarrow> nat" where
  "hash_name name = unat (foldl (\<lambda>key c. key + of_int (int8_of c * 31)) (0 :: u32) name mod 256)"

text \<open>The walk of \<open>find_pair\<close>; the result is the pair found, if any.\<close>

partial_function (option) find_pair_loop :: "string \<Rightarrow> addr option \<Rightarrow> ht_state \<Rightarrow> addr option option" where
  "find_pair_loop name node s =
     (case node of
        None \<Rightarrow> Some None
      | Some n \<Rightarrow>
          (case n_value (lnodes s n) of
             VObject (Some pair) \<Rightarrow>
               if p_name (ht_pairs s pair) = name then Some (Some pair)
               else find_pair_loop name (n_next (lnodes s n)) s
           | _ \<Rightarrow> Some None))"

definition find_pair :: "addr option \<Rightarrow> string \<Rightarrow> ht_state \<Rightarrow> addr option option" where
  "find_pair hashtable name s =
     (case hashtable of
        None \<Rightarrow> Some None
      | Some h \<Rightarrow>
          (case ht_table s h (hash_name name) of
             None \<Rightarrow> Some None
           | Some l \<Rightarrow> find_pair_loop name (l_head (lnklsts s l)) s))"

text \<open>The twelve \<open>dsl_hashtable_set_XXX\<close>.\<close>

definition dsl_hashtable_set :: "addr option \<Rightarrow> string \<Rightarrow> dsl_value \<Rightarrow> ht_state \<Rightarrow> (bool \<times> ht_state) option" where
  "dsl_hashtable_set hashtable name value s =
     (case hashtable of
        None \<Rightarrow> Some (False, s)
      | Some h \<Rightarrow>
          if length name > DSLHASHTABLE_MAX_NAME_LEN then Some (False, s)
          else
            let key = hash_name name;
                (list, s) = (case ht_table s h key of
                   Some l \<Rightarrow> (Some l, s)
                 | None \<Rightarrow> (case dsl_lnklst_new s of
                     (None, s) \<Rightarrow> (None, s)
                   | (Some l, s) \<Rightarrow> (Some l, set_table h key (Some l) s)))
            in (case list of
                  None \<Rightarrow> Some (False, s)
                | Some l \<Rightarrow> do {
                    found \<leftarrow> find_pair hashtable name s;
                    if found \<noteq> None then Some (False, s)
                    else (case dsl_malloc s of
                      (None, s) \<Rightarrow> Some (False, s)
                    | (Some pair, s) \<Rightarrow>
                        let s = s\<lparr>ht_pairs := (ht_pairs s)(pair := \<lparr>p_name = name, p_value = value\<rparr>)\<rparr>
                        in (case dsl_lnklst_new_node (VObject (Some pair)) s of
                              (None, s) \<Rightarrow> Some (False, s)
                            | (Some node, s) \<Rightarrow> Some (dsl_lnklst_add_node (Some l) (Some node) s))) }))"

text \<open>
  The twelve \<open>dsl_hashtable_get_XXX\<close>: one function of the type tag asked for, a
  \<open>DSLVALUE_XXX\<close> of \<^verbatim>\<open>value.h\<close>.
\<close>

primrec value_tag :: "dsl_value \<Rightarrow> int" where
  "value_tag (VInt8 _) = 1" | "value_tag (VInt16 _) = 2" | "value_tag (VInt32 _) = 3" | "value_tag (VInt64 _) = 4"
| "value_tag (VUint8 _) = 5" | "value_tag (VUint16 _) = 6" | "value_tag (VUint32 _) = 7" | "value_tag (VUint64 _) = 8"
| "value_tag (VFloat _) = 9" | "value_tag (VDouble _) = 10" | "value_tag (VObject _) = 11" | "value_tag (VBool _) = 12"

definition dsl_hashtable_get :: "addr option \<Rightarrow> string \<Rightarrow> int \<Rightarrow> ht_state \<Rightarrow> dsl_value option option" where
  "dsl_hashtable_get hashtable name tag s = do {
     pair \<leftarrow> find_pair hashtable name s;
     Some (case pair of
             None \<Rightarrow> None
           | Some p \<Rightarrow> if value_tag (p_value (ht_pairs s p)) = tag then Some (p_value (ht_pairs s p)) else None) }"

partial_function (option) unset_loop ::
  "addr \<Rightarrow> string \<Rightarrow> addr option \<Rightarrow> ht_state \<Rightarrow> (bool \<times> ht_state) option" where
  "unset_loop l name node s =
     (case node of
        None \<Rightarrow> Some (False, s)
      | Some n \<Rightarrow>
          (case n_value (lnodes s n) of
             VObject (Some pair) \<Rightarrow>
               if p_name (ht_pairs s pair) = name then dsl_lnklst_delete_object_node (Some l) (Some n) s
               else unset_loop l name (n_next (lnodes s n)) s
           | _ \<Rightarrow> Some (False, s)))"

definition dsl_hashtable_unset :: "addr option \<Rightarrow> string \<Rightarrow> ht_state \<Rightarrow> (bool \<times> ht_state) option" where
  "dsl_hashtable_unset hashtable name s =
     (case hashtable of
        None \<Rightarrow> Some (False, s)
      | Some h \<Rightarrow>
          (case ht_table s h (hash_name name) of
             None \<Rightarrow> Some (False, s)
           | Some l \<Rightarrow> unset_loop l name (l_head (lnklsts s l)) s))"

fun unset_all_loop :: "addr \<Rightarrow> nat \<Rightarrow> nat \<Rightarrow> ht_state \<Rightarrow> (bool \<times> ht_state) option" where
  "unset_all_loop h ui 0 s = Some (True, s)"
| "unset_all_loop h ui (Suc k) s =
     (case ht_table s h ui of
        None \<Rightarrow> unset_all_loop h (Suc ui) k s
      | Some l \<Rightarrow> do {
          (ok, s) \<leftarrow> dsl_lnklst_delete_all_object_node (Some l) s;
          if \<not> ok then Some (False, s) else unset_all_loop h (Suc ui) k s })"

definition dsl_hashtable_unset_all :: "addr option \<Rightarrow> ht_state \<Rightarrow> (bool \<times> ht_state) option" where
  "dsl_hashtable_unset_all hashtable s =
     (case hashtable of None \<Rightarrow> Some (False, s) | Some h \<Rightarrow> unset_all_loop h 0 DSLHASHTABLE_SIZE s)"

fun free_lists_loop :: "addr \<Rightarrow> nat \<Rightarrow> nat \<Rightarrow> ht_state \<Rightarrow> bool \<times> ht_state" where
  "free_lists_loop h ui 0 s = (True, s)"
| "free_lists_loop h ui (Suc k) s =
     (case ht_table s h ui of
        None \<Rightarrow> free_lists_loop h (Suc ui) k s
      | Some l \<Rightarrow>
          (case dsl_lnklst_free (Some l) s of
             (False, s) \<Rightarrow> (False, s)
           | (True, s) \<Rightarrow> free_lists_loop h (Suc ui) k s))"

definition dsl_hashtable_free :: "addr option \<Rightarrow> ht_state \<Rightarrow> (bool \<times> ht_state) option" where
  "dsl_hashtable_free hashtable s =
     (case hashtable of
        None \<Rightarrow> Some (False, s)
      | Some h \<Rightarrow> do {
          (ok, s) \<leftarrow> dsl_hashtable_unset_all hashtable s;
          if \<not> ok then Some (False, s)
          else (case free_lists_loop h 0 DSLHASHTABLE_SIZE s of
                  (False, s) \<Rightarrow> Some (False, s)
                | (True, s) \<Rightarrow> Some (True, dsl_free h s)) })"

definition dsl_hashtable_has_key :: "addr option \<Rightarrow> string \<Rightarrow> ht_state \<Rightarrow> bool option" where
  "dsl_hashtable_has_key hashtable name s = map_option (\<lambda>p. p \<noteq> None) (find_pair hashtable name s)"

text \<open>\<open>dsl_hashtable_keys_list\<close>: the inner walk of one bucket, then the buckets in order.\<close>

partial_function (option) keys_bucket :: "addr \<Rightarrow> addr option \<Rightarrow> ht_state \<Rightarrow> (bool \<times> ht_state) option" where
  "keys_bucket keys_list node s =
     (case node of
        None \<Rightarrow> Some (True, s)
      | Some n \<Rightarrow>
          (case n_value (lnodes s n) of
             VObject (Some pair) \<Rightarrow>
               (case dsl_malloc s of
                  (None, s) \<Rightarrow> do {
                    (_, s) \<leftarrow> dsl_lnklst_delete_all_object_node (Some keys_list) s;
                    Some (False, s) }
                | (Some buffer, s) \<Rightarrow>
                    (case dsl_lnklst_new_node (VObject (Some buffer))
                            (s\<lparr>ht_bufs := (ht_bufs s)(buffer := p_name (ht_pairs s pair))\<rparr>) of
                       (None, s) \<Rightarrow> do {
                         (_, s) \<leftarrow> dsl_lnklst_delete_all_object_node (Some keys_list) (dsl_free buffer s);
                         Some (False, s) }
                     | (Some key_node, s) \<Rightarrow>
                         (let s = snd (dsl_lnklst_add_node (Some keys_list) (Some key_node) s)
                          in keys_bucket keys_list (n_next (lnodes s n)) s)))
           | _ \<Rightarrow> Some (False, s)))"

fun keys_loop :: "addr \<Rightarrow> addr \<Rightarrow> nat \<Rightarrow> nat \<Rightarrow> ht_state \<Rightarrow> (bool \<times> ht_state) option" where
  "keys_loop h keys_list ui 0 s = Some (True, s)"
| "keys_loop h keys_list ui (Suc k) s =
     (case ht_table s h ui of
        None \<Rightarrow> keys_loop h keys_list (Suc ui) k s
      | Some l \<Rightarrow> do {
          (ok, s) \<leftarrow> keys_bucket keys_list (l_head (lnklsts s l)) s;
          if \<not> ok then Some (False, s) else keys_loop h keys_list (Suc ui) k s })"

definition dsl_hashtable_keys_list :: "addr option \<Rightarrow> addr option \<Rightarrow> ht_state \<Rightarrow> (bool \<times> ht_state) option" where
  "dsl_hashtable_keys_list hashtable keys_list s =
     (case (hashtable, keys_list) of
        (Some h, Some k) \<Rightarrow> keys_loop h k 0 DSLHASHTABLE_SIZE s
      | _ \<Rightarrow> Some (False, s))"

definition dsl_hashtable_free_keys_list_items :: "addr option \<Rightarrow> ht_state \<Rightarrow> (bool \<times> ht_state) option" where
  "dsl_hashtable_free_keys_list_items keys_list s =
     (case keys_list of None \<Rightarrow> Some (False, s) | Some k \<Rightarrow> dsl_lnklst_delete_all_object_node (Some k) s)"

end
