(* ===== verification/Hash_Table_Proofs.thy ===== *)
theory Hash_Table_Proofs
  imports Hash_Table
begin

text \<open>
  The hash table is a finite map from names to values: an interface \<open>dictionary\<close> with the laws
  of insertion, lookup and removal, its interpretation on \<^verbatim>\<open>hashtable.c\<close>, and the properties.
  The allocator is relied on to answer with addresses that are not in use.
\<close>

section \<open>Representation\<close>

definition pair_of :: "ht_state \<Rightarrow> addr \<Rightarrow> addr" where
  "pair_of s n = (case n_value (lnodes s n) of VObject (Some p) \<Rightarrow> p | _ \<Rightarrow> 0)"

definition is_pair :: "ht_state \<Rightarrow> addr \<Rightarrow> bool" where
  "is_pair s n \<longleftrightarrow> n_value (lnodes s n) = VObject (Some (pair_of s n))"

definition key :: "ht_state \<Rightarrow> addr \<Rightarrow> string" where
  "key s n = p_name (ht_pairs s (pair_of s n))"

definition bucket :: "ht_state \<Rightarrow> addr option \<Rightarrow> addr list \<Rightarrow> bool" where
  "bucket s t ns \<longleftrightarrow> (case t of None \<Rightarrow> ns = [] | Some l \<Rightarrow> lnk s l ns)"

text \<open>An address the table \<open>h\<close> with the buckets \<open>B\<close> uses.\<close>

definition in_use :: "ht_state \<Rightarrow> addr \<Rightarrow> (nat \<Rightarrow> addr list) \<Rightarrow> addr \<Rightarrow> bool" where
  "in_use s h B a \<longleftrightarrow> (\<exists>i < 256. a \<in> set (B i) \<or> ht_table s h i = Some a \<or> a \<in> pair_of s ` set (B i))"

definition fresh :: "ht_state \<Rightarrow> addr \<Rightarrow> (nat \<Rightarrow> addr list) \<Rightarrow> bool" where
  "fresh s h B \<longleftrightarrow>
     distinct (filter (\<lambda>a. a \<noteq> None) (answers s)) \<and> (\<forall>a. Some a \<in> set (answers s) \<longrightarrow> \<not> in_use s h B a)"

definition ht_inv :: "ht_state \<Rightarrow> addr \<Rightarrow> (nat \<Rightarrow> addr list) \<Rightarrow> bool" where
  "ht_inv s h B \<longleftrightarrow>
     (\<forall>i < 256. bucket s (ht_table s h i) (B i)) \<and>
     (\<forall>i < 256. \<forall>n \<in> set (B i). is_pair s n \<and> hash_name (key s n) = i) \<and>
     (\<forall>i < 256. distinct (map (key s) (B i))) \<and>
     (\<forall>i < 256. \<forall>j < 256. i \<noteq> j \<longrightarrow> set (B i) \<inter> set (B j) = {}) \<and>
     (\<forall>i < 256. \<forall>j < 256. ht_table s h i \<noteq> None \<and> ht_table s h i = ht_table s h j \<longrightarrow> i = j) \<and>
     fresh s h B"

definition ht_map :: "ht_state \<Rightarrow> (nat \<Rightarrow> addr list) \<Rightarrow> string \<Rightarrow> dsl_value option" where
  "ht_map s B k =
     map_option (\<lambda>n. p_value (ht_pairs s (pair_of s n))) (find (\<lambda>n. key s n = k) (B (hash_name k)))"

definition ht_repr :: "addr \<Rightarrow> ht_state \<Rightarrow> (string \<Rightarrow> dsl_value option) \<Rightarrow> bool" where
  "ht_repr h s m \<longleftrightarrow> (\<exists>B. ht_inv s h B \<and> ht_map s B = m)"

lemma hash_name_lt [simp]: "hash_name k < 256"
  by (simp add: hash_name_def unat_mod_eq)

lemma ht_invD:
  assumes "ht_inv s h B"
  shows "i < 256 \<Longrightarrow> bucket s (ht_table s h i) (B i)"
    "i < 256 \<Longrightarrow> n \<in> set (B i) \<Longrightarrow> is_pair s n" "i < 256 \<Longrightarrow> n \<in> set (B i) \<Longrightarrow> hash_name (key s n) = i"
    "i < 256 \<Longrightarrow> distinct (map (key s) (B i))"
    "i < 256 \<Longrightarrow> j < 256 \<Longrightarrow> i \<noteq> j \<Longrightarrow> set (B i) \<inter> set (B j) = {}"
    "i < 256 \<Longrightarrow> j < 256 \<Longrightarrow> ht_table s h i = Some l \<Longrightarrow> ht_table s h j = Some l \<Longrightarrow> i = j"
    "distinct (filter (\<lambda>a. a \<noteq> None) (answers s))" "Some a \<in> set (answers s) \<Longrightarrow> \<not> in_use s h B a"
  using assms unfolding ht_inv_def fresh_def by (blast, blast, blast, blast, blast, force, blast, blast)

lemma ht_invI:
  assumes "\<And>i. i < 256 \<Longrightarrow> bucket s (ht_table s h i) (B i)"
    "\<And>i n. i < 256 \<Longrightarrow> n \<in> set (B i) \<Longrightarrow> is_pair s n \<and> hash_name (key s n) = i"
    "\<And>i. i < 256 \<Longrightarrow> distinct (map (key s) (B i))"
    "\<And>i j. i < 256 \<Longrightarrow> j < 256 \<Longrightarrow> i \<noteq> j \<Longrightarrow> set (B i) \<inter> set (B j) = {}"
    "\<And>i j l. i < 256 \<Longrightarrow> j < 256 \<Longrightarrow> ht_table s h i = Some l \<Longrightarrow> ht_table s h j = Some l \<Longrightarrow> i = j"
    "distinct (filter (\<lambda>a. a \<noteq> None) (answers s))" "\<And>a. Some a \<in> set (answers s) \<Longrightarrow> \<not> in_use s h B a"
  shows "ht_inv s h B"
  using assms unfolding ht_inv_def fresh_def by (intro conjI allI impI ballI) (auto dest: assms(5))

lemma more_ht:
  "dsl.more s' = dsl.more s \<Longrightarrow>
     ht_table s' = ht_table s \<and> ht_pairs s' = ht_pairs s \<and> ht_bufs s' = ht_bufs s" for s s' :: ht_state
  by (cases s; cases s') simp

lemma find_pair_loop_spec:
  "lnk s l (xs @ ys) \<Longrightarrow> \<forall>n \<in> set ys. is_pair s n \<Longrightarrow>
     find_pair_loop name (opt_hd ys) s = Some (map_option (pair_of s) (find (\<lambda>n. key s n = name) ys))"
proof (induction ys arbitrary: xs)
  case Nil
  then show ?case by (simp add: find_pair_loop.simps)
next
  case (Cons y ys)
  have nx: "n_next (lnodes s y) = opt_hd ys"
    using lnk_next [OF Cons.prems(1)] .
  have "find_pair_loop name (opt_hd ys) s = Some (map_option (pair_of s) (find (\<lambda>n. key s n = name) ys))"
    using Cons.prems by (intro Cons.IH [of "xs @ [y]"]) auto
  then show ?case
    using Cons.prems(2) nx by (subst find_pair_loop.simps) (simp add: is_pair_def key_def)
qed

lemma find_pair_spec:
  assumes "ht_inv s h B"
  shows "find_pair (Some h) name s =
    Some (map_option (pair_of s) (find (\<lambda>n. key s n = name) (B (hash_name name))))"
proof -
  have b: "bucket s (ht_table s h (hash_name name)) (B (hash_name name))"
    and p: "\<forall>n \<in> set (B (hash_name name)). is_pair s n"
    using ht_invD(1,2) [OF assms hash_name_lt] by blast+
  show ?thesis
  proof (cases "ht_table s h (hash_name name)")
    case (Some l)
    then have l: "lnk s l ([] @ B (hash_name name))"
      using b by (simp add: bucket_def)
    then show ?thesis
      using find_pair_loop_spec [OF l p] Some lnk_head [of s l "B (hash_name name)"] by (simp add: find_pair_def)
  qed (use b in \<open>simp add: find_pair_def bucket_def\<close>)
qed

lemma unset_loop_spec:
  "lnk s l (xs @ ys) \<Longrightarrow> \<forall>n \<in> set ys. is_pair s n \<Longrightarrow>
     unset_loop l name (opt_hd ys) s =
       (case find (\<lambda>n. key s n = name) ys of
          None \<Rightarrow> Some (False, s) | Some n \<Rightarrow> dsl_lnklst_delete_object_node (Some l) (Some n) s)"
proof (induction ys arbitrary: xs)
  case Nil
  then show ?case by (simp add: unset_loop.simps)
next
  case (Cons y ys)
  have nx: "n_next (lnodes s y) = opt_hd ys"
    using lnk_next [OF Cons.prems(1)] .
  have "unset_loop l name (opt_hd ys) s =
       (case find (\<lambda>n. key s n = name) ys of
          None \<Rightarrow> Some (False, s) | Some n \<Rightarrow> dsl_lnklst_delete_object_node (Some l) (Some n) s)"
    using Cons.prems by (intro Cons.IH [of "xs @ [y]"]) auto
  then show ?case
    using Cons.prems(2) nx by (subst unset_loop.simps) (simp add: is_pair_def key_def)
qed

text \<open>What the representation depends on.\<close>

lemma ht_inv_cong:
  assumes inv: "ht_inv s h B"
    and v: "\<And>i n. i < 256 \<Longrightarrow> n \<in> set (B i) \<Longrightarrow> lnodes s' n = lnodes s n"
    and p: "\<And>i n. i < 256 \<Longrightarrow> n \<in> set (B i) \<Longrightarrow> ht_pairs s' (pair_of s n) = ht_pairs s (pair_of s n)"
    and t: "ht_table s' h = ht_table s h" and l: "\<And>i k. i < 256 \<Longrightarrow> ht_table s h i = Some k \<Longrightarrow> lnklsts s' k = lnklsts s k"
    and a: "distinct (filter (\<lambda>a. a \<noteq> None) (answers s'))" "set (answers s') \<subseteq> set (answers s)"
  shows "ht_inv s' h B \<and> ht_map s' B = ht_map s B"
proof -
  have po: "pair_of s' n = pair_of s n" and key: "key s' n = key s n" and ip: "is_pair s' n = is_pair s n"
    if "i < 256" "n \<in> set (B i)" for i n
    using v [OF that] p [OF that] by (simp_all add: pair_of_def key_def is_pair_def)
  note D = ht_invD [OF inv]
  have iu: "in_use s' h B = in_use s h B"
    using po by (auto simp: in_use_def t fun_eq_iff image_iff) (metis po)+
  have I: "ht_inv s' h B"
  proof (rule ht_invI)
    show "bucket s' (ht_table s' h i) (B i)" if i: "i < 256" for i
      using D(1) [OF i] v [OF i] l [OF i] lnk_cong [of "B i" s' s]
      by (auto simp: bucket_def t split: option.splits)
    show "distinct (map (key s') (B i))" if i: "i < 256" for i
    proof -
      have "map (key s') (B i) = map (key s) (B i)"
        using key [OF i] by simp
      then show ?thesis using D(4) [OF i] by (simp only:)
    qed
    show "Some b \<in> set (answers s') \<Longrightarrow> \<not> in_use s' h B b" for b
      using a(2) D(8) unfolding iu by blast
  qed (use D key ip a(1) t in auto)
  have "find (\<lambda>n. key s' n = k) (B (hash_name k)) = find (\<lambda>n. key s n = k) (B (hash_name k))" for k
    using key [of "hash_name k"] by (intro find_cong) auto
  then have "ht_map s' B k = ht_map s B k" for k
    using po p [of "hash_name k"] by (auto simp: ht_map_def intro!: option.map_cong) (metis find_Some_iff hash_name_lt nth_mem po)
  with I show ?thesis by auto
qed

section \<open>Insertion\<close>

text \<open>An answer of the allocator is taken off the stream and is not in use.\<close>

lemma malloc_cases:
  obtains s' where "dsl_malloc s = (None, s')" "lnodes s' = lnodes s" "lnklsts s' = lnklsts s"
      "dsl.more s' = dsl.more s" "freed s' = freed s" "answers s' = tl (answers s)"
  | a as s' where "answers s = Some a # as" "dsl_malloc s = (Some a, s')" "s' = s\<lparr>answers := as\<rparr>"
proof (cases "\<exists>a as. answers s = Some a # as")
  case True
  then show thesis
    using that(2) by (auto simp: dsl_malloc_def)
next
  case False
  then show thesis
    by (intro that(1) [of "snd (dsl_malloc s)"]) (auto simp: dsl_malloc_def split: list.splits option.splits)
qed

lemma find_snoc: "find P (xs @ [x]) = (case find P xs of Some y \<Rightarrow> Some y | None \<Rightarrow> if P x then Some x else None)"
  by (induction xs) auto

lemma fresh_tl:
  assumes "ht_inv s h B" "answers s = x # as" "lnodes s' = lnodes s" "lnklsts s' = lnklsts s"
    "dsl.more s' = dsl.more s" "answers s' = as"
  shows "ht_inv s' h B \<and> ht_map s' B = ht_map s B"
proof (rule ht_inv_cong [OF assms(1)])
  show "distinct (filter (\<lambda>a. a \<noteq> None) (answers s'))" "set (answers s') \<subseteq> set (answers s)"
    using ht_invD(7) [OF assms(1)] assms(2,6) by (auto split: if_splits)
qed (use assms more_ht [OF assms(5)] in auto)

lemma fresh_not_again:
  assumes "ht_inv s h B" "answers s = Some a # as"
  shows "\<not> in_use s h B a" "Some a \<notin> set as"
  using ht_invD(7,8) [OF assms(1)] assms(2) by auto

text \<open>A bucket that had no list gets an empty one.\<close>

lemma new_bucket:
  assumes inv: "ht_inv s h B" and as: "answers s = Some l # as" and k: "k < 256" "ht_table s h k = None"
    and s': "s' = set_table h k (Some l) (dsl_lnklst_init (Some l) (s\<lparr>answers := as\<rparr>))"
  shows "ht_inv s' h B \<and> ht_map s' B = ht_map s B \<and> ht_table s' h k = Some l \<and> answers s' = as"
proof -
  note D = ht_invD [OF inv] and fr = fresh_not_again [OF inv as]
  have f: "lnodes s' = lnodes s" "ht_pairs s' = ht_pairs s" "answers s' = as"
    "ht_table s' h = (ht_table s h)(k := Some l)"
    "lnklsts s' = (lnklsts s)(l := \<lparr>l_head = None, l_foot = None, l_count = 0\<rparr>)"
    by (cases "lnklsts s l"; simp add: s' dsl_lnklst_init_def set_list_def set_table_def)+
  have po: "pair_of s' = pair_of s" "key s' = key s" "is_pair s' = is_pair s"
    by (simp_all add: pair_of_def key_def is_pair_def f fun_eq_iff)
  have Bk: "B k = []"
    using D(1) [OF k(1)] k(2) by (simp add: bucket_def)
  have other: "ht_table s h i \<noteq> Some l" if "i < 256" for i
    using fr that by (auto simp: in_use_def)
  have "ht_inv s' h B"
  proof (rule ht_invI)
    fix i :: nat assume i: "i < 256"
    show "bucket s' (ht_table s' h i) (B i)"
    proof (cases "i = k")
      case True
      then show ?thesis
        using Bk by (simp add: f bucket_def lnk_def)
    next
      case False
      then show ?thesis
        using D(1) [OF i] other [OF i] lnk_cong [of "B i" s' s] by (auto simp: f bucket_def split: option.splits)
    qed
  next
    fix i j l' assume "i < 256" "j < 256" "ht_table s' h i = Some l'" "ht_table s' h j = Some l'"
    then show "i = j"
      using D(6) [of i j l'] other by (auto simp: f split: if_splits)
  next
    fix a assume "Some a \<in> set (answers s')"
    then have "Some a \<in> set (answers s)" "a \<noteq> l"
      using as fr by (auto simp: f)
    then show "\<not> in_use s' h B a"
      using D(8) [of a] by (auto simp: in_use_def po f split: if_splits)
  qed (use D po f as in auto)
  moreover have "ht_map s' B = ht_map s B"
    by (simp add: ht_map_def fun_eq_iff po f)
  ultimately show ?thesis
    using f by simp
qed

lemma lnk_value_upd: "lnk (set_node a (\<lambda>d. d\<lparr>n_value := v\<rparr>) s) l ps = lnk s l ps"
  by (rule lnk_cong) auto

text \<open>Two more answers become the pair and its node, at the end of the bucket.\<close>

lemma add_entry:
  assumes inv: "ht_inv s h B" and as: "answers s = Some p # Some n # as"
    and l: "ht_table s h (hash_name name) = Some l" and new: "ht_map s B name = None"
    and t: "t = set_node n (\<lambda>d. d\<lparr>n_value := VObject (Some p)\<rparr>)
      (s\<lparr>ht_pairs := (ht_pairs s)(p := \<lparr>p_name = name, p_value = value\<rparr>), answers := as\<rparr>)"
  shows "\<exists>s' B'. dsl_lnklst_add_node (Some l) (Some n) t = (True, s') \<and> ht_inv s' h B' \<and>
    ht_map s' B' = (ht_map s B)(name \<mapsto> value)"
proof -
  let ?i = "hash_name name"
  note D = ht_invD [OF inv] and fr = fresh_not_again [OF inv as]
  have n: "\<not> in_use s h B n" "Some n \<notin> set as" "n \<noteq> p" "Some p \<notin> set as" "\<not> in_use s h B p"
    using D(7,8) as fr by auto
  have nB: "n \<notin> set (B i)" "p \<notin> pair_of s ` set (B i)" "p \<notin> set (B i)" "n \<notin> pair_of s ` set (B i)" if "i < 256" for i
    using n that by (auto simp: in_use_def)
  have "lnk s l (B ?i)"
    using D(1) [of ?i] l by (simp add: bucket_def)
  then have "lnk t l (B ?i)"
    unfolding t lnk_value_upd by (simp add: lnk_def)
  from add_node_spec [OF this nB(1)] obtain s' where
    s': "dsl_lnklst_add_node (Some l) (Some n) t = (True, s')" "lnk s' l (B ?i @ [n])"
      "\<And>q. n_value (lnodes s' q) = n_value (lnodes t q)"
      "\<And>q. q \<notin> set (B ?i @ [n]) \<Longrightarrow> lnodes s' q = lnodes t q" "\<And>k. k \<noteq> l \<Longrightarrow> lnklsts s' k = lnklsts t k"
      "answers s' = as" "dsl.more s' = dsl.more t"
    by (auto simp: t)
  define B' where "B' = B(?i := B ?i @ [n])"
  have f: "ht_table s' = ht_table s" "ht_pairs s' = (ht_pairs s)(p := \<lparr>p_name = name, p_value = value\<rparr>)"
    using more_ht [OF s'(7)] by (simp_all add: t set_node_def)
  have v: "n_value (lnodes s' q) = (if q = n then VObject (Some p) else n_value (lnodes s q))" for q
    using s'(3) [of q] by (simp add: t)
  have po: "pair_of s' n = p" "key s' n = name" "is_pair s' n"
    by (simp_all add: pair_of_def key_def is_pair_def v f)
  have old: "pair_of s' q = pair_of s q \<and> key s' q = key s q \<and> is_pair s' q = is_pair s q \<and>
      ht_pairs s' (pair_of s q) = ht_pairs s (pair_of s q)"
    if "i < 256" "q \<in> set (B i)" for i q
  proof -
    have "q \<noteq> n" "pair_of s q \<noteq> p"
      using nB [OF that(1)] that(2) by auto
    then have "pair_of s' q = pair_of s q" "pair_of s q \<noteq> p"
      by (simp_all add: pair_of_def v)
    then show ?thesis
      using \<open>q \<noteq> n\<close> by (simp add: key_def is_pair_def v f)
  qed
  have mk: "map (key s') (B i) = map (key s) (B i)" if "i < 256" for i
    using old [OF that] by simp
  have notin: "name \<notin> key s ` set (B ?i)"
    using new by (auto simp: ht_map_def find_None_iff)
  have "ht_inv s' h B'"
  proof (rule ht_invI)
    fix i :: nat assume i: "i < 256"
    show "bucket s' (ht_table s' h i) (B' i)"
    proof (cases "i = ?i")
      case True
      then show ?thesis
        using s'(2) l by (simp add: B'_def bucket_def f)
    next
      case False
      have "lnodes s' q = lnodes s q" if "q \<in> set (B i)" for q
      proof -
        have "q \<notin> set (B ?i)" "q \<noteq> n"
          using D(5) [OF i _ False] nB(1) [OF i] that by auto
        then show ?thesis
          using s'(4) [of q] by (simp add: t)
      qed
      moreover have "lnklsts s' k = lnklsts s k" if "ht_table s h i = Some k" for k
        using s'(5) [of k] D(6) [of i ?i l] i that False l by (cases "k = l") (auto simp: t)
      ultimately show ?thesis
        using False D(1) [OF i] lnk_cong [of "B i" s' s] by (auto simp: B'_def bucket_def f split: option.splits)
    qed
    have "map (key s') (B' i) = (if i = ?i then map (key s) (B i) @ [name] else map (key s) (B i))"
      using mk [OF i] by (simp add: B'_def po)
    moreover have "distinct \<dots>"
      using D(4) [OF i] notin by auto
    ultimately show "distinct (map (key s') (B' i))"
      by (simp only:)
    show "is_pair s' q \<and> hash_name (key s' q) = i" if "q \<in> set (B' i)" for q
      using that old [OF i] D(2,3) [OF i] po by (auto simp: B'_def split: if_splits)
  next
    fix i j :: nat assume "i < 256" "j < 256" "i \<noteq> j"
    then show "set (B' i) \<inter> set (B' j) = {}"
      using D(5) [of i j] nB(1) by (auto simp: B'_def)
  next
    fix a assume a: "Some a \<in> set (answers s')"
    then have "\<not> in_use s h B a" "a \<noteq> n" "a \<noteq> p"
      using D(8) [of a] as n s'(6) by auto
    moreover have "set (B' i) \<subseteq> insert n (set (B i))" "pair_of s' ` set (B' i) \<subseteq> insert p (pair_of s ` set (B i))"
      if "i < 256" for i
      using old [OF that] po by (auto simp: B'_def split: if_splits)
    ultimately show "\<not> in_use s' h B' a"
      unfolding in_use_def f by blast
  qed (use D as s' f in auto)
  moreover have "ht_map s' B' k = ((ht_map s B)(name \<mapsto> value)) k" for k
  proof -
    have fnd: "find (\<lambda>n. key s' n = k) (B (hash_name k)) = find (\<lambda>n. key s n = k) (B (hash_name k))"
      using old [of "hash_name k"] by (intro find_cong) auto
    have val: "map_option (\<lambda>n. p_value (ht_pairs s' (pair_of s' n))) (find (\<lambda>n. key s n = k) (B (hash_name k))) = ht_map s B k"
      unfolding ht_map_def using old [of "hash_name k"]
      by (intro option.map_cong refl) (auto simp: find_Some_iff)
    show ?thesis
    proof (cases "k = name")
      case True
      have "find (\<lambda>n. key s n = k) (B ?i) = None"
        using notin True by (auto simp: find_None_iff)
      then show ?thesis
        using True fnd po f by (simp add: ht_map_def B'_def find_snoc)
    next
      case False
      then have "find (\<lambda>n. key s' n = k) (B' (hash_name k)) = find (\<lambda>n. key s n = k) (B (hash_name k))"
        using fnd po by (auto simp: B'_def find_snoc split: option.splits)
      then show ?thesis
        using False val by (simp add: ht_map_def)
    qed
  qed
  ultimately show ?thesis
    using s'(1) by blast
qed

lemma malloc_None_inv:
  assumes inv: "ht_inv s h B" and m: "dsl_malloc s = (None, s')"
  shows "ht_inv s' h B \<and> ht_map s' B = ht_map s B"
proof (cases "answers s")
  case Nil
  then show ?thesis
    using inv m by (auto simp: dsl_malloc_def)
next
  case (Cons x as)
  then show ?thesis
    using m by (intro fresh_tl [OF inv Cons]) (auto simp: dsl_malloc_def)
qed

lemma two_answers:
  "None \<notin> set (take 3 xs) \<Longrightarrow> 3 \<le> length xs \<Longrightarrow> ys = xs \<or> (\<exists>x. xs = x # ys) \<Longrightarrow> \<exists>p n as. ys = Some p # Some n # as"
  by (cases xs; cases "tl xs"; cases "tl (tl xs)"; cases "hd xs"; cases "hd (tl xs)"; cases "hd (tl (tl xs))") auto

lemma set_spec:
  assumes inv: "ht_inv s h B" and len: "length name \<le> 255"
  shows "\<exists>ok s'. dsl_hashtable_set (Some h) name value s = Some (ok, s') \<and>
    (ok \<and> ht_map s B name = None \<and> ht_repr h s' ((ht_map s B)(name \<mapsto> value)) \<or>
     \<not> ok \<and> ht_repr h s' (ht_map s B)) \<and>
    (ht_map s B name = None \<and> None \<notin> set (take 3 (answers s)) \<and> 3 \<le> length (answers s) \<longrightarrow> ok)"
proof -
  let ?i = "hash_name name"
  define list_s where "list_s = (case ht_table s h ?i of
      Some l \<Rightarrow> (Some l, s)
    | None \<Rightarrow> (case dsl_lnklst_new s of
        (None, s) \<Rightarrow> (None, s)
      | (Some l, s) \<Rightarrow> (Some l, set_table h ?i (Some l) s)))"
  have step: "dsl_hashtable_set (Some h) name value s =
     (case list_s of
        (None, s1) \<Rightarrow> Some (False, s1)
      | (Some l, s1) \<Rightarrow> do {
          found \<leftarrow> find_pair (Some h) name s1;
          if found \<noteq> None then Some (False, s1)
          else (case dsl_malloc s1 of
            (None, s) \<Rightarrow> Some (False, s)
          | (Some pair, s) \<Rightarrow>
              let s = s\<lparr>ht_pairs := (ht_pairs s)(pair := \<lparr>p_name = name, p_value = value\<rparr>)\<rparr>
              in (case dsl_lnklst_new_node (VObject (Some pair)) s of
                    (None, s) \<Rightarrow> Some (False, s)
                  | (Some node, s) \<Rightarrow> Some (dsl_lnklst_add_node (Some l) (Some node) s))) })"
    using len by (simp add: dsl_hashtable_set_def list_s_def DSLHASHTABLE_MAX_NAME_LEN_def Let_def split: option.splits prod.splits)
  have "(\<exists>l s1. list_s = (Some l, s1) \<and> ht_inv s1 h B \<and> ht_map s1 B = ht_map s B \<and> ht_table s1 h ?i = Some l \<and>
        (s1 = s \<or> (\<exists>x. answers s = x # answers s1))) \<or>
      (\<exists>s1. list_s = (None, s1) \<and> ht_inv s1 h B \<and> ht_map s1 B = ht_map s B \<and>
        (answers s = [] \<or> None \<in> set (take 3 (answers s))))"
  proof (cases "ht_table s h ?i")
    case (Some l)
    then show ?thesis
      using inv by (simp add: list_s_def)
  next
    case None
    show ?thesis
    proof (rule malloc_cases [of s], goal_cases)
      case (1 s1)
      have "ht_inv s1 h B \<and> ht_map s1 B = ht_map s B"
      proof (cases "answers s")
        case Nil
        then show ?thesis
          using 1 more_ht [OF 1(4)] ht_inv_cong [OF inv, of s1] by simp
      next
        case (Cons x as)
        then show ?thesis
          using 1 by (intro fresh_tl [OF inv]) simp_all
      qed
      moreover have "answers s = [] \<or> None \<in> set (take 3 (answers s))"
        using 1(1) by (cases "answers s") (auto simp: dsl_malloc_def split: option.splits)
      ultimately show ?case
        using 1(1) None by (simp add: list_s_def dsl_lnklst_new_def)
    next
      case (2 a as s1)
      then have e: "list_s = (Some a, set_table h ?i (Some a) (dsl_lnklst_init (Some a) (s\<lparr>answers := as\<rparr>)))"
        using None by (simp add: list_s_def dsl_lnklst_new_def)
      from new_bucket [OF inv 2(1) hash_name_lt None refl] show ?case
        unfolding e using 2(1) by simp
    qed
  qed
  then consider
    (list) l s1 where "list_s = (Some l, s1)" "ht_inv s1 h B" "ht_map s1 B = ht_map s B" "ht_table s1 h ?i = Some l"
        "s1 = s \<or> (\<exists>x. answers s = x # answers s1)"
    | (none) s1 where "list_s = (None, s1)" "ht_inv s1 h B" "ht_map s1 B = ht_map s B"
        "answers s = [] \<or> None \<in> set (take 3 (answers s))"
    by blast
  then show ?thesis
  proof cases
    case l1: list
    note inv1 = l1(2)
    have m: "ht_map s1 B name = ht_map s B name"
      using l1(3) by simp
    have fpN: "find_pair (Some h) name s1 = Some None" if "ht_map s B name = None"
      using find_pair_spec [OF inv1, of name] that m by (auto simp: ht_map_def)
    have fpS: "\<exists>x. find_pair (Some h) name s1 = Some (Some x)" if "ht_map s B name = Some v" for v
      using find_pair_spec [OF inv1, of name] that m by (auto simp: ht_map_def)
    have repr1: "ht_repr h s1 (ht_map s B)"
      using l1 by (auto simp: ht_repr_def)
    have ans: "answers s1 = answers s \<or> (\<exists>x. answers s = x # answers s1)"
      using l1 by auto
    show ?thesis
    proof (cases "ht_map s B name")
      case (Some v)
      then show ?thesis
        unfolding step l1(1) using fpS [OF Some] repr1 by auto
    next
      case new: None
      show ?thesis
      proof (cases "\<exists>p n as. answers s1 = Some p # Some n # as")
        case True
        then obtain p n as where as: "answers s1 = Some p # Some n # as" by blast
        have new1: "ht_map s1 B name = None" using new l1 by simp
        obtain s' B' where "dsl_lnklst_add_node (Some l) (Some n) (set_node n (\<lambda>d. d\<lparr>n_value := VObject (Some p)\<rparr>)
            (s1\<lparr>ht_pairs := (ht_pairs s1)(p := \<lparr>p_name = name, p_value = value\<rparr>), answers := as\<rparr>)) = (True, s')"
            "ht_inv s' h B'" "ht_map s' B' = (ht_map s B)(name \<mapsto> value)"
          using add_entry [OF inv1 as l1(4) new1 refl, of "value"] l1 by auto
        then show ?thesis
          unfolding step l1(1) using as new fpN [OF new]
          by (auto simp: dsl_malloc_def dsl_lnklst_new_node_def ht_repr_def)
      next
        case False
        have np: "\<not> (None \<notin> set (take 3 (answers s)) \<and> 3 \<le> length (answers s))"
          using two_answers False ans by blast
        show ?thesis
        proof (rule malloc_cases [of s1], goal_cases)
          case a: (1 s2)
          have "ht_repr h s2 (ht_map s B)"
            using malloc_None_inv [OF inv1 a(1)] l1(3) by (auto simp: ht_repr_def)
          then show ?case
            unfolding step l1(1) using a(1) fpN [OF new] np by auto
        next
          case a: (2 p as s2)
          let ?s3 = "s2\<lparr>ht_pairs := (ht_pairs s2)(p := \<lparr>p_name = name, p_value = value\<rparr>)\<rparr>"
          have "\<not> in_use s1 h B p"
            using fresh_not_again [OF inv1 a(1)] by blast
          then have I: "ht_inv ?s3 h B \<and> ht_map ?s3 B = ht_map s1 B"
            using a ht_invD(7) [OF inv1]
            by (intro ht_inv_cong [OF inv1]) (auto simp: in_use_def)
          have "\<not> (\<exists>n as'. answers ?s3 = Some n # as')"
            using False a by auto
          then obtain s4 where s4: "dsl_malloc ?s3 = (None, s4)"
            using malloc_cases [of ?s3] by metis
          have "ht_repr h s4 (ht_map s B)"
            using malloc_None_inv [OF _ s4, of h B] I l1(3) by (auto simp: ht_repr_def)
          moreover have "dsl_lnklst_new_node (VObject (Some p)) ?s3 = (None, s4)"
            using s4 by (simp add: dsl_lnklst_new_node_def)
          ultimately show ?case
            unfolding step l1(1) using a(2) fpN [OF new] np by (auto simp: Let_def)
        qed
      qed
    qed
  next
    case n1: none
    then have "ht_repr h s1 (ht_map s B)"
      by (auto simp: ht_repr_def)
    then show ?thesis
      unfolding step n1(1) using n1(4) by (cases "answers s") auto
  qed
qed

section \<open>Removal\<close>

lemma find_split:
  "find P xs = Some x \<Longrightarrow> \<exists>as bs. xs = as @ x # bs \<and> P x"
  by (auto simp: find_Some_iff) (metis nth_mem split_list)

lemma find_none_key:
  "distinct (map f (xs @ y # ys)) \<Longrightarrow> find (\<lambda>n. f n = f y) (xs @ ys) = None"
  by (auto simp: find_None_iff image_iff)

lemma distinct_map_remove: "distinct (map f (xs @ y # ys)) \<Longrightarrow> distinct (map f (xs @ ys))"
  by simp

lemma find_remove_other:
  "\<not> P y \<Longrightarrow> find P (xs @ y # ys) = find P (xs @ ys)"
  by (induction xs) auto

lemma unset_spec:
  assumes inv: "ht_inv s h B"
  shows "ht_map s B name = None \<Longrightarrow> dsl_hashtable_unset (Some h) name s = Some (False, s)"
    "ht_map s B name \<noteq> None \<Longrightarrow> \<exists>s' n. dsl_hashtable_unset (Some h) name s = Some (True, s') \<and>
       ht_repr h s' ((ht_map s B)(name := None)) \<and> freed s' = freed s @ [pair_of s n, n] \<and> key s n = name \<and>
       n \<in> set (B (hash_name name))"
proof -
  let ?i = "hash_name name"
  note D = ht_invD [OF inv]
  have u: "dsl_hashtable_unset (Some h) name s =
      (case find (\<lambda>n. key s n = name) (B ?i) of
         None \<Rightarrow> Some (False, s)
       | Some n \<Rightarrow> dsl_lnklst_delete_object_node (ht_table s h ?i) (Some n) s)"
  proof (cases "ht_table s h ?i")
    case None
    then show ?thesis
      using D(1) [of ?i] by (simp add: dsl_hashtable_unset_def bucket_def)
  next
    case (Some l)
    then have l: "lnk s l ([] @ B ?i)"
      using D(1) [of ?i] by (simp add: bucket_def)
    have "\<forall>n \<in> set (B ?i). is_pair s n"
      using D(2) [of ?i] by simp
    from unset_loop_spec [OF l this, of name] show ?thesis
      using Some lnk_head [of s l "B ?i"] l by (simp add: dsl_hashtable_unset_def split: option.splits)
  qed
  show "ht_map s B name = None \<Longrightarrow> dsl_hashtable_unset (Some h) name s = Some (False, s)"
    unfolding u by (auto simp: ht_map_def)
  assume "ht_map s B name \<noteq> None"
  then obtain n where n: "find (\<lambda>n. key s n = name) (B ?i) = Some n"
    by (auto simp: ht_map_def)
  from find_split [OF n] obtain xs ys where B: "B ?i = xs @ n # ys" and kn: "key s n = name"
    by blast
  have "ht_table s h ?i \<noteq> None"
    using D(1) [of ?i] B by (auto simp: bucket_def split: option.splits)
  then obtain l where l: "ht_table s h ?i = Some l" by blast
  have lnk: "lnk s l (xs @ n # ys)"
    using D(1) [of ?i] l B by (simp add: bucket_def)
  have ip: "n_value (lnodes s n) = VObject (Some (pair_of s n))"
    using D(2) [of ?i n] B by (simp add: is_pair_def)
  obtain s' where s': "dsl_lnklst_delete_object_node (Some l) (Some n) s = Some (True, s')" "lnk s' l (xs @ ys)"
      "\<And>q. n_value (lnodes s' q) = n_value (lnodes s q)" "freed s' = freed s @ objs s [n]"
      "\<And>q. q \<notin> set (xs @ ys) \<Longrightarrow> lnodes s' q = lnodes s q" "\<And>k. k \<noteq> l \<Longrightarrow> lnklsts s' k = lnklsts s k"
      "answers s' = answers s" "dsl.more s' = dsl.more s"
    using delete_object_node_spec [OF lnk] ip by (auto simp: is_object_def)
  note f = more_ht [OF s'(8)]
  define B' where "B' = B(?i := xs @ ys)"
  have po: "pair_of s' = pair_of s" "key s' = key s" "is_pair s' = is_pair s"
    using f by (simp_all add: pair_of_def key_def is_pair_def fun_eq_iff s'(3))
  have sub: "set (B' i) \<subseteq> set (B i)" for i
    using B by (auto simp: B'_def)
  have "ht_inv s' h B'"
  proof (rule ht_invI)
    fix i :: nat assume i: "i < 256"
    show "bucket s' (ht_table s' h i) (B' i)"
    proof (cases "i = ?i")
      case True
      then show ?thesis
        using s'(2) l f by (simp add: B'_def bucket_def)
    next
      case False
      have "lnodes s' q = lnodes s q" if "q \<in> set (B i)" for q
        using D(5) [OF i _ False] B that by (intro s'(5)) auto
      moreover have "lnklsts s' k = lnklsts s k" if "ht_table s h i = Some k" for k
        using s'(6) [of k] D(6) [of i ?i l] i that False l by (cases "k = l") auto
      ultimately show ?thesis
        using False D(1) [OF i] f lnk_cong [of "B i" s' s] by (auto simp: B'_def bucket_def split: option.splits)
    qed
    show "distinct (map (key s') (B' i))"
      using D(4) [OF i] B distinct_map_remove [of "key s" xs n ys] unfolding po B'_def by (auto simp del: map_append)
    show "is_pair s' q \<and> hash_name (key s' q) = i" if "q \<in> set (B' i)" for q
      using that sub D(2,3) [OF i] unfolding po by blast
  next
    fix i j :: nat assume "i < 256" "j < 256" "i \<noteq> j"
    then show "set (B' i) \<inter> set (B' j) = {}"
      using D(5) [of i j] sub by blast
  next
    fix a assume a: "Some a \<in> set (answers s')"
    then have "\<not> in_use s h B a"
      using D(8) [of a] s'(7) by simp
    then show "\<not> in_use s' h B' a"
      using sub f unfolding in_use_def po by (simp only:) blast
  qed (use D s' f in auto)
  moreover have "ht_map s' B' k = ((ht_map s B)(name := None)) k" for k
  proof (cases "k = name")
    case True
    have "distinct (map (key s) (xs @ n # ys))"
      using D(4) [of ?i] B by simp
    from find_none_key [OF this] show ?thesis
      using True kn by (simp add: ht_map_def po B'_def)
  next
    case False
    have "find (\<lambda>m. key s m = k) (B' (hash_name k)) = find (\<lambda>m. key s m = k) (B (hash_name k))"
      using find_remove_other [of "\<lambda>m. key s m = k" n xs ys] B kn False by (auto simp: B'_def)
    then show ?thesis
      using False f by (simp add: ht_map_def po)
  qed
  ultimately have "ht_repr h s' ((ht_map s B)(name := None))"
    unfolding ht_repr_def by (metis ext)
  then show "\<exists>s' n. dsl_hashtable_unset (Some h) name s = Some (True, s') \<and>
       ht_repr h s' ((ht_map s B)(name := None)) \<and> freed s' = freed s @ [pair_of s n, n] \<and> key s n = name \<and>
       n \<in> set (B (hash_name name))"
    using s'(1,4) u n l B kn ip by (intro exI [of _ s'] exI [of _ n]) (simp add: objs_def)
qed

section \<open>The interface\<close>

locale dictionary =
  fixes repr :: "'s \<Rightarrow> ('k \<Rightarrow> 'v option) \<Rightarrow> bool"
    and short :: "'k \<Rightarrow> bool"
    and put :: "'k \<Rightarrow> 'v \<Rightarrow> 's \<Rightarrow> (bool \<times> 's) option"
    and has :: "'k \<Rightarrow> 's \<Rightarrow> bool option"
    and del :: "'k \<Rightarrow> 's \<Rightarrow> (bool \<times> 's) option"
  assumes set_law: "repr s m \<Longrightarrow> short k \<Longrightarrow>
      \<exists>ok s'. put k v s = Some (ok, s') \<and> (ok \<longrightarrow> m k = None) \<and> repr s' (if ok then m(k \<mapsto> v) else m)"
    and has_law: "repr s m \<Longrightarrow> has k s = Some (m k \<noteq> None)"
    and unset_law: "repr s m \<Longrightarrow> \<exists>s'. del k s = Some (m k \<noteq> None, s') \<and> repr s' (m(k := None))"

datatype ('k, 'v) dict_op = DSet 'k 'v | DUnset 'k

text \<open>A run of calls, with their answers; and what a map does with the same calls and answers.\<close>

fun dict_run ::
  "('k \<Rightarrow> 'v \<Rightarrow> 's \<Rightarrow> (bool \<times> 's) option) \<Rightarrow> ('k \<Rightarrow> 's \<Rightarrow> (bool \<times> 's) option) \<Rightarrow>
   ('k, 'v) dict_op list \<Rightarrow> 's \<Rightarrow> (bool list \<times> 's) option" where
  "dict_run put del [] s = Some ([], s)"
| "dict_run put del (DSet k v # ops) s = do {
     (ok, s) \<leftarrow> put k v s; (oks, s) \<leftarrow> dict_run put del ops s; Some (ok # oks, s) }"
| "dict_run put del (DUnset k # ops) s = do {
     (ok, s) \<leftarrow> del k s; (oks, s) \<leftarrow> dict_run put del ops s; Some (ok # oks, s) }"

fun map_run :: "('k, 'v) dict_op list \<Rightarrow> bool list \<Rightarrow> ('k \<Rightarrow> 'v option) \<Rightarrow> ('k \<Rightarrow> 'v option)" where
  "map_run (DSet k v # ops) (ok # oks) m = map_run ops oks (if ok then m(k \<mapsto> v) else m)"
| "map_run (DUnset k # ops) (ok # oks) m = map_run ops oks (m(k := None))"
| "map_run _ _ m = m"

fun op_short :: "('k \<Rightarrow> bool) \<Rightarrow> ('k, 'v) dict_op \<Rightarrow> bool" where
  "op_short short (DSet k v) = short k"
| "op_short short (DUnset k) = True"

context dictionary
begin

lemma run_refines:
  "repr s m \<Longrightarrow> list_all (op_short short) ops \<Longrightarrow>
     \<exists>oks s'. dict_run put del ops s = Some (oks, s') \<and> repr s' (map_run ops oks m)"
proof (induction ops arbitrary: s m)
  case (Cons op ops)
  have ops: "list_all (op_short short) ops"
    using Cons.prems by simp
  show ?case
  proof (cases op)
    case (DSet k v)
    then obtain ok s1 where s1: "put k v s = Some (ok, s1)" "repr s1 (if ok then m(k \<mapsto> v) else m)"
      using set_law [OF Cons.prems(1), of k v] Cons.prems(2) by auto
    obtain oks t where t: "dict_run put del ops s1 = Some (oks, t)" "repr t (map_run ops oks (if ok then m(k \<mapsto> v) else m))"
      using Cons.IH [OF s1(2) ops] by blast
    have "dict_run put del (op # ops) s = Some (ok # oks, t)"
      using s1(1) t(1) by (simp add: DSet)
    moreover have "repr t (map_run (op # ops) (ok # oks) m)"
      using t(2) by (simp add: DSet)
    ultimately show ?thesis by blast
  next
    case (DUnset k)
    then obtain s1 where s1: "del k s = Some (m k \<noteq> None, s1)" "repr s1 (m(k := None))"
      using unset_law [OF Cons.prems(1), of k] by auto
    obtain oks t where t: "dict_run put del ops s1 = Some (oks, t)" "repr t (map_run ops oks (m(k := None)))"
      using Cons.IH [OF s1(2) ops] by blast
    have "dict_run put del (op # ops) s = Some ((m k \<noteq> None) # oks, t)"
      using s1(1) t(1) by (simp add: DUnset)
    moreover have "repr t (map_run (op # ops) ((m k \<noteq> None) # oks) m)"
      using t(2) by (simp add: DUnset)
    ultimately show ?thesis by blast
  qed
qed simp

lemma run_has:
  assumes "repr s m" "list_all (op_short short) ops"
  shows "\<exists>oks s'. dict_run put del ops s = Some (oks, s') \<and> (\<forall>k. has k s' = Some (map_run ops oks m k \<noteq> None))"
  using run_refines [OF assms] has_law by blast

end

interpretation ht: dictionary "ht_repr h" "\<lambda>k. length k \<le> 255" "dsl_hashtable_set (Some h)"
  "dsl_hashtable_has_key (Some h)" "dsl_hashtable_unset (Some h)" for h
proof
  fix s m k v
  assume r: "ht_repr h s m"
  then obtain B where inv: "ht_inv s h B" and m: "m = ht_map s B"
    by (auto simp: ht_repr_def)
  show "\<exists>ok s'. dsl_hashtable_set (Some h) k v s = Some (ok, s') \<and> (ok \<longrightarrow> m k = None) \<and>
      ht_repr h s' (if ok then m(k \<mapsto> v) else m)" if "length k \<le> 255"
    using set_spec [OF inv that, of v] m by auto
  show "dsl_hashtable_has_key (Some h) k s = Some (m k \<noteq> None)"
    using find_pair_spec [OF inv, of k] by (auto simp: dsl_hashtable_has_key_def m ht_map_def)
  show "\<exists>s'. dsl_hashtable_unset (Some h) k s = Some (m k \<noteq> None, s') \<and> ht_repr h s' (m(k := None))"
  proof (cases "m k")
    case None
    then have "m(k := None) = m" by auto
    then show ?thesis
      using unset_spec(1) [OF inv, of k] None m r by simp
  next
    case (Some x)
    then show ?thesis
      using unset_spec(2) [OF inv, of k] m by auto
  qed
qed

section \<open>Properties\<close>

text \<open>An empty table at address 1, with addresses 10, 11, \<dots> to come from the allocator.\<close>

definition ht0 :: ht_state where
  "ht0 = \<lparr>lnodes = (\<lambda>_. \<lparr>n_value = VBool False, n_prev = None, n_next = None\<rparr>),
     lnklsts = (\<lambda>_. \<lparr>l_head = None, l_foot = None, l_count = 0\<rparr>), freed = [], answers = map Some [10..<20],
     ht_table = (\<lambda>_ _. None), ht_pairs = (\<lambda>_. \<lparr>p_name = [], p_value = VBool False\<rparr>), ht_bufs = (\<lambda>_. [])\<rparr>"

lemma ht0_inv: "ht_inv ht0 1 (\<lambda>_. [])"
  by (rule ht_invI) (auto simp: ht0_def bucket_def in_use_def upt_rec)

lemma ht0_repr: "ht_repr 1 ht0 Map.empty"
  unfolding ht_repr_def using ht0_inv by (intro exI [of _ "\<lambda>_. []"]) (auto simp: ht_map_def)

text \<open>C28: Any sequence of \<open>dsl_hashtable_set_XXX\<close> and \<open>dsl_hashtable_unset\<close> calls runs without
  a NULL dereference, and the keys \<open>dsl_hashtable_has_key\<close> then reports are exactly those of the
  map that the successful calls describe, also when the allocator runs out on the way.\<close>

theorem hashtable_refines_map:
  assumes "ht_repr h s m" "list_all (op_short (\<lambda>k. length k \<le> 255)) ops"
  shows "\<exists>oks s'. dict_run (dsl_hashtable_set (Some h)) (dsl_hashtable_unset (Some h)) ops s = Some (oks, s') \<and>
    (\<forall>k. dsl_hashtable_has_key (Some h) k s' = Some (map_run ops oks m k \<noteq> None))"
  using assms by (rule ht.run_has)

theorem hashtable_refines_map_witness:
  "\<exists>oks s'. dict_run (dsl_hashtable_set (Some 1)) (dsl_hashtable_unset (Some 1))
      [DSet ''a'' (VInt32 1), DSet ''b'' (VBool True), DUnset ''a''] ht0 = Some (oks, s') \<and>
    (\<forall>k. dsl_hashtable_has_key (Some 1) k s' =
      Some (map_run [DSet ''a'' (VInt32 1), DSet ''b'' (VBool True), DUnset ''a''] oks Map.empty k \<noteq> None))"
  using hashtable_refines_map [OF ht0_repr, of "[DSet ''a'' (VInt32 1), DSet ''b'' (VBool True), DUnset ''a'']"] by simp

text \<open>A name that is not in the table yet is stored when the allocator has three blocks, and
  \<open>dsl_hashtable_get_XXX\<close> of its type then returns the value; all other names keep theirs.\<close>

theorem hashtable_set_get:
  assumes inv: "ht_inv s h B" and new: "ht_map s B name = None" and len: "length name \<le> 255"
    and mem: "3 \<le> length (answers s)" "None \<notin> set (take 3 (answers s))"
  shows "\<exists>s'. dsl_hashtable_set (Some h) name v s = Some (True, s') \<and>
    dsl_hashtable_get (Some h) name (value_tag v) s' = Some (Some v) \<and>
    (\<forall>k tag. k \<noteq> name \<longrightarrow> dsl_hashtable_get (Some h) k tag s' = dsl_hashtable_get (Some h) k tag s)"
proof -
  have get: "dsl_hashtable_get (Some h) k tag t =
      Some (case ht_map t B' k of None \<Rightarrow> None | Some x \<Rightarrow> if value_tag x = tag then Some x else None)"
    if "ht_inv t h B'" for t B' k tag
    using find_pair_spec [OF that, of k] by (auto simp: dsl_hashtable_get_def ht_map_def split: option.splits)
  obtain s' B' where s': "dsl_hashtable_set (Some h) name v s = Some (True, s')" "ht_inv s' h B'"
    "ht_map s' B' = (ht_map s B)(name \<mapsto> v)"
    using set_spec [OF inv len, of v] new mem by (auto simp: ht_repr_def)
  show ?thesis
    using s'(1) get [OF s'(2)] get [OF inv] by (auto simp: s'(3))
qed

theorem hashtable_set_get_witness:
  "\<exists>s'. dsl_hashtable_set (Some 1) ''screen'' (VUint32 7) ht0 = Some (True, s') \<and>
    dsl_hashtable_get (Some 1) ''screen'' 7 s' = Some (Some (VUint32 7))"
  using hashtable_set_get [OF ht0_inv, of "''screen''" "VUint32 7"]
  by (auto simp: ht_map_def ht0_def upt_rec)

text \<open>\<open>dsl_hashtable_unset\<close> of a stored name frees the name's pair and its node, once each,
  and nothing else, and the name is gone from the table.\<close>

theorem hashtable_unset_frees:
  assumes inv: "ht_inv s h B" and old: "ht_map s B name \<noteq> None"
  shows "\<exists>s' n. dsl_hashtable_unset (Some h) name s = Some (True, s') \<and> n \<in> set (B (hash_name name)) \<and>
    key s n = name \<and> freed s' = freed s @ [pair_of s n, n] \<and> dsl_hashtable_has_key (Some h) name s' = Some False"
proof -
  obtain s' n where s': "dsl_hashtable_unset (Some h) name s = Some (True, s')"
    "ht_repr h s' ((ht_map s B)(name := None))" "freed s' = freed s @ [pair_of s n, n]" "key s n = name"
    "n \<in> set (B (hash_name name))"
    using unset_spec(2) [OF inv old] by blast
  then show ?thesis
    using ht.has_law [OF s'(2), of name] by auto
qed

definition ht1 :: ht_state where
  "ht1 = snd (the (dsl_hashtable_set (Some 1) ''a'' (VBool True) ht0))"

theorem hashtable_unset_frees_witness:
  "\<exists>s'. dsl_hashtable_unset (Some 1) ''a'' ht1 = Some (True, s') \<and> dsl_hashtable_has_key (Some 1) ''a'' s' = Some False"
proof -
  obtain s' B' where s': "dsl_hashtable_set (Some 1) ''a'' (VBool True) ht0 = Some (True, s')" "ht_inv s' 1 B'"
    "ht_map s' B' = (ht_map ht0 (\<lambda>_. []))(''a'' \<mapsto> VBool True)"
    using set_spec [OF ht0_inv, of "''a''" "VBool True"] by (auto simp: ht_repr_def ht_map_def ht0_def upt_rec)
  then have "ht_map s' B' ''a'' \<noteq> None" "ht1 = s'"
    by (simp_all add: ht1_def)
  with hashtable_unset_frees [OF s'(2), of "''a''"] show ?thesis by auto
qed

end
