(* ===== verification/Mem_Pool.thy ===== *)
theory Mem_Pool
  imports Linked_List_Proofs
begin

text \<open>
  \<^verbatim>\<open>libs/mempoollib/mempoollib.c\<close> and its kernel instance \<^verbatim>\<open>kernel/kmpool.c\<close>: sixteen
  size classes, each with a list of used and a list of free blocks.  An allocated address is
  preceded by three words (class, address of the block descriptor, checksum).  The environment's
  \<open>mempooll_malloc\<close> is a stream of answers; what \<open>mempooll_free\<close> is called with is logged.
\<close>

section \<open>State\<close>

record mp_block =
  b_addr :: u32
  b_prev :: "u32 option"
  b_next :: "u32 option"

type_synonym mp_blocks = "u32 \<Rightarrow> mp_block"

record mp_list =
  m_head :: "u32 option"
  m_foot :: "u32 option"
  m_count :: u32

text \<open>\<open>mem_list\<close> holds the recorded entries, \<open>mem_list_count\<close> is its length.\<close>

record mp_pool =
  used_list :: "nat \<Rightarrow> mp_list"
  free_list :: "nat \<Rightarrow> mp_list"
  mem_list :: "u32 list"
  mem_list_addr :: "u32 option"
  mem_list_max_count :: u32

record mp_state =
  mp_pools :: "u32 \<Rightarrow> mp_pool"
  mp_blks :: mp_blocks
  mp_words :: "u32 \<Rightarrow> u32"
  mp_answers :: "u32 option list"
  mp_freed :: "u32 list"

definition MEMPOOLL_LIST_COUNT :: nat where "MEMPOOLL_LIST_COUNT = 16"
definition MEMPOOLL_LIST_MAX_SIZE :: u32 where "MEMPOOLL_LIST_MAX_SIZE = 8 * 1024 * 1024"
definition MEM_LIST_INC_SIZE :: u32 where "MEM_LIST_INC_SIZE = 16 * 1024"

definition mp_sizes :: "u32 list" where
  "mp_sizes = [4, 8, 16, 32, 64, 128, 256, 512, 1024, 2048, 3072, 4096, 5120, 6144, 7168, 8192]"

definition upd_pool :: "u32 \<Rightarrow> (mp_pool \<Rightarrow> mp_pool) \<Rightarrow> mp_state \<Rightarrow> mp_state" where
  "upd_pool p f s = s\<lparr>mp_pools := (mp_pools s)(p := f (mp_pools s p))\<rparr>"

definition mp_malloc :: "mp_state \<Rightarrow> u32 option \<times> mp_state" where
  "mp_malloc s = (case mp_answers s of [] \<Rightarrow> (None, s) | a # as \<Rightarrow> (a, s\<lparr>mp_answers := as\<rparr>))"

definition mp_free :: "u32 option \<Rightarrow> mp_state \<Rightarrow> mp_state" where
  "mp_free a s = (case a of None \<Rightarrow> s | Some x \<Rightarrow> s\<lparr>mp_freed := mp_freed s @ [x]\<rparr>)"

section \<open>The block lists\<close>

definition upd_blk :: "u32 \<Rightarrow> (mp_block \<Rightarrow> mp_block) \<Rightarrow> mp_blocks \<Rightarrow> mp_blocks" where
  "upd_blk b f bs = bs(b := f (bs b))"

definition mempooll_shift :: "mp_list \<Rightarrow> mp_blocks \<Rightarrow> u32 option \<times> mp_list \<times> mp_blocks" where
  "mempooll_shift l bs =
     (case (m_head l, m_foot l) of
        (Some h, Some _) \<Rightarrow>
          if m_count l = 0 then (None, l, bs)
          else
            let nxt = b_next (bs h);
                (l, bs) = (case nxt of
                   None \<Rightarrow> (l\<lparr>m_head := None, m_foot := None\<rparr>, bs)
                 | Some x \<Rightarrow> (l\<lparr>m_head := nxt\<rparr>, upd_blk x (\<lambda>d. d\<lparr>b_prev := None\<rparr>) bs));
                bs = upd_blk h (\<lambda>d. d\<lparr>b_prev := None, b_next := None\<rparr>) bs
            in (Some h, l\<lparr>m_count := m_count l - 1\<rparr>, bs)
      | _ \<Rightarrow> (None, l, bs))"

definition mempooll_unshift :: "mp_list \<Rightarrow> u32 option \<Rightarrow> mp_blocks \<Rightarrow> bool \<times> mp_list \<times> mp_blocks" where
  "mempooll_unshift l block bs =
     (case block of
        None \<Rightarrow> (False, l, bs)
      | Some b \<Rightarrow>
          (case (m_head l, m_foot l) of
             (None, None) \<Rightarrow>
               (True, l\<lparr>m_head := Some b, m_foot := Some b, m_count := m_count l + 1\<rparr>,
                upd_blk b (\<lambda>d. d\<lparr>b_prev := None, b_next := None\<rparr>) bs)
           | (Some h, Some _) \<Rightarrow>
               (True, l\<lparr>m_head := Some b, m_count := m_count l + 1\<rparr>,
                upd_blk b (\<lambda>d. d\<lparr>b_prev := None\<rparr>)
                 (upd_blk h (\<lambda>d. d\<lparr>b_prev := Some b\<rparr>)
                  (upd_blk b (\<lambda>d. d\<lparr>b_next := Some h\<rparr>) bs)))
           | _ \<Rightarrow> (False, l, bs)))"

definition mempooll_remove :: "mp_list \<Rightarrow> u32 option \<Rightarrow> mp_blocks \<Rightarrow> (bool \<times> mp_list \<times> mp_blocks) option" where
  "mempooll_remove l block bs =
     (case block of
        None \<Rightarrow> Some (False, l, bs)
      | Some b \<Rightarrow>
          if m_count l = 0 then Some (False, l, bs)
          else do {
            (l, bs) \<leftarrow>
              (if m_head l = Some b \<and> m_foot l = Some b then
                 Some (l\<lparr>m_head := None, m_foot := None\<rparr>, bs)
               else if m_head l = Some b \<and> m_foot l \<noteq> Some b then do {
                 x \<leftarrow> b_next (bs b);
                 let bs = upd_blk x (\<lambda>d. d\<lparr>b_prev := None\<rparr>) bs;
                 Some (l\<lparr>m_head := b_next (bs b)\<rparr>, bs) }
               else if m_head l \<noteq> Some b \<and> m_foot l = Some b then do {
                 p \<leftarrow> b_prev (bs b);
                 let bs = upd_blk p (\<lambda>d. d\<lparr>b_next := None\<rparr>) bs;
                 Some (l\<lparr>m_foot := b_prev (bs b)\<rparr>, bs) }
               else do {
                 p \<leftarrow> b_prev (bs b);
                 let bs = upd_blk p (\<lambda>d. d\<lparr>b_next := b_next (bs b)\<rparr>) bs;
                 x \<leftarrow> b_next (bs b);
                 Some (l, upd_blk x (\<lambda>d. d\<lparr>b_prev := b_prev (bs b)\<rparr>) bs) });
            Some (True, l\<lparr>m_count := m_count l - 1\<rparr>, bs) })"

section \<open>The pool\<close>

text \<open>\<open>mempooll_mem_list_add\<close>: grows the list and calls itself again.\<close>

function mempooll_mem_list_add :: "u32 \<Rightarrow> u32 option \<Rightarrow> mp_state \<Rightarrow> bool \<times> mp_state" where
  "mempooll_mem_list_add p ptr s =
     (case ptr of
        None \<Rightarrow> (False, s)
      | Some a \<Rightarrow>
          (let pl = mp_pools s p in
           if of_nat (length (mem_list pl)) < mem_list_max_count pl
           then (True, upd_pool p (\<lambda>d. d\<lparr>mem_list := mem_list d @ [a]\<rparr>) s)
           else (case mp_answers s of
                   [] \<Rightarrow> (False, s)
                 | None # as \<Rightarrow> (False, s\<lparr>mp_answers := as\<rparr>)
                 | Some n # as \<Rightarrow>
                     mempooll_mem_list_add p ptr
                       (upd_pool p (\<lambda>d. d\<lparr>mem_list_addr := Some n,
                           mem_list_max_count := mem_list_max_count d + MEM_LIST_INC_SIZE div 4\<rparr>)
                         (mp_free (mem_list_addr pl) (s\<lparr>mp_answers := as\<rparr>))))))"
  by pat_completeness auto
termination
  by (relation "measure (\<lambda>(p, ptr, s). length (mp_answers s))")
    (auto simp: upd_pool_def mp_free_def split: option.splits)

text \<open>The loop of \<open>mempooll_fill_free_list\<close>: \<open>blkm\<close> and \<open>mem\<close> are the two blocks of memory.\<close>

fun fill_loop :: "u32 \<Rightarrow> nat \<Rightarrow> u32 \<Rightarrow> u32 \<Rightarrow> u32 \<Rightarrow> nat \<Rightarrow> nat \<Rightarrow> mp_state \<Rightarrow> bool \<times> mp_state" where
  "fill_loop p index size_with_head blkm mem ui 0 s = (True, s)"
| "fill_loop p index size_with_head blkm mem ui (Suc k) s =
     (let b = blkm + 12 * of_nat ui;
          m = mem + of_nat ui * size_with_head;
          s = s\<lparr>mp_words := (mp_words s)(m := of_nat index, m + 4 := b, m + 8 := of_nat index + b)\<rparr>;
          s = s\<lparr>mp_blks := upd_blk b (\<lambda>d. d\<lparr>b_addr := m, b_prev := None, b_next := None\<rparr>) (mp_blks s)\<rparr>
      in case mempooll_unshift (free_list (mp_pools s p) index) (Some b) (mp_blks s) of
           (False, _, _) \<Rightarrow> (False, s)
         | (True, l, bs) \<Rightarrow>
             fill_loop p index size_with_head blkm mem (Suc ui) k
               (upd_pool p (\<lambda>d. d\<lparr>free_list := (free_list d)(index := l)\<rparr>) (s\<lparr>mp_blks := bs\<rparr>)))"

definition blocks_per_fill :: nat where "blocks_per_fill = 4096 div 12"

definition mempooll_fill_free_list :: "u32 option \<Rightarrow> nat \<Rightarrow> mp_state \<Rightarrow> bool \<times> mp_state" where
  "mempooll_fill_free_list pool index s =
     (case pool of
        None \<Rightarrow> (False, s)
      | Some p \<Rightarrow>
          if index \<ge> MEMPOOLL_LIST_COUNT then (False, s)
          else
            let count = of_nat blocks_per_fill; sz = mp_sizes ! index in
            if m_count (used_list (mp_pools s p) index) * sz + count * sz \<ge> MEMPOOLL_LIST_MAX_SIZE
            then (False, s)
            else
              let size_with_head = 4 + 4 + 4 + sz in
              (case mp_malloc s of
                 (None, s) \<Rightarrow> (False, s)
               | (Some blkm, s) \<Rightarrow>
                   (case mempooll_mem_list_add p (Some blkm) s of
                      (False, s) \<Rightarrow> (False, mp_free (Some blkm) s)
                    | (True, s) \<Rightarrow>
                        (case mp_malloc s of
                           (None, s) \<Rightarrow> (False, mp_free (Some blkm) s)
                         | (Some mem, s) \<Rightarrow>
                             (case mempooll_mem_list_add p (Some mem) s of
                                (False, s) \<Rightarrow> (False, mp_free (Some mem) (mp_free (Some blkm) s))
                              | (True, s) \<Rightarrow>
                                  fill_loop p index size_with_head blkm mem 0 blocks_per_fill s)))))"

definition mempooll_get_index_by_size :: "u32 \<Rightarrow> nat option" where
  "mempooll_get_index_by_size sz =
     (if sz = 0 then None else first_index (\<lambda>ui. sz \<le> mp_sizes ! ui) 0 MEMPOOLL_LIST_COUNT)"

definition mempooll_init_pool :: "u32 option \<Rightarrow> mp_state \<Rightarrow> bool \<times> mp_state" where
  "mempooll_init_pool pool s =
     (case pool of
        None \<Rightarrow> (False, s)
      | Some p \<Rightarrow>
          (case mp_malloc s of
             (None, s) \<Rightarrow> (False, upd_pool p (\<lambda>d. d\<lparr>mem_list_addr := None\<rparr>) s)
           | (Some a, s) \<Rightarrow>
               (True, upd_pool p (\<lambda>d. d\<lparr>mem_list_addr := Some a, mem_list_max_count := MEM_LIST_INC_SIZE div 4,
                   mem_list := [],
                   used_list := (\<lambda>ui. if ui < MEMPOOLL_LIST_COUNT
                      then \<lparr>m_head = None, m_foot = None, m_count = 0\<rparr> else used_list d ui),
                   free_list := (\<lambda>ui. if ui < MEMPOOLL_LIST_COUNT
                      then \<lparr>m_head = None, m_foot = None, m_count = 0\<rparr> else free_list d ui)\<rparr>) s)))"

text \<open>A block straight from the environment, marked with class \<open>0xffffffff\<close>.\<close>

definition system_block :: "u32 \<Rightarrow> mp_state \<Rightarrow> u32 option \<times> mp_state" where
  "system_block sz s =
     (case mp_malloc s of
        (None, s) \<Rightarrow> (None, s)
      | (Some m, s) \<Rightarrow>
          (Some (m + 12), s\<lparr>mp_words := (mp_words s)(m := 0xFFFFFFFF, m + 4 := m, m + 8 := 0xFFFFFFFF + m)\<rparr>))"

definition shift_free :: "u32 \<Rightarrow> nat \<Rightarrow> mp_state \<Rightarrow> u32 option \<times> mp_state" where
  "shift_free p index s =
     (case mempooll_shift (free_list (mp_pools s p) index) (mp_blks s) of
        (b, l, bs) \<Rightarrow> (b, upd_pool p (\<lambda>d. d\<lparr>free_list := (free_list d)(index := l)\<rparr>) (s\<lparr>mp_blks := bs\<rparr>)))"

definition unshift_used :: "u32 \<Rightarrow> nat \<Rightarrow> u32 option \<Rightarrow> mp_state \<Rightarrow> bool \<times> mp_state" where
  "unshift_used p index b s =
     (case mempooll_unshift (used_list (mp_pools s p) index) b (mp_blks s) of
        (ok, l, bs) \<Rightarrow> (ok, upd_pool p (\<lambda>d. d\<lparr>used_list := (used_list d)(index := l)\<rparr>) (s\<lparr>mp_blks := bs\<rparr>)))"

definition mempooll_alloc_memory :: "u32 option \<Rightarrow> u32 \<Rightarrow> mp_state \<Rightarrow> u32 option \<times> mp_state" where
  "mempooll_alloc_memory pool sz s =
     (case pool of
        None \<Rightarrow> (None, s)
      | Some p \<Rightarrow>
          if sz = 0 then (None, s)
          else (case mempooll_get_index_by_size sz of
             None \<Rightarrow> system_block sz s
           | Some index \<Rightarrow>
               (let finish = (\<lambda>b s. case unshift_used p index (Some b) s of
                       (False, s) \<Rightarrow> (None, s)
                     | (True, s) \<Rightarrow> (Some (b_addr (mp_blks s b) + 12), s))
                in case shift_free p index s of
                     (Some b, s) \<Rightarrow> finish b s
                   | (None, s) \<Rightarrow>
                       (case mempooll_fill_free_list pool index s of
                          (False, s) \<Rightarrow> (None, s)
                        | (True, s) \<Rightarrow>
                            (case shift_free p index s of
                               (Some b, s) \<Rightarrow> finish b s
                             | (None, s) \<Rightarrow> system_block sz s)))))"

text \<open>
  A class read back that is neither \<open>0xffffffff\<close> nor below 16 indexes \<open>pool->list\<close> out of its
  bounds: \<^const>\<open>None\<close>.
\<close>

definition mempooll_free_memory :: "u32 option \<Rightarrow> u32 option \<Rightarrow> mp_state \<Rightarrow> (bool \<times> mp_state) option" where
  "mempooll_free_memory pool ptr s =
     (case (pool, ptr) of
        (Some p, Some a) \<Rightarrow>
          (let index = mp_words s (a - 12); blkaddr = mp_words s (a - 8); checksum = mp_words s (a - 4) in
           if index + blkaddr \<noteq> checksum then Some (False, s)
           else
             let block = (if blkaddr = 0 then None else Some blkaddr) in
             if index = 0xFFFFFFFF then Some (True, mp_free block s)
             else if unat index \<ge> MEMPOOLL_LIST_COUNT then None
             else do {
               let i = unat index;
               (ok, l, bs) \<leftarrow> mempooll_remove (used_list (mp_pools s p) i) block (mp_blks s);
               let s = upd_pool p (\<lambda>d. d\<lparr>used_list := (used_list d)(i := l)\<rparr>) (s\<lparr>mp_blks := bs\<rparr>);
               if \<not> ok then Some (False, s)
               else (case mempooll_unshift (free_list (mp_pools s p) i) block (mp_blks s) of
                       (ok, l, bs) \<Rightarrow>
                         Some (ok, upd_pool p (\<lambda>d. d\<lparr>free_list := (free_list d)(i := l)\<rparr>) (s\<lparr>mp_blks := bs\<rparr>))) })
      | _ \<Rightarrow> Some (False, s))"

definition mempooll_free_pool :: "u32 option \<Rightarrow> mp_state \<Rightarrow> bool \<times> mp_state" where
  "mempooll_free_pool pool s =
     (case pool of
        None \<Rightarrow> (False, s)
      | Some p \<Rightarrow>
          (True, mp_free (mem_list_addr (mp_pools s p))
             (foldl (\<lambda>s a. mp_free (Some a) s) s (mem_list (mp_pools s p)))))"

definition mempooll_size :: "u32 \<Rightarrow> u32" where
  "mempooll_size index = (if unat index \<ge> MEMPOOLL_LIST_COUNT then 0 else mp_sizes ! unat index)"

section \<open>\<open>kmpool.c\<close>\<close>

record kmpool =
  kmpool_is_enabled :: bool
  kmpool_addr :: u32         \<comment> \<open>\<open>&_kmpool\<close>\<close>

definition kmpool_init :: "kmpool \<times> mp_state \<Rightarrow> bool \<times> kmpool \<times> mp_state" where
  "kmpool_init ks =
     (case ks of (k, s) \<Rightarrow>
        if kmpool_is_enabled k then (True, k, s)
        else (case mempooll_init_pool (Some (kmpool_addr k)) s of
                (False, s) \<Rightarrow> (False, k, s)
              | (True, s) \<Rightarrow> (True, k\<lparr>kmpool_is_enabled := True\<rparr>, s)))"

definition kmpool_malloc :: "u32 \<Rightarrow> kmpool \<times> mp_state \<Rightarrow> u32 option \<times> mp_state" where
  "kmpool_malloc sz ks =
     (case ks of (k, s) \<Rightarrow>
        if \<not> kmpool_is_enabled k \<or> sz = 0 then (None, s)
        else mempooll_alloc_memory (Some (kmpool_addr k)) sz s)"

definition kmpool_calloc :: "u32 \<Rightarrow> u32 \<Rightarrow> kmpool \<times> mp_state \<Rightarrow> u32 option \<times> mp_state" where
  "kmpool_calloc count sz ks =
     (case ks of (k, s) \<Rightarrow>
        if \<not> kmpool_is_enabled k \<or> count = 0 \<or> sz = 0 then (None, s)
        else mempooll_alloc_memory (Some (kmpool_addr k)) (count * sz) s)"

definition kmpool_free :: "u32 option \<Rightarrow> kmpool \<times> mp_state \<Rightarrow> mp_state option" where
  "kmpool_free ptr ks =
     (case ks of (k, s) \<Rightarrow>
        if ptr = None then Some s
        else map_option snd (mempooll_free_memory (Some (kmpool_addr k)) ptr s))"

end
