(* ===== verification/Mem_Pool_Proofs.thy ===== *)
theory Mem_Pool_Proofs
  imports Mem_Pool
begin

text \<open>
  The pool as sixteen pairs of lists of block descriptors; an allocation moves a block from the
  free to the used list of the right class, a release reads the class and the descriptor back
  from the words before the address and moves it the other way.
\<close>

section \<open>Lists\<close>

definition mlist :: "mp_blocks \<Rightarrow> mp_list \<Rightarrow> u32 list \<Rightarrow> bool" where
  "mlist bs l ps \<longleftrightarrow>
     dlist (b_next \<circ> bs) (b_prev \<circ> bs) (m_head l) (m_foot l) ps \<and>
     m_count l = of_nat (length ps) \<and> length ps < 2 ^ 32"

lemma mlist_cong:
  "(\<And>b. b \<in> set ps \<Longrightarrow> bs' b = bs b) \<Longrightarrow> mlist bs' l ps = mlist bs l ps"
  unfolding mlist_def using dlist_cong [of ps "b_next \<circ> bs'" "b_next \<circ> bs" "b_prev \<circ> bs'" "b_prev \<circ> bs"] by simp

lemma mlist_frame:
  "mlist bs l ps \<Longrightarrow> (\<And>q. q \<notin> A \<Longrightarrow> bs' q = bs q) \<Longrightarrow> set ps \<inter> A = {} \<Longrightarrow> mlist bs' l ps"
  by (subst mlist_cong [of ps bs' bs]) auto

lemma count_zero: "mlist bs l ps \<Longrightarrow> m_count l = 0 \<longleftrightarrow> ps = []"
  by (auto simp: mlist_def word_of_nat_eq_0_iff dest: dvd_imp_le)

lemma of_nat_minus1: "(of_nat (Suc n) :: u32) - 1 = of_nat n"
  by simp

lemma shift_spec:
  assumes "mlist bs l (b # ps)"
  shows "\<exists>l' bs'. mempooll_shift l bs = (Some b, l', bs') \<and> mlist bs' l' ps \<and>
    (\<forall>q. b_addr (bs' q) = b_addr (bs q)) \<and> (\<forall>q. q \<notin> set (b # ps) \<longrightarrow> bs' q = bs q)"
proof -
  have D: "dlist (b_next \<circ> bs) (b_prev \<circ> bs) (m_head l) (m_foot l) ([] @ b # ps)"
    and c: "m_count l = of_nat (Suc (length ps))" "Suc (length ps) < 2 ^ 32" and nz: "m_count l \<noteq> 0"
    using assms count_zero [OF assms] by (simp_all add: mlist_def)
  have hf: "m_head l = Some b" "m_foot l \<noteq> None" and nx: "b_next (bs b) = opt_hd ps" and bp: "b \<notin> set ps"
    using dlist_ends [OF D] dlist_split [OF D] by auto
  note u = dlist_unlink [OF D]
  show ?thesis
  proof (cases ps)
    case Nil
    then show ?thesis
      using hf nx c nz by (auto simp: mempooll_shift_def mlist_def upd_blk_def)
  next
    case (Cons x xs)
    have foot: "m_foot l = opt_last ps"
      using dlist_ends [OF D] Cons by simp
    then have "dlist (b_next \<circ> bs) ((b_prev \<circ> bs)(x := None)) (Some x) (m_foot l) ps"
      using u Cons by (simp add: unlink_next_def unlink_prev_def)
    then have "dlist ((b_next \<circ> bs)(b := None)) ((b_prev \<circ> bs)(x := None, b := None)) (Some x) (m_foot l) ps"
      using bp by (subst dlist_cong [of ps _ "b_next \<circ> bs" _ "(b_prev \<circ> bs)(x := None)"]) auto
    then have "mlist (upd_blk b (\<lambda>d. d\<lparr>b_prev := None, b_next := None\<rparr>) (upd_blk x (\<lambda>d. d\<lparr>b_prev := None\<rparr>) bs))
        (l\<lparr>m_head := Some x, m_count := m_count l - 1\<rparr>) ps"
      using c bp Cons by (simp add: mlist_def upd_blk_def)
    then show ?thesis
      using hf nx nz Cons bp by (auto simp: mempooll_shift_def upd_blk_def)
  qed
qed

lemma unshift_spec:
  assumes "mlist bs l ps" "b \<notin> set ps" "Suc (length ps) < 2 ^ 32"
  shows "\<exists>l' bs'. mempooll_unshift l (Some b) bs = (True, l', bs') \<and> mlist bs' l' (b # ps) \<and>
    (\<forall>q. b_addr (bs' q) = b_addr (bs q)) \<and> (\<forall>q. q \<notin> set (b # ps) \<longrightarrow> bs' q = bs q)"
proof (cases ps)
  case Nil
  then show ?thesis
    using assms by (simp add: mempooll_unshift_def mlist_def upd_blk_def dlist_def)
next
  case (Cons h hs)
  have D: "dlist (b_next \<circ> bs) (b_prev \<circ> bs) (m_head l) (m_foot l) ps"
    using assms by (simp add: mlist_def)
  have ends: "m_head l = Some h" "m_foot l = Some (last ps)"
    using dlist_ends [OF D] Cons by auto
  have bh: "b \<noteq> h"
    using assms(2) Cons by auto
  have "dlist ((b_next \<circ> bs)(b := Some h)) ((b_prev \<circ> bs)(h := Some b, b := None)) (Some b) (m_foot l) (b # ps)"
    using dlist_prepend [OF D ends(1) assms(2)] .
  then have "mlist (upd_blk b (\<lambda>d. d\<lparr>b_prev := None\<rparr>) (upd_blk h (\<lambda>d. d\<lparr>b_prev := Some b\<rparr>)
       (upd_blk b (\<lambda>d. d\<lparr>b_next := Some h\<rparr>) bs))) (l\<lparr>m_head := Some b, m_count := m_count l + 1\<rparr>) (b # ps)"
    using assms bh by (simp add: mlist_def upd_blk_def fun_upd_twist)
  then show ?thesis
    using ends bh Cons by (auto simp: mempooll_unshift_def upd_blk_def)
qed

lemma remove_spec:
  assumes "mlist bs l (xs @ b # ys)"
  shows "\<exists>l' bs'. mempooll_remove l (Some b) bs = Some (True, l', bs') \<and> mlist bs' l' (xs @ ys) \<and>
    (\<forall>q. b_addr (bs' q) = b_addr (bs q)) \<and> (\<forall>q. q \<notin> set (xs @ ys) \<longrightarrow> bs' q = bs q)"
proof -
  have D: "dlist (b_next \<circ> bs) (b_prev \<circ> bs) (m_head l) (m_foot l) (xs @ b # ys)"
    and c: "m_count l = of_nat (Suc (length (xs @ ys)))" "Suc (length (xs @ ys)) < 2 ^ 32" and nz: "m_count l \<noteq> 0"
    using assms count_zero [OF assms] by (simp_all add: mlist_def)
  note sp = dlist_split [OF D] and u = dlist_unlink [OF D] and e = dlist_ends [OF D]
  consider "xs = []" "ys = []" | x zs where "xs = []" "ys = x # zs" | zs p where "xs = zs @ [p]" "ys = []"
    | zs p x ws where "xs = zs @ [p]" "ys = x # ws"
    by (metis list.exhaust rev_exhaust)
  then show ?thesis
  proof cases
    case 1
    then show ?thesis
      using sp c nz by (simp add: mempooll_remove_def mlist_def)
  next
    case 2
    then have ne: "x \<noteq> b" and ends: "m_head l = Some b" "m_foot l \<noteq> Some b" "b_next (bs b) = Some x"
      using sp by auto
    have "opt_last ys = m_foot l"
      using e 2 by simp
    then have "dlist (b_next \<circ> bs) ((b_prev \<circ> bs)(x := None)) (Some x) (m_foot l) (xs @ ys)"
      using u 2 by (simp add: unlink_next_def unlink_prev_def)
    then show ?thesis
      using 2 ne ends c nz by (simp add: mempooll_remove_def mlist_def upd_blk_def Let_def)
  next
    case 3
    then have ne: "p \<noteq> b" and ends: "m_head l \<noteq> Some b" "m_foot l = Some b" "b_prev (bs b) = Some p"
      using sp by auto
    have "opt_hd xs = m_head l"
      using e 3 by simp
    then have "dlist ((b_next \<circ> bs)(p := None)) (b_prev \<circ> bs) (m_head l) (Some p) (xs @ ys)"
      using u 3 by (simp add: unlink_next_def unlink_prev_def)
    then show ?thesis
      using 3 ne ends c nz by (simp add: mempooll_remove_def mlist_def upd_blk_def Let_def)
  next
    case 4
    then have ne: "p \<noteq> b" "x \<noteq> b" "p \<noteq> x" and ends: "m_head l \<noteq> Some b" "m_foot l \<noteq> Some b"
      "b_prev (bs b) = Some p" "b_next (bs b) = Some x"
      using sp by auto
    have "opt_hd (xs @ ys) = m_head l" "opt_last (xs @ ys) = m_foot l"
      using e 4 by auto
    then have "dlist ((b_next \<circ> bs)(p := Some x)) ((b_prev \<circ> bs)(x := Some p)) (m_head l) (m_foot l) (xs @ ys)"
      using u 4 by (simp add: unlink_next_def unlink_prev_def)
    then show ?thesis
      using 4 ne ends c nz by (simp add: mempooll_remove_def mlist_def upd_blk_def Let_def)
  qed
qed

section \<open>The pool\<close>

definition header :: "mp_state \<Rightarrow> nat \<Rightarrow> u32 \<Rightarrow> bool" where
  "header s i b \<longleftrightarrow>
     (let m = b_addr (mp_blks s b) in
      b \<noteq> 0 \<and> mp_words s m = of_nat i \<and> mp_words s (m + 4) = b \<and> mp_words s (m + 8) = of_nat i + b)"

definition pool_inv :: "mp_state \<Rightarrow> u32 \<Rightarrow> (nat \<Rightarrow> u32 list) \<Rightarrow> (nat \<Rightarrow> u32 list) \<Rightarrow> bool" where
  "pool_inv s p U F \<longleftrightarrow>
     (\<forall>i < 16. mlist (mp_blks s) (used_list (mp_pools s p) i) (U i) \<and>
        mlist (mp_blks s) (free_list (mp_pools s p) i) (F i) \<and> set (U i) \<inter> set (F i) = {} \<and>
        length (U i) + length (F i) < 2 ^ 32 \<and> (\<forall>b \<in> set (U i) \<union> set (F i). header s i b)) \<and>
     (\<forall>i < 16. \<forall>j < 16. i \<noteq> j \<longrightarrow> (set (U i) \<union> set (F i)) \<inter> (set (U j) \<union> set (F j)) = {})"

lemma pool_invD:
  assumes "pool_inv s p U F" "i < 16"
  shows "mlist (mp_blks s) (used_list (mp_pools s p) i) (U i)" "mlist (mp_blks s) (free_list (mp_pools s p) i) (F i)"
    "set (U i) \<inter> set (F i) = {}" "length (U i) + length (F i) < 2 ^ 32" "b \<in> set (U i) \<union> set (F i) \<Longrightarrow> header s i b"
    "k < 16 \<Longrightarrow> i \<noteq> k \<Longrightarrow> (set (U i) \<union> set (F i)) \<inter> (set (U k) \<union> set (F k)) = {}"
  using assms unfolding pool_inv_def by blast+

text \<open>The blocks of one class change hands; nothing else changes.\<close>

lemma pool_inv_move:
  assumes inv: "pool_inv s p U F" and k: "k < 16"
    and ul: "mlist (mp_blks s') (used_list (mp_pools s' p) k) (U' k)"
    and fl: "mlist (mp_blks s') (free_list (mp_pools s' p) k) (F' k)"
    and dj: "set (U' k) \<inter> set (F' k) = {}" "set (U' k) \<union> set (F' k) = set (U k) \<union> set (F k)"
      "length (U' k) + length (F' k) = length (U k) + length (F k)"
    and other: "\<And>i. i \<noteq> k \<Longrightarrow> U' i = U i \<and> F' i = F i \<and> used_list (mp_pools s' p) i = used_list (mp_pools s p) i \<and>
      free_list (mp_pools s' p) i = free_list (mp_pools s p) i"
    and w: "mp_words s' = mp_words s" and a: "\<And>q. b_addr (mp_blks s' q) = b_addr (mp_blks s q)"
    and fr: "\<And>q. q \<notin> set (U k) \<union> set (F k) \<Longrightarrow> mp_blks s' q = mp_blks s q"
  shows "pool_inv s' p U' F'"
proof -
  have un: "set (U' i) \<union> set (F' i) = set (U i) \<union> set (F i)" for i
    using dj(2) other [of i] by (cases "i = k") auto
  have h: "header s' i b = header s i b" for i b
    by (simp add: header_def w a)
  have "mlist (mp_blks s') (used_list (mp_pools s' p) i) (U' i) \<and> mlist (mp_blks s') (free_list (mp_pools s' p) i) (F' i) \<and>
      set (U' i) \<inter> set (F' i) = {} \<and> length (U' i) + length (F' i) < 2 ^ 32" if i: "i < 16" for i
  proof (cases "i = k")
    case True
    then show ?thesis
      using ul fl dj inv i by (auto simp: pool_inv_def)
  next
    case False
    have "mp_blks s' q = mp_blks s q" if "q \<in> set (U i) \<union> set (F i)" for q
      using pool_invD(6) [OF inv i k False] that by (intro fr) blast
    then have "mlist (mp_blks s') l (U i) = mlist (mp_blks s) l (U i)" "mlist (mp_blks s') l (F i) = mlist (mp_blks s) l (F i)" for l
      by (auto intro!: mlist_cong)
    then show ?thesis
      using inv i other [OF False] by (simp add: pool_inv_def)
  qed
  then show ?thesis
    using inv unfolding pool_inv_def un h by blast
qed

lemma upd_pool_simps [simp]:
  "mp_pools (upd_pool p f s) = (mp_pools s)(p := f (mp_pools s p))" "mp_blks (upd_pool p f s) = mp_blks s"
  "mp_words (upd_pool p f s) = mp_words s" "mp_answers (upd_pool p f s) = mp_answers s"
  "mp_freed (upd_pool p f s) = mp_freed s"
  by (simp_all add: upd_pool_def)

lemma index_lt: "mempooll_get_index_by_size n = Some i \<Longrightarrow> i < 16"
  by (auto simp: mempooll_get_index_by_size_def MEMPOOLL_LIST_COUNT_def split: if_splits dest: first_index_SomeD)

lemma alloc_reuse:
  assumes inv: "pool_inv s p U F" and i: "mempooll_get_index_by_size n = Some i" and F: "F i = b # fs"
  shows "\<exists>s'. mempooll_alloc_memory (Some p) n s = (Some (b_addr (mp_blks s b) + 12), s') \<and>
    pool_inv s' p (U(i := b # U i)) (F(i := fs)) \<and> mp_words s' = mp_words s \<and>
    (\<forall>q. b_addr (mp_blks s' q) = b_addr (mp_blks s q)) \<and> mp_answers s' = mp_answers s"
proof -
  have i16: "i < 16" and n0: "n \<noteq> 0"
    using index_lt [OF i] i by (auto simp: mempooll_get_index_by_size_def)
  have ul: "mlist (mp_blks s) (used_list (mp_pools s p) i) (U i)" and fl: "mlist (mp_blks s) (free_list (mp_pools s p) i) (b # fs)"
    and dj: "set (U i) \<inter> set (F i) = {}" and len: "length (U i) + length (F i) < 2 ^ 32"
    using pool_invD [OF inv i16] F by simp_all
  obtain l bs where sh: "mempooll_shift (free_list (mp_pools s p) i) (mp_blks s) = (Some b, l, bs)" "mlist bs l fs"
    "\<And>q. b_addr (bs q) = b_addr (mp_blks s q)" "\<And>q. q \<notin> set (b # fs) \<Longrightarrow> bs q = mp_blks s q"
    using shift_spec [OF fl] by auto
  have "b \<notin> set fs"
    using fl by (auto simp: mlist_def dlist_def)
  have "mlist bs (used_list (mp_pools s p) i) (U i)"
    by (rule mlist_frame [where A = "set (b # fs)", OF ul sh(4)]) (use dj F in auto)
  then obtain l2 bs2 where us: "mempooll_unshift (used_list (mp_pools s p) i) (Some b) bs = (True, l2, bs2)" "mlist bs2 l2 (b # U i)"
    "\<And>q. b_addr (bs2 q) = b_addr (bs q)" "\<And>q. q \<notin> set (b # U i) \<Longrightarrow> bs2 q = bs q"
    using unshift_spec [of bs "used_list (mp_pools s p) i" "U i" b] dj F len by auto
  let ?s1 = "upd_pool p (\<lambda>d. d\<lparr>free_list := (free_list d)(i := l)\<rparr>) (s\<lparr>mp_blks := bs\<rparr>)"
  let ?s2 = "upd_pool p (\<lambda>d. d\<lparr>used_list := (used_list d)(i := l2)\<rparr>) (?s1\<lparr>mp_blks := bs2\<rparr>)"
  have "mempooll_alloc_memory (Some p) n s = (Some (b_addr (mp_blks s b) + 12), ?s2)"
    using n0 i sh us by (simp add: mempooll_alloc_memory_def shift_free_def unshift_used_def)
  moreover have "pool_inv ?s2 p (U(i := b # U i)) (F(i := fs))"
  proof (rule pool_inv_move [OF inv i16])
    show "mlist (mp_blks ?s2) (used_list (mp_pools ?s2 p) i) ((U(i := b # U i)) i)"
      using us by simp
    have "mlist bs2 l fs"
      by (rule mlist_frame [where A = "set (b # U i)", OF sh(2) us(4)]) (use dj F \<open>b \<notin> set fs\<close> in auto)
    then show "mlist (mp_blks ?s2) (free_list (mp_pools ?s2 p) i) ((F(i := fs)) i)"
      by simp
    fix q assume "q \<notin> set (U i) \<union> set (F i)"
    then show "mp_blks ?s2 q = mp_blks s q"
      using us(4) sh(4) F by simp
  qed (use dj F us sh \<open>b \<notin> set fs\<close> in auto)
  ultimately show ?thesis
    using us(3) sh(3) by auto
qed

lemma free_back:
  assumes inv: "pool_inv s p U F" and i: "i < 16" and U: "U i = xs @ b # ys"
  shows "\<exists>s'. mempooll_free_memory (Some p) (Some (b_addr (mp_blks s b) + 12)) s = Some (True, s') \<and>
    pool_inv s' p (U(i := xs @ ys)) (F(i := b # F i)) \<and> mp_words s' = mp_words s \<and>
    (\<forall>q. b_addr (mp_blks s' q) = b_addr (mp_blks s q))"
proof -
  let ?m = "b_addr (mp_blks s b)"
  have ul: "mlist (mp_blks s) (used_list (mp_pools s p) i) (xs @ b # ys)" and fl: "mlist (mp_blks s) (free_list (mp_pools s p) i) (F i)"
    and dj: "set (U i) \<inter> set (F i) = {}" and len: "length (U i) + length (F i) < 2 ^ 32" and hd: "header s i b"
    using pool_invD [OF inv i] U by simp_all
  have bd: "b \<notin> set xs" "b \<notin> set ys"
    using ul by (auto simp: mlist_def dest: dlist_split)
  obtain l bs where rm: "mempooll_remove (used_list (mp_pools s p) i) (Some b) (mp_blks s) = Some (True, l, bs)" "mlist bs l (xs @ ys)"
    "\<And>q. b_addr (bs q) = b_addr (mp_blks s q)" "\<And>q. q \<notin> set (xs @ ys) \<Longrightarrow> bs q = mp_blks s q"
    using remove_spec [OF ul] by auto
  have "mlist bs (free_list (mp_pools s p) i) (F i)"
    by (rule mlist_frame [where A = "set (xs @ ys)", OF fl rm(4)]) (use dj U in auto)
  then obtain l2 bs2 where us: "mempooll_unshift (free_list (mp_pools s p) i) (Some b) bs = (True, l2, bs2)" "mlist bs2 l2 (b # F i)"
    "\<And>q. b_addr (bs2 q) = b_addr (bs q)" "\<And>q. q \<notin> set (b # F i) \<Longrightarrow> bs2 q = bs q"
    using unshift_spec [of bs "free_list (mp_pools s p) i" "F i" b] dj U len by auto
  let ?s1 = "upd_pool p (\<lambda>d. d\<lparr>used_list := (used_list d)(i := l)\<rparr>) (s\<lparr>mp_blks := bs\<rparr>)"
  let ?s2 = "upd_pool p (\<lambda>d. d\<lparr>free_list := (free_list d)(i := l2)\<rparr>) (?s1\<lparr>mp_blks := bs2\<rparr>)"
  have words: "mp_words s (?m + 12 - 12) = of_nat i" "mp_words s (?m + 12 - 8) = b" "mp_words s (?m + 12 - 4) = of_nat i + b" "b \<noteq> 0"
    using hd by (simp_all add: header_def Let_def add.commute)
  have ii: "unat (of_nat i :: u32) = i" "(of_nat i :: u32) \<noteq> 0xFFFFFFFF"
  proof -
    show "unat (of_nat i :: u32) = i"
      using i by (simp add: unat_of_nat)
    then show "(of_nat i :: u32) \<noteq> 0xFFFFFFFF"
      using i by auto
  qed
  have "mempooll_free_memory (Some p) (Some (?m + 12)) s = Some (True, ?s2)"
    using words ii i rm us by (simp add: mempooll_free_memory_def MEMPOOLL_LIST_COUNT_def Let_def)
  moreover have "pool_inv ?s2 p (U(i := xs @ ys)) (F(i := b # F i))"
  proof (rule pool_inv_move [OF inv i])
    have "mlist bs2 l (xs @ ys)"
      by (rule mlist_frame [where A = "set (b # F i)", OF rm(2) us(4)]) (use dj U bd in auto)
    then show "mlist (mp_blks ?s2) (used_list (mp_pools ?s2 p) i) ((U(i := xs @ ys)) i)"
      by simp
    show "mlist (mp_blks ?s2) (free_list (mp_pools ?s2 p) i) ((F(i := b # F i)) i)"
      using us by simp
    fix q assume "q \<notin> set (U i) \<union> set (F i)"
    then show "mp_blks ?s2 q = mp_blks s q"
      using us(4) rm(4) U by simp
  qed (use dj U us rm bd in auto)
  ultimately show ?thesis
    using us(3) rm(3) by auto
qed

section \<open>Properties\<close>

text \<open>A size has the smallest class that holds it: \<open>mempooll_get_index_by_size\<close> returns a
  class whose blocks are large enough while those of every lower class are too small, and no
  class exactly for size 0 and sizes above 8 KB.\<close>

theorem index_by_size_minimal:
  "(case mempooll_get_index_by_size n of
      Some i \<Rightarrow> i < 16 \<and> n \<le> mempooll_size (of_nat i) \<and> (\<forall>j < i. mempooll_size (of_nat j) < n)
    | None \<Rightarrow> n = 0 \<or> 8192 < n)"
proof (cases "mempooll_get_index_by_size n")
  case None
  have "n \<le> 8192 \<Longrightarrow> n = 0"
    using first_index_ex [of 0 15 16 "\<lambda>ui. n \<le> mp_sizes ! ui"] None
    by (auto simp: mempooll_get_index_by_size_def mp_sizes_def MEMPOOLL_LIST_COUNT_def split: if_splits)
  with None show ?thesis by auto
next
  case (Some i)
  then have fi: "first_index (\<lambda>ui. n \<le> mp_sizes ! ui) 0 16 = Some i"
    by (auto simp: mempooll_get_index_by_size_def MEMPOOLL_LIST_COUNT_def split: if_splits)
  note d = first_index_SomeD [OF fi]
  have sz: "mempooll_size (of_nat j) = mp_sizes ! j" if "j < 16" for j
    using that by (simp add: mempooll_size_def MEMPOOLL_LIST_COUNT_def unat_of_nat)
  show ?thesis
    using Some d sz by (auto simp: not_le)
qed

text \<open>While a class has free blocks, \<open>mempooll_alloc_memory\<close> takes its first free block, and
  \<open>mempooll_free_memory\<close> of the returned address finds class and descriptor again and gives the
  block back: the pool is well-formed and has the used and free lists it had before.\<close>

theorem mempool_alloc_free:
  assumes inv: "pool_inv s p U F" and i: "mempooll_get_index_by_size n = Some i" and F: "F i = b # fs"
  shows "\<exists>a s' s''. mempooll_alloc_memory (Some p) n s = (Some a, s') \<and>
    mempooll_free_memory (Some p) (Some a) s' = Some (True, s'') \<and> pool_inv s'' p U F"
proof -
  obtain s' where s': "mempooll_alloc_memory (Some p) n s = (Some (b_addr (mp_blks s b) + 12), s')"
    "pool_inv s' p (U(i := b # U i)) (F(i := fs))" "\<And>q. b_addr (mp_blks s' q) = b_addr (mp_blks s q)"
    using alloc_reuse [OF assms] by blast
  have "\<exists>s''. mempooll_free_memory (Some p) (Some (b_addr (mp_blks s' b) + 12)) s' = Some (True, s'') \<and>
      pool_inv s'' p (U(i := b # U i, i := U i)) (F(i := fs, i := b # fs))"
    using free_back [OF s'(2) index_lt [OF i], of "[]" b "U i"] by auto
  then have "\<exists>s''. mempooll_free_memory (Some p) (Some (b_addr (mp_blks s b) + 12)) s' = Some (True, s'') \<and>
      pool_inv s'' p U F"
    unfolding s'(3) using F by (simp add: fun_upd_idem)
  with s'(1) show ?thesis by blast
qed

text \<open>A pool with one free block of 8 bytes at address 0x100, its descriptor at 0x40.\<close>

definition pool1 :: mp_state where
  "pool1 = \<lparr>mp_pools = (\<lambda>_. \<lparr>used_list = (\<lambda>_. \<lparr>m_head = None, m_foot = None, m_count = 0\<rparr>),
        free_list = (\<lambda>_. \<lparr>m_head = None, m_foot = None, m_count = 0\<rparr>)
          (1 := \<lparr>m_head = Some 0x40, m_foot = Some 0x40, m_count = 1\<rparr>),
        mem_list = [], mem_list_addr = Some 0x2000, mem_list_max_count = 4096\<rparr>),
     mp_blks = (\<lambda>_. \<lparr>b_addr = 0, b_prev = None, b_next = None\<rparr>)(0x40 := \<lparr>b_addr = 0x100, b_prev = None, b_next = None\<rparr>),
     mp_words = (\<lambda>_. 0)(0x100 := 1, 0x104 := 0x40, 0x108 := 0x41), mp_answers = [], mp_freed = []\<rparr>"

lemma pool1_inv: "pool_inv pool1 p (\<lambda>_. []) ((\<lambda>_. [])(1 := [0x40]))"
  by (auto simp: pool_inv_def pool1_def mlist_def dlist_def header_def)

theorem mempool_alloc_free_witness:
  "\<exists>a s' s''. mempooll_alloc_memory (Some 7) 5 pool1 = (Some a, s') \<and>
    mempooll_free_memory (Some 7) (Some a) s' = Some (True, s'') \<and> pool_inv s'' 7 (\<lambda>_. []) ((\<lambda>_. [])(1 := [0x40]))"
proof (rule mempool_alloc_free [OF pool1_inv])
  show "mempooll_get_index_by_size 5 = Some 1"
    by (simp add: mempooll_get_index_by_size_def MEMPOOLL_LIST_COUNT_def mp_sizes_def first_index_step)
  show "((\<lambda>_. [])(1 := [0x40])) 1 = [0x40 :: u32]"
    by simp
qed

text \<open>When a class has no free block and its quota is used up, \<open>mempooll_alloc_memory\<close> returns
  NULL without asking the environment for memory: the fallback its comment describes for a full
  used list is not reached.\<close>

theorem mempool_quota_fails:
  assumes i: "mempooll_get_index_by_size n = Some i" and F: "m_head (free_list (mp_pools s p) i) = None"
    and quota: "MEMPOOLL_LIST_MAX_SIZE \<le> m_count (used_list (mp_pools s p) i) * mp_sizes ! i + of_nat blocks_per_fill * mp_sizes ! i"
  shows "\<exists>s'. mempooll_alloc_memory (Some p) n s = (None, s') \<and> mp_answers s' = mp_answers s"
proof -
  have n0: "n \<noteq> 0" and i16: "i < 16"
    using index_lt [OF i] i by (auto simp: mempooll_get_index_by_size_def)
  have "mempooll_shift (free_list (mp_pools s p) i) (mp_blks s) = (None, free_list (mp_pools s p) i, mp_blks s)"
    using F by (simp add: mempooll_shift_def)
  then show ?thesis
    using n0 i i16 quota
    by (simp add: mempooll_alloc_memory_def shift_free_def mempooll_fill_free_list_def MEMPOOLL_LIST_COUNT_def)
qed

theorem mempool_quota_fails_witness:
  "\<exists>s'. mempooll_alloc_memory (Some 7) 8192
      (upd_pool 7 (\<lambda>d. d\<lparr>used_list := (\<lambda>_. \<lparr>m_head = Some 4, m_foot = Some 4, m_count = 1023\<rparr>)\<rparr>) pool1) = (None, s') \<and>
    mp_answers s' = []"
proof -
  have "mempooll_get_index_by_size 8192 = Some 15"
    by (simp add: mempooll_get_index_by_size_def MEMPOOLL_LIST_COUNT_def mp_sizes_def first_index_step)
  from mempool_quota_fails [OF this, of "upd_pool 7 (\<lambda>d. d\<lparr>used_list := (\<lambda>_. \<lparr>m_head = Some 4, m_foot = Some 4, m_count = 1023\<rparr>)\<rparr>) pool1" 7]
  show ?thesis
    by (simp add: pool1_def mp_sizes_def blocks_per_fill_def MEMPOOLL_LIST_MAX_SIZE_def)
qed

end
