(* ===== verification/Strings.thy ===== *)
theory Strings
  imports Prelude
begin

text \<open>
  The string routines: \<^verbatim>\<open>libs/ilib/string.c\<close> (the C library of the kernel and its programs),
  \<^verbatim>\<open>kernel/utils/sfstr.c\<close> (copying and concatenation with a size) and
  \<^verbatim>\<open>kernel/kstring.c\<close> (splitting and formatting).  Where a routine only reads, a C string is
  the list of its characters before the NUL.  Where it writes, a buffer is the list of all its
  characters and a result \<^const>\<open>None\<close> is an access outside of one.
\<close>

abbreviation NUL :: char where "NUL \<equiv> CHR 0x00"

text \<open>The string a buffer holds.\<close>

definition cstr :: "char list \<Rightarrow> string" where
  "cstr buf = takeWhile (\<lambda>c. c \<noteq> NUL) buf"

definition schar :: "char \<Rightarrow> int" where
  "schar c = (let n = int (of_char c :: nat) in if n < 128 then n else n - 256)"

section \<open>\<open>string.c\<close>: reading\<close>

fun strlen_loop :: "string \<Rightarrow> u32 \<Rightarrow> u32" where
  "strlen_loop [] len = len"
| "strlen_loop (c # str) len = strlen_loop str (len + 1)"

definition C_strlen :: "string \<Rightarrow> u32" where
  "C_strlen str = strlen_loop str 0"

fun strcmp_loop :: "string \<Rightarrow> string \<Rightarrow> int" where
  "strcmp_loop (a # str1) (b # str2) = (if a \<noteq> b then schar a - schar b else strcmp_loop str1 str2)"
| "strcmp_loop _ _ = 0"

text \<open>\<open>str1len - str2len\<close> of two \<open>unsigned int\<close> as an \<open>int\<close>.\<close>

definition C_strcmp :: "string \<Rightarrow> string \<Rightarrow> int" where
  "C_strcmp str1 str2 =
     (let str1len = C_strlen str1; str2len = C_strlen str2 in
      if str1len \<noteq> str2len then sint (str1len - str2len) else strcmp_loop str1 str2)"

text \<open>\<open>_strcmpn\<close> and \<open>_memcmp\<close> compare \<open>n\<close> characters, NUL or not.\<close>

definition C_strcmpn :: "char list \<Rightarrow> char list \<Rightarrow> nat \<Rightarrow> int option" where
  "C_strcmpn b1 b2 n =
     (case first_index (\<lambda>ui. ui \<ge> length b1 \<or> ui \<ge> length b2 \<or> b1 ! ui \<noteq> b2 ! ui) 0 n of
        None \<Rightarrow> Some 0
      | Some ui \<Rightarrow>
          if ui \<ge> length b1 \<or> ui \<ge> length b2 then None else Some (schar (b1 ! ui) - schar (b2 ! ui)))"

definition C_memcmp :: "char list \<Rightarrow> char list \<Rightarrow> nat \<Rightarrow> int option" where
  "C_memcmp b1 b2 n =
     (case first_index (\<lambda>ui. ui \<ge> length b1 \<or> ui \<ge> length b2 \<or> b1 ! ui \<noteq> b2 ! ui) 0 n of
        None \<Rightarrow> Some 0
      | Some ui \<Rightarrow>
          if ui \<ge> length b1 \<or> ui \<ge> length b2 then None
          else Some (int (of_char (b1 ! ui) :: nat) - int (of_char (b2 ! ui) :: nat)))"

text \<open>A pointer into the string is its offset; the terminating NUL is found too.\<close>

fun strchr_loop :: "string \<Rightarrow> nat \<Rightarrow> char \<Rightarrow> nat option" where
  "strchr_loop [] i c = (if c = NUL then Some i else None)"
| "strchr_loop (x # s) i c = (if x \<noteq> c then strchr_loop s (Suc i) c else Some i)"

definition C_strchr :: "string \<Rightarrow> char \<Rightarrow> nat option" where
  "C_strchr s c = strchr_loop s 0 c"

text \<open>The inner loop of \<open>_strstr\<close>: \<open>s2\<close> is not empty.\<close>

fun strstr_match :: "string \<Rightarrow> string \<Rightarrow> bool" where
  "strstr_match (a # s1) (b # s2) = (if a = b then (if s2 = [] then True else strstr_match s1 s2) else False)"
| "strstr_match _ _ = False"

fun strstr_loop :: "string \<Rightarrow> nat \<Rightarrow> string \<Rightarrow> nat option" where
  "strstr_loop [] i s2 = None"
| "strstr_loop (x # s1) i s2 = (if strstr_match (x # s1) s2 then Some i else strstr_loop s1 (Suc i) s2)"

definition C_strstr :: "string \<Rightarrow> string \<Rightarrow> nat option" where
  "C_strstr s1 s2 = (if s2 \<noteq> [] then strstr_loop s1 0 s2 else Some 0)"

section \<open>\<open>string.c\<close>: writing\<close>

fun memcpy_loop :: "nat \<Rightarrow> nat \<Rightarrow> char list \<Rightarrow> char list \<Rightarrow> char list option" where
  "memcpy_loop i 0 dst src = Some dst"
| "memcpy_loop i (Suc n) dst src =
     (if i < length dst \<and> i < length src then memcpy_loop (Suc i) n (dst[i := src ! i]) src else None)"

definition C_memcpy :: "char list \<Rightarrow> char list \<Rightarrow> nat \<Rightarrow> char list option" where
  "C_memcpy dst src count = memcpy_loop 0 count dst src"

fun memset_loop :: "nat \<Rightarrow> nat \<Rightarrow> char list \<Rightarrow> char \<Rightarrow> char list option" where
  "memset_loop ui 0 s ch = Some s"
| "memset_loop ui (Suc n) s ch = (if ui < length s then memset_loop (Suc ui) n (s[ui := ch]) ch else None)"

definition C_memset :: "char list \<Rightarrow> char \<Rightarrow> nat \<Rightarrow> char list option" where
  "C_memset s ch n = memset_loop 0 n s ch"

fun strcpy_loop :: "nat \<Rightarrow> char list \<Rightarrow> char list \<Rightarrow> char list option" where
  "strcpy_loop i dst [] = None"
| "strcpy_loop i dst (c # src) =
     (if i < length dst
      then (if c = NUL then Some (dst[i := c]) else strcpy_loop (Suc i) (dst[i := c]) src)
      else None)"

definition C_strcpy :: "char list \<Rightarrow> char list \<Rightarrow> char list option" where
  "C_strcpy dst src = strcpy_loop 0 dst src"

definition C_strcat :: "char list \<Rightarrow> char list \<Rightarrow> char list option" where
  "C_strcat dst src =
     (if length (cstr dst) < length dst then strcpy_loop (length (cstr dst)) dst src else None)"

text \<open>\<open>_strrev\<close>: two indices that meet, or become neighbours.\<close>

partial_function (option) strrev_loop :: "u32 \<Rightarrow> u32 \<Rightarrow> string \<Rightarrow> string option" where
  "strrev_loop left right str =
     (if left = right then Some str
      else if unat left < length str \<and> unat right < length str then
        (let str' = str[unat left := str ! unat right, unat right := str ! unat left] in
         if right - left = 1 then Some str' else strrev_loop (left + 1) (right - 1) str')
      else None)"

definition C_strrev :: "string \<Rightarrow> string option" where
  "C_strrev str = strrev_loop 0 (C_strlen str - 1) str"

text \<open>The three trimming loops; \<open>chr\<close> is a blank in \<open>ltrim\<close>, \<open>rtrim\<close>, \<open>trim\<close>.  The buffer
  is the string and its NUL.\<close>

fun ltrim_copy :: "nat \<Rightarrow> nat \<Rightarrow> nat \<Rightarrow> char list \<Rightarrow> char list" where
  "ltrim_copy ui start 0 buf = buf"
| "ltrim_copy ui start (Suc len) buf = ltrim_copy (Suc ui) (Suc start) len (buf[ui := buf ! start])"

definition ltrimex :: "string \<Rightarrow> char \<Rightarrow> string" where
  "ltrimex str chr =
     (let len = length str;
          start = (case first_index (\<lambda>i. str ! i \<noteq> chr) 0 len of None \<Rightarrow> len | Some i \<Rightarrow> i)
      in cstr (ltrim_copy 0 start (len - start + 1) (str @ [NUL])))"

fun rtrim_start :: "string \<Rightarrow> char \<Rightarrow> nat \<Rightarrow> nat" where
  "rtrim_start str chr 0 = 0"
| "rtrim_start str chr (Suc start) = (if str ! start = chr then rtrim_start str chr start else Suc start)"

definition rtrimex :: "string \<Rightarrow> char \<Rightarrow> string" where
  "rtrimex str chr = cstr ((str @ [NUL])[rtrim_start str chr (length str) := NUL])"

definition ltrim :: "string \<Rightarrow> string" where "ltrim str = ltrimex str (CHR '' '')"
definition rtrim :: "string \<Rightarrow> string" where "rtrim str = rtrimex str (CHR '' '')"
definition trim :: "string \<Rightarrow> string" where "trim str = rtrim (ltrim str)"
definition trimex :: "string \<Rightarrow> char \<Rightarrow> string" where "trimex str chr = rtrimex (ltrimex str chr) chr"

section \<open>\<open>string.c\<close>: numbers\<close>

definition digit :: "u32 \<Rightarrow> char" where
  "digit d = char_of (unat d + 48 :: nat)"

function ultos_loop :: "u32 \<Rightarrow> string" where
  "ultos_loop n = (if n \<noteq> 0 then digit (n - n div 10 * 10) # ultos_loop (n div 10) else [])"
  by pat_completeness auto
termination
  by (relation "measure unat") (auto simp: unat_div word_unat_eq_iff)

declare ultos_loop.simps [simp del]

definition ultos :: "u32 \<Rightarrow> string option" where
  "ultos n = C_strrev (if n = 0 then ''0'' else ultos_loop n)"

definition ltos :: "u32 \<Rightarrow> string option" where
  "ltos n = (if n <s 0 then map_option (\<lambda>s. CHR ''-'' # s) (ultos (- n)) else ultos n)"

definition hex_digit :: "u8 \<Rightarrow> char" where
  "hex_digit temp = (if temp < 0xA then char_of (unat temp + 48) else char_of (unat (temp - 0xA) + 65))"

definition uctohexs :: "u8 \<Rightarrow> string" where
  "uctohexs n = [hex_digit (0xF AND drop_bit 4 n), hex_digit (0xF AND n)]"

definition ustohexs :: "u16 \<Rightarrow> string" where
  "ustohexs n = uctohexs (ucast (drop_bit 8 n)) @ uctohexs (ucast n)"

definition uitohexs :: "u32 \<Rightarrow> string" where
  "uitohexs n = uctohexs (ucast (drop_bit 24 n)) @ uctohexs (ucast (drop_bit 16 n)) @
     uctohexs (ucast (drop_bit 8 n)) @ uctohexs (ucast n)"

text \<open>\<open>stoul\<close> walks the string from its end; no character is checked.\<close>

fun stoul_loop :: "string \<Rightarrow> u32 \<Rightarrow> u32 \<Rightarrow> u32" where
  "stoul_loop [] n m = n"
| "stoul_loop (c # rest) n m = stoul_loop rest (n + m * of_int (schar c - 48)) (m * 10)"

definition stoul :: "string \<Rightarrow> u32" where
  "stoul str = stoul_loop (rev str) 0 1"

definition stol :: "string \<Rightarrow> u32" where
  "stol str =
     (case str of
        c # rest \<Rightarrow> if c = CHR ''-'' then stoul rest * - 1 else if c = CHR ''+'' then stoul rest else stoul str
      | [] \<Rightarrow> stoul str)"

definition is_valid_uint :: "string \<Rightarrow> bool" where
  "is_valid_uint str = list_all (\<lambda>chr. schar (CHR ''0'') \<le> schar chr \<and> schar chr \<le> schar (CHR ''9'')) str"

section \<open>\<open>sfstr.c\<close>\<close>

datatype sfstr_result = SFSTR_R_NULL | SFSTR_R_TOO_LONG | SFSTR_R_OK | SFSTR_R_EQUAL | SFSTR_R_NOT_EQUAL

definition UtlGetStringLength :: "string option \<Rightarrow> sfstr_result \<times> u32 option" where
  "UtlGetStringLength str =
     (case str of None \<Rightarrow> (SFSTR_R_NULL, None) | Some s \<Rightarrow> (SFSTR_R_OK, Some (strlen_loop s 0)))"

fun utl_compare_loop :: "string \<Rightarrow> string \<Rightarrow> sfstr_result" where
  "utl_compare_loop (a # str0) (b # str1) = (if a \<noteq> b then SFSTR_R_NOT_EQUAL else utl_compare_loop str0 str1)"
| "utl_compare_loop _ _ = SFSTR_R_EQUAL"

definition UtlCompareString :: "string option \<Rightarrow> string option \<Rightarrow> sfstr_result" where
  "UtlCompareString str0 str1 =
     (case (str0, str1) of
        (Some s0, Some s1) \<Rightarrow>
          if strlen_loop s0 0 \<noteq> strlen_loop s1 0 then SFSTR_R_NOT_EQUAL else utl_compare_loop s0 s1
      | _ \<Rightarrow> SFSTR_R_NULL)"

text \<open>
  The loop of \<open>UtlCopyString\<close>, at offset \<open>off\<close> of the destination: \<open>k\<close> is \<open>size - 1 - ui\<close>.
  The result is \<open>ui\<close>, what is left of the source and the destination.
\<close>

fun utl_copy_loop :: "nat \<Rightarrow> nat \<Rightarrow> string \<Rightarrow> char list \<Rightarrow> (nat \<times> string \<times> char list) option" where
  "utl_copy_loop ui 0 src dst = Some (ui, src, dst)"
| "utl_copy_loop ui (Suc k) [] dst = Some (ui, [], dst)"
| "utl_copy_loop ui (Suc k) (c # src) dst =
     (if ui < length dst then utl_copy_loop (Suc ui) k src (dst[ui := c]) else None)"

definition utl_copy_at :: "nat \<Rightarrow> char list \<Rightarrow> u32 \<Rightarrow> string \<Rightarrow> (sfstr_result \<times> char list) option" where
  "utl_copy_at off dst sz src =
     (if sz = 0 then Some (SFSTR_R_TOO_LONG, dst)
      else do {
        (ui, rest, dst) \<leftarrow> utl_copy_loop off (unat (sz - 1)) src dst;
        if ui < length dst
        then Some (if rest \<noteq> [] then SFSTR_R_TOO_LONG else SFSTR_R_OK, dst[ui := NUL])
        else None })"

definition UtlCopyString ::
  "char list option \<Rightarrow> u32 \<Rightarrow> string option \<Rightarrow> (sfstr_result \<times> char list option) option" where
  "UtlCopyString dst sz src =
     (case (dst, src) of
        (Some d, Some s) \<Rightarrow> map_option (\<lambda>(r, d). (r, Some d)) (utl_copy_at 0 d sz s)
      | _ \<Rightarrow> Some (SFSTR_R_NULL, dst))"

definition UtlConcatString ::
  "char list option \<Rightarrow> u32 \<Rightarrow> string option \<Rightarrow> (sfstr_result \<times> char list option) option" where
  "UtlConcatString dst sz src =
     (case dst of
        None \<Rightarrow> Some (SFSTR_R_NULL, dst)
      | Some d \<Rightarrow>
          let dst_len = length (cstr d); remain = sz - of_nat dst_len in
          (case src of
             None \<Rightarrow> Some (SFSTR_R_NULL, dst)
           | Some s \<Rightarrow> map_option (\<lambda>(r, d). (r, Some d)) (utl_copy_at dst_len d remain s)))"

fun utl_copymem_loop :: "nat \<Rightarrow> nat \<Rightarrow> u32 \<Rightarrow> char list \<Rightarrow> char list \<Rightarrow> (sfstr_result \<times> char list) option" where
  "utl_copymem_loop ui 0 sz d s = Some (SFSTR_R_OK, d)"
| "utl_copymem_loop ui (Suc n) sz d s =
     (if ui \<ge> unat sz then Some (SFSTR_R_TOO_LONG, d)
      else if ui < length d \<and> ui < length s then utl_copymem_loop (Suc ui) n sz (d[ui := s ! ui]) s
      else None)"

definition UtlCopyMemory ::
  "char list option \<Rightarrow> u32 \<Rightarrow> char list option \<Rightarrow> u32 \<Rightarrow> (sfstr_result \<times> char list option) option" where
  "UtlCopyMemory dst sz src n =
     (case (dst, src) of
        (Some d, Some s) \<Rightarrow> map_option (\<lambda>(r, d). (r, Some d)) (utl_copymem_loop 0 (unat n) sz d s)
      | _ \<Rightarrow> Some (SFSTR_R_NULL, dst))"

section \<open>\<open>kstring.c\<close>\<close>

text \<open>
  \<open>split_string\<close> keeps its position in a static.  The loop reads one character (NUL at the end)
  per round and counts it in \<open>pos\<close>; \<open>dest\<close> is what was written, \<open>src\<close> what is left.
\<close>

fun split_loop :: "string \<Rightarrow> char \<Rightarrow> int \<Rightarrow> int \<Rightarrow> string \<Rightarrow> char \<times> int \<times> string" where
  "split_loop [] spt mx pos dest = (NUL, pos + 1, dest)"
| "split_loop (c # src) spt mx pos dest =
     (if c \<noteq> spt \<and> int (length dest) + 1 < mx then split_loop src spt mx (pos + 1) (dest @ [c])
      else (c, pos + 1, dest))"

definition split_string :: "bool \<Rightarrow> string option \<Rightarrow> char \<Rightarrow> int \<Rightarrow> int \<Rightarrow> string option \<times> int" where
  "split_string dest src spt mx pos =
     (if \<not> dest then (None, 0)
      else if mx \<le> 0 then (None, pos)
      else (case src of
        None \<Rightarrow> (None, pos)
      | Some s \<Rightarrow>
          (case split_loop (drop (nat pos) s) spt mx pos [] of
             (chr, pos, index) \<Rightarrow>
               if index = [] \<and> chr = NUL then (None, pos)
               else (Some index, if chr = NUL then pos - 1 else pos))))"

text \<open>
  \<open>vsprintf_s\<close>.  An argument is read with the type its conversion asks for; another type, or no
  argument, is \<^const>\<open>None\<close>.  Floating point is not modelled: \<open>dtos\<close> is a parameter.
\<close>

datatype 'd vararg = AChar char | AInt u32 | ADouble 'd | AStr string

definition to_lower_hex :: "string \<Rightarrow> string" where
  "to_lower_hex s = map (\<lambda>c. if schar (CHR ''A'') \<le> schar c \<and> schar c \<le> schar (CHR ''Z'')
     then char_of (nat (schar (CHR ''a'') + (schar c - schar (CHR ''A'')))) else c) s"

text \<open>One conversion: the text to append, the other arguments; \<^const>\<open>None\<close> on a wrong argument.\<close>

definition convert :: "('d \<Rightarrow> string) \<Rightarrow> char \<Rightarrow> 'd vararg list \<Rightarrow> (string \<times> 'd vararg list) option" where
  "convert dtos chr args =
     (if chr = CHR ''d'' then (case args of AInt d # as \<Rightarrow> map_option (\<lambda>s. (s, as)) (ltos d) | _ \<Rightarrow> None)
      else if chr = CHR ''f'' \<or> chr = CHR ''g'' then (case args of ADouble d # as \<Rightarrow> Some (dtos d, as) | _ \<Rightarrow> None)
      else if chr = CHR ''x'' then (case args of AInt x # as \<Rightarrow> Some (to_lower_hex (uitohexs x), as) | _ \<Rightarrow> None)
      else if chr = CHR ''X'' then (case args of AInt x # as \<Rightarrow> Some (uitohexs x, as) | _ \<Rightarrow> None)
      else if chr = CHR ''s'' then (case args of AStr s # as \<Rightarrow> Some (s, as) | _ \<Rightarrow> None)
      else None)"

definition is_conversion :: "char \<Rightarrow> bool" where
  "is_conversion chr \<longleftrightarrow> chr \<in> {CHR ''d'', CHR ''f'', CHR ''g'', CHR ''x'', CHR ''X'', CHR ''s''}"

fun vsprintf_loop :: "('d \<Rightarrow> string) \<Rightarrow> u32 \<Rightarrow> string \<Rightarrow> 'd vararg list \<Rightarrow> u32 \<Rightarrow> string \<Rightarrow> (string \<times> u32) option" where
  "vsprintf_loop dtos sz [] va buf_len buffer = Some (buffer, buf_len)"
| "vsprintf_loop dtos sz (chr # format) va buf_len buffer =
     (if \<not> buf_len + 1 < sz then Some (buffer, buf_len)
      else if chr \<noteq> CHR ''%'' then vsprintf_loop dtos sz format va (buf_len + 1) (buffer @ [chr])
      else (case format of
        [] \<Rightarrow> Some (buffer, buf_len)
      | chr # format \<Rightarrow>
          if chr = CHR ''%'' then
            (if buf_len + 1 \<ge> sz then Some (buffer, buf_len)
             else vsprintf_loop dtos sz format va (buf_len + 1) (buffer @ [CHR ''%'']))
          else if chr = CHR ''c'' then
            (if buf_len + 1 \<ge> sz then Some (buffer, buf_len)
             else (case va of
                AChar c # va \<Rightarrow> vsprintf_loop dtos sz format va (buf_len + 1) (buffer @ [c])
              | _ \<Rightarrow> None))
          else if is_conversion chr then do {
            (s, va) \<leftarrow> convert dtos chr va;
            let len = strlen_loop s 0;
            if buf_len + len \<ge> sz then Some (buffer, buf_len)
            else vsprintf_loop dtos sz format va (buf_len + len) (buffer @ s) }
          else vsprintf_loop dtos sz format va (buf_len + 1) (buffer @ [chr])))"

text \<open>The characters before the NUL that ends the output, and the returned length.\<close>

definition vsprintf_s :: "('d \<Rightarrow> string) \<Rightarrow> u32 \<Rightarrow> string \<Rightarrow> 'd vararg list \<Rightarrow> (string \<times> u32) option" where
  "vsprintf_s dtos sz format va = vsprintf_loop dtos sz format va 0 []"

definition sprintf_s :: "('d \<Rightarrow> string) \<Rightarrow> u32 \<Rightarrow> string \<Rightarrow> 'd vararg list \<Rightarrow> (string \<times> u32) option" where
  "sprintf_s dtos sz format va = vsprintf_s dtos sz format va"

definition sprintf :: "('d \<Rightarrow> string) \<Rightarrow> string \<Rightarrow> 'd vararg list \<Rightarrow> (string \<times> u32) option" where
  "sprintf dtos format va = vsprintf_s dtos 0xFFFFFFFF format va"

end
