(* ===== verification/Strings_Proofs.thy ===== *)
theory Strings_Proofs
  imports Strings "HOL-Library.Sublist"
begin

text \<open>
  The string routines against their references: reversal, printing and reading of integers,
  search, bounded copying, splitting at a separator, and the bound on formatted output.
\<close>

section \<open>Lengths and comparison\<close>

lemma strlen_loop: "strlen_loop s n = n + of_nat (length s)"
  by (induction s n rule: strlen_loop.induct) simp_all

lemma C_strlen: "C_strlen s = of_nat (length s)"
  by (simp add: C_strlen_def strlen_loop)

lemma unat_of_nat32: "n < 2 ^ 32 \<Longrightarrow> unat (of_nat n :: u32) = n"
  by (simp add: unat_of_nat)

lemma of_nat32_inj: "n < 2 ^ 32 \<Longrightarrow> m < 2 ^ 32 \<Longrightarrow> (of_nat n :: u32) = of_nat m \<longleftrightarrow> n = m"
  by (metis unat_of_nat32)

lemma sign_inj: "x < 256 \<Longrightarrow> y < 256 \<Longrightarrow>
    (if int x < 128 then int x else int x - 256) = (if int y < 128 then int y else int y - 256) \<Longrightarrow> x = y"
  by (auto split: if_splits)

lemma schar_inj: "schar a = schar b \<longleftrightarrow> a = b"
proof
  assume "schar a = schar b"
  then have "(of_char a :: nat) = of_char b"
    unfolding schar_def Let_def by (rule sign_inj [OF nat_of_char_less_256 nat_of_char_less_256])
  then show "a = b" by simp
qed simp

lemma schar_nat: "(of_char c :: nat) = k \<Longrightarrow> k < 128 \<Longrightarrow> schar c = int k"
  by (simp add: schar_def Let_def)

lemma strcmp_loop_eq: "length s = length t \<Longrightarrow> strcmp_loop s t = 0 \<longleftrightarrow> s = t"
  by (induction s t rule: list_induct2) (auto simp: schar_inj)

lemma utl_compare_loop_eq: "length s = length t \<Longrightarrow> utl_compare_loop s t = SFSTR_R_EQUAL \<longleftrightarrow> s = t"
  by (induction s t rule: list_induct2) auto

section \<open>Reversal\<close>

lemma strrev_loop_nth:
  "unat r < length s \<Longrightarrow> unat l \<le> unat r \<Longrightarrow>
     \<exists>t. strrev_loop l r s = Some t \<and> length t = length s \<and>
       (\<forall>i < length s. t ! i = (if unat l \<le> i \<and> i \<le> unat r then s ! (unat l + unat r - i) else s ! i))"
proof (induction "unat r - unat l" arbitrary: l r s rule: less_induct)
  case less
  let ?s = "s[unat l := s ! unat r, unat r := s ! unat l]"
  show ?case
  proof (cases "l = r")
    case True
    then show ?thesis
      by (subst strrev_loop.simps) (auto intro!: arg_cong [of _ _ "(!) s"])
  next
    case ne: False
    then have lr: "unat l < unat r"
      using less.prems by (simp add: word_unat_eq_iff)
    have swap: "?s ! i = (if i = unat l then s ! unat r else if i = unat r then s ! unat l else s ! i)" if "i < length s" for i
      using that less.prems lr by (auto simp: nth_list_update)
    have rl: "unat (r - l) = unat r - unat l"
      using lr by (intro unat_minus_le) simp
    show ?thesis
    proof (cases "r - l = 1")
      case True
      then have "unat r = Suc (unat l)"
        using rl lr by (metis Suc_eq_plus1 add_diff_inverse_nat less_not_sym plus_1_eq_Suc unat_1)
      then have "\<forall>i < length s. ?s ! i = (if unat l \<le> i \<and> i \<le> unat r then s ! (unat l + unat r - i) else s ! i)"
        using swap less.prems by (auto simp: le_Suc_eq)
      then show ?thesis
        using True ne less.prems by (subst strrev_loop.simps) simp
    next
      case False
      then have gap: "Suc (unat l) < unat r"
        using rl lr by (metis Suc_lessI diff_Suc_Suc diff_self_eq_0 One_nat_def Suc_diff_Suc unat_1 word_unat_eq_iff)
      have l1: "unat (l + 1) = Suc (unat l)"
        using lr unat32_lt [of r] by (subst unat_plus_if_lt) simp_all
      have r1: "unat (r - 1) = unat r - 1"
        using gap unat_minus_le [of 1 r] by simp
      obtain t where t: "strrev_loop (l + 1) (r - 1) ?s = Some t" "length t = length s"
        "\<forall>i < length s. t ! i = (if Suc (unat l) \<le> i \<and> i \<le> unat r - 1
           then ?s ! (Suc (unat l) + (unat r - 1) - i) else ?s ! i)"
      proof -
        have "unat (r - 1) - unat (l + 1) < unat r - unat l" "unat (r - 1) < length ?s" "unat (l + 1) \<le> unat (r - 1)"
          using less.prems gap unfolding l1 r1 by simp_all
        from less.hyps [OF this] show thesis
          using that unfolding l1 r1 length_list_update by blast
      qed
      have "t ! i = (if unat l \<le> i \<and> i \<le> unat r then s ! (unat l + unat r - i) else s ! i)" if i: "i < length s" for i
      proof (cases "Suc (unat l) \<le> i \<and> i \<le> unat r - 1")
        case True
        then have "Suc (unat l) + (unat r - 1) - i = unat l + unat r - i" "unat l + unat r - i \<noteq> unat l"
          "unat l + unat r - i \<noteq> unat r" "unat l + unat r - i < length s"
          using gap less.prems by auto
        then show ?thesis
          using t(3) i True swap by auto
      next
        case False
        then show ?thesis
          using t(3) i swap [OF i] lr by auto
      qed
      then show ?thesis
        using t(1,2) ne False less.prems lr by (subst strrev_loop.simps) (simp add: Let_def)
    qed
  qed
qed

lemma C_strrev: "s \<noteq> [] \<Longrightarrow> length s < 2 ^ 32 \<Longrightarrow> C_strrev s = Some (rev s)"
proof -
  assume s: "s \<noteq> []" "length s < 2 ^ 32"
  have r: "unat (C_strlen s - 1) = length s - 1"
    using s unat_of_nat32 [of "length s"] by (subst unat_minus_le) (auto simp: C_strlen Suc_le_eq)
  then obtain t where t: "strrev_loop 0 (C_strlen s - 1) s = Some t" "length t = length s"
    "\<forall>i < length s. t ! i = (if i \<le> length s - 1 then s ! (length s - 1 - i) else s ! i)"
    using strrev_loop_nth [of "C_strlen s - 1" s 0] s by auto
  have "t = rev s"
    using t(2,3) by (intro nth_equalityI) (auto simp: rev_nth)
  then show ?thesis
    using t(1) by (simp add: C_strrev_def)
qed

section \<open>Numbers\<close>

lemma of_char_char_of: "n < 256 \<Longrightarrow> (of_char (char_of n :: char) :: nat) = n" for n :: nat
  by simp

lemma schar_digit: "unat d = k \<Longrightarrow> k < 10 \<Longrightarrow> schar (digit d) = int k + 48"
  using schar_nat [of "digit d" "k + 48"] by (simp add: digit_def)

lemma digit_mod: "n - n div 10 * 10 = n mod (10 :: u32)"
  by (simp add: minus_div_mult_eq_mod)

lemma unat_mod10: "unat (n mod 10 :: u32) < 10"
  by (simp add: unat_mod_eq)

lemma digit_value: "(of_int (schar (digit (n - n div 10 * 10)) - 48) :: u32) = n mod 10"
  unfolding digit_mod schar_digit [OF refl unat_mod10] by simp

lemma ultos_loop_0: "ultos_loop 0 = []"
  and ultos_loop_step: "n \<noteq> 0 \<Longrightarrow> ultos_loop n = digit (n mod 10) # ultos_loop (n div 10)"
  by (subst ultos_loop.simps; simp add: digit_mod)+

lemma stoul_ultos_loop: "stoul_loop (ultos_loop n) a m = a + m * n"
proof (induction n arbitrary: a m rule: ultos_loop.induct)
  case (1 n)
  show ?case
  proof (cases "n = 0")
    case False
    have "n = n div 10 * 10 + n mod 10"
      by (rule div_mult_mod_eq [symmetric])
    then have "a + m * n = a + m * (n mod 10) + m * 10 * (n div 10)"
      by (metis (no_types, lifting) add.assoc add.commute distrib_left mult.assoc mult.commute)
    then show ?thesis
      using 1 [OF False] ultos_loop_step [OF False] digit_value [of n, unfolded digit_mod]
      by (simp only: stoul_loop.simps)
  qed (simp add: ultos_loop_0)
qed

lemma ultos_loop_length: "length (ultos_loop n) \<le> unat n"
proof (induction n rule: ultos_loop.induct)
  case (1 n)
  show ?case
  proof (cases "n = 0")
    case False
    then have "unat (n div 10) < unat n"
      by (simp add: unat_div word_unat_eq_iff)
    then show ?thesis
      using 1 [OF False] ultos_loop_step [OF False] by simp
  qed (simp add: ultos_loop_0)
qed

lemma digit_chars: "unat d < 10 \<Longrightarrow> digit d \<noteq> CHR ''-'' \<and> digit d \<noteq> CHR ''+''"
proof -
  assume "unat d < 10"
  then have "48 \<le> schar (digit d)"
    using schar_digit [OF refl, of d] by linarith
  then show ?thesis
    by (auto simp: schar_def Let_def)
qed

lemma ultos_loop_chars: "c \<in> set (ultos_loop n) \<Longrightarrow> c \<noteq> CHR ''-'' \<and> c \<noteq> CHR ''+'' \<and> 48 \<le> schar c \<and> schar c \<le> 57"
proof (induction n rule: ultos_loop.induct)
  case (1 n)
  have "n \<noteq> 0"
    using 1(2) by (auto simp: ultos_loop_0)
  then consider "c = digit (n mod 10)" | "c \<in> set (ultos_loop (n div 10))"
    using 1(2) ultos_loop_step by auto
  then show ?case
  proof cases
    case 1
    then show ?thesis
    proof -
      have "schar c = int (unat (n mod 10)) + 48"
        using 1 schar_digit [OF refl unat_mod10] by blast
      moreover have "int (unat (n mod 10)) < 10" "0 \<le> int (unat (n mod 10))"
        using unat_mod10 [of n] by linarith+
      ultimately have "48 \<le> schar c \<and> schar c \<le> 57"
        by linarith
      then show ?thesis
        using digit_chars [OF unat_mod10, of n] unfolding 1 by simp
    qed
  next
    case 2
    then show ?thesis
      using 1(1) \<open>n \<noteq> 0\<close> by blast
  qed
qed

lemma ultos_spec:
  "\<exists>s. ultos n = Some s \<and> s \<noteq> [] \<and> stoul s = n \<and> (\<forall>c \<in> set s. c \<noteq> CHR ''-'' \<and> c \<noteq> CHR ''+'' \<and> 48 \<le> schar c \<and> schar c \<le> 57)"
proof (cases "n = 0")
  case True
  have "C_strrev ''0'' = Some ''0''"
    by (subst C_strrev) simp_all
  then show ?thesis
    using True by (auto simp: ultos_def stoul_def schar_def Let_def)
next
  case False
  let ?d = "ultos_loop n"
  have "?d \<noteq> []"
    using ultos_loop_step [OF False] by simp
  moreover have "length ?d < 2 ^ 32"
    using ultos_loop_length [of n] unat32_lt [of n] by simp
  ultimately have "ultos n = Some (rev ?d)"
    using False by (simp add: ultos_def C_strrev)
  moreover have "stoul (rev ?d) = n"
    by (simp add: stoul_def stoul_ultos_loop)
  ultimately show ?thesis
    using \<open>?d \<noteq> []\<close> ultos_loop_chars [of _ n] by auto
qed

lemma stol_unsigned: "s \<noteq> [] \<Longrightarrow> \<forall>c \<in> set s. c \<noteq> CHR ''-'' \<and> c \<noteq> CHR ''+'' \<Longrightarrow> stol s = stoul s"
  by (cases s) (auto simp: stol_def)

text \<open>\<open>ltos\<close> returns for every \<open>long\<close>, negative and the smallest one included, and
  \<open>stol\<close> reads its output back to the same value.\<close>

theorem stol_ltos: "\<exists>s. ltos n = Some s \<and> stol s = n"
proof (cases "n <s 0")
  case True
  obtain s where "ultos (- n) = Some s" "stoul s = - n"
    using ultos_spec by blast
  then show ?thesis
    using True by (auto simp: ltos_def stol_def)
next
  case False
  obtain s where "ultos n = Some s" "s \<noteq> []" "stoul s = n" "\<forall>c \<in> set s. c \<noteq> CHR ''-'' \<and> c \<noteq> CHR ''+''"
    using ultos_spec [of n] by blast
  then show ?thesis
    using False stol_unsigned by (auto simp: ltos_def)
qed

section \<open>Search\<close>

lemma strstr_match: "s2 \<noteq> [] \<Longrightarrow> strstr_match s1 s2 \<longleftrightarrow> prefix s2 s1"
  by (induction s1 s2 rule: strstr_match.induct) auto

lemma strstr_loop:
  "s2 \<noteq> [] \<Longrightarrow>
     (case strstr_loop s1 i s2 of
        Some k \<Rightarrow> i \<le> k \<and> k - i \<le> length s1 \<and> prefix s2 (drop (k - i) s1) \<and> (\<forall>j < k - i. \<not> prefix s2 (drop j s1))
      | None \<Rightarrow> \<forall>j \<le> length s1. \<not> prefix s2 (drop j s1))"
proof (induction s1 arbitrary: i)
  case (Cons x s1)
  show ?case
  proof (cases "strstr_match (x # s1) s2")
    case True
    then show ?thesis
      using strstr_match [OF Cons.prems] by auto
  next
    case False
    then have np: "\<not> prefix s2 (x # s1)"
      using strstr_match [OF Cons.prems] by auto
    show ?thesis
    proof (cases "strstr_loop s1 (Suc i) s2")
      case None
      have "\<not> prefix s2 (drop j (x # s1))" if "j \<le> Suc (length s1)" for j
        using Cons.IH [OF Cons.prems, of "Suc i"] None np that by (cases j) auto
      then show ?thesis
        using False None by simp
    next
      case (Some k)
      then have k: "Suc i \<le> k" "k - Suc i \<le> length s1" "prefix s2 (drop (k - Suc i) s1)"
        "\<forall>j < k - Suc i. \<not> prefix s2 (drop j s1)"
        using Cons.IH [OF Cons.prems, of "Suc i"] by auto
      then have e: "k - i = Suc (k - Suc i)" by simp
      have "\<not> prefix s2 (drop j (x # s1))" if "j < k - i" for j
        using that k(4) np e by (cases j) auto
      then show ?thesis
        using False Some k e by auto
    qed
  qed
qed simp

text \<open>\<open>_strstr\<close> returns the first position at which the second string occurs in the first,
  and NULL exactly when it occurs nowhere.\<close>

theorem strstr_first:
  "case C_strstr s1 s2 of
     Some k \<Rightarrow> k \<le> length s1 \<and> prefix s2 (drop k s1) \<and> (\<forall>j < k. \<not> prefix s2 (drop j s1))
   | None \<Rightarrow> \<forall>j \<le> length s1. \<not> prefix s2 (drop j s1)"
  using strstr_loop [of s2 s1 0] by (auto simp: C_strstr_def split: option.splits)

section \<open>Bounded copying\<close>

theorem strstr_first_witness: "C_strstr ''kernel.c'' ''el'' = Some 4"
  using strstr_first [of "''kernel.c''" "''el''"] by (simp add: C_strstr_def)

lemma utl_copy_loop_spec:
  "ui + k < length dst \<Longrightarrow>
     utl_copy_loop ui k src dst =
       Some (ui + min k (length src), drop k src, take ui dst @ take k src @ drop (ui + min k (length src)) dst)"
proof (induction ui k src dst rule: utl_copy_loop.induct)
  case (3 ui k c src dst)
  have "take (Suc ui) (dst[ui := c]) = take ui dst @ [c]"
    using 3(2) by (simp add: take_Suc_conv_app_nth take_update_cancel)
  moreover have "drop (Suc (ui + min k (length src))) (dst[ui := c]) = drop (Suc (ui + min k (length src))) dst"
    by simp
  ultimately show ?case
    using 3 by simp
qed auto

lemma utl_copy_at_spec:
  assumes "0 < n" "off + unat n \<le> length dst" "NUL \<notin> set src"
  shows "utl_copy_at off dst n src =
    Some (if length src < unat n then SFSTR_R_OK else SFSTR_R_TOO_LONG,
      take off dst @ take (unat n - 1) src @ NUL # drop (Suc (off + min (unat n - 1) (length src))) dst)"
proof -
  have n: "unat (n - 1) = unat n - 1" "0 < unat n"
    using assms(1) unat_minus_le [of 1 n] by (auto simp: word_less_nat_alt)
  let ?m = "min (unat n - 1) (length src)"
  have m: "off + ?m < length dst"
    using assms(2) n(2) by auto
  have c: "utl_copy_loop off (unat (n - 1)) src dst =
      Some (off + ?m, drop (unat n - 1) src, take off dst @ take (unat n - 1) src @ drop (off + ?m) dst)"
    using utl_copy_loop_spec [of off "unat n - 1" dst src] assms(2) n by simp
  have "(take off dst @ take (unat n - 1) src @ drop (off + ?m) dst)[off + ?m := NUL] =
      take off dst @ take (unat n - 1) src @ NUL # drop (Suc (off + ?m)) dst"
  proof -
    obtain x xs where x: "drop (off + ?m) dst = x # xs" "xs = drop (Suc (off + ?m)) dst"
      using Cons_nth_drop_Suc [OF m] by metis
    define A where "A = take off dst @ take (unat n - 1) src"
    have "length A = off + ?m"
      using assms(2) by (simp add: A_def min.commute)
    then have "(A @ x # xs)[off + ?m := NUL] = A @ NUL # xs"
      using list_update_length [of A x xs NUL] by simp
    then show ?thesis
      unfolding x(1) using x(2) by (simp add: A_def)
  qed
  moreover have "off + ?m < length (take off dst @ take (unat n - 1) src @ drop (off + ?m) dst)"
    using m assms(2) by auto
  moreover have "drop (unat n - 1) src \<noteq> [] \<longleftrightarrow> \<not> length src < unat n"
    using n(2) by auto
  ultimately have "(if off + ?m < length (take off dst @ take (unat n - 1) src @ drop (off + ?m) dst)
      then Some (if drop (unat n - 1) src \<noteq> [] then SFSTR_R_TOO_LONG else SFSTR_R_OK,
        (take off dst @ take (unat n - 1) src @ drop (off + ?m) dst)[off + ?m := NUL]) else None) =
    Some (if length src < unat n then SFSTR_R_OK else SFSTR_R_TOO_LONG,
      take off dst @ take (unat n - 1) src @ NUL # drop (Suc (off + ?m)) dst)"
    by (simp only: if_True) simp
  then show ?thesis
    using assms(1) unfolding utl_copy_at_def c bind.bind_lunit Let_def split by simp
qed

lemma cstr_append_NUL: "NUL \<notin> set s \<Longrightarrow> cstr (s @ NUL # rest) = s"
  by (induction s) (auto simp: cstr_def)

text \<open>\<open>UtlCopyString\<close> with a size up to that of the destination never accesses it outside,
  leaves a terminated string, the source cut to \<open>size - 1\<close> characters, and says whether it was cut.\<close>

theorem UtlCopyString_bounded:
  assumes "0 < n" "unat n \<le> length dst" "NUL \<notin> set src"
  shows "\<exists>d. UtlCopyString (Some dst) n (Some src) =
      Some (if length src < unat n then SFSTR_R_OK else SFSTR_R_TOO_LONG, Some d) \<and>
    length d = length dst \<and> cstr d = take (unat n - 1) src \<and> drop (unat n) d = drop (unat n) dst"
proof -
  let ?m = "min (unat n - 1) (length src)"
  let ?d = "take (unat n - 1) src @ NUL # drop (Suc ?m) dst"
  have n: "0 < unat n"
    using assms(1) by (simp add: word_less_nat_alt)
  have "UtlCopyString (Some dst) n (Some src) =
      Some (if length src < unat n then SFSTR_R_OK else SFSTR_R_TOO_LONG, Some ?d)"
    using utl_copy_at_spec [OF assms(1) _ assms(3), of 0 dst] assms(2) by (simp add: UtlCopyString_def)
  moreover have "length ?d = length dst"
    using assms(2) n by auto
  moreover have "cstr ?d = take (unat n - 1) src"
    using assms(3) by (intro cstr_append_NUL) (auto dest: in_set_takeD)
  moreover have "drop (unat n) ?d = drop (unat n) dst"
  proof -
    have "unat n = Suc (unat n - 1)"
      using n by simp
    then have "drop (unat n) ?d = drop (unat n - Suc ?m) (drop (Suc ?m) dst)"
      by (simp add: drop_Cons' min.commute)
    then show ?thesis
      using n by simp
  qed
  ultimately show ?thesis
    by blast
qed

theorem UtlCopyString_bounded_witness:
  "\<exists>d. UtlCopyString (Some ''........'') 4 (Some ''ABCDE'') = Some (SFSTR_R_TOO_LONG, Some d) \<and> cstr d = ''ABC''"
  using UtlCopyString_bounded [of 4 "''........''" "''ABCDE''"] by auto

text \<open>\<open>UtlConcatString\<close> on a destination that holds a terminated string within its size
  never accesses it outside, and leaves the concatenation cut to \<open>size - 1\<close> characters.\<close>

theorem UtlConcatString_bounded:
  assumes "length (cstr dst) < unat n" "unat n \<le> length dst" "NUL \<notin> set src"
  shows "\<exists>d. UtlConcatString (Some dst) n (Some src) =
      Some (if length (cstr dst) + length src < unat n then SFSTR_R_OK else SFSTR_R_TOO_LONG, Some d) \<and>
    length d = length dst \<and> cstr d = take (unat n - 1) (cstr dst @ src)"
proof -
  let ?l = "length (cstr dst)" and ?r = "n - of_nat (length (cstr dst))"
  have l: "unat (of_nat ?l :: u32) = ?l"
    using assms(1) unat32_lt [of n] by (intro unat_of_nat32) simp
  have r: "unat ?r = unat n - ?l" "0 < ?r"
    using assms(1) l unat_minus_le [of "of_nat ?l" n] by (simp_all add: word_less_nat_alt)
  let ?m = "min (unat ?r - 1) (length src)"
  let ?d = "take ?l dst @ take (unat ?r - 1) src @ NUL # drop (Suc (?l + ?m)) dst"
  have "UtlConcatString (Some dst) n (Some src) =
      Some (if length src < unat ?r then SFSTR_R_OK else SFSTR_R_TOO_LONG, Some ?d)"
    using utl_copy_at_spec [OF r(2) _ assms(3), of ?l dst] assms r(1)
    by (simp add: UtlConcatString_def Let_def)
  moreover have "(length src < unat ?r) = (?l + length src < unat n)"
    using r(1) assms(1) by auto
  moreover have "length ?d = length dst"
    using assms r(1) by auto
  moreover have tl: "take ?l dst = cstr dst"
    by (simp add: cstr_def takeWhile_eq_take [symmetric])
  have "NUL \<notin> set (cstr dst)"
    by (auto simp: cstr_def dest: set_takeWhileD)
  then have "cstr ?d = cstr dst @ take (unat ?r - 1) src"
    using cstr_append_NUL [of "cstr dst @ take (unat ?r - 1) src"] assms(3) unfolding tl
    by (auto dest: in_set_takeD)
  moreover have "cstr dst @ take (unat ?r - 1) src = take (unat n - 1) (cstr dst @ src)"
    using assms(1) r(1) by simp
  ultimately show ?thesis
    by auto
qed

theorem UtlConcatString_bounded_witness:
  "\<exists>d. UtlConcatString (Some (''AB'' @ [NUL, NUL])) 4 (Some ''CD'') = Some (SFSTR_R_TOO_LONG, Some d) \<and> cstr d = ''ABC''"
  using UtlConcatString_bounded [of "''AB'' @ [NUL, NUL]" 4 "''CD''"] by (auto simp: cstr_def)

section \<open>Splitting\<close>

fun join :: "char \<Rightarrow> string list \<Rightarrow> string" where
  "join spt [] = []"
| "join spt (t # ts) = (if ts = [] then t else t @ spt # join spt ts)"

text \<open>The caller's loop: until \<open>split_string\<close> returns NULL; \<open>k\<close> bounds the calls.\<close>

fun split_all :: "nat \<Rightarrow> string \<Rightarrow> char \<Rightarrow> int \<Rightarrow> int \<Rightarrow> string list option" where
  "split_all 0 s spt mx pos = None"
| "split_all (Suc k) s spt mx pos =
     (case split_string True (Some s) spt mx pos of
        (None, pos) \<Rightarrow> Some []
      | (Some t, pos) \<Rightarrow> map_option (\<lambda>ts. t # ts) (split_all k s spt mx pos))"

lemma split_loop_sep:
  "spt \<notin> set t \<Longrightarrow> int (length dest) + int (length t) < mx \<Longrightarrow>
     split_loop (t @ spt # rest) spt mx pos dest = (spt, pos + int (length t) + 1, dest @ t)"
  by (induction t arbitrary: pos dest) auto

lemma split_loop_end:
  "spt \<notin> set t \<Longrightarrow> int (length dest) + int (length t) < mx \<Longrightarrow>
     split_loop t spt mx pos dest = (NUL, pos + int (length t) + 1, dest @ t)"
  by (induction t arbitrary: pos dest) auto

lemma split_all_join:
  assumes "spt \<noteq> NUL"
  shows "\<forall>t \<in> set ts. spt \<notin> set t \<and> int (length t) < mx \<Longrightarrow> ts \<noteq> [] \<longrightarrow> last ts \<noteq> [] \<Longrightarrow> 0 < mx \<Longrightarrow>
    drop (nat pos) s = join spt ts \<Longrightarrow> 0 \<le> pos \<Longrightarrow> length ts < k \<Longrightarrow> split_all k s spt mx pos = Some ts"
proof (induction ts arbitrary: k pos)
  case Nil
  then show ?case
    by (cases k) (auto simp: split_string_def)
next
  case (Cons t ts)
  then obtain k' where k: "k = Suc k'"
    by (cases k) auto
  show ?case
  proof (cases "ts = []")
    case True
    then have d: "drop (nat pos) s = t" "t \<noteq> []"
      using Cons.prems by auto
    have step: "split_string True (Some s) spt mx pos = (Some t, pos + int (length t))"
      using split_loop_end [of spt t "[]" mx pos] Cons.prems d by (simp add: split_string_def)
    have "length s = nat pos + length t"
      using d by (metis length_drop add_diff_inverse_nat diff_is_0_eq' length_0_conv nat_le_linear not_less)
    then have "drop (nat (pos + int (length t))) s = join spt []"
      using Cons.prems(5) by (simp add: nat_add_distrib)
    then have "split_all k' s spt mx (pos + int (length t)) = Some []"
      using Cons.IH [of "pos + int (length t)" k'] Cons.prems True k by auto
    then show ?thesis
      using k True step by simp
  next
    case False
    then have d: "drop (nat pos) s = t @ spt # join spt ts"
      using Cons.prems by simp
    have step: "split_string True (Some s) spt mx pos = (Some t, pos + int (length t) + 1)"
      using split_loop_sep [of spt t "[]" mx "join spt ts" pos] Cons.prems d assms
      by (simp add: split_string_def)
    have "drop (nat (pos + int (length t) + 1)) s = drop (length t + 1) (drop (nat pos) s)"
      using Cons.prems(5) by (simp add: nat_add_distrib add.commute)
    then have "drop (nat (pos + int (length t) + 1)) s = join spt ts"
      using d by simp
    then have "split_all k' s spt mx (pos + int (length t) + 1) = Some ts"
      using Cons.IH [of "pos + int (length t) + 1" k'] Cons.prems False k by auto
    then show ?thesis
      using k step by simp
  qed
qed

text \<open>Called until it returns NULL on pieces joined with the separator (none contains it, the
  last is not empty, all fit), \<open>split_string\<close> returns exactly the pieces, empty ones included.\<close>

theorem split_string_join:
  assumes "spt \<noteq> NUL" "0 < mx" "\<forall>t \<in> set ts. spt \<notin> set t \<and> int (length t) < mx" "ts \<noteq> []" "last ts \<noteq> []"
  shows "split_all (Suc (length ts)) (join spt ts) spt mx (snd (split_string False None spt mx p)) = Some ts"
  using split_all_join [of spt ts mx 0 "join spt ts" "Suc (length ts)"] assms by (simp add: split_string_def)

theorem split_string_join_witness:
  "split_all 4 ''a//bc'' (CHR ''/'') 256 (snd (split_string False None (CHR ''/'') 256 77)) = Some [''a'', [], ''bc'']"
  using split_string_join [of "CHR ''/''" 256 "[''a'', [], ''bc'']" 77] by (simp add: eval_nat_numeral)

section \<open>Formatting\<close>

lemma ultos_loop_digits: "unat n < 10 ^ k \<Longrightarrow> length (ultos_loop n) \<le> k"
proof (induction k arbitrary: n)
  case (Suc k)
  show ?case
  proof (cases "n = 0")
    case False
    have "unat (n div 10) < 10 ^ k"
      using Suc.prems by (simp add: unat_div less_mult_imp_div_less)
    then show ?thesis
      using Suc.IH ultos_loop_step [OF False] by simp
  qed (simp add: ultos_loop_0)
qed (simp add: ultos_loop_0 unat_eq_zero)

lemma ultos_length: "ultos n = Some s \<Longrightarrow> length s \<le> 10"
proof -
  assume u: "ultos n = Some s"
  have "unat n < 10 ^ 10"
    using unat32_lt [of n] by simp
  then have l: "length (ultos_loop n) \<le> 10"
    by (rule ultos_loop_digits)
  show ?thesis
  proof (cases "n = 0")
    case True
    then show ?thesis
      using u C_strrev [of "''0''"] by (auto simp: ultos_def)
  next
    case False
    then have "ultos_loop n \<noteq> []"
      using ultos_loop_step by simp
    then show ?thesis
      using u l False C_strrev [of "ultos_loop n"] by (auto simp: ultos_def)
  qed
qed

lemma ltos_length: "ltos n = Some s \<Longrightarrow> length s \<le> 11"
proof (cases "n <s 0")
  case True
  moreover assume "ltos n = Some s"
  ultimately obtain t where "ultos (- n) = Some t" "s = CHR ''-'' # t"
    by (auto simp: ltos_def)
  then show ?thesis
    using ultos_length [of "- n" t] by simp
next
  case False
  moreover assume "ltos n = Some s"
  ultimately show ?thesis
    using ultos_length [of n s] by (simp add: ltos_def)
qed

definition short_args :: "('d \<Rightarrow> string) \<Rightarrow> 'd vararg list \<Rightarrow> bool" where
  "short_args dtos va \<longleftrightarrow> (\<forall>d. length (dtos d) < 2 ^ 31) \<and> (\<forall>s. AStr s \<in> set va \<longrightarrow> length s < 2 ^ 31)"

lemma short_args_Cons: "short_args dtos (a # va) \<Longrightarrow> short_args dtos va"
  by (simp add: short_args_def)

lemma uitohexs_length: "length (uitohexs x) = 8" "length (to_lower_hex s) = length s"
  by (simp_all add: to_lower_hex_def uitohexs_def ustohexs_def uctohexs_def)

lemma convert_short:
  assumes c: "convert dtos chr va = Some (s, va')" and a: "short_args dtos va"
  shows "length s < 2 ^ 31 \<and> short_args dtos va'"
proof -
  obtain x where x: "va = x # va'"
    using c by (auto simp: convert_def split: if_splits list.splits vararg.splits)
  have "length s < 2 ^ 31"
  proof (cases x)
    case (AInt d)
    then consider "ltos d = Some s" | "s = to_lower_hex (uitohexs d)" | "s = uitohexs d"
      using c x by (auto simp: convert_def split: if_splits)
    then show ?thesis
      using ltos_length [of d s] by cases (simp_all add: uitohexs_length)
  qed (use c x a in \<open>auto simp: convert_def short_args_def split: if_splits\<close>)
  then show ?thesis
    using a x short_args_Cons by blast
qed

lemma format_char:
  fixes n :: u32
  shows "buf_len + 1 < n \<Longrightarrow> unat buf_len = length buffer \<Longrightarrow> length buffer < unat n \<Longrightarrow>
     length (buffer @ [c]) < unat n \<and> unat (buf_len + 1) = length (buffer @ [c])"
proof -
  assume a: "buf_len + 1 < n" "unat buf_len = length buffer" "length buffer < unat n"
  then have "unat (buf_len + 1) = Suc (length buffer)"
    using unat32_lt [of n] by (subst unat_plus_if_lt) simp_all
  then show ?thesis
    using a(1) by (simp add: word_less_nat_alt)
qed

lemma format_string:
  fixes n :: u32
  assumes "\<not> n \<le> buf_len + strlen_loop s 0" "unat buf_len = length buffer" "length buffer < unat n"
    "unat n \<le> 2 ^ 31" "length s < 2 ^ 31"
  shows "length (buffer @ s) < unat n \<and> unat (buf_len + strlen_loop s 0) = length (buffer @ s)"
proof -
  have l: "unat (strlen_loop s 0) = length s"
    using assms(5) by (simp add: strlen_loop unat_of_nat32)
  then have "unat (buf_len + strlen_loop s 0) = length buffer + length s"
    using assms by (subst unat_plus_if_lt) simp_all
  then show ?thesis
    using assms(1) by (simp add: word_le_nat_alt)
qed

lemma vsprintf_loop_bound:
  "vsprintf_loop dtos n format va buf_len buffer = Some (out, r) \<Longrightarrow> unat n \<le> 2 ^ 31 \<Longrightarrow> short_args dtos va \<Longrightarrow>
     length buffer < unat n \<Longrightarrow> unat buf_len = length buffer \<Longrightarrow> length out < unat n \<and> unat r = length out"
proof (induction "length format" arbitrary: format va buf_len buffer rule: less_induct)
  case less
  note eq = less(2) and prems = less(3-6)
  show ?case
  proof (cases "format = [] \<or> \<not> buf_len + 1 < n")
    case True
    then show ?thesis
      using eq prems by (cases format) (simp_all split: if_splits)
  next
    case False
    then obtain chr f where f: "format = chr # f" and more: "buf_len + 1 < n"
      by (cases format) auto
    have one: "length out < unat n \<and> unat r = length out"
      if "vsprintf_loop dtos n g va' (buf_len + 1) (buffer @ [c]) = Some (out, r)" "length g < length format"
        "short_args dtos va'" for g va' c
      using less(1) [OF that(2,1) prems(1) that(3)] format_char [OF more prems(4,3), of c] by blast
    show ?thesis
    proof (cases "chr = CHR ''%'' \<and> f \<noteq> []")
      case False
      then show ?thesis
        using eq f more one [of f va chr] prems by (cases f) (auto split: if_splits)
    next
      case True
      then obtain d g where g: "f = d # g" "chr = CHR ''%''"
        by (cases f) auto
      then have len: "length g < length format"
        using f by simp
      consider "d = CHR ''%''" | "d = CHR ''c''" | "is_conversion d" "d \<noteq> CHR ''c''" "d \<noteq> CHR ''%''"
        | "\<not> is_conversion d" "d \<noteq> CHR ''c''" "d \<noteq> CHR ''%''"
        by blast
      then show ?thesis
      proof cases
        case 1
        then show ?thesis
          using eq f g more one [OF _ len] prems by (simp split: if_splits)
      next
        case 2
        then obtain c va' where va: "va = AChar c # va'"
          using eq f g more by (auto split: list.splits vararg.splits if_splits)
        then show ?thesis
          using eq f g 2 more one [OF _ len, of va' c] prems short_args_Cons [of dtos "AChar c" va']
          by (simp add: linorder_not_le [symmetric])
      next
        case 3
        then obtain s va' where c: "convert dtos d va = Some (s, va')"
          using eq f g more by (auto simp: bind_eq_Some_conv)
        have sh: "length s < 2 ^ 31" "short_args dtos va'"
          using convert_short [OF c prems(2)] by auto
        show ?thesis
        proof (cases "n \<le> buf_len + strlen_loop s 0")
          case True
          then show ?thesis
            using eq f g 3 more c prems by (simp add: Let_def)
        next
          case False
          then have "vsprintf_loop dtos n g va' (buf_len + strlen_loop s 0) (buffer @ s) = Some (out, r)"
            using eq f g 3 more c by (simp add: Let_def)
          then show ?thesis
            using less(1) [OF len _ prems(1) sh(2)] format_string [OF False prems(4,3,1) sh(1)] by blast
        qed
      next
        case 4
        then show ?thesis
          using eq f g more one [OF _ len] prems by simp
      qed
    qed
  qed
qed

text \<open>C40: Whatever the format and the arguments, \<open>vsprintf_s\<close> stores at most \<open>size - 1\<close>
  characters before its NUL and returns how many it stored, for sizes from 1 to \<open>2 ^ 31\<close> and
  argument strings shorter than that.\<close>

theorem vsprintf_s_bounded:
  assumes "0 < n" "n \<le> 0x80000000" "short_args dtos va" "vsprintf_s dtos n format va = Some (out, r)"
  shows "length out < unat n \<and> unat r = length out"
  using vsprintf_loop_bound [of dtos n format va 0 "[]" out r] assms
  by (auto simp: vsprintf_s_def word_le_nat_alt word_less_nat_alt)

theorem vsprintf_s_bounded_witness:
  "length ''ab-Xyz'' < unat (9::u32) \<and> unat (6::u32) = length ''ab-Xyz''"
proof (rule vsprintf_s_bounded)
  show "short_args (\<lambda>_. []) [AStr ''Xyz'', AStr ''long'']"
    by (simp add: short_args_def)
  show "vsprintf_s (\<lambda>_. []) 9 ''ab-%s%s'' [AStr ''Xyz'', AStr ''long''] = Some (''ab-Xyz'', 6)"
    by (simp add: vsprintf_s_def is_conversion_def convert_def strlen_loop)
qed simp_all

end
