(* ===== verification/MQueue.thy ===== *)
theory MQueue
  imports Linked_List_Proofs Strings_Proofs
begin

text \<open>
  \<^verbatim>\<open>kernel/mqueue.c\<close>: named message queues, each with two channels that are lists of
  \<^verbatim>\<open>libs/dslib/linked_list.c\<close>.  \<open>MemAlloc\<close> and \<open>MemFree\<close> are what the kernel installs as
  \<open>dsl_malloc\<close> and \<open>dsl_free\<close>, so both draw on the same answers and log to the same list.  The
  result \<^const>\<open>None\<close> is a NULL dereference.
\<close>

section \<open>State\<close>

text \<open>The ten \<open>DSLValueU\<close> parameters as their eight bytes each; \<open>memcpy\<close> copies the whole message.\<close>

record mq_message =
  mg_tid :: u32
  mg_message :: u32
  mg_params :: "u64 list"
  mg_bsparam0 :: "u8 list"

record mq_queue =
  mq_name :: "char list"
  mq_in :: "addr option"
  mq_out :: "addr option"

record mq_state = dsl +
  mqueues :: "addr option"
  mq_objs :: "addr \<Rightarrow> mq_queue"
  mq_msgs :: "addr \<Rightarrow> mq_message"

definition MAX_MESSAGE_COUNT :: int where "MAX_MESSAGE_COUNT = 16"
definition MAX_MQUEUE_NAME_LEN :: u32 where "MAX_MQUEUE_NAME_LEN = 255"
definition MQUEUE_IN :: int where "MQUEUE_IN = 0"
definition MQUEUE_OUT :: int where "MQUEUE_OUT = 1"

definition set_queue :: "addr \<Rightarrow> (mq_queue \<Rightarrow> mq_queue) \<Rightarrow> mq_state \<Rightarrow> mq_state" where
  "set_queue q f s = s\<lparr>mq_objs := (mq_objs s)(q := f (mq_objs s q))\<rparr>"

section \<open>Operations\<close>

definition MqInit :: "mq_state \<Rightarrow> bool \<times> mq_state" where
  "MqInit s =
     (case dsl_lnklst_new s of (l, s) \<Rightarrow> (l \<noteq> None, s\<lparr>mqueues := l\<rparr>))"

definition mq_name_char :: "char \<Rightarrow> bool" where
  "mq_name_char chr \<longleftrightarrow>
     (schar chr \<ge> schar (CHR ''A'') \<and> schar chr \<le> schar (CHR ''Z'')) \<or>
     (schar chr \<ge> schar (CHR ''a'') \<and> schar chr \<le> schar (CHR ''z'')) \<or>
     (schar chr \<ge> schar (CHR ''0'') \<and> schar chr \<le> schar (CHR ''9'')) \<or>
     chr = CHR ''_'' \<or> chr = CHR ''-''"

definition MqIsValidName :: "string \<Rightarrow> bool" where
  "MqIsValidName name =
     (if C_strlen name > MAX_MQUEUE_NAME_LEN then False else list_all mq_name_char name)"

partial_function (option) get_by_name_loop :: "string \<Rightarrow> addr option \<Rightarrow> mq_state \<Rightarrow> addr option option" where
  "get_by_name_loop name node s =
     (case node of
        None \<Rightarrow> Some None
      | Some n \<Rightarrow>
          (case n_value (lnodes s n) of
             VObject (Some mqueue) \<Rightarrow>
               if C_strcmp (cstr (mq_name (mq_objs s mqueue))) name = 0 then Some (Some mqueue)
               else get_by_name_loop name (n_next (lnodes s n)) s
           | _ \<Rightarrow> None))"

definition MqGetPtrByName :: "string option \<Rightarrow> mq_state \<Rightarrow> addr option option" where
  "MqGetPtrByName name s =
     (case (mqueues s, name) of
        (Some l, Some name) \<Rightarrow> get_by_name_loop name (l_head (lnklsts s l)) s
      | _ \<Rightarrow> Some None)"

definition MqNew :: "string option \<Rightarrow> mq_state \<Rightarrow> (addr option \<times> mq_state) option" where
  "MqNew name s =
     (if mqueues s = None then Some (None, s)
      else do {
        nm \<leftarrow> name;
        if \<not> MqIsValidName nm then Some (None, s)
        else do {
          found \<leftarrow> MqGetPtrByName name s;
          if found \<noteq> None then Some (None, s)
          else (case dsl_malloc s of
            (None, s) \<Rightarrow> Some (None, s)
          | (Some queue, s) \<Rightarrow>
              (case dsl_lnklst_new s of
                 (None, s) \<Rightarrow> Some (None, dsl_free queue (set_queue queue (\<lambda>d. d\<lparr>mq_in := None\<rparr>) s))
               | (Some li, s) \<Rightarrow>
                   (let s = set_queue queue (\<lambda>d. d\<lparr>mq_in := Some li\<rparr>) s in
                    case dsl_lnklst_new s of
                      (None, s) \<Rightarrow>
                        Some (None, dsl_free queue (snd (dsl_lnklst_free (Some li)
                          (set_queue queue (\<lambda>d. d\<lparr>mq_out := None\<rparr>) s))))
                    | (Some lo, s) \<Rightarrow>
                        (let s = set_queue queue (\<lambda>d. d\<lparr>mq_out := Some lo\<rparr>) s in
                         case dsl_lnklst_new_node (VObject (Some queue)) s of
                           (None, s) \<Rightarrow>
                             Some (None, dsl_free queue (snd (dsl_lnklst_free (Some lo) (snd (dsl_lnklst_free (Some li) s)))))
                         | (Some node, s) \<Rightarrow>
                             (case dsl_lnklst_add_node (mqueues s) (Some node) s of
                                (False, s) \<Rightarrow>
                                  Some (None, dsl_free queue (snd (dsl_lnklst_free (Some lo)
                                    (snd (dsl_lnklst_free (Some li) (dsl_free node s))))))
                              | (True, s) \<Rightarrow> do {
                                  (_, buf) \<leftarrow> UtlCopyString (Some (mq_name (mq_objs s queue))) 256 (Some nm);
                                  b \<leftarrow> buf;
                                  Some (Some queue, set_queue queue (\<lambda>d. d\<lparr>mq_name := b\<rparr>) s) }))))) } })"

partial_function (option) unlink_queue_loop :: "addr \<Rightarrow> addr \<Rightarrow> addr option \<Rightarrow> mq_state \<Rightarrow> (bool \<times> mq_state) option" where
  "unlink_queue_loop l mqueue node s =
     (case node of
        None \<Rightarrow> Some (False, s)
      | Some n \<Rightarrow>
          if n_value (lnodes s n) = VObject (Some mqueue)
          then do { (_, s) \<leftarrow> dsl_lnklst_delete_node (Some l) node s; Some (True, s) }
          else unlink_queue_loop l mqueue (n_next (lnodes s n)) s)"

definition MqFree :: "addr option \<Rightarrow> mq_state \<Rightarrow> (bool \<times> mq_state) option" where
  "MqFree mqueue s =
     (case (mqueues s, mqueue) of
        (Some l, Some q) \<Rightarrow> do {
          (_, s) \<leftarrow> dsl_lnklst_delete_all_object_node (mq_in (mq_objs s q)) s;
          let s = snd (dsl_lnklst_free (mq_in (mq_objs s q)) s);
          (_, s) \<leftarrow> dsl_lnklst_delete_all_object_node (mq_out (mq_objs s q)) s;
          let s = snd (dsl_lnklst_free (mq_out (mq_objs s q)) s);
          unlink_queue_loop l q (l_head (lnklsts s l)) s }
      | _ \<Rightarrow> Some (False, s))"

definition MqAddMessage_to :: "addr option \<Rightarrow> mq_message option \<Rightarrow> mq_state \<Rightarrow> bool \<times> mq_state" where
  "MqAddMessage_to list message s =
     (case message of
        None \<Rightarrow> (False, s)
      | Some msg \<Rightarrow>
          if list = None \<or> dsl_lnklst_count list s = MAX_MESSAGE_COUNT then (False, s)
          else (case dsl_malloc s of
            (None, s) \<Rightarrow> (False, s)
          | (Some new_message, s) \<Rightarrow>
              (let s = s\<lparr>mq_msgs := (mq_msgs s)(new_message := msg)\<rparr> in
               case dsl_lnklst_new_node (VObject (Some new_message)) s of
                 (None, s) \<Rightarrow> (False, s)
               | (Some node, s) \<Rightarrow>
                   (case dsl_lnklst_add_node list (Some node) s of
                      (False, s) \<Rightarrow> (False, dsl_free node s)
                    | (True, s) \<Rightarrow> (True, s)))))"

text \<open>The \<open>switch\<close> of the three public operations; the inner \<^const>\<open>None\<close> is its default.\<close>

definition mq_channel :: "addr \<Rightarrow> int \<Rightarrow> mq_state \<Rightarrow> addr option option" where
  "mq_channel mqueue in_out s =
     (if in_out = MQUEUE_IN then Some (mq_in (mq_objs s mqueue))
      else if in_out = MQUEUE_OUT then Some (mq_out (mq_objs s mqueue))
      else None)"

definition MqAddMessage :: "addr option \<Rightarrow> int \<Rightarrow> mq_message option \<Rightarrow> mq_state \<Rightarrow> bool \<times> mq_state" where
  "MqAddMessage mqueue in_out message s =
     (case mqueue of
        None \<Rightarrow> (False, s)
      | Some q \<Rightarrow>
          if message = None then (False, s)
          else (case mq_channel q in_out s of
                  None \<Rightarrow> (False, s)
                | Some list \<Rightarrow> MqAddMessage_to list message s))"

text \<open>The loop reads \<open>node->next\<close> after \<open>dsl_lnklst_delete_node\<close> has freed the node; freeing
  does not overwrite it here.\<close>

partial_function (option) pop_tid_loop ::
  "addr \<Rightarrow> u32 \<Rightarrow> addr option \<Rightarrow> addr option \<Rightarrow> mq_state \<Rightarrow> (addr option \<times> mq_state) option" where
  "pop_tid_loop l tid node message s =
     (case node of
        None \<Rightarrow> Some (message, s)
      | Some n \<Rightarrow>
          (case n_value (lnodes s n) of
             VObject (Some msg) \<Rightarrow>
               if mg_tid (mq_msgs s msg) = tid
               then do {
                 (_, s) \<leftarrow> dsl_lnklst_delete_node (Some l) node s;
                 pop_tid_loop l tid (n_next (lnodes s n)) (Some msg) s }
               else pop_tid_loop l tid (n_next (lnodes s n)) message s
           | _ \<Rightarrow> None))"

definition MqPopMessageWithTaskID_from :: "addr option \<Rightarrow> u32 \<Rightarrow> mq_state \<Rightarrow> (addr option \<times> mq_state) option" where
  "MqPopMessageWithTaskID_from list tid s =
     (case list of
        None \<Rightarrow> Some (None, s)
      | Some l \<Rightarrow>
          if dsl_lnklst_count list s = 0 then Some (None, s)
          else pop_tid_loop l tid (l_head (lnklsts s l)) None s)"

definition MqPopMessageWithTaskID :: "addr option \<Rightarrow> int \<Rightarrow> u32 \<Rightarrow> mq_state \<Rightarrow> (addr option \<times> mq_state) option" where
  "MqPopMessageWithTaskID mqueue in_out tid s =
     (case mqueue of
        None \<Rightarrow> Some (None, s)
      | Some q \<Rightarrow>
          (case mq_channel q in_out s of
             None \<Rightarrow> Some (None, s)
           | Some list \<Rightarrow> MqPopMessageWithTaskID_from list tid s))"

definition MqPopMessage_from :: "addr option \<Rightarrow> mq_state \<Rightarrow> (addr option \<times> mq_state) option" where
  "MqPopMessage_from list s =
     (if list = None \<or> dsl_lnklst_count list s = 0 then Some (None, s)
      else do {
        node \<leftarrow> dsl_lnklst_get list 0 s;
        (case node of
           None \<Rightarrow> Some (None, s)
         | Some n \<Rightarrow>
             (case n_value (lnodes s n) of
                VObject message \<Rightarrow> do {
                  (_, s) \<leftarrow> dsl_lnklst_delete_node list node s;
                  Some (message, s) }
              | _ \<Rightarrow> None)) })"

definition MqPopMessage :: "addr option \<Rightarrow> int \<Rightarrow> mq_state \<Rightarrow> (addr option \<times> mq_state) option" where
  "MqPopMessage mqueue in_out s =
     (case mqueue of
        None \<Rightarrow> Some (None, s)
      | Some q \<Rightarrow>
          (case mq_channel q in_out s of
             None \<Rightarrow> Some (None, s)
           | Some list \<Rightarrow> MqPopMessage_from list s))"

section \<open>What a channel holds\<close>

text \<open>The nodes of the list and, for each, the message's address and contents.\<close>

definition chan :: "mq_state \<Rightarrow> addr \<Rightarrow> addr list \<Rightarrow> (addr \<times> mq_message) list \<Rightarrow> bool" where
  "chan s l ps ms \<longleftrightarrow>
     lnk s l ps \<and> map (\<lambda>n. n_value (lnodes s n)) ps = map (\<lambda>(a, m). VObject (Some a)) ms \<and>
     (\<forall>(a, m) \<in> set ms. mq_msgs s a = m)"

lemma chan_length: "chan s l ps ms \<Longrightarrow> length ps = length ms"
  unfolding chan_def by (metis length_map)

lemma chan_count: "chan s l ps ms \<Longrightarrow> dsl_lnklst_count (Some l) s = int (length ms)"
  using chan_length [of s l ps ms] by (simp add: chan_def lnk_def dsl_lnklst_count_def)

lemma mq_msgs_more:
  fixes s s' :: mq_state
  shows "dsl.more s' = dsl.more s \<Longrightarrow> mq_msgs s' = mq_msgs s \<and> mq_objs s' = mq_objs s \<and> mqueues s' = mqueues s"
  by (cases s; cases s') simp

lemma mq_free_simps [simp]:
  "mq_msgs (dsl_free n s) = mq_msgs s" "mq_objs (dsl_free n s) = mq_objs s"
  by (simp_all add: dsl_free_def)

lemma add_message_spec:
  assumes "chan s l ps ms" "length ms < 16" "answers s = Some a # Some n # rest" "a \<notin> fst ` set ms" "n \<notin> set ps"
  shows "\<exists>s'. MqAddMessage_to (Some l) (Some msg) s = (True, s') \<and> chan s' l (ps @ [n]) (ms @ [(a, msg)]) \<and>
    mq_objs s' = mq_objs s"
proof -
  let ?s1 = "s\<lparr>answers := Some n # rest, mq_msgs := (mq_msgs s)(a := msg)\<rparr>"
  let ?s2 = "set_node n (\<lambda>d. d\<lparr>n_value := VObject (Some a)\<rparr>) (?s1\<lparr>answers := rest\<rparr>)"
  have "lnk ?s2 l ps"
    using assms(1,5) lnk_cong [of ps ?s2 s l] by (simp add: chan_def)
  from add_node_spec [OF this assms(5)] obtain s' where
    s': "dsl_lnklst_add_node (Some l) (Some n) ?s2 = (True, s')" "lnk s' l (ps @ [n])"
      "\<forall>q. n_value (lnodes s' q) = n_value (lnodes ?s2 q)" "dsl.more s' = dsl.more ?s2"
    by blast
  have m: "mq_msgs s' = (mq_msgs s)(a := msg)" "mq_objs s' = mq_objs s"
    using mq_msgs_more [OF s'(4)] by (simp_all add: set_node_def)
  have "map (\<lambda>q. n_value (lnodes s' q)) ps = map (\<lambda>q. n_value (lnodes s q)) ps"
    using s'(3) assms(5) by auto
  then have "map (\<lambda>q. n_value (lnodes s' q)) ps = map (\<lambda>(a, m). VObject (Some a)) ms"
    using assms(1) unfolding chan_def by metis
  moreover have "n_value (lnodes s' n) = VObject (Some a)"
    using s'(3) by simp
  moreover have "\<forall>(b, m) \<in> set ms. mq_msgs s' b = m"
  proof clarify
    fix b m'
    assume b: "(b, m') \<in> set ms"
    then have "b \<noteq> a"
      using assms(4) by force
    then show "mq_msgs s' b = m'"
      using b assms(1) m(1) by (auto simp: chan_def)
  qed
  ultimately have "chan s' l (ps @ [n]) (ms @ [(a, msg)])"
    using s'(2) assms(1) m(1) by (simp add: chan_def)
  moreover have "MqAddMessage_to (Some l) (Some msg) s = (True, s')"
    using s'(1) assms(2,3) chan_count [OF assms(1)]
    by (simp add: MqAddMessage_to_def MAX_MESSAGE_COUNT_def dsl_malloc_def Let_def dsl_lnklst_new_node_def)
  ultimately show ?thesis
    using m(2) by blast
qed

lemma add_message_full: "chan s l ps ms \<Longrightarrow> length ms = 16 \<Longrightarrow> MqAddMessage_to (Some l) (Some msg) s = (False, s)"
  using chan_count [of s l ps ms] by (simp add: MqAddMessage_to_def MAX_MESSAGE_COUNT_def)

lemma pop_message_spec:
  assumes "chan s l ps ((a, m) # ms)"
  shows "\<exists>s'. MqPopMessage_from (Some l) s = Some (Some a, s') \<and> chan s' l (tl ps) ms \<and> mq_msgs s' = mq_msgs s \<and>
    freed s' = freed s @ [hd ps] \<and> mq_objs s' = mq_objs s"
proof -
  obtain n qs where ps: "ps = n # qs"
    using chan_length [OF assms] by (cases ps) auto
  have lnk: "lnk s l ([] @ n # qs)" and v: "n_value (lnodes s n) = VObject (Some a)"
    using assms ps by (auto simp: chan_def)
  obtain s1 where s1: "dsl_lnklst_remove_node (Some l) (Some n) s = Some (True, s1)" "lnk s1 l qs"
    "\<forall>q. n_value (lnodes s1 q) = n_value (lnodes s q)" "freed s1 = freed s" "dsl.more s1 = dsl.more s"
    using remove_node_spec [OF lnk] by auto
  have m: "mq_msgs s1 = mq_msgs s" "mq_objs s1 = mq_objs s"
    using mq_msgs_more [OF s1(5)] by auto
  have "dsl_lnklst_get (Some l) 0 s = Some (Some n)"
    using lnk lnk_head [OF lnk] by (simp add: dsl_lnklst_get_def lnk_def)
  then have "MqPopMessage_from (Some l) s = Some (Some a, dsl_free n s1)"
    using s1(1) v chan_count [OF assms] by (simp add: MqPopMessage_from_def dsl_lnklst_delete_node_def)
  moreover have "chan (dsl_free n s1) l qs ms"
    using s1(2,3) assms ps m by (simp add: chan_def)
  ultimately show ?thesis
    using ps s1(4) m by simp
qed

text \<open>The last message of the list that a test picks.\<close>

definition last_with :: "('b \<Rightarrow> bool) \<Rightarrow> 'b list \<Rightarrow> 'b option" where
  "last_with P xs = opt_last (filter P xs)"

lemma pop_tid_loop_spec:
  "lnk s l (xs @ ps) \<Longrightarrow> map (\<lambda>n. n_value (lnodes s n)) ps = map (\<lambda>(a, m). VObject (Some a)) ms \<Longrightarrow>
     \<forall>(a, m) \<in> set ms. mq_msgs s a = m \<Longrightarrow>
     \<exists>s' qs. pop_tid_loop l tid (opt_hd ps) message s =
         Some (case last_with (\<lambda>(a, m). mg_tid m = tid) ms of None \<Rightarrow> message | Some (a, m) \<Rightarrow> Some a, s') \<and>
       lnk s' l (xs @ qs) \<and> mq_msgs s' = mq_msgs s \<and> (\<forall>q. n_value (lnodes s' q) = n_value (lnodes s q)) \<and>
       map (\<lambda>n. n_value (lnodes s n)) qs = map (\<lambda>(a, m). VObject (Some a)) (filter (\<lambda>(a, m). mg_tid m \<noteq> tid) ms)"
proof (induction ps arbitrary: s xs message ms)
  case Nil
  then show ?case
    by (auto simp: pop_tid_loop.simps last_with_def intro!: exI [of _ "[]"])
next
  case (Cons n ps)
  then obtain a m ms' where ms: "ms = (a, m) # ms'"
    by (cases ms) auto
  then have v: "n_value (lnodes s n) = VObject (Some a)" "mq_msgs s a = m"
    and vs: "map (\<lambda>n. n_value (lnodes s n)) ps = map (\<lambda>(a, m). VObject (Some a)) ms'" "\<forall>(a, m) \<in> set ms'. mq_msgs s a = m"
    using Cons.prems(2,3) by auto
  have nx: "n_next (lnodes s n) = opt_hd ps"
    using lnk_next [OF Cons.prems(1)] .
  show ?case
  proof (cases "mg_tid m = tid")
    case False
    have "lnk s l ((xs @ [n]) @ ps)"
      using Cons.prems(1) by simp
    from Cons.IH [OF this vs, of message] obtain s' qs where
      IH: "pop_tid_loop l tid (opt_hd ps) message s =
          Some (case last_with (\<lambda>(a, m). mg_tid m = tid) ms' of None \<Rightarrow> message | Some (a, m) \<Rightarrow> Some a, s')"
        "lnk s' l ((xs @ [n]) @ qs)" "mq_msgs s' = mq_msgs s" "\<forall>q. n_value (lnodes s' q) = n_value (lnodes s q)"
        "map (\<lambda>n. n_value (lnodes s n)) qs = map (\<lambda>(a, m). VObject (Some a)) (filter (\<lambda>(a, m). mg_tid m \<noteq> tid) ms')"
      by blast
    have "pop_tid_loop l tid (opt_hd (n # ps)) message s = pop_tid_loop l tid (opt_hd ps) message s"
      using v False nx by (subst pop_tid_loop.simps) simp
    then show ?thesis
      using IH v False ms by (intro exI [of _ s'] exI [of _ "n # qs"]) (simp add: last_with_def)
  next
    case True
    obtain s1 where s1: "dsl_lnklst_remove_node (Some l) (Some n) s = Some (True, s1)" "lnk s1 l (xs @ ps)"
      "\<forall>q. n_value (lnodes s1 q) = n_value (lnodes s q)" "\<forall>q. q \<notin> set (xs @ ps) \<longrightarrow> lnodes s1 q = lnodes s q"
      "dsl.more s1 = dsl.more s"
      using remove_node_spec [OF Cons.prems(1)] by blast
    let ?s = "dsl_free n s1"
    have m: "mq_msgs ?s = mq_msgs s"
      using mq_msgs_more [OF s1(5)] by (simp add: dsl_free_def)
    have "n \<notin> set (xs @ ps)"
      using lnk_distinct [OF Cons.prems(1)] by auto
    then have nx': "n_next (lnodes ?s n) = opt_hd ps"
      using s1(4) nx by simp
    have "lnk ?s l (xs @ ps)" "map (\<lambda>n. n_value (lnodes ?s n)) ps = map (\<lambda>(a, m). VObject (Some a)) ms'"
      "\<forall>(a, m) \<in> set ms'. mq_msgs ?s a = m"
      using s1(2,3) vs m by simp_all
    from Cons.IH [OF this, of "Some a"] obtain s' qs where
      IH: "pop_tid_loop l tid (opt_hd ps) (Some a) ?s =
          Some (case last_with (\<lambda>(a, m). mg_tid m = tid) ms' of None \<Rightarrow> Some a | Some (a, m) \<Rightarrow> Some a, s')"
        "lnk s' l (xs @ qs)" "mq_msgs s' = mq_msgs ?s" "\<forall>q. n_value (lnodes s' q) = n_value (lnodes ?s q)"
        "map (\<lambda>n. n_value (lnodes ?s n)) qs = map (\<lambda>(a, m). VObject (Some a)) (filter (\<lambda>(a, m). mg_tid m \<noteq> tid) ms')"
      by blast
    have "pop_tid_loop l tid (opt_hd (n # ps)) message s = pop_tid_loop l tid (opt_hd ps) (Some a) ?s"
      using v True nx' s1(1) by (subst pop_tid_loop.simps) (simp add: dsl_lnklst_delete_node_def)
    moreover have "last_with (\<lambda>(a, m). mg_tid m = tid) ms =
        (case last_with (\<lambda>(a, m). mg_tid m = tid) ms' of None \<Rightarrow> Some (a, m) | Some x \<Rightarrow> Some x)"
      using True ms by (simp add: last_with_def opt_last_def)
    ultimately show ?thesis
      using IH m s1(3) True ms
      by (intro exI [of _ s'] exI [of _ qs]) (simp split: option.splits)
  qed
qed

lemma pop_tid_spec:
  assumes "chan s l ps ms" "ms \<noteq> []"
  shows "\<exists>s' qs. MqPopMessageWithTaskID_from (Some l) tid s =
      Some (case last_with (\<lambda>(a, m). mg_tid m = tid) ms of None \<Rightarrow> None | Some (a, m) \<Rightarrow> Some a, s') \<and>
    chan s' l qs (filter (\<lambda>(a, m). mg_tid m \<noteq> tid) ms)"
proof -
  have c: "lnk s l ([] @ ps)" "map (\<lambda>n. n_value (lnodes s n)) ps = map (\<lambda>(a, m). VObject (Some a)) ms"
    "\<forall>(a, m) \<in> set ms. mq_msgs s a = m"
    using assms(1) by (simp_all add: chan_def)
  from pop_tid_loop_spec [OF c, of tid None] obtain s' qs where
    r: "pop_tid_loop l tid (opt_hd ps) None s =
          Some (case last_with (\<lambda>(a, m). mg_tid m = tid) ms of None \<Rightarrow> None | Some (a, m) \<Rightarrow> Some a, s')"
      "lnk s' l qs" "mq_msgs s' = mq_msgs s" "\<forall>q. n_value (lnodes s' q) = n_value (lnodes s q)"
      "map (\<lambda>n. n_value (lnodes s n)) qs = map (\<lambda>(a, m). VObject (Some a)) (filter (\<lambda>(a, m). mg_tid m \<noteq> tid) ms)"
    by auto
  have "MqPopMessageWithTaskID_from (Some l) tid s = pop_tid_loop l tid (opt_hd ps) None s"
    using chan_count [OF assms(1)] assms(2) lnk_head [OF c(1)] by (simp add: MqPopMessageWithTaskID_from_def)
  moreover have "chan s' l qs (filter (\<lambda>(a, m). mg_tid m \<noteq> tid) ms)"
    using r c(3) by (auto simp: chan_def)
  ultimately show ?thesis
    using r(1) by auto
qed

section \<open>Properties\<close>

text \<open>C38: A channel is a bounded first-in first-out queue: with fewer than 16 messages waiting and
  memory left, \<open>MqAddMessage\<close> appends a copy of the message, and \<open>MqPopMessage\<close> then returns the
  oldest message and leaves the others in order; a channel with 16 messages refuses a new one and
  is unchanged.\<close>

theorem mq_channel_fifo:
  assumes "mq_channel q io s = Some (Some l)" "chan s l ps ms"
    "answers s = Some a # Some n # rest" "a \<notin> fst ` set ms" "n \<notin> set ps"
  shows "(length ms < 16 \<longrightarrow>
      (\<exists>s' s'' qs. MqAddMessage (Some q) io (Some msg) s = (True, s') \<and>
         MqPopMessage (Some q) io s' = Some (Some (fst (hd (ms @ [(a, msg)]))), s'') \<and>
         chan s'' l qs (tl (ms @ [(a, msg)])))) \<and>
    (length ms = 16 \<longrightarrow> MqAddMessage (Some q) io (Some msg) s = (False, s))"
proof (intro conjI impI)
  assume "length ms < 16"
  from add_message_spec [OF assms(2) this assms(3-5), of msg] obtain s' where
    s': "MqAddMessage_to (Some l) (Some msg) s = (True, s')" "chan s' l (ps @ [n]) (ms @ [(a, msg)])" "mq_objs s' = mq_objs s"
    by blast
  obtain b m bs where h: "ms @ [(a, msg)] = (b, m) # bs"
    by (cases ms) auto
  obtain s'' where s'': "MqPopMessage_from (Some l) s' = Some (Some b, s'')" "chan s'' l (tl (ps @ [n])) bs"
    using pop_message_spec [of s' l "ps @ [n]" b m bs] s'(2) h by auto
  have "mq_channel q io s' = Some (Some l)"
    using assms(1) unfolding mq_channel_def s'(3) .
  then show "\<exists>s' s'' qs. MqAddMessage (Some q) io (Some msg) s = (True, s') \<and>
      MqPopMessage (Some q) io s' = Some (Some (fst (hd (ms @ [(a, msg)]))), s'') \<and>
      chan s'' l qs (tl (ms @ [(a, msg)]))"
    using s' s'' h assms(1) by (auto simp: MqAddMessage_def MqPopMessage_def)
next
  assume "length ms = 16"
  then show "MqAddMessage (Some q) io (Some msg) s = (False, s)"
    using add_message_full [OF assms(2)] assms(1) by (simp add: MqAddMessage_def)
qed

text \<open>Queue 90 with three messages of the tasks 7, 8 and 7 in its in channel.\<close>

definition msg_of :: "u32 \<Rightarrow> mq_message" where
  "msg_of tid = \<lparr>mg_tid = tid, mg_message = 0, mg_params = [], mg_bsparam0 = []\<rparr>"

definition mq3 :: mq_state where
  "mq3 = \<lparr>lnodes = (\<lambda>_. \<lparr>n_value = VBool False, n_prev = None, n_next = None\<rparr>)
      (1 := \<lparr>n_value = VObject (Some 11), n_prev = None, n_next = Some 2\<rparr>,
       2 := \<lparr>n_value = VObject (Some 12), n_prev = Some 1, n_next = Some 3\<rparr>,
       3 := \<lparr>n_value = VObject (Some 13), n_prev = Some 2, n_next = None\<rparr>),
     lnklsts = (\<lambda>_. \<lparr>l_head = None, l_foot = None, l_count = 0\<rparr>)(50 := \<lparr>l_head = Some 1, l_foot = Some 3, l_count = 3\<rparr>),
     freed = [], answers = [Some 14, Some 4], mqueues = Some 60,
     mq_objs = (\<lambda>_. \<lparr>mq_name = [], mq_in = Some 50, mq_out = Some 51\<rparr>),
     mq_msgs = (\<lambda>_. msg_of 0)(11 := msg_of 7, 12 := msg_of 8, 13 := msg_of 7)\<rparr>"

lemma mq3_chan: "chan mq3 50 [1, 2, 3] [(11, msg_of 7), (12, msg_of 8), (13, msg_of 7)]"
  by (simp add: chan_def lnk_def mq3_def dlist_def)

theorem mq_channel_fifo_witness:
  "\<exists>s' s'' qs. MqAddMessage (Some 90) 0 (Some (msg_of 9)) mq3 = (True, s') \<and> MqPopMessage (Some 90) 0 s' = Some (Some 11, s'') \<and>
     chan s'' 50 qs [(12, msg_of 8), (13, msg_of 7), (14, msg_of 9)]"
  using mq_channel_fifo [OF _ mq3_chan, of 90 0 14 4 "[]" "msg_of 9"]
  by (auto simp: mq3_def mq_channel_def MQUEUE_IN_def)

text \<open>\<open>MqPopMessageWithTaskID\<close> on a channel that is not empty returns the \<^emph>\<open>last\<close>
  message of the task and takes all messages of the task out of the channel; those of the other
  tasks stay, in order.\<close>

theorem mq_pop_task_removes_all:
  assumes "mq_channel q io s = Some (Some l)" "chan s l ps ms" "ms \<noteq> []"
  shows "\<exists>s' qs. MqPopMessageWithTaskID (Some q) io tid s =
      Some (case last_with (\<lambda>(a, m). mg_tid m = tid) ms of None \<Rightarrow> None | Some (a, m) \<Rightarrow> Some a, s') \<and>
    chan s' l qs (filter (\<lambda>(a, m). mg_tid m \<noteq> tid) ms)"
  using pop_tid_spec [OF assms(2,3)] assms(1) by (simp add: MqPopMessageWithTaskID_def)

theorem mq_pop_task_removes_all_witness:
  "\<exists>s' qs. MqPopMessageWithTaskID (Some 90) 0 7 mq3 = Some (Some 13, s') \<and> chan s' 50 qs [(12, msg_of 8)]"
  using mq_pop_task_removes_all [OF _ mq3_chan, of 90 0 7]
  by (auto simp: mq3_def mq_channel_def MQUEUE_IN_def last_with_def msg_of_def)

end
