(* ===== verification/Timer.thy ===== *)
theory Timer
  imports Prelude Lock
begin

text \<open>
  \<^verbatim>\<open>kernel/timer.c\<close>.  A timer is an object at an address; the kernel keeps the addresses in a
  table of 256 slots.  \<open>MemAlloc\<close> is the stream of its answers, \<open>MemFree\<close> the log of its
  arguments.  An event is a value of type \<open>'e\<close> that stands for the function pointer; what the
  function does is the parameter \<open>call\<close> of \<open>TmrDispatchTick\<close>, and every call is also
  recorded in \<open>tm_calls\<close> with the timer that made it.  A dereference of an address that was never
  allocated is not distinguished: the theorems are about registered timers.
\<close>

section \<open>State\<close>

type_synonym taddr = nat

record 'e timer =
  t_interval :: u32
  t_event :: 'e
  t_enabled :: bool
  t_ticks :: u32

record 'e tmr =
  tm_ticks :: u32                             \<comment> \<open>\<open>_ticks\<close>\<close>
  tm_timers :: "nat \<Rightarrow> taddr option"          \<comment> \<open>\<open>_timers\<close>\<close>
  tm_objs :: "taddr \<Rightarrow> 'e timer"
  tm_answers :: "taddr option list"
  tm_freed :: "taddr list"
  tm_calls :: "(taddr \<times> 'e) list"

definition MAX_TIMER_COUNT :: nat where "MAX_TIMER_COUNT = 256"

definition set_timer :: "taddr \<Rightarrow> ('e timer \<Rightarrow> 'e timer) \<Rightarrow> 'e tmr \<Rightarrow> 'e tmr" where
  "set_timer t f s = s\<lparr>tm_objs := (tm_objs s)(t := f (tm_objs s t))\<rparr>"

definition set_slot :: "nat \<Rightarrow> taddr option \<Rightarrow> 'e tmr \<Rightarrow> 'e tmr" where
  "set_slot ui v s = s\<lparr>tm_timers := (tm_timers s)(ui := v)\<rparr>"

definition tmr_alloc :: "'e tmr \<Rightarrow> taddr option \<times> 'e tmr" where
  "tmr_alloc s = (case tm_answers s of [] \<Rightarrow> (None, s) | a # as \<Rightarrow> (a, s\<lparr>tm_answers := as\<rparr>))"

definition tmr_delete_obj :: "taddr \<Rightarrow> 'e tmr \<Rightarrow> 'e tmr" where
  "tmr_delete_obj t s = s\<lparr>tm_freed := tm_freed s @ [t]\<rparr>"

section \<open>Operations\<close>

definition TmrInit :: "'e tmr \<Rightarrow> bool \<times> 'e tmr" where
  "TmrInit s =
     (True, s\<lparr>tm_ticks := 0, tm_timers := (\<lambda>ui. if ui < MAX_TIMER_COUNT then None else tm_timers s ui)\<rparr>)"

text \<open>The loops over the table: \<open>n\<close> slots are left from index \<open>ui\<close> on.\<close>

fun dec_loop :: "nat \<Rightarrow> nat \<Rightarrow> 'e tmr \<Rightarrow> 'e tmr" where
  "dec_loop ui 0 s = s"
| "dec_loop ui (Suc n) s =
     dec_loop (Suc ui) n
       (case tm_timers s ui of
          None \<Rightarrow> s
        | Some timer \<Rightarrow>
            if t_enabled (tm_objs s timer) \<and> t_ticks (tm_objs s timer) \<noteq> 0
            then set_timer timer (\<lambda>t. t\<lparr>t_ticks := t_ticks t - 1\<rparr>) s else s)"

definition TmrDispatchTick_u :: "'e tmr \<Rightarrow> 'e tmr" where
  "TmrDispatchTick_u s = dec_loop 0 MAX_TIMER_COUNT s"

fun dispatch_loop :: "('e \<Rightarrow> 'e tmr \<Rightarrow> 'e tmr) \<Rightarrow> nat \<Rightarrow> nat \<Rightarrow> 'e tmr \<Rightarrow> 'e tmr" where
  "dispatch_loop call ui 0 s = s"
| "dispatch_loop call ui (Suc n) s =
     dispatch_loop call (Suc ui) n
       (case tm_timers s ui of
          None \<Rightarrow> s
        | Some timer \<Rightarrow>
            if t_enabled (tm_objs s timer) \<and> t_ticks (tm_objs s timer) = 0
            then (let e = t_event (tm_objs s timer);
                      s = call e (s\<lparr>tm_calls := tm_calls s @ [(timer, e)]\<rparr>)
                  in set_timer timer (\<lambda>t. t\<lparr>t_ticks := t_interval t\<rparr>) s)
            else s)"

definition TmrDispatchTick :: "('e \<Rightarrow> 'e tmr \<Rightarrow> 'e tmr) \<Rightarrow> 'e tmr \<Rightarrow> 'e tmr" where
  "TmrDispatchTick call s = dispatch_loop call 0 MAX_TIMER_COUNT s"

definition TmrIncTicks :: "'e tmr \<Rightarrow> 'e tmr" where
  "TmrIncTicks s = TmrDispatchTick_u (s\<lparr>tm_ticks := tm_ticks s + 1\<rparr>)"

definition TmrGetTicks :: "'e tmr \<Rightarrow> u32" where
  "TmrGetTicks s = tm_ticks s"

definition TmrNew :: "u32 \<Rightarrow> 'e option \<Rightarrow> 'e tmr \<Rightarrow> taddr option \<times> 'e tmr" where
  "TmrNew interval event s =
     (case event of
        None \<Rightarrow> (None, s)
      | Some e \<Rightarrow>
          if interval = 0 then (None, s)
          else (case tmr_alloc s of
                  (None, s) \<Rightarrow> (None, s)
                | (Some timer, s) \<Rightarrow>
                    (case first_index (\<lambda>ui. tm_timers s ui = None) 0 MAX_TIMER_COUNT of
                       Some ui \<Rightarrow>
                         (Some timer,
                          set_slot ui (Some timer)
                            (set_timer timer
                               (\<lambda>_. \<lparr>t_interval = interval, t_event = e, t_enabled = False, t_ticks = interval\<rparr>) s))
                     | None \<Rightarrow> (None, tmr_delete_obj timer s))))"

definition TmrDelete :: "taddr option \<Rightarrow> 'e tmr \<Rightarrow> bool \<times> 'e tmr" where
  "TmrDelete timer s =
     (case timer of
        None \<Rightarrow> (False, s)
      | Some t \<Rightarrow>
          (case first_index (\<lambda>ui. tm_timers s ui = Some t) 0 MAX_TIMER_COUNT of
             Some ui \<Rightarrow> (True, tmr_delete_obj t (set_slot ui None s))
           | None \<Rightarrow> (False, s)))"

definition TmrSetInterval :: "taddr option \<Rightarrow> u32 \<Rightarrow> 'e tmr \<Rightarrow> bool \<times> 'e tmr" where
  "TmrSetInterval timer interval s =
     (case timer of
        None \<Rightarrow> (False, s)
      | Some t \<Rightarrow> if interval = 0 then (False, s) else (True, set_timer t (\<lambda>d. d\<lparr>t_interval := interval\<rparr>) s))"

definition TmrStart :: "taddr option \<Rightarrow> 'e tmr \<Rightarrow> bool \<times> 'e tmr" where
  "TmrStart timer s =
     (case timer of None \<Rightarrow> (False, s) | Some t \<Rightarrow> (True, set_timer t (\<lambda>d. d\<lparr>t_enabled := True\<rparr>) s))"

definition TmrStop :: "taddr option \<Rightarrow> 'e tmr \<Rightarrow> bool \<times> 'e tmr" where
  "TmrStop timer s =
     (case timer of None \<Rightarrow> (False, s) | Some t \<Rightarrow> (True, set_timer t (\<lambda>d. d\<lparr>t_enabled := False\<rparr>) s))"

fun count_loop :: "nat \<Rightarrow> nat \<Rightarrow> 'e tmr \<Rightarrow> u32 \<Rightarrow> u32" where
  "count_loop ui 0 s count = count"
| "count_loop ui (Suc n) s count =
     count_loop (Suc ui) n s (if tm_timers s ui \<noteq> None then count + 1 else count)"

definition TmrGetCount :: "'e tmr \<Rightarrow> u32" where
  "TmrGetCount s = count_loop 0 MAX_TIMER_COUNT s 0"

fun clear_loop :: "nat \<Rightarrow> nat \<Rightarrow> 'e tmr \<Rightarrow> 'e tmr" where
  "clear_loop ui 0 s = s"
| "clear_loop ui (Suc n) s =
     clear_loop (Suc ui) n
       (case tm_timers s ui of None \<Rightarrow> s | Some t \<Rightarrow> set_slot ui None (tmr_delete_obj t s))"

definition TmrClear :: "'e tmr \<Rightarrow> 'e tmr" where
  "TmrClear s = clear_loop 0 MAX_TIMER_COUNT s"

definition TmrSetEvent :: "taddr option \<Rightarrow> 'e option \<Rightarrow> 'e tmr \<Rightarrow> bool \<times> 'e tmr" where
  "TmrSetEvent timer event s =
     (case (timer, event) of
        (Some t, Some e) \<Rightarrow> (True, set_timer t (\<lambda>d. d\<lparr>t_event := e\<rparr>) s)
      | _ \<Rightarrow> (False, s))"

section \<open>The table\<close>

text \<open>Every registered timer is in one slot only.\<close>

definition tmr_inv :: "'e tmr \<Rightarrow> bool" where
  "tmr_inv s \<longleftrightarrow>
     (\<forall>i < MAX_TIMER_COUNT. \<forall>j < MAX_TIMER_COUNT. tm_timers s i \<noteq> None \<longrightarrow> tm_timers s i = tm_timers s j \<longrightarrow> i = j)"

definition registered :: "'e tmr \<Rightarrow> taddr \<Rightarrow> bool" where
  "registered s t \<longleftrightarrow> (\<exists>i < MAX_TIMER_COUNT. tm_timers s i = Some t)"

lemma set_timer_simps [simp]:
  "tm_ticks (set_timer t f s) = tm_ticks s" "tm_timers (set_timer t f s) = tm_timers s"
  "tm_objs (set_timer t f s) = (tm_objs s)(t := f (tm_objs s t))" "tm_calls (set_timer t f s) = tm_calls s"
  "tm_timers (set_slot ui v s) = (tm_timers s)(ui := v)" "tm_objs (set_slot ui v s) = tm_objs s"
  "tm_freed (set_timer t f s) = tm_freed s" "tm_freed (set_slot ui v s) = tm_freed s"
  "tm_timers (tmr_delete_obj t s) = tm_timers s" "tm_objs (tmr_delete_obj t s) = tm_objs s"
  "tm_freed (tmr_delete_obj t s) = tm_freed s @ [t]"
  by (simp_all add: set_timer_def set_slot_def tmr_delete_obj_def)

lemma tmr_alloc_simps [simp]:
  "tm_timers (snd (tmr_alloc s)) = tm_timers s" "tm_objs (snd (tmr_alloc s)) = tm_objs s"
  "tm_freed (snd (tmr_alloc s)) = tm_freed s"
  by (simp_all add: tmr_alloc_def split: list.splits)

lemma tmr_inv_cong: "tm_timers s' = tm_timers s \<Longrightarrow> tmr_inv s' = tmr_inv s"
  by (simp add: tmr_inv_def)

lemma tmr_inv_clear_slot: "tmr_inv s \<Longrightarrow> tmr_inv (set_slot ui None s)"
  by (auto simp: tmr_inv_def)

lemma tmr_inv_set_slot:
  "tmr_inv s \<Longrightarrow> ui < MAX_TIMER_COUNT \<Longrightarrow> \<not> registered s t \<Longrightarrow> tmr_inv (set_slot ui (Some t) s)"
  unfolding tmr_inv_def registered_def by (auto split: if_splits)

lemma dec_loop_frame:
  "tm_timers (dec_loop ui n s) = tm_timers s" "tm_calls (dec_loop ui n s) = tm_calls s" "tm_ticks (dec_loop ui n s) = tm_ticks s"
  by (induction ui n s rule: dec_loop.induct) (auto split: option.splits)

definition one_dec :: "'e timer \<Rightarrow> 'e timer" where
  "one_dec t = (if t_enabled t \<and> t_ticks t \<noteq> 0 then t\<lparr>t_ticks := t_ticks t - 1\<rparr> else t)"

lemma slots_distinct:
  "tmr_inv s \<Longrightarrow> i < MAX_TIMER_COUNT \<Longrightarrow> j < MAX_TIMER_COUNT \<Longrightarrow> tm_timers s i = Some t \<Longrightarrow> tm_timers s j = Some t \<Longrightarrow> i = j"
  unfolding tmr_inv_def by (metis option.distinct(1))

lemma dec_loop_obj:
  assumes "tmr_inv s" "ui + n \<le> MAX_TIMER_COUNT"
  shows "tm_objs (dec_loop ui n s) t =
    (if \<exists>i. ui \<le> i \<and> i < ui + n \<and> tm_timers s i = Some t then one_dec (tm_objs s t) else tm_objs s t)"
  using assms
proof (induction ui n s rule: dec_loop.induct)
  case (2 ui n s)
  let ?s = "case tm_timers s ui of None \<Rightarrow> s
    | Some timer \<Rightarrow> if t_enabled (tm_objs s timer) \<and> t_ticks (tm_objs s timer) \<noteq> 0
        then set_timer timer (\<lambda>t. t\<lparr>t_ticks := t_ticks t - 1\<rparr>) s else s"
  have T: "tm_timers ?s = tm_timers s"
    by (auto split: option.splits)
  have IH: "tm_objs (dec_loop (Suc ui) n ?s) t =
      (if \<exists>i. Suc ui \<le> i \<and> i < Suc ui + n \<and> tm_timers s i = Some t then one_dec (tm_objs ?s t) else tm_objs ?s t)"
    using 2(1) 2(2,3) tmr_inv_cong [OF T] by (simp add: T)
  show ?case
  proof (cases "tm_timers s ui = Some t")
    case True
    have none: "\<not> (\<exists>i. Suc ui \<le> i \<and> i < Suc ui + n \<and> tm_timers s i = Some t)"
    proof
      assume "\<exists>i. Suc ui \<le> i \<and> i < Suc ui + n \<and> tm_timers s i = Some t"
      then obtain i where i: "Suc ui \<le> i" "i < Suc ui + n" "tm_timers s i = Some t"
        by blast
      then show False
        using slots_distinct [OF 2(2) _ _ True i(3)] 2(3) by simp
    qed
    have "\<exists>i. ui \<le> i \<and> i < ui + Suc n \<and> tm_timers s i = Some t"
      using True by (intro exI [of _ ui]) simp
    then show ?thesis
      using IH True by (simp only: dec_loop.simps if_not_P [OF none] if_P) (simp add: one_dec_def)
  next
    case False
    have "tm_objs ?s t = tm_objs s t"
      using False by (auto split: option.splits)
    moreover have "(\<exists>i. ui \<le> i \<and> i < ui + Suc n \<and> tm_timers s i = Some t) \<longleftrightarrow>
        (\<exists>i. Suc ui \<le> i \<and> i < Suc ui + n \<and> tm_timers s i = Some t)"
    proof
      assume "\<exists>i. ui \<le> i \<and> i < ui + Suc n \<and> tm_timers s i = Some t"
      then obtain i where i: "ui \<le> i" "i < ui + Suc n" "tm_timers s i = Some t"
        by blast
      then have "i \<noteq> ui"
        using False by auto
      then show "\<exists>i. Suc ui \<le> i \<and> i < Suc ui + n \<and> tm_timers s i = Some t"
        using i by (intro exI [of _ i]) simp
    next
      assume "\<exists>i. Suc ui \<le> i \<and> i < Suc ui + n \<and> tm_timers s i = Some t"
      then obtain i where "Suc ui \<le> i" "i < Suc ui + n" "tm_timers s i = Some t"
        by blast
      then show "\<exists>i. ui \<le> i \<and> i < ui + Suc n \<and> tm_timers s i = Some t"
        by (intro exI [of _ i]) simp
    qed
    ultimately show ?thesis
      using IH by (simp only: dec_loop.simps)
  qed
qed auto

lemma TmrIncTicks_obj:
  assumes "tmr_inv s" "registered s t"
  shows "tm_objs (TmrIncTicks s) t = one_dec (tm_objs s t)"
proof -
  have "tmr_inv (s\<lparr>tm_ticks := tm_ticks s + 1\<rparr>)"
    using assms(1) by (simp add: tmr_inv_def)
  then show ?thesis
    using assms(2) dec_loop_obj [of "s\<lparr>tm_ticks := tm_ticks s + 1\<rparr>" 0 MAX_TIMER_COUNT t]
    by (auto simp: TmrIncTicks_def TmrDispatchTick_u_def registered_def)
qed

section \<open>Dispatching\<close>

text \<open>Event functions that leave the timer \<open>t\<close> alone, and the table of timers; what they do to the other timers is free.\<close>

definition spares :: "taddr \<Rightarrow> ('e \<Rightarrow> 'e tmr \<Rightarrow> 'e tmr) \<Rightarrow> bool" where
  "spares t call \<longleftrightarrow>
     (\<forall>e s. tm_timers (call e s) = tm_timers s \<and> tm_objs (call e s) t = tm_objs s t \<and> tm_calls (call e s) = tm_calls s)"

definition fires :: "'e tmr \<Rightarrow> taddr \<Rightarrow> nat" where
  "fires s t = length (filter (\<lambda>c. fst c = t) (tm_calls s))"

definition due :: "'e timer \<Rightarrow> bool" where
  "due d \<longleftrightarrow> t_enabled d \<and> t_ticks d = 0"

definition one_fire :: "'e timer \<Rightarrow> 'e timer" where
  "one_fire d = (if due d then d\<lparr>t_ticks := t_interval d\<rparr> else d)"

lemma sparesD:
  "spares t call \<Longrightarrow> tm_timers (call e s) = tm_timers s" "spares t call \<Longrightarrow> tm_objs (call e s) t = tm_objs s t"
  "spares t call \<Longrightarrow> tm_calls (call e s) = tm_calls s"
  by (simp_all add: spares_def)

lemma dispatch_loop_frame: "spares t call \<Longrightarrow> tm_timers (dispatch_loop call ui n s) = tm_timers s"
  by (induction call ui n s rule: dispatch_loop.induct) (auto simp: sparesD Let_def split: option.splits)

lemma dispatch_loop_none:
  assumes "spares t call"
  shows "\<forall>i. ui \<le> i \<and> i < ui + n \<longrightarrow> tm_timers s i \<noteq> Some t \<Longrightarrow>
    tm_objs (dispatch_loop call ui n s) t = tm_objs s t \<and> fires (dispatch_loop call ui n s) t = fires s t"
  using assms
proof (induction call ui n s rule: dispatch_loop.induct)
  case (2 call ui n s)
  let ?s = "case tm_timers s ui of None \<Rightarrow> s
    | Some timer \<Rightarrow> if t_enabled (tm_objs s timer) \<and> t_ticks (tm_objs s timer) = 0
        then (let e = t_event (tm_objs s timer); s = call e (s\<lparr>tm_calls := tm_calls s @ [(timer, e)]\<rparr>)
              in set_timer timer (\<lambda>t. t\<lparr>t_ticks := t_interval t\<rparr>) s) else s"
  have "tm_timers s ui \<noteq> Some t"
    using 2(2) by simp
  then have s: "tm_timers ?s = tm_timers s" "tm_objs ?s t = tm_objs s t" "fires ?s t = fires s t"
    using 2(3) by (auto simp: sparesD Let_def fires_def split: option.splits)
  have "\<forall>i. Suc ui \<le> i \<and> i < Suc ui + n \<longrightarrow> tm_timers s i \<noteq> Some t"
    using 2(2) by simp
  then show ?case
    using 2(1) 2(3) s by simp
qed auto

lemma dispatch_loop_obj:
  assumes "spares t call"
  shows "tmr_inv s \<Longrightarrow> ui + n \<le> MAX_TIMER_COUNT \<Longrightarrow> ui \<le> i \<Longrightarrow> i < ui + n \<Longrightarrow> tm_timers s i = Some t \<Longrightarrow>
    tm_objs (dispatch_loop call ui n s) t = one_fire (tm_objs s t) \<and>
    fires (dispatch_loop call ui n s) t = fires s t + (if due (tm_objs s t) then 1 else 0)"
  using assms
proof (induction call ui n s rule: dispatch_loop.induct)
  case (2 call ui n s)
  let ?s = "case tm_timers s ui of None \<Rightarrow> s
    | Some timer \<Rightarrow> if t_enabled (tm_objs s timer) \<and> t_ticks (tm_objs s timer) = 0
        then (let e = t_event (tm_objs s timer); s = call e (s\<lparr>tm_calls := tm_calls s @ [(timer, e)]\<rparr>)
              in set_timer timer (\<lambda>t. t\<lparr>t_ticks := t_interval t\<rparr>) s) else s"
  have T: "tm_timers ?s = tm_timers s"
    using 2(7) by (auto simp: sparesD Let_def split: option.splits)
  show ?case
  proof (cases "ui = i")
    case True
    have "\<forall>j. Suc ui \<le> j \<and> j < Suc ui + n \<longrightarrow> tm_timers ?s j \<noteq> Some t"
    proof (intro allI impI notI)
      fix j
      assume "Suc ui \<le> j \<and> j < Suc ui + n" "tm_timers ?s j = Some t"
      then show False
        using slots_distinct [OF 2(2), of i j t] 2(3-6) True T by simp
    qed
    from dispatch_loop_none [OF 2(7) this] show ?thesis
      using 2(6,7) True by (simp add: sparesD Let_def fires_def one_fire_def due_def)
  next
    case False
    then have "tm_timers s ui \<noteq> Some t"
      using slots_distinct [OF 2(2), of i ui t] 2(3-6) by auto
    then have "tm_objs ?s t = tm_objs s t" "fires ?s t = fires s t"
      using 2(7) by (auto simp: sparesD Let_def fires_def split: option.splits)
    then show ?thesis
      using 2(1) 2(2-7) False T tmr_inv_cong [OF T] by simp
  qed
qed auto

lemma TmrDispatchTick_obj:
  assumes "spares t call" "tmr_inv s" "registered s t"
  shows "tm_objs (TmrDispatchTick call s) t = one_fire (tm_objs s t)"
    "fires (TmrDispatchTick call s) t = fires s t + (if due (tm_objs s t) then 1 else 0)"
  using dispatch_loop_obj [OF assms(1,2), of 0 MAX_TIMER_COUNT] assms(3)
  by (auto simp: TmrDispatchTick_def registered_def)

lemma timers_frame:
  "tm_timers (TmrIncTicks s) = tm_timers s" "spares t call \<Longrightarrow> tm_timers (TmrDispatchTick call s) = tm_timers s"
  "fires (TmrIncTicks s) t = fires s t"
  by (simp_all add: TmrIncTicks_def TmrDispatchTick_u_def TmrDispatchTick_def dec_loop_frame dispatch_loop_frame fires_def)

section \<open>Runs\<close>

text \<open>
  The timer interrupt calls \<open>TmrIncTicks\<close> (\<^verbatim>\<open>kernel/kernel.c\<close>), a system call
  \<open>TmrDispatchTick\<close> (\<^verbatim>\<open>kernel/syscall/system.c\<close>): any interleaving of the two.
\<close>

datatype tmr_action = Tick | Dispatch

definition tmr_step :: "('e \<Rightarrow> 'e tmr \<Rightarrow> 'e tmr) \<Rightarrow> 'e tmr \<Rightarrow> tmr_action \<Rightarrow> 'e tmr" where
  "tmr_step call s st = (case st of Tick \<Rightarrow> TmrIncTicks s | Dispatch \<Rightarrow> TmrDispatchTick call s)"

definition tmr_run :: "('e \<Rightarrow> 'e tmr \<Rightarrow> 'e tmr) \<Rightarrow> tmr_action list \<Rightarrow> 'e tmr \<Rightarrow> 'e tmr" where
  "tmr_run call sts s = foldl (tmr_step call) s sts"

text \<open>One enabled timer alone: what is left of the interval, and the fires so far.\<close>

definition single_step :: "nat \<Rightarrow> nat \<times> nat \<Rightarrow> tmr_action \<Rightarrow> nat \<times> nat" where
  "single_step n p st = (case st of Tick \<Rightarrow> (fst p - 1, snd p)
     | Dispatch \<Rightarrow> if fst p = 0 then (n, Suc (snd p)) else p)"

definition armed :: "'e tmr \<Rightarrow> taddr \<Rightarrow> bool" where
  "armed s t \<longleftrightarrow> tmr_inv s \<and> registered s t \<and> t_enabled (tm_objs s t)"

definition remaining :: "'e tmr \<Rightarrow> taddr \<Rightarrow> nat \<times> nat" where
  "remaining s t = (unat (t_ticks (tm_objs s t)), fires s t)"

definition interval_of :: "'e tmr \<Rightarrow> taddr \<Rightarrow> nat" where
  "interval_of s t = unat (t_interval (tm_objs s t))"

lemma tmr_step_single:
  assumes "spares t call" "armed s t"
  shows "armed (tmr_step call s st) t \<and> interval_of (tmr_step call s st) t = interval_of s t \<and>
    remaining (tmr_step call s st) t = single_step (interval_of s t) (remaining s t) st"
proof (cases st)
  case Tick
  have dec: "unat (x - 1) = unat x - 1" if "x \<noteq> 0" for x :: u32
    using that unat_minus_le [of 1 x] by (simp add: Suc_le_eq unat_gt_0)
  show ?thesis
    using assms TmrIncTicks_obj [of s t] dec tmr_inv_cong [OF timers_frame(1)] unfolding Tick
    by (auto simp: armed_def tmr_step_def single_step_def remaining_def interval_of_def timers_frame
        registered_def one_dec_def)
next
  case Dispatch
  show ?thesis
    using assms TmrDispatchTick_obj [OF assms(1)] tmr_inv_cong [OF timers_frame(2) [OF assms(1)]] unfolding Dispatch
    by (auto simp: armed_def tmr_step_def single_step_def remaining_def interval_of_def timers_frame
        registered_def one_fire_def due_def unat_eq_zero)
qed

lemma tmr_run_single:
  assumes "spares t call" "armed s t"
  shows "armed (tmr_run call sts s) t \<and> interval_of (tmr_run call sts s) t = interval_of s t \<and>
    remaining (tmr_run call sts s) t = foldl (single_step (interval_of s t)) (remaining s t) sts"
  using assms(2)
proof (induction sts arbitrary: s)
  case (Cons st sts)
  then show ?case
    using tmr_step_single [OF assms(1) Cons(2), of st] by (simp add: tmr_run_def)
qed (simp add: tmr_run_def)


lemma single_bound:
  "fst p \<le> n \<Longrightarrow> fst (foldl (single_step n) p sts) \<le> n \<and>
     snd (foldl (single_step n) p sts) * n + (n - fst (foldl (single_step n) p sts)) \<le>
       snd p * n + (n - fst p) + length (filter (\<lambda>st. st = Tick) sts)"
proof (induction sts arbitrary: p)
  case (Cons st sts)
  let ?q = "single_step n p st"
  have "fst ?q \<le> n" and q: "snd ?q * n + (n - fst ?q) \<le> snd p * n + (n - fst p) + (if st = Tick then 1 else 0)"
    using Cons(2) by (auto simp: single_step_def split: tmr_action.splits)
  then show ?case
    using Cons(1) [of ?q] by auto
qed simp

lemma single_rounds:
  assumes "0 < n"
  shows "foldl (single_step n) (n, f) (concat (replicate k [Tick, Dispatch])) = (n - k mod n, f + k div n)"
proof (induction k)
  case (Suc k)
  have "concat (replicate (Suc k) [Tick, Dispatch]) = concat (replicate k [Tick, Dispatch]) @ [Tick, Dispatch]"
    by (induction k) simp_all
  moreover have "foldl (single_step n) (n - k mod n, g) [Tick, Dispatch] = (n - Suc k mod n, g + (if Suc k mod n = 0 then 1 else 0))" for g
  proof -
    have "k mod n < n"
      using assms by simp
    then show ?thesis
      by (auto simp: single_step_def mod_Suc)
  qed
  moreover have "Suc k div n = k div n + (if Suc k mod n = 0 then 1 else 0)"
    by (simp add: div_Suc)
  ultimately show ?case
    using Suc by simp
qed simp

section \<open>Properties\<close>

text \<open>However interrupts and dispatches interleave, an enabled timer that starts with a whole
  interval fires at most once per interval of ticks: it is never early.\<close>

theorem timer_never_early:
  assumes "spares t call" "armed s t" "unat (t_ticks (tm_objs s t)) = interval_of s t"
  shows "(fires (tmr_run call sts s) t - fires s t) * interval_of s t \<le> length (filter (\<lambda>st. st = Tick) sts)"
proof -
  have "remaining s t = (interval_of s t, fires s t)"
    using assms(3) by (simp add: remaining_def)
  moreover have "foldl (single_step (interval_of s t)) (remaining s t) sts = remaining (tmr_run call sts s) t"
    using tmr_run_single [OF assms(1,2), of sts] by simp
  ultimately have "fires (tmr_run call sts s) t * interval_of s t \<le>
      fires s t * interval_of s t + length (filter (\<lambda>st. st = Tick) sts)"
    using single_bound [of "remaining s t" "interval_of s t" sts] by (simp add: remaining_def)
  then show ?thesis
    by (simp add: diff_mult_distrib)
qed

definition one_timer :: "unit tmr" where
  "one_timer = snd (TmrStart (Some 40) (snd (TmrNew 3 (Some ())
     \<lparr>tm_ticks = 0, tm_timers = (\<lambda>_. None), tm_objs = (\<lambda>_. \<lparr>t_interval = 0, t_event = (), t_enabled = False, t_ticks = 0\<rparr>),
       tm_answers = [Some 40], tm_freed = [], tm_calls = []\<rparr>)))"

lemma one_timer_slots: "tm_timers one_timer = (\<lambda>_. None)(0 := Some 40)"
  by (simp add: one_timer_def TmrNew_def TmrStart_def tmr_alloc_def first_index_step [of _ 0] MAX_TIMER_COUNT_def)

lemma one_timer:
  "armed one_timer 40" "t_ticks (tm_objs one_timer 40) = 3" "interval_of one_timer 40 = 3" "fires one_timer 40 = 0"
  by (auto simp: one_timer_def armed_def tmr_inv_def registered_def interval_of_def fires_def TmrNew_def TmrStart_def
      tmr_alloc_def first_index_step [of _ 0] MAX_TIMER_COUNT_def set_slot_def set_timer_def)

lemma spares_id: "spares t (\<lambda>_ s. s)"
  by (simp add: spares_def)

theorem timer_never_early_witness:
  "(fires (tmr_run (\<lambda>_ s. s) [Tick, Tick, Dispatch, Tick, Tick, Dispatch, Dispatch] one_timer) 40 - 0) * 3 \<le>
     length (filter (\<lambda>st. st = Tick) [Tick, Tick, Dispatch, Tick, Tick, Dispatch, Dispatch])"
  using timer_never_early [of 40 "\<lambda>_ s. s" one_timer "[Tick, Tick, Dispatch, Tick, Tick, Dispatch, Dispatch]", OF spares_id] one_timer
  by simp

text \<open>C39: A started timer of interval \<open>n\<close>, not 0, that has its whole interval left calls its event exactly \<open>k div n\<close> times
  in \<open>k\<close> rounds of a tick and a dispatch, as long as no event function adds or deletes a timer, dispatches
  or changes this one: the other 255 timers may be in any state, and the event functions may start and stop them,
  change their intervals or do anything else to them.\<close>

theorem timer_period:
  assumes "spares t call" "armed s t" "unat (t_ticks (tm_objs s t)) = interval_of s t" "0 < interval_of s t"
  shows "fires (tmr_run call (concat (replicate k [Tick, Dispatch])) s) t = fires s t + k div interval_of s t"
  using tmr_run_single [OF assms(1,2), of "concat (replicate k [Tick, Dispatch])"]
    single_rounds [OF assms(4), of "fires s t" k] assms(3) by (simp add: remaining_def)

lemma spares_stop: "t \<noteq> u \<Longrightarrow> spares t (\<lambda>_ s. snd (TmrStop (Some u) s))"
  by (simp add: spares_def TmrStop_def set_timer_def)

theorem timer_period_witness:
  "fires (tmr_run (\<lambda>_ s. snd (TmrStop (Some 41) s)) (concat (replicate 1000 [Tick, Dispatch])) one_timer) 40 = 0 + 1000 div 3"
  using timer_period [of 40 "\<lambda>_ s. snd (TmrStop (Some 41) s)" one_timer 1000, OF spares_stop] one_timer by simp

text \<open>\<open>TmrNew\<close> with a nonzero interval and an event, memory and a free slot left, registers
  the new timer, stopped and with a whole interval to go, keeps every timer in one slot only, and
  \<open>TmrDelete\<close> on it gives the table back as it was and frees the timer.\<close>

theorem timer_new_delete:
  assumes "tmr_inv s" "interval \<noteq> 0" "fst (tmr_alloc s) = Some t" "\<not> registered s t"
    "j < MAX_TIMER_COUNT" "tm_timers s j = None"
  shows "\<exists>s'. TmrNew interval (Some e) s = (Some t, s') \<and> tmr_inv s' \<and> registered s' t \<and>
    tm_objs s' t = \<lparr>t_interval = interval, t_event = e, t_enabled = False, t_ticks = interval\<rparr> \<and>
    fst (TmrDelete (Some t) s') \<and> tm_timers (snd (TmrDelete (Some t) s')) = tm_timers s \<and>
    tm_freed (snd (TmrDelete (Some t) s')) = tm_freed s @ [t]"
proof -
  obtain s1 where a: "tmr_alloc s = (Some t, s1)"
    using assms(3) by (cases "tmr_alloc s") auto
  then have s1: "tm_timers s1 = tm_timers s" "tm_freed s1 = tm_freed s"
    using tmr_alloc_simps [of s] by simp_all
  obtain ui where ui: "first_index (\<lambda>ui. tm_timers s1 ui = None) 0 MAX_TIMER_COUNT = Some ui"
    using first_index_ex [of 0 j MAX_TIMER_COUNT "\<lambda>ui. tm_timers s1 ui = None"] assms(5,6) s1 by auto
  then have u: "ui < MAX_TIMER_COUNT" "tm_timers s ui = None"
    using first_index_SomeD [OF ui] s1 by auto
  define s2 where "s2 = set_timer t (\<lambda>_. \<lparr>t_interval = interval, t_event = e, t_enabled = False, t_ticks = interval\<rparr>) s1"
  have inv: "tmr_inv s2" "\<not> registered s2 t" "tm_timers s2 = tm_timers s"
    using assms(1,4) s1 by (simp_all add: s2_def tmr_inv_def registered_def)
  have obj: "tm_objs s2 t = \<lparr>t_interval = interval, t_event = e, t_enabled = False, t_ticks = interval\<rparr>" "tm_freed s2 = tm_freed s"
    using s1 by (simp_all add: s2_def)
  let ?s = "set_slot ui (Some t) s2"
  have new: "TmrNew interval (Some e) s = (Some t, ?s)"
    using a ui assms(2) by (simp add: TmrNew_def s2_def)
  have "\<exists>k. first_index (\<lambda>ui. tm_timers ?s ui = Some t) 0 MAX_TIMER_COUNT = Some k"
    using u(1) by (intro first_index_ex [of 0 ui]) simp_all
  then obtain k where k: "first_index (\<lambda>ui. tm_timers ?s ui = Some t) 0 MAX_TIMER_COUNT = Some k"
    by blast
  have "k = ui"
    using first_index_SomeD [OF k] inv(2) by (auto simp: registered_def split: if_splits)
  then have del: "TmrDelete (Some t) ?s = (True, tmr_delete_obj t (set_slot ui None ?s))"
    using k by (simp add: TmrDelete_def)
  have gone: "(tm_timers s)(ui := None) = tm_timers s"
    using u(2) by auto
  show ?thesis
  proof (intro exI conjI)
    show "TmrNew interval (Some e) s = (Some t, ?s)"
      by (rule new)
    show "tmr_inv ?s"
      by (rule tmr_inv_set_slot [OF inv(1) u(1) inv(2)])
    show "registered ?s t"
      using u(1) by (auto simp: registered_def)
    show "tm_timers (snd (TmrDelete (Some t) ?s)) = tm_timers s"
      using del inv(3) gone by simp
  qed (use obj del in simp_all)
qed

theorem timer_new_delete_witness:
  "\<exists>s'. TmrNew 5 (Some ()) (one_timer\<lparr>tm_answers := [Some 60]\<rparr>) = (Some 60, s') \<and> registered s' 60 \<and>
     tm_timers (snd (TmrDelete (Some 60) s')) = tm_timers one_timer"
proof -
  let ?s = "one_timer\<lparr>tm_answers := [Some 60]\<rparr>"
  have "tm_timers ?s = (\<lambda>_. None)(0 := Some 40)" "fst (tmr_alloc ?s) = Some 60"
    by (simp_all add: one_timer_slots tmr_alloc_def)
  moreover from this have "tmr_inv ?s" "\<not> registered ?s 60" "tm_timers ?s 1 = None"
    by (auto simp: tmr_inv_def registered_def split: if_splits)
  ultimately have "tmr_inv ?s" "fst (tmr_alloc ?s) = Some 60" "\<not> registered ?s 60" "tm_timers ?s 1 = None"
    by blast+
  from timer_new_delete [OF this(1) _ this(2,3) _ this(4), of 5 "()"] obtain s' where
    "TmrNew 5 (Some ()) ?s = (Some 60, s')" "registered s' 60" "tm_timers (snd (TmrDelete (Some 60) s')) = tm_timers ?s"
    by (auto simp: MAX_TIMER_COUNT_def)
  then show ?thesis
    by auto
qed

end
