(* ===== verification/Time.thy ===== *)
theory Time
  imports Prelude "HOL-Library.Signed_Division"
begin

text \<open>
  \<^verbatim>\<open>kernel/time.c\<close> and \<^verbatim>\<open>kernel/klib.c\<close>: dates, Unix time stamps, days of the week and of
  the month, a point in a rectangle.  C's \<open>int32\<close> variables are integers here, their division the
  truncating one of \<^theory_text>\<open>Signed_Division\<close>; \<open>int32\<close> writes out the wrap-around where an \<open>int32\<close> can
  leave its range, and the narrowing to \<open>uint16\<close> and \<open>uint8\<close> is the one to words.
\<close>

section \<open>Data\<close>

record date =
  d_year :: u16
  d_month :: u8
  d_day :: u8
  d_leap :: bool
  d_week :: u8

record time =
  t_hour :: u8
  t_minute :: u8
  t_second :: u8

record date_time =
  dt_timestamp :: int
  dt_offset :: int
  dt_d :: date
  dt_t :: time

definition int32 :: "int \<Rightarrow> int" where
  "int32 x = (x + 2147483648) mod 4294967296 - 2147483648"

definition FOUR_YEARS :: int where "FOUR_YEARS = 365 + 365 + 365 + 366"
definition SECONDS_PER_MINUTE :: int where "SECONDS_PER_MINUTE = 60"
definition SECONDS_PER_HOUR :: int where "SECONDS_PER_HOUR = 60 * SECONDS_PER_MINUTE"
definition SECONDS_PER_DAY :: int where "SECONDS_PER_DAY = 24 * SECONDS_PER_HOUR"

definition MONTHS :: "int list" where
  "MONTHS = [31, 28, 31, 30, 31, 30, 31, 31, 30, 31, 30, 31]"

definition MONTHS_LEAP :: "int list" where
  "MONTHS_LEAP = [31, 29, 31, 30, 31, 30, 31, 31, 30, 31, 30, 31]"

section \<open>\<open>time.c\<close>\<close>

text \<open>An index outside \<open>DELTA\<close> is never used: both callers pass a month of 1 to 12.\<close>

definition KnlGetWeek :: "int \<Rightarrow> int \<Rightarrow> int \<Rightarrow> int" where
  "KnlGetWeek year month day =
     (let DELTA = [0, 3, 3, 6, 1, 4, 6, 2, 5, 0, 3, 5];
          prev_year = year - 1;
          week = day - 1 + year + DELTA ! nat (month - 1) + prev_year sdiv 4 - prev_year sdiv 100 + prev_year sdiv 400;
          week = (if month > 2 \<and> ((year smod 4 = 0 \<or> year smod 400 = 0) \<and> year smod 100 \<noteq> 0) then week + 1 else week)
      in int32 week smod 7)"

text \<open>The month loop: \<open>i\<close> months are behind, \<open>m\<close> holds the other lengths.\<close>

fun month_loop :: "int list \<Rightarrow> int \<Rightarrow> int \<Rightarrow> int \<times> int" where
  "month_loop [] i nremain = (0, 0)"
| "month_loop (l # m) i nremain =
     (let ntemp = nremain - l in
      if ntemp \<le> 0 then (i + 1, if ntemp = 0 then l else nremain)
      else month_loop m (i + 1) ntemp)"

definition KnlGetDateTimeByUnixTimestamp :: "int \<Rightarrow> int \<Rightarrow> date_time option" where
  "KnlGetDateTimeByUnixTimestamp timestamp0 offset =
     (if timestamp0 < 0 then None
      else
        let timestamp = int32 (timestamp0 + offset);
            ndays = timestamp sdiv SECONDS_PER_DAY + 1;
            n4years = ndays sdiv FOUR_YEARS;
            nremain = ndays smod FOUR_YEARS;
            year = 1970 + n4years * 4;
            (leap, year, nremain) =
              (if nremain < 365 then (False, year, nremain)
               else if nremain < 365 + 365 then (False, year + 1, nremain - 365)
               else if nremain < 365 + 365 + 365 then (False, year + 2, nremain - (365 + 365))
               else (True, year + 3, nremain - (365 + 365 + 365)));
            (month, day) = month_loop (if leap then MONTHS_LEAP else MONTHS) 0 nremain;
            week = KnlGetWeek year month day;
            temp = timestamp smod SECONDS_PER_DAY;
            hour = temp sdiv SECONDS_PER_HOUR;
            temp = temp - hour * SECONDS_PER_HOUR;
            minute = temp sdiv SECONDS_PER_MINUTE;
            temp = temp - minute * SECONDS_PER_MINUTE
        in Some \<lparr>dt_timestamp = timestamp0, dt_offset = offset,
             dt_d = \<lparr>d_year = of_int year, d_month = of_int month, d_day = of_int day, d_leap = leap, d_week = of_int week\<rparr>,
             dt_t = \<lparr>t_hour = of_int hour, t_minute = of_int minute, t_second = of_int temp\<rparr>\<rparr>)"

fun month_sum :: "int list \<Rightarrow> nat \<Rightarrow> int \<Rightarrow> int" where
  "month_sum m 0 timestamp = timestamp"
| "month_sum [] (Suc n) timestamp = timestamp"
| "month_sum (l # m) (Suc n) timestamp = month_sum m n (timestamp + l * SECONDS_PER_DAY)"

definition KnlGetDateTime :: "int \<Rightarrow> int \<Rightarrow> int \<Rightarrow> int \<Rightarrow> int \<Rightarrow> int \<Rightarrow> int \<Rightarrow> date_time option" where
  "KnlGetDateTime offset year month day hour minute second =
     (if year < 1970 \<or> year \<ge> 2038 \<or> month < 1 \<or> month > 12 \<or> hour < 0 \<or> hour > 23 \<or>
         minute < 0 \<or> minute > 59 \<or> second < 0 \<or> second > 59
      then None
      else
        let timestamp = - offset;
            timestamp = timestamp + second;
            timestamp = timestamp + minute * SECONDS_PER_MINUTE;
            timestamp = timestamp + hour * SECONDS_PER_HOUR;
            timestamp = timestamp + (day - 1) * SECONDS_PER_DAY;
            prev_year = year - 1;
            n_leap_year = prev_year sdiv 4 - prev_year sdiv 100 + prev_year sdiv 400;
            n_nonleap_year = prev_year - n_leap_year;
            timestamp = timestamp + (n_leap_year - 477) * 366 * SECONDS_PER_DAY;
            timestamp = timestamp + (n_nonleap_year - 1492) * 365 * SECONDS_PER_DAY;
            leap = (year smod 4 = 0 \<or> (year > 100 \<and> year smod 400 = 0));
            timestamp = month_sum (if leap then MONTHS_LEAP else MONTHS) (nat (month - 1)) timestamp;
            week = KnlGetWeek year month day
        in Some \<lparr>dt_timestamp = int32 timestamp, dt_offset = offset,
             dt_d = \<lparr>d_year = of_int year, d_month = of_int month, d_day = of_int day, d_leap = leap, d_week = of_int week\<rparr>,
             dt_t = \<lparr>t_hour = of_int hour, t_minute = of_int minute, t_second = of_int second\<rparr>\<rparr>)"

section \<open>\<open>klib.c\<close>\<close>

text \<open>
  In \<open>point_x >= rect_x + rect_w\<close> the sum has type \<open>uint32\<close>, so this comparison is unsigned and
  the others are signed.
\<close>

definition point_in_rect :: "u32 \<Rightarrow> u32 \<Rightarrow> u32 \<Rightarrow> u32 \<Rightarrow> u32 \<Rightarrow> u32 \<Rightarrow> bool" where
  "point_in_rect point_x point_y rect_x rect_y rect_w rect_h =
     (if point_x <s rect_x \<or> point_y <s rect_y \<or> point_x \<ge> rect_x + rect_w \<or> point_y \<ge> rect_y + rect_h
      then False else True)"

definition get_days_of_month :: "u16 \<Rightarrow> u8 \<Rightarrow> u8" where
  "get_days_of_month year month =
     (let inc = (\<lambda>days :: u8.
            if month = 2 \<and> (year mod 4 = 0 \<and> year mod 100 \<noteq> 0) \<or> year mod 400 = 0 then days + 1 else days)
      in if month \<in> {1, 3, 5, 7, 8, 10, 12} then inc 31
         else if month \<in> {4, 6, 9, 11} then inc 30
         else if month = 2 then inc 28
         else 0xff)"

text \<open>\<open>while(w < 0) w += 7;\<close>\<close>

function add_weeks :: "int \<Rightarrow> int" where
  "add_weeks w = (if w < 0 then add_weeks (w + 7) else w)"
  by pat_completeness auto
termination
  by (relation "measure (\<lambda>w. nat (- w))") auto

declare add_weeks.simps [simp del]

definition get_day_of_week :: "u16 \<Rightarrow> u8 \<Rightarrow> u8 \<Rightarrow> u8" where
  "get_day_of_week year month day =
     (let y = uint year; m = uint month; d = uint day;
          (y, m) = (if m = 1 \<or> m = 2 then (y - 1, m + 12) else (y, m));
          t0 = y sdiv 100;
          t1 = y - t0 * 100;
          w = (t0 sdiv 4) - 2 * t0 + (t1 + t1 sdiv 4) + (13 * (m + 1) sdiv 5) + d - 1
      in of_int (add_weeks w smod 7))"

section \<open>The calendar\<close>

text \<open>The reference: the Gregorian rule, days counted one year and one month at a time.\<close>

definition leap_year :: "nat \<Rightarrow> bool" where
  "leap_year y \<longleftrightarrow> y mod 4 = 0 \<and> y mod 100 \<noteq> 0 \<or> y mod 400 = 0"

definition month_days :: "nat \<Rightarrow> nat \<Rightarrow> nat" where
  "month_days y m = (if m = 2 then (if leap_year y then 29 else 28) else if m \<in> {4, 6, 9, 11} then 30 else 31)"

text \<open>Days from 1970-01-01 to the first day of the year, and of the month.\<close>

fun days_to_year :: "nat \<Rightarrow> nat" where
  "days_to_year 0 = 0"
| "days_to_year (Suc y) = (if Suc y \<le> 1970 then 0 else days_to_year y + (if leap_year y then 366 else 365))"

fun days_to_month :: "nat \<Rightarrow> nat \<Rightarrow> nat" where
  "days_to_month y 0 = 0"
| "days_to_month y (Suc m) = (if m = 0 then 0 else days_to_month y m + month_days y m)"

definition day_number :: "nat \<Rightarrow> nat \<Rightarrow> nat \<Rightarrow> nat" where
  "day_number y m d = days_to_year y + days_to_month y m + (d - 1)"

lemma div_Suc_pred: "0 < k \<Longrightarrow> int (Suc y) div int k = int y div int k + (if Suc y mod k = 0 then 1 else 0)"
  using div_Suc [of y k] by (simp add: zdiv_int [symmetric] del: of_nat_Suc)

lemma year_arith:
  fixes D Y :: int
  assumes "D = 365 * (Y - 1970) + (a - b + c) - 477"
    "a' = a + (if P then 1 else 0)" "b' = b + (if Q then 1 else 0)" "c' = c + (if R then 1 else 0)"
    "R \<Longrightarrow> Q" "Q \<Longrightarrow> P"
  shows "D + (if P \<and> (Q \<longrightarrow> R) then 366 else 365) = 365 * (Y + 1 - 1970) + (a' - b' + c') - 477"
  using assms by (cases P; cases Q; cases R) auto

lemma days_to_year_closed:
  "1970 \<le> y \<Longrightarrow>
     int (days_to_year y) =
       365 * (int y - 1970) + (int (y - 1) div 4 - int (y - 1) div 100 + int (y - 1) div 400) - 477"
proof (induction y rule: dec_induct)
  case base
  have "days_to_year (Suc 1969) = 0"
    by (simp only: days_to_year.simps) simp
  then show ?case
    by simp
next
  case (step y)
  then obtain x where x: "y = Suc x"
    by (cases y) auto
  have d: "int y div 4 = int x div 4 + (if y mod 4 = 0 then 1 else 0)"
    "int y div 100 = int x div 100 + (if y mod 100 = 0 then 1 else 0)"
    "int y div 400 = int x div 400 + (if y mod 400 = 0 then 1 else 0)"
    unfolding x
    by (rule div_Suc_pred [of 4, unfolded of_nat_numeral], simp,
        rule div_Suc_pred [of 100, unfolded of_nat_numeral], simp,
        rule div_Suc_pred [of 400, unfolded of_nat_numeral], simp)
  have m: "y mod 400 = 0 \<Longrightarrow> y mod 100 = 0" "y mod 100 = 0 \<Longrightarrow> y mod 4 = 0"
    using dvd_trans [of "100::nat" 400 y] dvd_trans [of "4::nat" 100 y] by (simp_all add: dvd_eq_mod_eq_0)
  have l: "leap_year y \<longleftrightarrow> y mod 4 = 0 \<and> (y mod 100 = 0 \<longrightarrow> y mod 400 = 0)"
    using m unfolding leap_year_def by auto
  have s: "int (days_to_year (Suc y)) = int (days_to_year y) + (if leap_year y then 366 else 365)"
    using step(1) by simp
  have n: "int (Suc y - 1) = int y" "int (y - 1) = int x" "int (Suc y) = int y + 1"
    using x by simp_all
  show ?case
    unfolding s n l by (rule year_arith [OF step(3) [unfolded n] d m])
qed

lemma sdiv_pos: "0 \<le> x \<Longrightarrow> 0 < k \<Longrightarrow> (x::int) sdiv k = x div k" "0 \<le> x \<Longrightarrow> 0 < k \<Longrightarrow> (x::int) smod k = x mod k"
  by (auto simp: signed_divide_int_def signed_modulo_int_def sgn_if)

text \<open>The number of leap years up to a year; 477 of them up to 1969.\<close>

definition leaps :: "int \<Rightarrow> int" where
  "leaps y = y div 4 - y div 100 + y div 400"

lemma days_to_year_leaps:
  "1970 \<le> y \<Longrightarrow> int (days_to_year y) = (leaps (int y - 1) - 477) * 366 + (int y - 1 - leaps (int y - 1) - 1492) * 365"
  using days_to_year_closed [of y] by (simp add: leaps_def of_nat_diff algebra_simps)

lemma leap_year_range:
  "1970 \<le> y \<Longrightarrow> y < 2038 \<Longrightarrow> leap_year y = (y mod 4 = 0)"
proof -
  assume y: "1970 \<le> y" "y < 2038"
  have "y mod 100 = 0 \<Longrightarrow> y = 2000"
  proof -
    assume "y mod 100 = 0"
    moreover from y have "y div 100 = 19 \<or> y div 100 = 20"
      by linarith
    ultimately show ?thesis
      using div_mult_mod_eq [of y 100] y by auto
  qed
  then show ?thesis
    by (cases "y mod 100 = 0") (auto simp: leap_year_def)
qed

lemma months_length: "length (if b then MONTHS_LEAP else MONTHS) = 12"
  by (simp add: MONTHS_def MONTHS_LEAP_def)

lemma month_sum_add: "month_sum m n (t + u) = month_sum m n t + u"
  by (induction m n t arbitrary: u rule: month_sum.induct) (simp_all add: ac_simps)

lemma month_sum_days:
  assumes "m < 12"
  shows "month_sum (if leap_year y then MONTHS_LEAP else MONTHS) m t = t + int (days_to_month y (Suc m)) * SECONDS_PER_DAY"
proof -
  have "m \<in> {0, 1, 2, 3, 4, 5, 6, 7, 8, 9, 10, 11}"
    using assms by (auto simp: numeral_eq_Suc less_Suc_eq)
  then show ?thesis
    by (auto simp: MONTHS_def MONTHS_LEAP_def month_days_def eval_nat_numeral algebra_simps)
qed

lemma int32_id: "- 2147483648 \<le> x \<Longrightarrow> x < 2147483648 \<Longrightarrow> int32 x = x"
  by (simp add: int32_def)

section \<open>Properties\<close>

text \<open>The seconds from 1970-01-01 0:00 to a date and time of day.\<close>

definition seconds_number :: "nat \<Rightarrow> nat \<Rightarrow> nat \<Rightarrow> nat \<Rightarrow> nat \<Rightarrow> nat \<Rightarrow> int" where
  "seconds_number y m d hour minute second =
     int (day_number y m d) * 86400 + int hour * 3600 + int minute * 60 + int second"

lemma KnlGetDateTime_eq:
  assumes "1970 \<le> y" "y < 2038" "1 \<le> m" "m \<le> 12" "1 \<le> d" "hour < 24" "minute < 60" "second < 60"
  shows "KnlGetDateTime offset (int y) (int m) (int d) (int hour) (int minute) (int second) =
    Some \<lparr>dt_timestamp = int32 (seconds_number y m d hour minute second - offset), dt_offset = offset,
      dt_d = \<lparr>d_year = of_nat y, d_month = of_nat m, d_day = of_nat d, d_leap = leap_year y,
        d_week = of_int (KnlGetWeek (int y) (int m) (int d))\<rparr>,
      dt_t = \<lparr>t_hour = of_nat hour, t_minute = of_nat minute, t_second = of_nat second\<rparr>\<rparr>"
proof -
  have leap: "(int y smod 4 = 0 \<or> (int y > 100 \<and> int y smod 400 = 0)) = leap_year y"
  proof -
    have "y mod 400 = 0 \<Longrightarrow> y mod 4 = 0"
      using dvd_trans [of "4::nat" 400 y] by (simp add: dvd_eq_mod_eq_0)
    moreover have "int y smod 4 = int (y mod 4)" "int y smod 400 = int (y mod 400)"
      by (simp_all add: sdiv_pos zmod_int)
    ultimately show ?thesis
      using leap_year_range [OF assms(1,2)] by auto
  qed
  have n: "(int y - 1) sdiv 4 - (int y - 1) sdiv 100 + (int y - 1) sdiv 400 = leaps (int y - 1)"
    using assms(1) by (simp add: sdiv_pos leaps_def)
  have m: "nat (int m - 1) = m - 1" "m - 1 < 12" "Suc (m - 1) = m"
    using assms(3,4) by auto
  let ?t = "- offset + int second + int minute * SECONDS_PER_MINUTE + int hour * SECONDS_PER_HOUR +
    (int d - 1) * SECONDS_PER_DAY + (leaps (int y - 1) - 477) * 366 * SECONDS_PER_DAY +
    (int y - 1 - leaps (int y - 1) - 1492) * 365 * SECONDS_PER_DAY"
  have "month_sum (if leap_year y then MONTHS_LEAP else MONTHS) (m - 1) ?t = seconds_number y m d hour minute second - offset"
    unfolding month_sum_days [OF m(2)] m(3) using days_to_year_leaps [OF assms(1)] assms(5)
    by (simp add: seconds_number_def day_number_def SECONDS_PER_DAY_def SECONDS_PER_HOUR_def SECONDS_PER_MINUTE_def
        of_nat_diff algebra_simps)
  then show ?thesis
    using assms unfolding KnlGetDateTime_def Let_def leap n m(1) by simp
qed

text \<open>For every date from 1970 to 2037 \<open>KnlGetDateTime\<close> succeeds and its time stamp is the
  number of seconds since 1970-01-01 0:00, counted day by day on the Gregorian calendar, less the
  offset; the leap flag is the Gregorian one.\<close>

theorem KnlGetDateTime_timestamp:
  assumes "1970 \<le> y" "y < 2038" "1 \<le> m" "m \<le> 12" "1 \<le> d" "d \<le> month_days y m"
    "hour < 24" "minute < 60" "second < 60"
    "- 2147483648 \<le> seconds_number y m d hour minute second - offset"
    "seconds_number y m d hour minute second - offset < 2147483648"
  shows "\<exists>dt. KnlGetDateTime offset (int y) (int m) (int d) (int hour) (int minute) (int second) = Some dt \<and>
    dt_timestamp dt = seconds_number y m d hour minute second - offset \<and> d_leap (dt_d dt) = leap_year y"
  using KnlGetDateTime_eq [of y m d hour minute second offset] assms int32_id [OF assms(10,11)] by simp

lemma days_to_month_numeral [simp]:
  "days_to_month y (numeral v) =
     (if pred_numeral v = 0 then 0 else days_to_month y (pred_numeral v) + month_days y (pred_numeral v))"
  by (simp add: numeral_eq_Suc)

lemma day_number_eval:
  "day_number 2000 2 29 = 11016" "day_number 2037 12 31 = 24836"
proof -
  have "int (days_to_year 2000) = 10957" "int (days_to_year 2037) = 24472"
    using days_to_year_closed [of 2000] days_to_year_closed [of 2037] by simp_all
  then show "day_number 2000 2 29 = 11016" "day_number 2037 12 31 = 24836"
    by (simp_all add: day_number_def month_days_def leap_year_def)
qed

theorem KnlGetDateTime_timestamp_witness:
  "\<exists>dt. KnlGetDateTime 28800 2000 2 29 12 30 5 = Some dt \<and> dt_timestamp dt = 951798605 \<and> d_leap (dt_d dt)"
  using KnlGetDateTime_timestamp [of 2000 2 29 12 30 5 28800]
  by (simp add: seconds_number_def day_number_eval month_days_def leap_year_def)

lemma month_days_le: "month_days y m \<le> 31"
  by (simp add: month_days_def)

lemma delta_days:
  assumes "1 \<le> m" "m \<le> 12"
  shows "int (days_to_month y m) mod 7 =
    ([0, 3, 3, 6, 1, 4, 6, 2, 5, 0, 3, 5] ! nat (int m - 1) + (if m > 2 \<and> leap_year y then 1 else 0)) mod 7"
    "[0, 3, 3, 6, 1, 4, 6, 2, 5, 0, 3, 5] ! nat (int m - 1) \<in> {0..6::int}"
proof -
  have "m \<in> {1, 2, 3, 4, 5, 6, 7, 8, 9, 10, 11, 12}"
    using assms by (auto simp: numeral_eq_Suc less_Suc_eq le_Suc_eq)
  then show "int (days_to_month y m) mod 7 =
      ([0, 3, 3, 6, 1, 4, 6, 2, 5, 0, 3, 5] ! nat (int m - 1) + (if m > 2 \<and> leap_year y then 1 else 0)) mod 7"
    "[0, 3, 3, 6, 1, 4, 6, 2, 5, 0, 3, 5] ! nat (int m - 1) \<in> {0..6::int}"
    by (auto simp: month_days_def eval_nat_numeral)
qed

text \<open>The day of the week (0 is Sunday) is the one that follows from the day count, 1970-01-01
  being a Thursday, for every date from 1970 to 2037 but those from March to December 2000, for
  which \<open>_KnlGetWeek\<close> answers the day before: its leap test rejects every year divisible by 100.\<close>

theorem KnlGetWeek_day_number:
  assumes "1970 \<le> y" "y < 2038" "1 \<le> m" "m \<le> 12" "1 \<le> d" "d \<le> month_days y m"
  shows "KnlGetWeek (int y) (int m) (int d) =
    (int (day_number y m d) + (if y = 2000 \<and> m > 2 then 3 else 4)) mod 7"
proof -
  let ?D = "[0, 3, 3, 6, 1, 4, 6, 2, 5, 0, 3, 5] ! nat (int m - 1) :: int" and ?l = "leaps (int y - 1)"
  define b :: int where "b = (if m > 2 \<and> leap_year y then 1 else 0)"
  define c :: int where "c = (if m > 2 \<and> leap_year y \<and> y \<noteq> 2000 then 1 else 0)"
  have d31: "d \<le> 31"
    using assms(6) month_days_le [of y m] by simp
  have test: "(int m > 2 \<and> ((int y smod 4 = 0 \<or> int y smod 400 = 0) \<and> int y smod 100 \<noteq> 0)) \<longleftrightarrow> m > 2 \<and> leap_year y \<and> y \<noteq> 2000"
  proof -
    have "int y smod 4 = int (y mod 4)" "int y smod 400 = int (y mod 400)" "int y smod 100 = int (y mod 100)"
      by (simp_all add: sdiv_pos zmod_int)
    moreover have "y mod 100 = 0 \<longleftrightarrow> y = 2000"
      using assms(1,2) by presburger
    moreover have "y mod 400 = 0 \<Longrightarrow> y mod 4 = 0"
      using dvd_trans [of "4::nat" 400 y] by (simp add: dvd_eq_mod_eq_0)
    ultimately show ?thesis
      using leap_year_range [OF assms(1,2)] by auto
  qed
  define p4 p100 p400 where p: "p4 = (int y - 1) div 4" "p100 = (int y - 1) div 100" "p400 = (int y - 1) div 400"
  have n: "(int y - 1) sdiv 4 = p4" "(int y - 1) sdiv 100 = p100" "(int y - 1) sdiv 400 = p400" "?l = p4 - p100 + p400"
    using assms(1) by (simp_all add: sdiv_pos leaps_def p)
  have "492 \<le> p4" "p4 \<le> 509" "19 \<le> p100" "p100 \<le> 20" "4 \<le> p400" "p400 \<le> 5"
    using assms(1,2) unfolding p by linarith+
  then have l: "470 \<le> ?l" "?l \<le> 600"
    unfolding n(4) by linarith+
  define D where "D = ?D"
  let ?w = "int d - 1 + int y + D + ?l + c"
  have "0 \<le> D" "D \<le> 6"
    using delta_days(2) [OF assms(3,4)] by (simp_all only: D_def atLeastAtMost_iff)
  then have w: "0 \<le> ?w" "?w < 10000"
    using l assms(1,2,5) d31 by (auto simp: c_def)
  have "(if m > 2 \<and> leap_year y \<and> y \<noteq> 2000 then int d - 1 + int y + D + p4 - p100 + p400 + 1
      else int d - 1 + int y + D + p4 - p100 + p400) = ?w"
    unfolding n(4) by (simp add: c_def)
  then have "KnlGetWeek (int y) (int m) (int d) = int32 ?w smod 7"
    unfolding KnlGetWeek_def Let_def test n(1-3) D_def [symmetric] by simp
  also have "\<dots> = ?w mod 7"
    using w int32_id [of ?w] by (simp only: sdiv_pos(2))
  also have "\<dots> = (int (day_number y m d) + (if y = 2000 \<and> m > 2 then 3 else 4)) mod 7"
  proof -
    have dn: "int (day_number y m d) = 365 * (int y - 1970) + ?l - 477 + int (days_to_month y m) + (int d - 1)"
      using days_to_year_leaps [OF assms(1)] assms(5) by (simp add: day_number_def of_nat_diff)
    have lb: "(if y = 2000 \<and> m > 2 then 3 else 4) = 4 - b + c"
      by (auto simp: b_def c_def leap_year_def)
    have "int (days_to_month y m) mod 7 = (D + b) mod 7"
      using delta_days(1) [OF assms(3,4), of y] unfolding b_def D_def .
    then obtain q where q: "int (days_to_month y m) = D + b + 7 * q"
      by (metis mod_eqE)
    have e: "int (day_number y m d) + (4 - b + c) = ?w + (52 * int y - 102789 + q) * 7"
      unfolding dn q by simp
    then show ?thesis
      by (simp only: lb e mod_mult_self1)
  qed
  finally show ?thesis .
qed

theorem KnlGetWeek_day_number_witness:
  "KnlGetWeek 2000 2 29 = 2 \<and> KnlGetWeek 2037 12 31 = 4 \<and> KnlGetWeek 2000 3 1 = 2"
proof -
  have "day_number 2000 3 1 = 11017"
    using day_number_eval(1) by (simp add: day_number_def month_days_def leap_year_def)
  then show ?thesis
    using KnlGetWeek_day_number [of 2000 2 29] KnlGetWeek_day_number [of 2037 12 31] KnlGetWeek_day_number [of 2000 3 1]
    by (simp add: day_number_eval month_days_def leap_year_def)
qed

section \<open>From time stamps back to dates\<close>

lemma month_loop_take:
  "k < length ms \<Longrightarrow> \<forall>l \<in> set ms. 0 < l \<Longrightarrow> 1 \<le> d \<Longrightarrow> d \<le> ms ! k \<Longrightarrow>
     month_loop ms i (sum_list (take k ms) + d) = (i + int k + 1, d)"
proof (induction ms arbitrary: k i)
  case (Cons l ms)
  show ?case
  proof (cases k)
    case 0
    then show ?thesis
      using Cons.prems by (auto simp: Let_def)
  next
    case (Suc j)
    have "0 \<le> sum_list (take j ms)"
      using Cons.prems(2) by (intro sum_list_nonneg) (auto dest!: in_set_takeD)
    then show ?thesis
      using Cons.IH [of j "i + 1"] Cons.prems Suc by (simp add: Let_def add.assoc)
  qed
qed simp

lemma months_take:
  assumes "1 \<le> m" "m \<le> 12"
  shows "sum_list (take (m - 1) (if leap_year y then MONTHS_LEAP else MONTHS)) = int (days_to_month y m)"
    "(if leap_year y then MONTHS_LEAP else MONTHS) ! (m - 1) = int (month_days y m)"
proof -
  have "m \<in> {1, 2, 3, 4, 5, 6, 7, 8, 9, 10, 11, 12}"
    using assms(1,2) by (auto simp: numeral_eq_Suc less_Suc_eq le_Suc_eq)
  then show "sum_list (take (m - 1) (if leap_year y then MONTHS_LEAP else MONTHS)) = int (days_to_month y m)"
    "(if leap_year y then MONTHS_LEAP else MONTHS) ! (m - 1) = int (month_days y m)"
    by (auto simp: month_days_def MONTHS_def MONTHS_LEAP_def)
qed

lemma month_loop_days:
  assumes "1 \<le> m" "m \<le> 12" "1 \<le> d" "d \<le> month_days y m"
  shows "month_loop (if leap_year y then MONTHS_LEAP else MONTHS) 0 (int (days_to_month y m) + int d) = (int m, int d)"
proof -
  have "\<forall>l \<in> set (if leap_year y then MONTHS_LEAP else MONTHS). 0 < l"
    by (auto simp: MONTHS_def MONTHS_LEAP_def)
  moreover have "m - 1 < length (if leap_year y then MONTHS_LEAP else MONTHS)"
    using assms by (simp only: months_length)
  ultimately show ?thesis
    using month_loop_take [of "m - 1" "if leap_year y then MONTHS_LEAP else MONTHS" "int d" 0]
      months_take [OF assms(1,2), of y] assms by (simp only:) simp
qed

text \<open>Years 1970 and 1971 of every four; the code's cycle of four has its leap year last.\<close>

lemma days_to_year_cycle:
  "1970 + 4 * k < 2038 \<Longrightarrow> days_to_year (1970 + 4 * k) = 1461 * k \<and> days_to_year (1971 + 4 * k) = 1461 * k + 365"
proof (induction k)
  case 0
  have "int (days_to_year 1970) = 0" "int (days_to_year 1971) = 365"
    using days_to_year_closed [of 1970] days_to_year_closed [of 1971] by simp_all
  then show ?case
    by simp
next
  case (Suc k)
  let ?y = "1970 + 4 * k"
  have "(1971 + 4 * k) mod 4 = 3" "(1972 + 4 * k) mod 4 = 0" "(1973 + 4 * k) mod 4 = 1" "(1974 + 4 * k) mod 4 = 2"
    by presburger+
  then have l: "\<not> leap_year (1971 + 4 * k)" "leap_year (1972 + 4 * k)" "\<not> leap_year (1973 + 4 * k)" "\<not> leap_year (1974 + 4 * k)"
    using Suc(2) leap_year_range [of "1971 + 4 * k"] leap_year_range [of "1972 + 4 * k"]
      leap_year_range [of "1973 + 4 * k"] leap_year_range [of "1974 + 4 * k"] by simp_all
  have "days_to_year (Suc y) = days_to_year y + (if leap_year y then 366 else 365)" if "1970 \<le> y" for y
    using that by simp
  from this [of "1971 + 4 * k"] this [of "1972 + 4 * k"] this [of "1973 + 4 * k"] this [of "1974 + 4 * k"] show ?case
    using Suc l by simp
qed

lemma days_to_month_bound:
  assumes "1 \<le> m" "m \<le> 12" "1 \<le> d" "d \<le> month_days y m" "\<not> (m = 12 \<and> d = 31)" "\<not> leap_year y"
  shows "days_to_month y m + d < 365"
proof -
  have "m \<in> {1, 2, 3, 4, 5, 6, 7, 8, 9, 10, 11, 12}"
    using assms(1,2) by (auto simp: numeral_eq_Suc less_Suc_eq le_Suc_eq)
  then show ?thesis
    using assms(3-6) by (auto simp: month_days_def)
qed

lemma time_of_day:
  assumes "hour < 24" "minute < 60" "second < 60"
  defines "x \<equiv> int hour * 3600 + int minute * 60 + int second"
  shows "0 \<le> x" "x < 86400" "x div 3600 = int hour" "(x - int hour * 3600) div 60 = int minute"
    "x - int hour * 3600 - int minute * 60 = int second"
  using assms by auto

lemma cycle_split:
  assumes "y mod 4 = 2 \<or> y mod 4 = 3" "1970 \<le> y"
  obtains k p where "y = 1970 + 4 * k + p" "p = 0 \<or> p = (1::nat)"
proof -
  have "y = 1970 + 4 * ((y - 1970) div 4) + (y mod 4 - 2)"
    using assms by presburger
  then show thesis
    using assms(1) by (intro that [of "(y - 1970) div 4" "y mod 4 - 2"]) auto
qed

text \<open>In the first two years of every four (1970, 1971, 1974, ...), on every day but December
  31, \<open>KnlGetDateTimeByUnixTimestamp\<close> gives back exactly the date and time of which
  \<open>KnlGetDateTime\<close> computed the time stamp.\<close>

theorem unix_timestamp_roundtrip:
  assumes "1970 \<le> y" "y < 2038" "y mod 4 = 2 \<or> y mod 4 = 3" "1 \<le> m" "m \<le> 12" "1 \<le> d" "d \<le> month_days y m"
    "\<not> (m = 12 \<and> d = 31)" "hour < 24" "minute < 60" "second < 60"
    "0 \<le> seconds_number y m d hour minute second - offset"
    "seconds_number y m d hour minute second < 2147483648" "- 2147483648 \<le> offset"
    "seconds_number y m d hour minute second - offset < 2147483648"
    "KnlGetDateTime offset (int y) (int m) (int d) (int hour) (int minute) (int second) = Some dt"
  shows "KnlGetDateTimeByUnixTimestamp (dt_timestamp dt) offset = Some dt"
proof -
  obtain k p where y: "y = 1970 + 4 * k + p" "p = 0 \<or> p = 1"
    using cycle_split [OF assms(3,1)] .
  have l: "\<not> leap_year y"
    using leap_year_range [OF assms(1,2)] assms(3) by auto
  define r where "r = int (days_to_month y m) + int d"
  have r: "1 \<le> r" "r < 365"
    using days_to_month_bound [OF assms(4-8) l] assms(6) by (auto simp: r_def)
  have "days_to_year y = 1461 * k + 365 * p"
    using days_to_year_cycle [of k] y assms(2) by auto
  then have N: "int (day_number y m d) = 1461 * int k + 365 * int p + r - 1"
    using assms(6) by (simp add: day_number_def r_def of_nat_diff)
  define x where "x = int hour * 3600 + int minute * 60 + int second"
  note tod = time_of_day [OF assms(9-11), folded x_def]
  let ?T = "seconds_number y m d hour minute second"
  have T: "?T = int (day_number y m d) * 86400 + x" "0 \<le> ?T"
    by (simp_all add: seconds_number_def x_def)
  have dt: "dt_timestamp dt = ?T - offset"
    and dt': "dt = \<lparr>dt_timestamp = ?T - offset, dt_offset = offset,
      dt_d = \<lparr>d_year = of_nat y, d_month = of_nat m, d_day = of_nat d, d_leap = False,
        d_week = of_int (KnlGetWeek (int y) (int m) (int d))\<rparr>,
      dt_t = \<lparr>t_hour = of_nat hour, t_minute = of_nat minute, t_second = of_nat second\<rparr>\<rparr>"
    using KnlGetDateTime_eq [OF assms(1,2,4,5,6,9-11), of offset] assms(16) int32_id [of "?T - offset"] assms(12,15) l by auto
  have e: "int32 (?T - offset + offset) = ?T"
    using int32_id [of ?T] T(2) assms(13) by simp
  have sd: "?T sdiv SECONDS_PER_DAY = int (day_number y m d)" "?T smod SECONDS_PER_DAY = x"
    using tod(1,2) T by (simp_all add: SECONDS_PER_DAY_def SECONDS_PER_HOUR_def SECONDS_PER_MINUTE_def sdiv_pos)
  have hm: "x sdiv SECONDS_PER_HOUR = int hour" "(x - int hour * SECONDS_PER_HOUR) sdiv SECONDS_PER_MINUTE = int minute"
    "x - int hour * SECONDS_PER_HOUR - int minute * SECONDS_PER_MINUTE = int second"
    using tod by (simp_all add: SECONDS_PER_HOUR_def SECONDS_PER_MINUTE_def sdiv_pos)
  have nd: "(int (day_number y m d) + 1) sdiv FOUR_YEARS = int k" "(int (day_number y m d) + 1) smod FOUR_YEARS = 365 * int p + r"
  proof -
    have "int (day_number y m d) + 1 = (365 * int p + r) + int k * 1461"
      using N by simp
    moreover have "0 \<le> 365 * int p + r" "365 * int p + r < 1461"
      using r y(2) by auto
    ultimately show "(int (day_number y m d) + 1) sdiv FOUR_YEARS = int k"
      "(int (day_number y m d) + 1) smod FOUR_YEARS = 365 * int p + r"
      by (simp_all add: FOUR_YEARS_def sdiv_pos)
  qed
  have loop: "month_loop MONTHS 0 r = (int m, int d)"
    using month_loop_days [OF assms(4-7)] l by (simp add: r_def)
  have yr: "int y = 1970 + int k * 4 + int p"
    using y(1) by simp
  show ?thesis
    using y(2)
  proof
    assume p: "p = 0"
    then have "1970 + int k * 4 = int y"
      using yr by simp
    with p show ?thesis
      using r assms(12) unfolding dt KnlGetDateTimeByUnixTimestamp_def Let_def e sd nd
      by (simp add: loop hm dt')
  next
    assume p: "p = 1"
    then have "1971 + int k * 4 = int y" "(1971 + word_of_nat k * 4 :: u16) = word_of_nat y"
      using yr y by simp_all
    with p show ?thesis
      using r assms(12) unfolding dt KnlGetDateTimeByUnixTimestamp_def Let_def e sd nd
      by (simp add: loop hm dt')
  qed
qed

lemma day_number_1971: "day_number 1971 3 14 = 437"
proof -
  have "int (days_to_year 1971) = 365"
    using days_to_year_closed [of 1971] by simp
  then show ?thesis
    by (simp add: day_number_def month_days_def leap_year_def)
qed

theorem unix_timestamp_roundtrip_witness:
  "\<exists>dt. KnlGetDateTime (- 3600) 1971 3 14 15 9 26 = Some dt \<and> KnlGetDateTimeByUnixTimestamp (dt_timestamp dt) (- 3600) = Some dt"
proof -
  obtain dt where dt: "KnlGetDateTime (- 3600) 1971 3 14 15 9 26 = Some dt"
    using KnlGetDateTime_eq [of 1971 3 14 15 9 26 "- 3600"] by simp
  have "KnlGetDateTimeByUnixTimestamp (dt_timestamp dt) (- 3600) = Some dt"
    using unix_timestamp_roundtrip [of 1971 3 14 15 9 26 "- 3600" dt] dt
    by (simp add: seconds_number_def day_number_1971 month_days_def)
  with dt show ?thesis
    by blast
qed

text \<open>It does not on the others: noon of December 31 1970 comes back as day 0 of January 1971,
  noon of February 29 1972 as March 1, and noon of January 1 1973 as January 2 of a leap year.\<close>

theorem unix_timestamp_wrong_days:
  "map_option (\<lambda>dt. (d_year (dt_d dt), d_month (dt_d dt), d_day (dt_d dt), d_leap (dt_d dt)))
     (KnlGetDateTimeByUnixTimestamp (dt_timestamp (the (KnlGetDateTime 0 1970 12 31 12 0 0))) 0) = Some (1971, 1, 0, False) \<and>
   map_option (\<lambda>dt. (d_year (dt_d dt), d_month (dt_d dt), d_day (dt_d dt), d_leap (dt_d dt)))
     (KnlGetDateTimeByUnixTimestamp (dt_timestamp (the (KnlGetDateTime 0 1972 2 29 12 0 0))) 0) = Some (1972, 3, 1, False) \<and>
   map_option (\<lambda>dt. (d_year (dt_d dt), d_month (dt_d dt), d_day (dt_d dt), d_leap (dt_d dt)))
     (KnlGetDateTimeByUnixTimestamp (dt_timestamp (the (KnlGetDateTime 0 1973 1 1 12 0 0))) 0) = Some (1973, 1, 2, True)"
  by code_simp

section \<open>Rectangles and days of the month\<close>

text \<open>For rectangles and points with non-negative coordinates, the far corner included,
  \<open>point_in_rect\<close> says whether the point is inside, the right and lower edge excluded.\<close>

theorem point_in_rect_inside:
  assumes "0 \<le> sint px" "0 \<le> sint py" "0 \<le> sint rx" "0 \<le> sint ry"
    "uint rx + uint rw < 2147483648" "uint ry + uint rh < 2147483648"
  shows "point_in_rect px py rx ry rw rh \<longleftrightarrow>
    sint rx \<le> sint px \<and> sint px < sint rx + uint rw \<and> sint ry \<le> sint py \<and> sint py < sint ry + uint rh"
proof -
  have pos: "sint x = uint x" if "0 \<le> sint x" for x :: u32
  proof -
    have "take_bit 32 (uint x) = uint x" "uint x < 4294967296"
      using uint_lt2p [of x] by (simp_all add: take_bit_int_eq_self_iff)
    then show ?thesis
      using that by (cases "bit (uint x) 31") (simp_all add: sint_uint signed_take_bit_eq_take_bit_minus)
  qed
  have add: "uint (x + w) = uint x + uint w" if "uint x + uint w < 2147483648" for x w :: u32
    using that by (subst uint_plus_if') simp
  show ?thesis
    unfolding point_in_rect_def word_sless_alt word_le_def add [OF assms(5)] add [OF assms(6)]
    using pos [OF assms(1)] pos [OF assms(2)] pos [OF assms(3)] pos [OF assms(4)] by auto
qed

theorem point_in_rect_inside_witness:
  "point_in_rect 14 9 10 5 5 5 \<and> \<not> point_in_rect 15 9 10 5 5 5"
  using point_in_rect_inside [of 14 9 10 5 5 5] point_in_rect_inside [of 15 9 10 5 5 5] by simp

text \<open>A rectangle that starts left of the screen contains none of its points left of the screen.\<close>

lemma point_in_rect_negative: "\<not> point_in_rect (- 3) 2 (- 5) 0 10 10"
  by (simp add: point_in_rect_def word_sless_alt)

lemma get_days_of_month_2000: "get_days_of_month 2000 1 = 32" "get_days_of_month 2000 2 = 29" "get_days_of_month 2001 1 = 31"
  by (simp_all add: get_days_of_month_def Let_def)

end
