(* ===== verification/Disks.thy ===== *)
theory Disks
  imports Prelude
begin

text \<open>
  \<^verbatim>\<open>kernel/vdisk.c\<close> (the RAM disks VA and VB) and \<^verbatim>\<open>kernel/disk.c\<close> (the dispatch of disk symbols
  to drivers, with the counters of bytes read and written).  The ATA, ATAPI and AHCI drivers talk
  to hardware ports: they are the parameter \<open>drv\<close>, functions on a hardware state of any type.

  A disk symbol is its characters before the NUL, and \<open>strcmp\<close> with a constant is equality.  A
  buffer is a function from offsets to bytes, from the pointer the caller passed.  The result
  \<^const>\<open>None\<close> is an access outside \<open>disk_list\<close>, \<open>_disk_rbytes\<close> or \<open>_disk_wbytes\<close>.
\<close>

section \<open>State\<close>

type_synonym buf = "nat \<Rightarrow> u8"

datatype disk_type = DISK_TYPE_ATA | DISK_TYPE_SATA

record 'h disks =
  vdiska :: "u32 option"
  vdiskb :: "u32 option"
  vd_ram :: "u32 \<Rightarrow> buf"                \<comment> \<open>the memory of the RAM disks, by base address\<close>
  vd_answers :: "u32 option list"       \<comment> \<open>what \<open>MemAlloc\<close> will answer\<close>
  vd_freed :: "u32 option list"         \<comment> \<open>the arguments of \<open>MemFree\<close>\<close>
  disk_list :: "nat \<Rightarrow> string"
  disk_rbytes :: "nat \<Rightarrow> u64"
  disk_wbytes :: "nat \<Rightarrow> u64"
  disk_count :: nat
  disk_hard_disk_type :: disk_type
  hw :: 'h

record 'h drivers =
  AtaInit :: "'h \<Rightarrow> u32 \<times> 'h"
  AtaGetSectorCount :: "string \<Rightarrow> 'h \<Rightarrow> u32"
  AtaReadSector :: "string \<Rightarrow> u32 \<Rightarrow> buf \<Rightarrow> 'h \<Rightarrow> bool \<times> buf \<times> 'h"
  AtaWriteSector :: "string \<Rightarrow> u32 \<Rightarrow> buf \<Rightarrow> 'h \<Rightarrow> bool \<times> 'h"
  AtaReadSectors :: "string \<Rightarrow> u32 \<Rightarrow> u8 \<Rightarrow> buf \<Rightarrow> 'h \<Rightarrow> bool \<times> buf \<times> 'h"
  AtaWriteSectors :: "string \<Rightarrow> u32 \<Rightarrow> u8 \<Rightarrow> buf \<Rightarrow> 'h \<Rightarrow> bool \<times> 'h"
  AtapiReadSector512 :: "u32 \<Rightarrow> u32 \<Rightarrow> u32 \<Rightarrow> buf \<Rightarrow> 'h \<Rightarrow> bool \<times> buf \<times> 'h"
  AtapiReadSector512s :: "u32 \<Rightarrow> u32 \<Rightarrow> u32 \<Rightarrow> u32 \<Rightarrow> buf \<Rightarrow> 'h \<Rightarrow> bool \<times> buf \<times> 'h"
  AhciInit :: "'h \<Rightarrow> bool \<times> 'h"
  AhciGetPortCount :: "'h \<Rightarrow> u32"
  AhciGetSectorCount :: "u32 \<Rightarrow> 'h \<Rightarrow> u32"
  AhciRead :: "u32 \<Rightarrow> u32 \<Rightarrow> u32 \<Rightarrow> u32 \<Rightarrow> buf \<Rightarrow> 'h \<Rightarrow> bool \<times> buf \<times> 'h"
  AhciWrite :: "u32 \<Rightarrow> u32 \<Rightarrow> u32 \<Rightarrow> u32 \<Rightarrow> buf \<Rightarrow> 'h \<Rightarrow> bool \<times> 'h"

definition VDISK_SECTORS :: nat where "VDISK_SECTORS = 5000"
definition VDISK_SECTOR_SIZE :: nat where "VDISK_SECTOR_SIZE = 512"
definition VDISK_BUFFER_SIZE :: nat where "VDISK_BUFFER_SIZE = VDISK_SECTORS * VDISK_SECTOR_SIZE"
definition MAX_DISK_COUNT :: nat where "MAX_DISK_COUNT = 16"
definition DISK_BYTES_PER_SECTOR :: u64 where "DISK_BYTES_PER_SECTOR = 512"
definition ATAPI_MAX_SIZE :: u32 where "ATAPI_MAX_SIZE = 700 * 1024 * 1024"
definition ATAPI_SECTOR512_COUNT :: u32 where "ATAPI_SECTOR512_COUNT = ATAPI_MAX_SIZE div 512"
definition ATA_BUS_PRIMARY :: u32 where "ATA_BUS_PRIMARY = 0x1F0"
definition ATA_BUS_SECONDARY :: u32 where "ATA_BUS_SECONDARY = 0x170"
definition ATA_DRIVE_MASTER :: u32 where "ATA_DRIVE_MASTER = 0xA0"
definition ATA_DRIVE_SLAVE :: u32 where "ATA_DRIVE_SLAVE = 0xB0"

section \<open>\<open>vdisk.c\<close>\<close>

definition vd_alloc :: "'h disks \<Rightarrow> u32 option \<times> 'h disks" where
  "vd_alloc s = (case vd_answers s of [] \<Rightarrow> (None, s) | a # as \<Rightarrow> (a, s\<lparr>vd_answers := as\<rparr>))"

text \<open>The new memory filled with zeros.\<close>

definition vd_zero :: "u32 option \<Rightarrow> 'h disks \<Rightarrow> 'h disks" where
  "vd_zero p s =
     (case p of
        None \<Rightarrow> s
      | Some a \<Rightarrow> s\<lparr>vd_ram := (vd_ram s)(a := (\<lambda>ui. if ui < VDISK_BUFFER_SIZE then 0 else vd_ram s a ui))\<rparr>)"

definition VdskInit :: "string \<Rightarrow> 'h disks \<Rightarrow> 'h disks" where
  "VdskInit symbol s =
     (if symbol = ''VA'' then (case vd_alloc s of (p, s) \<Rightarrow> vd_zero p (s\<lparr>vdiska := p\<rparr>))
      else if symbol = ''VB'' then (case vd_alloc s of (p, s) \<Rightarrow> vd_zero p (s\<lparr>vdiskb := p\<rparr>))
      else s)"

definition VdskDestroy :: "string \<Rightarrow> 'h disks \<Rightarrow> 'h disks" where
  "VdskDestroy symbol s =
     (if symbol = ''VA'' then (if vdiskb s \<noteq> None then s\<lparr>vd_freed := vd_freed s @ [vdiska s]\<rparr> else s)
      else if symbol = ''VB'' then (if vdiskb s \<noteq> None then s\<lparr>vd_freed := vd_freed s @ [vdiskb s]\<rparr> else s)
      else s)"

definition VdskGetSectorCount :: u32 where
  "VdskGetSectorCount = of_nat VDISK_SECTORS"

definition VdskGetSize :: "string \<Rightarrow> 'h disks \<Rightarrow> u32" where
  "VdskGetSize symbol s =
     (if symbol = ''VA'' then (if vdiska s = None then 0 else of_nat (VDISK_BUFFER_SIZE div 1024))
      else if symbol = ''VB'' then (if vdiskb s = None then 0 else of_nat (VDISK_BUFFER_SIZE div 1024))
      else 0)"

text \<open>\<open>n\<close> bytes from offset \<open>i\<close> of one buffer to offset \<open>j\<close> of another.\<close>

fun copy_bytes :: "nat \<Rightarrow> buf \<Rightarrow> nat \<Rightarrow> buf \<Rightarrow> nat \<Rightarrow> buf" where
  "copy_bytes 0 src i dst j = dst"
| "copy_bytes (Suc n) src i dst j = copy_bytes n src (Suc i) (dst(j := src i)) (Suc j)"

definition vd_start :: "string \<Rightarrow> 'h disks \<Rightarrow> u32 option" where
  "vd_start symbol s = (if symbol = ''VA'' then vdiska s else if symbol = ''VB'' then vdiskb s else None)"

definition VdskReadSector :: "string \<Rightarrow> u32 \<Rightarrow> buf \<Rightarrow> nat \<Rightarrow> 'h disks \<Rightarrow> bool \<times> buf" where
  "VdskReadSector symbol pos buffer off s =
     (case vd_start symbol s of
        None \<Rightarrow> (False, buffer)
      | Some start \<Rightarrow>
          if unat pos \<ge> VDISK_SECTORS then (False, buffer)
          else (True, copy_bytes VDISK_SECTOR_SIZE (vd_ram s start) (unat pos * VDISK_SECTOR_SIZE) buffer off))"

definition VdskWriteSector :: "string \<Rightarrow> u32 \<Rightarrow> buf \<Rightarrow> nat \<Rightarrow> 'h disks \<Rightarrow> bool \<times> 'h disks" where
  "VdskWriteSector symbol pos buffer off s =
     (case vd_start symbol s of
        None \<Rightarrow> (False, s)
      | Some start \<Rightarrow>
          if unat pos \<ge> VDISK_SECTORS then (False, s)
          else (True, s\<lparr>vd_ram := (vd_ram s)(start :=
                 copy_bytes VDISK_SECTOR_SIZE buffer off (vd_ram s start) (unat pos * VDISK_SECTOR_SIZE))\<rparr>))"

fun vd_read_loop :: "string \<Rightarrow> nat \<Rightarrow> u32 \<Rightarrow> buf \<Rightarrow> nat \<Rightarrow> 'h disks \<Rightarrow> bool \<times> buf" where
  "vd_read_loop symbol 0 pos buffer off s = (True, buffer)"
| "vd_read_loop symbol (Suc c) pos buffer off s =
     (case VdskReadSector symbol pos buffer off s of
        (False, buffer) \<Rightarrow> (False, buffer)
      | (True, buffer) \<Rightarrow> vd_read_loop symbol c (pos + 1) buffer (off + 512) s)"

definition sector_count :: "u8 \<Rightarrow> nat" where
  "sector_count count = (if count = 0 then 256 else unat count)"

definition VdskReadSectors :: "string \<Rightarrow> u32 \<Rightarrow> u8 \<Rightarrow> buf \<Rightarrow> 'h disks \<Rightarrow> bool \<times> buf" where
  "VdskReadSectors symbol pos count buffer s = vd_read_loop symbol (sector_count count) pos buffer 0 s"

fun vd_write_loop :: "string \<Rightarrow> nat \<Rightarrow> u32 \<Rightarrow> buf \<Rightarrow> nat \<Rightarrow> 'h disks \<Rightarrow> bool \<times> 'h disks" where
  "vd_write_loop symbol 0 pos buffer off s = (True, s)"
| "vd_write_loop symbol (Suc c) pos buffer off s =
     (case VdskWriteSector symbol pos buffer off s of
        (False, s) \<Rightarrow> (False, s)
      | (True, s) \<Rightarrow> vd_write_loop symbol c (pos + 1) buffer (off + 512) s)"

definition VdskWriteSectors :: "string \<Rightarrow> u32 \<Rightarrow> u8 \<Rightarrow> buf \<Rightarrow> 'h disks \<Rightarrow> bool \<times> 'h disks" where
  "VdskWriteSectors symbol pos count buffer s = vd_write_loop symbol (sector_count count) pos buffer 0 s"

section \<open>\<open>disk.c\<close>: symbols\<close>

definition DskIsAhciSym :: "string \<Rightarrow> bool" where
  "DskIsAhciSym symbol =
     (case symbol of [a, b] \<Rightarrow> a = CHR ''S'' \<and> (65::nat) \<le> of_char b \<and> of_char b \<le> (90::nat) | _ \<Rightarrow> False)"

definition DskGetPortNoByAhciSym :: "string \<Rightarrow> u32" where
  "DskGetPortNoByAhciSym symbol =
     (if DskIsAhciSym symbol then of_nat (of_char (symbol ! 1) - 65) else 0xffffffff)"

definition DskIsAtaSym :: "string \<Rightarrow> bool" where
  "DskIsAtaSym symbol \<longleftrightarrow> symbol = ''DA'' \<or> symbol = ''DB'' \<or> symbol = ''DC'' \<or> symbol = ''DD''"

definition is_vdisk :: "string \<Rightarrow> bool" where
  "is_vdisk symbol \<longleftrightarrow> symbol = ''VA'' \<or> symbol = ''VB''"

definition is_cd :: "string \<Rightarrow> bool" where
  "is_cd symbol \<longleftrightarrow> symbol = ''CA'' \<or> symbol = ''CB'' \<or> symbol = ''CC'' \<or> symbol = ''CD''"

text \<open>The macro \<open>EXPLICIT_SYSTEM_DISK\<close> of \<^verbatim>\<open>system.h\<close>; it is never VS.\<close>

definition explicit_system_disk :: "'h disks \<Rightarrow> string" where
  "explicit_system_disk s = (if disk_hard_disk_type s = DISK_TYPE_SATA then ''SA'' else ''DA'')"

definition real_symbol :: "string \<Rightarrow> 'h disks \<Rightarrow> string" where
  "real_symbol symbol s = (if symbol = ''VS'' then explicit_system_disk s else symbol)"

definition DskGetBySymbol :: "u32 \<Rightarrow> 'h disks \<Rightarrow> string" where
  "DskGetBySymbol index s = (if unat index \<ge> MAX_DISK_COUNT then [] else disk_list s (unat index))"

definition DskGetCount :: "'h disks \<Rightarrow> nat" where
  "DskGetCount s = disk_count s"

text \<open>The recursive calls for VS are on \<open>EXPLICIT_SYSTEM_DISK\<close>: one level, \<open>real_symbol\<close>.\<close>

definition DskGetSize :: "'h drivers \<Rightarrow> string option \<Rightarrow> 'h disks \<Rightarrow> u32" where
  "DskGetSize drv symbol s =
     (case symbol of
        None \<Rightarrow> 0
      | Some symb \<Rightarrow>
          let sy = real_symbol symb s in
          if is_vdisk sy then VdskGetSize sy s
          else if DskIsAtaSym sy then AtaGetSectorCount drv sy (hw s)
          else if is_cd sy then ATAPI_MAX_SIZE div 1024
          else if DskIsAhciSym sy
          then ucast ((ucast (AhciGetSectorCount drv (DskGetPortNoByAhciSym sy) (hw s)) :: u64) * 512 div 1024)
          else 0)"

definition DskGetSectorCount :: "'h drivers \<Rightarrow> string option \<Rightarrow> 'h disks \<Rightarrow> u32" where
  "DskGetSectorCount drv symbol s =
     (case symbol of
        None \<Rightarrow> 0
      | Some symb \<Rightarrow>
          let sy = real_symbol symb s in
          if is_vdisk sy then VdskGetSectorCount
          else if DskIsAtaSym sy then AtaGetSectorCount drv sy (hw s)
          else if is_cd sy then ATAPI_SECTOR512_COUNT
          else if DskIsAhciSym sy then AhciGetSectorCount drv (DskGetPortNoByAhciSym sy) (hw s)
          else 0)"

definition DskGetIndexBySymbol :: "string \<Rightarrow> 'h disks \<Rightarrow> u32" where
  "DskGetIndexBySymbol symbol s =
     (case first_index (\<lambda>idx. disk_list s idx = symbol) 0 (disk_count s) of
        Some idx \<Rightarrow> of_nat idx
      | None \<Rightarrow> 0xffffffff)"

text \<open>The counters' macros, with the access they make to the array.\<close>

definition inc_rbytes :: "u32 \<Rightarrow> u64 \<Rightarrow> 'h disks \<Rightarrow> 'h disks option" where
  "inc_rbytes idx v s =
     (if unat idx < MAX_DISK_COUNT
      then Some (s\<lparr>disk_rbytes := (disk_rbytes s)(unat idx := disk_rbytes s (unat idx) + v)\<rparr>) else None)"

definition inc_wbytes :: "u32 \<Rightarrow> u64 \<Rightarrow> 'h disks \<Rightarrow> 'h disks option" where
  "inc_wbytes idx v s =
     (if unat idx < MAX_DISK_COUNT
      then Some (s\<lparr>disk_wbytes := (disk_wbytes s)(unat idx := disk_wbytes s (unat idx) + v)\<rparr>) else None)"

definition DskGetWBytes :: "string option \<Rightarrow> 'h disks \<Rightarrow> u64 option" where
  "DskGetWBytes symbol s =
     (case symbol of
        None \<Rightarrow> Some 0
      | Some symb \<Rightarrow>
          let idx = unat (DskGetIndexBySymbol (real_symbol symb s) s) in
          if idx < MAX_DISK_COUNT then Some (disk_wbytes s idx) else None)"

definition DskGetRBytes :: "string option \<Rightarrow> 'h disks \<Rightarrow> u64 option" where
  "DskGetRBytes symbol s =
     (case symbol of
        None \<Rightarrow> Some 0
      | Some symb \<Rightarrow>
          let idx = unat (DskGetIndexBySymbol (real_symbol symb s) s) in
          if idx < MAX_DISK_COUNT then Some (disk_rbytes s idx) else None)"

section \<open>\<open>disk.c\<close>: sectors\<close>

definition atapi_bus :: "string \<Rightarrow> u32" where
  "atapi_bus symbol = (if symbol = ''CA'' \<or> symbol = ''CB'' then ATA_BUS_PRIMARY else ATA_BUS_SECONDARY)"

definition atapi_drive :: "string \<Rightarrow> u32" where
  "atapi_drive symbol = (if symbol = ''CA'' \<or> symbol = ''CC'' then ATA_DRIVE_MASTER else ATA_DRIVE_SLAVE)"

text \<open>What the driver did, put back into the state.\<close>

definition did_read :: "'h disks \<Rightarrow> bool \<times> buf \<times> 'h \<Rightarrow> bool \<times> buf \<times> 'h disks" where
  "did_read s = (\<lambda>(r, buffer, h). (r, buffer, s\<lparr>hw := h\<rparr>))"

definition did_write :: "'h disks \<Rightarrow> bool \<times> 'h \<Rightarrow> bool \<times> 'h disks" where
  "did_write s = (\<lambda>(r, h). (r, s\<lparr>hw := h\<rparr>))"

text \<open>The dispatch on a symbol other than VS; \<^const>\<open>None\<close> is the early \<open>return FALSE\<close> of the
  last \<open>else\<close> (and, for writing, of a CD).\<close>

definition read_sector_dev :: "'h drivers \<Rightarrow> string \<Rightarrow> u32 \<Rightarrow> buf \<Rightarrow> 'h disks \<Rightarrow> (bool \<times> buf \<times> 'h disks) option" where
  "read_sector_dev drv symbol pos buffer s =
     (if is_vdisk symbol then (case VdskReadSector symbol pos buffer 0 s of (r, b) \<Rightarrow> Some (r, b, s))
      else if DskIsAtaSym symbol then Some (did_read s (AtaReadSector drv symbol pos buffer (hw s)))
      else if is_cd symbol
      then Some (did_read s (AtapiReadSector512 drv (atapi_bus symbol) (atapi_drive symbol) pos buffer (hw s)))
      else if DskIsAhciSym symbol
      then Some (did_read s (AhciRead drv (DskGetPortNoByAhciSym symbol) pos 0 1 buffer (hw s)))
      else None)"

definition write_sector_dev :: "'h drivers \<Rightarrow> string \<Rightarrow> u32 \<Rightarrow> buf \<Rightarrow> 'h disks \<Rightarrow> (bool \<times> 'h disks) option" where
  "write_sector_dev drv symbol pos buffer s =
     (if is_vdisk symbol then Some (VdskWriteSector symbol pos buffer 0 s)
      else if DskIsAtaSym symbol then Some (did_write s (AtaWriteSector drv symbol pos buffer (hw s)))
      else if is_cd symbol then None
      else if DskIsAhciSym symbol
      then Some (did_write s (AhciWrite drv (DskGetPortNoByAhciSym symbol) pos 0 1 buffer (hw s)))
      else None)"

definition read_sectors_dev :: "'h drivers \<Rightarrow> string \<Rightarrow> u32 \<Rightarrow> u8 \<Rightarrow> buf \<Rightarrow> 'h disks \<Rightarrow> (bool \<times> buf \<times> 'h disks) option" where
  "read_sectors_dev drv symbol pos count buffer s =
     (if is_vdisk symbol then (case VdskReadSectors symbol pos count buffer s of (r, b) \<Rightarrow> Some (r, b, s))
      else if DskIsAtaSym symbol then Some (did_read s (AtaReadSectors drv symbol pos count buffer (hw s)))
      else if is_cd symbol
      then Some (did_read s (AtapiReadSector512s drv (atapi_bus symbol) (atapi_drive symbol) pos (ucast count) buffer (hw s)))
      else if DskIsAhciSym symbol
      then Some (did_read s (AhciRead drv (DskGetPortNoByAhciSym symbol) pos 0 (ucast count) buffer (hw s)))
      else None)"

definition write_sectors_dev :: "'h drivers \<Rightarrow> string \<Rightarrow> u32 \<Rightarrow> u8 \<Rightarrow> buf \<Rightarrow> 'h disks \<Rightarrow> (bool \<times> 'h disks) option" where
  "write_sectors_dev drv symbol pos count buffer s =
     (if is_vdisk symbol then Some (VdskWriteSectors symbol pos count buffer s)
      else if DskIsAtaSym symbol then Some (did_write s (AtaWriteSectors drv symbol pos count buffer (hw s)))
      else if is_cd symbol then None
      else if DskIsAhciSym symbol
      then Some (did_write s (AhciWrite drv (DskGetPortNoByAhciSym symbol) pos 0 (ucast count) buffer (hw s)))
      else None)"

text \<open>The counting at the end of each operation, after a call that succeeded.\<close>

definition count_read :: "string \<Rightarrow> u64 \<Rightarrow> bool \<times> buf \<times> 'h disks \<Rightarrow> (bool \<times> buf \<times> 'h disks) option" where
  "count_read symbol v = (\<lambda>(r, buffer, s).
     if r then do { s \<leftarrow> inc_rbytes (DskGetIndexBySymbol symbol s) v s; Some (True, buffer, s) }
     else Some (False, buffer, s))"

definition count_write :: "string \<Rightarrow> u64 \<Rightarrow> bool \<times> 'h disks \<Rightarrow> (bool \<times> 'h disks) option" where
  "count_write symbol v = (\<lambda>(r, s).
     if r then do { s \<leftarrow> inc_wbytes (DskGetIndexBySymbol symbol s) v s; Some (True, s) }
     else Some (False, s))"

text \<open>VS calls the same function on the explicit system disk, and then counts for VS too.\<close>

definition with_system_disk ::
  "(string \<Rightarrow> 'h disks \<Rightarrow> 'r option) \<Rightarrow> (string \<Rightarrow> 'r \<Rightarrow> 'r option) \<Rightarrow> string \<Rightarrow> 'h disks \<Rightarrow> 'r option" where
  "with_system_disk op count symbol s =
     (if symbol = ''VS'' then do { x \<leftarrow> op (explicit_system_disk s) s; count ''VS'' x } else op symbol s)"

definition read_sector_sym :: "'h drivers \<Rightarrow> u32 \<Rightarrow> buf \<Rightarrow> string \<Rightarrow> 'h disks \<Rightarrow> (bool \<times> buf \<times> 'h disks) option" where
  "read_sector_sym drv pos buffer symbol s =
     (case read_sector_dev drv symbol pos buffer s of
        None \<Rightarrow> Some (False, buffer, s)
      | Some x \<Rightarrow> count_read symbol DISK_BYTES_PER_SECTOR x)"

definition write_sector_sym :: "'h drivers \<Rightarrow> u32 \<Rightarrow> buf \<Rightarrow> string \<Rightarrow> 'h disks \<Rightarrow> (bool \<times> 'h disks) option" where
  "write_sector_sym drv pos buffer symbol s =
     (case write_sector_dev drv symbol pos buffer s of
        None \<Rightarrow> Some (False, s)
      | Some x \<Rightarrow> count_write symbol DISK_BYTES_PER_SECTOR x)"

definition read_sectors_sym :: "'h drivers \<Rightarrow> u32 \<Rightarrow> u8 \<Rightarrow> buf \<Rightarrow> string \<Rightarrow> 'h disks \<Rightarrow> (bool \<times> buf \<times> 'h disks) option" where
  "read_sectors_sym drv pos count buffer symbol s =
     (case read_sectors_dev drv symbol pos count buffer s of
        None \<Rightarrow> Some (False, buffer, s)
      | Some x \<Rightarrow> count_read symbol (ucast count * DISK_BYTES_PER_SECTOR) x)"

definition write_sectors_sym :: "'h drivers \<Rightarrow> u32 \<Rightarrow> u8 \<Rightarrow> buf \<Rightarrow> string \<Rightarrow> 'h disks \<Rightarrow> (bool \<times> 'h disks) option" where
  "write_sectors_sym drv pos count buffer symbol s =
     (case write_sectors_dev drv symbol pos count buffer s of
        None \<Rightarrow> Some (False, s)
      | Some x \<Rightarrow> count_write symbol (ucast count * DISK_BYTES_PER_SECTOR) x)"

text \<open>The public operations; a NULL buffer gives no bytes back.\<close>

definition DskReadSector ::
  "'h drivers \<Rightarrow> string option \<Rightarrow> u32 \<Rightarrow> buf option \<Rightarrow> 'h disks \<Rightarrow> (bool \<times> buf option \<times> 'h disks) option" where
  "DskReadSector drv symbol pos buffer s =
     (case (symbol, buffer) of
        (Some symb, Some b) \<Rightarrow>
          map_option (\<lambda>(r, b, s). (r, Some b, s))
            (with_system_disk (read_sector_sym drv pos b) (\<lambda>sy. count_read sy DISK_BYTES_PER_SECTOR) symb s)
      | _ \<Rightarrow> Some (False, buffer, s))"

definition DskWriteSector ::
  "'h drivers \<Rightarrow> string option \<Rightarrow> u32 \<Rightarrow> buf option \<Rightarrow> 'h disks \<Rightarrow> (bool \<times> 'h disks) option" where
  "DskWriteSector drv symbol pos buffer s =
     (case (symbol, buffer) of
        (Some symb, Some b) \<Rightarrow>
          with_system_disk (write_sector_sym drv pos b) (\<lambda>sy. count_write sy DISK_BYTES_PER_SECTOR) symb s
      | _ \<Rightarrow> Some (False, s))"

definition DskReadSectors ::
  "'h drivers \<Rightarrow> string option \<Rightarrow> u32 \<Rightarrow> u8 \<Rightarrow> buf option \<Rightarrow> 'h disks \<Rightarrow> (bool \<times> buf option \<times> 'h disks) option" where
  "DskReadSectors drv symbol pos count buffer s =
     (case (symbol, buffer) of
        (Some symb, Some b) \<Rightarrow>
          map_option (\<lambda>(r, b, s). (r, Some b, s))
            (with_system_disk (read_sectors_sym drv pos count b)
               (\<lambda>sy. count_read sy (ucast count * DISK_BYTES_PER_SECTOR)) symb s)
      | _ \<Rightarrow> Some (False, buffer, s))"

definition DskWriteSectors ::
  "'h drivers \<Rightarrow> string option \<Rightarrow> u32 \<Rightarrow> u8 \<Rightarrow> buf option \<Rightarrow> 'h disks \<Rightarrow> (bool \<times> 'h disks) option" where
  "DskWriteSectors drv symbol pos count buffer s =
     (case (symbol, buffer) of
        (Some symb, Some b) \<Rightarrow>
          with_system_disk (write_sectors_sym drv pos count b)
            (\<lambda>sy. count_write sy (ucast count * DISK_BYTES_PER_SECTOR)) symb s
      | _ \<Rightarrow> Some (False, s))"

section \<open>\<open>disk.c\<close>: starting and stopping\<close>

text \<open>The local \<open>buffer\<close> of \<open>DskHasSystem\<close> is only read after a read that succeeded; it starts as zeros here.\<close>

definition SYSTEM_SIGNATURE_STRING :: string where "SYSTEM_SIGNATURE_STRING = ''ISys20''"

definition boot_signature :: "buf \<Rightarrow> bool" where
  "boot_signature buffer \<longleftrightarrow>
     buffer 510 = 0x55 \<and> buffer 511 = 0xaa \<and>
     buffer (509 - 64) = of_char (SYSTEM_SIGNATURE_STRING ! 5) \<and>
     buffer (508 - 64) = of_char (SYSTEM_SIGNATURE_STRING ! 4) \<and>
     buffer (507 - 64) = of_char (SYSTEM_SIGNATURE_STRING ! 3) \<and>
     buffer (506 - 64) = of_char (SYSTEM_SIGNATURE_STRING ! 2) \<and>
     buffer (505 - 64) = of_char (SYSTEM_SIGNATURE_STRING ! 1) \<and>
     buffer (504 - 64) = of_char (SYSTEM_SIGNATURE_STRING ! 0)"

definition DskHasSystem :: "'h drivers \<Rightarrow> string option \<Rightarrow> 'h disks \<Rightarrow> (bool \<times> 'h disks) option" where
  "DskHasSystem drv symbol s =
     (case symbol of
        None \<Rightarrow> Some (False, s)
      | Some symb \<Rightarrow>
          let sy = Some (real_symbol symb s) in
          if DskGetSize drv sy s \<noteq> 0 then do {
            (r, buffer, s) \<leftarrow> DskReadSector drv sy 0 (Some (\<lambda>_. 0)) s;
            if \<not> r then Some (False, s)
            else (case buffer of None \<Rightarrow> None | Some b \<Rightarrow> Some (boot_signature b, s)) }
          else Some (False, s))"

text \<open>A new entry at the end of \<open>disk_list\<close>, its counters zero; \<open>UtlCopyString\<close> copies at most two characters.\<close>

definition add_disk :: "string \<Rightarrow> 'h disks \<Rightarrow> 'h disks option" where
  "add_disk symbol s =
     (if disk_count s < MAX_DISK_COUNT
      then Some (s\<lparr>disk_rbytes := (disk_rbytes s)(disk_count s := 0), disk_wbytes := (disk_wbytes s)(disk_count s := 0),
                   disk_list := (disk_list s)(disk_count s := take 2 symbol), disk_count := disk_count s + 1\<rparr>)
      else None)"

fun add_ahci_loop :: "nat \<Rightarrow> nat \<Rightarrow> 'h disks \<Rightarrow> 'h disks option" where
  "add_ahci_loop ui 0 s = Some s"
| "add_ahci_loop ui (Suc n) s = do { s \<leftarrow> add_disk [CHR ''S'', char_of (65 + ui)] s; add_ahci_loop (Suc ui) n s }"

text \<open>The three parts of the branch HD of \<open>DskInit\<close>: ATA, AHCI, and which disk holds the system.\<close>

definition init_ata :: "'h drivers \<Rightarrow> 'h disks \<Rightarrow> 'h disks option" where
  "init_ata drv s = do {
     let r = fst (AtaInit drv (hw s));
     let s = s\<lparr>hw := snd (AtaInit drv (hw s))\<rparr>;
     s \<leftarrow> (if r AND 1 \<noteq> 0 then add_disk ''DA'' s else Some s);
     s \<leftarrow> (if r AND 2 \<noteq> 0 then add_disk ''DB'' s else Some s);
     s \<leftarrow> (if r AND 4 \<noteq> 0 then add_disk ''DC'' s else Some s);
     if r AND 8 \<noteq> 0 then add_disk ''DD'' s else Some s }"

definition init_ahci :: "'h drivers \<Rightarrow> 'h disks \<Rightarrow> 'h disks option" where
  "init_ahci drv s =
     (let ok = fst (AhciInit drv (hw s)); s = s\<lparr>hw := snd (AhciInit drv (hw s))\<rparr> in
      if ok then add_ahci_loop 0 (min (unat (AhciGetPortCount drv (hw s))) 26) s else Some s)"

definition find_system_disk :: "'h drivers \<Rightarrow> 'h disks \<Rightarrow> 'h disks option" where
  "find_system_disk drv s = do {
     (sata, s) \<leftarrow> DskHasSystem drv (Some ''SA'') s;
     if sata then Some (s\<lparr>disk_hard_disk_type := DISK_TYPE_SATA\<rparr>)
     else do {
       (_, s) \<leftarrow> DskHasSystem drv (Some ''DA'') s;
       Some (s\<lparr>disk_hard_disk_type := DISK_TYPE_ATA\<rparr>) } }"

definition DskInit :: "'h drivers \<Rightarrow> string option \<Rightarrow> 'h disks \<Rightarrow> 'h disks option" where
  "DskInit drv symbol s =
     (case symbol of
        None \<Rightarrow> Some s
      | Some symb \<Rightarrow>
          if is_vdisk symb then add_disk symb (VdskInit symb s)
          else if symb = ''HD'' then do { s \<leftarrow> init_ata drv s; s \<leftarrow> init_ahci drv s; find_system_disk drv s }
          else Some s)"

definition DskDestroy :: "string option \<Rightarrow> 'h disks \<Rightarrow> 'h disks" where
  "DskDestroy symbol s =
     (case symbol of None \<Rightarrow> s | Some symb \<Rightarrow> if is_vdisk symb then VdskDestroy symb s else s)"

end
