(* ===== verification/Disks_Proofs.thy ===== *)
theory Disks_Proofs
  imports Disks
begin

text \<open>
  What reading and writing a RAM disk does to its bytes, the sectors of a disk as an array that
  both operations implement, and the counters of the disk layer.
\<close>

section \<open>Bytes\<close>

lemma copy_bytes_at:
  "copy_bytes n src i dst j k = (if j \<le> k \<and> k < j + n then src (i + (k - j)) else dst k)"
proof (induction n src i dst j rule: copy_bytes.induct)
  case (2 n src i dst j)
  show ?case
    unfolding copy_bytes.simps 2 by (auto simp: fun_upd_apply not_less_eq_eq intro!: arg_cong [of _ _ src])
qed auto

text \<open>The bytes from \<open>m\<close> sectors of \<open>src\<close> put at sector \<open>p\<close> of \<open>dst\<close>.\<close>

definition put_sectors :: "nat \<Rightarrow> nat \<Rightarrow> buf \<Rightarrow> nat \<Rightarrow> buf \<Rightarrow> buf" where
  "put_sectors p m src off dst = (\<lambda>k. if p * 512 \<le> k \<and> k < (p + m) * 512 then src (off + (k - p * 512)) else dst k)"

lemma unat_Suc32: "unat (pos :: u32) < 4294967295 \<Longrightarrow> unat (pos + 1) = Suc (unat pos)"
  by (subst unat_plus_if_lt) simp_all

lemma VdskWriteSector_eq:
  "vd_start symb s = Some a \<Longrightarrow> unat pos < 5000 \<Longrightarrow>
     VdskWriteSector symb pos b off s = (True, s\<lparr>vd_ram := (vd_ram s)(a := put_sectors (unat pos) 1 b off (vd_ram s a))\<rparr>)"
  proof -
  assume a: "vd_start symb s = Some a" "unat pos < 5000"
  have "copy_bytes 512 b off (vd_ram s a) (unat pos * 512) = put_sectors (unat pos) 1 b off (vd_ram s a)"
    by (rule ext) (auto simp: copy_bytes_at put_sectors_def)
  then show ?thesis
    using a by (simp add: VdskWriteSector_def VDISK_SECTORS_def VDISK_SECTOR_SIZE_def)
qed

lemma vd_start_ram [simp]: "vd_start symb (s\<lparr>vd_ram := r\<rparr>) = vd_start symb s"
  by (simp add: vd_start_def)

lemma put_sectors_Suc:
  "put_sectors (Suc p) m src (off + 512) (put_sectors p 1 src off dst) = put_sectors p (Suc m) src off dst"
  by (rule ext) (auto simp: put_sectors_def intro!: arg_cong [of _ _ src])

lemma vd_write_loop_eq:
  "vd_start symb s = Some a \<Longrightarrow> unat pos + c \<le> 5000 \<Longrightarrow>
     vd_write_loop symb c pos b off s =
       (True, s\<lparr>vd_ram := (vd_ram s)(a := put_sectors (unat pos) c b off (vd_ram s a))\<rparr>)"
proof (induction c arbitrary: pos off s)
  case 0
  have "put_sectors (unat pos) 0 b off (vd_ram s a) = vd_ram s a"
    by (rule ext) (auto simp: put_sectors_def)
  then show ?case
    by simp
next
  case (Suc c)
  let ?s = "s\<lparr>vd_ram := (vd_ram s)(a := put_sectors (unat pos) 1 b off (vd_ram s a))\<rparr>"
  have "VdskWriteSector symb pos b off s = (True, ?s)"
    using Suc.prems by (intro VdskWriteSector_eq) simp_all
  moreover have "unat (pos + 1) = Suc (unat pos)"
    using Suc.prems(2) by (intro unat_Suc32) simp
  ultimately show ?case
    using Suc.IH [of ?s "pos + 1" "off + 512"] Suc.prems by (simp add: put_sectors_Suc [unfolded One_nat_def] fun_upd_def cong: if_cong)
qed

lemma VdskReadSector_eq:
  "vd_start symb s = Some a \<Longrightarrow> unat pos < 5000 \<Longrightarrow>
     VdskReadSector symb pos b off s =
       (True, \<lambda>k. if off \<le> k \<and> k < off + 512 then vd_ram s a (unat pos * 512 + (k - off)) else b k)"
  by (auto simp: VdskReadSector_def VDISK_SECTORS_def VDISK_SECTOR_SIZE_def copy_bytes_at)

lemma vd_read_loop_eq:
  "vd_start symb s = Some a \<Longrightarrow> unat pos + c \<le> 5000 \<Longrightarrow>
     vd_read_loop symb c pos b off s =
       (True, \<lambda>k. if off \<le> k \<and> k < off + c * 512 then vd_ram s a (unat pos * 512 + (k - off)) else b k)"
proof (induction c arbitrary: pos off b)
  case (Suc c)
  let ?b = "\<lambda>k. if off \<le> k \<and> k < off + 512 then vd_ram s a (unat pos * 512 + (k - off)) else b k"
  have "VdskReadSector symb pos b off s = (True, ?b)"
    using Suc.prems by (intro VdskReadSector_eq) simp_all
  moreover have n: "unat (pos + 1) = Suc (unat pos)"
    using Suc.prems(2) by (intro unat_Suc32) simp
  ultimately have "vd_read_loop symb (Suc c) pos b off s =
      (True, \<lambda>k. if off + 512 \<le> k \<and> k < off + 512 + c * 512 then vd_ram s a (Suc (unat pos) * 512 + (k - (off + 512))) else ?b k)"
    using Suc.IH [of "pos + 1" ?b "off + 512", unfolded n] Suc.prems by simp
  also have "(\<lambda>k. if off + 512 \<le> k \<and> k < off + 512 + c * 512 then vd_ram s a (Suc (unat pos) * 512 + (k - (off + 512))) else ?b k) =
      (\<lambda>k. if off \<le> k \<and> k < off + Suc c * 512 then vd_ram s a (unat pos * 512 + (k - off)) else b k)"
    by (rule ext) (auto intro!: arg_cong [of _ _ "vd_ram s a"])
  finally show ?case .
qed (auto intro!: ext)

section \<open>The disk layer\<close>

definition known_symbols :: "string set" where
  "known_symbols = {''VA'', ''VB'', ''DA'', ''DB'', ''DC'', ''DD''} \<union> (\<lambda>i. [CHR ''S'', char_of (65 + i)]) ` {..<26 :: nat}"

text \<open>What \<open>DskInit\<close> keeps: the list is within its bounds and holds no VS and no CD.\<close>

definition dsk_inv :: "'h disks \<Rightarrow> bool" where
  "dsk_inv s \<longleftrightarrow> disk_count s \<le> 16 \<and> (\<forall>i < disk_count s. disk_list s i \<in> known_symbols)"

definition listed :: "string \<Rightarrow> 'h disks \<Rightarrow> bool" where
  "listed symb s \<longleftrightarrow> (\<exists>i < disk_count s. disk_list s i = symb)"

lemma index_listed:
  assumes "dsk_inv s" "listed symb s"
  shows "\<exists>i < 16. unat (DskGetIndexBySymbol symb s) = i \<and> disk_list s i = symb"
proof -
  obtain j where "j < disk_count s" "disk_list s j = symb"
    using assms(2) by (auto simp: listed_def)
  then obtain k where k: "first_index (\<lambda>idx. disk_list s idx = symb) 0 (disk_count s) = Some k"
    using first_index_ex [of 0 j "disk_count s" "\<lambda>idx. disk_list s idx = symb"] by auto
  then have "k < 16" "disk_list s k = symb"
    using first_index_SomeD [OF k] assms(1) by (auto simp: dsk_inv_def)
  then show ?thesis
    using k by (simp add: DskGetIndexBySymbol_def take_bit_nat_eq_self unat_of_nat)
qed

lemma index_unlisted: "\<not> listed symb s \<Longrightarrow> DskGetIndexBySymbol symb s = 0xffffffff"
proof -
  assume u: "\<not> listed symb s"
  have "first_index (\<lambda>idx. disk_list s idx = symb) 0 (disk_count s) = None"
  proof (rule ccontr)
    assume "first_index (\<lambda>idx. disk_list s idx = symb) 0 (disk_count s) \<noteq> None"
    then obtain k where k: "first_index (\<lambda>idx. disk_list s idx = symb) 0 (disk_count s) = Some k"
      by blast
    then show False
      using first_index_SomeD [OF k] u by (auto simp: listed_def)
  qed
  then show ?thesis
    by (simp add: DskGetIndexBySymbol_def)
qed

lemma vs_unknown: "''VS'' \<notin> known_symbols" "''CA'' \<notin> known_symbols"
  by (auto simp: known_symbols_def)

lemma vs_unlisted: "dsk_inv s \<Longrightarrow> \<not> listed ''VS'' s"
  using vs_unknown by (auto simp: dsk_inv_def listed_def)

lemma dsk_frame [simp]:
  "disk_list (s\<lparr>vd_ram := r\<rparr>) = disk_list s" "disk_count (s\<lparr>vd_ram := r\<rparr>) = disk_count s"
  "disk_list (s\<lparr>hw := h\<rparr>) = disk_list s" "disk_count (s\<lparr>hw := h\<rparr>) = disk_count s"
  by simp_all

lemma inc_frame:
  "inc_rbytes i v s = Some s' \<Longrightarrow> disk_list s' = disk_list s \<and> disk_count s' = disk_count s \<and> vd_ram s' = vd_ram s \<and>
     vdiska s' = vdiska s \<and> vdiskb s' = vdiskb s \<and> hw s' = hw s"
  "inc_wbytes i v s = Some s' \<Longrightarrow> disk_list s' = disk_list s \<and> disk_count s' = disk_count s \<and> vd_ram s' = vd_ram s \<and>
     vdiska s' = vdiska s \<and> vdiskb s' = vdiskb s \<and> hw s' = hw s"
  by (auto simp: inc_rbytes_def inc_wbytes_def split: if_splits)

lemma listed_cong: "disk_list s' = disk_list s \<Longrightarrow> disk_count s' = disk_count s \<Longrightarrow> listed symb s' = listed symb s \<and> dsk_inv s' = dsk_inv s"
  by (simp add: listed_def dsk_inv_def)

lemma inc_some:
  assumes "dsk_inv s" "listed symb s"
  shows "\<exists>s'. inc_rbytes (DskGetIndexBySymbol symb s) v s = Some s'" "\<exists>s'. inc_wbytes (DskGetIndexBySymbol symb s) v s = Some s'"
  using index_listed [OF assms] by (auto simp: inc_rbytes_def inc_wbytes_def MAX_DISK_COUNT_def)

lemma sector_count_pos: "0 < sector_count count" "sector_count count \<le> 256"
proof -
  have "unat count < 256"
    using unsigned_less [of count] by simp
  then show "0 < sector_count count" "sector_count count \<le> 256"
    by (auto simp: sector_count_def unat_gt_0)
qed

lemma vd_start_cong: "vdiska s' = vdiska s \<Longrightarrow> vdiskb s' = vdiskb s \<Longrightarrow> vd_start symb s' = vd_start symb s"
  by (simp add: vd_start_def)

text \<open>The state of the RAM disks, apart from the counters.\<close>

definition same_disks :: "'h disks \<Rightarrow> 'h disks \<Rightarrow> bool" where
  "same_disks s' s \<longleftrightarrow> disk_list s' = disk_list s \<and> disk_count s' = disk_count s \<and>
     vdiska s' = vdiska s \<and> vdiskb s' = vdiskb s \<and> hw s' = hw s"

lemma vdisk_write:
  assumes "dsk_inv s" "is_vdisk symb" "listed symb s" "vd_start symb s = Some a"
    "unat pos + sector_count count \<le> 5000"
  shows "\<exists>s'. DskWriteSectors drv (Some symb) pos count (Some b) s = Some (True, s') \<and> same_disks s' s \<and>
    vd_ram s' = (vd_ram s)(a := put_sectors (unat pos) (sector_count count) b 0 (vd_ram s a))"
proof -
  let ?s = "s\<lparr>vd_ram := (vd_ram s)(a := put_sectors (unat pos) (sector_count count) b 0 (vd_ram s a))\<rparr>"
  have w: "VdskWriteSectors symb pos count b s = (True, ?s)"
    using vd_write_loop_eq [OF assms(4,5)] by (simp add: VdskWriteSectors_def)
  have "dsk_inv ?s" "listed symb ?s"
    using assms(1,3) by (simp_all add: dsk_inv_def listed_def)
  from inc_some(2) [OF this] obtain s' where
    s': "inc_wbytes (DskGetIndexBySymbol symb ?s) (ucast count * DISK_BYTES_PER_SECTOR) ?s = Some s'"
    by blast
  have "symb \<noteq> ''VS''"
    using assms(2) by (auto simp: is_vdisk_def)
  then have "DskWriteSectors drv (Some symb) pos count (Some b) s = Some (True, s')"
    using assms(2) w s'
    by (simp add: DskWriteSectors_def with_system_disk_def write_sectors_sym_def write_sectors_dev_def count_write_def)
  then show ?thesis
    using inc_frame(2) [OF s'] by (auto simp: same_disks_def)
qed

lemma vdisk_read:
  assumes "dsk_inv s" "is_vdisk symb" "listed symb s" "vd_start symb s = Some a"
    "unat pos + sector_count count \<le> 5000"
  shows "\<exists>s'. DskReadSectors drv (Some symb) pos count (Some b) s =
      Some (True, Some (\<lambda>k. if k < sector_count count * 512 then vd_ram s a (unat pos * 512 + k) else b k), s') \<and>
    same_disks s' s \<and> vd_ram s' = vd_ram s"
proof -
  have w: "VdskReadSectors symb pos count b s =
      (True, \<lambda>k. if k < sector_count count * 512 then vd_ram s a (unat pos * 512 + k) else b k)"
    using vd_read_loop_eq [OF assms(4,5), of b 0] by (simp add: VdskReadSectors_def cong: if_cong)
  from inc_some(1) [OF assms(1,3)] obtain s' where
    s': "inc_rbytes (DskGetIndexBySymbol symb s) (ucast count * DISK_BYTES_PER_SECTOR) s = Some s'"
    by blast
  have "symb \<noteq> ''VS''"
    using assms(2) by (auto simp: is_vdisk_def)
  then show ?thesis
    using assms(2) w s' inc_frame(1) [OF s']
    by (auto simp: DskReadSectors_def with_system_disk_def read_sectors_sym_def read_sectors_dev_def count_read_def same_disks_def)
qed

section \<open>The disk list\<close>

definition same_list :: "'h disks \<Rightarrow> 'h disks \<Rightarrow> bool" where
  "same_list s' s \<longleftrightarrow> disk_list s' = disk_list s \<and> disk_count s' = disk_count s"

lemma same_list_inv: "same_list s' s \<Longrightarrow> dsk_inv s' = dsk_inv s"
  by (simp add: same_list_def dsk_inv_def)

lemma same_list_trans: "same_list s2 s1 \<Longrightarrow> same_list s1 s \<Longrightarrow> same_list s2 s"
  by (simp add: same_list_def)

lemma count_read_list: "count_read symb v x = Some (r, b, s') \<Longrightarrow> same_list s' (snd (snd x))"
  by (auto simp: count_read_def same_list_def bind_eq_Some_conv split: prod.splits if_splits dest!: inc_frame(1))

lemma read_sector_dev_list: "read_sector_dev drv symb pos b s = Some x \<Longrightarrow> same_list (snd (snd x)) s"
  by (auto simp: read_sector_dev_def did_read_def same_list_def split: if_splits prod.splits)

lemma read_sector_sym_list: "read_sector_sym drv pos b symb s = Some (r, b', s') \<Longrightarrow> same_list s' s"
  using read_sector_dev_list [of drv symb pos b s] count_read_list same_list_trans
  by (fastforce simp: read_sector_sym_def same_list_def split: option.splits)

lemma DskReadSector_list:
  assumes "DskReadSector drv symb pos b s = Some (r, b', s')"
  shows "same_list s' s"
proof (cases "symb = None \<or> b = None")
  case True
  then show ?thesis
    using assms by (auto simp: DskReadSector_def same_list_def split: option.splits)
next
  case False
  then obtain y c where y: "symb = Some y" "b = Some c"
    by auto
  then obtain b2 where w: "with_system_disk (read_sector_sym drv pos c) (\<lambda>sy. count_read sy DISK_BYTES_PER_SECTOR) y s = Some (r, b2, s')"
    using assms by (auto simp: DskReadSector_def)
  show ?thesis
  proof (cases "y = ''VS''")
    case True
    then obtain x where x: "read_sector_sym drv pos c (explicit_system_disk s) s = Some x"
      "count_read ''VS'' DISK_BYTES_PER_SECTOR x = Some (r, b2, s')"
      using w by (auto simp: with_system_disk_def bind_eq_Some_conv)
    then show ?thesis
      using count_read_list [OF x(2)] read_sector_sym_list [of drv pos c _ s "fst x" "fst (snd x)" "snd (snd x)"]
        same_list_trans by force
  next
    case False
    then show ?thesis
      using w read_sector_sym_list [of drv pos c y s] by (auto simp: with_system_disk_def)
  qed
qed

lemma DskHasSystem_list: "DskHasSystem drv symb s = Some (r, s') \<Longrightarrow> same_list s' s"
  by (auto simp: DskHasSystem_def Let_def bind_eq_Some_conv split: option.splits if_splits dest!: DskReadSector_list)
    (auto simp: same_list_def)

lemma add_disk_inv:
  assumes "add_disk symb s = Some s'" "dsk_inv s" "symb \<in> known_symbols"
  shows "dsk_inv s'"
proof -
  have "take 2 symb = symb"
    using assms(3) by (auto simp: known_symbols_def)
  then show ?thesis
    using assms by (auto simp: add_disk_def dsk_inv_def MAX_DISK_COUNT_def less_Suc_eq split: if_splits)
qed

lemma add_ahci_inv:
  "add_ahci_loop ui n s = Some s' \<Longrightarrow> ui + n \<le> 26 \<Longrightarrow> dsk_inv s \<Longrightarrow> dsk_inv s'"
proof (induction ui n s rule: add_ahci_loop.induct)
  case (2 ui n s)
  have "[CHR ''S'', char_of (65 + ui)] \<in> known_symbols"
    using 2(3) by (auto simp: known_symbols_def)
  then show ?case
    using 2 add_disk_inv by (auto simp: bind_eq_Some_conv)
qed simp

lemma vdsk_init_inv: "dsk_inv (VdskInit symb s) = dsk_inv s"
  by (auto simp: VdskInit_def vd_alloc_def vd_zero_def dsk_inv_def split: list.splits option.splits)

lemma known_basic: "''VA'' \<in> known_symbols" "''VB'' \<in> known_symbols" "''DA'' \<in> known_symbols"
  "''DB'' \<in> known_symbols" "''DC'' \<in> known_symbols" "''DD'' \<in> known_symbols"
  by (simp_all add: known_symbols_def)

lemma dsk_inv_hw: "dsk_inv (s\<lparr>hw := h\<rparr>) = dsk_inv s" "dsk_inv (s\<lparr>disk_hard_disk_type := t\<rparr>) = dsk_inv s"
  by (simp_all add: dsk_inv_def)

lemma maybe_add_inv:
  "(if c then add_disk symb s else Some s) = Some s' \<Longrightarrow> symb \<in> known_symbols \<Longrightarrow> dsk_inv s \<Longrightarrow> dsk_inv s'"
  using add_disk_inv by (auto split: if_splits)

lemma init_ata_inv:
  assumes "init_ata drv s = Some s'" "dsk_inv s"
  shows "dsk_inv s'"
proof -
  let ?r = "fst (AtaInit drv (hw s))" and ?s = "s\<lparr>hw := snd (AtaInit drv (hw s))\<rparr>"
  obtain s1 s2 s3 where c: "(if ?r AND 1 \<noteq> 0 then add_disk ''DA'' ?s else Some ?s) = Some s1"
    "(if ?r AND 2 \<noteq> 0 then add_disk ''DB'' s1 else Some s1) = Some s2"
    "(if ?r AND 4 \<noteq> 0 then add_disk ''DC'' s2 else Some s2) = Some s3"
    "(if ?r AND 8 \<noteq> 0 then add_disk ''DD'' s3 else Some s3) = Some s'"
    using assms(1) unfolding init_ata_def Let_def bind_eq_Some_conv by blast
  have "dsk_inv s1"
    using maybe_add_inv [OF c(1) known_basic(3)] assms(2) by (simp add: dsk_inv_hw)
  from maybe_add_inv [OF c(4) known_basic(6) maybe_add_inv [OF c(3) known_basic(5) maybe_add_inv [OF c(2) known_basic(4) this]]]
  show ?thesis .
qed

lemma init_ahci_inv: "init_ahci drv s = Some s' \<Longrightarrow> dsk_inv s \<Longrightarrow> dsk_inv s'"
  using add_ahci_inv [of 0 "min (unat (AhciGetPortCount drv (snd (AhciInit drv (hw s))))) 26" "s\<lparr>hw := snd (AhciInit drv (hw s))\<rparr>" s']
  by (auto simp: init_ahci_def Let_def dsk_inv_hw split: if_splits)

lemma find_system_disk_inv:
  assumes "find_system_disk drv s = Some s'" "dsk_inv s"
  shows "dsk_inv s'"
proof -
  obtain r1 s1 where h: "DskHasSystem drv (Some ''SA'') s = Some (r1, s1)"
    "(if r1 then Some (s1\<lparr>disk_hard_disk_type := DISK_TYPE_SATA\<rparr>)
      else do { (_, s) \<leftarrow> DskHasSystem drv (Some ''DA'') s1; Some (s\<lparr>disk_hard_disk_type := DISK_TYPE_ATA\<rparr>) }) = Some s'"
    using assms(1) by (auto simp: find_system_disk_def bind_eq_Some_conv)
  have s1: "dsk_inv s1"
    using same_list_inv [OF DskHasSystem_list [OF h(1)]] assms(2) by simp
  show ?thesis
  proof (cases r1)
    case False
    then obtain r2 s2 where "DskHasSystem drv (Some ''DA'') s1 = Some (r2, s2)" "s' = s2\<lparr>disk_hard_disk_type := DISK_TYPE_ATA\<rparr>"
      using h(2) by (auto simp: bind_eq_Some_conv)
    then show ?thesis
      using same_list_inv [OF DskHasSystem_list] s1 by (simp add: dsk_inv_hw) blast
  qed (use h(2) s1 in \<open>auto simp: dsk_inv_hw\<close>)
qed

lemma unit_hw [simp]: "s\<lparr>hw := ()\<rparr> = (s :: unit disks)"
  by (cases s) simp

section \<open>Properties\<close>

text \<open>What is written to a RAM disk is what is read from it afterwards: with the sectors
  inside the disk, \<open>DskWriteSectors\<close> succeeds, \<open>DskReadSectors\<close> of the same sectors then fills the
  buffer with exactly the bytes written (256 sectors for a count of 0) and touches no byte of the
  buffer after them, and no other byte of the RAM disks has changed.\<close>

theorem vdisk_write_read:
  assumes "dsk_inv s" "is_vdisk symb" "listed symb s" "vd_start symb s = Some a" "unat pos + sector_count count \<le> 5000"
  shows "\<exists>s' s''. DskWriteSectors drv (Some symb) pos count (Some b) s = Some (True, s') \<and>
    DskReadSectors drv (Some symb) pos count (Some b') s' =
      Some (True, Some (\<lambda>k. if k < sector_count count * 512 then b k else b' k), s'') \<and>
    (\<forall>c k. c \<noteq> a \<or> k < unat pos * 512 \<or> (unat pos + sector_count count) * 512 \<le> k \<longrightarrow> vd_ram s'' c k = vd_ram s c k)"
proof -
  obtain s' where s': "DskWriteSectors drv (Some symb) pos count (Some b) s = Some (True, s')" "same_disks s' s"
    "vd_ram s' = (vd_ram s)(a := put_sectors (unat pos) (sector_count count) b 0 (vd_ram s a))"
    using vdisk_write [OF assms] by blast
  have "dsk_inv s'" "listed symb s'" "vd_start symb s' = Some a"
    using s'(2) assms vd_start_cong [of s' s symb] by (simp_all add: same_disks_def dsk_inv_def listed_def)
  from vdisk_read [OF this(1) assms(2) this(2,3) assms(5), of drv b'] obtain s'' where
    s'': "DskReadSectors drv (Some symb) pos count (Some b') s' =
        Some (True, Some (\<lambda>k. if k < sector_count count * 512 then vd_ram s' a (unat pos * 512 + k) else b' k), s'')"
      "vd_ram s'' = vd_ram s'"
    by blast
  have "(\<lambda>k. if k < sector_count count * 512 then vd_ram s' a (unat pos * 512 + k) else b' k) =
      (\<lambda>k. if k < sector_count count * 512 then b k else b' k)"
    using s'(3) by (auto simp: put_sectors_def algebra_simps intro!: ext)
  moreover have "\<forall>c k. c \<noteq> a \<or> k < unat pos * 512 \<or> (unat pos + sector_count count) * 512 \<le> k \<longrightarrow> vd_ram s'' c k = vd_ram s c k"
    using s'(3) s''(2) by (auto simp: put_sectors_def)
  ultimately show ?thesis
    using s'(1) s''(1) by auto
qed

text \<open>VA is the RAM disk at 0x2000000; drivers without hardware.\<close>

definition no_hw :: "unit drivers" where
  "no_hw = \<lparr>AtaInit = (\<lambda>h. (0, h)), AtaGetSectorCount = (\<lambda>_ _. 0), AtaReadSector = (\<lambda>_ _ b h. (True, b, h)),
     AtaWriteSector = (\<lambda>_ _ _ h. (True, h)), AtaReadSectors = (\<lambda>_ _ _ b h. (True, b, h)),
     AtaWriteSectors = (\<lambda>_ _ _ _ h. (True, h)), AtapiReadSector512 = (\<lambda>_ _ _ b h. (False, b, h)),
     AtapiReadSector512s = (\<lambda>_ _ _ _ b h. (False, b, h)), AhciInit = (\<lambda>h. (False, h)), AhciGetPortCount = (\<lambda>_. 0),
     AhciGetSectorCount = (\<lambda>_ _. 0), AhciRead = (\<lambda>_ _ _ _ b h. (False, b, h)), AhciWrite = (\<lambda>_ _ _ _ _ h. (False, h))\<rparr>"

definition disks0 :: "unit disks" where
  "disks0 = \<lparr>vdiska = None, vdiskb = None, vd_ram = (\<lambda>_ _. 7), vd_answers = [Some 0x2000000], vd_freed = [],
     disk_list = (\<lambda>_. []), disk_rbytes = (\<lambda>_. 0), disk_wbytes = (\<lambda>_. 0), disk_count = 0,
     disk_hard_disk_type = DISK_TYPE_ATA, hw = ()\<rparr>"

definition disks1 :: "unit disks" where
  "disks1 = the (add_disk ''DA'' (the (DskInit no_hw (Some ''VA'') disks0)))"

lemma disks1: "dsk_inv disks1" "listed ''VA'' disks1" "listed ''DA'' disks1" "vd_start ''VA'' disks1 = Some 0x2000000"
  "explicit_system_disk disks1 = ''DA''"
  by (auto simp: disks1_def disks0_def DskInit_def is_vdisk_def add_disk_def MAX_DISK_COUNT_def VdskInit_def vd_alloc_def
      vd_zero_def dsk_inv_def listed_def vd_start_def known_symbols_def less_Suc_eq explicit_system_disk_def)

theorem vdisk_write_read_witness:
  "\<exists>s' s''. DskWriteSectors no_hw (Some ''VA'') 4000 0 (Some (\<lambda>_. 9)) disks1 = Some (True, s') \<and>
     DskReadSectors no_hw (Some ''VA'') 4000 0 (Some (\<lambda>_. 1)) s' = Some (True, Some (\<lambda>k. if k < 131072 then 9 else 1), s'')"
proof -
  have "is_vdisk ''VA''" "unat (4000 :: u32) + sector_count 0 \<le> 5000" "sector_count 0 * 512 = 131072"
    by (simp_all add: is_vdisk_def sector_count_def)
  then show ?thesis
    using vdisk_write_read [OF disks1(1) _ disks1(2,4), of 4000 0 no_hw "\<lambda>_. 9" "\<lambda>_. 1"] by auto
qed

text \<open>\<open>DskInit\<close>, whatever the drivers find, either runs out of the 16 entries of the disk list
  or keeps it within its bounds and free of VS and of the CD symbols.\<close>

theorem disk_init_list:
  assumes "dsk_inv s" "DskInit drv symb s = Some s'"
  shows "dsk_inv s' \<and> \<not> listed ''VS'' s' \<and> \<not> listed ''CA'' s'"
proof -
  have "dsk_inv s'"
  proof (cases symb)
    case None
    then show ?thesis
      using assms by (simp add: DskInit_def)
  next
    case (Some y)
    consider "is_vdisk y" | "y = ''HD''" | "\<not> is_vdisk y" "y \<noteq> ''HD''"
      by blast
    then show ?thesis
    proof cases
      case 1
      then show ?thesis
        using assms Some known_basic add_disk_inv [of y "VdskInit y s" s'] vdsk_init_inv [of y s]
        by (auto simp: DskInit_def is_vdisk_def)
    next
      case 2
      have "\<not> is_vdisk ''HD''"
        by (simp add: is_vdisk_def)
      then obtain s1 s2 where "init_ata drv s = Some s1" "init_ahci drv s1 = Some s2" "find_system_disk drv s2 = Some s'"
        using assms(2) Some 2 by (auto simp: DskInit_def bind_eq_Some_conv)
      then show ?thesis
        using init_ata_inv init_ahci_inv find_system_disk_inv assms(1) by blast
    next
      case 3
      then show ?thesis
        using assms Some by (simp add: DskInit_def)
    qed
  qed
  then show ?thesis
    using vs_unknown by (auto simp: dsk_inv_def listed_def)
qed

theorem disk_init_list_witness: "\<not> listed ''VS'' (the (DskInit no_hw (Some ''VA'') disks0))"
proof -
  obtain s' where s': "DskInit no_hw (Some ''VA'') disks0 = Some s'"
    by (simp add: DskInit_def is_vdisk_def add_disk_def disks0_def VdskInit_def vd_alloc_def vd_zero_def MAX_DISK_COUNT_def)
  show ?thesis
    using disk_init_list [OF _ s'] s' by (simp add: dsk_inv_def disks0_def)
qed

text \<open>Reading the system disk by its symbol VS counts the bytes outside the counters' array:
  whenever the read of the disk itself succeeds, the call for VS looks VS up in the disk list,
  which never holds it, and uses the index 0xffffffff it gets.\<close>

theorem system_disk_counts_outside:
  assumes "dsk_inv s" "DskReadSectors drv (Some (explicit_system_disk s)) pos count (Some b) s = Some (True, b', s')"
  shows "DskGetIndexBySymbol ''VS'' s' = 0xffffffff \<and> DskReadSectors drv (Some ''VS'') pos count (Some b) s = None"
proof -
  have ex: "explicit_system_disk s \<noteq> ''VS''"
    by (simp add: explicit_system_disk_def)
  then obtain b2 where r: "read_sectors_sym drv pos count b (explicit_system_disk s) s = Some (True, b2, s')"
    using assms(2) by (auto simp: DskReadSectors_def with_system_disk_def)
  then obtain x where x: "read_sectors_dev drv (explicit_system_disk s) pos count b s = Some x"
    "count_read (explicit_system_disk s) (ucast count * DISK_BYTES_PER_SECTOR) x = Some (True, b2, s')"
    by (auto simp: read_sectors_sym_def split: option.splits)
  have "same_list (snd (snd x)) s"
    using x(1) by (auto simp: read_sectors_dev_def did_read_def same_list_def split: if_splits prod.splits)
  then have "same_list s' s"
    using count_read_list [OF x(2)] same_list_trans by blast
  then have "dsk_inv s'"
    using assms(1) same_list_inv by blast
  then have i: "DskGetIndexBySymbol ''VS'' s' = 0xffffffff"
    by (intro index_unlisted vs_unlisted)
  then have "DskReadSectors drv (Some ''VS'') pos count (Some b) s = None"
    using r by (simp add: DskReadSectors_def with_system_disk_def count_read_def inc_rbytes_def MAX_DISK_COUNT_def)
  with i show ?thesis
    by blast
qed

theorem system_disk_counts_outside_witness: "DskReadSectors no_hw (Some ''VS'') 0 1 (Some (\<lambda>_. 0)) disks1 = None"
proof -
  have e: "explicit_system_disk disks1 = ''DA''"
    by (rule disks1(5))
  obtain s' where "inc_rbytes (DskGetIndexBySymbol ''DA'' disks1) (ucast (1 :: u8) * DISK_BYTES_PER_SECTOR) disks1 = Some s'"
    using inc_some(1) [OF disks1(1,3)] by blast
  then have "DskReadSectors no_hw (Some (explicit_system_disk disks1)) 0 1 (Some (\<lambda>_. 0)) disks1 = Some (True, Some (\<lambda>_. 0), s')"
    unfolding e by (simp add: DskReadSectors_def with_system_disk_def read_sectors_sym_def read_sectors_dev_def is_vdisk_def
        DskIsAtaSym_def did_read_def no_hw_def count_read_def)
  from system_disk_counts_outside [OF disks1(1) this] show ?thesis
    by blast
qed

end
