(* ===== verification/Ifs1_Blocks.thy ===== *)
theory Ifs1_Blocks
  imports Disks_Proofs Linked_List_Proofs Strings
begin

text \<open>
  \<^verbatim>\<open>kernel/fs/ifs1/blocks.c\<close>: the 64 KB blocks of an IFS1 disk and the block allocation tables
  (BAT), lists of the numbers of unused blocks, one for each of VA, VB, DA and DB.

  A block in memory is its 65536 bytes; its field \<open>used\<close> is the first four.  The local blocks of
  the functions start with whatever is on the stack, the field \<open>stk\<close>; one that a loop declares
  keeps its contents from round to round.  \<open>kmpool_malloc\<close> is the stream of its answers.  The
  result \<^const>\<open>None\<close> is an access outside an array of the layers below, or a list node without
  a block number.
\<close>

section \<open>State\<close>

record 'h ifs1 = dsl +
  dk :: "'h disks"
  bat_va :: "addr option"
  bat_vb :: "addr option"
  bat_da :: "addr option"
  bat_db :: "addr option"
  km_answers :: "addr option list"
  km_freed :: "addr list"
  stk :: buf
  mem_answers :: "addr option list"   \<comment> \<open>what \<open>MemAlloc\<close> answers the functions of \<open>fs.c\<close>\<close>
  mem_freed :: "addr option list"     \<comment> \<open>what they pass to \<open>MemFree\<close>; \<^const>\<open>None\<close> is an uninitialised pointer\<close>
  read_buffer_on :: bool              \<comment> \<open>the statics \<open>read_buffer_was_enabled\<close> and\<close>
  append_buffer_on :: bool            \<comment> \<open>\<open>append_buffer_was_enabled\<close> of \<open>fs.c\<close>\<close>

definition BLOCK_SECTORS :: u32 where "BLOCK_SECTORS = 128"
definition START_BLOCK_ID :: u32 where "START_BLOCK_ID = 10"
definition INVALID_BLOCK_ID :: u32 where "INVALID_BLOCK_ID = 0xffffffff"
definition DEFAULT_INIT_BAT_COUNT :: u32 where "DEFAULT_INIT_BAT_COUNT = 256"

definition block_used :: "buf \<Rightarrow> bool" where
  "block_used block \<longleftrightarrow> block 0 \<noteq> 0 \<or> block 1 \<noteq> 0 \<or> block 2 \<noteq> 0 \<or> block 3 \<noteq> 0"

definition km_alloc :: "'h ifs1 \<Rightarrow> addr option \<times> 'h ifs1" where
  "km_alloc s = (case km_answers s of [] \<Rightarrow> (None, s) | a # as \<Rightarrow> (a, s\<lparr>km_answers := as\<rparr>))"

section \<open>Blocks\<close>

definition Ifs1GetBAT :: "string option \<Rightarrow> 'h ifs1 \<Rightarrow> addr option" where
  "Ifs1GetBAT symbol s =
     (case symbol of
        None \<Rightarrow> None
      | Some symb \<Rightarrow>
          if symb = ''VA'' then bat_va s
          else if symb = ''VB'' then bat_vb s
          else if symb = ''DA'' then bat_da s
          else if symb = ''DB'' then bat_db s
          else None)"

definition Ifs1GetMaxBlockCount :: "'h drivers \<Rightarrow> string option \<Rightarrow> 'h ifs1 \<Rightarrow> u32" where
  "Ifs1GetMaxBlockCount drv symbol s =
     (case symbol of None \<Rightarrow> 0 | Some symb \<Rightarrow> (DskGetSize drv (Some symb) (dk s) * 2) div BLOCK_SECTORS)"

definition Ifs1GetBlock ::
  "'h drivers \<Rightarrow> string option \<Rightarrow> u32 \<Rightarrow> buf option \<Rightarrow> 'h ifs1 \<Rightarrow> (bool \<times> buf option \<times> 'h ifs1) option" where
  "Ifs1GetBlock drv symbol i block s =
     (if symbol = None \<or> block = None \<or> i < START_BLOCK_ID \<or> i \<ge> Ifs1GetMaxBlockCount drv symbol s
      then Some (False, block, s)
      else map_option (\<lambda>(r, b, d). (r, b, s\<lparr>dk := d\<rparr>))
             (DskReadSectors drv symbol (i * BLOCK_SECTORS) (ucast BLOCK_SECTORS) block (dk s)))"

definition Ifs1SetBlock ::
  "'h drivers \<Rightarrow> string option \<Rightarrow> u32 \<Rightarrow> buf option \<Rightarrow> 'h ifs1 \<Rightarrow> (bool \<times> 'h ifs1) option" where
  "Ifs1SetBlock drv symbol i block s =
     (if symbol = None \<or> block = None \<or> i < START_BLOCK_ID \<or> i \<ge> Ifs1GetMaxBlockCount drv symbol s
      then Some (False, s)
      else map_option (\<lambda>(r, d). (r, s\<lparr>dk := d\<rparr>))
             (DskWriteSectors drv symbol (i * BLOCK_SECTORS) (ucast BLOCK_SECTORS) block (dk s)))"

text \<open>Appending a block number to a BAT; whether the node could be allocated and added.\<close>

definition add_to_bat :: "addr option \<Rightarrow> u32 \<Rightarrow> 'h ifs1 \<Rightarrow> bool \<times> 'h ifs1" where
  "add_to_bat bat i s =
     (case km_alloc s of
        (None, s) \<Rightarrow> (False, s)
      | (Some node, s) \<Rightarrow> dsl_lnklst_add_node bat (Some node) (set_node node (\<lambda>d. d\<lparr>n_value := VUint32 i\<rparr>) s))"

text \<open>The loop of \<open>_Ifs1FillBAT\<close>: \<open>n\<close> blocks are left; the result is whether it ended without
  \<open>return FALSE\<close>, and \<open>max\<close>.  What \<open>Ifs1GetBlock\<close> returned is not looked at.\<close>

fun fill_bat_loop ::
  "'h drivers \<Rightarrow> addr \<Rightarrow> string option \<Rightarrow> nat \<Rightarrow> u32 \<Rightarrow> u32 \<Rightarrow> buf \<Rightarrow> 'h ifs1 \<Rightarrow> (bool \<times> u32 \<times> 'h ifs1) option" where
  "fill_bat_loop drv bat symbol 0 ui mx block s = Some (True, mx, s)"
| "fill_bat_loop drv bat symbol (Suc n) ui mx block s =
     (if \<not> mx > 0 then Some (True, mx, s)
      else do {
        (_, b, s) \<leftarrow> Ifs1GetBlock drv symbol ui (Some block) s;
        block \<leftarrow> b;
        if block_used block then fill_bat_loop drv bat symbol n (ui + 1) mx block s
        else (case add_to_bat (Some bat) ui s of
                (False, s) \<Rightarrow> Some (False, mx, s)
              | (True, s) \<Rightarrow> fill_bat_loop drv bat symbol n (ui + 1) (mx - 1) block s) })"

definition Ifs1FillBAT :: "'h drivers \<Rightarrow> addr option \<Rightarrow> string option \<Rightarrow> u32 \<Rightarrow> 'h ifs1 \<Rightarrow> (bool \<times> 'h ifs1) option" where
  "Ifs1FillBAT drv bat symbol mx s =
     (case bat of
        None \<Rightarrow> Some (False, s)
      | Some l \<Rightarrow>
          if symbol = None then Some (False, s)
          else do {
            let count = Ifs1GetMaxBlockCount drv symbol s;
            (ok, mx, s) \<leftarrow> fill_bat_loop drv l symbol (unat count - unat START_BLOCK_ID) START_BLOCK_ID mx (stk s) s;
            Some (ok \<and> mx = 0, s) })"

text \<open>The number taken, if any.\<close>

definition Ifs1NewBlockFromBAT :: "string option \<Rightarrow> 'h ifs1 \<Rightarrow> (u32 option \<times> 'h ifs1) option" where
  "Ifs1NewBlockFromBAT symbol s =
     (case Ifs1GetBAT symbol s of
        None \<Rightarrow> Some (None, s)
      | Some bat \<Rightarrow>
          if dsl_lnklst_count (Some bat) s = 0 then Some (None, s)
          else do {
            (node, s) \<leftarrow> dsl_lnklst_shift_node (Some bat) s;
            (case node of
               None \<Rightarrow> Some (None, s)
             | Some n \<Rightarrow>
                 (case n_value (lnodes s n) of
                    VUint32 block_id \<Rightarrow> Some (Some block_id, s\<lparr>km_freed := km_freed s @ [n]\<rparr>)
                  | _ \<Rightarrow> None)) })"

definition Ifs1InitBlocks :: "'h drivers \<Rightarrow> 'h ifs1 \<Rightarrow> (bool \<times> 'h ifs1) option" where
  "Ifs1InitBlocks drv s = do {
     let (l, s) = dsl_lnklst_new s; let s = s\<lparr>bat_va := l\<rparr>;
     (_, s) \<leftarrow> Ifs1FillBAT drv (bat_va s) (Some ''VA'') DEFAULT_INIT_BAT_COUNT s;
     let (l, s) = dsl_lnklst_new s; let s = s\<lparr>bat_vb := l\<rparr>;
     (_, s) \<leftarrow> Ifs1FillBAT drv (bat_vb s) (Some ''VB'') DEFAULT_INIT_BAT_COUNT s;
     let (l, s) = dsl_lnklst_new s; let s = s\<lparr>bat_da := l\<rparr>;
     (_, s) \<leftarrow> Ifs1FillBAT drv (bat_da s) (Some ''DA'') DEFAULT_INIT_BAT_COUNT s;
     let (l, s) = dsl_lnklst_new s; let s = s\<lparr>bat_db := l\<rparr>;
     (_, s) \<leftarrow> Ifs1FillBAT drv (bat_db s) (Some ''DB'') DEFAULT_INIT_BAT_COUNT s;
     Some (bat_va s \<noteq> None \<and> bat_vb s \<noteq> None \<and> bat_da s \<noteq> None \<and> bat_db s \<noteq> None, s) }"

definition zero_used :: "buf \<Rightarrow> buf" where
  "zero_used block = (\<lambda>k. if k < 4 then 0 else block k)"

definition Ifs1DeleteBlock :: "'h drivers \<Rightarrow> string option \<Rightarrow> u32 \<Rightarrow> 'h ifs1 \<Rightarrow> (bool \<times> 'h ifs1) option" where
  "Ifs1DeleteBlock drv symbol i s =
     (if symbol = None \<or> i < START_BLOCK_ID \<or> i \<ge> Ifs1GetMaxBlockCount drv symbol s then Some (False, s)
      else do {
        (r, s) \<leftarrow> Ifs1SetBlock drv symbol i (Some (zero_used (stk s))) s;
        if r then
          (case Ifs1GetBAT symbol s of
             None \<Rightarrow> Some (True, s)
           | Some bat \<Rightarrow> Some (True, snd (add_to_bat (Some bat) i s)))
        else Some (False, s) })"

fun delete_all_blocks_loop :: "'h drivers \<Rightarrow> string option \<Rightarrow> nat \<Rightarrow> u32 \<Rightarrow> 'h ifs1 \<Rightarrow> (bool \<times> 'h ifs1) option" where
  "delete_all_blocks_loop drv symbol 0 ui s = Some (True, s)"
| "delete_all_blocks_loop drv symbol (Suc n) ui s = do {
     (r, s) \<leftarrow> Ifs1DeleteBlock drv symbol ui s;
     if \<not> r then Some (False, s) else delete_all_blocks_loop drv symbol n (ui + 1) s }"

definition Ifs1DeleteAllBlocks :: "'h drivers \<Rightarrow> string option \<Rightarrow> 'h ifs1 \<Rightarrow> (bool \<times> 'h ifs1) option" where
  "Ifs1DeleteAllBlocks drv symbol s =
     (if symbol = None then Some (False, s)
      else
        let block_count = Ifs1GetMaxBlockCount drv symbol s in
        if block_count = 0 then Some (False, s)
        else delete_all_blocks_loop drv symbol (unat block_count - unat START_BLOCK_ID) START_BLOCK_ID s)"

fun add_block_loop ::
  "'h drivers \<Rightarrow> string option \<Rightarrow> buf option \<Rightarrow> nat \<Rightarrow> u32 \<Rightarrow> buf \<Rightarrow> 'h ifs1 \<Rightarrow> (u32 \<times> 'h ifs1) option" where
  "add_block_loop drv symbol block 0 ui temp s = Some (INVALID_BLOCK_ID, s)"
| "add_block_loop drv symbol block (Suc n) ui temp s = do {
     (r, b, s) \<leftarrow> Ifs1GetBlock drv symbol ui (Some temp) s;
     temp \<leftarrow> b;
     if \<not> r then Some (INVALID_BLOCK_ID, s)
     else if \<not> block_used temp
     then do {
       (w, s) \<leftarrow> Ifs1SetBlock drv symbol ui block s;
       Some (if w then ui else INVALID_BLOCK_ID, s) }
     else add_block_loop drv symbol block n (ui + 1) temp s }"

definition Ifs1AddBlock :: "'h drivers \<Rightarrow> string option \<Rightarrow> buf option \<Rightarrow> 'h ifs1 \<Rightarrow> (u32 \<times> 'h ifs1) option" where
  "Ifs1AddBlock drv symbol block s =
     (if symbol = None \<or> block = None then Some (INVALID_BLOCK_ID, s)
      else do {
        (bat_block_id, s) \<leftarrow> Ifs1NewBlockFromBAT symbol s;
        (case bat_block_id of
           Some i \<Rightarrow> do {
             (r, b, s) \<leftarrow> Ifs1GetBlock drv symbol i (Some (stk s)) s;
             temp \<leftarrow> b;
             if \<not> r \<or> block_used temp then Some (INVALID_BLOCK_ID, s)
             else do {
               (w, s) \<leftarrow> Ifs1SetBlock drv symbol i block s;
               Some (if w then i else INVALID_BLOCK_ID, s) } }
         | None \<Rightarrow>
             let block_count = Ifs1GetMaxBlockCount drv symbol s in
             add_block_loop drv symbol block (unat block_count - unat START_BLOCK_ID) START_BLOCK_ID (stk s) s) })"

section \<open>New directory, file and link blocks\<close>

text \<open>\<open>CmosGetDateTime\<close> reads the hardware clock: the date and time it gives is the parameter \<open>dt\<close>.\<close>

record cmos_date_time =
  cm_year :: u16
  cm_month :: u8
  cm_day :: u8
  cm_day_of_week :: u8
  cm_hour :: u8
  cm_minute :: u8
  cm_second :: u8

record dir_block =
  db_used :: u32
  db_type :: u32
  db_dirname :: "char list"
  db_create :: cmos_date_time
  db_change :: cmos_date_time
  db_reserve :: "u8 list"
  db_blockids :: "u32 list"

record file_block =
  fb_used :: u32
  fb_type :: u32
  fb_length :: u32
  fb_filename :: "char list"
  fb_create :: cmos_date_time
  fb_change :: cmos_date_time
  fb_lock :: u32
  fb_reserve :: "u8 list"
  fb_blockids :: "u32 list"

record slink_block =
  sb_used :: u32
  sb_type :: u32
  sb_filename :: "char list"
  sb_reserve :: "u8 list"
  sb_link :: "char list"

definition BLOCK_TYPE_FILE :: u32 where "BLOCK_TYPE_FILE = 1"
definition BLOCK_TYPE_DATA :: u32 where "BLOCK_TYPE_DATA = 2"
definition BLOCK_TYPE_DIR :: u32 where "BLOCK_TYPE_DIR = 3"
definition BLOCK_TYPE_SLINK :: u32 where "BLOCK_TYPE_SLINK = 65536"
definition FILE_BLOCK_ID_COUNT :: nat where "FILE_BLOCK_ID_COUNT = 16128"
definition SLINK_BLOCK_LINK_LEN :: nat where "SLINK_BLOCK_LINK_LEN = 65024"

definition Ifs1FillDirBlock ::
  "cmos_date_time \<Rightarrow> string option \<Rightarrow> dir_block option \<Rightarrow> (bool \<times> dir_block option) option" where
  "Ifs1FillDirBlock dt name dir =
     (case (name, dir) of
        (Some nm, Some d) \<Rightarrow>
          if unat (C_strlen nm) \<ge> 256 then Some (False, dir)
          else do {
            (_, buf) \<leftarrow> UtlCopyString (Some (db_dirname d)) 256 (Some nm);
            b \<leftarrow> buf;
            Some (True, Some \<lparr>db_used = 1, db_type = BLOCK_TYPE_DIR, db_dirname = b, db_create = dt, db_change = dt,
              db_reserve = replicate 744 0, db_blockids = replicate 16128 INVALID_BLOCK_ID\<rparr>) }
      | _ \<Rightarrow> Some (False, dir))"

definition Ifs1FillFileBlock ::
  "cmos_date_time \<Rightarrow> string option \<Rightarrow> file_block option \<Rightarrow> (bool \<times> file_block option) option" where
  "Ifs1FillFileBlock dt name file =
     (case (name, file) of
        (Some nm, Some f) \<Rightarrow>
          if unat (C_strlen nm) \<ge> 256 then Some (False, file)
          else do {
            (_, buf) \<leftarrow> UtlCopyString (Some (fb_filename f)) 256 (Some nm);
            b \<leftarrow> buf;
            Some (True, Some \<lparr>fb_used = 1, fb_type = BLOCK_TYPE_FILE, fb_length = 0, fb_filename = b, fb_create = dt,
              fb_change = dt, fb_lock = 0, fb_reserve = replicate 736 0,
              fb_blockids = replicate FILE_BLOCK_ID_COUNT INVALID_BLOCK_ID\<rparr>) }
      | _ \<Rightarrow> Some (False, file))"

text \<open>The second copy gets the size of \<open>filename\<close>, not that of \<open>link\<close>.\<close>

definition Ifs1FillSLinkBlock ::
  "string option \<Rightarrow> string option \<Rightarrow> slink_block option \<Rightarrow> (bool \<times> slink_block option) option" where
  "Ifs1FillSLinkBlock name link slink =
     (case (name, link, slink) of
        (Some nm, Some ln, Some sl) \<Rightarrow>
          if unat (C_strlen nm) \<ge> 256 \<or> unat (C_strlen ln) \<ge> SLINK_BLOCK_LINK_LEN then Some (False, slink)
          else do {
            (_, buf) \<leftarrow> UtlCopyString (Some (sb_filename sl)) 256 (Some nm);
            b \<leftarrow> buf;
            (_, buf) \<leftarrow> UtlCopyString (Some (sb_link sl)) 256 (Some ln);
            l \<leftarrow> buf;
            Some (True, Some \<lparr>sb_used = 1, sb_type = BLOCK_TYPE_SLINK, sb_filename = b, sb_reserve = replicate 248 0,
              sb_link = l\<rparr>) }
      | _ \<Rightarrow> Some (False, slink))"

end
