(* ===== verification/Ifs1_Layout.thy ===== *)
theory Ifs1_Layout
  imports Ifs1_Blocks
begin

text \<open>
  The packed structures of \<^verbatim>\<open>kernel/fs/ifs1/blocks.h\<close> as views of the 65536 bytes of a block:
  reading and writing a field at its offset, the C string that starts at an offset, and the
  whole structure from and to its bytes.  The C code casts between \<open>struct RawBlock *\<close> and the
  other block types; here a cast is one of these views.
\<close>

section \<open>Fields\<close>

definition byte32 :: "u32 \<Rightarrow> nat \<Rightarrow> u8" where
  "byte32 v n = ucast (drop_bit (8 * n) v)"

definition rd32 :: "buf \<Rightarrow> nat \<Rightarrow> u32" where
  "rd32 b k = ucast (b k) OR push_bit 8 (ucast (b (k + 1))) OR push_bit 16 (ucast (b (k + 2))) OR push_bit 24 (ucast (b (k + 3)))"

definition wr32 :: "nat \<Rightarrow> u32 \<Rightarrow> buf \<Rightarrow> buf" where
  "wr32 k v b = (\<lambda>i. if k \<le> i \<and> i < k + 4 then byte32 v (i - k) else b i)"

definition wr_bytes :: "nat \<Rightarrow> u8 list \<Rightarrow> buf \<Rightarrow> buf" where
  "wr_bytes k bs b = (\<lambda>i. if k \<le> i \<and> i < k + length bs then bs ! (i - k) else b i)"

definition rd_bytes :: "nat \<Rightarrow> nat \<Rightarrow> buf \<Rightarrow> u8 list" where
  "rd_bytes k n b = map b [k..<k + n]"

definition wr_words :: "nat \<Rightarrow> u32 list \<Rightarrow> buf \<Rightarrow> buf" where
  "wr_words k ws b = (\<lambda>i. if k \<le> i \<and> i < k + 4 * length ws then byte32 (ws ! ((i - k) div 4)) ((i - k) mod 4) else b i)"

definition rd_words :: "nat \<Rightarrow> nat \<Rightarrow> buf \<Rightarrow> u32 list" where
  "rd_words k n b = map (\<lambda>i. rd32 b (k + 4 * i)) [0..<n]"

definition char8 :: "u8 \<Rightarrow> char" where
  "char8 x = char_of (unat x)"

definition byte8 :: "char \<Rightarrow> u8" where
  "byte8 c = of_nat (of_char c)"

text \<open>The C string at \<open>k\<close>; \<^const>\<open>None\<close> when the \<open>n\<close> bytes from there hold no NUL.\<close>

fun cstr_at :: "nat \<Rightarrow> buf \<Rightarrow> nat \<Rightarrow> string option" where
  "cstr_at 0 b k = None"
| "cstr_at (Suc n) b k = (if b k = 0 then Some [] else map_option (Cons (char8 (b k))) (cstr_at n b (Suc k)))"

section \<open>Blocks\<close>

definition raw_used :: "buf \<Rightarrow> u32" where "raw_used b = rd32 b 0"
definition raw_type :: "buf \<Rightarrow> u32" where "raw_type b = rd32 b 4"
definition dir_name :: "buf \<Rightarrow> string option" where "dir_name b = cstr_at (65536 - 8) b 8"
definition file_name :: "buf \<Rightarrow> string option" where "file_name b = cstr_at (65536 - 12) b 12"
definition slink_name :: "buf \<Rightarrow> string option" where "slink_name b = cstr_at (65536 - 8) b 8"
definition blockid :: "buf \<Rightarrow> nat \<Rightarrow> u32" where "blockid b ui = rd32 b (1024 + 4 * ui)"
definition set_blockid :: "nat \<Rightarrow> u32 \<Rightarrow> buf \<Rightarrow> buf" where "set_blockid ui v = wr32 (1024 + 4 * ui) v"

definition DIR_BLOCK_ID_COUNT :: nat where "DIR_BLOCK_ID_COUNT = 16128"
definition DATA_BLOCK_DATA_LEN :: nat where "DATA_BLOCK_DATA_LEN = 65492"
definition SLINK_LINK_OFFSET :: nat where "SLINK_LINK_OFFSET = 512"
definition DATA_OFFSET :: nat where "DATA_OFFSET = 44"

definition dt_bytes :: "cmos_date_time \<Rightarrow> u8 list" where
  "dt_bytes dt = [ucast (cm_year dt), ucast (drop_bit 8 (cm_year dt)), cm_month dt, cm_day dt, cm_day_of_week dt,
     cm_hour dt, cm_minute dt, cm_second dt]"

definition rd_dt :: "buf \<Rightarrow> nat \<Rightarrow> cmos_date_time" where
  "rd_dt b k = \<lparr>cm_year = ucast (b k) OR push_bit 8 (ucast (b (k + 1))), cm_month = b (k + 2), cm_day = b (k + 3),
     cm_day_of_week = b (k + 4), cm_hour = b (k + 5), cm_minute = b (k + 6), cm_second = b (k + 7)\<rparr>"

definition zero_buf :: buf where "zero_buf = (\<lambda>_. 0)"

definition dir_raw :: "dir_block \<Rightarrow> buf" where
  "dir_raw d = wr32 0 (db_used d) (wr32 4 (db_type d) (wr_bytes 8 (map byte8 (db_dirname d))
     (wr_bytes 264 (dt_bytes (db_create d)) (wr_bytes 272 (dt_bytes (db_change d))
     (wr_bytes 280 (db_reserve d) (wr_words 1024 (db_blockids d) zero_buf))))))"

definition dir_of_raw :: "buf \<Rightarrow> dir_block" where
  "dir_of_raw b = \<lparr>db_used = rd32 b 0, db_type = rd32 b 4, db_dirname = map char8 (rd_bytes 8 256 b), db_create = rd_dt b 264,
     db_change = rd_dt b 272, db_reserve = rd_bytes 280 744 b, db_blockids = rd_words 1024 16128 b\<rparr>"

definition file_raw :: "file_block \<Rightarrow> buf" where
  "file_raw f = wr32 0 (fb_used f) (wr32 4 (fb_type f) (wr32 8 (fb_length f) (wr_bytes 12 (map byte8 (fb_filename f))
     (wr_bytes 268 (dt_bytes (fb_create f)) (wr_bytes 276 (dt_bytes (fb_change f)) (wr32 284 (fb_lock f)
     (wr_bytes 288 (fb_reserve f) (wr_words 1024 (fb_blockids f) zero_buf))))))))"

definition file_of_raw :: "buf \<Rightarrow> file_block" where
  "file_of_raw b = \<lparr>fb_used = rd32 b 0, fb_type = rd32 b 4, fb_length = rd32 b 8, fb_filename = map char8 (rd_bytes 12 256 b),
     fb_create = rd_dt b 268, fb_change = rd_dt b 276, fb_lock = rd32 b 284, fb_reserve = rd_bytes 288 736 b,
     fb_blockids = rd_words 1024 FILE_BLOCK_ID_COUNT b\<rparr>"

definition slink_raw :: "slink_block \<Rightarrow> buf" where
  "slink_raw l = wr32 0 (sb_used l) (wr32 4 (sb_type l) (wr_bytes 8 (map byte8 (sb_filename l))
     (wr_bytes 264 (sb_reserve l) (wr_bytes SLINK_LINK_OFFSET (map byte8 (sb_link l)) zero_buf))))"

definition slink_of_raw :: "buf \<Rightarrow> slink_block" where
  "slink_of_raw b = \<lparr>sb_used = rd32 b 0, sb_type = rd32 b 4, sb_filename = map char8 (rd_bytes 8 256 b),
     sb_reserve = rd_bytes 264 248 b, sb_link = map char8 (rd_bytes SLINK_LINK_OFFSET SLINK_BLOCK_LINK_LEN b)\<rparr>"

section \<open>The views agree\<close>

lemma bit_u8_high: "\<not> bit (x :: u8) (8 + n)" "\<not> bit (x :: u8) (16 + n)" "\<not> bit (x :: u8) (24 + n)"
  using bit_imp_le_length [of x "8 + n"] bit_imp_le_length [of x "16 + n"] bit_imp_le_length [of x "24 + n"] by auto

lemma join32:
  "ucast (ucast v :: u8) OR push_bit 8 (ucast (ucast (drop_bit 8 v) :: u8)) OR push_bit 16 (ucast (ucast (drop_bit 16 v) :: u8)) OR
    push_bit 24 (ucast (ucast (drop_bit 24 v) :: u8)) = v" for v :: u32
proof (rule bit_word_eqI)
  fix n assume "n < LENGTH(32)"
  then consider "n < 8" | "8 \<le> n" "n < 16" | "16 \<le> n" "n < 24" | "24 \<le> n" "n < 32"
    by fastforce
  then show "bit (ucast (ucast v :: u8) OR push_bit 8 (ucast (ucast (drop_bit 8 v) :: u8)) OR
      push_bit 16 (ucast (ucast (drop_bit 16 v) :: u8)) OR push_bit 24 (ucast (ucast (drop_bit 24 v) :: u8)) :: u32) n = bit v n"
    by cases (simp_all add: bit_simps, arith+)
qed

lemma rd32_bytes: "rd32 b k = v \<longleftrightarrow> (\<forall>n < 4. b (k + n) = byte32 v n)"
proof -
  have q: "(\<forall>n < 4. b (k + n) = byte32 v n) \<longleftrightarrow>
      b k = ucast v \<and> b (k + 1) = ucast (drop_bit 8 v) \<and> b (k + 2) = ucast (drop_bit 16 v) \<and> b (k + 3) = ucast (drop_bit 24 v)"
    by (auto simp: byte32_def eval_nat_numeral less_Suc_eq all_conj_distrib)
  show ?thesis
    unfolding q
  proof
    assume "rd32 b k = v"
    then show "b k = ucast v \<and> b (k + 1) = ucast (drop_bit 8 v) \<and> b (k + 2) = ucast (drop_bit 16 v) \<and> b (k + 3) = ucast (drop_bit 24 v)"
      unfolding rd32_def by (auto simp: bit_simps bit_u8_high intro!: bit_word_eqI)
  next
    assume "b k = ucast v \<and> b (k + 1) = ucast (drop_bit 8 v) \<and> b (k + 2) = ucast (drop_bit 16 v) \<and> b (k + 3) = ucast (drop_bit 24 v)"
    then show "rd32 b k = v"
      unfolding rd32_def by (simp only: join32)
  qed
qed

lemma rd32_wr32_same [simp]: "rd32 (wr32 k v b) k = v"
  by (simp add: rd32_bytes wr32_def)

lemma rd32_cong: "(\<And>n. n < 4 \<Longrightarrow> b (k + n) = c (k + n)) \<Longrightarrow> rd32 b k = rd32 c k"
  by (metis rd32_bytes)

lemma rd32_wr32_other [simp]: "j + 4 \<le> k \<or> k + 4 \<le> j \<Longrightarrow> rd32 (wr32 k v b) j = rd32 b j"
  by (rule rd32_cong) (auto simp: wr32_def)

lemma wr_bytes_at: "wr_bytes k bs b i = (if k \<le> i \<and> i < k + length bs then bs ! (i - k) else b i)"
  by (simp add: wr_bytes_def)

lemma rd32_wr_bytes [simp]: "j + 4 \<le> k \<or> k + length bs \<le> j \<Longrightarrow> rd32 (wr_bytes k bs b) j = rd32 b j"
  by (rule rd32_cong) (auto simp: wr_bytes_def)

lemma rd_bytes_same [simp]: "length bs = n \<Longrightarrow> rd_bytes k n (wr_bytes k bs b) = bs"
  by (auto simp: rd_bytes_def wr_bytes_def intro!: nth_equalityI)

lemma rd_bytes_cong: "(\<And>i. k \<le> i \<Longrightarrow> i < k + n \<Longrightarrow> b i = c i) \<Longrightarrow> rd_bytes k n b = rd_bytes k n c"
  by (simp add: rd_bytes_def)

lemma rd_bytes_wr32 [simp]: "j + n \<le> k \<or> k + 4 \<le> j \<Longrightarrow> rd_bytes j n (wr32 k v b) = rd_bytes j n b"
  by (rule rd_bytes_cong) (auto simp: wr32_def)

lemma rd_bytes_wr_bytes [simp]:
  "j + n \<le> k \<or> k + length bs \<le> j \<Longrightarrow> rd_bytes j n (wr_bytes k bs b) = rd_bytes j n b"
  by (rule rd_bytes_cong) (auto simp: wr_bytes_def)

lemma rd32_wr_words [simp]: "i < length ws \<Longrightarrow> rd32 (wr_words k ws b) (k + 4 * i) = ws ! i"
  by (auto simp: rd32_bytes wr_words_def)

lemma rd_words_same [simp]: "length ws = n \<Longrightarrow> rd_words k n (wr_words k ws b) = ws"
  by (auto simp: rd_words_def intro!: nth_equalityI)

lemma rd_words_cong: "(\<And>i. k \<le> i \<Longrightarrow> b i = c i) \<Longrightarrow> rd_words k n b = rd_words k n c"
  unfolding rd_words_def by (intro map_cong refl rd32_cong) auto

lemma rd_words_wr32 [simp]: "j + 4 \<le> k \<Longrightarrow> rd_words k n (wr32 j v b) = rd_words k n b"
  by (rule rd_words_cong) (auto simp: wr32_def)

lemma rd_words_wr_bytes [simp]: "j + length bs \<le> k \<Longrightarrow> rd_words k n (wr_bytes j bs b) = rd_words k n b"
  by (rule rd_words_cong) (auto simp: wr_bytes_def)

lemma char8_byte8 [simp]: "char8 (byte8 c) = c"
  by (simp add: char8_def byte8_def unat_of_nat)

lemma byte8_char8 [simp]: "byte8 (char8 x) = x"
proof -
  have "unat x < 256"
    using unsigned_less [of x] by simp
  then show ?thesis
    by (simp add: char8_def byte8_def)
qed

lemma char8_0 [simp]: "char8 0 = NUL"
  by (simp add: char8_def char_of_def)

lemma byte8_0 [simp]: "byte8 c = 0 \<longleftrightarrow> c = NUL"
  by (metis char8_0 char8_byte8 byte8_char8)

lemma char8_eq [simp]: "char8 x = char8 y \<longleftrightarrow> x = y"
  by (metis byte8_char8)

lemma char8_comp [simp]: "char8 \<circ> byte8 = id"
  by auto

lemma length_dt_bytes [simp]: "length (dt_bytes dt) = 8"
  by (simp add: dt_bytes_def)

lemma rd_dt_cong: "(\<And>i. k \<le> i \<Longrightarrow> i < k + 8 \<Longrightarrow> b i = c i) \<Longrightarrow> rd_dt b k = rd_dt c k"
  by (simp add: rd_dt_def)

lemma rd_dt_same [simp]: "rd_dt (wr_bytes k (dt_bytes dt) b) k = dt"
proof -
  have y: "ucast (ucast y :: u8) OR push_bit 8 (ucast (ucast (drop_bit 8 y) :: u8)) = y" for y :: u16
    by (auto simp: bit_simps intro!: bit_word_eqI)
  have "wr_bytes k (dt_bytes dt) b (k + n) = dt_bytes dt ! n" if "n < 8" for n
    using that by (simp add: wr_bytes_def)
  from this [of 0] this [of 1] this [of 2] this [of 3] this [of 4] this [of 5] this [of 6] this [of 7]
  show ?thesis
    using y [of "cm_year dt"] by (simp add: rd_dt_def dt_bytes_def)
qed

lemma rd_dt_wr32 [simp]: "k + 4 \<le> j \<or> j + 8 \<le> k \<Longrightarrow> rd_dt (wr32 k v b) j = rd_dt b j"
  by (rule rd_dt_cong) (auto simp: wr32_def)

lemma rd_dt_wr_bytes [simp]: "k + length bs \<le> j \<or> j + 8 \<le> k \<Longrightarrow> rd_dt (wr_bytes k bs b) j = rd_dt b j"
  by (rule rd_dt_cong) (auto simp: wr_bytes_def)

lemma file_of_raw_raw:
  "length (fb_filename f) = 256 \<Longrightarrow> length (fb_reserve f) = 736 \<Longrightarrow> length (fb_blockids f) = 16128 \<Longrightarrow>
     file_of_raw (file_raw f) = f"
  by (simp add: file_of_raw_def file_raw_def FILE_BLOCK_ID_COUNT_def)

lemma dir_of_raw_raw:
  "length (db_dirname d) = 256 \<Longrightarrow> length (db_reserve d) = 744 \<Longrightarrow> length (db_blockids d) = 16128 \<Longrightarrow>
     dir_of_raw (dir_raw d) = d"
  by (simp add: dir_of_raw_def dir_raw_def)

lemma slink_of_raw_raw:
  "length (sb_filename l) = 256 \<Longrightarrow> length (sb_reserve l) = 248 \<Longrightarrow> length (sb_link l) = 65024 \<Longrightarrow>
     slink_of_raw (slink_raw l) = l"
  by (simp add: slink_of_raw_def slink_raw_def SLINK_LINK_OFFSET_def SLINK_BLOCK_LINK_LEN_def)

lemma cstr_at_string:
  assumes "NUL \<notin> set nm" "length nm < n" "\<And>i. i < length nm \<Longrightarrow> b (k + i) = byte8 (nm ! i)" "b (k + length nm) = 0"
  shows "cstr_at n b k = Some nm"
  using assms
proof (induction nm arbitrary: n k)
  case Nil
  then show ?case
    by (cases n) auto
next
  case (Cons c nm)
  then obtain m where m: "n = Suc m"
    by (cases n) auto
  have c: "b k = byte8 c" "byte8 c \<noteq> 0"
    using Cons.prems(1) Cons.prems(3) [of 0] by auto
  have "cstr_at m b (Suc k) = Some nm"
    using Cons.prems(1,2,4) Cons.prems(3) [of "Suc _"] m by (intro Cons.IH) auto
  then show ?case
    using c m by simp
qed

end
