(* ===== verification/Ifs1_Paths.thy ===== *)
theory Ifs1_Paths
  imports Ifs1_Layout Strings_Proofs "HOL-Library.Sublist"
begin

text \<open>
  The path functions of \<^verbatim>\<open>kernel/fs/ifs1/fs.c\<close>: valid names and paths, the directory of a path,
  and absolute paths.  A path buffer is the string in it: \<open>UtlCopyString\<close> and \<open>UtlConcatString\<close>
  with the size \<open>n\<close> of the buffer leave at most \<open>n - 1\<close> characters, \<open>clip\<close> and \<open>cat\<close>.  A write
  outside a local array is \<^const>\<open>None\<close>.
\<close>

definition MAX_FILENAME_LEN :: nat where "MAX_FILENAME_LEN = 255"
definition MAX_FILENAME_BUFFER_LEN :: nat where "MAX_FILENAME_BUFFER_LEN = MAX_FILENAME_LEN + 1"
definition MAX_DIRNAME_LEN :: nat where "MAX_DIRNAME_LEN = MAX_FILENAME_LEN"
definition MAX_PATH_LEN :: nat where "MAX_PATH_LEN = 1023"
definition MAX_PATH_BUFFER_LEN :: nat where "MAX_PATH_BUFFER_LEN = MAX_PATH_LEN + 1"

definition clip :: "nat \<Rightarrow> string \<Rightarrow> string" where
  "clip n s = take (n - 1) s"

definition cat :: "nat \<Rightarrow> string \<Rightarrow> string \<Rightarrow> string" where
  "cat n d s = take (n - 1) (d @ s)"

section \<open>Operations\<close>

definition between :: "char \<Rightarrow> char \<Rightarrow> char \<Rightarrow> bool" where
  "between lo hi c \<longleftrightarrow> of_char lo \<le> (of_char c :: nat) \<and> (of_char c :: nat) \<le> of_char hi"

definition name_chr :: "char \<Rightarrow> bool" where
  "name_chr chr \<longleftrightarrow> between CHR ''a'' CHR ''z'' chr \<or> between CHR ''A'' CHR ''Z'' chr \<or>
     between CHR ''0'' CHR ''9'' chr \<or> chr = CHR ''.'' \<or> chr = CHR ''_''"

definition Ifs1IsValidName :: "string \<Rightarrow> bool" where
  "Ifs1IsValidName name =
     (if length name > MAX_FILENAME_LEN \<or> length name = 0 then False else list_all name_chr name)"

text \<open>\<open>for(; i >= 0 && p[i] != '/'; i--);\<close> and the \<open>i + 1\<close> it ends with, from \<open>i + 1\<close>.\<close>

fun back_slash :: "nat \<Rightarrow> string \<Rightarrow> nat" where
  "back_slash 0 p = 0"
| "back_slash (Suc i) p = (if p ! i = CHR ''/'' then Suc i else back_slash i p)"

definition Ifs1GetParentDir :: "string \<Rightarrow> bool \<times> string" where
  "Ifs1GetParentDir path =
     (let new_path = clip MAX_PATH_BUFFER_LEN path; len = length new_path in
      if len > 4 then
        let new_path = take (len - 1) new_path in (True, take (back_slash (len - 1) new_path) new_path)
      else (False, new_path))"

definition Ifs1GetFileLocation :: "string \<Rightarrow> bool \<times> string" where
  "Ifs1GetFileLocation path =
     (let new_path = clip MAX_PATH_BUFFER_LEN path; len = length new_path in
      if len > 4 then (True, take (back_slash (len - 1) new_path) new_path) else (False, new_path))"

text \<open>Appending to the array \<open>name\<close>: \<open>n\<close> points behind its string; \<open>Some None\<close> is the return for a
  name that is too long.\<close>

definition push_name :: "string \<Rightarrow> char \<Rightarrow> string option option" where
  "push_name name chr =
     (if length name > MAX_FILENAME_LEN then Some None
      else if length name + 1 < MAX_FILENAME_BUFFER_LEN then Some (Some (name @ [chr]))
      else None)"

fun valid_path_loop :: "nat \<Rightarrow> string \<Rightarrow> string \<Rightarrow> bool option" where
  "valid_path_loop state name [] = Some True"
| "valid_path_loop state name (chr # s) =
     (if state = 0 then (if \<not> between CHR ''A'' CHR ''Z'' chr then Some False else valid_path_loop 1 name s)
      else if state = 1 then (if \<not> between CHR ''A'' CHR ''Z'' chr then Some False else valid_path_loop 2 name s)
      else if state = 2 then (if chr \<noteq> CHR '':'' then Some False else valid_path_loop 3 name s)
      else if state = 3 then (if chr \<noteq> CHR ''/'' then Some False else valid_path_loop 4 name s)
      else if chr \<noteq> CHR ''/'' then
        (case push_name name chr of
           None \<Rightarrow> None
         | Some None \<Rightarrow> Some False
         | Some (Some name) \<Rightarrow> valid_path_loop state name s)
      else if \<not> Ifs1IsValidName name then Some False
      else valid_path_loop state [] s)"

definition Ifs1IsValidPath :: "string \<Rightarrow> bool option" where
  "Ifs1IsValidPath path = valid_path_loop 0 [] path"

text \<open>A component of a path applied to the directory in \<open>temp\<close>; \<open>sep\<close> is ''/'' inside the path.\<close>

definition apply_name :: "string \<Rightarrow> string \<Rightarrow> string \<Rightarrow> string" where
  "apply_name temp name sep =
     (if name = ''..'' then snd (Ifs1GetParentDir temp)
      else if name = ''.'' then temp
      else cat MAX_PATH_BUFFER_LEN (cat MAX_PATH_BUFFER_LEN temp name) sep)"

text \<open>The result \<open>Some None\<close> is \<open>return FALSE\<close>.\<close>

fun abs_path_loop :: "string \<Rightarrow> string \<Rightarrow> bool \<Rightarrow> string \<Rightarrow> string option option" where
  "abs_path_loop temp name processed [] = Some (Some (if processed then temp else apply_name temp name []))"
| "abs_path_loop temp name processed (chr # path) =
     (if chr \<noteq> CHR ''/'' then
        (case push_name name chr of
           None \<Rightarrow> None
         | Some None \<Rightarrow> Some None
         | Some (Some name) \<Rightarrow> abs_path_loop temp name False path)
      else abs_path_loop (apply_name temp name ''/'') [] True path)"

definition Ifs1GetAbsolutePath :: "string \<Rightarrow> string \<Rightarrow> string option option" where
  "Ifs1GetAbsolutePath path current_path =
     (let rooted = (length path > 4 \<and> path ! 2 = CHR '':'' \<and> path ! 3 = CHR ''/'') in
      if length path = 4 \<and> path ! 2 = CHR '':'' \<and> path ! 3 = CHR ''/'' then Some (Some (clip MAX_PATH_BUFFER_LEN path))
      else if path = ''/'' \<and> current_path \<noteq> [] then Some (Some (take 4 (clip MAX_PATH_BUFFER_LEN current_path)))
      else if current_path \<noteq> [] \<or> rooted then
        let temp = clip MAX_PATH_BUFFER_LEN current_path;
            (temp, path) =
              (if rooted then (take 4 path, drop 4 path)
               else (case path of c # rest \<Rightarrow> if c = CHR ''/'' then (take 4 temp, rest) else (temp, path)
                     | [] \<Rightarrow> (temp, path))) in
        map_option (map_option (clip MAX_PATH_BUFFER_LEN)) (abs_path_loop temp [] True path)
      else Some None)"

definition Ifs1IsChildPath :: "string \<Rightarrow> string \<Rightarrow> bool option" where
  "Ifs1IsChildPath dir sub_dir =
     (if length sub_dir < length dir then Some False
      else if length dir < MAX_PATH_BUFFER_LEN then Some (dir = take (length dir) sub_dir)
      else None)"

section \<open>Names and directories\<close>

lemma UtlCopyString_clip:
  assumes "0 < n" "unat n \<le> length dst" "NUL \<notin> set src" "UtlCopyString (Some dst) n (Some src) = Some (r, Some d)"
  shows "cstr d = clip (unat n) src"
proof -
  have "utl_copy_at 0 dst n src = Some (if length src < unat n then SFSTR_R_OK else SFSTR_R_TOO_LONG,
      take (unat n - 1) src @ NUL # drop (Suc (min (unat n - 1) (length src))) dst)"
    using utl_copy_at_spec [of n 0 dst src] assms(1-3) by simp
  then have "d = take (unat n - 1) src @ NUL # drop (Suc (min (unat n - 1) (length src))) dst"
    using assms(4) by (simp add: UtlCopyString_def)
  moreover have "NUL \<notin> set (take (unat n - 1) src)"
    using assms(3) by (auto dest: in_set_takeD)
  ultimately show ?thesis
    by (simp add: cstr_append_NUL clip_def)
qed

lemma back_slash_bounds: "back_slash i p \<le> i"
  by (induction i p rule: back_slash.induct) auto

lemma back_slash_at: "back_slash i p = Suc j \<Longrightarrow> p ! j = CHR ''/''"
  by (induction i p rule: back_slash.induct) (auto split: if_splits)

lemma back_slash_skip: "\<forall>j. m \<le> j \<and> j < i \<longrightarrow> p ! j \<noteq> CHR ''/'' \<Longrightarrow> m \<le> i \<Longrightarrow> back_slash i p = back_slash m p"
proof (induction i p rule: back_slash.induct)
  case (2 i p)
  then show ?case
    by (cases "m = Suc i") (auto simp: le_Suc_eq)
qed simp

lemma back_slash_cong: "(\<And>j. j < i \<Longrightarrow> p ! j = q ! j) \<Longrightarrow> back_slash i p = back_slash i q"
  by (induction i p rule: back_slash.induct) auto

lemma parent_is_location: "Ifs1GetParentDir path = Ifs1GetFileLocation path"
proof -
  have "back_slash (length p - 1) (take (length p - 1) p) = back_slash (length p - 1) p" for p :: string
    by (rule back_slash_cong) simp
  then show ?thesis
    using back_slash_bounds [of "length (clip MAX_PATH_BUFFER_LEN path) - 1" "clip MAX_PATH_BUFFER_LEN path"]
    by (simp add: Ifs1GetParentDir_def Ifs1GetFileLocation_def Let_def min_def)
qed

section \<open>What an absolute path is\<close>

text \<open>The directory of the components \<open>cs\<close> below a root such as \<open>VA:/\<close>.\<close>

definition disk_root :: "string \<Rightarrow> bool" where
  "disk_root r \<longleftrightarrow> length r = 4 \<and> r ! 2 = CHR '':'' \<and> r ! 3 = CHR ''/''"

definition render :: "string \<Rightarrow> string list \<Rightarrow> string" where
  "render r cs = r @ concat (map (\<lambda>c. c @ ''/'') cs)"

definition path_comp :: "string \<Rightarrow> bool" where
  "path_comp c \<longleftrightarrow> CHR ''/'' \<notin> set c \<and> length c \<le> 255"

definition step_dir :: "string list \<Rightarrow> string \<Rightarrow> string list" where
  "step_dir ds c = (if c = ''..'' then butlast ds else if c = ''.'' then ds else ds @ [c])"

lemma render_snoc: "render r (cs @ [c]) = render r cs @ c @ ''/''"
  by (simp add: render_def)

lemma length_render: "length r = 4 \<Longrightarrow> 4 \<le> length (render r cs)"
  by (simp add: render_def)

lemma render_last: "disk_root r \<Longrightarrow> render r cs ! (length (render r cs) - 1) = CHR ''/''"
  by (cases cs rule: rev_cases) (auto simp: disk_root_def render_snoc nth_append, simp add: render_def)

lemma parent_render:
  assumes "disk_root r" "\<forall>c \<in> set cs. CHR ''/'' \<notin> set c" "length (render r cs) \<le> 1023"
  shows "snd (Ifs1GetParentDir (render r cs)) = render r (butlast cs)"
proof (cases cs rule: rev_cases)
  case Nil
  then show ?thesis
    using assms(1) by (simp add: Ifs1GetParentDir_def clip_def MAX_PATH_BUFFER_LEN_def MAX_PATH_LEN_def render_def disk_root_def)
next
  case (snoc ds c)
  let ?p = "render r cs" and ?m = "length (render r ds)"
  have p: "?p = render r ds @ c @ ''/''" and m: "4 \<le> ?m" "length ?p = ?m + length c + 1"
    using snoc assms(1) length_render [of r ds] by (auto simp: render_snoc disk_root_def)
  have "\<forall>j. ?m \<le> j \<and> j < length ?p - 1 \<longrightarrow> ?p ! j \<noteq> CHR ''/''"
    unfolding p using assms(2) snoc by (auto simp: nth_append) (metis add_diff_inverse_nat leD nat_add_left_cancel_less nth_mem)
  then have "back_slash (length ?p - 1) ?p = back_slash ?m ?p"
    using m by (intro back_slash_skip) auto
  moreover have "?p ! (?m - 1) = CHR ''/''"
    using render_last [OF assms(1), of ds] m(1) unfolding p by (simp add: nth_append)
  then have "back_slash ?m ?p = ?m"
    using m(1) by (cases ?m) auto
  moreover have "clip MAX_PATH_BUFFER_LEN ?p = ?p"
    using assms(3) by (simp add: clip_def MAX_PATH_BUFFER_LEN_def MAX_PATH_LEN_def)
  ultimately have "snd (Ifs1GetFileLocation ?p) = take ?m ?p"
    using m by (simp add: Ifs1GetFileLocation_def Let_def)
  then show ?thesis
    unfolding parent_is_location using snoc p by simp
qed

lemma apply_name_render:
  assumes "disk_root r" "\<forall>c \<in> set cs. CHR ''/'' \<notin> set c" "length (render r cs) + length c + 1 \<le> 1023"
  shows "apply_name (render r cs) c ''/'' = render r (step_dir cs c)"
  using assms parent_render [OF assms(1,2)]
  by (auto simp: apply_name_def step_dir_def render_snoc cat_def MAX_PATH_BUFFER_LEN_def MAX_PATH_LEN_def)

lemma abs_path_name:
  "CHR ''/'' \<notin> set c \<Longrightarrow> length (acc @ c) \<le> 255 \<Longrightarrow>
     abs_path_loop temp acc pr (c @ CHR ''/'' # rest) = abs_path_loop (apply_name temp (acc @ c) ''/'') [] True rest"
proof (induction c arbitrary: acc pr)
  case (Cons x c)
  then have "x \<noteq> CHR ''/''"
    by auto
  then show ?case
    using Cons.prems Cons.IH [of "acc @ [x]" False] by (simp add: push_name_def MAX_FILENAME_LEN_def MAX_FILENAME_BUFFER_LEN_def)
qed simp

lemma abs_path_last:
  "CHR ''/'' \<notin> set c \<Longrightarrow> length (acc @ c) \<le> 255 \<Longrightarrow>
     abs_path_loop temp acc pr c = Some (Some (if c = [] then (if pr then temp else apply_name temp acc []) else apply_name temp (acc @ c) []))"
proof (induction c arbitrary: acc pr)
  case (Cons x c)
  then have "x \<noteq> CHR ''/''"
    by auto
  then show ?case
    using Cons.prems Cons.IH [of "acc @ [x]" False] by (simp add: push_name_def MAX_FILENAME_LEN_def MAX_FILENAME_BUFFER_LEN_def)
qed simp

lemma step_dir_noslash: "\<forall>c \<in> set cs. CHR ''/'' \<notin> set c \<Longrightarrow> CHR ''/'' \<notin> set c \<Longrightarrow> \<forall>d \<in> set (step_dir cs c). CHR ''/'' \<notin> set d"
  by (auto simp: step_dir_def dest: in_set_butlastD)

lemma length_step_dir: "length (render r (step_dir cs c)) \<le> length (render r cs) + length c + 1"
  by (cases cs rule: rev_cases) (auto simp: step_dir_def render_def)

lemma abs_path_dirs:
  assumes "disk_root r" "\<forall>c \<in> set cur. CHR ''/'' \<notin> set c" "\<forall>c \<in> set cs. path_comp c"
    "length (render r cur) + length (concat (map (\<lambda>c. c @ ''/'') cs)) \<le> 1023"
  shows "abs_path_loop (render r cur) [] True (concat (map (\<lambda>c. c @ ''/'') cs) @ f) =
    abs_path_loop (render r (foldl step_dir cur cs)) [] True f \<and>
    length (render r (foldl step_dir cur cs)) \<le> length (render r cur) + length (concat (map (\<lambda>c. c @ ''/'') cs)) \<and>
    (\<forall>c \<in> set (foldl step_dir cur cs). CHR ''/'' \<notin> set c)"
  using assms(2,3,4)
proof (induction cs arbitrary: cur)
  case (Cons c cs)
  let ?cur = "step_dir cur c"
  have c: "CHR ''/'' \<notin> set c" "length c \<le> 255"
    using Cons.prems(2) by (auto simp: path_comp_def)
  have "abs_path_loop (render r cur) [] True (concat (map (\<lambda>c. c @ ''/'') (c # cs)) @ f) =
      abs_path_loop (render r ?cur) [] True (concat (map (\<lambda>c. c @ ''/'') cs) @ f)"
    using abs_path_name [of c "[]" "render r cur" True "concat (map (\<lambda>c. c @ ''/'') cs) @ f"] c
      apply_name_render [OF assms(1) Cons.prems(1), of c] Cons.prems(3) by simp
  moreover have "\<forall>c \<in> set ?cur. CHR ''/'' \<notin> set c"
    using step_dir_noslash [OF Cons.prems(1) c(1)] .
  ultimately show ?case
    using Cons.IH [of ?cur] Cons.prems(2,3) length_step_dir [of r cur c] by auto
qed simp

text \<open>The last component, without a slash.\<close>

definition render_file :: "string \<Rightarrow> string list \<Rightarrow> string \<Rightarrow> string" where
  "render_file r cs f = (if f = ''..'' then render r (butlast cs) else if f = ''.'' then render r cs else render r cs @ f)"

lemma apply_last:
  assumes "disk_root r" "\<forall>c \<in> set cs. CHR ''/'' \<notin> set c" "length (render r cs) + length f \<le> 1023"
  shows "apply_name (render r cs) f [] = render_file r cs f" "length (render_file r cs f) \<le> 1023"
proof -
  have "length (render r (butlast cs)) \<le> length (render r cs)"
    by (cases cs rule: rev_cases) (auto simp: render_snoc)
  then show "length (render_file r cs f) \<le> 1023"
    using assms(3) by (auto simp: render_file_def)
qed (use parent_render [OF assms(1,2)] assms(3) in
  \<open>auto simp: apply_name_def render_file_def cat_def MAX_PATH_BUFFER_LEN_def MAX_PATH_LEN_def\<close>)

lemma abs_path_resolves:
  assumes "disk_root r" "\<forall>c \<in> set cur. CHR ''/'' \<notin> set c" "\<forall>c \<in> set cs. path_comp c" "path_comp f"
    "length (render r cur) + length (concat (map (\<lambda>c. c @ ''/'') cs)) + length f \<le> 1023"
  shows "map_option (map_option (clip 1024)) (abs_path_loop (render r cur) [] True (concat (map (\<lambda>c. c @ ''/'') cs) @ f)) =
    Some (Some (render_file r (foldl step_dir cur cs) f))"
proof -
  let ?ds = "foldl step_dir cur cs"
  have d: "abs_path_loop (render r cur) [] True (concat (map (\<lambda>c. c @ ''/'') cs) @ f) = abs_path_loop (render r ?ds) [] True f"
    "length (render r ?ds) + length f \<le> 1023" "\<forall>c \<in> set ?ds. CHR ''/'' \<notin> set c"
    using abs_path_dirs [OF assms(1-3), of f] assms(5) by auto
  have "abs_path_loop (render r ?ds) [] True f = Some (Some (render_file r ?ds f))"
    using abs_path_last [of f "[]" "render r ?ds" True] assms(4) apply_last(1) [OF assms(1) d(3,2)]
    by (auto simp: path_comp_def render_file_def)
  then show ?thesis
    using d(1) apply_last(2) [OF assms(1) d(3,2)] by (simp add: clip_def)
qed

section \<open>Properties\<close>

text \<open>\<open>Ifs1GetAbsolutePath\<close> resolves a path component by component: within the 1023 characters
  of a path buffer, a relative path is resolved from the current directory and a path with a disk
  symbol from the root of that disk, where \<open>..\<close> removes the last directory (none at the root) and
  \<open>.\<close> is the directory itself.\<close>

theorem ifs1_absolute_path:
  assumes "disk_root r" "disk_root q" "\<forall>c \<in> set cur. CHR ''/'' \<notin> set c" "\<forall>c \<in> set cs. path_comp c" "path_comp f"
    "path = concat (map (\<lambda>c. c @ ''/'') cs) @ f" "path \<noteq> []" "path ! 0 \<noteq> CHR ''/''"
    "length (render r cur) + length path \<le> 1023"
  shows "(path ! 2 \<noteq> CHR '':'' \<or> path ! 3 \<noteq> CHR ''/'' \<longrightarrow>
      Ifs1GetAbsolutePath path (render r cur) = Some (Some (render_file r (foldl step_dir cur cs) f))) \<and>
    Ifs1GetAbsolutePath (q @ path) (render r cur) = Some (Some (render_file q (foldl step_dir [] cs) f))"
proof -
  have q: "length q = 4" "q ! 2 = CHR '':''" "q ! 3 = CHR ''/''" "render q [] = q"
    using assms(2) by (simp_all add: disk_root_def render_def)
  have r: "render r cur \<noteq> []" "4 \<le> length (render r cur)" "clip MAX_PATH_BUFFER_LEN (render r cur) = render r cur"
    using assms(1,9) length_render [of r cur] by (auto simp: disk_root_def clip_def MAX_PATH_BUFFER_LEN_def MAX_PATH_LEN_def)
  obtain c rest where c: "path = c # rest" "c \<noteq> CHR ''/''"
    using assms(7,8) by (cases path) auto
  have n: "MAX_PATH_BUFFER_LEN = 1024"
    by (simp add: MAX_PATH_BUFFER_LEN_def MAX_PATH_LEN_def)
  have rel: "Ifs1GetAbsolutePath path (render r cur) = Some (Some (render_file r (foldl step_dir cur cs) f))"
    if "path ! 2 \<noteq> CHR '':'' \<or> path ! 3 \<noteq> CHR ''/''"
  proof -
    have "Ifs1GetAbsolutePath path (render r cur) = map_option (map_option (clip 1024)) (abs_path_loop (render r cur) [] True path)"
      using that c r n by (auto simp: Ifs1GetAbsolutePath_def)
    then show ?thesis
      using abs_path_resolves [OF assms(1,3,4,5)] assms(6,9) by simp
  qed
  have "q @ path \<noteq> ''/''"
    using q(1) by (auto dest: arg_cong [of _ _ length])
  then have "Ifs1GetAbsolutePath (q @ path) (render r cur) = map_option (map_option (clip 1024)) (abs_path_loop q [] True path)"
    using q c n by (auto simp: Ifs1GetAbsolutePath_def nth_append)
  then have "Ifs1GetAbsolutePath (q @ path) (render r cur) = Some (Some (render_file q (foldl step_dir [] cs) f))"
    using abs_path_resolves [OF assms(2) _ assms(4,5), of "[]"] assms(6,9) q(1,4) r(2) by simp
  with rel show ?thesis
    by blast
qed

theorem ifs1_absolute_path_witness:
  "Ifs1GetAbsolutePath ''VB:/../b/./c.txt'' ''VA:/u/v/'' = Some (Some ''VB:/b/c.txt'')"
  using ifs1_absolute_path [of "''VA:/''" "''VB:/''" "[''u'', ''v'']" "[''..'', ''b'', ''.'']" "''c.txt''" "''../b/./c.txt''"]
  by (simp add: disk_root_def path_comp_def render_def render_file_def step_dir_def)

end
