(* ===== verification/Ifs1_Blocks_Proofs.thy ===== *)
theory Ifs1_Blocks_Proofs
  imports Ifs1_Blocks Strings_Proofs
begin

text \<open>
  The blocks of an IFS1 RAM disk as an array of 64 KB blocks that \<open>Ifs1GetBlock\<close> and
  \<open>Ifs1SetBlock\<close> implement, the block allocation table as a list of distinct unused blocks, what
  adding and deleting a block do to both, and the invariant of every sequence of these operations.
\<close>

section \<open>The blocks of a RAM disk\<close>

text \<open>The symbol is that of a RAM disk in the disk list, its memory at \<open>a\<close>.\<close>

definition vd_at :: "string \<Rightarrow> u32 \<Rightarrow> 'h disks \<Rightarrow> bool" where
  "vd_at symb a d \<longleftrightarrow> dsk_inv d \<and> is_vdisk symb \<and> listed symb d \<and> vd_start symb d = Some a"

definition vblock :: "u32 \<Rightarrow> 'h disks \<Rightarrow> u32 \<Rightarrow> buf" where
  "vblock a d i = (\<lambda>k. if k < 65536 then vd_ram d a (unat i * 65536 + k) else 0)"

definition same_bytes :: "buf \<Rightarrow> buf \<Rightarrow> bool" where
  "same_bytes b c \<longleftrightarrow> (\<forall>k < 65536. b k = c k)"

definition blk_id :: "u32 \<Rightarrow> bool" where
  "blk_id i \<longleftrightarrow> 10 \<le> unat i \<and> unat i < 39"

lemma vd_at_cong: "same_disks d' d \<Longrightarrow> vd_at symb a d' = vd_at symb a d"
  using vd_start_cong [of d' d symb] by (simp add: vd_at_def same_disks_def dsk_inv_def listed_def)

lemma vd_size: "vd_start symb d = Some a \<Longrightarrow> VdskGetSize symb d = 2500"
  by (auto simp: VdskGetSize_def vd_start_def VDISK_BUFFER_SIZE_def VDISK_SECTORS_def VDISK_SECTOR_SIZE_def split: if_splits)

lemma max_block_count:
  assumes "vd_at symb a (dk s)"
  shows "Ifs1GetMaxBlockCount drv (Some symb) s = 39"
proof -
  have "is_vdisk symb" "symb \<noteq> ''VS''"
    using assms by (auto simp: vd_at_def is_vdisk_def)
  then have "DskGetSize drv (Some symb) (dk s) = VdskGetSize symb (dk s)"
    by (simp add: DskGetSize_def real_symbol_def)
  also have "\<dots> = 2500"
    using assms unfolding vd_at_def by (intro vd_size [of _ _ a]) blast
  finally show ?thesis
    by (simp add: Ifs1GetMaxBlockCount_def BLOCK_SECTORS_def)
qed

lemma blk_id_iff: "blk_id i \<longleftrightarrow> \<not> (i < START_BLOCK_ID \<or> i \<ge> 39)"
  by (auto simp: blk_id_def START_BLOCK_ID_def word_less_nat_alt word_le_nat_alt)

lemma blk_id_sector:
  assumes "blk_id i"
  shows "unat (i * BLOCK_SECTORS) = unat i * 128"
proof -
  have "unat i * unat (128 :: u32) < 2 ^ 32"
    using assms by (simp add: blk_id_def)
  then show ?thesis
    by (simp add: BLOCK_SECTORS_def unat_mult_lem [THEN iffD1])
qed

lemma sectors128: "sector_count (ucast BLOCK_SECTORS) = 128"
  by (simp add: sector_count_def BLOCK_SECTORS_def)

lemma blk_id_fits: "blk_id i \<Longrightarrow> unat (i * BLOCK_SECTORS) + sector_count (ucast BLOCK_SECTORS) \<le> 5000"
  unfolding sectors128 by (simp add: blk_id_sector) (simp add: blk_id_def)

lemma get_block:
  assumes "vd_at symb a (dk s)" "blk_id i"
  shows "\<exists>d b'. Ifs1GetBlock drv (Some symb) i (Some b) s = Some (True, Some b', s\<lparr>dk := d\<rparr>) \<and>
    same_bytes b' (vblock a (dk s) i) \<and> same_disks d (dk s) \<and> vd_ram d = vd_ram (dk s)"
proof -
  have v: "dsk_inv (dk s)" "is_vdisk symb" "listed symb (dk s)" "vd_start symb (dk s) = Some a"
    using assms(1) by (simp_all add: vd_at_def)
  from vdisk_read [OF v blk_id_fits [OF assms(2)], of drv b] obtain d where
    d: "DskReadSectors drv (Some symb) (i * BLOCK_SECTORS) (ucast BLOCK_SECTORS) (Some b) (dk s) =
      Some (True, Some (\<lambda>k. if k < 65536 then vd_ram (dk s) a (unat i * 65536 + k) else b k), d)"
      "same_disks d (dk s)" "vd_ram d = vd_ram (dk s)"
    unfolding sectors128 blk_id_sector [OF assms(2)] by (auto simp: mult.commute cong: if_cong)
  then have "Ifs1GetBlock drv (Some symb) i (Some b) s =
      Some (True, Some (\<lambda>k. if k < 65536 then vd_ram (dk s) a (unat i * 65536 + k) else b k), s\<lparr>dk := d\<rparr>)"
    using assms(2) by (simp add: Ifs1GetBlock_def max_block_count [OF assms(1)] blk_id_iff)
  moreover have "same_bytes (\<lambda>k. if k < 65536 then vd_ram (dk s) a (unat i * 65536 + k) else b k) (vblock a (dk s) i)"
    by (simp add: same_bytes_def vblock_def)
  ultimately show ?thesis
    using d(2,3) by blast
qed

lemma set_block:
  assumes "vd_at symb a (dk s)" "blk_id i"
  shows "\<exists>d. Ifs1SetBlock drv (Some symb) i (Some b) s = Some (True, s\<lparr>dk := d\<rparr>) \<and> same_disks d (dk s) \<and>
    vblock a d i = (\<lambda>k. if k < 65536 then b k else 0) \<and> (\<forall>j. j \<noteq> i \<longrightarrow> vblock a d j = vblock a (dk s) j) \<and>
    (\<forall>c. c \<noteq> a \<longrightarrow> vd_ram d c = vd_ram (dk s) c)"
proof -
  have v: "dsk_inv (dk s)" "is_vdisk symb" "listed symb (dk s)" "vd_start symb (dk s) = Some a"
    using assms(1) by (simp_all add: vd_at_def)
  from vdisk_write [OF v blk_id_fits [OF assms(2)], of drv b] obtain d where
    d: "DskWriteSectors drv (Some symb) (i * BLOCK_SECTORS) (ucast BLOCK_SECTORS) (Some b) (dk s) = Some (True, d)"
      "same_disks d (dk s)" "vd_ram d = (vd_ram (dk s))(a := put_sectors (unat i * 128) 128 b 0 (vd_ram (dk s) a))"
    unfolding sectors128 blk_id_sector [OF assms(2)] by auto
  have "vblock a d j = vblock a (dk s) j" if "j \<noteq> i" for j
  proof -
    have "unat j \<noteq> unat i"
      using that word_unat_eq_iff [of j i] by blast
    then have "unat j * 65536 + 65536 \<le> unat i * 65536 \<or> (unat i * 65536 + 65536 \<le> unat j * 65536)"
      by linarith
    then show ?thesis
      by (auto simp: vblock_def d(3) put_sectors_def intro!: ext)
  qed
  moreover have "vblock a d i = (\<lambda>k. if k < 65536 then b k else 0)"
    by (auto simp: vblock_def d(3) put_sectors_def intro!: ext)
  moreover have "Ifs1SetBlock drv (Some symb) i (Some b) s = Some (True, s\<lparr>dk := d\<rparr>)"
    using d(1) assms(2) by (simp add: Ifs1SetBlock_def max_block_count [OF assms(1)] blk_id_iff)
  moreover have "\<forall>c. c \<noteq> a \<longrightarrow> vd_ram d c = vd_ram (dk s) c"
    by (simp add: d(3))
  ultimately show ?thesis
    using d(2) by blast
qed

lemma block_used_cong: "same_bytes b c \<Longrightarrow> block_used b = block_used c"
  by (simp add: same_bytes_def block_used_def)

lemma vblock_ram: "vd_ram d = vd_ram d' \<Longrightarrow> vblock a d = vblock a d'"
  by (simp add: vblock_def fun_eq_iff)

section \<open>The block allocation table\<close>

text \<open>The table of a disk lists the nodes \<open>ps\<close>, which hold the block numbers \<open>ids\<close>.\<close>

definition bat :: "string \<Rightarrow> addr list \<Rightarrow> u32 list \<Rightarrow> 'h ifs1 \<Rightarrow> bool" where
  "bat symb ps ids s \<longleftrightarrow>
     (\<exists>l. Ifs1GetBAT (Some symb) s = Some l \<and> lnk s l ps) \<and> map (\<lambda>p. n_value (lnodes s p)) ps = map VUint32 ids"

text \<open>The invariant: the numbers in the table are distinct, and the blocks unused.\<close>

definition bat_inv :: "string \<Rightarrow> u32 \<Rightarrow> addr list \<Rightarrow> u32 list \<Rightarrow> 'h ifs1 \<Rightarrow> bool" where
  "bat_inv symb a ps ids s \<longleftrightarrow>
     vd_at symb a (dk s) \<and> bat symb ps ids s \<and> distinct ids \<and>
     (\<forall>i \<in> set ids. blk_id i \<and> \<not> block_used (vblock a (dk s) i))"

lemma more_sel:
  "dk s = dk (dsl.extend dsl (dsl.more s))" "stk s = stk (dsl.extend dsl (dsl.more s))"
  "km_answers s = km_answers (dsl.extend dsl (dsl.more s))" "km_freed s = km_freed (dsl.extend dsl (dsl.more s))"
  "bat_va s = bat_va (dsl.extend dsl (dsl.more s))" "bat_vb s = bat_vb (dsl.extend dsl (dsl.more s))"
  "bat_da s = bat_da (dsl.extend dsl (dsl.more s))" "bat_db s = bat_db (dsl.extend dsl (dsl.more s))"
  for s :: "'h ifs1"
  by (cases s, simp add: dsl.extend_def)+

lemma more_frame:
  assumes "dsl.more s' = dsl.more (s :: 'h ifs1)"
  shows "dk s' = dk s" "stk s' = stk s" "km_answers s' = km_answers s" "km_freed s' = km_freed s"
    "Ifs1GetBAT x s' = Ifs1GetBAT x s"
proof -
  note m = more_sel [of s' undefined, unfolded assms, folded more_sel [of s undefined]]
  show "dk s' = dk s" "stk s' = stk s" "km_answers s' = km_answers s" "km_freed s' = km_freed s"
    "Ifs1GetBAT x s' = Ifs1GetBAT x s"
    using m by (simp_all add: Ifs1GetBAT_def split: option.split)
qed

lemma dk_frame [simp]:
  "Ifs1GetBAT x (s\<lparr>dk := d\<rparr>) = Ifs1GetBAT x s" "Ifs1GetBAT x (s\<lparr>km_freed := f\<rparr>) = Ifs1GetBAT x s"
  "Ifs1GetBAT x (s\<lparr>km_answers := as\<rparr>) = Ifs1GetBAT x s"
  "lnk (s\<lparr>dk := d\<rparr>) l ps = lnk s l ps" "lnk (s\<lparr>km_freed := f\<rparr>) l ps = lnk s l ps"
  "lnk (s\<lparr>km_answers := as\<rparr>) l ps = lnk s l ps"
  by (simp_all add: Ifs1GetBAT_def lnk_def split: option.split)

lemma bat_frame [simp]:
  "bat symb ps ids (s\<lparr>dk := d\<rparr>) = bat symb ps ids s" "bat symb ps ids (s\<lparr>km_freed := f\<rparr>) = bat symb ps ids s"
  "bat symb ps ids (s\<lparr>km_answers := as\<rparr>) = bat symb ps ids s"
  by (simp_all add: bat_def)

lemma new_block_empty:
  assumes "bat symb [] [] s"
  shows "Ifs1NewBlockFromBAT (Some symb) s = Some (None, s)"
  using assms by (auto simp: Ifs1NewBlockFromBAT_def bat_def dsl_lnklst_count_def lnk_def)

lemma new_block_from_bat:
  assumes "bat symb (p # ps) (i # ids) s"
  shows "\<exists>s'. Ifs1NewBlockFromBAT (Some symb) s = Some (Some i, s') \<and> bat symb ps ids s' \<and> dk s' = dk s \<and> stk s' = stk s \<and>
    km_answers s' = km_answers s \<and> km_freed s' = km_freed s @ [p]"
proof -
  obtain l where l: "Ifs1GetBAT (Some symb) s = Some l" "lnk s l (p # ps)" "n_value (lnodes s p) = VUint32 i"
    "map (\<lambda>p. n_value (lnodes s p)) ps = map VUint32 ids"
    using assms by (auto simp: bat_def)
  from remove_node_spec [of s l "[]" p ps] l(2) obtain s' where
    s': "dsl_lnklst_remove_node (Some l) (Some p) s = Some (True, s')" "lnk s' l ps"
      "\<And>q. n_value (lnodes s' q) = n_value (lnodes s q)" "dsl.more s' = dsl.more s"
    by auto
  note f = more_frame [OF s'(4)]
  have "dsl_lnklst_shift_node (Some l) s = Some (Some p, s')" "dsl_lnklst_count (Some l) s \<noteq> 0"
    using s'(1) l(2) by (auto simp: dsl_lnklst_shift_node_def dsl_lnklst_count_def lnk_def lnk_head [OF l(2)])
  then have "Ifs1NewBlockFromBAT (Some symb) s = Some (Some i, s'\<lparr>km_freed := km_freed s' @ [p]\<rparr>)"
    using l(1,3) s'(3) by (simp add: Ifs1NewBlockFromBAT_def)
  moreover have "bat symb ps ids s'"
    using l(1,4) s'(2,3) f(5) by (simp add: bat_def)
  ultimately show ?thesis
    using f by simp
qed

text \<open>The next node of the kernel pool is not one that is in the table.\<close>

definition fresh_node :: "addr list \<Rightarrow> 'h ifs1 \<Rightarrow> bool" where
  "fresh_node ps s \<longleftrightarrow> (case km_answers s of Some n # _ \<Rightarrow> n \<notin> set ps | _ \<Rightarrow> True)"

lemma add_to_bat_spec:
  assumes "bat symb ps ids s" "Ifs1GetBAT (Some symb) s = Some l" "fresh_node ps s"
  shows "\<exists>r s' ps' ids'. add_to_bat (Some l) i s = (r, s') \<and> bat symb ps' ids' s' \<and> dk s' = dk s \<and> stk s' = stk s \<and>
    (if fst (km_alloc s) \<noteq> None then r \<and> ids' = ids @ [i] else \<not> r \<and> ids' = ids)"
proof (cases "km_alloc s")
  case (Pair n s1)
  then consider "s1 = s" | as where "s1 = s\<lparr>km_answers := as\<rparr>"
    by (auto simp: km_alloc_def split: list.splits)
  then have "bat symb ps ids s1 \<and> dk s1 = dk s \<and> stk s1 = stk s \<and> Ifs1GetBAT (Some symb) s1 = Some l"
    by cases (use assms(1,2) in simp_all)
  then have b1: "bat symb ps ids s1" "dk s1 = dk s" "stk s1 = stk s" "Ifs1GetBAT (Some symb) s1 = Some l"
    by simp_all
  show ?thesis
  proof (cases n)
    case None
    then show ?thesis
      using Pair b1 by (intro exI [of _ False] exI [of _ s1] exI [of _ ps] exI [of _ ids]) (simp add: add_to_bat_def)
  next
    case (Some a)
    then have a: "a \<notin> set ps"
      using assms(3) Pair by (auto simp: fresh_node_def km_alloc_def split: list.splits)
    let ?s = "set_node a (\<lambda>d. d\<lparr>n_value := VUint32 i\<rparr>) s1"
    have v: "n_value (lnodes s1 p) = n_value (lnodes ?s p)" if "p \<in> set ps" for p
      using that a by auto
    have "lnk s1 l ps" "map (\<lambda>p. n_value (lnodes s1 p)) ps = map VUint32 ids"
      using b1(1,4) by (simp_all add: bat_def)
    then have "lnk ?s l ps" "map (\<lambda>p. n_value (lnodes ?s p)) ps = map VUint32 ids"
      using a v by (auto simp: lnk_cong [of ps ?s s1 l] cong: map_cong)
    moreover from add_node_spec [OF calculation(1) a] obtain s' where
      s': "dsl_lnklst_add_node (Some l) (Some a) ?s = (True, s')" "lnk s' l (ps @ [a])"
        "\<And>q. n_value (lnodes s' q) = n_value (lnodes ?s q)" "dsl.more s' = dsl.more ?s"
      by blast
    moreover note f = more_frame [OF s'(4)[unfolded set_node_simps]]
    ultimately have "bat symb (ps @ [a]) (ids @ [i]) s'"
      using b1(4) by (simp add: bat_def)
    then show ?thesis
      using Pair Some s'(1) f b1(2,3)
      by (intro exI [of _ True] exI [of _ s'] exI [of _ "ps @ [a]"] exI [of _ "ids @ [i]"]) (simp add: add_to_bat_def)
  qed
qed

section \<open>Adding and deleting blocks\<close>

definition vtrunc :: "buf \<Rightarrow> buf" where
  "vtrunc b = (\<lambda>k. if k < 65536 then b k else 0)"

text \<open>Between \<open>d\<close> and \<open>d'\<close> nothing but block \<open>i\<close> of the RAM disk has changed; it now holds \<open>b\<close>.\<close>

definition stored :: "u32 \<Rightarrow> u32 \<Rightarrow> buf \<Rightarrow> 'h disks \<Rightarrow> 'h disks \<Rightarrow> bool" where
  "stored a i b d d' \<longleftrightarrow> same_disks d' d \<and> vblock a d' i = vtrunc b \<and> (\<forall>j. j \<noteq> i \<longrightarrow> vblock a d' j = vblock a d j) \<and>
     (\<forall>c. c \<noteq> a \<longrightarrow> vd_ram d' c = vd_ram d c)"

definition kept :: "'h disks \<Rightarrow> 'h disks \<Rightarrow> bool" where
  "kept d d' \<longleftrightarrow> same_disks d' d \<and> vd_ram d' = vd_ram d"

lemma same_disks_trans: "same_disks d2 d1 \<Longrightarrow> same_disks d1 d \<Longrightarrow> same_disks d2 d"
  by (simp add: same_disks_def)

lemma kept_trans: "kept d d1 \<Longrightarrow> kept d1 d2 \<Longrightarrow> kept d d2"
  by (simp add: kept_def same_disks_def)

lemma kept_stored: "kept d d1 \<Longrightarrow> stored a i b d1 d2 \<Longrightarrow> stored a i b d d2"
  using vblock_ram [of d1 d a] by (simp add: kept_def stored_def same_disks_def)

lemma kept_refl: "kept d d"
  by (simp add: kept_def same_disks_def)

lemma kept_at: "kept d d' \<Longrightarrow> vd_at symb a d' = vd_at symb a d" "kept d d' \<Longrightarrow> vblock a d' = vblock a d"
  unfolding kept_def by (rule vd_at_cong, blast) (rule vblock_ram, blast)

lemma stored_at: "stored a i b d d' \<Longrightarrow> vd_at symb a d' = vd_at symb a d"
  unfolding stored_def by (rule vd_at_cong) blast

lemma block_used_vtrunc [simp]: "block_used (vtrunc b) = block_used b"
  by (simp add: block_used_def vtrunc_def)

lemma get_block_used:
  assumes "vd_at symb a (dk s)" "blk_id i"
  shows "\<exists>d b'. Ifs1GetBlock drv (Some symb) i (Some b) s = Some (True, Some b', s\<lparr>dk := d\<rparr>) \<and>
    block_used b' = block_used (vblock a (dk s) i) \<and> kept (dk s) d"
  using get_block [OF assms, of drv b] block_used_cong unfolding kept_def by blast

lemma set_block_stored:
  assumes "vd_at symb a (dk s)" "blk_id i"
  shows "\<exists>d. Ifs1SetBlock drv (Some symb) i (Some b) s = Some (True, s\<lparr>dk := d\<rparr>) \<and> stored a i b (dk s) d"
  using set_block [OF assms, of drv b] unfolding stored_def vtrunc_def by blast

text \<open>The search without the table: the least unused block, if there is one.\<close>

lemma add_block_loop_spec:
  assumes "vd_at symb a (dk s)" "unat ui + n = 39" "10 \<le> unat ui"
  shows "\<exists>i d. add_block_loop drv (Some symb) (Some b) n ui temp s = Some (i, s\<lparr>dk := d\<rparr>) \<and>
    (i = INVALID_BLOCK_ID \<and> (\<forall>j. unat ui \<le> unat j \<and> unat j < 39 \<longrightarrow> block_used (vblock a (dk s) j)) \<and> kept (dk s) d \<or>
     blk_id i \<and> \<not> block_used (vblock a (dk s) i) \<and>
     (\<forall>j. unat ui \<le> unat j \<and> unat j < unat i \<longrightarrow> block_used (vblock a (dk s) j)) \<and> stored a i b (dk s) d)"
  using assms
proof (induction n arbitrary: ui temp s)
  case 0
  have "s = s\<lparr>dk := dk s\<rparr>"
    by simp
  then show ?case
    using 0 kept_refl [of "dk s"] by (intro exI [of _ INVALID_BLOCK_ID] exI [of _ "dk s"]) auto
next
  case (Suc n)
  have id: "blk_id ui" and nx: "unat (ui + 1) = Suc (unat ui)"
    using Suc.prems by (simp_all add: blk_id_def unat_Suc32)
  obtain d b' where g: "Ifs1GetBlock drv (Some symb) ui (Some temp) s = Some (True, Some b', s\<lparr>dk := d\<rparr>)"
    "block_used b' = block_used (vblock a (dk s) ui)" "kept (dk s) d"
    using get_block_used [OF Suc.prems(1) id, of drv temp] by blast
  have at: "vd_at symb a (dk (s\<lparr>dk := d\<rparr>))"
    using Suc.prems(1) kept_at(1) [OF g(3)] by simp
  show ?case
  proof (cases "block_used b'")
    case False
    obtain e where e: "Ifs1SetBlock drv (Some symb) ui (Some b) (s\<lparr>dk := d\<rparr>) = Some (True, s\<lparr>dk := e\<rparr>)" "stored a ui b d e"
      using set_block_stored [OF at id, of drv b] by auto
    have "add_block_loop drv (Some symb) (Some b) (Suc n) ui temp s = Some (ui, s\<lparr>dk := e\<rparr>)"
      using g(1) e(1) False by simp
    then show ?thesis
      using False g(2) id kept_stored [OF g(3) e(2)] by auto
  next
    case True
    have "unat j \<noteq> unat ui \<longrightarrow> j \<noteq> ui" for j
      by blast
    have ui: "block_used (vblock a (dk s) j)" if "unat j = unat ui" for j
      using that True g(2) word_unat_eq_iff [of j ui] by simp
    have "add_block_loop drv (Some symb) (Some b) (Suc n) ui temp s =
        add_block_loop drv (Some symb) (Some b) n (ui + 1) b' (s\<lparr>dk := d\<rparr>)"
      using g(1) True by simp
    moreover obtain i e where i: "add_block_loop drv (Some symb) (Some b) n (ui + 1) b' (s\<lparr>dk := d\<rparr>) = Some (i, s\<lparr>dk := e\<rparr>)"
      "i = INVALID_BLOCK_ID \<and> (\<forall>j. unat (ui + 1) \<le> unat j \<and> unat j < 39 \<longrightarrow> block_used (vblock a (dk s) j)) \<and> kept d e \<or>
       blk_id i \<and> \<not> block_used (vblock a (dk s) i) \<and>
       (\<forall>j. unat (ui + 1) \<le> unat j \<and> unat j < unat i \<longrightarrow> block_used (vblock a (dk s) j)) \<and> stored a i b d e"
      using Suc.IH [of "s\<lparr>dk := d\<rparr>" "ui + 1" b', OF at] Suc.prems(2,3) nx kept_at(2) [OF g(3)] by auto
    moreover have "\<forall>j. unat ui \<le> unat j \<and> unat j < m \<longrightarrow> block_used (vblock a (dk s) j)"
      if "\<forall>j. unat (ui + 1) \<le> unat j \<and> unat j < m \<longrightarrow> block_used (vblock a (dk s) j)" for m
      using that ui nx by (metis le_eq_less_or_eq Suc_leI)
    ultimately show ?thesis
      using kept_trans [OF g(3)] kept_stored [OF g(3)] by metis
  qed
qed

text \<open>What \<open>Ifs1AddBlock\<close> does, with the table that its caller has.\<close>

lemma add_block_from_bat:
  assumes "bat_inv symb a (p # ps) (i # ids) s"
  shows "\<exists>s'. Ifs1AddBlock drv (Some symb) (Some b) s = Some (i, s') \<and> bat symb ps ids s' \<and> stored a i b (dk s) (dk s') \<and>
    km_answers s' = km_answers s \<and> stk s' = stk s"
proof -
  have at: "vd_at symb a (dk s)" and id: "blk_id i" and un: "\<not> block_used (vblock a (dk s) i)"
    using assms by (simp_all add: bat_inv_def)
  obtain s1 where s1: "Ifs1NewBlockFromBAT (Some symb) s = Some (Some i, s1)" "bat symb ps ids s1" "dk s1 = dk s" "stk s1 = stk s"
    "km_answers s1 = km_answers s"
    using new_block_from_bat assms unfolding bat_inv_def by blast
  obtain d b' where g: "Ifs1GetBlock drv (Some symb) i (Some (stk s1)) s1 = Some (True, Some b', s1\<lparr>dk := d\<rparr>)"
    "\<not> block_used b'" "kept (dk s) d"
    using get_block_used [of symb a s1 i drv "stk s1"] at id un s1(3) by auto
  obtain e where e: "Ifs1SetBlock drv (Some symb) i (Some b) (s1\<lparr>dk := d\<rparr>) = Some (True, s1\<lparr>dk := e\<rparr>)" "stored a i b d e"
    using set_block_stored [of symb a "s1\<lparr>dk := d\<rparr>" i drv b] at id kept_at(1) [OF g(3)] by auto
  have "Ifs1AddBlock drv (Some symb) (Some b) s = Some (i, s1\<lparr>dk := e\<rparr>)"
    using s1(1) g(1,2) e(1) by (simp add: Ifs1AddBlock_def)
  then show ?thesis
    using s1 kept_stored [OF g(3) e(2)] by auto
qed

lemma add_block_search:
  assumes "vd_at symb a (dk s)" "bat symb [] [] s"
  shows "\<exists>i s'. Ifs1AddBlock drv (Some symb) (Some b) s = Some (i, s') \<and> bat symb [] [] s' \<and>
    (i = INVALID_BLOCK_ID \<and> (\<forall>j. blk_id j \<longrightarrow> block_used (vblock a (dk s) j)) \<and> kept (dk s) (dk s') \<or>
     blk_id i \<and> \<not> block_used (vblock a (dk s) i) \<and>
     (\<forall>j. blk_id j \<and> unat j < unat i \<longrightarrow> block_used (vblock a (dk s) j)) \<and> stored a i b (dk s) (dk s'))"
proof -
  have "unat START_BLOCK_ID = 10"
    by (simp add: START_BLOCK_ID_def)
  then have "Ifs1AddBlock drv (Some symb) (Some b) s = add_block_loop drv (Some symb) (Some b) 29 START_BLOCK_ID (stk s) s"
    by (simp add: Ifs1AddBlock_def new_block_empty [OF assms(2)] max_block_count [OF assms(1)])
  with add_block_loop_spec [OF assms(1), of START_BLOCK_ID 29 drv b "stk s"] \<open>unat START_BLOCK_ID = 10\<close>
  obtain i d where i: "Ifs1AddBlock drv (Some symb) (Some b) s = Some (i, s\<lparr>dk := d\<rparr>)"
    "i = INVALID_BLOCK_ID \<and> (\<forall>j. 10 \<le> unat j \<and> unat j < 39 \<longrightarrow> block_used (vblock a (dk s) j)) \<and> kept (dk s) d \<or>
     blk_id i \<and> \<not> block_used (vblock a (dk s) i) \<and>
     (\<forall>j. 10 \<le> unat j \<and> unat j < unat i \<longrightarrow> block_used (vblock a (dk s) j)) \<and> stored a i b (dk s) d"
    by auto
  show ?thesis
    by (rule exI [of _ i], rule exI [of _ "s\<lparr>dk := d\<rparr>"]) (use i assms(2) in \<open>auto simp: blk_id_def\<close>)
qed

lemma km_alloc_dk [simp]: "fst (km_alloc (s\<lparr>dk := d\<rparr>)) = fst (km_alloc s)" "fresh_node ps (s\<lparr>dk := d\<rparr>) = fresh_node ps s"
  by (auto simp: km_alloc_def fresh_node_def split: list.splits option.splits)

lemma unused_zero [simp]: "\<not> block_used (zero_used b)"
  by (simp add: block_used_def zero_used_def)

lemma delete_block_spec:
  assumes "vd_at symb a (dk s)" "bat symb ps ids s" "fresh_node ps s" "blk_id i"
  shows "\<exists>s' ps' ids'. Ifs1DeleteBlock drv (Some symb) i s = Some (True, s') \<and> bat symb ps' ids' s' \<and>
    stored a i (zero_used (stk s)) (dk s) (dk s') \<and> (if fst (km_alloc s) \<noteq> None then ids' = ids @ [i] else ids' = ids)"
proof -
  obtain d where d: "Ifs1SetBlock drv (Some symb) i (Some (zero_used (stk s))) s = Some (True, s\<lparr>dk := d\<rparr>)"
    "stored a i (zero_used (stk s)) (dk s) d"
    using set_block_stored [OF assms(1,4)] by blast
  obtain l where l: "Ifs1GetBAT (Some symb) s = Some l"
    using assms(2) by (auto simp: bat_def)
  obtain r s' ps' ids' where b: "add_to_bat (Some l) i (s\<lparr>dk := d\<rparr>) = (r, s')" "bat symb ps' ids' s'" "dk s' = d"
    "if fst (km_alloc s) \<noteq> None then r \<and> ids' = ids @ [i] else \<not> r \<and> ids' = ids"
    using add_to_bat_spec [of symb ps ids "s\<lparr>dk := d\<rparr>" l i] assms(2,3) l by auto
  have "Ifs1DeleteBlock drv (Some symb) i s = Some (True, s')"
    using d(1) b(1) l assms(4) by (simp add: Ifs1DeleteBlock_def max_block_count [OF assms(1)] blk_id_iff)
  then show ?thesis
    using b d(2) by (auto split: if_splits)
qed

section \<open>The invariant of the table\<close>

lemma invalid_id: "\<not> blk_id INVALID_BLOCK_ID"
  by (simp add: blk_id_def INVALID_BLOCK_ID_def)

lemma add_block_spec:
  assumes "bat_inv symb a ps ids s"
  shows "\<exists>i s' ps' ids'. Ifs1AddBlock drv (Some symb) (Some b) s = Some (i, s') \<and> bat symb ps' ids' s' \<and> set ids' \<subseteq> set ids \<and>
    distinct ids' \<and> i \<notin> set ids' \<and>
    (i = INVALID_BLOCK_ID \<and> (\<forall>j. blk_id j \<longrightarrow> block_used (vblock a (dk s) j)) \<and> kept (dk s) (dk s') \<or>
     blk_id i \<and> \<not> block_used (vblock a (dk s) i) \<and> stored a i b (dk s) (dk s'))"
proof (cases ids)
  case Nil
  then have "ps = []"
    using assms by (auto simp: bat_inv_def bat_def)
  then have "vd_at symb a (dk s)" "bat symb [] [] s"
    using assms Nil by (auto simp: bat_inv_def)
  from add_block_search [OF this, of drv b] show ?thesis
    unfolding Nil by (metis empty_iff list.set(1) distinct.simps(1) subset_refl)
next
  case (Cons i js)
  then obtain p qs where "ps = p # qs"
    using assms by (auto simp: bat_inv_def bat_def)
  with add_block_from_bat [of symb a p qs i js s drv b] assms Cons obtain s' where
    s': "Ifs1AddBlock drv (Some symb) (Some b) s = Some (i, s')" "bat symb qs js s'" "stored a i b (dk s) (dk s')"
    by blast
  moreover have "distinct js" "i \<notin> set js" "set js \<subseteq> set ids" "blk_id i" "\<not> block_used (vblock a (dk s) i)"
    using assms Cons by (auto simp: bat_inv_def)
  ultimately show ?thesis
    by blast
qed

lemma add_block_inv:
  assumes "bat_inv symb a ps ids s" "block_used b" "Ifs1AddBlock drv (Some symb) (Some b) s = Some (i, s')"
  shows "\<exists>ps' ids'. bat_inv symb a ps' ids' s'"
proof -
  obtain ps' ids' where s': "bat symb ps' ids' s'" "set ids' \<subseteq> set ids" "distinct ids'" "i \<notin> set ids'"
    "kept (dk s) (dk s') \<or> stored a i b (dk s) (dk s')"
    using add_block_spec [OF assms(1), of drv b] assms(3) by auto
  have v: "vd_at symb a (dk s)" "\<forall>j \<in> set ids'. blk_id j \<and> \<not> block_used (vblock a (dk s) j)"
    using assms(1) s'(2) by (auto simp: bat_inv_def)
  have "vd_at symb a (dk s')"
    using s'(5) v(1) kept_at(1) stored_at by blast
  moreover have "\<forall>j \<in> set ids'. vblock a (dk s') j = vblock a (dk s) j"
    using s'(5)
  proof
    assume "stored a i b (dk s) (dk s')"
    then show ?thesis
      using s'(4) unfolding stored_def by metis
  qed (use kept_at(2) [of "dk s" "dk s'" a] in auto)
  ultimately show ?thesis
    using s'(1,3) v(2) unfolding bat_inv_def by metis
qed

lemma delete_block_inv:
  assumes "bat_inv symb a ps ids s" "fresh_node ps s" "block_used (vblock a (dk s) i)"
    "Ifs1DeleteBlock drv (Some symb) i s = Some (r, s')"
  shows "\<exists>ps' ids'. bat_inv symb a ps' ids' s'"
proof (cases "blk_id i")
  case False
  have at: "vd_at symb a (dk s)"
    using assms(1) by (simp add: bat_inv_def)
  have "s' = s"
    using assms(4) False by (auto simp: Ifs1DeleteBlock_def max_block_count [OF at] blk_id_iff)
  then show ?thesis
    using assms(1) by blast
next
  case True
  have v: "vd_at symb a (dk s)" "bat symb ps ids s" "distinct ids" "\<forall>j \<in> set ids. blk_id j \<and> \<not> block_used (vblock a (dk s) j)"
    using assms(1) by (simp_all add: bat_inv_def)
  obtain ps' ids' where s': "bat symb ps' ids' s'" "stored a i (zero_used (stk s)) (dk s) (dk s')" "ids' = ids \<or> ids' = ids @ [i]"
    using delete_block_spec [OF v(1,2) assms(2) True, of drv] assms(4) by (auto split: if_splits)
  have i: "i \<notin> set ids"
    using v(4) assms(3) by blast
  have "\<not> block_used (vblock a (dk s') i)"
    using s'(2) by (simp add: stored_def)
  moreover have "\<forall>j \<in> set ids. \<not> block_used (vblock a (dk s') j)"
    using s'(2) v(4) i unfolding stored_def by metis
  moreover have "vd_at symb a (dk s')"
    using s'(2) stored_at v(1) by blast
  ultimately show ?thesis
    using s'(1,3) v(3,4) i True by (intro exI [of _ ps'] exI [of _ ids']) (auto simp: bat_inv_def)
qed

lemma set_block_inv:
  assumes "bat_inv symb a ps ids s" "Ifs1SetBlock drv (Some symb) i (Some b) s = Some (r, s')"
    "block_used (vblock a (dk s) i)"
  shows "bat_inv symb a ps ids s'"
proof (cases "blk_id i")
  case False
  have at: "vd_at symb a (dk s)"
    using assms(1) by (simp add: bat_inv_def)
  have "s' = s"
    using assms(2) False by (auto simp: Ifs1SetBlock_def max_block_count [OF at] blk_id_iff)
  then show ?thesis
    using assms(1) by blast
next
  case True
  have v: "vd_at symb a (dk s)" "bat symb ps ids s" "\<forall>j \<in> set ids. blk_id j \<and> \<not> block_used (vblock a (dk s) j)"
    using assms(1) by (simp_all add: bat_inv_def)
  obtain d where d: "s' = s\<lparr>dk := d\<rparr>" "stored a i b (dk s) d"
    using set_block_stored [OF v(1) True, of drv b] assms(2) by auto
  have "\<forall>j \<in> set ids. vblock a d j = vblock a (dk s) j"
    using d(2) v(3) assms(3) unfolding stored_def by metis
  moreover have "vd_at symb a d"
    using d(2) stored_at v(1) by blast
  ultimately show ?thesis
    using assms(1) v(3) d(1) by (simp add: bat_inv_def)
qed

text \<open>A step of a client that adds blocks marked used, and rewrites or deletes blocks in use.\<close>

inductive blk_step :: "'h drivers \<Rightarrow> string \<Rightarrow> u32 \<Rightarrow> 'h ifs1 \<Rightarrow> 'h ifs1 \<Rightarrow> bool"
  for drv symb a where
  add: "block_used b \<Longrightarrow> Ifs1AddBlock drv (Some symb) (Some b) s = Some (i, s') \<Longrightarrow> blk_step drv symb a s s'"
| set: "block_used (vblock a (dk s) i) \<Longrightarrow> Ifs1SetBlock drv (Some symb) i (Some b) s = Some (r, s') \<Longrightarrow>
    blk_step drv symb a s s'"
| delete: "block_used (vblock a (dk s) i) \<Longrightarrow> (\<And>ps ids. bat symb ps ids s \<Longrightarrow> fresh_node ps s) \<Longrightarrow>
    Ifs1DeleteBlock drv (Some symb) i s = Some (r, s') \<Longrightarrow> blk_step drv symb a s s'"

lemma blk_step_inv:
  assumes "blk_step drv symb a s s'" "bat_inv symb a ps ids s"
  shows "\<exists>ps' ids'. bat_inv symb a ps' ids' s'"
  using assms
proof cases
  case (delete i r)
  then have "fresh_node ps s"
    using assms(2) by (auto simp: bat_inv_def)
  then show ?thesis
    using delete_block_inv [OF assms(2) _ delete(1,3)] by blast
qed (use add_block_inv [OF assms(2)] set_block_inv [OF assms(2)] in blast)+

lemma blk_steps_inv:
  "(blk_step drv symb a)\<^sup>*\<^sup>* s s' \<Longrightarrow> bat_inv symb a ps ids s \<Longrightarrow> \<exists>ps' ids'. bat_inv symb a ps' ids' s'"
proof (induction rule: rtranclp_induct)
  case (step t u)
  then show ?case
    using blk_step_inv by blast
qed blast

section \<open>Names in a block\<close>

lemma copy_string256:
  assumes "256 \<le> length dst" "NUL \<notin> set src"
  shows "\<exists>r d. UtlCopyString (Some dst) 256 (Some src) = Some (r, Some d) \<and> length d = length dst \<and> cstr d = take 255 src"
proof -
  let ?d = "take 255 src @ NUL # drop (Suc (min 255 (length src))) dst"
  have "utl_copy_at 0 dst 256 src = Some (if length src < 256 then SFSTR_R_OK else SFSTR_R_TOO_LONG, ?d)"
    using utl_copy_at_spec [of 256 0 dst src] assms by (simp add: word_less_nat_alt)
  moreover have "length ?d = length dst"
    using assms(1) by auto
  moreover have "cstr ?d = take 255 src"
    using assms(2) by (intro cstr_append_NUL) (auto dest: in_set_takeD)
  ultimately show ?thesis
    unfolding UtlCopyString_def by auto
qed

section \<open>Properties\<close>

text \<open>\<open>Ifs1AddBlock\<close> on a RAM disk whose table lists distinct unused blocks: it either returns
  a block that was unused, from which \<open>Ifs1GetBlock\<close> then reads the 64 KB added, every other block
  being as before, or it returns \<open>INVALID_BLOCK_ID\<close>, and then every block of the disk is in use.\<close>

theorem ifs1_add_block_get:
  assumes "bat_inv symb a ps ids s"
  shows "\<exists>i s'. Ifs1AddBlock drv (Some symb) (Some b) s = Some (i, s') \<and>
    (if i = INVALID_BLOCK_ID then \<forall>j. blk_id j \<longrightarrow> block_used (vblock a (dk s) j)
     else \<not> block_used (vblock a (dk s) i) \<and> (\<forall>j. j \<noteq> i \<longrightarrow> vblock a (dk s') j = vblock a (dk s) j) \<and>
       (\<exists>c s''. Ifs1GetBlock drv (Some symb) i (Some b') s' = Some (True, Some c, s'') \<and> same_bytes c b))"
proof -
  obtain i s' where s': "Ifs1AddBlock drv (Some symb) (Some b) s = Some (i, s')"
    "i = INVALID_BLOCK_ID \<and> (\<forall>j. blk_id j \<longrightarrow> block_used (vblock a (dk s) j)) \<or>
     blk_id i \<and> \<not> block_used (vblock a (dk s) i) \<and> stored a i b (dk s) (dk s')"
    using add_block_spec [OF assms, of drv b] by blast
  have "\<exists>c s''. Ifs1GetBlock drv (Some symb) i (Some b') s' = Some (True, Some c, s'') \<and> same_bytes c b"
    if i: "blk_id i" "stored a i b (dk s) (dk s')"
  proof -
    have "vd_at symb a (dk s')"
      using stored_at [OF i(2)] assms by (simp add: bat_inv_def)
    from get_block [OF this i(1), of drv b'] obtain c d where
      "Ifs1GetBlock drv (Some symb) i (Some b') s' = Some (True, Some c, s'\<lparr>dk := d\<rparr>)" "same_bytes c (vblock a (dk s') i)"
      by blast
    then show ?thesis
      using i(2) by (auto simp: stored_def same_bytes_def vtrunc_def)
  qed
  then show ?thesis
    using s' invalid_id unfolding stored_def by (metis (no_types, lifting))
qed

text \<open>VA with all blocks unused and an empty table, and two nodes in the kernel pool.\<close>

definition ifs1_0 :: "unit ifs1" where
  "ifs1_0 = \<lparr>lnodes = (\<lambda>_. \<lparr>n_value = VBool False, n_prev = None, n_next = None\<rparr>),
     lnklsts = (\<lambda>_. \<lparr>l_head = None, l_foot = None, l_count = 0\<rparr>), freed = [], answers = [],
     dk = disks1, bat_va = Some 0, bat_vb = None, bat_da = None, bat_db = None,
     km_answers = [Some 1, Some 2, Some 3], km_freed = [], stk = (\<lambda>_. 5), mem_answers = [],
     mem_freed = [], read_buffer_on = False, append_buffer_on = False\<rparr>"

lemma ifs1_0: "bat_inv ''VA'' 0x2000000 [] [] ifs1_0"
  using disks1 by (simp add: bat_inv_def ifs1_0_def vd_at_def is_vdisk_def bat_def Ifs1GetBAT_def lnk_def dlist_def)

theorem ifs1_add_block_get_witness:
  "\<exists>i s'. Ifs1AddBlock no_hw (Some ''VA'') (Some (\<lambda>_. 1)) ifs1_0 = Some (i, s')"
  using ifs1_add_block_get [OF ifs1_0] by blast

text \<open>Every sequence of adding blocks marked used, rewriting blocks in use with anything and
  deleting blocks in use keeps the table a list of distinct unused block numbers of the
  disk, however often the kernel pool runs out of nodes; so the next \<open>Ifs1AddBlock\<close> never returns a
  block in use, and fails only on a full disk.\<close>

theorem ifs1_table_invariant:
  assumes "bat_inv symb a ps0 ids0 s0" "(blk_step drv symb a)\<^sup>*\<^sup>* s0 s"
  shows "\<exists>ps ids. bat symb ps ids s \<and> distinct ids \<and> (\<forall>i \<in> set ids. blk_id i \<and> \<not> block_used (vblock a (dk s) i)) \<and>
    (\<exists>i s'. Ifs1AddBlock drv (Some symb) (Some b) s = Some (i, s') \<and>
      (if i = INVALID_BLOCK_ID then \<forall>j. blk_id j \<longrightarrow> block_used (vblock a (dk s) j) else \<not> block_used (vblock a (dk s) i)))"
proof -
  obtain ps ids where inv: "bat_inv symb a ps ids s"
    using blk_steps_inv [OF assms(2,1)] by blast
  with add_block_spec [OF this, of drv b] invalid_id show ?thesis
    unfolding bat_inv_def by metis
qed

theorem ifs1_table_invariant_witness:
  "\<exists>i s s'. Ifs1AddBlock no_hw (Some ''VA'') (Some (\<lambda>_. 1)) ifs1_0 = Some (i, s) \<and>
     Ifs1AddBlock no_hw (Some ''VA'') (Some (\<lambda>_. 2)) s = Some s'"
proof -
  obtain i s where s: "Ifs1AddBlock no_hw (Some ''VA'') (Some (\<lambda>_. 1)) ifs1_0 = Some (i, s)"
    using add_block_spec [OF ifs1_0, of no_hw "\<lambda>_. 1"] by blast
  have "blk_step no_hw ''VA'' 0x2000000 ifs1_0 s"
    using blk_step.add [OF _ s] by (simp add: block_used_def)
  then have "(blk_step no_hw ''VA'' 0x2000000)\<^sup>*\<^sup>* ifs1_0 s"
    by blast
  from ifs1_table_invariant [OF ifs1_0 this] s show ?thesis
    by blast
qed

text \<open>Deleting a block that is in the table already, as \<open>Ifs1DeleteAllBlocks\<close> does when a disk is
  formatted, lists it twice: the first \<open>Ifs1AddBlock\<close> takes it, and the second one fails,
  whatever other blocks of the disk are unused.\<close>

theorem ifs1_deleted_twice_fails:
  assumes "vd_at symb a (dk s)" "bat symb [p] [i] s" "blk_id i" "\<not> block_used (vblock a (dk s) i)"
    "fst (km_alloc s) \<noteq> None" "fresh_node [p] s" "block_used b"
  shows "\<exists>s1 s2 s3. Ifs1DeleteBlock drv (Some symb) i s = Some (True, s1) \<and> Ifs1AddBlock drv (Some symb) (Some b) s1 = Some (i, s2) \<and>
    Ifs1AddBlock drv (Some symb) (Some c) s2 = Some (INVALID_BLOCK_ID, s3)"
proof -
  obtain s1 ps1 where s1: "Ifs1DeleteBlock drv (Some symb) i s = Some (True, s1)" "bat symb ps1 [i, i] s1"
    "stored a i (zero_used (stk s)) (dk s) (dk s1)"
    using delete_block_spec [OF assms(1,2,6,3), of drv] assms(5) by auto
  have at1: "vd_at symb a (dk s1)" and un1: "\<not> block_used (vblock a (dk s1) i)"
    using stored_at [OF s1(3)] assms(1) s1(3) by (auto simp: stored_def)
  obtain p1 p2 where ps1: "ps1 = [p1, p2]"
    using s1(2) by (auto simp: bat_def)
  obtain t1 where t1: "Ifs1NewBlockFromBAT (Some symb) s1 = Some (Some i, t1)" "bat symb [p2] [i] t1" "dk t1 = dk s1"
    using new_block_from_bat [of symb p1 "[p2]" i "[i]" s1] s1(2) ps1 by auto
  obtain d1 b1 where g1: "Ifs1GetBlock drv (Some symb) i (Some (stk t1)) t1 = Some (True, Some b1, t1\<lparr>dk := d1\<rparr>)" "\<not> block_used b1"
    "kept (dk s1) d1"
    using get_block_used [of symb a t1 i drv "stk t1"] at1 un1 assms(3) t1(3) by auto
  obtain e1 where e1: "Ifs1SetBlock drv (Some symb) i (Some b) (t1\<lparr>dk := d1\<rparr>) = Some (True, t1\<lparr>dk := e1\<rparr>)" "stored a i b d1 e1"
    using set_block_stored [of symb a "t1\<lparr>dk := d1\<rparr>" i drv b] at1 assms(3) kept_at(1) [OF g1(3)] by auto
  let ?s2 = "t1\<lparr>dk := e1\<rparr>"
  have a1: "Ifs1AddBlock drv (Some symb) (Some b) s1 = Some (i, ?s2)"
    using t1(1) g1(1,2) e1(1) by (simp add: Ifs1AddBlock_def)
  have at2: "vd_at symb a e1" and us2: "block_used (vblock a e1 i)"
    using stored_at [OF kept_stored [OF g1(3) e1(2)]] at1 e1(2) assms(7) by (auto simp: stored_def)
  obtain t2 where t2: "Ifs1NewBlockFromBAT (Some symb) ?s2 = Some (Some i, t2)" "dk t2 = e1"
    using new_block_from_bat [of symb p2 "[]" i "[]" ?s2] t1(2) by auto
  obtain d2 b2 where "Ifs1GetBlock drv (Some symb) i (Some (stk t2)) t2 = Some (True, Some b2, t2\<lparr>dk := d2\<rparr>)" "block_used b2"
    using get_block_used [of symb a t2 i drv "stk t2"] at2 us2 assms(3) t2(2) by auto
  then have "Ifs1AddBlock drv (Some symb) (Some c) ?s2 = Some (INVALID_BLOCK_ID, t2\<lparr>dk := d2\<rparr>)"
    using t2(1) by (simp add: Ifs1AddBlock_def)
  then show ?thesis
    using s1(1) a1 by blast
qed

text \<open>VA with block 10 unused and in the table.\<close>

definition ifs1_1 :: "unit ifs1" where
  "ifs1_1 = snd (add_to_bat (Some 0) 10 ifs1_0)"

lemma ifs1_1: "dk ifs1_1 = disks1" "bat ''VA'' [1] [10] ifs1_1" "fst (km_alloc ifs1_1) = Some 2" "fresh_node [1] ifs1_1"
  by (simp_all add: ifs1_1_def ifs1_0_def add_to_bat_def km_alloc_def dsl_lnklst_add_node_def set_node_def set_list_def
      bat_def Ifs1GetBAT_def lnk_def dlist_def fresh_node_def)

theorem ifs1_deleted_twice_fails_witness:
  "\<exists>s1 s2 s3. Ifs1DeleteBlock no_hw (Some ''VA'') 10 ifs1_1 = Some (True, s1) \<and>
     Ifs1AddBlock no_hw (Some ''VA'') (Some (\<lambda>_. 1)) s1 = Some (10, s2) \<and>
     Ifs1AddBlock no_hw (Some ''VA'') (Some (\<lambda>_. 1)) s2 = Some (INVALID_BLOCK_ID, s3)"
proof -
  have "vd_at ''VA'' 0x2000000 (dk ifs1_1)"
    using ifs1_0 by (simp add: ifs1_1(1) bat_inv_def) (simp add: ifs1_0_def)
  moreover have "\<not> block_used (vblock 0x2000000 (dk ifs1_1) 10)"
    by (simp add: ifs1_1(1) disks1_def disks0_def DskInit_def is_vdisk_def add_disk_def MAX_DISK_COUNT_def VdskInit_def vd_alloc_def
      vd_zero_def VDISK_BUFFER_SIZE_def VDISK_SECTORS_def VDISK_SECTOR_SIZE_def block_used_def vblock_def)
  moreover have "blk_id 10" "block_used (\<lambda>_. 1)"
    by (simp_all add: blk_id_def block_used_def)
  ultimately show ?thesis
    using ifs1_deleted_twice_fails [of "''VA''" _ ifs1_1 1 10] ifs1_1 by simp
qed

text \<open>\<open>Ifs1FillSLinkBlock\<close> accepts links of up to 65023 characters, but reports success
  having stored only the first 255 of them.\<close>

theorem ifs1_link_cut:
  assumes "length nm < 256" "length ln < 65024" "NUL \<notin> set nm" "NUL \<notin> set ln"
    "length (sb_filename sl) = 256" "length (sb_link sl) = 65024"
  shows "\<exists>sl'. Ifs1FillSLinkBlock (Some nm) (Some ln) (Some sl) = Some (True, Some sl') \<and>
    cstr (sb_filename sl') = nm \<and> cstr (sb_link sl') = take 255 ln \<and> length (sb_link sl') = 65024"
proof -
  have l: "unat (C_strlen nm) = length nm" "unat (C_strlen ln) = length ln"
    using assms(1,2) by (simp_all add: C_strlen unat_of_nat32)
  obtain r d where d: "UtlCopyString (Some (sb_filename sl)) 256 (Some nm) = Some (r, Some d)" "cstr d = nm"
    using copy_string256 [of "sb_filename sl" nm] assms(1,3,5) by auto
  obtain q e where e: "UtlCopyString (Some (sb_link sl)) 256 (Some ln) = Some (q, Some e)" "cstr e = take 255 ln" "length e = 65024"
    using copy_string256 [of "sb_link sl" ln] assms(4,6) by auto
  show ?thesis
    using assms(1,2) l d e by (simp add: Ifs1FillSLinkBlock_def SLINK_BLOCK_LINK_LEN_def)
qed

theorem ifs1_link_cut_witness:
  "\<exists>sl'. Ifs1FillSLinkBlock (Some ''l'') (Some (replicate 300 CHR ''x''))
      (Some \<lparr>sb_used = 0, sb_type = 0, sb_filename = replicate 256 NUL, sb_reserve = [], sb_link = replicate 65024 NUL\<rparr>) =
    Some (True, Some sl') \<and> cstr (sb_link sl') = replicate 255 CHR ''x''"
  using ifs1_link_cut [of "''l''" "replicate 300 CHR ''x''"
      "\<lparr>sb_used = 0, sb_type = 0, sb_filename = replicate 256 NUL, sb_reserve = [], sb_link = replicate 65024 NUL\<rparr>"]
  by auto

end
