(* ===== verification/Ifs1_Dirs.thy ===== *)
theory Ifs1_Dirs
  imports Ifs1_Paths Ifs1_Blocks_Proofs
begin

text \<open>
  Directories, links and the resolution of paths of \<^verbatim>\<open>kernel/fs/ifs1/fs.c\<close>.  A local block of the
  C code is its bytes, \<^typ>\<open>buf\<close>; the loops over \<open>dir.blockids\<close> are \<open>for_ids\<close>.

  The array \<open>symbol\<close> of a public function holds whatever is on the stack until a path has been
  resolved; it is not used before, since the block number is \<open>INVALID_BLOCK_ID\<close> then.  It is the
  empty string here, and the likewise uninitialised \<open>type\<close> is 0.  \<^const>\<open>None\<close> is also a
  C string without a NUL in its block.
\<close>

text \<open>\<open>for(ui = 0; ui < n; ui++)\<close> with an exit, whose value the body gives.\<close>

fun for_ids :: "(nat \<Rightarrow> 's \<Rightarrow> ('r option \<times> 's) option) \<Rightarrow> nat \<Rightarrow> nat \<Rightarrow> 's \<Rightarrow> ('r option \<times> 's) option" where
  "for_ids body ui 0 s = Some (None, s)"
| "for_ids body ui (Suc n) s =
     (case body ui s of
        None \<Rightarrow> None
      | Some (Some r, s) \<Rightarrow> Some (Some r, s)
      | Some (None, s) \<Rightarrow> for_ids body (Suc ui) n s)"

text \<open>A block read into a local variable.\<close>

definition get_local :: "'h drivers \<Rightarrow> string option \<Rightarrow> u32 \<Rightarrow> 'h ifs1 \<Rightarrow> (bool \<times> buf \<times> 'h ifs1) option" where
  "get_local drv symbol i s = do {
     (r, b, s) \<leftarrow> Ifs1GetBlock drv symbol i (Some (stk s)) s;
     block \<leftarrow> b;
     Some (r, block, s) }"

text \<open>The guard \<open>id == INVALID_BLOCK_ID || symbol == NULL || !Ifs1GetBlock(...) || used == 0 || type != t\<close>:
  the block when it does not return.\<close>

definition read_typed :: "'h drivers \<Rightarrow> string option \<Rightarrow> u32 \<Rightarrow> u32 \<Rightarrow> 'h ifs1 \<Rightarrow> (buf option \<times> 'h ifs1) option" where
  "read_typed drv symbol i t s = do {
     (r, b, s) \<leftarrow> get_local drv symbol i s;
     Some (if \<not> r \<or> raw_used b = 0 \<or> raw_type b \<noteq> t then None else Some b, s) }"

definition load_block :: "'h drivers \<Rightarrow> string option \<Rightarrow> u32 \<Rightarrow> u32 \<Rightarrow> 'h ifs1 \<Rightarrow> (buf option \<times> 'h ifs1) option" where
  "load_block drv symbol i t s =
     (if i = INVALID_BLOCK_ID \<or> symbol = None then Some (None, s) else read_typed drv symbol i t s)"

section \<open>Entries of a directory\<close>

text \<open>Whether entry \<open>ui\<close> is a used block of type \<open>t\<close> with the name: the body of the three loops below.\<close>

definition entry_is ::
  "'h drivers \<Rightarrow> string option \<Rightarrow> buf \<Rightarrow> u32 \<Rightarrow> (buf \<Rightarrow> string option) \<Rightarrow> string \<Rightarrow> nat \<Rightarrow> 'h ifs1 \<Rightarrow> (unit option \<times> 'h ifs1) option" where
  "entry_is drv symbol dir t name_of name ui s =
     (let sub_id = blockid dir ui in
      if sub_id = INVALID_BLOCK_ID then Some (None, s)
      else do {
        (r, b, s) \<leftarrow> get_local drv symbol sub_id s;
        if r \<and> raw_used b \<noteq> 0 \<and> raw_type b = t then do { nm \<leftarrow> name_of b; Some (if nm = name then Some () else None, s) }
        else Some (None, s) })"

definition entry_exists ::
  "'h drivers \<Rightarrow> string option \<Rightarrow> u32 \<Rightarrow> string option \<Rightarrow> u32 \<Rightarrow> (buf \<Rightarrow> string option) \<Rightarrow> 'h ifs1 \<Rightarrow> (bool \<times> 'h ifs1) option" where
  "entry_exists drv symbol i name t name_of s =
     (case name of
        None \<Rightarrow> Some (False, s)
      | Some nm \<Rightarrow> do {
          (dir, s) \<leftarrow> load_block drv symbol i BLOCK_TYPE_DIR s;
          (case dir of
             None \<Rightarrow> Some (False, s)
           | Some d \<Rightarrow> do {
               (found, s) \<leftarrow> for_ids (entry_is drv symbol d t name_of nm) 0 DIR_BLOCK_ID_COUNT s;
               Some (found \<noteq> None, s) }) })"

definition DirExists_in :: "'h drivers \<Rightarrow> string option \<Rightarrow> u32 \<Rightarrow> string option \<Rightarrow> 'h ifs1 \<Rightarrow> (bool \<times> 'h ifs1) option" where
  "DirExists_in drv symbol i name s = entry_exists drv symbol i name BLOCK_TYPE_DIR dir_name s"

definition FileExists_in :: "'h drivers \<Rightarrow> string option \<Rightarrow> u32 \<Rightarrow> string option \<Rightarrow> 'h ifs1 \<Rightarrow> (bool \<times> 'h ifs1) option" where
  "FileExists_in drv symbol i name s = entry_exists drv symbol i name BLOCK_TYPE_FILE file_name s"

definition SLinkExists_in :: "'h drivers \<Rightarrow> string option \<Rightarrow> u32 \<Rightarrow> string option \<Rightarrow> 'h ifs1 \<Rightarrow> (bool \<times> 'h ifs1) option" where
  "SLinkExists_in drv symbol i name s = entry_exists drv symbol i name BLOCK_TYPE_SLINK slink_name s"

text \<open>The end of the three functions that create an entry: add the block, then put its number into
  the first free place of the directory that was read before.  What writing the directory
  returns is not looked at.\<close>

definition free_place :: "buf \<Rightarrow> nat option" where
  "free_place dir = first_index (\<lambda>ui. blockid dir ui = INVALID_BLOCK_ID) 0 DIR_BLOCK_ID_COUNT"

definition link_new ::
  "'h drivers \<Rightarrow> string option \<Rightarrow> u32 \<Rightarrow> buf \<Rightarrow> buf \<Rightarrow> 'h ifs1 \<Rightarrow> (bool \<times> 'h ifs1) option" where
  "link_new drv symbol i dir new s = do {
     (new_id, s) \<leftarrow> Ifs1AddBlock drv symbol (Some new) s;
     if new_id = INVALID_BLOCK_ID then Some (False, s)
     else (case free_place dir of
             None \<Rightarrow> Some (False, s)
           | Some ui \<Rightarrow> do {
               (_, s) \<leftarrow> Ifs1SetBlock drv symbol i (Some (set_blockid ui new_id dir)) s;
               Some (True, s) }) }"

definition CreateDir_in ::
  "'h drivers \<Rightarrow> cmos_date_time \<Rightarrow> string option \<Rightarrow> u32 \<Rightarrow> string option \<Rightarrow> 'h ifs1 \<Rightarrow> (bool \<times> 'h ifs1) option" where
  "CreateDir_in drv dt symbol i name s =
     (case name of
        None \<Rightarrow> Some (False, s)
      | Some nm \<Rightarrow>
          if length nm > MAX_DIRNAME_LEN then Some (False, s)
          else do {
            (dir, s) \<leftarrow> load_block drv symbol i BLOCK_TYPE_DIR s;
            (case dir of
               None \<Rightarrow> Some (False, s)
             | Some d \<Rightarrow> do {
                 (l, s) \<leftarrow> SLinkExists_in drv symbol i name s;
                 if l then Some (False, s) else do {
                 (e, s) \<leftarrow> DirExists_in drv symbol i name s;
                 if e then Some (False, s) else do {
                 (_, new) \<leftarrow> Ifs1FillDirBlock dt name (Some (dir_of_raw (stk s)));
                 new \<leftarrow> new;
                 link_new drv symbol i d (dir_raw new) s } } }) })"

definition CreateFile_in ::
  "'h drivers \<Rightarrow> cmos_date_time \<Rightarrow> string option \<Rightarrow> u32 \<Rightarrow> string option \<Rightarrow> 'h ifs1 \<Rightarrow> (bool \<times> 'h ifs1) option" where
  "CreateFile_in drv dt symbol i name s =
     (case name of
        None \<Rightarrow> Some (False, s)
      | Some nm \<Rightarrow>
          if length nm > MAX_FILENAME_LEN then Some (False, s)
          else do {
            (dir, s) \<leftarrow> load_block drv symbol i BLOCK_TYPE_DIR s;
            (case dir of
               None \<Rightarrow> Some (False, s)
             | Some d \<Rightarrow> do {
                 (l, s) \<leftarrow> SLinkExists_in drv symbol i name s;
                 if l then Some (False, s) else do {
                 (e, s) \<leftarrow> FileExists_in drv symbol i name s;
                 if e then Some (False, s) else do {
                 (_, new) \<leftarrow> Ifs1FillFileBlock dt name (Some (file_of_raw (stk s)));
                 new \<leftarrow> new;
                 link_new drv symbol i d (file_raw new) s } } }) })"

definition CreateSLink_in ::
  "'h drivers \<Rightarrow> string option \<Rightarrow> u32 \<Rightarrow> string option \<Rightarrow> string option \<Rightarrow> 'h ifs1 \<Rightarrow> (bool \<times> 'h ifs1) option" where
  "CreateSLink_in drv symbol i name link s =
     (case (name, link) of
        (Some nm, Some ln) \<Rightarrow>
          if length nm > MAX_FILENAME_LEN \<or> length ln \<ge> SLINK_BLOCK_LINK_LEN then Some (False, s)
          else do {
            (dir, s) \<leftarrow> load_block drv symbol i BLOCK_TYPE_DIR s;
            (case dir of
               None \<Rightarrow> Some (False, s)
             | Some d \<Rightarrow> do {
                 (l, s) \<leftarrow> SLinkExists_in drv symbol i name s;
                 if l then Some (False, s) else do {
                 (e, s) \<leftarrow> FileExists_in drv symbol i name s;
                 if e then Some (False, s) else do {
                 (e, s) \<leftarrow> DirExists_in drv symbol i name s;
                 if e then Some (False, s) else do {
                 (_, new) \<leftarrow> Ifs1FillSLinkBlock name link (Some (slink_of_raw (stk s)));
                 new \<leftarrow> new;
                 link_new drv symbol i d (slink_raw new) s } } } }) }
      | _ \<Rightarrow> Some (False, s))"

definition DeleteDir_in :: "'h drivers \<Rightarrow> string option \<Rightarrow> u32 \<Rightarrow> 'h ifs1 \<Rightarrow> (bool \<times> 'h ifs1) option" where
  "DeleteDir_in drv symbol i s = do {
     (dir, s) \<leftarrow> load_block drv symbol i BLOCK_TYPE_DIR s;
     (case dir of
        None \<Rightarrow> Some (False, s)
      | Some d \<Rightarrow>
          if \<exists>ui \<in> set [0..<DIR_BLOCK_ID_COUNT]. blockid d ui \<noteq> INVALID_BLOCK_ID then Some (False, s)
          else Ifs1SetBlock drv symbol i (Some (wr32 0 0 d)) s) }"

definition FILE_LOCK_OFFSET :: nat where "FILE_LOCK_OFFSET = 284"

definition DeleteFile_in :: "'h drivers \<Rightarrow> string option \<Rightarrow> u32 \<Rightarrow> 'h ifs1 \<Rightarrow> (bool \<times> 'h ifs1) option" where
  "DeleteFile_in drv symbol i s = do {
     (file, s) \<leftarrow> load_block drv symbol i BLOCK_TYPE_FILE s;
     (case file of
        None \<Rightarrow> Some (False, s)
      | Some f \<Rightarrow>
          if rd32 f FILE_LOCK_OFFSET \<noteq> 0 then Some (False, s)
          else Ifs1SetBlock drv symbol i (Some (wr32 0 0 f)) s) }"

definition DeleteSLink_in :: "'h drivers \<Rightarrow> string option \<Rightarrow> u32 \<Rightarrow> 'h ifs1 \<Rightarrow> (bool \<times> 'h ifs1) option" where
  "DeleteSLink_in drv symbol i s = do {
     (slink, s) \<leftarrow> load_block drv symbol i BLOCK_TYPE_SLINK s;
     (case slink of
        None \<Rightarrow> Some (False, s)
      | Some l \<Rightarrow> Ifs1SetBlock drv symbol i (Some (wr32 0 0 l)) s) }"

section \<open>Listing and renaming\<close>

fun item_count_loop :: "'h drivers \<Rightarrow> string option \<Rightarrow> buf \<Rightarrow> nat \<Rightarrow> nat \<Rightarrow> int \<Rightarrow> 'h ifs1 \<Rightarrow> (int \<times> 'h ifs1) option" where
  "item_count_loop drv symbol dir ui 0 count s = Some (count, s)"
| "item_count_loop drv symbol dir ui (Suc n) count s =
     (let sub_id = blockid dir ui in
      if sub_id = INVALID_BLOCK_ID then item_count_loop drv symbol dir (Suc ui) n count s
      else do {
        (r, b, s) \<leftarrow> get_local drv symbol sub_id s;
        item_count_loop drv symbol dir (Suc ui) n (if r \<and> raw_used b \<noteq> 0 then count + 1 else count) s })"

definition GetItemCount_in :: "'h drivers \<Rightarrow> string option \<Rightarrow> u32 \<Rightarrow> 'h ifs1 \<Rightarrow> (int \<times> 'h ifs1) option" where
  "GetItemCount_in drv symbol i s = do {
     (dir, s) \<leftarrow> load_block drv symbol i BLOCK_TYPE_DIR s;
     (case dir of
        None \<Rightarrow> Some (- 1, s)
      | Some d \<Rightarrow> item_count_loop drv symbol d 0 DIR_BLOCK_ID_COUNT 0 s) }"

text \<open>The loop of \<open>_Ifs1GetItems\<close> (\<open>blocks\<close> not NULL) over the first \<open>n\<close> entries: what it copied to \<open>blocks\<close>, in order,
  and the directory, from which it removes the entries that do not lead to a used block.\<close>

fun get_items_loop ::
  "'h drivers \<Rightarrow> string option \<Rightarrow> nat \<Rightarrow> nat \<Rightarrow> buf \<Rightarrow> buf list \<Rightarrow> 'h ifs1 \<Rightarrow> (buf \<times> buf list \<times> 'h ifs1) option" where
  "get_items_loop drv symbol ui 0 dir blocks s = Some (dir, blocks, s)"
| "get_items_loop drv symbol ui (Suc n) dir blocks s =
     (let sub_id = blockid dir ui in
      if sub_id = INVALID_BLOCK_ID then get_items_loop drv symbol (Suc ui) n (set_blockid ui INVALID_BLOCK_ID dir) blocks s
      else do {
        (r, b, s) \<leftarrow> get_local drv symbol sub_id s;
        if r \<and> raw_used b \<noteq> 0 then get_items_loop drv symbol (Suc ui) n dir (blocks @ [b]) s
        else get_items_loop drv symbol (Suc ui) n (set_blockid ui INVALID_BLOCK_ID dir) blocks s })"

definition GetItems_in :: "'h drivers \<Rightarrow> string option \<Rightarrow> u32 \<Rightarrow> u32 \<Rightarrow> 'h ifs1 \<Rightarrow> (int \<times> buf list \<times> 'h ifs1) option" where
  "GetItems_in drv symbol i mx s = do {
     (dir, s) \<leftarrow> load_block drv symbol i BLOCK_TYPE_DIR s;
     (case dir of
        None \<Rightarrow> Some (- 1, [], s)
      | Some d \<Rightarrow> do {
          (d, blocks, s) \<leftarrow> get_items_loop drv symbol 0 (min DIR_BLOCK_ID_COUNT (unat mx)) d [] s;
          (r, s) \<leftarrow> Ifs1SetBlock drv symbol i (Some d) s;
          Some (if r then int (length blocks) else - 1, blocks, s) }) }"

definition mem_alloc :: "'h ifs1 \<Rightarrow> addr option \<times> 'h ifs1" where
  "mem_alloc s = (case mem_answers s of [] \<Rightarrow> (None, s) | a # as \<Rightarrow> (a, s\<lparr>mem_answers := as\<rparr>))"

definition mem_free :: "addr option \<Rightarrow> 'h ifs1 \<Rightarrow> 'h ifs1" where
  "mem_free a s = s\<lparr>mem_freed := mem_freed s @ [a]\<rparr>"

text \<open>The same with a list of newly allocated blocks; \<open>items\<close> are their addresses and contents.\<close>

fun get_item_list_loop ::
  "'h drivers \<Rightarrow> string option \<Rightarrow> addr \<Rightarrow> nat \<Rightarrow> nat \<Rightarrow> buf \<Rightarrow> (addr \<times> buf) list \<Rightarrow> 'h ifs1 \<Rightarrow>
     (buf option \<times> (addr \<times> buf) list \<times> 'h ifs1) option" where
  "get_item_list_loop drv symbol l ui 0 dir items s = Some (Some dir, items, s)"
| "get_item_list_loop drv symbol l ui (Suc n) dir items s =
     (let sub_id = blockid dir ui in
      if sub_id = INVALID_BLOCK_ID then get_item_list_loop drv symbol l (Suc ui) n (set_blockid ui INVALID_BLOCK_ID dir) items s
      else do {
        (r, b, s) \<leftarrow> get_local drv symbol sub_id s;
        if r \<and> raw_used b \<noteq> 0 then
          (case mem_alloc s of
             (None, s) \<Rightarrow> Some (None, items, s)
           | (Some a, s) \<Rightarrow>
               let (node, s) = dsl_lnklst_new_node (VObject (Some a)) s; (_, s) = dsl_lnklst_add_node (Some l) node s in
               get_item_list_loop drv symbol l (Suc ui) n dir (items @ [(a, b)]) s)
        else get_item_list_loop drv symbol l (Suc ui) n (set_blockid ui INVALID_BLOCK_ID dir) items s })"

definition GetItemList_in ::
  "'h drivers \<Rightarrow> string option \<Rightarrow> u32 \<Rightarrow> addr option \<Rightarrow> 'h ifs1 \<Rightarrow> (int \<times> (addr \<times> buf) list \<times> 'h ifs1) option" where
  "GetItemList_in drv symbol i list s =
     (case list of
        None \<Rightarrow> Some (- 1, [], s)
      | Some l \<Rightarrow> do {
          (dir, s) \<leftarrow> load_block drv symbol i BLOCK_TYPE_DIR s;
          (case dir of
             None \<Rightarrow> Some (- 1, [], s)
           | Some d \<Rightarrow> do {
               (d, items, s) \<leftarrow> get_item_list_loop drv symbol l 0 DIR_BLOCK_ID_COUNT d [] s;
               (case d of
                  None \<Rightarrow> Some (- 1, items, s)
                | Some d \<Rightarrow> do {
                    (r, s) \<leftarrow> Ifs1SetBlock drv symbol i (Some d) s;
                    Some (if r then int (length items) else - 1, items, s) }) }) })"

text \<open>A C string copied into the 256 bytes at \<open>k\<close> of a block.\<close>

definition copy_name :: "nat \<Rightarrow> string \<Rightarrow> buf \<Rightarrow> buf" where
  "copy_name k nm b = wr_bytes k (map byte8 (clip 256 nm @ [NUL])) b"

definition RenameDir_in :: "'h drivers \<Rightarrow> string option \<Rightarrow> u32 \<Rightarrow> string option \<Rightarrow> 'h ifs1 \<Rightarrow> (bool \<times> 'h ifs1) option" where
  "RenameDir_in drv symbol i new_name s =
     (case new_name of
        None \<Rightarrow> Some (False, s)
      | Some nm \<Rightarrow>
          if length nm > MAX_DIRNAME_LEN then Some (False, s)
          else do {
            (dir, s) \<leftarrow> load_block drv symbol i BLOCK_TYPE_DIR s;
            (case dir of None \<Rightarrow> Some (False, s) | Some d \<Rightarrow> Ifs1SetBlock drv symbol i (Some (copy_name 8 nm d)) s) })"

definition RenameFile_in :: "'h drivers \<Rightarrow> string option \<Rightarrow> u32 \<Rightarrow> string option \<Rightarrow> 'h ifs1 \<Rightarrow> (bool \<times> 'h ifs1) option" where
  "RenameFile_in drv symbol i new_name s =
     (case new_name of
        None \<Rightarrow> Some (False, s)
      | Some nm \<Rightarrow>
          if length nm > MAX_FILENAME_LEN then Some (False, s)
          else do {
            (file, s) \<leftarrow> load_block drv symbol i BLOCK_TYPE_FILE s;
            (case file of None \<Rightarrow> Some (False, s) | Some f \<Rightarrow> Ifs1SetBlock drv symbol i (Some (copy_name 12 nm f)) s) })"

text \<open>The first \<open>len\<close> bytes of the link.\<close>

definition GetSLinkTarget_in ::
  "'h drivers \<Rightarrow> string option \<Rightarrow> u32 \<Rightarrow> u32 \<Rightarrow> 'h ifs1 \<Rightarrow> (u8 list option \<times> 'h ifs1) option" where
  "GetSLinkTarget_in drv symbol i len s = do {
     (slink, s) \<leftarrow> load_block drv symbol i BLOCK_TYPE_SLINK s;
     (case slink of
        None \<Rightarrow> Some (None, s)
      | Some l \<Rightarrow> if unat len \<le> SLINK_BLOCK_LINK_LEN then Some (Some (rd_bytes SLINK_LINK_OFFSET (unat len) l), s) else None) }"

end
