(* ===== verification/Ifs1_Resolve.thy ===== *)
theory Ifs1_Resolve
  imports Ifs1_Dirs
begin

text \<open>
  \<open>Ifs1ParsePathEx\<close> of \<^verbatim>\<open>kernel/fs/ifs1/fs.c\<close>, which resolves a path to the number of a block, and
  the public directory operations that start with it.  \<open>Ifs1ParsePathEx\<close> calls itself for the
  target of a link; links can form a cycle, and then it never returns.  The first argument of the
  functions bounds the depth of these calls: the result \<^const>\<open>None\<close> is also a depth that does not suffice.
\<close>

section \<open>Path resolution\<close>

text \<open>What a call gives: the block number, and the arrays \<open>symbol\<close> and \<open>type\<close> of the caller.\<close>

type_synonym parsed = "u32 \<times> string \<times> u32"
type_synonym 'h parser = "string \<Rightarrow> string \<Rightarrow> u32 \<Rightarrow> 'h ifs1 \<Rightarrow> (parsed \<times> 'h ifs1) option"

definition link_string :: "u8 list \<Rightarrow> string" where
  "link_string bs = map char8 (takeWhile (\<lambda>x. x \<noteq> 0) bs)"

text \<open>The loop that follows a link to a directory, at most \<open>n\<close> times: the directory it leads to.\<close>

fun chase ::
  "'h parser \<Rightarrow> 'h drivers \<Rightarrow> string \<Rightarrow> nat \<Rightarrow> u32 \<Rightarrow> string \<Rightarrow> u32 \<Rightarrow> 'h ifs1 \<Rightarrow>
     (u32 option \<times> string \<times> u32 \<times> 'h ifs1) option" where
  "chase rec drv disk 0 block_id symb ty s = Some (None, symb, ty, s)"
| "chase rec drv disk (Suc n) block_id symb ty s = do {
     (t, s) \<leftarrow> GetSLinkTarget_in drv (Some disk) block_id 1023 s;
     (case t of
        None \<Rightarrow> Some (None, symb, ty, s)
      | Some bs \<Rightarrow>
          let link = link_string bs in
          if link \<noteq> [] \<and> last link = CHR ''/'' then do {
            ((i, symb, ty), s) \<leftarrow> rec link symb ty s;
            if i \<noteq> INVALID_BLOCK_ID \<and> ty = BLOCK_TYPE_DIR then Some (Some i, symb, ty, s)
            else if i \<noteq> INVALID_BLOCK_ID \<and> ty = BLOCK_TYPE_SLINK then do {
              ((block_id, symb, ty), s) \<leftarrow> rec link symb ty s;
              chase rec drv disk n block_id symb ty s }
            else Some (None, symb, ty, s) }
          else Some (None, symb, ty, s)) }"

text \<open>Entry \<open>ui\<close> when a component ends with a slash.  The exits: \<open>Some i\<close>, the directory found, and
  \<^const>\<open>None\<close>, \<open>return INVALID_BLOCK_ID\<close>.\<close>

definition dir_entry ::
  "'h parser \<Rightarrow> 'h drivers \<Rightarrow> string \<Rightarrow> buf \<Rightarrow> string \<Rightarrow> nat \<Rightarrow> string \<times> u32 \<times> 'h ifs1 \<Rightarrow>
     (u32 option option \<times> string \<times> u32 \<times> 'h ifs1) option" where
  "dir_entry rec drv disk dir name ui = (\<lambda>(symb, ty, s).
     let block_id = blockid dir ui in
     if block_id = INVALID_BLOCK_ID then Some (None, symb, ty, s)
     else do {
       (r, b, s) \<leftarrow> get_local drv (Some disk) block_id s;
       if \<not> r then Some (None, symb, ty, s)
       else if raw_type b = BLOCK_TYPE_DIR then do {
         nm \<leftarrow> dir_name b;
         if nm = name then Some (Some (Some block_id), symb, BLOCK_TYPE_DIR, s) else Some (None, symb, ty, s) }
       else if raw_type b = BLOCK_TYPE_SLINK then do {
         nm \<leftarrow> slink_name b;
         if nm = name then do {
           (i, symb, ty, s) \<leftarrow> chase rec drv disk 0xffffffff block_id symb ty s;
           Some (Some i, symb, ty, s) }
         else Some (None, symb, ty, s) }
       else Some (None, symb, ty, s) })"

text \<open>Entry \<open>ui\<close> for the last component, the name of a file.\<close>

definition file_entry ::
  "'h parser \<Rightarrow> 'h drivers \<Rightarrow> string \<Rightarrow> bool \<Rightarrow> buf \<Rightarrow> string \<Rightarrow> nat \<Rightarrow> string \<times> u32 \<times> 'h ifs1 \<Rightarrow>
     (parsed option \<times> string \<times> u32 \<times> 'h ifs1) option" where
  "file_entry rec drv disk ret_slnk dir name ui = (\<lambda>(symb, ty, s).
     let block_id = blockid dir ui in
     if block_id = INVALID_BLOCK_ID then Some (None, symb, ty, s)
     else do {
       (r, b, s) \<leftarrow> get_local drv (Some disk) block_id s;
       if \<not> r then Some (None, symb, ty, s)
       else if raw_type b = BLOCK_TYPE_FILE then do {
         nm \<leftarrow> file_name b;
         if nm = name then Some (Some (block_id, disk, ty), disk, ty, s) else Some (None, symb, ty, s) }
       else if raw_type b = BLOCK_TYPE_SLINK then do {
         nm \<leftarrow> slink_name b;
         if nm \<noteq> name then Some (None, symb, ty, s)
         else if ret_slnk then Some (Some (block_id, disk, ty), disk, ty, s)
         else do {
           (t, s) \<leftarrow> GetSLinkTarget_in drv (Some disk) block_id 1023 s;
           (case t of
              None \<Rightarrow> Some (None, symb, ty, s)
            | Some bs \<Rightarrow>
                let link = link_string bs in
                if link \<noteq> [] \<and> last link \<noteq> CHR ''/'' then do {
                  ((i, symb, ty), s) \<leftarrow> rec link symb ty s;
                  Some (Some (i, symb, ty), symb, ty, s) }
                else Some (Some (INVALID_BLOCK_ID, symb, ty), symb, ty, s)) } }
       else Some (None, symb, ty, s) })"

text \<open>After the loop over the path.\<close>

definition parse_end ::
  "'h parser \<Rightarrow> 'h drivers \<Rightarrow> bool \<Rightarrow> string \<Rightarrow> string \<Rightarrow> bool \<Rightarrow> u32 \<Rightarrow> string \<Rightarrow> u32 \<Rightarrow> 'h ifs1 \<Rightarrow> (parsed \<times> 'h ifs1) option" where
  "parse_end rec drv ret_slnk disk name processed blockid' symb ty s =
     (if processed then Some ((blockid', disk, ty), s)
      else do {
        let ty = BLOCK_TYPE_FILE;
        (dir, s) \<leftarrow> read_typed drv (Some disk) blockid' BLOCK_TYPE_DIR s;
        (case dir of
           None \<Rightarrow> Some ((INVALID_BLOCK_ID, symb, ty), s)
         | Some d \<Rightarrow> do {
             (found, symb, ty, s) \<leftarrow> for_ids (file_entry rec drv disk ret_slnk d name) 0 DIR_BLOCK_ID_COUNT (symb, ty, s);
             (case found of
                None \<Rightarrow> Some ((INVALID_BLOCK_ID, symb, ty), s)
              | Some p \<Rightarrow> Some (p, s)) }) })"

text \<open>The loop over the path.\<close>

fun parse_loop ::
  "'h parser \<Rightarrow> 'h drivers \<Rightarrow> bool \<Rightarrow> nat \<Rightarrow> string \<Rightarrow> string \<Rightarrow> bool \<Rightarrow> u32 \<Rightarrow> string \<Rightarrow> u32 \<Rightarrow> string \<Rightarrow> 'h ifs1 \<Rightarrow>
     (parsed \<times> 'h ifs1) option" where
  "parse_loop rec drv ret_slnk state disk name processed i symb ty [] s = parse_end rec drv ret_slnk disk name processed i symb ty s"
| "parse_loop rec drv ret_slnk state disk name processed i symb ty (chr # path) s =
     (if state = 0 then parse_loop rec drv ret_slnk 1 [chr] name processed i symb ty path s
      else if state = 1 then parse_loop rec drv ret_slnk 2 (disk @ [chr]) name processed i symb ty path s
      else if state = 2 then
        (if chr \<noteq> CHR '':'' then parse_end rec drv ret_slnk disk name processed i symb ty s
         else parse_loop rec drv ret_slnk 3 disk name processed i symb ty path s)
      else if state = 3 then
        (if chr \<noteq> CHR ''/'' then parse_end rec drv ret_slnk disk name processed i symb ty s
         else parse_loop rec drv ret_slnk 4 disk name True START_BLOCK_ID symb BLOCK_TYPE_DIR path s)
      else if chr \<noteq> CHR ''/'' then
        (case push_name name chr of
           None \<Rightarrow> None
         | Some None \<Rightarrow> Some ((INVALID_BLOCK_ID, symb, ty), s)
         | Some (Some name) \<Rightarrow> parse_loop rec drv ret_slnk state disk name False i symb ty path s)
      else if name = [] then Some ((INVALID_BLOCK_ID, symb, ty), s)
      else (case read_typed drv (Some disk) i BLOCK_TYPE_DIR s of
              None \<Rightarrow> None
            | Some (None, s) \<Rightarrow> Some ((INVALID_BLOCK_ID, symb, ty), s)
            | Some (Some d, s) \<Rightarrow>
                (case for_ids (dir_entry rec drv disk d name) 0 DIR_BLOCK_ID_COUNT (symb, ty, s) of
                   None \<Rightarrow> None
                 | Some (Some None, symb, ty, s) \<Rightarrow> Some ((INVALID_BLOCK_ID, symb, ty), s)
                 | Some (Some (Some i), symb, ty, s) \<Rightarrow>
                     parse_loop rec drv ret_slnk state disk [] True i symb BLOCK_TYPE_DIR path s
                 | Some (None, symb, ty, s) \<Rightarrow> parse_loop rec drv ret_slnk state disk name processed i symb ty path s)))"

fun Ifs1ParsePathEx :: "nat \<Rightarrow> 'h drivers \<Rightarrow> string option \<Rightarrow> string \<Rightarrow> u32 \<Rightarrow> bool \<Rightarrow> 'h ifs1 \<Rightarrow> (parsed \<times> 'h ifs1) option" where
  "Ifs1ParsePathEx 0 drv path symb ty ret_slnk s = None"
| "Ifs1ParsePathEx (Suc n) drv path symb ty ret_slnk s =
     (case path of
        None \<Rightarrow> Some ((INVALID_BLOCK_ID, symb, ty), s)
      | Some p \<Rightarrow>
          parse_loop (\<lambda>link symb ty. Ifs1ParsePathEx n drv (Some link) symb ty False) drv ret_slnk
            0 [] [] False INVALID_BLOCK_ID symb 0 p s)"

definition Ifs1ParsePath :: "nat \<Rightarrow> 'h drivers \<Rightarrow> string option \<Rightarrow> string \<Rightarrow> u32 \<Rightarrow> 'h ifs1 \<Rightarrow> (parsed \<times> 'h ifs1) option" where
  "Ifs1ParsePath n drv path symb ty s = Ifs1ParsePathEx n drv path symb ty False s"

section \<open>The public operations\<close>

text \<open>\<open>Ifs1ParsePath(path, symbol, &type)\<close> with the caller's fresh \<open>symbol\<close> and \<open>type\<close>.\<close>

definition resolve :: "nat \<Rightarrow> 'h drivers \<Rightarrow> string option \<Rightarrow> 'h ifs1 \<Rightarrow> (parsed \<times> 'h ifs1) option" where
  "resolve n drv path s = Ifs1ParsePath n drv path [] 0 s"

definition Ifs1GetSLinkTarget ::
  "nat \<Rightarrow> 'h drivers \<Rightarrow> string option \<Rightarrow> u32 \<Rightarrow> 'h ifs1 \<Rightarrow> (u8 list option \<times> 'h ifs1) option" where
  "Ifs1GetSLinkTarget n drv path len s = do {
     ((i, symb, ty), s) \<leftarrow> Ifs1ParsePathEx n drv path [] 0 True s;
     GetSLinkTarget_in drv (Some symb) i len s }"

definition Ifs1GetItemCount :: "nat \<Rightarrow> 'h drivers \<Rightarrow> string option \<Rightarrow> 'h ifs1 \<Rightarrow> (int \<times> 'h ifs1) option" where
  "Ifs1GetItemCount n drv path s = do {
     ((i, symb, ty), s) \<leftarrow> resolve n drv path s;
     if ty \<noteq> BLOCK_TYPE_DIR then Some (- 1, s) else GetItemCount_in drv (Some symb) i s }"

definition Ifs1GetItems :: "nat \<Rightarrow> 'h drivers \<Rightarrow> string option \<Rightarrow> u32 \<Rightarrow> 'h ifs1 \<Rightarrow> (int \<times> buf list \<times> 'h ifs1) option" where
  "Ifs1GetItems n drv path mx s = do {
     ((i, symb, ty), s) \<leftarrow> resolve n drv path s;
     if ty \<noteq> BLOCK_TYPE_DIR then Some (- 1, [], s) else GetItems_in drv (Some symb) i mx s }"

definition Ifs1GetItemList ::
  "nat \<Rightarrow> 'h drivers \<Rightarrow> string option \<Rightarrow> addr option \<Rightarrow> 'h ifs1 \<Rightarrow> (int \<times> (addr \<times> buf) list \<times> 'h ifs1) option" where
  "Ifs1GetItemList n drv path list s = do {
     ((i, symb, ty), s) \<leftarrow> resolve n drv path s;
     if ty \<noteq> BLOCK_TYPE_DIR then Some (- 1, [], s) else GetItemList_in drv (Some symb) i list s }"

definition Ifs1CreateDir ::
  "nat \<Rightarrow> 'h drivers \<Rightarrow> cmos_date_time \<Rightarrow> string option \<Rightarrow> string option \<Rightarrow> 'h ifs1 \<Rightarrow> (bool \<times> 'h ifs1) option" where
  "Ifs1CreateDir n drv dt path name s = do {
     ((i, symb, _), s) \<leftarrow> resolve n drv path s;
     CreateDir_in drv dt (Some symb) i name s }"

definition Ifs1CreateFile ::
  "nat \<Rightarrow> 'h drivers \<Rightarrow> cmos_date_time \<Rightarrow> string option \<Rightarrow> string option \<Rightarrow> 'h ifs1 \<Rightarrow> (bool \<times> 'h ifs1) option" where
  "Ifs1CreateFile n drv dt path name s = do {
     ((i, symb, _), s) \<leftarrow> resolve n drv path s;
     CreateFile_in drv dt (Some symb) i name s }"

definition Ifs1CreateSLink ::
  "nat \<Rightarrow> 'h drivers \<Rightarrow> string option \<Rightarrow> string option \<Rightarrow> string option \<Rightarrow> 'h ifs1 \<Rightarrow> (bool \<times> 'h ifs1) option" where
  "Ifs1CreateSLink n drv path name link s = do {
     ((i, symb, _), s) \<leftarrow> resolve n drv path s;
     CreateSLink_in drv (Some symb) i name link s }"

text \<open>The end of deleting a directory or a file: its number is removed from the parent directory.
  \<open>symbol\<close> is what the first resolution left in it.\<close>

definition unlink_entry ::
  "nat \<Rightarrow> 'h drivers \<Rightarrow> string \<Rightarrow> u32 \<Rightarrow> string \<Rightarrow> u32 \<Rightarrow> 'h ifs1 \<Rightarrow> (bool \<times> 'h ifs1) option" where
  "unlink_entry n drv parent i symb ty s = do {
     ((pdir_id, symb, ty), s) \<leftarrow> Ifs1ParsePath n drv (Some parent) symb ty s;
     (r, pdir, s) \<leftarrow> get_local drv (Some symb) pdir_id s;
     if \<not> r then Some (False, s)
     else (case first_index (\<lambda>ui. blockid pdir ui = i) 0 DIR_BLOCK_ID_COUNT of
             None \<Rightarrow> Some (True, s)
           | Some ui \<Rightarrow> Ifs1SetBlock drv (Some symb) pdir_id (Some (set_blockid ui INVALID_BLOCK_ID pdir)) s) }"

definition Ifs1DeleteDir :: "nat \<Rightarrow> 'h drivers \<Rightarrow> string \<Rightarrow> 'h ifs1 \<Rightarrow> (bool \<times> 'h ifs1) option" where
  "Ifs1DeleteDir n drv path s = do {
     ((i, symb, ty), s) \<leftarrow> resolve n drv (Some path) s;
     (r, s) \<leftarrow> DeleteDir_in drv (Some symb) i s;
     if \<not> r then Some (False, s)
     else unlink_entry n drv (snd (Ifs1GetParentDir path)) i symb ty s }"

definition Ifs1DeleteFile :: "nat \<Rightarrow> 'h drivers \<Rightarrow> string \<Rightarrow> 'h ifs1 \<Rightarrow> (bool \<times> 'h ifs1) option" where
  "Ifs1DeleteFile n drv path s = do {
     ((i, symb, ty), s) \<leftarrow> resolve n drv (Some path) s;
     (r, s) \<leftarrow> DeleteFile_in drv (Some symb) i s;
     if \<not> r then Some (False, s)
     else unlink_entry n drv (snd (Ifs1GetFileLocation path)) i symb ty s }"

text \<open>The loop of \<open>Ifs1DeleteDirRecursively\<close> over the blocks that \<open>Ifs1GetItems\<close> copied; \<open>k\<close> more, up to
  \<open>count\<close>, are memory that nothing was copied to: reading one is \<^const>\<open>None\<close>.  The result is
  whether the loop ended without \<open>return FALSE\<close>.\<close>

fun delete_subs ::
  "(string \<Rightarrow> 'h ifs1 \<Rightarrow> (bool \<times> 'h ifs1) option) \<Rightarrow> nat \<Rightarrow> 'h drivers \<Rightarrow> string \<Rightarrow> nat \<Rightarrow> buf list \<Rightarrow> 'h ifs1 \<Rightarrow>
     (bool \<times> 'h ifs1) option" where
  "delete_subs rec n drv path k [] s = (if k = 0 then Some (True, s) else None)"
| "delete_subs rec n drv path k (sub # subs) s =
     (let copied = clip MAX_PATH_BUFFER_LEN path in
      if raw_type sub = BLOCK_TYPE_FILE then do {
        nm \<leftarrow> file_name sub;
        (r, s) \<leftarrow> Ifs1DeleteFile n drv (cat MAX_PATH_BUFFER_LEN copied nm) s;
        if \<not> r then Some (False, s) else delete_subs rec n drv path k subs s }
      else if raw_type sub = BLOCK_TYPE_DIR then do {
        nm \<leftarrow> dir_name sub;
        (r, s) \<leftarrow> rec (cat MAX_PATH_BUFFER_LEN (cat MAX_PATH_BUFFER_LEN copied nm) ''/'') s;
        if \<not> r then Some (False, s) else delete_subs rec n drv path k subs s }
      else Some (False, s))"

text \<open>The first argument bounds the depth of the directories, the second the links of each resolution.\<close>

fun Ifs1DeleteDirRecursively :: "nat \<Rightarrow> nat \<Rightarrow> 'h drivers \<Rightarrow> string \<Rightarrow> 'h ifs1 \<Rightarrow> (bool \<times> 'h ifs1) option" where
  "Ifs1DeleteDirRecursively 0 n drv path s = None"
| "Ifs1DeleteDirRecursively (Suc d) n drv path s = do {
     (c, s) \<leftarrow> Ifs1GetItemCount n drv (Some path) s;
     let count = (word_of_int c :: u32);
     if count \<noteq> 0 then
       (case mem_alloc s of
          (None, s) \<Rightarrow> Some (False, s)
        | (Some subs, s) \<Rightarrow> do {
            (_, blocks, s) \<leftarrow> Ifs1GetItems n drv (Some path) count s;
            (r, s) \<leftarrow> delete_subs (Ifs1DeleteDirRecursively d n drv) n drv path (unat count - length blocks) blocks s;
            if \<not> r then Some (False, s)
            else Ifs1DeleteDir n drv path (mem_free (Some subs) s) })
     else Ifs1DeleteDir n drv path s }"

text \<open>A link is not removed from its directory.\<close>

definition Ifs1DeleteSLink :: "nat \<Rightarrow> 'h drivers \<Rightarrow> string option \<Rightarrow> 'h ifs1 \<Rightarrow> (bool \<times> 'h ifs1) option" where
  "Ifs1DeleteSLink n drv path s = do {
     ((i, symb, ty), s) \<leftarrow> Ifs1ParsePathEx n drv path [] 0 True s;
     DeleteSLink_in drv (Some symb) i s }"

definition Ifs1RenameDir ::
  "nat \<Rightarrow> 'h drivers \<Rightarrow> string option \<Rightarrow> string option \<Rightarrow> 'h ifs1 \<Rightarrow> (bool \<times> 'h ifs1) option" where
  "Ifs1RenameDir n drv path new_name s = do {
     ((i, symb, _), s) \<leftarrow> resolve n drv path s;
     RenameDir_in drv (Some symb) i new_name s }"

definition Ifs1RenameFile ::
  "nat \<Rightarrow> 'h drivers \<Rightarrow> string option \<Rightarrow> string option \<Rightarrow> 'h ifs1 \<Rightarrow> (bool \<times> 'h ifs1) option" where
  "Ifs1RenameFile n drv path new_name s = do {
     ((i, symb, _), s) \<leftarrow> resolve n drv path s;
     RenameFile_in drv (Some symb) i new_name s }"

definition Ifs1DirExists ::
  "nat \<Rightarrow> 'h drivers \<Rightarrow> string option \<Rightarrow> string option \<Rightarrow> 'h ifs1 \<Rightarrow> (bool \<times> 'h ifs1) option" where
  "Ifs1DirExists n drv path name s = do {
     ((i, symb, _), s) \<leftarrow> resolve n drv path s;
     DirExists_in drv (Some symb) i name s }"

definition Ifs1FileExists ::
  "nat \<Rightarrow> 'h drivers \<Rightarrow> string option \<Rightarrow> string option \<Rightarrow> 'h ifs1 \<Rightarrow> (bool \<times> 'h ifs1) option" where
  "Ifs1FileExists n drv path name s = do {
     ((i, symb, _), s) \<leftarrow> resolve n drv path s;
     FileExists_in drv (Some symb) i name s }"

definition Ifs1Format :: "'h drivers \<Rightarrow> cmos_date_time \<Rightarrow> string option \<Rightarrow> 'h ifs1 \<Rightarrow> (bool \<times> 'h ifs1) option" where
  "Ifs1Format drv dt symbol s =
     (if symbol = None then Some (False, s)
      else do {
        (r, s) \<leftarrow> Ifs1DeleteAllBlocks drv symbol s;
        if \<not> r then Some (False, s)
        else do {
          (_, dir) \<leftarrow> Ifs1FillDirBlock dt (Some ''/'') (Some (dir_of_raw (stk s)));
          dir \<leftarrow> dir;
          (i, s) \<leftarrow> Ifs1AddBlock drv symbol (Some (dir_raw dir)) s;
          Some (i \<noteq> INVALID_BLOCK_ID, s) } })"

definition Ifs1Check :: "'h drivers \<Rightarrow> string option \<Rightarrow> 'h ifs1 \<Rightarrow> (bool \<times> 'h ifs1) option" where
  "Ifs1Check drv symbol s =
     (if symbol = None then Some (False, s)
      else do {
        (r, dir, s) \<leftarrow> get_local drv symbol START_BLOCK_ID s;
        if r \<and> raw_type dir = BLOCK_TYPE_DIR then do { nm \<leftarrow> dir_name dir; Some (nm = ''/'', s) }
        else Some (False, s) })"

definition Ifs1Exists :: "nat \<Rightarrow> 'h drivers \<Rightarrow> string \<Rightarrow> 'h ifs1 \<Rightarrow> (bool \<times> 'h ifs1) option" where
  "Ifs1Exists n drv path s = do {
     valid \<leftarrow> Ifs1IsValidPath path;
     let len = length path;
     if \<not> valid then Some (False, s)
     else if len = 4 then Ifs1Check drv (Some (take 2 path)) s
     else if len = 0 then None
     else if path ! (len - 1) = CHR ''/'' then
       (if len - 1 < MAX_PATH_BUFFER_LEN then
          let temp = take (len - 1) (clip MAX_PATH_BUFFER_LEN path);
              i = back_slash (len - 1) temp in
          Ifs1DirExists n drv (Some (take i temp)) (Some (clip MAX_FILENAME_BUFFER_LEN (drop i temp))) s
        else None)
     else
       (let i = back_slash len path in
        if i < MAX_PATH_BUFFER_LEN then
          Ifs1FileExists n drv (Some (take i (clip MAX_PATH_BUFFER_LEN path))) (Some (clip MAX_FILENAME_BUFFER_LEN (drop i path))) s
        else None) }"

end
