(* ===== verification/Ifs1_Files.thy ===== *)
theory Ifs1_Files
  imports Ifs1_Resolve
begin

text \<open>
  Open files of \<^verbatim>\<open>kernel/fs/ifs1/fs.c\<close>: opening, closing, writing, reading, appending, copying
  and repairing.  A \<^verbatim>\<open>FileObject\<close> is a value that every operation returns changed; the block its
  field \<open>file_block\<close> points to is part of it.  The interrupt lock around the operations is that of
  the theory Lock.  A call of \<open>CmosGetDateTime\<close> gives the parameter \<open>dt\<close>.  \<^const>\<open>None\<close> is an access
  outside \<open>blockids\<close> or the data of a block.
\<close>

definition FILE_MODE_READ :: u32 where "FILE_MODE_READ = 1"
definition FILE_MODE_WRITE :: u32 where "FILE_MODE_WRITE = 2"
definition FILE_MODE_APPEND :: u32 where "FILE_MODE_APPEND = 4"
definition DATA_LEN :: u32 where "DATA_LEN = 65492"
definition MAX_FILE_LEN :: u32 where "MAX_FILE_LEN = DATA_LEN * 16128"
definition MAX_RW_OPTIMIZED_BYTES :: u32 where "MAX_RW_OPTIMIZED_BYTES = 32768"

record file_object =
  fo_symbol :: string
  fo_file_block_id :: u32
  fo_file_block :: file_block
  fo_mode :: u32
  fo_next_block_index :: u32
  fo_next_block_pos :: u32
  fo_read_buffer_was_enabled :: bool
  fo_read_buffer_is_valid :: bool
  fo_read_buffer_block_index :: u32
  fo_read_buffer :: buf
  fo_append_buffer_was_enabled :: bool
  fo_append_count :: u32
  fo_append_bytes :: "u8 list"
  fo_addr :: addr
  fo_block_addr :: addr

abbreviation flen :: "file_object \<Rightarrow> u32" where "flen f \<equiv> fb_length (fo_file_block f)"

definition get_id :: "file_object \<Rightarrow> u32 \<Rightarrow> u32 option" where
  "get_id f k = (if unat k < FILE_BLOCK_ID_COUNT then Some (fb_blockids (fo_file_block f) ! unat k) else None)"

definition set_id :: "u32 \<Rightarrow> u32 \<Rightarrow> file_object \<Rightarrow> file_object option" where
  "set_id k v f =
     (if unat k < FILE_BLOCK_ID_COUNT
      then Some (f\<lparr>fo_file_block := (fo_file_block f)\<lparr>fb_blockids := (fb_blockids (fo_file_block f))[unat k := v]\<rparr>\<rparr>)
      else None)"

text \<open>Writing the file block back.\<close>

definition set_file_block :: "'h drivers \<Rightarrow> file_object \<Rightarrow> 'h ifs1 \<Rightarrow> (bool \<times> 'h ifs1) option" where
  "set_file_block drv f s = Ifs1SetBlock drv (Some (fo_symbol f)) (fo_file_block_id f) (Some (file_raw (fo_file_block f))) s"

text \<open>The end of writing and appending: the time of the change, and no valid read buffer.\<close>

definition changed :: "cmos_date_time \<Rightarrow> file_object \<Rightarrow> file_object" where
  "changed dt f =
     (let f = f\<lparr>fo_file_block := (fo_file_block f)\<lparr>fb_change := dt\<rparr>\<rparr> in
      if fo_mode f AND FILE_MODE_READ \<noteq> 0
      then f\<lparr>fo_read_buffer_is_valid := False, fo_read_buffer_block_index := 0\<rparr> else f)"

section \<open>Opening\<close>

text \<open>When the file block cannot be read or is locked, and when it cannot be written, the pointer that
  is freed is \<open>fptr->file_block\<close>, which has not been set yet.\<close>

definition Ifs1OpenFile ::
  "nat \<Rightarrow> 'h drivers \<Rightarrow> string option \<Rightarrow> u32 \<Rightarrow> 'h ifs1 \<Rightarrow> (file_object option \<times> 'h ifs1) option" where
  "Ifs1OpenFile n drv path mode s =
     (case mem_alloc s of
        (None, s) \<Rightarrow> Some (None, s)
      | (Some fptr, s) \<Rightarrow> do {
          ((i, symb, ty), s) \<leftarrow> resolve n drv path s;
          if ty \<noteq> BLOCK_TYPE_FILE \<or> i = INVALID_BLOCK_ID then Some (None, mem_free (Some fptr) s)
          else (case mem_alloc s of
             (None, s) \<Rightarrow> Some (None, mem_free (Some fptr) s)
           | (Some fb, s) \<Rightarrow> do {
               (r, b, s) \<leftarrow> get_local drv (Some symb) i s;
               let file_block = file_of_raw b;
               if \<not> r \<or> fb_lock file_block \<noteq> 0 then Some (None, mem_free (Some fptr) (mem_free None s))
               else do {
                 let file_block = file_block\<lparr>fb_lock := 1\<rparr>;
                 (r, s) \<leftarrow> Ifs1SetBlock drv (Some symb) i (Some (file_raw file_block)) s;
                 if \<not> r then Some (None, mem_free (Some fptr) (mem_free None s))
                 else Some (Some \<lparr>fo_symbol = clip 3 symb, fo_file_block_id = i, fo_file_block = file_block, fo_mode = mode,
                   fo_next_block_index = 0, fo_next_block_pos = 0, fo_read_buffer_was_enabled = read_buffer_on s,
                   fo_read_buffer_is_valid = False, fo_read_buffer_block_index = 0, fo_read_buffer = stk s,
                   fo_append_buffer_was_enabled = append_buffer_on s, fo_append_count = 0,
                   fo_append_bytes = map (stk s) [0..<DATA_BLOCK_DATA_LEN], fo_addr = fptr, fo_block_addr = fb\<rparr>, s) } }) })"

section \<open>Writing\<close>

text \<open>The old data blocks, entries \<open>k\<close> and the following of \<open>blockids\<close>, are marked unused.\<close>

fun write_clear :: "'h drivers \<Rightarrow> nat \<Rightarrow> nat \<Rightarrow> file_object \<Rightarrow> 'h ifs1 \<Rightarrow> (bool \<times> file_object \<times> 'h ifs1) option" where
  "write_clear drv k 0 f s = Some (True, f, s)"
| "write_clear drv k (Suc n) f s = do {
     block_id \<leftarrow> get_id f (of_nat k);
     if block_id \<noteq> INVALID_BLOCK_ID then do {
       (r, s) \<leftarrow> Ifs1SetBlock drv (Some (fo_symbol f)) block_id (Some (wr32 0 0 (stk s))) s;
       if \<not> r then Some (False, f, s)
       else do { f \<leftarrow> set_id (of_nat k) INVALID_BLOCK_ID f; write_clear drv (Suc k) n f s } }
     else write_clear drv (Suc k) n f s }"

definition data_block :: "nat \<Rightarrow> (nat \<Rightarrow> u8) \<Rightarrow> buf \<Rightarrow> buf" where
  "data_block n bytes b =
     wr32 0 1 (wr32 4 BLOCK_TYPE_DATA (wr32 8 (of_nat n) (wr_bytes 12 (replicate 32 0) (wr_bytes DATA_OFFSET (map bytes [0..<n]) b))))"

text \<open>The new data blocks, from byte \<open>off\<close> of the buffer.  The number that \<open>Ifs1AddBlock\<close> returns is
  stored whatever it is.\<close>

function write_blocks ::
  "'h drivers \<Rightarrow> buf \<Rightarrow> nat \<Rightarrow> nat \<Rightarrow> u32 \<Rightarrow> file_object \<Rightarrow> 'h ifs1 \<Rightarrow> (file_object \<times> 'h ifs1) option" where
  "write_blocks drv buffer off i index f s =
     (if i = 0 then Some (f, s)
      else
        let n = (if i \<ge> DATA_BLOCK_DATA_LEN then DATA_BLOCK_DATA_LEN else i) in
        case Ifs1AddBlock drv (Some (fo_symbol f)) (Some (data_block n (\<lambda>k. buffer (off + k)) (stk s))) s of
          None \<Rightarrow> None
        | Some (data_block_id, s) \<Rightarrow>
            (case set_id index data_block_id f of
               None \<Rightarrow> None
             | Some f \<Rightarrow> write_blocks drv buffer (off + n) (i - DATA_BLOCK_DATA_LEN) (index + 1) f s))"
  by pat_completeness auto
termination
  by (relation "measure (\<lambda>(drv, buffer, off, i, index, f, s). i)") (auto simp: DATA_BLOCK_DATA_LEN_def)

declare write_blocks.simps [simp del]

definition Ifs1WriteFile ::
  "'h drivers \<Rightarrow> cmos_date_time \<Rightarrow> file_object \<Rightarrow> buf \<Rightarrow> u32 \<Rightarrow> 'h ifs1 \<Rightarrow> (bool \<times> file_object \<times> 'h ifs1) option" where
  "Ifs1WriteFile drv dt f buffer len s =
     (if fo_mode f AND FILE_MODE_WRITE = 0 \<or> len > MAX_FILE_LEN then Some (False, f, s)
      else do {
        (ok, f, s) \<leftarrow> write_clear drv 0 FILE_BLOCK_ID_COUNT f s;
        if \<not> ok then Some (False, f, s)
        else do {
          (f, s) \<leftarrow> write_blocks drv buffer 0 (unat len) 0 f s;
          let f = changed dt (f\<lparr>fo_file_block := (fo_file_block f)\<lparr>fb_length := len\<rparr>\<rparr>);
          (r, s) \<leftarrow> set_file_block drv f s;
          Some (r, f, s) } })"

section \<open>Reading\<close>

definition file_pos :: "file_object \<Rightarrow> u32" where
  "file_pos f = fo_next_block_index f * DATA_LEN + fo_next_block_pos f"

definition advance :: "u32 \<Rightarrow> file_object \<Rightarrow> file_object" where
  "advance n f =
     (let pos = fo_next_block_pos f + n in
      if pos = DATA_LEN then f\<lparr>fo_next_block_index := fo_next_block_index f + 1, fo_next_block_pos := 0\<rparr>
      else f\<lparr>fo_next_block_pos := pos\<rparr>)"

definition optimized :: "nat \<Rightarrow> file_object \<Rightarrow> bool" where
  "optimized len f \<longleftrightarrow>
     len \<ge> unat MAX_RW_OPTIMIZED_BYTES \<and> fo_next_block_pos f + MAX_RW_OPTIMIZED_BYTES \<le> DATA_LEN \<and>
     file_pos f + MAX_RW_OPTIMIZED_BYTES - 1 < flen f"

text \<open>\<open>*(dst++) = *(src++)\<close> with words, from offset \<open>k\<close> of the block.\<close>

fun copy_words :: "nat \<Rightarrow> buf \<Rightarrow> nat \<Rightarrow> u8 list" where
  "copy_words 0 b k = []"
| "copy_words (Suc n) b k = map (byte32 (rd32 b k)) [0..<4] @ copy_words n b (k + 4)"

text \<open>What one round copies.\<close>

definition chunk :: "nat \<Rightarrow> buf \<Rightarrow> file_object \<Rightarrow> (u8 list \<times> u32) option" where
  "chunk len block f =
     (if optimized len f
      then Some (copy_words (unat (MAX_RW_OPTIMIZED_BYTES div 4)) block (DATA_OFFSET + unat (fo_next_block_pos f)), MAX_RW_OPTIMIZED_BYTES)
      else if unat (fo_next_block_pos f) < DATA_BLOCK_DATA_LEN
      then Some ([block (DATA_OFFSET + unat (fo_next_block_pos f))], 1)
      else None)"

lemma chunk_pos: "chunk len block f = Some (bs, n) \<Longrightarrow> 0 < unat n"
  by (auto simp: chunk_def MAX_RW_OPTIMIZED_BYTES_def split: if_splits)

text \<open>How the next block gets into the buffer: the local block of
  \<open>_Ifs1ReadFileWithoutBufferUnsafely\<close>, or the read buffer of the file.\<close>

type_synonym 'h fetch = "u32 \<Rightarrow> buf \<Rightarrow> file_object \<Rightarrow> 'h ifs1 \<Rightarrow> (bool \<times> buf \<times> file_object \<times> 'h ifs1) option"

definition fetch_local :: "'h drivers \<Rightarrow> 'h fetch" where
  "fetch_local drv i block f s = do {
     (r, b, s) \<leftarrow> Ifs1GetBlock drv (Some (fo_symbol f)) i (Some block) s;
     block \<leftarrow> b;
     Some (r, block, f, s) }"

definition fetch_buffered :: "'h drivers \<Rightarrow> 'h fetch" where
  "fetch_buffered drv i block f s =
     (if \<not> fo_read_buffer_is_valid f \<or> fo_read_buffer_block_index f \<noteq> i then do {
        (r, b, s) \<leftarrow> Ifs1GetBlock drv (Some (fo_symbol f)) i (Some (fo_read_buffer f)) s;
        block \<leftarrow> b;
        Some (r, block,
          (if r then f\<lparr>fo_read_buffer := block, fo_read_buffer_block_index := i, fo_read_buffer_is_valid := True\<rparr>
           else f\<lparr>fo_read_buffer := block\<rparr>), s) }
      else Some (True, fo_read_buffer f, f, s))"

text \<open>The loop; \<open>len\<close> bytes are still asked for, \<open>out\<close> are those read so far.\<close>

function read_loop ::
  "'h fetch \<Rightarrow> nat \<Rightarrow> u32 \<Rightarrow> buf \<Rightarrow> file_object \<Rightarrow> u8 list \<Rightarrow> 'h ifs1 \<Rightarrow> (u8 list \<times> file_object \<times> 'h ifs1) option" where
  "read_loop fetch len block_index block f out s =
     (if len > 0 \<and> file_pos f < flen f then
        (case (if block_index \<noteq> fo_next_block_index f
               then case get_id f (fo_next_block_index f) of None \<Rightarrow> None | Some i \<Rightarrow> fetch i block f s
               else Some (True, block, f, s)) of
           None \<Rightarrow> None
         | Some (r, block, f, s) \<Rightarrow>
             if \<not> r then Some (out, f, s)
             else (case chunk len block f of
                     None \<Rightarrow> None
                   | Some (bs, n) \<Rightarrow> read_loop fetch (len - unat n) (fo_next_block_index f) block (advance n f) (out @ bs) s))
      else Some (out, f, s))"
  by pat_completeness auto
termination
  by (relation "measure (\<lambda>(fetch, len, block_index, block, f, out, s). len)") (auto dest: chunk_pos)

declare read_loop.simps [simp del]

definition read_file ::
  "'h fetch \<Rightarrow> file_object \<Rightarrow> u32 \<Rightarrow> 'h ifs1 \<Rightarrow> (u8 list \<times> file_object \<times> 'h ifs1) option" where
  "read_file fetch f len s =
     (if fo_mode f AND FILE_MODE_READ = 0 \<or> len = 0 then Some ([], f, s)
      else do {
        i \<leftarrow> get_id f (fo_next_block_index f);
        (r, block, f, s) \<leftarrow> fetch i (stk s) f s;
        if \<not> r then Some ([], f, s)
        else read_loop fetch (unat len) (fo_next_block_index f) block f [] s })"

text \<open>The bytes written to the buffer; the result of the C function is their number.\<close>

definition Ifs1ReadFile ::
  "'h drivers \<Rightarrow> file_object \<Rightarrow> u32 \<Rightarrow> 'h ifs1 \<Rightarrow> (u8 list \<times> file_object \<times> 'h ifs1) option" where
  "Ifs1ReadFile drv f len s =
     (if read_buffer_on s then read_file (fetch_buffered drv) f len s else read_file (fetch_local drv) f len s)"

definition Ifs1ResetFile :: "file_object \<Rightarrow> file_object" where
  "Ifs1ResetFile f = f\<lparr>fo_next_block_index := 0, fo_next_block_pos := 0\<rparr>"

definition Ifs1IsEOF :: "file_object \<Rightarrow> bool" where
  "Ifs1IsEOF f \<longleftrightarrow> file_pos f = flen f"

section \<open>Appending\<close>

text \<open>The local variables of \<open>_Ifs1AppendFileWithoutBufferUnsafely\<close>.\<close>

record app =
  ap_block :: buf
  ap_block_index :: u32
  ap_cblock_index :: u32
  ap_block_pos :: u32
  ap_is_save :: bool
  ap_is_next :: bool

text \<open>The block that is full is saved before a byte goes to the next one.  \<open>None\<close> in the first
  component of the result is \<open>return FALSE\<close>.\<close>

definition append_save :: "'h drivers \<Rightarrow> app \<Rightarrow> file_object \<Rightarrow> 'h ifs1 \<Rightarrow> (app option \<times> file_object \<times> 'h ifs1) option" where
  "append_save drv ap f s =
     (if ap_cblock_index ap = ap_block_index ap then Some (Some ap, f, s)
      else
        let next = (\<lambda>b. ap\<lparr>ap_block := wr32 8 0 b, ap_block_pos := 0, ap_block_index := ap_block_index ap + 1, ap_is_save := True\<rparr>) in
        if (ap_cblock_index ap - 1) * DATA_LEN < flen f then do {
          i \<leftarrow> get_id f (ap_cblock_index ap - 1);
          (r, s) \<leftarrow> Ifs1SetBlock drv (Some (fo_symbol f)) i (Some (ap_block ap)) s;
          Some (if r then Some (next (ap_block ap)) else None, f, s) }
        else do {
          let b = wr32 0 1 (wr32 4 BLOCK_TYPE_DATA (ap_block ap));
          (i, s) \<leftarrow> Ifs1AddBlock drv (Some (fo_symbol f)) (Some b) s;
          if i = INVALID_BLOCK_ID then Some (None, f, s)
          else do {
            f \<leftarrow> set_id (ap_cblock_index ap - 1) i f;
            Some (Some (next b), f, s) } })"

definition append_put :: "u8 \<Rightarrow> app \<Rightarrow> app option" where
  "append_put x ap =
     (if unat (ap_block_pos ap) < DATA_BLOCK_DATA_LEN then
        let b = (ap_block ap)(DATA_OFFSET + unat (ap_block_pos ap) := x);
            b = wr32 8 (rd32 b 8 + 1) b;
            full = (rd32 b 8 = DATA_LEN) in
        Some (ap\<lparr>ap_block := b, ap_block_pos := ap_block_pos ap + 1, ap_is_save := False, ap_is_next := full,
          ap_cblock_index := (if full then ap_cblock_index ap + 1 else ap_cblock_index ap)\<rparr>)
      else None)"

fun append_loop ::
  "'h drivers \<Rightarrow> u8 list \<Rightarrow> app \<Rightarrow> file_object \<Rightarrow> 'h ifs1 \<Rightarrow> (app option \<times> file_object \<times> 'h ifs1) option" where
  "append_loop drv [] ap f s = Some (Some ap, f, s)"
| "append_loop drv (x # xs) ap f s =
     (case append_save drv ap f s of
        None \<Rightarrow> None
      | Some (None, f, s) \<Rightarrow> Some (None, f, s)
      | Some (Some ap, f, s) \<Rightarrow>
          (case append_put x ap of None \<Rightarrow> None | Some ap \<Rightarrow> append_loop drv xs ap f s))"

text \<open>Saving the last block after the loop; whether it succeeded.\<close>

definition append_last :: "'h drivers \<Rightarrow> app \<Rightarrow> file_object \<Rightarrow> 'h ifs1 \<Rightarrow> (bool \<times> file_object \<times> 'h ifs1) option" where
  "append_last drv ap f s =
     (if ap_is_save ap then Some (True, f, s)
      else do {
        let k = (if ap_is_next ap then ap_cblock_index ap - 1 else ap_cblock_index ap);
        i \<leftarrow> get_id f k;
        if i \<noteq> INVALID_BLOCK_ID then do {
          (r, s) \<leftarrow> Ifs1SetBlock drv (Some (fo_symbol f)) i (Some (ap_block ap)) s;
          Some (r, f, s) }
        else do {
          (i, s) \<leftarrow> Ifs1AddBlock drv (Some (fo_symbol f)) (Some (ap_block ap)) s;
          if i = INVALID_BLOCK_ID then Some (False, f, s)
          else do { f \<leftarrow> set_id k i f; Some (True, f, s) } } })"

text \<open>The first data block: a new one when the file ends at the end of a block.\<close>

definition append_first :: "'h drivers \<Rightarrow> file_object \<Rightarrow> 'h ifs1 \<Rightarrow> (bool \<times> buf \<times> file_object \<times> 'h ifs1) option" where
  "append_first drv f s =
     (let block_index = flen f div DATA_LEN in
      if flen f mod DATA_LEN = 0 then do {
        let b = wr32 0 1 (wr32 4 BLOCK_TYPE_DATA (wr32 8 0 (stk s)));
        (i, s) \<leftarrow> Ifs1AddBlock drv (Some (fo_symbol f)) (Some b) s;
        if i = INVALID_BLOCK_ID then Some (False, b, f, s)
        else do { f \<leftarrow> set_id block_index i f; Some (True, b, f, s) } }
      else Some (True, stk s, f, s))"

text \<open>\<open>buffer\<close> is the \<open>len\<close> bytes of the array.\<close>

definition AppendFile_plain ::
  "'h drivers \<Rightarrow> cmos_date_time \<Rightarrow> file_object \<Rightarrow> u8 list \<Rightarrow> 'h ifs1 \<Rightarrow> (bool \<times> file_object \<times> 'h ifs1) option" where
  "AppendFile_plain drv dt f buffer s =
     (let len = (of_nat (length buffer) :: u32) in
      if len = 0 \<or> fo_mode f AND FILE_MODE_APPEND = 0 \<or> flen f + len > MAX_FILE_LEN then Some (False, f, s)
      else do {
        let block_index = flen f div DATA_LEN;
        let block_pos = flen f mod DATA_LEN;
        (ok, b, f, s) \<leftarrow> append_first drv f s;
        if \<not> ok then Some (False, f, s)
        else do {
          i \<leftarrow> get_id f block_index;
          (r, b, s) \<leftarrow> Ifs1GetBlock drv (Some (fo_symbol f)) i (Some b) s;
          b \<leftarrow> b;
          if \<not> r then Some (False, f, s)
          else do {
            (ap, f, s) \<leftarrow> append_loop drv buffer \<lparr>ap_block = b, ap_block_index = block_index, ap_cblock_index = block_index,
              ap_block_pos = block_pos, ap_is_save = False, ap_is_next = False\<rparr> f s;
            (case ap of
               None \<Rightarrow> Some (False, f, s)
             | Some ap \<Rightarrow> do {
                 (ok, f, s) \<leftarrow> append_last drv ap f s;
                 if \<not> ok then Some (False, f, s)
                 else do {
                   let f = changed dt (f\<lparr>fo_file_block := (fo_file_block f)\<lparr>fb_length := flen f + len\<rparr>\<rparr>);
                   (r, s) \<leftarrow> set_file_block drv f s;
                   Some (r, f, s) } }) } } })"

definition append_buffered_bytes :: "file_object \<Rightarrow> u8 list" where
  "append_buffered_bytes f = take (unat (fo_append_count f)) (fo_append_bytes f)"

definition put_append_bytes :: "nat \<Rightarrow> u8 list \<Rightarrow> file_object \<Rightarrow> file_object" where
  "put_append_bytes k bs f = f\<lparr>fo_append_bytes := take k (fo_append_bytes f) @ bs @ drop (k + length bs) (fo_append_bytes f)\<rparr>"

definition AppendFile_buffered ::
  "'h drivers \<Rightarrow> cmos_date_time \<Rightarrow> file_object \<Rightarrow> u8 list \<Rightarrow> 'h ifs1 \<Rightarrow> (bool \<times> file_object \<times> 'h ifs1) option" where
  "AppendFile_buffered drv dt f buffer s =
     (let len = (of_nat (length buffer) :: u32) in
      if len = 0 \<or> fo_mode f AND FILE_MODE_APPEND = 0 \<or> flen f + len > MAX_FILE_LEN then Some (False, f, s)
      else if fo_append_count f + len > DATA_LEN then do {
        (ok, f, s) \<leftarrow>
          (if fo_append_count f \<noteq> 0 then AppendFile_plain drv dt f (append_buffered_bytes f) s else Some (True, f, s));
        if \<not> ok then Some (False, f, s)
        else if len > DATA_LEN then do {
          (ok, f, s) \<leftarrow> AppendFile_plain drv dt f buffer s;
          if \<not> ok then Some (False, f, s) else Some (True, f\<lparr>fo_append_count := 0\<rparr>, s) }
        else Some (True, (put_append_bytes 0 buffer f)\<lparr>fo_append_count := len\<rparr>, s) }
      else Some (True, (put_append_bytes (unat (fo_append_count f)) buffer f)\<lparr>fo_append_count := fo_append_count f + len\<rparr>, s))"

definition Ifs1AppendFile ::
  "'h drivers \<Rightarrow> cmos_date_time \<Rightarrow> file_object \<Rightarrow> u8 list \<Rightarrow> 'h ifs1 \<Rightarrow> (bool \<times> file_object \<times> 'h ifs1) option" where
  "Ifs1AppendFile drv dt f buffer s =
     (if append_buffer_on s then AppendFile_buffered drv dt f buffer s else AppendFile_plain drv dt f buffer s)"

section \<open>Closing\<close>

text \<open>When the buffered bytes cannot be appended the file stays open, and locked on the disk.\<close>

definition Ifs1CloseFile ::
  "'h drivers \<Rightarrow> cmos_date_time \<Rightarrow> file_object option \<Rightarrow> 'h ifs1 \<Rightarrow> (bool \<times> file_object option \<times> 'h ifs1) option" where
  "Ifs1CloseFile drv dt fptr s =
     (case fptr of
        None \<Rightarrow> Some (False, None, s)
      | Some f \<Rightarrow> do {
          let f = f\<lparr>fo_file_block := (fo_file_block f)\<lparr>fb_lock := 0\<rparr>\<rparr>;
          (ok, f, s) \<leftarrow>
            (if append_buffer_on s \<and> fo_append_buffer_was_enabled f \<and> fo_append_count f \<noteq> 0 then do {
               (ok, f, s) \<leftarrow> AppendFile_plain drv dt f (append_buffered_bytes f) s;
               Some (ok, if ok then f\<lparr>fo_append_count := 0\<rparr> else f, s) }
             else Some (True, f, s));
          if \<not> ok then Some (False, Some f, s)
          else do {
            (r, s) \<leftarrow> set_file_block drv f s;
            Some (r, None, mem_free (Some (fo_addr f)) (mem_free (Some (fo_block_addr f)) s)) } })"

section \<open>Copying\<close>

function copy_loop ::
  "'h drivers \<Rightarrow> cmos_date_time \<Rightarrow> nat \<Rightarrow> u8 list \<Rightarrow> file_object \<Rightarrow> file_object \<Rightarrow> 'h ifs1 \<Rightarrow>
     (bool \<times> file_object \<times> file_object \<times> 'h ifs1) option" where
  "copy_loop drv dt len buffer src dst s =
     (if len > 0 then
        let copy_len = (if len \<ge> 1024 then 1024 else len) in
        case Ifs1ReadFile drv src (of_nat copy_len) s of
          None \<Rightarrow> None
        | Some (bs, src, s) \<Rightarrow>
            if bs = [] then Some (False, src, dst, s)
            else
              let buffer = bs @ drop (length bs) buffer in
              case Ifs1AppendFile drv dt dst (take copy_len buffer) s of
                None \<Rightarrow> None
              | Some (ok, dst, s) \<Rightarrow> if ok then copy_loop drv dt (len - copy_len) buffer src dst s else Some (False, src, dst, s)
      else Some (True, src, dst, s))"
  by pat_completeness auto
termination
  by (relation "measure (\<lambda>(drv, dt, len, buffer, src, dst, s). len)") auto

declare copy_loop.simps [simp del]

definition Ifs1CopyFile ::
  "nat \<Rightarrow> 'h drivers \<Rightarrow> cmos_date_time \<Rightarrow> string \<Rightarrow> string \<Rightarrow> string \<Rightarrow> 'h ifs1 \<Rightarrow> (bool \<times> 'h ifs1) option" where
  "Ifs1CopyFile n drv dt src_path dst_path dst_name s = do {
     let temp = cat MAX_PATH_BUFFER_LEN (clip MAX_PATH_BUFFER_LEN dst_path) dst_name;
     (e, s) \<leftarrow> Ifs1Exists n drv src_path s;
     if \<not> e then Some (False, s) else do {
     (e, s) \<leftarrow> Ifs1Exists n drv temp s;
     if e then Some (False, s) else do {
     (r, s) \<leftarrow> Ifs1CreateFile n drv dt (Some dst_path) (Some dst_name) s;
     if \<not> r then Some (False, s) else do {
     (src, s) \<leftarrow> Ifs1OpenFile n drv (Some src_path) FILE_MODE_READ s;
     (case src of
        None \<Rightarrow> Some (False, s)
      | Some src \<Rightarrow> do {
          (dst, s) \<leftarrow> Ifs1OpenFile n drv (Some temp) FILE_MODE_APPEND s;
          (case dst of
             None \<Rightarrow> do {
               (_, _, s) \<leftarrow> Ifs1CloseFile drv dt (Some src) s;
               Some (False, s) }
           | Some dst \<Rightarrow> do {
               (ok, src, dst, s) \<leftarrow> copy_loop drv dt (unat (flen src)) (map (stk s) [0..<1024]) src dst s;
               (_, _, s) \<leftarrow> Ifs1CloseFile drv dt (Some src) s;
               (_, _, s) \<leftarrow> Ifs1CloseFile drv dt (Some dst) s;
               Some (ok, s) }) }) } } } }"

section \<open>Repairing\<close>

text \<open>The lock of every file below a directory is removed.  \<open>path\<close> is \<open>repairing_path\<close>, and \<open>out\<close> the paths
  reported, with whether the file could be unlocked; \<open>d\<close> bounds the depth of the directories.\<close>

type_synonym repair = "string \<times> (string \<times> bool) list"

fun repair_loop ::
  "(buf \<Rightarrow> repair \<times> 'h ifs1 \<Rightarrow> (bool \<times> repair \<times> 'h ifs1) option) \<Rightarrow> 'h drivers \<Rightarrow> string \<Rightarrow> buf \<Rightarrow> nat \<Rightarrow> nat \<Rightarrow> bool \<Rightarrow>
     repair \<times> 'h ifs1 \<Rightarrow> (bool \<times> repair \<times> 'h ifs1) option" where
  "repair_loop rec drv symb dir ui 0 r st = Some (r, st)"
| "repair_loop rec drv symb dir ui (Suc n) r ((path, out), s) =
     (let i = blockid dir ui in
      if i = INVALID_BLOCK_ID then repair_loop rec drv symb dir (Suc ui) n r ((path, out), s)
      else do {
        (ok, b, s) \<leftarrow> get_local drv (Some symb) i s;
        if \<not> ok \<or> raw_used b = 0 then repair_loop rec drv symb dir (Suc ui) n False ((path, out), s)
        else if raw_type b = BLOCK_TYPE_FILE then
          (if rd32 b FILE_LOCK_OFFSET \<noteq> 0 then do {
             nm \<leftarrow> file_name b;
             let temp_path = cat MAX_PATH_BUFFER_LEN (clip MAX_PATH_BUFFER_LEN path) nm;
             (w, s) \<leftarrow> Ifs1SetBlock drv (Some symb) i (Some (wr32 FILE_LOCK_OFFSET 0 b)) s;
             repair_loop rec drv symb dir (Suc ui) n r ((path, out @ [(temp_path, w)]), s) }
           else repair_loop rec drv symb dir (Suc ui) n r ((path, out), s))
        else if raw_type b = BLOCK_TYPE_DIR then do {
          (ok, st) \<leftarrow> rec b ((path, out), s);
          repair_loop rec drv symb dir (Suc ui) n (if ok then r else False) st }
        else repair_loop rec drv symb dir (Suc ui) n False ((path, out), s) })"

fun Ifs1RepairFiles ::
  "nat \<Rightarrow> 'h drivers \<Rightarrow> string \<Rightarrow> buf \<Rightarrow> repair \<times> 'h ifs1 \<Rightarrow> (bool \<times> repair \<times> 'h ifs1) option" where
  "Ifs1RepairFiles 0 drv symb dir st = None"
| "Ifs1RepairFiles (Suc d) drv symb dir st = do {
     nm \<leftarrow> dir_name dir;
     let ((path, out), s) = st;
     let path = (if nm \<noteq> ''/'' then cat MAX_PATH_BUFFER_LEN (cat MAX_PATH_BUFFER_LEN path nm) ''/'' else path);
     (r, (path, out), s) \<leftarrow> repair_loop (Ifs1RepairFiles d drv symb) drv symb dir 0 DIR_BLOCK_ID_COUNT True ((path, out), s);
     if length path \<ge> length nm + 1 then Some (r, (take (length path - length nm - 1) path, out), s)
     else None }"

definition Ifs1Repair :: "nat \<Rightarrow> 'h drivers \<Rightarrow> string \<Rightarrow> 'h ifs1 \<Rightarrow> (bool \<times> repair \<times> 'h ifs1) option" where
  "Ifs1Repair d drv symb s = do {
     (dir, s) \<leftarrow> read_typed drv (Some symb) START_BLOCK_ID BLOCK_TYPE_DIR s;
     (case dir of
        None \<Rightarrow> Some (False, ([], []), s)
      | Some b \<Rightarrow> Ifs1RepairFiles d drv symb b ((cat MAX_PATH_BUFFER_LEN (clip MAX_PATH_BUFFER_LEN symb) '':/'', []), s)) }"

section \<open>Start-up\<close>

text \<open>\<open>Ifs1Init\<close> has no \<open>return\<close>, so it has no value here.  The parameter \<open>config\<close> is what
  \<open>config_system_ifs1_get_bool\<close> finds under a name: without a boolean there the variable keeps
  its value.\<close>

definition Ifs1Init :: "(string \<Rightarrow> bool option) \<Rightarrow> 'h ifs1 \<Rightarrow> 'h ifs1" where
  "Ifs1Init config s =
     s\<lparr>read_buffer_on := (case config ''EnableReadBuffer'' of None \<Rightarrow> read_buffer_on s | Some v \<Rightarrow> v),
       append_buffer_on := (case config ''EnableAppendBuffer'' of None \<Rightarrow> append_buffer_on s | Some v \<Rightarrow> v)\<rparr>"

end
