(* ===== verification/Ifs1_Files_Proofs.thy ===== *)
theory Ifs1_Files_Proofs
  imports Ifs1_Files
begin

text \<open>
  The contents of an open file of a RAM disk as a list of bytes: what reading, appending and
  writing do to it.  The two ways to get the next block into memory share a contract, the locale
  \<open>block_fetch\<close>, from which the loop over the bytes is proved once.
\<close>

section \<open>The contents of a file\<close>

abbreviation L :: nat where "L \<equiv> 65492"

lemma lens: "DATA_BLOCK_DATA_LEN = L" "unat DATA_LEN = L" "unat MAX_FILE_LEN = 1056254976" "DATA_OFFSET = 44"
  "FILE_BLOCK_ID_COUNT = 16128" "unat MAX_RW_OPTIMIZED_BYTES = 32768"
  by (simp_all add: DATA_BLOCK_DATA_LEN_def DATA_LEN_def MAX_FILE_LEN_def DATA_OFFSET_def FILE_BLOCK_ID_COUNT_def
      MAX_RW_OPTIMIZED_BYTES_def)

text \<open>Block \<open>i\<close> of the disk is data block \<open>k\<close> of a file with the contents \<open>xs\<close>.\<close>

definition data_at :: "(u32 \<Rightarrow> buf) \<Rightarrow> u32 \<Rightarrow> nat \<Rightarrow> u8 list \<Rightarrow> bool" where
  "data_at V i k xs \<longleftrightarrow> blk_id i \<and> block_used (V i) \<and>
     (\<forall>j < L. k * L + j < length xs \<longrightarrow> V i (44 + j) = xs ! (k * L + j)) \<and>
     rd32 (V i) 8 = of_nat (min L (length xs - k * L))"

definition fids :: "file_object \<Rightarrow> u32 list" where
  "fids f = fb_blockids (fo_file_block f)"

text \<open>The open file \<open>f\<close> has the contents \<open>xs\<close>: the entries of \<open>blockids\<close> up to its length lead to
  distinct data blocks, and the others to none.\<close>

definition contents :: "string \<Rightarrow> u32 \<Rightarrow> 'h disks \<Rightarrow> file_object \<Rightarrow> u8 list \<Rightarrow> bool" where
  "contents symb a d f xs \<longleftrightarrow>
     vd_at symb a d \<and> fo_symbol f = symb \<and> length (fids f) = 16128 \<and> unat (flen f) = length xs \<and> length xs \<le> 1056254976 \<and>
     (\<forall>k. k * L < length xs \<longrightarrow> data_at (vblock a d) (fids f ! k) k xs) \<and>
     (\<forall>k < 16128. length xs \<le> k * L \<longrightarrow> fids f ! k = INVALID_BLOCK_ID) \<and>
     (\<forall>j k. j < k \<and> k * L < length xs \<longrightarrow> fids f ! j \<noteq> fids f ! k)"

definition fpos :: "file_object \<Rightarrow> nat" where
  "fpos f = unat (fo_next_block_index f) * L + unat (fo_next_block_pos f)"

text \<open>Two states of a file that differ at most in the position and the read buffer.\<close>

definition same_file :: "file_object \<Rightarrow> file_object \<Rightarrow> bool" where
  "same_file f' f \<longleftrightarrow> fo_symbol f' = fo_symbol f \<and> fo_file_block f' = fo_file_block f \<and> fo_file_block_id f' = fo_file_block_id f \<and>
     fo_mode f' = fo_mode f \<and> fo_append_count f' = fo_append_count f \<and> fo_append_bytes f' = fo_append_bytes f"

lemma same_file_refl [simp]: "same_file f f"
  by (simp add: same_file_def)

lemma same_file_trans: "same_file h g \<Longrightarrow> same_file g f \<Longrightarrow> same_file h f"
  by (simp add: same_file_def)

lemma contents_cong:
  assumes "contents symb a d f xs" "same_file f' f" "kept d d'"
  shows "contents symb a d' f' xs"
proof -
  have "vd_at symb a d' = vd_at symb a d" "vblock a d' = vblock a d"
    using kept_at [OF assms(3)] by blast+
  then show ?thesis
    using assms(1,2) by (simp add: contents_def same_file_def fids_def)
qed

text \<open>Positions do not wrap.\<close>

lemma file_pos_unat:
  assumes "unat (fo_next_block_index f) \<le> 16128" "unat (fo_next_block_pos f) < L"
  shows "unat (file_pos f) = fpos f"
proof -
  have m: "unat (fo_next_block_index f * DATA_LEN) = unat (fo_next_block_index f) * L"
    using assms(1) by (subst unat_mult_lem [THEN iffD1]) (simp_all add: lens)
  then show ?thesis
    using assms by (simp add: file_pos_def fpos_def unat_plus_if_lt m)
qed

lemma copy_words_eq: "copy_words n b k = map b [k..<k + 4 * n]"
proof (induction n arbitrary: k)
  case (Suc n)
  have "map (byte32 (rd32 b k)) [0..<4] = map b [k..<k + 4]"
  proof (rule nth_equalityI)
    fix i assume "i < length (map (byte32 (rd32 b k)) [0..<4])"
    then show "map (byte32 (rd32 b k)) [0..<4] ! i = map b [k..<k + 4] ! i"
      using rd32_bytes [of b k "rd32 b k"] by simp
  qed simp
  moreover have "[k..<k + 4] @ [k + 4..<k + 4 + 4 * n] = [k..<k + 4 * Suc n]"
    using upt_add_eq_append [of k "k + 4" "4 * n"] by (simp add: algebra_simps)
  ultimately show ?case
    using Suc.IH [of "k + 4"] by (metis copy_words.simps(2) map_append)
qed simp

text \<open>What a round of the reading loop copies, and where it leaves the position.\<close>

lemma chunk_spec:
  assumes "unat (fo_next_block_pos f) < L" "unat (fo_next_block_index f) \<le> 16128" "fpos f < unat (flen f)" "0 < len"
    "unat (flen f) \<le> 1056254976"
  shows "\<exists>n. chunk len block f = Some (map block [44 + unat (fo_next_block_pos f)..<44 + unat (fo_next_block_pos f) + unat n], n) \<and>
    0 < unat n \<and> unat n \<le> len \<and> unat (fo_next_block_pos f) + unat n \<le> L \<and> fpos f + unat n \<le> unat (flen f)"
proof (cases "optimized len f")
  case False
  have "[44 + unat (fo_next_block_pos f)..<44 + unat (fo_next_block_pos f) + 1] = [44 + unat (fo_next_block_pos f)]"
    using upt_rec [of "44 + unat (fo_next_block_pos f)" "44 + unat (fo_next_block_pos f) + 1"] by simp
  then show ?thesis
    using False assms by (intro exI [of _ 1]) (simp add: chunk_def lens)
next
  case True
  let ?p = "unat (fo_next_block_pos f)"
  have p: "unat (fo_next_block_pos f + MAX_RW_OPTIMIZED_BYTES) = ?p + 32768"
    using assms(1) by (subst unat_plus_if_lt) (simp_all add: lens)
  then have "?p + 32768 \<le> L"
    using True by (simp add: optimized_def word_le_nat_alt lens)
  moreover have "fpos f + 32768 \<le> unat (flen f)"
  proof -
    have fp: "unat (file_pos f) = fpos f"
      using file_pos_unat assms(1,2) by simp
    have "unat (file_pos f + MAX_RW_OPTIMIZED_BYTES) = fpos f + 32768"
      using assms(3,5) fp by (subst unat_plus_if_lt) (simp_all add: lens)
    then have "unat (file_pos f + MAX_RW_OPTIMIZED_BYTES - 1) = fpos f + 32768 - 1"
      by (subst unat_minus_le) simp_all
    then show ?thesis
      using True by (simp add: optimized_def word_less_nat_alt)
  qed
  moreover have "copy_words (unat (MAX_RW_OPTIMIZED_BYTES div 4)) block (DATA_OFFSET + ?p) = map block [44 + ?p..<44 + ?p + 32768]"
    by (simp add: copy_words_eq MAX_RW_OPTIMIZED_BYTES_def lens)
  ultimately show ?thesis
    using True by (intro exI [of _ MAX_RW_OPTIMIZED_BYTES]) (simp add: chunk_def lens optimized_def)
qed

lemma advance_spec:
  assumes "unat (fo_next_block_pos f) + unat n \<le> L" "unat (fo_next_block_index f) \<le> 16128"
  shows "fpos (advance n f) = fpos f + unat n" "unat (fo_next_block_pos (advance n f)) < L" "same_file (advance n f) f"
    "unat (fo_next_block_index (advance n f)) = fpos (advance n f) div L"
    "fo_read_buffer (advance n f) = fo_read_buffer f" "fo_read_buffer_is_valid (advance n f) = fo_read_buffer_is_valid f"
    "fo_read_buffer_block_index (advance n f) = fo_read_buffer_block_index f"
proof -
  let ?q = "fo_next_block_pos f + n"
  have q: "unat ?q = unat (fo_next_block_pos f) + unat n"
    using assms(1) by (subst unat_plus_if_lt) simp_all
  have i: "unat (fo_next_block_index f + 1) = unat (fo_next_block_index f) + 1"
    using assms(2) by (subst unat_plus_if_lt) simp_all
  have e: "?q = DATA_LEN \<longleftrightarrow> unat ?q = L"
    by (simp add: word_unat_eq_iff lens(2) [symmetric])
  show "fpos (advance n f) = fpos f + unat n"
    using q i e by (auto simp: advance_def fpos_def Let_def)
  show p: "unat (fo_next_block_pos (advance n f)) < L"
    using q e assms(1) by (auto simp: advance_def Let_def)
  show "unat (fo_next_block_index (advance n f)) = fpos (advance n f) div L"
    using p by (simp add: fpos_def)
  show "same_file (advance n f) f" "fo_read_buffer (advance n f) = fo_read_buffer f"
    "fo_read_buffer_is_valid (advance n f) = fo_read_buffer_is_valid f"
    "fo_read_buffer_block_index (advance n f) = fo_read_buffer_block_index f"
    by (simp_all add: advance_def same_file_def Let_def)
qed

section \<open>Reading\<close>

text \<open>Getting a block into memory: it is the block of the disk, and nothing but the read buffer and
  the counters of the disk layer changes.  \<open>ok\<close> is what has to hold of the read buffer.\<close>

locale block_fetch =
  fixes fetch :: "'h fetch" and ok :: "'h ifs1 \<Rightarrow> file_object \<Rightarrow> bool" and symb :: string and a :: u32
  assumes fetch_block:
      "vd_at symb a (dk s) \<Longrightarrow> fo_symbol f = symb \<Longrightarrow> ok s f \<Longrightarrow> blk_id i \<Longrightarrow>
       \<exists>b f' d. fetch i block f s = Some (True, b, f', s\<lparr>dk := d\<rparr>) \<and> same_bytes b (vblock a (dk s) i) \<and> same_file f' f \<and>
         fo_next_block_index f' = fo_next_block_index f \<and> fo_next_block_pos f' = fo_next_block_pos f \<and>
         kept (dk s) d \<and> ok (s\<lparr>dk := d\<rparr>) f'"
    and advance_ok: "ok s f \<Longrightarrow> ok s (advance n f)"
begin

lemma read_step:
  assumes c: "contents symb a (dk s) f xs" and "ok s f" "fpos f < length xs" "unat (fo_next_block_pos f) < L"
    "bi = fo_next_block_index f \<Longrightarrow> same_bytes block (vblock a (dk s) (fids f ! unat bi))"
  shows "\<exists>b g d. (if bi \<noteq> fo_next_block_index f
      then case get_id f (fo_next_block_index f) of None \<Rightarrow> None | Some i \<Rightarrow> fetch i block f s
      else Some (True, block, f, s)) = Some (True, b, g, s\<lparr>dk := d\<rparr>) \<and>
    same_bytes b (vblock a (dk s) (fids f ! unat (fo_next_block_index f))) \<and> same_file g f \<and>
    fo_next_block_index g = fo_next_block_index f \<and> fo_next_block_pos g = fo_next_block_pos f \<and> kept (dk s) d \<and> ok (s\<lparr>dk := d\<rparr>) g"
proof (cases "bi = fo_next_block_index f")
  case True
  then show ?thesis
    using assms(2,5) kept_refl [of "dk s"] by (intro exI [of _ block] exI [of _ f] exI [of _ "dk s"]) simp
next
  case False
  let ?k = "unat (fo_next_block_index f)"
  have k: "?k * L < length xs"
    using assms(3) by (simp add: fpos_def)
  then have "?k < 16128" "blk_id (fids f ! ?k)"
    using c by (auto simp: contents_def data_at_def)
  moreover have "vd_at symb a (dk s)" "fo_symbol f = symb"
    using c by (simp_all add: contents_def)
  ultimately show ?thesis
    using fetch_block [of s f "fids f ! ?k" block] assms(2) False by (simp add: get_id_def lens fids_def)
qed

lemma read_loop_spec:
  assumes "contents symb a (dk s) f xs" "ok s f" "fpos f \<le> length xs" "unat (fo_next_block_pos f) < L"
    "bi = fo_next_block_index f \<Longrightarrow> fpos f < length xs \<Longrightarrow> same_bytes block (vblock a (dk s) (fids f ! unat bi))"
  shows "\<exists>f' d. read_loop fetch len bi block f out s = Some (out @ take len (drop (fpos f) xs), f', s\<lparr>dk := d\<rparr>) \<and>
    same_file f' f \<and> fpos f' = fpos f + min len (length xs - fpos f) \<and> unat (fo_next_block_pos f') < L \<and>
    kept (dk s) d \<and> ok (s\<lparr>dk := d\<rparr>) f'"
  using assms
proof (induction len arbitrary: bi block f out s rule: less_induct)
  case (less len)
  note c = less.prems(1)
  have len: "length xs \<le> 1056254976" "unat (flen f) = length xs"
    using c by (simp_all add: contents_def)
  have idx: "unat (fo_next_block_index f) \<le> 16128"
    using less.prems(3) len by (simp add: fpos_def)
  have cond: "file_pos f < flen f \<longleftrightarrow> fpos f < length xs"
    using file_pos_unat [OF idx less.prems(4)] len by (simp add: word_less_nat_alt)
  show ?case
  proof (cases "0 < len \<and> fpos f < length xs")
    case False
    then have "read_loop fetch len bi block f out s = Some (out @ take len (drop (fpos f) xs), f, s\<lparr>dk := dk s\<rparr>)"
      using cond by (subst read_loop.simps) auto
    moreover have "fpos f = fpos f + min len (length xs - fpos f)"
      using False by auto
    ultimately show ?thesis
      using less.prems(2,4) kept_refl [of "dk s"] by (intro exI [of _ f] exI [of _ "dk s"]) simp
  next
    case True
    let ?k = "unat (fo_next_block_index f)" and ?p = "unat (fo_next_block_pos f)"
    obtain b g d where b: "(if bi \<noteq> fo_next_block_index f
        then case get_id f (fo_next_block_index f) of None \<Rightarrow> None | Some i \<Rightarrow> fetch i block f s
        else Some (True, block, f, s)) = Some (True, b, g, s\<lparr>dk := d\<rparr>)"
      "same_bytes b (vblock a (dk s) (fids f ! ?k))" "same_file g f"
      "fo_next_block_index g = fo_next_block_index f" "fo_next_block_pos g = fo_next_block_pos f" "kept (dk s) d" "ok (s\<lparr>dk := d\<rparr>) g"
      using read_step [OF c less.prems(2) _ less.prems(4), of bi block] True less.prems(5) by blast
    have g: "fpos g = fpos f" "flen g = flen f" "fids g = fids f"
      using b(3-5) by (simp_all add: fpos_def same_file_def fids_def)
    obtain n where n: "chunk len b g = Some (map b [44 + ?p..<44 + ?p + unat n], n)" "0 < unat n" "unat n \<le> len" "?p + unat n \<le> L"
      "fpos f + unat n \<le> length xs"
      using chunk_spec [of g len b] less.prems(4) idx True b(4,5) g len by auto
    let ?f = "advance n g" and ?s = "s\<lparr>dk := d\<rparr>"
    have adv: "fpos ?f = fpos f + unat n" "unat (fo_next_block_pos ?f) < L" "same_file ?f f"
      "unat (fo_next_block_index ?f) = (fpos f + unat n) div L"
      using advance_spec [of g n] n(4) b(3,4,5) idx g(1) same_file_trans [of ?f g f] by auto
    have bytes: "map b [44 + ?p..<44 + ?p + unat n] = take (unat n) (drop (fpos f) xs)"
    proof (rule nth_equalityI)
      fix j assume "j < length (map b [44 + ?p..<44 + ?p + unat n])"
      then have j: "j < unat n"
        by simp
      have kL: "?k * L < length xs"
        using True by (simp add: fpos_def)
      have "b (44 + (?p + j)) = vblock a (dk s) (fids f ! ?k) (44 + (?p + j))"
        using b(2) j n(4) by (simp add: same_bytes_def)
      also have "\<dots> = xs ! (?k * L + (?p + j))"
        using c kL j n(4,5) by (auto simp: contents_def data_at_def fpos_def)
      finally show "map b [44 + ?p..<44 + ?p + unat n] ! j = take (unat n) (drop (fpos f) xs) ! j"
        using j n(5) by (simp add: fpos_def add.assoc)
    qed (use n(5) in auto)
    have c': "contents symb a (dk ?s) ?f xs"
      using contents_cong [OF c adv(3) b(6)] by simp
    have st: "same_bytes b (vblock a (dk ?s) (fids ?f ! unat (fo_next_block_index f)))"
      if "fo_next_block_index f = fo_next_block_index ?f"
      using b(2) kept_at(2) [OF b(6), of a] adv(3) by (simp add: fids_def same_file_def)
    obtain f' e where f': "read_loop fetch (len - unat n) (fo_next_block_index f) b ?f (out @ map b [44 + ?p..<44 + ?p + unat n]) ?s =
        Some (out @ map b [44 + ?p..<44 + ?p + unat n] @ take (len - unat n) (drop (fpos ?f) xs), f', ?s\<lparr>dk := e\<rparr>)"
      "same_file f' ?f" "fpos f' = fpos ?f + min (len - unat n) (length xs - fpos ?f)" "unat (fo_next_block_pos f') < L"
      "kept d e" "ok (?s\<lparr>dk := e\<rparr>) f'"
      using less.IH [of "len - unat n" ?s ?f "fo_next_block_index f" b "out @ map b [44 + ?p..<44 + ?p + unat n]", OF _ c'
          advance_ok [OF b(7)] _ adv(2)] st n(2,3,5) adv(1) True by auto
    have "read_loop fetch len bi block f out s =
        read_loop fetch (len - unat n) (fo_next_block_index f) b ?f (out @ map b [44 + ?p..<44 + ?p + unat n]) ?s"
      using True cond b(1,4) n(1) by (subst read_loop.simps) simp
    moreover have "map b [44 + ?p..<44 + ?p + unat n] @ take (len - unat n) (drop (fpos ?f) xs) = take len (drop (fpos f) xs)"
      unfolding bytes adv(1) using n(3) take_add [of "unat n" "len - unat n" "drop (fpos f) xs"] by (simp add: add.commute)
    ultimately show ?thesis
      using f' kept_trans [OF b(6) f'(5)] same_file_trans [OF f'(2) adv(3)] n(3,5) adv(1)
      by (intro exI [of _ f'] exI [of _ e]) auto
  qed
qed

lemma read_file_spec:
  assumes "contents symb a (dk s) f xs" "ok s f" "fpos f < length xs" "unat (fo_next_block_pos f) < L"
    "fo_mode f AND FILE_MODE_READ \<noteq> 0" "len \<noteq> 0"
  shows "\<exists>f' d. read_file fetch f len s = Some (take (unat len) (drop (fpos f) xs), f', s\<lparr>dk := d\<rparr>) \<and>
    same_file f' f \<and> fpos f' = fpos f + min (unat len) (length xs - fpos f) \<and> unat (fo_next_block_pos f') < L \<and>
    kept (dk s) d \<and> ok (s\<lparr>dk := d\<rparr>) f'"
proof -
  note c = assms(1)
  let ?k = "unat (fo_next_block_index f)"
  have "?k * L < length xs"
    using assms(3) by (simp add: fpos_def)
  then have k: "?k < 16128" "blk_id (fids f ! ?k)" "vd_at symb a (dk s)" "fo_symbol f = symb"
    using c by (auto simp: contents_def data_at_def)
  obtain b g d where b: "fetch (fids f ! ?k) (stk s) f s = Some (True, b, g, s\<lparr>dk := d\<rparr>)" "same_bytes b (vblock a (dk s) (fids f ! ?k))"
    "same_file g f" "fo_next_block_index g = fo_next_block_index f" "fo_next_block_pos g = fo_next_block_pos f" "kept (dk s) d"
    "ok (s\<lparr>dk := d\<rparr>) g"
    using fetch_block [OF k(3,4) assms(2) k(2)] by blast
  have g: "fpos g = fpos f" "fids g = fids f"
    using b(3-5) by (simp_all add: fpos_def fids_def same_file_def)
  have "contents symb a (dk (s\<lparr>dk := d\<rparr>)) g xs"
    using contents_cong [OF c b(3,6)] by simp
  moreover have "same_bytes b (vblock a (dk (s\<lparr>dk := d\<rparr>)) (fids g ! unat (fo_next_block_index g)))"
    using b(2,4) g(2) kept_at(2) [OF b(6), of a] by simp
  ultimately obtain f' e where "read_loop fetch (unat len) (fo_next_block_index g) b g [] (s\<lparr>dk := d\<rparr>) =
      Some (take (unat len) (drop (fpos f) xs), f', s\<lparr>dk := e\<rparr>)" "same_file f' g"
    "fpos f' = fpos f + min (unat len) (length xs - fpos f)" "unat (fo_next_block_pos f') < L" "kept d e" "ok (s\<lparr>dk := e\<rparr>) f'"
    using read_loop_spec [of "s\<lparr>dk := d\<rparr>" g xs "fo_next_block_index g" b "unat len" "[]"] b(5,7) assms(3,4) g(1) by auto
  then show ?thesis
    using assms(5,6) b(1,3,4,6) k(1) same_file_trans kept_trans
    by (intro exI [of _ f'] exI [of _ e]) (auto simp: read_file_def get_id_def lens fids_def [symmetric])
qed

end

text \<open>The read buffer, when it is valid, holds the block it is said to hold.\<close>

definition buffer_ok :: "u32 \<Rightarrow> 'h ifs1 \<Rightarrow> file_object \<Rightarrow> bool" where
  "buffer_ok a s f \<longleftrightarrow> (fo_read_buffer_is_valid f \<longrightarrow> same_bytes (fo_read_buffer f) (vblock a (dk s) (fo_read_buffer_block_index f)))"

lemma advance_buffer: "fo_read_buffer (advance n f) = fo_read_buffer f" "fo_read_buffer_is_valid (advance n f) = fo_read_buffer_is_valid f"
    "fo_read_buffer_block_index (advance n f) = fo_read_buffer_block_index f"
  by (simp_all add: advance_def Let_def)

interpretation local_block: block_fetch "fetch_local drv" "\<lambda>_ _. True" symb a
proof
  fix s :: "'a ifs1" and f :: file_object and i block
  assume v: "vd_at symb a (dk s)" "fo_symbol f = symb" "blk_id i"
  obtain d b where "Ifs1GetBlock drv (Some symb) i (Some block) s = Some (True, Some b, s\<lparr>dk := d\<rparr>)"
    "same_bytes b (vblock a (dk s) i)" "same_disks d (dk s)" "vd_ram d = vd_ram (dk s)"
    using get_block [OF v(1,3)] by blast
  then show "\<exists>b f' d. fetch_local drv i block f s = Some (True, b, f', s\<lparr>dk := d\<rparr>) \<and> same_bytes b (vblock a (dk s) i) \<and> same_file f' f \<and>
      fo_next_block_index f' = fo_next_block_index f \<and> fo_next_block_pos f' = fo_next_block_pos f \<and> kept (dk s) d \<and> True"
    using v(2) by (intro exI [of _ b] exI [of _ f] exI [of _ d]) (simp add: fetch_local_def kept_def)
qed simp

interpretation read_buffer: block_fetch "fetch_buffered drv" "buffer_ok a" symb a
proof
  fix s :: "'a ifs1" and f :: file_object and i block
  assume v: "vd_at symb a (dk s)" "fo_symbol f = symb" "buffer_ok a s f" "blk_id i"
  show "\<exists>b f' d. fetch_buffered drv i block f s = Some (True, b, f', s\<lparr>dk := d\<rparr>) \<and> same_bytes b (vblock a (dk s) i) \<and> same_file f' f \<and>
      fo_next_block_index f' = fo_next_block_index f \<and> fo_next_block_pos f' = fo_next_block_pos f \<and> kept (dk s) d \<and>
      buffer_ok a (s\<lparr>dk := d\<rparr>) f'"
  proof (cases "fo_read_buffer_is_valid f \<and> fo_read_buffer_block_index f = i")
    case True
    then show ?thesis
      using v(3) kept_refl [of "dk s"]
      by (intro exI [of _ "fo_read_buffer f"] exI [of _ f] exI [of _ "dk s"]) (simp add: fetch_buffered_def buffer_ok_def)
  next
    case False
    obtain d b where "Ifs1GetBlock drv (Some symb) i (Some (fo_read_buffer f)) s = Some (True, Some b, s\<lparr>dk := d\<rparr>)"
      "same_bytes b (vblock a (dk s) i)" "kept (dk s) d"
      using get_block [OF v(1,4)] unfolding kept_def by blast
    then show ?thesis
      using v(2) False kept_at(2) [of "dk s" d a]
      by (intro exI [of _ b] exI [of _ "f\<lparr>fo_read_buffer := b, fo_read_buffer_block_index := i, fo_read_buffer_is_valid := True\<rparr>"] exI [of _ d])
        (simp add: fetch_buffered_def buffer_ok_def same_file_def)
  qed
next
  fix s :: "'a ifs1" and f :: file_object and n
  assume "buffer_ok a s f"
  then show "buffer_ok a s (advance n f)"
    by (simp add: buffer_ok_def advance_buffer)
qed

end
