(* ===== verification/Ifs1_Append_Proofs.thy ===== *)
theory Ifs1_Append_Proofs
  imports Ifs1_Files_Proofs
begin

text \<open>
  Appending to a file of a RAM disk: the invariant of the loop over the bytes, and from it that the
  contents of the file become the old ones followed by the buffer.
\<close>

section \<open>Blocks in memory\<close>

lemma block_used_rd32: "block_used b \<longleftrightarrow> rd32 b 0 \<noteq> 0"
  by (simp add: block_used_def rd32_bytes byte32_def eval_nat_numeral less_Suc_eq all_conj_distrib)

text \<open>The block holds part \<open>k\<close> of a file with the contents \<open>xs\<close>.\<close>

definition block_has :: "buf \<Rightarrow> nat \<Rightarrow> u8 list \<Rightarrow> bool" where
  "block_has b k xs \<longleftrightarrow> block_used b \<and> rd32 b 8 = of_nat (min L (length xs - k * L)) \<and>
     (\<forall>j < L. k * L + j < length xs \<longrightarrow> b (44 + j) = xs ! (k * L + j))"

lemma data_at_has: "data_at V i k xs \<longleftrightarrow> blk_id i \<and> block_has (V i) k xs"
  by (auto simp: data_at_def block_has_def)

lemma block_has_cong:
  assumes "same_bytes b c"
  shows "block_has b k xs = block_has c k xs"
proof -
  have "rd32 b 8 = rd32 c 8"
    using assms by (intro rd32_cong) (simp add: same_bytes_def)
  moreover have "\<forall>j < L. b (44 + j) = c (44 + j)"
    using assms by (simp add: same_bytes_def)
  ultimately show ?thesis
    using block_used_cong [OF assms] by (simp add: block_has_def)
qed

lemma block_has_vtrunc: "block_has (vtrunc b) k xs = block_has b k xs"
  by (rule block_has_cong) (simp add: same_bytes_def vtrunc_def)

lemma wr32_data: "p + 4 \<le> 44 \<Longrightarrow> wr32 p v b (44 + j) = b (44 + j)"
  by (simp add: wr32_def)

text \<open>A full block makes room for the next one.\<close>

lemma block_has_next:
  assumes "block_used b" "length xs \<le> k * L"
  shows "block_has (wr32 8 0 b) k xs"
  using assms by (auto simp: block_has_def block_used_rd32)

lemma block_has_mark:
  assumes "block_has b k xs"
  shows "block_has (wr32 0 1 (wr32 4 t b)) k xs"
  using assms by (auto simp: block_has_def block_used_rd32 wr32_data)

lemma block_has_more:
  assumes "block_has b k xs" "(k + 1) * L \<le> length xs"
  shows "block_has b k (xs @ ys)"
proof -
  have "min L (length (xs @ ys) - k * L) = min L (length xs - k * L)"
    using assms(2) by auto
  then show ?thesis
    using assms by (auto simp: block_has_def nth_append)
qed

lemma block_has_put:
  assumes "block_has b k xs" "k * L \<le> length xs" "length xs < (k + 1) * L"
  shows "block_has (wr32 8 (rd32 (b(44 + (length xs - k * L) := x)) 8 + 1) (b(44 + (length xs - k * L) := x))) k (xs @ [x])"
    "rd32 (b(44 + (length xs - k * L) := x)) 8 + 1 = of_nat (length xs + 1 - k * L)"
proof -
  let ?p = "length xs - k * L" and ?b = "b(44 + (length xs - k * L) := x)"
  have p: "?p < L" "min L ?p = ?p" "length xs + 1 - k * L = ?p + 1" "min L (length (xs @ [x]) - k * L) = ?p + 1"
    using assms(2,3) by auto
  have r: "rd32 ?b 8 = of_nat ?p" "rd32 ?b 0 = rd32 b 0"
    using assms(1) p(2) rd32_cong [of ?b 8 b] rd32_cong [of ?b 0 b] by (auto simp: block_has_def)
  show len: "rd32 ?b 8 + 1 = of_nat (length xs + 1 - k * L)"
    unfolding r(1) p(3) by simp
  have "?b (44 + j) = (xs @ [x]) ! (k * L + j)" if "j < L" "k * L + j < length xs + 1" for j
    using assms(1,2) that by (cases "k * L + j = length xs") (auto simp: block_has_def nth_append)
  then show "block_has (wr32 8 (rd32 ?b 8 + 1) ?b) k (xs @ [x])"
    using assms(1) r p(3,4) unfolding len by (auto simp: block_has_def block_used_rd32 wr32_data)
qed

section \<open>The invariant of the loop\<close>

text \<open>Two states of a file that differ at most in \<open>blockids\<close>.\<close>

definition app_same :: "file_object \<Rightarrow> file_object \<Rightarrow> bool" where
  "app_same f' f \<longleftrightarrow> fo_mode f' = fo_mode f \<and> fo_file_block_id f' = fo_file_block_id f \<and> fo_append_count f' = fo_append_count f \<and>
     fo_append_bytes f' = fo_append_bytes f \<and> (\<exists>ids. fo_file_block f' = (fo_file_block f)\<lparr>fb_blockids := ids\<rparr>)"

lemma app_same_refl [simp]: "app_same f f"
  unfolding app_same_def by (auto intro: exI [of _ "fb_blockids (fo_file_block f)"])

lemma app_same_trans: "app_same h g \<Longrightarrow> app_same g f \<Longrightarrow> app_same h f"
  by (auto simp: app_same_def)

text \<open>\<open>N\<close> is the length of the file, \<open>zs\<close> its contents with the bytes put so far, \<open>bi\<close> the index of the
  block being filled, and \<open>K\<close> are blocks in use that do not belong to the file.\<close>

definition app_base ::
  "string \<Rightarrow> u32 \<Rightarrow> (u32 \<Rightarrow> buf) \<Rightarrow> u32 set \<Rightarrow> nat \<Rightarrow> u8 list \<Rightarrow> nat \<Rightarrow> file_object \<Rightarrow> 'h ifs1 \<Rightarrow> bool" where
  "app_base symb a V K N zs bi f s \<longleftrightarrow>
     (\<exists>ps ids. bat_inv symb a ps ids s) \<and> fo_symbol f = symb \<and> length (fids f) = 16128 \<and> unat (flen f) = N \<and> bi < 16128 \<and>
     (\<forall>j \<in> K. vblock a (dk s) j = V j \<and> block_used (V j) \<and> j \<notin> set (fids f)) \<and>
     (\<forall>k < bi. data_at (vblock a (dk s)) (fids f ! k) k zs) \<and>
     (\<forall>k < bi. \<forall>j < k. fids f ! j \<noteq> fids f ! k) \<and>
     (\<forall>k < 16128. bi < k \<longrightarrow> fids f ! k = INVALID_BLOCK_ID)"

definition app_core ::
  "string \<Rightarrow> u32 \<Rightarrow> (u32 \<Rightarrow> buf) \<Rightarrow> u32 set \<Rightarrow> nat \<Rightarrow> u8 list \<Rightarrow> nat \<Rightarrow> app \<Rightarrow> file_object \<Rightarrow> 'h ifs1 \<Rightarrow> bool" where
  "app_core symb a V K N zs bi ap f s \<longleftrightarrow>
     app_base symb a V K N zs bi f s \<and>
     length zs \<le> 1056254976 \<and> N div L \<le> bi \<and> bi * L \<le> length zs \<and> length zs \<le> (bi + 1) * L \<and>
     unat (ap_block_index ap) = bi \<and> unat (ap_block_pos ap) = length zs - bi * L \<and> block_has (ap_block ap) bi zs \<and>
     (if bi * L \<le> N then blk_id (fids f ! bi) \<and> block_used (vblock a (dk s) (fids f ! bi)) \<and> (\<forall>j < bi. fids f ! j \<noteq> fids f ! bi)
      else fids f ! bi = INVALID_BLOCK_ID)"

definition app_inv where
  "app_inv symb a V K N zs ap f s \<longleftrightarrow> (\<exists>bi. app_core symb a V K N zs bi ap f s \<and>
     ap_cblock_index ap = (if length zs = (bi + 1) * L then ap_block_index ap + 1 else ap_block_index ap) \<and>
     \<not> ap_is_save ap \<and> ap_is_next ap = (length zs = (bi + 1) * L) \<and> (N < length zs \<longrightarrow> bi * L < length zs))"

definition app_ready where
  "app_ready symb a V K N zs ap f s \<longleftrightarrow> (\<exists>bi. app_core symb a V K N zs bi ap f s \<and>
     ap_cblock_index ap = ap_block_index ap \<and> length zs < (bi + 1) * L)"

text \<open>What a return of FALSE leaves: a full disk.\<close>

definition app_full where
  "app_full symb a V K s \<longleftrightarrow> (\<exists>ps ids. bat_inv symb a ps ids s) \<and> (\<forall>j \<in> K. vblock a (dk s) j = V j) \<and>
     (\<forall>j. blk_id j \<longrightarrow> block_used (vblock a (dk s) j))"

lemma set_id_fids:
  assumes "unat k < 16128"
  shows "\<exists>f'. set_id k v f = Some f' \<and> fids f' = (fids f)[unat k := v] \<and> fo_symbol f' = fo_symbol f \<and> flen f' = flen f \<and>
    fo_mode f' = fo_mode f \<and> fo_file_block_id f' = fo_file_block_id f \<and> fo_append_count f' = fo_append_count f \<and>
    fo_append_bytes f' = fo_append_bytes f \<and>
    fo_file_block f' = (fo_file_block f)\<lparr>fb_blockids := (fids f)[unat k := v]\<rparr>"
  using assms by (simp add: set_id_def lens fids_def)

lemma append_put_step:
  assumes "app_ready symb a V K N zs ap f s" "length zs < 1056254976"
  shows "\<exists>ap'. append_put x ap = Some ap' \<and> app_inv symb a V K N (zs @ [x]) ap' f s"
proof -
  obtain bi where c: "app_core symb a V K N zs bi ap f s" and cb: "ap_cblock_index ap = ap_block_index ap" "length zs < (bi + 1) * L"
    using assms(1) by (auto simp: app_ready_def)
  let ?p = "length zs - bi * L"
  let ?b = "(ap_block ap)(44 + ?p := x)"
  let ?w = "wr32 8 (rd32 ?b 8 + 1) ?b"
  have p: "unat (ap_block_pos ap) = ?p" "?p < L" "bi * L \<le> length zs" "block_has (ap_block ap) bi zs"
    using c cb(2) by (auto simp: app_core_def app_base_def)
  note has = block_has_put [OF p(4,3) cb(2), of x]
  have full: "(rd32 ?w 8 = DATA_LEN) = (length (zs @ [x]) = (bi + 1) * L)"
  proof -
    have u: "unat (of_nat (length zs + 1 - bi * L) :: u32) = length zs + 1 - bi * L"
      using p(2,3) by (intro unat_of_nat32) simp
    have "rd32 ?w 8 = of_nat (length zs + 1 - bi * L)"
      using has(2) by simp
    then have "(rd32 ?w 8 = DATA_LEN) = (length zs + 1 - bi * L = L)"
      using u lens(2) by (metis word_unat_eq_iff)
    then show ?thesis
      using p(2,3) by auto
  qed
  obtain ap' where ap': "append_put x ap = Some ap'" "ap_block ap' = ?w" "ap_block_index ap' = ap_block_index ap"
    "ap_block_pos ap' = ap_block_pos ap + 1" "\<not> ap_is_save ap'" "ap_is_next ap' = (rd32 ?w 8 = DATA_LEN)"
    "ap_cblock_index ap' = (if rd32 ?w 8 = DATA_LEN then ap_cblock_index ap + 1 else ap_cblock_index ap)"
  proof -
    let ?ap = "ap\<lparr>ap_block := ?w, ap_block_pos := ap_block_pos ap + 1, ap_is_save := False, ap_is_next := (rd32 ?w 8 = DATA_LEN),
      ap_cblock_index := (if rd32 ?w 8 = DATA_LEN then ap_cblock_index ap + 1 else ap_cblock_index ap)\<rparr>"
    have "append_put x ap = Some ?ap"
      using p(1,2) by (simp add: append_put_def lens Let_def)
    from that [OF this] show ?thesis
      by simp
  qed
  have core: "app_core symb a V K N (zs @ [x]) bi ap' f s"
  proof -
    have pos: "unat (ap_block_pos ap + 1) = length (zs @ [x]) - bi * L"
      using p(1-3) by (subst unat_plus_if_lt) simp_all
    have "data_at (vblock a (dk s)) (fids f ! k) k (zs @ [x])" if "k < bi" for k
    proof -
      have "(k + 1) * L \<le> bi * L"
        using that by (intro mult_le_mono1) simp
      then have "(k + 1) * L \<le> length zs"
        using p(3) by linarith
      moreover have "data_at (vblock a (dk s)) (fids f ! k) k zs"
        using c that by (simp add: app_core_def app_base_def)
      ultimately show ?thesis
        using block_has_more unfolding data_at_has by blast
    qed
    then show ?thesis
      using c has(1) pos p(3) cb(2) assms(2) unfolding app_core_def app_base_def ap'(2-4) by simp
  qed
  have less: "bi * L < length (zs @ [x])"
    using p(3) by simp
  have "app_inv symb a V K N (zs @ [x]) ap' f s"
    unfolding app_inv_def using core ap'(5) less unfolding ap'(3,6,7) full cb(1) by blast
  then show ?thesis
    using ap'(1) by blast
qed

text \<open>All blocks up to \<open>bi\<close> are on the disk.\<close>

definition app_closed where
  "app_closed symb a V K N zs bi f s \<longleftrightarrow>
     (\<exists>ps ids. bat_inv symb a ps ids s) \<and> fo_symbol f = symb \<and> length (fids f) = 16128 \<and> unat (flen f) = N \<and>
     (\<forall>j \<in> K. vblock a (dk s) j = V j \<and> block_used (V j) \<and> j \<notin> set (fids f)) \<and>
     (\<forall>k \<le> bi. data_at (vblock a (dk s)) (fids f ! k) k zs) \<and>
     (\<forall>k \<le> bi. \<forall>j < k. fids f ! j \<noteq> fids f ! k) \<and>
     (\<forall>k < 16128. bi < k \<longrightarrow> fids f ! k = INVALID_BLOCK_ID)"

lemma save_set:
  assumes c: "app_core symb a V K N zs bi ap f s" and N: "bi * L \<le> N" and b: "block_has b bi zs"
  shows "\<exists>s'. Ifs1SetBlock drv (Some symb) (fids f ! bi) (Some b) s = Some (True, s') \<and> app_closed symb a V K N zs bi f s'"
proof -
  obtain ps ids where inv: "bat_inv symb a ps ids s"
    using c by (auto simp: app_core_def app_base_def)
  then have at: "vd_at symb a (dk s)"
    by (simp add: bat_inv_def)
  have i: "blk_id (fids f ! bi)" "block_used (vblock a (dk s) (fids f ! bi))" "\<forall>j < bi. fids f ! j \<noteq> fids f ! bi"
    "fids f ! bi \<in> set (fids f)"
    using c N by (auto simp: app_core_def app_base_def)
  obtain d where d: "Ifs1SetBlock drv (Some symb) (fids f ! bi) (Some b) s = Some (True, s\<lparr>dk := d\<rparr>)" "stored a (fids f ! bi) b (dk s) d"
    using set_block_stored [OF at i(1), of drv b] by blast
  have v: "vblock a d (fids f ! bi) = vtrunc b" "j \<noteq> fids f ! bi \<Longrightarrow> vblock a d j = vblock a (dk s) j" for j
    using d(2) by (simp_all add: stored_def)
  have "data_at (vblock a d) (fids f ! k) k zs" if "k \<le> bi" for k
  proof (cases "k = bi")
    case True
    then show ?thesis
      using i(1) b v(1) by (simp add: data_at_has block_has_vtrunc)
  next
    case False
    then have "data_at (vblock a (dk s)) (fids f ! k) k zs" "fids f ! k \<noteq> fids f ! bi"
      using c i(3) that by (auto simp: app_core_def app_base_def)
    then show ?thesis
      using v(2) by (simp add: data_at_has)
  qed
  moreover have "vblock a d j = V j" if "j \<in> K" for j
  proof -
    have "vblock a (dk s) j = V j" "j \<notin> set (fids f)"
      using c that by (simp_all add: app_core_def app_base_def)
    then show ?thesis
      using i(4) v(2) [of j] by metis
  qed
  moreover have "\<exists>ps ids. bat_inv symb a ps ids (s\<lparr>dk := d\<rparr>)"
    using set_block_inv [OF inv d(1) i(2)] by blast
  moreover have "fids f ! j \<noteq> fids f ! k" if "k \<le> bi" "j < k" for j k
    using c i(3) that by (cases "k = bi") (auto simp: app_core_def app_base_def)
  ultimately have "app_closed symb a V K N zs bi f (s\<lparr>dk := d\<rparr>)"
    using c by (auto simp: app_closed_def app_core_def app_base_def)
  then show ?thesis
    using d(1) by blast
qed

lemma save_add:
  assumes c: "app_base symb a V K N zs bi f s" and w: "unat w = bi" and b: "block_has b bi zs"
  shows "(\<exists>s'. Ifs1AddBlock drv (Some symb) (Some b) s = Some (INVALID_BLOCK_ID, s') \<and> app_full symb a V K s') \<or>
    (\<exists>i f' s'. Ifs1AddBlock drv (Some symb) (Some b) s = Some (i, s') \<and> i \<noteq> INVALID_BLOCK_ID \<and>
       set_id w i f = Some f' \<and> app_same f' f \<and> app_closed symb a V K N zs bi f' s')"
proof -
  obtain ps ids where inv: "bat_inv symb a ps ids s"
    using c by (auto simp: app_base_def)
  obtain i s' where s': "Ifs1AddBlock drv (Some symb) (Some b) s = Some (i, s')"
    "i = INVALID_BLOCK_ID \<and> (\<forall>j. blk_id j \<longrightarrow> block_used (vblock a (dk s) j)) \<and> kept (dk s) (dk s') \<or>
     blk_id i \<and> \<not> block_used (vblock a (dk s) i) \<and> stored a i b (dk s) (dk s')"
    using add_block_spec [OF inv, of drv b] by blast
  have bu: "block_used b"
    using b by (simp add: block_has_def)
  have inv': "\<exists>ps ids. bat_inv symb a ps ids s'"
    using add_block_inv [OF inv bu s'(1)] .
  show ?thesis
  proof (cases "i = INVALID_BLOCK_ID")
    case True
    then have "\<forall>j. blk_id j \<longrightarrow> block_used (vblock a (dk s) j)" "kept (dk s) (dk s')"
      using s'(2) invalid_id by auto
    then have "app_full symb a V K s'"
      using c inv' kept_at(2) [of "dk s" "dk s'" a] by (auto simp: app_full_def app_base_def)
    then show ?thesis
      using s'(1) True by blast
  next
    case False
    then have i: "blk_id i" "\<not> block_used (vblock a (dk s) i)" "stored a i b (dk s) (dk s')"
      using s'(2) by auto
    have v: "vblock a (dk s') i = vtrunc b" "j \<noteq> i \<Longrightarrow> vblock a (dk s') j = vblock a (dk s) j" for j
      using i(3) by (simp_all add: stored_def)
    have bi: "unat w = bi" "bi < 16128" "length (fids f) = 16128"
      using c w by (auto simp: app_base_def)
    obtain f' where f': "set_id w i f = Some f'" "fids f' = (fids f)[bi := i]" "fo_symbol f' = fo_symbol f"
      "flen f' = flen f" "app_same f' f"
      using set_id_fids [of w i f] bi unfolding app_same_def by auto
    have old: "data_at (vblock a (dk s)) (fids f ! k) k zs \<and> fids f ! k \<noteq> i" if "k < bi" for k
    proof -
      have "data_at (vblock a (dk s)) (fids f ! k) k zs"
        using c that by (simp add: app_base_def)
      then show ?thesis
        using i(2) by (auto simp: data_at_def)
    qed
    have "data_at (vblock a (dk s')) (fids f' ! k) k zs" if "k \<le> bi" for k
      using that old [of k] v i(1) b bi f'(2) by (cases "k = bi") (auto simp: data_at_has block_has_vtrunc)
    moreover have "vblock a (dk s') j = V j \<and> block_used (V j) \<and> j \<notin> set (fids f')" if "j \<in> K" for j
    proof -
      have j: "vblock a (dk s) j = V j" "block_used (V j)" "j \<notin> set (fids f)"
        using c that by (auto simp: app_base_def)
      then have "j \<noteq> i"
        using i(2) by auto
      then show ?thesis
        using j v(2) [of j] set_update_subset_insert [of "fids f" bi i] f'(2) by auto
    qed
    moreover have "fids f' ! j \<noteq> fids f' ! k" if "k \<le> bi" "j < k" for j k
      using c that old [of j] bi f'(2) by (cases "k = bi") (auto simp: app_base_def)
    moreover have "\<forall>k < 16128. bi < k \<longrightarrow> fids f' ! k = INVALID_BLOCK_ID"
      using c f'(2) by (auto simp: app_base_def)
    ultimately have "app_closed symb a V K N zs bi f' s'"
      using c inv' f'(2-4) bi by (auto simp: app_closed_def app_base_def)
    then show ?thesis
      using s'(1) False f' by blast
  qed
qed

lemma closed_core:
  assumes "app_closed symb a V K N zs bi f s" "length zs = (bi + 1) * L" "N div L \<le> bi" "length zs < 1056254976"
    "unat (ap_block_index ap) = bi + 1" "ap_block_pos ap = 0" "block_has (ap_block ap) (bi + 1) zs"
  shows "app_core symb a V K N zs (bi + 1) ap f s"
proof -
  have "N < (bi + 1) * L"
    using assms(3) div_less_iff_less_mult [of L N "bi + 1"] by simp
  then show ?thesis
    using assms by (auto simp: app_closed_def app_core_def app_base_def less_Suc_eq_le)
qed

lemma index_times:
  assumes "unat (w :: u32) < 16128"
  shows "unat (w * DATA_LEN) = unat w * L"
  using assms by (subst unat_mult_lem [THEN iffD1]) (simp_all add: lens)

lemma append_save_step:
  assumes inv: "app_inv symb a V K N zs ap f s" and len: "length zs < 1056254976"
  shows "\<exists>r f' s'. append_save drv ap f s = Some (r, f', s') \<and> app_same f' f \<and>
    (case r of None \<Rightarrow> app_full symb a V K s' | Some ap' \<Rightarrow> app_ready symb a V K N zs ap' f' s')"
proof -
  obtain bi where c: "app_core symb a V K N zs bi ap f s" and
    cb: "ap_cblock_index ap = (if length zs = (bi + 1) * L then ap_block_index ap + 1 else ap_block_index ap)"
    using inv by (auto simp: app_inv_def)
  have base: "app_base symb a V K N zs bi f s"
    using c by (simp add: app_core_def)
  have b: "unat (ap_block_index ap) = bi" "bi < 16128" "length zs \<le> (bi + 1) * L" "fo_symbol f = symb" "unat (flen f) = N"
    "N div L \<le> bi" "length (fids f) = 16128" "block_has (ap_block ap) bi zs"
    using c by (auto simp: app_core_def app_base_def)
  show ?thesis
  proof (cases "length zs = (bi + 1) * L")
    case False
    then have "append_save drv ap f s = Some (Some ap, f, s)"
      using cb by (simp add: append_save_def)
    moreover have "app_ready symb a V K N zs ap f s"
      using c cb False b(3) unfolding app_ready_def by (metis le_neq_implies_less)
    ultimately show ?thesis
      by (metis app_same_refl option.simps(5))
  next
    case True
    then have cb': "ap_cblock_index ap = ap_block_index ap + 1" "ap_cblock_index ap \<noteq> ap_block_index ap"
      "ap_cblock_index ap - 1 = ap_block_index ap"
      using cb by auto
    have idx: "unat (ap_block_index ap + 1) = bi + 1"
      using b(1,2) by (subst unat_plus_if_lt) simp_all
    have cond: "(ap_block_index ap * DATA_LEN < flen f) = (bi * L < N)"
      using index_times [of "ap_block_index ap"] b(1,2,5) by (simp add: word_less_nat_alt)
    define next_ap where "next_ap = (\<lambda>B. ap\<lparr>ap_block := wr32 8 0 B, ap_block_pos := 0, ap_block_index := ap_block_index ap + 1,
      ap_is_save := True\<rparr>)"
    have next_ready: "app_ready symb a V K N zs (next_ap B) f' s'"
      if "app_closed symb a V K N zs bi f' s'" "block_used B" for B f' s'
    proof -
      have "block_has (wr32 8 0 B) (bi + 1) zs"
        using that(2) True by (intro block_has_next) simp_all
      then have "app_core symb a V K N zs (bi + 1) (next_ap B) f' s'"
        using closed_core [OF that(1) True b(6) len] idx by (simp add: next_ap_def)
      moreover have "ap_cblock_index (next_ap B) = ap_block_index (next_ap B)"
        using cb'(1) by (simp add: next_ap_def)
      ultimately show ?thesis
        using True unfolding app_ready_def by (intro exI [of _ "bi + 1"]) simp
    qed
    show ?thesis
    proof (cases "bi * L < N")
      case N: True
      obtain s' where s': "Ifs1SetBlock drv (Some symb) (fids f ! bi) (Some (ap_block ap)) s = Some (True, s')"
        "app_closed symb a V K N zs bi f s'"
        using save_set [OF c _ b(8), of drv] N by auto
      have "append_save drv ap f s = Some (Some (next_ap (ap_block ap)), f, s')"
        using cb'(2,3) cond N b(1,2,4) s'(1) by (simp add: append_save_def get_id_def lens fids_def next_ap_def)
      then show ?thesis
        using next_ready [OF s'(2)] b(8) by (auto simp: block_has_def)
    next
      case N: False
      let ?B = "wr32 0 1 (wr32 4 BLOCK_TYPE_DATA (ap_block ap))"
      have B: "block_has ?B bi zs" "block_used ?B"
        using block_has_mark [OF b(8)] by (simp_all add: block_has_def)
      from save_add [OF base b(1) B(1), of drv] show ?thesis
      proof (elim disjE exE conjE)
        fix s' assume s': "Ifs1AddBlock drv (Some symb) (Some ?B) s = Some (INVALID_BLOCK_ID, s')" "app_full symb a V K s'"
        have "append_save drv ap f s = Some (None, f, s')"
          using cb'(2,3) cond N b(4) s'(1) by (simp add: append_save_def)
        then show ?thesis
          using s'(2) by auto
      next
        fix i f' s' assume s': "Ifs1AddBlock drv (Some symb) (Some ?B) s = Some (i, s')" "i \<noteq> INVALID_BLOCK_ID"
          "set_id (ap_block_index ap) i f = Some f'" "app_same f' f" "app_closed symb a V K N zs bi f' s'"
        have "append_save drv ap f s = Some (Some (next_ap ?B), f', s')"
          using cb'(2,3) cond N b(4) s'(1-3) by (simp add: append_save_def next_ap_def)
        then show ?thesis
          using next_ready [OF s'(5) B(2)] s'(4) by auto
      qed
    qed
  qed
qed

text \<open>The loop.\<close>

lemma append_loop_spec:
  assumes "app_inv symb a V K N zs ap f s" "length zs + length ys \<le> 1056254976"
  shows "\<exists>r f' s'. append_loop drv ys ap f s = Some (r, f', s') \<and> app_same f' f \<and>
    (case r of None \<Rightarrow> app_full symb a V K s' | Some ap' \<Rightarrow> app_inv symb a V K N (zs @ ys) ap' f' s')"
  using assms
proof (induction ys arbitrary: zs ap f s)
  case (Cons y ys)
  obtain r g t where g: "append_save drv ap f s = Some (r, g, t)" "app_same g f"
    "case r of None \<Rightarrow> app_full symb a V K t | Some ap' \<Rightarrow> app_ready symb a V K N zs ap' g t"
    using append_save_step [OF Cons.prems(1), of drv] Cons.prems(2) by auto
  show ?case
  proof (cases r)
    case None
    then show ?thesis
      using g by auto
  next
    case (Some ap1)
    obtain ap2 where ap2: "append_put y ap1 = Some ap2" "app_inv symb a V K N (zs @ [y]) ap2 g t"
      using append_put_step [of symb a V K N zs ap1 g t y] g(3) Some Cons.prems(2) by auto
    obtain r' f' s' where f': "append_loop drv ys ap2 g t = Some (r', f', s')" "app_same f' g"
      "case r' of None \<Rightarrow> app_full symb a V K s' | Some ap' \<Rightarrow> app_inv symb a V K N ((zs @ [y]) @ ys) ap' f' s'"
      using Cons.IH [OF ap2(2)] Cons.prems(2) by auto
    have "append_loop drv (y # ys) ap f s = Some (r', f', s')"
      using g(1) Some ap2(1) f'(1) by simp
    moreover have "(zs @ [y]) @ ys = zs @ y # ys"
      by simp
    ultimately show ?thesis
      using f'(3) app_same_trans [OF f'(2) g(2)] by metis
  qed
qed simp

text \<open>The last block.\<close>

lemma append_last_spec:
  assumes "app_inv symb a V K N zs ap f s"
  shows "\<exists>ok f' s'. append_last drv ap f s = Some (ok, f', s') \<and> app_same f' f \<and>
    (if ok then \<exists>bi. (N < length zs \<longrightarrow> bi * L < length zs) \<and> length zs \<le> (bi + 1) * L \<and> app_closed symb a V K N zs bi f' s' else app_full symb a V K s')"
proof -
  obtain bi where c: "app_core symb a V K N zs bi ap f s" and
    cb: "ap_cblock_index ap = (if length zs = (bi + 1) * L then ap_block_index ap + 1 else ap_block_index ap)"
      "\<not> ap_is_save ap" "ap_is_next ap = (length zs = (bi + 1) * L)" "N < length zs \<longrightarrow> bi * L < length zs"
    using assms by (auto simp: app_inv_def)
  have k: "(if ap_is_next ap then ap_cblock_index ap - 1 else ap_cblock_index ap) = ap_block_index ap"
    using cb by simp
  have base: "app_base symb a V K N zs bi f s"
    using c by (simp add: app_core_def)
  have b: "unat (ap_block_index ap) = bi" "bi < 16128" "bi * L \<le> length zs" "length zs \<le> (bi + 1) * L" "fo_symbol f = symb"
    "length (fids f) = 16128" "block_has (ap_block ap) bi zs"
    using c by (auto simp: app_core_def app_base_def)
  have i: "get_id f (ap_block_index ap) = Some (fids f ! bi)"
    using b by (simp add: get_id_def lens fids_def)
  show ?thesis
  proof (cases "bi * L \<le> N")
    case True
    then have "fids f ! bi \<noteq> INVALID_BLOCK_ID"
      using c invalid_id by (auto simp: app_core_def app_base_def)
    moreover obtain s' where "Ifs1SetBlock drv (Some symb) (fids f ! bi) (Some (ap_block ap)) s = Some (True, s')"
      "app_closed symb a V K N zs bi f s'"
      using save_set [OF c True b(7), of drv] by auto
    ultimately have "append_last drv ap f s = Some (True, f, s')" "app_closed symb a V K N zs bi f s'"
      using cb(2) k i b(5) by (simp_all add: append_last_def Let_def)
    then show ?thesis
      using cb(4) b(4) by auto
  next
    case False
    then have inv: "fids f ! bi = INVALID_BLOCK_ID"
      using c by (simp add: app_core_def app_base_def)
    from save_add [OF base b(1,7), of drv] show ?thesis
    proof (elim disjE exE conjE)
      fix s' assume s': "Ifs1AddBlock drv (Some symb) (Some (ap_block ap)) s = Some (INVALID_BLOCK_ID, s')" "app_full symb a V K s'"
      have "append_last drv ap f s = Some (False, f, s')"
        using cb(2) k i inv b(5) s'(1) by (simp add: append_last_def Let_def)
      then show ?thesis
        using s'(2) by auto
    next
      fix j f' s' assume s': "Ifs1AddBlock drv (Some symb) (Some (ap_block ap)) s = Some (j, s')" "j \<noteq> INVALID_BLOCK_ID"
        "set_id (ap_block_index ap) j f = Some f'" "app_same f' f" "app_closed symb a V K N zs bi f' s'"
      have "append_last drv ap f s = Some (True, f', s')"
        using cb(2) k i inv b(5) s'(1-3) by (simp add: append_last_def Let_def)
      then show ?thesis
        using s'(4,5) cb(4) b(4) by auto
    qed
  qed
qed

section \<open>Appending\<close>

text \<open>The open file \<open>f\<close> has the contents \<open>xs\<close>, and its own block is in use and no data block of it.\<close>

definition file_rep :: "string \<Rightarrow> u32 \<Rightarrow> 'h ifs1 \<Rightarrow> file_object \<Rightarrow> u8 list \<Rightarrow> bool" where
  "file_rep symb a s f xs \<longleftrightarrow>
     (\<exists>ps ids. bat_inv symb a ps ids s) \<and> contents symb a (dk s) f xs \<and> blk_id (fo_file_block_id f) \<and>
     block_used (vblock a (dk s) (fo_file_block_id f)) \<and> fo_file_block_id f \<notin> set (fids f) \<and> fb_used (fo_file_block f) \<noteq> 0 \<and>
     length (fb_filename (fo_file_block f)) = 256 \<and> length (fb_reserve (fo_file_block f)) = 736"

text \<open>The blocks in use that are not data blocks of the file.\<close>

definition others :: "u32 \<Rightarrow> 'h ifs1 \<Rightarrow> file_object \<Rightarrow> u32 set" where
  "others a s f = {j. block_used (vblock a (dk s) j) \<and> j \<notin> set (fids f)}"

lemma contents_base:
  assumes "\<exists>ps ids. bat_inv symb a ps ids s" "contents symb a (dk s) f xs" "length xs < 1056254976"
  shows "app_base symb a (vblock a (dk s)) (others a s f) (length xs) xs (length xs div L) f s"
    "length xs mod L \<noteq> 0 \<Longrightarrow> app_closed symb a (vblock a (dk s)) (others a s f) (length xs) xs (length xs div L) f s"
proof -
  let ?bi = "length xs div L"
  have c: "fo_symbol f = symb" "length (fids f) = 16128" "unat (flen f) = length xs"
    "\<And>k. k * L < length xs \<Longrightarrow> data_at (vblock a (dk s)) (fids f ! k) k xs"
    "\<And>k. k < 16128 \<Longrightarrow> length xs \<le> k * L \<Longrightarrow> fids f ! k = INVALID_BLOCK_ID"
    "\<And>j k. j < k \<Longrightarrow> k * L < length xs \<Longrightarrow> fids f ! j \<noteq> fids f ! k"
    using assms(2) by (auto simp: contents_def)
  have lt: "k * L < length xs" if "k < ?bi" for k
  proof -
    have "k * L < ?bi * L"
      using that by simp
    also have "\<dots> \<le> length xs"
      by simp
    finally show ?thesis .
  qed
  have gt: "length xs \<le> k * L" if "?bi < k" for k
    using that div_less_iff_less_mult [of L "length xs" k] by simp
  have bi: "?bi < 16128"
    using assms(3) div_less_iff_less_mult [of L "length xs" 16128] by simp
  show "app_base symb a (vblock a (dk s)) (others a s f) (length xs) xs ?bi f s"
    using assms(1) c lt gt bi unfolding app_base_def others_def by blast
  show "app_closed symb a (vblock a (dk s)) (others a s f) (length xs) xs ?bi f s" if m: "length xs mod L \<noteq> 0"
  proof -
    have "?bi * L < length xs"
      using m div_mult_mod_eq [of "length xs" L] by linarith
    then have le: "k * L < length xs" if "k \<le> ?bi" for k
      using lt that by (cases "k = ?bi") auto
    show ?thesis
      using assms(1) c le gt unfolding app_closed_def others_def by blast
  qed
qed

lemma append_first_spec:
  assumes "\<exists>ps ids. bat_inv symb a ps ids s" "contents symb a (dk s) f xs" "length xs < 1056254976"
  shows "\<exists>ok b f' s'. append_first drv f s = Some (ok, b, f', s') \<and> app_same f' f \<and>
    (if ok then app_closed symb a (vblock a (dk s)) (others a s f) (length xs) xs (length xs div L) f' s'
     else app_full symb a (vblock a (dk s)) (others a s f) s')"
proof -
  let ?V = "vblock a (dk s)" and ?K = "others a s f" and ?N = "length xs"
  have c: "fo_symbol f = symb" "unat (flen f) = ?N"
    using assms(2) by (simp_all add: contents_def)
  have w: "unat (flen f div DATA_LEN) = ?N div L" "(flen f mod DATA_LEN = 0) = (?N mod L = 0)"
    using c(2) by (simp_all add: unat_div_distrib unat_mod_eq word_unat_eq_iff lens)
  show ?thesis
  proof (cases "?N mod L = 0")
    case False
    then have "append_first drv f s = Some (True, stk s, f, s)"
      using w(2) by (simp add: append_first_def)
    then show ?thesis
      using contents_base(2) [OF assms False] by auto
  next
    case True
    let ?b = "wr32 0 1 (wr32 4 BLOCK_TYPE_DATA (wr32 8 0 (stk s)))"
    have "?N = ?N div L * L"
      using True by auto
    then have b: "block_has ?b (?N div L) xs"
      by (simp add: block_has_def block_used_rd32)
    from save_add [OF contents_base(1) [OF assms] w(1) b, of drv] show ?thesis
    proof (elim disjE exE conjE)
      fix s' assume s': "Ifs1AddBlock drv (Some symb) (Some ?b) s = Some (INVALID_BLOCK_ID, s')" "app_full symb a ?V ?K s'"
      have "append_first drv f s = Some (False, ?b, f, s')"
        using w(2) True c(1) s'(1) by (simp add: append_first_def)
      then show ?thesis
        using s'(2) by auto
    next
      fix i f' s' assume s': "Ifs1AddBlock drv (Some symb) (Some ?b) s = Some (i, s')" "i \<noteq> INVALID_BLOCK_ID"
        "set_id (flen f div DATA_LEN) i f = Some f'" "app_same f' f" "app_closed symb a ?V ?K ?N xs (?N div L) f' s'"
      have "append_first drv f s = Some (True, ?b, f', s')"
        using w(2) True c(1) s'(1-3) by (simp add: append_first_def)
      then show ?thesis
        using s'(4,5) by auto
    qed
  qed
qed

lemma closed_start:
  assumes "app_closed symb a V K N xs bi f s" "N = length xs" "bi = N div L" "N < 1056254976" "unat w = bi" "unat pos = N mod L"
  shows "\<exists>b d. Ifs1GetBlock drv (Some symb) (fids f ! bi) (Some b0) s = Some (True, Some b, s\<lparr>dk := d\<rparr>) \<and>
    app_inv symb a V K N xs \<lparr>ap_block = b, ap_block_index = w, ap_cblock_index = w, ap_block_pos = pos, ap_is_save = False, ap_is_next = False\<rparr>
      f (s\<lparr>dk := d\<rparr>)"
proof -
  note c = assms(1)
  have at: "vd_at symb a (dk s)" and d: "data_at (vblock a (dk s)) (fids f ! bi) bi xs"
    using c by (auto simp: app_closed_def bat_inv_def)
  have bi: "bi * L \<le> N" "N < (bi + 1) * L" "bi < 16128" "N - bi * L = N mod L"
    using assms(3,4) div_less_iff_less_mult [of L N "bi + 1"] div_less_iff_less_mult [of L N 16128] minus_div_mult_eq_mod [of N L] by auto
  have i: "blk_id (fids f ! bi)" "block_used (vblock a (dk s) (fids f ! bi))" "block_has (vblock a (dk s) (fids f ! bi)) bi xs"
    using d by (simp_all add: data_at_has block_has_def)
  obtain b e where b: "Ifs1GetBlock drv (Some symb) (fids f ! bi) (Some b0) s = Some (True, Some b, s\<lparr>dk := e\<rparr>)"
    "same_bytes b (vblock a (dk s) (fids f ! bi))" "kept (dk s) e"
    using get_block [OF at i(1), of drv b0] unfolding kept_def by blast
  have v: "vblock a e = vblock a (dk s)" "vd_at symb a e"
    using kept_at [OF b(3)] at by blast+
  have "\<exists>ps ids. bat_inv symb a ps ids (s\<lparr>dk := e\<rparr>)"
    using c v by (auto simp: app_closed_def bat_inv_def)
  then have "app_base symb a V K N xs bi f (s\<lparr>dk := e\<rparr>)"
    using c bi(3) v(1) by (auto simp: app_closed_def app_base_def)
  then have "app_core symb a V K N xs bi \<lparr>ap_block = b, ap_block_index = w, ap_cblock_index = w, ap_block_pos = pos,
      ap_is_save = False, ap_is_next = False\<rparr> f (s\<lparr>dk := e\<rparr>)"
    using assms(2-6) bi i v(1) block_has_cong [OF b(2)] c by (simp add: app_core_def app_closed_def)
  then have "app_inv symb a V K N xs \<lparr>ap_block = b, ap_block_index = w, ap_cblock_index = w, ap_block_pos = pos, ap_is_save = False,
      ap_is_next = False\<rparr> f (s\<lparr>dk := e\<rparr>)"
    using bi(2) assms(2) unfolding app_inv_def by (intro exI [of _ bi]) simp
  then show ?thesis
    using b(1) by blast
qed

lemma closed_finish:
  assumes c: "app_closed symb a V K N zs bi f s" and same: "app_same f f0" "fo_symbol f0 = symb"
    and len: "bi * L < length zs" "length zs \<le> (bi + 1) * L" "length zs \<le> 1056254976" "unat (flen f + m) = length zs"
    and fb: "fo_file_block_id f0 \<in> K" "blk_id (fo_file_block_id f0)" "fb_used (fo_file_block f0) \<noteq> 0"
      "length (fb_filename (fo_file_block f0)) = 256" "length (fb_reserve (fo_file_block f0)) = 736"
    and g: "g = changed dt (f\<lparr>fo_file_block := (fo_file_block f)\<lparr>fb_length := flen f + m\<rparr>\<rparr>)"
  shows "\<exists>s'. set_file_block drv g s = Some (True, s') \<and> file_rep symb a s' g zs \<and>
    file_of_raw (vblock a (dk s') (fo_file_block_id g)) = fo_file_block g \<and>
    (\<forall>j \<in> K. j \<noteq> fo_file_block_id f0 \<longrightarrow> vblock a (dk s') j = V j) \<and> fo_file_block_id g = fo_file_block_id f0 \<and> fo_mode g = fo_mode f0 \<and>
    (fo_mode f0 AND FILE_MODE_READ \<noteq> 0 \<longrightarrow> \<not> fo_read_buffer_is_valid g)"
proof -
  let ?i = "fo_file_block_id f0"
  have gf: "fids g = fids f" "fo_symbol g = symb" "flen g = flen f + m" "fo_file_block_id g = ?i" "fo_mode g = fo_mode f0"
    "fb_used (fo_file_block g) = fb_used (fo_file_block f0)" "length (fb_filename (fo_file_block g)) = 256"
    "length (fb_reserve (fo_file_block g)) = 736" "fo_mode f0 AND FILE_MODE_READ \<noteq> 0 \<longrightarrow> \<not> fo_read_buffer_is_valid g"
    using same fb(4,5) c by (auto simp: g changed_def Let_def fids_def app_same_def app_closed_def)
  obtain ps ids where inv: "bat_inv symb a ps ids s"
    using c by (auto simp: app_closed_def)
  have at: "vd_at symb a (dk s)" and K: "block_used (vblock a (dk s) ?i)" "?i \<notin> set (fids f)"
    using inv c fb(1) by (auto simp: bat_inv_def app_closed_def)
  let ?b = "file_raw (fo_file_block g)"
  obtain d where d: "Ifs1SetBlock drv (Some symb) ?i (Some ?b) s = Some (True, s\<lparr>dk := d\<rparr>)" "stored a ?i ?b (dk s) d"
    using set_block_stored [OF at fb(2), of drv ?b] by blast
  have v: "vblock a d ?i = vtrunc ?b" "j \<noteq> ?i \<Longrightarrow> vblock a d j = vblock a (dk s) j" for j
    using d(2) by (simp_all add: stored_def)
  have raw: "rd32 ?b 0 = fb_used (fo_file_block g)"
    by (simp add: file_raw_def)
  have used: "block_used (vblock a d ?i)"
    using fb(3) gf(6) raw unfolding v(1) block_used_vtrunc by (simp add: block_used_rd32)
  have "length (fids g) = 16128"
    using c gf(1) by (simp add: app_closed_def)
  have trunc: "file_of_raw (vtrunc b) = file_of_raw b" for b
  proof -
    have "rd32 (vtrunc b) k = rd32 b k" if "k + 4 \<le> 65536" for k
      using that by (intro rd32_cong) (simp add: vtrunc_def)
    moreover have "rd_bytes k n (vtrunc b) = rd_bytes k n b" if "k + n \<le> 65536" for k n
      using that by (intro rd_bytes_cong) (simp add: vtrunc_def)
    moreover have "rd_dt (vtrunc b) k = rd_dt b k" if "k + 8 \<le> 65536" for k
      using that by (intro rd_dt_cong) (simp add: vtrunc_def)
    ultimately show ?thesis
      by (simp add: file_of_raw_def rd_words_def lens)
  qed
  have reread: "file_of_raw (vblock a d ?i) = fo_file_block g"
    using file_of_raw_raw [of "fo_file_block g"] gf \<open>length (fids g) = 16128\<close> by (simp add: v(1) trunc fids_def)
  have ids: "data_at (vblock a d) (fids g ! k) k zs" if "k \<le> bi" for k
  proof -
    have "data_at (vblock a (dk s)) (fids f ! k) k zs"
      using c that by (simp add: app_closed_def)
    moreover have "k < 16128"
    proof -
      have "k * L \<le> bi * L"
        using that by simp
      then show ?thesis
        using len(1,3) by linarith
    qed
    then have "fids f ! k \<noteq> ?i"
      using K(2) c by (metis app_closed_def nth_mem)
    ultimately show ?thesis
      using v(2) gf(1) by (simp add: data_at_has)
  qed
  have le: "k \<le> bi" if "k * L < length zs" for k
  proof -
    have "k * L < (bi + 1) * L"
      using that len(2) by linarith
    then show ?thesis
      by simp
  qed
  have gt: "bi < k" if "length zs \<le> k * L" for k
  proof -
    have "bi * L < k * L"
      using that len(1) by linarith
    then show ?thesis
      by simp
  qed
  have "vd_at symb a d"
    using stored_at [OF d(2)] at by simp
  moreover have "\<forall>k < 16128. bi < k \<longrightarrow> fids g ! k = INVALID_BLOCK_ID"
    using c gf(1) by (simp add: app_closed_def)
  moreover have "\<forall>k \<le> bi. \<forall>j < k. fids g ! j \<noteq> fids g ! k"
    using c gf(1) by (simp add: app_closed_def)
  ultimately have "contents symb a d g zs"
    using ids le gt gf(2,3) len(3,4) \<open>length (fids g) = 16128\<close> unfolding contents_def by metis
  moreover have "\<exists>ps ids. bat_inv symb a ps ids (s\<lparr>dk := d\<rparr>)"
    using set_block_inv [OF inv d(1) K(1)] by blast
  ultimately have "file_rep symb a (s\<lparr>dk := d\<rparr>) g zs"
    using fb(2,3) used K(2) gf by (simp add: file_rep_def)
  moreover have "set_file_block drv g s = Some (True, s\<lparr>dk := d\<rparr>)"
    using d(1) gf(2,4) by (simp add: set_file_block_def)
  moreover have "vblock a d j = V j" if "j \<in> K" "j \<noteq> ?i" for j
    using c that v(2) [of j] by (simp add: app_closed_def)
  ultimately show ?thesis
    using reread gf(4,5,9) by (intro exI [of _ "s\<lparr>dk := d\<rparr>"]) simp
qed

lemma append_spec:
  assumes rep: "file_rep symb a s f xs" and ys: "ys \<noteq> []" "length xs + length ys \<le> 1056254976"
    and mode: "fo_mode f AND FILE_MODE_APPEND \<noteq> 0"
  shows "\<exists>ok f' s'. AppendFile_plain drv dt f ys s = Some (ok, f', s') \<and>
    (if ok then file_rep symb a s' f' (xs @ ys) \<and> file_of_raw (vblock a (dk s') (fo_file_block_id f')) = fo_file_block f' \<and>
       fo_file_block_id f' = fo_file_block_id f \<and> fo_mode f' = fo_mode f \<and>
       (fo_mode f AND FILE_MODE_READ \<noteq> 0 \<longrightarrow> \<not> fo_read_buffer_is_valid f')
     else \<forall>j. blk_id j \<longrightarrow> block_used (vblock a (dk s') j)) \<and>
    (\<forall>j \<in> others a s f. j \<noteq> fo_file_block_id f \<longrightarrow> vblock a (dk s') j = vblock a (dk s) j)"
proof -
  let ?V = "vblock a (dk s)" and ?K = "others a s f" and ?N = "length xs" and ?i = "fo_file_block_id f"
  let ?w = "flen f div DATA_LEN" and ?pos = "flen f mod DATA_LEN" and ?len = "of_nat (length ys) :: u32"
  have inv: "\<exists>ps ids. bat_inv symb a ps ids s" and con: "contents symb a (dk s) f xs" and iK: "?i \<in> ?K"
    and fb: "blk_id ?i" "fb_used (fo_file_block f) \<noteq> 0" "length (fb_filename (fo_file_block f)) = 256"
      "length (fb_reserve (fo_file_block f)) = 736"
    using rep by (auto simp: file_rep_def others_def)
  have c: "fo_symbol f = symb" "unat (flen f) = ?N"
    using con by (simp_all add: contents_def)
  have N: "?N < 1056254976" "0 < length ys"
    using ys by (cases ys; simp)+
  have len: "unat ?len = length ys" "unat (flen f + ?len) = ?N + length ys"
    using ys(2) c(2) unat_of_nat32 [of "length ys"] by (simp, subst unat_plus_if_lt) simp_all
  have w: "unat ?w = ?N div L" "unat ?pos = ?N mod L"
    using c(2) by (simp_all add: unat_div_distrib unat_mod_eq lens)
  have guard: "\<not> (?len = 0 \<or> fo_mode f AND FILE_MODE_APPEND = 0 \<or> flen f + ?len > MAX_FILE_LEN)"
    using mode len N(2) ys(2) by (auto simp: word_less_nat_alt lens word_unat_eq_iff)
  obtain ok b1 f1 s1 where first: "append_first drv f s = Some (ok, b1, f1, s1)" "app_same f1 f"
    "if ok then app_closed symb a ?V ?K ?N xs (?N div L) f1 s1 else app_full symb a ?V ?K s1"
    using append_first_spec [OF inv con N(1), of drv] by blast
  show ?thesis
  proof (cases ok)
    case False
    then have "AppendFile_plain drv dt f ys s = Some (False, f1, s1)"
      using guard first(1) by (simp add: AppendFile_plain_def Let_def)
    then show ?thesis
      using first(3) False by (auto simp: app_full_def)
  next
    case ok: True
    then have c1: "app_closed symb a ?V ?K ?N xs (?N div L) f1 s1"
      using first(3) by simp
    obtain b d where b: "Ifs1GetBlock drv (Some symb) (fids f1 ! (?N div L)) (Some b1) s1 = Some (True, Some b, s1\<lparr>dk := d\<rparr>)"
      "app_inv symb a ?V ?K ?N xs \<lparr>ap_block = b, ap_block_index = ?w, ap_cblock_index = ?w, ap_block_pos = ?pos, ap_is_save = False,
         ap_is_next = False\<rparr> f1 (s1\<lparr>dk := d\<rparr>)"
      using closed_start [OF c1 refl refl N(1) w, of drv b1] by blast
    have id: "get_id f1 ?w = Some (fids f1 ! (?N div L))" "fo_symbol f1 = symb"
      using c1 w(1) N(1) div_less_iff_less_mult [of L ?N 16128] by (auto simp: get_id_def lens fids_def app_closed_def)
    obtain r f2 s2 where loop: "append_loop drv ys \<lparr>ap_block = b, ap_block_index = ?w, ap_cblock_index = ?w, ap_block_pos = ?pos,
        ap_is_save = False, ap_is_next = False\<rparr> f1 (s1\<lparr>dk := d\<rparr>) = Some (r, f2, s2)" "app_same f2 f1"
      "case r of None \<Rightarrow> app_full symb a ?V ?K s2 | Some ap' \<Rightarrow> app_inv symb a ?V ?K ?N (xs @ ys) ap' f2 s2"
      using append_loop_spec [OF b(2) ys(2), of drv] by blast
    note prefix = guard first(1) ok id b(1) loop(1)
    show ?thesis
    proof (cases r)
      case None
      then have "AppendFile_plain drv dt f ys s = Some (False, f2, s2)"
        using prefix by (simp add: AppendFile_plain_def Let_def)
      then show ?thesis
        using loop(3) None by (auto simp: app_full_def)
    next
      case (Some ap)
      then have ap: "app_inv symb a ?V ?K ?N (xs @ ys) ap f2 s2"
        using loop(3) by simp
      obtain ok2 f3 s3 where last: "append_last drv ap f2 s2 = Some (ok2, f3, s3)" "app_same f3 f2"
        "if ok2 then \<exists>bi. (?N < length (xs @ ys) \<longrightarrow> bi * L < length (xs @ ys)) \<and> length (xs @ ys) \<le> (bi + 1) * L \<and>
           app_closed symb a ?V ?K ?N (xs @ ys) bi f3 s3 else app_full symb a ?V ?K s3"
        using append_last_spec [OF ap, of drv] by blast
      show ?thesis
      proof (cases ok2)
        case False
        then have "AppendFile_plain drv dt f ys s = Some (False, f3, s3)"
          using prefix Some last(1) by (simp add: AppendFile_plain_def Let_def)
        then show ?thesis
          using last(3) False by (auto simp: app_full_def)
      next
        case True
        then obtain bi where bi: "bi * L < length (xs @ ys)" "length (xs @ ys) \<le> (bi + 1) * L"
          "app_closed symb a ?V ?K ?N (xs @ ys) bi f3 s3"
          using last(3) N(2) by auto
        have same: "app_same f3 f"
          using app_same_trans [OF app_same_trans [OF last(2) loop(2)] first(2)] .
        then have fl: "unat (flen f3 + ?len) = length (xs @ ys)"
          using len(2) by (auto simp: app_same_def)
        define g where "g = changed dt (f3\<lparr>fo_file_block := (fo_file_block f3)\<lparr>fb_length := flen f3 + ?len\<rparr>\<rparr>)"
        obtain s4 where s4: "set_file_block drv g s3 = Some (True, s4)" "file_rep symb a s4 g (xs @ ys)"
          "file_of_raw (vblock a (dk s4) (fo_file_block_id g)) = fo_file_block g"
          "\<forall>j \<in> ?K. j \<noteq> ?i \<longrightarrow> vblock a (dk s4) j = ?V j" "fo_file_block_id g = ?i" "fo_mode g = fo_mode f"
          "fo_mode f AND FILE_MODE_READ \<noteq> 0 \<longrightarrow> \<not> fo_read_buffer_is_valid g"
          using closed_finish [OF bi(3) same c(1) bi(1,2) _ fl iK fb g_def, of drv] ys(2) by auto
        have "AppendFile_plain drv dt f ys s = Some (True, g, s4)"
          using prefix Some last(1) True s4(1) by (simp add: AppendFile_plain_def Let_def g_def)
        then show ?thesis
          using s4(2-7) by auto
      qed
    qed
  qed
qed

end
