(* ===== verification/Ifs1_Resolve_Proofs.thy ===== *)
theory Ifs1_Resolve_Proofs
  imports Ifs1_Resolve
begin

text \<open>
  Paths on a RAM disk: the directories as a tree of blocks, what \<open>Ifs1ParsePath\<close> finds in it, and
  what happens to the name of a directory that does not exist.
\<close>

section \<open>Reading blocks\<close>

lemma get_local_block:
  assumes "vd_at symb a (dk s)" "blk_id i"
  shows "\<exists>b d. get_local drv (Some symb) i s = Some (True, b, s\<lparr>dk := d\<rparr>) \<and> same_bytes b (vblock a (dk s) i) \<and> kept (dk s) d"
  using get_block [OF assms, of drv "stk s"] unfolding get_local_def kept_def by auto

lemma same_bytes_rd32: "same_bytes b c \<Longrightarrow> k + 4 \<le> 65536 \<Longrightarrow> rd32 b k = rd32 c k"
  by (rule rd32_cong) (simp add: same_bytes_def)

lemma same_bytes_raw: "same_bytes b c \<Longrightarrow> raw_used b = raw_used c \<and> raw_type b = raw_type c"
  using same_bytes_rd32 by (simp add: raw_used_def raw_type_def)

lemma same_bytes_id: "same_bytes b c \<Longrightarrow> ui < 16128 \<Longrightarrow> blockid b ui = blockid c ui"
  using same_bytes_rd32 by (simp add: blockid_def)

lemma cstr_at_cong: "(\<And>i. k \<le> i \<Longrightarrow> i < k + n \<Longrightarrow> b i = c i) \<Longrightarrow> cstr_at n b k = cstr_at n c k"
  by (induction n b k rule: cstr_at.induct) simp_all

lemma same_bytes_names: "same_bytes b c \<Longrightarrow> dir_name b = dir_name c \<and> file_name b = file_name c \<and> slink_name b = slink_name c"
  unfolding dir_name_def file_name_def slink_name_def by (intro conjI cstr_at_cong) (simp_all add: same_bytes_def)

lemma read_typed_spec:
  assumes "vd_at symb a (dk s)" "blk_id i"
  shows "\<exists>b d. read_typed drv (Some symb) i t s =
      Some (if raw_used (vblock a (dk s) i) = 0 \<or> raw_type (vblock a (dk s) i) \<noteq> t then None else Some b, s\<lparr>dk := d\<rparr>) \<and>
    same_bytes b (vblock a (dk s) i) \<and> kept (dk s) d"
proof -
  obtain b d where b: "get_local drv (Some symb) i s = Some (True, b, s\<lparr>dk := d\<rparr>)" "same_bytes b (vblock a (dk s) i)" "kept (dk s) d"
    using get_local_block [OF assms] by blast
  then show ?thesis
    using same_bytes_raw [OF b(2)] by (intro exI [of _ b] exI [of _ d]) (simp add: read_typed_def)
qed

lemma load_block_spec:
  assumes "vd_at symb a (dk s)" "blk_id i"
  shows "\<exists>b d. load_block drv (Some symb) i t s =
      Some (if raw_used (vblock a (dk s) i) = 0 \<or> raw_type (vblock a (dk s) i) \<noteq> t then None else Some b, s\<lparr>dk := d\<rparr>) \<and>
    same_bytes b (vblock a (dk s) i) \<and> kept (dk s) d"
proof -
  have "i \<noteq> INVALID_BLOCK_ID"
    using assms(2) invalid_id by blast
  then show ?thesis
    using read_typed_spec [OF assms] by (simp add: load_block_def)
qed

section \<open>The tree of directories\<close>

definition is_dir :: "(u32 \<Rightarrow> buf) \<Rightarrow> u32 \<Rightarrow> bool" where
  "is_dir V d \<longleftrightarrow> blk_id d \<and> raw_used (V d) \<noteq> 0 \<and> raw_type (V d) = BLOCK_TYPE_DIR"

text \<open>An entry that leads to a directory or a file, with a name.\<close>

definition good_entry :: "(u32 \<Rightarrow> buf) \<Rightarrow> u32 \<Rightarrow> bool" where
  "good_entry V i \<longleftrightarrow> is_dir V i \<and> dir_name (V i) \<noteq> None \<or> blk_id i \<and> raw_type (V i) = BLOCK_TYPE_FILE \<and> file_name (V i) \<noteq> None"

text \<open>No directory has an entry that is a link or leads nowhere.\<close>

definition good_tree :: "(u32 \<Rightarrow> buf) \<Rightarrow> bool" where
  "good_tree V \<longleftrightarrow> (\<forall>d. is_dir V d \<longrightarrow> (\<forall>ui < 16128. blockid (V d) ui = INVALID_BLOCK_ID \<or> good_entry V (blockid (V d) ui)))"

definition dir_named :: "(u32 \<Rightarrow> buf) \<Rightarrow> string \<Rightarrow> u32 \<Rightarrow> bool" where
  "dir_named V name i \<longleftrightarrow> i \<noteq> INVALID_BLOCK_ID \<and> raw_type (V i) = BLOCK_TYPE_DIR \<and> dir_name (V i) = Some name"

definition file_named :: "(u32 \<Rightarrow> buf) \<Rightarrow> string \<Rightarrow> u32 \<Rightarrow> bool" where
  "file_named V name i \<longleftrightarrow> i \<noteq> INVALID_BLOCK_ID \<and> raw_type (V i) = BLOCK_TYPE_FILE \<and> file_name (V i) = Some name"

text \<open>The first entry of the directory that is a directory, or a file, with the name.\<close>

definition subdir :: "(u32 \<Rightarrow> buf) \<Rightarrow> u32 \<Rightarrow> string \<Rightarrow> u32 option" where
  "subdir V d name = map_option (blockid (V d)) (first_index (\<lambda>ui. dir_named V name (blockid (V d) ui)) 0 16128)"

definition subfile :: "(u32 \<Rightarrow> buf) \<Rightarrow> u32 \<Rightarrow> string \<Rightarrow> u32 option" where
  "subfile V d name = map_option (blockid (V d)) (first_index (\<lambda>ui. file_named V name (blockid (V d) ui)) 0 16128)"

fun walk :: "(u32 \<Rightarrow> buf) \<Rightarrow> u32 \<Rightarrow> string list \<Rightarrow> u32 option" where
  "walk V d [] = Some d"
| "walk V d (c # cs) = (case subdir V d c of None \<Rightarrow> None | Some e \<Rightarrow> walk V e cs)"

lemma subdir_is_dir:
  assumes "good_tree V" "is_dir V d" "subdir V d c = Some e"
  shows "is_dir V e"
proof -
  obtain k where k: "first_index (\<lambda>ui. dir_named V c (blockid (V d) ui)) 0 16128 = Some k" "e = blockid (V d) k"
    using assms(3) by (auto simp: subdir_def)
  then have "k < 16128" "dir_named V c e"
    using first_index_SomeD by fastforce+
  then have "good_entry V e" "raw_type (V e) = BLOCK_TYPE_DIR"
    using assms(1,2) k(2) by (auto simp: good_tree_def dir_named_def)
  then show ?thesis
    by (auto simp: good_entry_def BLOCK_TYPE_DIR_def BLOCK_TYPE_FILE_def)
qed

section \<open>Searching a directory\<close>

lemma types: "BLOCK_TYPE_DIR \<noteq> BLOCK_TYPE_SLINK" "BLOCK_TYPE_FILE \<noteq> BLOCK_TYPE_SLINK" "BLOCK_TYPE_FILE \<noteq> BLOCK_TYPE_DIR"
  by (simp_all add: BLOCK_TYPE_DIR_def BLOCK_TYPE_SLINK_def BLOCK_TYPE_FILE_def)

lemma dir_entry_spec:
  assumes "vd_at symb a (dk s)" "blockid D ui = INVALID_BLOCK_ID \<or> good_entry (vblock a (dk s)) (blockid D ui)"
  shows "\<exists>e. dir_entry rec drv symb D name ui (sy, ty, s) =
      Some (if dir_named (vblock a (dk s)) name (blockid D ui) then (Some (Some (blockid D ui)), sy, BLOCK_TYPE_DIR, s\<lparr>dk := e\<rparr>)
            else (None, sy, ty, s\<lparr>dk := e\<rparr>)) \<and> kept (dk s) e"
proof (cases "blockid D ui = INVALID_BLOCK_ID")
  case True
  then show ?thesis
    using kept_refl [of "dk s"] by (intro exI [of _ "dk s"]) (simp add: dir_entry_def dir_named_def)
next
  case False
  let ?i = "blockid D ui" and ?V = "vblock a (dk s)"
  have g: "good_entry ?V ?i" "blk_id ?i"
    using assms(2) False by (auto simp: good_entry_def is_dir_def)
  obtain b e where b: "get_local drv (Some symb) ?i s = Some (True, b, s\<lparr>dk := e\<rparr>)" "same_bytes b (?V ?i)" "kept (dk s) e"
    using get_local_block [OF assms(1) g(2)] by blast
  have v: "raw_type b = raw_type (?V ?i)" "dir_name b = dir_name (?V ?i)"
    using same_bytes_raw [OF b(2)] same_bytes_names [OF b(2)] by auto
  show ?thesis
    using b(1,3) False g v types by (intro exI [of _ e]) (auto simp: dir_entry_def good_entry_def is_dir_def dir_named_def)
qed

lemma file_entry_spec:
  assumes "vd_at symb a (dk s)" "blockid D ui = INVALID_BLOCK_ID \<or> good_entry (vblock a (dk s)) (blockid D ui)"
  shows "\<exists>e. file_entry rec drv symb ret D name ui (sy, ty, s) =
      Some (if file_named (vblock a (dk s)) name (blockid D ui) then (Some (blockid D ui, symb, ty), symb, ty, s\<lparr>dk := e\<rparr>)
            else (None, sy, ty, s\<lparr>dk := e\<rparr>)) \<and> kept (dk s) e"
proof (cases "blockid D ui = INVALID_BLOCK_ID")
  case True
  then show ?thesis
    using kept_refl [of "dk s"] by (intro exI [of _ "dk s"]) (simp add: file_entry_def file_named_def)
next
  case False
  let ?i = "blockid D ui" and ?V = "vblock a (dk s)"
  have g: "good_entry ?V ?i" "blk_id ?i"
    using assms(2) False by (auto simp: good_entry_def is_dir_def)
  obtain b e where b: "get_local drv (Some symb) ?i s = Some (True, b, s\<lparr>dk := e\<rparr>)" "same_bytes b (?V ?i)" "kept (dk s) e"
    using get_local_block [OF assms(1) g(2)] by blast
  have v: "raw_type b = raw_type (?V ?i)" "file_name b = file_name (?V ?i)"
    using same_bytes_raw [OF b(2)] same_bytes_names [OF b(2)] by auto
  show ?thesis
    using b(1,3) False g v types by (intro exI [of _ e]) (auto simp: file_entry_def good_entry_def is_dir_def file_named_def)
qed

text \<open>A loop over entries whose body only reads: the first entry that the body exits at.\<close>

lemma for_ids_first:
  assumes "\<And>ui t. k \<le> ui \<Longrightarrow> ui < k + n \<Longrightarrow> kept (dk s) (dk t) \<Longrightarrow>
    \<exists>e. body ui (sy, ty, t) = Some (if P ui then (Some (r ui), sy' , ty', t\<lparr>dk := e\<rparr>) else (None, sy, ty, t\<lparr>dk := e\<rparr>)) \<and> kept (dk t) e"
    "kept (dk s) (dk t)"
  shows "\<exists>e. for_ids body k n (sy, ty, t) =
      Some (case first_index P k (k + n) of None \<Rightarrow> (None, sy, ty, t\<lparr>dk := e\<rparr>) | Some j \<Rightarrow> (Some (r j), sy', ty', t\<lparr>dk := e\<rparr>)) \<and>
    kept (dk t) e"
  using assms
proof (induction n arbitrary: k t)
  case 0
  then show ?case
    using kept_refl [of "dk t"] by (intro exI [of _ "dk t"]) (subst first_index_step, simp)
next
  case (Suc n)
  obtain e where e: "body k (sy, ty, t) = Some (if P k then (Some (r k), sy', ty', t\<lparr>dk := e\<rparr>) else (None, sy, ty, t\<lparr>dk := e\<rparr>))"
    "kept (dk t) e"
    using Suc.prems(1) [of k t] Suc.prems(2) by auto
  show ?case
  proof (cases "P k")
    case True
    then show ?thesis
      using e by (intro exI [of _ e]) (subst first_index_step, simp)
  next
    case False
    have k: "kept (dk s) (dk (t\<lparr>dk := e\<rparr>))"
      using kept_trans [OF Suc.prems(2) e(2)] by simp
    obtain e' where e': "for_ids body (Suc k) n (sy, ty, t\<lparr>dk := e\<rparr>) =
        Some (case first_index P (Suc k) (Suc (k + n)) of None \<Rightarrow> (None, sy, ty, t\<lparr>dk := e, dk := e'\<rparr>)
              | Some j \<Rightarrow> (Some (r j), sy', ty', t\<lparr>dk := e, dk := e'\<rparr>))"
      "kept e e'"
      using Suc.IH [of "Suc k" "t\<lparr>dk := e\<rparr>", OF _ k] Suc.prems(1) by auto
    have "first_index P k (k + Suc n) = first_index P (Suc k) (Suc (k + n))"
      using False by (subst first_index_step) simp
    then show ?thesis
      using e(1) e' False kept_trans [OF e(2) e'(2)]
      by (intro exI [of _ e']) (cases "first_index P (Suc k) (Suc (k + n))"; simp)
  qed
qed

lemma search_dir:
  assumes at: "vd_at symb a (dk s)" and tree: "good_tree (vblock a (dk s))" "is_dir (vblock a (dk s)) d"
    and D: "same_bytes D (vblock a (dk s) d)"
  shows "\<exists>e. for_ids (dir_entry rec drv symb D name) 0 DIR_BLOCK_ID_COUNT (sy, ty, s) =
      Some (case subdir (vblock a (dk s)) d name of None \<Rightarrow> (None, sy, ty, s\<lparr>dk := e\<rparr>)
            | Some i \<Rightarrow> (Some (Some i), sy, BLOCK_TYPE_DIR, s\<lparr>dk := e\<rparr>)) \<and> kept (dk s) e"
    "\<exists>e. for_ids (file_entry rec drv symb ret D name) 0 DIR_BLOCK_ID_COUNT (sy, ty, s) =
      Some (case subfile (vblock a (dk s)) d name of None \<Rightarrow> (None, sy, ty, s\<lparr>dk := e\<rparr>)
            | Some i \<Rightarrow> (Some (i, symb, ty), symb, ty, s\<lparr>dk := e\<rparr>)) \<and> kept (dk s) e"
proof -
  let ?V = "vblock a (dk s)"
  have D': "blockid D ui = blockid (?V d) ui" if "ui < 16128" for ui
    using same_bytes_id [OF D that] .
  have g: "blockid D ui = INVALID_BLOCK_ID \<or> good_entry ?V (blockid D ui)" if "ui < 16128" for ui
    using tree D' [OF that] that by (auto simp: good_tree_def)
  have st: "vd_at symb a (dk t) \<and> vblock a (dk t) = ?V" if "kept (dk s) (dk t)" for t
    using kept_at [OF that] at by blast
  have 1: "first_index (\<lambda>ui. dir_named ?V name (blockid D ui)) 0 16128 = first_index (\<lambda>ui. dir_named ?V name (blockid (?V d) ui)) 0 16128"
    "first_index (\<lambda>ui. file_named ?V name (blockid D ui)) 0 16128 = first_index (\<lambda>ui. file_named ?V name (blockid (?V d) ui)) 0 16128"
    using D' by (intro first_index_cong; simp)+
  have n: "DIR_BLOCK_ID_COUNT = 16128"
    by (simp add: DIR_BLOCK_ID_COUNT_def)
  have be: "\<exists>e. dir_entry rec drv symb D name ui (sy, ty, t) =
      Some (if dir_named ?V name (blockid D ui) then (Some (Some (blockid D ui)), sy, BLOCK_TYPE_DIR, t\<lparr>dk := e\<rparr>)
            else (None, sy, ty, t\<lparr>dk := e\<rparr>)) \<and> kept (dk t) e" if "0 \<le> ui" "ui < 0 + 16128" "kept (dk s) (dk t)" for ui t
    using dir_entry_spec [of symb a t D ui rec drv name sy ty] st [OF that(3)] g [of ui] that(2) by simp
  have "\<exists>e. for_ids (dir_entry rec drv symb D name) 0 16128 (sy, ty, s) =
      Some (case first_index (\<lambda>ui. dir_named ?V name (blockid D ui)) 0 (0 + 16128) of None \<Rightarrow> (None, sy, ty, s\<lparr>dk := e\<rparr>)
            | Some j \<Rightarrow> (Some (Some (blockid D j)), sy, BLOCK_TYPE_DIR, s\<lparr>dk := e\<rparr>)) \<and> kept (dk s) e"
    by (rule for_ids_first [of 0 16128 s]) (rule be, assumption+, rule kept_refl)
  then obtain e where "for_ids (dir_entry rec drv symb D name) 0 16128 (sy, ty, s) =
      Some (case first_index (\<lambda>ui. dir_named ?V name (blockid D ui)) 0 (0 + 16128) of None \<Rightarrow> (None, sy, ty, s\<lparr>dk := e\<rparr>)
            | Some j \<Rightarrow> (Some (Some (blockid D j)), sy, BLOCK_TYPE_DIR, s\<lparr>dk := e\<rparr>))" "kept (dk s) e"
    by blast
  then show "\<exists>e. for_ids (dir_entry rec drv symb D name) 0 DIR_BLOCK_ID_COUNT (sy, ty, s) =
      Some (case subdir ?V d name of None \<Rightarrow> (None, sy, ty, s\<lparr>dk := e\<rparr>)
            | Some i \<Rightarrow> (Some (Some i), sy, BLOCK_TYPE_DIR, s\<lparr>dk := e\<rparr>)) \<and> kept (dk s) e"
    using D' first_index_SomeD unfolding n subdir_def 1 [symmetric] by (intro exI [of _ e]) (fastforce split: option.split)
  have fe: "\<exists>e. file_entry rec drv symb ret D name ui (sy, ty, t) =
      Some (if file_named ?V name (blockid D ui) then (Some (blockid D ui, symb, ty), symb, ty, t\<lparr>dk := e\<rparr>)
            else (None, sy, ty, t\<lparr>dk := e\<rparr>)) \<and> kept (dk t) e" if "0 \<le> ui" "ui < 0 + 16128" "kept (dk s) (dk t)" for ui t
    using file_entry_spec [of symb a t D ui rec drv ret name sy ty] st [OF that(3)] g [of ui] that(2) by simp
  have "\<exists>e. for_ids (file_entry rec drv symb ret D name) 0 16128 (sy, ty, s) =
      Some (case first_index (\<lambda>ui. file_named ?V name (blockid D ui)) 0 (0 + 16128) of None \<Rightarrow> (None, sy, ty, s\<lparr>dk := e\<rparr>)
            | Some j \<Rightarrow> (Some (blockid D j, symb, ty), symb, ty, s\<lparr>dk := e\<rparr>)) \<and> kept (dk s) e"
    by (rule for_ids_first [of 0 16128 s]) (rule fe, assumption+, rule kept_refl)
  then obtain e where "for_ids (file_entry rec drv symb ret D name) 0 16128 (sy, ty, s) =
      Some (case first_index (\<lambda>ui. file_named ?V name (blockid D ui)) 0 (0 + 16128) of None \<Rightarrow> (None, sy, ty, s\<lparr>dk := e\<rparr>)
            | Some j \<Rightarrow> (Some (blockid D j, symb, ty), symb, ty, s\<lparr>dk := e\<rparr>))" "kept (dk s) e"
    by blast
  then show "\<exists>e. for_ids (file_entry rec drv symb ret D name) 0 DIR_BLOCK_ID_COUNT (sy, ty, s) =
      Some (case subfile ?V d name of None \<Rightarrow> (None, sy, ty, s\<lparr>dk := e\<rparr>)
            | Some i \<Rightarrow> (Some (i, symb, ty), symb, ty, s\<lparr>dk := e\<rparr>)) \<and> kept (dk s) e"
    using D' first_index_SomeD unfolding n subfile_def 1 [symmetric] by (intro exI [of _ e]) (fastforce split: option.split)
qed

section \<open>Resolving a path\<close>

lemma parse_name:
  "CHR ''/'' \<notin> set c \<Longrightarrow> length (acc @ c) \<le> 255 \<Longrightarrow>
     parse_loop rec drv ret 4 symb acc pr i sy ty (c @ rest) s =
     parse_loop rec drv ret 4 symb (acc @ c) (if c = [] then pr else False) i sy ty rest s"
proof (induction c arbitrary: acc pr)
  case (Cons x c)
  then have "x \<noteq> CHR ''/''"
    by auto
  then show ?case
    using Cons.prems Cons.IH [of "acc @ [x]" False] by (simp add: push_name_def MAX_FILENAME_LEN_def MAX_FILENAME_BUFFER_LEN_def)
qed simp

lemma parse_slash:
  assumes "vd_at symb a (dk s)" "good_tree (vblock a (dk s))" "is_dir (vblock a (dk s)) d" "name \<noteq> []"
  shows "\<exists>e. parse_loop rec drv ret 4 symb name pr d sy ty (CHR ''/'' # rest) s =
      (case subdir (vblock a (dk s)) d name of
         None \<Rightarrow> parse_loop rec drv ret 4 symb name pr d sy ty rest (s\<lparr>dk := e\<rparr>)
       | Some i \<Rightarrow> parse_loop rec drv ret 4 symb [] True i sy BLOCK_TYPE_DIR rest (s\<lparr>dk := e\<rparr>)) \<and> kept (dk s) e"
proof -
  let ?V = "vblock a (dk s)"
  have d: "blk_id d" "raw_used (?V d) \<noteq> 0" "raw_type (?V d) = BLOCK_TYPE_DIR"
    using assms(3) by (simp_all add: is_dir_def)
  obtain b e where b: "read_typed drv (Some symb) d BLOCK_TYPE_DIR s = Some (Some b, s\<lparr>dk := e\<rparr>)" "same_bytes b (?V d)" "kept (dk s) e"
    using read_typed_spec [OF assms(1) d(1), of drv BLOCK_TYPE_DIR] d(2,3) by auto
  have v: "vd_at symb a (dk (s\<lparr>dk := e\<rparr>))" "vblock a (dk (s\<lparr>dk := e\<rparr>)) = ?V"
    using kept_at [OF b(3)] assms(1) by simp_all
  obtain e' where e': "for_ids (dir_entry rec drv symb b name) 0 DIR_BLOCK_ID_COUNT (sy, ty, s\<lparr>dk := e\<rparr>) =
      Some (case subdir ?V d name of None \<Rightarrow> (None, sy, ty, s\<lparr>dk := e, dk := e'\<rparr>)
            | Some i \<Rightarrow> (Some (Some i), sy, BLOCK_TYPE_DIR, s\<lparr>dk := e, dk := e'\<rparr>))" "kept e e'"
    using search_dir(1) [OF v(1), of d b rec drv name sy ty] assms(2,3) b(2) unfolding v(2) by auto
  show ?thesis
    using assms(4) b(1) e' kept_trans [OF b(3) e'(2)]
    by (intro exI [of _ e']) (cases "subdir ?V d name"; simp)
qed

lemma parse_walk:
  assumes "vd_at symb a (dk s)" "good_tree (vblock a (dk s))" "is_dir (vblock a (dk s)) d"
    "\<forall>c \<in> set cs. c \<noteq> [] \<and> path_comp c" "walk (vblock a (dk s)) d cs = Some d'"
  shows "\<exists>e. parse_loop rec drv ret 4 symb [] True d sy BLOCK_TYPE_DIR (concat (map (\<lambda>c. c @ ''/'') cs) @ f) s =
      parse_loop rec drv ret 4 symb [] True d' sy BLOCK_TYPE_DIR f (s\<lparr>dk := e\<rparr>) \<and> kept (dk s) e \<and> is_dir (vblock a (dk s)) d'"
  using assms
proof (induction cs arbitrary: d s)
  case Nil
  then show ?case
    using kept_refl [of "dk s"] by (intro exI [of _ "dk s"]) simp
next
  case (Cons c cs)
  let ?V = "vblock a (dk s)" and ?rest = "concat (map (\<lambda>c. c @ ''/'') cs) @ f"
  obtain i where i: "subdir ?V d c = Some i" "walk ?V i cs = Some d'"
    using Cons.prems(5) by (auto split: option.splits)
  have c: "c \<noteq> []" "CHR ''/'' \<notin> set c" "length c \<le> 255"
    using Cons.prems(4) by (auto simp: path_comp_def)
  obtain e where e: "parse_loop rec drv ret 4 symb c False d sy BLOCK_TYPE_DIR (CHR ''/'' # ?rest) s =
      parse_loop rec drv ret 4 symb [] True i sy BLOCK_TYPE_DIR ?rest (s\<lparr>dk := e\<rparr>)" "kept (dk s) e"
    using parse_slash [OF Cons.prems(1-3) c(1), of rec drv ret False sy BLOCK_TYPE_DIR ?rest] i(1) by auto
  have v: "vblock a (dk (s\<lparr>dk := e\<rparr>)) = ?V" "vd_at symb a (dk (s\<lparr>dk := e\<rparr>))"
    using kept_at [OF e(2)] Cons.prems(1) by simp_all
  obtain e' where e': "parse_loop rec drv ret 4 symb [] True i sy BLOCK_TYPE_DIR ?rest (s\<lparr>dk := e\<rparr>) =
      parse_loop rec drv ret 4 symb [] True d' sy BLOCK_TYPE_DIR f (s\<lparr>dk := e'\<rparr>)" "kept e e'" "is_dir ?V d'"
    using Cons.IH [of "s\<lparr>dk := e\<rparr>" i] v Cons.prems(2,4) i(2) subdir_is_dir [OF Cons.prems(2,3) i(1)] by auto
  have "parse_loop rec drv ret 4 symb [] True d sy BLOCK_TYPE_DIR (concat (map (\<lambda>c. c @ ''/'') (c # cs)) @ f) s =
      parse_loop rec drv ret 4 symb c False d sy BLOCK_TYPE_DIR (CHR ''/'' # ?rest) s"
    using parse_name [of c "[]" rec drv ret symb True d sy BLOCK_TYPE_DIR "CHR ''/'' # ?rest" s] c by simp
  then show ?case
    using e e' kept_trans [OF e(2) e'(2)] by (intro exI [of _ e']) simp
qed

lemma parse_file:
  assumes "vd_at symb a (dk s)" "good_tree (vblock a (dk s))" "is_dir (vblock a (dk s)) d" "name \<noteq> []"
  shows "\<exists>e. parse_loop rec drv ret 4 symb name False d sy ty [] s =
      Some (case subfile (vblock a (dk s)) d name of None \<Rightarrow> (INVALID_BLOCK_ID, sy, BLOCK_TYPE_FILE) | Some i \<Rightarrow> (i, symb, BLOCK_TYPE_FILE),
        s\<lparr>dk := e\<rparr>) \<and> kept (dk s) e"
proof -
  let ?V = "vblock a (dk s)"
  have d: "blk_id d" "raw_used (?V d) \<noteq> 0" "raw_type (?V d) = BLOCK_TYPE_DIR"
    using assms(3) by (simp_all add: is_dir_def)
  obtain b e where b: "read_typed drv (Some symb) d BLOCK_TYPE_DIR s = Some (Some b, s\<lparr>dk := e\<rparr>)" "same_bytes b (?V d)" "kept (dk s) e"
    using read_typed_spec [OF assms(1) d(1), of drv BLOCK_TYPE_DIR] d(2,3) by auto
  have v: "vd_at symb a (dk (s\<lparr>dk := e\<rparr>))" "vblock a (dk (s\<lparr>dk := e\<rparr>)) = ?V"
    using kept_at [OF b(3)] assms(1) by simp_all
  obtain e' where e': "for_ids (file_entry rec drv symb ret b name) 0 DIR_BLOCK_ID_COUNT (sy, BLOCK_TYPE_FILE, s\<lparr>dk := e\<rparr>) =
      Some (case subfile ?V d name of None \<Rightarrow> (None, sy, BLOCK_TYPE_FILE, s\<lparr>dk := e, dk := e'\<rparr>)
            | Some i \<Rightarrow> (Some (i, symb, BLOCK_TYPE_FILE), symb, BLOCK_TYPE_FILE, s\<lparr>dk := e, dk := e'\<rparr>))" "kept e e'"
    using search_dir(2) [OF v(1), of d b rec drv ret name sy BLOCK_TYPE_FILE] assms(2,3) b(2) unfolding v(2) by auto
  show ?thesis
    using b(1) e' kept_trans [OF b(3) e'(2)]
    by (intro exI [of _ e']) (cases "subfile ?V d name"; simp add: parse_end_def)
qed

lemma parse_root:
  assumes "vd_at symb a (dk s)"
  shows "Ifs1ParsePath (Suc n) drv (Some (symb @ '':/'' @ rest)) sy ty s =
    parse_loop (\<lambda>link symb ty. Ifs1ParsePathEx n drv (Some link) symb ty False) drv False 4 symb [] True START_BLOCK_ID sy BLOCK_TYPE_DIR rest s"
proof -
  have "symb = ''VA'' \<or> symb = ''VB''"
    using assms by (simp add: vd_at_def is_vdisk_def)
  then show ?thesis
    by (auto simp: Ifs1ParsePath_def)
qed

section \<open>A sample tree\<close>

text \<open>VA with the root directory in block 10, and in it the file \<open>xy\<close>, whose block is block 11.\<close>

definition root_buf :: buf where
  "root_buf = wr32 0 1 (wr32 4 BLOCK_TYPE_DIR (wr_words 1024 (11 # replicate 16127 INVALID_BLOCK_ID) zero_buf))"

definition xy_buf :: buf where
  "xy_buf = wr32 0 1 (wr32 4 BLOCK_TYPE_FILE (wr_bytes 12 (map byte8 ''xy'') zero_buf))"

definition tree0 :: "unit ifs1" where
  "tree0 = snd (the (Ifs1SetBlock no_hw (Some ''VA'') 11 (Some xy_buf)
     (snd (the (Ifs1SetBlock no_hw (Some ''VA'') 10 (Some root_buf) ifs1_0)))))"

lemma tree0: "vd_at ''VA'' 0x2000000 (dk tree0)" "vblock 0x2000000 (dk tree0) 10 = vtrunc root_buf"
  "vblock 0x2000000 (dk tree0) 11 = vtrunc xy_buf"
  "j \<noteq> 10 \<Longrightarrow> j \<noteq> 11 \<Longrightarrow> vblock 0x2000000 (dk tree0) j = vblock 0x2000000 (dk ifs1_0) j"
proof -
  have at: "vd_at ''VA'' 0x2000000 (dk ifs1_0)" and id: "blk_id 10" "blk_id 11"
    using ifs1_0 by (simp_all add: bat_inv_def blk_id_def)
  obtain d where d: "Ifs1SetBlock no_hw (Some ''VA'') 10 (Some root_buf) ifs1_0 = Some (True, ifs1_0\<lparr>dk := d\<rparr>)"
    "stored 0x2000000 10 root_buf (dk ifs1_0) d"
    using set_block_stored [OF at id(1)] by blast
  have at': "vd_at ''VA'' 0x2000000 (dk (ifs1_0\<lparr>dk := d\<rparr>))"
    using stored_at [OF d(2)] at by simp
  obtain e where e: "Ifs1SetBlock no_hw (Some ''VA'') 11 (Some xy_buf) (ifs1_0\<lparr>dk := d\<rparr>) = Some (True, ifs1_0\<lparr>dk := e\<rparr>)"
    "stored 0x2000000 11 xy_buf d e"
    using set_block_stored [OF at' id(2), of no_hw xy_buf] by auto
  have s: "dk tree0 = e"
    using d(1) e(1) by (simp add: tree0_def)
  show "vd_at ''VA'' 0x2000000 (dk tree0)"
    using stored_at [OF e(2)] at' by (simp add: s)
  show "vblock 0x2000000 (dk tree0) 10 = vtrunc root_buf" "vblock 0x2000000 (dk tree0) 11 = vtrunc xy_buf"
    "j \<noteq> 10 \<Longrightarrow> j \<noteq> 11 \<Longrightarrow> vblock 0x2000000 (dk tree0) j = vblock 0x2000000 (dk ifs1_0) j"
    using d(2) e(2) by (simp_all add: s stored_def)
qed

lemma same_bytes_vtrunc: "same_bytes (vtrunc b) b"
  by (simp add: same_bytes_def vtrunc_def)

lemma ifs1_0_unused: "blk_id j \<Longrightarrow> raw_used (vblock 0x2000000 (dk ifs1_0) j) = 0"
  by (simp add: ifs1_0_def raw_used_def rd32_def disks1_def disks0_def DskInit_def is_vdisk_def add_disk_def MAX_DISK_COUNT_def
      VdskInit_def vd_alloc_def vd_zero_def VDISK_BUFFER_SIZE_def VDISK_SECTORS_def VDISK_SECTOR_SIZE_def vblock_def blk_id_def)

lemma tree0_blocks:
  defines "V \<equiv> vblock 0x2000000 (dk tree0)"
  shows "is_dir V 10" "raw_type (V 11) = BLOCK_TYPE_FILE" "file_name (V 11) = Some ''xy''"
    "blockid (V 10) 0 = 11" "\<lbrakk>0 < ui; ui < 16128\<rbrakk> \<Longrightarrow> blockid (V 10) ui = INVALID_BLOCK_ID" "is_dir V d \<longleftrightarrow> d = 10"
proof -
  have V: "V 10 = vtrunc root_buf" "V 11 = vtrunc xy_buf"
    using tree0 by (simp_all add: V_def)
  have raw: "raw_used (V 10) = 1" "raw_type (V 10) = BLOCK_TYPE_DIR" "raw_type (V 11) = BLOCK_TYPE_FILE"
    using same_bytes_raw [OF same_bytes_vtrunc] by (simp_all add: V raw_used_def raw_type_def root_buf_def xy_buf_def)
  then show "is_dir V 10" "raw_type (V 11) = BLOCK_TYPE_FILE"
    by (simp_all add: is_dir_def blk_id_def)
  show "file_name (V 11) = Some ''xy''"
    unfolding V using same_bytes_names [OF same_bytes_vtrunc, of xy_buf]
    by (simp add: file_name_def) (rule cstr_at_string; auto simp: zero_buf_def xy_buf_def wr32_def wr_bytes_at less_Suc_eq)
  have id: "blockid (V 10) ui = (11 # replicate 16127 INVALID_BLOCK_ID) ! ui" if "ui < 16128" for ui
    unfolding V same_bytes_id [OF same_bytes_vtrunc that] using that
    by (simp add: blockid_def root_buf_def)
  show "blockid (V 10) 0 = 11" "\<lbrakk>0 < ui; ui < 16128\<rbrakk> \<Longrightarrow> blockid (V 10) ui = INVALID_BLOCK_ID"
    using id [of ui] id [of 0] by (simp_all add: nth_Cons')
  have "\<not> is_dir V 11"
    using raw(3) by (simp add: is_dir_def types)
  moreover have "\<not> is_dir V d" if "d \<noteq> 10" "d \<noteq> 11"
    using ifs1_0_unused [of d] tree0(4) [OF that] by (auto simp: is_dir_def V_def)
  ultimately show "is_dir V d \<longleftrightarrow> d = 10"
    using \<open>is_dir V 10\<close> by blast
qed

lemma tree0_tree:
  defines "V \<equiv> vblock 0x2000000 (dk tree0)"
  shows "good_tree V" "subfile V 10 ''xy'' = Some 11" "subdir V 10 ''x'' = None"
proof -
  note b = tree0_blocks [folded V_def]
  have ui: "blockid (V 10) ui = (if ui = 0 then 11 else INVALID_BLOCK_ID)" if "ui < 16128" for ui
    using b(4,5) that by (cases "ui = 0") simp_all
  have "good_entry V 11"
    using b(2,3) by (simp add: good_entry_def blk_id_def)
  then show "good_tree V"
    using b(6) ui by (auto simp: good_tree_def)
  have f: "file_named V ''xy'' (blockid (V 10) 0)"
    using b(2-4) by (simp add: file_named_def INVALID_BLOCK_ID_def)
  have "first_index (\<lambda>ui. file_named V ''xy'' (blockid (V 10) ui)) 0 16128 = Some 0"
    using f by (subst first_index_step) simp
  then show "subfile V 10 ''xy'' = Some 11"
    using b(4) by (simp add: subfile_def)
  have "\<not> dir_named V ''x'' (blockid (V 10) ui)" if "ui < 16128" for ui
    using ui [OF that] b(2) by (auto simp: dir_named_def types)
  then have "first_index (\<lambda>ui. dir_named V ''x'' (blockid (V 10) ui)) 0 16128 = None"
    using first_index_SomeD not_None_eq by (metis (no_types, lifting))
  then show "subdir V 10 ''x'' = None"
    by (simp add: subdir_def)
qed

lemma xy_comp: "path_comp ''xy''"
  by (simp add: path_comp_def)

section \<open>Properties\<close>

text \<open>C32: \<open>Ifs1ParsePath\<close> on a RAM disk without links: a path of directories that exist leads to the
  block of the last one when it ends with a slash, and else to the first file of that directory
  with the name after the last slash, or to \<open>INVALID_BLOCK_ID\<close> when there is none; one level of
  calls suffices.\<close>

theorem ifs1_parse_resolves:
  assumes "vd_at symb a (dk s)" "V = vblock a (dk s)" "good_tree V" "is_dir V START_BLOCK_ID"
    "\<forall>c \<in> set cs. c \<noteq> [] \<and> path_comp c" "path_comp f" "walk V START_BLOCK_ID cs = Some d"
  shows "\<exists>e. Ifs1ParsePath (Suc n) drv (Some (symb @ '':/'' @ concat (map (\<lambda>c. c @ ''/'') cs) @ f)) sy ty s =
      Some (if f = [] then (d, symb, BLOCK_TYPE_DIR)
            else (case subfile V d f of None \<Rightarrow> (INVALID_BLOCK_ID, sy, BLOCK_TYPE_FILE) | Some i \<Rightarrow> (i, symb, BLOCK_TYPE_FILE)),
        s\<lparr>dk := e\<rparr>) \<and> kept (dk s) e"
proof -
  let ?rec = "\<lambda>link symb ty. Ifs1ParsePathEx n drv (Some link) symb ty False"
  obtain e where e: "parse_loop ?rec drv False 4 symb [] True START_BLOCK_ID sy BLOCK_TYPE_DIR (concat (map (\<lambda>c. c @ ''/'') cs) @ f) s =
      parse_loop ?rec drv False 4 symb [] True d sy BLOCK_TYPE_DIR f (s\<lparr>dk := e\<rparr>)" "kept (dk s) e" "is_dir V d"
    using parse_walk [of symb a s START_BLOCK_ID cs d] assms(1,3,4,5,7) unfolding assms(2) by blast
  have p: "Ifs1ParsePath (Suc n) drv (Some (symb @ '':/'' @ concat (map (\<lambda>c. c @ ''/'') cs) @ f)) sy ty s =
      parse_loop ?rec drv False 4 symb [] True d sy BLOCK_TYPE_DIR f (s\<lparr>dk := e\<rparr>)"
    using parse_root [OF assms(1)] e(1) by metis
  have v: "vblock a (dk (s\<lparr>dk := e\<rparr>)) = V" "vd_at symb a (dk (s\<lparr>dk := e\<rparr>))"
    using kept_at [OF e(2)] assms(1,2) by simp_all
  show ?thesis
  proof (cases "f = []")
    case True
    then show ?thesis
      using p e(2) by (intro exI [of _ e]) (simp add: parse_end_def)
  next
    case False
    have "parse_loop ?rec drv False 4 symb [] True d sy BLOCK_TYPE_DIR f (s\<lparr>dk := e\<rparr>) =
        parse_loop ?rec drv False 4 symb f False d sy BLOCK_TYPE_DIR [] (s\<lparr>dk := e\<rparr>)"
      using parse_name [of f "[]" ?rec drv False symb True d sy BLOCK_TYPE_DIR "[]" "s\<lparr>dk := e\<rparr>"] assms(6) False by (simp add: path_comp_def)
    moreover obtain e' where "parse_loop ?rec drv False 4 symb f False d sy BLOCK_TYPE_DIR [] (s\<lparr>dk := e\<rparr>) =
        Some (case subfile V d f of None \<Rightarrow> (INVALID_BLOCK_ID, sy, BLOCK_TYPE_FILE) | Some i \<Rightarrow> (i, symb, BLOCK_TYPE_FILE),
          s\<lparr>dk := e, dk := e'\<rparr>)" "kept e e'"
      using parse_file [OF v(2) _ _ False, of d ?rec drv False sy BLOCK_TYPE_DIR] assms(3) e(3) unfolding v(1) by auto
    ultimately show ?thesis
      using p False kept_trans [OF e(2)] by (intro exI [of _ e']) simp
  qed
qed

theorem ifs1_parse_resolves_witness:
  "\<exists>s'. Ifs1ParsePath 1 no_hw (Some ''VA:/xy'') ''VB'' 0 tree0 = Some ((11, ''VA'', BLOCK_TYPE_FILE), s')"
  using ifs1_parse_resolves [OF tree0(1) refl tree0_tree(1) _ _ xy_comp, of "[]" 10 0 no_hw "''VB''" 0] tree0_blocks(1) tree0_tree(2)
  by (auto simp: START_BLOCK_ID_def)

text \<open>A directory that does not exist is not reported: its name becomes a prefix of the next one.  On
  a RAM disk without links, whose root has no directory \<open>c\<close>, the path of the file \<open>x\<close> in \<open>c\<close>
  leads to the file whose name is \<open>c\<close> followed by \<open>x\<close> in the root.\<close>

theorem ifs1_missing_dir_glued:
  assumes "vd_at symb a (dk s)" "V = vblock a (dk s)" "good_tree V" "is_dir V START_BLOCK_ID" "subdir V START_BLOCK_ID c = None"
    "c \<noteq> []" "path_comp (c @ x)" "subfile V START_BLOCK_ID (c @ x) = Some i"
  shows "\<exists>e. Ifs1ParsePath (Suc n) drv (Some (symb @ '':/'' @ c @ ''/'' @ x)) sy ty s = Some ((i, symb, BLOCK_TYPE_FILE), s\<lparr>dk := e\<rparr>)"
proof -
  let ?rec = "\<lambda>link symb ty. Ifs1ParsePathEx n drv (Some link) symb ty False"
  have c: "CHR ''/'' \<notin> set c" "CHR ''/'' \<notin> set x" "length (c @ x) \<le> 255"
    using assms(7) by (auto simp: path_comp_def)
  obtain e where e: "parse_loop ?rec drv False 4 symb c False START_BLOCK_ID sy BLOCK_TYPE_DIR (CHR ''/'' # x) s =
      parse_loop ?rec drv False 4 symb c False START_BLOCK_ID sy BLOCK_TYPE_DIR x (s\<lparr>dk := e\<rparr>)" "kept (dk s) e"
    using parse_slash [of symb a s START_BLOCK_ID c ?rec drv False False sy BLOCK_TYPE_DIR x] assms(1,3,4,5,6) unfolding assms(2) by auto
  have v: "vblock a (dk (s\<lparr>dk := e\<rparr>)) = V" "vd_at symb a (dk (s\<lparr>dk := e\<rparr>))"
    using kept_at [OF e(2)] assms(1,2) by simp_all
  have "parse_loop ?rec drv False 4 symb [] True START_BLOCK_ID sy BLOCK_TYPE_DIR (c @ CHR ''/'' # x) s =
      parse_loop ?rec drv False 4 symb c False START_BLOCK_ID sy BLOCK_TYPE_DIR x (s\<lparr>dk := e\<rparr>)"
    using parse_name [of c "[]" ?rec drv False symb True START_BLOCK_ID sy BLOCK_TYPE_DIR "CHR ''/'' # x" s] c assms(6) e(1) by simp
  also have "\<dots> = parse_loop ?rec drv False 4 symb (c @ x) False START_BLOCK_ID sy BLOCK_TYPE_DIR [] (s\<lparr>dk := e\<rparr>)"
    using parse_name [of x c ?rec drv False symb False START_BLOCK_ID sy BLOCK_TYPE_DIR "[]" "s\<lparr>dk := e\<rparr>"] c by simp
  finally have p: "Ifs1ParsePath (Suc n) drv (Some (symb @ '':/'' @ c @ ''/'' @ x)) sy ty s =
      parse_loop ?rec drv False 4 symb (c @ x) False START_BLOCK_ID sy BLOCK_TYPE_DIR [] (s\<lparr>dk := e\<rparr>)"
    using parse_root [OF assms(1), of n drv "c @ ''/'' @ x"] by simp
  show ?thesis
    using p parse_file [OF v(2), of START_BLOCK_ID "c @ x" ?rec drv False sy BLOCK_TYPE_DIR] assms(3,4,6,8) unfolding v(1) by auto
qed

theorem ifs1_missing_dir_glued_witness:
  "\<exists>s'. Ifs1ParsePath 1 no_hw (Some ''VA:/x/y'') ''VB'' 0 tree0 = Some ((11, ''VA'', BLOCK_TYPE_FILE), s')"
  using ifs1_missing_dir_glued [OF tree0(1) refl tree0_tree(1), of "''x''" "''y''" 11 0 no_hw "''VB''" 0] tree0_blocks(1) tree0_tree(2,3) xy_comp
  by (auto simp: START_BLOCK_ID_def)

end
