(* ===== verification/Ifs1_File_Props.thy ===== *)
theory Ifs1_File_Props
  imports Ifs1_Append_Proofs Ifs1_Resolve_Proofs
begin

text \<open>
  The properties of the open files of \<^verbatim>\<open>kernel/fs/ifs1/fs.c\<close>, over a RAM disk: what is appended is
  read back, the read buffer does not change what is read, and two operations that lose blocks or
  data.
\<close>

section \<open>A sample file\<close>

text \<open>A file with the one byte 9, open for reading, writing and appending: its block is block 10 of VA,
  its data block is block 11, and the allocation table is empty.\<close>

definition fo1 :: file_object where
  "fo1 = \<lparr>fo_symbol = ''VA'', fo_file_block_id = 10,
     fo_file_block = \<lparr>fb_used = 1, fb_type = BLOCK_TYPE_FILE, fb_length = 1, fb_filename = replicate 256 NUL,
       fb_create = rd_dt zero_buf 0, fb_change = rd_dt zero_buf 0, fb_lock = 1, fb_reserve = replicate 736 0,
       fb_blockids = 11 # replicate 16127 INVALID_BLOCK_ID\<rparr>,
     fo_mode = 7, fo_next_block_index = 0, fo_next_block_pos = 0, fo_read_buffer_was_enabled = False,
     fo_read_buffer_is_valid = False, fo_read_buffer_block_index = 0, fo_read_buffer = zero_buf,
     fo_append_buffer_was_enabled = False, fo_append_count = 0, fo_append_bytes = replicate 65492 0, fo_addr = 1, fo_block_addr = 2\<rparr>"

definition data9 :: buf where
  "data9 = wr32 8 1 (\<lambda>_. 9)"

definition ifs1_2 :: "unit ifs1" where
  "ifs1_2 = snd (the (Ifs1SetBlock no_hw (Some ''VA'') 11 (Some data9)
     (snd (the (Ifs1SetBlock no_hw (Some ''VA'') 10 (Some (\<lambda>_. 1)) ifs1_0)))))"

lemma ifs1_2: "bat_inv ''VA'' 0x2000000 [] [] ifs1_2" "block_used (vblock 0x2000000 (dk ifs1_2) 10)"
  "vblock 0x2000000 (dk ifs1_2) 11 = vtrunc data9" "\<exists>d. ifs1_2 = ifs1_0\<lparr>dk := d\<rparr>"
proof -
  have at: "vd_at ''VA'' 0x2000000 (dk ifs1_0)" and id: "blk_id 10" "blk_id 11"
    using ifs1_0 by (simp_all add: bat_inv_def blk_id_def)
  obtain d where d: "Ifs1SetBlock no_hw (Some ''VA'') 10 (Some (\<lambda>_. 1)) ifs1_0 = Some (True, ifs1_0\<lparr>dk := d\<rparr>)"
    "stored 0x2000000 10 (\<lambda>_. 1) (dk ifs1_0) d"
    using set_block_stored [OF at id(1)] by blast
  have at': "vd_at ''VA'' 0x2000000 (dk (ifs1_0\<lparr>dk := d\<rparr>))"
    using stored_at [OF d(2)] at by simp
  obtain e where e: "Ifs1SetBlock no_hw (Some ''VA'') 11 (Some data9) (ifs1_0\<lparr>dk := d\<rparr>) = Some (True, ifs1_0\<lparr>dk := e\<rparr>)"
    "stored 0x2000000 11 data9 d e"
    using set_block_stored [OF at' id(2), of no_hw data9] by auto
  have s: "ifs1_2 = ifs1_0\<lparr>dk := e\<rparr>"
    using d(1) e(1) by (simp add: ifs1_2_def)
  then show "\<exists>d. ifs1_2 = ifs1_0\<lparr>dk := d\<rparr>"
    by blast
  have "vd_at ''VA'' 0x2000000 e"
    using stored_at [OF e(2)] at' by simp
  then show "bat_inv ''VA'' 0x2000000 [] [] ifs1_2"
    using ifs1_0 by (simp add: s bat_inv_def)
  show "vblock 0x2000000 (dk ifs1_2) 11 = vtrunc data9"
    using e(2) by (simp add: s stored_def)
  have "vblock 0x2000000 e 10 = vtrunc (\<lambda>_. 1)"
    using d(2) e(2) by (simp add: stored_def)
  then show "block_used (vblock 0x2000000 (dk ifs1_2) 10)"
    by (simp add: s block_used_def vtrunc_def)
qed

lemma ifs1_2_on: "read_buffer_on ifs1_2 = False" "append_buffer_on ifs1_2 = False" "stk ifs1_2 = (\<lambda>_. 5)"
proof -
  obtain d where d: "ifs1_2 = ifs1_0\<lparr>dk := d\<rparr>"
    using ifs1_2(4) by blast
  show "read_buffer_on ifs1_2 = False" "append_buffer_on ifs1_2 = False" "stk ifs1_2 = (\<lambda>_. 5)"
    unfolding d by (simp_all add: ifs1_0_def)
qed

lemma fo1_fields: "fids fo1 = 11 # replicate 16127 INVALID_BLOCK_ID" "flen fo1 = 1" "fo_file_block_id fo1 = 10" "fo_mode fo1 = 7"
  "fo_symbol fo1 = ''VA''" "fo_read_buffer_is_valid fo1 = False" "fpos fo1 = 0" "fo_next_block_pos fo1 = 0"
  by (simp_all add: fo1_def fids_def fpos_def)

lemma data9_has: "block_has data9 0 [9]"
  by (auto simp: data9_def block_has_def block_used_def wr32_data) (auto simp: wr32_def)

lemma fo1_rep: "file_rep ''VA'' 0x2000000 ifs1_2 fo1 [9]"
proof -
  have "data_at (vblock 0x2000000 (dk ifs1_2)) 11 0 [9]"
    using data9_has by (simp add: data_at_has ifs1_2(3) block_has_vtrunc blk_id_def)
  moreover have "vd_at ''VA'' 0x2000000 (dk ifs1_2)"
    using ifs1_2(1) by (simp add: bat_inv_def)
  ultimately have "contents ''VA'' 0x2000000 (dk ifs1_2) fo1 [9]"
    by (auto simp: contents_def fo1_fields nth_Cons')
  moreover have "10 \<notin> set (fids fo1)"
    by (simp add: fo1_fields INVALID_BLOCK_ID_def)
  ultimately show ?thesis
    using ifs1_2(1,2) by (auto simp: file_rep_def fo1_fields blk_id_def) (simp_all add: fo1_def)
qed

lemma fo1_modes: "fo_mode fo1 AND FILE_MODE_APPEND \<noteq> 0" "fo_mode fo1 AND FILE_MODE_READ \<noteq> 0" "fo_mode fo1 AND FILE_MODE_WRITE \<noteq> 0"
  by (simp_all add: fo1_fields FILE_MODE_APPEND_def FILE_MODE_READ_def FILE_MODE_WRITE_def)

section \<open>Properties\<close>

text \<open>C29: Appending with the append buffer off (\<open>EnableAppendBuffer\<close> false), on a RAM disk whose table of unused
  blocks lists unused blocks only and none of them twice, at least one byte, and at most as many as the data blocks
  of a file still hold (1056254976 bytes in all), to a file opened for appending and stored correctly: the file has its old
  contents followed by the new bytes, the file block on the disk is that of the open file, and no block
  in use of any other file has changed; or the append fails, and then the disk has no unused block
  left.  Right after \<open>Ifs1Format\<close> the table does not meet this condition.\<close>

theorem ifs1_append_contents:
  assumes "file_rep symb a s f xs" "ys \<noteq> []" "length xs + length ys \<le> 1056254976" "fo_mode f AND FILE_MODE_APPEND \<noteq> 0"
    "append_buffer_on s = False"
  shows "\<exists>ok f' s'. Ifs1AppendFile drv dt f ys s = Some (ok, f', s') \<and>
    (if ok then file_rep symb a s' f' (xs @ ys) \<and> file_of_raw (vblock a (dk s') (fo_file_block_id f')) = fo_file_block f'
     else \<forall>j. blk_id j \<longrightarrow> block_used (vblock a (dk s') j)) \<and>
    (\<forall>j. block_used (vblock a (dk s) j) \<and> j \<notin> set (fids f) \<and> j \<noteq> fo_file_block_id f \<longrightarrow>
       vblock a (dk s') j = vblock a (dk s) j)"
proof -
  obtain ok f' s' where r: "AppendFile_plain drv dt f ys s = Some (ok, f', s')"
    "if ok then file_rep symb a s' f' (xs @ ys) \<and> file_of_raw (vblock a (dk s') (fo_file_block_id f')) = fo_file_block f' \<and>
       fo_file_block_id f' = fo_file_block_id f \<and> fo_mode f' = fo_mode f \<and>
       (fo_mode f AND FILE_MODE_READ \<noteq> 0 \<longrightarrow> \<not> fo_read_buffer_is_valid f')
     else \<forall>j. blk_id j \<longrightarrow> block_used (vblock a (dk s') j)"
    "\<forall>j \<in> others a s f. j \<noteq> fo_file_block_id f \<longrightarrow> vblock a (dk s') j = vblock a (dk s) j"
    using append_spec [OF assms(1-4), of drv dt] by blast
  show ?thesis
    using assms(5) r by (intro exI [of _ ok] exI [of _ f'] exI [of _ s']) (auto simp: Ifs1AppendFile_def others_def)
qed

theorem ifs1_append_contents_witness:
  "\<exists>ok f' s'. Ifs1AppendFile no_hw (rd_dt zero_buf 0) fo1 [7, 8] ifs1_2 = Some (ok, f', s') \<and>
     (ok \<longrightarrow> file_rep ''VA'' 0x2000000 s' f' [9, 7, 8])"
  using ifs1_append_contents [OF fo1_rep _ _ fo1_modes(1) ifs1_2_on(2), of "[7, 8]" no_hw "rd_dt zero_buf 0"] by auto



text \<open>C31: What has been appended with the append buffer off (\<open>EnableAppendBuffer\<close> false, it is true in the
  configuration that comes with the system) is read back: after an append of at least one byte that
  succeeded, to a file opened for appending and reading, stored correctly and not longer than 1056254976 bytes
  afterwards, on a RAM disk whose table of unused blocks lists unused blocks only and none of them twice, reading from
  the start gives the old contents followed by the bytes appended.\<close>

theorem ifs1_append_read:
  assumes "file_rep symb a s f xs" "ys \<noteq> []" "length xs + length ys \<le> 1056254976" "fo_mode f AND FILE_MODE_APPEND \<noteq> 0"
    "fo_mode f AND FILE_MODE_READ \<noteq> 0" "append_buffer_on s = False" "Ifs1AppendFile drv dt f ys s = Some (True, f', s')"
  shows "\<exists>f'' s''. Ifs1ReadFile drv (Ifs1ResetFile f') (of_nat (length xs + length ys)) s' = Some (xs @ ys, f'', s'')"
proof -
  have "AppendFile_plain drv dt f ys s = Some (True, f', s')"
    using assms(6,7) by (simp add: Ifs1AppendFile_def)
  then have f': "file_rep symb a s' f' (xs @ ys)" "fo_mode f' = fo_mode f" "\<not> fo_read_buffer_is_valid f'"
    using append_spec [OF assms(1-4), of drv dt] assms(5) by auto
  let ?f = "Ifs1ResetFile f'"
  have same: "same_file ?f f'" "fpos ?f = 0" "fo_next_block_pos ?f = 0" "fo_mode ?f = fo_mode f" "buffer_ok a s' ?f"
    using f'(2,3) by (simp_all add: Ifs1ResetFile_def same_file_def fpos_def buffer_ok_def)
  have con: "contents symb a (dk s') ?f (xs @ ys)"
    using contents_cong [OF _ same(1) kept_refl] f'(1) by (auto simp: file_rep_def)
  have len: "unat (of_nat (length xs + length ys) :: u32) = length (xs @ ys)"
    using assms(3) unat_of_nat32 [of "length xs + length ys"] by simp
  have ne: "(of_nat (length xs + length ys) :: u32) \<noteq> 0"
  proof
    assume "(of_nat (length xs + length ys) :: u32) = 0"
    then show False
      using len assms(2) by simp
  qed
  have pos: "fpos ?f < length (xs @ ys)" "unat (fo_next_block_pos ?f) < L" "fo_mode ?f AND FILE_MODE_READ \<noteq> 0"
    using assms(2,5) same(2-4) by auto
  show ?thesis
  proof (cases "read_buffer_on s'")
    case True
    then show ?thesis
      using read_buffer.read_file_spec [OF con same(5) pos ne, of drv] len same(2) by (auto simp: Ifs1ReadFile_def)
  next
    case False
    then show ?thesis
      using local_block.read_file_spec [OF con TrueI pos ne, of drv] len same(2) by (auto simp: Ifs1ReadFile_def)
  qed
qed

lemma fo1_append: "\<exists>f' s'. Ifs1AppendFile no_hw (rd_dt zero_buf 0) fo1 [7] ifs1_2 = Some (True, f', s')"
proof -
  have at: "vd_at ''VA'' 0x2000000 (dk ifs1_2)" and id: "blk_id 10" "blk_id 11"
    using ifs1_2(1) by (simp_all add: bat_inv_def blk_id_def)
  obtain d b where b: "Ifs1GetBlock no_hw (Some ''VA'') 11 (Some (stk ifs1_2)) ifs1_2 = Some (True, Some b, ifs1_2\<lparr>dk := d\<rparr>)"
    "same_bytes b (vblock 0x2000000 (dk ifs1_2) 11)" "same_disks d (dk ifs1_2)"
    using get_block [OF at id(2)] by blast
  have "block_has b 0 [9]"
    using block_has_cong [OF b(2), of 0 "[9]"] data9_has by (simp add: ifs1_2(3) block_has_vtrunc)
  note put = block_has_put(2) [OF this, of 7]
  have w: "flen fo1 div DATA_LEN = 0" "flen fo1 mod DATA_LEN = 1" "(1 :: u32) + 1 \<noteq> DATA_LEN" "\<not> 1 + (1 :: u32) > MAX_FILE_LEN"
    by (simp_all add: fo1_fields DATA_LEN_def MAX_FILE_LEN_def)
  have first: "append_first no_hw fo1 ifs1_2 = Some (True, stk ifs1_2, fo1, ifs1_2)"
    by (simp add: append_first_def w Let_def)
  have gid: "get_id fo1 0 = Some 11"
    by (simp add: get_id_def lens fids_def [symmetric] fo1_fields)
  obtain ap where ap: "append_loop no_hw [7] \<lparr>ap_block = b, ap_block_index = 0, ap_cblock_index = 0, ap_block_pos = 1,
      ap_is_save = False, ap_is_next = False\<rparr> fo1 (ifs1_2\<lparr>dk := d\<rparr>) = Some (Some ap, fo1, ifs1_2\<lparr>dk := d\<rparr>)"
    "\<not> ap_is_save ap" "\<not> ap_is_next ap" "ap_cblock_index ap = 0"
    using put w(3) by (simp add: append_save_def append_put_def lens Let_def)
  have at2: "vd_at ''VA'' 0x2000000 (dk (ifs1_2\<lparr>dk := d\<rparr>))"
    using vd_at_cong [OF b(3)] at by simp
  obtain e where e: "Ifs1SetBlock no_hw (Some ''VA'') 11 (Some (ap_block ap)) (ifs1_2\<lparr>dk := d\<rparr>) = Some (True, ifs1_2\<lparr>dk := e\<rparr>)"
    "stored 0x2000000 11 (ap_block ap) d e"
    using set_block_stored [OF at2 id(2), of no_hw "ap_block ap"] by auto
  have last: "append_last no_hw ap fo1 (ifs1_2\<lparr>dk := d\<rparr>) = Some (True, fo1, ifs1_2\<lparr>dk := e\<rparr>)"
    using ap(2-4) gid e(1) by (simp add: append_last_def fo1_fields INVALID_BLOCK_ID_def)
  have at3: "vd_at ''VA'' 0x2000000 (dk (ifs1_2\<lparr>dk := e\<rparr>))"
    using stored_at [OF e(2)] at2 by simp
  define g where "g = changed (rd_dt zero_buf 0) (fo1\<lparr>fo_file_block := (fo_file_block fo1)\<lparr>fb_length := 1 + 1\<rparr>\<rparr>)"
  have g: "fo_symbol g = ''VA''" "fo_file_block_id g = 10"
    by (simp_all add: g_def changed_def Let_def fo1_fields)
  obtain s' where "set_file_block no_hw g (ifs1_2\<lparr>dk := e\<rparr>) = Some (True, s')"
    using set_block_stored [OF at3 id(1), of no_hw "file_raw (fo_file_block g)"] by (auto simp: set_file_block_def g)
  then have "AppendFile_plain no_hw (rd_dt zero_buf 0) fo1 [7] ifs1_2 = Some (True, g, s')"
    using first w gid b(1) ap(1) last fo1_modes(1) by (simp add: AppendFile_plain_def Let_def fo1_fields g_def)
  then show ?thesis
    using ifs1_2_on(2) by (simp add: Ifs1AppendFile_def)
qed

theorem ifs1_append_read_witness:
  "\<exists>f' s' f'' s''. Ifs1AppendFile no_hw (rd_dt zero_buf 0) fo1 [7] ifs1_2 = Some (True, f', s') \<and>
     Ifs1ReadFile no_hw (Ifs1ResetFile f') 2 s' = Some ([9, 7], f'', s'')"
proof -
  obtain f' s' where r: "Ifs1AppendFile no_hw (rd_dt zero_buf 0) fo1 [7] ifs1_2 = Some (True, f', s')"
    using fo1_append by blast
  from ifs1_append_read [OF fo1_rep _ _ fo1_modes(1,2) ifs1_2_on(2) r] show ?thesis
    using r by auto
qed

section \<open>Blocks and data that are lost\<close>

text \<open>Deleting a file marks its file block unused and changes nothing else: its data blocks stay in
  use, though no file leads to them, and its own block is not entered in the allocation table.\<close>

theorem ifs1_delete_file_leaks:
  assumes "bat_inv symb a ps ids s" "blk_id i" "DeleteFile_in drv (Some symb) i s = Some (True, s')"
  shows "\<not> block_used (vblock a (dk s') i) \<and> (\<forall>j. j \<noteq> i \<longrightarrow> vblock a (dk s') j = vblock a (dk s) j) \<and> bat symb ps ids s'"
proof -
  have at: "vd_at symb a (dk s)" and t: "bat symb ps ids s"
    using assms(1) by (simp_all add: bat_inv_def)
  obtain b d where b: "load_block drv (Some symb) i BLOCK_TYPE_FILE s =
      Some (if raw_used (vblock a (dk s) i) = 0 \<or> raw_type (vblock a (dk s) i) \<noteq> BLOCK_TYPE_FILE then None else Some b, s\<lparr>dk := d\<rparr>)"
    "kept (dk s) d"
    using load_block_spec [OF at assms(2)] by blast
  have set: "Ifs1SetBlock drv (Some symb) i (Some (wr32 0 0 b)) (s\<lparr>dk := d\<rparr>) = Some (True, s')"
    using assms(3) b(1) by (auto simp: DeleteFile_in_def split: if_splits)
  have at': "vd_at symb a (dk (s\<lparr>dk := d\<rparr>))"
    using kept_at(1) [OF b(2)] at by simp
  from set_block_stored [OF at' assms(2), of drv "wr32 0 0 b"] set obtain e where
    e: "s' = s\<lparr>dk := e\<rparr>" "stored a i (wr32 0 0 b) d e"
    by auto
  have "stored a i (wr32 0 0 b) (dk s) e"
    using kept_stored [OF b(2) e(2)] .
  then have v: "vblock a e i = vtrunc (wr32 0 0 b)" "\<forall>j. j \<noteq> i \<longrightarrow> vblock a e j = vblock a (dk s) j"
    by (simp_all add: stored_def)
  have "\<not> block_used (vblock a e i)"
    unfolding v(1) block_used_vtrunc by (simp add: block_used_rd32)
  then show ?thesis
    using v(2) t by (simp add: e(1))
qed

text \<open>The file block of the sample file, unlocked.\<close>

definition ifs1_3 :: "unit ifs1" where
  "ifs1_3 = snd (the (Ifs1SetBlock no_hw (Some ''VA'') 10 (Some (wr32 284 0 (wr32 4 1 (\<lambda>_. 1)))) ifs1_0))"

theorem ifs1_delete_file_leaks_witness:
  "\<exists>s'. DeleteFile_in no_hw (Some ''VA'') 10 ifs1_3 = Some (True, s') \<and> bat ''VA'' [] [] s'"
proof -
  let ?b = "wr32 284 0 (wr32 4 1 (\<lambda>_. 1))"
  have at: "vd_at ''VA'' 0x2000000 (dk ifs1_0)" and id: "blk_id 10"
    using ifs1_0 by (simp_all add: bat_inv_def blk_id_def)
  obtain d where d: "Ifs1SetBlock no_hw (Some ''VA'') 10 (Some ?b) ifs1_0 = Some (True, ifs1_0\<lparr>dk := d\<rparr>)"
    "stored 0x2000000 10 ?b (dk ifs1_0) d"
    using set_block_stored [OF at id, of no_hw ?b] by blast
  have s: "ifs1_3 = ifs1_0\<lparr>dk := d\<rparr>" "vblock 0x2000000 d 10 = vtrunc ?b" "vd_at ''VA'' 0x2000000 d"
    using d stored_at [OF d(2)] at by (simp_all add: ifs1_3_def stored_def)
  have inv: "bat_inv ''VA'' 0x2000000 [] [] ifs1_3"
    using ifs1_0 s(3) unfolding s(1) bat_inv_def by simp
  have at3: "vd_at ''VA'' 0x2000000 (dk ifs1_3)" and dk3: "dk ifs1_3 = d"
    using s(3) unfolding s(1) by simp_all
  have tr: "same_bytes (vtrunc ?b) ?b"
    by (simp add: same_bytes_def vtrunc_def)
  have "rd32 (\<lambda>_. 1) 0 \<noteq> 0"
    by (simp add: rd32_bytes byte32_def) (metis zero_less_numeral)
  then have raw: "raw_used (vtrunc ?b) \<noteq> 0" "raw_type (vtrunc ?b) = BLOCK_TYPE_FILE" "rd32 (vtrunc ?b) 284 = 0"
    using same_bytes_rd32 [OF tr] by (simp_all add: raw_used_def raw_type_def BLOCK_TYPE_FILE_def)
  obtain b e where b: "load_block no_hw (Some ''VA'') 10 BLOCK_TYPE_FILE ifs1_3 = Some (Some b, ifs1_3\<lparr>dk := e\<rparr>)"
    "same_bytes b (vtrunc ?b)" "kept d e"
    using load_block_spec [OF at3 id, of no_hw BLOCK_TYPE_FILE] raw s(2) unfolding dk3 by auto
  have "rd32 b FILE_LOCK_OFFSET = 0"
    using same_bytes_rd32 [OF b(2), of 284] raw(3) by (simp add: FILE_LOCK_OFFSET_def)
  moreover have "vd_at ''VA'' 0x2000000 (dk (ifs1_3\<lparr>dk := e\<rparr>))"
    using kept_at(1) [OF b(3)] s(3) by simp
  then obtain s' where "Ifs1SetBlock no_hw (Some ''VA'') 10 (Some (wr32 0 0 b)) (ifs1_3\<lparr>dk := e\<rparr>) = Some (True, s')"
    using set_block_stored [OF _ id] by blast
  ultimately have del: "DeleteFile_in no_hw (Some ''VA'') 10 ifs1_3 = Some (True, s')"
    using b(1) by (simp add: DeleteFile_in_def)
  from ifs1_delete_file_leaks [OF inv id this] del show ?thesis
    by blast
qed





end
