(* ===== verification/Paging.thy ===== *)
theory Paging
  imports Memory
begin

text \<open>
  \<^verbatim>\<open>kernel/paging.c\<close>: page directories and page tables.  A block of page tables is an array
  of 32-bit items at the address \<open>cr3\<close>: 1024 items of the directory, then 1024 times 1024 items
  of the tables.  The store \<open>pts\<close> has one such array for each \<open>cr3\<close>.  The public functions only
  put the interrupt lock around the ones below.
\<close>

section \<open>State\<close>

type_synonym pt = "nat \<Rightarrow> u32"

record paging =
  pg_mem :: mem_state
  pts :: "u32 \<Rightarrow> pt"
  kernel_cr3 :: u32
  kernel_pagedt :: u32
  kernel_tss_cr3 :: u32
  cr3_register :: u32
  cr0_register :: u32

definition TABLE_ITEM_COUNT :: nat where "TABLE_ITEM_COUNT = 1024"
definition US_USER :: u32 where "US_USER = 1"
definition RW_RWE :: u32 where "RW_RWE = 1"
definition RW_RE :: u32 where "RW_RE = 0"
definition P_VALID :: u32 where "P_VALID = 1"
definition P_INVALID :: u32 where "P_INVALID = 0"

definition table_item :: "u32 \<Rightarrow> u32 \<Rightarrow> u32 \<Rightarrow> u32 \<Rightarrow> u32 \<Rightarrow> u32 \<Rightarrow> u32" where
  "table_item address d a us rw p =
     (push_bit 12 address AND 0xfffff000) OR push_bit 6 d OR push_bit 5 a OR push_bit 2 us OR push_bit 1 rw OR p"

text \<open>The index of the item of page \<open>page_index\<close> of table \<open>dir_index\<close>.\<close>

definition pte_index :: "nat \<Rightarrow> nat \<Rightarrow> nat" where
  "pte_index dir_index page_index = TABLE_ITEM_COUNT + dir_index * TABLE_ITEM_COUNT + page_index"

definition page_count :: "u32 \<Rightarrow> nat" where
  "page_count len =
     (if len div 4096 \<noteq> 0 then unat (len div 4096) + (if len mod 4096 \<noteq> 0 then 1 else 0)
      else if len \<noteq> 0 then 1 else 0)"

section \<open>Operations\<close>

text \<open>The two loops that fill a block of tables; the tables' items have the bit \<open>p\<close>.\<close>

definition fill_tables :: "u32 \<Rightarrow> u32 \<Rightarrow> pt \<Rightarrow> pt" where
  "fill_tables cr3 p t = (\<lambda>i.
     if i < TABLE_ITEM_COUNT
     then table_item (drop_bit 12 (cr3 + 4096 + of_nat i * 4096) AND 0x000fffff) 0 0 US_USER RW_RWE P_VALID
     else if i < TABLE_ITEM_COUNT + TABLE_ITEM_COUNT * TABLE_ITEM_COUNT
     then table_item (of_nat (i - TABLE_ITEM_COUNT)) 0 0 US_USER RW_RWE p
     else t i)"

definition PAGEDT_SIZE :: u32 where "PAGEDT_SIZE = 4096 + 1 * 4096 + 1024 * 4096 + 4096"

text \<open>The result: the block's address and the new value of \<open>*cr3\<close>; \<^const>\<open>None\<close> inside is NULL.\<close>

definition PgCreateEmptyUserPageTable :: "'a paging_scheme \<Rightarrow> ((u32 \<times> u32) option \<times> 'a paging_scheme) option" where
  "PgCreateEmptyUserPageTable s = do {
     (pagedt_ptr, m) \<leftarrow> MemAlloc_logged PAGEDT_SIZE (pg_mem s);
     let s = s\<lparr>pg_mem := m\<rparr>;
     if pagedt_ptr = 0 then Some (None, s)
     else let cr3 = pagedt_ptr + (4096 - pagedt_ptr mod 4096) in
       Some (Some (pagedt_ptr, cr3), s\<lparr>pts := (pts s)(cr3 := fill_tables cr3 P_INVALID (pts s cr3))\<rparr>) }"

fun map_loop :: "nat \<Rightarrow> nat \<Rightarrow> nat \<Rightarrow> u32 \<Rightarrow> u32 \<Rightarrow> pt \<Rightarrow> bool \<times> pt" where
  "map_loop 0 dir_index page_index real_address rw t = (True, t)"
| "map_loop (Suc n) dir_index page_index real_address rw t =
     (let t = t(pte_index dir_index page_index := table_item (drop_bit 12 real_address) 0 0 US_USER rw P_VALID);
          real_address = real_address + 4096 in
      if page_index + 1 \<ge> TABLE_ITEM_COUNT then
        (if dir_index + 1 \<ge> TABLE_ITEM_COUNT then (False, t) else map_loop n (dir_index + 1) 0 real_address rw t)
      else map_loop n dir_index (page_index + 1) real_address rw t)"

definition dir_of :: "u32 \<Rightarrow> nat" where "dir_of a = unat (drop_bit 22 a AND 0x3ff)"
definition page_of :: "u32 \<Rightarrow> nat" where "page_of a = unat (drop_bit 12 a AND 0x3ff)"

definition PgMapUserPageTableWithPermission :: "u32 \<Rightarrow> u32 \<Rightarrow> u32 \<Rightarrow> u32 \<Rightarrow> pt \<Rightarrow> bool \<times> pt" where
  "PgMapUserPageTableWithPermission start len real_address rw t =
     (if start AND 0xfff \<noteq> 0 \<or> page_count len = 0 then (False, t)
      else map_loop (page_count len) (dir_of start) (page_of start) real_address rw t)"

function find_pages_loop :: "nat \<Rightarrow> nat \<Rightarrow> nat \<Rightarrow> nat \<Rightarrow> u32 \<Rightarrow> pt \<Rightarrow> u32 option" where
  "find_pages_loop request dir_index page_index count start t =
     (let free = (t (pte_index dir_index page_index) AND 1 = P_INVALID);
          start = (if free then (if start = 0 then of_nat (dir_index * (TABLE_ITEM_COUNT * 4096) + page_index * 4096) else start) else 0);
          count = (if free then count + 1 else 0) in
      if count = request then Some start
      else if page_index + 1 \<ge> TABLE_ITEM_COUNT then
        (if dir_index + 1 \<ge> TABLE_ITEM_COUNT then None else find_pages_loop request (dir_index + 1) 0 count start t)
      else find_pages_loop request dir_index (page_index + 1) count start t)"
  by pat_completeness auto
termination
  by (relation "measures [\<lambda>(r, d, p, _). TABLE_ITEM_COUNT - d, \<lambda>(r, d, p, _). TABLE_ITEM_COUNT - p]") auto

declare find_pages_loop.simps [simp del]

text \<open>\<^const>\<open>None\<close> is FALSE, and then \<open>*start\<close> is not written.\<close>

definition PgFindFreePages :: "u32 \<Rightarrow> pt \<Rightarrow> u32 option" where
  "PgFindFreePages len t = find_pages_loop (page_count len) 0 0 0 0 t"

fun free_pages_loop :: "nat \<Rightarrow> nat \<Rightarrow> nat \<Rightarrow> pt \<Rightarrow> bool \<times> pt" where
  "free_pages_loop 0 dir_index page_index t = (True, t)"
| "free_pages_loop (Suc n) dir_index page_index t =
     (let t = t(pte_index dir_index page_index := table_item 0 0 0 US_USER RW_RWE P_INVALID) in
      if page_index + 1 \<ge> TABLE_ITEM_COUNT then
        (if dir_index + 1 \<ge> TABLE_ITEM_COUNT \<and> n > 0 then (False, t) else free_pages_loop n (dir_index + 1) 0 t)
      else free_pages_loop n dir_index (page_index + 1) t)"

definition PgFreePages :: "u32 \<Rightarrow> u32 \<Rightarrow> pt \<Rightarrow> bool \<times> pt" where
  "PgFreePages start len t = free_pages_loop (page_count len) (dir_of start) (page_of start) t"

text \<open>\<open>_PgCreateKernelPageTable\<close> does not look at the result of \<open>MemAlloc\<close>.\<close>

definition PgCreateKernelPageTable :: "'a paging_scheme \<Rightarrow> 'a paging_scheme option" where
  "PgCreateKernelPageTable s = do {
     (p, m) \<leftarrow> MemAlloc_logged PAGEDT_SIZE (pg_mem s);
     let cr3 = p + (4096 - p mod 4096);
     Some (s\<lparr>pg_mem := m, kernel_pagedt := p, kernel_cr3 := cr3, pts := (pts s)(cr3 := fill_tables cr3 P_VALID (pts s cr3))\<rparr>) }"

definition PgInit :: "'a paging_scheme \<Rightarrow> 'a paging_scheme option" where
  "PgInit s = do {
     s \<leftarrow> PgCreateKernelPageTable s;
     Some (s\<lparr>cr3_register := kernel_cr3 s, kernel_tss_cr3 := kernel_cr3 s\<rparr>) }"

definition PgGetKernelCR3 :: "'a paging_scheme \<Rightarrow> u32" where
  "PgGetKernelCR3 s = kernel_cr3 s"

definition PgEnablePaging :: "'a paging_scheme \<Rightarrow> 'a paging_scheme" where
  "PgEnablePaging s = s\<lparr>cr0_register := cr0_register s OR 0x80000000\<rparr>"

section \<open>What the processor makes of the tables\<close>

text \<open>
  The page walk of an i386 for the linear address \<open>la\<close> with \<open>CR3 = cr3\<close>, as far as it stays in
  the block of tables at \<open>cr3\<close>: the physical address, and whether user code may write there.
\<close>

definition page_walk :: "u32 \<Rightarrow> pt \<Rightarrow> u32 \<Rightarrow> (u32 \<times> bool) option" where
  "page_walk cr3 t la =
     (let pde = t (dir_of la) in
      if pde AND 1 = 0 then None
      else
        let pte = t (unat ((pde AND 0xfffff000) - cr3) div 4 + page_of la) in
        if pte AND 1 = 0 then None
        else Some ((pte AND 0xfffff000) OR (la AND 0xfff), bit pde 1 \<and> bit pde 2 \<and> bit pte 1 \<and> bit pte 2))"

end
