(* ===== verification/Paging_Proofs.thy ===== *)
theory Paging_Proofs
  imports Paging Memory_Props Strings_Proofs
begin

text \<open>
  The page tables as a partial map: the page walk of the processor over what the functions of
  \<^verbatim>\<open>paging.c\<close> write.
\<close>

section \<open>Items\<close>

lemma mask_hi: "(0xfffff000 :: u32) = NOT (mask 12)" and mask_lo: "(0xfff :: u32) = mask 12"
  and mask_idx: "(0x3ff :: u32) = mask 10" and mask_20: "(0x000fffff :: u32) = mask 20"
  by (simp_all add: mask_eq_exp_minus_1)

lemma bit4: "bit (4 :: u32) n \<longleftrightarrow> n = 2" "bit (4 :: int) n \<longleftrightarrow> n = 2"
  using bit_exp_iff [of 2 n, where 'a = "32 word"] bit_exp_iff [of 2 n, where 'a = int] by auto

lemma bit_flag: "b = 0 \<or> b = 1 \<Longrightarrow> bit (b :: u32) n \<longleftrightarrow> b = 1 \<and> n = 0"
  by (auto simp: bit_1_iff)

lemma table_item_valid: "p = 0 \<or> p = 1 \<Longrightarrow> rw = 0 \<or> rw = 1 \<Longrightarrow> table_item a 0 0 US_USER rw p AND 1 = p"
  unfolding table_item_def
  by (rule bit_word_eqI) (auto simp: mask_hi bit_simps bit_flag US_USER_def bit_1_iff bit4)

lemma table_item_flags:
  assumes "p = 0 \<or> p = 1" "rw = 0 \<or> rw = 1"
  shows "bit (table_item a 0 0 US_USER rw p) 1 \<longleftrightarrow> rw = 1" "bit (table_item a 0 0 US_USER rw p) 2"
  using assms unfolding table_item_def by (auto simp: mask_hi bit_simps bit_flag US_USER_def bit_1_iff bit4)

lemma table_item_frame:
  assumes "p = 0 \<or> p = 1" "rw = 0 \<or> rw = 1"
  shows "table_item (drop_bit 12 a) 0 0 US_USER rw p AND 0xfffff000 = a AND 0xfffff000"
  using assms unfolding table_item_def
  by (intro bit_word_eqI) (auto simp: mask_hi bit_simps bit_flag US_USER_def bit_1_iff bit4)

lemma drop_20: "drop_bit 12 (a :: u32) AND 0x000fffff = drop_bit 12 a"
  by (rule bit_word_eqI) (auto simp: mask_20 bit_simps dest: bit_imp_le_length)

lemma aligned_hi: "(a :: u32) AND 0xfff = 0 \<Longrightarrow> a AND 0xfffff000 = a"
proof (rule bit_word_eqI)
  fix n assume a: "a AND 0xfff = 0" and n: "n < LENGTH(32)"
  have "\<not> bit (a AND 0xfff) n"
    using a by simp
  then show "bit (a AND 0xfffff000) n = bit a n"
    using n by (auto simp: mask_hi mask_lo bit_simps)
qed

lemma and_lo: "(a :: u32) AND 0xfff = a mod 4096"
  unfolding mask_lo take_bit_eq_mask [symmetric] take_bit_eq_mod by simp

lemma aligned_dvd: "(a :: u32) AND 0xfff = 0 \<longleftrightarrow> 4096 dvd unat a"
  by (simp add: and_lo dvd_eq_mod_eq_0 word_unat_eq_iff unat_mod)

lemma aligned_mult: "(a :: u32) AND 0xfff = 0 \<longleftrightarrow> (\<exists>k. a = 4096 * k)"
proof
  assume "a AND 0xfff = 0"
  then obtain k where "unat a = 4096 * k"
    by (auto simp: aligned_dvd elim: dvdE)
  then have "a = of_nat (4096 * k)"
    by (metis of_nat_unat ucast_id)
  then show "\<exists>k. a = 4096 * k"
    by auto
next
  assume "\<exists>k. a = 4096 * k"
  then obtain k where "a = push_bit 12 k"
    by (auto simp: push_bit_eq_mult mult.commute)
  then show "a AND 0xfff = 0"
    by (auto intro!: bit_word_eqI simp: mask_lo bit_simps)
qed

lemma aligned_plus: "(a :: u32) AND 0xfff = 0 \<Longrightarrow> b AND 0xfff = 0 \<Longrightarrow> (a + b) AND 0xfff = 0"
  unfolding aligned_mult by (metis distrib_left)

lemma dir_of: "dir_of a = unat a div 2 ^ 22" and page_of: "page_of a = unat a div 4096 mod 1024"
proof -
  have "unat a div 2 ^ 22 < 1024"
    using unat32_lt [of a] by (simp add: less_mult_imp_div_less)
  then show "dir_of a = unat a div 2 ^ 22"
    by (simp add: dir_of_def mask_idx take_bit_eq_mask [symmetric] unsigned_take_bit_eq unat_drop_bit_eq take_bit_eq_mod drop_bit_eq_div unat_mod unat_div)
  show "page_of a = unat a div 4096 mod 1024"
    by (simp add: page_of_def mask_idx take_bit_eq_mask [symmetric] unsigned_take_bit_eq unat_drop_bit_eq take_bit_eq_mod drop_bit_eq_div unat_mod unat_div)
qed

lemma dir_page: "dir_of a < 1024" "page_of a < 1024" "dir_of a * 1024 + page_of a = unat a div 4096"
proof -
  show "dir_of a < 1024" "page_of a < 1024"
    using unat32_lt [of a] by (simp_all add: dir_of page_of less_mult_imp_div_less)
  have "unat a div 2 ^ 22 = unat a div 4096 div 1024"
    by (simp add: div_mult2_eq [symmetric])
  then show "dir_of a * 1024 + page_of a = unat a div 4096"
    by (simp add: dir_of page_of)
qed

section \<open>The page walk over a block of tables\<close>

definition tables_ok :: "u32 \<Rightarrow> pt \<Rightarrow> bool" where
  "tables_ok cr3 t \<longleftrightarrow> cr3 AND 0xfff = 0 \<and>
     (\<forall>i < 1024. t i = table_item (drop_bit 12 (cr3 + 4096 + of_nat i * 4096) AND 0x000fffff) 0 0 US_USER RW_RWE P_VALID)"

definition pte :: "pt \<Rightarrow> nat \<Rightarrow> u32" where "pte t k = t (1024 + k)"

definition entry :: "u32 \<Rightarrow> u32 \<Rightarrow> (u32 \<times> bool) option" where
  "entry e la = (if e AND 1 = 0 then None else Some ((e AND 0xfffff000) OR (la AND 0xfff), bit e 1 \<and> bit e 2))"

lemma page_walk_entry:
  assumes "tables_ok cr3 t"
  shows "page_walk cr3 t la = entry (pte t (unat la div 4096)) la"
proof -
  let ?d = "dir_of la" and ?x = "cr3 + 4096 + of_nat (dir_of la) * 4096 :: u32"
  have d: "?d < 1024"
    by (rule dir_page)
  have pde: "t ?d = table_item (drop_bit 12 ?x) 0 0 US_USER RW_RWE P_VALID"
    using assms d by (simp add: tables_ok_def drop_20)
  have al: "?x AND 0xfff = 0"
  proof -
    have "cr3 AND 0xfff = 0"
      using assms by (simp add: tables_ok_def)
    moreover have "(4096 * (1 + of_nat ?d) :: u32) AND 0xfff = 0"
      unfolding aligned_mult by blast
    ultimately show ?thesis
      using aligned_plus [of cr3 "4096 * (1 + of_nat ?d)"] by (simp add: algebra_simps)
  qed
  have f: "t ?d AND 1 \<noteq> 0" "bit (t ?d) 1" "bit (t ?d) 2" "t ?d AND 0xfffff000 = ?x"
    using table_item_valid [of P_VALID RW_RWE] table_item_flags [of P_VALID RW_RWE] table_item_frame [of P_VALID RW_RWE ?x] aligned_hi [OF al]
    by (simp_all add: pde P_VALID_def RW_RWE_def)
  have u: "unat (?x - cr3) = 4096 + ?d * 4096"
  proof -
    have e: "?x - cr3 = of_nat (4096 + ?d * 4096)"
      by simp
    show ?thesis
      unfolding e using d by (intro unat_of_nat32) simp
  qed
  have "unat (?x - cr3) div 4 + page_of la = 1024 + unat la div 4096"
    using dir_page(3) [of la] unfolding u by simp
  then show ?thesis
    using f by (simp add: page_walk_def Let_def entry_def pte_def)
qed

section \<open>Mapping and unmapping\<close>

lemma pte_index: "pte_index d p = 1024 + (d * 1024 + p)"
  by (simp add: pte_index_def TABLE_ITEM_COUNT_def)

lemma count: "TABLE_ITEM_COUNT = 1024"
  by (simp add: TABLE_ITEM_COUNT_def)

text \<open>The items that one round and the rounds after it write.\<close>

lemma write_items:
  fixes k n m :: nat
  assumes "k < m"
  shows "(\<lambda>i. if 1024 + Suc k \<le> i \<and> i < 1024 + Suc k + n \<and> i < 1024 + m then v (Suc (i - (1024 + Suc k))) else (t(1024 + k := v 0)) i) =
    (\<lambda>i. if 1024 + k \<le> i \<and> i < 1024 + k + Suc n \<and> i < 1024 + m then v (i - (1024 + k)) else t i)"
proof
  fix i
  consider "i < 1024 + k" | "i = 1024 + k" | j where "i = 1024 + Suc k + j"
    by (metis Suc_leI add_Suc_right le_Suc_ex linorder_less_linear)
  then show "(if 1024 + Suc k \<le> i \<and> i < 1024 + Suc k + n \<and> i < 1024 + m then v (Suc (i - (1024 + Suc k))) else (t(1024 + k := v 0)) i) =
    (if 1024 + k \<le> i \<and> i < 1024 + k + Suc n \<and> i < 1024 + m then v (i - (1024 + k)) else t i)"
    using assms by cases auto
qed

lemma next_page:
  fixes d p k :: nat
  assumes "k = d * 1024 + p" "p < 1024"
  shows "p + 1 \<ge> 1024 \<Longrightarrow> Suc k = (d + 1) * 1024 + 0" "\<not> p + 1 \<ge> 1024 \<Longrightarrow> Suc k = d * 1024 + (p + 1)"
    "p + 1 \<ge> 1024 \<Longrightarrow> d + 1 \<ge> 1024 \<longleftrightarrow> 1048576 \<le> Suc k" "pte_index d p = 1024 + k"
  using assms by (auto simp: pte_index)

text \<open>Both loops write consecutive items, the first one up to the last item at most.\<close>

lemma map_loop_spec:
  "k = d * 1024 + p \<Longrightarrow> d < 1024 \<Longrightarrow> p < 1024 \<Longrightarrow> map_loop n d p real rw t =
     (n = 0 \<or> k + n < 1048576,
      \<lambda>i. if 1024 + k \<le> i \<and> i < 1024 + k + n \<and> i < 1024 + 1048576
          then table_item (drop_bit 12 (real + of_nat (i - (1024 + k)) * 4096)) 0 0 US_USER rw P_VALID else t i)"
proof (induction n arbitrary: k d p real t)
  case (Suc n)
  let ?v = "\<lambda>j. table_item (drop_bit 12 (real + of_nat j * 4096)) 0 0 US_USER rw P_VALID"
  let ?t = "t(1024 + k := ?v 0)"
  note np = next_page [OF Suc.prems(1,3)]
  have k: "k < 1048576"
    using Suc.prems by simp
  note step = write_items [OF k, of n ?v t]
  have shift: "real + 4096 + of_nat j * 4096 = real + of_nat (Suc j) * 4096" for j :: nat
    by (simp add: algebra_simps)
  have r: "n = 0 \<and> Suc k < 1048576 \<or> Suc k + n < 1048576 \<longleftrightarrow> k + Suc n < 1048576"
    by auto
  show ?case
  proof (cases "p + 1 \<ge> 1024")
    case True
    show ?thesis
    proof (cases "d + 1 \<ge> 1024")
      case d: True
      then have k': "k = 1048575"
        using np(3) True k by simp
      have "map_loop (Suc n) d p real rw t = (False, ?t)"
        using True d unfolding map_loop.simps np(4) count Let_def by simp
      moreover have "?t = (\<lambda>i. if 1024 + k \<le> i \<and> i < 1024 + k + Suc n \<and> i < 1024 + 1048576 then ?v (i - (1024 + k)) else t i)"
        by (rule ext) (auto simp: k')
      ultimately show ?thesis
        using k' by (simp only:) simp
    next
      case False
      have "map_loop (Suc n) d p real rw t = map_loop n (d + 1) 0 (real + 4096) rw ?t"
        using True False unfolding map_loop.simps np(4) count Let_def by simp
      also have "\<dots> = (n = 0 \<or> Suc k + n < 1048576, \<lambda>i. if 1024 + Suc k \<le> i \<and> i < 1024 + Suc k + n \<and> i < 1024 + 1048576
          then table_item (drop_bit 12 (real + 4096 + of_nat (i - (1024 + Suc k)) * 4096)) 0 0 US_USER rw P_VALID else ?t i)"
        using False by (intro Suc.IH) (use np(1) [OF True] in simp_all)
      finally show ?thesis
        using False np(3) [OF True] r unfolding shift step by auto
    qed
  next
    case False
    have "map_loop (Suc n) d p real rw t = map_loop n d (p + 1) (real + 4096) rw ?t"
      using False unfolding map_loop.simps np(4) count Let_def by simp
    also have "\<dots> = (n = 0 \<or> Suc k + n < 1048576, \<lambda>i. if 1024 + Suc k \<le> i \<and> i < 1024 + Suc k + n \<and> i < 1024 + 1048576
        then table_item (drop_bit 12 (real + 4096 + of_nat (i - (1024 + Suc k)) * 4096)) 0 0 US_USER rw P_VALID else ?t i)"
      using False Suc.prems(2) by (intro Suc.IH) (use np(2) [OF False] in simp_all)
    finally show ?thesis
      using False Suc.prems r unfolding shift step by auto
  qed
qed (auto simp: fun_eq_iff)

lemma free_pages_loop_spec:
  "k = d * 1024 + p \<Longrightarrow> k + n \<le> 1048576 \<Longrightarrow> p < 1024 \<Longrightarrow> free_pages_loop n d p t =
     (True, \<lambda>i. if 1024 + k \<le> i \<and> i < 1024 + k + n \<and> i < 1024 + 1048576 then table_item 0 0 0 US_USER RW_RWE P_INVALID else t i)"
proof (induction n arbitrary: k d p t)
  case (Suc n)
  let ?t = "t(1024 + k := table_item 0 0 0 US_USER RW_RWE P_INVALID)"
  note np = next_page [OF Suc.prems(1,3)]
  have k: "k < 1048576"
    using Suc.prems by simp
  note step = write_items [OF k, of n "\<lambda>_. table_item 0 0 0 US_USER RW_RWE P_INVALID" t]
  have "free_pages_loop (Suc n) d p t = free_pages_loop n (if p + 1 \<ge> 1024 then d + 1 else d) (if p + 1 \<ge> 1024 then 0 else p + 1) ?t"
    using np(3) Suc.prems(2) unfolding free_pages_loop.simps np(4) count Let_def by auto
  also have "\<dots> = (True, \<lambda>i. if 1024 + Suc k \<le> i \<and> i < 1024 + Suc k + n \<and> i < 1024 + 1048576
      then table_item 0 0 0 US_USER RW_RWE P_INVALID else ?t i)"
    by (rule Suc.IH) (use np(1,2) Suc.prems(2,3) in auto)
  finally show ?case
    unfolding step .
qed (auto simp: fun_eq_iff)

lemma map_pte:
  assumes "PgMapUserPageTableWithPermission start len real rw t = (r, t')" "start AND 0xfff = 0" "len \<noteq> 0"
  shows "r \<longleftrightarrow> unat start div 4096 + page_count len < 1048576"
    "pte t' k = (if unat start div 4096 \<le> k \<and> k < unat start div 4096 + page_count len \<and> k < 1048576
       then table_item (drop_bit 12 (real + of_nat (k - unat start div 4096) * 4096)) 0 0 US_USER rw P_VALID else pte t k)"
    "i < 1024 \<Longrightarrow> t' i = t i"
proof -
  have n: "page_count len \<noteq> 0"
    using assms(3) by (simp add: page_count_def word_unat_eq_iff)
  have m: "map_loop (page_count len) (dir_of start) (page_of start) real rw t = (r, t')"
    using assms(1,2) n by (simp add: PgMapUserPageTableWithPermission_def)
  show "r \<longleftrightarrow> unat start div 4096 + page_count len < 1048576"
    "pte t' k = (if unat start div 4096 \<le> k \<and> k < unat start div 4096 + page_count len \<and> k < 1048576
       then table_item (drop_bit 12 (real + of_nat (k - unat start div 4096) * 4096)) 0 0 US_USER rw P_VALID else pte t k)"
    "i < 1024 \<Longrightarrow> t' i = t i"
    using m n unfolding map_loop_spec [OF dir_page(3) [symmetric] dir_page(1,2)] by (auto simp: pte_def)
qed

lemma free_pte:
  assumes "PgFreePages start len t = (r, t')" "unat start div 4096 + page_count len \<le> 1048576"
  shows "r" "pte t' k = (if unat start div 4096 \<le> k \<and> k < unat start div 4096 + page_count len
       then table_item 0 0 0 US_USER RW_RWE P_INVALID else pte t k)" "i < 1024 \<Longrightarrow> t' i = t i"
proof -
  have "free_pages_loop (page_count len) (dir_of start) (page_of start) t = (r, t')"
    using assms(1) by (simp add: PgFreePages_def)
  then show "r" "pte t' k = (if unat start div 4096 \<le> k \<and> k < unat start div 4096 + page_count len
       then table_item 0 0 0 US_USER RW_RWE P_INVALID else pte t k)" "i < 1024 \<Longrightarrow> t' i = t i"
    using assms(2) unfolding free_pages_loop_spec [OF dir_page(3) [symmetric] assms(2) dir_page(2)] by (auto simp: pte_def)
qed

lemma tables_ok_cong: "tables_ok cr3 t \<Longrightarrow> (\<And>i. i < 1024 \<Longrightarrow> t' i = t i) \<Longrightarrow> tables_ok cr3 t'"
  by (simp add: tables_ok_def)

lemma entry_item:
  assumes "rw = RW_RE \<or> rw = RW_RWE"
  shows "entry (table_item (drop_bit 12 a) 0 0 US_USER rw P_VALID) la = Some ((a AND 0xfffff000) OR (la AND 0xfff), rw = RW_RWE)"
  using assms table_item_valid [of P_VALID rw] table_item_flags [of P_VALID rw] table_item_frame [of P_VALID rw a]
  by (auto simp: entry_def P_VALID_def RW_RE_def RW_RWE_def)

lemma entry_invalid: "entry (table_item a 0 0 US_USER RW_RWE P_INVALID) la = None"
  using table_item_valid [of P_INVALID RW_RWE] by (simp add: entry_def P_INVALID_def RW_RWE_def)

section \<open>Properties\<close>

lemma page_count: "page_count len = (unat len + 4095) div 4096"
proof -
  have n: "unat (len div 4096) = unat len div 4096" "unat (len mod 4096) = unat len mod 4096"
    by (simp_all add: unat_div unat_mod)
  have up: "(m + 4095) div 4096 = m div 4096 + (if m mod 4096 \<noteq> 0 then 1 else 0)" for m :: nat
  proof (cases "m mod 4096 = 0")
    case False
    then have "m mod 4096 + 4095 = 4096 + (m mod 4096 - 1)"
      by simp
    moreover have "m mod 4096 - 1 < 4096"
      using mod_less_divisor [of 4096 m] by linarith
    ultimately have "(m mod 4096 + 4095) div 4096 = 1"
      by simp
    moreover have "m + 4095 = (m mod 4096 + 4095) + m div 4096 * 4096"
      by simp
    ultimately have "(m + 4095) div 4096 = m div 4096 + 1"
      using div_mult_self1 [of 4096 "m mod 4096 + 4095" "m div 4096"] by (simp only:)
    then show ?thesis
      using False by simp
  next
    case True
    then obtain q where "m = 4096 * q"
      by (auto elim: dvdE)
    then show ?thesis
      by simp
  qed
  have small: "unat len mod 4096 = unat len" if "unat len div 4096 = 0"
    using that by (simp add: div_eq_0_iff)
  show ?thesis
    unfolding up page_count_def word_unat_eq_iff [of "len div 4096"] word_unat_eq_iff [of "len mod 4096"] word_unat_eq_iff [of len] n
    using small by (cases "unat len div 4096 = 0") auto
qed

lemma page_count_pos: "len \<noteq> 0 \<Longrightarrow> 0 < page_count len"
  by (simp add: page_count word_unat_eq_iff div_greater_zero_iff)

lemma page_range:
  assumes "start AND 0xfff = 0" "unat start + unat len \<le> 2 ^ 32"
  shows "unat start div 4096 + page_count len \<le> 1048576"
  using assms unfolding aligned_dvd page_count by (auto elim!: dvdE)

lemma or_low: "(x :: u32) AND 0xfff = 0 \<Longrightarrow> x OR (la AND 0xfff) = x + (la AND 0xfff)"
proof (rule disjunctive_add_eq_or [symmetric])
  have "x AND (la AND 0xfff) = (x AND 0xfff) AND la"
    by (simp add: and.assoc and.commute and.left_commute)
  then show "x AND 0xfff = 0 \<Longrightarrow> x AND (la AND 0xfff) = 0"
    by simp
qed

text \<open>The linear addresses of the pages that a call works on.\<close>

definition in_pages :: "u32 \<Rightarrow> u32 \<Rightarrow> u32 \<Rightarrow> bool" where
  "in_pages start len la \<longleftrightarrow> unat start \<le> unat la \<and> unat la < unat start + page_count len * 4096"

lemma in_pages_div:
  assumes "start AND 0xfff = 0"
  shows "in_pages start len la \<longleftrightarrow> unat start div 4096 \<le> unat la div 4096 \<and> unat la div 4096 < unat start div 4096 + page_count len"
proof -
  obtain q where q: "unat start = 4096 * q"
    using assms by (auto simp: aligned_dvd elim: dvdE)
  have "4096 * q \<le> l \<longleftrightarrow> q \<le> l div 4096" "l < 4096 * q + n * 4096 \<longleftrightarrow> l div 4096 < q + n" for l n :: nat
    by (simp_all add: less_eq_div_iff_mult_less_eq div_less_iff_less_mult algebra_simps)
  then show ?thesis
    unfolding in_pages_def q by simp
qed

lemma page_offset:
  fixes start la real :: u32
  assumes "start AND 0xfff = 0" "unat start div 4096 \<le> unat la div 4096"
  shows "real + of_nat (unat la div 4096 - unat start div 4096) * 4096 + (la AND 0xfff) = real + (la - start)"
proof -
  obtain q where q: "unat start = 4096 * q"
    using assms(1) by (auto simp: aligned_dvd elim: dvdE)
  then have "q \<le> unat la div 4096"
    using assms(2) by simp
  then obtain j where j: "unat la div 4096 = q + j"
    using le_Suc_ex by blast
  then have "unat la = 4096 * (q + j) + unat la mod 4096"
    by (metis mult_div_mod_eq)
  then have la: "la = of_nat (4096 * (q + j) + unat la mod 4096)"
    by (metis of_nat_unat ucast_id)
  have start: "start = of_nat (4096 * q)"
    using q by (metis of_nat_unat ucast_id)
  have lo: "la AND 0xfff = of_nat (unat la mod 4096)"
    by (simp add: and_lo word_unat_eq_iff unat_mod unat_of_nat)
  have d: "la - start = of_nat j * 4096 + of_nat (unat la mod 4096)"
    by (subst la, subst start) (simp add: algebra_simps)
  show ?thesis
    unfolding lo d by (simp add: q j)
qed

lemma map_translates:
  assumes "tables_ok cr3 t" "start AND 0xfff = 0" "real AND 0xfff = 0" "len \<noteq> 0" "unat start + unat len \<le> 2 ^ 32"
    "rw = RW_RE \<or> rw = RW_RWE"
  shows "\<exists>t'. PgMapUserPageTableWithPermission start len real rw t = (unat start + page_count len * 4096 < 2 ^ 32, t') \<and>
    tables_ok cr3 t' \<and>
    (\<forall>la. page_walk cr3 t' la = (if in_pages start len la then Some (real + (la - start), rw = RW_RWE) else page_walk cr3 t la))"
proof -
  obtain r t' where m: "PgMapUserPageTableWithPermission start len real rw t = (r, t')"
    by fastforce
  note pt = map_pte [OF m assms(2,4)]
  have ok: "tables_ok cr3 t'"
    using tables_ok_cong [OF assms(1) pt(3)] by blast
  obtain q where q: "unat start = 4096 * q"
    using assms(2) by (auto simp: aligned_dvd elim: dvdE)
  have "page_walk cr3 t' la = (if in_pages start len la then Some (real + (la - start), rw = RW_RWE) else page_walk cr3 t la)" for la
  proof (cases "in_pages start len la")
    case True
    let ?j = "unat la div 4096 - unat start div 4096"
    have d: "unat start div 4096 \<le> unat la div 4096" "unat la div 4096 < unat start div 4096 + page_count len"
      "unat la div 4096 < 1048576"
      using True in_pages_div [OF assms(2)] unat32_lt [of la] by (simp_all add: less_mult_imp_div_less)
    have al: "(real + of_nat ?j * 4096) AND 0xfff = 0"
    proof -
      have "(4096 * of_nat ?j :: u32) AND 0xfff = 0"
        unfolding aligned_mult by blast
      then show ?thesis
        using aligned_plus [OF assms(3)] by (simp add: mult.commute)
    qed
    have "page_walk cr3 t' la = Some ((real + of_nat ?j * 4096) OR (la AND 0xfff), rw = RW_RWE)"
      using d unfolding page_walk_entry [OF ok] pt(2) by (simp only: if_True simp_thms entry_item [OF assms(6)] aligned_hi [OF al])
    also have "(real + of_nat ?j * 4096) OR (la AND 0xfff) = real + (la - start)"
      unfolding or_low [OF al] by (rule page_offset [OF assms(2) d(1)])
    finally show ?thesis
      using True by simp
  next
    case False
    then show ?thesis
      using in_pages_div [OF assms(2)] unfolding page_walk_entry [OF ok] page_walk_entry [OF assms(1)] pt(2) by auto
  qed
  moreover have "unat start + page_count len * 4096 = (q + page_count len) * 4096"
    by (simp add: q)
  then have "r \<longleftrightarrow> unat start + page_count len * 4096 < 2 ^ 32"
    using pt(1) by (simp only: q) auto
  ultimately show ?thesis
    using m ok by auto
qed

text \<open>C15: After \<open>PgMapUserPageTableWithPermission\<close> the processor translates the linear addresses of the
  range to the physical ones, at the same distance and with the permission asked for, and all
  others as before; yet when the range ends with the last page of the 4 GB, FALSE is returned.\<close>

theorem pg_map_translates:
  assumes "tables_ok cr3 t" "start AND 0xfff = 0" "real AND 0xfff = 0" "len \<noteq> 0" "unat start + unat len \<le> 2 ^ 32"
    "rw = RW_RE \<or> rw = RW_RWE"
  shows "\<exists>t'. PgMapUserPageTableWithPermission start len real rw t = (unat start + page_count len * 4096 < 2 ^ 32, t') \<and>
    tables_ok cr3 t' \<and>
    (\<forall>la. page_walk cr3 t' la = (if in_pages start len la then Some (real + (la - start), rw = RW_RWE) else page_walk cr3 t la))"
  using assms by (rule map_translates)

lemma free_unmaps:
  assumes "tables_ok cr3 t" "start AND 0xfff = 0" "unat start + unat len \<le> 2 ^ 32"
  shows "\<exists>t'. PgFreePages start len t = (True, t') \<and> tables_ok cr3 t' \<and>
    (\<forall>la. page_walk cr3 t' la = (if in_pages start len la then None else page_walk cr3 t la))"
proof -
  obtain r t' where m: "PgFreePages start len t = (r, t')"
    by fastforce
  note pt = free_pte [OF m page_range [OF assms(2,3)]]
  have ok: "tables_ok cr3 t'"
    using tables_ok_cong [OF assms(1) pt(3)] by blast
  have "page_walk cr3 t' la = (if in_pages start len la then None else page_walk cr3 t la)" for la
    using in_pages_div [OF assms(2)] unfolding page_walk_entry [OF ok] page_walk_entry [OF assms(1)] pt(2)
    by (auto simp: entry_invalid)
  then show ?thesis
    using m pt(1) ok by auto
qed

text \<open>\<open>PgFreePages\<close> makes every address of the range invalid and no other.\<close>

theorem pg_free_unmaps:
  assumes "tables_ok cr3 t" "start AND 0xfff = 0" "unat start + unat len \<le> 2 ^ 32"
  shows "\<exists>t'. PgFreePages start len t = (True, t') \<and> tables_ok cr3 t' \<and>
    (\<forall>la. page_walk cr3 t' la = (if in_pages start len la then None else page_walk cr3 t la))"
  using assms by (rule free_unmaps)

section \<open>Finding free pages\<close>

definition free_run :: "pt \<Rightarrow> nat \<Rightarrow> nat \<Rightarrow> bool" where
  "free_run t k n \<longleftrightarrow> (\<forall>j < n. pte t (k + j) AND 1 = 0)"

text \<open>At page \<open>m\<close> the last \<open>c\<close> pages before it are free, they begin at \<open>start\<close>, page 0 is not among
  them, and no run of \<open>n\<close> free pages begins before them.\<close>

definition scanned :: "pt \<Rightarrow> nat \<Rightarrow> nat \<Rightarrow> nat \<Rightarrow> u32 \<Rightarrow> bool" where
  "scanned t n m c start \<longleftrightarrow> c \<le> m \<and> c < n \<and> free_run t (m - c) c \<and> start = (if c = 0 then 0 else of_nat ((m - c) * 4096)) \<and>
     (c \<noteq> 0 \<longrightarrow> 0 < m - c) \<and> (\<forall>k < m - c. \<not> free_run t k n)"

lemma page_address: "0 < k \<Longrightarrow> k < 1048576 \<Longrightarrow> (of_nat (k * 4096) :: u32) \<noteq> 0"
  using unat_of_nat32 [of "k * 4096"] by (auto simp del: of_nat_mult)

lemma scanned_step:
  assumes s: "scanned t n m c start" and m: "m < 1048576" and zero: "\<not> free_run t 0 1"
    and free: "free = (pte t m AND 1 = 0)"
    and start': "start' = (if free then (if start = 0 then of_nat (m * 4096) else start) else 0)"
    and c': "c' = (if free then c + 1 else 0)"
  shows "c' = n \<longrightarrow> (\<exists>k. 0 < k \<and> start' = of_nat (k * 4096) \<and> k + n \<le> Suc m \<and> free_run t k n \<and> (\<forall>i < k. \<not> free_run t i n))"
    "c' \<noteq> n \<longrightarrow> scanned t n (Suc m) c' start'"
proof -
  have sc: "c \<le> m" "c < n" "free_run t (m - c) c" "start = (if c = 0 then 0 else of_nat ((m - c) * 4096))"
    "c \<noteq> 0 \<longrightarrow> 0 < m - c" "\<forall>k < m - c. \<not> free_run t k n"
    using s by (simp_all add: scanned_def)
  have "(c' = n \<longrightarrow> (\<exists>k. 0 < k \<and> start' = of_nat (k * 4096) \<and> k + n \<le> Suc m \<and> free_run t k n \<and> (\<forall>i < k. \<not> free_run t i n))) \<and>
    (c' \<noteq> n \<longrightarrow> scanned t n (Suc m) c' start')"
  proof (cases free)
    case True
    have "m \<noteq> 0"
      using True free zero by (cases m) (auto simp: free_run_def)
    then have pos: "0 < m - c"
      using sc(5) by (cases "c = 0") auto
    have st: "start' = of_nat ((m - c) * 4096)"
      using True start' sc(4) page_address [OF pos] m by (cases "c = 0") auto
    have run: "free_run t (m - c) (Suc c)"
      using sc(1,3) True free by (auto simp: free_run_def less_Suc_eq)
    have "\<exists>k. 0 < k \<and> start' = of_nat (k * 4096) \<and> k + n \<le> Suc m \<and> free_run t k n \<and> (\<forall>i < k. \<not> free_run t i n)" if "c' = n"
      using that True c' sc(1,6) pos st run by (intro exI [of _ "m - c"]) auto
    moreover have "scanned t n (Suc m) c' start'" if "c' \<noteq> n"
      using that True c' sc(1,2,6) pos st run by (simp add: scanned_def)
    ultimately show ?thesis
      by blast
  next
    case False
    have "\<not> free_run t k n" if "k < Suc m" for k
    proof (cases "k < m - c")
      case False
      have "pte t (k + (m - k)) AND 1 \<noteq> 0"
        using \<open>\<not> free\<close> free that by simp
      moreover have "m - k < n"
        using False sc(1,2) by simp
      ultimately show ?thesis
        by (auto simp: free_run_def)
    qed (use sc(6) in blast)
    then show ?thesis
      using False c' start' sc(2) by (auto simp: scanned_def free_run_def)
  qed
  then show "c' = n \<longrightarrow> (\<exists>k. 0 < k \<and> start' = of_nat (k * 4096) \<and> k + n \<le> Suc m \<and> free_run t k n \<and> (\<forall>i < k. \<not> free_run t i n))"
    "c' \<noteq> n \<longrightarrow> scanned t n (Suc m) c' start'"
    by blast+
qed

lemma find_pages_loop_spec:
  "\<not> free_run t 0 1 \<Longrightarrow> m = d * 1024 + p \<Longrightarrow> d < 1024 \<Longrightarrow> p < 1024 \<Longrightarrow> scanned t n m c start \<Longrightarrow>
    (case find_pages_loop n d p c start t of
       None \<Rightarrow> \<forall>k. k + n \<le> 1048576 \<longrightarrow> \<not> free_run t k n
     | Some a \<Rightarrow> \<exists>k. 0 < k \<and> a = of_nat (k * 4096) \<and> k + n \<le> 1048576 \<and> free_run t k n \<and> (\<forall>i < k. \<not> free_run t i n))"
proof (induction n d p c start t arbitrary: m rule: find_pages_loop.induct)
  case (1 n d p c start t)
  let ?free = "t (pte_index d p) AND 1 = P_INVALID"
  let ?start = "if ?free then (if start = 0 then of_nat (d * (TABLE_ITEM_COUNT * 4096) + p * 4096) else start) else 0"
  let ?c = "if ?free then c + 1 else 0"
  have m: "m < 1048576"
    using 1(4-6) by simp
  have e: "?free = (pte t m AND 1 = 0)" "?start = (if ?free then (if start = 0 then of_nat (m * 4096) else start) else 0)"
    using 1(4) by (simp_all add: pte_index pte_def P_INVALID_def count algebra_simps)
  note np = next_page [OF 1(4,6)]
  note sc = scanned_step [OF 1(7) m 1(3) e(1,2) refl]
  show ?case
  proof (cases "?c = n")
    case True
    then have "find_pages_loop n d p c start t = Some ?start"
      by (subst find_pages_loop.simps) (simp only: Let_def if_True simp_thms)
    then show ?thesis
      using sc(1) True m by auto
  next
    case False
    note sc' = sc(2) [rule_format, OF False]
    show ?thesis
    proof (cases "p + 1 \<ge> TABLE_ITEM_COUNT")
      case p: True
      show ?thesis
      proof (cases "d + 1 \<ge> TABLE_ITEM_COUNT")
        case True
        have l: "find_pages_loop n d p c start t = None"
          using False p True by (subst find_pages_loop.simps) (simp only: Let_def if_False if_True simp_thms)
        have m': "Suc m = 1048576"
          using np(3) p True m by (simp add: count)
        have "\<not> free_run t k n" if "k + n \<le> 1048576" for k
        proof
          assume r: "free_run t k n"
          have "c' < n \<Longrightarrow> k < Suc m - c'" for c'
            using that m' by simp
          then show False
            using sc' r by (auto simp: scanned_def)
        qed
        then show ?thesis
          using l by simp
      next
        case d: False
        have "find_pages_loop n d p c start t = find_pages_loop n (d + 1) 0 ?c ?start t"
          using False p d by (subst find_pages_loop.simps) (simp only: Let_def if_False if_True simp_thms)
        then show ?thesis
          using 1(1) [OF refl refl refl False p d, of "Suc m"] 1(3) sc' np(1) p d by (simp add: count)
      qed
    next
      case p: False
      have "find_pages_loop n d p c start t = find_pages_loop n d (p + 1) ?c ?start t"
        using False p by (subst find_pages_loop.simps) (simp only: Let_def if_False if_True simp_thms)
      then show ?thesis
        using 1(2) [OF refl refl refl False p, of "Suc m"] sc' np(2) p 1(3,5) by (simp add: count)
    qed
  qed
qed

text \<open>When page 0 is in use, \<open>PgFindFreePages\<close> finds the first run of free pages of the requested
  length, wherever it ends, and returns FALSE only when there is none.\<close>

lemma find_first_run:
  assumes "pte t 0 AND 1 \<noteq> 0" "len \<noteq> 0"
  shows "case PgFindFreePages len t of
      None \<Rightarrow> \<forall>k. k + page_count len \<le> 1048576 \<longrightarrow> \<not> free_run t k (page_count len)
    | Some a \<Rightarrow> \<exists>k. 0 < k \<and> unat a = k * 4096 \<and> k + page_count len \<le> 1048576 \<and> free_run t k (page_count len) \<and>
        (\<forall>i < k. \<not> free_run t i (page_count len))"
proof -
  have z: "\<not> free_run t 0 1" and s: "scanned t (page_count len) 0 0 0"
    using assms page_count_pos by (simp_all add: free_run_def scanned_def)
  have u: "unat (of_nat (k * 4096) :: u32) = k * 4096" if "k + page_count len \<le> 1048576" for k
    using that page_count_pos [OF assms(2)] by (intro unat_of_nat32) simp
  from find_pages_loop_spec [OF z _ _ _ s, of 0 0] show ?thesis
  proof (cases "PgFindFreePages len t")
    case (Some a)
    then obtain k where "0 < k" "a = of_nat (k * 4096)" "k + page_count len \<le> 1048576" "free_run t k (page_count len)"
      "\<forall>i < k. \<not> free_run t i (page_count len)"
      using find_pages_loop_spec [OF z _ _ _ s, of 0 0] by (auto simp: PgFindFreePages_def)
    then show ?thesis
      using Some u by (auto simp del: of_nat_mult)
  qed (auto simp: PgFindFreePages_def)
qed

text \<open>The address found can be mapped: it is aligned and its pages end within the 4 GB.\<close>

lemma found_pages:
  assumes "pte t 0 AND 1 \<noteq> 0" "len \<noteq> 0" "PgFindFreePages len t = Some a" "tables_ok cr3 t"
  shows "a AND 0xfff = 0" "a \<noteq> 0" "unat a + unat len \<le> 2 ^ 32" "in_pages a len la \<Longrightarrow> page_walk cr3 t la = None"
proof -
  obtain k where k: "0 < k" "unat a = k * 4096" "k + page_count len \<le> 1048576" "free_run t k (page_count len)"
    using find_first_run [OF assms(1,2)] assms(3) by auto
  show "a AND 0xfff = 0"
    using k(2) by (simp add: aligned_dvd)
  show "a \<noteq> 0"
    using k(1,2) by auto
  show "unat a + unat len \<le> 2 ^ 32"
    using k(2,3) unfolding page_count by simp
  show "page_walk cr3 t la = None" if "in_pages a len la"
  proof -
    have "unat la div 4096 - k < page_count len"
      using that k(2) unfolding in_pages_div [OF \<open>a AND 0xfff = 0\<close>] by auto
    then have "pte t (k + (unat la div 4096 - k)) AND 1 = 0"
      using k(4) unfolding free_run_def by blast
    moreover have "k + (unat la div 4096 - k) = unat la div 4096"
      using that k(2) unfolding in_pages_div [OF \<open>a AND 0xfff = 0\<close>] by simp
    ultimately show ?thesis
      unfolding page_walk_entry [OF assms(4)] by (simp add: entry_def)
  qed
qed

text \<open>When page 0 is in use, \<open>PgFindFreePages\<close> finds the first run of free pages of the requested
  length, wherever it ends, and returns FALSE only when there is none.\<close>

theorem pg_find_free_pages:
  assumes "pte t 0 AND 1 \<noteq> 0" "len \<noteq> 0"
  shows "case PgFindFreePages len t of
      None \<Rightarrow> \<forall>k. k + page_count len \<le> 1048576 \<longrightarrow> \<not> free_run t k (page_count len)
    | Some a \<Rightarrow> \<exists>k. 0 < k \<and> unat a = k * 4096 \<and> k + page_count len \<le> 1048576 \<and> free_run t k (page_count len) \<and>
        (\<forall>i < k. \<not> free_run t i (page_count len))"
  using assms by (rule find_first_run)

definition used0 :: pt where "used0 = (\<lambda>_. 0)(1024 := 1, 1026 := 1)"

theorem pg_find_free_pages_witness: "\<exists>k. PgFindFreePages 8192 used0 = Some (of_nat (k * 4096)) \<and> k = 3"
proof -
  have f: "PgFindFreePages 8192 used0 = Some 0x3000"
    by (simp add: PgFindFreePages_def page_count_def find_pages_loop.simps pte_index used0_def P_INVALID_def count)
  have "pte used0 0 AND 1 \<noteq> 0"
    by (simp add: used0_def pte_def)
  from pg_find_free_pages [OF this, of 8192] f obtain k where "unat (0x3000 :: u32) = k * 4096"
    by auto
  then show ?thesis
    using f by (intro exI [of _ 3]) simp
qed

text \<open>The tables of \<open>_PgCreateEmptyUserPageTable\<close>.\<close>

lemma fill_tables_ok:
  assumes "cr3 AND 0xfff = 0"
  shows "tables_ok cr3 (fill_tables cr3 p t)"
  using assms by (simp add: tables_ok_def fill_tables_def count)

lemma fill_tables_empty:
  assumes "cr3 AND 0xfff = 0"
  shows "page_walk cr3 (fill_tables cr3 P_INVALID t) la = None"
proof -
  have "unat la div 4096 < 1048576"
    using unat32_lt [of la] by (simp add: less_mult_imp_div_less)
  then have "pte (fill_tables cr3 P_INVALID t) (unat la div 4096) = table_item (of_nat (unat la div 4096)) 0 0 US_USER RW_RWE P_INVALID"
    by (simp add: pte_def fill_tables_def count)
  then show ?thesis
    unfolding page_walk_entry [OF fill_tables_ok [OF assms]] by (simp only: entry_invalid)
qed

lemma create_empty:
  assumes "mem_inv hi (pg_mem s) F U"
  shows "\<exists>r s'. PgCreateEmptyUserPageTable s = Some (r, s') \<and> (\<exists>F' U'. mem_inv hi (pg_mem s') F' U') \<and>
    (case r of None \<Rightarrow> live_blocks (pg_mem s') = live_blocks (pg_mem s) \<and> pts s' = pts s
     | Some (p, cr3) \<Rightarrow>
         (\<exists>n. live_blocks (pg_mem s') = insert (unat p, n) (live_blocks (pg_mem s)) \<and> unat p < unat cr3 \<and>
            unat cr3 + 4 * (1024 + 1048576) \<le> unat p + n) \<and>
         tables_ok cr3 (pts s' cr3) \<and> (\<forall>la. page_walk cr3 (pts s' cr3) la = None) \<and> (\<forall>c. c \<noteq> cr3 \<longrightarrow> pts s' c = pts s c))"
proof -
  have n: "mem_legal PAGEDT_SIZE" "unat (MemAlign4KB PAGEDT_SIZE) = 4206592"
    by (simp_all add: mem_legal_def PAGEDT_SIZE_def MemAlign4KB_def)
  obtain p m where a: "MemAlloc_logged PAGEDT_SIZE (pg_mem s) = Some (p, m)" "\<exists>F' U'. mem_inv hi m F' U'"
    "if p = 0 then live_blocks m = live_blocks (pg_mem s)
     else block_ok hi (unat p, 4206592) \<and> live_blocks m = insert (unat p, 4206592) (live_blocks (pg_mem s))"
    using alloc_logged_live [OF assms n(1)] unfolding n(2) by (metis (full_types))
  show ?thesis
  proof (cases "p = 0")
    case True
    then show ?thesis
      using a by (simp add: PgCreateEmptyUserPageTable_def)
  next
    case False
    let ?cr3 = "p + (4096 - p mod 4096)"
    have b: "4096 dvd unat p" "unat p + 4206592 \<le> hi" "hi \<le> 2 ^ 32"
      using a(2,3) False by (auto simp: block_ok_def mem_inv_def)
    then have "p mod 4096 = 0"
      using aligned_dvd [of p] by (simp add: and_lo)
    then have cr3: "?cr3 = p + 4096" "unat (p + 4096) = unat p + 4096"
      using b by (simp_all add: unat_plus_if_lt)
    have al: "(p + 4096) AND 0xfff = 0"
      using b(1) cr3(2) by (simp add: aligned_dvd)
    let ?t = "fill_tables (p + 4096) P_INVALID (pts s (p + 4096))"
    have "PgCreateEmptyUserPageTable s = Some (Some (p, p + 4096), s\<lparr>pg_mem := m, pts := (pts s)(p + 4096 := ?t)\<rparr>)"
      using a(1) False cr3(1) by (simp add: PgCreateEmptyUserPageTable_def Let_def)
    then show ?thesis
      using a(2,3) False cr3(2) fill_tables_ok [OF al] fill_tables_empty [OF al] by auto
  qed
qed

text \<open>\<open>PgCreateEmptyUserPageTable\<close> either finds no memory and returns NULL, or the block it has
  allocated holds the whole of the tables at \<open>*cr3\<close>, and the processor translates no address
  through them.\<close>

theorem pg_create_empty:
  assumes "mem_inv hi (pg_mem s) F U"
  shows "\<exists>r s'. PgCreateEmptyUserPageTable s = Some (r, s') \<and> (\<exists>F' U'. mem_inv hi (pg_mem s') F' U') \<and>
    (case r of None \<Rightarrow> live_blocks (pg_mem s') = live_blocks (pg_mem s) \<and> pts s' = pts s
     | Some (p, cr3) \<Rightarrow>
         (\<exists>n. live_blocks (pg_mem s') = insert (unat p, n) (live_blocks (pg_mem s)) \<and> unat p < unat cr3 \<and>
            unat cr3 + 4 * (1024 + 1048576) \<le> unat p + n) \<and>
         tables_ok cr3 (pts s' cr3) \<and> (\<forall>la. page_walk cr3 (pts s' cr3) la = None) \<and> (\<forall>c. c \<noteq> cr3 \<longrightarrow> pts s' c = pts s c))"
  using assms by (rule create_empty)

definition paging0 :: paging where
  "paging0 = \<lparr>pg_mem = mem32, pts = (\<lambda>_ _. 0), kernel_cr3 = 0, kernel_pagedt = 0, kernel_tss_cr3 = 0, cr3_register = 0, cr0_register = 0\<rparr>"

theorem pg_create_empty_witness:
  "\<exists>r s'. PgCreateEmptyUserPageTable paging0 = Some (r, s') \<and>
     (case r of None \<Rightarrow> True | Some (p, cr3) \<Rightarrow> page_walk cr3 (pts s' cr3) 0x1000000 = None)"
proof -
  have "mem_inv 0x2000000 (pg_mem paging0) [Mbd 0] []"
    using mem32_inv by (simp add: paging0_def)
  from pg_create_empty [OF this] show ?thesis
  proof (elim exE conjE, goal_cases)
    case (1 r s' F' U')
    then show ?case
      by (cases r) (simp, intro exI [of _ r] exI [of _ s'], simp add: case_prod_beta)
  qed
qed

definition tables0 :: pt where "tables0 = fill_tables 0x1001000 P_INVALID (\<lambda>_. 0)"

lemma tables0: "tables_ok 0x1001000 tables0" "page_walk 0x1001000 tables0 la = None"
  using fill_tables_ok fill_tables_empty by (simp_all add: tables0_def)

theorem pg_map_translates_witness:
  "\<exists>t'. PgMapUserPageTableWithPermission 0x1000000 5000 0x1800000 RW_RE tables0 = (True, t') \<and>
     page_walk 0x1001000 t' 0x1001234 = Some (0x1801234, False) \<and> page_walk 0x1001000 t' 0x1002000 = None"
  using pg_map_translates [OF tables0(1), of "0x1000000" "0x1800000" 5000 RW_RE] tables0(2)
  by (auto simp: in_pages_def page_count RW_RE_def RW_RWE_def)

theorem pg_free_unmaps_witness:
  "\<exists>t'. PgFreePages 0x1000000 5000 tables0 = (True, t') \<and> page_walk 0x1001000 t' 0x1001234 = None"
  using pg_free_unmaps [OF tables0(1), of "0x1000000" 5000] tables0(2) by auto

end
