(* ===== verification/Elf.thy ===== *)
theory Elf
  imports Memory Ifs1_Files
begin

text \<open>
  \<^verbatim>\<open>kernel/elf/parser.c\<close> and \<^verbatim>\<open>helper.c\<close>: a file read into memory and the tables of the ELF
  format in it.  A pointer into the file's content is the 32-bit offset from its beginning; what
  the C code reads through such a pointer behind the end of the content is \<^const>\<open>None\<close>.
\<close>

section \<open>The structures of \<open>elf.h\<close>\<close>

definition get8 :: "u8 list \<Rightarrow> u32 \<Rightarrow> u8 option" where
  "get8 bs k = (if unat k < length bs then Some (bs ! unat k) else None)"

definition get16 :: "u8 list \<Rightarrow> u32 \<Rightarrow> u16 option" where
  "get16 bs k = (if unat k + 2 \<le> length bs then Some (ucast (bs ! unat k) OR push_bit 8 (ucast (bs ! (unat k + 1)))) else None)"

definition get32 :: "u8 list \<Rightarrow> u32 \<Rightarrow> u32 option" where
  "get32 bs k = (if unat k + 4 \<le> length bs then Some (rd32 ((!) bs) (unat k)) else None)"

record elf_header =
  e_ident :: "u8 list"
  e_entry :: u32
  e_phoff :: u32
  e_shoff :: u32
  e_phnum :: u16
  e_shnum :: u16
  e_shstrndx :: u16

definition EHDR_SIZE :: u32 where "EHDR_SIZE = 52"

definition get_header :: "u8 list \<Rightarrow> elf_header option" where
  "get_header bs = do {
     en \<leftarrow> get32 bs 24; ph \<leftarrow> get32 bs 28; sh \<leftarrow> get32 bs 32;
     pn \<leftarrow> get16 bs 44; sn \<leftarrow> get16 bs 48; sx \<leftarrow> get16 bs 50;
     Some \<lparr>e_ident = take 16 bs, e_entry = en, e_phoff = ph, e_shoff = sh, e_phnum = pn, e_shnum = sn, e_shstrndx = sx\<rparr> }"

record elf_phdr =
  p_type :: u32
  p_offset :: u32
  p_vaddr :: u32
  p_filesz :: u32
  p_memsz :: u32

definition PT_LOAD :: u32 where "PT_LOAD = 1"

definition get_phdr :: "u8 list \<Rightarrow> u32 \<Rightarrow> elf_phdr option" where
  "get_phdr bs k = do {
     ty \<leftarrow> get32 bs k; off \<leftarrow> get32 bs (k + 4); va \<leftarrow> get32 bs (k + 8); fs \<leftarrow> get32 bs (k + 16); ms \<leftarrow> get32 bs (k + 20);
     Some \<lparr>p_type = ty, p_offset = off, p_vaddr = va, p_filesz = fs, p_memsz = ms\<rparr> }"

text \<open>The fields of \<open>Elf32_Shdr\<close>, \<open>Elf32_Sym\<close> and \<open>Elf32_Rel\<close> that are used.\<close>

definition sh_name :: "u8 list \<Rightarrow> u32 \<Rightarrow> u32 option" where "sh_name bs k = get32 bs k"
definition sh_offset :: "u8 list \<Rightarrow> u32 \<Rightarrow> u32 option" where "sh_offset bs k = get32 bs (k + 16)"
definition sh_size :: "u8 list \<Rightarrow> u32 \<Rightarrow> u32 option" where "sh_size bs k = get32 bs (k + 20)"
definition sh_entsize :: "u8 list \<Rightarrow> u32 \<Rightarrow> u32 option" where "sh_entsize bs k = get32 bs (k + 36)"
definition st_name :: "u8 list \<Rightarrow> u32 \<Rightarrow> u32 option" where "st_name bs k = get32 bs k"
definition st_value :: "u8 list \<Rightarrow> u32 \<Rightarrow> u32 option" where "st_value bs k = get32 bs (k + 4)"
definition r_offset :: "u8 list \<Rightarrow> u32 \<Rightarrow> u32 option" where "r_offset bs k = get32 bs k"
definition r_info :: "u8 list \<Rightarrow> u32 \<Rightarrow> u32 option" where "r_info bs k = get32 bs (k + 4)"
definition ELF32_R_SYM :: "u32 \<Rightarrow> u32" where "ELF32_R_SYM i = drop_bit 8 i"

definition SHDR_SIZE :: u32 where "SHDR_SIZE = 40"
definition PHDR_SIZE :: u32 where "PHDR_SIZE = 32"
definition SYM_SIZE :: u32 where "SYM_SIZE = 16"
definition REL_SIZE :: u32 where "REL_SIZE = 8"

section \<open>The context\<close>

text \<open>\<open>elf_ptr\<close> is the address of the content in memory; \<^const>\<open>None\<close> as a pointer to a table is NULL.\<close>

record elf_context =
  elf_valid :: bool
  file_size :: u32
  file_content :: "u8 list"
  elf_ptr :: u32
  elf_header :: "elf_header option"
  shdr :: u32
  itr_shdr :: u32
  n_shdr :: u32
  shstrtab :: u32
  shstrtab_offset :: u32
  strtab :: "u32 option"
  strtab_offset :: u32
  dynstr :: "u32 option"
  dynstr_offset :: "u32 option"
  dynsym :: "u32 option"
  itr_dynsym_sym :: u32
  n_dynsym_sym :: u32
  rel_dyn :: "u32 option"
  itr_rel_dyn :: u32
  n_rel_dyn :: u32
  rel_plt :: "u32 option"
  itr_rel_plt :: u32
  n_rel_plt :: u32
  phdr :: u32
  itr_phdr :: u32
  n_phdr :: u32
  elf_knl :: u32
  elf_usr :: u32

definition zero_context :: elf_context where
  "zero_context = \<lparr>elf_valid = False, file_size = 0, file_content = [], elf_ptr = 0, elf_header = None, shdr = 0, itr_shdr = 0,
     n_shdr = 0, shstrtab = 0, shstrtab_offset = 0, strtab = None, strtab_offset = 0, dynstr = None, dynstr_offset = None,
     dynsym = None, itr_dynsym_sym = 0, n_dynsym_sym = 0, rel_dyn = None, itr_rel_dyn = 0, n_rel_dyn = 0, rel_plt = None,
     itr_rel_plt = 0, n_rel_plt = 0, phdr = 0, itr_phdr = 0, n_phdr = 0, elf_knl = 0, elf_usr = 0\<rparr>"

section \<open>Iterators\<close>

text \<open>\<^const>\<open>None\<close> where the C code follows a NULL pointer or divides by zero.\<close>

definition ElfResetSHDR :: "elf_context \<Rightarrow> elf_context option" where
  "ElfResetSHDR ctx = do { h \<leftarrow> elf_header ctx; Some (ctx\<lparr>itr_shdr := shdr ctx, n_shdr := ucast (e_shnum h)\<rparr>) }"

definition ElfNextSHDR :: "elf_context \<Rightarrow> u32 option \<times> elf_context" where
  "ElfNextSHDR ctx =
     (if n_shdr ctx = 0 then (None, ctx)
      else (Some (itr_shdr ctx), ctx\<lparr>n_shdr := n_shdr ctx - 1, itr_shdr := itr_shdr ctx + SHDR_SIZE\<rparr>))"

definition ElfResetPHDR :: "elf_context \<Rightarrow> elf_context option" where
  "ElfResetPHDR ctx = do { h \<leftarrow> elf_header ctx; Some (ctx\<lparr>itr_phdr := phdr ctx, n_phdr := ucast (e_phnum h)\<rparr>) }"

definition ElfNextPHDR :: "elf_context \<Rightarrow> u32 option \<times> elf_context" where
  "ElfNextPHDR ctx =
     (if n_phdr ctx = 0 then (None, ctx)
      else (Some (itr_phdr ctx), ctx\<lparr>n_phdr := n_phdr ctx - 1, itr_phdr := itr_phdr ctx + PHDR_SIZE\<rparr>))"

text \<open>\<open>sh_size / sh_entsize\<close> of the section header at \<open>sh\<close>.\<close>

definition entry_count :: "u8 list \<Rightarrow> u32 \<Rightarrow> u32 option" where
  "entry_count bs sh = do {
     size \<leftarrow> sh_size bs sh; entsize \<leftarrow> sh_entsize bs sh;
     if entsize = 0 then None else Some (size div entsize) }"

definition ElfResetDynsym :: "elf_context \<Rightarrow> elf_context option" where
  "ElfResetDynsym ctx = do {
     sh \<leftarrow> dynsym ctx; off \<leftarrow> sh_offset (file_content ctx) sh; n \<leftarrow> entry_count (file_content ctx) sh;
     Some (ctx\<lparr>itr_dynsym_sym := off, n_dynsym_sym := n\<rparr>) }"

definition ElfNextDynsymSymbol :: "elf_context \<Rightarrow> u32 option \<times> elf_context" where
  "ElfNextDynsymSymbol ctx =
     (if n_dynsym_sym ctx = 0 then (None, ctx)
      else (Some (itr_dynsym_sym ctx), ctx\<lparr>n_dynsym_sym := n_dynsym_sym ctx - 1, itr_dynsym_sym := itr_dynsym_sym ctx + SYM_SIZE\<rparr>))"

definition ElfResetRelDyn :: "elf_context \<Rightarrow> elf_context option" where
  "ElfResetRelDyn ctx = do {
     sh \<leftarrow> rel_dyn ctx; off \<leftarrow> sh_offset (file_content ctx) sh; n \<leftarrow> entry_count (file_content ctx) sh;
     Some (ctx\<lparr>itr_rel_dyn := off, n_rel_dyn := n\<rparr>) }"

definition ElfNextRelDyn :: "elf_context \<Rightarrow> u32 option \<times> elf_context" where
  "ElfNextRelDyn ctx =
     (if n_rel_dyn ctx = 0 then (None, ctx)
      else (Some (itr_rel_dyn ctx), ctx\<lparr>n_rel_dyn := n_rel_dyn ctx - 1, itr_rel_dyn := itr_rel_dyn ctx + REL_SIZE\<rparr>))"

definition ElfResetRelPlt :: "elf_context \<Rightarrow> elf_context option" where
  "ElfResetRelPlt ctx = do {
     sh \<leftarrow> rel_plt ctx; off \<leftarrow> sh_offset (file_content ctx) sh; n \<leftarrow> entry_count (file_content ctx) sh;
     Some (ctx\<lparr>itr_rel_plt := off, n_rel_plt := n\<rparr>) }"

definition ElfNextRelPlt :: "elf_context \<Rightarrow> u32 option \<times> elf_context" where
  "ElfNextRelPlt ctx =
     (if n_rel_plt ctx = 0 then (None, ctx)
      else (Some (itr_rel_plt ctx), ctx\<lparr>n_rel_plt := n_rel_plt ctx - 1, itr_rel_plt := itr_rel_plt ctx + REL_SIZE\<rparr>))"

text \<open>The C string at an offset of the content.\<close>

definition string_at :: "u8 list \<Rightarrow> u32 \<Rightarrow> string option" where
  "string_at bs k = cstr_at (length bs - unat k) ((!) bs) (unat k)"

text \<open>The pointer that \<open>ElfParseDynsymSymbolName\<close> returns, as the string there; the outer
  \<^const>\<open>Some\<close> of \<^const>\<open>None\<close> is NULL.\<close>

definition ElfParseDynsymSymbolName :: "elf_context \<Rightarrow> u32 \<Rightarrow> string option option" where
  "ElfParseDynsymSymbolName ctx sm =
     (case dynstr_offset ctx of
        None \<Rightarrow> Some None
      | Some off \<Rightarrow> do { nm \<leftarrow> st_name (file_content ctx) sm; str \<leftarrow> string_at (file_content ctx) (off + nm); Some (Some str) })"

section \<open>Parsing\<close>

definition ELFMAG :: "u8 list" where "ELFMAG = [0x7f, 0x45, 0x4c, 0x46]"
definition ELFCLASS32 :: u8 where "ELFCLASS32 = 1"

definition ElfParseHeader :: "elf_context \<Rightarrow> (bool \<times> elf_context) option" where
  "ElfParseHeader ctx =
     (if file_size ctx < EHDR_SIZE then Some (False, ctx)
      else do {
        let bs = file_content ctx;
        h \<leftarrow> get_header bs;
        let ctx = ctx\<lparr>elf_header := Some h\<rparr>;
        if take 4 (e_ident h) \<noteq> ELFMAG \<or> e_ident h ! 4 \<noteq> ELFCLASS32 then Some (False, ctx)
        else do {
          let strndx = e_shoff h + ucast (e_shstrndx h) * SHDR_SIZE;
          stroff \<leftarrow> sh_offset bs strndx;
          Some (True, ctx\<lparr>shdr := e_shoff h, itr_shdr := e_shoff h, n_shdr := ucast (e_shnum h),
            shstrtab := strndx, shstrtab_offset := stroff, strtab := None, dynstr := None, dynsym := None,
            phdr := e_phoff h, itr_phdr := e_phoff h, n_phdr := ucast (e_phnum h)\<rparr>) } })"

text \<open>The loop over the section headers; its number of rounds is \<open>n_shdr\<close> at the start.\<close>

fun sht_loop :: "nat \<Rightarrow> elf_context \<Rightarrow> elf_context option" where
  "sht_loop n ctx =
     (case ElfNextSHDR ctx of
        (None, ctx) \<Rightarrow> Some ctx
      | (Some sh, ctx) \<Rightarrow>
          (case n of 0 \<Rightarrow> None | Suc n \<Rightarrow> do {
             let bs = file_content ctx;
             off \<leftarrow> sh_name bs sh;
             name \<leftarrow> string_at bs (shstrtab_offset ctx + off);
             ctx \<leftarrow>
               (if name = ''.strtab'' then do {
                  o' \<leftarrow> sh_offset bs sh; Some (ctx\<lparr>strtab := Some sh, strtab_offset := o'\<rparr>) }
                else if name = ''.dynstr'' then do {
                  o' \<leftarrow> sh_offset bs sh; Some (ctx\<lparr>dynstr := Some sh, dynstr_offset := Some o'\<rparr>) }
                else if name = ''.dynsym'' then ElfResetDynsym (ctx\<lparr>dynsym := Some sh\<rparr>)
                else if name = ''.rel.dyn'' then ElfResetRelDyn (ctx\<lparr>rel_dyn := Some sh\<rparr>)
                else if name = ''.rel.plt'' then ElfResetRelPlt (ctx\<lparr>rel_plt := Some sh\<rparr>)
                else Some ctx);
             sht_loop n ctx }))"

declare sht_loop.simps [simp del]

definition ElfParseSHT :: "elf_context \<Rightarrow> (bool \<times> elf_context) option" where
  "ElfParseSHT ctx = do {
     ctx \<leftarrow> sht_loop (unat (n_shdr ctx)) ctx;
     ctx \<leftarrow> ElfResetSHDR ctx;
     Some (True, ctx) }"

definition ElfParse_u :: "elf_context \<Rightarrow> (bool \<times> elf_context) option" where
  "ElfParse_u ctx = do {
     (ok, ctx) \<leftarrow> ElfParseHeader ctx;
     if \<not> ok then Some (False, ctx)
     else do { (ok, ctx) \<leftarrow> ElfParseSHT ctx; Some (ok, ctx) } }"

section \<open>Loading the file\<close>

text \<open>\<open>MemFree\<close> of a pointer that is not NULL.\<close>

definition free_ptr :: "u32 \<Rightarrow> mem_state \<Rightarrow> mem_state option" where
  "free_ptr p m = (if p \<noteq> 0 then do { (_, m) \<leftarrow> MemFree_logged p m; Some m } else Some m)"

text \<open>
  \<open>ElfParse\<close>; the state is the memory and the file system, \<open>n\<close> bounds the links followed in
  \<open>path\<close>.  The error exit closes the file also when it has been closed already: the object is
  freed but still as it was, so this is another \<open>Ifs1CloseFile\<close> of the same value.  A NULL
  \<open>path\<close> reaches that exit with \<open>foptr\<close> uninitialised.
\<close>

definition ElfParse ::
  "nat \<Rightarrow> 'h drivers \<Rightarrow> cmos_date_time \<Rightarrow> string option \<Rightarrow> mem_state \<times> 'h ifs1 \<Rightarrow> (bool \<times> elf_context \<times> mem_state \<times> 'h ifs1) option" where
  "ElfParse n drv dt path ms = do {
     let ctx = zero_context;
     _ \<leftarrow> path;
     let (m, fs) = ms;
     (f, fs) \<leftarrow> Ifs1OpenFile n drv path FILE_MODE_READ fs;
     (case f of
        None \<Rightarrow> Some (False, ctx, m, fs)
      | Some f \<Rightarrow> do {
          let size = flen f;
          (p, m) \<leftarrow> MemAlloc_logged size m;
          (bs, f, fs) \<leftarrow> Ifs1ReadFile drv f size fs;
          if p = 0 \<and> bs \<noteq> [] then None
          else do {
            let ctx = ctx\<lparr>file_size := size, file_content := bs, elf_ptr := p\<rparr>;
            if of_nat (length bs) \<noteq> size then do {
              (_, _, fs) \<leftarrow> Ifs1CloseFile drv dt (Some f) fs;
              m \<leftarrow> free_ptr p m;
              Some (False, ctx, m, fs) }
            else do {
              (_, _, fs) \<leftarrow> Ifs1CloseFile drv dt (Some f) fs;
              (ok, ctx) \<leftarrow> ElfParse_u ctx;
              if ok then Some (True, ctx\<lparr>elf_valid := True\<rparr>, m, fs)
              else do {
                (_, _, fs) \<leftarrow> Ifs1CloseFile drv dt (Some f) fs;
                m \<leftarrow> free_ptr p m;
                Some (False, ctx, m, fs) } } } }) }"

definition ElfFree :: "elf_context \<Rightarrow> mem_state \<Rightarrow> mem_state option" where
  "ElfFree ctx m = free_ptr (elf_ptr ctx) m"

definition ElfGetFileSize ::
  "nat \<Rightarrow> 'h drivers \<Rightarrow> cmos_date_time \<Rightarrow> string option \<Rightarrow> 'h ifs1 \<Rightarrow> (u32 \<times> 'h ifs1) option" where
  "ElfGetFileSize n drv dt path fs = do {
     (f, fs) \<leftarrow> Ifs1OpenFile n drv path FILE_MODE_READ fs;
     (case f of
        None \<Rightarrow> Some (0, fs)
      | Some f \<Rightarrow> do {
          let len = flen f;
          (_, _, fs) \<leftarrow> Ifs1CloseFile drv dt (Some f) fs;
          Some (len, fs) }) }"

end
