(* ===== verification/Tasks.thy ===== *)
theory Tasks
  imports Paging Elf MQueue
begin

text \<open>
  \<^verbatim>\<open>kernel/tasks.c\<close>, with the system call stacks of \<^verbatim>\<open>kernel/kernel.c\<close> and the descriptor table
  access of \<^verbatim>\<open>kernel/386.c\<close> that it uses: creating, running, and killing tasks, their memory and
  the ELF files loaded into it.  The memory comes from the model of \<^verbatim>\<open>memory.c\<close>; \<open>ram\<close> holds the bytes
  of physical memory except for page tables, which are in \<open>pts\<close>.  Functions that take no task id
  or take one that is checked first have it as a number; the result \<open>-1\<close> is \<^const>\<open>None\<close>.
  Interrupts are off in all of them, and the lock that nests this is not repeated.
\<close>

section \<open>State\<close>

record tss =
  tss_back_link :: u32  tss_esp0 :: u32  tss_ss0 :: u32  tss_esp1 :: u32  tss_ss1 :: u32  tss_esp2 :: u32  tss_ss2 :: u32
  tss_cr3 :: u32  tss_eip :: u32  tss_flags :: u32  tss_eax :: u32  tss_ecx :: u32  tss_edx :: u32  tss_ebx :: u32
  tss_esp :: u32  tss_ebp :: u32  tss_esi :: u32  tss_edi :: u32  tss_es :: u32  tss_cs :: u32  tss_ss :: u32  tss_ds :: u32
  tss_fs :: u32  tss_gs :: u32  tss_ldt :: u32  tss_trap :: u16  tss_iobase :: u16

definition MAX_TASK_COUNT :: nat where "MAX_TASK_COUNT = 64"
definition MAX_APP_LEN :: u32 where "MAX_APP_LEN = 16 * 1024 * 1024"
definition MAX_TASK_OPENED_FILE_COUNT :: nat where "MAX_TASK_OPENED_FILE_COUNT = 1024"
definition MAX_TASK_MEMORY_BLOCK_COUNT :: nat where "MAX_TASK_MEMORY_BLOCK_COUNT = 10 * 1024"
definition MAX_TASK_MQUEUE_COUNT :: nat where "MAX_TASK_MQUEUE_COUNT = 16"
definition MAX_TASK_ELF_SO_COUNT :: nat where "MAX_TASK_ELF_SO_COUNT = 4"
definition TASK_TYPE_USER :: u32 where "TASK_TYPE_USER = 1"
definition TASK_TYPE_SYSTEM :: u32 where "TASK_TYPE_SYSTEM = 2"
definition TASK_PRIORITY_HIGH :: u32 where "TASK_PRIORITY_HIGH = 1"
definition TASK_PRIORITY_NORMAL :: u32 where "TASK_PRIORITY_NORMAL = 2"
definition TASK_PRIORITY_LOW :: u32 where "TASK_PRIORITY_LOW = 3"
definition TASK_TICK_HIGH :: u32 where "TASK_TICK_HIGH = 40"
definition TASK_TICK_NORMAL :: u32 where "TASK_TICK_NORMAL = 15"
definition TASK_TICK_LOW :: u32 where "TASK_TICK_LOW = 5"

text \<open>The images of the floating point unit, which only assembly code touches, are left out.\<close>

record task =
  tk_used :: bool
  tk_allocable :: bool
  tk_running :: bool
  tk_ran :: bool
  tk_name :: string
  tk_param :: string
  tk_app_len :: u32
  tk_addr :: u32
  tk_tss :: tss
  tk_init_i387 :: bool
  tk_pagedt_addr :: u32
  tk_real_pagedt_addr :: u32
  tk_opened_file_ptrs :: "addr option list"
  tk_memory_block_ptrs :: "u32 list"
  tk_mqueue_ids :: "addr option list"
  tk_used_memory_size :: u32
  tk_working_dir :: string
  tk_retvalue :: u32
  tk_ready :: bool
  tk_is_system_call :: bool
  tk_fs_lock :: bool
  tk_stdin :: "addr option"
  tk_stdout :: "addr option"
  tk_stderr :: "addr option"
  tk_read_count :: u32
  tk_type :: u32
  tk_priority :: u32
  tk_tick :: u32
  tk_on_exit :: "nat option"
  tk_elf :: u32
  tk_elf_so_ctx :: "u32 list"

text \<open>Calls of functions that are not modelled: the task's own exit function and the windows.\<close>

datatype outside_call = OnExit nat nat u32 | GuiCloseWindows nat

record 'h os = paging +
  ram :: "u32 \<Rightarrow> u8"
  gdt :: "nat \<Rightarrow> u8 list"
  os_fs :: "'h ifs1"
  fobjs :: "addr \<Rightarrow> file_object option"
  os_mq :: mq_state
  elf_ctxs :: "u32 \<Rightarrow> elf_context"
  tasks :: "nat \<Rightarrow> task"
  running_tid :: "nat option"
  task_count :: int
  scall_stacks :: "nat \<Rightarrow> u32"
  scall_tss :: "nat \<Rightarrow> tss"
  sc_fs_locked :: bool
  driver_locks :: "(bool \<times> nat option) list"   \<comment> \<open>ATA, ATAPI, AHCI: locked, and by which task\<close>
  outside :: "outside_call list"

text \<open>Addresses the linker chooses.\<close>

record kaddr =
  tss_addr :: "nat \<Rightarrow> u32"
  scall_tss_addr :: "nat \<Rightarrow> u32"
  scall_entry :: u32

definition set_task :: "nat \<Rightarrow> (task \<Rightarrow> task) \<Rightarrow> 'h os \<Rightarrow> 'h os" where
  "set_task i g s = s\<lparr>tasks := (tasks s)(i := g (tasks s i))\<rparr>"

definition os_alloc :: "u32 \<Rightarrow> 'h os \<Rightarrow> (u32 \<times> 'h os) option" where
  "os_alloc n s = do { (p, m) \<leftarrow> MemAlloc_logged n (pg_mem s); Some (p, s\<lparr>pg_mem := m\<rparr>) }"

definition os_free :: "u32 \<Rightarrow> 'h os \<Rightarrow> 'h os option" where
  "os_free p s = do { (_, m) \<leftarrow> MemFree_logged p (pg_mem s); Some (s\<lparr>pg_mem := m\<rparr>) }"

definition os_free_nz :: "u32 \<Rightarrow> 'h os \<Rightarrow> 'h os option" where
  "os_free_nz p s = (if p \<noteq> 0 then os_free p s else Some s)"

definition ram_put :: "u32 \<Rightarrow> u8 list \<Rightarrow> (u32 \<Rightarrow> u8) \<Rightarrow> (u32 \<Rightarrow> u8)" where
  "ram_put dst bs m = (\<lambda>a. if unat (a - dst) < length bs then bs ! unat (a - dst) else m a)"

section \<open>Descriptors\<close>

definition AT386TSS :: u16 where "AT386TSS = 0x89"
definition ATTASKGATE :: u8 where "ATTASKGATE = 0x85"
definition ATCE :: u16 where "ATCE = 0x98"
definition ATDW :: u16 where "ATDW = 0x92"
definition DPL0 :: u16 where "DPL0 = 0x00"
definition DPL3 :: u16 where "DPL3 = 0x60"
definition D32 :: u16 where "D32 = 0x4000"
definition G_BIT :: u16 where "G_BIT = 0x8000"
definition RPL0 :: u32 where "RPL0 = 0"
definition RPL3 :: u32 where "RPL3 = 3"
definition MAX_DESC_COUNT :: nat where "MAX_DESC_COUNT = 8192"
definition TSS_SIZE :: u16 where "TSS_SIZE = 104"

definition bytes16 :: "u16 \<Rightarrow> u8 list" where
  "bytes16 v = [ucast v, ucast (drop_bit 8 v)]"

text \<open>The eight bytes of a \<open>struct Desc\<close> with the base split over \<open>basel\<close>, \<open>basem\<close> and \<open>baseh\<close>, and
  of a \<open>struct Gate\<close>.\<close>

definition desc :: "u16 \<Rightarrow> u32 \<Rightarrow> u16 \<Rightarrow> u8 list" where
  "desc limitl base attr =
     bytes16 limitl @ bytes16 (ucast base) @ [ucast (drop_bit 16 base)] @ bytes16 attr @ [ucast (drop_bit 24 base)]"

definition gate :: "u16 \<Rightarrow> u16 \<Rightarrow> u8 \<Rightarrow> u8 \<Rightarrow> u16 \<Rightarrow> u8 list" where
  "gate offsetl selector dcount attr offseth = bytes16 offsetl @ bytes16 selector @ [dcount, attr] @ bytes16 offseth"

definition KnlSetDescToGDT :: "nat \<Rightarrow> u8 list \<Rightarrow> 'h os \<Rightarrow> 'h os" where
  "KnlSetDescToGDT i d s = (if i \<ge> MAX_DESC_COUNT then s else s\<lparr>gdt := (gdt s)(i := d)\<rparr>)"

definition KnlGetDescFromGDT :: "nat \<Rightarrow> 'h os \<Rightarrow> u8 list option" where
  "KnlGetDescFromGDT i s = (if i \<ge> MAX_DESC_COUNT then None else Some (gdt s i))"

text \<open>\<open>desc.attr = attr\<close> on the bytes of a descriptor.\<close>

definition set_attr :: "u16 \<Rightarrow> u8 list \<Rightarrow> u8 list" where
  "set_attr attr d = take 5 d @ bytes16 attr @ drop 7 d"

section \<open>System call stacks (\<open>kernel.c\<close>)\<close>

definition SYSCALL_PROCEDURE_STACK_SIZE :: u32 where "SYSCALL_PROCEDURE_STACK_SIZE = 0x100000"
definition INTERRUPT_PROCEDURE_STACK_SIZE :: u32 where "INTERRUPT_PROCEDURE_STACK_SIZE = 0x100000"
definition KERNEL_C_DESC :: u32 where "KERNEL_C_DESC = push_bit 3 1"
definition KERNEL_D_DESC :: u32 where "KERNEL_D_DESC = push_bit 3 2"

definition KnlFillTSS :: "u32 \<Rightarrow> u32 \<Rightarrow> u32 \<Rightarrow> tss" where
  "KnlFillTSS cr3 eip esp =
     \<lparr>tss_back_link = 0, tss_esp0 = esp + INTERRUPT_PROCEDURE_STACK_SIZE, tss_ss0 = KERNEL_D_DESC, tss_esp1 = 0, tss_ss1 = 0,
       tss_esp2 = 0, tss_ss2 = 0, tss_cr3 = cr3, tss_eip = eip, tss_flags = 0, tss_eax = 0, tss_ecx = 0, tss_edx = 0,
       tss_ebx = 0, tss_esp = esp + INTERRUPT_PROCEDURE_STACK_SIZE, tss_ebp = 0, tss_esi = 0, tss_edi = 0,
       tss_es = KERNEL_D_DESC, tss_cs = KERNEL_C_DESC, tss_ss = KERNEL_D_DESC, tss_ds = KERNEL_D_DESC,
       tss_fs = KERNEL_D_DESC, tss_gs = KERNEL_D_DESC, tss_ldt = 0, tss_trap = 0, tss_iobase = TSS_SIZE\<rparr>"

definition KnlResetSystemCall :: "'a kaddr_scheme \<Rightarrow> nat \<Rightarrow> 'h os \<Rightarrow> (bool \<times> 'h os) option" where
  "KnlResetSystemCall ka tid s =
     (if tid \<ge> MAX_TASK_COUNT then Some (False, s)
      else do {
        (stack, s) \<leftarrow> os_alloc SYSCALL_PROCEDURE_STACK_SIZE s;
        if stack = 0 then Some (False, s)
        else do {
          let s = s\<lparr>scall_stacks := (scall_stacks s)(tid := stack)\<rparr>;
          let s = KnlSetDescToGDT (30 + tid * 2 + 0) (desc (TSS_SIZE - 1) (scall_tss_addr ka tid) (AT386TSS + DPL3)) s;
          let s = KnlSetDescToGDT (30 + tid * 2 + 1)
                    (gate 0 (ucast (push_bit 3 (of_nat (30 + tid * 2 + 0)) OR RPL3)) 0 (ATTASKGATE OR ucast DPL3) 0) s;
          Some (True, s\<lparr>scall_tss := (scall_tss s)(tid := KnlFillTSS (PgGetKernelCR3 s) (scall_entry ka) stack)\<rparr>) } })"

definition KnlFreeSystemCall :: "nat \<Rightarrow> 'h os \<Rightarrow> 'h os option" where
  "KnlFreeSystemCall tid s = (if tid \<ge> MAX_TASK_COUNT then Some s else os_free (scall_stacks s tid) s)"

section \<open>Creating tasks\<close>

text \<open>\<open>TskmgrInit\<close>; \<open>die\<close> halts the machine, which is \<^const>\<open>None\<close>.\<close>

fun init_loop :: "'a kaddr_scheme \<Rightarrow> nat \<Rightarrow> nat \<Rightarrow> 'h os \<Rightarrow> 'h os option" where
  "init_loop ka ui 0 s = Some s"
| "init_loop ka ui (Suc n) s = do {
     let s = set_task ui (\<lambda>t. t\<lparr>tk_used := False, tk_allocable := True\<rparr>) s;
     let s = KnlSetDescToGDT (400 + ui * 5 + 0) (desc (TSS_SIZE - 1) (tss_addr ka ui) (AT386TSS + DPL3)) s;
     let s = KnlSetDescToGDT (400 + ui * 5 + 1)
               (gate 0 (ucast (push_bit 3 (of_nat (400 + ui * 5 + 0)) OR RPL3)) 0 (ATTASKGATE OR ucast DPL3) 0) s;
     (a, s) \<leftarrow> os_alloc (of_nat (MAX_TASK_OPENED_FILE_COUNT * 4)) s;
     (b, s) \<leftarrow> os_alloc (of_nat (MAX_TASK_MEMORY_BLOCK_COUNT * 4)) s;
     (c, s) \<leftarrow> os_alloc (of_nat (MAX_TASK_MQUEUE_COUNT * 4)) s;
     (d, s) \<leftarrow> os_alloc 1024 s;
     (e, s) \<leftarrow> os_alloc 1024 s;
     (f, s) \<leftarrow> os_alloc 1024 s;
     if a = 0 \<or> b = 0 \<or> c = 0 \<or> d = 0 \<or> e = 0 \<or> f = 0 then None
     else init_loop ka (Suc ui) n s }"

definition TskmgrInit :: "'a kaddr_scheme \<Rightarrow> 'h os \<Rightarrow> (bool \<times> 'h os) option" where
  "TskmgrInit ka s = map_option (Pair True) (init_loop ka 0 MAX_TASK_COUNT s)"

text \<open>The fields that are set before the memory is allocated.\<close>

definition reset_task :: "string \<Rightarrow> string \<Rightarrow> u32 \<Rightarrow> string \<Rightarrow> u32 \<Rightarrow> task \<Rightarrow> task" where
  "reset_task name param app_len working_dir type t =
     t\<lparr>tk_used := True, tk_on_exit := None, tk_retvalue := 0, tk_running := False, tk_is_system_call := False,
       tk_fs_lock := False, tk_stdin := None, tk_stdout := None, tk_stderr := None, tk_read_count := 0, tk_type := type,
       tk_priority := TASK_TICK_NORMAL, tk_tick := TASK_TICK_NORMAL, tk_elf := 0,
       tk_elf_so_ctx := replicate MAX_TASK_ELF_SO_COUNT 0, tk_name := clip 1024 name, tk_param := clip 1024 param,
       tk_working_dir := clip 1024 working_dir, tk_app_len := app_len\<rparr>"

definition seg_attr :: "u16 \<Rightarrow> u16 \<Rightarrow> u16" where
  "seg_attr kind dpl = kind OR dpl OR D32 OR G_BIT OR 0x0F00"

definition set_segments :: "nat \<Rightarrow> u32 \<Rightarrow> 'h os \<Rightarrow> 'h os" where
  "set_segments tid type s =
     (let dpl = (if type = TASK_TYPE_USER then DPL3 else DPL0);
          s = KnlSetDescToGDT (400 + tid * 5 + 2) (desc 0xFFFF 0 (seg_attr ATCE dpl)) s;
          s = KnlSetDescToGDT (400 + tid * 5 + 3) (desc 0xFFFF 0 (seg_attr ATDW dpl)) s in
      KnlSetDescToGDT (400 + tid * 5 + 4) (desc 0xFFFF 0 (seg_attr ATDW DPL0)) s)"

definition task_tss :: "nat \<Rightarrow> u32 \<Rightarrow> tss" where
  "task_tss tid type =
     (let rpl = (if type = TASK_TYPE_USER then RPL3 else RPL0);
          code = push_bit 3 (of_nat (400 + tid * 5 + 2)) OR rpl;
          data = push_bit 3 (of_nat (400 + tid * 5 + 3)) OR rpl in
      \<lparr>tss_back_link = 0, tss_esp0 = 0x012ffff0, tss_ss0 = push_bit 3 (of_nat (400 + tid * 5 + 4)) OR RPL0, tss_esp1 = 0,
        tss_ss1 = 0, tss_esp2 = 0, tss_ss2 = 0, tss_cr3 = 0, tss_eip = 0x01300000, tss_flags = 0x200, tss_eax = 0,
        tss_ecx = 0, tss_edx = 0, tss_ebx = 0, tss_esp = 0x011ffff0, tss_ebp = 0, tss_esi = 0, tss_edi = 0,
        tss_es = data, tss_cs = code, tss_ss = data, tss_ds = data, tss_fs = data, tss_gs = data, tss_ldt = 0,
        tss_trap = 0, tss_iobase = TSS_SIZE\<rparr>)"

text \<open>The three mappings of a new task: the kernel, the task, and its first page again, read-only.\<close>

definition map_task :: "u32 \<Rightarrow> u32 \<Rightarrow> pt \<Rightarrow> pt" where
  "map_task real_task_len addr t =
     (let t = snd (PgMapUserPageTableWithPermission 0x00000000 0x01000000 0x00000000 RW_RE t);
          t = snd (PgMapUserPageTableWithPermission 0x01000000 real_task_len addr RW_RWE t) in
      snd (PgMapUserPageTableWithPermission 0x01000000 4096 addr RW_RE t))"

definition TASK_SPACE :: u32 where "TASK_SPACE = 3 * 1024 * 1024"

text \<open>\<open>_TskmgrCreateTask\<close>; \<open>app\<close> is the program, its length is \<open>app_len\<close>.\<close>

definition TskmgrCreateTask_u ::
  "'a kaddr_scheme \<Rightarrow> string \<Rightarrow> string \<Rightarrow> u8 list \<Rightarrow> u32 \<Rightarrow> string \<Rightarrow> u32 \<Rightarrow> 'h os \<Rightarrow> (nat option \<times> 'h os) option" where
  "TskmgrCreateTask_u ka name param app app_len working_dir type s =
     (if type \<noteq> TASK_TYPE_USER \<and> type \<noteq> TASK_TYPE_SYSTEM then Some (None, s)
      else if app_len > MAX_APP_LEN then Some (None, s)
      else (case first_index (\<lambda>ui. \<not> tk_used (tasks s ui) \<and> tk_allocable (tasks s ui)) 0 MAX_TASK_COUNT of
         None \<Rightarrow> Some (None, s)
       | Some tid \<Rightarrow> do {
           d \<leftarrow> KnlGetDescFromGDT (400 + tid * 5 + 0) s;
           let s = KnlSetDescToGDT (400 + tid * 5 + 0) (set_attr (AT386TSS + DPL3) d) s;
           (ok, s) \<leftarrow> KnlResetSystemCall ka tid s;
           if \<not> ok then Some (None, s)
           else do {
             let s = set_task tid (reset_task name param app_len working_dir type) s;
             let real_task_len = TASK_SPACE + app_len;
             (addr, s) \<leftarrow> os_alloc real_task_len s;
             let s = set_task tid (\<lambda>t. t\<lparr>tk_addr := addr, tk_used_memory_size := real_task_len\<rparr>) s;
             if addr = 0 then Some (None, s)
             else do {
               let s = s\<lparr>ram := ram_put (addr + TASK_SPACE) app (MemClear addr 0 real_task_len (ram s))\<rparr>;
               let s = set_task tid (\<lambda>t. t\<lparr>tk_opened_file_ptrs := replicate MAX_TASK_OPENED_FILE_COUNT None,
                 tk_memory_block_ptrs := replicate MAX_TASK_MEMORY_BLOCK_COUNT 0,
                 tk_mqueue_ids := replicate MAX_TASK_MQUEUE_COUNT None\<rparr>) s;
               let s = s\<lparr>ram := ram_put (addr + 4) (replicate 4 0) (ram_put addr (map (byte32 (of_nat tid)) [0..<4]) (ram s))\<rparr>;
               let s = set_segments tid type s;
               let s = set_task tid (\<lambda>t. t\<lparr>tk_tss := task_tss tid type\<rparr>) s;
               (pagedt, s) \<leftarrow> PgCreateEmptyUserPageTable s;
               (case pagedt of
                  None \<Rightarrow> do {
                    let s = set_task tid (\<lambda>t. t\<lparr>tk_pagedt_addr := 0\<rparr>) s;
                    s \<leftarrow> os_free addr s;
                    Some (None, s) }
                | Some (p, cr3) \<Rightarrow> do {
                    let s = s\<lparr>pts := (pts s)(cr3 := map_task real_task_len addr (pts s cr3))\<rparr>;
                    let s = set_task tid (\<lambda>t. t\<lparr>tk_pagedt_addr := p, tk_real_pagedt_addr := cr3,
                      tk_tss := (tk_tss t)\<lparr>tss_cr3 := cr3\<rparr>, tk_init_i387 := False, tk_ran := False, tk_ready := False\<rparr>) s;
                    Some (Some tid, s\<lparr>task_count := task_count s + 1\<rparr>) }) } } }))"

definition TskmgrCreateTask ::
  "'a kaddr_scheme \<Rightarrow> string \<Rightarrow> string \<Rightarrow> u8 list \<Rightarrow> u32 \<Rightarrow> string \<Rightarrow> 'h os \<Rightarrow> (nat option \<times> 'h os) option" where
  "TskmgrCreateTask ka name param app app_len working_dir = TskmgrCreateTask_u ka name param app app_len working_dir TASK_TYPE_USER"

definition TskmgrCreateSystemTask ::
  "'a kaddr_scheme \<Rightarrow> string \<Rightarrow> string \<Rightarrow> u8 list \<Rightarrow> u32 \<Rightarrow> string \<Rightarrow> 'h os \<Rightarrow> (nat option \<times> 'h os) option" where
  "TskmgrCreateSystemTask ka name param app app_len working_dir =
     TskmgrCreateTask_u ka name param app app_len working_dir TASK_TYPE_SYSTEM"

section \<open>Killing tasks\<close>

definition live_tid :: "nat \<Rightarrow> 'h os \<Rightarrow> bool" where
  "live_tid tid s \<longleftrightarrow> tid < MAX_TASK_COUNT \<and> tk_used (tasks s tid)"

text \<open>\<open>Ifs1CloseFile\<close> on a pointer; \<^const>\<open>None\<close> when no open file is there.\<close>

definition close_ptr :: "'h drivers \<Rightarrow> cmos_date_time \<Rightarrow> addr option \<Rightarrow> 'h os \<Rightarrow> 'h os option" where
  "close_ptr drv dt p s =
     (case p of
        None \<Rightarrow> Some s
      | Some a \<Rightarrow> do {
          f \<leftarrow> fobjs s a;
          (_, f', fs) \<leftarrow> Ifs1CloseFile drv dt (Some f) (os_fs s);
          Some (s\<lparr>os_fs := fs, fobjs := (fobjs s)(a := f')\<rparr>) })"

fun each :: "('a \<Rightarrow> 's \<Rightarrow> 's option) \<Rightarrow> 'a list \<Rightarrow> 's \<Rightarrow> 's option" where
  "each f [] s = Some s"
| "each f (x # xs) s = do { s \<leftarrow> f x s; each f xs s }"

definition free_queue :: "addr option \<Rightarrow> 'h os \<Rightarrow> 'h os option" where
  "free_queue q s =
     (case q of
        None \<Rightarrow> Some s
      | Some _ \<Rightarrow> do { (_, mq) \<leftarrow> MqFree q (os_mq s); Some (s\<lparr>os_mq := mq\<rparr>) })"

definition free_context :: "u32 \<Rightarrow> 'h os \<Rightarrow> 'h os option" where
  "free_context p s =
     (if p = 0 then Some s
      else do {
        s \<leftarrow> os_free_nz (elf_ptr (elf_ctxs s p)) s;
        os_free p s })"

definition drivers_busy :: "nat \<Rightarrow> 'h os \<Rightarrow> bool" where
  "drivers_busy tid s \<longleftrightarrow> (\<exists>l \<in> set (driver_locks s). fst l \<and> snd l = Some tid)"

text \<open>\<open>AtaAttemptToUnlock\<close> and its copies for ATAPI and AHCI.\<close>

definition attempt_to_unlock :: "nat \<Rightarrow> bool \<times> nat option \<Rightarrow> bool \<times> nat option" where
  "attempt_to_unlock tid l = (if snd l = Some tid then (False, None) else l)"

text \<open>
  \<open>_TskmgrKillTask\<close>.  The first loop only waits for a driver, with interrupts on; the test after
  it is the one that counts.
\<close>

definition TskmgrKillTask_u :: "'h drivers \<Rightarrow> cmos_date_time \<Rightarrow> nat \<Rightarrow> 'h os \<Rightarrow> (bool \<times> 'h os) option" where
  "TskmgrKillTask_u drv dt tid s =
     (if \<not> live_tid tid s then Some (False, s)
      else if drivers_busy tid s then Some (False, s)
      else do {
        s \<leftarrow> os_free_nz (tk_addr (tasks s tid)) s;
        s \<leftarrow> each (close_ptr drv dt) (tk_opened_file_ptrs (tasks s tid)) s;
        let s = set_task tid (\<lambda>t. t\<lparr>tk_opened_file_ptrs := map (\<lambda>_. None) (tk_opened_file_ptrs t)\<rparr>) s;
        s \<leftarrow> each os_free_nz (tk_memory_block_ptrs (tasks s tid)) s;
        let s = set_task tid (\<lambda>t. t\<lparr>tk_memory_block_ptrs := map (\<lambda>_. 0) (tk_memory_block_ptrs t)\<rparr>) s;
        s \<leftarrow> each free_queue (tk_mqueue_ids (tasks s tid)) s;
        let s = set_task tid (\<lambda>t. t\<lparr>tk_mqueue_ids := map (\<lambda>_. None) (tk_mqueue_ids t)\<rparr>) s;
        s \<leftarrow> os_free_nz (tk_pagedt_addr (tasks s tid)) s;
        let s = (case tk_on_exit (tasks s tid) of
                   None \<Rightarrow> s | Some f \<Rightarrow> s\<lparr>outside := outside s @ [OnExit f tid (tk_retvalue (tasks s tid))]\<rparr>);
        let s = (if tk_fs_lock (tasks s tid) then s\<lparr>sc_fs_locked := False\<rparr> else s);
        s \<leftarrow> close_ptr drv dt (tk_stdin (tasks s tid)) s;
        s \<leftarrow> close_ptr drv dt (tk_stdout (tasks s tid)) s;
        s \<leftarrow> close_ptr drv dt (tk_stderr (tasks s tid)) s;
        s \<leftarrow> os_free_nz (tk_elf (tasks s tid)) s;
        s \<leftarrow> each free_context (tk_elf_so_ctx (tasks s tid)) s;
        let s = set_task tid (\<lambda>t. t\<lparr>tk_elf_so_ctx := map (\<lambda>_. 0) (tk_elf_so_ctx t)\<rparr>) s;
        s \<leftarrow> KnlFreeSystemCall tid s;
        let s = s\<lparr>driver_locks := map (attempt_to_unlock tid) (driver_locks s), outside := outside s @ [GuiCloseWindows tid]\<rparr>;
        let s = (if running_tid s = Some tid then s\<lparr>running_tid := None\<rparr> else s);
        let s = set_task tid (\<lambda>t. t\<lparr>tk_used := False\<rparr>) s;
        Some (True, s\<lparr>task_count := task_count s - 1\<rparr>) })"

definition TskmgrKillTask :: "'h drivers \<Rightarrow> cmos_date_time \<Rightarrow> nat \<Rightarrow> 'h os \<Rightarrow> (bool \<times> 'h os) option" where
  "TskmgrKillTask drv dt tid s =
     (if \<not> live_tid tid s \<or> tk_type (tasks s tid) \<noteq> TASK_TYPE_USER then Some (False, s) else TskmgrKillTask_u drv dt tid s)"

definition TskmgrKillSystemTask :: "'h drivers \<Rightarrow> cmos_date_time \<Rightarrow> nat \<Rightarrow> 'h os \<Rightarrow> (bool \<times> 'h os) option" where
  "TskmgrKillSystemTask drv dt tid s = (if \<not> live_tid tid s then Some (False, s) else TskmgrKillTask_u drv dt tid s)"

definition TskmgrKillAllTasks :: "'h drivers \<Rightarrow> cmos_date_time \<Rightarrow> 'h os \<Rightarrow> 'h os option" where
  "TskmgrKillAllTasks drv dt =
     each (\<lambda>ui s. if tk_used (tasks s ui) then do { (_, s) \<leftarrow> TskmgrKillSystemTask drv dt ui s; Some s } else Some s) [0..<MAX_TASK_COUNT]"

section \<open>Task information\<close>

definition TskmgrGetTaskInfo :: "nat \<Rightarrow> 'h os \<Rightarrow> task option" where
  "TskmgrGetTaskInfo tid s = (if live_tid tid s then Some (tasks s tid) else None)"

definition TskmgrSetTaskInfo :: "nat \<Rightarrow> task \<Rightarrow> 'h os \<Rightarrow> bool \<times> 'h os" where
  "TskmgrSetTaskInfo tid t s = (if live_tid tid s then (True, set_task tid (\<lambda>_. t) s) else (False, s))"

text \<open>The pointer \<open>tasks + tid\<close> is \<open>tid\<close> itself.\<close>

definition TskmgrGetTaskInfoPtr :: "nat \<Rightarrow> 'h os \<Rightarrow> nat option" where
  "TskmgrGetTaskInfoPtr tid s = (if live_tid tid s then Some tid else None)"

definition TskmgrGetTaskInfoPtrUnsafely :: "nat \<Rightarrow> nat option" where
  "TskmgrGetTaskInfoPtrUnsafely tid = (if tid < MAX_TASK_COUNT then Some tid else None)"

definition TskmgrSetTaskToReady :: "nat \<Rightarrow> 'h os \<Rightarrow> bool \<times> 'h os" where
  "TskmgrSetTaskToReady tid s =
     (case TskmgrGetTaskInfoPtr tid s of None \<Rightarrow> (False, s) | Some i \<Rightarrow> (True, set_task i (\<lambda>t. t\<lparr>tk_ready := True\<rparr>) s))"

definition TaskmgrGetRunningTaskID :: "'h os \<Rightarrow> nat option" where "TaskmgrGetRunningTaskID s = running_tid s"
definition TaskmgrGetTaskCount :: "'h os \<Rightarrow> int" where "TaskmgrGetTaskCount s = task_count s"

section \<open>Tasks from files\<close>

definition ram_get :: "u32 \<Rightarrow> nat \<Rightarrow> (u32 \<Rightarrow> u8) \<Rightarrow> u8 list" where
  "ram_get a n m = map (\<lambda>i. m (a + of_nat i)) [0..<n]"

definition TskmgrCreateTaskByFile_u ::
  "'a kaddr_scheme \<Rightarrow> nat \<Rightarrow> 'h drivers \<Rightarrow> cmos_date_time \<Rightarrow> string option \<Rightarrow> string option \<Rightarrow> string option \<Rightarrow> u32 \<Rightarrow> 'h os \<Rightarrow>
     (nat option \<times> 'h os) option" where
  "TskmgrCreateTaskByFile_u ka n drv dt filename param working_dir type s =
     (case (filename, param, working_dir) of
        (Some name, Some prm, Some dir) \<Rightarrow> do {
          (f, fs) \<leftarrow> Ifs1OpenFile n drv filename FILE_MODE_READ (os_fs s);
          let s = s\<lparr>os_fs := fs\<rparr>;
          (case f of
             None \<Rightarrow> Some (None, s)
           | Some f \<Rightarrow> do {
               (app, s) \<leftarrow> os_alloc (flen f) s;
               let close = (\<lambda>f s. do { (_, _, fs) \<leftarrow> Ifs1CloseFile drv dt (Some f) (os_fs s); Some (s\<lparr>os_fs := fs\<rparr>) });
               if app = 0 then do { s \<leftarrow> close f s; Some (None, s) }
               else do {
                 (bs, f, s) \<leftarrow>
                   (if flen f \<le> 256 then Some ([], f, s)
                    else do { (bs, f, fs) \<leftarrow> Ifs1ReadFile drv f (flen f) (os_fs s); Some (bs, f, s\<lparr>os_fs := fs\<rparr>) });
                 if bs = [] then do { s \<leftarrow> os_free app s; s \<leftarrow> close f s; Some (None, s) }
                 else do {
                   let s = s\<lparr>ram := ram_put app bs (ram s)\<rparr>;
                   let file_symbol = takeWhile (\<lambda>c. c \<noteq> NUL) (map char8 (ram_get app 5 (ram s)));
                   if type = TASK_TYPE_USER \<and> file_symbol \<noteq> ''MTA32'' \<or> type = TASK_TYPE_SYSTEM \<and> file_symbol \<noteq> ''SYS32''
                   then do { s \<leftarrow> os_free app s; s \<leftarrow> close f s; Some (None, s) }
                   else do {
                     (tid, s) \<leftarrow> TskmgrCreateTask_u ka name prm (ram_get (app + 256) (unat (flen f - 256)) (ram s)) (flen f - 256) dir type s;
                     s \<leftarrow> os_free app s;
                     s \<leftarrow> close f s;
                     Some (tid, s) } } } }) }
      | _ \<Rightarrow> Some (None, s))"

definition TskmgrCreateTaskByFile ::
  "'a kaddr_scheme \<Rightarrow> nat \<Rightarrow> 'h drivers \<Rightarrow> cmos_date_time \<Rightarrow> string option \<Rightarrow> string option \<Rightarrow> string option \<Rightarrow> 'h os \<Rightarrow>
     (nat option \<times> 'h os) option" where
  "TskmgrCreateTaskByFile ka n drv dt filename param working_dir =
     TskmgrCreateTaskByFile_u ka n drv dt filename param working_dir TASK_TYPE_USER"

definition TskmgrCreateSystemTaskByFile ::
  "'a kaddr_scheme \<Rightarrow> nat \<Rightarrow> 'h drivers \<Rightarrow> cmos_date_time \<Rightarrow> string option \<Rightarrow> string option \<Rightarrow> string option \<Rightarrow> 'h os \<Rightarrow>
     (nat option \<times> 'h os) option" where
  "TskmgrCreateSystemTaskByFile ka n drv dt filename param working_dir =
     TskmgrCreateTaskByFile_u ka n drv dt filename param working_dir TASK_TYPE_SYSTEM"

text \<open>
  \<open>TskmgrCreateTaskByFileSync\<close> waits, with interrupts on, until the slot is unused; what the
  machine does in that time is the parameter \<open>wait\<close>.  The result is the return value of the task.
\<close>

definition TskmgrCreateTaskByFileSync ::
  "'a kaddr_scheme \<Rightarrow> nat \<Rightarrow> 'h drivers \<Rightarrow> cmos_date_time \<Rightarrow> (nat \<Rightarrow> 'h os \<Rightarrow> 'h os option) \<Rightarrow> string option \<Rightarrow> string option \<Rightarrow>
     string option \<Rightarrow> 'h os \<Rightarrow> (u32 option \<times> 'h os) option" where
  "TskmgrCreateTaskByFileSync ka n drv dt wait filename param working_dir s =
     (if filename = None \<or> param = None \<or> working_dir = None then Some (None, s)
      else do {
        (tid, s) \<leftarrow> TskmgrCreateTaskByFile ka n drv dt filename param working_dir s;
        (case tid of
           None \<Rightarrow> Some (None, s)
         | Some tid \<Rightarrow> do {
             let s = set_task tid (\<lambda>t. t\<lparr>tk_allocable := False\<rparr>) s;
             let s = snd (TskmgrSetTaskToReady tid s);
             s \<leftarrow> wait tid s;
             if tk_used (tasks s tid) then None
             else Some (Some (tk_retvalue (tasks s tid)), set_task tid (\<lambda>t. t\<lparr>tk_allocable := True\<rparr>) s) }) })"

section \<open>Redirection\<close>

text \<open>\<open>_TaskmgrRedirectIO\<close>: the new value of \<open>*v\<close>.\<close>

definition TaskmgrRedirectIO ::
  "nat \<Rightarrow> 'h drivers \<Rightarrow> cmos_date_time \<Rightarrow> addr option \<Rightarrow> string option \<Rightarrow> u32 \<Rightarrow> 'h os \<Rightarrow> (bool \<times> addr option \<times> 'h os) option" where
  "TaskmgrRedirectIO n drv dt v path mode s =
     (if path = None then Some (False, v, s)
      else do {
        (f, fs) \<leftarrow> Ifs1OpenFile n drv path mode (os_fs s);
        let s = s\<lparr>os_fs := fs\<rparr>;
        (case f of
           None \<Rightarrow> Some (False, v, s)
         | Some f \<Rightarrow> do {
             let s = s\<lparr>fobjs := (fobjs s)(fo_addr f := Some f)\<rparr>;
             s \<leftarrow> close_ptr drv dt v s;
             Some (True, Some (fo_addr f), s) }) })"

definition TaskmgrRedirectStdin ::
  "nat \<Rightarrow> 'h drivers \<Rightarrow> cmos_date_time \<Rightarrow> nat \<Rightarrow> string option \<Rightarrow> 'h os \<Rightarrow> (bool \<times> 'h os) option" where
  "TaskmgrRedirectStdin n drv dt tid path s =
     (case TskmgrGetTaskInfoPtr tid s of
        None \<Rightarrow> Some (False, s)
      | Some i \<Rightarrow> do {
          (r, v, s) \<leftarrow> TaskmgrRedirectIO n drv dt (tk_stdin (tasks s i)) path FILE_MODE_READ s;
          Some (r, set_task i (\<lambda>t. t\<lparr>tk_stdin := v\<rparr>) s) })"

definition TaskmgrRedirectStdout ::
  "nat \<Rightarrow> 'h drivers \<Rightarrow> cmos_date_time \<Rightarrow> nat \<Rightarrow> string option \<Rightarrow> 'h os \<Rightarrow> (bool \<times> 'h os) option" where
  "TaskmgrRedirectStdout n drv dt tid path s =
     (case TskmgrGetTaskInfoPtr tid s of
        None \<Rightarrow> Some (False, s)
      | Some i \<Rightarrow> do {
          (r, v, s) \<leftarrow> TaskmgrRedirectIO n drv dt (tk_stdout (tasks s i)) path FILE_MODE_APPEND s;
          Some (r, set_task i (\<lambda>t. t\<lparr>tk_stdout := v\<rparr>) s) })"

definition TaskmgrRedirectStderr ::
  "nat \<Rightarrow> 'h drivers \<Rightarrow> cmos_date_time \<Rightarrow> nat \<Rightarrow> string option \<Rightarrow> 'h os \<Rightarrow> (bool \<times> 'h os) option" where
  "TaskmgrRedirectStderr n drv dt tid path s =
     (case TskmgrGetTaskInfoPtr tid s of
        None \<Rightarrow> Some (False, s)
      | Some i \<Rightarrow> do {
          (r, v, s) \<leftarrow> TaskmgrRedirectIO n drv dt (tk_stderr (tasks s i)) path FILE_MODE_APPEND s;
          Some (r, set_task i (\<lambda>t. t\<lparr>tk_stderr := v\<rparr>) s) })"

end
