(* ===== verification/Task_Memory.thy ===== *)
theory Task_Memory
  imports Tasks
begin

text \<open>
  The part of \<^verbatim>\<open>kernel/tasks.c\<close> that gives memory to a task: translation of its linear
  addresses, blocks mapped into its space, and the loaders of ELF programs and ELF shared objects.
  \<^verbatim>\<open>kernel/so.c\<close> is the same loader for the kernel itself.  A \<open>memcpy\<close> writes \<open>ram\<close> at every
  address that its arguments name; reading behind the end of a file's content is \<^const>\<open>None\<close>.
\<close>

section \<open>Addresses and blocks\<close>

definition TaskmgrConvertLAddrToPAddr :: "nat \<Rightarrow> u32 \<Rightarrow> 'h os \<Rightarrow> u32" where
  "TaskmgrConvertLAddrToPAddr tid linear_address s =
     (if \<not> live_tid tid s then 0
      else (pts s (tk_real_pagedt_addr (tasks s tid)) (pte_index (dir_of linear_address) (page_of linear_address)) AND 0xfffff000)
        OR (linear_address AND 0xfff))"

text \<open>The first free entry of \<open>memory_block_ptrs\<close>.\<close>

definition free_block_slot :: "task \<Rightarrow> nat option" where
  "free_block_slot t = first_index (\<lambda>ui. tk_memory_block_ptrs t ! ui = 0) 0 MAX_TASK_MEMORY_BLOCK_COUNT"

text \<open>\<open>TaskmgrAllocMemory\<close> with a \<open>phyaddr\<close> that is not NULL: the result, what is written to
  \<open>*phyaddr\<close>, and the state.\<close>

definition TaskmgrAllocMemory :: "nat \<Rightarrow> u32 \<Rightarrow> 'h os \<Rightarrow> (u32 \<times> u32 option \<times> 'h os) option" where
  "TaskmgrAllocMemory tid len s =
     (case TskmgrGetTaskInfoPtr tid s of
        None \<Rightarrow> Some (0, None, s)
      | Some i \<Rightarrow>
          (let cr3 = tk_real_pagedt_addr (tasks s i) in
           case (free_block_slot (tasks s i), PgFindFreePages len (pts s cr3)) of
             (Some ui, Some start) \<Rightarrow> do {
               (ptr, s) \<leftarrow> os_alloc len s;
               if ptr \<noteq> 0 then do {
                 let s = s\<lparr>pts := (pts s)(cr3 := snd (PgMapUserPageTableWithPermission start len ptr RW_RWE (pts s cr3)))\<rparr>;
                 let s = set_task i (\<lambda>t. t\<lparr>tk_memory_block_ptrs := (tk_memory_block_ptrs t)[ui := ptr],
                   tk_used_memory_size := tk_used_memory_size t + MemAlign4KB len\<rparr>) s;
                 Some (start, Some ptr, s) }
               else Some (0, None, s) }
           | _ \<Rightarrow> Some (0, None, s)))"

definition TaskmgrFreeMemory :: "nat \<Rightarrow> u32 \<Rightarrow> 'h os \<Rightarrow> 'h os option" where
  "TaskmgrFreeMemory tid ptr s =
     (case TskmgrGetTaskInfoPtr tid s of
        None \<Rightarrow> Some s
      | Some i \<Rightarrow> do {
          let phyptr = TaskmgrConvertLAddrToPAddr tid ptr s;
          if phyptr \<noteq> 0 then do {
            (len, m) \<leftarrow> MemGetBlockSise_u phyptr (pg_mem s);
            let s = s\<lparr>pg_mem := m\<rparr>;
            let cr3 = tk_real_pagedt_addr (tasks s i);
            let s = s\<lparr>pts := (pts s)(cr3 := snd (PgFreePages ptr len (pts s cr3)))\<rparr>;
            let s = set_task i (\<lambda>t. t\<lparr>tk_memory_block_ptrs := map (\<lambda>p. if p = phyptr then 0 else p) (tk_memory_block_ptrs t)\<rparr>) s;
            os_free phyptr s }
          else Some s })"

section \<open>Loading segments\<close>

text \<open>The smallest address of a loadable segment, the largest one, and the size there.\<close>

definition extend :: "elf_phdr \<Rightarrow> u32 \<times> u32 \<times> u32 \<Rightarrow> u32 \<times> u32 \<times> u32" where
  "extend p acc =
     (case acc of (vbase, max_vaddr, max_msize) \<Rightarrow>
        if p_type p = PT_LOAD then
          (if p_vaddr p < vbase then p_vaddr p else vbase,
           if p_vaddr p > max_vaddr then p_vaddr p else max_vaddr,
           if p_vaddr p > max_vaddr then p_memsz p else max_msize)
        else acc)"

fun extent_loop :: "nat \<Rightarrow> elf_context \<Rightarrow> u32 \<times> u32 \<times> u32 \<Rightarrow> ((u32 \<times> u32 \<times> u32) \<times> elf_context) option" where
  "extent_loop n ctx acc =
     (case ElfNextPHDR ctx of
        (None, ctx) \<Rightarrow> Some (acc, ctx)
      | (Some ph, ctx) \<Rightarrow>
          (case n of 0 \<Rightarrow> None | Suc n \<Rightarrow> do { p \<leftarrow> get_phdr (file_content ctx) ph; extent_loop n ctx (extend p acc) }))"

declare extent_loop.simps [simp del]

text \<open>\<open>vbase\<close>, \<open>msize\<close>, and the context with its iterator at the end.\<close>

definition extent :: "elf_context \<Rightarrow> (u32 \<times> u32 \<times> elf_context) option" where
  "extent ctx = do {
     ctx \<leftarrow> ElfResetPHDR ctx;
     ((vbase, max_vaddr, max_msize), ctx) \<leftarrow> extent_loop (unat (n_phdr ctx)) ctx (0xffffffff, 0, 0);
     Some (vbase, max_vaddr - vbase + max_msize, ctx) }"

text \<open>\<open>memcpy(dst, content + off, n)\<close>.\<close>

definition copy_content :: "u32 \<Rightarrow> u8 list \<Rightarrow> u32 \<Rightarrow> u32 \<Rightarrow> (u32 \<Rightarrow> u8) \<Rightarrow> (u32 \<Rightarrow> u8) option" where
  "copy_content dst bs off n m =
     (if n \<noteq> 0 \<and> unat off + unat n > length bs then None
      else Some (ram_put dst (take (unat n) (drop (unat off) bs)) m))"

fun segment_loop :: "nat \<Rightarrow> u32 \<Rightarrow> u32 \<Rightarrow> elf_context \<Rightarrow> (u32 \<Rightarrow> u8) \<Rightarrow> ((u32 \<Rightarrow> u8) \<times> elf_context) option" where
  "segment_loop n elf vbase ctx m =
     (case ElfNextPHDR ctx of
        (None, ctx) \<Rightarrow> Some (m, ctx)
      | (Some ph, ctx) \<Rightarrow>
          (case n of 0 \<Rightarrow> None | Suc n \<Rightarrow> do {
             p \<leftarrow> get_phdr (file_content ctx) ph;
             m \<leftarrow> (if p_type p = PT_LOAD then copy_content (elf + (p_vaddr p - vbase)) (file_content ctx) (p_offset p) (p_filesz p) m
                   else Some m);
             segment_loop n elf vbase ctx m }))"

declare segment_loop.simps [simp del]

definition load_segments :: "u32 \<Rightarrow> u32 \<Rightarrow> elf_context \<Rightarrow> (u32 \<Rightarrow> u8) \<Rightarrow> ((u32 \<Rightarrow> u8) \<times> elf_context) option" where
  "load_segments elf vbase ctx m = do {
     ctx \<leftarrow> ElfResetPHDR ctx;
     segment_loop (unat (n_phdr ctx)) elf vbase ctx m }"

text \<open>\<open>*off = base + sym->st_value\<close> for the relocations that \<open>next\<close> gives.\<close>

fun rel_loop ::
  "(elf_context \<Rightarrow> u32 option \<times> elf_context) \<Rightarrow> u32 \<Rightarrow> nat \<Rightarrow> elf_context \<Rightarrow> (u32 \<Rightarrow> u8) \<Rightarrow> ((u32 \<Rightarrow> u8) \<times> elf_context) option" where
  "rel_loop nxt base n ctx m =
     (case nxt ctx of
        (None, ctx) \<Rightarrow> Some (m, ctx)
      | (Some rel, ctx) \<Rightarrow>
          (case n of 0 \<Rightarrow> None | Suc n \<Rightarrow> do {
             let bs = file_content ctx;
             info \<leftarrow> r_info bs rel;
             sh \<leftarrow> dynsym ctx;
             symoff \<leftarrow> sh_offset bs sh;
             value \<leftarrow> st_value bs (symoff + ELF32_R_SYM info * SYM_SIZE);
             off \<leftarrow> r_offset bs rel;
             rel_loop nxt base n ctx (ram_put (elf_knl ctx + off) (map (byte32 (base + value)) [0..<4]) m) }))"

declare rel_loop.simps [simp del]

definition relocate :: "u32 \<Rightarrow> elf_context \<Rightarrow> (u32 \<Rightarrow> u8) \<Rightarrow> ((u32 \<Rightarrow> u8) \<times> elf_context) option" where
  "relocate base ctx m = do {
     (m, ctx) \<leftarrow>
       (if rel_dyn ctx \<noteq> None then do {
          ctx \<leftarrow> ElfResetRelDyn ctx; rel_loop ElfNextRelDyn base (unat (n_rel_dyn ctx)) ctx m }
        else Some (m, ctx));
     if rel_plt ctx \<noteq> None then do {
       ctx \<leftarrow> ElfResetRelPlt ctx; rel_loop ElfNextRelPlt base (unat (n_rel_plt ctx)) ctx m }
     else Some (m, ctx) }"

section \<open>ELF programs\<close>

definition os_elf_parse ::
  "nat \<Rightarrow> 'h drivers \<Rightarrow> cmos_date_time \<Rightarrow> string option \<Rightarrow> 'h os \<Rightarrow> (bool \<times> elf_context \<times> 'h os) option" where
  "os_elf_parse n drv dt path s = do {
     (ok, ctx, m, fs) \<leftarrow> ElfParse n drv dt path (pg_mem s, os_fs s);
     Some (ok, ctx, s\<lparr>pg_mem := m, os_fs := fs\<rparr>) }"

definition os_elf_free :: "elf_context \<Rightarrow> 'h os \<Rightarrow> 'h os option" where
  "os_elf_free ctx s = do { m \<leftarrow> ElfFree ctx (pg_mem s); Some (s\<lparr>pg_mem := m\<rparr>) }"

text \<open>A NULL \<open>path\<close> or an unused \<open>tid\<close> leads to the error exit with \<open>task\<close> uninitialised or NULL.\<close>

definition TaskmgrLoadElfExecutableFile ::
  "nat \<Rightarrow> 'h drivers \<Rightarrow> cmos_date_time \<Rightarrow> nat \<Rightarrow> string option \<Rightarrow> 'h os \<Rightarrow> (u32 \<times> 'h os) option" where
  "TaskmgrLoadElfExecutableFile n drv dt tid path s = do {
     _ \<leftarrow> path;
     i \<leftarrow> TskmgrGetTaskInfoPtr tid s;
     if tk_elf (tasks s i) \<noteq> 0 then Some (0, s)
     else do {
       (ok, ctx, s) \<leftarrow> os_elf_parse n drv dt path s;
       if \<not> ok then Some (0, s)
       else do {
         (vbase, msize, ctx) \<leftarrow> extent ctx;
         (elf, s) \<leftarrow> os_alloc msize s;
         let s = set_task i (\<lambda>t. t\<lparr>tk_elf := elf\<rparr>) s;
         if elf = 0 then
           (if msize \<noteq> 0 then None
            else do { s \<leftarrow> os_elf_free ctx s; Some (0, s) })
         else do {
           let s = s\<lparr>ram := MemClear elf 0 msize (ram s)\<rparr>;
           let cr3 = tk_real_pagedt_addr (tasks s i);
           let (mapped, t) = PgMapUserPageTableWithPermission vbase msize elf RW_RWE (pts s cr3);
           let s = s\<lparr>pts := (pts s)(cr3 := t)\<rparr>;
           if \<not> mapped then do {
             s \<leftarrow> os_free elf s;
             let s = set_task i (\<lambda>t. t\<lparr>tk_elf := 0\<rparr>) s;
             s \<leftarrow> os_elf_free ctx s;
             Some (0, s) }
           else do {
             (m, ctx) \<leftarrow> load_segments elf vbase ctx (ram s);
             let s = s\<lparr>ram := m\<rparr>;
             s \<leftarrow> os_elf_free ctx s;
             h \<leftarrow> elf_header ctx;
             Some (e_entry h, s) } } } } }"

section \<open>ELF shared objects of a task\<close>

definition ELF_CONTEXT_SIZE :: u32 where "ELF_CONTEXT_SIZE = 27 * 4"
definition NO_CONTEXT :: u32 where "NO_CONTEXT = 0xffffffff"

definition set_ctx :: "u32 \<Rightarrow> elf_context \<Rightarrow> 'h os \<Rightarrow> 'h os" where
  "set_ctx p ctx s = s\<lparr>elf_ctxs := (elf_ctxs s)(p := ctx)\<rparr>"

definition set_so_slot :: "nat \<Rightarrow> nat \<Rightarrow> u32 \<Rightarrow> 'h os \<Rightarrow> 'h os" where
  "set_so_slot i k p = set_task i (\<lambda>t. t\<lparr>tk_elf_so_ctx := (tk_elf_so_ctx t)[k := p]\<rparr>)"

text \<open>The error exit once the context at \<open>p\<close> is in slot \<open>k\<close>.\<close>

definition load_so_failed :: "nat \<Rightarrow> nat \<Rightarrow> u32 \<Rightarrow> 'h os \<Rightarrow> (u32 \<times> 'h os) option" where
  "load_so_failed i k p s = do {
     let s = set_so_slot i k 0 s;
     s \<leftarrow> os_elf_free (elf_ctxs s p) s;
     s \<leftarrow> os_free p s;
     Some (NO_CONTEXT, s) }"

definition TaskmgrLoadElfSharedObjectFile ::
  "nat \<Rightarrow> 'h drivers \<Rightarrow> cmos_date_time \<Rightarrow> nat \<Rightarrow> string option \<Rightarrow> 'h os \<Rightarrow> (u32 \<times> 'h os) option" where
  "TaskmgrLoadElfSharedObjectFile n drv dt tid path s =
     (if path = None then Some (NO_CONTEXT, s)
      else (case TskmgrGetTaskInfoPtr tid s of
        None \<Rightarrow> Some (NO_CONTEXT, s)
      | Some i \<Rightarrow>
          (case first_index (\<lambda>k. tk_elf_so_ctx (tasks s i) ! k = 0) 0 MAX_TASK_ELF_SO_COUNT of
             None \<Rightarrow> Some (NO_CONTEXT, s)
           | Some k \<Rightarrow> do {
               (p, s) \<leftarrow> os_alloc ELF_CONTEXT_SIZE s;
               if p = 0 then Some (NO_CONTEXT, s)
               else do {
                 let s = set_so_slot i k p s;
                 (ok, ctx, s) \<leftarrow> os_elf_parse n drv dt path s;
                 let s = set_ctx p ctx s;
                 if \<not> ok then load_so_failed i k p s
                 else do {
                   (vbase, msize, ctx) \<leftarrow> extent ctx;
                   (usr, knl, s) \<leftarrow> TaskmgrAllocMemory tid msize s;
                   (case knl of
                      None \<Rightarrow> do {
                        s \<leftarrow> (if usr \<noteq> 0 then TaskmgrFreeMemory tid usr s else Some s);
                        load_so_failed i k p (set_ctx p ctx s) }
                    | Some knl \<Rightarrow> do {
                        (m, ctx) \<leftarrow> load_segments knl vbase ctx (MemClear knl 0 msize (ram s));
                        (m, ctx) \<leftarrow> relocate usr (ctx\<lparr>elf_knl := knl, elf_usr := usr\<rparr>) m;
                        Some (of_nat k, set_ctx p ctx (s\<lparr>ram := m\<rparr>)) }) } } })))"

fun symbol_loop :: "nat \<Rightarrow> string option \<Rightarrow> elf_context \<Rightarrow> u32 \<Rightarrow> (u32 \<times> elf_context) option" where
  "symbol_loop n name ctx symaddr =
     (case ElfNextDynsymSymbol ctx of
        (None, ctx) \<Rightarrow> Some (symaddr, ctx)
      | (Some sm, ctx) \<Rightarrow>
          (case n of 0 \<Rightarrow> None | Suc n \<Rightarrow> do {
             str \<leftarrow> ElfParseDynsymSymbolName ctx sm;
             value \<leftarrow> (if UtlCompareString str name = SFSTR_R_EQUAL then st_value (file_content ctx) sm else Some symaddr);
             symbol_loop n name ctx value }))"

declare symbol_loop.simps [simp del]

text \<open>The value of the symbol in the context, 0 when there is none.\<close>

definition find_symbol :: "string option \<Rightarrow> elf_context \<Rightarrow> (u32 \<times> elf_context) option" where
  "find_symbol name ctx = do {
     ctx \<leftarrow> ElfResetDynsym ctx;
     (symaddr, ctx) \<leftarrow> symbol_loop (unat (n_dynsym_sym ctx)) name ctx 0;
     ctx \<leftarrow> ElfResetDynsym ctx;
     Some (symaddr, ctx) }"

definition TaskmgrGetElfSharedObjectSymbol :: "nat \<Rightarrow> u32 \<Rightarrow> string option \<Rightarrow> 'h os \<Rightarrow> (u32 \<times> 'h os) option" where
  "TaskmgrGetElfSharedObjectSymbol tid ctx_idx name s =
     (if name = None \<or> unat ctx_idx \<ge> MAX_TASK_ELF_SO_COUNT then Some (0, s)
      else (case TskmgrGetTaskInfoPtr tid s of
        None \<Rightarrow> Some (0, s)
      | Some i \<Rightarrow>
          (let p = tk_elf_so_ctx (tasks s i) ! unat ctx_idx in
           if p = 0 then Some (0, s)
           else do {
             (symaddr, ctx) \<leftarrow> find_symbol name (elf_ctxs s p);
             Some (if symaddr = 0 then 0 else elf_usr ctx + symaddr, set_ctx p ctx s) })))"

definition TaskmgrUnloadElfSharedObjectFile :: "nat \<Rightarrow> u32 \<Rightarrow> 'h os \<Rightarrow> (bool \<times> 'h os) option" where
  "TaskmgrUnloadElfSharedObjectFile tid ctx_idx s =
     (if unat ctx_idx \<ge> MAX_TASK_ELF_SO_COUNT then Some (False, s)
      else (case TskmgrGetTaskInfoPtr tid s of
        None \<Rightarrow> Some (False, s)
      | Some i \<Rightarrow>
          (let p = tk_elf_so_ctx (tasks s i) ! unat ctx_idx in
           if p = 0 then Some (False, s)
           else do {
             let s = set_so_slot i (unat ctx_idx) 0 s;
             s \<leftarrow> TaskmgrFreeMemory tid (elf_usr (elf_ctxs s p)) s;
             let s = set_ctx p ((elf_ctxs s p)\<lparr>elf_usr := 0, elf_knl := 0\<rparr>) s;
             s \<leftarrow> os_elf_free (elf_ctxs s p) s;
             s \<leftarrow> os_free p s;
             Some (True, s) })))"

section \<open>ELF shared objects of the kernel (\<open>so.c\<close>)\<close>

definition SO_MAX_COUNT :: nat where "SO_MAX_COUNT = 32"

text \<open>\<open>_ctx\<close>, the array of contexts, is passed along.\<close>

definition KnlInitElfSharedObject :: "(nat \<Rightarrow> u32) \<Rightarrow> (nat \<Rightarrow> u32)" where
  "KnlInitElfSharedObject cs = (\<lambda>i. if i < SO_MAX_COUNT then 0 else cs i)"

definition knl_so_failed :: "nat \<Rightarrow> u32 \<Rightarrow> u32 \<Rightarrow> (nat \<Rightarrow> u32) \<times> 'h os \<Rightarrow> (u32 \<times> (nat \<Rightarrow> u32) \<times> 'h os) option" where
  "knl_so_failed k knl p cs_s = do {
     let (cs, s) = cs_s;
     s \<leftarrow> os_free_nz knl s;
     s \<leftarrow> os_elf_free (elf_ctxs s p) s;
     s \<leftarrow> os_free p s;
     Some (NO_CONTEXT, cs(k := 0), s) }"

definition KnlLoadElfSharedObjectFile ::
  "nat \<Rightarrow> 'h drivers \<Rightarrow> cmos_date_time \<Rightarrow> string option \<Rightarrow> (nat \<Rightarrow> u32) \<times> 'h os \<Rightarrow> (u32 \<times> (nat \<Rightarrow> u32) \<times> 'h os) option" where
  "KnlLoadElfSharedObjectFile n drv dt path cs_s =
     (let (cs, s) = cs_s in
      if path = None then Some (NO_CONTEXT, cs, s)
      else (case first_index (\<lambda>k. cs k = 0) 0 SO_MAX_COUNT of
        None \<Rightarrow> Some (NO_CONTEXT, cs, s)
      | Some k \<Rightarrow> do {
          (p, s) \<leftarrow> os_alloc ELF_CONTEXT_SIZE s;
          if p = 0 then Some (NO_CONTEXT, cs, s)
          else do {
            let cs = cs(k := p);
            (ok, ctx, s) \<leftarrow> os_elf_parse n drv dt path s;
            let s = set_ctx p ctx s;
            if \<not> ok then knl_so_failed k 0 p (cs, s)
            else do {
              (vbase, msize, ctx) \<leftarrow> extent ctx;
              (knl, s) \<leftarrow> os_alloc msize s;
              if knl = 0 then knl_so_failed k knl p (cs, set_ctx p ctx s)
              else do {
                (m, ctx) \<leftarrow> load_segments knl vbase ctx (MemClear knl 0 msize (ram s));
                (m, ctx) \<leftarrow> relocate knl (ctx\<lparr>elf_knl := knl, elf_usr := 0\<rparr>) m;
                Some (of_nat k, cs, set_ctx p ctx (s\<lparr>ram := m\<rparr>)) } } } }))"

definition KnlGetElfSharedObjectSymbol ::
  "u32 \<Rightarrow> string option \<Rightarrow> (nat \<Rightarrow> u32) \<times> 'h os \<Rightarrow> (u32 \<times> (nat \<Rightarrow> u32) \<times> 'h os) option" where
  "KnlGetElfSharedObjectSymbol ctx_idx name cs_s =
     (let (cs, s) = cs_s; p = cs (unat ctx_idx) in
      if name = None \<or> unat ctx_idx \<ge> SO_MAX_COUNT \<or> p = 0 then Some (0, cs, s)
      else do {
        (symaddr, ctx) \<leftarrow> find_symbol name (elf_ctxs s p);
        Some (if symaddr = 0 then 0 else elf_knl ctx + symaddr, cs, set_ctx p ctx s) })"

definition KnlUnloadElfSharedObjectFile :: "u32 \<Rightarrow> (nat \<Rightarrow> u32) \<times> 'h os \<Rightarrow> (bool \<times> (nat \<Rightarrow> u32) \<times> 'h os) option" where
  "KnlUnloadElfSharedObjectFile ctx_idx cs_s =
     (let (cs, s) = cs_s; p = cs (unat ctx_idx) in
      if unat ctx_idx \<ge> SO_MAX_COUNT \<or> p = 0 then Some (False, cs, s)
      else do {
        let cs = cs(unat ctx_idx := 0);
        s \<leftarrow> os_free (elf_knl (elf_ctxs s p)) s;
        let s = set_ctx p ((elf_ctxs s p)\<lparr>elf_usr := 0, elf_knl := 0\<rparr>) s;
        s \<leftarrow> os_elf_free (elf_ctxs s p) s;
        s \<leftarrow> os_free p s;
        Some (True, cs, s) })"

end
