(* ===== verification/Syscalls.thy ===== *)
theory Syscalls
  imports Task_Memory Timer
begin

text \<open>
  The system calls of \<^verbatim>\<open>kernel/syscall/system.c\<close> and \<^verbatim>\<open>kernel/syscall/fs.c\<close>, and their dispatch in
  \<^verbatim>\<open>kernel/kernel.c\<close>.  A call has its parameters in a \<open>struct SParams\<close> in the memory of the
  task: the handlers get its physical address \<open>sp\<close>, and read and write \<open>ram\<close> there.  A pointer that a
  task passes is translated by \<open>TaskmgrConvertLAddrToPAddr\<close> and used as it is.  The result
  \<^const>\<open>None\<close> is the use of a NULL or dead pointer.
\<close>

section \<open>State and environment\<close>

record ('h, 'e) kernel =
  kos :: "'h os"
  ktimers :: "'e tmr"
  wait_app_tid :: u32
  enable_clock :: u32
  current_path :: string
  is_system_call :: int

text \<open>What the handlers use and does not change: drivers, clock, link addresses, the depth of links,
  the functions of timers, and the bytes that an earlier string left in \<open>param\<close>.\<close>

record ('h, 'e) scenv =
  e_drv :: "'h drivers"
  e_dt :: cmos_date_time
  e_ka :: kaddr
  e_depth :: nat
  e_call :: "'e \<Rightarrow> 'e tmr \<Rightarrow> 'e tmr"
  e_stale :: "nat \<Rightarrow> u8"

definition on_os :: "('h os \<Rightarrow> 'h os option) \<Rightarrow> ('h, 'e) kernel \<Rightarrow> ('h, 'e) kernel option" where
  "on_os f k = map_option (\<lambda>s. k\<lparr>kos := s\<rparr>) (f (kos k))"

section \<open>Parameters and memory\<close>

definition ram32 :: "u32 \<Rightarrow> (u32 \<Rightarrow> u8) \<Rightarrow> u32" where
  "ram32 a m = ucast (m a) OR push_bit 8 (ucast (m (a + 1))) OR push_bit 16 (ucast (m (a + 2))) OR push_bit 24 (ucast (m (a + 3)))"

definition param :: "nat \<Rightarrow> u32 \<Rightarrow> 'h os \<Rightarrow> u32" where
  "param i sp s = ram32 (sp + of_nat (4 * i)) (ram s)"

definition sp_tid :: "u32 \<Rightarrow> 'h os \<Rightarrow> nat" where
  "sp_tid sp s = unat (param 10 sp s)"

definition put_ram :: "u32 \<Rightarrow> u8 list \<Rightarrow> 'h os \<Rightarrow> 'h os" where
  "put_ram a bs s = s\<lparr>ram := ram_put a bs (ram s)\<rparr>"

definition set_param :: "nat \<Rightarrow> u32 \<Rightarrow> u32 \<Rightarrow> 'h os \<Rightarrow> 'h os" where
  "set_param i sp v s = put_ram (sp + of_nat (4 * i)) (map (byte32 v) [0..<4]) s"

definition bool32 :: "bool \<Rightarrow> u32" where "bool32 b = (if b then 1 else 0)"

definition ptr32 :: "addr option \<Rightarrow> u32" where "ptr32 p = (case p of None \<Rightarrow> 0 | Some a \<Rightarrow> of_nat a)"
definition of_ptr :: "u32 \<Rightarrow> addr option" where "of_ptr v = (if v = 0 then None else Some (unat v))"
definition tid32 :: "nat option \<Rightarrow> u32" where "tid32 t = (case t of None \<Rightarrow> - 1 | Some i \<Rightarrow> of_nat i)"

text \<open>Parameter \<open>i\<close> as a linear address of the calling task.\<close>

definition user_ptr :: "nat \<Rightarrow> u32 \<Rightarrow> 'h os \<Rightarrow> u32" where
  "user_ptr i sp s = TaskmgrConvertLAddrToPAddr (sp_tid sp s) (param i sp s) s"

text \<open>The string at an address: the inner \<^const>\<open>None\<close> is NULL, the outer one memory without a NUL.\<close>

definition str_at :: "u32 \<Rightarrow> 'h os \<Rightarrow> string option option" where
  "str_at a s =
     (if a = 0 then Some None
      else map_option (\<lambda>n. Some (map char8 (ram_get a n (ram s)))) (first_index (\<lambda>i. ram s (a + of_nat i) = 0) 0 (2 ^ 32)))"

definition user_str :: "nat \<Rightarrow> u32 \<Rightarrow> 'h os \<Rightarrow> string option option" where
  "user_str i sp s = str_at (user_ptr i sp s) s"

section \<open>Tasks and memory (\<open>system.c\<close>)\<close>

definition sc_exit :: "('h, 'e, 'z) scenv_scheme \<Rightarrow> u32 \<Rightarrow> ('h, 'e) kernel \<Rightarrow> ('h, 'e) kernel option" where
  "sc_exit env sp k = do {
     let tid = param 0 sp (kos k);
     (_, s) \<leftarrow> TskmgrKillSystemTask (e_drv env) (e_dt env) (unat tid) (kos k);
     let k = k\<lparr>kos := s\<rparr>;
     Some (if tid = wait_app_tid k then k\<lparr>wait_app_tid := - 1\<rparr> else k) }"

definition sc_alloc_m :: "u32 \<Rightarrow> 'h os \<Rightarrow> 'h os option" where
  "sc_alloc_m sp s = do {
     i \<leftarrow> TskmgrGetTaskInfoPtr (sp_tid sp s) s;
     let len = param 0 sp s;
     let cr3 = tk_real_pagedt_addr (tasks s i);
     (case (free_block_slot (tasks s i), PgFindFreePages len (pts s cr3)) of
        (Some ui, Some start) \<Rightarrow> do {
          (ptr, s) \<leftarrow> os_alloc len s;
          if ptr \<noteq> 0 then do {
            let s = s\<lparr>pts := (pts s)(cr3 := snd (PgMapUserPageTableWithPermission start len ptr RW_RWE (pts s cr3)))\<rparr>;
            let s = set_task i (\<lambda>t. t\<lparr>tk_memory_block_ptrs := (tk_memory_block_ptrs t)[ui := ptr],
              tk_used_memory_size := tk_used_memory_size t + MemAlign4KB len\<rparr>) s;
            Some (set_param 0 sp start s) }
          else Some (set_param 0 sp 0 s) }
      | _ \<Rightarrow> Some (set_param 0 sp 0 s)) }"

text \<open>The pages are freed at the linear address, the block at the physical one.\<close>

definition sc_free_m :: "u32 \<Rightarrow> 'h os \<Rightarrow> 'h os option" where
  "sc_free_m sp s = do {
     let tid = sp_tid sp s;
     let ptr = param 0 sp s;
     if ptr = 0 then Some (set_param 0 sp 0 s)
     else do {
       let physical_address = TaskmgrConvertLAddrToPAddr tid ptr s;
       if physical_address = 0 then Some (set_param 0 sp 0 s)
       else do {
         i \<leftarrow> TskmgrGetTaskInfoPtr tid s;
         (case first_index (\<lambda>ui. tk_memory_block_ptrs (tasks s i) ! ui = physical_address) 0 MAX_TASK_MEMORY_BLOCK_COUNT of
            None \<Rightarrow> Some (set_param 0 sp 0 s)
          | Some ui \<Rightarrow> do {
              (len, m) \<leftarrow> MemGetBlockSise_u physical_address (pg_mem s);
              let s = s\<lparr>pg_mem := m\<rparr>;
              if len = 0 then Some (set_param 0 sp 0 s)
              else do {
                let cr3 = tk_real_pagedt_addr (tasks s i);
                let (freed, t) = PgFreePages ptr len (pts s cr3);
                let s = s\<lparr>pts := (pts s)(cr3 := t)\<rparr>;
                if \<not> freed then Some (set_param 0 sp 0 s)
                else do {
                  let s = set_task i (\<lambda>t. t\<lparr>tk_memory_block_ptrs := (tk_memory_block_ptrs t)[ui := 0],
                    tk_used_memory_size := tk_used_memory_size t - MemAlign4KB len\<rparr>) s;
                  (r, m) \<leftarrow> MemFree_logged physical_address (pg_mem s);
                  Some (set_param 0 sp (bool32 r) (s\<lparr>pg_mem := m\<rparr>)) } } }) } } }"

text \<open>1024 bytes are copied: the string, its NUL, and what follows it.\<close>

definition param_bytes :: "('h, 'e, 'z) scenv_scheme \<Rightarrow> string \<Rightarrow> u8 list" where
  "param_bytes env p = map (\<lambda>i. if i < length p then byte8 (p ! i) else if i = length p then 0 else e_stale env i) [0..<1024]"

definition sc_get_param :: "('h, 'e, 'z) scenv_scheme \<Rightarrow> u32 \<Rightarrow> 'h os \<Rightarrow> 'h os option" where
  "sc_get_param env sp s = do {
     let buffer = user_ptr 0 sp s;
     task \<leftarrow> TskmgrGetTaskInfo (sp_tid sp s) s;
     Some (put_ram buffer (param_bytes env (tk_param task)) s) }"

definition sc_get_datetime :: "('h, 'e, 'z) scenv_scheme \<Rightarrow> u32 \<Rightarrow> 'h os \<Rightarrow> 'h os" where
  "sc_get_datetime env sp s =
     (let dt = user_ptr 0 sp s in if dt = 0 then s else put_ram dt (dt_bytes (e_dt env)) s)"

definition sc_run_in_bg :: "u32 \<Rightarrow> ('h, 'e) kernel \<Rightarrow> ('h, 'e) kernel" where
  "sc_run_in_bg sp k =
     (if wait_app_tid k = param 10 sp (kos k) then k\<lparr>wait_app_tid := - 1, kos := set_param 0 sp 1 (kos k)\<rparr>
      else k\<lparr>kos := set_param 0 sp 0 (kos k)\<rparr>)"

definition sc_set_retvalue :: "u32 \<Rightarrow> 'h os \<Rightarrow> 'h os option" where
  "sc_set_retvalue sp s = do {
     i \<leftarrow> TskmgrGetTaskInfoPtr (sp_tid sp s) s;
     Some (set_task i (\<lambda>t. t\<lparr>tk_retvalue := param 0 sp s\<rparr>) s) }"

text \<open>The command line: \<^const>\<open>None\<close> when it is too long.  A path that does not fit leaves
  \<open>buffer\<close> uninitialised.\<close>

definition exec_command :: "string \<Rightarrow> string \<Rightarrow> string option option" where
  "exec_command path prm =
     (if length path \<ge> 1024 then None
      else if prm = [] then Some (Some path)
      else if length path + 1 + length prm < 1024 then Some (Some (path @ '' '' @ prm))
      else Some None)"

definition sc_exec :: "('h, 'e, 'z) scenv_scheme \<Rightarrow> u32 \<Rightarrow> ('h, 'e) kernel \<Rightarrow> ('h, 'e) kernel option" where
  "sc_exec env sp k = do {
     path \<leftarrow> user_str 0 sp (kos k);
     prm \<leftarrow> user_str 1 sp (kos k);
     path \<leftarrow> path;
     prm \<leftarrow> prm;
     buffer \<leftarrow> exec_command path prm;
     (case buffer of
        None \<Rightarrow> Some (k\<lparr>kos := set_param 0 sp 0 (kos k)\<rparr>)
      | Some buffer \<Rightarrow> do {
          (tid, s) \<leftarrow> TskmgrCreateTaskByFile (e_ka env) (e_depth env) (e_drv env) (e_dt env) (Some path) (Some buffer)
            (Some (clip 1024 (current_path k))) (kos k);
          let s = (case tid of
                     None \<Rightarrow> s
                   | Some t \<Rightarrow> snd (TskmgrSetTaskToReady t (set_task t (\<lambda>t. t\<lparr>tk_allocable := False\<rparr>) s)));
          Some (k\<lparr>kos := set_param 0 sp (tid32 tid) s\<rparr>) }) }"

definition sc_wait :: "u32 \<Rightarrow> 'h os \<Rightarrow> 'h os" where
  "sc_wait sp s =
     (case TskmgrGetTaskInfoPtrUnsafely (unat (param 0 sp s)) of
        Some i \<Rightarrow>
          if \<not> tk_used (tasks s i)
          then (let s = set_task i (\<lambda>t. t\<lparr>tk_allocable := True\<rparr>) s in
                set_param 1 sp (tk_retvalue (tasks s i)) (set_param 0 sp 0 s))
          else set_param 1 sp (- 1) (set_param 0 sp 1 s)
      | None \<Rightarrow> set_param 1 sp (- 1) (set_param 0 sp 1 s))"

definition sc_memory_block_size :: "u32 \<Rightarrow> 'h os \<Rightarrow> 'h os option" where
  "sc_memory_block_size sp s = do {
     let ptr = user_ptr 0 sp s;
     if ptr = 0 then Some (set_param 0 sp 0 s)
     else do {
       (len, m) \<leftarrow> MemGetBlockSise_u ptr (pg_mem s);
       Some (set_param 0 sp len (s\<lparr>pg_mem := m\<rparr>)) } }"

definition sc_load_elf :: "('h, 'e, 'z) scenv_scheme \<Rightarrow> u32 \<Rightarrow> 'h os \<Rightarrow> 'h os option" where
  "sc_load_elf env sp s = do {
     path \<leftarrow> user_str 0 sp s;
     (entry, s) \<leftarrow> TaskmgrLoadElfExecutableFile (e_depth env) (e_drv env) (e_dt env) (sp_tid sp s) path s;
     Some (set_param 0 sp entry s) }"

definition sc_load_elf_so :: "('h, 'e, 'z) scenv_scheme \<Rightarrow> u32 \<Rightarrow> 'h os \<Rightarrow> 'h os option" where
  "sc_load_elf_so env sp s = do {
     path \<leftarrow> user_str 0 sp s;
     (ctx_idx, s) \<leftarrow> TaskmgrLoadElfSharedObjectFile (e_depth env) (e_drv env) (e_dt env) (sp_tid sp s) path s;
     Some (set_param 0 sp ctx_idx s) }"

definition sc_get_elf_so_symbol :: "u32 \<Rightarrow> 'h os \<Rightarrow> 'h os option" where
  "sc_get_elf_so_symbol sp s = do {
     name \<leftarrow> user_str 1 sp s;
     (symaddr, s) \<leftarrow> TaskmgrGetElfSharedObjectSymbol (sp_tid sp s) (param 0 sp s) name s;
     Some (set_param 0 sp symaddr s) }"

definition sc_unload_elf_so :: "u32 \<Rightarrow> 'h os \<Rightarrow> 'h os option" where
  "sc_unload_elf_so sp s = do {
     (r, s) \<leftarrow> TaskmgrUnloadElfSharedObjectFile (sp_tid sp s) (param 0 sp s) s;
     Some (set_param 0 sp (bool32 r) s) }"

section \<open>Message queues (\<open>system.c\<close>)\<close>

text \<open>\<open>MQueueMessage\<close>: the ids, ten unions of eight bytes, 1024 bytes.\<close>

definition MESSAGE_BYTES :: nat where "MESSAGE_BYTES = 1024"

definition ram64 :: "u32 \<Rightarrow> (u32 \<Rightarrow> u8) \<Rightarrow> u64" where
  "ram64 a m = ucast (ram32 a m) OR push_bit 32 (ucast (ram32 (a + 4) m))"

definition get_message :: "u32 \<Rightarrow> (u32 \<Rightarrow> u8) \<Rightarrow> mq_message" where
  "get_message a m = \<lparr>mg_tid = ram32 a m, mg_message = ram32 (a + 4) m,
     mg_params = map (\<lambda>i. ram64 (a + 8 + of_nat (8 * i)) m) [0..<10], mg_bsparam0 = ram_get (a + 88) MESSAGE_BYTES m\<rparr>"

definition message_bytes :: "mq_message \<Rightarrow> u8 list" where
  "message_bytes g = map (byte32 (mg_tid g)) [0..<4] @ map (byte32 (mg_message g)) [0..<4] @
     concat (map (\<lambda>p. map (\<lambda>n. ucast (drop_bit (8 * n) p)) [0..<8]) (mg_params g)) @ mg_bsparam0 g"

definition message_at :: "u32 \<Rightarrow> 'h os \<Rightarrow> mq_message option" where
  "message_at a s = (if a = 0 then None else Some (get_message a (ram s)))"

text \<open>With no free entry the handler returns without an answer.\<close>

definition sc_mqueue_create :: "u32 \<Rightarrow> 'h os \<Rightarrow> 'h os option" where
  "sc_mqueue_create sp s = do {
     i \<leftarrow> TskmgrGetTaskInfoPtr (sp_tid sp s) s;
     (case first_index (\<lambda>ui. tk_mqueue_ids (tasks s i) ! ui = None) 0 MAX_TASK_MQUEUE_COUNT of
        None \<Rightarrow> Some s
      | Some ui \<Rightarrow> do {
          name \<leftarrow> user_str 0 sp s;
          (mqueue, mq) \<leftarrow> MqNew name (os_mq s);
          let s = set_task i (\<lambda>t. t\<lparr>tk_mqueue_ids := (tk_mqueue_ids t)[ui := mqueue]\<rparr>) (s\<lparr>os_mq := mq\<rparr>);
          Some (set_param 0 sp (ptr32 mqueue) s) }) }"

definition sc_mqueue_delete :: "u32 \<Rightarrow> 'h os \<Rightarrow> 'h os option" where
  "sc_mqueue_delete sp s = do {
     (r, mq) \<leftarrow> MqFree (of_ptr (param 0 sp s)) (os_mq s);
     Some (set_param 0 sp (bool32 r) (s\<lparr>os_mq := mq\<rparr>)) }"

definition sc_mqueue_s_push :: "u32 \<Rightarrow> 'h os \<Rightarrow> 'h os" where
  "sc_mqueue_s_push sp s =
     (let (r, mq) = MqAddMessage (of_ptr (param 0 sp s)) MQUEUE_IN (message_at (user_ptr 1 sp s) s) (os_mq s) in
      set_param 0 sp (bool32 r) (s\<lparr>os_mq := mq\<rparr>))"

text \<open>The message is copied to the task and its memory is freed.\<close>

definition deliver :: "u32 \<Rightarrow> u32 \<Rightarrow> addr option \<Rightarrow> 'h os \<Rightarrow> 'h os" where
  "deliver sp message poped s =
     (case poped of
        None \<Rightarrow> set_param 0 sp 0 s
      | Some g \<Rightarrow>
          set_param 0 sp 1 ((put_ram message (message_bytes (mq_msgs (os_mq s) g)) s)\<lparr>os_mq := dsl_free g (os_mq s)\<rparr>))"

definition sc_mqueue_s_pop :: "u32 \<Rightarrow> 'h os \<Rightarrow> 'h os option" where
  "sc_mqueue_s_pop sp s = do {
     let message = user_ptr 1 sp s;
     (g, mq) \<leftarrow> MqPopMessage (of_ptr (param 0 sp s)) MQUEUE_OUT (os_mq s);
     Some (deliver sp message g (s\<lparr>os_mq := mq\<rparr>)) }"

definition sc_mqueue_c_push :: "u32 \<Rightarrow> 'h os \<Rightarrow> 'h os option" where
  "sc_mqueue_c_push sp s = do {
     name \<leftarrow> user_str 0 sp s;
     mqueue \<leftarrow> MqGetPtrByName name (os_mq s);
     if mqueue = None then Some (set_param 0 sp 0 s)
     else
       let (r, mq) = MqAddMessage mqueue MQUEUE_OUT (message_at (user_ptr 1 sp s) s) (os_mq s) in
       Some (set_param 0 sp (bool32 r) (s\<lparr>os_mq := mq\<rparr>)) }"

definition sc_mqueue_c_pop :: "u32 \<Rightarrow> 'h os \<Rightarrow> 'h os option" where
  "sc_mqueue_c_pop sp s = do {
     name \<leftarrow> user_str 0 sp s;
     mqueue \<leftarrow> MqGetPtrByName name (os_mq s);
     if mqueue = None then Some (set_param 0 sp 0 s)
     else do {
       let message = user_ptr 1 sp s;
       (g, mq) \<leftarrow> MqPopMessageWithTaskID mqueue MQUEUE_IN (param 10 sp s) (os_mq s);
       Some (deliver sp message g (s\<lparr>os_mq := mq\<rparr>)) } }"

section \<open>\<open>_ScSysProcess\<close>\<close>

definition ScSysProcess ::
  "('h, 'e, 'z) scenv_scheme \<Rightarrow> u32 \<Rightarrow> u32 \<Rightarrow> ('h, 'e) kernel \<Rightarrow> ('h, 'e) kernel option" where
  "ScSysProcess env func sp k =
     (if func = 0 then sc_exit env sp k
      else if func = 1 then on_os (sc_alloc_m sp) k
      else if func = 2 then on_os (sc_free_m sp) k
      else if func = 3 then on_os (sc_get_param env sp) k
      else if func = 4 then on_os (Some \<circ> sc_get_datetime env sp) k
      else if func = 5 then Some (k\<lparr>enable_clock := param 0 sp (kos k)\<rparr>)
      else if func = 6 then on_os (sc_mqueue_create sp) k
      else if func = 7 then on_os (sc_mqueue_delete sp) k
      else if func = 8 then on_os (Some \<circ> sc_mqueue_s_push sp) k
      else if func = 9 then on_os (sc_mqueue_s_pop sp) k
      else if func = 10 then on_os (sc_mqueue_c_push sp) k
      else if func = 11 then on_os (sc_mqueue_c_pop sp) k
      else if func = 12 then Some (sc_run_in_bg sp k)
      else if func = 13 then on_os (sc_set_retvalue sp) k
      else if func = 14 then sc_exec env sp k
      else if func = 15 then on_os (Some \<circ> sc_wait sp) k
      else if func = 16 then on_os (sc_memory_block_size sp) k
      else if func = 17 then Some (k\<lparr>ktimers := TmrDispatchTick (e_call env) (ktimers k)\<rparr>)
      else if func = 18 then on_os (sc_load_elf env sp) k
      else if func = 19 then on_os (sc_load_elf_so env sp) k
      else if func = 20 then on_os (sc_get_elf_so_symbol sp) k
      else if func = 21 then on_os (sc_unload_elf_so sp) k
      else Some k)"

section \<open>Files (\<open>fs.c\<close>)\<close>

definition ScFsLockFileSystem :: "'h os \<Rightarrow> bool \<times> 'h os" where
  "ScFsLockFileSystem s = (if sc_fs_locked s then (False, s) else (True, s\<lparr>sc_fs_locked := True\<rparr>))"

definition ScFsUnlockFileSystem :: "'h os \<Rightarrow> 'h os" where
  "ScFsUnlockFileSystem s = s\<lparr>sc_fs_locked := False\<rparr>"

definition ptr_slot :: "nat \<Rightarrow> addr option \<Rightarrow> 'h os \<Rightarrow> nat option" where
  "ptr_slot i fptr s = first_index (\<lambda>ui. tk_opened_file_ptrs (tasks s i) ! ui = fptr) 0 MAX_TASK_OPENED_FILE_COUNT"

definition ScFsCheckPrivilege :: "nat \<Rightarrow> addr option \<Rightarrow> 'h os \<Rightarrow> bool" where
  "ScFsCheckPrivilege tid fptr s =
     (case TskmgrGetTaskInfoPtr tid s of
        None \<Rightarrow> False
      | Some i \<Rightarrow> ptr_slot i fptr s \<noteq> None)"

definition sp_file :: "u32 \<Rightarrow> 'h os \<Rightarrow> addr option" where
  "sp_file sp s = of_ptr (param 0 sp s)"

text \<open>An operation on the file object behind a pointer that \<open>_ScFsCheckPrivilege\<close> has let pass.\<close>

definition with_file :: "addr option \<Rightarrow> 'h os \<Rightarrow> (addr \<Rightarrow> file_object \<Rightarrow> 'b option) \<Rightarrow> 'b option" where
  "with_file fptr s g = do { a \<leftarrow> fptr; f \<leftarrow> fobjs s a; g a f }"

definition put_file :: "addr \<Rightarrow> file_object \<Rightarrow> 'h ifs1 \<Rightarrow> 'h os \<Rightarrow> 'h os" where
  "put_file a f fs s = s\<lparr>fobjs := (fobjs s)(a := Some f), os_fs := fs\<rparr>"

definition sc_fopen :: "('h, 'e, 'z) scenv_scheme \<Rightarrow> u32 \<Rightarrow> 'h os \<Rightarrow> 'h os option" where
  "sc_fopen env sp s =
     (case TskmgrGetTaskInfoPtr (sp_tid sp s) s of
        None \<Rightarrow> Some (set_param 0 sp 0 s)
      | Some i \<Rightarrow>
          (case ptr_slot i None s of
             None \<Rightarrow> Some (set_param 0 sp 0 s)
           | Some ui \<Rightarrow> do {
               filename \<leftarrow> user_str 0 sp s;
               (f, fs) \<leftarrow> Ifs1OpenFile (e_depth env) (e_drv env) filename (param 1 sp s) (os_fs s);
               let s = (case f of None \<Rightarrow> s\<lparr>os_fs := fs\<rparr> | Some f \<Rightarrow> put_file (fo_addr f) f fs s);
               let fptr = map_option fo_addr f;
               let s = set_task i (\<lambda>t. t\<lparr>tk_opened_file_ptrs := (tk_opened_file_ptrs t)[ui := fptr]\<rparr>) s;
               Some (set_param 0 sp (ptr32 fptr) s) }))"

definition sc_fclose :: "('h, 'e, 'z) scenv_scheme \<Rightarrow> u32 \<Rightarrow> 'h os \<Rightarrow> 'h os option" where
  "sc_fclose env sp s =
     (case (TskmgrGetTaskInfoPtr (sp_tid sp s) s, sp_file sp s) of
        (Some i, Some a) \<Rightarrow>
          (case ptr_slot i (Some a) s of
             None \<Rightarrow> Some (set_param 0 sp 0 s)
           | Some ui \<Rightarrow> do {
               let s = set_task i (\<lambda>t. t\<lparr>tk_opened_file_ptrs := (tk_opened_file_ptrs t)[ui := None]\<rparr>) s;
               f \<leftarrow> fobjs s a;
               (r, f', fs) \<leftarrow> Ifs1CloseFile (e_drv env) (e_dt env) (Some f) (os_fs s);
               Some (set_param 0 sp (bool32 r) (s\<lparr>os_fs := fs, fobjs := (fobjs s)(a := f')\<rparr>)) })
      | _ \<Rightarrow> Some (set_param 0 sp 0 s))"

definition sc_fwrite :: "('h, 'e, 'z) scenv_scheme \<Rightarrow> u32 \<Rightarrow> 'h os \<Rightarrow> 'h os option" where
  "sc_fwrite env sp s =
     (if ScFsCheckPrivilege (sp_tid sp s) (sp_file sp s) s
      then with_file (sp_file sp s) s (\<lambda>a f. do {
        let buffer = user_ptr 1 sp s;
        (r, f, fs) \<leftarrow> Ifs1WriteFile (e_drv env) (e_dt env) f (\<lambda>i. ram s (buffer + of_nat i)) (param 2 sp s) (os_fs s);
        Some (set_param 0 sp (bool32 r) (put_file a f fs s)) })
      else Some (set_param 0 sp 0 s))"

definition sc_fread :: "('h, 'e, 'z) scenv_scheme \<Rightarrow> u32 \<Rightarrow> 'h os \<Rightarrow> 'h os option" where
  "sc_fread env sp s =
     (if ScFsCheckPrivilege (sp_tid sp s) (sp_file sp s) s
      then with_file (sp_file sp s) s (\<lambda>a f. do {
        let buffer = user_ptr 1 sp s;
        (bs, f, fs) \<leftarrow> Ifs1ReadFile (e_drv env) f (param 2 sp s) (os_fs s);
        Some (set_param 0 sp (of_nat (length bs)) (put_ram buffer bs (put_file a f fs s))) })
      else Some (set_param 0 sp 0 s))"

text \<open>\<open>Ifs1AppendFile\<close> refuses NULL, for the file and for the buffer.\<close>

definition sc_fappend :: "('h, 'e, 'z) scenv_scheme \<Rightarrow> u32 \<Rightarrow> 'h os \<Rightarrow> 'h os option" where
  "sc_fappend env sp s =
     (let buffer = user_ptr 1 sp s in
      if ScFsCheckPrivilege (sp_tid sp s) (sp_file sp s) s \<and> sp_file sp s \<noteq> None \<and> buffer \<noteq> 0
      then with_file (sp_file sp s) s (\<lambda>a f. do {
        (r, f, fs) \<leftarrow> Ifs1AppendFile (e_drv env) (e_dt env) f (ram_get buffer (unat (param 2 sp s)) (ram s)) (os_fs s);
        Some (set_param 0 sp (bool32 r) (put_file a f fs s)) })
      else Some (set_param 0 sp 0 s))"

definition sc_freset :: "u32 \<Rightarrow> 'h os \<Rightarrow> 'h os option" where
  "sc_freset sp s =
     (if ScFsCheckPrivilege (sp_tid sp s) (sp_file sp s) s
      then with_file (sp_file sp s) s (\<lambda>a f. Some (put_file a (Ifs1ResetFile f) (os_fs s) s))
      else Some s)"

definition sc_flen :: "u32 \<Rightarrow> 'h os \<Rightarrow> 'h os option" where
  "sc_flen sp s =
     (if ScFsCheckPrivilege (sp_tid sp s) (sp_file sp s) s
      then with_file (sp_file sp s) s (\<lambda>a f. Some (set_param 0 sp (flen f) s))
      else Some (set_param 0 sp 0 s))"

definition sc_fdate :: "(file_block \<Rightarrow> cmos_date_time) \<Rightarrow> u32 \<Rightarrow> 'h os \<Rightarrow> 'h os option" where
  "sc_fdate date sp s =
     (if ScFsCheckPrivilege (sp_tid sp s) (sp_file sp s) s
      then with_file (sp_file sp s) s (\<lambda>a f. Some (put_ram (user_ptr 1 sp s) (dt_bytes (date (fo_file_block f))) s))
      else Some s)"

definition sc_feof :: "u32 \<Rightarrow> 'h os \<Rightarrow> 'h os option" where
  "sc_feof sp s =
     (if ScFsCheckPrivilege (sp_tid sp s) (sp_file sp s) s
      then with_file (sp_file sp s) s (\<lambda>a f. Some (set_param 0 sp (bool32 (Ifs1IsEOF f)) s))
      else Some (set_param 0 sp 0 s))"

text \<open>An operation of the file system on one path, or on a path and a name; a NULL that the operation does
  not test is \<^const>\<open>None\<close>.\<close>

definition fs_result :: "u32 \<Rightarrow> (bool \<times> 'h ifs1) option \<Rightarrow> 'h os \<Rightarrow> 'h os option" where
  "fs_result sp r s = do { (r, fs) \<leftarrow> r; Some (set_param 0 sp (bool32 r) (s\<lparr>os_fs := fs\<rparr>)) }"

definition sc_path1 :: "(string \<Rightarrow> 'h ifs1 \<Rightarrow> (bool \<times> 'h ifs1) option) \<Rightarrow> u32 \<Rightarrow> 'h os \<Rightarrow> 'h os option" where
  "sc_path1 f sp s = do {
     path \<leftarrow> user_str 0 sp s;
     path \<leftarrow> path;
     fs_result sp (f path (os_fs s)) s }"

definition sc_path2 :: "(string option \<Rightarrow> string option \<Rightarrow> 'h ifs1 \<Rightarrow> (bool \<times> 'h ifs1) option) \<Rightarrow> u32 \<Rightarrow> 'h os \<Rightarrow> 'h os option" where
  "sc_path2 f sp s = do {
     path \<leftarrow> user_str 0 sp s;
     name \<leftarrow> user_str 1 sp s;
     fs_result sp (f path name (os_fs s)) s }"

definition sc_df_count :: "('h, 'e, 'z) scenv_scheme \<Rightarrow> u32 \<Rightarrow> 'h os \<Rightarrow> 'h os option" where
  "sc_df_count env sp s = do {
     path \<leftarrow> user_str 0 sp s;
     (count, fs) \<leftarrow> Ifs1GetItemCount (e_depth env) (e_drv env) path (os_fs s);
     Some (set_param 0 sp (of_int count) (s\<lparr>os_fs := fs\<rparr>)) }"

definition RAW_BLOCK_SIZE :: nat where "RAW_BLOCK_SIZE = 65536"

definition raw_bytes :: "buf \<Rightarrow> u8 list" where "raw_bytes b = map b [0..<RAW_BLOCK_SIZE]"

text \<open>The blocks go to the buffer one behind the other; a NULL buffer is an error.\<close>

definition sc_df :: "('h, 'e, 'z) scenv_scheme \<Rightarrow> u32 \<Rightarrow> 'h os \<Rightarrow> 'h os option" where
  "sc_df env sp s = do {
     path \<leftarrow> user_str 0 sp s;
     let raw_blocks = user_ptr 1 sp s;
     if raw_blocks = 0 then do {
       (_, fs) \<leftarrow> Ifs1ParsePath (e_depth env) (e_drv env) path [] 0 (os_fs s);
       Some (set_param 0 sp (- 1) (s\<lparr>os_fs := fs\<rparr>)) }
     else do {
       (count, blocks, fs) \<leftarrow> Ifs1GetItems (e_depth env) (e_drv env) path (param 2 sp s) (os_fs s);
       Some (set_param 0 sp (of_int count) (put_ram raw_blocks (concat (map raw_bytes blocks)) (s\<lparr>os_fs := fs\<rparr>))) } }"

text \<open>For \<open>/\<close> the whole current path is copied and cut after four characters.\<close>

definition put_path :: "u32 \<Rightarrow> string \<Rightarrow> 'h os \<Rightarrow> 'h os" where
  "put_path a p s = (if a = 0 then s else put_ram a (map byte8 p @ [0]) s)"

definition sc_fix_path :: "u32 \<Rightarrow> 'h os \<Rightarrow> 'h os option" where
  "sc_fix_path sp s = do {
     i \<leftarrow> TskmgrGetTaskInfoPtr (sp_tid sp s) s;
     path \<leftarrow> user_str 0 sp s;
     path \<leftarrow> path;
     let new_path = user_ptr 1 sp s;
     let current_path = tk_working_dir (tasks s i);
     r \<leftarrow> Ifs1GetAbsolutePath path current_path;
     (case r of
        None \<Rightarrow> Some (set_param 0 sp 0 s)
      | Some p \<Rightarrow>
          if path = ''/'' then
            Some (set_param 0 sp 1 (put_ram (new_path + 4) [0] (put_path new_path (clip MAX_PATH_BUFFER_LEN current_path) s)))
          else Some (set_param 0 sp 1 (put_path new_path p s))) }"

definition sc_lock_fs :: "u32 \<Rightarrow> 'h os \<Rightarrow> 'h os" where
  "sc_lock_fs sp s =
     (let (r, s) = ScFsLockFileSystem s in
      if r then
        (case TskmgrGetTaskInfoPtr (sp_tid sp s) s of
           None \<Rightarrow> set_param 0 sp 0 (ScFsUnlockFileSystem s)
         | Some i \<Rightarrow> set_param 0 sp 1 (set_task i (\<lambda>t. t\<lparr>tk_fs_lock := True\<rparr>) s))
      else set_param 0 sp 0 s)"

definition ScFsProcess ::
  "('h, 'e, 'z) scenv_scheme \<Rightarrow> u32 \<Rightarrow> u32 \<Rightarrow> 'h os \<Rightarrow> 'h os option" where
  "ScFsProcess env func sp s =
     (let n = e_depth env; drv = e_drv env; dt = e_dt env in
      if func = 0 then sc_fopen env sp s
      else if func = 1 then sc_fclose env sp s
      else if func = 2 then sc_fwrite env sp s
      else if func = 3 then sc_fread env sp s
      else if func = 4 then sc_fappend env sp s
      else if func = 5 then sc_freset sp s
      else if func = 6 then sc_path1 (Ifs1Exists n drv) sp s
      else if func = 7 then sc_path2 (Ifs1CreateDir n drv dt) sp s
      else if func = 8 then sc_path2 (Ifs1CreateFile n drv dt) sp s
      else if func = 9 then sc_path1 (Ifs1DeleteDir n drv) sp s
      else if func = 10 then sc_path1 (Ifs1DeleteFile n drv) sp s
      else if func = 11 then sc_path1 (Ifs1DeleteDirRecursively n n drv) sp s
      else if func = 12 then sc_path2 (Ifs1RenameDir n drv) sp s
      else if func = 13 then sc_path2 (Ifs1RenameFile n drv) sp s
      else if func = 14 then sc_flen sp s
      else if func = 15 then sc_fdate fb_create sp s
      else if func = 16 then sc_fdate fb_change sp s
      else if func = 17 then sc_df_count env sp s
      else if func = 18 then sc_df env sp s
      else if func = 19 then sc_fix_path sp s
      else if func = 20 then Some (sc_lock_fs sp s)
      else if func = 21 then Some (ScFsUnlockFileSystem s)
      else if func = 22 then Some (set_param 0 sp (bool32 (sc_fs_locked s)) s)
      else if func = 23 then sc_feof sp s
      else Some s)"

section \<open>The interrupt and its procedure (\<open>kernel.c\<close>)\<close>

text \<open>\<open>_KnlSystemCallInterrupt\<close> runs in the address space of the task \<open>r\<close>, at ring 0: it reads the task id at
  0x1000000, stores it in the parameters at \<open>edx\<close>, and resets the task state segment of the
  system calls of that task.  An invalid address is a page fault.\<close>

definition phys :: "nat \<Rightarrow> u32 \<Rightarrow> 'h os \<Rightarrow> u32 option" where
  "phys r la s =
     (let cr3 = tk_real_pagedt_addr (tasks s r) in map_option fst (page_walk cr3 (pts s cr3) la))"

definition KnlSystemCallInterrupt :: "'a kaddr_scheme \<Rightarrow> nat \<Rightarrow> u32 \<Rightarrow> u32 \<Rightarrow> 'h os \<Rightarrow> (nat \<times> 'h os) option" where
  "KnlSystemCallInterrupt ka r eax edx s = do {
     a \<leftarrow> phys r 0x01000000 s;
     let tid = ram32 a (ram s);
     s \<leftarrow> each (\<lambda>n s. do { b \<leftarrow> phys r (edx + 40 + of_nat n) s; Some (put_ram b [byte32 tid n] s) }) [0..<4] s;
     if unat tid \<ge> MAX_TASK_COUNT then None
     else do {
       let top = scall_stacks s (unat tid) + SYSCALL_PROCEDURE_STACK_SIZE;
       Some (unat tid, s\<lparr>scall_tss := (scall_tss s)(unat tid := (scall_tss s (unat tid))
         \<lparr>tss_eip := scall_entry ka, tss_esp0 := top, tss_esp := top, tss_flags := 0, tss_edx := edx, tss_ecx := tid, tss_eax := eax\<rparr>)\<rparr>) } }"

text \<open>\<open>_KnlProcessSystemCall\<close>; what the handlers for the screen, the keyboard, the mouse and the windows do
  is the parameter \<open>other\<close>.\<close>

definition KnlProcessSystemCall ::
  "('h, 'e, 'z) scenv_scheme \<Rightarrow> (u32 \<Rightarrow> u32 \<Rightarrow> u32 \<Rightarrow> ('h, 'e) kernel \<Rightarrow> ('h, 'e) kernel option) \<Rightarrow> u32 \<Rightarrow> u32 \<Rightarrow> u32 \<Rightarrow>
     ('h, 'e) kernel \<Rightarrow> ('h, 'e) kernel option" where
  "KnlProcessSystemCall env other eax ecx edx k = do {
     i \<leftarrow> TskmgrGetTaskInfoPtr (unat ecx) (kos k);
     let k = k\<lparr>kos := set_task i (\<lambda>t. t\<lparr>tk_is_system_call := True\<rparr>) (kos k), is_system_call := is_system_call k + 1\<rparr>;
     let sp = TaskmgrConvertLAddrToPAddr (unat ecx) edx (kos k);
     let class = drop_bit 16 eax;
     let func = eax AND 0xffff;
     k \<leftarrow>
       (if class = 2 then on_os (ScFsProcess env func sp) k
        else if class = 3 then ScSysProcess env func sp k
        else other class func sp k);
     Some (k\<lparr>is_system_call := is_system_call k - 1, kos := set_task i (\<lambda>t. t\<lparr>tk_is_system_call := False\<rparr>) (kos k)\<rparr>) }"

end
