(* ===== verification/Scheduler.thy ===== *)
theory Scheduler
  imports Task_Memory Timer
begin

text \<open>
  The choice of the next task in \<^verbatim>\<open>kernel/tasks.c\<close> and the timer interrupt of
  \<^verbatim>\<open>kernel/kernel.c\<close> that acts on it.  The contents of the floating point unit are abstract
  values: \<open>'x\<close> for the registers that \<open>fnsave\<close> and \<open>frstor\<close> move, \<open>'y\<close> for those that only
  \<open>fxsave\<close> and \<open>fxrstor\<close> move; \<open>x0\<close> is what \<open>fninit\<close> leaves.  Programming the APIC and
  acknowledging the interrupt are port output, and the clock on the screen is only counted.
\<close>

section \<open>The next task\<close>

definition ready :: "'h os \<Rightarrow> nat \<Rightarrow> bool" where
  "ready s i \<longleftrightarrow> tk_used (tasks s i) \<and> tk_ready (tasks s i)"

definition next_other :: "nat \<Rightarrow> 'h os \<Rightarrow> nat option" where
  "next_other r s =
     (case first_index (ready s) (r + 1) MAX_TASK_COUNT of
        None \<Rightarrow> first_index (ready s) 0 r
      | Some i \<Rightarrow> Some i)"

definition reset_tick :: "task \<Rightarrow> task" where
  "reset_tick t =
     (if tk_priority t = TASK_PRIORITY_HIGH then t\<lparr>tk_tick := TASK_TICK_HIGH\<rparr>
      else if tk_priority t = TASK_PRIORITY_NORMAL then t\<lparr>tk_tick := TASK_TICK_NORMAL\<rparr>
      else if tk_priority t = TASK_PRIORITY_LOW then t\<lparr>tk_tick := TASK_TICK_LOW\<rparr>
      else t)"

definition TskmgrGetNextTaskID :: "'h os \<Rightarrow> nat option \<times> 'h os" where
  "TskmgrGetNextTaskID s =
     (case running_tid s of
        None \<Rightarrow> (let r = first_index (ready s) 0 MAX_TASK_COUNT in (r, s\<lparr>running_tid := r\<rparr>))
      | Some r \<Rightarrow>
          (let s = set_task r (\<lambda>t. t\<lparr>tk_tick := tk_tick t - 1\<rparr>) s in
           if 0 <s tk_tick (tasks s r) then (Some r, s)
           else
             let s = set_task r reset_tick s in
             if \<not> tk_ran (tasks s r) then (Some r, s)
             else (case next_other r s of
                 None \<Rightarrow> (None, s\<lparr>running_tid := None\<rparr>)
               | Some i \<Rightarrow>
                   (let s = set_task i (\<lambda>t. t\<lparr>tk_ran := False, tk_running := True\<rparr>) s;
                        s = set_task r (\<lambda>t. t\<lparr>tk_running := False\<rparr>) s in
                    (Some i, s\<lparr>running_tid := Some i\<rparr>)))))"

text \<open>It does not look at its argument; \<^const>\<open>None\<close> is the access to \<open>tasks[-1]\<close>.\<close>

definition TaskmgrSetTaskRunningStatus :: "nat \<Rightarrow> 'h os \<Rightarrow> 'h os option" where
  "TaskmgrSetTaskRunningStatus tid s =
     (case running_tid s of None \<Rightarrow> None | Some r \<Rightarrow> Some (set_task r (\<lambda>t. t\<lparr>tk_ran := True\<rparr>) s))"

section \<open>The state of the timer interrupt\<close>

record ('h, 'e, 'x, 'y) machine =
  sys :: "'h os"
  timers :: "'e tmr"
  counter :: int
  clock_counter :: int
  clock_updates :: nat
  switch_to_kernel :: bool
  kt_jk_lock :: bool
  will_reset_all_exceptions :: bool
  is_kernel_task :: bool
  current_tid :: "nat option"
  kernel_init_i387 :: bool
  kernel_task_ran :: bool
  x87 :: 'x
  xmm :: 'y
  i387_state :: "nat \<Rightarrow> 'x"
  sse_state :: "nat \<Rightarrow> 'x \<times> 'y"
  kernel_i387_state :: 'x
  kernel_sse_state :: "'x \<times> 'y"
  exc_tss :: "nat \<Rightarrow> tss"

record exc_addr = kaddr +
  exc_entry :: "nat \<Rightarrow> u32"
  exc_stack :: "nat \<Rightarrow> u32"

definition on_sys :: "('h os \<Rightarrow> 'h os) \<Rightarrow> ('h, 'e, 'x, 'y) machine \<Rightarrow> ('h, 'e, 'x, 'y) machine" where
  "on_sys f m = m\<lparr>sys := f (sys m)\<rparr>"

text \<open>\<open>attr\<close> of descriptor \<open>i\<close>; all indices are below \<open>MAX_DESC_COUNT\<close>.\<close>

definition free_tss :: "u16 \<Rightarrow> nat \<Rightarrow> 'h os \<Rightarrow> 'h os" where
  "free_tss attr i s = KnlSetDescToGDT i (set_attr attr (gdt s i)) s"

definition KnlFreeSystemCallTSS :: "'h os \<Rightarrow> 'h os" where
  "KnlFreeSystemCallTSS s = fold (\<lambda>ui. free_tss (AT386TSS + DPL3) (30 + ui * 2)) [0..<MAX_TASK_COUNT] s"

definition KnlFreeTaskTSS :: "'h os \<Rightarrow> 'h os" where
  "KnlFreeTaskTSS s = fold (\<lambda>ui. free_tss (AT386TSS + DPL3) (400 + ui * 5 + 0)) [0..<MAX_TASK_COUNT] s"

definition EXCEPTIONS :: "nat list" where
  "EXCEPTIONS = [21, 22, 23, 24, 25, 26, 27, 18, 20, 29, 158, 160]"

definition KnlResetAllExceptions :: "'a exc_addr_scheme \<Rightarrow> ('h, 'e, 'x, 'y) machine \<Rightarrow> ('h, 'e, 'x, 'y) machine" where
  "KnlResetAllExceptions ea m =
     fold (\<lambda>i m. (on_sys (free_tss (AT386TSS + DPL0) i) m)
       \<lparr>exc_tss := (exc_tss m)(i := KnlFillTSS (PgGetKernelCR3 (sys m)) (exc_entry ea i) (exc_stack ea i))\<rparr>) EXCEPTIONS m"

section \<open>The floating point unit\<close>

text \<open>\<open>fnsave\<close> and \<open>fxsave\<close> into the images of task \<open>tid\<close>: \<open>fnsave\<close> also initialises the unit.
  \<open>TskmgrSetTaskInfo\<close> stores nothing for an unused task.\<close>

definition save_task_fpu :: "'x \<Rightarrow> nat \<Rightarrow> ('h, 'e, 'x, 'y) machine \<Rightarrow> ('h, 'e, 'x, 'y) machine" where
  "save_task_fpu x0 tid m =
     (let i387 = x87 m; m = m\<lparr>x87 := x0\<rparr>; sse = (x87 m, xmm m) in
      if live_tid tid (sys m) then m\<lparr>i387_state := (i387_state m)(tid := i387), sse_state := (sse_state m)(tid := sse)\<rparr> else m)"

definition save_kernel_fpu :: "'x \<Rightarrow> ('h, 'e, 'x, 'y) machine \<Rightarrow> ('h, 'e, 'x, 'y) machine" where
  "save_kernel_fpu x0 m =
     (let m = m\<lparr>kernel_i387_state := x87 m, x87 := x0\<rparr> in m\<lparr>kernel_sse_state := (x87 m, xmm m)\<rparr>)"

text \<open>\<open>frstor\<close>, then \<open>fxrstor\<close>.\<close>

definition restore_fpu :: "'x \<Rightarrow> 'x \<times> 'y \<Rightarrow> ('h, 'e, 'x, 'y) machine \<Rightarrow> ('h, 'e, 'x, 'y) machine" where
  "restore_fpu i387 sse m = (let m = m\<lparr>x87 := i387\<rparr> in m\<lparr>x87 := fst sse, xmm := snd sse\<rparr>)"

section \<open>The timer interrupt\<close>

datatype dispatch = KernelTask | UserTask nat | SystemCall nat

definition to_kernel :: "'x \<Rightarrow> nat option \<Rightarrow> ('h, 'e, 'x, 'y) machine \<Rightarrow> ('h, 'e, 'x, 'y) machine" where
  "to_kernel x0 old_tid m =
     (let m = m\<lparr>switch_to_kernel := False, counter := 0, is_kernel_task := True\<rparr>;
          m = (case old_tid of None \<Rightarrow> m | Some r \<Rightarrow> save_task_fpu x0 r m);
          m = (if kernel_init_i387 m
               then (if \<not> kernel_task_ran m then restore_fpu (kernel_i387_state m) (kernel_sse_state m) m else m)
               else m\<lparr>x87 := x0, kernel_init_i387 := True\<rparr>);
          m = m\<lparr>kernel_task_ran := True\<rparr> in
      on_sys (KnlFreeSystemCallTSS \<circ> free_tss (AT386TSS + DPL0) 6) m)"

text \<open>\<^const>\<open>None\<close> when the copy of the task is not filled: then \<open>init_i387\<close> is read uninitialised.\<close>

definition to_task ::
  "'x \<Rightarrow> nat option \<Rightarrow> nat \<Rightarrow> ('h, 'e, 'x, 'y) machine \<Rightarrow> (dispatch \<times> ('h, 'e, 'x, 'y) machine) option" where
  "to_task x0 old_tid tid m = do {
     let m = m\<lparr>counter := counter m + 1, is_kernel_task := False\<rparr>;
     let m = (if kernel_task_ran m then (save_kernel_fpu x0 m)\<lparr>kernel_task_ran := False\<rparr>
              else (case old_tid of None \<Rightarrow> m | Some r \<Rightarrow> save_task_fpu x0 r m));
     task \<leftarrow> TskmgrGetTaskInfo tid (sys m);
     let m = (if tk_init_i387 task then restore_fpu (i387_state m tid) (sse_state m tid) m
              else on_sys (set_task tid (\<lambda>t. t\<lparr>tk_init_i387 := True\<rparr>)) (m\<lparr>x87 := x0\<rparr>));
     s \<leftarrow> TaskmgrSetTaskRunningStatus tid (sys m);
     let s = KnlFreeSystemCallTSS s;
     if tk_is_system_call task then Some (SystemCall tid, m\<lparr>sys := s\<rparr>)
     else
       let s' = free_tss (AT386TSS + DPL3) (400 + tid * 5 + 0) s in
       Some (UserTask tid, m\<lparr>sys := KnlSetDescToGDT 11 (gdt s (400 + tid * 5 + 1)) s'\<rparr>) }"

definition tick_clock :: "('h, 'e, 'x, 'y) machine \<Rightarrow> ('h, 'e, 'x, 'y) machine" where
  "tick_clock m =
     (let m = m\<lparr>clock_counter := clock_counter m - 1\<rparr> in
      if clock_counter m = 0 then m\<lparr>clock_updates := clock_updates m + 1, clock_counter := 100\<rparr> else m)"

text \<open>One round of the loop in \<open>_KnlTimerInterrupt\<close>: where it jumps to, and the state then.\<close>

definition KnlTimerInterrupt ::
  "'a exc_addr_scheme \<Rightarrow> 'x \<Rightarrow> ('h, 'e, 'x, 'y) machine \<Rightarrow> (dispatch \<times> ('h, 'e, 'x, 'y) machine) option" where
  "KnlTimerInterrupt ea x0 m = do {
     let m = m\<lparr>timers := TmrIncTicks (timers m), kt_jk_lock := False\<rparr>;
     let m = (if will_reset_all_exceptions m then (KnlResetAllExceptions ea m)\<lparr>will_reset_all_exceptions := False\<rparr> else m);
     let m = tick_clock m;
     let old_tid = TaskmgrGetRunningTaskID (sys m);
     let (tid, s) = TskmgrGetNextTaskID (sys m);
     let m = m\<lparr>sys := s, current_tid := tid\<rparr>;
     let count = TaskmgrGetTaskCount (sys m);
     (case tid of
        None \<Rightarrow> Some (KernelTask, to_kernel x0 old_tid m)
      | Some t \<Rightarrow>
          if counter m \<ge> count \<or> switch_to_kernel m then Some (KernelTask, to_kernel x0 old_tid m)
          else to_task x0 old_tid t m) }"

definition KnlIsCurrentlyKernelTask :: "('h, 'e, 'x, 'y) machine \<Rightarrow> bool" where
  "KnlIsCurrentlyKernelTask m = is_kernel_task m"

definition KnlGetCurrentTaskId :: "('h, 'e, 'x, 'y) machine \<Rightarrow> nat option" where
  "KnlGetCurrentTaskId m = current_tid m"

end
