(* ===== verification/Scheduler_Proofs.thy ===== *)
theory Scheduler_Proofs
  imports Scheduler
begin

text \<open>
  Properties of the scheduler: whom it chooses, that every ready task runs again within a fixed
  number of timer interrupts, and what it does to the floating point unit.
\<close>

section \<open>What the scheduler looks at\<close>

definition sched_task :: "task \<Rightarrow> bool \<times> bool \<times> bool \<times> u32 \<times> u32" where
  "sched_task t = (tk_used t, tk_ready t, tk_ran t, tk_tick t, tk_priority t)"

definition core :: "'h os \<Rightarrow> nat option \<times> int \<times> (nat \<Rightarrow> bool \<times> bool \<times> bool \<times> u32 \<times> u32)" where
  "core s = (running_tid s, task_count s, sched_task \<circ> tasks s)"

lemma core_eqD:
  assumes "core s = core s'"
  shows "running_tid s = running_tid s'" "task_count s = task_count s'" "ready s = ready s'"
    "tk_used (tasks s i) = tk_used (tasks s' i)" "tk_ran (tasks s i) = tk_ran (tasks s' i)"
    "tk_tick (tasks s i) = tk_tick (tasks s' i)"
proof -
  have "sched_task (tasks s j) = sched_task (tasks s' j)" for j
    using assms by (auto simp: core_def fun_eq_iff)
  then show "ready s = ready s'" "tk_used (tasks s i) = tk_used (tasks s' i)" "tk_ran (tasks s i) = tk_ran (tasks s' i)"
    "tk_tick (tasks s i) = tk_tick (tasks s' i)"
    by (auto simp: sched_task_def ready_def fun_eq_iff)
qed (use assms in \<open>auto simp: core_def\<close>)

lemma core_gdt [simp]: "core (s\<lparr>gdt := g\<rparr>) = core s"
  by (simp add: core_def)

lemma core_set_desc [simp]: "core (KnlSetDescToGDT i d s) = core s"
  by (simp add: KnlSetDescToGDT_def)

lemma core_free_tss [simp]: "core (free_tss a i s) = core s"
  by (simp add: free_tss_def)

lemma core_fold: "(\<And>x s. core (f x s) = core s) \<Longrightarrow> core (fold f xs s) = core s"
  by (induction xs arbitrary: s) simp_all

lemma core_free_syscall [simp]: "core (KnlFreeSystemCallTSS s) = core s"
  unfolding KnlFreeSystemCallTSS_def by (rule core_fold) simp

lemma core_set_task: "(\<And>t. sched_task (g t) = sched_task t) \<Longrightarrow> core (set_task i g s) = core s"
  by (auto simp: core_def set_task_def fun_eq_iff)

lemma core_init_i387 [simp]: "core (set_task i (\<lambda>t. t\<lparr>tk_init_i387 := b\<rparr>) s) = core s"
  by (rule core_set_task) (simp add: sched_task_def)

lemma set_task_core:
  assumes "core s = core s'" "\<And>t t'. sched_task t = sched_task t' \<Longrightarrow> sched_task (g t) = sched_task (g t')"
  shows "core (set_task i g s) = core (set_task i g s')"
proof -
  have e: "sched_task (tasks s j) = sched_task (tasks s' j)" for j
    using assms(1) by (auto simp: core_def fun_eq_iff)
  then have "sched_task \<circ> (tasks s)(i := g (tasks s i)) = sched_task \<circ> (tasks s')(i := g (tasks s' i))"
    using assms(2) [OF e [of i]] by auto
  then show ?thesis
    using assms(1) by (simp add: core_def set_task_def)
qed

lemma tasks_set_task: "tasks (set_task i g s) j = (if j = i then g (tasks s i) else tasks s j)"
  and set_task_frame [simp]: "running_tid (set_task i g s) = running_tid s" "task_count (set_task i g s) = task_count s"
  by (simp_all add: set_task_def)

lemma live_ready: "i < MAX_TASK_COUNT \<Longrightarrow> ready s i \<Longrightarrow> live_tid i s"
  by (simp add: ready_def live_tid_def)

section \<open>The interrupt as a step of the scheduler\<close>

definition blocked :: "('h, 'e, 'x, 'y) machine \<Rightarrow> bool" where
  "blocked m \<longleftrightarrow> counter m \<ge> task_count (sys m) \<or> switch_to_kernel m"

definition sched_view ::
  "('h, 'e, 'x, 'y) machine \<Rightarrow> (nat option \<times> int \<times> (nat \<Rightarrow> bool \<times> bool \<times> bool \<times> u32 \<times> u32)) \<times> int \<times> bool" where
  "sched_view m = (core (sys m), counter m, switch_to_kernel m)"

text \<open>A ready task may be running, and only one of the \<^const>\<open>MAX_TASK_COUNT\<close>.\<close>

definition sched_ok :: "('h, 'e, 'x, 'y) machine \<Rightarrow> bool" where
  "sched_ok m \<longleftrightarrow> (\<forall>r. running_tid (sys m) = Some r \<longrightarrow> r < MAX_TASK_COUNT \<and> ready (sys m) r)"

lemma sched_view_eqD:
  assumes "sched_view m = sched_view m'"
  shows "core (sys m) = core (sys m')" "counter m = counter m'" "switch_to_kernel m = switch_to_kernel m'"
  using assms by (auto simp: sched_view_def)

lemma view_on_sys: "core (f (sys m)) = core (sys m) \<Longrightarrow> sched_view (on_sys f m) = sched_view m"
  by (simp add: sched_view_def on_sys_def)

lemma view_exceptions [simp]: "sched_view (KnlResetAllExceptions ea m) = sched_view m"
proof -
  have "sched_view (fold (\<lambda>i m. (on_sys (free_tss (AT386TSS + DPL0) i) m)
       \<lparr>exc_tss := (exc_tss m)(i := KnlFillTSS (PgGetKernelCR3 (sys m)) (exc_entry ea i) (exc_stack ea i))\<rparr>) is m) = sched_view m" for "is"
    by (induction "is" arbitrary: m) (simp_all add: sched_view_def on_sys_def)
  then show ?thesis
    by (simp add: KnlResetAllExceptions_def)
qed

lemma view_fields [simp]:
  "sched_view (m\<lparr>timers := a\<rparr>) = sched_view m" "sched_view (m\<lparr>kt_jk_lock := b\<rparr>) = sched_view m"
  "sched_view (m\<lparr>will_reset_all_exceptions := b\<rparr>) = sched_view m" "sched_view (m\<lparr>clock_counter := i\<rparr>) = sched_view m"
  "sched_view (m\<lparr>clock_updates := n\<rparr>) = sched_view m" "sched_view (m\<lparr>kernel_task_ran := b\<rparr>) = sched_view m"
  "sched_view (m\<lparr>x87 := x\<rparr>) = sched_view m" "sched_view (m\<lparr>xmm := y\<rparr>) = sched_view m"
  "sched_view (m\<lparr>i387_state := f\<rparr>) = sched_view m" "sched_view (m\<lparr>sse_state := g\<rparr>) = sched_view m"
  "sched_view (m\<lparr>kernel_i387_state := x\<rparr>) = sched_view m" "sched_view (m\<lparr>kernel_sse_state := z\<rparr>) = sched_view m"
  "sched_view (m\<lparr>kernel_init_i387 := b\<rparr>) = sched_view m" "sched_view (m\<lparr>is_kernel_task := b\<rparr>) = sched_view m"
  by (simp_all add: sched_view_def)

lemma view_fpu [simp]:
  "sched_view (save_task_fpu x0 r m) = sched_view m" "sched_view (save_kernel_fpu x0 m) = sched_view m"
  "sched_view (restore_fpu i q m) = sched_view m"
  by (simp_all add: save_task_fpu_def save_kernel_fpu_def restore_fpu_def Let_def)

lemma view_tick_clock [simp]: "sched_view (tick_clock m) = sched_view m"
  by (simp add: tick_clock_def Let_def)

lemma to_kernel_view: "sched_view (to_kernel x0 old m) = (core (sys m), 0, False)"
proof -
  define m1 where "m1 = m\<lparr>switch_to_kernel := False, counter := 0, is_kernel_task := True\<rparr>"
  define m2 where "m2 = (case old of None \<Rightarrow> m1 | Some r \<Rightarrow> save_task_fpu x0 r m1)"
  define m3 where "m3 = (if kernel_init_i387 m2
    then (if \<not> kernel_task_ran m2 then restore_fpu (kernel_i387_state m2) (kernel_sse_state m2) m2 else m2)
    else m2\<lparr>x87 := x0, kernel_init_i387 := True\<rparr>)"
  have "sched_view m2 = sched_view m1"
    by (simp add: m2_def split: option.split)
  moreover have "sched_view m3 = sched_view m2"
    by (simp add: m3_def)
  ultimately have "sched_view (m3\<lparr>kernel_task_ran := True\<rparr>) = (core (sys m), 0, False)"
    by (simp add: m1_def) (simp add: sched_view_def)
  then show ?thesis
    unfolding to_kernel_def Let_def m1_def [symmetric] m2_def [symmetric] m3_def [symmetric]
    by (subst view_on_sys) simp_all
qed

lemma to_task_view:
  assumes "live_tid t (sys m)" "running_tid (sys m) = Some t"
  shows "\<exists>d m'. to_task x0 old t m = Some (d, m') \<and> (d = UserTask t \<or> d = SystemCall t) \<and>
    sched_view m' = (core (set_task t (\<lambda>t. t\<lparr>tk_ran := True\<rparr>) (sys m)), counter m + 1, switch_to_kernel m)"
proof -
  define m1 where "m1 = m\<lparr>counter := counter m + 1, is_kernel_task := False\<rparr>"
  define m2 where "m2 = (if kernel_task_ran m1 then (save_kernel_fpu x0 m1)\<lparr>kernel_task_ran := False\<rparr>
              else (case old of None \<Rightarrow> m1 | Some r \<Rightarrow> save_task_fpu x0 r m1))"
  define task where "task = tasks (sys m2) t"
  define m3 where "m3 = (if tk_init_i387 task then restore_fpu (i387_state m2 t) (sse_state m2 t) m2
              else on_sys (set_task t (\<lambda>t. t\<lparr>tk_init_i387 := True\<rparr>)) (m2\<lparr>x87 := x0\<rparr>))"
  have v2: "sched_view m2 = sched_view m1"
    by (auto simp: m2_def split: option.splits)
  then have v3: "sched_view m3 = (core (sys m), counter m + 1, switch_to_kernel m)"
    by (auto simp: m3_def view_on_sys) (simp_all add: m1_def sched_view_def)
  have c2: "core (sys m2) = core (sys m)"
    using v2 by (simp add: m1_def sched_view_def)
  have c3: "core (sys m3) = core (sys m)"
    using v3 by (simp add: sched_view_def)
  have g: "TskmgrGetTaskInfo t (sys m2) = Some task"
    using assms(1) core_eqD(4) [OF c2, of t] by (simp add: TskmgrGetTaskInfo_def live_tid_def task_def)
  have r: "TaskmgrSetTaskRunningStatus t (sys m3) = Some (set_task t (\<lambda>t. t\<lparr>tk_ran := True\<rparr>) (sys m3))"
    using assms(2) core_eqD(1) [OF c3] by (simp add: TaskmgrSetTaskRunningStatus_def)
  have c: "core (set_task t (\<lambda>t. t\<lparr>tk_ran := True\<rparr>) (sys m3)) = core (set_task t (\<lambda>t. t\<lparr>tk_ran := True\<rparr>) (sys m))"
    by (rule set_task_core [OF c3]) (simp add: sched_task_def)
  have k: "counter m3 = counter m + 1" "switch_to_kernel m3 = switch_to_kernel m"
    using v3 by (simp_all add: sched_view_def)
  show ?thesis
    unfolding to_task_def Let_def m1_def [symmetric] m2_def [symmetric] g bind.bind_lunit m3_def [symmetric] r
    by (simp add: sched_view_def c k)
qed

lemma sched_reset_tick: "sched_task t = sched_task t' \<Longrightarrow> sched_task (reset_tick t) = sched_task (reset_tick t')"
  by (auto simp: sched_task_def reset_tick_def)

lemma next_other_core: "core s = core s' \<Longrightarrow> next_other r s = next_other r s'"
  unfolding next_other_def by (frule core_eqD(3)) (simp only:)

text \<open>The choice depends on nothing else.\<close>

lemma next_core:
  fixes s s' :: "'h os"
  assumes c: "core s = core s'"
  shows "fst (TskmgrGetNextTaskID s) = fst (TskmgrGetNextTaskID s') \<and>
    core (snd (TskmgrGetNextTaskID s)) = core (snd (TskmgrGetNextTaskID s'))"
proof (cases "running_tid s")
  case None
  then show ?thesis
    using c core_eqD(1,3) [OF c] by (simp add: TskmgrGetNextTaskID_def core_def Let_def)
next
  case (Some r)
  define a where "a = (\<lambda>s :: 'h os. set_task r (\<lambda>t. t\<lparr>tk_tick := tk_tick t - 1\<rparr>) s)"
  define b where "b = (\<lambda>s. set_task r reset_tick (a s))"
  define d where "d = (\<lambda>i s. set_task r (\<lambda>t. t\<lparr>tk_running := False\<rparr>) (set_task i (\<lambda>t. t\<lparr>tk_ran := False, tk_running := True\<rparr>) (b s)))"
  have Some': "running_tid s' = Some r"
    using Some core_eqD(1) [OF c] by simp
  have ca: "core (a s) = core (a s')"
    unfolding a_def by (rule set_task_core [OF c]) (simp add: sched_task_def)
  have cb: "core (b s) = core (b s')"
    unfolding b_def by (rule set_task_core [OF ca sched_reset_tick])
  have cd: "core (d i s) = core (d i s')" for i
    unfolding d_def by (intro set_task_core cb) (simp_all add: sched_task_def)
  have n: "TskmgrGetNextTaskID s = (if 0 <s tk_tick (tasks (a s) r) then (Some r, a s)
      else if \<not> tk_ran (tasks (b s) r) then (Some r, b s)
      else (case next_other r (b s) of None \<Rightarrow> (None, (b s)\<lparr>running_tid := None\<rparr>)
         | Some i \<Rightarrow> (Some i, (d i s)\<lparr>running_tid := Some i\<rparr>)))" if "running_tid s = Some r" for s
    by (simp add: TskmgrGetNextTaskID_def that a_def b_def d_def Let_def cong: option.case_cong)
  have u: "core (x\<lparr>running_tid := v\<rparr>) = core (y\<lparr>running_tid := v\<rparr>)" if "core x = core y" for x y :: "'h os" and v
    using that by (simp add: core_def)
  show ?thesis
    unfolding n [OF Some] n [OF Some'] core_eqD(6) [OF ca] core_eqD(5) [OF cb] next_other_core [OF cb]
    by (simp add: ca cb u [OF cb] u [OF cd] split: option.split)
qed

lemma interrupt_step:
  assumes n: "TskmgrGetNextTaskID (sys m) = (tid, s)"
    and live: "\<And>t. tid = Some t \<Longrightarrow> live_tid t s \<and> running_tid s = Some t" and count: "task_count s = task_count (sys m)"
  shows "\<exists>d m'. KnlTimerInterrupt ea x0 m = Some (d, m') \<and>
    (if tid = None \<or> blocked m then d = KernelTask \<and> sched_view m' = (core s, 0, False)
     else (d = UserTask (the tid) \<or> d = SystemCall (the tid)) \<and>
       sched_view m' = (core (set_task (the tid) (\<lambda>t. t\<lparr>tk_ran := True\<rparr>) s), counter m + 1, switch_to_kernel m))"
proof -
  define m1 where "m1 = m\<lparr>timers := TmrIncTicks (timers m), kt_jk_lock := False\<rparr>"
  define m2 where "m2 = (if will_reset_all_exceptions m1 then (KnlResetAllExceptions ea m1)\<lparr>will_reset_all_exceptions := False\<rparr> else m1)"
  define m3 where "m3 = tick_clock m2"
  have "sched_view m3 = sched_view m"
    by (simp add: m3_def m2_def m1_def)
  then have v: "core (sys m3) = core (sys m)" "counter m3 = counter m" "switch_to_kernel m3 = switch_to_kernel m"
    by (simp_all add: sched_view_def)
  obtain s3 where n3: "TskmgrGetNextTaskID (sys m3) = (tid, s3)" and c3: "core s3 = core s"
    using next_core [OF v(1)] n by (cases "TskmgrGetNextTaskID (sys m3)") auto
  define m4 where "m4 = m3\<lparr>sys := s3, current_tid := tid\<rparr>"
  have count4: "task_count s3 = task_count (sys m)"
    using core_eqD(2) [OF c3] count by simp
  have b: "(counter m4 \<ge> TaskmgrGetTaskCount (sys m4) \<or> switch_to_kernel m4) = blocked m"
    by (simp add: m4_def blocked_def TaskmgrGetTaskCount_def v count4)
  have e: "KnlTimerInterrupt ea x0 m =
    (case tid of None \<Rightarrow> Some (KernelTask, to_kernel x0 (TaskmgrGetRunningTaskID (sys m3)) m4)
     | Some t \<Rightarrow> if blocked m then Some (KernelTask, to_kernel x0 (TaskmgrGetRunningTaskID (sys m3)) m4)
               else to_task x0 (TaskmgrGetRunningTaskID (sys m3)) t m4)"
    unfolding KnlTimerInterrupt_def Let_def m1_def [symmetric] m2_def [symmetric] m3_def [symmetric] n3 prod.case m4_def [symmetric]
    by (simp only: b)
  have s4: "sys m4 = s3"
    by (simp add: m4_def)
  show ?thesis
  proof (cases "tid = None \<or> blocked m")
    case True
    then show ?thesis
      unfolding e by (auto simp: to_kernel_view s4 c3 split: option.split)
  next
    case False
    then obtain t where t: "tid = Some t" "\<not> blocked m"
      by (cases tid) auto
    have "live_tid t (sys m4)" "running_tid (sys m4) = Some t"
      using live [OF t(1)] core_eqD(1,4) [OF c3] by (simp_all add: s4 live_tid_def)
    from to_task_view [OF this, of x0 "TaskmgrGetRunningTaskID (sys m3)"]
    obtain d m' where d: "to_task x0 (TaskmgrGetRunningTaskID (sys m3)) t m4 = Some (d, m')" "d = UserTask t \<or> d = SystemCall t"
      "sched_view m' = (core (set_task t (\<lambda>t. t\<lparr>tk_ran := True\<rparr>) s3), counter m4 + 1, switch_to_kernel m4)"
      unfolding s4 by blast
    have "core (set_task t (\<lambda>t. t\<lparr>tk_ran := True\<rparr>) s3) = core (set_task t (\<lambda>t. t\<lparr>tk_ran := True\<rparr>) s)"
      by (rule set_task_core [OF c3]) (simp add: sched_task_def)
    then show ?thesis
      using t d e by (simp add: m4_def v)
  qed
qed

section \<open>Progress\<close>

definition ticks_within :: "int \<Rightarrow> 'h os \<Rightarrow> bool" where
  "ticks_within lo s \<longleftrightarrow> (\<forall>i < MAX_TASK_COUNT. ready s i \<longrightarrow> lo \<le> sint (tk_tick (tasks s i)) \<and> sint (tk_tick (tasks s i)) \<le> 40)"

definition running_ok :: "'h os \<Rightarrow> bool" where
  "running_ok s \<longleftrightarrow> (\<forall>r. running_tid s = Some r \<longrightarrow> r < MAX_TASK_COUNT \<and> ready s r)"

lemma sint_dec: "- (2 ^ 31) < sint (x :: u32) \<Longrightarrow> sint (x - 1) = sint x - 1"
proof -
  assume a: "- (2 ^ 31) < sint x"
  have "sint x \<le> 2 ^ 31 - 1" "- (2 ^ 31) \<le> sint x"
    using sint_lt [of x] sint_ge [of x] by simp_all
  then show ?thesis
    using a by (simp add: sint_word_ariths signed_take_bit_int_eq_self)
qed

lemma sint_reset_tick:
  assumes "lo \<le> sint (tk_tick t)" "sint (tk_tick t) \<le> 40" "lo \<le> 5"
  shows "lo \<le> sint (tk_tick (reset_tick t)) \<and> sint (tk_tick (reset_tick t)) \<le> 40"
  using assms by (simp add: reset_tick_def TASK_TICK_HIGH_def TASK_TICK_NORMAL_def TASK_TICK_LOW_def)

lemma first_ready:
  assumes "ready s t" "t < MAX_TASK_COUNT"
  shows "\<exists>f. first_index (ready s) 0 MAX_TASK_COUNT = Some f \<and> ready s f \<and> f < MAX_TASK_COUNT"
  using first_index_ex [of 0 t MAX_TASK_COUNT "ready s"] first_index_SomeD assms by fastforce

definition dist :: "nat \<Rightarrow> nat \<Rightarrow> nat" where
  "dist r t = (if r \<le> t then t - r else t + MAX_TASK_COUNT - r)"

lemma next_other_ready:
  assumes "next_other r s = Some i" "r < MAX_TASK_COUNT"
  shows "ready s i" "i < MAX_TASK_COUNT" "i \<noteq> r"
  using assms first_index_SomeD [of "ready s" "r + 1" MAX_TASK_COUNT i] first_index_SomeD [of "ready s" 0 r i]
  by (auto simp: next_other_def split: option.splits)

lemma first_index_None_iff: "first_index P i n = None \<longleftrightarrow> (\<forall>j. i \<le> j \<and> j < n \<longrightarrow> \<not> P j)"
proof
  show "first_index P i n = None \<Longrightarrow> \<forall>j. i \<le> j \<and> j < n \<longrightarrow> \<not> P j"
    using first_index_NoneD by blast
  show "\<forall>j. i \<le> j \<and> j < n \<longrightarrow> \<not> P j \<Longrightarrow> first_index P i n = None"
    by (cases "first_index P i n") (auto dest: first_index_SomeD)
qed

lemma next_other_None_iff:
  assumes "r < MAX_TASK_COUNT"
  shows "next_other r s = None \<longleftrightarrow> (\<forall>j < MAX_TASK_COUNT. j \<noteq> r \<longrightarrow> \<not> ready s j)"
proof -
  have "next_other r s = None \<longleftrightarrow> first_index (ready s) (r + 1) MAX_TASK_COUNT = None \<and> first_index (ready s) 0 r = None"
    by (auto simp: next_other_def split: option.splits)
  also have "\<dots> \<longleftrightarrow> (\<forall>j < MAX_TASK_COUNT. j \<noteq> r \<longrightarrow> \<not> ready s j)"
    unfolding first_index_None_iff using assms by (auto simp: Suc_le_eq) (metis linorder_neqE_nat)
  finally show ?thesis .
qed

text \<open>No ready task comes between a task and the next one in the cycle.\<close>

lemma next_other_first:
  assumes i: "next_other r s = Some i" and j: "ready s j" "j \<noteq> r" "j < MAX_TASK_COUNT" and r: "r < MAX_TASK_COUNT"
  shows "dist r i \<le> dist r j"
proof (cases "first_index (ready s) (r + 1) MAX_TASK_COUNT")
  case None
  then have "j < r" "first_index (ready s) 0 r = Some i"
    using first_index_NoneD [OF None, of j] i j by (fastforce simp: next_other_def)+
  then show ?thesis
    using first_index_SomeD [of "ready s" 0 r i] j(1) by (auto simp: dist_def not_less [symmetric])
next
  case (Some k)
  then have "k = i" "r < i" "i < MAX_TASK_COUNT" "\<And>l. r < l \<Longrightarrow> l < i \<Longrightarrow> \<not> ready s l"
    using i first_index_SomeD [OF Some] by (auto simp: next_other_def)
  moreover from this have "\<not> (r < j \<and> j < i)"
    using j(1) by blast
  ultimately show ?thesis
    using j(2,3) r by (auto simp: dist_def)
qed

text \<open>The next task in the cycle is not beyond any ready task.\<close>

lemma next_other_dist:
  assumes t: "ready s t" "t < MAX_TASK_COUNT" "t \<noteq> r" and r: "r < MAX_TASK_COUNT"
  shows "\<exists>i. next_other r s = Some i \<and> dist i t < dist r t"
proof (cases "first_index (ready s) (r + 1) MAX_TASK_COUNT")
  case None
  then have "t < r"
    using first_index_NoneD [OF None, of t] t by fastforce
  then obtain i where i: "first_index (ready s) 0 r = Some i"
    using first_index_ex [of 0 t r "ready s"] t(1) by auto
  then have "i \<le> t" "i < r"
    using first_index_SomeD [OF i] t(1) by (auto simp: not_less [symmetric])
  then show ?thesis
    using None i \<open>t < r\<close> r by (auto simp: next_other_def dist_def)
next
  case (Some i)
  have i: "r < i" "i < MAX_TASK_COUNT" "\<And>j. r < j \<Longrightarrow> j < i \<Longrightarrow> \<not> ready s j"
    using first_index_SomeD [OF Some] by auto
  have "\<not> (r < t \<and> t < i)"
    using i(3) t(1) by blast
  then show ?thesis
    using Some i(1,2) t(2,3) by (auto simp: next_other_def dist_def)
qed

lemma ready_set_task: "(\<And>t. tk_used (g t) = tk_used t \<and> tk_ready (g t) = tk_ready t) \<Longrightarrow> ready (set_task i g s) = ready s"
  by (auto simp: ready_def set_task_def fun_eq_iff)

lemma ready_fields [simp]: "ready (s\<lparr>running_tid := r\<rparr>) = ready s"
  by (simp add: ready_def fun_eq_iff)

lemma ready_set_tasks: "ready (set_task r (\<lambda>t. t\<lparr>tk_tick := x t\<rparr>) s) = ready s" "ready (set_task r reset_tick s) = ready s"
  by (simp_all add: ready_set_task reset_tick_def)

text \<open>Whom \<^const>\<open>TskmgrGetNextTaskID\<close> chooses: nothing is asked of the ticks, and of the recorded task
  only that it is in use.\<close>

lemma next_task_choice:
  assumes live: "\<And>r. running_tid s = Some r \<Longrightarrow> live_tid r s"
  obtains tid s' where "TskmgrGetNextTaskID s = (tid, s')" "task_count s' = task_count s" "ready s' = ready s"
    "\<And>t. tid = Some t \<Longrightarrow> live_tid t s' \<and> running_tid s' = Some t"
    "tid = (case running_tid s of
       None \<Rightarrow> first_index (ready s) 0 MAX_TASK_COUNT
     | Some r \<Rightarrow> if 0 <s tk_tick (tasks s r) - 1 \<or> \<not> tk_ran (tasks s r) then Some r else next_other r s)"
proof (cases "running_tid s")
  case None
  then show thesis
    by (intro that [of "first_index (ready s) 0 MAX_TASK_COUNT" "s\<lparr>running_tid := first_index (ready s) 0 MAX_TASK_COUNT\<rparr>"])
      (auto simp: TskmgrGetNextTaskID_def Let_def live_tid_def ready_def dest: first_index_SomeD)
next
  case (Some r)
  define a where "a = set_task r (\<lambda>t. t\<lparr>tk_tick := tk_tick t - 1\<rparr>) s"
  define b where "b = set_task r reset_tick a"
  define c where "c = (\<lambda>i. (set_task r (\<lambda>t. t\<lparr>tk_running := False\<rparr>)
    (set_task i (\<lambda>t. t\<lparr>tk_ran := False, tk_running := True\<rparr>) b))\<lparr>running_tid := Some i\<rparr>)"
  have rd: "ready a = ready s" "ready b = ready s" "ready (c i) = ready s" for i
    by (simp_all add: a_def b_def c_def ready_set_tasks ready_set_task)
  have used: "tk_used (tasks a i) = tk_used (tasks s i)" "tk_used (tasks b i) = tk_used (tasks s i)"
    "tk_used (tasks (c j) i) = tk_used (tasks s i)" for i j
    by (simp_all add: a_def b_def c_def tasks_set_task reset_tick_def)
  have f: "tk_tick (tasks a r) = tk_tick (tasks s r) - 1" "tk_ran (tasks b r) = tk_ran (tasks s r)"
    "running_tid a = Some r" "running_tid b = Some r" "task_count a = task_count s" "task_count b = task_count s"
    "task_count (c i) = task_count s" "running_tid (c i) = Some i" for i
    using Some by (simp_all add: a_def b_def c_def tasks_set_task reset_tick_def)
  have no: "next_other r b = next_other r s"
    unfolding next_other_def rd ..
  have n: "TskmgrGetNextTaskID s = (if 0 <s tk_tick (tasks s r) - 1 then (Some r, a)
      else if \<not> tk_ran (tasks s r) then (Some r, b)
      else (case next_other r s of None \<Rightarrow> (None, b\<lparr>running_tid := None\<rparr>) | Some i \<Rightarrow> (Some i, c i)))"
    by (simp add: TskmgrGetNextTaskID_def Some a_def [symmetric] b_def [symmetric] c_def Let_def f no cong: option.case_cong)
  have r: "r < MAX_TASK_COUNT" "tk_used (tasks s r)"
    using live [OF Some] by (simp_all add: live_tid_def)
  note * = n Some rd used f live_tid_def
  consider "0 <s tk_tick (tasks s r) - 1" | "\<not> 0 <s tk_tick (tasks s r) - 1" "\<not> tk_ran (tasks s r)"
    | "\<not> 0 <s tk_tick (tasks s r) - 1" "tk_ran (tasks s r)" "next_other r s = None"
    | i where "\<not> 0 <s tk_tick (tasks s r) - 1" "tk_ran (tasks s r)" "next_other r s = Some i"
    by (cases "next_other r s") auto
  then show thesis
  proof cases
    case 1
    then show thesis
      using r by (intro that [of "Some r" a]) (auto simp: *)
  next
    case 2
    then show thesis
      using r by (intro that [of "Some r" b]) (auto simp: *)
  next
    case 3
    then show thesis
      by (intro that [of None "b\<lparr>running_tid := None\<rparr>"]) (simp_all add: *)
  next
    case (4 i)
    then show thesis
      using next_other_ready [OF 4(3) r(1)] by (intro that [of "Some i" "c i"]) (auto simp: * ready_def)
  qed
qed

text \<open>The three ways of \<^const>\<open>TskmgrGetNextTaskID\<close>: the first ready task, the running one, the next one.\<close>

lemma next_task_cases:
  assumes ok: "running_ok s" and tick: "ticks_within lo s" and lo: "- (2 ^ 31) < lo" "lo \<le> 5"
  obtains tid s' where "TskmgrGetNextTaskID s = (tid, s')" "ready s' = ready s" "task_count s' = task_count s" "running_tid s' = tid"
    "ticks_within (lo - 1) s'" "running_ok s'"
    "running_tid s = None \<and> tid = first_index (ready s) 0 MAX_TASK_COUNT \<and> (\<forall>i. tk_ran (tasks s' i) = tk_ran (tasks s i)) \<or>
     (\<exists>r. running_tid s = Some r \<and> tid = Some r \<and> tk_ran (tasks s' r) = tk_ran (tasks s r) \<and>
        (tk_ran (tasks s r) \<longrightarrow> 1 < sint (tk_tick (tasks s r)) \<and> sint (tk_tick (tasks s' r)) = sint (tk_tick (tasks s r)) - 1)) \<or>
     (\<exists>r. running_tid s = Some r \<and> tk_ran (tasks s r) \<and> sint (tk_tick (tasks s r)) \<le> 1 \<and> tid = next_other r s \<and>
        (\<forall>i. tid = Some i \<longrightarrow> \<not> tk_ran (tasks s' i)))"
proof (cases "running_tid s")
  case None
  have "ticks_within (lo - 1) (s\<lparr>running_tid := first_index (ready s) 0 MAX_TASK_COUNT\<rparr>)"
    using tick by (auto simp: ticks_within_def)
  moreover have "running_ok (s\<lparr>running_tid := first_index (ready s) 0 MAX_TASK_COUNT\<rparr>)"
    by (auto simp: running_ok_def dest: first_index_SomeD)
  ultimately show thesis
    using None by (intro that [of "first_index (ready s) 0 MAX_TASK_COUNT" "s\<lparr>running_tid := first_index (ready s) 0 MAX_TASK_COUNT\<rparr>"])
      (simp_all add: TskmgrGetNextTaskID_def Let_def)
next
  case (Some r)
  define a where "a = set_task r (\<lambda>t. t\<lparr>tk_tick := tk_tick t - 1\<rparr>) s"
  define b where "b = set_task r reset_tick a"
  have r: "r < MAX_TASK_COUNT" "ready s r"
    using ok Some by (auto simp: running_ok_def)
  have rd: "ready a = ready s" "ready b = ready s"
    by (simp_all add: a_def b_def ready_set_task reset_tick_def)
  have tr: "lo \<le> sint (tk_tick (tasks s r))" "sint (tk_tick (tasks s r)) \<le> 40"
    using tick r by (auto simp: ticks_within_def)
  have dec: "sint (tk_tick (tasks a r)) = sint (tk_tick (tasks s r)) - 1"
    using sint_dec [of "tk_tick (tasks s r)"] tr(1) lo(1) by (simp add: a_def tasks_set_task)
  have ta: "ticks_within (lo - 1) a"
    using tick dec tr by (auto simp: ticks_within_def rd tasks_set_task) (auto simp: a_def tasks_set_task)
  have "lo - 1 \<le> sint (tk_tick (reset_tick (tasks a r))) \<and> sint (tk_tick (reset_tick (tasks a r))) \<le> 40"
    using ta r rd lo(2) by (intro sint_reset_tick) (auto simp: ticks_within_def)
  then have tb: "ticks_within (lo - 1) b"
    using ta rd by (auto simp: ticks_within_def b_def tasks_set_task)
  have ra: "running_tid a = Some r" "running_tid b = Some r" "task_count a = task_count s" "task_count b = task_count s"
    using Some by (simp_all add: a_def b_def)
  have ran: "tk_ran (tasks a i) = tk_ran (tasks s i)" "tk_ran (tasks b i) = tk_ran (tasks s i)" for i
    by (simp_all add: a_def b_def tasks_set_task reset_tick_def)
  have n: "TskmgrGetNextTaskID s = (if 0 <s tk_tick (tasks a r) then (Some r, a)
      else if \<not> tk_ran (tasks b r) then (Some r, b)
      else (case next_other r b of None \<Rightarrow> (None, b\<lparr>running_tid := None\<rparr>)
         | Some i \<Rightarrow> (Some i, (set_task r (\<lambda>t. t\<lparr>tk_running := False\<rparr>) (set_task i (\<lambda>t. t\<lparr>tk_ran := False, tk_running := True\<rparr>) b))\<lparr>running_tid := Some i\<rparr>)))"
    by (simp add: TskmgrGetNextTaskID_def Some a_def b_def Let_def cong: option.case_cong)
  have pos: "0 <s tk_tick (tasks a r) \<longleftrightarrow> 1 < sint (tk_tick (tasks s r))"
    using dec by (simp add: word_sless_alt)
  have no: "next_other r b = next_other r s"
    unfolding next_other_def rd ..
  consider "1 < sint (tk_tick (tasks s r))" | "\<not> 1 < sint (tk_tick (tasks s r))" "\<not> tk_ran (tasks s r)"
    | "\<not> 1 < sint (tk_tick (tasks s r))" "tk_ran (tasks s r)" "next_other r s = None"
    | i where "\<not> 1 < sint (tk_tick (tasks s r))" "tk_ran (tasks s r)" "next_other r s = Some i"
    by (cases "next_other r s") auto
  then show thesis
  proof cases
    case 1
    then show thesis
      using n pos ra ta rd ran dec r Some by (intro that [of "Some r" a]) (simp_all add: running_ok_def)
  next
    case 2
    then show thesis
      using n pos ra tb rd ran r Some by (intro that [of "Some r" b]) (simp_all add: running_ok_def)
  next
    case 3
    then show thesis
      using n pos ra tb rd ran r Some no
      by (intro that [of None "b\<lparr>running_tid := None\<rparr>"]) (simp_all add: running_ok_def ticks_within_def)
  next
    case 4
    define c where "c = (set_task r (\<lambda>t. t\<lparr>tk_running := False\<rparr>) (set_task i (\<lambda>t. t\<lparr>tk_ran := False, tk_running := True\<rparr>) b))\<lparr>running_tid := Some i\<rparr>"
    have i: "ready s i" "i < MAX_TASK_COUNT" "i \<noteq> r"
      using next_other_ready [OF 4(3) r(1)] by simp_all
    have c: "ready c = ready s" "\<not> tk_ran (tasks c i)" "task_count c = task_count s" "running_tid c = Some i"
      using i by (simp_all add: c_def ready_set_task rd tasks_set_task ra)
    have tk: "tk_tick (tasks c j) = tk_tick (tasks b j)" for j
      by (simp add: c_def tasks_set_task)
    have "ticks_within (lo - 1) c"
      using tb by (simp add: ticks_within_def c rd tk)
    then show thesis
      using n pos ran 4 no c i Some by (intro that [of "Some i" c]) (simp_all add: running_ok_def c_def [symmetric])
  qed
qed

text \<open>How many more interrupts it takes at most until the ready task \<open>t\<close> runs.\<close>

definition CYCLE :: nat where "CYCLE = 63 * 43 + 42"

definition delay :: "nat \<Rightarrow> ('h, 'e, 'x, 'y) machine \<Rightarrow> nat" where
  "delay t m =
     (case running_tid (sys m) of
        None \<Rightarrow> if blocked m then CYCLE + 5 else CYCLE + 1
      | Some r \<Rightarrow>
          if r = t
          then (if tk_ran (tasks (sys m) r) then (if blocked m then CYCLE + 4 else CYCLE + 3) else if blocked m then 1 else 0)
          else dist r t * 43 +
            (if tk_ran (tasks (sys m) r) then nat (max 1 (sint (tk_tick (tasks (sys m) r)))) else if blocked m then 42 else 41))"

lemma delay_bound:
  assumes "running_ok (sys m)" "ticks_within lo (sys m)" "t < MAX_TASK_COUNT"
  shows "delay t m \<le> 2756"
proof -
  have "dist r t \<le> 63" if "r < MAX_TASK_COUNT" "r \<noteq> t" for r
    using that assms(3) by (auto simp: dist_def MAX_TASK_COUNT_def)
  moreover have "nat (max 1 (sint (tk_tick (tasks (sys m) r)))) \<le> 40" if "running_tid (sys m) = Some r" for r
    using that assms(1,2) by (auto simp: running_ok_def ticks_within_def)
  ultimately show ?thesis
    using assms(1) by (fastforce simp: delay_def CYCLE_def running_ok_def split: option.split)
qed

lemma delay_view:
  assumes "sched_view m = sched_view m'"
  shows "delay t m = delay t m'" "running_ok (sys m) = running_ok (sys m')" "ticks_within lo (sys m) = ticks_within lo (sys m')"
proof -
  note c = core_eqD [OF sched_view_eqD(1) [OF assms]] sched_view_eqD(2,3) [OF assms]
  have "blocked m = blocked m'"
    by (simp add: blocked_def c)
  then show "delay t m = delay t m'"
    by (simp add: delay_def c split: option.split)
  show "running_ok (sys m) = running_ok (sys m')" "ticks_within lo (sys m) = ticks_within lo (sys m')"
    by (simp_all add: running_ok_def ticks_within_def c)
qed

lemma core_running:
  assumes "core s = core s'"
  shows "running_ok s = running_ok s'" "ticks_within lo s = ticks_within lo s'"
  using core_eqD [OF assms] by (simp_all add: running_ok_def ticks_within_def)

lemma tick_set_ran: "tk_tick (tasks (set_task i (\<lambda>t. t\<lparr>tk_ran := True\<rparr>) s) j) = tk_tick (tasks s j)"
  by (simp add: tasks_set_task)

lemma set_ran:
  "ready (set_task i (\<lambda>t. t\<lparr>tk_ran := True\<rparr>) s) = ready s"
  "ticks_within lo (set_task i (\<lambda>t. t\<lparr>tk_ran := True\<rparr>) s) = ticks_within lo s"
  "running_ok (set_task i (\<lambda>t. t\<lparr>tk_ran := True\<rparr>) s) = running_ok s"
  "tk_ran (tasks (set_task i (\<lambda>t. t\<lparr>tk_ran := True\<rparr>) s) i)"
  by (simp_all add: ready_set_task ticks_within_def tick_set_ran running_ok_def) (simp add: tasks_set_task)

lemma dist_bound: "r < MAX_TASK_COUNT \<Longrightarrow> t < MAX_TASK_COUNT \<Longrightarrow> r \<noteq> t \<Longrightarrow> dist r t * 43 \<le> 63 * 43"
  by (auto simp: dist_def MAX_TASK_COUNT_def)

lemma interrupt_progress:
  assumes ok: "running_ok (sys m)" and tick: "ticks_within lo (sys m)" and lo: "- (2 ^ 31) < lo" "lo \<le> 5"
    and t: "ready (sys m) t" "t < MAX_TASK_COUNT" and count: "1 \<le> task_count (sys m)"
  shows "\<exists>d m'. KnlTimerInterrupt ea x0 m = Some (d, m') \<and>
    running_ok (sys m') \<and> ticks_within (lo - 1) (sys m') \<and> ready (sys m') t \<and> 1 \<le> task_count (sys m') \<and>
    (d = UserTask t \<or> d = SystemCall t \<or> delay t m' < delay t m)"
proof (rule next_task_cases [OF ok tick lo], goal_cases)
  case n: (1 tid s')
  have live: "live_tid i s' \<and> running_tid s' = Some i" if "tid = Some i" for i
    using that n(4,6) live_ready by (auto simp: running_ok_def)
  obtain d m' where d: "KnlTimerInterrupt ea x0 m = Some (d, m')" and
    v: "if tid = None \<or> blocked m then d = KernelTask \<and> sched_view m' = (core s', 0, False)
     else (d = UserTask (the tid) \<or> d = SystemCall (the tid)) \<and>
       sched_view m' = (core (set_task (the tid) (\<lambda>t. t\<lparr>tk_ran := True\<rparr>) s'), counter m + 1, switch_to_kernel m)"
    using interrupt_step [OF n(1) live n(3)] by blast
  show ?case
  proof (cases "tid = None \<or> blocked m")
    case True
    then have k: "core (sys m') = core s'" "counter m' = 0" "\<not> switch_to_kernel m'" "d = KernelTask"
      using v by (simp_all add: sched_view_def)
    note c = core_eqD [OF k(1)] core_running [OF k(1)]
    have nb: "\<not> blocked m'"
      using k count n(3) c(2) by (simp add: blocked_def)
    have inv: "running_ok (sys m')" "ticks_within (lo - 1) (sys m')" "ready (sys m') t" "1 \<le> task_count (sys m')"
      using n(2,3,5,6) t(1) count c by simp_all
    have tk: "nat (max 1 (sint (tk_tick (tasks s' i)))) \<le> 40" if "tid = Some i" for i
      using n(2,4,5,6) that by (auto simp: running_ok_def ticks_within_def)
    have ds: "dist i t * 43 \<le> 63 * 43" if "tid = Some i" "i \<noteq> t" for i
      using that n(4,6) dist_bound [of i t] t(2) by (auto simp: running_ok_def)
    have dm': "delay t m' = (case tid of None \<Rightarrow> CYCLE + 1
      | Some r \<Rightarrow> if r = t then (if tk_ran (tasks s' r) then CYCLE + 3 else 0)
          else dist r t * 43 + (if tk_ran (tasks s' r) then nat (max 1 (sint (tk_tick (tasks s' r)))) else 41))"
      using nb by (simp add: delay_def c n(4) split: option.split)
    from n(7) have "delay t m' < delay t m"
    proof (elim disjE exE conjE, goal_cases)
      case 1
      obtain f where f: "tid = Some f"
        using 1(2) first_ready [OF t] by auto
      then have "delay t m = CYCLE + 5"
        using 1(1) True by (simp add: delay_def)
      then show ?case
        using f tk [OF f] ds [OF f] by (auto simp: dm' CYCLE_def)
    next
      case (2 r)
      have b: "blocked m"
        using True 2(2) by simp
      show ?case
        using 2 b unfolding dm' by (auto simp: delay_def [of t m])
    next
      case (3 r)
      show ?case
      proof (cases "r = t")
        case True
        then have "CYCLE + 3 \<le> delay t m"
          using 3 by (simp add: delay_def)
        moreover have "delay t m' \<le> CYCLE + 1"
          using 3 next_other_ready(3) [of r s'] next_other_ready(3) [of r "sys m"] ok True ds
          by (auto simp: dm' CYCLE_def running_ok_def split: option.split)
        ultimately show ?thesis
          by simp
      next
        case False
        then obtain i where i: "tid = Some i" "dist i t < dist r t"
          using next_other_dist [OF t, of r] ok 3 by (auto simp: running_ok_def)
        have "dist r t * 43 + 1 \<le> delay t m"
          using 3 False by (simp add: delay_def)
        moreover have "delay t m' \<le> dist i t * 43 + 41"
          using i 3 by (auto simp: dm')
        ultimately show ?thesis
          using i(2) by linarith
      qed
    qed
    then show ?thesis
      using d inv by blast
  next
    case False
    then obtain i where i: "tid = Some i" "\<not> blocked m"
      by (cases tid) auto
    then have k: "core (sys m') = core (set_task i (\<lambda>t. t\<lparr>tk_ran := True\<rparr>) s')" "d = UserTask i \<or> d = SystemCall i"
      using v by (simp_all add: sched_view_def)
    note c = core_eqD [OF k(1)] core_running [OF k(1)]
    have inv: "running_ok (sys m')" "ticks_within (lo - 1) (sys m')" "ready (sys m') t" "1 \<le> task_count (sys m')"
      using n(2,3,5,6) t(1) count c by (simp_all add: set_ran)
    have tk: "nat (max 1 (sint (tk_tick (tasks s' i)))) \<le> 40"
      using n(2,4,5,6) i(1) by (auto simp: running_ok_def ticks_within_def)
    have "delay t m' < delay t m" if ne: "i \<noteq> t"
    proof -
      have ds: "dist i t * 43 \<le> 63 * 43"
        using i(1) ne n(4,6) dist_bound [of i t] t(2) by (auto simp: running_ok_def)
      have dm': "delay t m' = dist i t * 43 + nat (max 1 (sint (tk_tick (tasks s' i))))"
        using ne by (simp add: delay_def c n(4) i(1) set_ran tick_set_ran)
      from n(7) show ?thesis
      proof (elim disjE exE conjE, goal_cases)
        case 1
        then show ?case
          using i(2) tk ds by (simp add: dm') (simp add: delay_def CYCLE_def)
      next
        case (2 r)
        have "r = i"
          using 2(2) i(1) by simp
        then show ?case
          using 2 i(2) tk ne by (simp add: dm') (auto simp: delay_def)
      next
        case (3 r)
        show ?case
        proof (cases "r = t")
          case True
          then show ?thesis
            using 3 i(2) tk ds by (simp add: dm') (simp add: delay_def CYCLE_def)
        next
          case False
          then have "dist i t < dist r t"
            using next_other_dist [OF t, of r] ok 3 i(1) by (auto simp: running_ok_def)
          moreover have "dist r t * 43 + 1 \<le> delay t m"
            using 3 False by (simp add: delay_def)
          ultimately show ?thesis
            using tk unfolding dm' by linarith
        qed
      qed
    qed
    then show ?thesis
      using d k(2) inv by blast
  qed
qed

section \<open>Runs\<close>

text \<open>A sequence of timer interrupts; before each of them the rest of the system does something.\<close>

fun interrupts ::
  "'a exc_addr_scheme \<Rightarrow> 'x \<Rightarrow> (('h, 'e, 'x, 'y) machine \<Rightarrow> ('h, 'e, 'x, 'y) machine) list \<Rightarrow> ('h, 'e, 'x, 'y) machine \<Rightarrow>
     (dispatch list \<times> ('h, 'e, 'x, 'y) machine) option" where
  "interrupts ea x0 [] m = Some ([], m)"
| "interrupts ea x0 (e # es) m = do {
     (d, m) \<leftarrow> KnlTimerInterrupt ea x0 (e m);
     (ds, m) \<leftarrow> interrupts ea x0 es m;
     Some (d # ds, m) }"

definition runs :: "nat \<Rightarrow> dispatch list \<Rightarrow> bool" where
  "runs t ds \<longleftrightarrow> UserTask t \<in> set ds \<or> SystemCall t \<in> set ds"

lemma interrupts_progress:
  assumes "running_ok (sys m)" "ticks_within lo (sys m)" "- (2 ^ 31) + int (length es) \<le> lo" "lo \<le> 5"
    and "ready (sys m) t" "t < MAX_TASK_COUNT" "1 \<le> task_count (sys m)"
    and "\<forall>e \<in> set es. \<forall>m. sched_view (e m) = sched_view m"
  shows "\<exists>ds m'. interrupts ea x0 es m = Some (ds, m') \<and> (delay t m < length es \<longrightarrow> runs t ds)"
  using assms
proof (induction es arbitrary: m lo)
  case (Cons e es)
  have v: "sched_view (e m) = sched_view m"
    using Cons.prems(8) by simp
  note c = core_eqD [OF sched_view_eqD(1) [OF v]]
  obtain d m' where d: "KnlTimerInterrupt ea x0 (e m) = Some (d, m')" "running_ok (sys m')" "ticks_within (lo - 1) (sys m')"
      "ready (sys m') t" "1 \<le> task_count (sys m')" "d = UserTask t \<or> d = SystemCall t \<or> delay t m' < delay t (e m)"
    using interrupt_progress [of "e m" lo t ea x0] Cons.prems c delay_view [OF v] by auto
  obtain ds m'' where "interrupts ea x0 es m' = Some (ds, m'')" "delay t m' < length es \<longrightarrow> runs t ds"
    using Cons.IH [OF d(2,3) _ _ d(4) Cons.prems(6) d(5)] Cons.prems by auto
  then show ?case
    using d delay_view(1) [OF v, of t] by (auto simp: runs_def)
qed simp

end
