(* ===== verification/Task_Proofs.thy ===== *)
theory Task_Proofs
  imports Task_Memory Paging_Proofs Ifs1_Blocks_Proofs
begin

text \<open>
  Properties of task creation and task memory: the address space of a new task, blocks given to a
  task, and the isolation of the tasks' memory from each other.
\<close>

section \<open>Address spaces\<close>

definition page_table :: "'h os \<Rightarrow> nat \<Rightarrow> pt" where
  "page_table s i = pts s (tk_real_pagedt_addr (tasks s i))"

text \<open>What the processor makes of \<open>la\<close> while task \<open>i\<close> runs.\<close>

definition task_walk :: "'h os \<Rightarrow> nat \<Rightarrow> u32 \<Rightarrow> (u32 \<times> bool) option" where
  "task_walk s i = page_walk (tk_real_pagedt_addr (tasks s i)) (page_table s i)"

lemma map_task_walk:
  assumes ok: "tables_ok cr3 t" and empty: "\<And>la. page_walk cr3 t la = None"
    and addr: "addr AND 0xfff = 0" and len: "len \<noteq> 0" "unat len \<le> 0x2000000"
  shows "tables_ok cr3 (map_task len addr t)"
    "page_walk cr3 (map_task len addr t) la =
      (if la < 0x1000000 then Some (la, False)
       else if in_pages 0x1000000 4096 la then Some (addr + (la - 0x1000000), False)
       else if in_pages 0x1000000 len la then Some (addr + (la - 0x1000000), True) else None)"
proof -
  define t1 where "t1 = snd (PgMapUserPageTableWithPermission 0x00000000 0x01000000 0x00000000 RW_RE t)"
  define t2 where "t2 = snd (PgMapUserPageTableWithPermission 0x01000000 len addr RW_RWE t1)"
  have t3: "map_task len addr t = snd (PgMapUserPageTableWithPermission 0x01000000 4096 addr RW_RE t2)"
    by (simp add: map_task_def t1_def t2_def Let_def)
  have 1: "tables_ok cr3 t1" "page_walk cr3 t1 la = (if in_pages 0 0x01000000 la then Some (la, False) else None)" for la
    using map_translates [OF ok, of 0 0 "0x01000000" RW_RE] empty by (auto simp: t1_def RW_RE_def RW_RWE_def)
  have 2: "tables_ok cr3 t2" "page_walk cr3 t2 la = (if in_pages 0x01000000 len la then Some (addr + (la - 0x01000000), True) else page_walk cr3 t1 la)" for la
    using map_translates [OF 1(1), of "0x01000000" addr len RW_RWE] addr len by (auto simp: t2_def RW_RE_def RW_RWE_def)
  have 3: "tables_ok cr3 (map_task len addr t)"
    "page_walk cr3 (map_task len addr t) la = (if in_pages 0x01000000 4096 la then Some (addr + (la - 0x01000000), False) else page_walk cr3 t2 la)" for la
    using map_translates [OF 2(1), of "0x01000000" addr 4096 RW_RE] addr by (auto simp: t3 RW_RE_def RW_RWE_def)
  have z: "in_pages 0 0x01000000 la \<longleftrightarrow> la < 0x1000000" for la :: u32
    by (simp add: in_pages_def page_count word_less_nat_alt)
  have n: "in_pages 0x01000000 k la \<Longrightarrow> \<not> la < 0x1000000" for la k :: u32
    by (auto simp: in_pages_def word_less_nat_alt)
  show "tables_ok cr3 (map_task len addr t)"
    by (rule 3)
  show "page_walk cr3 (map_task len addr t) la =
      (if la < 0x1000000 then Some (la, False)
       else if in_pages 0x1000000 4096 la then Some (addr + (la - 0x1000000), False)
       else if in_pages 0x1000000 len la then Some (addr + (la - 0x1000000), True) else None)"
    using n [of 4096 la] n [of len la] by (auto simp: 3 2 1 z)
qed

section \<open>Creating a task\<close>

lemma set_desc_frame [simp]:
  "pg_mem (KnlSetDescToGDT i d s) = pg_mem s" "pts (KnlSetDescToGDT i d s) = pts s" "ram (KnlSetDescToGDT i d s) = ram s"
  "tasks (KnlSetDescToGDT i d s) = tasks s" "task_count (KnlSetDescToGDT i d s) = task_count s"
  "running_tid (KnlSetDescToGDT i d s) = running_tid s" "scall_stacks (KnlSetDescToGDT i d s) = scall_stacks s"
  by (simp_all add: KnlSetDescToGDT_def)

lemma set_segments_frame [simp]:
  "pg_mem (set_segments tid ty s) = pg_mem s" "pts (set_segments tid ty s) = pts s" "ram (set_segments tid ty s) = ram s"
  "tasks (set_segments tid ty s) = tasks s" "task_count (set_segments tid ty s) = task_count s"
  "running_tid (set_segments tid ty s) = running_tid s" "scall_stacks (set_segments tid ty s) = scall_stacks s"
  by (simp_all add: set_segments_def Let_def)

lemma set_task_simps [simp]:
  "pg_mem (set_task i g s) = pg_mem s" "pts (set_task i g s) = pts s" "ram (set_task i g s) = ram s"
  "tasks (set_task i g s) = (tasks s)(i := g (tasks s i))" "task_count (set_task i g s) = task_count s"
  "running_tid (set_task i g s) = running_tid s" "scall_stacks (set_task i g s) = scall_stacks s"
  by (simp_all add: set_task_def)

lemma reset_system_call:
  assumes "KnlResetSystemCall ka tid s = Some (ok, s')" "tid < MAX_TASK_COUNT"
  shows "\<exists>stack. MemAlloc_logged SYSCALL_PROCEDURE_STACK_SIZE (pg_mem s) = Some (stack, pg_mem s') \<and> (ok \<longleftrightarrow> stack \<noteq> 0) \<and>
    pts s' = pts s \<and> ram s' = ram s \<and> tasks s' = tasks s \<and> task_count s' = task_count s \<and> running_tid s' = running_tid s \<and>
    (ok \<longrightarrow> scall_stacks s' tid = stack)"
  using assms by (auto simp: KnlResetSystemCall_def os_alloc_def Option.bind_eq_Some_conv Let_def split: if_splits)

lemma create_empty_steps:
  assumes "PgCreateEmptyUserPageTable s = Some (r, s')"
  shows "\<exists>p m. MemAlloc_logged PAGEDT_SIZE (pg_mem s) = Some (p, m) \<and>
    (if p = 0 then r = None \<and> s' = s\<lparr>pg_mem := m\<rparr>
     else let cr3 = p + (4096 - p mod 4096) in
       r = Some (p, cr3) \<and> s' = s\<lparr>pg_mem := m, pts := (pts s)(cr3 := fill_tables cr3 P_INVALID (pts s cr3))\<rparr>)"
  using assms by (auto simp: PgCreateEmptyUserPageTable_def Option.bind_eq_Some_conv Let_def split: if_splits)

definition new_task :: "nat \<Rightarrow> string \<Rightarrow> string \<Rightarrow> u32 \<Rightarrow> string \<Rightarrow> u32 \<Rightarrow> u32 \<Rightarrow> u32 \<Rightarrow> u32 \<Rightarrow> task \<Rightarrow> task" where
  "new_task tid name param app_len working_dir ty addr p cr3 t =
     (reset_task name param app_len working_dir ty t)
       \<lparr>tk_addr := addr, tk_used_memory_size := TASK_SPACE + app_len,
        tk_opened_file_ptrs := replicate MAX_TASK_OPENED_FILE_COUNT None,
        tk_memory_block_ptrs := replicate MAX_TASK_MEMORY_BLOCK_COUNT 0,
        tk_mqueue_ids := replicate MAX_TASK_MQUEUE_COUNT None,
        tk_pagedt_addr := p, tk_real_pagedt_addr := cr3, tk_tss := (task_tss tid ty)\<lparr>tss_cr3 := cr3\<rparr>, tk_init_i387 := False, tk_ran := False, tk_ready := False\<rparr>"

lemma create_task_steps:
  assumes "TskmgrCreateTask_u ka name param app app_len working_dir ty s = Some (Some tid, s')"
  obtains stack addr p m1 m2 m3 where
    "ty = TASK_TYPE_USER \<or> ty = TASK_TYPE_SYSTEM" "app_len \<le> MAX_APP_LEN"
    "tid < MAX_TASK_COUNT" "\<not> tk_used (tasks s tid)"
    "MemAlloc_logged SYSCALL_PROCEDURE_STACK_SIZE (pg_mem s) = Some (stack, m1)" "stack \<noteq> 0"
    "MemAlloc_logged (TASK_SPACE + app_len) m1 = Some (addr, m2)" "addr \<noteq> 0"
    "MemAlloc_logged PAGEDT_SIZE m2 = Some (p, m3)" "p \<noteq> 0" "pg_mem s' = m3"
    "pts s' = (let cr3 = p + (4096 - p mod 4096) in
       (pts s)(cr3 := map_task (TASK_SPACE + app_len) addr (fill_tables cr3 P_INVALID (pts s cr3))))"
    "tasks s' = (tasks s)(tid := new_task tid name param app_len working_dir ty addr p (p + (4096 - p mod 4096)) (tasks s tid))"
    "ram s' = ram_put (addr + 4) (replicate 4 0) (ram_put addr (map (byte32 (of_nat tid)) [0..<4])
       (ram_put (addr + TASK_SPACE) app (MemClear addr 0 (TASK_SPACE + app_len) (ram s))))"
    "task_count s' = task_count s + 1" "running_tid s' = running_tid s"
proof -
  from assms have ty: "ty = TASK_TYPE_USER \<or> ty = TASK_TYPE_SYSTEM" and len: "app_len \<le> MAX_APP_LEN"
    by (auto simp: TskmgrCreateTask_u_def split: if_splits)
  then have ty': "\<not> (ty \<noteq> TASK_TYPE_USER \<and> ty \<noteq> TASK_TYPE_SYSTEM)" and len': "\<not> app_len > MAX_APP_LEN"
    by auto
  note a1 = assms [unfolded TskmgrCreateTask_u_def if_not_P [OF ty'] if_not_P [OF len']]
  obtain i where i: "first_index (\<lambda>ui. \<not> tk_used (tasks s ui) \<and> tk_allocable (tasks s ui)) 0 MAX_TASK_COUNT = Some i"
    using a1 by (auto split: option.splits)
  note a2 = a1 [unfolded i option.case]
  have it: "i < MAX_TASK_COUNT" "\<not> tk_used (tasks s i)"
    using first_index_SomeD [OF i] by auto
  show thesis
    using a2
  proof (clarsimp simp: Option.bind_eq_Some_conv Let_def split: if_splits, goal_cases)
    case (1 d _ s1 addr s2 r s3)
    define cr3 where "cr3 = (\<lambda>p :: u32. p + (4096 - p mod 4096))"
    obtain stack where st: "MemAlloc_logged SYSCALL_PROCEDURE_STACK_SIZE (pg_mem s) = Some (stack, pg_mem s1)" "stack \<noteq> 0"
        "pts s1 = pts s" "ram s1 = ram s" "tasks s1 = tasks s" "task_count s1 = task_count s" "running_tid s1 = running_tid s"
      using reset_system_call [OF 1(3) it(1)] by auto
    obtain m where al: "MemAlloc_logged (TASK_SPACE + app_len) (pg_mem s1) = Some (addr, m)"
        "s2 = (set_task i (reset_task name param app_len working_dir ty) s1)\<lparr>pg_mem := m\<rparr>"
      using 1(5) by (auto simp: os_alloc_def Option.bind_eq_Some_conv)
    have "r \<noteq> None"
      using 1(7) by (cases r) (auto simp: Option.bind_eq_Some_conv Let_def)
    then obtain p where p: "r = Some (p, cr3 p)"
      using create_empty_steps [OF 1(6)] by (auto simp: Let_def cr3_def split: if_splits)
    obtain m' where pd: "MemAlloc_logged PAGEDT_SIZE m = Some (p, m')" "p \<noteq> 0" "pg_mem s3 = m'"
        "pts s3 = (pts s)(cr3 p := fill_tables (cr3 p) P_INVALID (pts s (cr3 p)))"
        "tasks s3 = (tasks s)(i := (reset_task name param app_len working_dir ty (tasks s i))
          \<lparr>tk_addr := addr, tk_used_memory_size := TASK_SPACE + app_len, tk_opened_file_ptrs := replicate MAX_TASK_OPENED_FILE_COUNT None,
           tk_memory_block_ptrs := replicate MAX_TASK_MEMORY_BLOCK_COUNT 0, tk_mqueue_ids := replicate MAX_TASK_MQUEUE_COUNT None,
           tk_tss := task_tss i ty\<rparr>)"
        "task_count s3 = task_count s" "running_tid s3 = running_tid s"
        "ram s3 = ram_put (addr + 4) (replicate 4 0) (ram_put addr (map (byte32 (of_nat i)) [0..<4])
          (ram_put (addr + TASK_SPACE) app (MemClear addr 0 (TASK_SPACE + app_len) (ram s))))"
      using create_empty_steps [OF 1(6)] st(3-) p by (auto simp: Let_def cr3_def al(2) split: if_splits)
    have s': "tid = i" "s' = (set_task i (\<lambda>t. t\<lparr>tk_pagedt_addr := p, tk_real_pagedt_addr := cr3 p, tk_tss := (tk_tss t)\<lparr>tss_cr3 := cr3 p\<rparr>,
         tk_init_i387 := False, tk_ran := False, tk_ready := False\<rparr>)
        (s3\<lparr>pts := (pts s3)(cr3 p := map_task (TASK_SPACE + app_len) addr (pts s3 (cr3 p)))\<rparr>))\<lparr>task_count := task_count s3 + 1\<rparr>"
      using 1(7) by (auto simp: p Let_def)
    show ?case
      using ty len it st al(1) 1(4) pd
      by (intro that [of stack "pg_mem s1" addr m p m']) (simp_all add: s' Let_def cr3_def new_task_def)
  qed
qed

lemma page_count_align:
  assumes "unat len \<le> 0xFFFFF000"
  shows "page_count len * 4096 = unat (MemAlign4KB len)"
proof -
  obtain k where k: "unat (MemAlign4KB len) = 4096 * k"
    using MemAlign4KB_spec(1) [OF assms] by (auto elim: dvdE)
  then have "unat len \<le> 4096 * k" "4096 * k < unat len + 4096"
    using MemAlign4KB_spec(2,3) [OF assms] by simp_all
  then have "(unat len + 4095) div 4096 = k"
    by (intro div_nat_eqI) simp_all
  then show ?thesis
    by (simp add: page_count k)
qed

lemma in_pages_aligned: "unat len \<le> 0xFFFFF000 \<Longrightarrow>
  in_pages start len la \<longleftrightarrow> unat start \<le> unat la \<and> unat la < unat start + unat (MemAlign4KB len)"
  by (simp add: in_pages_def page_count_align)

text \<open>The block at \<open>p\<close> is what an allocation adds.\<close>

definition fresh_block :: "u32 \<Rightarrow> u32 \<Rightarrow> mem_state \<Rightarrow> mem_state \<Rightarrow> bool" where
  "fresh_block p n m m' \<longleftrightarrow> 4096 dvd unat p \<and> unat p + unat (MemAlign4KB n) \<le> 2 ^ 32 \<and> mem_base \<le> unat p \<and>
     (\<forall>b \<in> live_blocks m. disj (unat p, unat (MemAlign4KB n)) b) \<and>
     live_blocks m' = insert (unat p, unat (MemAlign4KB n)) (live_blocks m)"

definition mem_fine :: "mem_state \<Rightarrow> bool" where
  "mem_fine m \<longleftrightarrow> (\<exists>hi F U. mem_inv hi m F U)"

lemma alloc_fresh:
  assumes "mem_fine m" "mem_legal n" "MemAlloc_logged n m = Some (p, m')"
  shows "mem_fine m'" "p \<noteq> 0 \<Longrightarrow> fresh_block p n m m'" "p = 0 \<Longrightarrow> live_blocks m' = live_blocks m"
proof -
  obtain hi F U where inv: "mem_inv hi m F U"
    using assms(1) by (auto simp: mem_fine_def)
  obtain r s' where r: "MemAlloc_logged n m = Some (r, s')" and i: "\<exists>F' U'. mem_inv hi s' F' U'" and
    "if r = 0 then live_blocks s' = live_blocks m
     else block_ok hi (unat r, unat (MemAlign4KB n)) \<and> (\<forall>b \<in> live_blocks m. disj (unat r, unat (MemAlign4KB n)) b) \<and>
       live_blocks s' = insert (unat r, unat (MemAlign4KB n)) (live_blocks m)"
    using alloc_logged_live [OF inv assms(2)] by blast
  moreover have "hi \<le> 2 ^ 32"
    using inv by (simp add: mem_inv_def)
  ultimately show "mem_fine m'" "p \<noteq> 0 \<Longrightarrow> fresh_block p n m m'" "p = 0 \<Longrightarrow> live_blocks m' = live_blocks m"
    using assms(3) by (auto simp: mem_fine_def fresh_block_def block_ok_def)
qed

lemma ram_put_at: "i < length bs \<Longrightarrow> length bs \<le> 2 ^ 32 \<Longrightarrow> ram_put a bs m (a + of_nat i) = bs ! i"
  by (simp add: ram_put_def unat_of_nat32)

lemma ram_put_other: "length bs \<le> unat (x - a) \<Longrightarrow> ram_put a bs m x = m x"
  by (simp add: ram_put_def)

lemma task_length:
  assumes "app_len \<le> MAX_APP_LEN"
  shows "unat (TASK_SPACE + app_len) = 3145728 + unat app_len" "unat (TASK_SPACE + app_len) \<le> 0x2000000"
    "TASK_SPACE + app_len \<noteq> 0" "mem_legal (TASK_SPACE + app_len)"
proof -
  have a: "unat app_len \<le> 16777216"
    using assms by (simp add: word_le_nat_alt MAX_APP_LEN_def)
  then show u: "unat (TASK_SPACE + app_len) = 3145728 + unat app_len"
    by (subst unat_plus_if_lt) (simp_all add: TASK_SPACE_def)
  with a show "unat (TASK_SPACE + app_len) \<le> 0x2000000" "TASK_SPACE + app_len \<noteq> 0" "mem_legal (TASK_SPACE + app_len)"
    by (auto simp: mem_legal_def word_less_nat_alt simp del: word_greater_zero_iff)
qed

lemma fixed_legal: "mem_legal SYSCALL_PROCEDURE_STACK_SIZE" "mem_legal PAGEDT_SIZE"
  by (simp_all add: mem_legal_def SYSCALL_PROCEDURE_STACK_SIZE_def PAGEDT_SIZE_def)

lemma aligned_cr3: "4096 dvd unat (p :: u32) \<Longrightarrow> p + (4096 - p mod 4096) = p + 4096"
  using aligned_dvd [of p] by (simp add: and_lo)

lemma create_task_memory:
  assumes fine: "mem_fine (pg_mem s)"
    and cr: "TskmgrCreateTask_u ka name param app app_len working_dir ty s = Some (Some tid, s')"
  obtains stack addr p m1 m2 where
    "tid < MAX_TASK_COUNT" "\<not> tk_used (tasks s tid)" "app_len \<le> MAX_APP_LEN" "mem_fine (pg_mem s')"
    "fresh_block stack SYSCALL_PROCEDURE_STACK_SIZE (pg_mem s) m1" "fresh_block addr (TASK_SPACE + app_len) m1 m2"
    "fresh_block p PAGEDT_SIZE m2 (pg_mem s')"
    "tasks s' = (tasks s)(tid := new_task tid name param app_len working_dir ty addr p (p + 4096) (tasks s tid))"
    "\<And>c. c \<noteq> p + 4096 \<Longrightarrow> pts s' c = pts s c" "tables_ok (p + 4096) (pts s' (p + 4096))"
    "\<And>la. task_walk s' tid la = (if la < 0x1000000 then Some (la, False)
       else if la < 0x1001000 then Some (addr + (la - 0x1000000), False)
       else if unat la < 0x1000000 + unat (MemAlign4KB (TASK_SPACE + app_len)) then Some (addr + (la - 0x1000000), True) else None)"
    "ram s' = ram_put (addr + 4) (replicate 4 0) (ram_put addr (map (byte32 (of_nat tid)) [0..<4])
       (ram_put (addr + TASK_SPACE) app (MemClear addr 0 (TASK_SPACE + app_len) (ram s))))"
proof (rule create_task_steps [OF cr], goal_cases)
  case (1 stack addr p m1 m2 m3)
  let ?n = "TASK_SPACE + app_len"
  note len = task_length [OF 1(3)]
  note f1 = alloc_fresh [OF fine fixed_legal(1) 1(6)]
  note f2 = alloc_fresh [OF f1(1) len(4) 1(8)]
  note f3 = alloc_fresh [OF f2(1) fixed_legal(2) 1(10)]
  have p: "4096 dvd unat p" "unat p + 4206592 \<le> 2 ^ 32"
    using f3(2) 1(11) by (simp_all add: fresh_block_def PAGEDT_SIZE_def MemAlign4KB_def)
  note c = aligned_cr3 [OF p(1)]
  have "unat (p + 4096) = unat p + 4096"
    using p(2) by (subst unat_plus_if_lt) simp_all
  then have al: "(p + 4096) AND 0xfff = 0"
    using p(1) by (simp add: aligned_dvd)
  have "addr AND 0xfff = 0"
    using f2(2) 1(9) by (simp add: fresh_block_def aligned_dvd)
  note mp = map_task_walk [OF fill_tables_ok [OF al, of P_INVALID "pts s (p + 4096)"] fill_tables_empty [OF al] this len(3,2)]
  have t: "tk_real_pagedt_addr (tasks s' tid) = p + 4096"
    by (simp add: 1(14) c new_task_def)
  have w: "task_walk s' tid la = (if la < 0x1000000 then Some (la, False)
       else if la < 0x1001000 then Some (addr + (la - 0x1000000), False)
       else if unat la < 0x1000000 + unat (MemAlign4KB ?n) then Some (addr + (la - 0x1000000), True) else None)" for la
  proof -
    have "in_pages 0x1000000 4096 la \<longleftrightarrow> \<not> la < 0x1000000 \<and> la < 0x1001000"
      by (auto simp: in_pages_def page_count word_less_nat_alt)
    moreover have "in_pages 0x1000000 ?n la \<longleftrightarrow> \<not> la < 0x1000000 \<and> unat la < 0x1000000 + unat (MemAlign4KB ?n)"
      using len(2) by (subst in_pages_aligned) (auto simp: word_less_nat_alt)
    ultimately show ?thesis
      by (auto simp: task_walk_def page_table_def t 1(13) c mp(2) Let_def)
  qed
  show ?case
    using f1 f2 f3 1(2-) mp(1) w
    by (intro that [of stack m1 addr m2 p]) (simp_all add: c Let_def)
qed

text \<open>C6: A task that \<open>_TskmgrCreateTask\<close> creates gets memory of its own, disjoint from everything that
  was allocated before.  Its address space is: the first 16 MB as they are and read-only, then its
  memory from 0x1000000, of which the first page is read-only and holds the task id, and nothing
  else.  The program is at 0x1300000.\<close>

theorem create_task_address_space:
  assumes "mem_fine (pg_mem s)"
    and "TskmgrCreateTask_u ka name param app app_len working_dir ty s = Some (Some tid, s')" "length app = unat app_len"
  shows "\<exists>addr. let size = unat (MemAlign4KB (TASK_SPACE + app_len)) in
    tid < MAX_TASK_COUNT \<and> \<not> tk_used (tasks s tid) \<and> tk_used (tasks s' tid) \<and> \<not> tk_ready (tasks s' tid) \<and>
    (unat addr, size) \<in> live_blocks (pg_mem s') \<and> (\<forall>b \<in> live_blocks (pg_mem s). disj (unat addr, size) b) \<and>
    (\<forall>la. task_walk s' tid la = (if la < 0x1000000 then Some (la, False)
       else if la < 0x1001000 then Some (addr + (la - 0x1000000), False)
       else if unat la < 0x1000000 + size then Some (addr + (la - 0x1000000), True) else None)) \<and>
    (\<forall>i < 4. ram s' (addr + of_nat i) = byte32 (of_nat tid) i) \<and>
    (\<forall>i < length app. ram s' (addr + TASK_SPACE + of_nat i) = app ! i)"
proof (rule create_task_memory [OF assms(1,2)], goal_cases)
  case (1 stack addr p m1 m2)
  note len = task_length [OF 1(3)]
  have app: "length app \<le> 16777216"
    using 1(3) assms(3) by (simp add: word_le_nat_alt MAX_APP_LEN_def)
  have "ram s' (addr + of_nat i) = byte32 (of_nat tid) i" if "i < 4" for i
  proof -
    have "i = 0 \<or> i = 1 \<or> i = 2 \<or> i = 3"
      using that by linarith
    then have "4 \<le> unat (addr + of_nat i - (addr + 4))"
      by (elim disjE) (simp_all add: unsigned_minus_1_eq_mask mask_eq_exp_minus_1)
    then show ?thesis
      using that ram_put_at [of i "map (byte32 (of_nat tid)) [0..<4]" addr] by (simp add: 1(12) ram_put_other)
  qed
  moreover have "ram s' (addr + TASK_SPACE + of_nat i) = app ! i" if "i < length app" for i
  proof -
    have i: "i < 16777216"
      using that app by simp
    have a: "unat (TASK_SPACE + of_nat i) = 3145728 + i" "unat (TASK_SPACE + of_nat i - 4) = 3145724 + i"
    proof -
      have "TASK_SPACE + of_nat i = of_nat (3145728 + i)"
        by (simp add: TASK_SPACE_def)
      then show "unat (TASK_SPACE + of_nat i) = 3145728 + i"
        using i unat_of_nat32 [of "3145728 + i"] by (simp del: of_nat_add)
      have "TASK_SPACE + of_nat i - 4 = of_nat (3145724 + i)"
        by (simp add: TASK_SPACE_def)
      then show "unat (TASK_SPACE + of_nat i - 4) = 3145724 + i"
        using i unat_of_nat32 [of "3145724 + i"] by (simp del: of_nat_add)
    qed
    have e: "addr + TASK_SPACE + of_nat i - addr = TASK_SPACE + of_nat i" "addr + TASK_SPACE + of_nat i - (addr + 4) = TASK_SPACE + of_nat i - 4"
      by simp_all
    have d: "4 \<le> unat (addr + TASK_SPACE + of_nat i - addr)" "4 \<le> unat (addr + TASK_SPACE + of_nat i - (addr + 4))"
      unfolding e a by simp_all
    have "ram_put (addr + 4) (replicate 4 0) m (addr + TASK_SPACE + of_nat i) = m (addr + TASK_SPACE + of_nat i)" for m
      by (rule ram_put_other) (use d(2) in \<open>simp only: length_replicate\<close>)
    moreover have "ram_put addr (map (byte32 (of_nat tid)) [0..<4]) m (addr + TASK_SPACE + of_nat i) = m (addr + TASK_SPACE + of_nat i)" for m
      by (rule ram_put_other) (use d(1) in \<open>simp only: length_map length_upt diff_zero\<close>)
    ultimately have "ram s' (addr + TASK_SPACE + of_nat i) = ram_put (addr + TASK_SPACE) app (MemClear addr 0 (TASK_SPACE + app_len) (ram s)) (addr + TASK_SPACE + of_nat i)"
      by (simp only: 1(12))
    then show ?thesis
      using that app ram_put_at [of i app "addr + TASK_SPACE"] by simp
  qed
  ultimately show ?case
    using 1 by (intro exI [of _ addr]) (auto simp: fresh_block_def Let_def new_task_def reset_task_def)
qed

section \<open>Blocks for a task\<close>

lemma pte_walk: "tables_ok cr3 t \<Longrightarrow> page_walk cr3 t 0 = Some (0, False) \<Longrightarrow> pte t 0 AND 1 \<noteq> 0"
  by (auto simp: page_walk_entry entry_def split: if_splits)

lemma alloc_memory:
  assumes fine: "mem_fine (pg_mem s)" and live: "live_tid tid s"
    and ok: "tables_ok (tk_real_pagedt_addr (tasks s tid)) (page_table s tid)" "task_walk s tid 0 = Some (0, False)"
    and len: "mem_legal len"
  obtains s' where "TaskmgrAllocMemory tid len s = Some (0, None, s')" "mem_fine (pg_mem s')" "tasks s' = tasks s" "pts s' = pts s"
      "live_blocks (pg_mem s') = live_blocks (pg_mem s)"
  | start ptr s' ui where "TaskmgrAllocMemory tid len s = Some (start, Some ptr, s')" "mem_fine (pg_mem s')"
      "fresh_block ptr len (pg_mem s) (pg_mem s')" "ui < MAX_TASK_MEMORY_BLOCK_COUNT" "tk_memory_block_ptrs (tasks s tid) ! ui = 0"
      "tasks s' = (tasks s)(tid := (tasks s tid)\<lparr>tk_memory_block_ptrs := (tk_memory_block_ptrs (tasks s tid))[ui := ptr],
         tk_used_memory_size := tk_used_memory_size (tasks s tid) + MemAlign4KB len\<rparr>)"
      "start AND 0xfff = 0" "start \<noteq> 0" "unat start + unat len \<le> 2 ^ 32" "\<And>la. in_pages start len la \<Longrightarrow> task_walk s tid la = None"
      "tables_ok (tk_real_pagedt_addr (tasks s tid)) (page_table s' tid)"
      "\<And>la. task_walk s' tid la = (if in_pages start len la then Some (ptr + (la - start), True) else task_walk s tid la)"
      "\<And>c. c \<noteq> tk_real_pagedt_addr (tasks s tid) \<Longrightarrow> pts s' c = pts s c"
proof -
  let ?cr3 = "tk_real_pagedt_addr (tasks s tid)"
  have g: "TskmgrGetTaskInfoPtr tid s = Some tid"
    using live by (simp add: TskmgrGetTaskInfoPtr_def)
  have n: "len \<noteq> 0"
    using len by (auto simp: mem_legal_def)
  have z: "pte (pts s ?cr3) 0 AND 1 \<noteq> 0"
    using pte_walk [OF ok(1)] ok(2) by (simp add: task_walk_def page_table_def)
  consider "free_block_slot (tasks s tid) = None \<or> PgFindFreePages len (pts s ?cr3) = None"
    | ui start where "free_block_slot (tasks s tid) = Some ui" "PgFindFreePages len (pts s ?cr3) = Some start"
    by (cases "free_block_slot (tasks s tid)"; cases "PgFindFreePages len (pts s ?cr3)") auto
  then show thesis
  proof cases
    case 1
    then have "TaskmgrAllocMemory tid len s = Some (0, None, s)"
      by (auto simp: TaskmgrAllocMemory_def g Let_def split: option.split)
    then show thesis
      using that(1) fine by blast
  next
    case (2 ui start)
    obtain ptr m where m: "MemAlloc_logged len (pg_mem s) = Some (ptr, m)"
      using fine alloc_logged_live [OF _ len] by (auto simp: mem_fine_def) blast
    note f = alloc_fresh [OF fine len m]
    note e = TaskmgrAllocMemory_def [of tid len s, unfolded g option.case Let_def 2 prod.case os_alloc_def m bind.bind_lunit]
    show thesis
    proof (cases "ptr = 0")
      case True
      then show thesis
        using that(1) [of "s\<lparr>pg_mem := m\<rparr>"] e f by simp
    next
      case False
      note fp = found_pages [OF z n 2(2) ok(1) [unfolded page_table_def]]
      have "ptr AND 0xfff = 0"
        using f(2) False by (simp add: fresh_block_def aligned_dvd)
      from map_translates [OF ok(1) [unfolded page_table_def] fp(1) this n fp(3), of RW_RWE]
      have mp: "tables_ok ?cr3 (snd (PgMapUserPageTableWithPermission start len ptr RW_RWE (pts s ?cr3)))"
          "\<And>la. page_walk ?cr3 (snd (PgMapUserPageTableWithPermission start len ptr RW_RWE (pts s ?cr3))) la =
             (if in_pages start len la then Some (ptr + (la - start), True) else page_walk ?cr3 (pts s ?cr3) la)"
        by auto
      have ui: "ui < MAX_TASK_MEMORY_BLOCK_COUNT" "tk_memory_block_ptrs (tasks s tid) ! ui = 0"
        using first_index_SomeD [OF 2(1) [unfolded free_block_slot_def]] by auto
      define s2 where "s2 = set_task tid (\<lambda>t. t\<lparr>tk_memory_block_ptrs := (tk_memory_block_ptrs t)[ui := ptr],
          tk_used_memory_size := tk_used_memory_size t + MemAlign4KB len\<rparr>)
        (s\<lparr>pg_mem := m, pts := (pts s)(?cr3 := snd (PgMapUserPageTableWithPermission start len ptr RW_RWE (pts s ?cr3)))\<rparr>)"
      show thesis
      proof (rule that(2) [of start ptr s2 ui])
        show "TaskmgrAllocMemory tid len s = Some (start, Some ptr, s2)"
          using e False by (simp add: s2_def)
      qed (use False f ui fp mp in \<open>simp_all add: task_walk_def page_table_def s2_def\<close>)
    qed
  qed
qed

section \<open>Isolation\<close>

text \<open>The blocks a task can reach are its own memory and those in \<open>memory_block_ptrs\<close>.\<close>

definition owned :: "task \<Rightarrow> u32 set" where
  "owned t = {p. p \<noteq> 0 \<and> (p = tk_addr t \<or> p \<in> set (tk_memory_block_ptrs t))}"

definition in_block :: "u32 \<Rightarrow> block \<Rightarrow> bool" where
  "in_block pa b \<longleftrightarrow> fst b \<le> unat pa \<and> unat pa < fst b + snd b"

text \<open>A task sees the kernel's 16 MB read-only, and above them only blocks that it owns.\<close>

definition task_iso :: "'h os \<Rightarrow> nat \<Rightarrow> bool" where
  "task_iso s i \<longleftrightarrow> live_tid i s \<and>
     tk_real_pagedt_addr (tasks s i) = tk_pagedt_addr (tasks s i) + 4096 \<and>
     (unat (tk_pagedt_addr (tasks s i)), 4206592) \<in> live_blocks (pg_mem s) \<and>
     tables_ok (tk_real_pagedt_addr (tasks s i)) (page_table s i) \<and>
     length (tk_memory_block_ptrs (tasks s i)) = MAX_TASK_MEMORY_BLOCK_COUNT \<and>
     (\<forall>p \<in> owned (tasks s i). \<exists>l. (unat p, l) \<in> live_blocks (pg_mem s)) \<and>
     (\<forall>la pa w. task_walk s i la = Some (pa, w) \<longrightarrow> 0x1000000 \<le> la \<longrightarrow>
        (\<exists>p \<in> owned (tasks s i). \<exists>l. (unat p, l) \<in> live_blocks (pg_mem s) \<and> in_block pa (unat p, l))) \<and>
     (\<forall>la < 0x1000000. task_walk s i la = Some (la, False))"

definition isolated :: "nat set \<Rightarrow> 'h os \<Rightarrow> bool" where
  "isolated T s \<longleftrightarrow> mem_fine (pg_mem s) \<and> (\<forall>i \<in> T. task_iso s i) \<and>
     (\<forall>i \<in> T. \<forall>j \<in> T. i \<noteq> j \<longrightarrow> owned (tasks s i) \<inter> owned (tasks s j) = {} \<and> tk_pagedt_addr (tasks s i) \<noteq> tk_pagedt_addr (tasks s j))"

lemma live_size: "mem_fine m \<Longrightarrow> b \<in> live_blocks m \<Longrightarrow> 0 < snd b"
proof -
  assume "mem_fine m" and b: "b \<in> live_blocks m"
  then obtain hi F U where inv: "mem_inv hi m F U"
    by (auto simp: mem_fine_def)
  then have "b \<in> set (map (ext m) F @ map (ext m) U)"
    using b live_blocks_list [OF inv] by auto
  then have "block_ok hi b"
    using inv layout_block_ok unfolding mem_inv_def by blast
  then show "0 < snd b"
    by (simp add: block_ok_def)
qed

lemma live_disj: "mem_fine m \<Longrightarrow> b \<in> live_blocks m \<Longrightarrow> c \<in> live_blocks m \<Longrightarrow> b \<noteq> c \<Longrightarrow> disj b c"
  unfolding mem_fine_def using live_in_layout by blast

text \<open>A fresh block starts where no live one does.\<close>

lemma fresh_start:
  assumes "fresh_block p n m m'" "mem_fine mf" "live_blocks m' \<subseteq> live_blocks mf" "(unat q, l) \<in> live_blocks m"
  shows "p \<noteq> q"
proof -
  have "(unat p, unat (MemAlign4KB n)) \<in> live_blocks mf" "(unat q, l) \<in> live_blocks mf"
    using assms(1,3,4) by (auto simp: fresh_block_def)
  then have "0 < unat (MemAlign4KB n)" "0 < l"
    using live_size [OF assms(2)] by force+
  moreover have "disj (unat p, unat (MemAlign4KB n)) (unat q, l)"
    using assms(1,4) by (simp add: fresh_block_def)
  ultimately show ?thesis
    by (auto simp: disj_def)
qed

lemma fresh_live: "fresh_block p n m m' \<Longrightarrow> b \<in> live_blocks m \<Longrightarrow> b \<in> live_blocks m'"
  and fresh_self: "fresh_block p n m m' \<Longrightarrow> (unat p, unat (MemAlign4KB n)) \<in> live_blocks m'"
  and fresh_nz: "fresh_block p n m m' \<Longrightarrow> p \<noteq> 0"
  by (auto simp: fresh_block_def mem_base_def)

text \<open>What one task does with its own tables and new blocks leaves the others as they are.\<close>

lemma task_iso_frame:
  assumes "task_iso s i" "tasks s' i = tasks s i" "pts s' (tk_real_pagedt_addr (tasks s i)) = pts s (tk_real_pagedt_addr (tasks s i))"
    "live_blocks (pg_mem s) \<subseteq> live_blocks (pg_mem s')"
  shows "task_iso s' i"
proof -
  have w: "task_walk s' i = task_walk s i" "page_table s' i = page_table s i"
    by (simp_all add: task_walk_def page_table_def assms(2,3))
  show ?thesis
    using assms(1,4) unfolding task_iso_def w assms(2) live_tid_def by blast
qed

lemma isolated_frames:
  assumes "isolated T s" "i \<in> T" "j \<in> T" "i \<noteq> j" "0x1000000 \<le> la" "0x1000000 \<le> la'"
    "task_walk s i la = Some (pa, w)" "task_walk s j la' = Some (pa', w')"
  shows "pa \<noteq> pa'"
proof -
  obtain p l q k where p: "p \<in> owned (tasks s i)" "(unat p, l) \<in> live_blocks (pg_mem s)" "in_block pa (unat p, l)"
    and q: "q \<in> owned (tasks s j)" "(unat q, k) \<in> live_blocks (pg_mem s)" "in_block pa' (unat q, k)"
    using assms unfolding isolated_def task_iso_def by meson
  have "p \<noteq> q"
    using assms(1-4) p(1) q(1) unfolding isolated_def by blast
  then have "(unat p, l) \<noteq> (unat q, k)"
    by (simp add: word_unat_eq_iff)
  then have "disj (unat p, l) (unat q, k)"
    using live_disj [OF _ p(2) q(2)] assms(1) unfolding isolated_def by blast
  then show ?thesis
    using p(3) q(3) by (auto simp: in_block_def disj_def)
qed

lemma set_update_free:
  "ui < length xs \<Longrightarrow> xs ! ui = 0 \<Longrightarrow> q \<noteq> 0 \<Longrightarrow> {p. p \<noteq> 0 \<and> p \<in> set (xs[ui := q])} = insert q {p. p \<noteq> 0 \<and> p \<in> set xs}"
  by (auto simp: in_set_conv_nth nth_list_update)

lemma isolated_alloc:
  assumes iso: "isolated T s" and tid: "tid \<in> T" and len: "mem_legal len" and r: "TaskmgrAllocMemory tid len s = Some (a, ph, s')"
  shows "isolated T s'"
proof -
  have fine: "mem_fine (pg_mem s)" and ti: "task_iso s tid"
    using iso tid by (simp_all add: isolated_def)
  then have l: "live_tid tid s" "tables_ok (tk_real_pagedt_addr (tasks s tid)) (page_table s tid)" "task_walk s tid 0 = Some (0, False)"
    by (auto simp: task_iso_def)
  show ?thesis
  proof (rule alloc_memory [OF fine l len], goal_cases)
    case (1 t)
    then show ?case
      using iso r task_iso_frame [of s _ t] by (auto simp: isolated_def)
  next
    case (2 start ptr t ui)
    note fr = 2(3)
    have t: "t = s'"
      using 2(1) r by simp
    have new: "p \<noteq> ptr" if "(unat p, l) \<in> live_blocks (pg_mem s)" for p l
      using fresh_start [OF fr 2(2) _ that] by blast
    have other: "tasks s' j = tasks s j" if "j \<noteq> tid" for j
      using that 2(6) by (simp add: t)
    have same: "tk_real_pagedt_addr (tasks s' tid) = tk_real_pagedt_addr (tasks s tid)" "tk_pagedt_addr (tasks s' tid) = tk_pagedt_addr (tasks s tid)"
        "live_tid tid s'" "length (tk_memory_block_ptrs (tasks s' tid)) = length (tk_memory_block_ptrs (tasks s tid))"
      using l(1) 2(6) by (simp_all add: t live_tid_def)
    have "owned (tasks s' tid) = insert ptr (owned (tasks s tid))"
      using set_update_free [of ui "tk_memory_block_ptrs (tasks s tid)" ptr] 2(4,5,6) ti fresh_nz [OF fr]
      by (auto simp: owned_def t task_iso_def)
    note ow = this
    have inb: "in_block (ptr + (la - start)) (unat ptr, unat (MemAlign4KB len))" if "in_pages start len la" for la
    proof -
      have "unat len \<le> 0xFFFFF000"
        using len by (simp add: mem_legal_def)
      then have la: "unat start \<le> unat la" "unat la - unat start < unat (MemAlign4KB len)"
        using that by (auto simp: in_pages_aligned)
      moreover have "unat ptr + unat (MemAlign4KB len) \<le> 2 ^ 32"
        using fr by (simp add: fresh_block_def)
      ultimately have "unat ptr + unat (la - start) < 2 ^ 32"
        unfolding unat_minus_le [OF la(1)] by linarith
      then have "unat (ptr + (la - start)) = unat ptr + (unat la - unat start)"
        using la(1) by (subst unat_plus_if_lt) (simp_all add: unat_minus_le)
      then show ?thesis
        using la unfolding in_block_def by (simp only: fst_conv snd_conv) linarith
    qed
    have "task_iso s' tid"
      unfolding task_iso_def same ow
    proof (intro conjI allI impI, goal_cases)
      case (6)
      have "\<forall>p \<in> owned (tasks s tid). \<exists>l. (unat p, l) \<in> live_blocks (pg_mem s)"
        using ti unfolding task_iso_def by blast
      then show ?case
        using fresh_live [OF fr] fresh_self [OF fr] unfolding t by blast
    next
      case (7 la pa w)
      show ?case
      proof (cases "in_pages start len la")
        case True
        then show ?thesis
          using 7 inb [OF True] fresh_self [OF fr] 2(12) [of la] by (auto simp: t)
      next
        case False
        then have "task_walk s tid la = Some (pa, w)"
          using 7 2(12) [of la] by (simp add: t)
        then show ?thesis
          using 7(2) ti fresh_live [OF fr] unfolding task_iso_def t by blast
      qed
    next
      case (8 la)
      then have "task_walk s tid la = Some (la, False)"
        using ti by (simp add: task_iso_def)
      then show ?case
        using 2(10) [of la] 2(12) [of la] by (auto simp: t)
    qed (use same(3) ti 2(11) fresh_live [OF fr] in \<open>simp_all add: task_iso_def t\<close>)
    moreover have "task_iso s' j" if "j \<in> T" "j \<noteq> tid" for j
    proof (rule task_iso_frame [of s j])
      show "task_iso s j"
        using that iso by (simp add: isolated_def)
      have "tk_real_pagedt_addr (tasks s j) \<noteq> tk_real_pagedt_addr (tasks s tid)"
        using that tid iso by (auto simp: isolated_def task_iso_def)
      then show "pts s' (tk_real_pagedt_addr (tasks s j)) = pts s (tk_real_pagedt_addr (tasks s j))"
        using 2(13) by (simp add: t)
    qed (use that fresh_live [OF fr] in \<open>auto simp: other t\<close>)
    moreover have "ptr \<notin> owned (tasks s j)" if "j \<in> T" for j
      using new that iso by (fastforce simp: isolated_def task_iso_def)
    moreover have "owned (tasks s' i) \<inter> owned (tasks s' j) = {} \<and> tk_pagedt_addr (tasks s' i) \<noteq> tk_pagedt_addr (tasks s' j)"
      if ij: "i \<in> T" "j \<in> T" "i \<noteq> j" for i j
    proof -
      have d: "owned (tasks s i) \<inter> owned (tasks s j) = {}" "tk_pagedt_addr (tasks s i) \<noteq> tk_pagedt_addr (tasks s j)"
        using iso ij unfolding isolated_def by blast+
      have n: "ptr \<notin> owned (tasks s i)" "ptr \<notin> owned (tasks s j)"
        using calculation(3) ij by blast+
      show ?thesis
        using d n ij(3) other [of i] other [of j] same(2) ow by (cases "i = tid"; cases "j = tid") simp_all
    qed
    ultimately show ?case
      using 2(2) unfolding isolated_def t by blast
  qed
qed

lemma isolated_create:
  assumes iso: "isolated T s"
    and cr: "TskmgrCreateTask_u ka name param app app_len working_dir ty s = Some (Some tid, s')"
  shows "isolated (insert tid T) s'"
proof -
  have fine: "mem_fine (pg_mem s)"
    using iso by (simp add: isolated_def)
  show ?thesis
  proof (rule create_task_memory [OF fine cr], goal_cases)
    case (1 stack addr p m1 m2)
    let ?n = "TASK_SPACE + app_len"
    note f1 = 1(5) and f2 = 1(6) and f3 = 1(7)
    have mono: "b \<in> live_blocks (pg_mem s')" if "b \<in> live_blocks (pg_mem s)" for b
      using that fresh_live [OF f3] fresh_live [OF f2] fresh_live [OF f1] by blast
    have blk: "(unat addr, unat (MemAlign4KB ?n)) \<in> live_blocks (pg_mem s')" "(unat p, 4206592) \<in> live_blocks (pg_mem s')"
      using fresh_live [OF f3] fresh_self [OF f2] fresh_self [OF f3] by (auto simp: PAGEDT_SIZE_def MemAlign4KB_def)
    have T: "tasks s' j = tasks s j" "task_iso s j" if "j \<in> T" for j
      using that iso 1(2,8) by (auto simp: isolated_def task_iso_def live_tid_def)
    have new: "tasks s' tid = new_task tid name param app_len working_dir ty addr p (p + 4096) (tasks s tid)"
      by (simp add: 1(8))
    have ow: "owned (tasks s' tid) = {addr}"
      using fresh_nz [OF f2] by (auto simp: owned_def new new_task_def)
    have fields: "tk_real_pagedt_addr (tasks s' tid) = p + 4096" "tk_pagedt_addr (tasks s' tid) = p"
      "length (tk_memory_block_ptrs (tasks s' tid)) = MAX_TASK_MEMORY_BLOCK_COUNT" "live_tid tid s'"
      using 1(1) by (simp_all add: new new_task_def live_tid_def reset_task_def)
    have in_addr: "in_block (addr + (la - 0x1000000)) (unat addr, unat (MemAlign4KB ?n))"
      if "0x1000000 \<le> la" "unat la < 0x1000000 + unat (MemAlign4KB ?n)" for la
    proof -
      have la: "unat (la - 0x1000000) = unat la - 0x1000000" "16777216 \<le> unat la"
        using that(1) by (simp_all add: word_le_nat_alt unat_minus_le)
      moreover have "unat addr + unat (MemAlign4KB ?n) \<le> 2 ^ 32"
        using f2 by (simp add: fresh_block_def)
      ultimately have "unat addr + unat (la - 0x1000000) < 2 ^ 32"
        using that(2) by linarith
      then have "unat (addr + (la - 0x1000000)) = unat addr + (unat la - 0x1000000)"
        using la by (subst unat_plus_if_lt) simp_all
      then show ?thesis
        using la(2) that(2) unfolding in_block_def by (simp only: fst_conv snd_conv) linarith
    qed
    have size: "4096 \<le> unat (MemAlign4KB ?n)"
      using task_length [OF 1(3)] MemAlign4KB_spec(2) [of ?n] by simp
    have walk: "\<exists>q \<in> owned (tasks s' tid). \<exists>l. (unat q, l) \<in> live_blocks (pg_mem s') \<and> in_block pa (unat q, l)"
      if la: "task_walk s' tid la = Some (pa, w)" "0x1000000 \<le> la" for la pa w
    proof -
      have "pa = addr + (la - 0x1000000) \<and> unat la < 0x1000000 + unat (MemAlign4KB ?n)"
        using la size by (auto simp: 1(11) word_less_nat_alt word_le_nat_alt split: if_splits)
      then show ?thesis
        using in_addr [OF la(2)] blk(1) ow by auto
    qed
    have "task_iso s' tid"
      unfolding task_iso_def
    proof (intro conjI allI impI)
      show "tables_ok (tk_real_pagedt_addr (tasks s' tid)) (page_table s' tid)"
        using 1(10) by (simp add: page_table_def fields)
      show "\<forall>q \<in> owned (tasks s' tid). \<exists>l. (unat q, l) \<in> live_blocks (pg_mem s')"
        unfolding ow using blk(1) by blast
    qed (use blk ow walk in \<open>simp_all add: fields 1(11)\<close>)
    moreover have pnew: "p \<noteq> q \<and> addr \<noteq> q" if q: "(unat q, l) \<in> live_blocks (pg_mem s)" for q l
    proof
      have "(unat q, l) \<in> live_blocks m1" "(unat q, l) \<in> live_blocks m2"
        using q fresh_live [OF f1] fresh_live [OF f2] by blast+
      then show "p \<noteq> q" "addr \<noteq> q"
        using fresh_start [OF f3 1(4)] fresh_start [OF f2 1(4)] fresh_live [OF f3] by blast+
    qed
    moreover have "task_iso s' j" if j: "j \<in> T" for j
    proof (rule task_iso_frame [OF T(2) [OF j] T(1) [OF j]])
      have "p \<noteq> tk_pagedt_addr (tasks s j)"
        using T(2) [OF j] pnew unfolding task_iso_def by blast
      then show "pts s' (tk_real_pagedt_addr (tasks s j)) = pts s (tk_real_pagedt_addr (tasks s j))"
        using T(2) [OF j] 1(9) by (auto simp: task_iso_def)
    qed (use mono in blast)
    moreover have "owned (tasks s' j) \<inter> owned (tasks s' tid) = {} \<and> tk_pagedt_addr (tasks s' j) \<noteq> tk_pagedt_addr (tasks s' tid)"
      if j: "j \<in> T" for j
      using T(2) [OF j] pnew unfolding T(1) [OF j] ow fields task_iso_def by blast
    ultimately show ?case
      using iso 1(4) T unfolding isolated_def by (auto; metis disjoint_iff)
  qed
qed

text \<open>A run of the operations that give memory to tasks; it ends where a creation fails.\<close>

datatype task_op = OpCreate string string "u8 list" u32 string u32 | OpAllocMemory nat u32 | OpSetReady nat

fun task_run :: "'a kaddr_scheme \<Rightarrow> task_op list \<Rightarrow> nat set \<times> 'h os \<Rightarrow> (nat set \<times> 'h os) option" where
  "task_run ka [] ts = Some ts"
| "task_run ka (OpCreate name param app app_len working_dir ty # ops) (T, s) = do {
     (tid, s) \<leftarrow> TskmgrCreateTask_u ka name param app app_len working_dir ty s;
     case tid of None \<Rightarrow> None | Some tid \<Rightarrow> task_run ka ops (insert tid T, s) }"
| "task_run ka (OpAllocMemory tid len # ops) (T, s) =
     (if tid \<in> T \<and> mem_legal len then do { (_, _, s) \<leftarrow> TaskmgrAllocMemory tid len s; task_run ka ops (T, s) } else None)"
| "task_run ka (OpSetReady tid # ops) (T, s) = task_run ka ops (T, snd (TskmgrSetTaskToReady tid s))"

lemma isolated_ready: "isolated T s \<Longrightarrow> isolated T (snd (TskmgrSetTaskToReady tid s))"
proof -
  assume iso: "isolated T s"
  define s' where "s' = snd (TskmgrSetTaskToReady tid s)"
  have f: "pts s' = pts s" "pg_mem s' = pg_mem s"
    and t: "tk_used (tasks s' i) = tk_used (tasks s i)" "tk_addr (tasks s' i) = tk_addr (tasks s i)"
      "tk_memory_block_ptrs (tasks s' i) = tk_memory_block_ptrs (tasks s i)" "tk_pagedt_addr (tasks s' i) = tk_pagedt_addr (tasks s i)"
      "tk_real_pagedt_addr (tasks s' i) = tk_real_pagedt_addr (tasks s i)" for i
    by (simp_all add: s'_def TskmgrSetTaskToReady_def TskmgrGetTaskInfoPtr_def)
  have "task_iso s' i = task_iso s i" for i
    by (simp add: task_iso_def owned_def task_walk_def page_table_def live_tid_def f t)
  then show ?thesis
    using iso by (simp add: isolated_def owned_def f t s'_def [symmetric])
qed

lemma isolated_run: "isolated T s \<Longrightarrow> task_run ka ops (T, s) = Some (T', s') \<Longrightarrow> isolated T' s'"
proof (induction ops arbitrary: T s)
  case (Cons op ops)
  show ?case
  proof (cases op)
    case (OpCreate name param app app_len working_dir ty)
    then show ?thesis
      using Cons.prems Cons.IH [OF isolated_create [OF Cons.prems(1)]]
      by (auto simp: Option.bind_eq_Some_conv split: option.splits)
  next
    case (OpAllocMemory tid len)
    then obtain a ph t where "TaskmgrAllocMemory tid len s = Some (a, ph, t)" "task_run ka ops (T, t) = Some (T', s')" "tid \<in> T" "mem_legal len"
      using Cons.prems(2) by (auto simp: Option.bind_eq_Some_conv split: if_splits)
    then show ?thesis
      using Cons.IH isolated_alloc [OF Cons.prems(1)] by blast
  next
    case (OpSetReady tid)
    then show ?thesis
      using Cons.prems Cons.IH [OF isolated_ready [OF Cons.prems(1)]] by simp
  qed
qed simp

text \<open>C5: Isolation of tasks in user mode: start without tasks on a well-formed allocator, and let any number
  of tasks be created and any calls of \<open>TaskmgrAllocMemory\<close> and \<open>TskmgrSetTaskToReady\<close> follow, in any order, in
  which every creation succeeds and every allocation is for a task created before and of a length from 1 to
  FE000000H; the allocation itself may fail.  Then the page table of every task maps the first 16 MB to
  themselves without the permission to write in user mode, and above them no two tasks have an address
  that leads to the same physical byte.\<close>

theorem tasks_isolated:
  assumes "mem_fine (pg_mem s)" "task_run ka ops ({}, s) = Some (T, s')" "i \<in> T"
  shows "(\<forall>la < 0x1000000. task_walk s' i la = Some (la, False)) \<and>
    (\<forall>j \<in> T. \<forall>la la' pa pa' w w'. i \<noteq> j \<and> 0x1000000 \<le> la \<and> 0x1000000 \<le> la' \<and>
       task_walk s' i la = Some (pa, w) \<and> task_walk s' j la' = Some (pa', w') \<longrightarrow> pa \<noteq> pa')"
proof -
  have iso: "isolated T s'"
    using isolated_run [OF _ assms(2)] assms(1) by (simp add: isolated_def)
  then have "task_iso s' i"
    using assms(3) by (simp add: isolated_def)
  then show ?thesis
    using isolated_frames [OF iso assms(3)] unfolding task_iso_def by blast
qed

text \<open>\<open>TaskmgrAllocMemory\<close> for a task of an isolated system either changes no address space and
  gives NULL, or maps a block that was not allocated before at addresses the task had no page at,
  writable, and leaves every other address of the task, and all other tasks, as they were.\<close>

theorem alloc_memory_maps:
  assumes "isolated T s" "tid \<in> T" "mem_legal len"
  shows "\<exists>a ph s'. TaskmgrAllocMemory tid len s = Some (a, ph, s') \<and> isolated T s' \<and>
    (case ph of
       None \<Rightarrow> a = 0 \<and> tasks s' = tasks s \<and> pts s' = pts s
     | Some ptr \<Rightarrow> a \<noteq> 0 \<and> (\<forall>b \<in> live_blocks (pg_mem s). disj (unat ptr, unat (MemAlign4KB len)) b) \<and>
         ptr \<in> owned (tasks s' tid) \<and>
         (\<forall>la. task_walk s' tid la = (if in_pages a len la then Some (ptr + (la - a), True) else task_walk s tid la)) \<and>
         (\<forall>la. in_pages a len la \<longrightarrow> task_walk s tid la = None) \<and>
         (\<forall>j \<in> T - {tid}. tasks s' j = tasks s j \<and> task_walk s' j = task_walk s j))"
proof -
  have fine: "mem_fine (pg_mem s)" and ti: "task_iso s tid"
    using assms(1,2) by (simp_all add: isolated_def)
  then have l: "live_tid tid s" "tables_ok (tk_real_pagedt_addr (tasks s tid)) (page_table s tid)" "task_walk s tid 0 = Some (0, False)"
    "length (tk_memory_block_ptrs (tasks s tid)) = MAX_TASK_MEMORY_BLOCK_COUNT"
    by (auto simp: task_iso_def)
  show ?thesis
  proof (rule alloc_memory [OF fine l(1-3) assms(3)], goal_cases)
    case (1 s')
    then show ?case
      using isolated_alloc [OF assms 1(1)] by auto
  next
    case (2 start ptr s' ui)
    have "ptr \<in> owned (tasks s' tid)"
      using 2(4,6) fresh_nz [OF 2(3)] l(4) by (auto simp: owned_def set_update_memI)
    moreover have "task_walk s' j = task_walk s j" "tasks s' j = tasks s j" if "j \<in> T - {tid}" for j
    proof -
      have "tk_real_pagedt_addr (tasks s j) \<noteq> tk_real_pagedt_addr (tasks s tid)"
        using that assms(1,2) by (auto simp: isolated_def task_iso_def)
      then show "task_walk s' j = task_walk s j" "tasks s' j = tasks s j"
        using that 2(6,13) by (auto simp: task_walk_def page_table_def)
    qed
    ultimately show ?case
      using 2 isolated_alloc [OF assms 2(1)] by (auto simp: fresh_block_def)
  qed
qed

section \<open>A machine to instantiate the properties with\<close>

definition mem64 :: mem_state where "mem64 = the (MemInit 0x4000000 mem_boot)"

lemma mem64_fine: "mem_fine mem64"
proof -
  have "mem_inv 0x4000000 mem64 [Mbd 0] []"
    using MemInit_spec [of "0x4000000"] by (auto simp: mem64_def dvd_eq_mod_eq_0)
  then show ?thesis
    unfolding mem_fine_def by blast
qed

text \<open>Two tasks of five bytes and a block for the first one.\<close>

lemma mem64_allocs:
  obtains m1 m2 m3 m4 m5 m6 where
    "MemAlloc_logged SYSCALL_PROCEDURE_STACK_SIZE mem64 = Some (0x1000000, m1)"
    "MemAlloc_logged (TASK_SPACE + 5) m1 = Some (0x1100000, m2)"
    "MemAlloc_logged PAGEDT_SIZE m2 = Some (0x1401000, m3)"
    "MemAlloc_logged SYSCALL_PROCEDURE_STACK_SIZE m3 = Some (0x1804000, m4)"
    "MemAlloc_logged (TASK_SPACE + 5) m4 = Some (0x1904000, m5)"
    "MemAlloc_logged PAGEDT_SIZE m5 = Some (0x1c05000, m6)"
  by (simp add: mem64_def mem_eval MemAlloc_logged_def SYSCALL_PROCEDURE_STACK_SIZE_def TASK_SPACE_def PAGEDT_SIZE_def)

lemma create_task_ok:
  assumes ty: "ty = TASK_TYPE_USER \<or> ty = TASK_TYPE_SYSTEM" "app_len \<le> MAX_APP_LEN"
    and slot: "first_index (\<lambda>ui. \<not> tk_used (tasks s ui) \<and> tk_allocable (tasks s ui)) 0 MAX_TASK_COUNT = Some tid"
    and al: "MemAlloc_logged SYSCALL_PROCEDURE_STACK_SIZE (pg_mem s) = Some (stack, m1)" "stack \<noteq> 0"
    "MemAlloc_logged (TASK_SPACE + app_len) m1 = Some (addr, m2)" "addr \<noteq> 0"
    "MemAlloc_logged PAGEDT_SIZE m2 = Some (p, m3)" "p \<noteq> 0"
  shows "\<exists>s'. TskmgrCreateTask_u ka name param app app_len working_dir ty s = Some (Some tid, s') \<and> pg_mem s' = m3 \<and>
    tasks s' = (tasks s)(tid := new_task tid name param app_len working_dir ty addr p (p + (4096 - p mod 4096)) (tasks s tid))"
proof -
  have t: "tid < MAX_TASK_COUNT"
    using first_index_SomeD [OF slot] by simp
  then obtain d where d: "KnlGetDescFromGDT (400 + tid * 5) s = Some d"
    by (simp add: KnlGetDescFromGDT_def MAX_DESC_COUNT_def MAX_TASK_COUNT_def)
  have ty': "\<not> (ty \<noteq> TASK_TYPE_USER \<and> ty \<noteq> TASK_TYPE_SYSTEM)" "\<not> app_len > MAX_APP_LEN" "\<not> tid \<ge> MAX_TASK_COUNT"
    using ty t by auto
  have r: "\<exists>s'. TskmgrCreateTask_u ka name param app app_len working_dir ty s = Some (Some tid, s')"
    unfolding TskmgrCreateTask_u_def if_not_P [OF ty'(1)] if_not_P [OF ty'(2)] slot option.case
    using ty'(3) d al by (simp add: KnlResetSystemCall_def os_alloc_def PgCreateEmptyUserPageTable_def Let_def)
  then obtain s' where s': "TskmgrCreateTask_u ka name param app app_len working_dir ty s = Some (Some tid, s')"
    by blast
  show ?thesis
  proof (rule create_task_steps [OF s'], goal_cases)
    case (1 stack' addr' p' m1' m2' m3')
    then show ?case
      using s' al by auto
  qed
qed

definition task0 :: task where
  "task0 = \<lparr>tk_used = False, tk_allocable = True, tk_running = False, tk_ran = False, tk_name = [], tk_param = [], tk_app_len = 0,
     tk_addr = 0, tk_tss = task_tss 0 TASK_TYPE_USER, tk_init_i387 = False, tk_pagedt_addr = 0, tk_real_pagedt_addr = 0,
     tk_opened_file_ptrs = [], tk_memory_block_ptrs = [], tk_mqueue_ids = [], tk_used_memory_size = 0, tk_working_dir = [],
     tk_retvalue = 0, tk_ready = False, tk_is_system_call = False, tk_fs_lock = False, tk_stdin = None, tk_stdout = None,
     tk_stderr = None, tk_read_count = 0, tk_type = TASK_TYPE_USER, tk_priority = TASK_PRIORITY_NORMAL, tk_tick = 0,
     tk_on_exit = None, tk_elf = 0, tk_elf_so_ctx = []\<rparr>"

definition os0 :: "unit os" where
  "os0 = \<lparr>pg_mem = mem64, pts = (\<lambda>_ _. 0), kernel_cr3 = 0, kernel_pagedt = 0, kernel_tss_cr3 = 0, cr3_register = 0, cr0_register = 0,
     ram = (\<lambda>_. 0), gdt = (\<lambda>_. replicate 8 0), os_fs = ifs1_0, fobjs = (\<lambda>_. None), os_mq = mq3, elf_ctxs = (\<lambda>_. zero_context),
     tasks = (\<lambda>_. task0), running_tid = None, task_count = 0, scall_stacks = (\<lambda>_. 0), scall_tss = (\<lambda>_. task_tss 0 TASK_TYPE_USER),
     sc_fs_locked = False, driver_locks = [], outside = []\<rparr>"

definition kaddr0 :: kaddr where
  "kaddr0 = \<lparr>tss_addr = (\<lambda>_. 0), scall_tss_addr = (\<lambda>_. 0), scall_entry = 0\<rparr>"

definition app5 :: "u8 list" where "app5 = [1, 2, 3, 4, 5]"

abbreviation create5 :: "unit os \<Rightarrow> (nat option \<times> unit os) option" where
  "create5 \<equiv> TskmgrCreateTask_u kaddr0 ''a'' [] app5 5 ''VA:/'' TASK_TYPE_USER"

lemma two_tasks:
  obtains s1 s2 where "create5 os0 = Some (Some 0, s1)" "create5 s1 = Some (Some 1, s2)"
    "tk_addr (tasks s2 0) = 0x1100000" "tk_addr (tasks s2 1) = 0x1904000"
proof (rule mem64_allocs, goal_cases)
  case m: (1 m1 m2 m3 m4 m5 m6)
  have "first_index (\<lambda>ui. \<not> tk_used (tasks os0 ui) \<and> tk_allocable (tasks os0 ui)) 0 MAX_TASK_COUNT = Some 0"
    by (simp add: first_index_here MAX_TASK_COUNT_def os0_def task0_def)
  from create_task_ok [OF disjI1 [OF refl] _ this, of 5] m
  obtain s1 where s1: "create5 os0 = Some (Some 0, s1)" "pg_mem s1 = m3"
      "tasks s1 = (tasks os0)(0 := new_task 0 ''a'' [] 5 ''VA:/'' TASK_TYPE_USER 0x1100000 0x1401000 0x1402000 (tasks os0 0))"
    by (force simp: os0_def MAX_APP_LEN_def)
  have "first_index (\<lambda>ui. \<not> tk_used (tasks s1 ui) \<and> tk_allocable (tasks s1 ui)) 0 MAX_TASK_COUNT = Some 1"
    by (simp add: first_index_here first_index_next MAX_TASK_COUNT_def s1(3) os0_def task0_def new_task_def reset_task_def)
  from create_task_ok [OF disjI1 [OF refl] _ this, of 5] m
  obtain s2 where s2: "create5 s1 = Some (Some 1, s2)" "pg_mem s2 = m6"
      "tasks s2 = (tasks s1)(1 := new_task 1 ''a'' [] 5 ''VA:/'' TASK_TYPE_USER 0x1904000 0x1c05000 0x1c06000 (tasks s1 1))"
    by (force simp: s1(2) MAX_APP_LEN_def)
  show ?case
    by (rule m(1) [OF s1(1) s2(1)]) (simp_all add: s2(3) s1(3) new_task_def)
qed

lemma os0_fine: "mem_fine (pg_mem os0)"
  using mem64_fine by (simp add: os0_def)

theorem create_task_address_space_witness:
  "\<exists>s1 addr. create5 os0 = Some (Some 0, s1) \<and> task_walk s1 0 0xB8000 = Some (0xB8000, False) \<and>
     task_walk s1 0 0x1000000 = Some (addr, False) \<and> task_walk s1 0 0x1300004 = Some (addr + 0x300004, True) \<and>
     task_walk s1 0 0x1301000 = None \<and> ram s1 (addr + 0x300004) = 5"
proof (rule two_tasks, goal_cases)
  case (1 s1 s2)
  have "length app5 = unat (5 :: u32)"
    by (simp add: app5_def)
  from create_task_address_space [OF os0_fine 1(1) this]
  obtain addr where w: "\<forall>la. task_walk s1 0 la = (if la < 0x1000000 then Some (la, False)
       else if la < 0x1001000 then Some (addr + (la - 0x1000000), False)
       else if unat la < 0x1000000 + unat (MemAlign4KB (TASK_SPACE + 5)) then Some (addr + (la - 0x1000000), True) else None)"
     and r: "\<forall>i < length app5. ram s1 (addr + TASK_SPACE + of_nat i) = app5 ! i"
    unfolding Let_def by blast
  have size: "unat (MemAlign4KB (TASK_SPACE + 5)) = 0x301000"
    by (simp add: MemAlign4KB_def TASK_SPACE_def)
  note w = w [unfolded size, rule_format]
  have "task_walk s1 0 0xB8000 = Some (0xB8000, False)"
    using w [of "0xB8000"] by simp
  moreover have "task_walk s1 0 0x1000000 = Some (addr, False)"
    using w [of "0x1000000"] by simp
  moreover have "task_walk s1 0 0x1300004 = Some (addr + 0x300004, True)"
    using w [of "0x1300004"] by simp
  moreover have "task_walk s1 0 0x1301000 = None"
    using w [of "0x1301000"] by simp
  moreover have "ram s1 (addr + 0x300004) = 5"
    using r [rule_format, of 4] by (simp add: app5_def TASK_SPACE_def add.assoc)
  ultimately show ?case
    using 1(1) by (intro exI conjI)
qed

theorem tasks_isolated_witness:
  "\<exists>s'. task_run kaddr0 [OpCreate ''a'' [] app5 5 ''VA:/'' TASK_TYPE_USER, OpCreate ''a'' [] app5 5 ''VA:/'' TASK_TYPE_USER] ({}, os0) = Some ({0, 1}, s') \<and>
     (\<forall>la la' pa pa' w w'. 0x1000000 \<le> la \<longrightarrow> 0x1000000 \<le> la' \<longrightarrow> task_walk s' 0 la = Some (pa, w) \<longrightarrow> task_walk s' 1 la' = Some (pa', w') \<longrightarrow> pa \<noteq> pa')"
proof (rule two_tasks, goal_cases)
  case (1 s1 s2)
  have r: "task_run kaddr0 [OpCreate ''a'' [] app5 5 ''VA:/'' TASK_TYPE_USER, OpCreate ''a'' [] app5 5 ''VA:/'' TASK_TYPE_USER] ({}, os0) = Some ({0, 1}, s2)"
    using 1(1,2) by (simp add: insert_commute)
  show ?case
    using r tasks_isolated [OF os0_fine r, of 0] by auto
qed

theorem alloc_memory_maps_witness:
  "\<exists>(s2 :: unit os) a ph s'. isolated {0, 1} s2 \<and> TaskmgrAllocMemory 0 5000 s2 = Some (a, ph, s') \<and> isolated {0, 1} s' \<and>
     (ph = None \<or> task_walk s' 1 = task_walk s2 1)"
proof (rule two_tasks, goal_cases)
  case (1 s1 s2)
  have "isolated {} os0"
    using os0_fine by (simp add: isolated_def)
  from isolated_create [OF isolated_create [OF this 1(1)] 1(2)] have iso: "isolated {0, 1} s2"
    by (simp add: insert_commute)
  have "mem_legal 5000"
    by (simp add: mem_legal_def)
  from alloc_memory_maps [OF iso _ this, of 0] obtain a ph s' where
    "TaskmgrAllocMemory 0 5000 s2 = Some (a, ph, s')" "isolated {0, 1} s'" "ph = None \<or> task_walk s' 1 = task_walk s2 1"
    by (auto split: option.splits)
  with iso show ?case
    by blast
qed

end
