(* ===== verification/Scheduler_Props.thy ===== *)
theory Scheduler_Props
  imports Scheduler_Proofs Task_Proofs
begin

text \<open>
  The properties of the scheduler: every ready task runs again within a fixed number of timer
  interrupts, whom the interrupt chooses, the kernel gets its turn, and what the interrupt does
  to the floating point unit.
\<close>

text \<open>C7: Every ready task makes progress: in any state where the running task is ready, the tick
  counts are at most 40 and not about to overflow, and \<open>task_count\<close> is positive, a task that is
  used and ready is dispatched within 2757 timer interrupts, whatever happens between them that leaves
  the scheduler's fields alone.\<close>

theorem every_ready_task_runs:
  assumes "\<forall>r. running_tid (sys m) = Some r \<longrightarrow> r < MAX_TASK_COUNT \<and> ready (sys m) r"
    and "\<forall>i < MAX_TASK_COUNT. - 2147480000 \<le> sint (tk_tick (tasks (sys m) i)) \<and> sint (tk_tick (tasks (sys m) i)) \<le> 40"
    and "t < MAX_TASK_COUNT" "ready (sys m) t" "1 \<le> task_count (sys m)"
    and "length es = 2757" "\<forall>e \<in> set es. \<forall>m. sched_view (e m) = sched_view m"
  shows "\<exists>ds m'. interrupts ea x0 es m = Some (ds, m') \<and> (UserTask t \<in> set ds \<or> SystemCall t \<in> set ds)"
proof -
  have ok: "running_ok (sys m)" "ticks_within (- 2147480000) (sys m)"
    using assms(1,2) by (simp_all add: running_ok_def ticks_within_def)
  have "delay t m < length es"
    using delay_bound [OF ok assms(3)] assms(6) by simp
  then show ?thesis
    using interrupts_progress [OF ok _ _ assms(4,3,5,7), of ea x0] assms(6) by (auto simp: runs_def)
qed


section \<open>A machine with two tasks\<close>

definition machine2 :: "(unit, unit, nat, nat) machine" where
  "machine2 = \<lparr>sys = os0\<lparr>tasks := (\<lambda>i. if i < 2 then task0\<lparr>tk_used := True, tk_ready := True, tk_tick := 15\<rparr> else task0),
       running_tid := Some 0, task_count := 2\<rparr>,
     timers = one_timer, counter = 0, clock_counter = 100, clock_updates = 0, switch_to_kernel = False, kt_jk_lock = False,
     will_reset_all_exceptions = False, is_kernel_task = False, current_tid = None, kernel_init_i387 = True, kernel_task_ran = False,
     x87 = 7, xmm = 7, i387_state = (\<lambda>_. 0), sse_state = (\<lambda>_. (0, 0)), kernel_i387_state = 0, kernel_sse_state = (0, 0),
     exc_tss = (\<lambda>_. task_tss 0 TASK_TYPE_USER)\<rparr>"

definition exc_addr0 :: exc_addr where
  "exc_addr0 = \<lparr>tss_addr = (\<lambda>_. 0), scall_tss_addr = (\<lambda>_. 0), scall_entry = 0, exc_entry = (\<lambda>_. 0), exc_stack = (\<lambda>_. 0)\<rparr>"

lemma machine2_tasks:
  "running_tid (sys machine2) = Some 0" "task_count (sys machine2) = 2" "counter machine2 = 0"
  "ready (sys machine2) i \<longleftrightarrow> i < 2" "tk_tick (tasks (sys machine2) i) = (if i < 2 then 15 else 0)"
  "tk_init_i387 (tasks (sys machine2) i) = False" "tk_used (tasks (sys machine2) i) \<longleftrightarrow> i < 2"
  by (simp_all add: machine2_def ready_def task0_def)

theorem every_ready_task_runs_witness:
  "\<exists>ds m'. interrupts exc_addr0 0 (replicate 2757 id) machine2 = Some (ds, m') \<and> (UserTask 1 \<in> set ds \<or> SystemCall 1 \<in> set ds)"
  by (rule every_ready_task_runs) (simp_all add: machine2_tasks MAX_TASK_COUNT_def)

section \<open>Whom the interrupt dispatches\<close>

text \<open>C8: Round robin: when the task recorded as running, if there is one, is in use, a timer interrupt
  always finds somewhere to go.  It goes to the kernel exactly if it is the kernel's turn (as many
  task dispatches as there are tasks, or a switch asked for) or no task may run: nothing recorded
  and nothing ready, or the recorded one has run, has no tick left when this one is taken off, and no
  other task is ready.
  Otherwise it goes to a task \<open>t\<close> below \<open>MAX_TASK_COUNT\<close>, which is then recorded as running and as having run.
  If nothing was recorded, \<open>t\<close> is the first ready task; \<open>t\<close> is the recorded task if that has a tick
  left or has not run since it was chosen (whether it is ready is not looked at again); else \<open>t\<close> is
  another task, in use and ready, and no other ready task comes earlier in the cycle after the
  recorded one.\<close>

theorem dispatch_round_robin:
  assumes "\<And>r. running_tid (sys m) = Some r \<Longrightarrow> r < MAX_TASK_COUNT \<and> tk_used (tasks (sys m) r)"
  shows "\<exists>d m'. KnlTimerInterrupt ea x0 m = Some (d, m') \<and>
    (d = KernelTask \<longleftrightarrow> task_count (sys m) \<le> counter m \<or> switch_to_kernel m \<or>
      (case running_tid (sys m) of
         None \<Rightarrow> \<forall>j < MAX_TASK_COUNT. \<not> ready (sys m) j
       | Some r \<Rightarrow> tk_ran (tasks (sys m) r) \<and> \<not> 0 <s tk_tick (tasks (sys m) r) - 1 \<and>
           (\<forall>j < MAX_TASK_COUNT. j \<noteq> r \<longrightarrow> \<not> ready (sys m) j))) \<and>
    (\<forall>t. d = UserTask t \<or> d = SystemCall t \<longrightarrow>
      t < MAX_TASK_COUNT \<and> running_tid (sys m') = Some t \<and> tk_ran (tasks (sys m') t) \<and>
      (case running_tid (sys m) of
         None \<Rightarrow> ready (sys m) t \<and> (\<forall>j < t. \<not> ready (sys m) j)
       | Some r \<Rightarrow>
           if 0 <s tk_tick (tasks (sys m) r) - 1 \<or> \<not> tk_ran (tasks (sys m) r) then t = r
           else t \<noteq> r \<and> ready (sys m) t \<and>
             (\<forall>j < MAX_TASK_COUNT. ready (sys m) j \<and> j \<noteq> r \<longrightarrow> dist r t \<le> dist r j)))"
  (is "\<exists>d m'. _ \<and> (_ \<longleftrightarrow> _ \<or> _ \<or> ?nobody) \<and> (\<forall>t. _ \<longrightarrow> _ \<and> _ \<and> _ \<and> ?chosen t)")
proof -
  have "live_tid r (sys m)" if "running_tid (sys m) = Some r" for r
    using assms [OF that] by (simp add: live_tid_def)
  then show ?thesis
  proof (rule next_task_choice, simp, goal_cases)
    case (1 tid s')
    from interrupt_step [OF 1(1) 1(4) 1(2), of ea x0] obtain d m' where d: "KnlTimerInterrupt ea x0 m = Some (d, m')"
      "if tid = None \<or> blocked m then d = KernelTask \<and> sched_view m' = (core s', 0, False)
       else (d = UserTask (the tid) \<or> d = SystemCall (the tid)) \<and>
         sched_view m' = (core (set_task (the tid) (\<lambda>t. t\<lparr>tk_ran := True\<rparr>) s'), counter m + 1, switch_to_kernel m)"
      by blast
    have none: "tid = None \<longleftrightarrow> ?nobody"
      using assms by (auto simp: 1(5) first_index_None_iff next_other_None_iff split: option.split)
    have task: "d = UserTask t \<or> d = SystemCall t \<Longrightarrow> tid = Some t \<and> core (sys m') = core (set_task t (\<lambda>t. t\<lparr>tk_ran := True\<rparr>) s')" for t
      using d(2) by (auto simp: sched_view_def split: if_splits)
    show ?case
    proof (intro exI conjI allI impI)
      show "KnlTimerInterrupt ea x0 m = Some (d, m')"
        by (rule d(1))
      show "d = KernelTask \<longleftrightarrow> task_count (sys m) \<le> counter m \<or> switch_to_kernel m \<or> ?nobody"
        unfolding none [symmetric] using d(2) by (auto simp: blocked_def split: if_splits)
      fix t
      assume "d = UserTask t \<or> d = SystemCall t"
      then have t: "tid = Some t" and c: "core (sys m') = core (set_task t (\<lambda>t. t\<lparr>tk_ran := True\<rparr>) s')"
        using task by auto
      show "t < MAX_TASK_COUNT" "running_tid (sys m') = Some t" "tk_ran (tasks (sys m') t)"
        using 1(4) [OF t] core_eqD [OF c] by (simp_all add: live_tid_def set_ran)
      show "?chosen t"
        using 1(5) t assms first_index_SomeD [of "ready (sys m)" 0 MAX_TASK_COUNT t]
        by (auto simp: next_other_ready next_other_first split: option.splits if_splits)
    qed
  qed
qed

text \<open>The same machine at the end of the time slice of task 0.\<close>

definition machine2_over :: "(unit, unit, nat, nat) machine" where
  "machine2_over = on_sys (set_task 0 (\<lambda>t. t\<lparr>tk_ran := True, tk_tick := 1\<rparr>)) machine2"

lemma machine2_over_tasks:
  "running_tid (sys machine2_over) = Some 0" "task_count (sys machine2_over) = 2" "counter machine2_over = 0"
  "\<not> switch_to_kernel machine2_over" "ready (sys machine2_over) i \<longleftrightarrow> i < 2"
  "tk_tick (tasks (sys machine2_over) 0) = 1" "tk_ran (tasks (sys machine2_over) 0)" "tk_used (tasks (sys machine2_over) 0)"
  by (simp_all add: machine2_over_def on_sys_def set_task_def ready_def machine2_tasks [unfolded ready_def])
    (simp_all add: machine2_def ready_def task0_def)

theorem dispatch_round_robin_witness:
  "\<exists>d m'. KnlTimerInterrupt exc_addr0 0 machine2_over = Some (d, m') \<and> (d = UserTask 1 \<or> d = SystemCall 1) \<and>
    running_tid (sys m') = Some 1"
proof -
  have "\<exists>j < MAX_TASK_COUNT. j \<noteq> 0 \<and> ready (sys machine2_over) j"
    by (rule exI [of _ 1]) (simp add: machine2_over_tasks MAX_TASK_COUNT_def)
  then obtain d m' where "KnlTimerInterrupt exc_addr0 0 machine2_over = Some (d, m')" "d \<noteq> KernelTask"
    "\<forall>t. d = UserTask t \<or> d = SystemCall t \<longrightarrow> running_tid (sys m') = Some t \<and> 0 < t \<and> t < 2"
    using dispatch_round_robin [of machine2_over exc_addr0 0] by (auto simp: machine2_over_tasks)
  then show ?thesis
    by (cases d) (auto simp: less_2_cases_iff)
qed

section \<open>The kernel's turn\<close>

lemma kernel_turn:
  assumes "running_ok (sys m)" "ticks_within lo (sys m)" "- (2 ^ 31) + int (length es) \<le> lo" "lo \<le> 5"
    and "\<forall>e \<in> set es. \<forall>m. sched_view (e m) = sched_view m"
  shows "\<exists>ds m'. interrupts ea x0 es m = Some (ds, m') \<and> length ds = length es \<and>
    (task_count (sys m) < counter m + int (length es) \<longrightarrow> es \<noteq> [] \<longrightarrow> KernelTask \<in> set ds)"
  using assms
proof (induction es arbitrary: m lo)
  case (Cons e es)
  have v: "sched_view (e m) = sched_view m"
    using Cons.prems(5) by simp
  note c = core_eqD [OF sched_view_eqD(1) [OF v]] and cnt = sched_view_eqD(2) [OF v]
  have ok: "running_ok (sys (e m))" "ticks_within lo (sys (e m))" "- (2 ^ 31) < lo" "lo \<le> 5"
    using Cons.prems delay_view [OF v] by auto
  show ?case
  proof (rule next_task_cases [OF ok], goal_cases)
    case (1 tid s')
    have live: "live_tid t s' \<and> running_tid s' = Some t" if "tid = Some t" for t
      using 1(4,6) that by (auto simp: running_ok_def live_tid_def ready_def)
    from interrupt_step [OF 1(1) live 1(3), of ea x0] obtain d m' where d: "KnlTimerInterrupt ea x0 (e m) = Some (d, m')"
      "if tid = None \<or> blocked (e m) then d = KernelTask \<and> sched_view m' = (core s', 0, False)
       else (d = UserTask (the tid) \<or> d = SystemCall (the tid)) \<and>
         sched_view m' = (core (set_task (the tid) (\<lambda>t. t\<lparr>tk_ran := True\<rparr>) s'), counter (e m) + 1, switch_to_kernel (e m))"
      by blast
    have "(core (sys m') = core s' \<or> core (sys m') = core (set_task (the tid) (\<lambda>t. t\<lparr>tk_ran := True\<rparr>) s'))"
      using d(2) by (auto simp: sched_view_def split: if_splits)
    then have inv: "running_ok (sys m')" "ticks_within (lo - 1) (sys m')" "task_count (sys m') = task_count (sys m)"
      using 1(3,5,6) core_running core_eqD(2) c(2) set_ran by (metis, metis, metis set_task_frame(2))
    have dc: "d = KernelTask \<or> task_count (sys m) > counter m \<and> counter m' = counter m + 1"
      using d(2) cnt c(2) by (auto simp: sched_view_def blocked_def split: if_splits)
    obtain ds m'' where "interrupts ea x0 es m' = Some (ds, m'')" "length ds = length es"
       "task_count (sys m') < counter m' + int (length es) \<longrightarrow> es \<noteq> [] \<longrightarrow> KernelTask \<in> set ds"
      using Cons.IH [OF inv(1,2)] Cons.prems by auto
    then show ?case
      using d(1) dc inv(3) by (cases "es = []") auto
  qed
qed simp

text \<open>The kernel task is not starved: of any \<open>task_count + 1\<close> timer interrupts in a row at least one
  dispatches the kernel, however many tasks are ready.\<close>

theorem kernel_task_turn:
  assumes "\<forall>r. running_tid (sys m) = Some r \<longrightarrow> r < MAX_TASK_COUNT \<and> ready (sys m) r"
    and "\<forall>i < MAX_TASK_COUNT. - 2147480000 \<le> sint (tk_tick (tasks (sys m) i)) \<and> sint (tk_tick (tasks (sys m) i)) \<le> 40"
    and "0 \<le> counter m" "0 \<le> task_count (sys m)" "task_count (sys m) \<le> int MAX_TASK_COUNT" "length es = nat (task_count (sys m)) + 1"
    and "\<forall>e \<in> set es. \<forall>m. sched_view (e m) = sched_view m"
  shows "\<exists>ds m'. interrupts ea x0 es m = Some (ds, m') \<and> length ds = nat (task_count (sys m)) + 1 \<and> KernelTask \<in> set ds"
proof -
  have "running_ok (sys m)" "ticks_within (- 2147480000) (sys m)"
    using assms(1,2) by (simp_all add: running_ok_def ticks_within_def)
  from kernel_turn [OF this _ _ assms(7), of ea x0] show ?thesis
    using assms(3-6) by (auto simp: MAX_TASK_COUNT_def)
qed

theorem kernel_task_turn_witness:
  "\<exists>ds m'. interrupts exc_addr0 0 [id, id, id] machine2 = Some (ds, m') \<and> length ds = nat (task_count (sys machine2)) + 1 \<and>
     KernelTask \<in> set ds"
  by (rule kernel_task_turn) (simp_all add: machine2_tasks MAX_TASK_COUNT_def)

section \<open>The floating point unit\<close>

definition fpu_tasks :: "'h os \<Rightarrow> nat \<Rightarrow> bool" where
  "fpu_tasks s t \<longleftrightarrow> tk_used (tasks s t) \<and> tk_init_i387 (tasks s t)"

text \<open>The \<open>fxsave\<close> image of a task whose unit is in use, unless it is the one in the registers, holds \<open>x0\<close>.\<close>

definition fpu_inv :: "'x \<Rightarrow> ('h, 'e, 'x, 'y) machine \<Rightarrow> bool" where
  "fpu_inv x0 m \<longleftrightarrow> (\<forall>t < MAX_TASK_COUNT. fpu_tasks (sys m) t \<longrightarrow>
     fst (sse_state m t) = x0 \<or> running_tid (sys m) = Some t \<and> \<not> kernel_task_ran m)"

definition fpu_view :: "('h, 'e, 'x, 'y) machine \<Rightarrow> (nat \<Rightarrow> bool \<times> bool) \<times> nat option \<times> (nat \<Rightarrow> 'x \<times> 'y) \<times> bool" where
  "fpu_view m = ((\<lambda>t. (tk_used (tasks (sys m) t), tk_init_i387 (tasks (sys m) t))), running_tid (sys m), sse_state m, kernel_task_ran m)"

lemma fpu_fields:
  "fpu_view (m\<lparr>timers := a\<rparr>) = fpu_view m" "fpu_view (m\<lparr>kt_jk_lock := b\<rparr>) = fpu_view m"
  "fpu_view (m\<lparr>will_reset_all_exceptions := b\<rparr>) = fpu_view m" "fpu_view (m\<lparr>clock_counter := i\<rparr>) = fpu_view m"
  "fpu_view (m\<lparr>clock_updates := n\<rparr>) = fpu_view m"
  by (simp_all add: fpu_view_def)

lemma fpu_exceptions: "fpu_view (KnlResetAllExceptions ea m) = fpu_view m"
proof -
  have "fpu_view (fold (\<lambda>i m. (on_sys (free_tss (AT386TSS + DPL0) i) m)
       \<lparr>exc_tss := (exc_tss m)(i := KnlFillTSS (PgGetKernelCR3 (sys m)) (exc_entry ea i) (exc_stack ea i))\<rparr>) is m) = fpu_view m" for "is"
    by (induction "is" arbitrary: m) (simp_all add: fpu_view_def on_sys_def free_tss_def KnlSetDescToGDT_def)
  then show ?thesis
    by (simp add: KnlResetAllExceptions_def)
qed

lemma fpu_free_tss: "tasks (free_tss a i s) = tasks s" "running_tid (free_tss a i s) = running_tid s"
  "tasks (KnlSetDescToGDT i d s) = tasks s" "running_tid (KnlSetDescToGDT i d s) = running_tid s"
  by (simp_all add: free_tss_def KnlSetDescToGDT_def)

lemma fpu_free_syscall: "tasks (KnlFreeSystemCallTSS s) = tasks s" "running_tid (KnlFreeSystemCallTSS s) = running_tid s"
proof -
  have "tasks (fold (\<lambda>ui. free_tss (AT386TSS + DPL3) (30 + ui * 2)) is s) = tasks s \<and>
    running_tid (fold (\<lambda>ui. free_tss (AT386TSS + DPL3) (30 + ui * 2)) is s) = running_tid s" for "is"
    by (induction "is" arbitrary: s) (simp_all add: fpu_free_tss)
  then show "tasks (KnlFreeSystemCallTSS s) = tasks s" "running_tid (KnlFreeSystemCallTSS s) = running_tid s"
    by (simp_all add: KnlFreeSystemCallTSS_def)
qed

text \<open>The choice of the next task leaves the unit alone and records what it chose.\<close>

lemma next_fpu:
  "running_tid (snd (TskmgrGetNextTaskID s)) = fst (TskmgrGetNextTaskID s)"
  "tk_used (tasks (snd (TskmgrGetNextTaskID s)) t) = tk_used (tasks s t)"
  "tk_init_i387 (tasks (snd (TskmgrGetNextTaskID s)) t) = tk_init_i387 (tasks s t)"
  by (auto simp: TskmgrGetNextTaskID_def Let_def reset_tick_def tasks_set_task split: option.split)

definition saved :: "'x \<Rightarrow> nat option \<Rightarrow> ('h, 'e, 'x, 'y) machine \<Rightarrow> bool" where
  "saved x0 r m \<longleftrightarrow> (\<forall>t < MAX_TASK_COUNT. fpu_tasks (sys m) t \<longrightarrow> fst (sse_state m t) = x0 \<or> r = Some t)"

lemma saved_after_save: "saved x0 (Some r) m \<Longrightarrow> saved x0 None (save_task_fpu x0 r m)"
  by (auto simp: saved_def save_task_fpu_def Let_def live_tid_def fpu_tasks_def)

lemma sys_save [simp]: "sys (save_task_fpu x0 r m) = sys m" "sys (save_kernel_fpu x0 m) = sys m" "sys (restore_fpu i q m) = sys m"
  "sse_state (save_kernel_fpu x0 m) = sse_state m" "sse_state (restore_fpu i q m) = sse_state m"
  by (simp_all add: save_task_fpu_def save_kernel_fpu_def restore_fpu_def Let_def)

lemma saved_old:
  assumes "saved x0 (if kernel_task_ran m then None else old) m"
  shows "saved x0 None (case old of None \<Rightarrow> m | Some r \<Rightarrow> save_task_fpu x0 r m)"
proof (cases old)
  case (Some r)
  have "saved x0 (Some r) m"
    using assms Some by (auto simp: saved_def split: if_splits)
  from saved_after_save [OF this] show ?thesis
    using Some by simp
qed (use assms in \<open>auto split: if_splits\<close>)

lemma to_kernel_fpu:
  assumes "saved x0 (if kernel_task_ran m then None else old) m"
  shows "fpu_inv x0 (to_kernel x0 old m)"
proof -
  define m1 where "m1 = m\<lparr>switch_to_kernel := False, counter := 0, is_kernel_task := True\<rparr>"
  define m2 where "m2 = (case old of None \<Rightarrow> m1 | Some r \<Rightarrow> save_task_fpu x0 r m1)"
  have "saved x0 None m2"
    unfolding m2_def by (rule saved_old) (use assms in \<open>auto simp: m1_def saved_def split: if_splits\<close>)
  then show ?thesis
    unfolding to_kernel_def Let_def m1_def [symmetric] m2_def [symmetric]
    by (auto simp: fpu_inv_def saved_def on_sys_def fpu_tasks_def fpu_free_tss fpu_free_syscall)
qed

lemma to_task_fpu:
  assumes s: "saved x0 (if kernel_task_ran m then None else old) m" and r: "to_task x0 old t m = Some (d, m')"
    and run0: "running_tid (sys m) = Some t"
  shows "fpu_inv x0 m' \<and> x87 m' = x0"
proof -
  define m1 where "m1 = m\<lparr>counter := counter m + 1, is_kernel_task := False\<rparr>"
  define m2 where "m2 = (if kernel_task_ran m1 then (save_kernel_fpu x0 m1)\<lparr>kernel_task_ran := False\<rparr>
              else (case old of None \<Rightarrow> m1 | Some r \<Rightarrow> save_task_fpu x0 r m1))"
  define m3 where "m3 = (if tk_init_i387 (tasks (sys m2) t) then restore_fpu (i387_state m2 t) (sse_state m2 t) m2
              else on_sys (set_task t (\<lambda>t. t\<lparr>tk_init_i387 := True\<rparr>)) (m2\<lparr>x87 := x0\<rparr>))"
  have k: "\<not> kernel_task_ran m2"
    by (auto simp: m2_def save_task_fpu_def Let_def split: option.split)
  have sv: "saved x0 None m2"
  proof (cases "kernel_task_ran m1")
    case True
    then show ?thesis
      using s by (simp add: m2_def) (simp add: saved_def m1_def fpu_tasks_def)
  next
    case False
    have "saved x0 None (case old of None \<Rightarrow> m1 | Some r \<Rightarrow> save_task_fpu x0 r m1)"
      by (rule saved_old) (use s False in \<open>auto simp: m1_def saved_def\<close>)
    then show ?thesis
      using False by (simp add: m2_def)
  qed
  obtain task where g: "TskmgrGetTaskInfo t (sys m2) = Some task"
    using r unfolding to_task_def Let_def m1_def [symmetric] m2_def [symmetric] by (cases "TskmgrGetTaskInfo t (sys m2)") auto
  then have live: "live_tid t (sys m2)" "task = tasks (sys m2) t"
    by (simp_all add: TskmgrGetTaskInfo_def split: if_splits)
  obtain s3 where s3: "TaskmgrSetTaskRunningStatus t (sys m3) = Some s3"
    using r unfolding to_task_def Let_def m1_def [symmetric] m2_def [symmetric] g bind.bind_lunit live(2) m3_def [symmetric]
    by (cases "TaskmgrSetTaskRunningStatus t (sys m3)") auto
  have "to_task x0 old t m = (let s = KnlFreeSystemCallTSS s3 in
     if tk_is_system_call task then Some (SystemCall t, m3\<lparr>sys := s\<rparr>)
     else
       let s' = free_tss (AT386TSS + DPL3) (400 + t * 5 + 0) s in
       Some (UserTask t, m3\<lparr>sys := KnlSetDescToGDT 11 (gdt s (400 + t * 5 + 1)) s'\<rparr>))"
    unfolding to_task_def Let_def m1_def [symmetric] m2_def [symmetric] g bind.bind_lunit live(2) m3_def [symmetric] s3 ..
  then have m': "sse_state m' = sse_state m3" "x87 m' = x87 m3" "kernel_task_ran m' = kernel_task_ran m3"
      "tasks (sys m') = tasks s3" "running_tid (sys m') = running_tid s3"
    using r by (auto simp: Let_def fpu_free_tss fpu_free_syscall split: if_splits)
  have t3: "running_tid s3 = running_tid (sys m3)" "fpu_tasks s3 = fpu_tasks (sys m3)"
    using s3 by (auto simp: TaskmgrSetTaskRunningStatus_def fpu_tasks_def tasks_set_task fun_eq_iff split: option.splits if_splits)
  have run: "running_tid (sys m3) = running_tid (sys m)"
    by (auto simp: m3_def m2_def m1_def on_sys_def split: option.split)
  have e: "fpu_tasks (sys m') = fpu_tasks (sys m3)"
    using m'(4) t3(2) by (simp add: fpu_tasks_def fun_eq_iff)
  have used: "tk_used (tasks (sys m2) t)" "t < MAX_TASK_COUNT"
    using live(1) by (simp_all add: live_tid_def)
  have k3: "\<not> kernel_task_ran m3"
    using k by (auto simp: m3_def restore_fpu_def Let_def on_sys_def)
  show ?thesis
  proof (cases "tk_init_i387 (tasks (sys m2) t)")
    case True
    then have "fst (sse_state m2 t) = x0"
      using sv used by (simp add: saved_def fpu_tasks_def)
    then have "x87 m' = x0"
      using True m' by (simp add: m3_def restore_fpu_def Let_def)
    then show ?thesis
      using sv True by (simp add: fpu_inv_def e m' m3_def saved_def)
  next
    case False
    then have "x87 m' = x0"
      using m' by (simp add: m3_def on_sys_def)
    moreover have "fst (sse_state m' i) = x0" if "i < MAX_TASK_COUNT" "fpu_tasks (sys m') i" "i \<noteq> t" for i
      using sv that False by (auto simp: saved_def e m' m3_def on_sys_def fpu_tasks_def tasks_set_task)
    ultimately show ?thesis
      using k3 run0 by (auto simp: fpu_inv_def e m' t3 run)
  qed
qed

text \<open>C9: The timer interrupt destroys the floating point registers of every task: \<open>fnsave\<close> initialises the unit
  before \<open>fxsave\<close> stores it, and \<open>fxrstor\<close> overwrites with that image what \<open>frstor\<close> has just loaded.
  Whatever a task had in its x87 registers, whenever it is dispatched it finds the initial state there.\<close>

theorem x87_lost_on_every_switch:
  assumes "fpu_inv x0 m" and "KnlTimerInterrupt ea x0 m = Some (d, m')"
  shows "fpu_inv x0 m' \<and> (d = UserTask t \<or> d = SystemCall t \<longrightarrow> x87 m' = x0)"
proof -
  define m1 where "m1 = m\<lparr>timers := TmrIncTicks (timers m), kt_jk_lock := False\<rparr>"
  define m2 where "m2 = (if will_reset_all_exceptions m1 then (KnlResetAllExceptions ea m1)\<lparr>will_reset_all_exceptions := False\<rparr> else m1)"
  define m3 where "m3 = tick_clock m2"
  obtain tid s where n: "TskmgrGetNextTaskID (sys m3) = (tid, s)"
    by fastforce
  define m4 where "m4 = m3\<lparr>sys := s, current_tid := tid\<rparr>"
  have "fpu_view m3 = fpu_view m"
    by (simp add: m3_def m2_def m1_def tick_clock_def Let_def fpu_fields fpu_exceptions)
  then have "saved x0 (if kernel_task_ran m3 then None else running_tid (sys m3)) m3"
    using assms(1) by (auto simp: fpu_view_def fpu_inv_def saved_def fpu_tasks_def fun_eq_iff)
  then have sv: "saved x0 (if kernel_task_ran m4 then None else TaskmgrGetRunningTaskID (sys m3)) m4"
    using next_fpu(2,3) [of "sys m3"] n
    by (cases "kernel_task_ran m3") (simp_all add: saved_def m4_def fpu_tasks_def TaskmgrGetRunningTaskID_def)
  have run: "running_tid (sys m4) = tid"
    using next_fpu(1) [of "sys m3"] n by (simp add: m4_def)
  have "d = KernelTask \<and> m' = to_kernel x0 (TaskmgrGetRunningTaskID (sys m3)) m4 \<or>
    (\<exists>t. tid = Some t \<and> to_task x0 (TaskmgrGetRunningTaskID (sys m3)) t m4 = Some (d, m'))"
    using assms(2) unfolding KnlTimerInterrupt_def Let_def m1_def [symmetric] m2_def [symmetric] m3_def [symmetric] n prod.case m4_def [symmetric]
    by (auto split: option.splits if_splits)
  then show ?thesis
    using to_kernel_fpu [OF sv] to_task_fpu [OF sv] run by auto
qed

lemma machine2_next:
  obtains d m' where "KnlTimerInterrupt exc_addr0 x0 machine2 = Some (d, m')" "d = UserTask 0 \<or> d = SystemCall 0"
proof -
  obtain s' where n: "TskmgrGetNextTaskID (sys machine2) = (Some 0, s')"
    and s': "s' = set_task 0 (\<lambda>t. t\<lparr>tk_tick := tk_tick t - 1\<rparr>) (sys machine2)"
    by (auto simp: TskmgrGetNextTaskID_def machine2_tasks Let_def tasks_set_task word_sless_alt)
  have "live_tid t s' \<and> running_tid s' = Some t" if "Some 0 = Some t" for t
    using that by (simp add: s' live_tid_def MAX_TASK_COUNT_def tasks_set_task machine2_tasks)
  from interrupt_step [OF n this, of exc_addr0 x0] obtain d m' where
    "KnlTimerInterrupt exc_addr0 x0 machine2 = Some (d, m')" "d = UserTask 0 \<or> d = SystemCall 0"
    by (auto simp: s' machine2_tasks blocked_def) (simp add: machine2_def)
  then show thesis
    by (rule that)
qed

theorem x87_lost_on_every_switch_witness:
  "\<exists>d m'. KnlTimerInterrupt exc_addr0 0 machine2 = Some (d, m') \<and> (d = UserTask 0 \<or> d = SystemCall 0) \<and> x87 m' = 0 \<and>
     x87 machine2 = 7"
proof (rule machine2_next [of 0], goal_cases)
  case (1 d m')
  have "fpu_inv 0 machine2"
    by (simp add: fpu_inv_def fpu_tasks_def machine2_tasks)
  from x87_lost_on_every_switch [OF this 1(1), of 0] 1 show ?case
    by (auto simp: machine2_def)
qed

end
