(* ===== verification/Syscall_Proofs.thy ===== *)
theory Syscall_Proofs
  imports Syscalls Scheduler_Props
begin

text \<open>
  Properties of the system calls: what a task can do through them to its own memory and files, and
  what it can do to others.
\<close>

section \<open>Parameters in memory\<close>

lemma ram32_put [simp]: "ram32 a (ram_put a (map (byte32 v) [0..<4]) m) = v"
proof -
  have e: "a + 1 - a = 1" "a + 2 - a = 2" "a + 3 - a = 3" for a :: u32
    by simp_all
  have l: "[0..<4] = [0, 1, 2, 3 :: nat]"
    by (simp add: upt_rec)
  have "ram32 a (ram_put a (map (byte32 v) [0..<4]) m) =
      ucast (byte32 v 0) OR push_bit 8 (ucast (byte32 v 1)) OR push_bit 16 (ucast (byte32 v 2)) OR push_bit 24 (ucast (byte32 v 3))"
    by (simp add: ram32_def ram_put_def e l)
  also have "\<dots> = v"
    using join32 [of v] by (simp add: byte32_def)
  finally show ?thesis .
qed

lemma param_set [simp]: "param i sp (set_param i sp v s) = v"
  by (simp add: param_def set_param_def put_ram_def)

lemma set_param_frame [simp]:
  "pg_mem (set_param i sp v s) = pg_mem s" "pts (set_param i sp v s) = pts s" "tasks (set_param i sp v s) = tasks s"
  "os_fs (set_param i sp v s) = os_fs s" "fobjs (set_param i sp v s) = fobjs s" "os_mq (set_param i sp v s) = os_mq s"
  by (simp_all add: set_param_def put_ram_def)

lemma sp_tid_set: "i < 10 \<Longrightarrow> sp_tid sp (set_param i sp v s) = sp_tid sp s"
proof -
  assume i: "i < 10"
  have o: "ram_put (sp + of_nat (4 * i)) bs m (sp + of_nat (4 * 10) + of_nat j) = m (sp + of_nat (4 * 10) + of_nat j)"
    if "length bs = 4" "j < 4" for bs :: "u8 list" and m j
  proof (rule ram_put_other)
    have "sp + of_nat (4 * 10) + of_nat j - (sp + of_nat (4 * i)) = (of_nat (40 + j - 4 * i) :: u32)"
      using i by (simp add: of_nat_diff)
    moreover have "unat (of_nat (40 + j - 4 * i) :: u32) = 40 + j - 4 * i"
      using that by (intro unat_of_nat32) simp
    ultimately show "length bs \<le> unat (sp + of_nat (4 * 10) + of_nat j - (sp + of_nat (4 * i)))"
      using that i by (simp only:)
  qed
  show ?thesis
    using o [of _ 0] o [of _ 1] o [of _ 2] o [of _ 3]
    by (simp add: sp_tid_def param_def set_param_def put_ram_def ram32_def)
qed

section \<open>Memory\<close>

lemma alloc_m_eq:
  "sc_alloc_m sp s =
     (if live_tid (sp_tid sp s) s
      then map_option (\<lambda>(start, _, s'). set_param 0 sp start s') (TaskmgrAllocMemory (sp_tid sp s) (param 0 sp s) s)
      else None)"
proof (cases "live_tid (sp_tid sp s) s")
  case True
  then have g: "TskmgrGetTaskInfoPtr (sp_tid sp s) s = Some (sp_tid sp s)"
    by (simp add: TskmgrGetTaskInfoPtr_def)
  show ?thesis
    using True unfolding sc_alloc_m_def TaskmgrAllocMemory_def g Let_def
    by (cases "os_alloc (param 0 sp s) s") (auto split: option.split)
qed (simp add: sc_alloc_m_def TskmgrGetTaskInfoPtr_def)

text \<open>\<open>SCALL_ALLOC_M\<close> is \<open>TaskmgrAllocMemory\<close> for the calling task, its result in \<open>param0\<close>; for a task
  that no longer exists the handler follows a NULL pointer, where \<open>TaskmgrAllocMemory\<close> answers NULL.\<close>

theorem sc_alloc_is_TaskmgrAllocMemory:
  "sc_alloc_m sp s =
     (if live_tid (sp_tid sp s) s
      then map_option (\<lambda>(start, _, s'). set_param 0 sp start s') (TaskmgrAllocMemory (sp_tid sp s) (param 0 sp s) s)
      else None)"
  by (rule alloc_m_eq)

text \<open>The linear address of a page that the processor maps is translated as the processor does.\<close>

lemma convert_walk:
  assumes "live_tid tid s" "tables_ok (tk_real_pagedt_addr (tasks s tid)) (page_table s tid)" "task_walk s tid la = Some (pa, w)"
  shows "TaskmgrConvertLAddrToPAddr tid la s = pa"
proof -
  have "pte_index (dir_of la) (page_of la) = 1024 + unat la div 4096"
    using dir_page(3) [of la] by (simp add: pte_index)
  then show ?thesis
    using assms(3) unfolding task_walk_def page_walk_entry [OF assms(2)]
    by (simp add: TaskmgrConvertLAddrToPAddr_def assms(1) page_table_def pte_def entry_def split: if_splits)
qed

lemma first_index_least: "k < n \<Longrightarrow> P k \<Longrightarrow> \<forall>j < k. \<not> P j \<Longrightarrow> first_index P 0 n = Some k"
  using first_index_ex [of 0 k n P] first_index_SomeD [of P 0 n] by (metis le0 linorder_neqE_nat)

text \<open>\<open>SCALL_FREE_M\<close> when the translated address is the start of a block of the task.\<close>

lemma free_m_steps:
  assumes live: "live_tid tid s" "sp_tid sp s = tid"
    and inv: "mem_inv hi (pg_mem s) F U" "F \<noteq> []" "i < MBD_COUNT" "mbd_used (descs (pg_mem s) (Mbd i)) = 0"
    and ptr: "param 0 sp s = ptr" "ptr \<noteq> 0" "ptr AND 0xfff = 0" "TaskmgrConvertLAddrToPAddr tid ptr s = ph" "ph \<noteq> 0"
    and slot: "ui < MAX_TASK_MEMORY_BLOCK_COUNT" "tk_memory_block_ptrs (tasks s tid) ! ui = ph"
      "\<forall>j < ui. tk_memory_block_ptrs (tasks s tid) ! j \<noteq> ph"
    and b: "(unat ph, unat l) \<in> live_blocks (pg_mem s)" "unat ptr + unat l \<le> 2 ^ 32"
    and ok: "tables_ok (tk_real_pagedt_addr (tasks s tid)) (page_table s tid)"
  shows "\<exists>s'. sc_free_m sp s = Some s' \<and> param 0 sp s' = 1 \<and> mem_fine (pg_mem s') \<and>
    live_blocks (pg_mem s') = live_blocks (pg_mem s) - {(unat ph, unat l)} \<and>
    (\<forall>la. task_walk s' tid la = (if in_pages ptr l la then None else task_walk s tid la)) \<and>
    tasks s' = (tasks s)(tid := (tasks s tid)\<lparr>tk_memory_block_ptrs := (tk_memory_block_ptrs (tasks s tid))[ui := 0],
      tk_used_memory_size := tk_used_memory_size (tasks s tid) - MemAlign4KB l\<rparr>)"
proof -
  let ?cr3 = "tk_real_pagedt_addr (tasks s tid)"
  have fine: "mem_fine (pg_mem s)"
    using inv(1) by (auto simp: mem_fine_def)
  obtain n where n: "MemGetBlockSise_u ph (pg_mem s) = Some (n, pg_mem s)"
      "(unat ph, unat n) \<in> live_blocks (pg_mem s) \<and> n \<noteq> 0 \<or> n = 0 \<and> unat ph \<notin> fst ` live_blocks (pg_mem s)"
    using MemGetBlockSise_length [OF inv(1)] by blast
  have "unat ph \<in> fst ` live_blocks (pg_mem s)"
    using b(1) by force
  then have nl: "(unat ph, unat n) \<in> live_blocks (pg_mem s)" "n \<noteq> 0"
    using n(2) by auto
  have "n = l"
  proof (rule ccontr)
    assume "n \<noteq> l"
    then have "disj (unat ph, unat n) (unat ph, unat l)"
      using live_disj [OF fine nl(1) b(1)] by (simp add: word_unat_eq_iff)
    then show False
      using live_size [OF fine nl(1)] live_size [OF fine b(1)] by (auto simp: disj_def)
  qed
  then have size: "MemGetBlockSise_u ph (pg_mem s) = Some (l, pg_mem s)" "l \<noteq> 0"
    using n(1) nl(2) by simp_all
  obtain m where m: "MemFree_logged ph (pg_mem s) = Some (True, m)" "mem_fine m"
      "live_blocks m = live_blocks (pg_mem s) - {(unat ph, unat l)}"
    using free_releases [OF inv(1,2) b(1) inv(3,4)] by (auto simp: mem_fine_def)
  obtain t where t: "PgFreePages ptr l (pts s ?cr3) = (True, t)" "tables_ok ?cr3 t"
      "\<forall>la. page_walk ?cr3 t la = (if in_pages ptr l la then None else page_walk ?cr3 (pts s ?cr3) la)"
    using free_unmaps [OF ok [unfolded page_table_def] ptr(3) b(2)] by blast
  have fi: "first_index (\<lambda>ui. tk_memory_block_ptrs (tasks s tid) ! ui = ph) 0 MAX_TASK_MEMORY_BLOCK_COUNT = Some ui"
    using slot by (intro first_index_least) auto
  define s' where "s' = set_param 0 sp 1 ((set_task tid (\<lambda>t. t\<lparr>tk_memory_block_ptrs := (tk_memory_block_ptrs t)[ui := 0],
      tk_used_memory_size := tk_used_memory_size t - MemAlign4KB l\<rparr>) (s\<lparr>pts := (pts s)(?cr3 := t)\<rparr>))\<lparr>pg_mem := m\<rparr>)"
  have "sc_free_m sp s = Some s'"
    unfolding sc_free_m_def live(2) ptr(1) Let_def if_not_P [OF ptr(2)] ptr(4) if_not_P [OF ptr(5)]
    using live(1) fi size m t by (simp add: TskmgrGetTaskInfoPtr_def s'_def bool32_def)
  then show ?thesis
    using m t by (intro exI [of _ s']) (simp add: s'_def task_walk_def page_table_def)
qed

lemma alloc_ram: "TaskmgrAllocMemory tid len s = Some (a, ph, s') \<Longrightarrow> ram s' = ram s"
  by (auto simp: TaskmgrAllocMemory_def os_alloc_def Option.bind_eq_Some_conv Let_def split: option.splits if_splits)

lemma align_twice: "unat len \<le> 0xFFFFF000 \<Longrightarrow> MemAlign4KB (MemAlign4KB len) = MemAlign4KB len"
  and align_count: "unat len \<le> 0xFFFFF000 \<Longrightarrow> page_count (MemAlign4KB len) = page_count len"
proof -
  assume len: "unat len \<le> 0xFFFFF000"
  obtain k where k: "unat (MemAlign4KB len) = 4096 * k"
    using MemAlign4KB_spec(1) [OF len] by (auto elim: dvdE)
  show c: "page_count (MemAlign4KB len) = page_count len"
    using page_count_align [OF len] k by (simp add: page_count)
  have "4096 * k < 2 ^ 32"
    using MemAlign4KB_spec(3) [OF len] len k by simp
  then have "unat (MemAlign4KB len) \<le> 0xFFFFF000"
    using k by simp
  from page_count_align [OF this] show "MemAlign4KB (MemAlign4KB len) = MemAlign4KB len"
    using page_count_align [OF len] c by (simp add: word_unat_eq_iff)
qed

text \<open>C10: \<open>SCALL_ALLOC_M\<close> of an isolated task and a legal length that succeeds, and then \<open>SCALL_FREE_M\<close> with the same
  parameters, so for the address just handed out, gives everything back: the physical block, the pages
  of the task, and its record; the allocator is well-formed and has an unused descriptor and a free block
  in between.\<close>

theorem sc_alloc_free:
  assumes "isolated T s" "sp_tid sp s \<in> T" "mem_legal (param 0 sp s)"
    and "sc_alloc_m sp s = Some s1" "param 0 sp s1 \<noteq> 0"
    and "mem_inv hi (pg_mem s1) F U" "F \<noteq> []" "i < MBD_COUNT" "mbd_used (descs (pg_mem s1) (Mbd i)) = 0"
  shows "\<exists>s2. sc_free_m sp s1 = Some s2 \<and> param 0 sp s2 = 1 \<and> tasks s2 = tasks s \<and>
    live_blocks (pg_mem s2) = live_blocks (pg_mem s) \<and> task_walk s2 (sp_tid sp s) = task_walk s (sp_tid sp s)"
proof -
  define tid len where "tid = sp_tid sp s" and "len = param 0 sp s"
  have fine: "mem_fine (pg_mem s)" and ti: "task_iso s tid" and legal: "mem_legal len"
    using assms(1-3) by (simp_all add: isolated_def tid_def len_def)
  then have live: "live_tid tid s" and ok: "tables_ok (tk_real_pagedt_addr (tasks s tid)) (page_table s tid)"
    and z: "task_walk s tid 0 = Some (0, False)" and lp: "length (tk_memory_block_ptrs (tasks s tid)) = MAX_TASK_MEMORY_BLOCK_COUNT"
    and ow: "\<And>p. p \<in> owned (tasks s tid) \<Longrightarrow> \<exists>l. (unat p, l) \<in> live_blocks (pg_mem s)"
    by (auto simp: task_iso_def)
  have l: "unat len \<le> 0xFFFFF000"
    using legal by (simp add: mem_legal_def)
  obtain start ph s' where r: "TaskmgrAllocMemory tid len s = Some (start, ph, s')" and s1: "s1 = set_param 0 sp start s'"
    using assms(4) live unfolding alloc_m_eq tid_def len_def by auto
  have nz: "start \<noteq> 0" and tid1: "sp_tid sp s1 = tid"
    using assms(5) alloc_ram [OF r] by (simp_all add: s1 sp_tid_set) (simp add: sp_tid_def param_def tid_def)
  show ?thesis
    unfolding tid_def [symmetric]
  proof (rule alloc_memory [OF fine live ok z legal], goal_cases)
    case (1 t)
    then show ?case using r nz by simp
  next
    case (2 start' ptr s'' ui)
    have e: "start' = start" "s'' = s'"
      using 2(1) r by simp_all
    note a = 2(3-13) [unfolded e]
    define b where "b = MemAlign4KB len"
    have pz: "ptr \<noteq> 0"
      using fresh_nz [OF a(1)] .
    have first: "\<forall>j < ui. (tk_memory_block_ptrs (tasks s tid))[ui := ptr] ! j \<noteq> ptr"
    proof clarify
      fix j assume j: "j < ui" "(tk_memory_block_ptrs (tasks s tid))[ui := ptr] ! j = ptr"
      then have "ptr \<in> owned (tasks s tid)"
        using a(2) lp pz nth_mem [of j "tk_memory_block_ptrs (tasks s tid)"] by (auto simp: owned_def)
      then obtain k where "(unat ptr, k) \<in> live_blocks (pg_mem s)"
        using ow by blast
      then show False
        using fresh_start [OF a(1) 2(2) [unfolded e] subset_refl] by blast
    qed
    have range: "unat start + unat b \<le> 2 ^ 32"
    proof -
      have "4096 * (unat start div 4096 + page_count len) \<le> 2 ^ 32"
        using page_range [OF a(5,7)] by simp
      moreover have "4096 * (unat start div 4096) = unat start"
        using a(5) by (simp add: aligned_dvd)
      ultimately show ?thesis
        using page_count_align [OF l] by (simp add: b_def algebra_simps)
    qed
    have pages: "in_pages start b la = in_pages start len la" for la
      using align_count [OF l] by (simp add: in_pages_def b_def)
    have live1: "live_tid tid s1" and ok1: "tables_ok (tk_real_pagedt_addr (tasks s1 tid)) (page_table s1 tid)"
      using live a(4,9) by (simp_all add: s1 live_tid_def page_table_def)
    have walk1: "task_walk s1 tid = task_walk s' tid"
      by (simp add: s1 task_walk_def page_table_def)
    have "in_pages start len start"
      using page_count_pos [of len] legal by (simp add: in_pages_def mem_legal_def word_less_nat_alt word_unat_eq_iff)
    then have conv: "TaskmgrConvertLAddrToPAddr tid start s1 = ptr"
      using convert_walk [OF live1 ok1, of start ptr True] a(10) by (simp add: walk1)
    have "(unat ptr, unat b) \<in> live_blocks (pg_mem s1)"
      using fresh_self [OF a(1)] by (simp add: s1 b_def)
    moreover have "param 0 sp s1 = start" "tk_memory_block_ptrs (tasks s1 tid) ! ui = ptr"
      "\<forall>j < ui. tk_memory_block_ptrs (tasks s1 tid) ! j \<noteq> ptr"
      using a(2,4) first lp by (simp_all add: s1)
    ultimately obtain s2 where s2: "sc_free_m sp s1 = Some s2" "param 0 sp s2 = 1"
      "live_blocks (pg_mem s2) = live_blocks (pg_mem s1) - {(unat ptr, unat b)}"
      "\<And>la. task_walk s2 tid la = (if in_pages start b la then None else task_walk s1 tid la)"
      "tasks s2 = (tasks s1)(tid := (tasks s1 tid)\<lparr>tk_memory_block_ptrs := (tk_memory_block_ptrs (tasks s1 tid))[ui := 0],
        tk_used_memory_size := tk_used_memory_size (tasks s1 tid) - MemAlign4KB b\<rparr>)"
      using free_m_steps [OF live1 tid1 assms(6-9) _ nz a(5) conv pz a(2) _ _ _ range ok1] by metis
    have "(unat ptr, unat b) \<notin> live_blocks (pg_mem s)"
      using fresh_start [OF a(1) 2(2) [unfolded e] subset_refl, of ptr] by blast
    then have "live_blocks (pg_mem s2) = live_blocks (pg_mem s)"
      using s2(3) a(1) by (auto simp: s1 fresh_block_def b_def)
    moreover have "tasks s2 = tasks s"
    proof -
      have "(tk_memory_block_ptrs (tasks s tid))[ui := 0] = tk_memory_block_ptrs (tasks s tid)"
        using a(3) list_update_id [of "tk_memory_block_ptrs (tasks s tid)" ui] by simp
      then have "tasks s tid = (tasks s tid)\<lparr>tk_memory_block_ptrs := (tk_memory_block_ptrs (tasks s tid))[ui := 0]\<rparr>"
        by simp
      then show ?thesis
        unfolding s2(5) using a(4) align_twice [OF l] by (simp add: s1 b_def fun_upd_idem_iff)
    qed
    moreover have "task_walk s2 tid = task_walk s tid"
    proof
      fix la show "task_walk s2 tid la = task_walk s tid la"
        using s2(4) [of la] a(8) [of la] a(10) [of la] by (simp add: pages walk1)
    qed
    ultimately show ?case
      using s2(1,2) by blast
  qed
qed

text \<open>C11: \<open>SCALL_FREE_M\<close> does not check that the page at the address is mapped: when a task passes the
  \<^emph>\<open>physical\<close> address of one of its blocks, and the page there was never mapped, so that its table entry still
  holds the address itself, the call succeeds and the block is free for others, but the task keeps the
  mapping through which it reads and writes it.\<close>

theorem sc_free_by_physical_address:
  assumes "mem_inv hi (pg_mem s) F U" "F \<noteq> []" "i < MBD_COUNT" "mbd_used (descs (pg_mem s) (Mbd i)) = 0"
    and "live_tid (sp_tid sp s) s" "tables_ok (tk_real_pagedt_addr (tasks s (sp_tid sp s))) (page_table s (sp_tid sp s))"
    and "ui < MAX_TASK_MEMORY_BLOCK_COUNT" "tk_memory_block_ptrs (tasks s (sp_tid sp s)) ! ui = ph"
      "\<forall>j < ui. tk_memory_block_ptrs (tasks s (sp_tid sp s)) ! j \<noteq> ph"
    and "(unat ph, unat l) \<in> live_blocks (pg_mem s)" "ph \<noteq> 0" "ph AND 0xfff = 0" "unat ph + unat l \<le> 2 ^ 32"
    and "task_walk s (sp_tid sp s) la = Some (ph, w)" "\<not> in_pages ph l la"
    and "TaskmgrConvertLAddrToPAddr (sp_tid sp s) ph s = ph" "param 0 sp s = ph"
  shows "\<exists>s'. sc_free_m sp s = Some s' \<and> param 0 sp s' = 1 \<and> (unat ph, unat l) \<notin> live_blocks (pg_mem s') \<and>
    task_walk s' (sp_tid sp s) la = Some (ph, w)"
  using free_m_steps [OF assms(5) refl assms(1-4) assms(17,11,12,16,11,7,8,9,10,13,6)] assms(14,15) by fastforce

section \<open>Who is calling\<close>

lemma ram32_bytes: "ram32 a m = v \<longleftrightarrow> (\<forall>n < 4. m (a + of_nat n) = byte32 v n)"
proof -
  have b: "rd32 (\<lambda>n. m (a + of_nat n)) 0 = ram32 a m"
    by (simp add: rd32_def ram32_def)
  show ?thesis
    using rd32_bytes [of "\<lambda>n. m (a + of_nat n)" 0 v] unfolding b by simp
qed

lemma phys_walk: "phys r la s = map_option fst (task_walk s r la)"
  by (simp add: phys_def task_walk_def page_table_def Let_def)

lemma phys_put_ram [simp]: "phys r la (put_ram a bs s) = phys r la s"
  by (simp add: phys_def put_ram_def)

lemma store_user_bytes:
  assumes "\<forall>n \<in> set ns. task_walk s r (f n) \<noteq> None"
  shows "\<exists>m. each (\<lambda>n s. do { b \<leftarrow> phys r (f n) s; Some (put_ram b [g n] s) }) ns s = Some (s\<lparr>ram := m\<rparr>)"
  using assms
proof (induction ns arbitrary: s)
  case Nil
  show ?case
    by (simp add: exI [of _ "ram s"])
next
  case (Cons n ns)
  obtain b where b: "phys r (f n) s = Some b"
    using Cons.prems by (cases "task_walk s r (f n)") (auto simp: phys_walk)
  have "\<forall>n \<in> set ns. task_walk (put_ram b [g n] s) r (f n) \<noteq> None" for g
    using Cons.prems by (simp add: put_ram_def task_walk_def page_table_def)
  from Cons.IH [OF this [of "\<lambda>_. g n"]] show ?case
    using b by (auto simp: put_ram_def)
qed

text \<open>C12: The task id that the system call interrupt trusts is in the first page of the task, which the page tables
  protect from the task itself, but not from the kernel on its behalf: \<open>SCALL_GET_PARAM\<close> with 0x1000000 as its
  buffer stores the task's own command line there, and from then on its system calls are
  executed as those of the task that the first four bytes name.\<close>

theorem sc_get_param_forges_tid:
  assumes "live_tid r s" "sp_tid sp s = r" "tables_ok (tk_real_pagedt_addr (tasks s r)) (page_table s r)"
    and "task_walk s r 0x1000000 = Some (a, w)" "param 0 sp s = 0x1000000"
    and "b < MAX_TASK_COUNT" "take 4 (param_bytes env (tk_param (tasks s r))) = map (byte32 (of_nat b)) [0..<4]"
    and "\<forall>n < 4. task_walk s r (edx + 40 + of_nat n) \<noteq> None"
  shows "\<exists>s' s''. sc_get_param env sp s = Some s' \<and> KnlSystemCallInterrupt ka r eax edx s' = Some (b, s'')"
proof -
  let ?bs = "param_bytes env (tk_param (tasks s r))"
  define s' where "s' = put_ram a ?bs s"
  have c: "user_ptr 0 sp s = a"
    using convert_walk [OF assms(1,3,4)] by (simp add: user_ptr_def assms(2,5))
  have g: "sc_get_param env sp s = Some s'"
    using assms(1,2) by (simp add: sc_get_param_def c TskmgrGetTaskInfo_def s'_def)
  have len: "length ?bs = 1024"
    by (simp add: param_bytes_def)
  have "ram s' (a + of_nat n) = byte32 (of_nat b) n" if "n < 4" for n
  proof -
    have "ram s' (a + of_nat n) = ?bs ! n"
      using that len by (simp add: s'_def put_ram_def ram_put_at)
    also have "\<dots> = take 4 ?bs ! n"
      using that by simp
    also have "\<dots> = byte32 (of_nat b) n"
      unfolding assms(7) using that by simp
    finally show ?thesis .
  qed
  then have t: "ram32 a (ram s') = of_nat b"
    by (simp add: ram32_bytes)
  have w: "task_walk s' r la = task_walk s r la" for la
    by (simp add: s'_def put_ram_def task_walk_def page_table_def)
  have p: "phys r 0x1000000 s' = Some a"
    by (simp add: phys_walk w assms(4))
  obtain m where m: "each (\<lambda>n s. do { ba \<leftarrow> phys r (edx + 40 + of_nat n) s; Some (put_ram ba [byte32 (of_nat b) n] s) }) [0..<4] s' = Some (s'\<lparr>ram := m\<rparr>)"
    using store_user_bytes [of "[0..<4]" s' r "\<lambda>n. edx + 40 + of_nat n" "byte32 (of_nat b)"] assms(8) by (auto simp: w)
  have u: "unat (of_nat b :: u32) = b"
    using assms(6) by (intro unat_of_nat32) (simp add: MAX_TASK_COUNT_def)
  show ?thesis
    using g p m t u assms(6) by (simp add: KnlSystemCallInterrupt_def Let_def)
qed

section \<open>Files\<close>

definition file_call :: "u32 \<Rightarrow> bool" where
  "file_call func \<longleftrightarrow> func \<in> {1, 2, 3, 4, 5, 14, 15, 16, 23}"



text \<open>NULL passes for an open file as long as the task has a free entry, because free entries are
  NULL: every one of these calls but closing and appending then follows the NULL pointer.\<close>

theorem sc_null_file_accepted:
  assumes "live_tid (sp_tid sp s) s" "ui < MAX_TASK_OPENED_FILE_COUNT" "tk_opened_file_ptrs (tasks s (sp_tid sp s)) ! ui = None"
    and "param 0 sp s = 0" "file_call func" "func \<noteq> 1" "func \<noteq> 4"
  shows "ScFsCheckPrivilege (sp_tid sp s) None s \<and> ScFsProcess env func sp s = None"
proof -
  have "\<exists>k. ptr_slot (sp_tid sp s) None s = Some k"
    unfolding ptr_slot_def using assms(2,3) by (intro first_index_ex) auto
  then have p: "ScFsCheckPrivilege (sp_tid sp s) None s"
    using assms(1) by (auto simp: ScFsCheckPrivilege_def TskmgrGetTaskInfoPtr_def)
  have "sp_file sp s = None"
    using assms(4) by (simp add: sp_file_def of_ptr_def)
  then have "ScFsProcess env func sp s = None"
    using assms(5-7) p unfolding file_call_def
    by (auto simp: ScFsProcess_def Let_def sc_fwrite_def sc_fread_def sc_freset_def sc_flen_def sc_fdate_def sc_feof_def with_file_def)
  with p show ?thesis ..
qed

section \<open>Messages\<close>

lemma ram_get_append: "ram_get a (n + k) m = ram_get a n m @ ram_get (a + of_nat n) k m"
proof -
  have "[0..<n + k] = [0..<n] @ map (\<lambda>i. i + n) [0..<k]"
    unfolding map_add_upt using upt_add_eq_append [of 0 n k] by (simp add: add.commute)
  then show ?thesis
    by (simp add: ram_get_def ac_simps)
qed

lemma bytes_of_ram32: "map (byte32 (ram32 a m)) [0..<4] = ram_get a 4 m"
  using ram32_bytes [of a m "ram32 a m"] by (simp add: ram_get_def)

lemma bytes_of_ram64: "map (\<lambda>n. ucast (drop_bit (8 * n) (ram64 a m))) [0..<8] = ram_get a 8 m"
proof -
  have lo: "(ucast (drop_bit (8 * n) (ram64 a m)) :: u8) = byte32 (ram32 a m) n" if "n < 4" for n
    using that by (intro bit_word_eqI) (auto simp: ram64_def byte32_def bit_simps)
  have hi: "(ucast (drop_bit (8 * (4 + n)) (ram64 a m)) :: u8) = byte32 (ram32 (a + 4) m) n" if "n < 4" for n
    using that by (intro bit_word_eqI) (auto simp: ram64_def byte32_def bit_simps dest: bit_imp_le_length)
  have "[0..<8] = [0..<4] @ map (\<lambda>n. 4 + n) [0..<4 :: nat]"
    by (simp add: upt_rec)
  then have "map (\<lambda>n. (ucast (drop_bit (8 * n) (ram64 a m)) :: u8)) [0..<8] = map (byte32 (ram32 a m)) [0..<4] @ map (byte32 (ram32 (a + 4) m)) [0..<4]"
    using lo hi by simp
  also have "\<dots> = ram_get a 8 m"
    using ram_get_append [of a 4 4 m] by (simp add: bytes_of_ram32)
  finally show ?thesis .
qed

lemma concat_ram: "concat (map (\<lambda>i. ram_get (a + of_nat (8 * i)) 8 m) [0..<k]) = ram_get a (8 * k) m"
proof (induction k)
  case (Suc k)
  have "8 * Suc k = 8 * k + 8"
    by simp
  then show ?case
    using Suc ram_get_append [of a "8 * k" 8 m] by (simp only: upt_Suc_append map_append concat_append le0) simp
qed (simp add: ram_get_def)

text \<open>\<open>MQueueMessage\<close> through \<open>memcpy\<close>: the bytes of a message that was read from memory are the bytes there.\<close>

lemma message_bytes_get: "message_bytes (get_message a m) = ram_get a (88 + MESSAGE_BYTES) m"
proof -
  have c: "concat (map (\<lambda>p. map (\<lambda>n. ucast (drop_bit (8 * n) p)) [0..<8]) (mg_params (get_message a m))) = ram_get (a + 8) 80 m"
    using concat_ram [of "a + 8" m 10] by (simp add: get_message_def o_def bytes_of_ram64)
  show ?thesis
    unfolding message_bytes_def c
    using ram_get_append [of a 4 "84 + MESSAGE_BYTES" m] ram_get_append [of "a + 4" 4 "80 + MESSAGE_BYTES" m]
      ram_get_append [of "a + 8" 80 MESSAGE_BYTES m]
    by (simp add: get_message_def bytes_of_ram32 add.commute [of a])
qed

text \<open>C14: A message that a client pushes to a named queue, whose channel is empty, is what the server of the queue gets
  with its next pop: all 1112 bytes arrive as they were, in whatever task the server is and whatever happens in
  between that leaves the queues alone.\<close>

theorem sc_message_delivered:
  fixes s :: "'h os"
  assumes "user_str 0 sp s = Some (Some name)" "MqGetPtrByName (Some name) (os_mq s) = Some (Some q)"
    and "mq_out (mq_objs (os_mq s) q) = Some l" "chan (os_mq s) l ps []" "answers (os_mq s) = Some a # Some n # rest"
    and "user_ptr 1 sp s \<noteq> 0"
  shows "\<exists>s1. sc_mqueue_c_push sp s = Some s1 \<and> param 0 sp s1 = 1 \<and>
    (\<forall>(s2 :: 'h os) sp2. os_mq s2 = os_mq s1 \<and> of_ptr (param 0 sp2 s2) = Some q \<and>
        (\<forall>i < 88 + MESSAGE_BYTES. 4 \<le> unat (user_ptr 1 sp2 s2 + of_nat i - sp2)) \<longrightarrow>
      (\<exists>s3. sc_mqueue_s_pop sp2 s2 = Some s3 \<and> param 0 sp2 s3 = 1 \<and>
        (\<forall>i < 88 + MESSAGE_BYTES. ram s3 (user_ptr 1 sp2 s2 + of_nat i) = ram s (user_ptr 1 sp s + of_nat i))))"
proof -
  define msg where "msg = get_message (user_ptr 1 sp s) (ram s)"
  have ps: "ps = []"
    using chan_length [OF assms(4)] by simp
  obtain mq where mq: "MqAddMessage_to (Some l) (Some msg) (os_mq s) = (True, mq)" "chan mq l [n] [(a, msg)]"
      "mq_objs mq = mq_objs (os_mq s)"
    using add_message_spec [OF assms(4) _ assms(5)] ps by auto
  define s1 where "s1 = set_param 0 sp 1 (s\<lparr>os_mq := mq\<rparr>)"
  have push: "sc_mqueue_c_push sp s = Some s1"
    using assms(1,2,3,6) mq(1) [unfolded msg_def]
    by (simp add: sc_mqueue_c_push_def MqAddMessage_def message_at_def mq_channel_def MQUEUE_IN_def MQUEUE_OUT_def
        s1_def bool32_def)
  have pop: "\<exists>s3. sc_mqueue_s_pop sp2 s2 = Some s3 \<and> param 0 sp2 s3 = 1 \<and>
        (\<forall>i < 88 + MESSAGE_BYTES. ram s3 (user_ptr 1 sp2 s2 + of_nat i) = ram s (user_ptr 1 sp s + of_nat i))"
    if p: "os_mq s2 = os_mq s1" "of_ptr (param 0 sp2 s2) = Some q"
      "\<forall>i < 88 + MESSAGE_BYTES. 4 \<le> unat (user_ptr 1 sp2 s2 + of_nat i - sp2)" for s2 :: "'h os" and sp2
  proof -
    let ?b = "user_ptr 1 sp2 s2"
    obtain mq' where mq': "MqPopMessage_from (Some l) mq = Some (Some a, mq')" "mq_msgs mq' = mq_msgs mq"
      using pop_message_spec [OF mq(2)] by blast
    have "mq_msgs mq a = msg"
      using mq(2) by (simp add: chan_def)
    then have bytes: "message_bytes (mq_msgs mq' a) = ram_get (user_ptr 1 sp s) (88 + MESSAGE_BYTES) (ram s)"
      by (simp add: mq'(2) msg_def message_bytes_get)
    define s3 where "s3 = deliver sp2 ?b (Some a) (s2\<lparr>os_mq := mq'\<rparr>)"
    have "sc_mqueue_s_pop sp2 s2 = Some s3"
      using p(1,2) mq(3) mq'(1) assms(3)
      by (simp add: sc_mqueue_s_pop_def MqPopMessage_def mq_channel_def MQUEUE_IN_def MQUEUE_OUT_def s1_def s3_def)
    moreover have "param 0 sp2 s3 = 1"
      by (simp add: s3_def deliver_def)
    moreover have "ram s3 (?b + of_nat i) = ram s (user_ptr 1 sp s + of_nat i)" if i: "i < 88 + MESSAGE_BYTES" for i
    proof -
      have "ram s3 (?b + of_nat i) = ram_put ?b (ram_get (user_ptr 1 sp s) (88 + MESSAGE_BYTES) (ram s)) (ram s2) (?b + of_nat i)"
        using p(3) i by (simp add: s3_def deliver_def set_param_def put_ram_def bytes ram_put_other)
      also have "\<dots> = ram s (user_ptr 1 sp s + of_nat i)"
        using i by (subst ram_put_at) (simp_all add: ram_get_def MESSAGE_BYTES_def)
      finally show ?thesis .
    qed
    ultimately show ?thesis
      by blast
  qed
  have one: "param 0 sp s1 = 1"
    by (simp add: s1_def)
  show ?thesis
    by (rule exI [of _ s1]) (use push one pop in blast)
qed

section \<open>A task to instantiate the properties with\<close>

lemma mem64_block:
  obtains m1 m2 m3 m4 where
    "MemAlloc_logged SYSCALL_PROCEDURE_STACK_SIZE mem64 = Some (0x1000000, m1)"
    "MemAlloc_logged (TASK_SPACE + 5) m1 = Some (0x1100000, m2)"
    "MemAlloc_logged PAGEDT_SIZE m2 = Some (0x1401000, m3)"
    "MemAlloc_logged 5000 m3 = Some (0x1804000, m4)" "mem_ready m4" "mbd_used (descs m4 (Mbd 1)) = 0"
  by (simp add: mem64_def mem_eval MemAlloc_logged_def SYSCALL_PROCEDURE_STACK_SIZE_def TASK_SPACE_def PAGEDT_SIZE_def mem_ready_def)

lemma map_other: "start AND 0xfff = 0 \<Longrightarrow> len \<noteq> 0 \<Longrightarrow> unat start div 4096 + page_count len \<le> k \<Longrightarrow>
    pte (snd (PgMapUserPageTableWithPermission start len real rw t)) k = pte t k"
  using map_pte(2) [of start len real rw t "fst (PgMapUserPageTableWithPermission start len real rw t)"] by simp

lemma fill_pte: "k < 1048576 \<Longrightarrow> pte (fill_tables cr3 p t) k = table_item (of_nat k) 0 0 US_USER RW_RWE p"
  by (simp add: pte_def fill_tables_def TABLE_ITEM_COUNT_def)

text \<open>A task of five bytes, with the pages from 0x1301 on never mapped.\<close>

lemma one_task:
  obtains s m where "isolated {0} (s :: unit os)" "live_tid 0 s" "tk_memory_block_ptrs (tasks s 0) = replicate MAX_TASK_MEMORY_BLOCK_COUNT 0"
    "tk_opened_file_ptrs (tasks s 0) = replicate MAX_TASK_OPENED_FILE_COUNT None" "tk_param (tasks s 0) = []"
    "MemAlloc_logged 5000 (pg_mem s) = Some (0x1804000, m)" "mem_ready m" "mbd_used (descs m (Mbd 1)) = 0"
    "\<And>k. 0x1301 \<le> k \<Longrightarrow> k < 1048576 \<Longrightarrow> pte (page_table s 0) k = table_item (of_nat k) 0 0 US_USER RW_RWE P_INVALID"
    "\<And>la. 0x1000000 \<le> la \<Longrightarrow> la < 0x1301000 \<Longrightarrow> task_walk s 0 la \<noteq> None" "task_walk s 0 0x1000000 = Some (0x1100000, False)"
proof (rule mem64_block, goal_cases)
  case m: (1 m1 m2 m3 m4)
  have "first_index (\<lambda>ui. \<not> tk_used (tasks os0 ui) \<and> tk_allocable (tasks os0 ui)) 0 MAX_TASK_COUNT = Some 0"
    by (simp add: first_index_here MAX_TASK_COUNT_def os0_def task0_def)
  from create_task_ok [OF disjI1 [OF refl] _ this, of 5] m
  obtain s where s: "create5 os0 = Some (Some 0, s)" "pg_mem s = m3"
      "tasks s = (tasks os0)(0 := new_task 0 ''a'' [] 5 ''VA:/'' TASK_TYPE_USER 0x1100000 0x1401000 0x1402000 (tasks os0 0))"
    by (force simp: os0_def MAX_APP_LEN_def)
  have iso: "isolated {0} s"
    using isolated_create [OF _ s(1), of "{}"] os0_fine by (simp add: isolated_def)
  have pts: "pts s 0x1402000 = map_task (TASK_SPACE + 5) 0x1100000 (fill_tables 0x1402000 P_INVALID (pts os0 0x1402000))"
  proof (rule create_task_steps [OF s(1)], goal_cases)
    case (1 stack addr p n1 n2 n3)
    then show ?case
      using m by (simp add: os0_def)
  qed
  have pg: "pte (page_table s 0) k = table_item (of_nat k) 0 0 US_USER RW_RWE P_INVALID" if k: "0x1301 \<le> k" "k < 1048576" for k
  proof -
    have c: "page_count 0x300005 = 0x301" "page_count 0x1000000 = 0x1000" "page_count 4096 = 1"
      by (simp_all add: page_count)
    have "page_table s 0 = map_task (TASK_SPACE + 5) 0x1100000 (fill_tables 0x1402000 P_INVALID (pts os0 0x1402000))"
      by (simp add: page_table_def s(3) new_task_def pts)
    then show ?thesis
      using k by (simp add: map_task_def map_other c fill_pte TASK_SPACE_def)
  qed
  have w: "task_walk s 0 la \<noteq> None" if "0x1000000 \<le> la" "la < 0x1301000" for la
  proof (rule create_task_memory [OF os0_fine s(1)], goal_cases)
    case (1 stack addr p n1 n2)
    then show ?case
      using that by (auto simp: 1(11) MemAlign4KB_def TASK_SPACE_def word_less_nat_alt)
  qed
  have w0: "task_walk s 0 0x1000000 = Some (0x1100000, False)"
  proof (rule create_task_memory [OF os0_fine s(1)], goal_cases)
    case (1 stack addr p n1 n2)
    have "addr = tk_addr (tasks s 0)"
      unfolding 1(8) by (simp add: new_task_def)
    also have "\<dots> = 0x1100000"
      unfolding s(3) by (simp add: new_task_def)
    finally show ?case
      by (simp add: 1(11))
  qed
  show ?case
  proof (rule m(1) [OF iso], goal_cases)
    case (8 k)
    then show ?case by (rule pg)
  qed (use iso m s w w0 in \<open>simp_all add: isolated_def task_iso_def new_task_def reset_task_def clip_def\<close>)
qed

text \<open>The parameters of a call of task 0, at 0x3000000.\<close>

definition call0 :: "u32 \<Rightarrow> 'h os \<Rightarrow> 'h os" where
  "call0 v s = set_param 10 0x3000000 0 (set_param 0 0x3000000 v s)"

lemma call0 [simp]:
  "param 0 0x3000000 (call0 v s) = v" "sp_tid 0x3000000 (call0 v s) = 0" "pg_mem (call0 v s) = pg_mem s" "pts (call0 v s) = pts s"
  "tasks (call0 v s) = tasks s" "isolated T (call0 v s) = isolated T s" "task_walk (call0 v s) i = task_walk s i"
  "live_tid i (call0 v s) = live_tid i s" "page_table (call0 v s) i = page_table s i"
  "TaskmgrConvertLAddrToPAddr i la (call0 v s) = TaskmgrConvertLAddrToPAddr i la s"
proof -
  have "ram32 0x3000000 (ram_put 0x3000028 bs m) = ram32 0x3000000 m" if "length bs = 4" for bs :: "u8 list" and m
    using that by (simp add: ram32_def ram_put_def)
  then show "param 0 0x3000000 (call0 v s) = v"
    by (simp add: call0_def param_def set_param_def put_ram_def)
  show "sp_tid 0x3000000 (call0 v s) = 0"
    by (simp add: call0_def sp_tid_def)
  show f: "pg_mem (call0 v s) = pg_mem s" "pts (call0 v s) = pts s" "tasks (call0 v s) = tasks s"
    by (simp_all add: call0_def)
  then show w: "task_walk (call0 v s) i = task_walk s i" "live_tid i (call0 v s) = live_tid i s" "page_table (call0 v s) i = page_table s i" for i
    by (simp_all add: task_walk_def page_table_def live_tid_def)
  show "TaskmgrConvertLAddrToPAddr i la (call0 v s) = TaskmgrConvertLAddrToPAddr i la s"
    by (simp add: TaskmgrConvertLAddrToPAddr_def f w)
  show "isolated T (call0 v s) = isolated T s"
    by (simp add: isolated_def task_iso_def f w)
qed

text \<open>It gets two pages at 0x1301000 for the block at 0x1804000.\<close>

lemma one_alloc:
  obtains s s1 s2 where "isolated {0} (s :: unit os)" "live_tid 0 s" "sc_alloc_m 0x3000000 (call0 5000 s) = Some s1"
    "TaskmgrAllocMemory 0 5000 (call0 5000 s) = Some (0x1301000, Some 0x1804000, s2)" "s1 = set_param 0 0x3000000 0x1301000 s2"
    "sp_tid 0x3000000 s1 = 0" "mem_ready (pg_mem s2)" "mbd_used (descs (pg_mem s2) (Mbd 1)) = 0" "isolated {0} s2"
    "fresh_block 0x1804000 5000 (pg_mem s) (pg_mem s2)" "tk_memory_block_ptrs (tasks s2 0) ! 0 = 0x1804000"
    "page_table s2 0 = snd (PgMapUserPageTableWithPermission 0x1301000 5000 0x1804000 RW_RWE (page_table s 0))"
    "tk_real_pagedt_addr (tasks s2 0) = tk_real_pagedt_addr (tasks s 0)"
    "\<And>k. 0x1301 \<le> k \<Longrightarrow> k < 1048576 \<Longrightarrow> pte (page_table s 0) k = table_item (of_nat k) 0 0 US_USER RW_RWE P_INVALID"
proof (rule one_task, goal_cases)
  case o: (1 s m)
  let ?cr3 = "tk_real_pagedt_addr (tasks s 0)"
  have iso: "task_iso s 0"
    using o(2) by (simp add: isolated_def)
  have ok: "tables_ok ?cr3 (page_table s 0)"
    using iso unfolding task_iso_def by blast
  have low: "la < 0x1000000 \<Longrightarrow> task_walk s 0 la = Some (la, False)" for la
    using iso unfolding task_iso_def by blast
  have z: "pte (pts s ?cr3) 0 AND 1 \<noteq> 0"
    using pte_walk [OF ok] low [of 0] by (simp add: task_walk_def page_table_def)
  have c: "page_count 5000 = 2"
    by (simp add: page_count)
  have run: "free_run (pts s ?cr3) 0x1301 2"
    using o(10) table_item_valid [of P_INVALID RW_RWE] by (simp add: free_run_def page_table_def P_INVALID_def RW_RWE_def)
  then obtain a where a: "PgFindFreePages 5000 (pts s ?cr3) = Some a"
    using find_first_run [OF z, of 5000] by (cases "PgFindFreePages 5000 (pts s ?cr3)") (auto simp: c)
  then obtain k where k: "unat a = k * 4096" "k + 2 \<le> 1048576" "free_run (pts s ?cr3) k 2" "\<forall>i < k. \<not> free_run (pts s ?cr3) i 2"
    using find_first_run [OF z, of 5000] by (auto simp: c)
  have "pte (page_table s 0) k AND 1 = 0"
    using k(3) spec [of "\<lambda>j. j < 2 \<longrightarrow> pte (page_table s 0) (k + j) AND 1 = 0" 0] by (simp add: free_run_def page_table_def)
  then have "task_walk s 0 a = None"
    using k(1) unfolding task_walk_def page_walk_entry [OF ok] by (simp add: entry_def)
  then have "a < 0x1301000 \<Longrightarrow> False"
    using low [of a] o(11) [of a] by (cases "a < 0x1000000") (auto simp: not_less)
  then have "\<not> a < 0x1301000"
    by blast
  then have "0x1301 \<le> k"
    using k(1) by (simp add: word_less_nat_alt)
  moreover have "k \<le> 0x1301"
    using k(4) run by (meson not_less)
  ultimately have "a = 0x1301000"
    using k(1) by (simp add: word_unat_eq_iff)
  note a = a [unfolded this]
  have slot: "free_block_slot (tasks s 0) = Some 0"
    by (simp add: free_block_slot_def o(4) first_index_here MAX_TASK_MEMORY_BLOCK_COUNT_def)
  obtain s2 where s2: "TaskmgrAllocMemory 0 5000 (call0 5000 s) = Some (0x1301000, Some 0x1804000, s2)" "pg_mem s2 = m"
      "page_table s2 0 = snd (PgMapUserPageTableWithPermission 0x1301000 5000 0x1804000 RW_RWE (page_table s 0))"
      "tk_real_pagedt_addr (tasks s2 0) = ?cr3" "tk_memory_block_ptrs (tasks s2 0) ! 0 = 0x1804000"
    using o(3,4,7) a slot
    by (simp add: TaskmgrAllocMemory_def TskmgrGetTaskInfoPtr_def os_alloc_def Let_def page_table_def MAX_TASK_MEMORY_BLOCK_COUNT_def)
  have legal: "mem_legal 5000"
    by (simp add: mem_legal_def)
  have "isolated {0} s2"
    using isolated_alloc [OF _ _ legal s2(1), of "{0}"] o(2) by simp
  moreover have "fresh_block 0x1804000 5000 (pg_mem s) m"
    using alloc_fresh(2) [OF _ legal o(7)] o(2) by (simp add: isolated_def)
  moreover have "sc_alloc_m 0x3000000 (call0 5000 s) = Some (set_param 0 0x3000000 0x1301000 s2)"
    using o(3) s2(1) by (simp add: alloc_m_eq)
  moreover have "sp_tid 0x3000000 (set_param 0 0x3000000 0x1301000 s2) = 0"
    using alloc_ram [OF s2(1)] sp_tid_set [of 0 "0x3000000" "0x1301000" s2] call0(2) [of 5000 s] by (simp add: sp_tid_def param_def)
  ultimately show ?case
    using o(2,3,8,9,10) s2 by (intro o(1) [of s "set_param 0 0x3000000 0x1301000 s2" s2]) simp_all
qed

theorem sc_alloc_free_witness:
  "\<exists>(s :: unit os) s1 s2. sc_alloc_m 0x3000000 s = Some s1 \<and> param 0 0x3000000 s1 = 0x1301000 \<and> sc_free_m 0x3000000 s1 = Some s2 \<and>
     param 0 0x3000000 s2 = 1 \<and> tasks s2 = tasks s \<and> live_blocks (pg_mem s2) = live_blocks (pg_mem s) \<and> task_walk s2 0 = task_walk s 0"
proof (rule one_alloc, goal_cases)
  case o: (1 s s1 s2)
  obtain hi F U where inv: "mem_inv hi (pg_mem s2) F U" "F \<noteq> []"
    using o(7,9) mem_ready_list by (auto simp: isolated_def mem_fine_def)
  have "isolated {0} (call0 5000 s)" "sp_tid 0x3000000 (call0 5000 s) \<in> {0}" "mem_legal (param 0 0x3000000 (call0 5000 s))"
    using o(1) by (simp_all add: mem_legal_def)
  from sc_alloc_free [OF this o(3), of hi F U 1] obtain s3 where "sc_free_m 0x3000000 s1 = Some s3" "param 0 0x3000000 s3 = 1"
    "tasks s3 = tasks s" "live_blocks (pg_mem s3) = live_blocks (pg_mem s)" "task_walk s3 0 = task_walk s 0"
    using o(5,8) inv by (auto simp: MBD_COUNT_def MBDT_LENGTH_def)
  then show ?case
    using o(3,5) by (intro exI [of _ "call0 5000 s"] exI [of _ s1] exI [of _ s3]) simp
qed

theorem sc_free_by_physical_address_witness:
  "\<exists>(s :: unit os) s'. sc_free_m 0x3000000 s = Some s' \<and> param 0 0x3000000 s' = 1 \<and>
     (0x1804000, 8192) \<in> live_blocks (pg_mem s) \<and> (0x1804000, 8192) \<notin> live_blocks (pg_mem s') \<and>
     task_walk s' 0 0x1301000 = Some (0x1804000, True)"
proof (rule one_alloc, goal_cases)
  case o: (1 s s1 s2)
  obtain hi F U where inv: "mem_inv hi (pg_mem s2) F U" "F \<noteq> []"
    using o(7,9) mem_ready_list by (auto simp: isolated_def mem_fine_def)
  have "task_iso s 0" "task_iso s2 0"
    using o(1,9) by (simp_all add: isolated_def)
  then have ok: "tables_ok (tk_real_pagedt_addr (tasks s 0)) (page_table s 0)" "tables_ok (tk_real_pagedt_addr (tasks s2 0)) (page_table s2 0)"
    and live: "live_tid 0 s2"
    unfolding task_iso_def by blast+
  have w: "task_walk s2 0 0x1301000 = Some (0x1804000, True)"
    using map_translates [OF ok(1), of "0x1301000" "0x1804000" 5000 RW_RWE]
    by (auto simp: task_walk_def o(12,13) in_pages_def page_count)
  have "pte (page_table s2 0) 0x1804 = table_item (drop_bit 12 0x1804000) 0 0 US_USER RW_RWE P_INVALID"
    using o(14) [of "0x1804"] map_other [of "0x1301000" 5000 "0x1804" "0x1804000" RW_RWE "page_table s 0"]
    by (simp add: o(12) page_count)
  then have "TaskmgrConvertLAddrToPAddr 0 0x1804000 s2 = 0x1804000"
    using live table_item_frame [of P_INVALID RW_RWE "0x1804000"]
    by (simp add: TaskmgrConvertLAddrToPAddr_def page_table_def pte_def dir_of page_of pte_index P_INVALID_def RW_RWE_def)
  moreover have "(0x1804000, 8192) \<in> live_blocks (pg_mem s2)"
    using o(10) by (simp add: fresh_block_def MemAlign4KB_def)
  moreover have "\<not> in_pages 0x1804000 8192 0x1301000"
    by (simp add: in_pages_def)
  ultimately obtain s' where "sc_free_m 0x3000000 (call0 0x1804000 s2) = Some s'" "param 0 0x3000000 s' = 1"
      "(0x1804000, 8192) \<notin> live_blocks (pg_mem s')" "task_walk s' 0 0x1301000 = Some (0x1804000, True)"
    using sc_free_by_physical_address [of hi "call0 0x1804000 s2" F U 1 "0x3000000" 0 "0x1804000" 8192 "0x1301000" True]
      inv o(8,11) live ok(2) w by (auto simp: MBD_COUNT_def MBDT_LENGTH_def MAX_TASK_MEMORY_BLOCK_COUNT_def)
  then show ?case
    using o(10) by (intro exI [of _ "call0 0x1804000 s2"] exI [of _ s']) (simp add: fresh_block_def MemAlign4KB_def)
qed

definition env0 :: "(unit, unit) scenv" where
  "env0 = \<lparr>e_drv = no_hw, e_dt = rd_dt (\<lambda>_. 0) 0, e_ka = kaddr0, e_depth = 8, e_call = (\<lambda>_ s. s), e_stale = (\<lambda>_. 0)\<rparr>"

theorem sc_get_param_forges_tid_witness:
  "\<exists>(s :: unit os) s' s''. live_tid 0 s \<and> sc_get_param env0 0x3000000 s = Some s' \<and> KnlSystemCallInterrupt kaddr0 0 0 0x1200000 s' = Some (1, s'')"
proof (rule one_task, goal_cases)
  case o: (1 s m)
  define u where "u = call0 0x1000000 (set_task 0 (\<lambda>t. t\<lparr>tk_param := [CHR 0x01]\<rparr>) s)"
  have "task_iso s 0"
    using o(1) by (simp add: isolated_def)
  then have ok: "tables_ok (tk_real_pagedt_addr (tasks s 0)) (page_table s 0)"
    unfolding task_iso_def by blast
  have w: "task_walk u 0 = task_walk s 0" "page_table u 0 = page_table s 0" "tk_real_pagedt_addr (tasks u 0) = tk_real_pagedt_addr (tasks s 0)"
    by (simp_all add: u_def task_walk_def page_table_def fun_eq_iff)
  have live: "live_tid 0 u"
    using o(2) by (simp add: u_def live_tid_def)
  have "take 4 (param_bytes env0 (tk_param (tasks u 0))) = map (byte32 (of_nat 1)) [0..<4]"
  proof -
    have l: "[0..<4] = [0, 1, 2, 3 :: nat]"
      by (simp add: upt_rec)
    have "take 4 (param_bytes env0 p) = map (\<lambda>i. if i < length p then byte8 (p ! i) else if i = length p then 0 else e_stale env0 i) [0..<4]" for p
      by (simp add: param_bytes_def take_map)
    then show ?thesis
      by (simp add: l u_def env0_def byte8_def byte32_def)
  qed
  moreover have "task_walk u 0 (0x1200000 + 40 + of_nat n) \<noteq> None" if n: "n < 4" for n
  proof -
    have "unat (0x1200028 + of_nat n :: u32) = 0x1200028 + n"
      using n by (subst unat_plus_if_lt) (simp_all add: unat_of_nat32)
    then show ?thesis
      using n unfolding w by (intro o(10)) (simp_all add: word_less_nat_alt word_le_nat_alt)
  qed
  moreover have "sp_tid 0x3000000 u = 0" "param 0 0x3000000 u = 0x1000000"
    by (simp_all add: u_def)
  ultimately obtain s' s'' where "sc_get_param env0 0x3000000 u = Some s'" "KnlSystemCallInterrupt kaddr0 0 0 0x1200000 s' = Some (1, s'')"
    using sc_get_param_forges_tid [OF live, of "0x3000000" "0x1100000" False 1 env0 "0x1200000" kaddr0 0] ok o(11)
    by (auto simp: w MAX_TASK_COUNT_def)
  then show ?case
    using live by (intro exI conjI)
qed

text \<open>File calls: with file 9 open, or none.\<close>

lemma file_task:
  obtains s :: "unit os" where "live_tid 0 s" "tk_opened_file_ptrs (tasks s 0) = replicate MAX_TASK_OPENED_FILE_COUNT None"
proof (rule one_task, goal_cases)
  case (1 s m)
  then show ?case by blast
qed


theorem sc_null_file_accepted_witness:
  "\<exists>s :: unit os. live_tid 0 s \<and> ScFsCheckPrivilege 0 None (call0 0 s) \<and> ScFsProcess env0 14 0x3000000 (call0 0 s) = None"
proof (rule file_task, goal_cases)
  case (1 s)
  then show ?case
    using sc_null_file_accepted [of "0x3000000" "call0 0 s" 0 14 env0] by (auto simp: file_call_def MAX_TASK_OPENED_FILE_COUNT_def)
qed

text \<open>Queue 90, named \<open>q\<close>, with both channels empty.\<close>

definition mq_q :: mq_state where
  "mq_q = \<lparr>lnodes = (\<lambda>_. \<lparr>n_value = VObject (Some 90), n_prev = None, n_next = None\<rparr>),
     lnklsts = (\<lambda>_. \<lparr>l_head = None, l_foot = None, l_count = 0\<rparr>)(60 := \<lparr>l_head = Some 1, l_foot = Some 1, l_count = 1\<rparr>),
     freed = [], answers = [Some 14, Some 4], mqueues = Some 60,
     mq_objs = (\<lambda>_. \<lparr>mq_name = [CHR ''q'', CHR 0x00], mq_in = Some 50, mq_out = Some 51\<rparr>), mq_msgs = (\<lambda>_. msg_of 0)\<rparr>"

definition os_q :: "unit os" where
  "os_q = set_param 1 0x3000000 0x200 (call0 0x100 (os0\<lparr>os_mq := mq_q, ram := (\<lambda>_. 0)(0x100 := 113), tasks := (\<lambda>_. task0\<lparr>tk_used := True\<rparr>)\<rparr>))"

lemma os_q:
  "param 0 0x3000000 os_q = 0x100" "param 1 0x3000000 os_q = 0x200" "sp_tid 0x3000000 os_q = 0" "live_tid 0 os_q" "os_mq os_q = mq_q"
  "pts os_q = (\<lambda>_ _. 0)" "ram os_q 0x100 = 113" "ram os_q 0x101 = 0"
proof -
  have r: "ram32 0x3000000 (ram_put 0x3000004 bs m) = ram32 0x3000000 m" "ram32 0x3000028 (ram_put 0x3000004 bs m) = ram32 0x3000028 m"
      "ram_put 0x3000004 bs m 0x100 = m 0x100" "ram_put 0x3000004 bs m 0x101 = m 0x101" 
      "ram_put 0x3000028 bs m 0x100 = m 0x100" "ram_put 0x3000028 bs m 0x101 = m 0x101" 
      "ram_put 0x3000000 bs m 0x100 = m 0x100" "ram_put 0x3000000 bs m 0x101 = m 0x101" if "length bs = 4" for bs :: "u8 list" and m
    using that by (simp_all add: ram32_def ram_put_def unsigned_minus_1_eq_mask mask_eq_exp_minus_1)
  have "param 0 0x3000000 (set_param 1 0x3000000 v s) = param 0 0x3000000 s" "sp_tid 0x3000000 (set_param 1 0x3000000 v s) = sp_tid 0x3000000 s"
    for v and s :: "unit os"
    using r(1,2) by (simp_all add: param_def sp_tid_def set_param_def put_ram_def)
  then show "param 0 0x3000000 os_q = 0x100" "sp_tid 0x3000000 os_q = 0"
    by (simp_all add: os_q_def)
  show "param 1 0x3000000 os_q = 0x200" "live_tid 0 os_q" "os_mq os_q = mq_q" "pts os_q = (\<lambda>_ _. 0)"
    by (simp_all add: os_q_def live_tid_def MAX_TASK_COUNT_def task0_def) (simp_all add: os0_def call0_def)
  show "ram os_q 0x100 = 113" "ram os_q 0x101 = 0"
    using r by (simp_all add: os_q_def call0_def set_param_def put_ram_def)
qed

lemma convert_zero: "pts s = (\<lambda>_ _. 0) \<Longrightarrow> live_tid tid s \<Longrightarrow> TaskmgrConvertLAddrToPAddr tid la s = la AND 0xfff"
  by (simp add: TaskmgrConvertLAddrToPAddr_def)

theorem sc_message_delivered_witness:
  "\<exists>s1 (s2 :: unit os) s3. sc_mqueue_c_push 0x3000000 os_q = Some s1 \<and> os_mq s2 = os_mq s1 \<and> sc_mqueue_s_pop 0x3000000 s2 = Some s3 \<and>
     param 0 0x3000000 s3 = 1 \<and> (\<forall>i < 88 + MESSAGE_BYTES. ram s3 (0x200 + of_nat i) = ram os_q (0x200 + of_nat i))"
proof -
  have p: "user_ptr 0 0x3000000 os_q = 0x100" "user_ptr 1 0x3000000 os_q = 0x200"
    using convert_zero [OF os_q(6,4)] by (simp_all add: user_ptr_def os_q os_q(2) [simplified])
  have "first_index (\<lambda>i. ram os_q (0x100 + of_nat i) = 0) 0 (2 ^ 32) = Some 1"
    by (rule first_index_least) (simp_all add: os_q)
  then have name: "user_str 0 0x3000000 os_q = Some (Some ''q'')"
    by (simp add: user_str_def p(1) str_at_def ram_get_def os_q char8_def char_of_eq_iff)
  have q: "MqGetPtrByName (Some ''q'') (os_mq os_q) = Some (Some 90)" "mq_out (mq_objs (os_mq os_q) 90) = Some 51"
    "chan (os_mq os_q) 51 [] []" "answers (os_mq os_q) = Some 14 # Some 4 # []"
    by (simp_all add: os_q mq_q_def MqGetPtrByName_def get_by_name_loop.simps chan_def lnk_def dlist_def cstr_def C_strcmp_def)
  from sc_message_delivered [OF name q] p obtain s1 where s1: "sc_mqueue_c_push 0x3000000 os_q = Some s1"
    "\<forall>(s2 :: unit os) sp2. os_mq s2 = os_mq s1 \<and> of_ptr (param 0 sp2 s2) = Some 90 \<and>
        (\<forall>i < 88 + MESSAGE_BYTES. 4 \<le> unat (user_ptr 1 sp2 s2 + of_nat i - sp2)) \<longrightarrow>
      (\<exists>s3. sc_mqueue_s_pop sp2 s2 = Some s3 \<and> param 0 sp2 s3 = 1 \<and>
        (\<forall>i < 88 + MESSAGE_BYTES. ram s3 (user_ptr 1 sp2 s2 + of_nat i) = ram os_q (0x200 + of_nat i)))"
    by auto
  define s2 where "s2 = set_param 0 0x3000000 90 (os_q\<lparr>os_mq := os_mq s1\<rparr>)"
  have frame: "live_tid 0 s2" "pts s2 = (\<lambda>_ _. 0)" "sp_tid 0x3000000 s2 = 0" "param 1 0x3000000 s2 = 0x200"
  proof -
    show "live_tid 0 s2" "pts s2 = (\<lambda>_ _. 0)"
      using os_q(4,6) by (simp_all add: s2_def live_tid_def)
    show "sp_tid 0x3000000 s2 = 0"
      using os_q(3) sp_tid_set [of 0 "0x3000000" 90 "os_q\<lparr>os_mq := os_mq s1\<rparr>"] by (simp add: s2_def sp_tid_def param_def)
    have "ram32 0x3000004 (ram_put 0x3000000 bs m) = ram32 0x3000004 m" if "length bs = 4" for bs :: "u8 list" and m
      using that by (simp add: ram32_def ram_put_def)
    then show "param 1 0x3000000 s2 = 0x200"
      using os_q(2) by (simp add: s2_def param_def set_param_def put_ram_def)
  qed
  have u: "user_ptr 1 0x3000000 s2 = 0x200"
    using convert_zero [OF frame(2,1)] frame(3,4) by (simp add: user_ptr_def frame(4) [simplified])
  have far: "4 \<le> unat (0x200 + of_nat i - 0x3000000 :: u32)" if i: "i < 88 + MESSAGE_BYTES" for i
  proof -
    have e: "0x200 + of_nat i - 0x3000000 = (of_nat i + 0xFD000200 :: u32)"
      by simp
    show ?thesis
      unfolding e using i by (subst unat_plus_if_lt) (simp_all add: unat_of_nat32 MESSAGE_BYTES_def)
  qed
  have "os_mq s2 = os_mq s1" "of_ptr (param 0 0x3000000 s2) = Some 90"
    by (simp_all add: s2_def of_ptr_def)
  then show ?thesis
    using s1(1) spec [OF spec [OF s1(2)], of s2 "0x3000000"] far unfolding u by blast
qed

end
