(* ===== verification/Vars.thy ===== *)
theory Vars
  imports Memory_Props Strings_Proofs
begin

text \<open>
  \<^verbatim>\<open>kernel/vars.c\<close>: the variables of the shell, a table of slots of fixed size.  The two
  blocks come from the allocator of \<^verbatim>\<open>Memory\<close>; the slots are a list that stands for the second.
\<close>

section \<open>State\<close>

definition MAX_VAR_NAME_LEN :: nat where "MAX_VAR_NAME_LEN = 1023"
definition MAX_VAR_VALUE_LEN :: nat where "MAX_VAR_VALUE_LEN = 1023"

text \<open>\<open>sizeof(struct Var)\<close>: an \<open>int32\<close> and two buffers of 1024 bytes.\<close>

definition VAR_SIZE :: u32 where "VAR_SIZE = 2052"

record var =
  var_used :: u32
  var_name :: "char list"
  var_value :: "char list"

record var_list =
  vl_self :: u32          \<comment> \<open>the address of the \<open>struct Vars\<close>\<close>
  vl_vars :: u32          \<comment> \<open>its field \<open>vars\<close>\<close>
  vl_table :: "var list"  \<comment> \<open>the slots, \<open>max_var_count\<close> of them\<close>

section \<open>Operations\<close>

text \<open>
  \<open>KnlAllocVarList\<close>.  What the new slots hold is a parameter.  The size of the table is computed
  in 32 bits: when it wraps, the initialisation writes behind the block, which is \<^const>\<open>None\<close>.
\<close>

definition KnlAllocVarList ::
  "u32 \<Rightarrow> (nat \<Rightarrow> var) \<Rightarrow> lock_state \<times> mem_state \<Rightarrow> (var_list option \<times> lock_state \<times> mem_state) option" where
  "KnlAllocVarList n raw ks =
     (if n = 0 then Some (None, ks)
      else do {
        (vars_s, ks) \<leftarrow> MemAlloc 8 ks;
        if vars_s = 0 then Some (None, ks)
        else do {
          (vars, ks) \<leftarrow> MemAlloc (n * VAR_SIZE) ks;
          if vars = 0 then Some (None, ks)
          else if unat n * unat VAR_SIZE < 2 ^ 32
          then Some (Some \<lparr>vl_self = vars_s, vl_vars = vars,
                           vl_table = map (\<lambda>ui. (raw ui)\<lparr>var_used := 0\<rparr>) [0..<unat n]\<rparr>, ks)
          else None } })"

definition KnlFreeVarList :: "var_list \<Rightarrow> lock_state \<times> mem_state \<Rightarrow> (bool \<times> lock_state \<times> mem_state) option" where
  "KnlFreeVarList vl ks = do {
     (ok, ks) \<leftarrow> MemFree (vl_vars vl) ks;
     if \<not> ok then Some (False, ks)
     else do { (ok, ks) \<leftarrow> MemFree (vl_self vl) ks; Some (ok, ks) } }"

definition var_char :: "char \<Rightarrow> bool" where
  "var_char chr =
     (schar (CHR ''A'') \<le> schar chr \<and> schar chr \<le> schar (CHR ''Z'') \<or>
      schar (CHR ''a'') \<le> schar chr \<and> schar chr \<le> schar (CHR ''z'') \<or>
      schar (CHR ''0'') \<le> schar chr \<and> schar chr \<le> schar (CHR ''9'') \<or> chr = CHR ''_'')"

definition KnlIsValidVarName :: "string option \<Rightarrow> bool" where
  "KnlIsValidVarName name =
     (case name of
        None \<Rightarrow> False
      | Some nm \<Rightarrow>
          (let len = C_strlen nm in
           len \<noteq> 0 \<and> unat len < MAX_VAR_NAME_LEN \<and> list_all var_char nm))"

text \<open>The pointers to slots are their indices.\<close>

definition KnlGetVar :: "var list \<Rightarrow> string \<Rightarrow> nat option" where
  "KnlGetVar vars name =
     first_index (\<lambda>ui. var_used (vars ! ui) \<noteq> 0 \<and> C_strcmp (cstr (var_name (vars ! ui))) name = 0) 0 (length vars)"

definition KnlHasVar :: "var list \<Rightarrow> string \<Rightarrow> bool" where
  "KnlHasVar vars name = (KnlGetVar vars name \<noteq> None)"

text \<open>\<open>UtlCopyString\<close> into a buffer of a slot; the callers ignore its result.\<close>

definition copy_to :: "char list \<Rightarrow> string \<Rightarrow> char list option" where
  "copy_to buf s = do {
     (_, d) \<leftarrow> UtlCopyString (Some buf) (of_nat (length buf)) (Some s);
     d }"

definition KnlNewVar :: "var list option \<Rightarrow> string option \<Rightarrow> (bool \<times> var list option) option" where
  "KnlNewVar vars_s name =
     (case (vars_s, name) of
        (Some vars, Some nm) \<Rightarrow>
          if \<not> KnlIsValidVarName name \<or> KnlHasVar vars nm then Some (False, vars_s)
          else (case first_index (\<lambda>i. var_used (vars ! i) = 0) 0 (length vars) of
                  None \<Rightarrow> Some (False, vars_s)
                | Some i \<Rightarrow> do {
                    d \<leftarrow> copy_to (var_name (vars ! i)) nm;
                    Some (True, Some (vars[i := \<lparr>var_used = 1, var_name = d,
                      var_value = (var_value (vars ! i))[0 := NUL]\<rparr>])) })
      | _ \<Rightarrow> Some (False, vars_s))"

definition KnlSetVarValue ::
  "var list option \<Rightarrow> string option \<Rightarrow> string option \<Rightarrow> (bool \<times> var list option) option" where
  "KnlSetVarValue vars_s name value =
     (case (vars_s, name, value) of
        (Some vars, Some nm, Some v) \<Rightarrow>
          if \<not> KnlIsValidVarName name \<or> unat (C_strlen v) > MAX_VAR_VALUE_LEN \<or> \<not> KnlHasVar vars nm
          then Some (False, vars_s)
          else (case KnlGetVar vars nm of
                  None \<Rightarrow> Some (False, vars_s)
                | Some i \<Rightarrow> do {
                    d \<leftarrow> copy_to (var_value (vars ! i)) v;
                    Some (True, Some (vars[i := (vars ! i)\<lparr>var_value := d\<rparr>])) })
      | _ \<Rightarrow> Some (False, vars_s))"

text \<open>
  \<open>KnlGetVarValueWithSize\<close>: the destination is a buffer, and its loop is that of
  \<open>UtlCopyString\<close>, over the string in the slot.
\<close>

definition KnlGetVarValueWithSize ::
  "var list option \<Rightarrow> string option \<Rightarrow> char list \<Rightarrow> u32 \<Rightarrow> (bool \<times> char list) option" where
  "KnlGetVarValueWithSize vars_s name value sz =
     (case (vars_s, name) of
        (Some vars, Some nm) \<Rightarrow>
          if sz = 0 \<or> \<not> KnlIsValidVarName name \<or> \<not> KnlHasVar vars nm then Some (False, value)
          else (case KnlGetVar vars nm of
                  None \<Rightarrow> Some (False, value)
                | Some i \<Rightarrow> do {
                    (index, _, value) \<leftarrow> utl_copy_loop 0 (unat (sz - 1)) (cstr (var_value (vars ! i))) value;
                    if index < length value then Some (True, value[index := NUL]) else None })
      | _ \<Rightarrow> Some (False, value))"

definition KnlGetVarValue :: "var list option \<Rightarrow> string option \<Rightarrow> char list \<Rightarrow> (bool \<times> char list) option" where
  "KnlGetVarValue vars_s name value = KnlGetVarValueWithSize vars_s name value 0x7FFFFFFF"

text \<open>The local buffer of the two conversions; \<open>stod\<close> is a parameter.\<close>

definition var_buffer :: "char list" where
  "var_buffer = replicate (MAX_VAR_VALUE_LEN + 1) NUL"

definition KnlGetVarIntValue :: "var list option \<Rightarrow> string option \<Rightarrow> u32 option option" where
  "KnlGetVarIntValue vars_s name = do {
     (ok, buffer) \<leftarrow> KnlGetVarValue vars_s name var_buffer;
     Some (if ok then Some (stol (cstr buffer)) else None) }"

definition KnlGetVarDoubleValue ::
  "(string \<Rightarrow> u64) \<Rightarrow> var list option \<Rightarrow> string option \<Rightarrow> u64 option option" where
  "KnlGetVarDoubleValue stod vars_s name = do {
     (ok, buffer) \<leftarrow> KnlGetVarValue vars_s name var_buffer;
     Some (if ok then Some (stod (cstr buffer)) else None) }"

definition KnlDeleteVar :: "var list option \<Rightarrow> string option \<Rightarrow> bool \<times> var list option" where
  "KnlDeleteVar vars_s name =
     (case (vars_s, name) of
        (Some vars, Some nm) \<Rightarrow>
          if \<not> KnlIsValidVarName name \<or> \<not> KnlHasVar vars nm then (False, vars_s)
          else (case KnlGetVar vars nm of
                  None \<Rightarrow> (False, vars_s)
                | Some i \<Rightarrow> (True, Some (vars[i := (vars ! i)\<lparr>var_used := 0\<rparr>])))
      | _ \<Rightarrow> (False, vars_s))"

section \<open>The table as a map\<close>

text \<open>Every slot has its two buffers, and no two used slots have the same name.\<close>

definition slot_ok :: "var \<Rightarrow> bool" where
  "slot_ok v \<longleftrightarrow> length (var_name v) = 1024 \<and> length (var_value v) = 1024 \<and>
     (var_used v \<noteq> 0 \<longrightarrow> KnlIsValidVarName (Some (cstr (var_name v))) \<and> length (cstr (var_value v)) \<le> 1023)"

definition names_distinct :: "var list \<Rightarrow> bool" where
  "names_distinct vars \<longleftrightarrow>
     (\<forall>i j. i < length vars \<longrightarrow> j < length vars \<longrightarrow> var_used (vars ! i) \<noteq> 0 \<longrightarrow> var_used (vars ! j) \<noteq> 0 \<longrightarrow>
        cstr (var_name (vars ! i)) = cstr (var_name (vars ! j)) \<longrightarrow> i = j)"

definition vars_inv :: "var list \<Rightarrow> bool" where
  "vars_inv vars \<longleftrightarrow> (\<forall>v \<in> set vars. slot_ok v) \<and> names_distinct vars"

definition vars_map :: "var list \<Rightarrow> string \<Rightarrow> string option" where
  "vars_map vars name =
     map_option (\<lambda>v. cstr (var_value v)) (find (\<lambda>v. var_used v \<noteq> 0 \<and> cstr (var_name v) = name) vars)"

definition vars_free :: "var list \<Rightarrow> nat" where
  "vars_free vars = length (filter (\<lambda>v. var_used v = 0) vars)"

lemma slot_unique:
  assumes "names_distinct vars" "i < length vars" "j < length vars" "var_used (vars ! i) \<noteq> 0"
    "var_used (vars ! j) \<noteq> 0" "cstr (var_name (vars ! i)) = cstr (var_name (vars ! j))"
  shows "i = j"
  using assms unfolding names_distinct_def by blast

lemma vars_map_Some:
  assumes "names_distinct vars"
  shows "vars_map vars nm = Some w \<longleftrightarrow>
    (\<exists>i < length vars. var_used (vars ! i) \<noteq> 0 \<and> cstr (var_name (vars ! i)) = nm \<and> cstr (var_value (vars ! i)) = w)"
proof
  assume "vars_map vars nm = Some w"
  then obtain v where v: "find (\<lambda>v. var_used v \<noteq> 0 \<and> cstr (var_name v) = nm) vars = Some v" "cstr (var_value v) = w"
    by (auto simp: vars_map_def)
  then show "\<exists>i < length vars. var_used (vars ! i) \<noteq> 0 \<and> cstr (var_name (vars ! i)) = nm \<and> cstr (var_value (vars ! i)) = w"
    by (auto simp: find_Some_iff)
next
  assume "\<exists>i < length vars. var_used (vars ! i) \<noteq> 0 \<and> cstr (var_name (vars ! i)) = nm \<and> cstr (var_value (vars ! i)) = w"
  then obtain i where i: "i < length vars" "var_used (vars ! i) \<noteq> 0" "cstr (var_name (vars ! i)) = nm"
      "cstr (var_value (vars ! i)) = w"
    by blast
  let ?P = "\<lambda>v. var_used v \<noteq> 0 \<and> cstr (var_name v) = nm"
  have "find ?P vars \<noteq> None"
    using i by (auto simp: find_None_iff in_set_conv_nth)
  then obtain v where v: "find ?P vars = Some v"
    by blast
  then obtain k where k: "k < length vars" "?P (vars ! k)" "v = vars ! k"
    by (auto simp: find_Some_iff)
  have "k = i"
    using slot_unique [OF assms k(1) i(1)] k(2) i(2,3) by simp
  then show "vars_map vars nm = Some w"
    using v k i by (simp add: vars_map_def)
qed

lemma vars_map_None:
  "vars_map vars nm = None \<longleftrightarrow> (\<forall>i < length vars. \<not> (var_used (vars ! i) \<noteq> 0 \<and> cstr (var_name (vars ! i)) = nm))"
  by (auto simp: vars_map_def find_None_iff in_set_conv_nth)

lemma C_strcmp_eq:
  assumes "length s < 2 ^ 32" "length t < 2 ^ 32"
  shows "C_strcmp s t = 0 \<longleftrightarrow> s = t"
proof (cases "length s = length t")
  case True
  then show ?thesis
    by (simp add: C_strcmp_def C_strlen strcmp_loop_eq)
next
  case False
  then have ne: "(of_nat (length s) :: u32) \<noteq> of_nat (length t)"
    using assms by (metis unat_of_nat32)
  then have "sint ((of_nat (length s) :: u32) - of_nat (length t)) \<noteq> 0"
    by (metis signed_0 signed_word_eqI eq_iff_diff_eq_0)
  then show ?thesis
    using False ne by (auto simp: C_strcmp_def C_strlen Let_def)
qed

lemma valid_short: "length nm < 2 ^ 32 \<Longrightarrow> KnlIsValidVarName (Some nm) \<Longrightarrow> nm \<noteq> [] \<and> length nm < 1023 \<and> NUL \<notin> set nm"
  by (auto simp: KnlIsValidVarName_def C_strlen unat_of_nat32 MAX_VAR_NAME_LEN_def list_all_iff var_char_def schar_def Let_def)

lemma cstr_le: "length (cstr b) \<le> length b"
  by (simp add: cstr_def length_takeWhile_le)

lemma GetVar_spec:
  assumes "vars_inv vars" "length nm < 2 ^ 32"
  shows "(KnlGetVar vars nm = None \<and> vars_map vars nm = None) \<or>
    (\<exists>i < length vars. KnlGetVar vars nm = Some i \<and> var_used (vars ! i) \<noteq> 0 \<and> cstr (var_name (vars ! i)) = nm \<and>
       vars_map vars nm = Some (cstr (var_value (vars ! i))))"
proof -
  let ?P = "\<lambda>i. var_used (vars ! i) \<noteq> 0 \<and> cstr (var_name (vars ! i)) = nm"
  have "length (cstr (var_name (vars ! i))) < 2 ^ 32" if "i < length vars" for i
    using that assms(1) cstr_le [of "var_name (vars ! i)"] by (auto simp: vars_inv_def slot_ok_def)
  then have "KnlGetVar vars nm = first_index ?P 0 (length vars)"
    unfolding KnlGetVar_def using C_strcmp_eq [OF _ assms(2)] by (intro first_index_cong) blast
  then show ?thesis
  proof (cases "first_index ?P 0 (length vars)")
    case None
    then have "vars_map vars nm = None"
      using first_index_NoneD [OF None] by (auto simp: vars_map_None)
    then show ?thesis
      using None \<open>KnlGetVar vars nm = _\<close> by simp
  next
    case (Some i)
    from first_index_SomeD [OF this] have i: "i < length vars" "?P i" by auto
    have "vars_map vars nm = Some (cstr (var_value (vars ! i)))"
      using assms(1) i vars_map_Some [of vars nm] by (auto simp: vars_inv_def)
    then show ?thesis
      using Some i \<open>KnlGetVar vars nm = _\<close> by auto
  qed
qed

lemma HasVar_spec: "vars_inv vars \<Longrightarrow> length nm < 2 ^ 32 \<Longrightarrow> KnlHasVar vars nm \<longleftrightarrow> vars_map vars nm \<noteq> None"
  using GetVar_spec [of vars nm] by (auto simp: KnlHasVar_def)

lemma copy_to_spec:
  assumes "length buf = 1024" "length s \<le> 1023" "NUL \<notin> set s"
  shows "\<exists>d. copy_to buf s = Some d \<and> length d = 1024 \<and> cstr d = s"
  using UtlCopyString_bounded [of 1024 buf s] assms by (auto simp: copy_to_def)

lemma vars_inv_update:
  assumes "vars_inv vars" "i < length vars" "slot_ok v"
    "\<And>j. j < length vars \<Longrightarrow> j \<noteq> i \<Longrightarrow> var_used v \<noteq> 0 \<Longrightarrow> var_used (vars ! j) \<noteq> 0 \<Longrightarrow>
       cstr (var_name (vars ! j)) \<noteq> cstr (var_name v)"
  shows "vars_inv (vars[i := v])"
proof -
  have "names_distinct (vars[i := v])"
    unfolding names_distinct_def
  proof (intro allI impI)
    fix a b
    assume a: "a < length (vars[i := v])" "b < length (vars[i := v])" "var_used (vars[i := v] ! a) \<noteq> 0"
      "var_used (vars[i := v] ! b) \<noteq> 0" "cstr (var_name (vars[i := v] ! a)) = cstr (var_name (vars[i := v] ! b))"
    show "a = b"
    proof (cases "a = i \<or> b = i")
      case True
      then show ?thesis
        using a assms(2) assms(4) [of a] assms(4) [of b] by (cases "a = i"; cases "b = i") auto
    next
      case False
      then show ?thesis
        using a assms(1) slot_unique [of vars a b] by (simp add: vars_inv_def)
    qed
  qed
  moreover have "slot_ok w" if "w \<in> set (vars[i := v])" for w
    using that assms(1,3) set_update_subset_insert [of vars i v] by (auto simp: vars_inv_def)
  ultimately show ?thesis
    by (simp add: vars_inv_def)
qed

lemma vars_free_update:
  "i < length vars \<Longrightarrow> var_used (vars ! i) = 0 \<Longrightarrow> var_used v \<noteq> 0 \<Longrightarrow> Suc (vars_free (vars[i := v])) = vars_free vars"
  "i < length vars \<Longrightarrow> var_used (vars ! i) \<noteq> 0 \<Longrightarrow> var_used v = 0 \<Longrightarrow> vars_free (vars[i := v]) = Suc (vars_free vars)"
  "i < length vars \<Longrightarrow> var_used (vars ! i) \<noteq> 0 \<Longrightarrow> var_used v \<noteq> 0 \<Longrightarrow> vars_free (vars[i := v]) = vars_free vars"
  by (simp_all add: vars_free_def upd_conv_take_nth_drop id_take_nth_drop [of i vars, THEN arg_cong, of "filter _"] del: id_take_nth_drop)

section \<open>The operations on the map\<close>

definition var_string :: "string \<Rightarrow> bool" where
  "var_string s \<longleftrightarrow> length s < 2 ^ 32 \<and> NUL \<notin> set s"

lemma vars_free_0: "first_index (\<lambda>i. var_used (vars ! i) = 0) 0 (length vars) = None \<longleftrightarrow> vars_free vars = 0"
proof
  assume "first_index (\<lambda>i. var_used (vars ! i) = 0) 0 (length vars) = None"
  then have "var_used (vars ! i) \<noteq> 0" if "i < length vars" for i
    using first_index_NoneD [of "\<lambda>i. var_used (vars ! i) = 0" 0 "length vars" i] that by blast
  then have "\<forall>v \<in> set vars. var_used v \<noteq> 0"
    by (metis in_set_conv_nth)
  then show "vars_free vars = 0"
    by (simp add: vars_free_def)
next
  assume "vars_free vars = 0"
  then have "var_used (vars ! i) \<noteq> 0" if "i < length vars" for i
    using that by (auto simp: vars_free_def filter_empty_conv)
  then have "first_index (\<lambda>i. var_used (vars ! i) = 0) 0 (length vars) \<noteq> Some k" for k
    using first_index_SomeD by fastforce
  then show "first_index (\<lambda>i. var_used (vars ! i) = 0) 0 (length vars) = None"
    by blast
qed

lemma cstr_head_NUL: "cstr (b[0 := NUL]) = []"
  by (cases b) (auto simp: cstr_def)

lemma vars_map_update:
  assumes "vars_inv vars" "vars_inv (vars[i := v])" "i < length vars"
    "var_used v \<noteq> 0 \<or> var_used (vars ! i) \<noteq> 0"
    "var_used v \<noteq> 0 \<Longrightarrow> var_used (vars ! i) \<noteq> 0 \<Longrightarrow> cstr (var_name (vars ! i)) = cstr (var_name v)"
    "nm = (if var_used v \<noteq> 0 then cstr (var_name v) else cstr (var_name (vars ! i)))"
  shows "vars_map (vars[i := v]) =
    (vars_map vars)(nm := (if var_used v \<noteq> 0 then Some (cstr (var_value v)) else None))"
proof
  fix k
  have d: "names_distinct vars" "names_distinct (vars[i := v])"
    using assms(1,2) by (simp_all add: vars_inv_def)
  show "vars_map (vars[i := v]) k =
    ((vars_map vars)(nm := (if var_used v \<noteq> 0 then Some (cstr (var_value v)) else None))) k"
  proof (cases "k = nm")
    case True
    show ?thesis
    proof (cases "var_used v \<noteq> 0")
      case used: True
      have "\<exists>j < length (vars[i := v]). var_used (vars[i := v] ! j) \<noteq> 0 \<and> cstr (var_name (vars[i := v] ! j)) = nm \<and>
          cstr (var_value (vars[i := v] ! j)) = cstr (var_value v)"
        using assms(3,6) used by (intro exI [of _ i]) simp
      then show ?thesis
        using vars_map_Some [OF d(2), of nm "cstr (var_value v)"] True used by simp
    next
      case False
      have "\<not> (var_used (vars[i := v] ! j) \<noteq> 0 \<and> cstr (var_name (vars[i := v] ! j)) = nm)" if "j < length vars" for j
        using that False assms(3,4,6) slot_unique [OF d(1) that assms(3)] by (cases "j = i") auto
      then show ?thesis
        using False True by (auto simp: vars_map_None)
    qed
  next
    case False
    have "vars_map (vars[i := v]) k = Some w \<longleftrightarrow> vars_map vars k = Some w" for w
    proof -
      have "(var_used (vars[i := v] ! j) \<noteq> 0 \<and> cstr (var_name (vars[i := v] ! j)) = k \<and> cstr (var_value (vars[i := v] ! j)) = w)
          = (var_used (vars ! j) \<noteq> 0 \<and> cstr (var_name (vars ! j)) = k \<and> cstr (var_value (vars ! j)) = w)"
        if "j < length vars" for j
      proof (cases "j = i")
        case True
        have "cstr (var_name v) \<noteq> k" if "var_used v \<noteq> 0"
          using that assms(6) False by simp
        moreover have "cstr (var_name (vars ! i)) \<noteq> k" if "var_used (vars ! i) \<noteq> 0"
          using that assms(5,6) False by (cases "var_used v \<noteq> 0") simp_all
        ultimately show ?thesis
          using True assms(3) by auto
      qed simp
      then show ?thesis
        unfolding vars_map_Some [OF d(1)] vars_map_Some [OF d(2)] by auto
    qed
    then show ?thesis
      using False by (metis fun_upd_other not_Some_eq)
  qed
qed

lemma NewVar_spec:
  assumes "vars_inv vars" "var_string nm"
  defines "ok \<equiv> KnlIsValidVarName (Some nm) \<and> vars_map vars nm = None \<and> vars_free vars \<noteq> 0"
  shows "\<exists>vars'. KnlNewVar (Some vars) (Some nm) = Some (ok, Some vars') \<and> vars_inv vars' \<and>
    length vars' = length vars \<and> vars_map vars' = (if ok then (vars_map vars)(nm \<mapsto> []) else vars_map vars) \<and>
    vars_free vars' = (if ok then vars_free vars - 1 else vars_free vars)"
proof (cases ok)
  case True
  have nm: "length nm < 2 ^ 32"
    using assms(2) by (simp add: var_string_def)
  have v: "KnlIsValidVarName (Some nm)" "vars_map vars nm = None" "vars_free vars \<noteq> 0"
    using True by (simp_all add: ok_def)
  then obtain i where fi: "first_index (\<lambda>i. var_used (vars ! i) = 0) 0 (length vars) = Some i"
    using vars_free_0 [of vars] by (cases "first_index (\<lambda>i. var_used (vars ! i) = 0) 0 (length vars)") auto
  from first_index_SomeD [OF fi] have i: "i < length vars" "var_used (vars ! i) = 0" by auto
  have so: "slot_ok (vars ! i)"
    using assms(1) i by (auto simp: vars_inv_def)
  obtain d where d: "copy_to (var_name (vars ! i)) nm = Some d" "length d = 1024" "cstr d = nm"
    using copy_to_spec [of "var_name (vars ! i)" nm] so valid_short [OF nm v(1)] by (auto simp: slot_ok_def)
  let ?v = "\<lparr>var_used = 1, var_name = d, var_value = (var_value (vars ! i))[0 := NUL]\<rparr>"
  have vi: "vars_inv (vars[i := ?v])"
  proof (rule vars_inv_update [OF assms(1) i(1)])
    show "slot_ok ?v"
      using so d v(1) by (simp add: slot_ok_def cstr_head_NUL)
    fix j assume "j < length vars" "var_used (vars ! j) \<noteq> 0"
    then show "cstr (var_name (vars ! j)) \<noteq> cstr (var_name ?v)"
      using v(2) d(3) by (auto simp: vars_map_None)
  qed
  moreover have "vars_map (vars[i := ?v]) = (vars_map vars)(nm \<mapsto> [])"
    using vars_map_update [OF assms(1) vi i(1)] i(2) d(3) by (simp add: cstr_head_NUL)
  moreover have "vars_free (vars[i := ?v]) = vars_free vars - 1"
    using vars_free_update(1) [OF i, of ?v] by simp
  ultimately show ?thesis
    using True v fi d(1) HasVar_spec [OF assms(1) nm] by (auto simp: KnlNewVar_def)
next
  case False
  have nm: "length nm < 2 ^ 32"
    using assms(2) by (simp add: var_string_def)
  have "KnlNewVar (Some vars) (Some nm) = Some (False, Some vars)"
    using False HasVar_spec [OF assms(1) nm] vars_free_0 [of vars]
    by (auto simp: KnlNewVar_def ok_def)
  then show ?thesis
    using False assms(1) by auto
qed

lemma SetVar_spec:
  assumes "vars_inv vars" "var_string nm" "var_string val"
  defines "ok \<equiv> KnlIsValidVarName (Some nm) \<and> vars_map vars nm \<noteq> None \<and> length val \<le> 1023"
  shows "\<exists>vars'. KnlSetVarValue (Some vars) (Some nm) (Some val) = Some (ok, Some vars') \<and> vars_inv vars' \<and>
    length vars' = length vars \<and> vars_map vars' = (if ok then (vars_map vars)(nm \<mapsto> val) else vars_map vars) \<and>
    vars_free vars' = vars_free vars"
proof (cases ok)
  case True
  have nm: "length nm < 2 ^ 32" and vl: "unat (C_strlen val) = length val" "NUL \<notin> set val"
    using assms(2,3) by (simp_all add: var_string_def C_strlen unat_of_nat32)
  have v: "KnlIsValidVarName (Some nm)" "vars_map vars nm \<noteq> None" "length val \<le> 1023"
    using True by (simp_all add: ok_def)
  obtain i where i: "i < length vars" "KnlGetVar vars nm = Some i" "var_used (vars ! i) \<noteq> 0" "cstr (var_name (vars ! i)) = nm"
    using GetVar_spec [OF assms(1) nm] v(2) by auto
  have so: "slot_ok (vars ! i)"
    using assms(1) i by (auto simp: vars_inv_def)
  obtain d where d: "copy_to (var_value (vars ! i)) val = Some d" "length d = 1024" "cstr d = val"
    using copy_to_spec [of "var_value (vars ! i)" val] so v(3) vl by (auto simp: slot_ok_def)
  let ?v = "(vars ! i)\<lparr>var_value := d\<rparr>"
  have vi: "vars_inv (vars[i := ?v])"
  proof (rule vars_inv_update [OF assms(1) i(1)])
    show "slot_ok ?v"
      using so d v(3) by (simp add: slot_ok_def)
    fix j assume "j < length vars" "var_used (vars ! j) \<noteq> 0" "j \<noteq> i"
    then show "cstr (var_name (vars ! j)) \<noteq> cstr (var_name ?v)"
      using slot_unique [of vars j i] assms(1) i by (auto simp: vars_inv_def)
  qed
  moreover have "vars_map (vars[i := ?v]) = (vars_map vars)(nm \<mapsto> val)"
    using vars_map_update [OF assms(1) vi i(1)] i(3,4) d(3) by simp
  moreover have "vars_free (vars[i := ?v]) = vars_free vars"
    using vars_free_update(3) [OF i(1,3), of ?v] i(3) by simp
  ultimately show ?thesis
    using True v i(2) d(1) vl(1) HasVar_spec [OF assms(1) nm] by (auto simp: KnlSetVarValue_def MAX_VAR_VALUE_LEN_def)
next
  case False
  have nm: "length nm < 2 ^ 32" and vl: "unat (C_strlen val) = length val"
    using assms(2,3) by (simp_all add: var_string_def C_strlen unat_of_nat32)
  have "KnlSetVarValue (Some vars) (Some nm) (Some val) = Some (False, Some vars)"
    using False HasVar_spec [OF assms(1) nm] vl by (auto simp: KnlSetVarValue_def ok_def MAX_VAR_VALUE_LEN_def)
  then show ?thesis
    using False assms(1) by auto
qed

lemma DeleteVar_spec:
  assumes "vars_inv vars" "var_string nm"
  defines "ok \<equiv> KnlIsValidVarName (Some nm) \<and> vars_map vars nm \<noteq> None"
  shows "\<exists>vars'. KnlDeleteVar (Some vars) (Some nm) = (ok, Some vars') \<and> vars_inv vars' \<and>
    length vars' = length vars \<and> vars_map vars' = (if ok then (vars_map vars)(nm := None) else vars_map vars) \<and>
    vars_free vars' = (if ok then vars_free vars + 1 else vars_free vars)"
proof (cases ok)
  case True
  have nm: "length nm < 2 ^ 32"
    using assms(2) by (simp add: var_string_def)
  have v: "KnlIsValidVarName (Some nm)" "vars_map vars nm \<noteq> None"
    using True by (simp_all add: ok_def)
  obtain i where i: "i < length vars" "KnlGetVar vars nm = Some i" "var_used (vars ! i) \<noteq> 0" "cstr (var_name (vars ! i)) = nm"
    using GetVar_spec [OF assms(1) nm] v(2) by auto
  let ?v = "(vars ! i)\<lparr>var_used := 0\<rparr>"
  have "slot_ok (vars ! i)"
    using assms(1) i by (auto simp: vars_inv_def)
  then have vi: "vars_inv (vars[i := ?v])"
    by (intro vars_inv_update [OF assms(1) i(1)]) (simp_all add: slot_ok_def)
  moreover have "vars_map (vars[i := ?v]) = (vars_map vars)(nm := None)"
    using vars_map_update [OF assms(1) vi i(1)] i(3,4) by simp
  moreover have "vars_free (vars[i := ?v]) = vars_free vars + 1"
    using vars_free_update(2) [OF i(1,3), of ?v] by simp
  ultimately show ?thesis
    using True v i(2) HasVar_spec [OF assms(1) nm] by (auto simp: KnlDeleteVar_def)
next
  case False
  have nm: "length nm < 2 ^ 32"
    using assms(2) by (simp add: var_string_def)
  then have "KnlDeleteVar (Some vars) (Some nm) = (False, Some vars)"
    using False HasVar_spec [OF assms(1) nm] by (auto simp: KnlDeleteVar_def ok_def)
  then show ?thesis
    using False assms(1) by auto
qed

lemma GetVarValue_spec:
  assumes "vars_inv vars" "var_string nm" "unat sz \<le> length buf"
  shows "\<exists>buf'. KnlGetVarValueWithSize (Some vars) (Some nm) buf sz =
      Some (sz \<noteq> 0 \<and> KnlIsValidVarName (Some nm) \<and> vars_map vars nm \<noteq> None, buf') \<and> length buf' = length buf \<and>
    (sz \<noteq> 0 \<longrightarrow> KnlIsValidVarName (Some nm) \<longrightarrow> (\<forall>w. vars_map vars nm = Some w \<longrightarrow> cstr buf' = take (unat sz - 1) w))"
proof (cases "sz \<noteq> 0 \<and> KnlIsValidVarName (Some nm) \<and> vars_map vars nm \<noteq> None")
  case True
  have nm: "length nm < 2 ^ 32"
    using assms(2) by (simp add: var_string_def)
  obtain i where i: "i < length vars" "KnlGetVar vars nm = Some i" "vars_map vars nm = Some (cstr (var_value (vars ! i)))"
    using GetVar_spec [OF assms(1) nm] True by auto
  let ?w = "cstr (var_value (vars ! i))"
  have nul: "NUL \<notin> set ?w"
    by (auto simp: cstr_def dest: set_takeWhileD)
  obtain d where d: "UtlCopyString (Some buf) sz (Some ?w) = Some (if length ?w < unat sz then SFSTR_R_OK else SFSTR_R_TOO_LONG, Some d)"
      "length d = length buf" "cstr d = take (unat sz - 1) ?w"
    using UtlCopyString_bounded [OF _ assms(3) nul] True by (auto simp: word_neq_0_conv)
  then have "utl_copy_at 0 buf sz ?w = Some (if length ?w < unat sz then SFSTR_R_OK else SFSTR_R_TOO_LONG, d)"
    by (simp add: UtlCopyString_def)
  then have "\<exists>ui r buf'. utl_copy_loop 0 (unat (sz - 1)) ?w buf = Some (ui, r, buf') \<and> ui < length buf' \<and> d = buf'[ui := NUL]"
    using True by (auto simp: utl_copy_at_def Option.bind_eq_Some_conv split: if_splits)
  then show ?thesis
    using True d i HasVar_spec [OF assms(1) nm] by (auto simp: KnlGetVarValueWithSize_def)
next
  case False
  have nm: "length nm < 2 ^ 32"
    using assms(2) by (simp add: var_string_def)
  then have "KnlGetVarValueWithSize (Some vars) (Some nm) buf sz = Some (False, buf)"
    using False HasVar_spec [OF assms(1) nm] by (auto simp: KnlGetVarValueWithSize_def)
  then show ?thesis
    using False by auto
qed

section \<open>Properties\<close>

text \<open>A script of calls on one table, with the answers, and the same script on a map.\<close>

datatype var_op = VNew string | VSet string string | VDelete string | VGet string

fun var_run :: "var_op list \<Rightarrow> var list option \<Rightarrow> ((bool \<times> string) list \<times> var list option) option" where
  "var_run [] vs = Some ([], vs)"
| "var_run (VNew nm # ops) vs = do {
     (ok, vs) \<leftarrow> KnlNewVar vs (Some nm); (rs, vs) \<leftarrow> var_run ops vs; Some ((ok, []) # rs, vs) }"
| "var_run (VSet nm val # ops) vs = do {
     (ok, vs) \<leftarrow> KnlSetVarValue vs (Some nm) (Some val); (rs, vs) \<leftarrow> var_run ops vs; Some ((ok, []) # rs, vs) }"
| "var_run (VDelete nm # ops) vs =
     (case KnlDeleteVar vs (Some nm) of
        (ok, vs) \<Rightarrow> do { (rs, vs) \<leftarrow> var_run ops vs; Some ((ok, []) # rs, vs) })"
| "var_run (VGet nm # ops) vs = do {
     (ok, buf) \<leftarrow> KnlGetVarValueWithSize vs (Some nm) var_buffer 1024;
     (rs, vs) \<leftarrow> var_run ops vs; Some ((ok, if ok then cstr buf else []) # rs, vs) }"

fun var_spec :: "var_op list \<Rightarrow> nat \<Rightarrow> (string \<Rightarrow> string option) \<Rightarrow> (bool \<times> string) list" where
  "var_spec [] room m = []"
| "var_spec (VNew nm # ops) room m =
     (let ok = KnlIsValidVarName (Some nm) \<and> m nm = None \<and> room \<noteq> 0
      in (ok, []) # (if ok then var_spec ops (room - 1) (m(nm \<mapsto> [])) else var_spec ops room m))"
| "var_spec (VSet nm val # ops) room m =
     (let ok = KnlIsValidVarName (Some nm) \<and> m nm \<noteq> None \<and> length val \<le> 1023
      in (ok, []) # var_spec ops room (if ok then m(nm \<mapsto> val) else m))"
| "var_spec (VDelete nm # ops) room m =
     (let ok = KnlIsValidVarName (Some nm) \<and> m nm \<noteq> None
      in (ok, []) # (if ok then var_spec ops (room + 1) (m(nm := None)) else var_spec ops room m))"
| "var_spec (VGet nm # ops) room m =
     (let ok = KnlIsValidVarName (Some nm) \<and> m nm \<noteq> None
      in (ok, if ok then the (m nm) else []) # var_spec ops room m)"

fun var_op_ok :: "var_op \<Rightarrow> bool" where
  "var_op_ok (VSet nm val) \<longleftrightarrow> var_string nm \<and> var_string val"
| "var_op_ok (VNew nm) \<longleftrightarrow> var_string nm"
| "var_op_ok (VDelete nm) \<longleftrightarrow> var_string nm"
| "var_op_ok (VGet nm) \<longleftrightarrow> var_string nm"

lemma value_short: "vars_inv vars \<Longrightarrow> vars_map vars nm = Some w \<Longrightarrow> length w \<le> 1023"
  using vars_map_Some [of vars nm w] by (auto simp: vars_inv_def slot_ok_def)

lemma var_run_spec:
  "vars_inv vars \<Longrightarrow> list_all var_op_ok ops \<Longrightarrow>
     \<exists>vars'. var_run ops (Some vars) = Some (var_spec ops (vars_free vars) (vars_map vars), Some vars') \<and> vars_inv vars'"
proof (induction ops arbitrary: vars)
  case (Cons op ops)
  have ops: "list_all var_op_ok ops" and op: "var_op_ok op"
    using Cons.prems(2) by simp_all
  note IH = Cons.IH [OF _ ops]
  note inv = Cons.prems(1)
  show ?case
  proof (cases op)
    case (VNew nm)
    have st: "var_string nm" using op VNew by simp
    from NewVar_spec [OF inv st] obtain v1 where
      v1: "KnlNewVar (Some vars) (Some nm) =
          Some (KnlIsValidVarName (Some nm) \<and> vars_map vars nm = None \<and> vars_free vars \<noteq> 0, Some v1)" "vars_inv v1"
        "vars_map v1 = (if KnlIsValidVarName (Some nm) \<and> vars_map vars nm = None \<and> vars_free vars \<noteq> 0
           then (vars_map vars)(nm \<mapsto> []) else vars_map vars)"
        "vars_free v1 = (if KnlIsValidVarName (Some nm) \<and> vars_map vars nm = None \<and> vars_free vars \<noteq> 0
           then vars_free vars - 1 else vars_free vars)"
      by blast
    obtain v2 where "var_run ops (Some v1) = Some (var_spec ops (vars_free v1) (vars_map v1), Some v2)" "vars_inv v2"
      using IH [OF v1(2)] by blast
    then show ?thesis
      using v1(1) by (simp add: VNew Let_def v1(3,4))
  next
    case (VSet nm val)
    have st: "var_string nm" "var_string val" using op VSet by simp_all
    from SetVar_spec [OF inv st] obtain v1 where
      v1: "KnlSetVarValue (Some vars) (Some nm) (Some val) =
          Some (KnlIsValidVarName (Some nm) \<and> vars_map vars nm \<noteq> None \<and> length val \<le> 1023, Some v1)" "vars_inv v1"
        "vars_map v1 = (if KnlIsValidVarName (Some nm) \<and> vars_map vars nm \<noteq> None \<and> length val \<le> 1023
           then (vars_map vars)(nm \<mapsto> val) else vars_map vars)"
        "vars_free v1 = vars_free vars"
      by blast
    obtain v2 where "var_run ops (Some v1) = Some (var_spec ops (vars_free v1) (vars_map v1), Some v2)" "vars_inv v2"
      using IH [OF v1(2)] by blast
    then show ?thesis
      using v1(1) by (simp add: VSet Let_def v1(3,4))
  next
    case (VDelete nm)
    have st: "var_string nm" using op VDelete by simp
    from DeleteVar_spec [OF inv st] obtain v1 where
      v1: "KnlDeleteVar (Some vars) (Some nm) = (KnlIsValidVarName (Some nm) \<and> vars_map vars nm \<noteq> None, Some v1)" "vars_inv v1"
        "vars_map v1 = (if KnlIsValidVarName (Some nm) \<and> vars_map vars nm \<noteq> None
           then (vars_map vars)(nm := None) else vars_map vars)"
        "vars_free v1 = (if KnlIsValidVarName (Some nm) \<and> vars_map vars nm \<noteq> None
           then vars_free vars + 1 else vars_free vars)"
      by blast
    obtain v2 where "var_run ops (Some v1) = Some (var_spec ops (vars_free v1) (vars_map v1), Some v2)" "vars_inv v2"
      using IH [OF v1(2)] by blast
    then show ?thesis
      using v1(1) by (auto simp: VDelete Let_def v1(3,4))
  next
    case (VGet nm)
    have st: "var_string nm" using op VGet by simp
    have "unat (1024 :: u32) \<le> length var_buffer"
      by (simp add: var_buffer_def MAX_VAR_VALUE_LEN_def)
    from GetVarValue_spec [OF inv st this] obtain buf where
      b: "KnlGetVarValueWithSize (Some vars) (Some nm) var_buffer 1024 =
          Some (KnlIsValidVarName (Some nm) \<and> vars_map vars nm \<noteq> None, buf)"
        "KnlIsValidVarName (Some nm) \<longrightarrow> (\<forall>w. vars_map vars nm = Some w \<longrightarrow> cstr buf = take 1023 w)"
      by auto
    then have "KnlIsValidVarName (Some nm) \<Longrightarrow> vars_map vars nm = Some w \<Longrightarrow> cstr buf = w" for w
      using value_short [OF inv, of nm w] by auto
    then show ?thesis
      using IH [OF inv] b(1) by (auto simp: VGet Let_def)
  qed
qed simp

lemma vars_fresh:
  "(\<And>i. length (var_name (raw i)) = 1024 \<and> length (var_value (raw i)) = 1024) \<Longrightarrow>
    vars_inv (map (\<lambda>ui. (raw ui)\<lparr>var_used := 0\<rparr>) [0..<n]) \<and>
    vars_map (map (\<lambda>ui. (raw ui)\<lparr>var_used := 0\<rparr>) [0..<n]) = Map.empty \<and>
    vars_free (map (\<lambda>ui. (raw ui)\<lparr>var_used := 0\<rparr>) [0..<n]) = n"
proof -
  assume raw: "\<And>i. length (var_name (raw i)) = 1024 \<and> length (var_value (raw i)) = 1024"
  have "filter (\<lambda>v. var_used v = 0) (map (\<lambda>ui. (raw ui)\<lparr>var_used := 0\<rparr>) [0..<n]) =
      map (\<lambda>ui. (raw ui)\<lparr>var_used := 0\<rparr>) [0..<n]"
    by (simp add: filter_id_conv)
  then show ?thesis
    using raw by (auto simp: vars_inv_def slot_ok_def names_distinct_def vars_free_def vars_map_None fun_eq_iff)
qed

text \<open>C26: The variables of the shell are a map of bounded size: on a table that
  \<open>KnlAllocVarList\<close> returned, whatever it held before, any sequence of calls gives exactly the
  answers of a map from names to values with room for as many names: a name is new only once, values
  of up to 1023 characters come back unchanged, and a deleted name leaves its room to another.\<close>

theorem vars_refine_map:
  assumes "KnlAllocVarList n raw ks = Some (Some vl, ks')"
    "\<And>i. length (var_name (raw i)) = 1024 \<and> length (var_value (raw i)) = 1024" "list_all var_op_ok ops"
  shows "\<exists>vars'. var_run ops (Some (vl_table vl)) = Some (var_spec ops (unat n) Map.empty, Some vars')"
proof -
  have "vl_table vl = map (\<lambda>ui. (raw ui)\<lparr>var_used := 0\<rparr>) [0..<unat n]"
    using assms(1) by (auto simp: KnlAllocVarList_def Option.bind_eq_Some_conv split: if_splits)
  then show ?thesis
    using var_run_spec [OF _ assms(3)] vars_fresh [of raw "unat n"] assms(2) by fastforce
qed

text \<open>Two slots in the memory of a machine with 32 MB.\<close>

definition raw_slots :: "nat \<Rightarrow> var" where
  "raw_slots = (\<lambda>_. \<lparr>var_used = 7, var_name = replicate 1024 (CHR ''x''), var_value = replicate 1024 (CHR ''y'')\<rparr>)"

lemma vars_alloc32:
  "\<exists>vl ks. KnlAllocVarList 2 raw_slots (cpu0, mem32) = Some (Some vl, ks)"
  by (simp add: KnlAllocVarList_def MemAlloc_def MemAlloc_logged_def locked_def mem32_def mem_eval VAR_SIZE_def)

theorem vars_refine_map_witness:
  "\<exists>vl ks vars'. KnlAllocVarList 2 raw_slots (cpu0, mem32) = Some (Some vl, ks) \<and>
    var_run [VNew ''a'', VSet ''a'' ''42'', VNew ''a'', VNew ''b'', VNew ''c'', VDelete ''b'', VNew ''c'', VGet ''a'']
      (Some (vl_table vl)) =
      Some ([(True, []), (True, []), (False, []), (True, []), (False, []), (True, []), (True, []), (True, ''42'')], Some vars')"
proof -
  let ?ops = "[VNew ''a'', VSet ''a'' ''42'', VNew ''a'', VNew ''b'', VNew ''c'', VDelete ''b'', VNew ''c'', VGet ''a'']"
  obtain vl ks where a: "KnlAllocVarList 2 raw_slots (cpu0, mem32) = Some (Some vl, ks)"
    using vars_alloc32 by blast
  have "KnlIsValidVarName (Some ''a'')" "KnlIsValidVarName (Some ''b'')" "KnlIsValidVarName (Some ''c'')"
    by (simp_all add: KnlIsValidVarName_def C_strlen_def MAX_VAR_NAME_LEN_def var_char_def schar_def)
  then show ?thesis
    using vars_refine_map [OF a, of ?ops] a by (auto simp: raw_slots_def var_string_def)
qed

end
