(* ===== verification/Path_Lib.thy ===== *)
theory Path_Lib
  imports Strings_Proofs
begin

text \<open>
  \<^verbatim>\<open>libs/pathlib/pathlib.c\<close> with \<^verbatim>\<open>lib.c\<close>: paths of the form \<open>DA:/dir/dir/file.ext\<close>
  taken apart and put together.  A string in a buffer is the list of its characters; a write outside
  of a buffer of 256 bytes is \<^const>\<open>None\<close>.
\<close>

section \<open>State\<close>

datatype pathl_type_t = PATHLTYPE_ERROR | PATHLTYPE_FILE | PATHLTYPE_DIR

definition PATHL_MAX_DIR_DEPTH :: nat where "PATHL_MAX_DIR_DEPTH = 32"
definition PATH_MAX_NAME_LEN :: nat where "PATH_MAX_NAME_LEN = 255"

record pathl_path =
  pl_type :: pathl_type_t
  pl_symbol :: "char list"   \<comment> \<open>a buffer of 3 bytes\<close>
  pl_dirs :: "string list"   \<comment> \<open>32 buffers\<close>
  pl_dir_count :: nat
  pl_file :: string
  pl_file_without_ext :: string
  pl_ext :: string

section \<open>\<open>lib.c\<close>\<close>

fun pathl_strlen_loop :: "string \<Rightarrow> u32 \<Rightarrow> u32" where
  "pathl_strlen_loop [] len = len"
| "pathl_strlen_loop (c # str) len = pathl_strlen_loop str (len + 1)"

definition pathl_lib_strlen :: "string \<Rightarrow> u32" where
  "pathl_lib_strlen str = pathl_strlen_loop str 0"

text \<open>\<open>pathl_lib_strcpy\<close> and \<open>pathl_lib_strcat\<close> into a buffer of \<open>sz\<close> bytes.\<close>

definition pathl_lib_strcpy :: "nat \<Rightarrow> string \<Rightarrow> string option" where
  "pathl_lib_strcpy sz src = (if length src < sz then Some src else None)"

definition pathl_lib_strcat :: "nat \<Rightarrow> string \<Rightarrow> string \<Rightarrow> string option" where
  "pathl_lib_strcat sz dst src = (if length dst + length src < sz then Some (dst @ src) else None)"

fun pathl_strcmp_loop :: "string \<Rightarrow> string \<Rightarrow> int" where
  "pathl_strcmp_loop (a # str1) (b # str2) =
     (if a \<noteq> b then schar a - schar b else pathl_strcmp_loop str1 str2)"
| "pathl_strcmp_loop _ _ = 0"

definition pathl_lib_strcmp :: "string \<Rightarrow> string \<Rightarrow> int" where
  "pathl_lib_strcmp str1 str2 =
     (let str1len = pathl_lib_strlen str1; str2len = pathl_lib_strlen str2 in
      if str1len \<noteq> str2len then sint (str1len - str2len) else pathl_strcmp_loop str1 str2)"

section \<open>\<open>pathlib.c\<close>\<close>

definition pathl_char :: "char \<Rightarrow> bool" where
  "pathl_char chr =
     (schar (CHR ''A'') \<le> schar chr \<and> schar chr \<le> schar (CHR ''Z'') \<or>
      schar (CHR ''a'') \<le> schar chr \<and> schar chr \<le> schar (CHR ''z'') \<or>
      schar (CHR ''0'') \<le> schar chr \<and> schar chr \<le> schar (CHR ''9'') \<or> chr = CHR ''_'' \<or> chr = CHR ''.'')"

text \<open>
  The loop over the characters: \<open>name\<close> is the string in the buffer of 256 bytes, its length the
  variable \<open>ui\<close>.  The result says whether the loop ended without \<open>return FALSE\<close>.
\<close>

fun pathl_parse_loop :: "string \<Rightarrow> string \<Rightarrow> pathl_path \<Rightarrow> (bool \<times> string \<times> pathl_path) option" where
  "pathl_parse_loop [] name p = Some (True, name, p)"
| "pathl_parse_loop (chr # s) name p =
     (if chr = CHR ''/'' then
        (if pathl_lib_strlen name = 0 then Some (False, name, p)
         else if pl_dir_count p = PATHL_MAX_DIR_DEPTH then Some (False, name, p)
         else do {
           d \<leftarrow> pathl_lib_strcpy (PATH_MAX_NAME_LEN + 1) name;
           pathl_parse_loop s [] (p\<lparr>pl_dirs := (pl_dirs p)[pl_dir_count p := d],
                                     pl_dir_count := pl_dir_count p + 1\<rparr>) })
      else if length name > PATH_MAX_NAME_LEN then Some (False, name, p)
      else if \<not> pathl_char chr then Some (False, name, p)
      else if length name + 1 < PATH_MAX_NAME_LEN + 1 then pathl_parse_loop s (name @ [chr]) p
      else None)"

text \<open>\<open>for(i = strlen(name); i >= 0; i--) if(name[i] == '.') break;\<close>\<close>

fun last_dot :: "string \<Rightarrow> nat \<Rightarrow> nat option" where
  "last_dot name 0 = (if (name @ [NUL]) ! 0 = CHR ''.'' then Some 0 else None)"
| "last_dot name (Suc i) = (if (name @ [NUL]) ! Suc i = CHR ''.'' then Some (Suc i) else last_dot name i)"

definition pathl_set_file :: "string \<Rightarrow> pathl_path \<Rightarrow> pathl_path option" where
  "pathl_set_file name p =
     (if pl_type p = PATHLTYPE_FILE then do {
        f \<leftarrow> pathl_lib_strcpy (PATH_MAX_NAME_LEN + 1) name;
        (case last_dot name (length name) of
           Some i \<Rightarrow> do {
             w \<leftarrow> pathl_lib_strcpy (PATH_MAX_NAME_LEN + 1) name;
             e \<leftarrow> pathl_lib_strcpy (PATH_MAX_NAME_LEN + 1) (drop i name);
             Some (p\<lparr>pl_file := f, pl_file_without_ext := take i w, pl_ext := e\<rparr>) }
         | None \<Rightarrow> do {
             w \<leftarrow> pathl_lib_strcpy (PATH_MAX_NAME_LEN + 1) name;
             Some (p\<lparr>pl_file := f, pl_file_without_ext := w, pl_ext := []\<rparr>) }) }
      else Some (p\<lparr>pl_file := [], pl_file_without_ext := [], pl_ext := []\<rparr>))"

definition pathl_parse :: "string option \<Rightarrow> pathl_path option \<Rightarrow> (bool \<times> pathl_path option) option" where
  "pathl_parse path path_obj =
     (case (path, path_obj) of
        (Some pth, Some p) \<Rightarrow>
          (case pth of
             [] \<Rightarrow> Some (False, Some p)
           | [a] \<Rightarrow> Some (False, Some (p\<lparr>pl_symbol := (pl_symbol p)[0 := a]\<rparr>))
           | a # b # s \<Rightarrow>
               (let p = p\<lparr>pl_symbol := (pl_symbol p)[0 := a, 1 := b, 2 := NUL]\<rparr> in
                case s of
                  CHR '':'' # CHR ''/'' # s \<Rightarrow>
                    (let p = p\<lparr>pl_type := (if last pth = CHR ''/'' then PATHLTYPE_DIR else PATHLTYPE_FILE),
                               pl_dir_count := 0\<rparr>
                     in do {
                       (ok, name, p) \<leftarrow> pathl_parse_loop s [] p;
                       if \<not> ok then Some (False, Some p)
                       else do { p \<leftarrow> pathl_set_file name p; Some (True, Some p) } })
                | _ \<Rightarrow> Some (False, Some p)))
      | _ \<Rightarrow> Some (False, path_obj))"

text \<open>\<open>pathl_build\<close> into a buffer of \<open>sz\<close> bytes.\<close>

fun build_loop :: "nat \<Rightarrow> string list \<Rightarrow> nat \<Rightarrow> nat \<Rightarrow> string \<Rightarrow> string option" where
  "build_loop sz dirs ui 0 path = Some path"
| "build_loop sz dirs ui (Suc n) path =
     (if ui < length dirs then do {
        path \<leftarrow> pathl_lib_strcat sz path (dirs ! ui);
        path \<leftarrow> pathl_lib_strcat sz path ''/'';
        build_loop sz dirs (Suc ui) n path }
      else None)"

definition pathl_build :: "nat \<Rightarrow> pathl_path option \<Rightarrow> (bool \<times> string) option" where
  "pathl_build sz path_obj =
     (case path_obj of
        None \<Rightarrow> Some (False, [])
      | Some p \<Rightarrow> do {
          path \<leftarrow> pathl_lib_strcpy sz (cstr (pl_symbol p));
          path \<leftarrow> pathl_lib_strcat sz path '':/'';
          path \<leftarrow> build_loop sz (pl_dirs p) 0 (pl_dir_count p) path;
          path \<leftarrow> (if pl_type p = PATHLTYPE_FILE then pathl_lib_strcat sz path (pl_file p) else Some path);
          Some (True, path) })"

definition pathl_type :: "pathl_path option \<Rightarrow> pathl_type_t" where
  "pathl_type path_obj = (case path_obj of None \<Rightarrow> PATHLTYPE_ERROR | Some p \<Rightarrow> pl_type p)"

definition pathl_symbol :: "pathl_path option \<Rightarrow> string option" where
  "pathl_symbol path_obj = map_option (\<lambda>p. cstr (pl_symbol p)) path_obj"

definition pathl_dir_depth :: "pathl_path option \<Rightarrow> u32" where
  "pathl_dir_depth path_obj = (case path_obj of None \<Rightarrow> 0xFFFFFFFF | Some p \<Rightarrow> of_nat (pl_dir_count p))"

definition pathl_dir :: "pathl_path option \<Rightarrow> u32 \<Rightarrow> string option" where
  "pathl_dir path_obj index =
     (case path_obj of
        None \<Rightarrow> None
      | Some p \<Rightarrow>
          if index = 0 then Some ''/''
          else if unat (index - 1) < pl_dir_count p then Some (pl_dirs p ! unat (index - 1))
          else None)"

definition pathl_file_field :: "(pathl_path \<Rightarrow> string) \<Rightarrow> pathl_path option \<Rightarrow> string option" where
  "pathl_file_field f path_obj =
     (case path_obj of
        None \<Rightarrow> None
      | Some p \<Rightarrow> if pl_type p \<noteq> PATHLTYPE_FILE then None else Some (f p))"

definition pathl_file :: "pathl_path option \<Rightarrow> string option" where
  "pathl_file = pathl_file_field pl_file"

definition pathl_file_without_ext :: "pathl_path option \<Rightarrow> string option" where
  "pathl_file_without_ext = pathl_file_field pl_file_without_ext"

definition pathl_ext :: "pathl_path option \<Rightarrow> string option" where
  "pathl_ext = pathl_file_field pl_ext"

section \<open>What is parsed\<close>

definition pathl_name :: "string \<Rightarrow> bool" where
  "pathl_name s \<longleftrightarrow> 0 < length s \<and> length s \<le> 255 \<and> list_all pathl_char s"

definition dir_part :: "string list \<Rightarrow> string" where
  "dir_part ds = concat (map (\<lambda>d. d @ ''/'') ds)"

lemma pathl_strlen: "pathl_lib_strlen s = of_nat (length s)"
proof -
  have "pathl_strlen_loop s n = n + of_nat (length s)" for n
    by (induction s arbitrary: n) simp_all
  then show ?thesis
    by (simp add: pathl_lib_strlen_def)
qed

lemma pathl_char_slash [simp]: "\<not> pathl_char (CHR ''/'')"
  by (simp add: pathl_char_def schar_def)

lemma pathl_name_nonempty: "pathl_name s \<Longrightarrow> pathl_lib_strlen s \<noteq> 0"
  using unat_of_nat32 [of "length s"] by (auto simp: pathl_name_def pathl_strlen)

lemma parse_chars:
  "list_all pathl_char cs \<Longrightarrow> length name + length cs \<le> 255 \<Longrightarrow>
    pathl_parse_loop (cs @ s) name p = pathl_parse_loop s (name @ cs) p"
proof (induction cs arbitrary: name)
  case (Cons c cs)
  then show ?case
    by (auto simp: PATH_MAX_NAME_LEN_def)
qed simp

lemma parse_dirs:
  "list_all pathl_name ds \<Longrightarrow> pl_dir_count p + length ds \<le> 32 \<Longrightarrow>
    \<exists>q. pathl_parse_loop (dir_part ds @ s) [] p = pathl_parse_loop s [] q \<and>
      pl_dir_count q = pl_dir_count p + length ds \<and> pl_type q = pl_type p \<and> pl_symbol q = pl_symbol p \<and>
      length (pl_dirs q) = length (pl_dirs p) \<and> (\<forall>i < pl_dir_count p. pl_dirs q ! i = pl_dirs p ! i) \<and>
      (length (pl_dirs p) = 32 \<longrightarrow> (\<forall>i < length ds. pl_dirs q ! (pl_dir_count p + i) = ds ! i))"
proof (induction ds arbitrary: p)
  case Nil
  then show ?case by (intro exI [of _ p]) (simp add: dir_part_def)
next
  case (Cons d ds)
  let ?p = "p\<lparr>pl_dirs := (pl_dirs p)[pl_dir_count p := d], pl_dir_count := pl_dir_count p + 1\<rparr>"
  have d: "list_all pathl_char d" "length d \<le> 255" "pathl_lib_strlen d \<noteq> 0"
    using Cons.prems(1) pathl_name_nonempty by (auto simp: pathl_name_def)
  have "pathl_parse_loop (dir_part (d # ds) @ s) [] p = pathl_parse_loop (d @ CHR ''/'' # dir_part ds @ s) [] p"
    by (simp add: dir_part_def)
  also have "\<dots> = pathl_parse_loop (CHR ''/'' # dir_part ds @ s) d p"
    using parse_chars [of d "[]"] d by simp
  also have "\<dots> = pathl_parse_loop (dir_part ds @ s) [] ?p"
    using d Cons.prems(2) by (simp add: PATHL_MAX_DIR_DEPTH_def pathl_lib_strcpy_def PATH_MAX_NAME_LEN_def)
  finally have eq: "pathl_parse_loop (dir_part (d # ds) @ s) [] p = pathl_parse_loop (dir_part ds @ s) [] ?p" .
  obtain q where q: "pathl_parse_loop (dir_part ds @ s) [] ?p = pathl_parse_loop s [] q"
      "pl_dir_count q = pl_dir_count p + 1 + length ds" "pl_type q = pl_type p" "pl_symbol q = pl_symbol p"
      "length (pl_dirs q) = length (pl_dirs p)" "\<forall>i < pl_dir_count p + 1. pl_dirs q ! i = (pl_dirs p)[pl_dir_count p := d] ! i"
      "length (pl_dirs p) = 32 \<longrightarrow> (\<forall>i < length ds. pl_dirs q ! (pl_dir_count p + 1 + i) = ds ! i)"
    using Cons.IH [of ?p] Cons.prems by auto
  have "pl_dirs q ! (pl_dir_count p + i) = (d # ds) ! i" if "i < length (d # ds)" "length (pl_dirs p) = 32" for i
    using that q(6,7) Cons.prems(2) by (cases i) auto
  then show ?case
    using eq q by (intro exI [of _ q]) auto
qed

text \<open>Conversely, an accepted text is names with slashes behind them, and a rest without one.\<close>

lemma parse_loop_inv:
  "pathl_parse_loop s name p = Some (True, f, q) \<Longrightarrow> length (pl_dirs p) = 32 \<Longrightarrow> pl_dir_count p \<le> 32 \<Longrightarrow> length name \<le> 255 \<Longrightarrow>
    list_all pathl_char name \<Longrightarrow>
    \<exists>ds. name @ s = dir_part ds @ f \<and> list_all pathl_name ds \<and> list_all pathl_char f \<and> length f \<le> 255 \<and>
      pl_dir_count q = pl_dir_count p + length ds \<and> pl_dir_count q \<le> 32 \<and> pl_type q = pl_type p \<and> pl_symbol q = pl_symbol p \<and>
      length (pl_dirs q) = 32 \<and> (\<forall>i < pl_dir_count p. pl_dirs q ! i = pl_dirs p ! i) \<and>
      (\<forall>i < length ds. pl_dirs q ! (pl_dir_count p + i) = ds ! i)"
proof (induction s name p rule: pathl_parse_loop.induct)
  case (1 name p)
  then show ?case
    by (intro exI [of _ "[]"]) (auto simp: dir_part_def)
next
  case (2 chr s name p)
  show ?case
  proof (cases "chr = CHR ''/''")
    case True
    let ?p = "p\<lparr>pl_dirs := (pl_dirs p)[pl_dir_count p := name], pl_dir_count := pl_dir_count p + 1\<rparr>"
    have c: "pathl_lib_strlen name \<noteq> 0" "pl_dir_count p \<noteq> PATHL_MAX_DIR_DEPTH"
        "pathl_lib_strcpy (PATH_MAX_NAME_LEN + 1) name = Some name"
      and r: "pathl_parse_loop s [] ?p = Some (True, f, q)"
      using 2(3) True 2(6) by (auto simp: pathl_lib_strcpy_def PATH_MAX_NAME_LEN_def split: if_splits)
    have lt: "pl_dir_count p < 32"
      using c(2) 2(5) by (simp add: PATHL_MAX_DIR_DEPTH_def)
    have nm: "pathl_name name"
      using c(1) 2(6,7) by (cases "name = []") (auto simp: pathl_name_def pathl_strlen)
    obtain ds where ds: "s = dir_part ds @ f" "list_all pathl_name ds" "list_all pathl_char f" "length f \<le> 255"
        "pl_dir_count q = pl_dir_count p + 1 + length ds" "pl_dir_count q \<le> 32" "pl_type q = pl_type p" "pl_symbol q = pl_symbol p"
        "length (pl_dirs q) = 32" "\<forall>i < pl_dir_count p + 1. pl_dirs q ! i = (pl_dirs p)[pl_dir_count p := name] ! i"
        "\<forall>i < length ds. pl_dirs q ! (pl_dir_count p + 1 + i) = ds ! i"
      using 2(1) [OF True c r] 2(4) lt by auto
    have "pl_dirs q ! (pl_dir_count p + i) = (name # ds) ! i" if "i < length (name # ds)" for i
      using that ds(10,11) lt 2(4) by (cases i) auto
    then show ?thesis
      using ds nm True lt by (intro exI [of _ "name # ds"]) (auto simp: dir_part_def)
  next
    case False
    have c: "\<not> length name > PATH_MAX_NAME_LEN" "pathl_char chr" "length name + 1 < PATH_MAX_NAME_LEN + 1"
      and r: "pathl_parse_loop s (name @ [chr]) p = Some (True, f, q)"
      using 2(3) False by (auto split: if_splits)
    show ?thesis
      using 2(2) [OF False c(1) _ c(3) r] c 2(4,5,7) by (auto simp: PATH_MAX_NAME_LEN_def)
  qed
qed

lemma build_loop_spec:
  "ui + n \<le> length dirs \<Longrightarrow> length path + length (dir_part (take n (drop ui dirs))) < sz \<Longrightarrow>
    build_loop sz dirs ui n path = Some (path @ dir_part (take n (drop ui dirs)))"
proof (induction n arbitrary: ui path)
  case (Suc n)
  have ui: "ui < length dirs" using Suc.prems(1) by simp
  have d: "dir_part (take (Suc n) (drop ui dirs)) = dirs ! ui @ ''/'' @ dir_part (take n (drop (Suc ui) dirs))"
    using ui by (simp add: dir_part_def take_Suc_conv_app_nth Cons_nth_drop_Suc [symmetric])
  show ?case
    using Suc.IH [of "Suc ui" "path @ dirs ! ui @ ''/''"] Suc.prems ui unfolding d by (simp add: pathl_lib_strcat_def)
qed (simp add: dir_part_def)

lemma last_dir_part: "ds \<noteq> [] \<Longrightarrow> last (dir_part ds) = CHR ''/''"
proof -
  assume "ds \<noteq> []"
  then obtain es d where "ds = es @ [d]"
    using rev_exhaust by blast
  then show ?thesis
    by (simp add: dir_part_def)
qed

lemma last_of_path:
  "last (a # b # '':/'' @ dir_part ds @ f) = CHR ''/'' \<longleftrightarrow> f = []" if "list_all pathl_char f"
proof (cases "f = []")
  case True
  then show ?thesis
    using last_dir_part [of ds] by (cases "ds = []") (auto simp: dir_part_def)
next
  case False
  then have "pathl_char (last f)"
    using that by (simp add: list_all_iff)
  then show ?thesis
    using False by auto
qed

lemma last_dot_spec:
  "i < length name \<Longrightarrow> last_dot name i = Some k \<Longrightarrow> k \<le> i" "last_dot name i = Some k \<Longrightarrow> k \<le> i"
  by (induction name i rule: last_dot.induct) (auto split: if_splits)

lemma set_file_spec:
  assumes "length name \<le> 255"
  shows "\<exists>q. pathl_set_file name p = Some q \<and> pl_type q = pl_type p \<and> pl_symbol q = pl_symbol p \<and> pl_dirs q = pl_dirs p \<and>
    pl_dir_count q = pl_dir_count p \<and> pl_file q = (if pl_type p = PATHLTYPE_FILE then name else []) \<and>
    pl_file_without_ext q @ pl_ext q = pl_file q \<and>
    (pl_type p = PATHLTYPE_FILE \<longrightarrow> pl_ext q = (case last_dot name (length name) of None \<Rightarrow> [] | Some i \<Rightarrow> drop i name))"
  using assms by (auto simp: pathl_set_file_def pathl_lib_strcpy_def PATH_MAX_NAME_LEN_def split: option.splits)

section \<open>Properties\<close>

text \<open>The parts of a path that \<open>pathl_parse\<close> found, in an object with its 32 directory buffers.\<close>

definition pathl_parts :: "pathl_path \<Rightarrow> char \<Rightarrow> char \<Rightarrow> string list \<Rightarrow> string \<Rightarrow> bool" where
  "pathl_parts q a b ds f \<longleftrightarrow>
     pl_symbol q = [a, b, NUL] \<and> pl_type q = (if f = [] then PATHLTYPE_DIR else PATHLTYPE_FILE) \<and>
     length (pl_dirs q) = 32 \<and> pl_dir_count q = length ds \<and> take (length ds) (pl_dirs q) = ds \<and> pl_file q = f \<and>
     pl_file_without_ext q @ pl_ext q = f"

lemma parse_parts:
  assumes "length (pl_symbol p) = 3" "length (pl_dirs p) = 32" "list_all pathl_name ds" "length ds \<le> 32"
    "list_all pathl_char f" "length f \<le> 255"
  shows "\<exists>q. pathl_parse (Some (a # b # '':/'' @ dir_part ds @ f)) (Some p) = Some (True, Some q) \<and> pathl_parts q a b ds f"
proof -
  let ?pth = "a # b # '':/'' @ dir_part ds @ f"
  let ?p = "p\<lparr>pl_symbol := (pl_symbol p)[0 := a, 1 := b, 2 := NUL],
              pl_type := (if last ?pth = CHR ''/'' then PATHLTYPE_DIR else PATHLTYPE_FILE), pl_dir_count := 0\<rparr>"
  obtain r where r: "pathl_parse_loop (dir_part ds @ f) [] ?p = pathl_parse_loop f [] r" "pl_dir_count r = length ds"
      "pl_type r = pl_type ?p" "pl_symbol r = pl_symbol ?p" "length (pl_dirs r) = 32" "\<forall>i < length ds. pl_dirs r ! i = ds ! i"
    using parse_dirs [of ds ?p f] assms(2,3,4) by auto
  have f: "pathl_parse_loop f [] r = Some (True, f, r)"
    using parse_chars [of f "[]" "[]" r] assms(5,6) by simp
  obtain q where q: "pathl_set_file f r = Some q" "pl_type q = pl_type r" "pl_symbol q = pl_symbol r" "pl_dirs q = pl_dirs r"
      "pl_dir_count q = pl_dir_count r" "pl_file q = (if pl_type r = PATHLTYPE_FILE then f else [])"
      "pl_file_without_ext q @ pl_ext q = pl_file q"
    using set_file_spec [OF assms(6), of r] by blast
  have ty: "pl_type r = (if f = [] then PATHLTYPE_DIR else PATHLTYPE_FILE)"
    using r(3) last_of_path [OF assms(5), of a b ds] by simp
  have sy: "pl_symbol r = [a, b, NUL]"
    using r(4) assms(1) by (auto simp: numeral_3_eq_3 length_Suc_conv)
  have "take (length ds) (pl_dirs q) = ds"
    using r(5,6) q(4) assms(4) by (intro nth_equalityI) auto
  then have "pathl_parts q a b ds f"
    using q(2-7) r(2,5) ty sy by (cases "f = []") (simp_all add: pathl_parts_def)
  moreover have "pathl_parse (Some ?pth) (Some p) = Some (True, Some q)"
    using r(1) f q(1) by (simp add: pathl_parse_def Let_def)
  ultimately show ?thesis by blast
qed

lemma parse_accepts:
  assumes "pathl_parse (Some pth) (Some p) = Some (True, Some q)" "length (pl_symbol p) = 3" "length (pl_dirs p) = 32"
  shows "\<exists>a b ds f. pth = a # b # '':/'' @ dir_part ds @ f \<and> list_all pathl_name ds \<and> length ds \<le> 32 \<and>
    list_all pathl_char f \<and> length f \<le> 255 \<and> pathl_parts q a b ds f"
proof -
  obtain a b s where pth: "pth = a # b # CHR '':'' # CHR ''/'' # s"
    using assms(1) by (auto simp: pathl_parse_def Let_def split: list.splits if_splits char.splits bool.splits)
  let ?p = "p\<lparr>pl_symbol := (pl_symbol p)[0 := a, 1 := b, 2 := NUL],
              pl_type := (if last pth = CHR ''/'' then PATHLTYPE_DIR else PATHLTYPE_FILE), pl_dir_count := 0\<rparr>"
  obtain f r where r: "pathl_parse_loop s [] ?p = Some (True, f, r)"
    using assms(1) by (auto simp: pathl_parse_def Let_def pth Option.bind_eq_Some_conv split: if_splits)
  obtain ds where ds: "s = dir_part ds @ f" "list_all pathl_name ds" "list_all pathl_char f" "length f \<le> 255" "length ds \<le> 32"
    using parse_loop_inv [OF r] assms(3) by auto
  then show ?thesis
    using parse_parts [OF assms(2,3) ds(2,5,3,4), of a b] assms(1) pth by auto
qed

text \<open>\<open>pathl_parse\<close> accepts exactly the paths of two characters, a colon, a slash, at most 32
  directory names with a slash behind each, and at most one more name, with 1 to 255 letters, digits,
  underscores and dots each, when no name has more than 255 characters; it takes them apart into
  exactly these names, and splits the file name in two parts that make it up.\<close>

theorem pathl_parse_accepts:
  assumes "length (pl_symbol p) = 3" "length (pl_dirs p) = 32"
  shows "(\<exists>q. pathl_parse (Some pth) (Some p) = Some (True, Some q) \<and> pathl_parts q a b ds f) \<longleftrightarrow>
    pth = a # b # '':/'' @ dir_part ds @ f \<and> list_all pathl_name ds \<and> length ds \<le> 32 \<and> list_all pathl_char f \<and> length f \<le> 255"
proof
  assume "\<exists>q. pathl_parse (Some pth) (Some p) = Some (True, Some q) \<and> pathl_parts q a b ds f"
  then obtain q where q: "pathl_parse (Some pth) (Some p) = Some (True, Some q)" "pathl_parts q a b ds f" by blast
  obtain a' b' ds' f' where w: "pth = a' # b' # '':/'' @ dir_part ds' @ f'" "list_all pathl_name ds'" "length ds' \<le> 32"
      "list_all pathl_char f'" "length f' \<le> 255" "pathl_parts q a' b' ds' f'"
    using parse_accepts [OF q(1) assms] by blast
  have "a' = a" "b' = b" "f' = f" "ds' = ds"
    using q(2) w(6) by (auto simp: pathl_parts_def)
  then show "pth = a # b # '':/'' @ dir_part ds @ f \<and> list_all pathl_name ds \<and> length ds \<le> 32 \<and> list_all pathl_char f \<and> length f \<le> 255"
    using w by blast
next
  assume "pth = a # b # '':/'' @ dir_part ds @ f \<and> list_all pathl_name ds \<and> length ds \<le> 32 \<and> list_all pathl_char f \<and> length f \<le> 255"
  then show "\<exists>q. pathl_parse (Some pth) (Some p) = Some (True, Some q) \<and> pathl_parts q a b ds f"
    using parse_parts [OF assms] by blast
qed

definition path0 :: pathl_path where
  "path0 = \<lparr>pl_type = PATHLTYPE_ERROR, pl_symbol = [NUL, NUL, NUL], pl_dirs = replicate 32 [], pl_dir_count = 0,
     pl_file = [], pl_file_without_ext = [], pl_ext = []\<rparr>"

theorem pathl_parse_accepts_witness:
  "\<exists>q. pathl_parse (Some ''DA:/ABC/DEF/abc.txt'') (Some path0) = Some (True, Some q) \<and>
    pathl_parts q (CHR ''D'') (CHR ''A'') [''ABC'', ''DEF''] ''abc.txt''"
  using pathl_parse_accepts [of path0 "''DA:/ABC/DEF/abc.txt''" "CHR ''D''" "CHR ''A''" "[''ABC'', ''DEF'']" "''abc.txt''"]
  by (simp add: path0_def dir_part_def pathl_name_def pathl_char_def schar_def)

text \<open>C27: \<open>pathl_build\<close> is the inverse of \<open>pathl_parse\<close>: whatever path has been accepted, it
  puts exactly that path together again, when the buffer is large enough.\<close>

theorem pathl_build_parse:
  assumes "pathl_parse (Some pth) (Some p) = Some (True, Some q)" "length (pl_symbol p) = 3" "length (pl_dirs p) = 32"
    "NUL \<notin> set pth" "length pth < sz"
  shows "pathl_build sz (Some q) = Some (True, pth)"
proof -
  obtain a b ds f where w: "pth = a # b # '':/'' @ dir_part ds @ f" "length ds \<le> 32" "pathl_parts q a b ds f"
    using parse_accepts [OF assms(1-3)] by blast
  have "cstr (pl_symbol q) = [a, b]"
    using w(1,3) assms(4) by (auto simp: pathl_parts_def cstr_def)
  moreover have "build_loop sz (pl_dirs q) 0 (length ds) (a # b # '':/'') = Some (a # b # '':/'' @ dir_part ds)"
    using build_loop_spec [of 0 "length ds" "pl_dirs q" "a # b # '':/''" sz] w assms(5) by (auto simp: pathl_parts_def)
  ultimately show ?thesis
    using w assms(5) by (auto simp: pathl_build_def pathl_parts_def pathl_lib_strcpy_def pathl_lib_strcat_def)
qed

theorem pathl_build_parse_witness:
  "\<exists>q. pathl_parse (Some ''DA:/a/b'') (Some path0) = Some (True, Some q) \<and> pathl_build 16 (Some q) = Some (True, ''DA:/a/b'')"
  using parse_parts [of path0 "[''a'']" "''b''" "CHR ''D''" "CHR ''A''"] pathl_build_parse [of "''DA:/a/b''" path0 _ 16]
  by (fastforce simp: path0_def dir_part_def pathl_name_def pathl_char_def schar_def)

text \<open>The bound on a name is off by one: a name of 256 or more characters passes the test for
  its 256th one, and the terminator is written behind the buffer.\<close>

theorem pathl_long_name_overflows:
  assumes "list_all pathl_char nm" "length nm \<ge> 256"
  shows "pathl_parse (Some (a # b # '':/'' @ nm @ rest)) (Some p) = None"
proof -
  have "pathl_parse_loop (nm @ rest) [] q = None" for q
  proof -
    let ?hd = "take 255 nm"
    have nm: "nm = ?hd @ nm ! 255 # drop 256 nm"
      using assms(2) id_take_nth_drop [of 255 nm] by simp
    have c: "pathl_char (nm ! 255)" "list_all pathl_char ?hd"
      using assms by (auto simp: list_all_iff dest: in_set_takeD)
    then have "nm ! 255 \<noteq> CHR ''/''"
      by auto
    moreover have "pathl_parse_loop (nm @ rest) [] q = pathl_parse_loop ((nm ! 255 # drop 256 nm) @ rest) ?hd q"
      using parse_chars [of ?hd "[]" "(nm ! 255 # drop 256 nm) @ rest" q] c(2) nm by (metis append_Nil append_assoc length_take
          list.size(3) add_0 min.cobounded2)
    ultimately show ?thesis
      using c(1) assms(2) by (simp add: PATH_MAX_NAME_LEN_def)
  qed
  then show ?thesis
    by (simp add: pathl_parse_def Let_def)
qed

theorem pathl_long_name_overflows_witness:
  "pathl_parse (Some (''DA:/'' @ replicate 256 (CHR ''x''))) (Some path0) = None"
  using pathl_long_name_overflows [of "replicate 256 (CHR ''x'')" "CHR ''D''" "CHR ''A''" "[]" path0]
  by (simp add: list_all_iff pathl_char_def schar_def)

end
