(* ===== verification/Json.thy ===== *)
theory Json
  imports Hash_Table_Proofs Strings_Proofs "HOL-Library.Multiset"
begin

text \<open>
  \<^verbatim>\<open>libs/jsonlib/jsonlib.c\<close>, \<^verbatim>\<open>jsonlib.1.c\<close> and \<^verbatim>\<open>lib.c\<close>: the parser of the
  configuration files.  A text is the list of its characters before the NUL.  The dslib containers
  are what \<^verbatim>\<open>Array_List\<close> and \<^verbatim>\<open>Hash_Table\<close> show them to be: an array is a list, an object
  is a list of pairs with different names.  Their memory is counted: every allocation asks the next
  answer of the allocator, and \<open>jm_live\<close> is the number of blocks that have not been freed.
  \<^const>\<open>None\<close> is a write outside of a buffer, or fuel that has run out.
\<close>

section \<open>State\<close>

datatype json =
    JObject "(string \<times> json) list"
  | JArray "json list"
  | JValue string          \<comment> \<open>with the quotes\<close>
  | JNull | JTrue | JFalse
  | JNumber u64            \<comment> \<open>the bits of a \<open>double\<close>\<close>
  | JUInt u32

record jmem =
  jm_ok :: "nat \<Rightarrow> bool"    \<comment> \<open>whether the \<open>n\<close>-th allocation succeeds\<close>
  jm_calls :: nat
  jm_live :: int

definition JSONL_MAX_VALUE_LEN :: nat where "JSONL_MAX_VALUE_LEN = 1023"

definition jsonl_malloc :: "jmem \<Rightarrow> bool \<times> jmem" where
  "jsonl_malloc st =
     (if jm_ok st (jm_calls st)
      then (True, st\<lparr>jm_calls := jm_calls st + 1, jm_live := jm_live st + 1\<rparr>)
      else (False, st\<lparr>jm_calls := jm_calls st + 1\<rparr>))"

definition jsonl_free :: "nat \<Rightarrow> jmem \<Rightarrow> jmem" where
  "jsonl_free n st = st\<lparr>jm_live := jm_live st - int n\<rparr>"

section \<open>\<open>lib.c\<close>\<close>

fun jsonl_strlen_loop :: "string \<Rightarrow> u32 \<Rightarrow> u32" where
  "jsonl_strlen_loop [] len = len"
| "jsonl_strlen_loop (c # str) len = jsonl_strlen_loop str (len + 1)"

definition jsonl_lib_strlen :: "string \<Rightarrow> u32" where
  "jsonl_lib_strlen str = jsonl_strlen_loop str 0"

definition chr_in :: "char \<Rightarrow> char \<Rightarrow> char \<Rightarrow> bool" where
  "chr_in a chr b \<longleftrightarrow> schar a \<le> schar chr \<and> schar chr \<le> schar b"

definition is_hex_digit :: "char \<Rightarrow> bool" where
  "is_hex_digit c \<longleftrightarrow> chr_in (CHR ''0'') c (CHR ''9'') \<or> chr_in (CHR ''a'') c (CHR ''f'') \<or> chr_in (CHR ''A'') c (CHR ''F'')"

fun hexstoui_loop :: "string \<Rightarrow> u32 \<Rightarrow> u32 \<Rightarrow> u32" where
  "hexstoui_loop [] r d = r"
| "hexstoui_loop (chr # rest) r d =
     (if chr_in (CHR ''0'') chr (CHR ''9'') then hexstoui_loop rest (r + of_int (schar chr - 48) * d) (d * 0x10)
      else if chr_in (CHR ''a'') chr (CHR ''f'') then hexstoui_loop rest (r + of_int (schar chr - 97 + 10) * d) (d * 0x10)
      else if chr_in (CHR ''A'') chr (CHR ''F'') then hexstoui_loop rest (r + of_int (schar chr - 65 + 10) * d) (d * 0x10)
      else r)"

definition jsonl_lib_hexstoui :: "string \<Rightarrow> u32" where
  "jsonl_lib_hexstoui str = hexstoui_loop (rev str) 0 1"

section \<open>The containers\<close>

text \<open>\<open>dsl_hashtable_set_object\<close>: a list for a bucket that has none, a pair and a node.\<close>

definition json_set :: "string \<Rightarrow> json \<Rightarrow> (string \<times> json) list \<Rightarrow> jmem \<Rightarrow> bool \<times> (string \<times> json) list \<times> jmem" where
  "json_set kname v entries st =
     (if length kname > DSLHASHTABLE_MAX_NAME_LEN then (False, entries, st)
      else
        (case (if hash_name kname \<in> hash_name ` fst ` set entries then (True, st) else jsonl_malloc st) of
           (False, st) \<Rightarrow> (False, entries, st)
         | (True, st) \<Rightarrow>
             if kname \<in> fst ` set entries then (False, entries, st)
             else (case jsonl_malloc st of
                     (False, st) \<Rightarrow> (False, entries, st)
                   | (True, st) \<Rightarrow>
                       (case jsonl_malloc st of
                          (False, st) \<Rightarrow> (False, entries, st)
                        | (True, st) \<Rightarrow> (True, entries @ [(kname, v)], st)))))"

text \<open>\<open>dsl_hashtable_unset_all\<close> and \<open>dsl_hashtable_free\<close> free the pairs, the nodes and the
  table; the lists of the buckets stay.\<close>

definition json_table_free :: "(string \<times> json) list \<Rightarrow> jmem \<Rightarrow> jmem" where
  "json_table_free entries st = jsonl_free (2 * length entries + 1) st"

text \<open>\<open>dsl_lst_delete_all_object_value\<close> frees each value and the block it points to.\<close>

definition json_list_delete :: "json list \<Rightarrow> jmem \<Rightarrow> jmem" where
  "json_list_delete items st = jsonl_free (2 * length items) st"

definition json_list_new :: "jmem \<Rightarrow> bool \<times> jmem" where
  "json_list_new st =
     (case jsonl_malloc st of
        (False, st) \<Rightarrow> (False, st)
      | (True, st) \<Rightarrow>
          (case jsonl_malloc st of
             (False, st) \<Rightarrow> (False, jsonl_free 1 st)
           | (True, st) \<Rightarrow> (True, st)))"

text \<open>\<open>dsl_lst_add_value\<close>: a full array is replaced by one of twice the size.\<close>

definition json_list_add :: "json \<Rightarrow> nat \<Rightarrow> json list \<Rightarrow> jmem \<Rightarrow> bool \<times> nat \<times> json list \<times> jmem" where
  "json_list_add v cap items st =
     (if length items = cap then
        (case jsonl_malloc st of
           (False, st) \<Rightarrow> (False, cap, items, st)
         | (True, st) \<Rightarrow> (True, cap * 2, items @ [v], jsonl_free 1 st))
      else (True, cap, items @ [v], st))"

section \<open>Values\<close>

definition IS_SPACE :: "char \<Rightarrow> bool" where
  "IS_SPACE chr \<longleftrightarrow> chr = CHR '' '' \<or> chr = CHR 0x0D \<or> chr = CHR 0x0A \<or> chr = CHR 0x09"

definition IS_KEY_CHAR :: "char \<Rightarrow> bool" where
  "IS_KEY_CHAR chr \<longleftrightarrow> chr_in (CHR ''A'') chr (CHR ''Z'') \<or> chr_in (CHR ''a'') chr (CHR ''z'') \<or>
     chr_in (CHR ''0'') chr (CHR ''9'') \<or> chr = CHR ''_''"

fun skip_space :: "string \<Rightarrow> string" where
  "skip_space [] = []"
| "skip_space (c # s) = (if IS_SPACE c then skip_space s else c # s)"

text \<open>\<open>*json_text\<close>, and the text behind it.\<close>

definition cur :: "string \<Rightarrow> char" where
  "cur s = (case s of [] \<Rightarrow> NUL | c # _ \<Rightarrow> c)"

text \<open>The characters of a string up to its closing quote; \<open>None\<close> is \<open>goto __ERROR_LABEL__\<close>.\<close>

definition unescape :: "char \<Rightarrow> char option" where
  "unescape c =
     (if c = CHR 0x5C then Some (CHR 0x5C)
      else if c = CHR ''r'' then Some (CHR 0x0D)
      else if c = CHR ''n'' then Some (CHR 0x0A)
      else if c = CHR ''t'' then Some (CHR 0x09)
      else if c = CHR ''v'' then Some (CHR 0x0B)
      else None)"

fun json_string :: "string \<Rightarrow> string \<Rightarrow> (string \<times> string) option" where
  "json_string [] value = None"
| "json_string [c] value =
     (if c = CHR 0x22 then Some (value @ [CHR 0x22], []) else None)"
| "json_string (c # d # s) value =
     (if c = CHR 0x22 then Some (value @ [CHR 0x22], d # s)
      else if length value \<ge> JSONL_MAX_VALUE_LEN - 1 then None
      else if c = CHR 0x5C then
        (case unescape d of None \<Rightarrow> None | Some e \<Rightarrow> json_string s (value @ [e]))
      else json_string (d # s) (value @ [c]))"

text \<open>The words \<open>null\<close>, \<open>true\<close> and \<open>false\<close> behind their first character.\<close>

fun json_word :: "string \<Rightarrow> string \<Rightarrow> string option" where
  "json_word [] s = Some s"
| "json_word (w # ws) [] = None"
| "json_word (w # ws) (c # s) = (if c \<noteq> w then None else json_word ws s)"

text \<open>The digits are collected in a buffer of 1024 bytes, which is not checked.\<close>

definition json_digits :: "(char \<Rightarrow> bool) \<Rightarrow> string \<Rightarrow> (string \<times> string) option" where
  "json_digits P s =
     (let buffer = takeWhile P s in if length buffer < 1024 then Some (buffer, dropWhile P s) else None)"

definition json_leaf :: "json \<Rightarrow> string \<Rightarrow> jmem \<Rightarrow> json option \<times> string \<times> jmem" where
  "json_leaf v s st = (case jsonl_malloc st of (ok, st) \<Rightarrow> (if ok then Some v else None, s, st))"

text \<open>
  \<^verbatim>\<open>jsonlib.1.c\<close> but for its two calls of \<open>jsonl_parse\<close>.  \<open>jsonl_lib_stod\<close> has no
  \<open>return\<close> for the number it computes, so what it returns is a parameter.
\<close>

definition json_simple ::
  "(string \<Rightarrow> u64) \<Rightarrow> string \<Rightarrow> jmem \<Rightarrow> (json option \<times> string \<times> jmem) option" where
  "json_simple stod s st =
     (case s of
        [] \<Rightarrow> Some (None, s, st)
      | c # t \<Rightarrow>
          if c = CHR 0x22 then
            (case json_string t [CHR 0x22] of
               None \<Rightarrow> Some (None, s, st)
             | Some (value, t) \<Rightarrow> Some (json_leaf (JValue value) t st))
          else if c = CHR ''n'' then
            (case json_word ''ull'' t of None \<Rightarrow> Some (None, s, st) | Some t \<Rightarrow> Some (json_leaf JNull t st))
          else if c = CHR ''t'' then
            (case json_word ''rue'' t of None \<Rightarrow> Some (None, s, st) | Some t \<Rightarrow> Some (json_leaf JTrue t st))
          else if c = CHR ''f'' then
            (case json_word ''alse'' t of None \<Rightarrow> Some (None, s, st) | Some t \<Rightarrow> Some (json_leaf JFalse t st))
          else if chr_in (CHR ''0'') c (CHR ''9'') then
            (if cur t = CHR ''x'' \<or> cur t = CHR ''X'' then do {
               (buffer, t) \<leftarrow> json_digits is_hex_digit (tl t);
               Some (json_leaf (JUInt (jsonl_lib_hexstoui buffer)) t st) }
             else do {
               (buffer, t) \<leftarrow> json_digits (\<lambda>c. chr_in (CHR ''0'') c (CHR ''9'') \<or> c = CHR ''.'') s;
               Some (json_leaf (JNumber (stod buffer)) t st) })
          else Some (None, s, st))"

text \<open>The key of a member: its characters up to the closing quote.\<close>

fun json_key :: "string \<Rightarrow> string \<Rightarrow> (string \<times> string) option" where
  "json_key [] kname = None"
| "json_key (c # s) kname =
     (if c = CHR 0x22 then Some (kname, s)
      else if length kname \<ge> DSLHASHTABLE_MAX_NAME_LEN \<or> \<not> IS_KEY_CHAR c then None
      else json_key s (kname @ [c]))"

section \<open>\<open>jsonl_parse\<close>\<close>

text \<open>What the error labels free.\<close>

definition array_error :: "json list \<Rightarrow> jmem \<Rightarrow> jmem" where
  "array_error items st = jsonl_free 1 (jsonl_free 2 (json_list_delete items st))"

definition obj_error :: "(string \<times> json) list \<Rightarrow> jmem \<Rightarrow> jmem" where
  "obj_error entries st = jsonl_free 1 (json_table_free entries st)"

text \<open>
  The function, the loops over the elements and over the members, and a value.  The result is the
  value, or \<open>None\<close> for NULL, with the text that is left.  The variable \<open>kname\<close> of the loop over
  the members is set to the empty string in each round.
\<close>

function (sequential) jsonl_parse :: "(string \<Rightarrow> u64) \<Rightarrow> nat \<Rightarrow> string \<Rightarrow> jmem \<Rightarrow> (json option \<times> string \<times> jmem) option"
  and array_loop :: "(string \<Rightarrow> u64) \<Rightarrow> nat \<Rightarrow> bool \<Rightarrow> nat \<Rightarrow> json list \<Rightarrow> string \<Rightarrow> jmem \<Rightarrow> (json option \<times> string \<times> jmem) option"
  and obj_loop :: "(string \<Rightarrow> u64) \<Rightarrow> nat \<Rightarrow> bool \<Rightarrow> bool \<Rightarrow> (string \<times> json) list \<Rightarrow> string \<Rightarrow> jmem \<Rightarrow> (json option \<times> string \<times> jmem) option"
  and json_value :: "(string \<Rightarrow> u64) \<Rightarrow> nat \<Rightarrow> string \<Rightarrow> jmem \<Rightarrow> (json option \<times> string \<times> jmem) option" where
  "jsonl_parse stod 0 s st = None"
| "jsonl_parse stod (Suc n) s st =
     (let s = skip_space s in
      if cur s = CHR ''['' then
        (case jsonl_malloc st of
           (False, st) \<Rightarrow> Some (None, s, st)
         | (True, st) \<Rightarrow>
             (case json_list_new st of
                (False, st) \<Rightarrow> Some (None, s, jsonl_free 1 st)
              | (True, st) \<Rightarrow> array_loop stod n False 16 [] (tl s) st))
      else if cur s = CHR ''{'' then
        (case jsonl_malloc st of
           (False, st) \<Rightarrow> Some (None, s, st)
         | (True, st) \<Rightarrow>
             (case jsonl_malloc st of
                (False, st) \<Rightarrow> Some (None, s, jsonl_free 1 st)
              | (True, st) \<Rightarrow> obj_loop stod n False False [] (tl s) st))
      else Some (None, s, st))"
| "array_loop stod 0 has_value cap items s st = None"
| "array_loop stod (Suc n) has_value cap items s st =
     (if cur s = CHR '']'' then Some (Some (JArray items), tl s, st)
      else if s = [] then Some (None, s, array_error items st)
      else if has_value \<and> cur s \<noteq> CHR '','' then Some (None, s, array_error items st)
      else
        (let s = (if has_value then tl s else s) in
         if \<not> IS_SPACE (cur s) then do {
           (raw, s, st) \<leftarrow> json_value stod n s st;
           (case raw of
              None \<Rightarrow> Some (None, s, array_error items st)
            | Some v \<Rightarrow>
                (case jsonl_malloc st of
                   (False, st) \<Rightarrow> Some (None, s, array_error items (jsonl_free 1 st))
                 | (True, st) \<Rightarrow>
                     (case json_list_add v cap items st of
                        (False, _, _, st) \<Rightarrow> Some (None, s, array_error items (jsonl_free 2 st))
                      | (True, cap, items, st) \<Rightarrow> array_loop stod n True cap items (skip_space s) st))) }
         else array_loop stod n False cap items (skip_space (tl s)) st))"
| "obj_loop stod 0 has_value state_value entries s st = None"
| "obj_loop stod (Suc n) has_value state_value entries s st =
     (if cur s = CHR ''}'' then Some (Some (JObject entries), tl s, st)
      else if s = [] then Some (None, s, obj_error entries st)
      else if has_value \<and> cur s \<noteq> CHR '','' then Some (None, s, obj_error entries st)
      else
        (let s = (if has_value then tl s else s) in
         case (if \<not> state_value \<and> \<not> IS_SPACE (cur s) then
                 (if cur s \<noteq> CHR 0x22 then None
                  else (case json_key (tl s) [] of
                          None \<Rightarrow> None
                        | Some (kname, s) \<Rightarrow>
                            (let s = skip_space s in
                             if cur s \<noteq> CHR '':'' then None else Some (True, kname, tl s))))
               else Some (state_value, [], s)) of
           None \<Rightarrow> Some (None, s, obj_error entries st)
         | Some (state_value, kname, s) \<Rightarrow>
             if state_value \<and> \<not> IS_SPACE (cur s) then do {
               (raw, s, st) \<leftarrow> json_value stod n s st;
               (case raw of
                  None \<Rightarrow> Some (None, s, obj_error entries st)
                | Some v \<Rightarrow>
                    (case jsonl_malloc st of
                       (False, st) \<Rightarrow> Some (None, s, obj_error entries (jsonl_free 1 st))
                     | (True, st) \<Rightarrow>
                         (case json_set kname v entries st of
                            (False, _, st) \<Rightarrow> Some (None, s, obj_error entries (jsonl_free 2 st))
                          | (True, entries, st) \<Rightarrow> obj_loop stod n True False entries (skip_space s) st))) }
             else obj_loop stod n False state_value entries (skip_space (tl s)) st))"
| "json_value stod 0 s st = None"
| "json_value stod (Suc n) s st =
     (if cur s = CHR ''['' \<or> cur s = CHR ''{'' then jsonl_parse stod n s st else json_simple stod s st)"
  by pat_completeness auto

termination
  by (relation "measure (\<lambda>x. case x of
        Inl (Inl (_, n, _, _)) \<Rightarrow> n | Inl (Inr (_, n, _, _, _, _, _)) \<Rightarrow> n
      | Inr (Inl (_, n, _, _, _, _, _)) \<Rightarrow> n | Inr (Inr (_, n, _, _)) \<Rightarrow> n)") auto


definition jsonl_parse_json :: "(string \<Rightarrow> u64) \<Rightarrow> string \<Rightarrow> jmem \<Rightarrow> (json option \<times> jmem) option" where
  "jsonl_parse_json stod json_text st = do {
     (raw, _, st) \<leftarrow> jsonl_parse stod (4 * length json_text + 4) json_text st;
     Some (raw, st) }"

section \<open>Reading values\<close>

datatype json_type = JSONL_VALUE_TYPE_ERROR | JSONL_VALUE_TYPE_BOOL | JSONL_VALUE_TYPE_NULL
  | JSONL_VALUE_TYPE_STRING | JSONL_VALUE_TYPE_NUMBER | JSONL_VALUE_TYPE_UINT

definition jsonl_object_get :: "(string \<times> json) list option \<Rightarrow> string option \<Rightarrow> json option" where
  "jsonl_object_get obj name = (case (obj, name) of (Some entries, Some nm) \<Rightarrow> map_of entries nm | _ \<Rightarrow> None)"

definition jsonl_value_type :: "json option \<Rightarrow> json_type" where
  "jsonl_value_type raw =
     (case raw of
        Some JTrue \<Rightarrow> JSONL_VALUE_TYPE_BOOL | Some JFalse \<Rightarrow> JSONL_VALUE_TYPE_BOOL
      | Some JNull \<Rightarrow> JSONL_VALUE_TYPE_NULL | Some (JValue _) \<Rightarrow> JSONL_VALUE_TYPE_STRING
      | Some (JNumber _) \<Rightarrow> JSONL_VALUE_TYPE_NUMBER | Some (JUInt _) \<Rightarrow> JSONL_VALUE_TYPE_UINT
      | _ \<Rightarrow> JSONL_VALUE_TYPE_ERROR)"

definition jsonl_number_value :: "json option \<Rightarrow> u64 option" where
  "jsonl_number_value raw = (case raw of Some (JNumber n) \<Rightarrow> Some n | _ \<Rightarrow> None)"

definition jsonl_bool_value :: "json option \<Rightarrow> bool option" where
  "jsonl_bool_value raw = (case raw of Some JTrue \<Rightarrow> Some True | Some JFalse \<Rightarrow> Some False | _ \<Rightarrow> None)"

definition jsonl_uint_value :: "json option \<Rightarrow> u32 option" where
  "jsonl_uint_value raw = (case raw of Some (JUInt n) \<Rightarrow> Some n | _ \<Rightarrow> None)"

text \<open>\<open>while(max-- != 0 && len-- != 0) *(v++) = ...\<close>, into a buffer.\<close>

fun value_copy :: "nat \<Rightarrow> nat \<Rightarrow> string \<Rightarrow> nat \<Rightarrow> char list \<Rightarrow> (nat \<times> char list) option" where
  "value_copy 0 len src i v = Some (i, v)"
| "value_copy (Suc m) 0 src i v = Some (i, v)"
| "value_copy (Suc m) (Suc len) src i v =
     (if i < length v then value_copy m len src (Suc i) (v[i := (src @ [NUL]) ! i]) else None)"

definition jsonl_string_value :: "json option \<Rightarrow> char list \<Rightarrow> u32 \<Rightarrow> (bool \<times> char list) option" where
  "jsonl_string_value raw v mx =
     (case raw of
        Some (JValue value) \<Rightarrow>
          if mx = 0 \<or> cur value \<noteq> CHR 0x22 then Some (False, v)
          else do {
            (i, v) \<leftarrow> value_copy (unat (mx - 1)) (unat (jsonl_lib_strlen value - 2)) (tl value) 0 v;
            if i < length v then Some (True, v[i := NUL]) else None }
      | _ \<Rightarrow> Some (False, v))"

section \<open>\<open>jsonl_free_json\<close>\<close>

text \<open>
  \<open>dsl_hashtable_keys_list\<close>: a copy of each name and a node, bucket by bucket; what has been
  collected is freed when memory runs out, but for the header of the list.
\<close>

definition bucket_order :: "(string \<times> json) list \<Rightarrow> (string \<times> json) list" where
  "bucket_order entries = concat (map (\<lambda>ui. filter (\<lambda>(k, _). hash_name k = ui) entries) [0..<DSLHASHTABLE_SIZE])"

fun json_keys :: "nat \<Rightarrow> nat \<Rightarrow> jmem \<Rightarrow> bool \<times> jmem" where
  "json_keys done 0 st = (True, st)"
| "json_keys done (Suc n) st =
     (case jsonl_malloc st of
        (False, st) \<Rightarrow> (False, jsonl_free (2 * done) st)
      | (True, st) \<Rightarrow>
          (case jsonl_malloc st of
             (False, st) \<Rightarrow> (False, jsonl_free (2 * done) (jsonl_free 1 st))
           | (True, st) \<Rightarrow> json_keys (Suc done) n st))"

lemma mset_buckets: "mset (concat (map (\<lambda>ui. filter (\<lambda>x. g x = ui) xs) [0..<m])) = mset (filter (\<lambda>x. g x < m) xs)"
proof (induction m)
  case (Suc m)
  have "mset (filter (\<lambda>x. g x < m) xs) + mset (filter (\<lambda>x. g x = m) xs) = mset (filter (\<lambda>x. g x < Suc m) xs)"
    by (induction xs) auto
  then show ?case
    using Suc by simp
qed simp

lemma mset_bucket_order: "mset (bucket_order entries) = mset entries"
  using mset_buckets [of "\<lambda>(k, _). hash_name k" entries 256]
  by (simp add: bucket_order_def DSLHASHTABLE_SIZE_def case_prod_beta' filter_True)

lemma length_bucket_order [simp]: "length (bucket_order entries) = length entries"
  by (rule mset_eq_length [OF mset_bucket_order])

lemma sum_bucket_order: "sum_list (map f (bucket_order entries)) = sum_list (map f entries)" for f :: "_ \<Rightarrow> 'a::comm_monoid_add"
  by (metis mset_bucket_order mset_map sum_mset_sum_list)

lemma json_size_pairs: "sum_list (map (size_prod (\<lambda>x. 0) size) xs) = sum_list (map (size \<circ> snd) xs) + length xs"
  by (induction xs) auto

function jsonl_free_json :: "json \<Rightarrow> jmem \<Rightarrow> bool \<times> jmem"
  and free_items :: "json list \<Rightarrow> jmem \<Rightarrow> bool \<times> jmem" where
  "jsonl_free_json raw st =
     (case raw of
        JArray items \<Rightarrow>
          (case free_items items st of
             (False, st) \<Rightarrow> (False, st)
           | (True, st) \<Rightarrow> (True, jsonl_free 1 (jsonl_free 2 st)))
      | JObject entries \<Rightarrow>
          (case jsonl_malloc st of
             (False, st) \<Rightarrow> (False, st)
           | (True, st) \<Rightarrow>
               (case json_keys 0 (length entries) st of
                  (False, st) \<Rightarrow> (False, st)
                | (True, st) \<Rightarrow>
                    (case free_items (map snd (bucket_order entries)) st of
                       (False, st) \<Rightarrow> (False, st)
                     | (True, st) \<Rightarrow>
                         (True, jsonl_free 1 (json_table_free entries (jsonl_free (2 * length entries) st))))))
      | _ \<Rightarrow> (True, jsonl_free 1 st))"
| "free_items [] st = (True, st)"
| "free_items (raw # items) st =
     (case jsonl_free_json raw st of
        (False, st) \<Rightarrow> (False, st)
      | (True, st) \<Rightarrow> free_items items (jsonl_free 1 st))"
  by pat_completeness auto

termination
  by (relation "measure (\<lambda>x. case x of Inl (raw, _) \<Rightarrow> 2 * size raw | Inr (items, _) \<Rightarrow> 2 * size_list size items + 1)")
    (auto simp: size_list_conv_sum_list sum_bucket_order json_size_pairs)

end
