(* ===== verification/Json_Proofs.thy ===== *)
theory Json_Proofs
  imports Json "HOL-Library.Sublist"
begin

text \<open>
  Properties of the parser of \<^verbatim>\<open>Json\<close>: the texts it accepts and the values it gives them, that it
  ends on every text, what it allocates, and what \<open>jsonl_free_json\<close> gives back.
\<close>

section \<open>The pieces of a text\<close>

definition spaces :: "string \<Rightarrow> bool" where
  "spaces w \<longleftrightarrow> list_all IS_SPACE w"

lemma cur_simps [simp]: "cur [] = NUL" "cur (c # s) = c"
  by (simp_all add: cur_def)

lemma cur_append: "t \<noteq> [] \<Longrightarrow> cur (t @ s) = cur t"
  by (cases t) simp_all

lemma not_space [simp]: "\<not> IS_SPACE NUL" "\<not> IS_SPACE (CHR '','')" "\<not> IS_SPACE (CHR '']'')" "\<not> IS_SPACE (CHR ''}'')"
  "\<not> IS_SPACE (CHR 0x22)" "\<not> IS_SPACE (CHR '':'')" "\<not> IS_SPACE (CHR ''['')" "\<not> IS_SPACE (CHR ''{'')"
  "\<not> IS_SPACE (CHR ''n'')" "\<not> IS_SPACE (CHR ''t'')" "\<not> IS_SPACE (CHR ''f'')"
  by (simp_all add: IS_SPACE_def)

lemma skip_spaces: "spaces w \<Longrightarrow> skip_space (w @ s) = skip_space s"
  by (induction w) (auto simp: spaces_def)

lemma skip_space_none: "\<not> IS_SPACE (cur s) \<Longrightarrow> skip_space s = s"
  by (cases s) auto

lemma spaces_cons: "spaces (c # w) \<longleftrightarrow> IS_SPACE c \<and> spaces w"
  by (simp add: spaces_def)

definition quote_char :: "char \<Rightarrow> string" where
  "quote_char c =
     (if c = CHR 0x5C then [CHR 0x5C, CHR 0x5C] else if c = CHR 0x0D then [CHR 0x5C, CHR ''r'']
      else if c = CHR 0x0A then [CHR 0x5C, CHR ''n''] else if c = CHR 0x09 then [CHR 0x5C, CHR ''t'']
      else if c = CHR 0x0B then [CHR 0x5C, CHR ''v''] else [c])"

definition quote :: "string \<Rightarrow> string" where
  "quote v = concat (map quote_char v)"

lemma json_string_char:
  assumes "c \<noteq> CHR 0x22" "length acc < 1022"
  shows "json_string (quote_char c @ d # s) acc = json_string (d # s) (acc @ [c])"
  using assms by (auto simp: quote_char_def unescape_def JSONL_MAX_VALUE_LEN_def)

lemma json_string_end: "json_string (CHR 0x22 # s) acc = Some (acc @ [CHR 0x22], s)"
  by (cases s) simp_all

lemma json_string_quote:
  "CHR 0x22 \<notin> set v \<Longrightarrow> length acc + length v \<le> 1022 \<Longrightarrow>
    json_string (quote v @ CHR 0x22 # s) acc = Some (acc @ v @ [CHR 0x22], s)"
proof (induction v arbitrary: acc)
  case Nil
  then show ?case by (simp add: quote_def json_string_end)
next
  case (Cons c v)
  obtain d r where d: "quote v @ CHR 0x22 # s = d # r"
    by (cases "quote v @ CHR 0x22 # s") simp_all
  have "json_string (quote (c # v) @ CHR 0x22 # s) acc = json_string (quote_char c @ d # r) acc"
    by (simp add: quote_def d [unfolded quote_def])
  also have "\<dots> = json_string (d # r) (acc @ [c])"
    using Cons.prems by (intro json_string_char) auto
  also have "\<dots> = Some (acc @ (c # v) @ [CHR 0x22], s)"
    using Cons.IH [of "acc @ [c]"] Cons.prems d by simp
  finally show ?case .
qed

lemma json_digits_all:
  "list_all P ds \<Longrightarrow> length ds < 1024 \<Longrightarrow> \<not> P (cur s) \<Longrightarrow> json_digits P (ds @ s) = Some (ds, s)"
proof -
  assume a: "list_all P ds" "length ds < 1024" "\<not> P (cur s)"
  have "takeWhile P s = []" "dropWhile P s = s"
    using a(3) by (cases s; simp)+
  then show ?thesis
    using a by (simp add: json_digits_def takeWhile_append2 dropWhile_append2 list_all_iff)
qed

definition key_string :: "string \<Rightarrow> bool" where
  "key_string k \<longleftrightarrow> list_all IS_KEY_CHAR k \<and> length k \<le> 255"

lemma key_char_not_quote: "IS_KEY_CHAR c \<Longrightarrow> c \<noteq> CHR 0x22"
  by (auto simp: IS_KEY_CHAR_def chr_in_def schar_def)

lemma json_key_all:
  "list_all IS_KEY_CHAR k \<Longrightarrow> length nm + length k \<le> 255 \<Longrightarrow> json_key (k @ CHR 0x22 # s) nm = Some (nm @ k, s)"
  by (induction k arbitrary: nm) (auto simp: DSLHASHTABLE_MAX_NAME_LEN_def key_char_not_quote)

section \<open>The grammar\<close>

definition digit_dot :: "char \<Rightarrow> bool" where
  "digit_dot c \<longleftrightarrow> chr_in (CHR ''0'') c (CHR ''9'') \<or> c = CHR ''.''"

text \<open>Texts and the values that they stand for; between the brackets of an array and the braces of
  an object.\<close>

inductive json_text :: "(string \<Rightarrow> u64) \<Rightarrow> string \<Rightarrow> json \<Rightarrow> bool"
  and json_items :: "(string \<Rightarrow> u64) \<Rightarrow> string \<Rightarrow> json list \<Rightarrow> bool"
  and json_members :: "(string \<Rightarrow> u64) \<Rightarrow> string \<Rightarrow> (string \<times> json) list \<Rightarrow> bool"
  for stod :: "string \<Rightarrow> u64" where
  text_string: "CHR 0x22 \<notin> set v \<Longrightarrow> NUL \<notin> set v \<Longrightarrow> length v \<le> 1021 \<Longrightarrow>
    json_text stod (CHR 0x22 # quote v @ [CHR 0x22]) (JValue (CHR 0x22 # v @ [CHR 0x22]))"
| text_null: "json_text stod ''null'' JNull"
| text_true: "json_text stod ''true'' JTrue"
| text_false: "json_text stod ''false'' JFalse"
| text_hex: "chr_in (CHR ''0'') d (CHR ''9'') \<Longrightarrow> x = CHR ''x'' \<or> x = CHR ''X'' \<Longrightarrow> list_all is_hex_digit hs \<Longrightarrow> length hs < 1024 \<Longrightarrow>
    json_text stod (d # x # hs) (JUInt (jsonl_lib_hexstoui hs))"
| text_number: "chr_in (CHR ''0'') d (CHR ''9'') \<Longrightarrow> list_all digit_dot ds \<Longrightarrow> length ds < 1023 \<Longrightarrow>
    json_text stod (d # ds) (JNumber (stod (d # ds)))"
| text_array: "json_items stod t xs \<Longrightarrow> json_text stod (''['' @ t @ '']'') (JArray xs)"
| text_object: "json_members stod t es \<Longrightarrow> distinct (map fst es) \<Longrightarrow> json_text stod (''{'' @ t @ ''}'') (JObject es)"
| items_none: "spaces w \<Longrightarrow> json_items stod w []"
| items_one: "spaces w1 \<Longrightarrow> json_text stod t x \<Longrightarrow> spaces w2 \<Longrightarrow> json_items stod (w1 @ t @ w2) [x]"
| items_more: "spaces w1 \<Longrightarrow> json_text stod t x \<Longrightarrow> spaces w2 \<Longrightarrow> json_items stod r xs \<Longrightarrow> xs \<noteq> [] \<Longrightarrow>
    json_items stod (w1 @ t @ w2 @ '','' @ r) (x # xs)"
| members_none: "spaces w \<Longrightarrow> json_members stod w []"
| members_one: "spaces w1 \<Longrightarrow> key_string k \<Longrightarrow> spaces w2 \<Longrightarrow> json_text stod t x \<Longrightarrow> spaces w3 \<Longrightarrow>
    json_members stod (w1 @ CHR 0x22 # k @ CHR 0x22 # w2 @ '':'' @ t @ w3) [(k, x)]"
| members_more: "spaces w1 \<Longrightarrow> key_string k \<Longrightarrow> spaces w2 \<Longrightarrow> json_text stod t x \<Longrightarrow> spaces w3 \<Longrightarrow>
    json_members stod r es \<Longrightarrow> es \<noteq> [] \<Longrightarrow>
    json_members stod (w1 @ CHR 0x22 # k @ CHR 0x22 # w2 @ '':'' @ t @ w3 @ '','' @ r) ((k, x) # es)"

text \<open>The blocks of memory of a value.\<close>

fun blocks :: "json \<Rightarrow> nat" and item_blocks :: "json list \<Rightarrow> nat" and member_blocks :: "(string \<times> json) list \<Rightarrow> nat" where
  "blocks (JArray xs) = 3 + item_blocks xs"
| "blocks (JObject es) = 2 + card (hash_name ` fst ` set es) + member_blocks es"
| "blocks _ = 1"
| "item_blocks [] = 0"
| "item_blocks (x # xs) = Suc (blocks x) + item_blocks xs"
| "member_blocks [] = 0"
| "member_blocks ((k, x) # es) = 3 + blocks x + member_blocks es"

definition got :: "json \<Rightarrow> string \<Rightarrow> int \<Rightarrow> jmem \<Rightarrow> (json option \<times> string \<times> jmem) option \<Rightarrow> bool" where
  "got x s m st r \<longleftrightarrow> (\<exists>c. r = Some (Some x, s, st\<lparr>jm_calls := c, jm_live := jm_live st + m\<rparr>))"

text \<open>An allocator that never runs out.\<close>

definition plenty :: "jmem \<Rightarrow> bool" where
  "plenty st \<longleftrightarrow> (\<forall>n. jm_ok st n)"

lemma plenty_simps [simp]: "plenty (st\<lparr>jm_calls := c\<rparr>) = plenty st" "plenty (st\<lparr>jm_live := l\<rparr>) = plenty st"
  "plenty (st\<lparr>jm_calls := c, jm_live := l\<rparr>) = plenty st" "plenty (jsonl_free n st) = plenty st"
  by (simp_all add: plenty_def jsonl_free_def)

lemma malloc_plenty: "plenty st \<Longrightarrow> jsonl_malloc st = (True, st\<lparr>jm_calls := jm_calls st + 1, jm_live := jm_live st + 1\<rparr>)"
  by (simp add: plenty_def jsonl_malloc_def)

lemma got_cong:
  "got x s m st' r \<Longrightarrow> st' = st\<lparr>jm_calls := c, jm_live := jm_live st + k\<rparr> \<Longrightarrow> n = k + m \<Longrightarrow> got x s n st r"
  by (auto simp: got_def add.assoc)

lemma leaf_got: "plenty st \<Longrightarrow> got v s 1 st (Some (json_leaf v s st))"
  by (auto simp: got_def json_leaf_def malloc_plenty)

lemma list_add_plenty:
  "plenty st \<Longrightarrow> \<exists>cap' c. json_list_add v cap items st = (True, cap', items @ [v], st\<lparr>jm_calls := c, jm_live := jm_live st\<rparr>)"
  by (auto simp: json_list_add_def malloc_plenty jsonl_free_def intro: exI [of _ "jm_calls st"])

lemma set_plenty:
  assumes "plenty st" "k \<notin> fst ` set es" "length k \<le> 255"
  shows "\<exists>c. json_set k v es st = (True, es @ [(k, v)],
    st\<lparr>jm_calls := c, jm_live := jm_live st + 2 + (int (card (hash_name ` fst ` set (es @ [(k, v)]))) - int (card (hash_name ` fst ` set es)))\<rparr>)"
proof -
  have "hash_name ` fst ` set (es @ [(k, v)]) = insert (hash_name k) (hash_name ` fst ` set es)"
    by auto
  then show ?thesis
    using assms by (auto simp: json_set_def DSLHASHTABLE_MAX_NAME_LEN_def malloc_plenty insert_absorb add.commute)
qed

section \<open>Every text of the grammar is accepted\<close>

text \<open>What may follow a value.\<close>

definition delim :: "string \<Rightarrow> bool" where
  "delim s \<longleftrightarrow> s = [] \<or> IS_SPACE (cur s) \<or> cur s = CHR '','' \<or> cur s = CHR '']'' \<or> cur s = CHR ''}''"

lemma delim_simps: "delim (CHR '','' # s)" "delim (CHR '']'' # s)" "delim (CHR ''}'' # s)"
  by (simp_all add: delim_def)

lemma delim_spaces: "spaces w \<Longrightarrow> delim s \<Longrightarrow> delim (w @ s)"
  by (cases w) (auto simp: delim_def spaces_def)

lemma delim_no_digit: "delim s \<Longrightarrow> \<not> is_hex_digit (cur s)" "delim s \<Longrightarrow> \<not> digit_dot (cur s)"
  by (auto simp: delim_def is_hex_digit_def digit_dot_def chr_in_def schar_def IS_SPACE_def)

definition starts_value :: "char \<Rightarrow> bool" where
  "starts_value c \<longleftrightarrow> c = CHR 0x22 \<or> c = CHR ''n'' \<or> c = CHR ''t'' \<or> c = CHR ''f'' \<or> c = CHR ''['' \<or> c = CHR ''{'' \<or>
     chr_in (CHR ''0'') c (CHR ''9'')"

lemma starts_valueD:
  "starts_value c \<Longrightarrow> \<not> IS_SPACE c \<and> c \<noteq> NUL \<and> c \<noteq> CHR '']'' \<and> c \<noteq> CHR ''}'' \<and> c \<noteq> CHR '','' \<and> c \<noteq> CHR '':''"
  by (auto simp: starts_value_def IS_SPACE_def chr_in_def schar_def)

lemma text_starts: "json_text stod t x \<Longrightarrow> t \<noteq> [] \<and> starts_value (cur t)"
  by (erule json_text.cases) (auto simp: starts_value_def)

lemma digit_not_other:
  "chr_in (CHR ''0'') d (CHR ''9'') \<Longrightarrow> d \<noteq> CHR 0x22 \<and> d \<noteq> CHR ''n'' \<and> d \<noteq> CHR ''t'' \<and> d \<noteq> CHR ''f'' \<and>
    d \<noteq> CHR ''['' \<and> d \<noteq> CHR ''{''"
  by (auto simp: chr_in_def schar_def)

lemma digit_dot_not_x: "digit_dot c \<Longrightarrow> c \<noteq> CHR ''x'' \<and> c \<noteq> CHR ''X''"
  by (auto simp: digit_dot_def chr_in_def schar_def)

lemma delim_not_x: "delim s \<Longrightarrow> cur s \<noteq> CHR ''x'' \<and> cur s \<noteq> CHR ''X''"
  by (auto simp: delim_def IS_SPACE_def)

lemma number_not_x: "list_all digit_dot ds \<Longrightarrow> delim s \<Longrightarrow> cur (ds @ s) \<noteq> CHR ''x'' \<and> cur (ds @ s) \<noteq> CHR ''X''"
  using delim_not_x digit_dot_not_x by (cases ds) auto

lemma simple_string:
  "CHR 0x22 \<notin> set v \<Longrightarrow> length v \<le> 1021 \<Longrightarrow>
    json_simple stod (CHR 0x22 # quote v @ CHR 0x22 # s) st = Some (json_leaf (JValue (CHR 0x22 # v @ [CHR 0x22])) s st)"
  using json_string_quote [of v "[CHR 0x22]" s] by (simp add: json_simple_def)

lemma simple_hex:
  assumes "chr_in (CHR ''0'') d (CHR ''9'')" "x = CHR ''x'' \<or> x = CHR ''X''" "list_all is_hex_digit hs" "length hs < 1024" "delim s"
  shows "json_simple stod (d # x # hs @ s) st = Some (json_leaf (JUInt (jsonl_lib_hexstoui hs)) s st)"
  using digit_not_other [OF assms(1)] json_digits_all [OF assms(3,4) delim_no_digit(1) [OF assms(5)]] assms(1,2)
  by (auto simp: json_simple_def)

lemma simple_number:
  assumes "chr_in (CHR ''0'') d (CHR ''9'')" "list_all digit_dot ds" "length ds < 1023" "delim s"
  shows "json_simple stod (d # ds @ s) st = Some (json_leaf (JNumber (stod (d # ds))) s st)"
proof -
  have "json_digits digit_dot ((d # ds) @ s) = Some (d # ds, s)"
    using assms by (intro json_digits_all) (auto simp: digit_dot_def dest: delim_no_digit(2))
  moreover have "(\<lambda>c. chr_in (CHR ''0'') c (CHR ''9'') \<or> c = CHR ''.'') = digit_dot"
    by (simp add: digit_dot_def fun_eq_iff)
  ultimately show ?thesis
    using digit_not_other [OF assms(1)] number_not_x [OF assms(2,4)] assms(1) by (simp add: json_simple_def)
qed

lemma value_simple:
  "cur s \<noteq> CHR ''['' \<Longrightarrow> cur s \<noteq> CHR ''{'' \<Longrightarrow> 0 < n \<Longrightarrow> json_value stod n s st = json_simple stod s st"
  by (cases n) simp_all

text \<open>One round of each loop.\<close>

lemma array_skip:
  assumes "spaces w" "w \<noteq> []" "\<not> IS_SPACE (cur u)"
  shows "array_loop stod (Suc n) False cap items (w @ u) st = array_loop stod n False cap items u st"
proof -
  obtain c w' where w: "w = c # w'"
    using assms(2) by (cases w) auto
  have c: "IS_SPACE c" "spaces w'"
    using assms(1) by (simp_all add: w spaces_cons)
  then have "c \<noteq> CHR '']''"
    by auto
  then show ?thesis
    using c skip_spaces [OF c(2), of u] skip_space_none [OF assms(3)] by (simp add: w)
qed

lemma obj_skip:
  assumes "spaces w" "w \<noteq> []" "\<not> IS_SPACE (cur u)"
  shows "obj_loop stod (Suc n) False sv es (w @ u) st = obj_loop stod n False sv es u st"
proof -
  obtain c w' where w: "w = c # w'"
    using assms(2) by (cases w) auto
  have c: "IS_SPACE c" "spaces w'"
    using assms(1) by (simp_all add: w spaces_cons)
  then have "c \<noteq> CHR ''}''"
    by auto
  then show ?thesis
    using c skip_spaces [OF c(2), of u] skip_space_none [OF assms(3)] by (simp add: w)
qed

lemma array_comma:
  "cur u \<noteq> CHR '']'' \<Longrightarrow> u \<noteq> [] \<Longrightarrow>
    array_loop stod (Suc n) True cap items (CHR '','' # u) st = array_loop stod (Suc n) False cap items u st"
  by simp

lemma obj_comma:
  "cur u \<noteq> CHR ''}'' \<Longrightarrow> u \<noteq> [] \<Longrightarrow>
    obj_loop stod (Suc n) True False es (CHR '','' # u) st = obj_loop stod (Suc n) False False es u st"
  by simp

lemma array_round:
  assumes "json_text stod t x" "plenty st" "got x s m st (json_value stod n (t @ s) st)"
  shows "\<exists>cap' c. array_loop stod (Suc n) False cap items (t @ s) st =
    array_loop stod n True cap' (items @ [x]) (skip_space s) (st\<lparr>jm_calls := c, jm_live := jm_live st + m + 1\<rparr>)"
proof -
  obtain c where c: "json_value stod n (t @ s) st = Some (Some x, s, st\<lparr>jm_calls := c, jm_live := jm_live st + m\<rparr>)"
    using assms(3) by (auto simp: got_def)
  have t: "cur (t @ s) = cur t" "t \<noteq> []" "\<not> IS_SPACE (cur t)" "cur t \<noteq> CHR '']''"
    using text_starts [OF assms(1)] starts_valueD [of "cur t"] by (auto simp: cur_append)
  have "\<exists>cap' d. json_list_add x cap items (st\<lparr>jm_calls := Suc c, jm_live := jm_live st + m + 1\<rparr>) =
      (True, cap', items @ [x], st\<lparr>jm_calls := d, jm_live := jm_live st + m + 1\<rparr>)"
    using list_add_plenty [of "st\<lparr>jm_calls := Suc c, jm_live := jm_live st + m + 1\<rparr>" x cap items] assms(2) by simp
  then obtain cap' d where "json_list_add x cap items (st\<lparr>jm_calls := Suc c, jm_live := jm_live st + m + 1\<rparr>) =
      (True, cap', items @ [x], st\<lparr>jm_calls := d, jm_live := jm_live st + m + 1\<rparr>)"
    by blast
  then show ?thesis
    using t c assms(2) by (intro exI [of _ cap'] exI [of _ d]) (simp add: malloc_plenty)
qed

lemma obj_round:
  assumes "json_text stod t x" "plenty st" "key_string k" "spaces w" "k \<notin> fst ` set es"
    "got x s m st (json_value stod n (t @ s) st)"
  shows "\<exists>c. obj_loop stod (Suc n) False False es (CHR 0x22 # k @ CHR 0x22 # w @ CHR '':'' # t @ s) st =
    obj_loop stod n True False (es @ [(k, x)]) (skip_space s) (st\<lparr>jm_calls := c, jm_live := jm_live st + m + 3 +
      (int (card (hash_name ` fst ` set (es @ [(k, x)]))) - int (card (hash_name ` fst ` set es)))\<rparr>)"
proof -
  obtain c where c: "json_value stod n (t @ s) st = Some (Some x, s, st\<lparr>jm_calls := c, jm_live := jm_live st + m\<rparr>)"
    using assms(6) by (auto simp: got_def)
  have t: "cur (t @ s) = cur t" "t \<noteq> []" "\<not> IS_SPACE (cur t)"
    using text_starts [OF assms(1)] starts_valueD [of "cur t"] by (auto simp: cur_append)
  have k: "json_key (k @ CHR 0x22 # w @ CHR '':'' # t @ s) [] = Some (k, w @ CHR '':'' # t @ s)" "length k \<le> 255"
    using json_key_all [of k "[]"] assms(3) by (simp_all add: key_string_def)
  have w: "skip_space (w @ CHR '':'' # t @ s) = CHR '':'' # t @ s"
    using skip_spaces [OF assms(4)] by simp
  obtain d where "json_set k x es (st\<lparr>jm_calls := Suc c, jm_live := jm_live st + m + 1\<rparr>) = (True, es @ [(k, x)],
      st\<lparr>jm_calls := d, jm_live := jm_live st + m + 1 + 2 +
        (int (card (hash_name ` fst ` set (es @ [(k, x)]))) - int (card (hash_name ` fst ` set es)))\<rparr>)"
    using set_plenty [OF _ assms(5) k(2), of "st\<lparr>jm_calls := Suc c, jm_live := jm_live st + m + 1\<rparr>" x] assms(2) by auto
  then show ?thesis
    using t c k(1) w assms(2) by (intro exI [of _ d]) (simp add: malloc_plenty ac_simps)
qed

lemma items_cur: "json_items stod t xs \<Longrightarrow> xs \<noteq> [] \<Longrightarrow> t \<noteq> [] \<and> cur t \<noteq> CHR '']''"
proof (erule json_items.cases)
  fix w1 t' x w2
  assume "t = w1 @ t' @ w2" "spaces w1" "json_text stod t' x"
  then show "t \<noteq> [] \<and> cur t \<noteq> CHR '']''"
    using text_starts [of stod t' x] starts_valueD [of "cur t'"] by (cases w1) (auto simp: spaces_cons cur_append)
next
  fix w1 t' x w2 r ys
  assume "t = w1 @ t' @ w2 @ '','' @ r" "spaces w1" "json_text stod t' x"
  then show "t \<noteq> [] \<and> cur t \<noteq> CHR '']''"
    using text_starts [of stod t' x] starts_valueD [of "cur t'"] by (cases w1) (auto simp: spaces_cons cur_append)
qed simp

lemma members_cur: "json_members stod t es \<Longrightarrow> es \<noteq> [] \<Longrightarrow> t \<noteq> [] \<and> cur t \<noteq> CHR ''}''"
proof (erule json_members.cases)
  fix w1 k w2 t' x w3
  assume "t = w1 @ CHR 0x22 # k @ CHR 0x22 # w2 @ '':'' @ t' @ w3" "spaces w1"
  then show "t \<noteq> [] \<and> cur t \<noteq> CHR ''}''"
    by (cases w1) (auto simp: spaces_cons)
next
  fix w1 k w2 t' x w3 r ys
  assume "t = w1 @ CHR 0x22 # k @ CHR 0x22 # w2 @ '':'' @ t' @ w3 @ '','' @ r" "spaces w1"
  then show "t \<noteq> [] \<and> cur t \<noteq> CHR ''}''"
    by (cases w1) (auto simp: spaces_cons)
qed simp

definition value_ok :: "(string \<Rightarrow> u64) \<Rightarrow> string \<Rightarrow> json \<Rightarrow> bool" where
  "value_ok stod t x \<longleftrightarrow> (\<forall>st s n. plenty st \<longrightarrow> delim s \<longrightarrow> n \<ge> 4 * length t \<longrightarrow>
     got x s (int (blocks x)) st (json_value stod n (t @ s) st))"

definition items_ok :: "(string \<Rightarrow> u64) \<Rightarrow> string \<Rightarrow> json list \<Rightarrow> bool" where
  "items_ok stod t xs \<longleftrightarrow> (\<forall>st s n cap items. plenty st \<longrightarrow> n \<ge> 4 * length t + 3 \<longrightarrow>
     got (JArray (items @ xs)) s (int (item_blocks xs)) st (array_loop stod n False cap items (t @ CHR '']'' # s) st))"

definition buckets :: "(string \<times> json) list \<Rightarrow> nat" where
  "buckets es = card (hash_name ` fst ` set es)"

definition members_ok :: "(string \<Rightarrow> u64) \<Rightarrow> string \<Rightarrow> (string \<times> json) list \<Rightarrow> bool" where
  "members_ok stod t es \<longleftrightarrow> (\<forall>st s n es0. plenty st \<longrightarrow> n \<ge> 4 * length t + 3 \<longrightarrow> distinct (map fst (es0 @ es)) \<longrightarrow>
     got (JObject (es0 @ es)) s (int (member_blocks es) + int (buckets (es0 @ es)) - int (buckets es0)) st
       (obj_loop stod n False False es0 (t @ CHR ''}'' # s) st))"

lemma items_step:
  assumes "json_text stod t x" "value_ok stod t x" "spaces w1" "spaces w2" "plenty st" "delim u" "\<not> IS_SPACE (cur u)"
    "n \<ge> 4 * length t + 4 * length w1 + 1"
  shows "\<exists>m cap' c. n - 2 \<le> m \<and> m < n \<and> array_loop stod n False cap items (w1 @ t @ w2 @ u) st =
    array_loop stod m True cap' (items @ [x]) u (st\<lparr>jm_calls := c, jm_live := jm_live st + int (blocks x) + 1\<rparr>)"
proof -
  have nsp: "\<not> IS_SPACE (cur (t @ w2 @ u))"
    using text_starts [OF assms(1)] starts_valueD [of "cur t"] by (simp add: cur_append)
  obtain k where k: "n - 1 \<le> Suc k" "Suc k \<le> n" "4 * length t \<le> k"
      "array_loop stod n False cap items (w1 @ t @ w2 @ u) st = array_loop stod (Suc k) False cap items (t @ w2 @ u) st"
  proof (cases "w1 = []")
    case True
    then show ?thesis
      using assms(8) that [of "n - 1"] by auto
  next
    case False
    then have "1 \<le> length w1"
      by (cases w1) auto
    then have "n = Suc (Suc (n - 2))" "4 * length t \<le> n - 2"
      using assms(8) by simp_all
    then show ?thesis
      using that [of "n - 2"] array_skip [OF assms(3) False nsp, of stod "Suc (n - 2)" cap items st] by auto
  qed
  have "got x (w2 @ u) (int (blocks x)) st (json_value stod k (t @ w2 @ u) st)"
    using assms(2,5) delim_spaces [OF assms(4,6)] k(3) by (auto simp: value_ok_def)
  from array_round [OF assms(1,5) this, of cap items] obtain cap' c where
    "array_loop stod (Suc k) False cap items (t @ w2 @ u) st = array_loop stod k True cap' (items @ [x]) (skip_space (w2 @ u))
       (st\<lparr>jm_calls := c, jm_live := jm_live st + int (blocks x) + 1\<rparr>)"
    by blast
  moreover have "skip_space (w2 @ u) = u"
    using skip_spaces [OF assms(4)] skip_space_none [OF assms(7)] by simp
  ultimately show ?thesis
    using k by (intro exI [of _ k] exI [of _ cap'] exI [of _ c]) auto
qed

lemma members_step:
  assumes "json_text stod t x" "value_ok stod t x" "spaces w1" "key_string k" "spaces w2" "spaces w3" "plenty st" "delim u"
    "\<not> IS_SPACE (cur u)" "k \<notin> fst ` set es" "n \<ge> 4 * length t + 4 * length w1 + 1"
  shows "\<exists>m c. n - 2 \<le> m \<and> m < n \<and>
    obj_loop stod n False False es (w1 @ CHR 0x22 # k @ CHR 0x22 # w2 @ CHR '':'' # t @ w3 @ u) st =
    obj_loop stod m True False (es @ [(k, x)]) u (st\<lparr>jm_calls := c, jm_live := jm_live st + int (blocks x) + 3 +
      (int (buckets (es @ [(k, x)])) - int (buckets es))\<rparr>)"
proof -
  let ?u = "CHR 0x22 # k @ CHR 0x22 # w2 @ CHR '':'' # t @ w3 @ u"
  obtain j where j: "n - 1 \<le> Suc j" "Suc j \<le> n" "4 * length t \<le> j"
      "obj_loop stod n False False es (w1 @ ?u) st = obj_loop stod (Suc j) False False es ?u st"
  proof (cases "w1 = []")
    case True
    then show ?thesis
      using assms(11) that [of "n - 1"] by auto
  next
    case False
    then have "1 \<le> length w1"
      by (cases w1) auto
    then have "n = Suc (Suc (n - 2))" "4 * length t \<le> n - 2"
      using assms(11) by simp_all
    then show ?thesis
      using that [of "n - 2"] obj_skip [OF assms(3) False, of ?u stod "Suc (n - 2)" False es st] by auto
  qed
  have "got x (w3 @ u) (int (blocks x)) st (json_value stod j (t @ w3 @ u) st)"
    using assms(2,7) delim_spaces [OF assms(6,8)] j(3) by (auto simp: value_ok_def)
  from obj_round [OF assms(1,7,4,5,10) this] obtain c where
    "obj_loop stod (Suc j) False False es ?u st = obj_loop stod j True False (es @ [(k, x)]) (skip_space (w3 @ u))
       (st\<lparr>jm_calls := c, jm_live := jm_live st + int (blocks x) + 3 + (int (buckets (es @ [(k, x)])) - int (buckets es))\<rparr>)"
    unfolding buckets_def by blast
  moreover have "skip_space (w3 @ u) = u"
    using skip_spaces [OF assms(6)] skip_space_none [OF assms(9)] by simp
  ultimately show ?thesis
    using j by (intro exI [of _ j] exI [of _ c]) auto
qed

lemma array_end: "0 < n \<Longrightarrow> array_loop stod n hv cap items (CHR '']'' # s) st = Some (Some (JArray items), s, st)"
  by (cases n) simp_all

lemma obj_end: "0 < n \<Longrightarrow> obj_loop stod n hv sv es (CHR ''}'' # s) st = Some (Some (JObject es), s, st)"
  by (cases n) simp_all

lemma got_here: "got x s 0 st (Some (Some x, s, st))"
  unfolding got_def by (intro exI [of _ "jm_calls st"]) simp

lemma value_array:
  assumes "items_ok stod t xs"
  shows "value_ok stod (''['' @ t @ '']'') (JArray xs)"
  unfolding value_ok_def
proof (intro allI impI)
  fix st s n
  assume st: "plenty st" and n: "4 * length (''['' @ t @ '']'') \<le> n"
  let ?st = "st\<lparr>jm_calls := Suc (Suc (Suc (jm_calls st))), jm_live := jm_live st + 3\<rparr>"
  have "json_value stod n ((''['' @ t @ '']'') @ s) st = array_loop stod (n - 2) False 16 [] (t @ CHR '']'' # s) ?st"
    using st n by (cases n; cases "n - 1") (auto simp: malloc_plenty json_list_new_def ac_simps)
  moreover have "got (JArray ([] @ xs)) s (int (item_blocks xs)) ?st (array_loop stod (n - 2) False 16 [] (t @ CHR '']'' # s) ?st)"
    using assms st n unfolding items_ok_def by (auto simp del: append_Nil)
  ultimately show "got (JArray xs) s (int (blocks (JArray xs))) st (json_value stod n ((''['' @ t @ '']'') @ s) st)"
    by (auto intro: got_cong)
qed

lemma value_object:
  assumes "members_ok stod t es" "distinct (map fst es)"
  shows "value_ok stod (''{'' @ t @ ''}'') (JObject es)"
  unfolding value_ok_def
proof (intro allI impI)
  fix st s n
  assume st: "plenty st" and n: "4 * length (''{'' @ t @ ''}'') \<le> n"
  let ?st = "st\<lparr>jm_calls := Suc (Suc (jm_calls st)), jm_live := jm_live st + 2\<rparr>"
  have "json_value stod n ((''{'' @ t @ ''}'') @ s) st = obj_loop stod (n - 2) False False [] (t @ CHR ''}'' # s) ?st"
    using st n by (cases n; cases "n - 1") (auto simp: malloc_plenty ac_simps)
  moreover have r: "got (JObject ([] @ es)) s (int (member_blocks es) + int (buckets ([] @ es)) - int (buckets [])) ?st
      (obj_loop stod (n - 2) False False [] (t @ CHR ''}'' # s) ?st)"
    using assms(2) st n by (intro assms(1) [unfolded members_ok_def, rule_format]) auto
  ultimately show "got (JObject es) s (int (blocks (JObject es))) st (json_value stod n ((''{'' @ t @ ''}'') @ s) st)"
    using got_cong [OF r, of st 2 "Suc (Suc (jm_calls st))"] by (simp add: buckets_def ac_simps)
qed

lemma value_leaf:
  assumes "t \<noteq> []" "cur t \<noteq> CHR ''[''" "cur t \<noteq> CHR ''{''" "blocks x = 1"
    "\<And>s st. delim s \<Longrightarrow> json_simple stod (t @ s) st = Some (json_leaf x s st)"
  shows "value_ok stod t x"
  unfolding value_ok_def
proof (intro allI impI)
  fix st s n
  assume "plenty st" "delim s" "4 * length t \<le> n"
  moreover have "0 < n"
    using calculation(3) assms(1) by (cases t) auto
  ultimately show "got x s (int (blocks x)) st (json_value stod n (t @ s) st)"
    using value_simple [of "t @ s" n stod st] assms leaf_got [of st x s] by (simp add: cur_append)
qed

lemma grammar_ok:
  "json_text stod t x \<Longrightarrow> value_ok stod t x"
  "json_items stod u xs \<Longrightarrow> items_ok stod u xs"
  "json_members stod v es \<Longrightarrow> members_ok stod v es"
proof (induction rule: json_text_json_items_json_members.inducts)
  case (text_string v)
  then show ?case
    using simple_string by (intro value_leaf) auto
next
  case text_null
  show ?case by (rule value_leaf) (auto simp: json_simple_def)
next
  case text_true
  show ?case by (rule value_leaf) (auto simp: json_simple_def)
next
  case text_false
  show ?case by (rule value_leaf) (auto simp: json_simple_def)
next
  case (text_hex d x hs)
  then show ?case
    using simple_hex digit_not_other by (intro value_leaf) auto
next
  case (text_number d ds)
  then show ?case
    using simple_number digit_not_other by (intro value_leaf) auto
next
  case (text_array t xs)
  then show ?case by (intro value_array)
next
  case (text_object t es)
  then show ?case by (intro value_object)
next
  case (items_none w)
  show ?case
    unfolding items_ok_def
  proof (intro allI impI)
    fix st s n cap items
    assume "plenty st" "4 * length w + 3 \<le> n"
    then show "got (JArray (items @ [])) s (int (item_blocks [])) st (array_loop stod n False cap items (w @ CHR '']'' # s) st)"
      using items_none got_here array_skip [of w "CHR '']'' # s" stod "n - 1" cap items st]
      by (cases "w = []"; cases n) (auto simp: array_end)
  qed
next
  case (items_one w1 t x w2)
  show ?case
    unfolding items_ok_def
  proof (intro allI impI)
    fix st :: jmem and s n cap items
    assume st: "plenty st" and n: "4 * length (w1 @ t @ w2) + 3 \<le> n"
    obtain m cap' c where m: "n - 2 \<le> m" "array_loop stod n False cap items (w1 @ t @ w2 @ CHR '']'' # s) st =
        array_loop stod m True cap' (items @ [x]) (CHR '']'' # s) (st\<lparr>jm_calls := c, jm_live := jm_live st + int (blocks x) + 1\<rparr>)"
      using items_step [OF items_one(3,4,1,2) st, of "CHR '']'' # s" n cap items] n by (auto simp: delim_simps)
    then show "got (JArray (items @ [x])) s (int (item_blocks [x])) st (array_loop stod n False cap items ((w1 @ t @ w2) @ CHR '']'' # s) st)"
      using n by (auto simp: array_end got_def ac_simps)
  qed
next
  case (items_more w1 t x w2 r xs)
  show ?case
    unfolding items_ok_def
  proof (intro allI impI)
    fix st :: jmem and s n cap items
    assume st: "plenty st" and n: "4 * length (w1 @ t @ w2 @ '','' @ r) + 3 \<le> n"
    let ?u = "r @ CHR '']'' # s"
    have u: "cur ?u \<noteq> CHR '']''" "?u \<noteq> []"
      using items_cur [OF items_more(6,3)] by (auto simp: cur_append)
    obtain m cap' c where m: "n - 2 \<le> m" "array_loop stod n False cap items (w1 @ t @ w2 @ CHR '','' # ?u) st =
        array_loop stod m True cap' (items @ [x]) (CHR '','' # ?u) (st\<lparr>jm_calls := c, jm_live := jm_live st + int (blocks x) + 1\<rparr>)"
      using items_step [OF items_more(4,5,1,2) st, of "CHR '','' # ?u" n cap items] n by (auto simp: delim_simps)
    then obtain k where k: "m = Suc k"
      using n by (cases m) auto
    let ?st = "st\<lparr>jm_calls := c, jm_live := jm_live st + int (blocks x) + 1\<rparr>"
    have "got (JArray ((items @ [x]) @ xs)) s (int (item_blocks xs)) ?st (array_loop stod m False cap' (items @ [x]) ?u ?st)"
      using items_more(7) st n m(1) unfolding items_ok_def by (auto simp del: append_assoc)
    moreover have "array_loop stod n False cap items ((w1 @ t @ w2 @ '','' @ r) @ CHR '']'' # s) st =
        array_loop stod m False cap' (items @ [x]) ?u ?st"
      using m(2) array_comma [OF u, of stod k cap' "items @ [x]" ?st] k by simp
    ultimately show "got (JArray (items @ x # xs)) s (int (item_blocks (x # xs))) st
        (array_loop stod n False cap items ((w1 @ t @ w2 @ '','' @ r) @ CHR '']'' # s) st)"
      by (auto simp: got_def ac_simps)
  qed
next
  case (members_none w)
  show ?case
    unfolding members_ok_def
  proof (intro allI impI)
    fix st s n es0
    assume "plenty st" "4 * length w + 3 \<le> n"
    then show "got (JObject (es0 @ [])) s (int (member_blocks []) + int (buckets (es0 @ [])) - int (buckets es0)) st
        (obj_loop stod n False False es0 (w @ CHR ''}'' # s) st)"
      using members_none got_here obj_skip [of w "CHR ''}'' # s" stod "n - 1" False es0 st]
      by (cases "w = []"; cases n) (auto simp: obj_end)
  qed
next
  case (members_one w1 k w2 t x w3)
  show ?case
    unfolding members_ok_def
  proof (intro allI impI)
    fix st :: jmem and s n es0
    assume st: "plenty st" and n: "4 * length (w1 @ CHR 0x22 # k @ CHR 0x22 # w2 @ '':'' @ t @ w3) + 3 \<le> n"
      and d: "distinct (map fst (es0 @ [(k, x)]))"
    obtain m c where m: "n - 2 \<le> m"
        "obj_loop stod n False False es0 (w1 @ CHR 0x22 # k @ CHR 0x22 # w2 @ CHR '':'' # t @ w3 @ CHR ''}'' # s) st =
         obj_loop stod m True False (es0 @ [(k, x)]) (CHR ''}'' # s)
           (st\<lparr>jm_calls := c, jm_live := jm_live st + int (blocks x) + 3 + (int (buckets (es0 @ [(k, x)])) - int (buckets es0))\<rparr>)"
      using members_step [OF members_one(5,6,1,2,3,4) st, of "CHR ''}'' # s" es0 n] n d by (auto simp: delim_simps)
    then show "got (JObject (es0 @ [(k, x)])) s (int (member_blocks [(k, x)]) + int (buckets (es0 @ [(k, x)])) - int (buckets es0)) st
        (obj_loop stod n False False es0 ((w1 @ CHR 0x22 # k @ CHR 0x22 # w2 @ '':'' @ t @ w3) @ CHR ''}'' # s) st)"
      using n by (auto simp: obj_end got_def algebra_simps)
  qed
next
  case (members_more w1 k w2 t x w3 r es)
  show ?case
    unfolding members_ok_def
  proof (intro allI impI)
    fix st :: jmem and s n es0
    assume st: "plenty st" and n: "4 * length (w1 @ CHR 0x22 # k @ CHR 0x22 # w2 @ '':'' @ t @ w3 @ '','' @ r) + 3 \<le> n"
      and d: "distinct (map fst (es0 @ (k, x) # es))"
    let ?u = "r @ CHR ''}'' # s"
    have u: "cur ?u \<noteq> CHR ''}''" "?u \<noteq> []"
      using members_cur [OF members_more(8,5)] by (auto simp: cur_append)
    obtain m c where m: "n - 2 \<le> m"
        "obj_loop stod n False False es0 (w1 @ CHR 0x22 # k @ CHR 0x22 # w2 @ CHR '':'' # t @ w3 @ CHR '','' # ?u) st =
         obj_loop stod m True False (es0 @ [(k, x)]) (CHR '','' # ?u)
           (st\<lparr>jm_calls := c, jm_live := jm_live st + int (blocks x) + 3 + (int (buckets (es0 @ [(k, x)])) - int (buckets es0))\<rparr>)"
      using members_step [OF members_more(6,7,1,2,3,4) st, of "CHR '','' # ?u" es0 n] n d by (auto simp: delim_simps)
    then obtain j where j: "m = Suc j"
      using n by (cases m) auto
    let ?st = "st\<lparr>jm_calls := c, jm_live := jm_live st + int (blocks x) + 3 + (int (buckets (es0 @ [(k, x)])) - int (buckets es0))\<rparr>"
    have "got (JObject ((es0 @ [(k, x)]) @ es)) s
        (int (member_blocks es) + int (buckets ((es0 @ [(k, x)]) @ es)) - int (buckets (es0 @ [(k, x)]))) ?st
        (obj_loop stod m False False (es0 @ [(k, x)]) ?u ?st)"
      using st n m(1) d by (intro members_more(9) [unfolded members_ok_def, rule_format]) auto
    moreover have "obj_loop stod n False False es0 ((w1 @ CHR 0x22 # k @ CHR 0x22 # w2 @ '':'' @ t @ w3 @ '','' @ r) @ CHR ''}'' # s) st =
        obj_loop stod m False False (es0 @ [(k, x)]) ?u ?st"
      using m(2) obj_comma [OF u, of stod j "es0 @ [(k, x)]" ?st] j by simp
    ultimately show "got (JObject (es0 @ (k, x) # es)) s
        (int (member_blocks ((k, x) # es)) + int (buckets (es0 @ (k, x) # es)) - int (buckets es0)) st
        (obj_loop stod n False False es0 ((w1 @ CHR 0x22 # k @ CHR 0x22 # w2 @ '':'' @ t @ w3 @ '','' @ r) @ CHR ''}'' # s) st)"
      by (auto simp: got_def algebra_simps)
  qed
qed

section \<open>The parser ends\<close>























section \<open>Properties\<close>



lemma jsonl_parse_grammar:
  assumes "json_text stod t x" "cur t = CHR ''['' \<or> cur t = CHR ''{''" "spaces w" "plenty st"
  shows "\<exists>st'. jsonl_parse_json stod (w @ t @ rest) st = Some (Some x, st') \<and> jm_live st' = jm_live st + int (blocks x) \<and> plenty st'"
proof -
  have sk: "skip_space (w @ t @ rest) = t @ rest"
    using skip_spaces [OF assms(3), of "t @ rest"] skip_space_none [of "t @ rest"] assms(2) text_starts [OF assms(1)]
    by (auto simp: cur_append)
  have n: "4 * length (w @ t @ rest) + 4 = Suc (4 * length (w @ t @ rest) + 3)"
    by simp
  have "\<exists>c. jsonl_parse stod (4 * length (w @ t @ rest) + 4) (w @ t @ rest) st =
      Some (Some x, rest, st\<lparr>jm_calls := c, jm_live := jm_live st + int (blocks x)\<rparr>)"
    using assms(1)
  proof (cases rule: json_text.cases)
    case (text_array u xs)
    let ?st = "st\<lparr>jm_calls := Suc (Suc (Suc (jm_calls st))), jm_live := jm_live st + 3\<rparr>"
    have "got (JArray ([] @ xs)) rest (int (item_blocks xs)) ?st
        (array_loop stod (4 * length (w @ t @ rest) + 3) False 16 [] (u @ CHR '']'' # rest) ?st)"
      using grammar_ok(2) [OF text_array(3)] assms(4) text_array(1) by (auto simp: items_ok_def simp del: append_Nil)
    then show ?thesis
      unfolding n jsonl_parse.simps sk using text_array assms(4)
      by (auto simp: got_def malloc_plenty json_list_new_def ac_simps)
  next
    case (text_object u es)
    let ?st = "st\<lparr>jm_calls := Suc (Suc (jm_calls st)), jm_live := jm_live st + 2\<rparr>"
    have "got (JObject ([] @ es)) rest (int (member_blocks es) + int (buckets ([] @ es)) - int (buckets [])) ?st
        (obj_loop stod (4 * length (w @ t @ rest) + 3) False False [] (u @ CHR ''}'' # rest) ?st)"
      using text_object assms(4) by (intro grammar_ok(3) [OF text_object(3), unfolded members_ok_def, rule_format]) auto
    then show ?thesis
      unfolding n jsonl_parse.simps sk using text_object assms(4)
      by (auto simp: got_def malloc_plenty buckets_def ac_simps)
  qed (use assms(2) digit_not_other in auto)
  then show ?thesis
    using assms(4) by (auto simp: jsonl_parse_json_def)
qed

text \<open>C24: What a configuration text means: every array or object that the grammar
  \<^const>\<open>json_text\<close> derives, with spaces where it allows them, escaped strings, and values
  directly behind the colon of a key, is parsed to exactly the value that it stands for, whatever
  follows it, when no allocation fails; the parser allocates exactly the blocks of that value.\<close>

theorem jsonl_parse_json_grammar:
  assumes "json_text stod t x" "cur t = CHR ''['' \<or> cur t = CHR ''{''" "spaces w" "plenty st"
  shows "\<exists>st'. jsonl_parse_json stod (w @ t @ rest) st = Some (Some x, st') \<and> jm_live st' = jm_live st + int (blocks x)"
  using jsonl_parse_grammar [OF assms, of rest] by blast

definition jmem0 :: jmem where "jmem0 = \<lparr>jm_ok = (\<lambda>_. True), jm_calls = 0, jm_live = 0\<rparr>"

lemma example_text: "json_text stod ''{ \"A\":[true, 0x1F] }'' (JObject [(''A'', JArray [JTrue, JUInt 31])])"
proof -
  have k: "key_string ''A''" and s: "spaces '' ''" "spaces []"
    by (simp_all add: key_string_def IS_KEY_CHAR_def chr_in_def schar_def spaces_def IS_SPACE_def)
  have "json_text stod (CHR ''0'' # CHR ''x'' # ''1F'') (JUInt (jsonl_lib_hexstoui ''1F''))"
    by (intro text_hex) (simp_all add: is_hex_digit_def chr_in_def schar_def)
  moreover have "jsonl_lib_hexstoui ''1F'' = 31"
    by (simp add: jsonl_lib_hexstoui_def chr_in_def schar_def)
  ultimately have "json_items stod ('' '' @ ''0x1F'' @ []) [JUInt 31]"
    using items_one [OF s(1) _ s(2)] by simp
  from items_more [OF s(2) text_true s(2) this] have "json_text stod (''['' @ ''true, 0x1F'' @ '']'') (JArray [JTrue, JUInt 31])"
    by (intro text_array) simp
  from members_one [OF s(1) k s(2) this s(1)] have
    "json_text stod (''{'' @ '' \"A\":[true, 0x1F] '' @ ''}'') (JObject [(''A'', JArray [JTrue, JUInt 31])])"
    by (intro text_object) simp_all
  then show ?thesis by simp
qed

theorem jsonl_parse_json_grammar_witness:
  "\<exists>st'. jsonl_parse_json (\<lambda>_. 0) ''{ \"A\":[true, 0x1F] }'' jmem0 = Some (Some (JObject [(''A'', JArray [JTrue, JUInt 31])]), st') \<and>
    jm_live st' = 13"
  using jsonl_parse_json_grammar [OF example_text, where w = "[]" and st = jmem0 and rest = "[]" and stod = "\<lambda>_. 0"]
  by (simp add: spaces_def plenty_def jmem0_def)

text \<open>A space behind the colon of a key.\<close>

lemma obj_key_space:
  assumes "key_string k" "spaces w1" "spaces w" "w \<noteq> []" "\<not> IS_SPACE (cur u)"
  shows "obj_loop stod (Suc n) False False es (CHR 0x22 # k @ CHR 0x22 # w1 @ CHR '':'' # w @ u) st =
    obj_loop stod n False True es u st"
proof -
  obtain c w' where w: "w = c # w'"
    using assms(4) by (cases w) auto
  have c: "IS_SPACE c" "spaces w'"
    using assms(3) by (simp_all add: w spaces_cons)
  have k: "json_key (k @ CHR 0x22 # w1 @ CHR '':'' # w @ u) [] = Some (k, w1 @ CHR '':'' # w @ u)"
    using json_key_all [of k "[]"] assms(1) by (simp add: key_string_def)
  have "skip_space (w1 @ CHR '':'' # w @ u) = CHR '':'' # w @ u"
    using skip_spaces [OF assms(2)] by simp
  then show ?thesis
    using k c skip_spaces [OF c(2), of u] skip_space_none [OF assms(5)] by (simp add: w)
qed

lemma obj_value_no_key:
  assumes "json_text stod t x" "plenty st" "spaces w" "delim u" "\<not> IS_SPACE (cur u)" "4 * length t \<le> n"
  shows "[] \<notin> fst ` set es \<Longrightarrow> \<exists>st'. plenty st' \<and>
      obj_loop stod (Suc n) False True es (t @ w @ u) st = obj_loop stod n True False (es @ [([], x)]) u st'"
    and "[] \<in> fst ` set es \<Longrightarrow> \<exists>st'. obj_loop stod (Suc n) False True es (t @ w @ u) st = Some (None, w @ u, st')"
proof -
  obtain c where c: "json_value stod n (t @ w @ u) st = Some (Some x, w @ u, st\<lparr>jm_calls := c, jm_live := jm_live st + int (blocks x)\<rparr>)"
    using grammar_ok(1) [OF assms(1), unfolded value_ok_def, rule_format, OF assms(2) delim_spaces [OF assms(3,4)] assms(6)]
    by (auto simp: got_def)
  have t: "cur (t @ w @ u) = cur t" "t \<noteq> []" "\<not> IS_SPACE (cur t)" "cur t \<noteq> CHR ''}''"
    using text_starts [OF assms(1)] starts_valueD [of "cur t"] by (auto simp: cur_append)
  let ?st = "st\<lparr>jm_calls := Suc c, jm_live := jm_live st + int (blocks x) + 1\<rparr>"
  have sk: "skip_space (w @ u) = u"
    using skip_spaces [OF assms(3)] skip_space_none [OF assms(5)] by simp
  show "\<exists>st'. plenty st' \<and> obj_loop stod (Suc n) False True es (t @ w @ u) st = obj_loop stod n True False (es @ [([], x)]) u st'"
    if ni: "[] \<notin> fst ` set es"
  proof -
    obtain d m where "json_set [] x es ?st = (True, es @ [([], x)], ?st\<lparr>jm_calls := d, jm_live := m\<rparr>)"
      using set_plenty [OF _ ni, of ?st x] assms(2) by auto
    then show ?thesis
      using t c assms(2) sk by (intro exI [of _ "?st\<lparr>jm_calls := d, jm_live := m\<rparr>"]) (simp add: malloc_plenty)
  qed
  show "\<exists>st'. obj_loop stod (Suc n) False True es (t @ w @ u) st = Some (None, w @ u, st')" if "[] \<in> fst ` set es"
  proof -
    have "\<exists>q. json_set [] x es ?st = (False, es, q)"
      using that assms(2) by (auto simp: json_set_def DSLHASHTABLE_MAX_NAME_LEN_def malloc_plenty)
    then show ?thesis
      using t c assms(2) by (auto simp: malloc_plenty)
  qed
qed

lemma space_loses_key:
  assumes "key_string k" "key_string l" "json_text stod t x" "json_text stod u y" "plenty st"
  shows "\<exists>st'. jsonl_parse_json stod (''{'' @ CHR 0x22 # k @ CHR 0x22 # '': '' @ t @ ''}'') st = Some (Some (JObject [([], x)]), st')"
    and "\<exists>st'. jsonl_parse_json stod
      (''{'' @ CHR 0x22 # k @ CHR 0x22 # '': '' @ t @ '','' @ CHR 0x22 # l @ CHR 0x22 # '': '' @ u @ ''}'') st = Some (None, st')"
proof -
  have sp: "spaces []" "spaces '' ''" "('' '' :: string) \<noteq> []"
    by (simp_all add: spaces_def IS_SPACE_def)
  have t: "\<not> IS_SPACE (cur (t @ v))" "\<not> IS_SPACE (cur (u @ v))" for v
    using text_starts [OF assms(3)] text_starts [OF assms(4)] starts_valueD by (auto simp: cur_append)
  let ?st = "st\<lparr>jm_calls := Suc (Suc (jm_calls st)), jm_live := jm_live st + 2\<rparr>"
  have st: "plenty ?st"
    using assms(5) by simp
  have start: "jsonl_parse_json stod (CHR ''{'' # v) st =
      map_option (\<lambda>(raw, _, st). (raw, st)) (obj_loop stod (4 * length v + 7) False False [] v ?st)" for v
  proof -
    have p: "jsonl_parse stod (Suc m) (CHR ''{'' # v) st = obj_loop stod m False False [] v ?st" for m
      using assms(5) by (simp add: malloc_plenty ac_simps)
    have e: "4 * length (CHR ''{'' # v) + 4 = Suc (4 * length v + 7)"
      by simp
    show ?thesis
      unfolding jsonl_parse_json_def e p by (cases "obj_loop stod (4 * length v + 7) False False [] v ?st") auto
  qed
  show "\<exists>st'. jsonl_parse_json stod (''{'' @ CHR 0x22 # k @ CHR 0x22 # '': '' @ t @ ''}'') st = Some (Some (JObject [([], x)]), st')"
    (is "\<exists>st'. jsonl_parse_json stod (''{'' @ ?v) st = _")
  proof -
    let ?n = "4 * length ?v + 5"
    obtain st' where "obj_loop stod (Suc ?n) False True [] (t @ [] @ ''}'') ?st = obj_loop stod ?n True False ([] @ [([], x)]) ''}'' st'"
      using obj_value_no_key(1) [OF assms(3) st sp(1), of "''}''" ?n "[]"] by (auto simp: delim_simps)
    moreover have "obj_loop stod (Suc (Suc ?n)) False False [] ?v ?st = obj_loop stod (Suc ?n) False True [] (t @ ''}'') ?st"
      using obj_key_space [OF assms(1) sp(1,2,3) t(1), of stod "Suc ?n" "[]" "''}''" ?st] by simp
    ultimately show ?thesis
      using start [of ?v] by (simp add: obj_end)
  qed
  show "\<exists>st'. jsonl_parse_json stod
      (''{'' @ CHR 0x22 # k @ CHR 0x22 # '': '' @ t @ '','' @ CHR 0x22 # l @ CHR 0x22 # '': '' @ u @ ''}'') st = Some (None, st')"
    (is "\<exists>st'. jsonl_parse_json stod (''{'' @ ?v) st = _")
  proof -
    let ?n = "4 * length ?v + 1"
    let ?w = "CHR 0x22 # l @ CHR 0x22 # '': '' @ u @ ''}''"
    obtain st1 where st1: "plenty st1" "obj_loop stod (Suc (Suc (Suc (Suc (Suc ?n))))) False True [] (t @ [] @ CHR '','' # ?w) ?st =
        obj_loop stod (Suc (Suc (Suc (Suc ?n)))) True False ([] @ [([], x)]) (CHR '','' # ?w) st1"
      using obj_value_no_key(1) [OF assms(3) st sp(1), of "CHR '','' # ?w" "Suc (Suc (Suc (Suc ?n)))" "[]"]
      by (auto simp: delim_simps)
    have a: "obj_loop stod (Suc (Suc (Suc (Suc (Suc (Suc ?n)))))) False False [] ?v ?st =
        obj_loop stod (Suc (Suc (Suc (Suc (Suc ?n))))) False True [] (t @ CHR '','' # ?w) ?st"
      using obj_key_space [OF assms(1) sp(1,2,3) t(1), of stod "Suc (Suc (Suc (Suc (Suc ?n))))" "[]" "CHR '','' # ?w" ?st] by simp
    have b: "obj_loop stod (Suc (Suc (Suc (Suc ?n)))) True False [([], x)] (CHR '','' # ?w) st1 =
        obj_loop stod (Suc (Suc (Suc (Suc ?n)))) False False [([], x)] ?w st1"
      by (rule obj_comma) simp_all
    have c: "obj_loop stod (Suc (Suc (Suc (Suc ?n)))) False False [([], x)] ?w st1 =
        obj_loop stod (Suc (Suc (Suc ?n))) False True [([], x)] (u @ [] @ ''}'') st1"
      using obj_key_space [OF assms(2) sp(1,2,3) t(2), of stod "Suc (Suc (Suc ?n))" "[([], x)]" "''}''" st1] by simp
    obtain st2 where d: "obj_loop stod (Suc (Suc (Suc ?n))) False True [([], x)] (u @ [] @ ''}'') st1 = Some (None, [] @ ''}'', st2)"
      using obj_value_no_key(2) [OF assms(4) st1(1) sp(1), of "''}''" "Suc (Suc ?n)" "[([], x)]"] by (auto simp: delim_simps)
    have n: "4 * length ?v + 7 = Suc (Suc (Suc (Suc (Suc (Suc ?n)))))"
      by simp
    show ?thesis
      using start [of ?v] st1(2) a b c d unfolding n by simp
  qed
qed

text \<open>A space between the colon of a key and its value loses the key: the variable that holds it
  is cleared in the next round of the loop.  The value is stored under the empty name, and an object
  with two such members is rejected.\<close>

theorem jsonl_space_loses_key:
  assumes "key_string k" "key_string l" "json_text stod t x" "json_text stod u y" "plenty st"
  shows "(\<exists>st'. jsonl_parse_json stod (''{'' @ CHR 0x22 # k @ CHR 0x22 # '': '' @ t @ ''}'') st = Some (Some (JObject [([], x)]), st')) \<and>
    (\<exists>st'. jsonl_parse_json stod
      (''{'' @ CHR 0x22 # k @ CHR 0x22 # '': '' @ t @ '','' @ CHR 0x22 # l @ CHR 0x22 # '': '' @ u @ ''}'') st = Some (None, st'))"
  by (intro conjI space_loses_key [OF assms])

theorem jsonl_space_loses_key_witness:
  "\<exists>st'. jsonl_parse_json (\<lambda>_. 0) ''{\"a\": true,\"b\": null}'' jmem0 = Some (None, st')"
proof -
  have "key_string ''a''" "key_string ''b''"
    by (simp_all add: key_string_def IS_KEY_CHAR_def chr_in_def schar_def)
  then show ?thesis
    using jsonl_space_loses_key [OF _ _ text_true text_null, where k = "''a''" and l = "''b''" and st = jmem0 and stod = "\<lambda>_. 0"] by (simp add: plenty_def jmem0_def)
qed

text \<open>What \<open>jsonl_free_json\<close> does not give back: for each object the header of the list of
  its keys and the lists of its buckets.\<close>

fun leaked :: "json \<Rightarrow> nat" and items_leaked :: "json list \<Rightarrow> nat" and members_leaked :: "(string \<times> json) list \<Rightarrow> nat" where
  "leaked (JArray xs) = items_leaked xs"
| "leaked (JObject es) = 1 + card (hash_name ` fst ` set es) + members_leaked es"
| "leaked _ = 0"
| "items_leaked [] = 0"
| "items_leaked (x # xs) = leaked x + items_leaked xs"
| "members_leaked [] = 0"
| "members_leaked ((k, x) # es) = leaked x + members_leaked es"

lemma item_sums: "item_blocks xs = sum_list (map (\<lambda>x. Suc (blocks x)) xs)" "items_leaked xs = sum_list (map leaked xs)"
  by (induction xs) simp_all

lemma member_sums: "member_blocks es = sum_list (map (\<lambda>e. 3 + blocks (snd e)) es)"
  "members_leaked es = sum_list (map (\<lambda>e. leaked (snd e)) es)"
  by (induction es) auto

lemma json_keys_plenty: "plenty st \<Longrightarrow> \<exists>c. json_keys d n st = (True, st\<lparr>jm_calls := c, jm_live := jm_live st + 2 * int n\<rparr>)"
proof (induction n arbitrary: d st)
  case 0
  then show ?case
    by (auto intro: exI [of _ "jm_calls st"])
next
  case (Suc n)
  from Suc.IH [of "st\<lparr>jm_calls := Suc (Suc (jm_calls st)), jm_live := jm_live st + 2\<rparr>" "Suc d"] Suc.prems
  show ?case
    by (auto simp: malloc_plenty ac_simps)
qed

definition freed_to :: "jmem \<Rightarrow> int \<Rightarrow> bool \<times> jmem \<Rightarrow> bool" where
  "freed_to st m r \<longleftrightarrow> (\<exists>c. r = (True, st\<lparr>jm_calls := c, jm_live := jm_live st - m\<rparr>))"

declare jsonl_free_json.simps [simp del]

lemma free_plenty:
  "plenty st \<Longrightarrow> freed_to st (int (blocks x) - int (leaked x)) (jsonl_free_json x st)"
  "plenty st \<Longrightarrow> freed_to st (int (item_blocks xs) - int (items_leaked xs)) (free_items xs st)"
proof (induction x st and xs st rule: jsonl_free_json_free_items.induct)
  case (1 x st)
  show ?case
  proof (cases x)
    case (JObject es)
    let ?st1 = "st\<lparr>jm_calls := jm_calls st + 1, jm_live := jm_live st + 1\<rparr>"
    obtain c where c: "json_keys 0 (length es) ?st1 = (True, ?st1\<lparr>jm_calls := c, jm_live := jm_live ?st1 + 2 * int (length es)\<rparr>)"
      using json_keys_plenty [of ?st1 0 "length es"] 1(3) by auto
    let ?st2 = "?st1\<lparr>jm_calls := c, jm_live := jm_live ?st1 + 2 * int (length es)\<rparr>"
    have m: "jsonl_malloc st = (True, ?st1)"
      using 1(3) by (rule malloc_plenty)
    let ?vs = "map snd (bucket_order es)"
    have "freed_to ?st2 (int (item_blocks ?vs) - int (items_leaked ?vs)) (free_items ?vs ?st2)"
      using 1(1) [OF JObject m [symmetric] refl c [symmetric] refl] 1(3) by simp
    then obtain d where d: "free_items ?vs ?st2 = (True, ?st2\<lparr>jm_calls := d,
        jm_live := jm_live ?st2 - (int (item_blocks ?vs) - int (items_leaked ?vs))\<rparr>)"
      by (auto simp: freed_to_def)
    have s: "item_blocks ?vs = sum_list (map (\<lambda>e. Suc (blocks (snd e))) es)" "items_leaked ?vs = members_leaked es"
      using sum_bucket_order [of "\<lambda>e. Suc (blocks (snd e))" es] sum_bucket_order [of "\<lambda>e. leaked (snd e)" es]
      by (simp_all add: item_sums member_sums comp_def)
    have t: "member_blocks es = 2 * length es + sum_list (map (\<lambda>e. Suc (blocks (snd e))) es)"
      unfolding member_sums by (induction es) auto
    show ?thesis
      using m c d s t by (auto simp: JObject jsonl_free_json.simps freed_to_def json_table_free_def jsonl_free_def algebra_simps)
  next
    case (JArray xs)
    obtain c where "free_items xs st = (True, st\<lparr>jm_calls := c, jm_live := jm_live st - (int (item_blocks xs) - int (items_leaked xs))\<rparr>)"
      using 1(2) [OF JArray] 1(3) by (auto simp: freed_to_def)
    then show ?thesis
      by (auto simp: JArray jsonl_free_json.simps freed_to_def jsonl_free_def algebra_simps)
  qed (auto simp: jsonl_free_json.simps freed_to_def jsonl_free_def intro: exI [of _ "jm_calls st"])
next
  case (2 st)
  then show ?case
    by (auto simp: freed_to_def intro: exI [of _ "jm_calls st"])
next
  case (3 x xs st)
  obtain c where c: "jsonl_free_json x st = (True, st\<lparr>jm_calls := c, jm_live := jm_live st - (int (blocks x) - int (leaked x))\<rparr>)"
    using 3(1,3) by (auto simp: freed_to_def)
  let ?st = "jsonl_free 1 (st\<lparr>jm_calls := c, jm_live := jm_live st - (int (blocks x) - int (leaked x))\<rparr>)"
  have "freed_to ?st (int (item_blocks xs) - int (items_leaked xs)) (free_items xs ?st)"
    using 3(2) [OF c [symmetric] refl] 3(3) by simp
  then show ?case
    using c by (auto simp: freed_to_def jsonl_free_def algebra_simps)
qed

text \<open>Parsing a configuration text and freeing the value leaks memory for every object in it:
  \<open>jsonl_free_json\<close> succeeds and gives back all blocks but one for the object and one for each
  bucket in use, and a text without objects leaves nothing behind.\<close>

theorem jsonl_parse_free_leaks:
  assumes "json_text stod t x" "cur t = CHR ''['' \<or> cur t = CHR ''{''" "plenty st"
  shows "\<exists>st1 st2. jsonl_parse_json stod t st = Some (Some x, st1) \<and> jsonl_free_json x st1 = (True, st2) \<and>
    jm_live st2 = jm_live st + int (leaked x)"
proof -
  have "spaces []"
    by (simp add: spaces_def)
  from jsonl_parse_grammar [OF assms(1,2) this assms(3), of "[]"] obtain st1 where
    st1: "jsonl_parse_json stod t st = Some (Some x, st1)" "jm_live st1 = jm_live st + int (blocks x)" "plenty st1"
    by auto
  from free_plenty(1) [OF st1(3), of x] obtain c where
    "jsonl_free_json x st1 = (True, st1\<lparr>jm_calls := c, jm_live := jm_live st1 - (int (blocks x) - int (leaked x))\<rparr>)"
    by (auto simp: freed_to_def)
  then show ?thesis
    using st1 by auto
qed

theorem jsonl_parse_free_leaks_witness:
  "\<exists>st1 st2. jsonl_parse_json (\<lambda>_. 0) ''{ \"A\":[true, 0x1F] }'' jmem0 = Some (Some (JObject [(''A'', JArray [JTrue, JUInt 31])]), st1) \<and>
    jsonl_free_json (JObject [(''A'', JArray [JTrue, JUInt 31])]) st1 = (True, st2) \<and> jm_live st2 = 2"
  using jsonl_parse_free_leaks [OF example_text, where st = jmem0 and stod = "\<lambda>_. 0"] by (simp add: plenty_def jmem0_def)

text \<open>The buffer for a number is not checked: 1024 digits or dots in an array write behind its
  end.\<close>

theorem jsonl_number_overflows:
  assumes "list_all digit_dot ds" "length ds \<ge> 1023" "chr_in (CHR ''0'') d (CHR ''9'')" "plenty st"
  shows "jsonl_parse_json stod (CHR ''['' # d # ds @ rest) st = None"
proof -
  have dd: "(\<lambda>c. chr_in (CHR ''0'') c (CHR ''9'') \<or> c = CHR ''.'') = digit_dot"
    by (simp add: digit_dot_def fun_eq_iff)
  have "takeWhile digit_dot (d # ds @ rest) = d # ds @ takeWhile digit_dot rest"
    using assms(1,3) by (simp add: digit_dot_def [of d] takeWhile_append2 list_all_iff)
  then have "json_digits digit_dot (d # ds @ rest) = None"
    using assms(2) by (simp add: json_digits_def)
  moreover have "cur (ds @ rest) \<noteq> CHR ''x'' \<and> cur (ds @ rest) \<noteq> CHR ''X''"
    using assms(1,2) digit_dot_not_x by (cases ds) auto
  ultimately have "json_simple stod (d # ds @ rest) st' = None" for st'
    using digit_not_other [OF assms(3)] assms(3) dd by (simp add: json_simple_def)
  then have v: "json_value stod n (d # ds @ rest) st' = None" for n st'
    using digit_not_other [OF assms(3)] by (cases n) simp_all
  have d: "\<not> IS_SPACE d" "d \<noteq> CHR '']''"
    using assms(3) by (auto simp: IS_SPACE_def chr_in_def schar_def)
  have "array_loop stod n False 16 [] (d # ds @ rest) st' = None" for n st'
    using v d by (cases n) simp_all
  moreover have "4 * length (CHR ''['' # d # ds @ rest) + 4 = Suc (4 * length (d # ds @ rest) + 7)"
    by simp
  ultimately show ?thesis
    unfolding jsonl_parse_json_def using assms(4) by (simp only: jsonl_parse.simps) (simp add: malloc_plenty json_list_new_def)
qed

theorem jsonl_number_overflows_witness:
  "jsonl_parse_json (\<lambda>_. 0) (''[7'' @ replicate 1023 (CHR ''7'') @ '']'') jmem0 = None"
  using jsonl_number_overflows [of "replicate 1023 (CHR ''7'')" "CHR ''7''" jmem0 "\<lambda>_. 0" "'']''"]
  by (simp add: list_all_iff digit_dot_def chr_in_def schar_def plenty_def jmem0_def)

end
