(* ===== verification/Logs.thy ===== *)
theory Logs
  imports Strings_Proofs
begin

text \<open>
  \<^verbatim>\<open>kernel/log.c\<close>: log messages are collected in a buffer of 64 KB and appended to a file when it
  is full, or at once.  The clock gives the date; the memory of the buffer, whether the file can be
  opened and the configuration value are inputs.  What is appended to the file is a list of texts.
\<close>

definition LOG_BUFFER_SIZE :: nat where "LOG_BUFFER_SIZE = 65536"

record cmos_date =
  dt_year :: u16
  dt_month :: u8
  dt_day :: u8
  dt_hour :: u8
  dt_minute :: u8
  dt_second :: u8

record log_state =
  log_buffer :: "char list option"   \<comment> \<open>\<open>LOG_BUFFER_SIZE\<close> bytes\<close>
  write_in_rt :: bool
  log_file :: "string list"          \<comment> \<open>the texts appended to \<open>SYSTEM_LOG_FILE\<close>\<close>

section \<open>Operations\<close>

text \<open>\<open>LogInit\<close>: the block that was allocated, if any, and the configuration value, if there is one.\<close>

definition LogInit :: "char list option \<Rightarrow> bool option \<Rightarrow> log_state \<Rightarrow> log_state" where
  "LogInit block conf s =
     (case block of
        None \<Rightarrow> s\<lparr>log_buffer := None\<rparr>
      | Some b \<Rightarrow>
          s\<lparr>log_buffer := Some (b[0 := NUL]),
            write_in_rt := (case conf of None \<Rightarrow> write_in_rt s | Some v \<Rightarrow> v)\<rparr>)"

text \<open>\<open>LogWriteToDisk\<close>: \<open>opens\<close> says whether the file can be opened.\<close>

definition LogWriteToDisk :: "bool \<Rightarrow> log_state \<Rightarrow> log_state" where
  "LogWriteToDisk opens s =
     (case log_buffer s of
        None \<Rightarrow> s
      | Some b \<Rightarrow> if \<not> opens then s else s\<lparr>log_file := log_file s @ [cstr b]\<rparr>)"

definition LogFree :: "bool \<Rightarrow> log_state \<Rightarrow> log_state" where
  "LogFree opens s = (if log_buffer s = None then s else LogWriteToDisk opens s)"

definition LogClear :: "log_state \<Rightarrow> log_state option" where
  "LogClear s = (case log_buffer s of None \<Rightarrow> None | Some b \<Rightarrow> Some (s\<lparr>log_buffer := Some (b[0 := NUL])\<rparr>))"

text \<open>The line of a message, a string in a buffer of 1024 bytes; the conversions read \<open>int\<close> arguments.\<close>

definition log_line :: "cmos_date \<Rightarrow> string \<Rightarrow> string \<Rightarrow> string option" where
  "log_line dt ty msg =
     map_option (\<lambda>(out, _). cstr out) (sprintf_s (\<lambda>_ :: unit. []) 1024 ''[%s] %d-%d-%d %d:%d:%d %s\<newline>''
       [AStr ty, AInt (ucast (dt_year dt)), AInt (ucast (dt_month dt)), AInt (ucast (dt_day dt)),
        AInt (ucast (dt_hour dt)), AInt (ucast (dt_minute dt)), AInt (ucast (dt_second dt)), AStr msg])"

definition log_store :: "(char list option \<Rightarrow> u32 \<Rightarrow> string option \<Rightarrow> (sfstr_result \<times> char list option) option) \<Rightarrow>
    string \<Rightarrow> log_state \<Rightarrow> log_state option" where
  "log_store copy line s = do {
     (_, b) \<leftarrow> copy (log_buffer s) (of_nat LOG_BUFFER_SIZE) (Some line);
     Some (s\<lparr>log_buffer := b\<rparr>) }"

definition Log :: "bool \<Rightarrow> cmos_date \<Rightarrow> string \<Rightarrow> string \<Rightarrow> log_state \<Rightarrow> log_state option" where
  "Log opens dt ty msg s =
     (case log_buffer s of
        None \<Rightarrow> Some s
      | Some b \<Rightarrow> do {
          buffer \<leftarrow> log_line dt ty msg;
          if C_strlen (cstr b) + C_strlen buffer + 1 > of_nat LOG_BUFFER_SIZE then do {
            s \<leftarrow> LogClear (LogWriteToDisk opens s);
            log_store UtlCopyString buffer s }
          else do {
            s \<leftarrow> log_store UtlConcatString buffer s;
            if write_in_rt s then LogClear (LogWriteToDisk opens s) else Some s } })"

definition LogGetBuffer :: "log_state \<Rightarrow> char list option" where
  "LogGetBuffer s = log_buffer s"

section \<open>Every message is kept\<close>

text \<open>The arguments fit the conversions of a format.\<close>

fun args_ok :: "('d \<Rightarrow> string) \<Rightarrow> string \<Rightarrow> 'd vararg list \<Rightarrow> bool" where
  "args_ok dtos [] va = True"
| "args_ok dtos (chr # format) va =
     (if chr \<noteq> CHR ''%'' then args_ok dtos format va
      else (case format of
        [] \<Rightarrow> True
      | chr # format \<Rightarrow>
          if chr = CHR ''%'' then args_ok dtos format va
          else if chr = CHR ''c'' then (case va of AChar c # va \<Rightarrow> args_ok dtos format va | _ \<Rightarrow> False)
          else if is_conversion chr then (case convert dtos chr va of None \<Rightarrow> False | Some (s, va) \<Rightarrow> args_ok dtos format va)
          else args_ok dtos format va))"

lemma vsprintf_loop_Some: "args_ok dtos format va \<Longrightarrow> \<exists>r. vsprintf_loop dtos sz format va n buf = Some r"
proof (induction dtos format va arbitrary: n buf rule: args_ok.induct)
  case (2 dtos chr format va)
  show ?case
  proof (cases "chr = CHR ''%''")
    case False
    then show ?thesis
      using 2 by simp
  next
    case True
    show ?thesis
    proof (cases format)
      case Nil
      then show ?thesis by (simp add: True)
    next
      case (Cons d f)
      consider "d = CHR ''%''" | "d = CHR ''c''" | "d \<noteq> CHR ''%''" "d \<noteq> CHR ''c''" "is_conversion d"
        | "d \<noteq> CHR ''%''" "d \<noteq> CHR ''c''" "\<not> is_conversion d" by blast
      then show ?thesis
      proof cases
        case 1
        then show ?thesis
          using 2(2) [of d f] 2(6) Cons True by simp
      next
        case b: 2
        then show ?thesis
          using 2(3) [of d f] 2(6) Cons True by (auto split: list.splits vararg.splits)
      next
        case c: 3
        then obtain s va' where s: "convert dtos d va = Some (s, va')" "args_ok dtos f va'"
          using 2(6) Cons True by (auto split: option.splits)
        then show ?thesis
          using 2(4) [of d f "(s, va')" s va' "n + strlen_loop s 0"] c Cons True by (simp add: Let_def)
      next
        case 4
        then show ?thesis
          using 2(5) [of d f] 2(6) Cons True by simp
      qed
    qed
  qed
qed simp

lemma ltos_Some: "\<exists>s. ltos n = Some s"
  using ultos_spec [of n] ultos_spec [of "- n"] by (auto simp: ltos_def)

lemma log_line_spec:
  assumes "length ty < 2 ^ 31" "length msg < 2 ^ 31"
  shows "\<exists>line. log_line dt ty msg = Some line \<and> length line < 1024 \<and> NUL \<notin> set line"
proof -
  let ?f = "''[%s] %d-%d-%d %d:%d:%d %s\<newline>''"
  let ?va = "[AStr ty, AInt (ucast (dt_year dt)), AInt (ucast (dt_month dt)), AInt (ucast (dt_day dt)),
        AInt (ucast (dt_hour dt)), AInt (ucast (dt_minute dt)), AInt (ucast (dt_second dt)), AStr msg] :: unit vararg list"
  have c: "\<exists>s. convert (\<lambda>_ :: unit. []) (CHR ''d'') (AInt n # va) = Some (s, va)" for n va
    using ltos_Some [of n] by (auto simp: convert_def)
  have s: "convert (\<lambda>_ :: unit. []) (CHR ''s'') (AStr x # va) = Some (x, va)" for x va
    by (simp add: convert_def)
  have d: "is_conversion (CHR ''d'')" "is_conversion (CHR ''s'')"
    by (simp_all add: is_conversion_def)
  have step: "args_ok (\<lambda>_ :: unit. []) (CHR ''%'' # CHR ''d'' # f) (AInt n # va) = args_ok (\<lambda>_. []) f va" for f n va
    using c [of n va] d by (auto split: option.splits)
  have step': "args_ok (\<lambda>_ :: unit. []) (CHR ''%'' # CHR ''s'' # f) (AStr x # va) = args_ok (\<lambda>_. []) f va" for f x va
    using s d by simp
  have lit: "c \<noteq> CHR ''%'' \<Longrightarrow> args_ok (\<lambda>_ :: unit. []) (c # f) va = args_ok (\<lambda>_. []) f va" for c f va
    by simp
  have "args_ok (\<lambda>_. []) ?f ?va"
    by (simp only: step step' lit char.inject simp_thms args_ok.simps(1))
  then obtain out r where v: "vsprintf_loop (\<lambda>_. []) 1024 ?f ?va 0 [] = Some (out, r)"
    using vsprintf_loop_Some [of "\<lambda>_. []" ?f ?va 1024 0 "[]"] by auto
  have "length out < 1024"
    using vsprintf_loop_bound [OF v] assms by (simp add: short_args_def)
  then have "length (cstr out) < 1024" "NUL \<notin> set (cstr out)"
    using length_takeWhile_le [of "\<lambda>c. c \<noteq> NUL" out] by (auto simp: cstr_def dest: set_takeWhileD)
  then show ?thesis
    using v by (simp add: log_line_def sprintf_s_def vsprintf_s_def)
qed

definition log_ok :: "log_state \<Rightarrow> bool" where
  "log_ok s \<longleftrightarrow> (\<exists>b. log_buffer s = Some b \<and> length b = LOG_BUFFER_SIZE \<and> length (cstr b) < LOG_BUFFER_SIZE)"

text \<open>What has been logged: the file, and behind it the buffer.\<close>

definition log_text :: "log_state \<Rightarrow> string" where
  "log_text s = concat (log_file s) @ (case log_buffer s of None \<Rightarrow> [] | Some b \<Rightarrow> cstr b)"

lemma cstr_clear: "b \<noteq> [] \<Longrightarrow> cstr (b[0 := NUL]) = []"
  by (cases b) (auto simp: cstr_def)

lemma Log_spec:
  assumes "log_ok s" "length ty < 2 ^ 31" "length msg < 2 ^ 31"
  shows "\<exists>s' line. Log opens dt ty msg s = Some s' \<and> log_line dt ty msg = Some line \<and> log_ok s' \<and>
    (opens \<longrightarrow> log_text s' = log_text s @ line)"
proof -
  obtain b where b: "log_buffer s = Some b" "length b = 65536" "length (cstr b) < 65536"
    using assms(1) by (auto simp: log_ok_def LOG_BUFFER_SIZE_def)
  obtain line where l: "log_line dt ty msg = Some line" "length line < 1024" "NUL \<notin> set line"
    using log_line_spec [OF assms(2,3)] by blast
  have full: "C_strlen (cstr b) + C_strlen line + 1 > 65536 \<longleftrightarrow> length (cstr b) + length line + 1 > 65536"
  proof -
    have "unat (C_strlen (cstr b) + C_strlen line + 1) = length (cstr b) + length line + 1"
      using b(3) l(2) by (simp add: C_strlen unat_of_nat32 unat_word_ariths)
    then show ?thesis
      by (simp add: word_less_nat_alt)
  qed
  show ?thesis
  proof (cases "length (cstr b) + length line + 1 > 65536")
    case True
    have ne: "b \<noteq> []"
      using b(2) by auto
    obtain d where d: "UtlCopyString (Some (b[0 := NUL])) 65536 (Some line) = Some (SFSTR_R_OK, Some d)"
        "length d = 65536" "cstr d = line"
      using UtlCopyString_bounded [of 65536 "b[0 := NUL]" line] b(2) l(2,3) by auto
    let ?t = "LogWriteToDisk opens s"
    have t: "LogClear ?t = Some (?t\<lparr>log_buffer := Some (b[0 := NUL])\<rparr>)"
      using b(1) by (simp add: LogClear_def LogWriteToDisk_def)
    have "Log opens dt ty msg s = Some (?t\<lparr>log_buffer := Some d\<rparr>)"
      using b(1) l(1) full True t d(1) by (simp add: Log_def LOG_BUFFER_SIZE_def log_store_def)
    moreover have "opens \<Longrightarrow> log_text (?t\<lparr>log_buffer := Some d\<rparr>) = log_text s @ line"
      using b(1) d(3) by (simp add: log_text_def LogWriteToDisk_def)
    ultimately show ?thesis
      using l d by (auto simp: log_ok_def LOG_BUFFER_SIZE_def)
  next
    case False
    obtain d where d: "UtlConcatString (Some b) 65536 (Some line) = Some (SFSTR_R_OK, Some d)" "length d = 65536" "cstr d = cstr b @ line"
      using UtlConcatString_bounded [of b 65536 line] b(2,3) l(3) False by auto
    let ?s = "s\<lparr>log_buffer := Some d\<rparr>"
    have ne: "d \<noteq> []"
      using d(2) by auto
    have e: "Log opens dt ty msg s = (if write_in_rt s then LogClear (LogWriteToDisk opens ?s) else Some ?s)"
      using b(1) l(1) full False d(1) by (simp add: Log_def LOG_BUFFER_SIZE_def log_store_def)
    have "log_ok ?s" "log_text ?s = log_text s @ line"
      using b d False by (auto simp: log_ok_def LOG_BUFFER_SIZE_def log_text_def)
    moreover have "\<exists>u. LogClear (LogWriteToDisk opens ?s) = Some u \<and> log_ok u \<and> (opens \<longrightarrow> log_text u = log_text s @ line)"
      using d ne cstr_clear [OF ne] b by (auto simp: LogClear_def LogWriteToDisk_def log_ok_def LOG_BUFFER_SIZE_def log_text_def)
    ultimately show ?thesis
      using e l(1) by auto
  qed
qed

section \<open>Properties\<close>

fun log_run :: "bool \<Rightarrow> (cmos_date \<times> string \<times> string) list \<Rightarrow> log_state \<Rightarrow> log_state option" where
  "log_run opens [] s = Some s"
| "log_run opens ((dt, ty, msg) # msgs) s = do { s \<leftarrow> Log opens dt ty msg s; log_run opens msgs s }"

definition log_lines :: "(cmos_date \<times> string \<times> string) list \<Rightarrow> string" where
  "log_lines msgs = concat (map (\<lambda>(dt, ty, msg). the (log_line dt ty msg)) msgs)"

text \<open>No message is lost or stored twice: after any sequence of \<open>Log\<close> calls on a buffer that
  \<open>LogInit\<close> set up, the file and the text in the buffer behind it are the lines of the messages in
  their order, each of them shorter than 1024 characters, whether the log writes at once or only when
  the buffer is full, as long as the file can be opened; and no call writes outside of the buffer.\<close>

theorem log_keeps_messages:
  assumes "length block = LOG_BUFFER_SIZE" "log_file s0 = []"
    "list_all (\<lambda>(_, ty, msg). length ty < 2 ^ 31 \<and> length msg < 2 ^ 31) msgs"
  shows "\<exists>s. log_run True msgs (LogInit (Some block) conf s0) = Some s \<and> log_text s = log_lines msgs \<and> log_ok s"
proof -
  have run: "log_ok s \<Longrightarrow> list_all (\<lambda>(_, ty, msg). length ty < 2 ^ 31 \<and> length msg < 2 ^ 31) msgs \<Longrightarrow>
      \<exists>t. log_run True msgs s = Some t \<and> log_text t = log_text s @ log_lines msgs \<and> log_ok t" for s
  proof (induction msgs arbitrary: s)
    case (Cons m msgs)
    obtain dt ty msg where m: "m = (dt, ty, msg)"
      by (cases m)
    obtain s1 line where s1: "Log True dt ty msg s = Some s1" "log_line dt ty msg = Some line" "log_ok s1" "log_text s1 = log_text s @ line"
      using Log_spec [OF Cons.prems(1), of ty msg True dt] Cons.prems(2) by (auto simp: m)
    then show ?case
      using Cons.IH [OF s1(3)] Cons.prems(2) by (auto simp: m log_lines_def)
  qed (simp add: log_lines_def)
  have "block \<noteq> []"
    using assms(1) by (auto simp: LOG_BUFFER_SIZE_def)
  then have "log_ok (LogInit (Some block) conf s0)" "log_text (LogInit (Some block) conf s0) = []"
    using assms(1,2) cstr_clear [of block] by (auto simp: LogInit_def log_ok_def log_text_def LOG_BUFFER_SIZE_def split: option.split)
  then show ?thesis
    using run [of "LogInit (Some block) conf s0"] assms(3) by auto
qed

theorem log_keeps_messages_witness:
  "\<exists>s. log_run True [(\<lparr>dt_year = 2014, dt_month = 12, dt_day = 7, dt_hour = 0, dt_minute = 0, dt_second = 0\<rparr>, ''Error'', ''x'')]
      (LogInit (Some (replicate 65536 (CHR ''z''))) (Some True) \<lparr>log_buffer = None, write_in_rt = False, log_file = []\<rparr>) = Some s \<and> log_ok s"
  using log_keeps_messages [of "replicate 65536 (CHR ''z'')" "\<lparr>log_buffer = None, write_in_rt = False, log_file = []\<rparr>"
      "[(\<lparr>dt_year = 2014, dt_month = 12, dt_day = 7, dt_hour = 0, dt_minute = 0, dt_second = 0\<rparr>, ''Error'', ''x'')]" "Some True"]
  by (auto simp: LOG_BUFFER_SIZE_def)

end
