(* ===== verification/Config.thy ===== *)
theory Config
  imports Json_Proofs Logs
begin

text \<open>
  \<^verbatim>\<open>kernel/config.c\<close>: the two configuration files, parsed at start-up, and the functions that read
  values out of them.  A file is what opening and reading it gives: \<^const>\<open>None\<close>, or its first 64 KB.
\<close>

section \<open>State\<close>

record config =
  system_json :: "(string \<times> json) list option"
  system_console_json :: "(string \<times> json) list option"
  system_ifs1_json :: "(string \<times> json) list option"
  gui_json :: "(string \<times> json) list option"

definition config_boot :: config where
  "config_boot = \<lparr>system_json = None, system_console_json = None, system_ifs1_json = None, gui_json = None\<rparr>"

datatype config_die = DC_INIT_SYSTEM_CONFIG | DC_INIT_GUI_CONFIG

section \<open>Operations\<close>

text \<open>
  The text in the buffer of 64 KB, closed with a NUL behind the bytes read; \<^const>\<open>None\<close> where the NUL is
  written behind the buffer.
\<close>

definition config_text :: "char list \<Rightarrow> string option" where
  "config_text file = (let len = min (length file) 65536 in if len < 65536 then Some (cstr (take len file)) else None)"

definition json_entries :: "json option \<Rightarrow> (string \<times> json) list option" where
  "json_entries raw = (case raw of Some (JObject es) \<Rightarrow> Some es | _ \<Rightarrow> None)"

text \<open>\<open>config_init\<close>: the configuration, or the code with which the kernel dies.\<close>

definition config_init_system ::
  "(string \<Rightarrow> u64) \<Rightarrow> char list option \<Rightarrow> config \<Rightarrow> jmem \<Rightarrow> ((config_die + config) \<times> jmem) option" where
  "config_init_system stod file cfg st =
     (case file of
        None \<Rightarrow> Some (Inl DC_INIT_SYSTEM_CONFIG, st)
      | Some bytes \<Rightarrow> do {
          buffer \<leftarrow> config_text bytes;
          (raw, st) \<leftarrow> jsonl_parse_json stod buffer st;
          Some (case json_entries raw of
                  None \<Rightarrow> Inl DC_INIT_SYSTEM_CONFIG
                | Some es \<Rightarrow>
                    (case json_entries (jsonl_object_get (Some es) (Some ''Console'')) of
                       None \<Rightarrow> Inl DC_INIT_SYSTEM_CONFIG
                     | Some cs \<Rightarrow>
                         (case json_entries (jsonl_object_get (Some es) (Some ''IFS1'')) of
                            None \<Rightarrow> Inl DC_INIT_SYSTEM_CONFIG
                          | Some fs \<Rightarrow> Inr (cfg\<lparr>system_json := Some es, system_console_json := Some cs,
                                                  system_ifs1_json := Some fs\<rparr>))), st) })"

definition config_init_gui ::
  "(string \<Rightarrow> u64) \<Rightarrow> char list option \<Rightarrow> config \<Rightarrow> jmem \<Rightarrow> ((config_die + config) \<times> jmem) option" where
  "config_init_gui stod file cfg st =
     (case file of
        None \<Rightarrow> Some (Inl DC_INIT_GUI_CONFIG, st)
      | Some bytes \<Rightarrow> do {
          buffer \<leftarrow> config_text bytes;
          (raw, st) \<leftarrow> jsonl_parse_json stod buffer st;
          Some (case json_entries raw of
                  None \<Rightarrow> Inl DC_INIT_GUI_CONFIG
                | Some es \<Rightarrow> Inr (cfg\<lparr>gui_json := Some es\<rparr>), st) })"

definition config_init ::
  "(string \<Rightarrow> u64) \<Rightarrow> char list option \<Rightarrow> char list option \<Rightarrow> config \<Rightarrow> jmem \<Rightarrow> ((config_die + config) \<times> jmem) option" where
  "config_init stod system_file gui_file cfg st = do {
     (r, st) \<leftarrow> config_init_system stod system_file cfg st;
     (case r of Inl d \<Rightarrow> Some (Inl d, st) | Inr cfg \<Rightarrow> config_init_gui stod gui_file cfg st) }"

definition config_get_string ::
  "(string \<times> json) list option \<Rightarrow> string option \<Rightarrow> char list \<Rightarrow> u32 \<Rightarrow> (bool \<times> char list) option" where
  "config_get_string obj name v mx =
     (if name = None \<or> obj = None then Some (False, v)
      else (case jsonl_object_get obj name of
              Some (JValue w) \<Rightarrow> jsonl_string_value (Some (JValue w)) v mx
            | _ \<Rightarrow> Some (False, v)))"

text \<open>The other three kinds of values: what is stored through the pointer, if anything.\<close>

definition config_get_as ::
  "json_type \<Rightarrow> (json option \<Rightarrow> 'v option) \<Rightarrow> (string \<times> json) list option \<Rightarrow> string option \<Rightarrow> 'v option" where
  "config_get_as ty read obj name =
     (if name = None \<or> obj = None then None
      else (case jsonl_object_get obj name of
              None \<Rightarrow> None
            | Some raw \<Rightarrow> if jsonl_value_type (Some raw) \<noteq> ty then None else read (Some raw)))"

definition config_get_bool :: "(string \<times> json) list option \<Rightarrow> string option \<Rightarrow> bool option" where
  "config_get_bool = config_get_as JSONL_VALUE_TYPE_BOOL jsonl_bool_value"

definition config_get_number :: "(string \<times> json) list option \<Rightarrow> string option \<Rightarrow> u64 option" where
  "config_get_number = config_get_as JSONL_VALUE_TYPE_NUMBER jsonl_number_value"

definition config_get_uint :: "(string \<times> json) list option \<Rightarrow> string option \<Rightarrow> u32 option" where
  "config_get_uint = config_get_as JSONL_VALUE_TYPE_UINT jsonl_uint_value"

text \<open>The message of a failure, in a buffer of 1024 bytes.\<close>

definition config_message :: "char list \<Rightarrow> string \<Rightarrow> string option \<Rightarrow> string \<Rightarrow> string option" where
  "config_message buffer fullname name kind = do {
     (_, b) \<leftarrow> UtlCopyString (Some buffer) 1024 (Some (fullname @ '' configuration object doesn'' @ [CHR 0x27] @ ''t contain key '' @ [CHR 0x27]));
     (_, b) \<leftarrow> UtlConcatString b 1024 name;
     (_, b) \<leftarrow> UtlConcatString b 1024 (Some ([CHR 0x27] @ ''('' @ kind @ '') or other some unknow errors.''));
     map_option cstr b }"

definition config_failed ::
  "bool \<Rightarrow> bool \<Rightarrow> cmos_date \<Rightarrow> string \<Rightarrow> string option \<Rightarrow> string \<Rightarrow> log_state \<Rightarrow> log_state option" where
  "config_failed r opens dt fullname name kind log =
     (if r then Some log
      else do {
        msg \<leftarrow> config_message (replicate 1024 NUL) fullname name kind;
        Log opens dt ''Error'' msg log })"

text \<open>\<open>CONFIG_XXX_GET_STH\<close>: the four functions that it defines for an object with its full name.\<close>

definition config_xxx_get_string ::
  "(string \<times> json) list option \<Rightarrow> string \<Rightarrow> bool \<Rightarrow> cmos_date \<Rightarrow> string option \<Rightarrow> char list \<Rightarrow> u32 \<Rightarrow> log_state \<Rightarrow>
   (bool \<times> char list \<times> log_state) option" where
  "config_xxx_get_string obj fullname opens dt name v mx log = do {
     (r, v) \<leftarrow> config_get_string obj name v mx;
     log \<leftarrow> config_failed r opens dt fullname name ''STRING'' log;
     Some (r, v, log) }"

definition config_xxx_get_bool ::
  "(string \<times> json) list option \<Rightarrow> string \<Rightarrow> bool \<Rightarrow> cmos_date \<Rightarrow> string option \<Rightarrow> log_state \<Rightarrow> (bool option \<times> log_state) option" where
  "config_xxx_get_bool obj fullname opens dt name log = do {
     let r = config_get_bool obj name;
     log \<leftarrow> config_failed (r \<noteq> None) opens dt fullname name ''BOOL'' log;
     Some (r, log) }"

definition config_xxx_get_number ::
  "(string \<times> json) list option \<Rightarrow> string \<Rightarrow> bool \<Rightarrow> cmos_date \<Rightarrow> string option \<Rightarrow> log_state \<Rightarrow> (u64 option \<times> log_state) option" where
  "config_xxx_get_number obj fullname opens dt name log = do {
     let r = config_get_number obj name;
     log \<leftarrow> config_failed (r \<noteq> None) opens dt fullname name ''NUMBER'' log;
     Some (r, log) }"

definition config_xxx_get_uint ::
  "(string \<times> json) list option \<Rightarrow> string \<Rightarrow> bool \<Rightarrow> cmos_date \<Rightarrow> string option \<Rightarrow> log_state \<Rightarrow> (u32 option \<times> log_state) option" where
  "config_xxx_get_uint obj fullname opens dt name log = do {
     let r = config_get_uint obj name;
     log \<leftarrow> config_failed (r \<noteq> None) opens dt fullname name ''NUMBER'' log;
     Some (r, log) }"

section \<open>Properties\<close>

lemma spaces_no_NUL: "spaces w \<Longrightarrow> NUL \<notin> set w"
  by (auto simp: spaces_def list_all_iff)

lemma quote_no_NUL: "NUL \<notin> set v \<Longrightarrow> NUL \<notin> set (quote v)"
  by (auto simp: quote_def quote_char_def)

lemma chars_no_NUL: "\<not> chr_in (CHR ''0'') NUL (CHR ''9'')" "\<not> is_hex_digit NUL" "\<not> digit_dot NUL" "\<not> IS_KEY_CHAR NUL"
  by (simp_all add: chr_in_def is_hex_digit_def digit_dot_def IS_KEY_CHAR_def schar_def)

lemma key_no_NUL: "key_string k \<Longrightarrow> NUL \<notin> set k"
  using chars_no_NUL(4) by (auto simp: key_string_def list_all_iff)

lemma text_no_NUL:
  "json_text stod t x \<Longrightarrow> NUL \<notin> set t" "json_items stod u xs \<Longrightarrow> NUL \<notin> set u" "json_members stod v es \<Longrightarrow> NUL \<notin> set v"
  by (induction rule: json_text_json_items_json_members.inducts)
    (use chars_no_NUL quote_no_NUL in \<open>auto simp: list_all_iff dest: spaces_no_NUL key_no_NUL\<close>)

lemma config_text_fits: "NUL \<notin> set t \<Longrightarrow> length t < 65536 \<Longrightarrow> config_text t = Some t"
  by (auto simp: config_text_def cstr_def takeWhile_eq_all_conv)

text \<open>The configuration that is read is the one that was written: from two files of less than
  64 KB with texts of the grammar, the first with objects under \<open>Console\<close> and \<open>IFS1\<close>,
  \<open>config_init\<close> does not die, and the functions that it leaves behind find for every key the
  number, truth value or string that the file has there, and change no log.\<close>

theorem config_values:
  assumes "json_text stod t (JObject es)" "map_of es ''Console'' = Some (JObject cs)" "map_of es ''IFS1'' = Some (JObject fs)"
    "json_text stod u (JObject gs)" "length t < 65536" "length u < 65536" "plenty st"
  shows "\<exists>cfg st'. config_init stod (Some t) (Some u) config_boot st = Some (Inr cfg, st') \<and>
    (\<forall>k n. map_of gs k = Some (JUInt n) \<longrightarrow> config_xxx_get_uint (gui_json cfg) full opens dt (Some k) log = Some (Some n, log)) \<and>
    (\<forall>k n. map_of es k = Some (JUInt n) \<longrightarrow> config_xxx_get_uint (system_json cfg) full opens dt (Some k) log = Some (Some n, log)) \<and>
    (\<forall>k b. map_of cs k = Some (if b then JTrue else JFalse) \<longrightarrow>
       config_xxx_get_bool (system_console_json cfg) full opens dt (Some k) log = Some (Some b, log)) \<and>
    (\<forall>k b. map_of fs k = Some (if b then JTrue else JFalse) \<longrightarrow>
       config_xxx_get_bool (system_ifs1_json cfg) full opens dt (Some k) log = Some (Some b, log))"
proof -
  have start: "cur t = CHR ''['' \<or> cur t = CHR ''{''" "cur u = CHR ''['' \<or> cur u = CHR ''{''"
    using assms(1,4) by (auto elim: json_text.cases)
  have sp: "spaces []"
    by (simp add: spaces_def)
  obtain st1 where st1: "jsonl_parse_json stod t st = Some (Some (JObject es), st1)" "plenty st1"
    using jsonl_parse_grammar [OF assms(1) start(1) sp assms(7), of "[]"] by auto
  obtain st2 where st2: "jsonl_parse_json stod u st1 = Some (Some (JObject gs), st2)"
    using jsonl_parse_grammar [OF assms(4) start(2) sp st1(2), of "[]"] by auto
  have "config_init stod (Some t) (Some u) config_boot st =
      Some (Inr \<lparr>system_json = Some es, system_console_json = Some cs, system_ifs1_json = Some fs, gui_json = Some gs\<rparr>, st2)"
    using config_text_fits [OF text_no_NUL(1) [OF assms(1)] assms(5)] config_text_fits [OF text_no_NUL(1) [OF assms(4)] assms(6)]
      st1 st2 assms(2,3)
    by (simp add: config_init_def config_init_system_def config_init_gui_def config_boot_def jsonl_object_get_def json_entries_def)
  then show ?thesis
    by (auto simp: config_xxx_get_uint_def config_xxx_get_bool_def config_get_uint_def config_get_bool_def config_get_as_def
        config_failed_def jsonl_object_get_def jsonl_value_type_def jsonl_uint_value_def jsonl_bool_value_def split: if_splits)
qed

lemma sample_system: "json_text stod ''{\"Console\":{\"ShowClock\":true},\"IFS1\":{}}''
    (JObject [(''Console'', JObject [(''ShowClock'', JTrue)]), (''IFS1'', JObject [])])"
proof -
  have s: "spaces []"
    by (simp add: spaces_def)
  have k: "key_string ''Console''" "key_string ''ShowClock''" "key_string ''IFS1''"
    by (simp_all add: key_string_def IS_KEY_CHAR_def chr_in_def schar_def)
  from members_one [OF s k(2) s text_true s] have c: "json_text stod (''{'' @ ''\"ShowClock\":true'' @ ''}'') (JObject [(''ShowClock'', JTrue)])"
    by (intro text_object) simp_all
  from members_none [OF s] have "json_text stod (''{'' @ [] @ ''}'') (JObject [])"
    by (intro text_object) simp_all
  from members_one [OF s k(3) s this s] have "json_members stod ''\"IFS1\":{}'' [(''IFS1'', JObject [])]"
    by simp
  from members_more [OF s k(1) s c s this] have
    "json_text stod (''{'' @ ''\"Console\":{\"ShowClock\":true},\"IFS1\":{}'' @ ''}'')
      (JObject [(''Console'', JObject [(''ShowClock'', JTrue)]), (''IFS1'', JObject [])])"
    by (intro text_object) simp_all
  then show ?thesis by simp
qed

definition log0 :: log_state where "log0 = \<lparr>log_buffer = None, write_in_rt = False, log_file = []\<rparr>"

definition date0 :: cmos_date where
  "date0 = \<lparr>dt_year = 2014, dt_month = 12, dt_day = 7, dt_hour = 0, dt_minute = 0, dt_second = 0\<rparr>"

theorem config_values_witness:
  "\<exists>cfg st'. config_init (\<lambda>_. 0) (Some ''{\"Console\":{\"ShowClock\":true},\"IFS1\":{}}'')
      (Some ''{ \"A\":[true, 0x1F] }'') config_boot jmem0 = Some (Inr cfg, st') \<and>
    config_xxx_get_bool (system_console_json cfg) ''System-Console'' True date0 (Some ''ShowClock'') log0 = Some (Some True, log0)"
  using config_values [OF sample_system _ _ example_text, where st = jmem0 and stod = "\<lambda>_. 0" and full = "''System-Console''"
      and opens = True and dt = date0 and log = log0]
  by (fastforce simp: plenty_def jmem0_def)

end
