(* ===== verification/Wdvm.thy ===== *)
theory Wdvm
  imports Prelude
begin

text \<open>
  \<^verbatim>\<open>apps/WDVM-ISystemx86/\<close>: the virtual machine for WDVM programs, \<^verbatim>\<open>Memory.c\<close>, \<^verbatim>\<open>CPU.c\<close>,
  \<^verbatim>\<open>CPU_Registers.c\<close>, \<^verbatim>\<open>CPU_Instructions.c\<close>, \<^verbatim>\<open>Machine.c\<close> and the interrupt handler of \<^verbatim>\<open>main.c\<close>.
  A \<open>cpubasetype\<close> is a 64-bit word, and so is a double: its bits.  Loading and storing leave the
  bits as they are, comparisons and conversions are defined on the bits, and what depends on the
  rounding of the processor is a parameter, the record \<open>fpu\<close>.  An access outside an array, through
  a NULL pointer, a shift by 64 and more, a division that traps and a key that is waited for
  for ever are \<^const>\<open>None\<close>.
\<close>

section \<open>Doubles\<close>

record fpu =
  fadd :: "u64 \<Rightarrow> u64 \<Rightarrow> u64"
  fsub :: "u64 \<Rightarrow> u64 \<Rightarrow> u64"
  fmul :: "u64 \<Rightarrow> u64 \<Rightarrow> u64"
  fdiv :: "u64 \<Rightarrow> u64 \<Rightarrow> u64"
  itof :: "u64 \<Rightarrow> u64"  \<comment> \<open>\<open>(double)\<close> of a \<open>cpubasetype\<close>\<close>

definition dbl_one :: u64 where "dbl_one = 0x3FF0000000000000"

definition dbl_magnitude :: "u64 \<Rightarrow> u64" where "dbl_magnitude x = x AND 0x7FFFFFFFFFFFFFFF"
definition dbl_is_nan :: "u64 \<Rightarrow> bool" where "dbl_is_nan x = (dbl_magnitude x > 0x7FF0000000000000)"

text \<open>The order of the bits as a sign and a magnitude is the order of the numbers.\<close>

definition dbl_rank :: "u64 \<Rightarrow> int" where
  "dbl_rank x = (if bit x 63 then - uint (dbl_magnitude x) else uint (dbl_magnitude x))"

definition dbl_less :: "u64 \<Rightarrow> u64 \<Rightarrow> bool" where
  "dbl_less x y = (\<not> dbl_is_nan x \<and> \<not> dbl_is_nan y \<and> dbl_rank x < dbl_rank y)"

definition dbl_eq :: "u64 \<Rightarrow> u64 \<Rightarrow> bool" where
  "dbl_eq x y = (\<not> dbl_is_nan x \<and> \<not> dbl_is_nan y \<and> dbl_rank x = dbl_rank y)"

definition dbl_neg :: "u64 \<Rightarrow> u64" where "dbl_neg x = x XOR 0x8000000000000000"

text \<open>
  \<open>(cpubasetype)\<close> of a double: the fraction is cut off; undefined when the result has no place.
  The exponent \<open>e\<close> stands for $2^{e - 1075}$ with the leading bit of the fraction made explicit.
\<close>

definition dbl_to_int :: "u64 \<Rightarrow> u64 option" where
  "dbl_to_int x =
     (let e = unat (drop_bit 52 (dbl_magnitude x));
          m = (x AND 0xFFFFFFFFFFFFF) OR 0x10000000000000
      in if e < 1023 then Some 0
         else if bit x 63 \<or> 1023 + 63 < e then None
         else if e \<le> 1075 then Some (drop_bit (1075 - e) m) else Some (push_bit (e - 1075) m))"

section \<open>Data\<close>

abbreviation Param_Register :: u32 where "Param_Register \<equiv> 0"
abbreviation Param_Int :: u32 where "Param_Int \<equiv> 1"
abbreviation Param_Float :: u32 where "Param_Float \<equiv> 2"

record parameter_info =
  p_type :: u32
  p_value :: u64
  p_value_float :: u64

text \<open>The list of parameters is a list: without memory it is NULL, which is read like the empty list.\<close>

record instruction_info =
  i_ID :: u16
  i_pcount :: u8  \<comment> \<open>a \<open>char\<close>\<close>
  i_pi :: "parameter_info list"

datatype interrupt_type = Interrupt_Inner | Interrupt_Outer

text \<open>The one function that is ever entered as a callback is \<open>OnInterrupt\<close>.\<close>

datatype interrupt_callback = On_Interrupt

record interrupt_info =
  in_type :: interrupt_type
  in_inner_address :: u32
  in_outer_callback :: "interrupt_callback option"

definition InterruptCount :: nat where "InterruptCount = 256"

record vm_memory =
  m_Size :: u32
  m_MaxAddress :: u32
  m_IntOffset :: u32
  m_FloatOffset :: u32
  m_intdata :: "u64 list"
  m_floatdata :: "u64 list"
  m_program :: "instruction_info option list option"  \<comment> \<open>NULL, or the pointers of the array\<close>

text \<open>
  \<open>CPU\<close>, with the memory that it points to, the characters printed so far (the newest last) and
  the keys that will be typed.
\<close>

record vm_cpu =
  c_InterruptEnable :: u32
  c_isRunning :: u32
  c_InterruptVector :: "interrupt_info list"
  c_RanCount :: u32
  c_InterruptId :: u32
  c_eax :: u64
  c_ebx :: u64
  c_ecx :: u64
  c_edx :: u64
  c_ebp :: u64
  c_esp :: u64
  c_ebfp :: u64
  c_esfp :: u64
  c_eip :: u64
  c_r0 :: u64
  c_r1 :: u64
  c_r2 :: u64
  c_r3 :: u64
  c_r4 :: u64
  c_r5 :: u64
  c_r6 :: u64
  c_r7 :: u64
  c_f0 :: u64
  c_f1 :: u64
  c_f2 :: u64
  c_f3 :: u64
  c_f4 :: u64
  c_f5 :: u64
  c_f6 :: u64
  c_f7 :: u64
  c_memory :: vm_memory
  c_screen :: "u8 list"
  c_keys :: "u8 list"

section \<open>\<open>CPU_Registers.c\<close>\<close>

abbreviation CPU_Reg_eax :: u64 where "CPU_Reg_eax \<equiv> 0"
abbreviation CPU_Reg_ax :: u64 where "CPU_Reg_ax \<equiv> 1"
abbreviation CPU_Reg_al :: u64 where "CPU_Reg_al \<equiv> 2"
abbreviation CPU_Reg_ah :: u64 where "CPU_Reg_ah \<equiv> 3"
abbreviation CPU_Reg_ebx :: u64 where "CPU_Reg_ebx \<equiv> 4"
abbreviation CPU_Reg_bx :: u64 where "CPU_Reg_bx \<equiv> 5"
abbreviation CPU_Reg_bl :: u64 where "CPU_Reg_bl \<equiv> 6"
abbreviation CPU_Reg_bh :: u64 where "CPU_Reg_bh \<equiv> 7"
abbreviation CPU_Reg_ecx :: u64 where "CPU_Reg_ecx \<equiv> 8"
abbreviation CPU_Reg_cx :: u64 where "CPU_Reg_cx \<equiv> 9"
abbreviation CPU_Reg_cl :: u64 where "CPU_Reg_cl \<equiv> 10"
abbreviation CPU_Reg_ch :: u64 where "CPU_Reg_ch \<equiv> 11"
abbreviation CPU_Reg_edx :: u64 where "CPU_Reg_edx \<equiv> 12"
abbreviation CPU_Reg_dx :: u64 where "CPU_Reg_dx \<equiv> 13"
abbreviation CPU_Reg_dl :: u64 where "CPU_Reg_dl \<equiv> 14"
abbreviation CPU_Reg_dh :: u64 where "CPU_Reg_dh \<equiv> 15"
abbreviation CPU_Reg_esp :: u64 where "CPU_Reg_esp \<equiv> 16"
abbreviation CPU_Reg_sp :: u64 where "CPU_Reg_sp \<equiv> 17"
abbreviation CPU_Reg_ebp :: u64 where "CPU_Reg_ebp \<equiv> 18"
abbreviation CPU_Reg_bp :: u64 where "CPU_Reg_bp \<equiv> 19"
abbreviation CPU_Reg_esfp :: u64 where "CPU_Reg_esfp \<equiv> 20"
abbreviation CPU_Reg_sfp :: u64 where "CPU_Reg_sfp \<equiv> 21"
abbreviation CPU_Reg_ebfp :: u64 where "CPU_Reg_ebfp \<equiv> 22"
abbreviation CPU_Reg_bfp :: u64 where "CPU_Reg_bfp \<equiv> 23"
abbreviation CPU_Reg_eip :: u64 where "CPU_Reg_eip \<equiv> 24"
abbreviation CPU_Reg_ip :: u64 where "CPU_Reg_ip \<equiv> 25"
abbreviation CPU_Reg_r0 :: u64 where "CPU_Reg_r0 \<equiv> 26"
abbreviation CPU_Reg_r1 :: u64 where "CPU_Reg_r1 \<equiv> 27"
abbreviation CPU_Reg_r2 :: u64 where "CPU_Reg_r2 \<equiv> 28"
abbreviation CPU_Reg_r3 :: u64 where "CPU_Reg_r3 \<equiv> 29"
abbreviation CPU_Reg_r4 :: u64 where "CPU_Reg_r4 \<equiv> 30"
abbreviation CPU_Reg_r5 :: u64 where "CPU_Reg_r5 \<equiv> 31"
abbreviation CPU_Reg_r6 :: u64 where "CPU_Reg_r6 \<equiv> 32"
abbreviation CPU_Reg_r7 :: u64 where "CPU_Reg_r7 \<equiv> 33"
abbreviation CPU_Reg_f0 :: u64 where "CPU_Reg_f0 \<equiv> 34"
abbreviation CPU_Reg_f1 :: u64 where "CPU_Reg_f1 \<equiv> 35"
abbreviation CPU_Reg_f2 :: u64 where "CPU_Reg_f2 \<equiv> 36"
abbreviation CPU_Reg_f3 :: u64 where "CPU_Reg_f3 \<equiv> 37"
abbreviation CPU_Reg_f4 :: u64 where "CPU_Reg_f4 \<equiv> 38"
abbreviation CPU_Reg_f5 :: u64 where "CPU_Reg_f5 \<equiv> 39"
abbreviation CPU_Reg_f6 :: u64 where "CPU_Reg_f6 \<equiv> 40"
abbreviation CPU_Reg_f7 :: u64 where "CPU_Reg_f7 \<equiv> 41"

text \<open>The two halves of each decision tree: up to \<open>CPU_Reg_esfp\<close> and above it.\<close>

definition get_int_low :: "u64 \<Rightarrow> vm_cpu \<Rightarrow> u64" where
  "get_int_low n c =
  (if n \<le> CPU_Reg_cl then
    if n \<le> CPU_Reg_bx then
      if n \<le> CPU_Reg_al then
        if n \<le> CPU_Reg_ax then
          if n \<le> CPU_Reg_eax then c_eax c
          else c_eax c AND 0xFFFF
        else c_eax c AND 0xFF
      else
        if n \<le> CPU_Reg_ebx then
          if n \<le> CPU_Reg_ah then drop_bit 8 (c_eax c AND 0xFF00)
          else c_ebx c
        else c_ebx c AND 0xFFFF
    else
      if n \<le> CPU_Reg_ecx then
        if n \<le> CPU_Reg_bh then
          if n \<le> CPU_Reg_bl then c_ebx c AND 0xFF
          else drop_bit 8 (c_ebx c AND 0xFF00)
        else c_ecx c
      else
        if n \<le> CPU_Reg_cx then c_ecx c AND 0xFFFF
        else c_ecx c AND 0xFF
  else
    if n \<le> CPU_Reg_dh then
      if n \<le> CPU_Reg_dx then
        if n \<le> CPU_Reg_edx then
          if n \<le> CPU_Reg_ch then drop_bit 8 (c_ecx c AND 0xFF00)
          else c_edx c
        else c_edx c AND 0xFFFF
      else
        if n \<le> CPU_Reg_dl then c_edx c AND 0xFF
        else drop_bit 8 (c_edx c AND 0xFF00)
    else
      if n \<le> CPU_Reg_ebp then
        if n \<le> CPU_Reg_sp then
          if n \<le> CPU_Reg_esp then c_esp c
          else c_esp c AND 0xFFFF
        else c_ebp c
      else
        if n \<le> CPU_Reg_bp then c_ebp c AND 0xFFFF
        else c_esfp c)"

definition get_int_high :: "u64 \<Rightarrow> vm_cpu \<Rightarrow> u64" where
  "get_int_high n c =
  (if n \<le> CPU_Reg_r5 then
    if n \<le> CPU_Reg_r0 then
      if n \<le> CPU_Reg_bfp then
        if n \<le> CPU_Reg_ebfp then
          if n \<le> CPU_Reg_sfp then c_esfp c AND 0xFFFF
          else c_ebfp c
        else c_ebfp c AND 0xFFFF
      else
        if n \<le> CPU_Reg_ip then
          if n \<le> CPU_Reg_eip then c_eip c
          else c_eip c AND 0xFFFF
        else c_r0 c
    else
      if n \<le> CPU_Reg_r3 then
        if n \<le> CPU_Reg_r2 then
          if n \<le> CPU_Reg_r1 then c_r1 c
          else c_r2 c
        else c_r3 c
      else
        if n \<le> CPU_Reg_r4 then c_r4 c
        else c_r5 c
  else
    if n \<le> CPU_Reg_f2 then
      if n \<le> CPU_Reg_f0 then
        if n \<le> CPU_Reg_r7 then
          if n \<le> CPU_Reg_r6 then c_r6 c
          else c_r7 c
        else 0
      else
        if n \<le> CPU_Reg_f1 then 0
        else 0
    else
      if n \<le> CPU_Reg_f5 then
        if n \<le> CPU_Reg_f4 then
          if n \<le> CPU_Reg_f3 then 0
          else 0
        else 0
      else
        if n \<le> CPU_Reg_f6 then 0
        else 0)"

definition CPU_getIntRegisterValue :: "vm_cpu \<Rightarrow> u64 \<Rightarrow> u64" where
  "CPU_getIntRegisterValue c n =
     (if n = CPU_Reg_esp then c_esp c
      else if n = CPU_Reg_ebp then c_ebp c
      else if n \<ge> CPU_Reg_f0 then 0
      else if n \<le> CPU_Reg_esfp then get_int_low n c else get_int_high n c)"

definition set_int_low :: "u64 \<Rightarrow> u64 \<Rightarrow> vm_cpu \<Rightarrow> vm_cpu" where
  "set_int_low n data c =
  (if n \<le> CPU_Reg_cl then
    if n \<le> CPU_Reg_bx then
      if n \<le> CPU_Reg_al then
        if n \<le> CPU_Reg_ax then
          if n \<le> CPU_Reg_eax then c\<lparr>c_eax := data\<rparr>
          else c\<lparr>c_eax := (c_eax c AND 0xFFFFFFFFFFFF0000) OR (data AND 0xFFFF)\<rparr>
        else c\<lparr>c_eax := (c_eax c AND 0xFFFFFFFFFFFFFF00) OR (data AND 0xFF)\<rparr>
      else
        if n \<le> CPU_Reg_ebx then
          if n \<le> CPU_Reg_ah then c\<lparr>c_eax := (c_eax c AND 0xFFFFFFFFFFFF00FF) OR push_bit 8 (data AND 0xFF)\<rparr>
          else c\<lparr>c_ebx := data\<rparr>
        else c\<lparr>c_ebx := (c_ebx c AND 0xFFFFFFFFFFFF0000) OR (data AND 0xFFFF)\<rparr>
    else
      if n \<le> CPU_Reg_ecx then
        if n \<le> CPU_Reg_bh then
          if n \<le> CPU_Reg_bl then c\<lparr>c_ebx := (c_ebx c AND 0xFFFFFFFFFFFFFF00) OR (data AND 0xFF)\<rparr>
          else c\<lparr>c_ebx := (c_ebx c AND 0xFFFFFFFFFFFF00FF) OR push_bit 8 (data AND 0xFF)\<rparr>
        else c\<lparr>c_ecx := data\<rparr>
      else
        if n \<le> CPU_Reg_cx then c\<lparr>c_ecx := (c_ecx c AND 0xFFFFFFFFFFFF0000) OR (data AND 0xFFFF)\<rparr>
        else c\<lparr>c_ecx := (c_ecx c AND 0xFFFFFFFFFFFFFF00) OR (data AND 0xFF)\<rparr>
  else
    if n \<le> CPU_Reg_dh then
      if n \<le> CPU_Reg_dx then
        if n \<le> CPU_Reg_edx then
          if n \<le> CPU_Reg_ch then c\<lparr>c_ecx := (c_ecx c AND 0xFFFFFFFFFFFF00FF) OR push_bit 8 (data AND 0xFF)\<rparr>
          else c\<lparr>c_edx := data\<rparr>
        else c\<lparr>c_edx := (c_edx c AND 0xFFFFFFFFFFFF0000) OR (data AND 0xFFFF)\<rparr>
      else
        if n \<le> CPU_Reg_dl then c\<lparr>c_edx := (c_edx c AND 0xFFFFFFFFFFFFFF00) OR (data AND 0xFF)\<rparr>
        else c\<lparr>c_edx := (c_edx c AND 0xFFFFFFFFFFFF00FF) OR push_bit 8 (data AND 0xFF)\<rparr>
    else
      if n \<le> CPU_Reg_ebp then
        if n \<le> CPU_Reg_sp then
          if n \<le> CPU_Reg_esp then c\<lparr>c_esp := data\<rparr>
          else c\<lparr>c_esp := (c_esp c AND 0xFFFFFFFFFFFF0000) OR (data AND 0xFFFF)\<rparr>
        else c\<lparr>c_ebp := data\<rparr>
      else
        if n \<le> CPU_Reg_bp then c\<lparr>c_ebp := (c_ebp c AND 0xFFFFFFFFFFFF0000) OR (data AND 0xFFFF)\<rparr>
        else c\<lparr>c_esfp := data\<rparr>)"

definition set_int_high :: "u64 \<Rightarrow> u64 \<Rightarrow> vm_cpu \<Rightarrow> vm_cpu" where
  "set_int_high n data c =
  (if n \<le> CPU_Reg_r5 then
    if n \<le> CPU_Reg_r0 then
      if n \<le> CPU_Reg_bfp then
        if n \<le> CPU_Reg_ebfp then
          if n \<le> CPU_Reg_sfp then c\<lparr>c_esfp := (c_esfp c AND 0xFFFFFFFFFFFF0000) OR (data AND 0xFFFF)\<rparr>
          else c\<lparr>c_ebfp := data\<rparr>
        else c\<lparr>c_ebfp := (c_ebfp c AND 0xFFFFFFFFFFFF0000) OR (data AND 0xFFFF)\<rparr>
      else
        if n \<le> CPU_Reg_ip then
          if n \<le> CPU_Reg_eip then c\<lparr>c_eip := data\<rparr>
          else c\<lparr>c_eip := (c_eip c AND 0xFFFFFFFFFFFF0000) OR (data AND 0xFFFF)\<rparr>
        else c\<lparr>c_r0 := data\<rparr>
    else
      if n \<le> CPU_Reg_r3 then
        if n \<le> CPU_Reg_r2 then
          if n \<le> CPU_Reg_r1 then c\<lparr>c_r1 := data\<rparr>
          else c\<lparr>c_r2 := data\<rparr>
        else c\<lparr>c_r3 := data\<rparr>
      else
        if n \<le> CPU_Reg_r4 then c\<lparr>c_r4 := data\<rparr>
        else c\<lparr>c_r5 := data\<rparr>
  else
    if n \<le> CPU_Reg_f2 then
      if n \<le> CPU_Reg_f0 then
        if n \<le> CPU_Reg_r7 then
          if n \<le> CPU_Reg_r6 then c\<lparr>c_r6 := data\<rparr>
          else c\<lparr>c_r7 := data\<rparr>
        else c
      else
        if n \<le> CPU_Reg_f1 then c
        else c
    else
      if n \<le> CPU_Reg_f5 then
        if n \<le> CPU_Reg_f4 then
          if n \<le> CPU_Reg_f3 then c
          else c
        else c
      else
        if n \<le> CPU_Reg_f6 then c
        else c)"

definition CPU_setIntRegisterValue :: "vm_cpu \<Rightarrow> u64 \<Rightarrow> u64 \<Rightarrow> vm_cpu" where
  "CPU_setIntRegisterValue c n data =
     (if n = CPU_Reg_esp then c\<lparr>c_esp := data\<rparr>
      else if n = CPU_Reg_ebp then c\<lparr>c_ebp := data\<rparr>
      else if n \<ge> CPU_Reg_f0 then c
      else if n \<le> CPU_Reg_esfp then set_int_low n data c else set_int_high n data c)"

definition get_float_low :: "u64 \<Rightarrow> vm_cpu \<Rightarrow> u64" where
  "get_float_low n c =
  (if n \<le> CPU_Reg_cl then
    if n \<le> CPU_Reg_bx then
      if n \<le> CPU_Reg_al then
        if n \<le> CPU_Reg_ax then
          if n \<le> CPU_Reg_eax then 0
          else 0
        else 0
      else
        if n \<le> CPU_Reg_ebx then
          if n \<le> CPU_Reg_ah then 0
          else 0
        else 0
    else
      if n \<le> CPU_Reg_ecx then
        if n \<le> CPU_Reg_bh then
          if n \<le> CPU_Reg_bl then 0
          else 0
        else 0
      else
        if n \<le> CPU_Reg_cx then 0
        else 0
  else
    if n \<le> CPU_Reg_dh then
      if n \<le> CPU_Reg_dx then
        if n \<le> CPU_Reg_edx then
          if n \<le> CPU_Reg_ch then 0
          else 0
        else 0
      else
        if n \<le> CPU_Reg_dl then 0
        else 0
    else
      if n \<le> CPU_Reg_ebp then
        if n \<le> CPU_Reg_sp then
          if n \<le> CPU_Reg_esp then 0
          else 0
        else 0
      else
        if n \<le> CPU_Reg_bp then 0
        else 0)"

definition get_float_high :: "u64 \<Rightarrow> vm_cpu \<Rightarrow> u64" where
  "get_float_high n c =
  (if n \<le> CPU_Reg_r5 then
    if n \<le> CPU_Reg_r0 then
      if n \<le> CPU_Reg_bfp then
        if n \<le> CPU_Reg_ebfp then
          if n \<le> CPU_Reg_sfp then 0
          else 0
        else 0
      else
        if n \<le> CPU_Reg_ip then
          if n \<le> CPU_Reg_eip then 0
          else 0
        else 0
    else
      if n \<le> CPU_Reg_r3 then
        if n \<le> CPU_Reg_r2 then
          if n \<le> CPU_Reg_r1 then 0
          else 0
        else 0
      else
        if n \<le> CPU_Reg_r4 then 0
        else 0
  else
    if n \<le> CPU_Reg_f2 then
      if n \<le> CPU_Reg_f0 then
        if n \<le> CPU_Reg_r7 then
          if n \<le> CPU_Reg_r6 then 0
          else 0
        else c_f0 c
      else
        if n \<le> CPU_Reg_f1 then c_f1 c
        else c_f2 c
    else
      if n \<le> CPU_Reg_f5 then
        if n \<le> CPU_Reg_f4 then
          if n \<le> CPU_Reg_f3 then c_f3 c
          else c_f4 c
        else c_f5 c
      else
        if n \<le> CPU_Reg_f6 then c_f6 c
        else c_f7 c)"

definition CPU_getFloatRegisterValue :: "vm_cpu \<Rightarrow> u64 \<Rightarrow> u64" where
  "CPU_getFloatRegisterValue c n =
     (if n \<le> CPU_Reg_r7 then 0
      else if n \<le> CPU_Reg_esfp then get_float_low n c else get_float_high n c)"

definition set_float_low :: "u64 \<Rightarrow> u64 \<Rightarrow> vm_cpu \<Rightarrow> vm_cpu" where
  "set_float_low n data c =
  (if n \<le> CPU_Reg_cl then
    if n \<le> CPU_Reg_bx then
      if n \<le> CPU_Reg_al then
        if n \<le> CPU_Reg_ax then
          if n \<le> CPU_Reg_eax then c
          else c
        else c
      else
        if n \<le> CPU_Reg_ebx then
          if n \<le> CPU_Reg_ah then c
          else c
        else c
    else
      if n \<le> CPU_Reg_ecx then
        if n \<le> CPU_Reg_bh then
          if n \<le> CPU_Reg_bl then c
          else c
        else c
      else
        if n \<le> CPU_Reg_cx then c
        else c
  else
    if n \<le> CPU_Reg_dh then
      if n \<le> CPU_Reg_dx then
        if n \<le> CPU_Reg_edx then
          if n \<le> CPU_Reg_ch then c
          else c
        else c
      else
        if n \<le> CPU_Reg_dl then c
        else c
    else
      if n \<le> CPU_Reg_ebp then
        if n \<le> CPU_Reg_sp then
          if n \<le> CPU_Reg_esp then c
          else c
        else c
      else
        if n \<le> CPU_Reg_bp then c
        else c)"

definition set_float_high :: "u64 \<Rightarrow> u64 \<Rightarrow> vm_cpu \<Rightarrow> vm_cpu" where
  "set_float_high n data c =
  (if n \<le> CPU_Reg_r5 then
    if n \<le> CPU_Reg_r0 then
      if n \<le> CPU_Reg_bfp then
        if n \<le> CPU_Reg_ebfp then
          if n \<le> CPU_Reg_sfp then c
          else c
        else c
      else
        if n \<le> CPU_Reg_ip then
          if n \<le> CPU_Reg_eip then c
          else c
        else c
    else
      if n \<le> CPU_Reg_r3 then
        if n \<le> CPU_Reg_r2 then
          if n \<le> CPU_Reg_r1 then c
          else c
        else c
      else
        if n \<le> CPU_Reg_r4 then c
        else c
  else
    if n \<le> CPU_Reg_f2 then
      if n \<le> CPU_Reg_f0 then
        if n \<le> CPU_Reg_r7 then
          if n \<le> CPU_Reg_r6 then c
          else c
        else c\<lparr>c_f0 := data\<rparr>
      else
        if n \<le> CPU_Reg_f1 then c\<lparr>c_f1 := data\<rparr>
        else c\<lparr>c_f2 := data\<rparr>
    else
      if n \<le> CPU_Reg_f5 then
        if n \<le> CPU_Reg_f4 then
          if n \<le> CPU_Reg_f3 then c\<lparr>c_f3 := data\<rparr>
          else c\<lparr>c_f4 := data\<rparr>
        else c\<lparr>c_f5 := data\<rparr>
      else
        if n \<le> CPU_Reg_f6 then c\<lparr>c_f6 := data\<rparr>
        else c\<lparr>c_f7 := data\<rparr>)"

definition CPU_setFloatRegisterValue :: "vm_cpu \<Rightarrow> u64 \<Rightarrow> u64 \<Rightarrow> vm_cpu" where
  "CPU_setFloatRegisterValue c n data =
     (if n \<le> CPU_Reg_r7 then c
      else if n \<le> CPU_Reg_esfp then set_float_low n data c else set_float_high n data c)"

section \<open>\<open>Memory.c\<close>\<close>

text \<open>
  \<open>ok\<close> says which of the three allocations succeed, the contents of the new arrays are
  parameters; the sizes are computed in 32 bits.
\<close>

definition Memory_New :: "(nat \<Rightarrow> bool) \<Rightarrow> (nat \<Rightarrow> u64) \<Rightarrow> (nat \<Rightarrow> u64) \<Rightarrow> u32 \<Rightarrow> vm_memory option" where
  "Memory_New ok rawi rawf sz =
     (if ok 0 \<and> ok 1 \<and> ok 2
      then Some \<lparr>m_Size = sz, m_MaxAddress = sz * 2, m_IntOffset = 0, m_FloatOffset = sz,
                 m_intdata = map rawi [0..<unat (8 * sz) div 8],
                 m_floatdata = map rawf [0..<unat (8 * sz) div 8], m_program = None\<rparr>
      else None)"

definition Memory_AllocProgramSpace ::
  "bool \<Rightarrow> (nat \<Rightarrow> instruction_info option) \<Rightarrow> u32 \<Rightarrow> vm_memory \<Rightarrow> bool \<times> vm_memory" where
  "Memory_AllocProgramSpace ok raw n m =
     (if ok then (True, m\<lparr>m_program := Some (map raw [0..<unat (4 * n) div 4])\<rparr>)
      else (False, m\<lparr>m_program := None\<rparr>))"

section \<open>\<open>CPU.c\<close>\<close>

text \<open>The fields that \<open>CPU_New\<close> does not set keep what the allocated block holds, \<open>raw\<close>.\<close>

definition CPU_New :: "bool \<Rightarrow> vm_cpu \<Rightarrow> vm_memory \<Rightarrow> vm_cpu option" where
  "CPU_New ok raw memory =
     (if ok
      then Some (raw\<lparr>c_eax := 0, c_ebx := 0, c_ecx := 0, c_edx := 0, c_ebp := 0, c_esp := 0, c_ebfp := 0,
        c_esfp := 0, c_eip := 0,
        c_r0 := 0, c_r1 := 0, c_r2 := 0, c_r3 := 0, c_r4 := 0, c_r5 := 0, c_r6 := 0, c_r7 := 0,
        c_f0 := 0, c_f1 := 0, c_f2 := 0, c_f3 := 0, c_f4 := 0, c_f5 := 0, c_f6 := 0, c_f7 := 0,
        c_InterruptVector := map (\<lambda>info. info\<lparr>in_type := Interrupt_Outer, in_outer_callback := None\<rparr>)
          (c_InterruptVector raw),
        c_memory := memory\<rparr>)
      else None)"

definition CPU_start :: "vm_cpu \<Rightarrow> vm_cpu" where "CPU_start c = c\<lparr>c_isRunning := 1\<rparr>"
definition CPU_halt :: "vm_cpu \<Rightarrow> vm_cpu" where "CPU_halt c = c\<lparr>c_isRunning := 0\<rparr>"

definition CPU_getIntValue :: "vm_cpu \<Rightarrow> parameter_info \<Rightarrow> u64" where
  "CPU_getIntValue c pi =
     (if p_type pi = Param_Int then p_value pi else CPU_getIntRegisterValue c (p_value pi))"

definition CPU_getFloatValue :: "vm_cpu \<Rightarrow> parameter_info \<Rightarrow> u64" where
  "CPU_getFloatValue c pi =
     (if p_type pi = Param_Float then p_value_float pi else CPU_getFloatRegisterValue c (p_value pi))"

text \<open>The elements of the two arrays of the memory.\<close>

definition load_int :: "u64 \<Rightarrow> vm_cpu \<Rightarrow> u64 option" where
  "load_int i c = (let d = m_intdata (c_memory c) in if unat i < length d then Some (d ! unat i) else None)"

definition load_float :: "u64 \<Rightarrow> vm_cpu \<Rightarrow> u64 option" where
  "load_float i c = (let d = m_floatdata (c_memory c) in if unat i < length d then Some (d ! unat i) else None)"

definition store_int :: "u64 \<Rightarrow> u64 \<Rightarrow> vm_cpu \<Rightarrow> vm_cpu option" where
  "store_int i data c =
     (let m = c_memory c in
      if unat i < length (m_intdata m) then Some (c\<lparr>c_memory := m\<lparr>m_intdata := (m_intdata m)[unat i := data]\<rparr>\<rparr>)
      else None)"

definition store_float :: "u64 \<Rightarrow> u64 \<Rightarrow> vm_cpu \<Rightarrow> vm_cpu option" where
  "store_float i data c =
     (let m = c_memory c in
      if unat i < length (m_floatdata m) then Some (c\<lparr>c_memory := m\<lparr>m_floatdata := (m_floatdata m)[unat i := data]\<rparr>\<rparr>)
      else None)"

definition CPU_pushi :: "u64 \<Rightarrow> vm_cpu \<Rightarrow> vm_cpu option" where
  "CPU_pushi num c = (let c = c\<lparr>c_esp := c_esp c + 1\<rparr> in store_int (c_esp c) num c)"

definition CPU_popi :: "vm_cpu \<Rightarrow> (u64 \<times> vm_cpu) option" where
  "CPU_popi c = do { num \<leftarrow> load_int (c_esp c) c; Some (num, c\<lparr>c_esp := c_esp c - 1\<rparr>) }"

text \<open>The number is stored at \<open>esp\<close>, the pointer of the other stack.\<close>

definition CPU_pushf :: "u64 \<Rightarrow> vm_cpu \<Rightarrow> vm_cpu option" where
  "CPU_pushf num c = (let c = c\<lparr>c_esfp := c_esfp c + 1\<rparr> in store_float (c_esp c) num c)"

definition CPU_popf :: "vm_cpu \<Rightarrow> (u64 \<times> vm_cpu) option" where
  "CPU_popf c = do { num \<leftarrow> load_float (c_esfp c) c; Some (num, c\<lparr>c_esfp := c_esfp c - 1\<rparr>) }"

definition CPU_pushreg :: "vm_cpu \<Rightarrow> vm_cpu option" where
  "CPU_pushreg c = do {
     c \<leftarrow> CPU_pushi (c_eax c) c;
     c \<leftarrow> CPU_pushi (c_ebx c) c;
     c \<leftarrow> CPU_pushi (c_ecx c) c;
     c \<leftarrow> CPU_pushi (c_edx c) c;
     c \<leftarrow> CPU_pushi (c_esp c) c;
     c \<leftarrow> CPU_pushi (c_esfp c) c;
     c \<leftarrow> CPU_pushi (c_eip c) c;
     c \<leftarrow> CPU_pushi (c_r0 c) c;
     c \<leftarrow> CPU_pushi (c_r1 c) c;
     c \<leftarrow> CPU_pushi (c_r2 c) c;
     c \<leftarrow> CPU_pushi (c_r3 c) c;
     c \<leftarrow> CPU_pushi (c_r4 c) c;
     c \<leftarrow> CPU_pushi (c_r5 c) c;
     c \<leftarrow> CPU_pushi (c_r6 c) c;
     c \<leftarrow> CPU_pushi (c_r7 c) c;
     c \<leftarrow> CPU_pushf (c_f0 c) c;
     c \<leftarrow> CPU_pushf (c_f1 c) c;
     c \<leftarrow> CPU_pushf (c_f2 c) c;
     c \<leftarrow> CPU_pushf (c_f3 c) c;
     c \<leftarrow> CPU_pushf (c_f4 c) c;
     c \<leftarrow> CPU_pushf (c_f5 c) c;
     c \<leftarrow> CPU_pushf (c_f6 c) c;
     c \<leftarrow> CPU_pushf (c_f7 c) c;
     Some c }"

definition CPU_popreg :: "vm_cpu \<Rightarrow> vm_cpu option" where
  "CPU_popreg c = do {
     (num, c) \<leftarrow> CPU_popf c; c \<leftarrow> Some (c\<lparr>c_f7 := num\<rparr>);
     (num, c) \<leftarrow> CPU_popf c; c \<leftarrow> Some (c\<lparr>c_f6 := num\<rparr>);
     (num, c) \<leftarrow> CPU_popf c; c \<leftarrow> Some (c\<lparr>c_f5 := num\<rparr>);
     (num, c) \<leftarrow> CPU_popf c; c \<leftarrow> Some (c\<lparr>c_f4 := num\<rparr>);
     (num, c) \<leftarrow> CPU_popf c; c \<leftarrow> Some (c\<lparr>c_f3 := num\<rparr>);
     (num, c) \<leftarrow> CPU_popf c; c \<leftarrow> Some (c\<lparr>c_f2 := num\<rparr>);
     (num, c) \<leftarrow> CPU_popf c; c \<leftarrow> Some (c\<lparr>c_f1 := num\<rparr>);
     (num, c) \<leftarrow> CPU_popf c; c \<leftarrow> Some (c\<lparr>c_f0 := num\<rparr>);
     (num, c) \<leftarrow> CPU_popi c; c \<leftarrow> Some (c\<lparr>c_r7 := num\<rparr>);
     (num, c) \<leftarrow> CPU_popi c; c \<leftarrow> Some (c\<lparr>c_r6 := num\<rparr>);
     (num, c) \<leftarrow> CPU_popi c; c \<leftarrow> Some (c\<lparr>c_r5 := num\<rparr>);
     (num, c) \<leftarrow> CPU_popi c; c \<leftarrow> Some (c\<lparr>c_r4 := num\<rparr>);
     (num, c) \<leftarrow> CPU_popi c; c \<leftarrow> Some (c\<lparr>c_r3 := num\<rparr>);
     (num, c) \<leftarrow> CPU_popi c; c \<leftarrow> Some (c\<lparr>c_r2 := num\<rparr>);
     (num, c) \<leftarrow> CPU_popi c; c \<leftarrow> Some (c\<lparr>c_r1 := num\<rparr>);
     (num, c) \<leftarrow> CPU_popi c; c \<leftarrow> Some (c\<lparr>c_r0 := num\<rparr>);
     (num, c) \<leftarrow> CPU_popi c; c \<leftarrow> Some (c\<lparr>c_eip := num\<rparr>);
     (num, c) \<leftarrow> CPU_popi c; c \<leftarrow> Some (c\<lparr>c_esfp := num\<rparr>);
     (num, c) \<leftarrow> CPU_popi c; c \<leftarrow> Some (c\<lparr>c_esp := num\<rparr>);
     (num, c) \<leftarrow> CPU_popi c; c \<leftarrow> Some (c\<lparr>c_edx := num\<rparr>);
     (num, c) \<leftarrow> CPU_popi c; c \<leftarrow> Some (c\<lparr>c_ecx := num\<rparr>);
     (num, c) \<leftarrow> CPU_popi c; c \<leftarrow> Some (c\<lparr>c_ebx := num\<rparr>);
     (num, c) \<leftarrow> CPU_popi c; c \<leftarrow> Some (c\<lparr>c_eax := num\<rparr>);
     Some c }"

text \<open>A call with an \<open>id\<close> outside the vector writes outside it.\<close>

definition CPU_AddInterrupt :: "u32 \<Rightarrow> interrupt_callback option \<Rightarrow> vm_cpu \<Rightarrow> vm_cpu option" where
  "CPU_AddInterrupt n pic c =
     (if unat n < length (c_InterruptVector c)
      then Some (c\<lparr>c_InterruptVector := (c_InterruptVector c)[unat n :=
             (c_InterruptVector c ! unat n)\<lparr>in_type := Interrupt_Outer, in_outer_callback := pic\<rparr>]\<rparr>)
      else None)"

text \<open>
  \<open>OnInterrupt\<close> of \<^verbatim>\<open>main.c\<close>: \<open>print_char\<close> prints the low byte of \<open>eax\<close>, \<open>get_char\<close> waits for a key.
\<close>

definition OnInterrupt :: "vm_cpu \<Rightarrow> vm_cpu option" where
  "OnInterrupt c =
     (if c_InterruptId c = 5 then Some (c\<lparr>c_screen := c_screen c @ [ucast (c_eax c)]\<rparr>)
      else if c_InterruptId c = 9 then
        (case c_keys c of
           [] \<Rightarrow> None
         | k # ks \<Rightarrow> Some (c\<lparr>c_eax := ucast k, c_keys := ks\<rparr>))
      else Some c)"

definition CPU_Interrupt :: "u32 \<Rightarrow> vm_cpu \<Rightarrow> vm_cpu option" where
  "CPU_Interrupt n c =
     (if c_InterruptEnable c = 0 then Some c
      else (let c = c\<lparr>c_InterruptId := n\<rparr> in
            if length (c_InterruptVector c) \<le> unat n then None
            else (let info = c_InterruptVector c ! unat n in
                  case in_type info of
                    Interrupt_Inner \<Rightarrow> do {
                      c \<leftarrow> CPU_pushi (c_eip c) c;
                      Some (c\<lparr>c_eip := scast (in_inner_address info)\<rparr>) }
                  | Interrupt_Outer \<Rightarrow>
                      (case in_outer_callback info of
                         None \<Rightarrow> Some c
                       | Some On_Interrupt \<Rightarrow> OnInterrupt c))))"

section \<open>\<open>CPU_Instructions.c\<close>\<close>

abbreviation CPU_Ins_nop :: u16 where "CPU_Ins_nop \<equiv> 0"
abbreviation CPU_Ins_hlt :: u16 where "CPU_Ins_hlt \<equiv> 1"
abbreviation CPU_Ins_ldri :: u16 where "CPU_Ins_ldri \<equiv> 2"
abbreviation CPU_Ins_ldrf :: u16 where "CPU_Ins_ldrf \<equiv> 3"
abbreviation CPU_Ins_stri :: u16 where "CPU_Ins_stri \<equiv> 4"
abbreviation CPU_Ins_strf :: u16 where "CPU_Ins_strf \<equiv> 5"
abbreviation CPU_Ins_popi :: u16 where "CPU_Ins_popi \<equiv> 6"
abbreviation CPU_Ins_pushi :: u16 where "CPU_Ins_pushi \<equiv> 7"
abbreviation CPU_Ins_popf :: u16 where "CPU_Ins_popf \<equiv> 8"
abbreviation CPU_Ins_pushf :: u16 where "CPU_Ins_pushf \<equiv> 9"
abbreviation CPU_Ins_itof :: u16 where "CPU_Ins_itof \<equiv> 10"
abbreviation CPU_Ins_ftoi :: u16 where "CPU_Ins_ftoi \<equiv> 11"
abbreviation CPU_Ins_and :: u16 where "CPU_Ins_and \<equiv> 12"
abbreviation CPU_Ins_or :: u16 where "CPU_Ins_or \<equiv> 13"
abbreviation CPU_Ins_xor :: u16 where "CPU_Ins_xor \<equiv> 14"
abbreviation CPU_Ins_not :: u16 where "CPU_Ins_not \<equiv> 15"
abbreviation CPU_Ins_addi :: u16 where "CPU_Ins_addi \<equiv> 16"
abbreviation CPU_Ins_subi :: u16 where "CPU_Ins_subi \<equiv> 17"
abbreviation CPU_Ins_muli :: u16 where "CPU_Ins_muli \<equiv> 18"
abbreviation CPU_Ins_divi :: u16 where "CPU_Ins_divi \<equiv> 19"
abbreviation CPU_Ins_negi :: u16 where "CPU_Ins_negi \<equiv> 20"
abbreviation CPU_Ins_inci :: u16 where "CPU_Ins_inci \<equiv> 21"
abbreviation CPU_Ins_deci :: u16 where "CPU_Ins_deci \<equiv> 22"
abbreviation CPU_Ins_addf :: u16 where "CPU_Ins_addf \<equiv> 23"
abbreviation CPU_Ins_subf :: u16 where "CPU_Ins_subf \<equiv> 24"
abbreviation CPU_Ins_mulf :: u16 where "CPU_Ins_mulf \<equiv> 25"
abbreviation CPU_Ins_divf :: u16 where "CPU_Ins_divf \<equiv> 26"
abbreviation CPU_Ins_negf :: u16 where "CPU_Ins_negf \<equiv> 27"
abbreviation CPU_Ins_incf :: u16 where "CPU_Ins_incf \<equiv> 28"
abbreviation CPU_Ins_decf :: u16 where "CPU_Ins_decf \<equiv> 29"
abbreviation CPU_Ins_gti :: u16 where "CPU_Ins_gti \<equiv> 30"
abbreviation CPU_Ins_gtei :: u16 where "CPU_Ins_gtei \<equiv> 31"
abbreviation CPU_Ins_lti :: u16 where "CPU_Ins_lti \<equiv> 32"
abbreviation CPU_Ins_ltei :: u16 where "CPU_Ins_ltei \<equiv> 33"
abbreviation CPU_Ins_eqi :: u16 where "CPU_Ins_eqi \<equiv> 34"
abbreviation CPU_Ins_neqi :: u16 where "CPU_Ins_neqi \<equiv> 35"
abbreviation CPU_Ins_gtf :: u16 where "CPU_Ins_gtf \<equiv> 36"
abbreviation CPU_Ins_gtef :: u16 where "CPU_Ins_gtef \<equiv> 37"
abbreviation CPU_Ins_ltf :: u16 where "CPU_Ins_ltf \<equiv> 38"
abbreviation CPU_Ins_ltef :: u16 where "CPU_Ins_ltef \<equiv> 39"
abbreviation CPU_Ins_eqf :: u16 where "CPU_Ins_eqf \<equiv> 40"
abbreviation CPU_Ins_neqf :: u16 where "CPU_Ins_neqf \<equiv> 41"
abbreviation CPU_Ins_shl :: u16 where "CPU_Ins_shl \<equiv> 42"
abbreviation CPU_Ins_shr :: u16 where "CPU_Ins_shr \<equiv> 43"
abbreviation CPU_Ins_jmp :: u16 where "CPU_Ins_jmp \<equiv> 44"
abbreviation CPU_Ins_jt :: u16 where "CPU_Ins_jt \<equiv> 45"
abbreviation CPU_Ins_jf :: u16 where "CPU_Ins_jf \<equiv> 46"
abbreviation CPU_Ins_call :: u16 where "CPU_Ins_call \<equiv> 47"
abbreviation CPU_Ins_ret :: u16 where "CPU_Ins_ret \<equiv> 48"
abbreviation CPU_Ins_pushreg :: u16 where "CPU_Ins_pushreg \<equiv> 49"
abbreviation CPU_Ins_popreg :: u16 where "CPU_Ins_popreg \<equiv> 50"
abbreviation CPU_Ins_randi :: u16 where "CPU_Ins_randi \<equiv> 51"
abbreviation CPU_Ins_randf :: u16 where "CPU_Ins_randf \<equiv> 52"
abbreviation CPU_Ins_cli :: u16 where "CPU_Ins_cli \<equiv> 53"
abbreviation CPU_Ins_sei :: u16 where "CPU_Ins_sei \<equiv> 54"
abbreviation CPU_Ins_int :: u16 where "CPU_Ins_int \<equiv> 55"
abbreviation CPU_Ins_jint :: u16 where "CPU_Ins_jint \<equiv> 56"
abbreviation CPU_Ins_rdtsc :: u16 where "CPU_Ins_rdtsc \<equiv> 57"

text \<open>One definition per leaf of the tree; the first parameter of an instruction must be there.\<close>

definition param0 :: "instruction_info \<Rightarrow> parameter_info option" where
  "param0 ii = (case i_pi ii of [] \<Rightarrow> None | pi # _ \<Rightarrow> Some pi)"

text \<open>\<open>a = CPU_popi(cpu); b = CPU_popi(cpu); CPU_pushi(cpu, op)\<close>, and the same of the other stack.\<close>

definition binary_i :: "(u64 \<Rightarrow> u64 \<Rightarrow> u64) \<Rightarrow> vm_cpu \<Rightarrow> vm_cpu option" where
  "binary_i op c = do { (a, c) \<leftarrow> CPU_popi c; (b, c) \<leftarrow> CPU_popi c; CPU_pushi (op a b) c }"

definition binary_f :: "(u64 \<Rightarrow> u64 \<Rightarrow> u64) \<Rightarrow> vm_cpu \<Rightarrow> vm_cpu option" where
  "binary_f op c = do { (a, c) \<leftarrow> CPU_popf c; (b, c) \<leftarrow> CPU_popf c; CPU_pushf (op a b) c }"

definition compare_f :: "(u64 \<Rightarrow> u64 \<Rightarrow> bool) \<Rightarrow> vm_cpu \<Rightarrow> vm_cpu option" where
  "compare_f op c = do { (a, c) \<leftarrow> CPU_popf c; (b, c) \<leftarrow> CPU_popf c; CPU_pushi (of_bool (op a b)) c }"

definition unary_i :: "(u64 \<Rightarrow> u64) \<Rightarrow> vm_cpu \<Rightarrow> vm_cpu option" where
  "unary_i op c = do { (a, c) \<leftarrow> CPU_popi c; CPU_pushi (op a) c }"

definition unary_f :: "(u64 \<Rightarrow> u64) \<Rightarrow> vm_cpu \<Rightarrow> vm_cpu option" where
  "unary_f op c = do { (a, c) \<leftarrow> CPU_popf c; CPU_pushf (op a) c }"

definition ins_nop :: "fpu \<Rightarrow> instruction_info \<Rightarrow> vm_cpu \<Rightarrow> vm_cpu option" where
  "ins_nop f ii c = Some c"

definition ins_hlt :: "fpu \<Rightarrow> instruction_info \<Rightarrow> vm_cpu \<Rightarrow> vm_cpu option" where
  "ins_hlt f ii c = Some (CPU_halt c)"

definition ins_ldri :: "fpu \<Rightarrow> instruction_info \<Rightarrow> vm_cpu \<Rightarrow> vm_cpu option" where
  "ins_ldri f ii c = do {
     (addr, c) \<leftarrow> CPU_popi c;
     let off = scast (m_FloatOffset (c_memory c));
     num \<leftarrow> (if addr \<ge> off then load_float (addr - off) c else load_int addr c);
     CPU_pushi num c }"

definition ins_ldrf :: "fpu \<Rightarrow> instruction_info \<Rightarrow> vm_cpu \<Rightarrow> vm_cpu option" where
  "ins_ldrf f ii c = do {
     (addr, c) \<leftarrow> CPU_popi c;
     let off = scast (m_FloatOffset (c_memory c));
     num \<leftarrow> (if addr < off then load_int addr c else load_float (addr - off) c);
     CPU_pushf num c }"

definition ins_stri :: "fpu \<Rightarrow> instruction_info \<Rightarrow> vm_cpu \<Rightarrow> vm_cpu option" where
  "ins_stri f ii c = do {
     (data, c) \<leftarrow> CPU_popi c;
     (addr, c) \<leftarrow> CPU_popi c;
     let off = scast (m_FloatOffset (c_memory c));
     if addr \<ge> off then store_float (addr - off) data c else store_int addr data c }"

definition ins_strf :: "fpu \<Rightarrow> instruction_info \<Rightarrow> vm_cpu \<Rightarrow> vm_cpu option" where
  "ins_strf f ii c = do {
     (data, c) \<leftarrow> CPU_popf c;
     (addr, c) \<leftarrow> CPU_popi c;
     let off = scast (m_FloatOffset (c_memory c));
     if addr < off then store_int addr data c else store_float (addr - off) data c }"

definition ins_popi :: "fpu \<Rightarrow> instruction_info \<Rightarrow> vm_cpu \<Rightarrow> vm_cpu option" where
  "ins_popi f ii c = do {
     (num, c) \<leftarrow> CPU_popi c;
     Some (case i_pi ii of [] \<Rightarrow> c | pi # _ \<Rightarrow> CPU_setIntRegisterValue c (p_value pi) num) }"

definition ins_pushi :: "fpu \<Rightarrow> instruction_info \<Rightarrow> vm_cpu \<Rightarrow> vm_cpu option" where
  "ins_pushi f ii c = do { pi \<leftarrow> param0 ii; CPU_pushi (CPU_getIntValue c pi) c }"

definition ins_popf :: "fpu \<Rightarrow> instruction_info \<Rightarrow> vm_cpu \<Rightarrow> vm_cpu option" where
  "ins_popf f ii c = do {
     (num, c) \<leftarrow> CPU_popf c;
     Some (case i_pi ii of [] \<Rightarrow> c | pi # _ \<Rightarrow> CPU_setFloatRegisterValue c (p_value pi) num) }"

definition ins_pushf :: "fpu \<Rightarrow> instruction_info \<Rightarrow> vm_cpu \<Rightarrow> vm_cpu option" where
  "ins_pushf f ii c = do { pi \<leftarrow> param0 ii; CPU_pushf (CPU_getFloatValue c pi) c }"

definition ins_itof :: "fpu \<Rightarrow> instruction_info \<Rightarrow> vm_cpu \<Rightarrow> vm_cpu option" where
  "ins_itof f ii c = do { (num, c) \<leftarrow> CPU_popi c; CPU_pushf (itof f num) c }"

definition ins_ftoi :: "fpu \<Rightarrow> instruction_info \<Rightarrow> vm_cpu \<Rightarrow> vm_cpu option" where
  "ins_ftoi f ii c = do { (num, c) \<leftarrow> CPU_popf c; num \<leftarrow> dbl_to_int num; CPU_pushi num c }"

definition ins_and :: "fpu \<Rightarrow> instruction_info \<Rightarrow> vm_cpu \<Rightarrow> vm_cpu option" where
  "ins_and f ii c = binary_i (\<lambda>a b. a AND b) c"

definition ins_or :: "fpu \<Rightarrow> instruction_info \<Rightarrow> vm_cpu \<Rightarrow> vm_cpu option" where
  "ins_or f ii c = binary_i (\<lambda>a b. a OR b) c"

definition ins_xor :: "fpu \<Rightarrow> instruction_info \<Rightarrow> vm_cpu \<Rightarrow> vm_cpu option" where
  "ins_xor f ii c = binary_i (\<lambda>a b. a XOR b) c"

definition ins_not :: "fpu \<Rightarrow> instruction_info \<Rightarrow> vm_cpu \<Rightarrow> vm_cpu option" where
  "ins_not f ii c = unary_i NOT c"

definition ins_addi :: "fpu \<Rightarrow> instruction_info \<Rightarrow> vm_cpu \<Rightarrow> vm_cpu option" where
  "ins_addi f ii c = binary_i (\<lambda>a b. a + b) c"

definition ins_subi :: "fpu \<Rightarrow> instruction_info \<Rightarrow> vm_cpu \<Rightarrow> vm_cpu option" where
  "ins_subi f ii c = binary_i (\<lambda>a b. b - a) c"

definition ins_muli :: "fpu \<Rightarrow> instruction_info \<Rightarrow> vm_cpu \<Rightarrow> vm_cpu option" where
  "ins_muli f ii c = binary_i (\<lambda>a b. a * b) c"

text \<open>
  The operands are cut to 32 bits after the test for zero; \<open>idiv\<close> traps when the divisor is then
  zero and when the quotient does not fit.
\<close>

definition c_quot :: "u32 \<Rightarrow> u32 \<Rightarrow> int" where
  "c_quot b a = sgn (sint b) * sgn (sint a) * (\<bar>sint b\<bar> div \<bar>sint a\<bar>)"

definition ins_divi :: "fpu \<Rightarrow> instruction_info \<Rightarrow> vm_cpu \<Rightarrow> vm_cpu option" where
  "ins_divi f ii c = do {
     (a, c) \<leftarrow> CPU_popi c;
     (b, c) \<leftarrow> CPU_popi c;
     if a = 0 then do { c \<leftarrow> CPU_pushi 0 c; c \<leftarrow> CPU_pushi 0 c; CPU_Interrupt 0 c }
     else
       let b_32 = ucast b; a_32 = ucast a; q = c_quot b_32 a_32 in
       if a_32 = 0 \<or> q = 2 ^ 31 then None
       else do { c \<leftarrow> CPU_pushi (word_of_int (sint b_32 - q * sint a_32)) c; CPU_pushi (word_of_int q) c } }"

definition ins_negi :: "fpu \<Rightarrow> instruction_info \<Rightarrow> vm_cpu \<Rightarrow> vm_cpu option" where
  "ins_negi f ii c = unary_i (\<lambda>a. - a) c"

definition ins_inci :: "fpu \<Rightarrow> instruction_info \<Rightarrow> vm_cpu \<Rightarrow> vm_cpu option" where
  "ins_inci f ii c = unary_i (\<lambda>a. a + 1) c"

definition ins_deci :: "fpu \<Rightarrow> instruction_info \<Rightarrow> vm_cpu \<Rightarrow> vm_cpu option" where
  "ins_deci f ii c = unary_i (\<lambda>a. a - 1) c"

definition ins_addf :: "fpu \<Rightarrow> instruction_info \<Rightarrow> vm_cpu \<Rightarrow> vm_cpu option" where
  "ins_addf f ii c = binary_f (\<lambda>a b. fadd f a b) c"

definition ins_subf :: "fpu \<Rightarrow> instruction_info \<Rightarrow> vm_cpu \<Rightarrow> vm_cpu option" where
  "ins_subf f ii c = binary_f (\<lambda>a b. fsub f b a) c"

definition ins_mulf :: "fpu \<Rightarrow> instruction_info \<Rightarrow> vm_cpu \<Rightarrow> vm_cpu option" where
  "ins_mulf f ii c = binary_f (\<lambda>a b. fmul f a b) c"

definition ins_divf :: "fpu \<Rightarrow> instruction_info \<Rightarrow> vm_cpu \<Rightarrow> vm_cpu option" where
  "ins_divf f ii c = binary_f (\<lambda>a b. fdiv f b a) c"

definition ins_negf :: "fpu \<Rightarrow> instruction_info \<Rightarrow> vm_cpu \<Rightarrow> vm_cpu option" where
  "ins_negf f ii c = unary_f dbl_neg c"

definition ins_incf :: "fpu \<Rightarrow> instruction_info \<Rightarrow> vm_cpu \<Rightarrow> vm_cpu option" where
  "ins_incf f ii c = unary_f (\<lambda>a. fadd f a dbl_one) c"

definition ins_decf :: "fpu \<Rightarrow> instruction_info \<Rightarrow> vm_cpu \<Rightarrow> vm_cpu option" where
  "ins_decf f ii c = unary_f (\<lambda>a. fsub f a dbl_one) c"

definition ins_gti :: "fpu \<Rightarrow> instruction_info \<Rightarrow> vm_cpu \<Rightarrow> vm_cpu option" where
  "ins_gti f ii c = binary_i (\<lambda>a b. of_bool (b > a)) c"

definition ins_gtei :: "fpu \<Rightarrow> instruction_info \<Rightarrow> vm_cpu \<Rightarrow> vm_cpu option" where
  "ins_gtei f ii c = binary_i (\<lambda>a b. of_bool (b \<ge> a)) c"

definition ins_lti :: "fpu \<Rightarrow> instruction_info \<Rightarrow> vm_cpu \<Rightarrow> vm_cpu option" where
  "ins_lti f ii c = binary_i (\<lambda>a b. of_bool (b < a)) c"

definition ins_ltei :: "fpu \<Rightarrow> instruction_info \<Rightarrow> vm_cpu \<Rightarrow> vm_cpu option" where
  "ins_ltei f ii c = binary_i (\<lambda>a b. of_bool (b \<le> a)) c"

definition ins_eqi :: "fpu \<Rightarrow> instruction_info \<Rightarrow> vm_cpu \<Rightarrow> vm_cpu option" where
  "ins_eqi f ii c = binary_i (\<lambda>a b. of_bool (b = a)) c"

definition ins_neqi :: "fpu \<Rightarrow> instruction_info \<Rightarrow> vm_cpu \<Rightarrow> vm_cpu option" where
  "ins_neqi f ii c = binary_i (\<lambda>a b. of_bool (b \<noteq> a)) c"

definition ins_gtf :: "fpu \<Rightarrow> instruction_info \<Rightarrow> vm_cpu \<Rightarrow> vm_cpu option" where
  "ins_gtf f ii c = compare_f (\<lambda>a b. dbl_less a b) c"

definition ins_gtef :: "fpu \<Rightarrow> instruction_info \<Rightarrow> vm_cpu \<Rightarrow> vm_cpu option" where
  "ins_gtef f ii c = compare_f (\<lambda>a b. dbl_less a b \<or> dbl_eq a b) c"

definition ins_ltf :: "fpu \<Rightarrow> instruction_info \<Rightarrow> vm_cpu \<Rightarrow> vm_cpu option" where
  "ins_ltf f ii c = compare_f (\<lambda>a b. dbl_less b a) c"

definition ins_ltef :: "fpu \<Rightarrow> instruction_info \<Rightarrow> vm_cpu \<Rightarrow> vm_cpu option" where
  "ins_ltef f ii c = compare_f (\<lambda>a b. dbl_less b a \<or> dbl_eq b a) c"

definition ins_eqf :: "fpu \<Rightarrow> instruction_info \<Rightarrow> vm_cpu \<Rightarrow> vm_cpu option" where
  "ins_eqf f ii c = compare_f (\<lambda>a b. dbl_eq b a) c"

definition ins_neqf :: "fpu \<Rightarrow> instruction_info \<Rightarrow> vm_cpu \<Rightarrow> vm_cpu option" where
  "ins_neqf f ii c = compare_f (\<lambda>a b. \<not> dbl_eq b a) c"

definition ins_shl :: "fpu \<Rightarrow> instruction_info \<Rightarrow> vm_cpu \<Rightarrow> vm_cpu option" where
  "ins_shl f ii c = do {
     (a, c) \<leftarrow> CPU_popi c;
     (b, c) \<leftarrow> CPU_popi c;
     if 64 \<le> a then None else CPU_pushi (push_bit (unat a) b) c }"

definition ins_shr :: "fpu \<Rightarrow> instruction_info \<Rightarrow> vm_cpu \<Rightarrow> vm_cpu option" where
  "ins_shr f ii c = do {
     (a, c) \<leftarrow> CPU_popi c;
     (b, c) \<leftarrow> CPU_popi c;
     if 64 \<le> a then None else CPU_pushi (drop_bit (unat a) b) c }"

definition ins_jmp :: "fpu \<Rightarrow> instruction_info \<Rightarrow> vm_cpu \<Rightarrow> vm_cpu option" where
  "ins_jmp f ii c = do { pi \<leftarrow> param0 ii; Some (c\<lparr>c_eip := CPU_getIntValue c pi\<rparr>) }"

definition ins_jt :: "fpu \<Rightarrow> instruction_info \<Rightarrow> vm_cpu \<Rightarrow> vm_cpu option" where
  "ins_jt f ii c = do {
     (num, c) \<leftarrow> CPU_popi c;
     if num AND 1 \<noteq> 0 then do { pi \<leftarrow> param0 ii; Some (c\<lparr>c_eip := CPU_getIntValue c pi\<rparr>) } else Some c }"

definition ins_jf :: "fpu \<Rightarrow> instruction_info \<Rightarrow> vm_cpu \<Rightarrow> vm_cpu option" where
  "ins_jf f ii c = do {
     (num, c) \<leftarrow> CPU_popi c;
     if num AND 1 = 0 then do { pi \<leftarrow> param0 ii; Some (c\<lparr>c_eip := CPU_getIntValue c pi\<rparr>) } else Some c }"

definition ins_call :: "fpu \<Rightarrow> instruction_info \<Rightarrow> vm_cpu \<Rightarrow> vm_cpu option" where
  "ins_call f ii c = do {
     c \<leftarrow> CPU_pushi (c_eip c) c;
     pi \<leftarrow> param0 ii;
     Some (c\<lparr>c_eip := CPU_getIntValue c pi\<rparr>) }"

definition ins_ret :: "fpu \<Rightarrow> instruction_info \<Rightarrow> vm_cpu \<Rightarrow> vm_cpu option" where
  "ins_ret f ii c = do { (num, c) \<leftarrow> CPU_popi c; Some (c\<lparr>c_eip := num\<rparr>) }"

definition ins_pushreg :: "fpu \<Rightarrow> instruction_info \<Rightarrow> vm_cpu \<Rightarrow> vm_cpu option" where
  "ins_pushreg f ii c = CPU_pushreg c"

definition ins_popreg :: "fpu \<Rightarrow> instruction_info \<Rightarrow> vm_cpu \<Rightarrow> vm_cpu option" where
  "ins_popreg f ii c = CPU_popreg c"

definition ins_randi :: "fpu \<Rightarrow> instruction_info \<Rightarrow> vm_cpu \<Rightarrow> vm_cpu option" where
  "ins_randi f ii c = CPU_pushi 0 c"

definition ins_randf :: "fpu \<Rightarrow> instruction_info \<Rightarrow> vm_cpu \<Rightarrow> vm_cpu option" where
  "ins_randf f ii c = CPU_pushf 0 c"

definition ins_cli :: "fpu \<Rightarrow> instruction_info \<Rightarrow> vm_cpu \<Rightarrow> vm_cpu option" where
  "ins_cli f ii c = Some (c\<lparr>c_InterruptEnable := 0\<rparr>)"

definition ins_sei :: "fpu \<Rightarrow> instruction_info \<Rightarrow> vm_cpu \<Rightarrow> vm_cpu option" where
  "ins_sei f ii c = Some (c\<lparr>c_InterruptEnable := 1\<rparr>)"

definition ins_int :: "fpu \<Rightarrow> instruction_info \<Rightarrow> vm_cpu \<Rightarrow> vm_cpu option" where
  "ins_int f ii c = do { pi \<leftarrow> param0 ii; CPU_Interrupt (ucast (CPU_getIntValue c pi)) c }"

definition ins_jint :: "fpu \<Rightarrow> instruction_info \<Rightarrow> vm_cpu \<Rightarrow> vm_cpu option" where
  "ins_jint f ii c = do {
     (n, c) \<leftarrow> CPU_popi c;
     if length (c_InterruptVector c) \<le> unat n then None
     else do {
       pi \<leftarrow> param0 ii;
       Some (c\<lparr>c_InterruptVector := (c_InterruptVector c)[unat n :=
             (c_InterruptVector c ! unat n)\<lparr>in_type := Interrupt_Inner,
               in_inner_address := ucast (CPU_getIntValue c pi)\<rparr>]\<rparr>) } }"

definition ins_rdtsc :: "fpu \<Rightarrow> instruction_info \<Rightarrow> vm_cpu \<Rightarrow> vm_cpu option" where
  "ins_rdtsc f ii c = CPU_pushi (scast (c_RanCount c)) c"

text \<open>\<open>CPU_executeInstruction\<close>, a decision tree over the number, in four parts.\<close>

definition exec_basic :: "u16 \<Rightarrow> fpu \<Rightarrow> instruction_info \<Rightarrow> vm_cpu \<Rightarrow> vm_cpu option" where
  "exec_basic n f ii c =
  (if n \<le> CPU_Ins_pushi then
    if n \<le> CPU_Ins_ldrf then
      if n \<le> CPU_Ins_hlt then
        if n \<le> CPU_Ins_nop then ins_nop f ii c
        else ins_hlt f ii c
      else
        if n \<le> CPU_Ins_ldri then ins_ldri f ii c
        else ins_ldrf f ii c
    else
      if n \<le> CPU_Ins_strf then
        if n \<le> CPU_Ins_stri then ins_stri f ii c
        else ins_strf f ii c
      else
        if n \<le> CPU_Ins_popi then ins_popi f ii c
        else ins_pushi f ii c
  else
    if n \<le> CPU_Ins_ftoi then
      if n \<le> CPU_Ins_pushf then
        if n \<le> CPU_Ins_popf then ins_popf f ii c
        else ins_pushf f ii c
      else
        if n \<le> CPU_Ins_itof then ins_itof f ii c
        else ins_ftoi f ii c
    else
      if n \<le> CPU_Ins_or then
        if n \<le> CPU_Ins_and then ins_and f ii c
        else ins_or f ii c
      else ins_xor f ii c)"

definition exec_arith :: "u16 \<Rightarrow> fpu \<Rightarrow> instruction_info \<Rightarrow> vm_cpu \<Rightarrow> vm_cpu option" where
  "exec_arith n f ii c =
  (if n \<le> CPU_Ins_inci then
    if n \<le> CPU_Ins_muli then
      if n \<le> CPU_Ins_addi then
        if n \<le> CPU_Ins_not then ins_not f ii c
        else ins_addi f ii c
      else
        if n \<le> CPU_Ins_subi then ins_subi f ii c
        else ins_muli f ii c
    else
      if n \<le> CPU_Ins_negi then
        if n \<le> CPU_Ins_divi then ins_divi f ii c
        else ins_negi f ii c
      else ins_inci f ii c
  else
    if n \<le> CPU_Ins_mulf then
      if n \<le> CPU_Ins_addf then
        if n \<le> CPU_Ins_deci then ins_deci f ii c
        else ins_addf f ii c
      else
        if n \<le> CPU_Ins_subf then ins_subf f ii c
        else ins_mulf f ii c
    else
      if n \<le> CPU_Ins_negf then
        if n \<le> CPU_Ins_divf then ins_divf f ii c
        else ins_negf f ii c
      else ins_incf f ii c)"

definition exec_compare :: "u16 \<Rightarrow> fpu \<Rightarrow> instruction_info \<Rightarrow> vm_cpu \<Rightarrow> vm_cpu option" where
  "exec_compare n f ii c =
  (if n \<le> CPU_Ins_gtf then
    if n \<le> CPU_Ins_lti then
      if n \<le> CPU_Ins_gti then
        if n \<le> CPU_Ins_decf then ins_decf f ii c
        else ins_gti f ii c
      else
        if n \<le> CPU_Ins_gtei then ins_gtei f ii c
        else ins_lti f ii c
    else
      if n \<le> CPU_Ins_eqi then
        if n \<le> CPU_Ins_ltei then ins_ltei f ii c
        else ins_eqi f ii c
      else
        if n \<le> CPU_Ins_neqi then ins_neqi f ii c
        else ins_gtf f ii c
  else
    if n \<le> CPU_Ins_eqf then
      if n \<le> CPU_Ins_ltf then
        if n \<le> CPU_Ins_gtef then ins_gtef f ii c
        else ins_ltf f ii c
      else
        if n \<le> CPU_Ins_ltef then ins_ltef f ii c
        else ins_eqf f ii c
    else
      if n \<le> CPU_Ins_shl then
        if n \<le> CPU_Ins_neqf then ins_neqf f ii c
        else ins_shl f ii c
      else ins_shr f ii c)"

definition exec_control :: "u16 \<Rightarrow> fpu \<Rightarrow> instruction_info \<Rightarrow> vm_cpu \<Rightarrow> vm_cpu option" where
  "exec_control n f ii c =
  (if n \<le> CPU_Ins_popreg then
    if n \<le> CPU_Ins_call then
      if n \<le> CPU_Ins_jt then
        if n \<le> CPU_Ins_jmp then ins_jmp f ii c
        else ins_jt f ii c
      else
        if n \<le> CPU_Ins_jf then ins_jf f ii c
        else ins_call f ii c
    else
      if n \<le> CPU_Ins_pushreg then
        if n \<le> CPU_Ins_ret then ins_ret f ii c
        else ins_pushreg f ii c
      else ins_popreg f ii c
  else
    if n \<le> CPU_Ins_sei then
      if n \<le> CPU_Ins_randf then
        if n \<le> CPU_Ins_randi then ins_randi f ii c
        else ins_randf f ii c
      else
        if n \<le> CPU_Ins_cli then ins_cli f ii c
        else ins_sei f ii c
    else
      if n \<le> CPU_Ins_jint then
        if n \<le> CPU_Ins_int then ins_int f ii c
        else ins_jint f ii c
      else ins_rdtsc f ii c)"

definition CPU_executeInstruction :: "fpu \<Rightarrow> instruction_info \<Rightarrow> vm_cpu \<Rightarrow> vm_cpu option" where
  "CPU_executeInstruction f ii c =
     (let n = i_ID ii in
      if n \<le> CPU_Ins_incf then
        if n \<le> CPU_Ins_xor then exec_basic n f ii c else exec_arith n f ii c
      else
        if n \<le> CPU_Ins_shr then exec_compare n f ii c else exec_control n f ii c)"

section \<open>\<open>CPU_execute\<close> and \<open>Machine_run\<close>\<close>

text \<open>The loop reads every parameter; the number of them is compared as an \<open>uint\<close>.\<close>

function touch_params :: "nat \<Rightarrow> nat \<Rightarrow> parameter_info list \<Rightarrow> unit option" where
  "touch_params ui n pis =
     (if ui < n then (if ui < length pis then touch_params (Suc ui) n pis else None) else Some ())"
  by pat_completeness auto
termination
  by (relation "measure (\<lambda>(ui, n, pis). n - ui)") auto

declare touch_params.simps [simp del]

definition CPU_execute :: "fpu \<Rightarrow> vm_cpu \<Rightarrow> vm_cpu option" where
  "CPU_execute f c = do {
     program \<leftarrow> m_program (c_memory c);
     ii \<leftarrow> (if unat (c_eip c) < length program then program ! unat (c_eip c) else None);
     _ \<leftarrow> touch_params 0 (unat (scast (i_pcount ii) :: u32)) (i_pi ii);
     c \<leftarrow> CPU_executeInstruction f ii (c\<lparr>c_eip := c_eip c + 1\<rparr>);
     Some (c\<lparr>c_RanCount := c_RanCount c + 1\<rparr>) }"

definition CPU_ClockTick :: "fpu \<Rightarrow> vm_cpu \<Rightarrow> vm_cpu option" where
  "CPU_ClockTick f c = (if c_isRunning c \<noteq> 0 then CPU_execute f c else Some c)"

text \<open>The machine: its own flag \<open>isRunning\<close> and the processor.\<close>

type_synonym vm_machine = "u32 \<times> vm_cpu"

definition Machine_New1 ::
  "(nat \<Rightarrow> bool) \<Rightarrow> u32 \<Rightarrow> (nat \<Rightarrow> u64) \<Rightarrow> (nat \<Rightarrow> u64) \<Rightarrow> vm_cpu \<Rightarrow> u32 \<Rightarrow> vm_machine option" where
  "Machine_New1 ok raw rawi rawf raw_cpu memorysize =
     (if ok 0 then do {
        memory \<leftarrow> Memory_New (\<lambda>i. ok (i + 1)) rawi rawf memorysize;
        cpu \<leftarrow> CPU_New (ok 4) raw_cpu memory;
        Some (raw, cpu) }
      else None)"

partial_function (option) run_loop :: "fpu \<Rightarrow> u32 \<Rightarrow> vm_cpu \<Rightarrow> vm_cpu option" where
  "run_loop f running c =
     (if running \<noteq> 0 \<and> c_isRunning c \<noteq> 0 then do { c \<leftarrow> CPU_ClockTick f c; run_loop f running c }
      else Some c)"

definition Machine_run :: "fpu \<Rightarrow> vm_machine \<Rightarrow> vm_machine option" where
  "Machine_run f m = do { c \<leftarrow> run_loop f 1 (CPU_start (snd m)); Some (1, c) }"

text \<open>The first ticks of a run, for the statements about runs that do not end.\<close>

fun ticks :: "fpu \<Rightarrow> nat \<Rightarrow> vm_cpu \<Rightarrow> vm_cpu option" where
  "ticks f 0 c = Some c"
| "ticks f (Suc n) c = do { c \<leftarrow> CPU_ClockTick f c; ticks f n c }"

lemma sint_small:
  fixes w :: "'a::len word"
  assumes "unat w < 2 ^ (LENGTH('a) - 1)"
  shows "sint w = int (unat w)"
proof -
  have "int (unat w) < int (2 ^ (LENGTH('a) - 1))"
    using assms by (simp only: of_nat_less_iff)
  then have "signed_take_bit (LENGTH('a) - 1) (int (unat w)) = int (unat w)"
    by (intro signed_take_bit_int_eq_self) (simp_all add: order_trans [of _ 0])
  then show ?thesis
    by (simp add: sint_uint)
qed

end
