(* ===== verification/Wdvm_Proofs.thy ===== *)
theory Wdvm_Proofs
  imports Wdvm
begin

text \<open>
  Facts about the virtual machine of \<open>Wdvm\<close>: the decision trees agree with tables, the registers
  are a file of 17 words of which some have named parts, the integer stack is a stack.
\<close>

lemma word_numeral_le_1 [simp]:
  "numeral k \<le> (1 :: 'a::len word) \<longleftrightarrow> unat (numeral k :: 'a word) \<le> 1"
  by (simp add: word_le_nat_alt)

section \<open>Registers\<close>

lemma small_word_cases:
  fixes n :: "'a::len word"
  assumes "n < word_of_nat k" "k < 2 ^ LENGTH('a)"
  shows "n \<in> set (map word_of_nat [0..<k])"
proof -
  have "unat n < k"
    using assms by (simp add: word_less_nat_alt unat_of_nat take_bit_nat_eq_self)
  then show ?thesis
    by (auto intro!: image_eqI [of _ _ "unat n"])
qed

lemma register_cases:
  fixes n :: u64
  assumes "n < 34"
    "n = 0 \<Longrightarrow> R" "n = 1 \<Longrightarrow> R" "n = 2 \<Longrightarrow> R" "n = 3 \<Longrightarrow> R" 
    "n = 4 \<Longrightarrow> R" "n = 5 \<Longrightarrow> R" "n = 6 \<Longrightarrow> R" "n = 7 \<Longrightarrow> R" 
    "n = 8 \<Longrightarrow> R" "n = 9 \<Longrightarrow> R" "n = 10 \<Longrightarrow> R" "n = 11 \<Longrightarrow> R" 
    "n = 12 \<Longrightarrow> R" "n = 13 \<Longrightarrow> R" "n = 14 \<Longrightarrow> R" "n = 15 \<Longrightarrow> R" 
    "n = 16 \<Longrightarrow> R" "n = 17 \<Longrightarrow> R" "n = 18 \<Longrightarrow> R" "n = 19 \<Longrightarrow> R" 
    "n = 20 \<Longrightarrow> R" "n = 21 \<Longrightarrow> R" "n = 22 \<Longrightarrow> R" "n = 23 \<Longrightarrow> R" 
    "n = 24 \<Longrightarrow> R" "n = 25 \<Longrightarrow> R" "n = 26 \<Longrightarrow> R" "n = 27 \<Longrightarrow> R" 
    "n = 28 \<Longrightarrow> R" "n = 29 \<Longrightarrow> R" "n = 30 \<Longrightarrow> R" "n = 31 \<Longrightarrow> R" 
    "n = 32 \<Longrightarrow> R" "n = 33 \<Longrightarrow> R"
  shows R
  using small_word_cases [of n 34] assms(1)
  by (simp add: upt_conv_Cons del: set_map set_upt) (elim disjE; erule assms(2-))

text \<open>The registers by their order, the place of a number among them, and the part that it names.\<close>

datatype reg_part = Whole | Low16 | Low8 | High8

definition int_registers :: "vm_cpu \<Rightarrow> u64 list" where
  "int_registers c =
     [c_eax c, c_ebx c, c_ecx c, c_edx c, c_esp c, c_ebp c, c_esfp c, c_ebfp c, c_eip c,
      c_r0 c, c_r1 c, c_r2 c, c_r3 c, c_r4 c, c_r5 c, c_r6 c, c_r7 c]"

definition reg_place :: "u64 \<Rightarrow> nat" where
  "reg_place n =
     (if n < 16 then unat n div 4 else if n < 26 then (unat n - 16) div 2 + 4 else unat n - 17)"

definition reg_part :: "u64 \<Rightarrow> reg_part" where
  "reg_part n =
     (if n < 16 then [Whole, Low16, Low8, High8] ! (unat n mod 4)
      else if n < 26 then [Whole, Low16] ! (unat n mod 2) else Whole)"

definition part_of :: "reg_part \<Rightarrow> u64 \<Rightarrow> u64" where
  "part_of p x =
     (case p of Whole \<Rightarrow> x | Low16 \<Rightarrow> x AND 0xFFFF | Low8 \<Rightarrow> x AND 0xFF | High8 \<Rightarrow> drop_bit 8 (x AND 0xFF00))"

definition with_part :: "reg_part \<Rightarrow> u64 \<Rightarrow> u64 \<Rightarrow> u64" where
  "with_part p x data =
     (case p of
        Whole \<Rightarrow> data
      | Low16 \<Rightarrow> (x AND 0xFFFFFFFFFFFF0000) OR (data AND 0xFFFF)
      | Low8 \<Rightarrow> (x AND 0xFFFFFFFFFFFFFF00) OR (data AND 0xFF)
      | High8 \<Rightarrow> (x AND 0xFFFFFFFFFFFF00FF) OR push_bit 8 (data AND 0xFF))"

lemmas reg_defs = reg_place_def reg_part_def part_of_def with_part_def int_registers_def

lemma get_int_table:
  "CPU_getIntRegisterValue c n = (if n < 34 then part_of (reg_part n) (int_registers c ! reg_place n) else 0)"
proof (cases "n < 34")
  case True
  show ?thesis
    by (rule register_cases [OF True])
      (simp_all add: CPU_getIntRegisterValue_def get_int_low_def get_int_high_def reg_defs)
next
  case False
  then show ?thesis
    by (auto simp: CPU_getIntRegisterValue_def not_less)
qed

lemma set_int_table:
  "int_registers (CPU_setIntRegisterValue c n data) =
     (if n < 34
      then (int_registers c)[reg_place n := with_part (reg_part n) (int_registers c ! reg_place n) data]
      else int_registers c)"
proof (cases "n < 34")
  case True
  show ?thesis
    by (rule register_cases [OF True])
      (simp_all add: CPU_setIntRegisterValue_def set_int_low_def set_int_high_def reg_defs)
next
  case False
  then show ?thesis
    by (auto simp: CPU_setIntRegisterValue_def not_less)
qed

lemma reg_place_less: "n < 34 \<Longrightarrow> reg_place n < length (int_registers c)"
  by (simp add: reg_place_def int_registers_def word_less_nat_alt) linarith

text \<open>Writing to a part and reading a part, of the same register.\<close>

lemma masks:
  "(0xFFFF :: u64) = mask 16" "(0xFF :: u64) = mask 8" "(0xFF00 :: u64) = push_bit 8 (mask 8)"
  "(0xFFFFFFFFFFFF0000 :: u64) = NOT (mask 16)" "(0xFFFFFFFFFFFFFF00 :: u64) = NOT (mask 8)"
  "(0xFFFFFFFFFFFF00FF :: u64) = NOT (push_bit 8 (mask 8))"
  by (simp_all add: mask_eq_exp_minus_1)

lemma part_of_with_part [simp]:
  "part_of p (with_part p x data) =
     (case p of Whole \<Rightarrow> data | Low16 \<Rightarrow> data AND 0xFFFF | _ \<Rightarrow> data AND 0xFF)"
  unfolding part_of_def with_part_def masks
  by (cases p) (auto intro!: bit_word_eqI simp: bit_simps)

lemma get_set_int:
  "CPU_getIntRegisterValue (CPU_setIntRegisterValue c n data) m =
     (if n < 34 \<and> m < 34 \<and> reg_place m = reg_place n
      then part_of (reg_part m) (with_part (reg_part n) (int_registers c ! reg_place n) data)
      else CPU_getIntRegisterValue c m)"
  by (auto simp: get_int_table set_int_table reg_place_less)

definition fp_registers :: "vm_cpu \<Rightarrow> u64 list" where
  "fp_registers c = [c_f0 c, c_f1 c, c_f2 c, c_f3 c, c_f4 c, c_f5 c, c_f6 c, c_f7 c]"

definition fp_place :: "u64 \<Rightarrow> nat" where "fp_place n = min 7 (unat n - 34)"

lemmas fp_trees = CPU_getFloatRegisterValue_def get_float_low_def get_float_high_def
  CPU_setFloatRegisterValue_def set_float_low_def set_float_high_def

lemma get_float_table:
  "CPU_getFloatRegisterValue c n = (if n < 34 then 0 else fp_registers c ! fp_place n)"
  by (auto simp: fp_trees fp_registers_def fp_place_def word_less_nat_alt word_le_nat_alt)

section \<open>Dispatch\<close>

text \<open>The instructions in the order of their numbers.\<close>

definition instruction_table :: "(fpu \<Rightarrow> instruction_info \<Rightarrow> vm_cpu \<Rightarrow> vm_cpu option) list" where
  "instruction_table =
     [ins_nop, ins_hlt, ins_ldri, ins_ldrf, ins_stri, ins_strf, ins_popi, ins_pushi,
      ins_popf, ins_pushf, ins_itof, ins_ftoi, ins_and, ins_or, ins_xor, ins_not,
      ins_addi, ins_subi, ins_muli, ins_divi, ins_negi, ins_inci, ins_deci, ins_addf,
      ins_subf, ins_mulf, ins_divf, ins_negf, ins_incf, ins_decf, ins_gti, ins_gtei,
      ins_lti, ins_ltei, ins_eqi, ins_neqi, ins_gtf, ins_gtef, ins_ltf, ins_ltef,
      ins_eqf, ins_neqf, ins_shl, ins_shr, ins_jmp, ins_jt, ins_jf, ins_call,
      ins_ret, ins_pushreg, ins_popreg, ins_randi, ins_randf, ins_cli, ins_sei, ins_int,
      ins_jint, ins_rdtsc]"

lemma instruction_cases:
  fixes n :: u16
  assumes "n < 58"
    "n = 0 \<Longrightarrow> R" "n = 1 \<Longrightarrow> R" "n = 2 \<Longrightarrow> R" "n = 3 \<Longrightarrow> R" 
    "n = 4 \<Longrightarrow> R" "n = 5 \<Longrightarrow> R" "n = 6 \<Longrightarrow> R" "n = 7 \<Longrightarrow> R" 
    "n = 8 \<Longrightarrow> R" "n = 9 \<Longrightarrow> R" "n = 10 \<Longrightarrow> R" "n = 11 \<Longrightarrow> R" 
    "n = 12 \<Longrightarrow> R" "n = 13 \<Longrightarrow> R" "n = 14 \<Longrightarrow> R" "n = 15 \<Longrightarrow> R" 
    "n = 16 \<Longrightarrow> R" "n = 17 \<Longrightarrow> R" "n = 18 \<Longrightarrow> R" "n = 19 \<Longrightarrow> R" 
    "n = 20 \<Longrightarrow> R" "n = 21 \<Longrightarrow> R" "n = 22 \<Longrightarrow> R" "n = 23 \<Longrightarrow> R" 
    "n = 24 \<Longrightarrow> R" "n = 25 \<Longrightarrow> R" "n = 26 \<Longrightarrow> R" "n = 27 \<Longrightarrow> R" 
    "n = 28 \<Longrightarrow> R" "n = 29 \<Longrightarrow> R" "n = 30 \<Longrightarrow> R" "n = 31 \<Longrightarrow> R" 
    "n = 32 \<Longrightarrow> R" "n = 33 \<Longrightarrow> R" "n = 34 \<Longrightarrow> R" "n = 35 \<Longrightarrow> R" 
    "n = 36 \<Longrightarrow> R" "n = 37 \<Longrightarrow> R" "n = 38 \<Longrightarrow> R" "n = 39 \<Longrightarrow> R" 
    "n = 40 \<Longrightarrow> R" "n = 41 \<Longrightarrow> R" "n = 42 \<Longrightarrow> R" "n = 43 \<Longrightarrow> R" 
    "n = 44 \<Longrightarrow> R" "n = 45 \<Longrightarrow> R" "n = 46 \<Longrightarrow> R" "n = 47 \<Longrightarrow> R" 
    "n = 48 \<Longrightarrow> R" "n = 49 \<Longrightarrow> R" "n = 50 \<Longrightarrow> R" "n = 51 \<Longrightarrow> R" 
    "n = 52 \<Longrightarrow> R" "n = 53 \<Longrightarrow> R" "n = 54 \<Longrightarrow> R" "n = 55 \<Longrightarrow> R" 
    "n = 56 \<Longrightarrow> R" "n = 57 \<Longrightarrow> R"
  shows R
  using small_word_cases [of n 58] assms(1)
  by (simp add: upt_conv_Cons del: set_map set_upt) (elim disjE; erule assms(2-))

lemmas exec_trees = CPU_executeInstruction_def exec_basic_def exec_arith_def exec_compare_def exec_control_def

lemma dispatch_table:
  "CPU_executeInstruction f ii c = (instruction_table ! min 57 (unat (i_ID ii))) f ii c"
proof (cases "i_ID ii < 58")
  case True
  then show ?thesis
    by (rule instruction_cases) (simp_all add: exec_trees instruction_table_def)
next
  case False
  then show ?thesis
    by (simp add: exec_trees instruction_table_def word_le_nat_alt word_less_nat_alt not_less)
qed

end
