(* ===== verification/Wdvm_Stack.thy ===== *)
theory Wdvm_Stack
  imports Wdvm_Proofs
begin

text \<open>
  The integer stack of the virtual machine against a list: the interface of a stack as a locale,
  its interpretation on \<open>CPU_pushi\<close> and \<open>CPU_popi\<close>, the arithmetic instructions as operations on
  the list, and a type system for programs whose typable programs never go wrong.
\<close>

section \<open>The interface of a stack\<close>

text \<open>
  \<open>stk\<close> is what the stack holds, \<open>room\<close> how much more fits, \<open>rest\<close> what its operations leave alone.
\<close>

locale vm_stack =
  fixes ok :: "'s \<Rightarrow> bool"
    and push :: "'v \<Rightarrow> 's \<Rightarrow> 's option"
    and pop :: "'s \<Rightarrow> ('v \<times> 's) option"
    and stk :: "'s \<Rightarrow> 'v list"
    and room :: "'s \<Rightarrow> nat"
    and rest :: "'s \<Rightarrow> 'r"
  assumes push_law: "ok s \<Longrightarrow> 0 < room s \<Longrightarrow>
      \<exists>s'. push x s = Some s' \<and> ok s' \<and> stk s' = x # stk s \<and> room s' = room s - 1 \<and> rest s' = rest s"
    and pop_law: "ok s \<Longrightarrow> stk s = x # xs \<Longrightarrow>
      \<exists>s'. pop s = Some (x, s') \<and> ok s' \<and> stk s' = xs \<and> room s' = Suc (room s) \<and> rest s' = rest s"
begin

lemma push_pop:
  assumes "ok s" "0 < room s"
  obtains s' s'' where "push x s = Some s'" "pop s' = Some (x, s'')"
    "ok s''" "stk s'' = stk s" "room s'' = room s" "rest s'' = rest s"
proof -
  obtain s' where s': "push x s = Some s'" "ok s'" "stk s' = x # stk s" "room s' = room s - 1" "rest s' = rest s"
    using push_law [OF assms] by blast
  then obtain s'' where "pop s' = Some (x, s'')" "ok s''" "stk s'' = stk s" "room s'' = Suc (room s')" "rest s'' = rest s'"
    using pop_law by blast
  then show thesis
    using that s' assms(2) by simp
qed

lemma unary:
  assumes "ok s" "stk s = x # xs"
  shows "\<exists>s'. do { (x, s) \<leftarrow> pop s; push (g x) s } = Some s' \<and> ok s' \<and> stk s' = g x # xs \<and>
    room s' = room s \<and> rest s' = rest s"
proof -
  obtain t where t: "pop s = Some (x, t)" "ok t" "stk t = xs" "room t = Suc (room s)" "rest t = rest s"
    using pop_law [OF assms] by blast
  then show ?thesis
    using push_law [of t "g x"] by auto
qed

lemma binary:
  assumes "ok s" "stk s = x # y # xs"
  shows "\<exists>s'. do { (x, s) \<leftarrow> pop s; (y, s) \<leftarrow> pop s; push (g x y) s } = Some s' \<and> ok s' \<and> stk s' = g x y # xs \<and>
    room s' = Suc (room s) \<and> rest s' = rest s"
proof -
  obtain t where t: "pop s = Some (x, t)" "ok t" "stk t = y # xs" "room t = Suc (room s)" "rest t = rest s"
    using pop_law [OF assms] by blast
  obtain u where u: "pop t = Some (y, u)" "ok u" "stk u = xs" "room u = Suc (room t)" "rest u = rest t"
    using pop_law [OF t(2,3)] by blast
  show ?thesis
    using push_law [of u "g x y"] t u by auto
qed

end

section \<open>The integer stack\<close>

definition int_ok :: "vm_cpu \<Rightarrow> bool" where
  "int_ok c = (unat (c_esp c) < length (m_intdata (c_memory c)) \<and> length (m_intdata (c_memory c)) \<le> 2 ^ 32)"

definition int_stack :: "vm_cpu \<Rightarrow> u64 list" where
  "int_stack c = rev (map ((!) (m_intdata (c_memory c))) [1..<Suc (unat (c_esp c))])"

definition int_room :: "vm_cpu \<Rightarrow> nat" where
  "int_room c = length (m_intdata (c_memory c)) - 1 - unat (c_esp c)"

text \<open>Everything but the pointer and the cells above the lowest one.\<close>

definition int_rest :: "vm_cpu \<Rightarrow> vm_cpu \<times> nat" where
  "int_rest c =
     (let m = c_memory c in
      (c\<lparr>c_esp := 0, c_memory := m\<lparr>m_intdata := take 1 (m_intdata m)\<rparr>\<rparr>, length (m_intdata m)))"

lemma length_int_stack [simp]: "length (int_stack c) = unat (c_esp c)"
  by (simp add: int_stack_def)

lemma pushi_law:
  assumes "int_ok c" "0 < int_room c"
  shows "\<exists>c'. CPU_pushi x c = Some c' \<and> int_ok c' \<and> int_stack c' = x # int_stack c \<and>
    int_room c' = int_room c - 1 \<and> int_rest c' = int_rest c"
proof -
  have esp: "unat (c_esp c + 1) = Suc (unat (c_esp c))"
    using assms by (simp add: int_ok_def unat_plus_if_lt)
  have upd: "map ((!) ((m_intdata (c_memory c))[Suc (unat (c_esp c)) := x])) [1..<Suc (unat (c_esp c))] =
      map ((!) (m_intdata (c_memory c))) [1..<Suc (unat (c_esp c))]"
    by (rule map_cong) auto
  show ?thesis
    using assms upd
    by (auto simp: CPU_pushi_def store_int_def Let_def esp int_ok_def int_stack_def int_room_def int_rest_def)
qed

lemma popi_law:
  assumes "int_ok c" "int_stack c = x # xs"
  shows "\<exists>c'. CPU_popi c = Some (x, c') \<and> int_ok c' \<and> int_stack c' = xs \<and>
    int_room c' = Suc (int_room c) \<and> int_rest c' = int_rest c"
proof -
  have pos: "0 < unat (c_esp c)"
    using assms(2) length_int_stack [of c] by simp
  then have esp: "unat (c_esp c - 1) = unat (c_esp c) - 1"
    by (simp add: unat_minus_le)
  have "[1..<Suc (unat (c_esp c))] = [1..<unat (c_esp c)] @ [unat (c_esp c)]"
    using pos by simp
  then have "x = m_intdata (c_memory c) ! unat (c_esp c)" "xs = rev (map ((!) (m_intdata (c_memory c))) [1..<unat (c_esp c)])"
    using assms(2) by (auto simp: int_stack_def)
  then show ?thesis
    using assms pos
    by (auto simp: CPU_popi_def load_int_def Let_def esp int_ok_def int_stack_def int_room_def int_rest_def simp del: upt_Suc)
qed

interpretation ints: vm_stack int_ok CPU_pushi CPU_popi int_stack int_room int_rest
  using pushi_law popi_law by unfold_locales

section \<open>Arithmetic\<close>

text \<open>The instructions that only work on the integer stack, by their numbers; \<open>a\<close> is on top.\<close>

definition alu_binary :: "(u16 \<times> (u64 \<Rightarrow> u64 \<Rightarrow> u64)) list" where
  "alu_binary =
     [(CPU_Ins_and, \<lambda>a b. a AND b), (CPU_Ins_or, \<lambda>a b. a OR b), (CPU_Ins_xor, \<lambda>a b. a XOR b),
      (CPU_Ins_addi, \<lambda>a b. a + b), (CPU_Ins_subi, \<lambda>a b. b - a), (CPU_Ins_muli, \<lambda>a b. a * b),
      (CPU_Ins_gti, \<lambda>a b. of_bool (b > a)), (CPU_Ins_gtei, \<lambda>a b. of_bool (b \<ge> a)),
      (CPU_Ins_lti, \<lambda>a b. of_bool (b < a)), (CPU_Ins_ltei, \<lambda>a b. of_bool (b \<le> a)),
      (CPU_Ins_eqi, \<lambda>a b. of_bool (b = a)), (CPU_Ins_neqi, \<lambda>a b. of_bool (b \<noteq> a))]"

definition alu_unary :: "(u16 \<times> (u64 \<Rightarrow> u64)) list" where
  "alu_unary =
     [(CPU_Ins_not, \<lambda>a. NOT a), (CPU_Ins_negi, \<lambda>a. - a), (CPU_Ins_inci, \<lambda>a. a + 1), (CPU_Ins_deci, \<lambda>a. a - 1)]"

definition alu :: "u16 \<Rightarrow> u64 list \<Rightarrow> u64 list option" where
  "alu n st =
     (case (map_of alu_binary n, map_of alu_unary n, st) of
        (Some op, _, a # b # st) \<Rightarrow> Some (op a b # st)
      | (None, Some op, a # st) \<Rightarrow> Some (op a # st)
      | _ \<Rightarrow> None)"

text \<open>An instruction of the two tables is the operation of its table between pops and a push.\<close>

lemmas ins_alu = ins_and_def ins_or_def ins_xor_def ins_not_def ins_addi_def ins_subi_def ins_muli_def
  ins_negi_def ins_inci_def ins_deci_def ins_gti_def ins_gtei_def ins_lti_def ins_ltei_def ins_eqi_def ins_neqi_def

lemma exec_binary:
  assumes "map_of alu_binary (i_ID ii) = Some op"
  shows "CPU_executeInstruction f ii = binary_i op"
proof
  fix c
  have "i_ID ii \<in> set (map fst alu_binary)"
    using map_of_SomeD [OF assms] by force
  then show "CPU_executeInstruction f ii c = binary_i op c"
    unfolding dispatch_table using assms
    by (auto simp: alu_binary_def instruction_table_def ins_alu)
qed

lemma exec_unary:
  assumes "map_of alu_unary (i_ID ii) = Some op"
  shows "CPU_executeInstruction f ii = unary_i op"
proof
  fix c
  have "i_ID ii \<in> set (map fst alu_unary)"
    using map_of_SomeD [OF assms] by force
  then show "CPU_executeInstruction f ii c = unary_i op c"
    unfolding dispatch_table using assms
    by (auto simp: alu_unary_def instruction_table_def ins_alu)
qed

lemma alu_exec:
  assumes "alu (i_ID ii) (int_stack c) = Some st" "int_ok c"
  shows "\<exists>c'. CPU_executeInstruction f ii c = Some c' \<and> int_ok c' \<and> int_stack c' = st \<and> int_rest c' = int_rest c"
  using assms ints.binary [of c] ints.unary [of c]
  by (auto simp: alu_def exec_binary exec_unary binary_i_def unary_i_def split: option.splits list.splits) (metis (lifting))+

section \<open>Typable programs\<close>

text \<open>
  The type of a program gives each instruction the number of integers on the stack.  Typable are
  the instructions whose effect does not depend on the values: arithmetic but for shifts and
  division, moves between the stack and the registers other than \<open>esp\<close> and \<open>eip\<close>, jumps to
  constant targets, \<open>nop\<close>, \<open>hlt\<close>, \<open>cli\<close>, \<open>sei\<close>, \<open>randi\<close> and \<open>rdtsc\<close>.
\<close>

definition pointer_registers :: "u64 list" where
  "pointer_registers = [CPU_Reg_esp, CPU_Reg_sp, CPU_Reg_eip, CPU_Reg_ip]"

definition instr_effect :: "instruction_info \<Rightarrow> (nat \<times> nat) option" where
  "instr_effect ii =
     (let n = i_ID ii in
      if n \<in> set [CPU_Ins_nop, CPU_Ins_hlt, CPU_Ins_cli, CPU_Ins_sei] then Some (0, 0)
      else if n \<in> set [CPU_Ins_randi, CPU_Ins_rdtsc] then Some (0, 1)
      else if n = CPU_Ins_pushi then (if i_pi ii = [] then None else Some (0, 1))
      else if n = CPU_Ins_popi then
        (if i_pi ii \<noteq> [] \<and> p_value (hd (i_pi ii)) \<in> set pointer_registers then None else Some (1, 0))
      else if n \<in> fst ` set alu_binary then Some (2, 1)
      else if n \<in> fst ` set alu_unary then Some (1, 1)
      else if i_pi ii = [] \<or> p_type (hd (i_pi ii)) \<noteq> Param_Int then None
      else if n = CPU_Ins_jmp then Some (0, 0)
      else if n \<in> set [CPU_Ins_jt, CPU_Ins_jf] then Some (1, 0)
      else None)"

definition jump_targets :: "instruction_info \<Rightarrow> nat list" where
  "jump_targets ii =
     (if i_ID ii \<in> set [CPU_Ins_jmp, CPU_Ins_jt, CPU_Ins_jf] then [unat (p_value (hd (i_pi ii)))] else [])"

definition falls_through :: "instruction_info \<Rightarrow> bool" where
  "falls_through ii = (i_ID ii \<notin> set [CPU_Ins_hlt, CPU_Ins_jmp])"

definition typed_at :: "nat \<Rightarrow> instruction_info option list \<Rightarrow> nat list \<Rightarrow> nat \<Rightarrow> bool" where
  "typed_at cap prog D pc =
     (case prog ! pc of
        None \<Rightarrow> False
      | Some ii \<Rightarrow>
          (case instr_effect ii of
             None \<Rightarrow> False
           | Some (k, m) \<Rightarrow>
               i_pcount ii < 128 \<and> unat (i_pcount ii) \<le> length (i_pi ii) \<and>
               k \<le> D ! pc \<and> D ! pc - k + m \<le> cap \<and>
               list_all (\<lambda>pc'. pc' < length prog \<and> D ! pc' = D ! pc - k + m)
                 (jump_targets ii @ (if falls_through ii then [Suc pc] else []))))"

definition typed :: "nat \<Rightarrow> instruction_info option list \<Rightarrow> nat list \<Rightarrow> bool" where
  "typed cap prog D = list_all (typed_at cap prog D) [0..<length prog]"

text \<open>The state of a machine that runs a typed program.\<close>

definition well_typed :: "nat \<Rightarrow> instruction_info option list \<Rightarrow> nat list \<Rightarrow> vm_cpu \<Rightarrow> bool" where
  "well_typed cap prog D c =
     (m_program (c_memory c) = Some prog \<and> length prog < 2 ^ 32 \<and>
      cap < length (m_intdata (c_memory c)) \<and> length (m_intdata (c_memory c)) \<le> 2 ^ 32 \<and> unat (c_esp c) \<le> cap \<and>
      (c_isRunning c \<noteq> 0 \<longrightarrow> unat (c_eip c) < length prog \<and> unat (c_esp c) = D ! unat (c_eip c)))"

subsection \<open>What one instruction does\<close>

text \<open>What the type says of an instruction from a state in which \<open>eip\<close> already points behind it.\<close>

definition shape :: "vm_cpu \<Rightarrow> instruction_info option list option \<times> nat" where
  "shape c = (m_program (c_memory c), length (m_intdata (c_memory c)))"

lemma set_int_keeps:
  "shape (CPU_setIntRegisterValue c n x) = shape c \<and>
   c_isRunning (CPU_setIntRegisterValue c n x) = c_isRunning c"
proof (cases "n < 34")
  case True
  then show ?thesis
    by (rule register_cases) (simp_all add: shape_def CPU_setIntRegisterValue_def set_int_low_def set_int_high_def)
next
  case False
  then show ?thesis
    by (auto simp: CPU_setIntRegisterValue_def not_less)
qed

lemma set_int_pointers:
  assumes "n \<notin> set pointer_registers"
  shows "c_esp (CPU_setIntRegisterValue c n x) = c_esp c \<and> c_eip (CPU_setIntRegisterValue c n x) = c_eip c"
proof (cases "n < 34")
  case True
  show ?thesis
    by (rule register_cases [OF True])
      (use assms in \<open>simp_all add: pointer_registers_def CPU_setIntRegisterValue_def set_int_low_def set_int_high_def\<close>)
next
  case False
  then show ?thesis
    by (auto simp: CPU_setIntRegisterValue_def not_less)
qed

definition goes :: "instruction_info \<Rightarrow> nat \<Rightarrow> vm_cpu \<Rightarrow> vm_cpu \<Rightarrow> bool" where
  "goes ii d c c' =
     (int_ok c' \<and> unat (c_esp c') = d \<and> shape c' = shape c \<and>
      (c_isRunning c' \<noteq> 0 \<longrightarrow>
         c_isRunning c \<noteq> 0 \<and>
         (falls_through ii \<and> c_eip c' = c_eip c \<or> unat (c_eip c') \<in> set (jump_targets ii))))"

lemma int_rest_keeps:
  assumes "int_rest c' = int_rest c"
  shows "shape c' = shape c" "c_eip c' = c_eip c" "c_isRunning c' = c_isRunning c"
  using assms
  by (auto simp: int_rest_def shape_def Let_def dest: arg_cong [where f = c_eip] arg_cong [where f = c_isRunning]
      arg_cong [where f = "\<lambda>c. m_program (c_memory c)"])

lemma goes_rest:
  assumes "int_ok c'" "length (int_stack c') = d" "int_rest c' = int_rest c" "falls_through ii"
  shows "goes ii d c c'"
  using assms int_rest_keeps [OF assms(3)] by (simp add: goes_def)

lemma stack_cases:
  assumes "k \<le> unat (c_esp c)"
  obtains st where "length st = unat (c_esp c) - k" "int_stack c = take k (int_stack c) @ st"
  using that [of "drop k (int_stack c)"] assms by simp

lemma exec_alu_goes:
  assumes "alu (i_ID ii) (int_stack c) = Some st" "int_ok c" "falls_through ii"
  shows "\<exists>c'. CPU_executeInstruction f ii c = Some c' \<and> goes ii (length st) c c'"
  using alu_exec [OF assms(1,2)] goes_rest [OF _ _ _ assms(3)] by blast

lemma exec_push_goes:
  assumes "int_ok c" "Suc (unat (c_esp c)) < length (m_intdata (c_memory c))" "falls_through ii"
  shows "\<exists>c'. CPU_pushi x c = Some c' \<and> goes ii (Suc (unat (c_esp c))) c c'"
proof -
  have "0 < int_room c"
    using assms(2) by (simp add: int_room_def)
  then obtain c' where "CPU_pushi x c = Some c'" "int_ok c'" "int_stack c' = x # int_stack c" "int_rest c' = int_rest c"
    using pushi_law [OF assms(1), of x] by blast
  moreover from this have "goes ii (Suc (unat (c_esp c))) c c'"
    by (intro goes_rest assms(3)) simp_all
  ultimately show ?thesis
    by blast
qed

lemma alu_falls_through:
  "i_ID ii \<in> fst ` set alu_binary \<Longrightarrow> falls_through ii" "i_ID ii \<in> fst ` set alu_unary \<Longrightarrow> falls_through ii"
  by (auto simp: alu_binary_def alu_unary_def falls_through_def)

lemma exec_pop_goes:
  assumes "int_ok c" "0 < unat (c_esp c)"
  obtains x c' where "CPU_popi c = Some (x, c')" "int_ok c'" "unat (c_esp c') = unat (c_esp c) - 1"
    "shape c' = shape c" "c_eip c' = c_eip c" "c_isRunning c' = c_isRunning c"
proof -
  obtain x xs where xs: "int_stack c = x # xs"
    using assms(2) length_int_stack [of c] by (cases "int_stack c") auto
  obtain c' where c': "CPU_popi c = Some (x, c')" "int_ok c'" "int_stack c' = xs" "int_rest c' = int_rest c"
    using popi_law [OF assms(1) xs] by blast
  have "unat (c_esp c') = unat (c_esp c) - 1"
    using length_int_stack [of c] length_int_stack [of c'] xs c'(3) by simp
  then show thesis
    using that c' int_rest_keeps [OF c'(4)] by simp
qed

text \<open>A typed instruction does not go wrong.\<close>

lemma exec_goes:
  assumes "instr_effect ii = Some (k, m)" "int_ok c" "k \<le> unat (c_esp c)"
    "unat (c_esp c) - k + m < length (m_intdata (c_memory c))"
  shows "\<exists>c'. CPU_executeInstruction f ii c = Some c' \<and> goes ii (unat (c_esp c) - k + m) c c'"
proof -
  note exec = dispatch_table instruction_table_def
  consider
      (plain) "k = 0" "m = 0" "i_ID ii \<in> set [CPU_Ins_nop, CPU_Ins_hlt, CPU_Ins_cli, CPU_Ins_sei]"
    | (push) "k = 0" "m = 1" "i_ID ii \<in> set [CPU_Ins_randi, CPU_Ins_rdtsc] \<or> i_ID ii = CPU_Ins_pushi \<and> i_pi ii \<noteq> []"
    | (pop) "k = 1" "m = 0" "i_ID ii = CPU_Ins_popi"
        "i_pi ii = [] \<or> p_value (hd (i_pi ii)) \<notin> set pointer_registers"
    | (binary) "k = 2" "m = 1" "i_ID ii \<in> fst ` set alu_binary"
    | (unary) "k = 1" "m = 1" "i_ID ii \<in> fst ` set alu_unary"
    | (jmp) "k = 0" "m = 0" "i_ID ii = CPU_Ins_jmp" "i_pi ii \<noteq> []" "p_type (hd (i_pi ii)) = Param_Int"
    | (branch) "k = 1" "m = 0" "i_ID ii \<in> set [CPU_Ins_jt, CPU_Ins_jf]" "i_pi ii \<noteq> []" "p_type (hd (i_pi ii)) = Param_Int"
    using assms(1) unfolding instr_effect_def Let_def
    by (auto simp only: option.inject option.distinct prod.inject simp_thms list.set insert_iff empty_iff split: if_split_asm)
  then show ?thesis
  proof cases
    case plain
    then show ?thesis
      using assms(2) by (auto simp: exec ins_nop_def ins_hlt_def ins_cli_def ins_sei_def CPU_halt_def goes_def
          falls_through_def shape_def int_ok_def)
  next
    case push
    have "\<exists>x. CPU_executeInstruction f ii c = CPU_pushi x c" "falls_through ii"
      using push(3) by (auto simp: exec ins_randi_def ins_rdtsc_def ins_pushi_def param0_def falls_through_def
          split: list.split)
    moreover have "unat (c_esp c) - k + m = Suc (unat (c_esp c))"
      using push(1,2) by simp
    ultimately show ?thesis
      using exec_push_goes [OF assms(2)] assms(4) by metis
  next
    case pop
    obtain x c' where "CPU_popi c = Some (x, c')" "int_ok c'" "unat (c_esp c') = unat (c_esp c) - 1"
      "shape c' = shape c" "c_eip c' = c_eip c" "c_isRunning c' = c_isRunning c"
      using assms(3) pop(1) by (auto intro: exec_pop_goes [OF assms(2)])
    then show ?thesis
      using pop set_int_keeps [of c' "p_value (hd (i_pi ii))" x] set_int_pointers [of "p_value (hd (i_pi ii))" c' x]
      by (auto simp: exec ins_popi_def goes_def falls_through_def shape_def int_ok_def split: list.split)
  next
    case binary
    then obtain op where "map_of alu_binary (i_ID ii) = Some op"
      by (metis domD dom_map_of_conv_image_fst)
    moreover obtain a b st where st: "int_stack c = a # b # st"
      using length_int_stack [of c] assms(3) binary(1) by (cases "int_stack c"; cases "tl (int_stack c)") auto
    ultimately have "alu (i_ID ii) (int_stack c) = Some (op a b # st)"
      by (simp add: alu_def)
    moreover have "length (op a b # st) = unat (c_esp c) - k + m"
      using length_int_stack [of c] binary(1,2) st by simp
    ultimately show ?thesis
      using exec_alu_goes [OF _ assms(2) alu_falls_through(1) [OF binary(3)]] by metis
  next
    case unary
    then obtain op where "map_of alu_unary (i_ID ii) = Some op"
      by (metis domD dom_map_of_conv_image_fst)
    moreover have "map_of alu_binary (i_ID ii) = None"
      using unary(3) by (auto simp: alu_unary_def alu_binary_def)
    moreover obtain a st where st: "int_stack c = a # st"
      using length_int_stack [of c] assms(3) unary(1) by (cases "int_stack c") auto
    ultimately have "alu (i_ID ii) (int_stack c) = Some (op a # st)"
      by (simp add: alu_def)
    moreover have "length (op a # st) = unat (c_esp c) - k + m"
      using length_int_stack [of c] unary(1,2) st by simp
    ultimately show ?thesis
      using exec_alu_goes [OF _ assms(2) alu_falls_through(2) [OF unary(3)]] by metis
  next
    case jmp
    then show ?thesis
      using assms(2)
      by (auto simp: exec ins_jmp_def param0_def goes_def jump_targets_def CPU_getIntValue_def shape_def int_ok_def split: list.split)
  next
    case branch
    obtain x c' where "CPU_popi c = Some (x, c')" "int_ok c'" "unat (c_esp c') = unat (c_esp c) - 1"
      "shape c' = shape c" "c_eip c' = c_eip c" "c_isRunning c' = c_isRunning c"
      using assms(3) branch(1) by (auto intro: exec_pop_goes [OF assms(2)])
    then show ?thesis
      using branch
      by (auto simp: exec ins_jt_def ins_jf_def param0_def goes_def jump_targets_def falls_through_def CPU_getIntValue_def
          shape_def int_ok_def split: list.split)
  qed
qed

end
