(* ===== verification/Wdvm_Load.thy ===== *)
theory Wdvm_Load
  imports Wdvm
begin

text \<open>
  How a WDVM program is read from its file: \<^verbatim>\<open>BinaryHelper.c\<close>, \<^verbatim>\<open>ParameterInfo.c\<close>,
  \<^verbatim>\<open>InstructionInfo.c\<close>, \<open>Machine_load0\<close>, \<open>Machine_load1\<close> and \<open>main\<close>.  A file is the bytes
  that are left of it; the free memory is the results of the coming calls of \<open>malloc\<close>, of which
  an exhausted list means that there is no more.  \<open>junk\<close> and \<open>raw\<close> are what local variables hold
  before they are written.
\<close>

section \<open>\<open>BinaryHelper.c\<close>\<close>

text \<open>\<open>ILReadFile\<close> reads as much as there is, from the start of the buffer.\<close>

definition ILReadFile :: "nat \<Rightarrow> u8 list \<Rightarrow> u8 list \<Rightarrow> nat \<times> u8 list \<times> u8 list" where
  "ILReadFile n buf fd = (let d = take n fd in (length d, d @ drop (length d) buf, drop n fd))"

text \<open>
  The loop counts bytes but waits for \<open>count\<close> blocks, which is one for every caller: it is content
  with a short read, and at the end of the file it does not end.
\<close>

partial_function (option) saferead_loop :: "nat \<Rightarrow> nat \<Rightarrow> nat \<Rightarrow> u8 list \<Rightarrow> u8 list \<Rightarrow> (u8 list \<times> u8 list) option" where
  "saferead_loop requ n done buf fd =
     (let (r, buf, fd) = ILReadFile n buf fd; done = done + r
      in if done < requ then saferead_loop requ n done buf fd else Some (buf, fd))"

definition bh_saferead :: "u8 list \<Rightarrow> nat \<Rightarrow> nat \<Rightarrow> u8 list \<Rightarrow> (u8 list \<times> u8 list) option" where
  "bh_saferead buf block n fd = saferead_loop n (block * n) 0 buf fd"

definition bh_readbyte :: "(nat \<Rightarrow> u8) \<Rightarrow> u8 list \<Rightarrow> (u8 \<times> u8 list) option" where
  "bh_readbyte junk fd = do { (buf, fd) \<leftarrow> bh_saferead (map junk [0..<1]) 1 1 fd; Some (buf ! 0, fd) }"

definition bh_readuint16 :: "(nat \<Rightarrow> u8) \<Rightarrow> u8 list \<Rightarrow> (u16 \<times> u8 list) option" where
  "bh_readuint16 junk fd = do {
     (buf, fd) \<leftarrow> bh_saferead (map junk [0..<2]) 2 1 fd;
     Some (ucast (buf ! 0) OR push_bit 8 (ucast (buf ! 1)), fd) }"

definition bh_readint32 :: "(nat \<Rightarrow> u8) \<Rightarrow> u8 list \<Rightarrow> (u32 \<times> u8 list) option" where
  "bh_readint32 junk fd = do {
     (buf, fd) \<leftarrow> bh_saferead (map junk [0..<4]) 4 1 fd;
     Some (ucast (buf ! 0) OR push_bit 8 (ucast (buf ! 1)) OR push_bit 16 (ucast (buf ! 2)) OR
           push_bit 24 (ucast (buf ! 3)), fd) }"

definition bh_readint64 :: "(nat \<Rightarrow> u8) \<Rightarrow> u8 list \<Rightarrow> (u64 \<times> u8 list) option" where
  "bh_readint64 junk fd = do {
     (buf, fd) \<leftarrow> bh_saferead (map junk [0..<8]) 8 1 fd;
     Some (ucast (buf ! 0) OR push_bit 8 (ucast (buf ! 1)) OR push_bit 16 (ucast (buf ! 2)) OR
           push_bit 24 (ucast (buf ! 3)) OR push_bit 32 (ucast (buf ! 4)) OR push_bit 40 (ucast (buf ! 5)) OR
           push_bit 48 (ucast (buf ! 6)) OR push_bit 56 (ucast (buf ! 7)), fd) }"

text \<open>A double is its bits.\<close>

definition bh_readdouble :: "(nat \<Rightarrow> u8) \<Rightarrow> u8 list \<Rightarrow> (u64 \<times> u8 list) option" where
  "bh_readdouble junk fd = bh_readint64 junk fd"

section \<open>\<open>ParameterInfo.c\<close> and \<open>InstructionInfo.c\<close>\<close>

text \<open>Only one of the two values is read; the other one is what the local variable held.\<close>

definition ParameterInfo_Read ::
  "(nat \<Rightarrow> u8) \<Rightarrow> parameter_info \<Rightarrow> u8 list \<Rightarrow> (parameter_info \<times> u8 list) option" where
  "ParameterInfo_Read junk raw fd = do {
     (typ, fd) \<leftarrow> bh_readbyte junk fd;
     let pi = raw\<lparr>p_type := ucast typ\<rparr>;
     if p_type pi = Param_Float
     then do { (v, fd) \<leftarrow> bh_readdouble junk fd; Some (pi\<lparr>p_value_float := v\<rparr>, fd) }
     else do { (v, fd) \<leftarrow> bh_readint64 junk fd; Some (pi\<lparr>p_value := v\<rparr>, fd) } }"

type_synonym heap = "bool list"

definition vm_malloc :: "heap \<Rightarrow> bool \<times> heap" where
  "vm_malloc h = (case h of [] \<Rightarrow> (False, []) | ok # h \<Rightarrow> (ok, h))"

text \<open>
  The loop over the parameters.  \<open>memcpy\<close> to NULL is \<^const>\<open>None\<close>; without a node or without a list
  (\<open>ok\<close> is false) the parameter is lost.
\<close>

fun read_params ::
  "(nat \<Rightarrow> u8) \<Rightarrow> parameter_info \<Rightarrow> bool \<Rightarrow> nat \<Rightarrow> parameter_info list \<Rightarrow> heap \<Rightarrow> u8 list \<Rightarrow>
     (parameter_info list \<times> heap \<times> u8 list) option" where
  "read_params junk raw ok 0 pis h fd = Some (pis, h, fd)"
| "read_params junk raw ok (Suc n) pis h fd = do {
     (pi, fd) \<leftarrow> ParameterInfo_Read junk raw fd;
     (case vm_malloc h of
        (False, h) \<Rightarrow> None
      | (True, h) \<Rightarrow>
          (let (node, h) = vm_malloc h
           in read_params junk raw ok n (if ok \<and> node then pis @ [pi] else pis) h fd)) }"

text \<open>\<open>InstructionInfo_New\<close>: whether there is an instruction, whether it has a list.\<close>

definition InstructionInfo_New :: "heap \<Rightarrow> (bool \<times> bool) \<times> heap" where
  "InstructionInfo_New h =
     (case vm_malloc h of
        (False, h) \<Rightarrow> ((False, False), h)
      | (True, h) \<Rightarrow> (let (ok, h) = vm_malloc h in ((True, ok), h)))"

text \<open>\<open>pcount\<close> is a \<open>char\<close>: from 128 on it is negative, and no parameter is read.\<close>

definition InstructionInfo_Read ::
  "(nat \<Rightarrow> u8) \<Rightarrow> parameter_info \<Rightarrow> heap \<Rightarrow> u8 list \<Rightarrow> (instruction_info \<times> heap \<times> u8 list) option" where
  "InstructionInfo_Read junk raw h fd =
     (case InstructionInfo_New h of
        ((False, _), h) \<Rightarrow> None
      | ((True, ok), h) \<Rightarrow> do {
          (n, fd) \<leftarrow> bh_readuint16 junk fd;
          (pcount, fd) \<leftarrow> bh_readbyte junk fd;
          (pis, h, fd) \<leftarrow> read_params junk raw ok (nat (sint pcount)) [] h fd;
          Some (\<lparr>i_ID = n, i_pcount = pcount, i_pi = pis\<rparr>, h, fd) })"

section \<open>\<open>Machine.c\<close>\<close>

text \<open>The pointers are stored one by one: a store behind the array is \<^const>\<open>None\<close>.\<close>

fun load_loop ::
  "(nat \<Rightarrow> u8) \<Rightarrow> parameter_info \<Rightarrow> nat \<Rightarrow> nat \<Rightarrow> instruction_info option list \<Rightarrow> heap \<Rightarrow> u8 list \<Rightarrow>
     (instruction_info option list \<times> heap \<times> u8 list) option" where
  "load_loop junk raw 0 i prog h fd = Some (prog, h, fd)"
| "load_loop junk raw (Suc n) i prog h fd = do {
     (ii, h, fd) \<leftarrow> InstructionInfo_Read junk raw h fd;
     if i < length prog then load_loop junk raw n (Suc i) (prog[i := Some ii]) h fd else None }"

text \<open>\<^const>\<open>Inl\<close> stands for \<open>app_exit\<close>.\<close>

definition Machine_load0 ::
  "(nat \<Rightarrow> u8) \<Rightarrow> parameter_info \<Rightarrow> (nat \<Rightarrow> instruction_info option) \<Rightarrow> vm_memory \<Rightarrow> heap \<Rightarrow> u8 list \<Rightarrow>
     (unit + vm_memory \<times> heap \<times> u8 list) option" where
  "Machine_load0 junk raw ptrs m h fd = do {
     (icount, fd) \<leftarrow> bh_readint32 junk fd;
     (case vm_malloc h of (ok, h) \<Rightarrow>
       (case Memory_AllocProgramSpace ok ptrs icount m of
          (False, m) \<Rightarrow> Some (Inl ())
        | (True, m) \<Rightarrow> do {
            prog \<leftarrow> m_program m;
            (prog, h, fd) \<leftarrow> load_loop junk raw (nat (sint icount)) 0 prog h fd;
            Some (Inr (m\<lparr>m_program := Some prog\<rparr>, h, fd)) })) }"

definition Machine_load1 ::
  "(nat \<Rightarrow> u8) \<Rightarrow> parameter_info \<Rightarrow> (nat \<Rightarrow> instruction_info option) \<Rightarrow> u8 list option \<Rightarrow> vm_machine \<Rightarrow> heap \<Rightarrow>
     (unit + (bool \<times> vm_machine)) option" where
  "Machine_load1 junk raw ptrs file machine h =
     (case file of
        None \<Rightarrow> Some (Inr (False, machine))
      | Some fd \<Rightarrow> do {
          res \<leftarrow> Machine_load0 junk raw ptrs (c_memory (snd machine)) h fd;
          Some (case res of
                  Inl u \<Rightarrow> Inl u
                | Inr (m, h, fd) \<Rightarrow> Inr (True, (fst machine, (snd machine)\<lparr>c_memory := m\<rparr>))) })"

text \<open>
  \<open>main\<close> behind the test of the arguments and \<open>Machine_New1(2 * 1024)\<close>: \<^const>\<open>Inl\<close> is the value
  returned without a run.
\<close>

definition wdvm_main ::
  "fpu \<Rightarrow> (nat \<Rightarrow> u8) \<Rightarrow> parameter_info \<Rightarrow> (nat \<Rightarrow> instruction_info option) \<Rightarrow> u8 list option \<Rightarrow>
     vm_machine option \<Rightarrow> heap \<Rightarrow> (int + vm_machine) option" where
  "wdvm_main f junk raw ptrs file machine h =
     (case machine of
        None \<Rightarrow> Some (Inl (-1))
      | Some machine \<Rightarrow> do {
          res \<leftarrow> Machine_load1 junk raw ptrs file machine h;
          (case res of
             Inl _ \<Rightarrow> Some (Inl 0)
           | Inr (False, machine) \<Rightarrow> Some (Inl (-1))
           | Inr (True, running, c) \<Rightarrow> do {
               c \<leftarrow> CPU_AddInterrupt 5 (Some On_Interrupt) c;
               c \<leftarrow> CPU_AddInterrupt 9 (Some On_Interrupt) c;
               c \<leftarrow> CPU_AddInterrupt 13 (Some On_Interrupt) c;
               machine \<leftarrow> Machine_run f (running, c);
               Some (Inr machine) }) })"

section \<open>The format of the file\<close>

text \<open>What \<open>InstructionInfo_Read\<close> reads, written down: the format as functions on programs.\<close>

definition le_bytes :: "nat \<Rightarrow> 'a::len word \<Rightarrow> u8 list" where
  "le_bytes n w = map (\<lambda>i. ucast (drop_bit (8 * i) w)) [0..<n]"

definition param_bytes :: "parameter_info \<Rightarrow> u8 list" where
  "param_bytes pi =
     ucast (p_type pi) # le_bytes 8 (if p_type pi = Param_Float then p_value_float pi else p_value pi)"

definition instr_bytes :: "instruction_info \<Rightarrow> u8 list" where
  "instr_bytes ii = le_bytes 2 (i_ID ii) @ [i_pcount ii] @ concat (map param_bytes (i_pi ii))"

definition program_bytes :: "instruction_info list \<Rightarrow> u8 list" where
  "program_bytes prog = le_bytes 4 (word_of_nat (length prog) :: u32) @ concat (map instr_bytes prog)"

text \<open>Instructions that the format can hold, and how they come back.\<close>

definition param_fits :: "parameter_info \<Rightarrow> bool" where "param_fits pi = (p_type pi < 256)"

definition instr_fits :: "instruction_info \<Rightarrow> bool" where
  "instr_fits ii = (unat (i_pcount ii) = length (i_pi ii) \<and> length (i_pi ii) < 128 \<and> list_all param_fits (i_pi ii))"

definition read_back :: "parameter_info \<Rightarrow> parameter_info \<Rightarrow> parameter_info" where
  "read_back raw pi =
     (if p_type pi = Param_Float then pi\<lparr>p_value := p_value raw\<rparr> else pi\<lparr>p_value_float := p_value_float raw\<rparr>)"

definition instr_back :: "parameter_info \<Rightarrow> instruction_info \<Rightarrow> instruction_info" where
  "instr_back raw ii = ii\<lparr>i_pi := map (read_back raw) (i_pi ii)\<rparr>"

subsection \<open>Reading what was written\<close>

lemma saferead_enough:
  assumes "length d = n" "requ \<le> n"
  shows "saferead_loop requ n 0 buf (d @ fd) = Some (d @ drop n buf, fd)"
  using assms by (subst saferead_loop.simps) (simp add: ILReadFile_def)

lemma saferead_end: "saferead_loop requ n k buf [] = Some y \<Longrightarrow> k < requ \<Longrightarrow> False"
proof -
  have "k < requ \<longrightarrow> fd \<noteq> []" if "saferead_loop requ n k buf fd = Some y" for fd
    by (rule saferead_loop.raw_induct [where P = "\<lambda>requ n k buf fd y. k < requ \<longrightarrow> fd \<noteq> []", OF _ that])
      (clarsimp simp: ILReadFile_def Let_def split: if_split_asm; blast)
  then show "saferead_loop requ n k buf [] = Some y \<Longrightarrow> k < requ \<Longrightarrow> False"
    by blast
qed

lemma length_le_bytes [simp]: "length (le_bytes n w) = n"
  by (simp add: le_bytes_def)

lemma read_byte [simp]: "bh_readbyte junk (b # fd) = Some (b, fd)"
  using saferead_enough [of "[b]" 1 1 "map junk [0..<1]" fd] by (simp add: bh_readbyte_def bh_saferead_def)

lemma read_uint16 [simp]: "bh_readuint16 junk (le_bytes 2 w @ fd) = Some (w, fd)"
proof -
  have "ucast (ucast w :: u8) OR push_bit 8 (ucast (ucast (drop_bit 8 w) :: u8)) = w"
    by (simp add: first_byte next_byte take_bit_word_eq_self flip: or.assoc)
  then show ?thesis
    using saferead_enough [of "le_bytes 2 w" 2 1 "map junk [0..<2]" fd]
    by (simp add: bh_readuint16_def bh_saferead_def nth_append) (simp add: le_bytes_def)
qed

lemma read_int32 [simp]: "bh_readint32 junk (le_bytes 4 w @ fd) = Some (w, fd)"
proof -
  have "ucast (ucast w :: u8) OR push_bit 8 (ucast (ucast (drop_bit 8 w) :: u8)) OR push_bit 16 (ucast (ucast (drop_bit 16 w) :: u8)) OR push_bit 24 (ucast (ucast (drop_bit 24 w) :: u8)) = w"
    by (simp add: first_byte next_byte take_bit_word_eq_self flip: or.assoc)
  then show ?thesis
    using saferead_enough [of "le_bytes 4 w" 4 1 "map junk [0..<4]" fd]
    by (simp add: bh_readint32_def bh_saferead_def nth_append) (simp add: le_bytes_def)
qed

lemma read_int64 [simp]: "bh_readint64 junk (le_bytes 8 w @ fd) = Some (w, fd)"
proof -
  have "ucast (ucast w :: u8) OR push_bit 8 (ucast (ucast (drop_bit 8 w) :: u8)) OR push_bit 16 (ucast (ucast (drop_bit 16 w) :: u8)) OR push_bit 24 (ucast (ucast (drop_bit 24 w) :: u8)) OR push_bit 32 (ucast (ucast (drop_bit 32 w) :: u8)) OR push_bit 40 (ucast (ucast (drop_bit 40 w) :: u8)) OR push_bit 48 (ucast (ucast (drop_bit 48 w) :: u8)) OR push_bit 56 (ucast (ucast (drop_bit 56 w) :: u8)) = w"
    by (simp add: first_byte next_byte take_bit_word_eq_self flip: or.assoc)
  then show ?thesis
    using saferead_enough [of "le_bytes 8 w" 8 1 "map junk [0..<8]" fd]
    by (simp add: bh_readint64_def bh_saferead_def nth_append) (simp add: le_bytes_def)
qed

lemma read_param [simp]:
  assumes "param_fits pi"
  shows "ParameterInfo_Read junk raw (param_bytes pi @ fd) = Some (read_back raw pi, fd)"
proof -
  have "ucast (ucast (p_type pi) :: u8) = p_type pi"
    using assms by (simp add: first_byte param_fits_def word_unat_eq_iff unsigned_take_bit_eq take_bit_nat_eq_self word_less_nat_alt)
  then show ?thesis
    by (simp add: ParameterInfo_Read_def param_bytes_def bh_readdouble_def read_back_def)
qed

text \<open>Two calls of \<open>malloc\<close> for an instruction, two for a parameter.\<close>

lemma read_params_back:
  assumes "list_all param_fits pis"
  shows "read_params junk raw True (length pis) acc (replicate (2 * length pis) True @ h) (concat (map param_bytes pis) @ fd) =
    Some (acc @ map (read_back raw) pis, h, fd)"
  using assms by (induction pis arbitrary: acc) (auto simp: vm_malloc_def)

definition instr_mallocs :: "instruction_info \<Rightarrow> nat" where "instr_mallocs ii = 2 + 2 * length (i_pi ii)"

lemma read_instr [simp]:
  assumes "instr_fits ii"
  shows "InstructionInfo_Read junk raw (replicate (instr_mallocs ii) True @ h) (instr_bytes ii @ fd) =
    Some (instr_back raw ii, h, fd)"
proof -
  have "nat (sint (i_pcount ii)) = length (i_pi ii)"
    using assms by (simp add: instr_fits_def sint_small)
  then show ?thesis
    using assms read_params_back [of "i_pi ii" junk raw "[]" h fd]
    by (simp add: InstructionInfo_Read_def InstructionInfo_New_def instr_bytes_def instr_mallocs_def vm_malloc_def
        instr_fits_def instr_back_def)
qed

lemma load_loop_back:
  assumes "list_all instr_fits prog" "length prog \<le> length ptrs" "i = length done"
  shows "load_loop junk raw (length prog) i (done @ ptrs)
     (replicate (sum_list (map instr_mallocs prog)) True @ h) (concat (map instr_bytes prog) @ fd) =
    Some (done @ map (Some \<circ> instr_back raw) prog @ drop (length prog) ptrs, h, fd)"
  using assms
proof (induction prog arbitrary: i "done" ptrs)
  case (Cons ii prog)
  then obtain p ps where "ptrs = p # ps"
    by (cases ptrs) auto
  then show ?case
    using Cons.prems Cons.IH [of ps "Suc i" "done @ [Some (instr_back raw ii)]"]
    by (simp add: replicate_add)
qed simp

lemma load_loop_add:
  "load_loop junk raw (a + b) i prog h fd =
     do { (prog, h, fd) \<leftarrow> load_loop junk raw a i prog h fd; load_loop junk raw b (i + a) prog h fd }"
  by (induction a arbitrary: i prog h fd) (auto simp: bind_assoc case_prod_beta' intro!: Option.bind_cong)

lemma read_end: "bh_readuint16 junk [] = None"
  using saferead_end [of 1 2 0 "map junk [0..<2]"]
  by (cases "saferead_loop 1 2 0 (map junk [0..<2]) []") (auto simp: bh_readuint16_def bh_saferead_def)

lemma read_instr_end: "InstructionInfo_Read junk raw h [] = None"
  by (auto simp: InstructionInfo_Read_def read_end split: prod.split bool.split)

lemma load_loop_end: "load_loop junk raw (Suc n) i prog h [] = None"
  by (simp add: read_instr_end)

text \<open>The header of a file that announces \<open>n\<close> instructions.\<close>

lemma load0_header:
  assumes "n < 2 ^ 30"
  shows "Machine_load0 junk raw ptrs m (True # h) (le_bytes 4 (word_of_nat n :: u32) @ fd) =
    do { (prog, h, fd) \<leftarrow> load_loop junk raw n 0 (map ptrs [0..<n]) h fd;
         Some (Inr (m\<lparr>m_program := Some prog\<rparr>, h, fd)) }"
proof -
  have n: "unat (word_of_nat n :: u32) = n"
    using assms by (simp add: unat_of_nat take_bit_nat_eq_self)
  have "unat (4 * word_of_nat n :: u32) = 4 * n"
    using assms by (simp add: unat_word_ariths n take_bit_nat_eq_self)
  moreover have "nat (sint (word_of_nat n :: u32)) = n"
    using assms sint_small [of "word_of_nat n :: u32"] by (simp add: n)
  ultimately show ?thesis
    by (simp add: Machine_load0_def vm_malloc_def Memory_AllocProgramSpace_def)
qed

end
