(* ===== verification/Wdvm_Props.thy ===== *)
theory Wdvm_Props
  imports Wdvm_Stack Wdvm_Load
begin

text \<open>
  What the virtual machine keeps: typed programs never go wrong, the instructions are those of the
  table, what \<open>pushreg\<close> saves and \<open>popreg\<close> brings back, what \<open>pushf\<close> writes.
\<close>

section \<open>Runs of typed programs\<close>

lemma touch_params_ok: "n \<le> length pis \<Longrightarrow> touch_params ui n pis = Some ()"
  by (induction ui n pis rule: touch_params.induct) (subst touch_params.simps, auto)

lemma small_char:
  assumes "p < 128"
  shows "unat (scast (p :: u8) :: u32) = unat p"
proof -
  have "sint p = int (unat p)"
    using assms by (intro sint_small) (simp add: word_less_nat_alt)
  then show ?thesis
    using assms by (simp add: scast_eq flip: ucast_eq) (simp add: unsigned_ucast_eq take_bit_nat_eq_self word_less_nat_alt)
qed

lemma typed_goes:
  assumes "goes ii d (c\<lparr>c_eip := c_eip c + 1\<rparr>) c'" "m_program (c_memory c) = Some prog" "length prog < 2 ^ 32"
    "cap < length (m_intdata (c_memory c))" "d \<le> cap"
    "\<forall>pc' \<in> set (jump_targets ii). pc' < length prog \<and> D ! pc' = d"
    "falls_through ii \<longrightarrow> Suc pc < length prog \<and> D ! Suc pc = d" "unat (c_eip c + 1) = Suc pc"
  shows "well_typed cap prog D c'"
proof -
  have "m_program (c_memory c') = Some prog" "length (m_intdata (c_memory c')) = length (m_intdata (c_memory c))"
    "int_ok c'" "unat (c_esp c') = d"
    using assms(1,2) by (simp_all add: goes_def shape_def)
  moreover have "c_isRunning c' \<noteq> 0 \<longrightarrow> unat (c_eip c') < length prog \<and> D ! unat (c_eip c') = d"
    using assms(1,6,7,8) unfolding goes_def by auto
  ultimately show ?thesis
    using assms(3,4,5) by (auto simp: well_typed_def int_ok_def)
qed

lemma typed_tick:
  assumes "typed cap prog D" "well_typed cap prog D c"
  shows "\<exists>c'. CPU_ClockTick f c = Some c' \<and> well_typed cap prog D c'"
proof (cases "c_isRunning c = 0")
  case True
  then show ?thesis
    using assms(2) by (simp add: CPU_ClockTick_def)
next
  case False
  let ?pc = "unat (c_eip c)" and ?c = "c\<lparr>c_eip := c_eip c + 1\<rparr>"
  have pc: "m_program (c_memory c) = Some prog" "?pc < length prog" "unat (c_esp c) = D ! ?pc" "length prog < 2 ^ 32"
    and mem: "cap < length (m_intdata (c_memory c))" "length (m_intdata (c_memory c)) \<le> 2 ^ 32" "unat (c_esp c) \<le> cap"
    using assms(2) False by (auto simp: well_typed_def)
  have "typed_at cap prog D ?pc"
    using assms(1) pc(2) by (simp add: typed_def list_all_iff)
  then obtain ii k m where ii: "prog ! ?pc = Some ii" "instr_effect ii = Some (k, m)"
    and count: "i_pcount ii < 128" "unat (i_pcount ii) \<le> length (i_pi ii)"
    and depth: "k \<le> D ! ?pc" "D ! ?pc - k + m \<le> cap"
    and succ: "\<forall>pc' \<in> set (jump_targets ii). pc' < length prog \<and> D ! pc' = D ! ?pc - k + m"
      "falls_through ii \<longrightarrow> Suc ?pc < length prog \<and> D ! Suc ?pc = D ! ?pc - k + m"
    by (auto simp: typed_at_def list_all_iff split: option.splits if_splits)
  have next_pc: "unat (c_eip c + 1) = Suc ?pc"
    using pc by (simp add: unat_plus_if_lt)
  obtain c' where c': "CPU_executeInstruction f ii ?c = Some c'" "goes ii (D ! ?pc - k + m) ?c c'"
    using exec_goes [OF ii(2), of ?c] mem depth pc(3) by (auto simp: int_ok_def)
  have "CPU_ClockTick f c = Some (c'\<lparr>c_RanCount := c_RanCount c' + 1\<rparr>)"
    using False pc ii(1) c'(1) touch_params_ok [OF count(2), of 0] small_char [OF count(1)]
    by (simp add: CPU_ClockTick_def CPU_execute_def)
  moreover have "well_typed cap prog D (c'\<lparr>c_RanCount := c_RanCount c' + 1\<rparr>)"
    using typed_goes [OF c'(2) pc(1) pc(4) mem(1) depth(2) succ next_pc] by (simp add: well_typed_def)
  ultimately show ?thesis
    by blast
qed

lemma typed_ticks:
  assumes "typed cap prog D" "well_typed cap prog D c"
  shows "\<exists>c'. ticks f n c = Some c' \<and> well_typed cap prog D c'"
  using assms(2)
proof (induction n arbitrary: c)
  case (Suc n)
  then show ?case
    using typed_tick [OF assms(1) Suc.prems, of f] by auto
qed simp

section \<open>The instructions that save the registers\<close>

lemma unat_add_nat:
  fixes x :: u64
  assumes "unat x < 2 ^ 32" "k \<le> 15"
  shows "unat (x + word_of_nat k) = unat x + k"
  using assms by (simp add: unat_plus_if_lt unat_of_nat take_bit_nat_eq_self)

lemma unat_add_small: "unat x < 2 ^ 32 \<Longrightarrow> numeral k \<le> (15 :: nat) \<Longrightarrow> unat (x + numeral k) = unat x + numeral k" for x :: u64
  using unat_add_nat [of x "numeral k"] by simp

lemma step_arith:
  "x + 1 + 1 = x + 2" "x + numeral k + 1 = x + numeral (k + num.One)"
  "x + numeral k - 1 = x + (numeral k - 1)" "x + 1 - 1 = x" for x :: u64
  by (simp_all add: add.assoc diff_conv_add_uminus del: add_uminus_conv_diff)

lemma stack_steps:
  "unat (c_esp c + 1) < length (m_intdata (c_memory c)) \<Longrightarrow>
     CPU_pushi x c = Some (c\<lparr>c_esp := c_esp c + 1,
       c_memory := (c_memory c)\<lparr>m_intdata := (m_intdata (c_memory c))[unat (c_esp c + 1) := x]\<rparr>\<rparr>)"
  "unat (c_esp c) < length (m_floatdata (c_memory c)) \<Longrightarrow>
     CPU_pushf x c = Some (c\<lparr>c_esfp := c_esfp c + 1,
       c_memory := (c_memory c)\<lparr>m_floatdata := (m_floatdata (c_memory c))[unat (c_esp c) := x]\<rparr>\<rparr>)"
  "unat (c_esp c) < length (m_intdata (c_memory c)) \<Longrightarrow>
     CPU_popi c = Some (m_intdata (c_memory c) ! unat (c_esp c), c\<lparr>c_esp := c_esp c - 1\<rparr>)"
  "unat (c_esfp c) < length (m_floatdata (c_memory c)) \<Longrightarrow>
     CPU_popf c = Some (m_floatdata (c_memory c) ! unat (c_esfp c), c\<lparr>c_esfp := c_esfp c - 1\<rparr>)"
  by (simp_all add: CPU_pushi_def CPU_popi_def CPU_pushf_def CPU_popf_def load_int_def store_int_def load_float_def store_float_def Let_def)

lemma pushreg_popreg:
  assumes "unat (c_esp c) + 15 < length (m_intdata (c_memory c))" "length (m_intdata (c_memory c)) \<le> 2 ^ 32"
    "unat (c_esp c) + 15 < length (m_floatdata (c_memory c))"
    "unat (c_esfp c) + 8 < length (m_floatdata (c_memory c))" "length (m_floatdata (c_memory c)) \<le> 2 ^ 32"
  shows "\<exists>c1 c2. CPU_pushreg c = Some c1 \<and> CPU_popreg c1 = Some c2 \<and> int_registers c2 = int_registers c \<and>
    fp_registers c2 = map ((!) ((m_floatdata (c_memory c))[unat (c_esp c) + 15 := c_f7 c]))
      [unat (c_esfp c) + 1..<unat (c_esfp c) + 9]"
proof -
  have "unat (c_esp c) < 2 ^ 32" "unat (c_esfp c) < 2 ^ 32"
    using assms by simp_all
  then have esp: "unat (c_esp c + 1) = Suc (unat (c_esp c))" "unat (c_esfp c + 1) = Suc (unat (c_esfp c))"
    "\<And>k. numeral k \<le> (15 :: nat) \<Longrightarrow> unat (c_esp c + numeral k) = unat (c_esp c) + numeral k"
    "\<And>k. numeral k \<le> (15 :: nat) \<Longrightarrow> unat (c_esfp c + numeral k) = unat (c_esfp c) + numeral k"
    by (simp_all add: unat_plus_if_lt unat_add_small del: numeral_le_iff)
  have upt: "[a + 1..<a + 9] = [Suc a, a + 2, a + 3, a + 4, a + 5, a + 6, a + 7, a + 8]" for a
    by (simp add: upt_conv_Cons)
  show ?thesis
    using assms unfolding upt
    by (simp add: CPU_pushreg_def CPU_popreg_def stack_steps step_arith esp int_registers_def fp_registers_def)
qed

section \<open>What is proved of the machine\<close>

text \<open>A processor with everything zero and a small memory, for the examples.\<close>

definition small_machine :: "instruction_info option list \<Rightarrow> u64 list \<Rightarrow> vm_cpu" where
  "small_machine prog cells =
     \<lparr>c_InterruptEnable = 0, c_isRunning = 1,
      c_InterruptVector = replicate InterruptCount \<lparr>in_type = Interrupt_Outer, in_inner_address = 0, in_outer_callback = None\<rparr>,
      c_RanCount = 0, c_InterruptId = 0, c_eax = 1, c_ebx = 2, c_ecx = 3, c_edx = 4, c_ebp = 0, c_esp = 0,
      c_ebfp = 0, c_esfp = 0, c_eip = 0, c_r0 = 5, c_r1 = 6, c_r2 = 0, c_r3 = 0, c_r4 = 0, c_r5 = 0, c_r6 = 0, c_r7 = 7,
      c_f0 = 0, c_f1 = 0, c_f2 = 0, c_f3 = 0, c_f4 = 0, c_f5 = 0, c_f6 = 0, c_f7 = dbl_one,
      c_memory = \<lparr>m_Size = word_of_nat (length cells), m_MaxAddress = 2 * word_of_nat (length cells), m_IntOffset = 0,
        m_FloatOffset = word_of_nat (length cells), m_intdata = cells, m_floatdata = cells, m_program = Some prog\<rparr>,
      c_screen = [], c_keys = []\<rparr>"

definition int_param :: "u64 \<Rightarrow> parameter_info" where
  "int_param v = \<lparr>p_type = Param_Int, p_value = v, p_value_float = 0\<rparr>"

definition reg_param :: "u64 \<Rightarrow> parameter_info" where
  "reg_param v = \<lparr>p_type = Param_Register, p_value = v, p_value_float = 0\<rparr>"

definition instr :: "u16 \<Rightarrow> parameter_info list \<Rightarrow> instruction_info" where
  "instr n pis = \<lparr>i_ID = n, i_pcount = word_of_nat (length pis), i_pi = pis\<rparr>"

text \<open>Count \<open>r0\<close> down from three to zero.\<close>

definition count_down :: "instruction_info list" where
  "count_down =
     [instr CPU_Ins_pushi [int_param 3], instr CPU_Ins_popi [reg_param CPU_Reg_r0],
      instr CPU_Ins_pushi [reg_param CPU_Reg_r0], instr CPU_Ins_deci [], instr CPU_Ins_popi [reg_param CPU_Reg_r0],
      instr CPU_Ins_pushi [reg_param CPU_Reg_r0], instr CPU_Ins_pushi [int_param 0], instr CPU_Ins_neqi [],
      instr CPU_Ins_jt [int_param 2], instr CPU_Ins_hlt []]"

text \<open>C34: A program that has a type never goes wrong: from a state of its type, after any number of
  clock ticks the machine has faulted nowhere and its state is again of the type.\<close>

theorem wdvm_typed_never_wrong:
  assumes "typed cap prog D" "well_typed cap prog D c"
  shows "\<exists>c'. ticks f n c = Some c' \<and> well_typed cap prog D c'"
  by (rule typed_ticks [OF assms])

theorem wdvm_typed_never_wrong_witness:
  "\<forall>f n. \<exists>c'. ticks f n (small_machine (map Some count_down) [0, 0, 0, 0]) = Some c' \<and>
     well_typed 2 (map Some count_down) [0, 1, 0, 1, 1, 0, 1, 2, 1, 0] c'"
proof (intro allI, rule wdvm_typed_never_wrong)
  show "typed 2 (map Some count_down) [0, 1, 0, 1, 1, 0, 1, 2, 1, 0]"
    by (simp add: typed_def typed_at_def upt_conv_Cons count_down_def instr_def int_param_def reg_param_def instr_effect_def
        alu_binary_def alu_unary_def pointer_registers_def jump_targets_def falls_through_def)
  show "well_typed 2 (map Some count_down) [0, 1, 0, 1, 1, 0, 1, 2, 1, 0] (small_machine (map Some count_down) [0, 0, 0, 0])"
    by (simp add: well_typed_def small_machine_def count_down_def)
qed

text \<open>The machine with the number \<open>x\<close> on top of the stack, in the cell \<open>n\<close> of the integers.\<close>

definition put_int :: "nat \<Rightarrow> u64 \<Rightarrow> vm_cpu \<Rightarrow> vm_cpu" where
  "put_int n x c =
     c\<lparr>c_esp := of_nat n, c_memory := (c_memory c)\<lparr>m_intdata := (m_intdata (c_memory c))[n := x]\<rparr>\<rparr>"

lemma popi_exact:
  assumes "int_ok c" "int_stack c = a # st"
  defines "c' \<equiv> c\<lparr>c_esp := of_nat (length st)\<rparr>"
  shows "CPU_popi c = Some (a, c')" "int_ok c'" "int_stack c' = st"
proof -
  have esp: "unat (c_esp c) = Suc (length st)"
    using arg_cong [OF assms(2), of length] by simp
  have "c_esp c = of_nat (unat (c_esp c))"
    by simp
  also have "\<dots> = of_nat (Suc (length st))"
    by (simp only: esp)
  finally have e: "c_esp c - 1 = of_nat (length st)"
    by simp
  obtain c'' where c'': "CPU_popi c = Some (a, c'')" "int_ok c''" "int_stack c'' = st"
    using popi_law [OF assms(1,2)] by blast
  moreover have "c'' = c'"
    using c''(1) e by (simp add: CPU_popi_def c'_def bind_eq_Some_conv)
  ultimately show "CPU_popi c = Some (a, c')" "int_ok c'" "int_stack c' = st"
    by simp_all
qed

lemma pushi_exact:
  assumes "int_ok c" "Suc n \<le> unat (c_esp c)" "int_stack (c\<lparr>c_esp := of_nat n\<rparr>) = st" "length st = n"
  shows "CPU_pushi x (c\<lparr>c_esp := of_nat n\<rparr>) = Some (put_int (Suc n) x c)" "int_stack (put_int (Suc n) x c) = x # st"
proof -
  let ?c = "c\<lparr>c_esp := of_nat n\<rparr>"
  have n: "unat (of_nat n :: u64) = n" "unat (of_nat (Suc n) :: u64) = Suc n"
    using assms(2) unsigned_less [of "c_esp c", where ?'a = nat] by (simp_all add: unsigned_of_nat take_bit_nat_eq_self del: of_nat_Suc)
  have "int_ok ?c" "0 < int_room ?c"
    using assms(1,2) n by (auto simp: int_ok_def int_room_def)
  then obtain c' where c': "CPU_pushi x ?c = Some c'" "int_stack c' = x # st"
    using pushi_law [of ?c x] assms(3) by auto
  moreover have "CPU_pushi x ?c = Some (put_int (Suc n) x c)"
    using assms(1,2) n by (simp add: CPU_pushi_def store_int_def Let_def put_int_def int_ok_def add.commute [of _ 1])
  ultimately show "CPU_pushi x ?c = Some (put_int (Suc n) x c)" "int_stack (put_int (Suc n) x c) = x # st"
    by simp_all
qed

lemma binary_exact:
  assumes "int_ok c" "int_stack c = a # b # st"
  shows "do { (a, c) \<leftarrow> CPU_popi c; (b, c) \<leftarrow> CPU_popi c; k a b c } = k a b (c\<lparr>c_esp := of_nat (length st)\<rparr>)"
    "CPU_pushi x (c\<lparr>c_esp := of_nat (length st)\<rparr>) = Some (put_int (Suc (length st)) x c)"
    "int_stack (put_int (Suc (length st)) x c) = x # st"
  using popi_exact [OF assms] popi_exact [OF popi_exact(2,3) [OF assms]] arg_cong [OF assms(2), of length]
    pushi_exact [OF assms(1), of "length st" st x] by simp_all

lemma unary_exact:
  assumes "int_ok c" "int_stack c = a # st"
  shows "do { (a, c) \<leftarrow> CPU_popi c; k a c } = k a (c\<lparr>c_esp := of_nat (length st)\<rparr>)"
    "CPU_pushi x (c\<lparr>c_esp := of_nat (length st)\<rparr>) = Some (put_int (Suc (length st)) x c)"
    "int_stack (put_int (Suc (length st)) x c) = x # st"
  using popi_exact [OF assms] arg_cong [OF assms(2), of length] pushi_exact [OF assms(1), of "length st" st x] by simp_all

text \<open>The instructions of the two tables and the shifts by less than 64.\<close>

definition int_operation :: "u16 \<Rightarrow> u64 list \<Rightarrow> u64 list option" where
  "int_operation n st =
     (case st of
        a # b # r \<Rightarrow>
          if n = CPU_Ins_shl \<and> a < 64 then Some (push_bit (unat a) b # r)
          else if n = CPU_Ins_shr \<and> a < 64 then Some (drop_bit (unat a) b # r)
          else alu n st
      | _ \<Rightarrow> alu n st)"

lemma int_operation_cases:
  assumes "int_operation n xs = Some st"
  shows "(\<exists>a b r. xs = a # b # r \<and> n = CPU_Ins_shl \<and> a < 64 \<and> st = push_bit (unat a) b # r) \<or>
    (\<exists>a b r. xs = a # b # r \<and> n = CPU_Ins_shr \<and> a < 64 \<and> st = drop_bit (unat a) b # r) \<or> alu n xs = Some st"
proof (cases "\<exists>a b r. xs = a # b # r")
  case True
  then obtain a b r where xs: "xs = a # b # r" by blast
  show ?thesis
    using assms unfolding int_operation_def xs list.case by (metis option.inject)
next
  case False
  then have "int_operation n xs = alu n xs"
    unfolding int_operation_def by (simp split: list.split)
  with assms show ?thesis by simp
qed

text \<open>C35: The bitwise instructions, addition, subtraction, multiplication, negation, increment, decrement, the six
  comparisons and the shifts by less than 64 are their operations on the list of the numbers on the
  stack: such an instruction takes its operands off the top and puts the result there.  The machine is
  the one before but for \<open>esp\<close>, which is the new number of elements, and the cell it points to, which has the
  result: no register and no other cell of the memory changes.  \<open>esp\<close> is inside the memory before, and division
  is left out.\<close>

theorem wdvm_arithmetic:
  assumes "int_operation (i_ID ii) (int_stack c) = Some st" "int_ok c"
  shows "CPU_executeInstruction f ii c = Some (put_int (length st) (hd st) c) \<and> int_stack (put_int (length st) (hd st) c) = st"
proof -
  note ops = binary_exact [OF assms(2)] unary_exact [OF assms(2)]
  have shift: "CPU_executeInstruction f ii = ins_shl f ii" if "i_ID ii = CPU_Ins_shl"
    using that by (intro ext) (simp add: dispatch_table instruction_table_def)
  have shift': "CPU_executeInstruction f ii = ins_shr f ii" if "i_ID ii = CPU_Ins_shr"
    using that by (intro ext) (simp add: dispatch_table instruction_table_def)
  consider (shl) a b r where "int_stack c = a # b # r" "i_ID ii = CPU_Ins_shl" "a < 64" "st = push_bit (unat a) b # r"
    | (shr) a b r where "int_stack c = a # b # r" "i_ID ii = CPU_Ins_shr" "a < 64" "st = drop_bit (unat a) b # r"
    | (alu) "alu (i_ID ii) (int_stack c) = Some st"
    using int_operation_cases [OF assms(1)] by blast
  then show ?thesis
  proof cases
    case shl
    have "CPU_executeInstruction f ii c = CPU_pushi (hd st) (c\<lparr>c_esp := of_nat (length r)\<rparr>)"
      unfolding shift [OF shl(2)] ins_shl_def ops(1) [OF shl(1)] using iffD2 [OF not_le shl(3)] shl(4) by simp
    with shl ops(2,3) [OF shl(1)] show ?thesis by simp
  next
    case shr
    have "CPU_executeInstruction f ii c = CPU_pushi (hd st) (c\<lparr>c_esp := of_nat (length r)\<rparr>)"
      unfolding shift' [OF shr(2)] ins_shr_def ops(1) [OF shr(1)] using iffD2 [OF not_le shr(3)] shr(4) by simp
    with shr ops(2,3) [OF shr(1)] show ?thesis by simp
  next
    case alu
    then consider (two) a b r op where "int_stack c = a # b # r" "map_of alu_binary (i_ID ii) = Some op" "st = op a b # r"
      | (one) a r op where "int_stack c = a # r" "map_of alu_unary (i_ID ii) = Some op" "st = op a # r"
      by (auto simp: alu_def split: option.splits list.splits)
    then show ?thesis
    proof cases
      case two
      have "CPU_executeInstruction f ii c = CPU_pushi (op a b) (c\<lparr>c_esp := of_nat (length r)\<rparr>)"
        unfolding exec_binary [OF two(2)] binary_i_def by (rule ops(1) [OF two(1)])
      with ops(2,3) [OF two(1)] two(3) show ?thesis by simp
    next
      case one
      have "CPU_executeInstruction f ii c = CPU_pushi (op a) (c\<lparr>c_esp := of_nat (length r)\<rparr>)"
        unfolding exec_unary [OF one(2)] unary_i_def by (rule ops(4) [OF one(1)])
      with ops(5,6) [OF one(1)] one(3) show ?thesis by simp
    qed
  qed
qed

theorem wdvm_arithmetic_witness:
  "\<forall>f. CPU_executeInstruction f (instr CPU_Ins_subi []) ((small_machine [] [0, 9, 4, 0])\<lparr>c_esp := 2\<rparr>) =
     Some (put_int 1 5 ((small_machine [] [0, 9, 4, 0])\<lparr>c_esp := 2\<rparr>))"
  using wdvm_arithmetic [of "instr CPU_Ins_subi []" "(small_machine [] [0, 9, 4, 0])\<lparr>c_esp := 2\<rparr>" "[5]"]
  by (simp add: int_operation_def alu_def alu_binary_def alu_unary_def instr_def int_stack_def int_ok_def small_machine_def
      upt_conv_Cons)

text \<open>C36: The decision tree of \<open>CPU_executeInstruction\<close> runs, for each number, the instruction that the
  number names; a number above the last one is read as the last one.\<close>

theorem wdvm_decision_tree:
  "CPU_executeInstruction f ii c = (instruction_table ! min 57 (unat (i_ID ii))) f ii c"
  by (rule dispatch_table)

text \<open>\<open>popreg\<close> behind \<open>pushreg\<close> brings back every integer register, also \<open>eip\<close>; the floating point
  registers get what lies above \<open>esfp\<close>, where nothing of theirs was stored but perhaps \<open>f7\<close>.\<close>

theorem wdvm_pushreg_popreg:
  assumes "unat (c_esp c) + 15 < length (m_intdata (c_memory c))" "length (m_intdata (c_memory c)) \<le> 2 ^ 32"
    "unat (c_esp c) + 15 < length (m_floatdata (c_memory c))"
    "unat (c_esfp c) + 8 < length (m_floatdata (c_memory c))" "length (m_floatdata (c_memory c)) \<le> 2 ^ 32"
  shows "\<exists>c1 c2. CPU_pushreg c = Some c1 \<and> CPU_popreg c1 = Some c2 \<and> int_registers c2 = int_registers c \<and>
    fp_registers c2 = map ((!) ((m_floatdata (c_memory c))[unat (c_esp c) + 15 := c_f7 c]))
      [unat (c_esfp c) + 1..<unat (c_esfp c) + 9]"
  by (rule pushreg_popreg [OF assms])

theorem wdvm_pushreg_popreg_witness:
  "\<exists>c1 c2. CPU_pushreg (small_machine [] (replicate 16 0)) = Some c1 \<and> CPU_popreg c1 = Some c2 \<and>
     int_registers c2 = [1, 2, 3, 4, 0, 0, 0, 0, 0, 5, 6, 0, 0, 0, 0, 0, 7] \<and> fp_registers c2 = map ((!) ((replicate 16 0)[15 := dbl_one])) [1..<9]"
  using wdvm_pushreg_popreg [of "small_machine [] (replicate 16 0)"]
  by (simp add: small_machine_def int_registers_def del: upt_rec_numeral)

text \<open>A program that saves its registers and brings them back does not come to its next instruction.\<close>

lemma no_popf: "\<not> unat (c_esfp c) < length (m_floatdata (c_memory c)) \<Longrightarrow> CPU_popf c = None"
  by (simp add: CPU_popf_def load_float_def Let_def)

lemma ticks_3: "ticks f 3 c = do { c \<leftarrow> CPU_ClockTick f c; c \<leftarrow> CPU_ClockTick f c; CPU_ClockTick f c }"
proof -
  have "ticks f 0 = Some"
    by (rule ext) simp
  then show ?thesis
    by (auto simp: numeral_3_eq_3 intro!: Option.bind_cong)
qed

lemma wdvm_popreg_jumps_back:
  "ticks f 3 (small_machine [Some (instr CPU_Ins_pushreg []), Some (instr CPU_Ins_popreg []), Some (instr CPU_Ins_hlt [])]
     (replicate 16 0)) = None"
  by (simp add: ticks_3 CPU_ClockTick_def CPU_execute_def small_machine_def instr_def exec_trees touch_params_ok
      ins_pushreg_def ins_popreg_def CPU_pushreg_def CPU_popreg_def stack_steps no_popf unsigned_minus_1_eq_mask mask_eq_exp_minus_1)

text \<open>C37: A program of less than \<open>2 ^ 30\<close> instructions that is written in the format of the file is read back as
  it was, but for the value that a parameter does not use, when the allocations that it takes succeed.\<close>

theorem wdvm_load_roundtrip:
  assumes "list_all instr_fits prog" "length prog < 2 ^ 30"
  shows "Machine_load0 junk raw ptrs m (replicate (Suc (sum_list (map instr_mallocs prog))) True @ h) (program_bytes prog @ fd) =
    Some (Inr (m\<lparr>m_program := Some (map (Some \<circ> instr_back raw) prog)\<rparr>, h, fd))"
  using load_loop_back [OF assms(1), of "map ptrs [0..<length prog]" 0 "[]" junk raw h fd] load0_header [OF assms(2)]
  by (simp add: program_bytes_def)

theorem wdvm_load_roundtrip_witness:
  "\<forall>junk raw ptrs m fd. Machine_load0 junk raw ptrs m (replicate 35 True) (program_bytes count_down @ fd) =
     Some (Inr (m\<lparr>m_program := Some (map (Some \<circ> instr_back raw) count_down)\<rparr>, [], fd))"
proof -
  have "list_all instr_fits count_down" "length count_down < 2 ^ 30" "sum_list (map instr_mallocs count_down) = 34"
    by (simp_all add: count_down_def instr_fits_def instr_def param_fits_def int_param_def reg_param_def instr_mallocs_def)
  then show ?thesis
    using wdvm_load_roundtrip [of count_down _ _ _ _ "[]"] by simp
qed

text \<open>A file that ends early is waited for for ever.\<close>

lemma wdvm_load_short_file:
  assumes "list_all instr_fits prog" "length prog < n" "n < 2 ^ 30"
  shows "Machine_load0 junk raw ptrs m (replicate (Suc (sum_list (map instr_mallocs prog))) True @ h)
    (le_bytes 4 (word_of_nat n :: u32) @ concat (map instr_bytes prog)) = None"
proof -
  obtain k where n: "n = length prog + Suc k"
    using assms(2) less_imp_Suc_add by (metis add_Suc_right)
  have "load_loop junk raw n 0 (map ptrs [0..<n]) (replicate (sum_list (map instr_mallocs prog)) True @ h)
      (concat (map instr_bytes prog)) = None"
    using load_loop_back [OF assms(1), of "map ptrs [0..<n]" 0 "[]" junk raw h "[]"] assms(2)
      load_loop_add [of junk raw "length prog" "Suc k" 0 "map ptrs [0..<n]", folded n]
    by (simp add: read_instr_end)
  then show ?thesis
    using load0_header [OF assms(3)] by simp
qed

end
