(* ===== verification/Iasm_Encoder.thy ===== *)
theory Iasm_Encoder
  imports Strings
begin

text \<open>
  \<^verbatim>\<open>apps/iasm/encoder.c\<close>, the back end of the assembler: the output buffer, the listing, the
  operand and address size prefixes, and the bytes \<open>ModRM\<close> and \<open>SIB\<close> of an operand.  An operation
  is a function on the state of the encoder; \<^const>\<open>Inl\<close> is the message of \<open>Error\<close>, after which
  the program ends, \<^const>\<open>None\<close> an access outside a buffer or the use of a variable that has no value.
\<close>

section \<open>State\<close>

definition MAX_BUFFER_SIZE :: nat where "MAX_BUFFER_SIZE = 64 * 1024"
definition MAX_LISTING_BUFFER_SIZE :: nat where "MAX_LISTING_BUFFER_SIZE = 64 * 1024"
definition INSTRUCTION_BUFFER_SIZE :: nat where "INSTRUCTION_BUFFER_SIZE = 2048"

datatype enc_mode = MODE_BIT16 | MODE_BIT32

text \<open>
  \<open>Buffer\<close> is the bytes below \<open>Offset\<close>, the listing the characters below \<open>ListingBufferLen\<close>, the
  instruction buffer the bytes below \<open>InstructionByteCount\<close>; the two pointers can be NULL.
\<close>

record encoder =
  e_allocated :: bool
  e_Buffer :: "u8 list"
  e_listing :: bool
  e_ListingBuffer :: string
  e_InstructionBuffer :: "u8 list"
  e_InstructionBeginPos :: u32
  e_CurrentPos :: u32
  e_Mode :: enc_mode
  e_OprdMode :: enc_mode
  e_AddrMode :: enc_mode

type_synonym enc = "encoder \<Rightarrow> (string + encoder) option"

definition enc_error :: "string \<Rightarrow> enc" where "enc_error msg s = Some (Inl msg)"

text \<open>Statements one after the other.\<close>

fun steps :: "enc list \<Rightarrow> enc" where
  "steps [] s = Some (Inr s)"
| "steps (m # ms) s =
     (case m s of
        Some (Inr s) \<Rightarrow> steps ms s
      | r \<Rightarrow> r)"

section \<open>The buffers\<close>

text \<open>
  \<open>InitEncoder\<close>: \<open>ok\<close> is the result of \<open>malloc\<close>, \<open>raw\<close> the contents of the block.  \<open>Offset\<close> keeps
  its value.
\<close>

definition InitEncoder :: "bool \<Rightarrow> (nat \<Rightarrow> u8) \<Rightarrow> enc" where
  "InitEncoder ok raw s =
     (if ok then Some (Inr (s\<lparr>e_allocated := True, e_Buffer := map raw [0..<length (e_Buffer s)]\<rparr>))
      else Some (Inl ''Cannot allocate memory for encoder.''))"

definition DestroyEncoder :: "(nat \<Rightarrow> u8) \<Rightarrow> (nat \<Rightarrow> char) \<Rightarrow> enc" where
  "DestroyEncoder raw raw_listing s =
     Some (Inr (s\<lparr>e_allocated := False, e_Buffer := map raw [0..<length (e_Buffer s)], e_listing := False,
       e_ListingBuffer := map raw_listing [0..<length (e_ListingBuffer s)]\<rparr>))"

definition EnableListing :: "bool \<Rightarrow> (nat \<Rightarrow> char) \<Rightarrow> enc" where
  "EnableListing ok raw s =
     (if ok then Some (Inr (s\<lparr>e_listing := True, e_ListingBuffer := map raw [0..<length (e_ListingBuffer s)]\<rparr>))
      else Some (Inl ''Cannot allocate memory for encoder.''))"

text \<open>\<open>ok\<close>: whether the file can be opened; the result is what is written to it.\<close>

definition SaveToFile :: "bool \<Rightarrow> encoder \<Rightarrow> string + u8 list" where
  "SaveToFile ok s = (if ok then Inr (e_Buffer s) else Inl ''Cannot write binary data to file.'')"

definition SaveListingToFile :: "bool \<Rightarrow> encoder \<Rightarrow> string + string" where
  "SaveListingToFile ok s = (if ok then Inr (e_ListingBuffer s) else Inl ''Cannot write listing to file.'')"

definition ResetEncoder :: enc where
  "ResetEncoder s = Some (Inr (s\<lparr>e_Buffer := [], e_CurrentPos := 0\<rparr>))"

definition GetCurrentPos :: "encoder \<Rightarrow> u32" where "GetCurrentPos s = e_CurrentPos s"
definition IsBit16 :: "encoder \<Rightarrow> bool" where "IsBit16 s = (e_Mode s = MODE_BIT16)"
definition IsBit32 :: "encoder \<Rightarrow> bool" where "IsBit32 s = (e_Mode s = MODE_BIT32)"
definition SwitchToBit16 :: enc where "SwitchToBit16 s = Some (Inr (s\<lparr>e_Mode := MODE_BIT16\<rparr>))"
definition SwitchToBit32 :: enc where "SwitchToBit32 s = Some (Inr (s\<lparr>e_Mode := MODE_BIT32\<rparr>))"
definition SwitchOprdToBit16 :: enc where "SwitchOprdToBit16 s = Some (Inr (s\<lparr>e_OprdMode := MODE_BIT16\<rparr>))"
definition SwitchOprdToBit32 :: enc where "SwitchOprdToBit32 s = Some (Inr (s\<lparr>e_OprdMode := MODE_BIT32\<rparr>))"
definition SwitchAddrToBit16 :: enc where "SwitchAddrToBit16 s = Some (Inr (s\<lparr>e_AddrMode := MODE_BIT16\<rparr>))"
definition SwitchAddrToBit32 :: enc where "SwitchAddrToBit32 s = Some (Inr (s\<lparr>e_AddrMode := MODE_BIT32\<rparr>))"
definition SetCurrentPos :: "u32 \<Rightarrow> enc" where "SetCurrentPos pos s = Some (Inr (s\<lparr>e_CurrentPos := pos\<rparr>))"

text \<open>\<open>ToBuffer\<close>: the byte is in the buffer before the instruction is found to be too long.\<close>

definition ToBuffer :: "u8 \<Rightarrow> enc" where
  "ToBuffer InsByte s =
     (if length (e_Buffer s) < MAX_BUFFER_SIZE
      then if \<not> e_allocated s then None
      else if INSTRUCTION_BUFFER_SIZE \<le> length (e_InstructionBuffer s) then Some (Inl ''Instruction is too long.'')
      else Some (Inr (s\<lparr>e_Buffer := e_Buffer s @ [InsByte], e_CurrentPos := e_CurrentPos s + 1,
                   e_InstructionBuffer := e_InstructionBuffer s @ [InsByte]\<rparr>))
      else Some (Inl ''Binary file is too big.''))"

definition ToBufferW :: "u32 \<Rightarrow> enc" where
  "ToBufferW Data = steps [ToBuffer (ucast Data), ToBuffer (ucast (drop_bit 8 Data))]"

definition ToBuffer3B :: "u32 \<Rightarrow> enc" where
  "ToBuffer3B Data =
     steps [ToBuffer (ucast Data), ToBuffer (ucast (drop_bit 8 Data)), ToBuffer (ucast (drop_bit 16 Data))]"

definition ToBufferD :: "u32 \<Rightarrow> enc" where
  "ToBufferD Data =
     steps [ToBuffer (ucast Data), ToBuffer (ucast (drop_bit 8 Data)), ToBuffer (ucast (drop_bit 16 Data)),
            ToBuffer (ucast (drop_bit 24 Data))]"

definition InstructionBegin :: enc where
  "InstructionBegin s = Some (Inr (s\<lparr>e_InstructionBeginPos := e_CurrentPos s\<rparr>))"

text \<open>
  \<open>InstructionEnd\<close>: a line of the listing, the position and the bytes in hexadecimal digits.  The
  buffer of the digits holds 1024 bytes, the listing 64 KB; neither is checked.
\<close>

definition listing_line :: "u32 \<Rightarrow> u8 list \<Rightarrow> string option" where
  "listing_line pos bytes =
     (if INSTRUCTION_BUFFER_SIZE + 1 < 2 * length bytes + 1 then None
      else map_option fst (sprintf_s (\<lambda>_ :: unit. []) 1024 (''%X    %s'' @ [CHR 0x0A])
             [AInt pos, AStr (concat (map uctohexs bytes))]))"

definition InstructionEnd :: enc where
  "InstructionEnd s =
     (if e_listing s
      then (case listing_line (e_InstructionBeginPos s) (e_InstructionBuffer s) of
              None \<Rightarrow> None
            | Some line \<Rightarrow>
                if length (e_ListingBuffer s) + length line < MAX_LISTING_BUFFER_SIZE
                then Some (Inr (s\<lparr>e_ListingBuffer := e_ListingBuffer s @ line, e_InstructionBuffer := []\<rparr>))
                else None)
      else Some (Inr (s\<lparr>e_InstructionBuffer := []\<rparr>)))"

section \<open>Operands\<close>

abbreviation REG_EAX :: u8 where "REG_EAX \<equiv> 0"
abbreviation REG_ECX :: u8 where "REG_ECX \<equiv> 1"
abbreviation REG_EDX :: u8 where "REG_EDX \<equiv> 2"
abbreviation REG_EBX :: u8 where "REG_EBX \<equiv> 3"
abbreviation REG_ESP :: u8 where "REG_ESP \<equiv> 4"
abbreviation REG_EBP :: u8 where "REG_EBP \<equiv> 5"
abbreviation REG_ESI :: u8 where "REG_ESI \<equiv> 6"
abbreviation REG_EDI :: u8 where "REG_EDI \<equiv> 7"
abbreviation REG_BX :: u8 where "REG_BX \<equiv> 3"
abbreviation REG_BP :: u8 where "REG_BP \<equiv> 5"
abbreviation REG_SI :: u8 where "REG_SI \<equiv> 6"
abbreviation REG_DI :: u8 where "REG_DI \<equiv> 7"
abbreviation REG_NONE :: u8 where "REG_NONE \<equiv> 8"

text \<open>The macro \<open>_SIB\<close>.\<close>

definition SIB_byte :: "u8 \<Rightarrow> u8 \<Rightarrow> u8 \<Rightarrow> u8" where
  "SIB_byte s i b = push_bit 6 (s AND 3) OR push_bit 3 (i AND 7) OR (b AND 7)"

text \<open>
  \<open>GetMem_Mod_RM32\<close> and \<open>GetMem_Mod_RM16\<close>: the values stored through the pointers, where \<^const>\<open>None\<close>
  is a variable that is left as it is.  In both, \<open>&&\<close> binds tighter than \<open>||\<close>.
\<close>

definition GetMem_Mod_RM32 :: "u8 \<Rightarrow> u8 \<Rightarrow> u32 \<Rightarrow> u32 \<Rightarrow> string + (u8 \<times> u8 \<times> u8 option)" where
  "GetMem_Mod_RM32 Reg1 Reg2 OffType DirectOff =
     (if OffType \<notin> {0, 1, 3} then Inl ''assert''
      else let Mod = (if OffType = 0 then 0 else if OffType = 1 then 1 else 2);
               Reg = (if Reg1 \<noteq> REG_NONE then Reg1 else Reg2)
        in if DirectOff \<noteq> 0 then Inr (0, 5, None)
        else if Reg1 \<noteq> REG_NONE \<and> Reg2 = REG_NONE \<or> Reg1 = REG_NONE \<and> Reg2 \<noteq> REG_NONE \<and> OffType = 0
        then (if Reg \<in> {REG_EAX, REG_ECX, REG_EDX, REG_EBX, REG_ESI, REG_EDI} then Inr (Mod, Reg, None)
              else if Reg = REG_ESP then Inr (Mod, 4, Some (SIB_byte 0 0 REG_ESP))
              else if Reg = REG_EBP then Inr (Mod, 4, Some (SIB_byte 0 0 REG_EBP))
              else Inl ''Invalid register in memory reference.'')
        else if Reg1 \<noteq> REG_NONE \<and> Reg2 = REG_NONE \<or>
          Reg1 = REG_NONE \<and> Reg2 \<noteq> REG_NONE \<and> (OffType = 1 \<or> OffType = 3)
        then (if Reg \<in> {REG_EAX, REG_ECX, REG_EDX, REG_EBX, REG_EBP, REG_ESI, REG_EDI} then Inr (Mod, Reg, None)
              else if Reg = REG_ESP then Inr (Mod, 4, Some (SIB_byte 0 0 REG_ESP))
              else Inl ''Invalid register in memory reference.'')
        else if Reg1 \<noteq> REG_NONE \<and> Reg2 \<noteq> REG_NONE then Inr (Mod, 4, Some (SIB_byte 0 Reg2 Reg1))
        else Inl ''Invalid memory reference.'')"

definition GetMem_Mod_RM16 :: "u8 \<Rightarrow> u8 \<Rightarrow> u32 \<Rightarrow> u32 \<Rightarrow> string + (u8 \<times> u8 option)" where
  "GetMem_Mod_RM16 Reg1 Reg2 OffType DirectOff =
     (if OffType \<notin> {0, 1, 2} then Inl ''assert''
      else let Mod = (if OffType = 0 then 0 else if OffType = 1 then 1 else 2)
        in if Reg1 = REG_BX \<and> Reg2 = REG_SI \<or> Reg1 = REG_SI \<and> Reg2 = REG_BX then Inr (Mod, Some 0)
        else if Reg1 = REG_BX \<and> Reg2 = REG_DI \<or> Reg1 = REG_DI \<and> Reg2 = REG_BX then Inr (Mod, Some 1)
        else if Reg1 = REG_BP \<and> Reg2 = REG_SI \<or> Reg1 = REG_SI \<and> Reg2 = REG_BP then Inr (Mod, Some 2)
        else if Reg1 = REG_BP \<and> Reg2 = REG_DI \<or> Reg1 = REG_DI \<and> Reg2 = REG_BP then Inr (Mod, Some 3)
        else if Reg1 = REG_SI \<and> Reg2 = REG_NONE \<or> Reg1 = REG_NONE \<and> Reg2 = REG_SI then Inr (Mod, Some 4)
        else if Reg1 = REG_DI \<and> Reg2 = REG_NONE \<or> Reg1 = REG_NONE \<and> Reg2 = REG_DI then Inr (Mod, Some 5)
        else if DirectOff \<noteq> 0 then Inr (0, Some 6)
        else if Reg1 = REG_BX \<and> Reg2 = REG_NONE \<or> Reg1 = REG_NONE \<and> Reg2 = REG_BX then Inr (Mod, Some 7)
        else if (Reg1 = REG_BP \<and> Reg2 = REG_NONE \<or> Reg1 = REG_NONE \<and> Reg2 = REG_BP) \<and> (OffType = 1 \<or> OffType = 2)
        then Inr (Mod, Some 6)
        else Inr (Mod, None))"

text \<open>The registers of the eight classes have the same numbers.\<close>

definition GetReg_Mod_RM :: "u8 \<Rightarrow> string + (u8 \<times> u8)" where
  "GetReg_Mod_RM Reg =
     (if Reg = REG_EAX then Inr (3, 0) else if Reg = REG_ECX then Inr (3, 1) else if Reg = REG_EDX then Inr (3, 2)
      else if Reg = REG_EBX then Inr (3, 3) else if Reg = REG_ESP then Inr (3, 4) else if Reg = REG_EBP then Inr (3, 5)
      else if Reg = REG_ESI then Inr (3, 6) else if Reg = REG_EDI then Inr (3, 7) else Inl ''Invalid register.'')"

definition with_reg :: "u8 \<Rightarrow> (u8 \<Rightarrow> u8 \<Rightarrow> enc) \<Rightarrow> enc" where
  "with_reg Reg k = (case GetReg_Mod_RM Reg of Inl msg \<Rightarrow> enc_error msg | Inr (Mod, RM) \<Rightarrow> k Mod RM)"

text \<open>\<open>Opcode |= (uint)RM & 0xFF; Opcode |= ((uint)Mod << 6) & 0xFF;\<close> and the two macros of \<open>Opcode_Mem_X\<close>.\<close>

definition opcode_mod_rm :: "u32 \<Rightarrow> u8 \<Rightarrow> u8 \<Rightarrow> u32" where
  "opcode_mod_rm Opcode Mod RM = (Opcode OR (ucast RM AND 0xFF)) OR (push_bit 6 (ucast Mod) AND 0xFF)"

definition imm_to_buffer :: "u32 \<Rightarrow> u32 \<Rightarrow> enc" where
  "imm_to_buffer ImmType Imm =
     (if ImmType = 3 then ToBufferD Imm else if ImmType = 2 then ToBufferW Imm
      else if ImmType = 1 then ToBuffer (ucast Imm) else if ImmType = 0 then steps [] else enc_error ''assert'')"

definition opcode_to_buffer :: "nat \<Rightarrow> u32 \<Rightarrow> enc" where
  "opcode_to_buffer OpcodeLength Opcode =
     (if OpcodeLength = 2 then steps [ToBuffer (ucast (drop_bit 8 Opcode)), ToBuffer (ucast Opcode)]
      else if OpcodeLength = 3
      then steps [ToBuffer (ucast (drop_bit 16 Opcode)), ToBuffer (ucast (drop_bit 8 Opcode)), ToBuffer (ucast Opcode)]
      else if OpcodeLength = 4
      then steps [ToBuffer (ucast (drop_bit 24 Opcode)), ToBuffer (ucast (drop_bit 16 Opcode)),
                  ToBuffer (ucast (drop_bit 8 Opcode)), ToBuffer (ucast Opcode)]
      else enc_error ''assert'')"

text \<open>The four branches of each half of \<open>Opcode_Mem_X\<close> differ in the offset that is written.\<close>

definition mem16 :: "u32 \<Rightarrow> u8 \<Rightarrow> u8 \<Rightarrow> u32 \<Rightarrow> u32 \<Rightarrow> enc \<Rightarrow> u32 \<Rightarrow> u32 \<Rightarrow> nat \<Rightarrow> enc" where
  "mem16 Opcode Reg1 Reg2 typ direct write_off ImmType Imm OpcodeLength =
     (case GetMem_Mod_RM16 Reg1 Reg2 typ direct of
        Inl msg \<Rightarrow> enc_error msg
      | Inr (Mod, None) \<Rightarrow> (\<lambda>s. None)
      | Inr (Mod, Some RM) \<Rightarrow>
          steps [opcode_to_buffer OpcodeLength (opcode_mod_rm Opcode Mod RM), write_off, imm_to_buffer ImmType Imm])"

definition mem32 :: "u32 \<Rightarrow> u8 \<Rightarrow> u8 \<Rightarrow> u32 \<Rightarrow> u32 \<Rightarrow> enc \<Rightarrow> u32 \<Rightarrow> u32 \<Rightarrow> nat \<Rightarrow> enc" where
  "mem32 Opcode Reg1 Reg2 typ direct write_off ImmType Imm OpcodeLength =
     (case GetMem_Mod_RM32 Reg1 Reg2 typ direct of
        Inl msg \<Rightarrow> enc_error msg
      | Inr (Mod, RM, SIB) \<Rightarrow>
          steps [opcode_to_buffer OpcodeLength (opcode_mod_rm Opcode Mod RM),
                 (if RM = 4 then (case SIB of None \<Rightarrow> (\<lambda>s. None) | Some b \<Rightarrow> ToBuffer b) else steps []),
                 write_off, imm_to_buffer ImmType Imm])"

definition Opcode_Mem_X :: "u32 \<Rightarrow> u8 \<Rightarrow> u8 \<Rightarrow> u8 \<Rightarrow> u32 \<Rightarrow> u32 \<Rightarrow> u32 \<Rightarrow> nat \<Rightarrow> enc" where
  "Opcode_Mem_X Opcode Reg1 Reg2 OffType Off ImmType Imm OpcodeLength s =
     (case e_AddrMode s of
        MODE_BIT16 \<Rightarrow>
          if Reg1 = REG_NONE \<and> Reg2 = REG_NONE
          then mem16 Opcode REG_NONE REG_NONE 0 1 (ToBufferW Off) ImmType Imm OpcodeLength s
          else if Reg1 \<noteq> REG_NONE \<and> OffType = 0
          then mem16 Opcode Reg1 Reg2 0 0 (steps []) ImmType Imm OpcodeLength s
          else if Reg1 \<noteq> REG_NONE \<and> OffType = 1
          then mem16 Opcode Reg1 Reg2 1 0 (ToBuffer (ucast Off)) ImmType Imm OpcodeLength s
          else if Reg1 \<noteq> REG_NONE \<and> OffType = 2
          then mem16 Opcode Reg1 Reg2 2 0 (ToBufferW Off) ImmType Imm OpcodeLength s
          else enc_error ''Invalid address mode.'' s
      | MODE_BIT32 \<Rightarrow>
          if Reg1 = REG_NONE \<and> Reg2 = REG_NONE
          then mem32 Opcode REG_NONE REG_NONE 0 1 (ToBufferD Off) ImmType Imm OpcodeLength s
          else if Reg1 \<noteq> REG_NONE \<and> OffType = 0
          then mem32 Opcode Reg1 Reg2 0 0 (steps []) ImmType Imm OpcodeLength s
          else if Reg1 \<noteq> REG_NONE \<and> OffType = 1
          then mem32 Opcode Reg1 Reg2 1 0 (ToBuffer (ucast Off)) ImmType Imm OpcodeLength s
          else if Reg1 \<noteq> REG_NONE \<and> (OffType = 2 \<or> OffType = 3)
          then mem32 Opcode Reg1 Reg2 3 0 (ToBufferD Off) ImmType Imm OpcodeLength s
          else enc_error ''Invalid address mode.'' s)"

definition InstructionPrefix :: enc where
  "InstructionPrefix s =
     steps [(if e_Mode s \<noteq> e_OprdMode s then ToBuffer 0x66 else steps []),
            (if e_Mode s \<noteq> e_AddrMode s then ToBuffer 0x67 else steps [])] s"

section \<open>Opcodes with operands\<close>

definition OpcodeW_Mem_X :: "u32 \<Rightarrow> u8 \<Rightarrow> u8 \<Rightarrow> u8 \<Rightarrow> u32 \<Rightarrow> u32 \<Rightarrow> u32 \<Rightarrow> enc" where
  "OpcodeW_Mem_X Opcode Reg1 Reg2 OffType Off ImmType Imm =
     Opcode_Mem_X Opcode Reg1 Reg2 OffType Off ImmType Imm 2"

definition Opcode3B_Mem_X :: "u32 \<Rightarrow> u8 \<Rightarrow> u8 \<Rightarrow> u8 \<Rightarrow> u32 \<Rightarrow> u32 \<Rightarrow> u32 \<Rightarrow> enc" where
  "Opcode3B_Mem_X Opcode Reg1 Reg2 OffType Off ImmType Imm =
     Opcode_Mem_X Opcode Reg1 Reg2 OffType Off ImmType Imm 3"

definition OpcodeD_Mem_X :: "u32 \<Rightarrow> u8 \<Rightarrow> u8 \<Rightarrow> u8 \<Rightarrow> u32 \<Rightarrow> u32 \<Rightarrow> u32 \<Rightarrow> enc" where
  "OpcodeD_Mem_X Opcode Reg1 Reg2 OffType Off ImmType Imm =
     Opcode_Mem_X Opcode Reg1 Reg2 OffType Off ImmType Imm 4"

definition OpcodeW_Reg :: "u32 \<Rightarrow> u8 \<Rightarrow> enc" where
  "OpcodeW_Reg Opcode Reg =
     with_reg Reg (\<lambda>Mod RM. let Opcode = Opcode OR ((ucast RM :: u32) AND (0xFF :: u32));
       Opcode = Opcode OR ((push_bit 6 (ucast Mod :: u32)) AND (0xFF :: u32)) in
       steps [ToBuffer (ucast (drop_bit 8 Opcode)), ToBuffer (ucast Opcode)])"

definition Opcode3B_Reg :: "u32 \<Rightarrow> u8 \<Rightarrow> enc" where
  "Opcode3B_Reg Opcode Reg =
     with_reg Reg (\<lambda>Mod RM. let Opcode = Opcode OR ((ucast RM :: u32) AND (0xFF :: u32));
       Opcode = Opcode OR ((push_bit 6 (ucast Mod :: u32)) AND (0xFF :: u32)) in
       steps [ToBuffer (ucast (drop_bit 16 Opcode)), ToBuffer (ucast (drop_bit 8 Opcode)), ToBuffer (ucast Opcode)])"

definition Opcode3B_Reg_Imm8 :: "u32 \<Rightarrow> u8 \<Rightarrow> u32 \<Rightarrow> enc" where
  "Opcode3B_Reg_Imm8 Opcode Reg Imm8 =
     with_reg Reg (\<lambda>Mod RM. let Opcode = Opcode OR ((ucast RM :: u32) AND (0xFF :: u32));
       Opcode = Opcode OR ((push_bit 6 (ucast Mod :: u32)) AND (0xFF :: u32)) in
       steps [ToBuffer (ucast (drop_bit 16 Opcode)), ToBuffer (ucast (drop_bit 8 Opcode)), ToBuffer (ucast Opcode),
       ToBuffer (ucast Imm8)])"

definition OpcodeW_Reg8_Reg8 :: "u32 \<Rightarrow> u8 \<Rightarrow> u8 \<Rightarrow> enc" where
  "OpcodeW_Reg8_Reg8 Opcode DstReg8 SrcReg8 =
     (let Opcode = Opcode OR ((push_bit 3 (ucast SrcReg8 :: u32)) AND (0xFF :: u32)) in OpcodeW_Reg Opcode DstReg8)"

definition OpcodeW_Reg16_Reg16 :: "u32 \<Rightarrow> u8 \<Rightarrow> u8 \<Rightarrow> enc" where
  "OpcodeW_Reg16_Reg16 Opcode DstReg16 SrcReg16 =
     (let Opcode = Opcode OR ((push_bit 3 (ucast SrcReg16 :: u32)) AND (0xFF :: u32)) in OpcodeW_Reg Opcode DstReg16)"

definition OpcodeW_Reg32_Reg32 :: "u32 \<Rightarrow> u8 \<Rightarrow> u8 \<Rightarrow> enc" where
  "OpcodeW_Reg32_Reg32 Opcode DstReg32 SrcReg32 =
     (let Opcode = Opcode OR ((push_bit 3 (ucast SrcReg32 :: u32)) AND (0xFF :: u32)) in OpcodeW_Reg Opcode DstReg32)"

definition OpcodeW_Mem8_Reg8 :: "u32 \<Rightarrow> u8 \<Rightarrow> u8 \<Rightarrow> u32 \<Rightarrow> u32 \<Rightarrow> u8 \<Rightarrow> enc" where
  "OpcodeW_Mem8_Reg8 Opcode Reg1 Reg2 OffType Off SrcReg =
     (let Opcode = Opcode OR ((push_bit 3 (ucast SrcReg :: u32)) AND (0xFF :: u32)) in OpcodeW_Mem_X Opcode Reg1 Reg2 (ucast OffType) Off 0 0)"

definition OpcodeW_Mem16_Reg16 :: "u32 \<Rightarrow> u8 \<Rightarrow> u8 \<Rightarrow> u32 \<Rightarrow> u32 \<Rightarrow> u8 \<Rightarrow> enc" where
  "OpcodeW_Mem16_Reg16 Opcode Reg1 Reg2 OffType Off SrcReg =
     (let Opcode = Opcode OR ((push_bit 3 (ucast SrcReg :: u32)) AND (0xFF :: u32)) in OpcodeW_Mem_X Opcode Reg1 Reg2 (ucast OffType) Off 0 0)"

definition OpcodeW_Mem32_Reg32 :: "u32 \<Rightarrow> u8 \<Rightarrow> u8 \<Rightarrow> u32 \<Rightarrow> u32 \<Rightarrow> u8 \<Rightarrow> enc" where
  "OpcodeW_Mem32_Reg32 Opcode Reg1 Reg2 OffType Off SrcReg =
     (let Opcode = Opcode OR ((push_bit 3 (ucast SrcReg :: u32)) AND (0xFF :: u32)) in OpcodeW_Mem_X Opcode Reg1 Reg2 (ucast OffType) Off 0 0)"

definition OpcodeW_Reg8_Mem8 :: "u32 \<Rightarrow> u8 \<Rightarrow> u8 \<Rightarrow> u8 \<Rightarrow> u32 \<Rightarrow> u32 \<Rightarrow> enc" where
  "OpcodeW_Reg8_Mem8 Opcode DstReg Reg1 Reg2 OffType Off =
     (let Opcode = Opcode OR ((push_bit 3 (ucast DstReg :: u32)) AND (0xFF :: u32)) in OpcodeW_Mem_X Opcode Reg1 Reg2 (ucast OffType) Off 0 0)"

definition OpcodeW_Reg16_Mem16 :: "u32 \<Rightarrow> u8 \<Rightarrow> u8 \<Rightarrow> u8 \<Rightarrow> u32 \<Rightarrow> u32 \<Rightarrow> enc" where
  "OpcodeW_Reg16_Mem16 Opcode DstReg Reg1 Reg2 OffType Off =
     (let Opcode = Opcode OR ((push_bit 3 (ucast DstReg :: u32)) AND (0xFF :: u32)) in OpcodeW_Mem_X Opcode Reg1 Reg2 (ucast OffType) Off 0 0)"

definition OpcodeW_Reg32_Mem32 :: "u32 \<Rightarrow> u8 \<Rightarrow> u8 \<Rightarrow> u8 \<Rightarrow> u32 \<Rightarrow> u32 \<Rightarrow> enc" where
  "OpcodeW_Reg32_Mem32 Opcode DstReg Reg1 Reg2 OffType Off =
     (let Opcode = Opcode OR ((push_bit 3 (ucast DstReg :: u32)) AND (0xFF :: u32)) in OpcodeW_Mem_X Opcode Reg1 Reg2 (ucast OffType) Off 0 0)"

definition OpcodeB_Acc8_Imm8 :: "u8 \<Rightarrow> u32 \<Rightarrow> enc" where
  "OpcodeB_Acc8_Imm8 Opcode Imm8 =
     steps [ToBuffer Opcode, ToBuffer (ucast Imm8)]"

definition OpcodeB_Acc16_Imm16 :: "u8 \<Rightarrow> u32 \<Rightarrow> enc" where
  "OpcodeB_Acc16_Imm16 Opcode Imm16 =
     steps [ToBuffer Opcode, ToBuffer (ucast Imm16), ToBuffer (ucast (drop_bit 8 Imm16))]"

definition OpcodeB_Acc32_Imm32 :: "u8 \<Rightarrow> u32 \<Rightarrow> enc" where
  "OpcodeB_Acc32_Imm32 Opcode Imm32 =
     steps [ToBuffer Opcode, ToBuffer (ucast Imm32), ToBuffer (ucast (drop_bit 8 Imm32)),
       ToBuffer (ucast (drop_bit 16 Imm32)), ToBuffer (ucast (drop_bit 24 Imm32))]"

definition OpcodeW_Reg_Imm8 :: "u32 \<Rightarrow> u32 \<Rightarrow> u8 \<Rightarrow> u32 \<Rightarrow> enc" where
  "OpcodeW_Reg_Imm8 Opcode RegW Reg Imm8 =
     (let Opcode = (if RegW \<noteq> 0 then Opcode OR 0x100 else Opcode) in with_reg Reg (\<lambda>Mod RM. let Opcode = Opcode OR ((ucast RM :: u32) AND (0xFF :: u32));
       Opcode = Opcode OR ((push_bit 6 (ucast Mod :: u32)) AND (0xFF :: u32)) in
       steps [ToBuffer (ucast (drop_bit 8 Opcode)), ToBuffer (ucast Opcode), ToBuffer (ucast Imm8)]))"

definition OpcodeW_Mem_Imm8 :: "u32 \<Rightarrow> u32 \<Rightarrow> u8 \<Rightarrow> u8 \<Rightarrow> u32 \<Rightarrow> u32 \<Rightarrow> u32 \<Rightarrow> enc" where
  "OpcodeW_Mem_Imm8 Opcode MemW Reg1 Reg2 OffType Off Imm8 =
     (let Opcode = (if MemW \<noteq> 0 then Opcode OR 0x100 else Opcode) in OpcodeW_Mem_X Opcode Reg1 Reg2 (ucast OffType) Off 1 Imm8)"

definition OpcodeW_Reg8_Imm8 :: "u32 \<Rightarrow> u8 \<Rightarrow> u32 \<Rightarrow> enc" where
  "OpcodeW_Reg8_Imm8 Opcode Reg8 Imm8 =
     with_reg Reg8 (\<lambda>Mod RM. let Opcode = Opcode OR ((ucast RM :: u32) AND (0xFF :: u32));
       Opcode = Opcode OR ((push_bit 6 (ucast Mod :: u32)) AND (0xFF :: u32)) in
       steps [ToBuffer (ucast (drop_bit 8 Opcode)), ToBuffer (ucast Opcode), ToBuffer (ucast Imm8)])"

definition OpcodeW_Reg16_Imm16 :: "u32 \<Rightarrow> u8 \<Rightarrow> u32 \<Rightarrow> enc" where
  "OpcodeW_Reg16_Imm16 Opcode Reg16 Imm16 =
     with_reg Reg16 (\<lambda>Mod RM. let Opcode = Opcode OR ((ucast RM :: u32) AND (0xFF :: u32));
       Opcode = Opcode OR ((push_bit 6 (ucast Mod :: u32)) AND (0xFF :: u32)) in
       steps [ToBuffer (ucast (drop_bit 8 Opcode)), ToBuffer (ucast Opcode), ToBuffer (ucast Imm16),
       ToBuffer (ucast (drop_bit 8 Imm16))])"

definition OpcodeW_Reg32_Imm32 :: "u32 \<Rightarrow> u8 \<Rightarrow> u32 \<Rightarrow> enc" where
  "OpcodeW_Reg32_Imm32 Opcode Reg32 Imm32 =
     with_reg Reg32 (\<lambda>Mod RM. let Opcode = Opcode OR ((ucast RM :: u32) AND (0xFF :: u32));
       Opcode = Opcode OR ((push_bit 6 (ucast Mod :: u32)) AND (0xFF :: u32)) in
       steps [ToBuffer (ucast (drop_bit 8 Opcode)), ToBuffer (ucast Opcode), ToBuffer (ucast Imm32),
       ToBuffer (ucast (drop_bit 8 Imm32)), ToBuffer (ucast (drop_bit 16 Imm32)),
       ToBuffer (ucast (drop_bit 24 Imm32))])"

definition OpcodeW_Mem8_Imm8 :: "u32 \<Rightarrow> u8 \<Rightarrow> u8 \<Rightarrow> u32 \<Rightarrow> u32 \<Rightarrow> u32 \<Rightarrow> enc" where
  "OpcodeW_Mem8_Imm8 Opcode Reg1 Reg2 OffType Off Imm8 =
     OpcodeW_Mem_X Opcode Reg1 Reg2 (ucast OffType) Off 1 Imm8"

definition OpcodeW_Mem16_Imm16 :: "u32 \<Rightarrow> u8 \<Rightarrow> u8 \<Rightarrow> u32 \<Rightarrow> u32 \<Rightarrow> u32 \<Rightarrow> enc" where
  "OpcodeW_Mem16_Imm16 Opcode Reg1 Reg2 OffType Off Imm16 =
     OpcodeW_Mem_X Opcode Reg1 Reg2 (ucast OffType) Off 2 Imm16"

definition OpcodeW_Mem32_Imm32 :: "u32 \<Rightarrow> u8 \<Rightarrow> u8 \<Rightarrow> u32 \<Rightarrow> u32 \<Rightarrow> u32 \<Rightarrow> enc" where
  "OpcodeW_Mem32_Imm32 Opcode Reg1 Reg2 OffType Off Imm32 =
     OpcodeW_Mem_X Opcode Reg1 Reg2 (ucast OffType) Off 3 Imm32"

definition EncodeOpt_Reg8_Reg8 :: "u32 \<Rightarrow> u8 \<Rightarrow> u8 \<Rightarrow> enc" where
  "EncodeOpt_Reg8_Reg8 OptOpcode DstReg8 SrcReg8 =
     OpcodeW_Reg8_Reg8 OptOpcode DstReg8 SrcReg8"

definition EncodeOpt_Reg16_Reg16 :: "u32 \<Rightarrow> u8 \<Rightarrow> u8 \<Rightarrow> enc" where
  "EncodeOpt_Reg16_Reg16 OptOpcode DstReg16 SrcReg16 =
     OpcodeW_Reg16_Reg16 OptOpcode DstReg16 SrcReg16"

definition EncodeOpt_Reg32_Reg32 :: "u32 \<Rightarrow> u8 \<Rightarrow> u8 \<Rightarrow> enc" where
  "EncodeOpt_Reg32_Reg32 OptOpcode DstReg32 SrcReg32 =
     OpcodeW_Reg32_Reg32 OptOpcode DstReg32 SrcReg32"

definition EncodeOpt_Mem8_Reg8 :: "u32 \<Rightarrow> u8 \<Rightarrow> u8 \<Rightarrow> u32 \<Rightarrow> u32 \<Rightarrow> u8 \<Rightarrow> enc" where
  "EncodeOpt_Mem8_Reg8 OptOpcode Reg1 Reg2 OffType Off SrcReg8 =
     OpcodeW_Mem8_Reg8 OptOpcode Reg1 Reg2 OffType Off SrcReg8"

definition EncodeOpt_Mem16_Reg16 :: "u32 \<Rightarrow> u8 \<Rightarrow> u8 \<Rightarrow> u32 \<Rightarrow> u32 \<Rightarrow> u8 \<Rightarrow> enc" where
  "EncodeOpt_Mem16_Reg16 OptOpcode Reg1 Reg2 OffType Off SrcReg16 =
     OpcodeW_Mem16_Reg16 OptOpcode Reg1 Reg2 OffType Off SrcReg16"

definition EncodeOpt_Mem32_Reg32 :: "u32 \<Rightarrow> u8 \<Rightarrow> u8 \<Rightarrow> u32 \<Rightarrow> u32 \<Rightarrow> u8 \<Rightarrow> enc" where
  "EncodeOpt_Mem32_Reg32 OptOpcode Reg1 Reg2 OffType Off SrcReg32 =
     OpcodeW_Mem32_Reg32 OptOpcode Reg1 Reg2 OffType Off SrcReg32"

definition EncodeOpt_Reg8_Mem8 :: "u32 \<Rightarrow> u8 \<Rightarrow> u8 \<Rightarrow> u8 \<Rightarrow> u32 \<Rightarrow> u32 \<Rightarrow> enc" where
  "EncodeOpt_Reg8_Mem8 OptOpcode DstReg8 Reg1 Reg2 OffType Off =
     OpcodeW_Reg8_Mem8 OptOpcode DstReg8 Reg1 Reg2 OffType Off"

definition EncodeOpt_Reg16_Mem16 :: "u32 \<Rightarrow> u8 \<Rightarrow> u8 \<Rightarrow> u8 \<Rightarrow> u32 \<Rightarrow> u32 \<Rightarrow> enc" where
  "EncodeOpt_Reg16_Mem16 OptOpcode DstReg16 Reg1 Reg2 OffType Off =
     OpcodeW_Reg16_Mem16 OptOpcode DstReg16 Reg1 Reg2 OffType Off"

definition EncodeOpt_Reg32_Mem32 :: "u32 \<Rightarrow> u8 \<Rightarrow> u8 \<Rightarrow> u8 \<Rightarrow> u32 \<Rightarrow> u32 \<Rightarrow> enc" where
  "EncodeOpt_Reg32_Mem32 OptOpcode DstReg32 Reg1 Reg2 OffType Off =
     OpcodeW_Reg32_Mem32 OptOpcode DstReg32 Reg1 Reg2 OffType Off"

definition EncodeOpt_Acc8_Imm8 :: "u8 \<Rightarrow> u32 \<Rightarrow> enc" where
  "EncodeOpt_Acc8_Imm8 OptOpcode Imm8 =
     OpcodeB_Acc8_Imm8 OptOpcode Imm8"

definition EncodeOpt_Acc16_Imm16 :: "u8 \<Rightarrow> u32 \<Rightarrow> enc" where
  "EncodeOpt_Acc16_Imm16 OptOpcode Imm16 =
     OpcodeB_Acc16_Imm16 OptOpcode Imm16"

definition EncodeOpt_Acc32_Imm32 :: "u8 \<Rightarrow> u32 \<Rightarrow> enc" where
  "EncodeOpt_Acc32_Imm32 OptOpcode Imm32 =
     OpcodeB_Acc32_Imm32 OptOpcode Imm32"

definition EncodeOpt_Reg8_Imm8 :: "u32 \<Rightarrow> u8 \<Rightarrow> u32 \<Rightarrow> enc" where
  "EncodeOpt_Reg8_Imm8 OptOpcode Reg8 Imm8 =
     OpcodeW_Reg8_Imm8 OptOpcode Reg8 Imm8"

definition EncodeOpt_Reg16_Imm16 :: "u32 \<Rightarrow> u8 \<Rightarrow> u32 \<Rightarrow> enc" where
  "EncodeOpt_Reg16_Imm16 OptOpcode Reg16 Imm16 =
     OpcodeW_Reg16_Imm16 OptOpcode Reg16 Imm16"

definition EncodeOpt_Reg32_Imm32 :: "u32 \<Rightarrow> u8 \<Rightarrow> u32 \<Rightarrow> enc" where
  "EncodeOpt_Reg32_Imm32 OptOpcode Reg32 Imm32 =
     OpcodeW_Reg32_Imm32 OptOpcode Reg32 Imm32"

definition EncodeOpt_Mem8_Imm8 :: "u32 \<Rightarrow> u8 \<Rightarrow> u8 \<Rightarrow> u32 \<Rightarrow> u32 \<Rightarrow> u32 \<Rightarrow> enc" where
  "EncodeOpt_Mem8_Imm8 OptOpcode Reg1 Reg2 OffType Off Imm8 =
     OpcodeW_Mem8_Imm8 OptOpcode Reg1 Reg2 OffType Off Imm8"

definition EncodeOpt_Mem16_Imm16 :: "u32 \<Rightarrow> u8 \<Rightarrow> u8 \<Rightarrow> u32 \<Rightarrow> u32 \<Rightarrow> u32 \<Rightarrow> enc" where
  "EncodeOpt_Mem16_Imm16 OptOpcode Reg1 Reg2 OffType Off Imm16 =
     OpcodeW_Mem16_Imm16 OptOpcode Reg1 Reg2 OffType Off Imm16"

definition EncodeOpt_Mem32_Imm32 :: "u32 \<Rightarrow> u8 \<Rightarrow> u8 \<Rightarrow> u32 \<Rightarrow> u32 \<Rightarrow> u32 \<Rightarrow> enc" where
  "EncodeOpt_Mem32_Imm32 OptOpcode Reg1 Reg2 OffType Off Imm32 =
     OpcodeW_Mem32_Imm32 OptOpcode Reg1 Reg2 OffType Off Imm32"

definition EncodeDI_RegW :: "u8 \<Rightarrow> u8 \<Rightarrow> enc" where
  "EncodeDI_RegW OpcodeB RegW =
     ToBuffer (ucast ((ucast OpcodeB :: u32) OR (ucast RegW :: u32)))"

definition EncodeDI_Reg :: "u32 \<Rightarrow> u8 \<Rightarrow> enc" where
  "EncodeDI_Reg OpcodeW Reg =
     OpcodeW_Reg OpcodeW Reg"

definition EncodeDI_Mem :: "u32 \<Rightarrow> u8 \<Rightarrow> u8 \<Rightarrow> u32 \<Rightarrow> u32 \<Rightarrow> enc" where
  "EncodeDI_Mem OpcodeW Reg1 Reg2 OffType Off =
     OpcodeW_Mem_X OpcodeW Reg1 Reg2 (ucast OffType) Off 0 0"

definition EncodeDM_Reg :: "u32 \<Rightarrow> u8 \<Rightarrow> enc" where
  "EncodeDM_Reg OpcodeW Reg =
     OpcodeW_Reg OpcodeW Reg"

definition EncodeDM_Mem :: "u32 \<Rightarrow> u8 \<Rightarrow> u8 \<Rightarrow> u32 \<Rightarrow> u32 \<Rightarrow> enc" where
  "EncodeDM_Mem OpcodeW Reg1 Reg2 OffType Off =
     OpcodeW_Mem_X OpcodeW Reg1 Reg2 (ucast OffType) Off 0 0"

end
