(* ===== verification/Iasm_Source.thy ===== *)
theory Iasm_Source
  imports Iasm_Encoder
begin

text \<open>
  The front end of the assembler: \<^verbatim>\<open>apps/iasm/lexer.c\<close>, \<^verbatim>\<open>stable.c\<close>, \<^verbatim>\<open>cexpr.c\<close>, the conversions of
  \<^verbatim>\<open>string.c\<close> and the functions of \<^verbatim>\<open>parser.c\<close> that read an operand.  An operation is a function on the
  state of the assembler; \<^const>\<open>Inl\<close> is the message with which the program ends and the line that is
  printed with it, \<^const>\<open>None\<close> an access outside an array or an operation that C does not define.
  The assembler allocates little memory; \<open>malloc\<close> is taken to succeed there.
\<close>

section \<open>State\<close>

datatype operation = OPT_SCAN | OPT_SCAN1 | OPT_PARSE | OPT_NONE

text \<open>
  \<open>a_rest\<close> is \<open>Source\<close> from \<open>Pos\<close> on; both are strings without the terminator.  \<open>a_peeked\<close> is what
  \<open>.PEEK\<close> has printed.  \<open>a_stack n k\<close> is what the \<open>n\<close>-th call of \<open>GetMem\<close> finds in the element \<open>k\<close> of its
  array of tokens, which it does not initialise; \<open>a_pow\<close> is \<open>pow\<close> of the mathematical library, with the
  conversions from and to \<open>uint\<close>.
\<close>

record asm =
  a_enc :: encoder
  a_Source :: string
  a_rest :: string
  a_Line :: u32
  a_Symbols :: "(string \<times> u32) list"
  a_CurrentLine :: u32
  a_CurrentOperation :: operation
  a_peeked :: "(u32 \<times> string \<times> u32) list"
  a_stack :: "nat \<Rightarrow> nat \<Rightarrow> string"
  a_pow :: "u32 \<Rightarrow> u32 \<Rightarrow> u32"

type_synonym asm_error = "string \<times> u32 option"
type_synonym 'a asm_m = "asm \<Rightarrow> (asm_error + 'a \<times> asm) option"

definition ret :: "'a \<Rightarrow> 'a asm_m" where "ret x s = Some (Inr (x, s))"

definition bnd :: "'a asm_m \<Rightarrow> ('a \<Rightarrow> 'b asm_m) \<Rightarrow> 'b asm_m" where
  "bnd m k s =
     (case m s of
        None \<Rightarrow> None
      | Some (Inl e) \<Rightarrow> Some (Inl e)
      | Some (Inr (x, s)) \<Rightarrow> k x s)"

definition undefined_behaviour :: "'a asm_m" where "undefined_behaviour s = None"

text \<open>\<open>&&\<close> with an operand that can fail.\<close>

definition andalso :: "bool \<Rightarrow> bool asm_m \<Rightarrow> bool asm_m" where
  "andalso b m = (if b then m else ret False)"

text \<open>\<^verbatim>\<open>error.c\<close> and the macro \<open>ERROR\<close>, which leaves out the line while code is generated.\<close>

definition Error :: "string \<Rightarrow> 'a asm_m" where "Error msg s = Some (Inl (msg, None))"

definition ERROR :: "string \<Rightarrow> 'a asm_m" where
  "ERROR msg s =
     Some (Inl (msg, if a_CurrentOperation s \<noteq> OPT_PARSE then Some (a_CurrentLine s) else None))"

text \<open>A call of the encoder.\<close>

definition emit :: "enc \<Rightarrow> unit asm_m" where
  "emit m s =
     (case m (a_enc s) of
        None \<Rightarrow> None
      | Some (Inl msg) \<Rightarrow> Some (Inl (msg, None))
      | Some (Inr e) \<Rightarrow> Some (Inr ((), s\<lparr>a_enc := e\<rparr>)))"

section \<open>Lexer\<close>

datatype lex_status = STATUS_NONE | STATUS_TOKEN | STATUS_STRING | STATUS_MEMORY | STATUS_CEXPR

definition OPRD_SIZE :: nat where "OPRD_SIZE = 256"

text \<open>
  The comment: up to a line feed, which stays, or to the end.  A semicolon that is the last character
  of the source makes the loop miss the end of the source.
\<close>

fun skip_comment :: "string \<Rightarrow> string option" where
  "skip_comment [] = None"
| "skip_comment (c # cs) =
     (if c = CHR 0x0A then Some (c # cs) else if cs = [] then Some [] else skip_comment cs)"

lemma skip_comment_length [termination_simp]: "skip_comment cs = Some ds \<Longrightarrow> length ds \<le> length cs"
  by (induction cs) (auto split: if_splits)

definition token_fits :: "nat \<Rightarrow> string \<Rightarrow> u32 \<Rightarrow> (asm_error + 'a) option \<Rightarrow> (asm_error + 'a) option" where
  "token_fits BufferSize T Line r = (if BufferSize \<le> length T + 1 then Some (Inl (''Token is too long.'', Some Line)) else r)"

text \<open>\<open>_GetToken\<close>: the token so far, \<open>Line\<close> and the rest of the source.\<close>

fun lex :: "nat \<Rightarrow> lex_status \<Rightarrow> string \<Rightarrow> u32 \<Rightarrow> string \<Rightarrow> (asm_error + string \<times> u32 \<times> string) option" where
  "lex n st T Line [] = Some (Inr (T, Line, []))"
| "lex n st T Line (c # cs) =
     (if c = CHR 0x0A
      then if st = STATUS_NONE then token_fits n T (Line + 1) (Some (Inr (T @ [c], Line + 1, cs)))
           else Some (Inr (T, Line, c # cs))
      else if c \<in> {CHR 0x09, CHR 0x0D, CHR 0x0C, CHR 0x0B, CHR 0x20}
      then if st = STATUS_TOKEN then Some (Inr (T, Line, cs))
           else if st \<in> {STATUS_STRING, STATUS_MEMORY, STATUS_CEXPR} then token_fits n T Line (lex n st (T @ [c]) Line cs)
           else lex n st T Line cs
      else if c = CHR 0x2C
      then if st \<in> {STATUS_STRING, STATUS_MEMORY, STATUS_CEXPR} then token_fits n T Line (lex n st (T @ [c]) Line cs)
           else if st = STATUS_TOKEN then Some (Inr (T, Line, c # cs))
           else token_fits n T Line (Some (Inr (T @ [c], Line, cs)))
      else if c = CHR 0x27
      then if st = STATUS_NONE then token_fits n T Line (lex n STATUS_STRING (T @ [c]) Line cs)
           else if st = STATUS_STRING then token_fits n T Line (Some (Inr (T @ [c], Line, cs)))
           else lex n st T Line cs
      else if c = CHR 0x60
      then if st = STATUS_NONE then token_fits n T Line (lex n STATUS_CEXPR (T @ [c]) Line cs)
           else if st = STATUS_CEXPR then token_fits n T Line (Some (Inr (T @ [c], Line, cs)))
           else lex n st T Line cs
      else if c = CHR 0x5B
      then if st = STATUS_NONE then token_fits n T Line (lex n STATUS_MEMORY (T @ [c]) Line cs)
           else if st \<in> {STATUS_STRING, STATUS_CEXPR} then token_fits n T Line (lex n st (T @ [c]) Line cs)
           else lex n st T Line cs
      else if c = CHR 0x5D
      then if st = STATUS_MEMORY then token_fits n T Line (Some (Inr (T @ [c], Line, cs)))
           else if st \<in> {STATUS_STRING, STATUS_CEXPR} then token_fits n T Line (lex n st (T @ [c]) Line cs)
           else lex n st T Line cs
      else if c = CHR 0x3B
      then if st = STATUS_NONE
           then (case skip_comment cs of None \<Rightarrow> None | Some cs \<Rightarrow> lex n st T Line cs)
           else token_fits n T Line (lex n st (T @ [c]) Line cs)
      else token_fits n T Line
        (lex n (if st \<in> {STATUS_STRING, STATUS_MEMORY, STATUS_CEXPR} then st else STATUS_TOKEN) (T @ [c]) Line cs))"

declare lex.simps(2) [simp del]

text \<open>The macros \<open>GET_TOKEN\<close> and \<open>PEEK_TOKEN\<close>.\<close>

definition GET_TOKEN :: "string asm_m" where
  "GET_TOKEN s =
     (case lex OPRD_SIZE STATUS_NONE [] (a_Line s) (a_rest s) of
        None \<Rightarrow> None
      | Some (Inl e) \<Rightarrow> Some (Inl e)
      | Some (Inr (T, Line, cs)) \<Rightarrow> Some (Inr (T, s\<lparr>a_rest := cs, a_Line := Line, a_CurrentLine := Line\<rparr>)))"

definition PEEK_TOKEN :: "string asm_m" where
  "PEEK_TOKEN s =
     (case lex OPRD_SIZE STATUS_NONE [] (a_Line s) (a_rest s) of
        None \<Rightarrow> None
      | Some (Inl e) \<Rightarrow> Some (Inl e)
      | Some (Inr (T, Line, cs)) \<Rightarrow> Some (Inr (T, s\<lparr>a_CurrentLine := a_Line s\<rparr>)))"

definition ResetLexer :: "unit asm_m" where
  "ResetLexer s = Some (Inr ((), s\<lparr>a_rest := a_Source s, a_Line := 1\<rparr>))"

text \<open>\<open>InitLexer\<close> leaves \<open>Pos\<close> as it is.\<close>

definition InitLexer :: "string \<Rightarrow> unit asm_m" where
  "InitLexer Src s =
     Some (Inr ((), s\<lparr>a_Source := Src, a_rest := drop (length (a_Source s) - length (a_rest s)) Src\<rparr>))"

section \<open>Symbol table\<close>

definition MAX_SYMBOL_NAME_LENGTH :: nat where "MAX_SYMBOL_NAME_LENGTH = 49"
definition MAX_SYMBOL_COUNT :: nat where "MAX_SYMBOL_COUNT = 1024"

definition InitSTable :: "unit asm_m" where "InitSTable s = Some (Inr ((), s\<lparr>a_Symbols := []\<rparr>))"
definition DestroySTable :: "unit asm_m" where "DestroySTable s = Some (Inr ((), s\<lparr>a_Symbols := []\<rparr>))"

definition in_range :: "char \<Rightarrow> char \<Rightarrow> char \<Rightarrow> bool" where
  "in_range a b c = (of_char a \<le> (of_char c :: nat) \<and> of_char c \<le> (of_char b :: nat))"

definition valid_first_char :: "char \<Rightarrow> bool" where
  "valid_first_char c = (in_range CHR ''A'' CHR ''Z'' c \<or> in_range CHR ''a'' CHR ''z'' c \<or> c = CHR ''_'')"

definition valid_char :: "char \<Rightarrow> bool" where
  "valid_char c = (valid_first_char c \<or> in_range CHR ''0'' CHR ''9'' c)"

fun IsValidLabelName :: "string \<Rightarrow> bool" where
  "IsValidLabelName [] = False"
| "IsValidLabelName (c # cs) = (valid_first_char c \<and> list_all valid_char cs)"

definition CheckLabelName :: "string \<Rightarrow> unit asm_m" where
  "CheckLabelName Name s =
     (if MAX_SYMBOL_NAME_LENGTH < length Name then Error ''Label name is too long.'' s
      else if \<not> IsValidLabelName Name then Error ''Label name is invalid.'' s
      else if length (a_Symbols s) = MAX_SYMBOL_COUNT then Error ''Symbol count is too many.'' s
      else ret () s)"

definition AddLabelToSTable :: "string \<Rightarrow> u32 \<Rightarrow> unit asm_m" where
  "AddLabelToSTable Name Off =
     bnd (CheckLabelName Name) (\<lambda>_ s. Some (Inr ((), s\<lparr>a_Symbols := a_Symbols s @ [(Name, Off)]\<rparr>)))"

definition HasLabel :: "string \<Rightarrow> bool asm_m" where
  "HasLabel Name = bnd (CheckLabelName Name) (\<lambda>_ s. ret (list_ex (\<lambda>(n, off). n = Name) (a_Symbols s)) s)"

definition SetLabelToSTable :: "string \<Rightarrow> u32 \<Rightarrow> unit asm_m" where
  "SetLabelToSTable Name Off =
     bnd (CheckLabelName Name) (\<lambda>_. bnd (HasLabel Name) (\<lambda>has.
       if has
       then (\<lambda>s. Some (Inr ((), s\<lparr>a_Symbols := map (\<lambda>(n, off). if n = Name then (n, Off) else (n, off)) (a_Symbols s)\<rparr>)))
       else AddLabelToSTable Name Off))"

text \<open>\<^const>\<open>None\<close> in the result: not found.\<close>

definition GetLabelOffsetFromSTable :: "string \<Rightarrow> u32 option asm_m" where
  "GetLabelOffsetFromSTable Name = bnd (CheckLabelName Name) (\<lambda>_ s. ret (map_of (a_Symbols s) Name) s)"

section \<open>Numbers\<close>

definition IsNumber :: "string \<Rightarrow> bool" where
  "IsNumber Token =
     (let digit = in_range CHR ''0'' CHR ''9'' in
      case length Token of
        0 \<Rightarrow> False
      | Suc 0 \<Rightarrow> digit (hd Token)
      | Suc (Suc n) \<Rightarrow>
          (let LastChar = last Token; front = butlast Token in
           if digit LastChar \<or> LastChar \<in> {CHR ''d'', CHR ''D''} then list_all digit front
           else if LastChar \<in> {CHR ''h'', CHR ''H''}
           then digit (hd Token) \<and>
             list_all (\<lambda>c. digit c \<or> in_range CHR ''a'' CHR ''f'' c \<or> in_range CHR ''A'' CHR ''F'' c) (tl front)
           else if LastChar \<in> {CHR ''b'', CHR ''B''}
           then hd Token \<in> {CHR ''0'', CHR ''1''} \<and> list_all (\<lambda>c. c \<in> {CHR ''0'', CHR ''1'', CHR ''_''}) (tl front)
           else if LastChar \<in> {CHR ''o'', CHR ''O''} then list_all (in_range CHR ''0'' CHR ''7'') front
           else False))"

text \<open>The loops from the last character to the first; \<open>ui1\<close> is the weight of the digit.\<close>

fun digits_loop :: "(char \<Rightarrow> u32 option) \<Rightarrow> u32 \<Rightarrow> string \<Rightarrow> u32 \<Rightarrow> u32 \<Rightarrow> u32" where
  "digits_loop val base [] ui1 Number = Number"
| "digits_loop val base (c # cs) ui1 Number =
     (case val c of
        Some d \<Rightarrow> digits_loop val base cs (ui1 * base) (Number + d * ui1)
      | None \<Rightarrow> 0)"

definition digit_value :: "char \<Rightarrow> char \<Rightarrow> u32 \<Rightarrow> char \<Rightarrow> u32 option" where
  "digit_value a b v c = (if in_range a b c then Some (of_char c - of_char a + v) else None)"

definition hex_value :: "char \<Rightarrow> u32 option" where
  "hex_value c =
     (case digit_value CHR ''0'' CHR ''9'' 0 c of
        Some d \<Rightarrow> Some d
      | None \<Rightarrow>
          (case digit_value CHR ''a'' CHR ''f'' 10 c of
             Some d \<Rightarrow> Some d
           | None \<Rightarrow> digit_value CHR ''A'' CHR ''F'' 10 c))"

definition StringToUInteger :: "string \<Rightarrow> u32" where
  "StringToUInteger Str = digits_loop (digit_value CHR ''0'' CHR ''9'' 0) 10 (rev Str) 1 0"

definition OctStringToUInteger :: "string \<Rightarrow> u32" where
  "OctStringToUInteger Str = digits_loop (digit_value CHR ''0'' CHR ''7'' 0) 8 (rev Str) 1 0"

definition HexStringToUInteger :: "string \<Rightarrow> u32" where
  "HexStringToUInteger Str = digits_loop hex_value 16 (rev Str) 1 0"

fun bin_loop :: "string \<Rightarrow> u32 \<Rightarrow> u32 \<Rightarrow> u32" where
  "bin_loop [] ui1 Number = Number"
| "bin_loop (c # cs) ui1 Number =
     (if c \<notin> {CHR ''1'', CHR ''_'', CHR ''0''} then 0
      else bin_loop cs (if c \<noteq> CHR ''_'' then push_bit 1 ui1 else ui1) (if c = CHR ''1'' then Number + ui1 else Number))"

definition BinStringToUInteger :: "string \<Rightarrow> u32" where "BinStringToUInteger Str = bin_loop (rev Str) 1 0"

definition Number :: "string \<Rightarrow> u32 asm_m" where
  "Number S =
     (if \<not> IsNumber S then ERROR ''Invalid number.''
      else let LastChar = last S; Str = butlast S in
        if LastChar \<in> {CHR ''h'', CHR ''H''} then ret (HexStringToUInteger Str)
        else if LastChar \<in> {CHR ''b'', CHR ''B''} then ret (BinStringToUInteger Str)
        else if LastChar \<in> {CHR ''o'', CHR ''O''} then ret (OctStringToUInteger Str)
        else if LastChar \<in> {CHR ''d'', CHR ''D''} then ret (StringToUInteger Str)
        else if in_range CHR ''0'' CHR ''9'' LastChar then ret (StringToUInteger S)
        else ERROR ''Invalid number.'')"

end
