(* ===== verification/Iasm_Operands.thy ===== *)
theory Iasm_Operands
  imports Iasm_Source
begin

text \<open>
  Constant expressions (\<^verbatim>\<open>apps/iasm/cexpr.c\<close>) and the functions of \<^verbatim>\<open>parser.c\<close> that recognise and read
  an operand.
\<close>

section \<open>Constant expressions\<close>

definition MAX_TOKEN_LEN :: nat where "MAX_TOKEN_LEN = 50"
definition TOKEN_BUFFER_SIZE :: nat where "TOKEN_BUFFER_SIZE = 1024"

definition IsCExpr :: "string \<Rightarrow> bool" where
  "IsCExpr CExpr = (3 \<le> length CExpr \<and> hd CExpr = CHR 0x60 \<and> last CExpr = CHR 0x60)"

definition append_char :: "string \<Rightarrow> char \<Rightarrow> string + string" where
  "append_char Token chr = (if length Token = MAX_TOKEN_LEN then Inl ''Token is too long.'' else Inr (Token @ [chr]))"

text \<open>\<open>__APPEND_TOKEN\<close>, if there is one.\<close>

definition append_token :: "string \<Rightarrow> string list \<Rightarrow> string + string list" where
  "append_token Token Tokens =
     (if Token = [] then Inr Tokens
      else if length Tokens = TOKEN_BUFFER_SIZE - 1 then Inl ''Token is too many.''
      else Inr (Tokens @ [Token]))"

definition cexpr_blank :: "char \<Rightarrow> bool" where
  "cexpr_blank c = (c \<in> {CHR 0x20, CHR 0x09, CHR 0x0D, CHR 0x0C, CHR 0x0B})"

definition cexpr_operator :: "char \<Rightarrow> bool" where "cexpr_operator c = (c \<in> set ''+-*/%&|^~()'')"

fun GetCExprTokens :: "string \<Rightarrow> string \<Rightarrow> string list \<Rightarrow> string + string list" where
  "GetCExprTokens [] Token Tokens = append_token Token Tokens"
| "GetCExprTokens (c # cs) Token Tokens =
     (if cexpr_blank c
      then (case append_token Token Tokens of Inl msg \<Rightarrow> Inl msg | Inr Tokens \<Rightarrow> GetCExprTokens cs [] Tokens)
      else if c = CHR ''<'' \<or> c = CHR ''>''
      then (case append_token Token Tokens of
              Inl msg \<Rightarrow> Inl msg
            | Inr Tokens \<Rightarrow>
                (case cs of
                   d # ds \<Rightarrow>
                     if d = c
                     then (case append_token [c, c] Tokens of Inl msg \<Rightarrow> Inl msg | Inr Tokens \<Rightarrow> GetCExprTokens ds [] Tokens)
                     else (case append_token [c] Tokens of Inl msg \<Rightarrow> Inl msg | Inr Tokens \<Rightarrow> GetCExprTokens cs [] Tokens)
                 | [] \<Rightarrow> append_token [c] Tokens))
      else if cexpr_operator c
      then (case append_token Token Tokens of
              Inl msg \<Rightarrow> Inl msg
            | Inr Tokens \<Rightarrow>
                (case append_token [c] Tokens of Inl msg \<Rightarrow> Inl msg | Inr Tokens \<Rightarrow> GetCExprTokens cs [] Tokens))
      else if valid_char c
      then (case append_char Token c of Inl msg \<Rightarrow> Inl msg | Inr Token \<Rightarrow> GetCExprTokens cs Token Tokens)
      else GetCExprTokens cs Token Tokens)"

declare GetCExprTokens.simps(2) [simp del]

text \<open>
  A level of the expressions takes the level below as an argument and returns the value and the
  tokens that are left.  \<open>cexpr_loop\<close> is the loop of a level of operators that associate to the left:
  \<open>oprs\<close> is what an operator computes, \<^const>\<open>None\<close> where C does not define it.
\<close>

type_synonym cexpr = "string list \<Rightarrow> (u32 \<times> string list) asm_m"

fun cexpr_loop :: "nat \<Rightarrow> (string \<Rightarrow> (u32 \<Rightarrow> u32 \<Rightarrow> u32 option) option) \<Rightarrow> cexpr \<Rightarrow> u32 \<Rightarrow> cexpr" where
  "cexpr_loop 0 oprs right Result Tokens = undefined_behaviour"
| "cexpr_loop (Suc n) oprs right Result Tokens =
     (case Tokens of
        [] \<Rightarrow> ret (Result, [])
      | Token # rest \<Rightarrow>
          (case oprs Token of
             None \<Rightarrow> ret (Result, Tokens)
           | Some f \<Rightarrow>
               bnd (right rest) (\<lambda>(R, Tokens).
               case f Result R of
                 None \<Rightarrow> undefined_behaviour
               | Some Result \<Rightarrow> cexpr_loop n oprs right Result Tokens)))"

definition while_operator :: "(string \<Rightarrow> (u32 \<Rightarrow> u32 \<Rightarrow> u32 option) option) \<Rightarrow> cexpr \<Rightarrow> u32 \<Rightarrow> cexpr" where
  "while_operator oprs right Result Tokens = cexpr_loop (Suc (length Tokens)) oprs right Result Tokens"

definition pow_oprs :: "(u32 \<Rightarrow> u32 \<Rightarrow> u32) \<Rightarrow> string \<Rightarrow> (u32 \<Rightarrow> u32 \<Rightarrow> u32 option) option" where
  "pow_oprs pow t = (if t = ''POW'' then Some (\<lambda>a b. Some (pow a b)) else None)"

definition mul_oprs :: "string \<Rightarrow> (u32 \<Rightarrow> u32 \<Rightarrow> u32 option) option" where
  "mul_oprs t =
     (if t = ''*'' then Some (\<lambda>a b. Some (a * b))
      else if t = ''/'' then Some (\<lambda>a b. if b = 0 then None else Some (a div b))
      else if t = ''%'' then Some (\<lambda>a b. if b = 0 then None else Some (a mod b))
      else None)"

definition add_oprs :: "string \<Rightarrow> (u32 \<Rightarrow> u32 \<Rightarrow> u32 option) option" where
  "add_oprs t =
     (if t = ''+'' then Some (\<lambda>a b. Some (a + b)) else if t = ''-'' then Some (\<lambda>a b. Some (a - b)) else None)"

definition shift_oprs :: "string \<Rightarrow> (u32 \<Rightarrow> u32 \<Rightarrow> u32 option) option" where
  "shift_oprs t =
     (if t = ''<<'' then Some (\<lambda>a b. if 32 \<le> b then None else Some (push_bit (unat b) a))
      else if t = ''>>'' then Some (\<lambda>a b. if 32 \<le> b then None else Some (drop_bit (unat b) a))
      else None)"

definition bit_oprs :: "string \<Rightarrow> (u32 \<Rightarrow> u32 \<Rightarrow> u32 option) option" where
  "bit_oprs t =
     (if t = ''&'' then Some (\<lambda>a b. Some (a AND b)) else if t = ''|'' then Some (\<lambda>a b. Some (a OR b))
      else if t = ''^'' then Some (\<lambda>a b. Some (a XOR b)) else None)"

text \<open>
  \<open>IsConstant\<close> and \<open>GetConstant\<close> for a token of an expression.  Such a token has no backquote, so the
  case of an expression within the expression does not occur.
\<close>

definition GetLabel :: "string \<Rightarrow> u32 asm_m" where
  "GetLabel Constant s =
     bnd (bnd (andalso (a_CurrentOperation s = OPT_SCAN) (HasLabel Constant))
            (\<lambda>has. ret (a_CurrentOperation s = OPT_SCAN \<and> \<not> has)))
       (\<lambda>forward.
        if forward then ret 0
        else bnd (GetLabelOffsetFromSTable Constant) (\<lambda>v.
          case v of Some Value \<Rightarrow> ret Value | None \<Rightarrow> ERROR ''Unknown label.'')) s"

definition CalcCExpr_Atom :: cexpr where
  "CalcCExpr_Atom Tokens =
     (case Tokens of
        [] \<Rightarrow> Error ''Invalid constant expression.''
      | Token # Tokens \<Rightarrow>
          if IsNumber Token then bnd (Number Token) (\<lambda>v. ret (v, Tokens))
          else if IsValidLabelName Token then bnd (GetLabel Token) (\<lambda>v. ret (v, Tokens))
          else Error ''Invalid operand.'')"

definition CalcCExpr_Parentheses :: "cexpr \<Rightarrow> cexpr" where
  "CalcCExpr_Parentheses cexpr Tokens =
     (case Tokens of
        [] \<Rightarrow> CalcCExpr_Atom Tokens
      | Token # rest \<Rightarrow>
          if Token = ''(''
          then bnd (cexpr rest) (\<lambda>(Result, Tokens).
                 if Tokens \<noteq> [] \<and> hd Tokens = '')'' then ret (Result, Tokens)
                 else Error (''Constant expression expects '' @ [CHR 0x27, CHR 0x29, CHR 0x27]))
          else CalcCExpr_Atom Tokens)"

definition CalcCExpr_Unary :: "cexpr \<Rightarrow> cexpr" where
  "CalcCExpr_Unary paren Tokens =
     (case Tokens of
        [] \<Rightarrow> paren Tokens
      | Token # rest \<Rightarrow>
          if Token = ''+'' then paren rest
          else if Token = ''-'' then bnd (paren rest) (\<lambda>(v, Tokens). ret (- v, Tokens))
          else if Token = ''~'' then bnd (paren rest) (\<lambda>(v, Tokens). ret (NOT v, Tokens))
          else paren Tokens)"

definition CalcCExpr_Pow :: "cexpr \<Rightarrow> cexpr" where
  "CalcCExpr_Pow unary Tokens s =
     bnd (unary Tokens) (\<lambda>(v, Tokens). while_operator (pow_oprs (a_pow s)) unary v Tokens) s"

definition CalcCExpr_Mul_Div_Mod :: "cexpr \<Rightarrow> cexpr" where
  "CalcCExpr_Mul_Div_Mod pow Tokens = bnd (pow Tokens) (\<lambda>(v, Tokens). while_operator mul_oprs pow v Tokens)"

definition CalcCExpr_Add_Sub :: "cexpr \<Rightarrow> cexpr" where
  "CalcCExpr_Add_Sub mul Tokens = bnd (mul Tokens) (\<lambda>(v, Tokens). while_operator add_oprs mul v Tokens)"

text \<open>The right operand of a shift is of the level of products.\<close>

definition CalcCExpr_Shift :: "cexpr \<Rightarrow> cexpr \<Rightarrow> cexpr" where
  "CalcCExpr_Shift add mul Tokens = bnd (add Tokens) (\<lambda>(v, Tokens). while_operator shift_oprs mul v Tokens)"

definition CalcCExpr_And_Or_Xor :: "cexpr \<Rightarrow> cexpr" where
  "CalcCExpr_And_Or_Xor shift Tokens = bnd (shift Tokens) (\<lambda>(v, Tokens). while_operator bit_oprs shift v Tokens)"

text \<open>The depth is bounded by the number of parentheses; \<open>n\<close> counts it.\<close>

primrec CalcCExpr :: "nat \<Rightarrow> cexpr" where
  "CalcCExpr 0 = (\<lambda>Tokens. undefined_behaviour)"
| "CalcCExpr (Suc n) =
     (let mul = CalcCExpr_Mul_Div_Mod (CalcCExpr_Pow (CalcCExpr_Unary (CalcCExpr_Parentheses (CalcCExpr n)))) in
      CalcCExpr_And_Or_Xor (CalcCExpr_Shift (CalcCExpr_Add_Sub mul) mul))"

text \<open>Without a token the element the evaluation reads is not initialised.\<close>

definition GetCExprResult :: "string \<Rightarrow> u32 asm_m" where
  "GetCExprResult CExpr =
     (if \<not> IsCExpr CExpr then Error ''Invalid constant expression.''
      else case GetCExprTokens CExpr [] [] of
        Inl msg \<Rightarrow> Error msg
      | Inr Tokens \<Rightarrow>
          if Tokens = [] then undefined_behaviour
          else bnd (CalcCExpr (Suc (length Tokens)) Tokens) (\<lambda>(v, Tokens). ret v))"

section \<open>Operands\<close>

definition IsReg :: "string \<Rightarrow> bool" where "IsReg Token = (Token \<noteq> [] \<and> hd Token = CHR ''%'')"
definition IsLabel :: "string \<Rightarrow> bool" where "IsLabel Token = IsValidLabelName Token"
definition IsConstant :: "string \<Rightarrow> bool" where "IsConstant Token = (IsNumber Token \<or> IsLabel Token \<or> IsCExpr Token)"
definition IsMem :: "string \<Rightarrow> bool" where "IsMem Token = (Token \<noteq> [] \<and> hd Token = CHR ''['' \<and> last Token = CHR '']'')"
definition IsString :: "string \<Rightarrow> bool" where "IsString Token = (Token \<noteq> [] \<and> hd Token = CHR 0x27 \<and> last Token = CHR 0x27)"

definition IsReg8 :: "string \<Rightarrow> bool" where
  "IsReg8 Token = (Token \<in> {''%AL'', ''%BL'', ''%CL'', ''%DL'', ''%AH'', ''%BH'', ''%CH'', ''%DH''})"
definition IsReg16 :: "string \<Rightarrow> bool" where
  "IsReg16 Token = (Token \<in> {''%AX'', ''%BX'', ''%CX'', ''%DX'', ''%SI'', ''%DI'', ''%BP'', ''%SP''})"
definition IsRegAX :: "string \<Rightarrow> bool" where "IsRegAX Token = (Token = ''%AX'')"
definition IsReg32 :: "string \<Rightarrow> bool" where
  "IsReg32 Token = (Token \<in> {''%EAX'', ''%EBX'', ''%ECX'', ''%EDX'', ''%ESI'', ''%EDI'', ''%EBP'', ''%ESP''})"
definition IsReg32N :: "u8 \<Rightarrow> bool" where "IsReg32N Reg = (Reg \<in> {0, 3, 1, 2, 6, 7, 5, 4})"
definition IsControlReg :: "string \<Rightarrow> bool" where
  "IsControlReg Token = (Token \<in> {''%CR0'', ''%CR1'', ''%CR2'', ''%CR3'', ''%CR4'', ''%CR5'', ''%CR6'', ''%CR7''})"
definition IsDebugReg :: "string \<Rightarrow> bool" where
  "IsDebugReg Token = (Token \<in> {''%DR0'', ''%DR1'', ''%DR2'', ''%DR3'', ''%DR4'', ''%DR5'', ''%DR6'', ''%DR7''})"
definition IsTestReg :: "string \<Rightarrow> bool" where
  "IsTestReg Token = (Token \<in> {''%TR0'', ''%TR1'', ''%TR2'', ''%TR3'', ''%TR4'', ''%TR5'', ''%TR6'', ''%TR7''})"
definition IsX87DataReg :: "string \<Rightarrow> bool" where
  "IsX87DataReg Token = (Token \<in> {''%ST0'', ''%ST1'', ''%ST2'', ''%ST3'', ''%ST4'', ''%ST5'', ''%ST6'', ''%ST7''})"
definition IsX87DataReg0 :: "string \<Rightarrow> bool" where "IsX87DataReg0 Token = (Token = ''%ST0'')"
definition IsX87DataReg1 :: "string \<Rightarrow> bool" where "IsX87DataReg1 Token = (Token = ''%ST1'')"

text \<open>\<open>IsSeg\<close> skips the first character without a look at it.\<close>

definition IsSeg :: "string \<Rightarrow> bool asm_m" where
  "IsSeg Name =
     (case Name of
        [] \<Rightarrow> undefined_behaviour
      | c # cs \<Rightarrow> ret (cs \<in> {''CS'', ''ES'', ''SS'', ''DS'', ''FS'', ''GS''}))"

definition GetConstant :: "string \<Rightarrow> u32 asm_m" where
  "GetConstant Constant =
     (if IsNumber Constant then Number Constant
      else if IsLabel Constant then GetLabel Constant
      else if IsCExpr Constant then GetCExprResult Constant
      else Error ''Invalid constant.'')"

definition IsImm8 :: "string \<Rightarrow> bool asm_m" where
  "IsImm8 Str = (if \<not> IsConstant Str then ret False else bnd (GetConstant Str) (\<lambda>N. ret (N \<le> 0xFF)))"
definition IsImm16 :: "string \<Rightarrow> bool asm_m" where
  "IsImm16 Str = (if \<not> IsConstant Str then ret False else bnd (GetConstant Str) (\<lambda>N. ret (N \<le> 0xFFFF)))"
definition IsImm32 :: "string \<Rightarrow> bool asm_m" where
  "IsImm32 Str = (if \<not> IsConstant Str then ret False else bnd (GetConstant Str) (\<lambda>N. ret (N \<le> 0xFFFFFFFF)))"

definition register_names :: "(string \<times> u8) list" where
  "register_names =
     [(''EAX'', 0), (''AX'', 0), (''AL'', 0), (''EBX'', 3), (''BX'', 3), (''BL'', 3), (''ECX'', 1), (''CX'', 1), (''CL'', 1),
      (''EDX'', 2), (''DX'', 2), (''DL'', 2), (''ESP'', 4), (''SP'', 4), (''AH'', 4), (''EDI'', 7), (''DI'', 7), (''BH'', 7),
      (''EBP'', 5), (''BP'', 5), (''CH'', 5), (''ESI'', 6), (''SI'', 6), (''DH'', 6),
      (''CR0'', 0), (''CR1'', 1), (''CR2'', 2), (''CR3'', 3), (''CR4'', 4), (''CR5'', 5), (''CR6'', 6), (''CR7'', 7),
      (''DR0'', 0), (''DR1'', 1), (''DR2'', 2), (''DR3'', 3), (''DR4'', 4), (''DR5'', 5), (''DR6'', 6), (''DR7'', 7),
      (''TR0'', 0), (''TR1'', 1), (''TR2'', 2), (''TR3'', 3), (''TR4'', 4), (''TR5'', 5), (''TR6'', 6), (''TR7'', 7),
      (''ST0'', 0), (''ST1'', 1), (''ST2'', 2), (''ST3'', 3), (''ST4'', 4), (''ST5'', 5), (''ST6'', 6), (''ST7'', 7),
      (''CS'', 1), (''DS'', 3), (''ES'', 0), (''SS'', 2), (''FS'', 4), (''GS'', 5)]"

definition GetReg :: "string \<Rightarrow> u8 asm_m" where
  "GetReg RegName =
     (if length RegName < 2 \<or> hd RegName \<noteq> CHR ''%'' then ERROR ''Invalid register.''
      else case map_of register_names (tl RegName) of
        Some Reg \<Rightarrow> ret Reg
      | None \<Rightarrow> ERROR ''Invalid register.'')"

definition MEMREF_TOKEN_COUNT :: nat where "MEMREF_TOKEN_COUNT = 64"
definition MEMREF_PER_TOKEN_SIZE :: nat where "MEMREF_PER_TOKEN_SIZE = 64"

definition isspace :: "char \<Rightarrow> bool" where
  "isspace ch = (ch \<in> {CHR 0x20, CHR 0x09, CHR 0x0D, CHR 0x0C, CHR 0x0B, CHR 0x0A})"

lemma rest_shorter: "dropWhile P cs = d # ds \<Longrightarrow> length ds < length cs"
  using length_dropWhile_le [of P cs] by simp

text \<open>
  The loop of \<open>GetMem\<close> over the characters after the bracket.  \<open>cur\<close> is what is written of the current token
  (\<open>InToken\<close>: it is not empty), \<open>toks\<close> the \<open>TokenCount\<close> tokens before it, \<^const>\<open>None\<close> where nothing was
  written.  After the blanks behind a token \<open>Chr\<close> is the next character, and \<open>Mem\<close> points to it, too.
\<close>

function mem_tokens :: "string \<Rightarrow> string \<Rightarrow> string option list \<Rightarrow> string + string option list" where
  "mem_tokens [] cur toks = Inr toks"
| "mem_tokens (c # cs) cur toks =
     (let after = (\<lambda>Chr Mem.
            if Chr \<noteq> CHR 0x2C \<and> MEMREF_PER_TOKEN_SIZE - 1 \<le> length cur
            then Inl (Inl ''Token is too long in memory reference.'')
            else if MEMREF_TOKEN_COUNT \<le> length toks then Inl (Inl ''Token is too many in memory reference.'')
            else if Chr = CHR 0x2C then Inr (Mem, [], toks @ [if cur = [] then None else Some cur])
            else if Chr = CHR 0x5D then Inl (Inr (toks @ [if cur = [] then None else Some cur]))
            else Inr (Mem, cur @ [Chr], toks))
      in case (if isspace c
               then if cur = [] then Inr (cs, [], toks)
                 else case dropWhile isspace cs of
                     [] \<Rightarrow> Inl (Inl (''Expect '' @ [CHR 0x27, CHR 0x5D, CHR 0x27] @ '' in memory reference.''))
                   | Chr # Mem \<Rightarrow> after Chr (Chr # Mem)
               else after c cs) of
        Inl r \<Rightarrow> r
      | Inr (Mem, cur, toks) \<Rightarrow> mem_tokens Mem cur toks)"
  by pat_completeness auto
termination
  by (relation "measure (length \<circ> fst)")
    (auto simp: Let_def dest: rest_shorter split: if_splits list.splits)

declare mem_tokens.simps(2) [simp del]

text \<open>The test of the registers at the end.\<close>

definition mem_registers_ok :: "u8 \<Rightarrow> u8 \<Rightarrow> bool" where
  "mem_registers_ok R1 R2 =
     ((R1, R2) \<in> {(REG_BX, REG_SI), (REG_SI, REG_BX), (REG_BX, REG_DI), (REG_DI, REG_BX),
         (REG_BP, REG_SI), (REG_SI, REG_BP), (REG_BP, REG_DI), (REG_DI, REG_BP),
         (REG_SI, REG_NONE), (REG_NONE, REG_SI), (REG_DI, REG_NONE), (REG_NONE, REG_DI),
         (REG_BX, REG_NONE), (REG_NONE, REG_BX), (REG_BP, REG_NONE), (REG_NONE, REG_BP), (REG_NONE, REG_NONE)} \<or>
      IsReg32N R1 \<and> R2 = REG_NONE \<or> R1 = REG_NONE \<and> IsReg32N R2 \<or> IsReg32N R1 \<and> IsReg32N R2)"

definition mem_operands :: "(nat \<Rightarrow> string) \<Rightarrow> nat \<Rightarrow> (u8 \<times> u8 \<times> u32) asm_m" where
  "mem_operands Token TokenCount =
     (let given = (\<lambda>k. k < TokenCount \<and> Token k \<noteq> []) in
      bnd (if given 0 then GetReg (Token 0) else ret REG_NONE) (\<lambda>R1.
      bnd (if given 1 then GetReg (Token 1) else ret REG_NONE) (\<lambda>R2.
      bnd (if given 2 then GetConstant (Token 2) else ret 0) (\<lambda>Off.
      bnd (if given 3 then GetConstant (Token 3) else ret 0) (\<lambda>Scale.
      if mem_registers_ok R1 R2 then ret (R1, R2, Off) else ERROR ''Invalid memory reference'')))))"

definition GetMem :: "string \<Rightarrow> (u8 \<times> u8 \<times> u32) asm_m" where
  "GetMem Mem s =
     (case mem_tokens (tl Mem) [] [] of
        Inl msg \<Rightarrow> ERROR msg s
      | Inr toks \<Rightarrow>
          if 4 < length toks then ERROR ''Token is too long in memory reference.'' s
          else mem_operands (\<lambda>k. case toks ! k of Some t \<Rightarrow> t | None \<Rightarrow> a_stack s 0 k) (length toks)
            (s\<lparr>a_stack := \<lambda>n. a_stack s (Suc n)\<rparr>))"

text \<open>The loop of \<open>GetString\<close>: everything but the first and the last character.\<close>

definition GetString :: "string \<Rightarrow> string" where "GetString Token = butlast (tl Token)"

definition GetOffType :: "u32 \<Rightarrow> u32" where
  "GetOffType Off = (if Off = 0 then 0 else if Off \<le> 0xFF then 1 else if Off \<le> 0xFFFF then 2 else 3)"

definition ExpectComma :: "string \<Rightarrow> unit asm_m" where
  "ExpectComma Token = (if Token \<noteq> '','' then ERROR (''Expect '' @ [CHR 0x27, CHR 0x2C, CHR 0x27] @ ''.'') else ret ())"

definition InvalidInstruction :: "unit asm_m" where "InvalidInstruction = ERROR ''Invalid instruction''"

end
