(* ===== verification/Iasm_Macros.thy ===== *)
theory Iasm_Macros
  imports Iasm_Encoder
begin

text \<open>
  \<^verbatim>\<open>apps/iasm/encoder.h\<close>: the macros that define the encoders of a family of instructions, as
  definitions with the opcode as their first argument, and the opcodes of the families from
  \<^verbatim>\<open>opcode.h\<close>, in the order of the definitions of the macro.
\<close>

section \<open>\<open>DefineEncodeOpt_X_X\<close>\<close>

definition EncodeALU_Reg8_Reg8 :: "u32 \<Rightarrow> u8 \<Rightarrow> u8 \<Rightarrow> enc" where
  "EncodeALU_Reg8_Reg8 opc DstReg SrcReg =
     steps [InstructionBegin, EncodeOpt_Reg8_Reg8 opc DstReg SrcReg, InstructionEnd]"

definition EncodeALU_Reg16_Reg16 :: "u32 \<Rightarrow> u8 \<Rightarrow> u8 \<Rightarrow> enc" where
  "EncodeALU_Reg16_Reg16 opc DstReg SrcReg =
     steps [InstructionBegin, SwitchOprdToBit16, InstructionPrefix, EncodeOpt_Reg16_Reg16 opc DstReg SrcReg,
       InstructionEnd]"

definition EncodeALU_Reg32_Reg32 :: "u32 \<Rightarrow> u8 \<Rightarrow> u8 \<Rightarrow> enc" where
  "EncodeALU_Reg32_Reg32 opc DstReg SrcReg =
     steps [InstructionBegin, SwitchOprdToBit32, InstructionPrefix, EncodeOpt_Reg32_Reg32 opc DstReg SrcReg,
       InstructionEnd]"

definition EncodeALU_Mem8_Reg8 :: "u32 \<Rightarrow> u8 \<Rightarrow> u8 \<Rightarrow> u32 \<Rightarrow> u32 \<Rightarrow> u8 \<Rightarrow> enc" where
  "EncodeALU_Mem8_Reg8 opc Reg1 Reg2 OffType Off SrcReg =
     steps [InstructionBegin, EncodeOpt_Mem8_Reg8 opc Reg1 Reg2 OffType Off SrcReg, InstructionEnd]"

definition EncodeALU_Mem16_Reg16 :: "u32 \<Rightarrow> u8 \<Rightarrow> u8 \<Rightarrow> u32 \<Rightarrow> u32 \<Rightarrow> u8 \<Rightarrow> enc" where
  "EncodeALU_Mem16_Reg16 opc Reg1 Reg2 OffType Off SrcReg =
     steps [InstructionBegin, SwitchOprdToBit16, InstructionPrefix,
       EncodeOpt_Mem16_Reg16 opc Reg1 Reg2 OffType Off SrcReg, InstructionEnd]"

definition EncodeALU_Mem32_Reg32 :: "u32 \<Rightarrow> u8 \<Rightarrow> u8 \<Rightarrow> u32 \<Rightarrow> u32 \<Rightarrow> u8 \<Rightarrow> enc" where
  "EncodeALU_Mem32_Reg32 opc Reg1 Reg2 OffType Off SrcReg =
     steps [InstructionBegin, SwitchOprdToBit32, InstructionPrefix,
       EncodeOpt_Mem32_Reg32 opc Reg1 Reg2 OffType Off SrcReg, InstructionEnd]"

definition EncodeALU_Reg8_Mem8 :: "u32 \<Rightarrow> u8 \<Rightarrow> u8 \<Rightarrow> u8 \<Rightarrow> u32 \<Rightarrow> u32 \<Rightarrow> enc" where
  "EncodeALU_Reg8_Mem8 opc DstReg Reg1 Reg2 OffType Off =
     steps [InstructionBegin, EncodeOpt_Reg8_Mem8 opc DstReg Reg1 Reg2 OffType Off, InstructionEnd]"

definition EncodeALU_Reg16_Mem16 :: "u32 \<Rightarrow> u8 \<Rightarrow> u8 \<Rightarrow> u8 \<Rightarrow> u32 \<Rightarrow> u32 \<Rightarrow> enc" where
  "EncodeALU_Reg16_Mem16 opc DstReg Reg1 Reg2 OffType Off =
     steps [InstructionBegin, SwitchOprdToBit16, InstructionPrefix,
       EncodeOpt_Reg16_Mem16 opc DstReg Reg1 Reg2 OffType Off, InstructionEnd]"

definition EncodeALU_Reg32_Mem32 :: "u32 \<Rightarrow> u8 \<Rightarrow> u8 \<Rightarrow> u8 \<Rightarrow> u32 \<Rightarrow> u32 \<Rightarrow> enc" where
  "EncodeALU_Reg32_Mem32 opc DstReg Reg1 Reg2 OffType Off =
     steps [InstructionBegin, SwitchOprdToBit32, InstructionPrefix,
       EncodeOpt_Reg32_Mem32 opc DstReg Reg1 Reg2 OffType Off, InstructionEnd]"

definition EncodeALU_Acc8_Imm8 :: "u32 \<Rightarrow> u8 \<Rightarrow> enc" where
  "EncodeALU_Acc8_Imm8 opc Imm8 =
     steps [InstructionBegin, EncodeOpt_Acc8_Imm8 (ucast opc) (ucast Imm8), InstructionEnd]"

definition EncodeALU_Acc16_Imm16 :: "u32 \<Rightarrow> u32 \<Rightarrow> enc" where
  "EncodeALU_Acc16_Imm16 opc Imm16 =
     steps [InstructionBegin, SwitchOprdToBit16, InstructionPrefix, EncodeOpt_Acc16_Imm16 (ucast opc) Imm16,
       InstructionEnd]"

definition EncodeALU_Acc32_Imm32 :: "u32 \<Rightarrow> u32 \<Rightarrow> enc" where
  "EncodeALU_Acc32_Imm32 opc Imm32 =
     steps [InstructionBegin, SwitchOprdToBit32, InstructionPrefix, EncodeOpt_Acc32_Imm32 (ucast opc) Imm32,
       InstructionEnd]"

definition EncodeALU_Reg8_Imm8 :: "u32 \<Rightarrow> u8 \<Rightarrow> u8 \<Rightarrow> enc" where
  "EncodeALU_Reg8_Imm8 opc Reg8 Imm8 =
     steps [InstructionBegin, EncodeOpt_Reg8_Imm8 opc Reg8 (ucast Imm8), InstructionEnd]"

definition EncodeALU_Reg16_Imm16 :: "u32 \<Rightarrow> u8 \<Rightarrow> u32 \<Rightarrow> enc" where
  "EncodeALU_Reg16_Imm16 opc Reg16 Imm16 =
     steps [InstructionBegin, SwitchOprdToBit16, InstructionPrefix, EncodeOpt_Reg16_Imm16 opc Reg16 Imm16,
       InstructionEnd]"

definition EncodeALU_Reg32_Imm32 :: "u32 \<Rightarrow> u8 \<Rightarrow> u32 \<Rightarrow> enc" where
  "EncodeALU_Reg32_Imm32 opc Reg32 Imm32 =
     steps [InstructionBegin, SwitchOprdToBit32, InstructionPrefix, EncodeOpt_Reg32_Imm32 opc Reg32 Imm32,
       InstructionEnd]"

definition EncodeALU_Mem8_Imm8 :: "u32 \<Rightarrow> u8 \<Rightarrow> u8 \<Rightarrow> u32 \<Rightarrow> u32 \<Rightarrow> u8 \<Rightarrow> enc" where
  "EncodeALU_Mem8_Imm8 opc Reg1 Reg2 OffType Off Imm8 =
     steps [InstructionBegin, EncodeOpt_Mem8_Imm8 opc Reg1 Reg2 OffType Off (ucast Imm8), InstructionEnd]"

definition EncodeALU_Mem16_Imm16 :: "u32 \<Rightarrow> u8 \<Rightarrow> u8 \<Rightarrow> u32 \<Rightarrow> u32 \<Rightarrow> u32 \<Rightarrow> enc" where
  "EncodeALU_Mem16_Imm16 opc Reg1 Reg2 OffType Off Imm16 =
     steps [InstructionBegin, SwitchOprdToBit16, InstructionPrefix,
       EncodeOpt_Mem16_Imm16 opc Reg1 Reg2 OffType Off Imm16, InstructionEnd]"

definition EncodeALU_Mem32_Imm32 :: "u32 \<Rightarrow> u8 \<Rightarrow> u8 \<Rightarrow> u32 \<Rightarrow> u32 \<Rightarrow> u32 \<Rightarrow> enc" where
  "EncodeALU_Mem32_Imm32 opc Reg1 Reg2 OffType Off Imm32 =
     steps [InstructionBegin, SwitchOprdToBit32, InstructionPrefix,
       EncodeOpt_Mem32_Imm32 opc Reg1 Reg2 OffType Off Imm32, InstructionEnd]"

definition alu_opcodes :: "(string \<times> u32 list) list" where
  "alu_opcodes =
     [(''ADC'', [0x1200, 0x1300, 0x1300, 0x1000, 0x1100, 0x1100, 0x1200, 0x1300, 0x1300, 0x14, 0x15, 0x15,
           0x8010, 0x8110, 0x8110, 0x8010, 0x8110, 0x8110]),
      (''ADD'', [0x200, 0x300, 0x300, 0x0, 0x100, 0x100, 0x200, 0x300, 0x300, 0x4, 0x5, 0x5, 0x8000,
           0x8100, 0x8100, 0x8000, 0x8100, 0x8100]),
      (''AND'', [0x2200, 0x2300, 0x2300, 0x2000, 0x2100, 0x2100, 0x2200, 0x2300, 0x2300, 0x24, 0x25, 0x25,
           0x8020, 0x8120, 0x8120, 0x8020, 0x8120, 0x8120]),
      (''CMP'', [0x3A00, 0x3B00, 0x3B00, 0x3800, 0x3900, 0x3900, 0x3A00, 0x3B00, 0x3B00, 0x3C, 0x3D, 0x3D,
           0x8038, 0x8138, 0x8138, 0x8038, 0x8138, 0x8138]),
      (''OR'', [0xA00, 0xB00, 0xB00, 0x800, 0x900, 0x900, 0xA00, 0xB00, 0xB00, 0xC, 0xD, 0xD, 0x8008,
           0x8108, 0x8108, 0x8008, 0x8108, 0x8108]),
      (''SBB'', [0x1A00, 0x1B00, 0x1B00, 0x1800, 0x1900, 0x1900, 0x1A00, 0x1B00, 0x1B00, 0x1C, 0x1D, 0x1D,
           0x8018, 0x8118, 0x8118, 0x8018, 0x8118, 0x8118]),
      (''SUB'', [0x2A00, 0x2B00, 0x2B00, 0x2800, 0x2900, 0x2900, 0x2A00, 0x2B00, 0x2B00, 0x2C, 0x2D, 0x2D,
           0x8028, 0x8128, 0x8128, 0x8028, 0x8128, 0x8128]),
      (''TEST'', [0x8400, 0x8500, 0x8500, 0x8400, 0x8500, 0x8500, 0x8400, 0x8500, 0x8500, 0xA8, 0xA9,
           0xA9, 0xF600, 0xF700, 0xF700, 0xF600, 0xF700, 0xF700]),
      (''XOR'', [0x3200, 0x3300, 0x3300, 0x3000, 0x3100, 0x3100, 0x3200, 0x3300, 0x3300, 0x34, 0x35, 0x35,
           0x8030, 0x8130, 0x8130, 0x8030, 0x8130, 0x8130])]"

section \<open>\<open>DefineEncodeShift_X_X\<close>\<close>

definition EncodeShift_Reg8_1 :: "u32 \<Rightarrow> u8 \<Rightarrow> enc" where
  "EncodeShift_Reg8_1 opc Reg8 =
     steps [InstructionBegin, OpcodeW_Reg opc Reg8, InstructionEnd]"

definition EncodeShift_Reg16_1 :: "u32 \<Rightarrow> u8 \<Rightarrow> enc" where
  "EncodeShift_Reg16_1 opc Reg16 =
     steps [InstructionBegin, InstructionPrefix, OpcodeW_Reg opc Reg16, InstructionEnd]"

definition EncodeShift_Reg32_1 :: "u32 \<Rightarrow> u8 \<Rightarrow> enc" where
  "EncodeShift_Reg32_1 opc Reg32 =
     steps [InstructionBegin, InstructionPrefix, OpcodeW_Reg opc Reg32, InstructionEnd]"

definition EncodeShift_Mem8_1 :: "u32 \<Rightarrow> u8 \<Rightarrow> u8 \<Rightarrow> u32 \<Rightarrow> u32 \<Rightarrow> enc" where
  "EncodeShift_Mem8_1 opc Reg1 Reg2 OffType Off =
     steps [InstructionBegin, OpcodeW_Mem_X opc Reg1 Reg2 (ucast OffType) Off 0 0, InstructionEnd]"

definition EncodeShift_Mem16_1 :: "u32 \<Rightarrow> u8 \<Rightarrow> u8 \<Rightarrow> u32 \<Rightarrow> u32 \<Rightarrow> enc" where
  "EncodeShift_Mem16_1 opc Reg1 Reg2 OffType Off =
     steps [InstructionBegin, InstructionPrefix, OpcodeW_Mem_X opc Reg1 Reg2 (ucast OffType) Off 0 0, InstructionEnd]"

definition EncodeShift_Mem32_1 :: "u32 \<Rightarrow> u8 \<Rightarrow> u8 \<Rightarrow> u32 \<Rightarrow> u32 \<Rightarrow> enc" where
  "EncodeShift_Mem32_1 opc Reg1 Reg2 OffType Off =
     steps [InstructionBegin, InstructionPrefix, OpcodeW_Mem_X opc Reg1 Reg2 (ucast OffType) Off 0 0, InstructionEnd]"

definition EncodeShift_Reg8_CL :: "u32 \<Rightarrow> u8 \<Rightarrow> enc" where
  "EncodeShift_Reg8_CL opc Reg8 =
     steps [InstructionBegin, OpcodeW_Reg opc Reg8, InstructionEnd]"

definition EncodeShift_Reg16_CL :: "u32 \<Rightarrow> u8 \<Rightarrow> enc" where
  "EncodeShift_Reg16_CL opc Reg16 =
     steps [InstructionBegin, InstructionPrefix, OpcodeW_Reg opc Reg16, InstructionEnd]"

definition EncodeShift_Reg32_CL :: "u32 \<Rightarrow> u8 \<Rightarrow> enc" where
  "EncodeShift_Reg32_CL opc Reg32 =
     steps [InstructionBegin, InstructionPrefix, OpcodeW_Reg opc Reg32, InstructionEnd]"

definition EncodeShift_Mem8_CL :: "u32 \<Rightarrow> u8 \<Rightarrow> u8 \<Rightarrow> u32 \<Rightarrow> u32 \<Rightarrow> enc" where
  "EncodeShift_Mem8_CL opc Reg1 Reg2 OffType Off =
     steps [InstructionBegin, OpcodeW_Mem_X opc Reg1 Reg2 (ucast OffType) Off 0 0, InstructionEnd]"

definition EncodeShift_Mem16_CL :: "u32 \<Rightarrow> u8 \<Rightarrow> u8 \<Rightarrow> u32 \<Rightarrow> u32 \<Rightarrow> enc" where
  "EncodeShift_Mem16_CL opc Reg1 Reg2 OffType Off =
     steps [InstructionBegin, InstructionPrefix, OpcodeW_Mem_X opc Reg1 Reg2 (ucast OffType) Off 0 0, InstructionEnd]"

definition EncodeShift_Mem32_CL :: "u32 \<Rightarrow> u8 \<Rightarrow> u8 \<Rightarrow> u32 \<Rightarrow> u32 \<Rightarrow> enc" where
  "EncodeShift_Mem32_CL opc Reg1 Reg2 OffType Off =
     steps [InstructionBegin, InstructionPrefix, OpcodeW_Mem_X opc Reg1 Reg2 (ucast OffType) Off 0 0, InstructionEnd]"

definition shift_opcodes :: "(string \<times> u32 list) list" where
  "shift_opcodes =
     [(''RCL'', [0xD010, 0xD110, 0xD110, 0xD010, 0xD110, 0xD110, 0xD210, 0xD310, 0xD310, 0xD210, 0xD310,
           0xD310]),
      (''RCR'', [0xD018, 0xD118, 0xD118, 0xD018, 0xD118, 0xD118, 0xD218, 0xD318, 0xD318, 0xD218, 0xD318,
           0xD318]),
      (''ROL'', [0xD000, 0xD100, 0xD100, 0xD000, 0xD100, 0xD100, 0xD200, 0xD300, 0xD300, 0xD200, 0xD300,
           0xD300]),
      (''ROR'', [0xD008, 0xD108, 0xD108, 0xD008, 0xD108, 0xD108, 0xD208, 0xD308, 0xD308, 0xD208, 0xD308,
           0xD308]),
      (''SAL'', [0xD020, 0xD120, 0xD120, 0xD020, 0xD120, 0xD120, 0xD220, 0xD320, 0xD320, 0xD220, 0xD320,
           0xD320]),
      (''SAR'', [0xD038, 0xD138, 0xD138, 0xD038, 0xD138, 0xD138, 0xD238, 0xD338, 0xD338, 0xD238, 0xD338,
           0xD338]),
      (''SHL'', [0xD020, 0xD120, 0xD120, 0xD020, 0xD120, 0xD120, 0xD220, 0xD230, 0xD230, 0xD220, 0xD230,
           0xD230]),
      (''SHR'', [0xD028, 0xD128, 0xD128, 0xD028, 0xD128, 0xD128, 0xD228, 0xD328, 0xD328, 0xD228, 0xD328,
           0xD328])]"

section \<open>\<open>DefineEncodeSHxD\<close>\<close>

definition EncodeSHxD_Reg16_Reg16_Imm8 :: "u32 \<Rightarrow> u8 \<Rightarrow> u8 \<Rightarrow> u32 \<Rightarrow> enc" where
  "EncodeSHxD_Reg16_Reg16_Imm8 opc DstReg SrcReg Imm8 =
     (let Opcode = opc; Opcode = Opcode OR ((push_bit 3 (ucast SrcReg :: u32)) AND (0xFF :: u32)) in
       steps [InstructionBegin, InstructionPrefix, Opcode3B_Reg_Imm8 Opcode DstReg Imm8, InstructionEnd])"

definition EncodeSHxD_Reg32_Reg32_Imm8 :: "u32 \<Rightarrow> u8 \<Rightarrow> u8 \<Rightarrow> u32 \<Rightarrow> enc" where
  "EncodeSHxD_Reg32_Reg32_Imm8 opc DstReg SrcReg Imm8 =
     (let Opcode = opc; Opcode = Opcode OR ((push_bit 3 (ucast SrcReg :: u32)) AND (0xFF :: u32)) in
       steps [InstructionBegin, InstructionPrefix, Opcode3B_Reg_Imm8 Opcode DstReg Imm8, InstructionEnd])"

definition EncodeSHxD_Mem16_Reg16_Imm8 :: "u32 \<Rightarrow> u8 \<Rightarrow> u8 \<Rightarrow> u32 \<Rightarrow> u32 \<Rightarrow> u8 \<Rightarrow> u32 \<Rightarrow> enc" where
  "EncodeSHxD_Mem16_Reg16_Imm8 opc Reg1 Reg2 OffType Off SrcReg Imm8 =
     (let Opcode = opc; Opcode = Opcode OR ((push_bit 3 (ucast SrcReg :: u32)) AND (0xFF :: u32)) in
       steps [InstructionBegin, InstructionPrefix, Opcode3B_Mem_X Opcode Reg1 Reg2 (ucast OffType) Off 1 Imm8,
       InstructionEnd])"

definition EncodeSHxD_Mem32_Reg32_Imm8 :: "u32 \<Rightarrow> u8 \<Rightarrow> u8 \<Rightarrow> u32 \<Rightarrow> u32 \<Rightarrow> u8 \<Rightarrow> u32 \<Rightarrow> enc" where
  "EncodeSHxD_Mem32_Reg32_Imm8 opc Reg1 Reg2 OffType Off SrcReg Imm8 =
     (let Opcode = opc; Opcode = Opcode OR ((push_bit 3 (ucast SrcReg :: u32)) AND (0xFF :: u32)) in
       steps [InstructionBegin, InstructionPrefix, Opcode3B_Mem_X Opcode Reg1 Reg2 (ucast OffType) Off 1 Imm8,
       InstructionEnd])"

definition EncodeSHxD_Reg16_Reg16_CL :: "u32 \<Rightarrow> u8 \<Rightarrow> u8 \<Rightarrow> enc" where
  "EncodeSHxD_Reg16_Reg16_CL opc DstReg SrcReg =
     (let Opcode = opc; Opcode = Opcode OR ((push_bit 3 (ucast SrcReg :: u32)) AND (0xFF :: u32)) in
       steps [InstructionBegin, InstructionPrefix, Opcode3B_Reg Opcode DstReg, InstructionEnd])"

definition EncodeSHxD_Reg32_Reg32_CL :: "u32 \<Rightarrow> u8 \<Rightarrow> u8 \<Rightarrow> enc" where
  "EncodeSHxD_Reg32_Reg32_CL opc DstReg SrcReg =
     (let Opcode = opc; Opcode = Opcode OR ((push_bit 3 (ucast SrcReg :: u32)) AND (0xFF :: u32)) in
       steps [InstructionBegin, InstructionPrefix, Opcode3B_Reg Opcode DstReg, InstructionEnd])"

definition EncodeSHxD_Mem16_Reg16_CL :: "u32 \<Rightarrow> u8 \<Rightarrow> u8 \<Rightarrow> u32 \<Rightarrow> u32 \<Rightarrow> u8 \<Rightarrow> enc" where
  "EncodeSHxD_Mem16_Reg16_CL opc Reg1 Reg2 OffType Off SrcReg =
     (let Opcode = opc; Opcode = Opcode OR ((push_bit 3 (ucast SrcReg :: u32)) AND (0xFF :: u32)) in
       steps [InstructionBegin, InstructionPrefix, Opcode3B_Mem_X Opcode Reg1 Reg2 (ucast OffType) Off 0 0,
       InstructionEnd])"

definition EncodeSHxD_Mem32_Reg32_CL :: "u32 \<Rightarrow> u8 \<Rightarrow> u8 \<Rightarrow> u32 \<Rightarrow> u32 \<Rightarrow> u8 \<Rightarrow> enc" where
  "EncodeSHxD_Mem32_Reg32_CL opc Reg1 Reg2 OffType Off SrcReg =
     (let Opcode = opc; Opcode = Opcode OR ((push_bit 3 (ucast SrcReg :: u32)) AND (0xFF :: u32)) in
       steps [InstructionBegin, InstructionPrefix, Opcode3B_Mem_X Opcode Reg1 Reg2 (ucast OffType) Off 0 0,
       InstructionEnd])"

definition shxd_opcodes :: "(string \<times> u32 list) list" where
  "shxd_opcodes =
     [(''SHLD'', [0xFA400, 0xFA400, 0xFA400, 0xFA400, 0xFA500, 0xFA500, 0xFA500, 0xFA500]),
      (''SHRD'', [0xFAC00, 0xFAC00, 0xFAC00, 0xFAC00, 0xFAD00, 0xFAD00, 0xFAD00, 0xFAD00])]"

section \<open>\<open>DefineEncodeFOpt\<close>\<close>

definition EncodeFArith_Mem32 :: "u32 \<Rightarrow> u8 \<Rightarrow> u8 \<Rightarrow> u32 \<Rightarrow> u32 \<Rightarrow> enc" where
  "EncodeFArith_Mem32 opc Reg1 Reg2 OffType Off =
     steps [InstructionBegin, OpcodeW_Mem_X opc Reg1 Reg2 (ucast OffType) Off 0 0, InstructionEnd]"

definition EncodeFArith_Mem64 :: "u32 \<Rightarrow> u8 \<Rightarrow> u8 \<Rightarrow> u32 \<Rightarrow> u32 \<Rightarrow> enc" where
  "EncodeFArith_Mem64 opc Reg1 Reg2 OffType Off =
     steps [InstructionBegin, OpcodeW_Mem_X opc Reg1 Reg2 (ucast OffType) Off 0 0, InstructionEnd]"

definition EncodeFArith_ST0_STi :: "u32 \<Rightarrow> u8 \<Rightarrow> enc" where
  "EncodeFArith_ST0_STi opc STi =
     steps [InstructionBegin, ToBuffer (ucast (drop_bit 8 opc)),
       ToBuffer (ucast ((ucast (ucast opc :: u8) :: u32) + (ucast STi :: u32))), InstructionEnd]"

definition EncodeFArith_STi_ST0 :: "u32 \<Rightarrow> u8 \<Rightarrow> enc" where
  "EncodeFArith_STi_ST0 opc STi =
     steps [InstructionBegin, ToBuffer (ucast (drop_bit 8 opc)),
       ToBuffer (ucast ((ucast (ucast opc :: u8) :: u32) + (ucast STi :: u32))), InstructionEnd]"

definition EncodeFArithP_STi_ST0 :: "u32 \<Rightarrow> u8 \<Rightarrow> enc" where
  "EncodeFArithP_STi_ST0 opc STi =
     steps [InstructionBegin, ToBuffer (ucast (drop_bit 8 opc)),
       ToBuffer (ucast ((ucast (ucast opc :: u8) :: u32) + (ucast STi :: u32))), InstructionEnd]"

definition EncodeFArithI_Mem32 :: "u32 \<Rightarrow> u8 \<Rightarrow> u8 \<Rightarrow> u32 \<Rightarrow> u32 \<Rightarrow> enc" where
  "EncodeFArithI_Mem32 opc Reg1 Reg2 OffType Off =
     steps [InstructionBegin, OpcodeW_Mem_X opc Reg1 Reg2 (ucast OffType) Off 0 0, InstructionEnd]"

definition EncodeFArithI_Mem16 :: "u32 \<Rightarrow> u8 \<Rightarrow> u8 \<Rightarrow> u32 \<Rightarrow> u32 \<Rightarrow> enc" where
  "EncodeFArithI_Mem16 opc Reg1 Reg2 OffType Off =
     steps [InstructionBegin, OpcodeW_Mem_X opc Reg1 Reg2 (ucast OffType) Off 0 0, InstructionEnd]"

definition farith_opcodes :: "(string \<times> u32 list) list" where
  "farith_opcodes =
     [(''ADD'', [0xD800, 0xDC00, 0xD8C0, 0xDCC0, 0xDEC0, 0xDA00, 0xDE00]),
      (''DIV'', [0xD830, 0xDC30, 0xD8F0, 0xDCF8, 0xDEF8, 0xDA30, 0xDE30]),
      (''DIVR'', [0xD838, 0xDC38, 0xD8F8, 0xDCF0, 0xDEF0, 0xDA38, 0xDE38]),
      (''MUL'', [0xD808, 0xDC08, 0xD8C8, 0xDCC8, 0xDEC8, 0xDA08, 0xDE08]),
      (''SUB'', [0xD820, 0xDC20, 0xD8E0, 0xDCE8, 0xDEE8, 0xDA20, 0xDE20]),
      (''SUBR'', [0xD828, 0xDC28, 0xD8E8, 0xDCE0, 0xDEE0, 0xDA28, 0xDE28])]"

section \<open>\<open>DefineEncodeFCMOVcc\<close>\<close>

definition EncodeFCMOVcc_ST0_STi :: "u32 \<Rightarrow> u8 \<Rightarrow> enc" where
  "EncodeFCMOVcc_ST0_STi opc STi =
     steps [InstructionBegin, ToBufferW (opc OR (ucast STi :: u32)), InstructionEnd]"

definition fcmovcc_opcodes :: "(string \<times> u32 list) list" where
  "fcmovcc_opcodes =
     [(''FCMOVB'', [0xDAC0]),
      (''FCMOVE'', [0xDAC8]),
      (''FCMOVBE'', [0xDAD0]),
      (''FCMOVU'', [0xDAD8]),
      (''FCMOVNB'', [0xDBC0]),
      (''FCMOVNE'', [0xDBC8]),
      (''FCMOVNBE'', [0xDBD0]),
      (''FCMOVNU'', [0xDBD8])]"

end
