(* ===== verification/Iasm_Instructions_A.thy ===== *)
theory Iasm_Instructions_A
  imports Iasm_Encoder
begin

text \<open>
  \<^verbatim>\<open>apps/iasm/encoder.c\<close>: the encoders of single instructions from \<open>EncodeDB\<close> to \<open>EncodeMOV_Mem8_Imm8\<close>, in the
  order of the file, with the opcodes of \<^verbatim>\<open>opcode.h\<close> filled in.
\<close>

definition EncodeDB :: "u8 \<Rightarrow> enc" where
  "EncodeDB Byte =
     steps [InstructionBegin, ToBuffer Byte, InstructionEnd]"

definition EncodeDW :: "u32 \<Rightarrow> enc" where
  "EncodeDW Data =
     steps [InstructionBegin, ToBuffer (ucast Data), ToBuffer (ucast (drop_bit 8 Data)), InstructionEnd]"

definition EncodeDD :: "u32 \<Rightarrow> enc" where
  "EncodeDD DWord =
     steps [InstructionBegin, ToBuffer (ucast DWord), ToBuffer (ucast (drop_bit 8 DWord)),
       ToBuffer (ucast (drop_bit 16 DWord)), ToBuffer (ucast (drop_bit 24 DWord)), InstructionEnd]"

definition EncodePrefixLOCK :: "enc" where
  "EncodePrefixLOCK =
     steps [InstructionBegin, ToBuffer 0xF0, InstructionEnd]"

definition EncodePrefixREP :: "enc" where
  "EncodePrefixREP =
     steps [InstructionBegin, ToBuffer 0xF3, InstructionEnd]"

definition EncodePrefixREPNZ :: "enc" where
  "EncodePrefixREPNZ =
     steps [InstructionBegin, ToBuffer 0xF2, InstructionEnd]"

definition EncodePrefixCS :: "enc" where
  "EncodePrefixCS =
     steps [InstructionBegin, ToBuffer 0x2E, InstructionEnd]"

definition EncodePrefixDS :: "enc" where
  "EncodePrefixDS =
     steps [InstructionBegin, ToBuffer 0x3E, InstructionEnd]"

definition EncodePrefixES :: "enc" where
  "EncodePrefixES =
     steps [InstructionBegin, ToBuffer 0x26, InstructionEnd]"

definition EncodePrefixSS :: "enc" where
  "EncodePrefixSS =
     steps [InstructionBegin, ToBuffer 0x36, InstructionEnd]"

definition EncodePrefixFS :: "enc" where
  "EncodePrefixFS =
     steps [InstructionBegin, ToBuffer 0x64, InstructionEnd]"

definition EncodePrefixGS :: "enc" where
  "EncodePrefixGS =
     steps [InstructionBegin, ToBuffer 0x65, InstructionEnd]"

definition EncodeAAA :: "enc" where
  "EncodeAAA =
     steps [InstructionBegin, ToBuffer 0x37, InstructionEnd]"

definition EncodeAAD_Imm8 :: "u8 \<Rightarrow> enc" where
  "EncodeAAD_Imm8 Imm8 =
     steps [InstructionBegin, ToBuffer 0xD5, ToBuffer Imm8, InstructionEnd]"

definition EncodeAAD :: "enc" where
  "EncodeAAD =
     steps [InstructionBegin, ToBuffer (ucast (drop_bit 8 (0xD50A :: u32))), ToBuffer 0xD50A, InstructionEnd]"

definition EncodeAAM_Imm8 :: "u8 \<Rightarrow> enc" where
  "EncodeAAM_Imm8 Imm8 =
     steps [InstructionBegin, ToBuffer 0xD4, ToBuffer Imm8, InstructionEnd]"

definition EncodeAAM :: "enc" where
  "EncodeAAM =
     steps [InstructionBegin, ToBuffer (ucast (drop_bit 8 (0xD40A :: u32))), ToBuffer 0xD40A, InstructionEnd]"

definition EncodeAAS :: "enc" where
  "EncodeAAS =
     steps [InstructionBegin, ToBuffer 0x3F, InstructionEnd]"

definition EncodeARPL_Reg16_Reg16 :: "u8 \<Rightarrow> u8 \<Rightarrow> enc" where
  "EncodeARPL_Reg16_Reg16 DstReg SrcReg =
     steps [InstructionBegin, OpcodeW_Reg16_Reg16 0x6300 DstReg SrcReg, InstructionEnd]"

definition EncodeARPL_Mem16_Reg16 :: "u8 \<Rightarrow> u8 \<Rightarrow> u32 \<Rightarrow> u32 \<Rightarrow> u8 \<Rightarrow> enc" where
  "EncodeARPL_Mem16_Reg16 Reg1 Reg2 OffType Off SrcReg =
     (let Opcode = (0x6300 :: u32); Opcode = Opcode OR ((push_bit 3 (ucast SrcReg :: u32)) AND (0xFF :: u32)) in
       steps [InstructionBegin, OpcodeW_Mem_X Opcode Reg1 Reg2 (ucast OffType) Off 0 0, InstructionEnd])"

definition EncodeBOUND_Reg16_Mem1616 :: "u8 \<Rightarrow> u8 \<Rightarrow> u8 \<Rightarrow> u32 \<Rightarrow> u32 \<Rightarrow> enc" where
  "EncodeBOUND_Reg16_Mem1616 DstReg Reg1 Reg2 OffType Off =
     (let Opcode = (0x6200 :: u32); Opcode = Opcode OR ((push_bit 3 (ucast DstReg :: u32)) AND (0xFF :: u32)) in
       steps [InstructionBegin, InstructionPrefix, OpcodeW_Mem_X Opcode Reg1 Reg2 (ucast OffType) Off 0 0,
       InstructionEnd])"

definition EncodeBOUND_Reg32_Mem3232 :: "u8 \<Rightarrow> u8 \<Rightarrow> u8 \<Rightarrow> u32 \<Rightarrow> u32 \<Rightarrow> enc" where
  "EncodeBOUND_Reg32_Mem3232 DstReg Reg1 Reg2 OffType Off =
     (let Opcode = (0x6200 :: u32); Opcode = Opcode OR ((push_bit 3 (ucast DstReg :: u32)) AND (0xFF :: u32)) in
       steps [InstructionBegin, InstructionPrefix, OpcodeW_Mem_X Opcode Reg1 Reg2 (ucast OffType) Off 0 0,
       InstructionEnd])"

definition EncodeBSF_Reg16_Reg16 :: "u8 \<Rightarrow> u8 \<Rightarrow> enc" where
  "EncodeBSF_Reg16_Reg16 DstReg SrcReg =
     (let Opcode = (0xFBC00 :: u32); Opcode = Opcode OR ((push_bit 3 (ucast DstReg :: u32)) AND (0xFF :: u32)) in
       steps [InstructionBegin, InstructionPrefix, Opcode3B_Reg Opcode SrcReg, InstructionEnd])"

definition EncodeBSF_Reg16_Mem16 :: "u8 \<Rightarrow> u8 \<Rightarrow> u8 \<Rightarrow> u32 \<Rightarrow> u32 \<Rightarrow> enc" where
  "EncodeBSF_Reg16_Mem16 DstReg Reg1 Reg2 OffType Off =
     (let Opcode = (0xFBC00 :: u32); Opcode = Opcode OR ((push_bit 3 (ucast DstReg :: u32)) AND (0xFF :: u32)) in
       steps [InstructionBegin, InstructionPrefix, Opcode3B_Mem_X Opcode Reg1 Reg2 (ucast OffType) Off 0 0,
       InstructionEnd])"

definition EncodeBSF_Reg32_Reg32 :: "u8 \<Rightarrow> u8 \<Rightarrow> enc" where
  "EncodeBSF_Reg32_Reg32 DstReg SrcReg =
     (let Opcode = (0xFBC00 :: u32); Opcode = Opcode OR ((push_bit 3 (ucast DstReg :: u32)) AND (0xFF :: u32)) in
       steps [InstructionBegin, InstructionPrefix, Opcode3B_Reg Opcode SrcReg, InstructionEnd])"

definition EncodeBSF_Reg32_Mem32 :: "u8 \<Rightarrow> u8 \<Rightarrow> u8 \<Rightarrow> u32 \<Rightarrow> u32 \<Rightarrow> enc" where
  "EncodeBSF_Reg32_Mem32 DstReg Reg1 Reg2 OffType Off =
     (let Opcode = (0xFBC00 :: u32); Opcode = Opcode OR ((push_bit 3 (ucast DstReg :: u32)) AND (0xFF :: u32)) in
       steps [InstructionBegin, InstructionPrefix, Opcode3B_Mem_X Opcode Reg1 Reg2 (ucast OffType) Off 0 0,
       InstructionEnd])"

definition EncodeBSR_Reg16_Reg16 :: "u8 \<Rightarrow> u8 \<Rightarrow> enc" where
  "EncodeBSR_Reg16_Reg16 DstReg SrcReg =
     (let Opcode = (0xFBD00 :: u32); Opcode = Opcode OR ((push_bit 3 (ucast DstReg :: u32)) AND (0xFF :: u32)) in
       steps [InstructionBegin, InstructionPrefix, Opcode3B_Reg Opcode SrcReg, InstructionEnd])"

definition EncodeBSR_Reg16_Mem16 :: "u8 \<Rightarrow> u8 \<Rightarrow> u8 \<Rightarrow> u32 \<Rightarrow> u32 \<Rightarrow> enc" where
  "EncodeBSR_Reg16_Mem16 DstReg Reg1 Reg2 OffType Off =
     (let Opcode = (0xFBD00 :: u32); Opcode = Opcode OR ((push_bit 3 (ucast DstReg :: u32)) AND (0xFF :: u32)) in
       steps [InstructionBegin, InstructionPrefix, Opcode3B_Mem_X Opcode Reg1 Reg2 (ucast OffType) Off 0 0,
       InstructionEnd])"

definition EncodeBSR_Reg32_Reg32 :: "u8 \<Rightarrow> u8 \<Rightarrow> enc" where
  "EncodeBSR_Reg32_Reg32 DstReg SrcReg =
     (let Opcode = (0xFBD00 :: u32); Opcode = Opcode OR ((push_bit 3 (ucast DstReg :: u32)) AND (0xFF :: u32)) in
       steps [InstructionBegin, InstructionPrefix, Opcode3B_Reg Opcode SrcReg, InstructionEnd])"

definition EncodeBSR_Reg32_Mem32 :: "u8 \<Rightarrow> u8 \<Rightarrow> u8 \<Rightarrow> u32 \<Rightarrow> u32 \<Rightarrow> enc" where
  "EncodeBSR_Reg32_Mem32 DstReg Reg1 Reg2 OffType Off =
     (let Opcode = (0xFBD00 :: u32); Opcode = Opcode OR ((push_bit 3 (ucast DstReg :: u32)) AND (0xFF :: u32)) in
       steps [InstructionBegin, InstructionPrefix, Opcode3B_Mem_X Opcode Reg1 Reg2 (ucast OffType) Off 0 0,
       InstructionEnd])"

definition EncodeCBW :: "enc" where
  "EncodeCBW =
     steps [InstructionBegin, ToBuffer 0x98, InstructionEnd]"

definition EncodeCLC :: "enc" where
  "EncodeCLC =
     steps [InstructionBegin, ToBuffer 0xF8, InstructionEnd]"

definition EncodeCLD :: "enc" where
  "EncodeCLD =
     steps [InstructionBegin, ToBuffer 0xFC, InstructionEnd]"

definition EncodeCLI :: "enc" where
  "EncodeCLI =
     steps [InstructionBegin, ToBuffer 0xFA, InstructionEnd]"

definition EncodeCMC :: "enc" where
  "EncodeCMC =
     steps [InstructionBegin, ToBuffer 0xF5, InstructionEnd]"

definition EncodeCMPSB :: "enc" where
  "EncodeCMPSB =
     steps [InstructionBegin, ToBuffer 0xA6, InstructionEnd]"

definition EncodeCMPSW :: "enc" where
  "EncodeCMPSW =
     steps [InstructionBegin, ToBuffer 0xA7, InstructionEnd]"

definition EncodeCWD :: "enc" where
  "EncodeCWD =
     steps [InstructionBegin, ToBuffer 0x99, InstructionEnd]"

definition EncodeDAA :: "enc" where
  "EncodeDAA =
     steps [InstructionBegin, ToBuffer 0x27, InstructionEnd]"

definition EncodeDAS :: "enc" where
  "EncodeDAS =
     steps [InstructionBegin, ToBuffer 0x2F, InstructionEnd]"

definition EncodeDEC_Reg8 :: "u8 \<Rightarrow> enc" where
  "EncodeDEC_Reg8 Reg8 =
     steps [InstructionBegin, EncodeDI_Reg 0xFE08 Reg8, InstructionEnd]"

definition EncodeDEC_Reg16 :: "u8 \<Rightarrow> enc" where
  "EncodeDEC_Reg16 Reg16 =
     steps [InstructionBegin, InstructionPrefix, EncodeDI_Reg 0xFF08 Reg16, InstructionEnd]"

definition EncodeDEC_Reg32 :: "u8 \<Rightarrow> enc" where
  "EncodeDEC_Reg32 Reg32 =
     steps [InstructionBegin, InstructionPrefix, EncodeDI_Reg 0xFF08 Reg32, InstructionEnd]"

definition EncodeDEC_Mem8 :: "u8 \<Rightarrow> u8 \<Rightarrow> u32 \<Rightarrow> u32 \<Rightarrow> enc" where
  "EncodeDEC_Mem8 Reg1 Reg2 OffType Off =
     steps [InstructionBegin, EncodeDI_Mem 0xFE08 Reg1 Reg2 OffType Off, InstructionEnd]"

definition EncodeDEC_Mem16 :: "u8 \<Rightarrow> u8 \<Rightarrow> u32 \<Rightarrow> u32 \<Rightarrow> enc" where
  "EncodeDEC_Mem16 Reg1 Reg2 OffType Off =
     steps [InstructionBegin, InstructionPrefix, EncodeDI_Mem 0xFF08 Reg1 Reg2 OffType Off, InstructionEnd]"

definition EncodeDEC_Mem32 :: "u8 \<Rightarrow> u8 \<Rightarrow> u32 \<Rightarrow> u32 \<Rightarrow> enc" where
  "EncodeDEC_Mem32 Reg1 Reg2 OffType Off =
     steps [InstructionBegin, InstructionPrefix, EncodeDI_Mem 0xFF08 Reg1 Reg2 OffType Off, InstructionEnd]"

definition EncodeDIV_Reg8 :: "u8 \<Rightarrow> enc" where
  "EncodeDIV_Reg8 Reg8 =
     steps [InstructionBegin, EncodeDM_Reg 0xF630 Reg8, InstructionEnd]"

definition EncodeDIV_Reg16 :: "u8 \<Rightarrow> enc" where
  "EncodeDIV_Reg16 Reg16 =
     steps [InstructionBegin, InstructionPrefix, EncodeDM_Reg 0xF730 Reg16, InstructionEnd]"

definition EncodeDIV_Reg32 :: "u8 \<Rightarrow> enc" where
  "EncodeDIV_Reg32 Reg32 =
     steps [InstructionBegin, InstructionPrefix, EncodeDM_Reg 0xF730 Reg32, InstructionEnd]"

definition EncodeDIV_Mem8 :: "u8 \<Rightarrow> u8 \<Rightarrow> u32 \<Rightarrow> u32 \<Rightarrow> enc" where
  "EncodeDIV_Mem8 Reg1 Reg2 OffType Off =
     steps [InstructionBegin, EncodeDM_Mem 0xF630 Reg1 Reg2 OffType Off, InstructionEnd]"

definition EncodeDIV_Mem16 :: "u8 \<Rightarrow> u8 \<Rightarrow> u32 \<Rightarrow> u32 \<Rightarrow> enc" where
  "EncodeDIV_Mem16 Reg1 Reg2 OffType Off =
     steps [InstructionBegin, InstructionPrefix, EncodeDM_Mem 0xF730 Reg1 Reg2 OffType Off, InstructionEnd]"

definition EncodeDIV_Mem32 :: "u8 \<Rightarrow> u8 \<Rightarrow> u32 \<Rightarrow> u32 \<Rightarrow> enc" where
  "EncodeDIV_Mem32 Reg1 Reg2 OffType Off =
     steps [InstructionBegin, InstructionPrefix, EncodeDM_Mem 0xF730 Reg1 Reg2 OffType Off, InstructionEnd]"

definition EncodeENTER_Imm16_Imm8 :: "u8 \<Rightarrow> u8 \<Rightarrow> enc" where
  "EncodeENTER_Imm16_Imm8 imm16 imm8 =
     steps [InstructionBegin, ToBuffer 0xC8, ToBuffer imm16, ToBuffer (ucast (drop_bit 8 (ucast imm16 :: u32))),
       ToBuffer imm8, InstructionEnd]"

definition EncodeHLT :: "enc" where
  "EncodeHLT =
     steps [InstructionBegin, ToBuffer 0xF4, InstructionEnd]"

definition EncodeIDIV_Reg8 :: "u8 \<Rightarrow> enc" where
  "EncodeIDIV_Reg8 Reg8 =
     steps [InstructionBegin, EncodeDM_Reg 0xF638 Reg8, InstructionEnd]"

definition EncodeIDIV_Reg16 :: "u8 \<Rightarrow> enc" where
  "EncodeIDIV_Reg16 Reg16 =
     steps [InstructionBegin, InstructionPrefix, EncodeDM_Reg 0xF738 Reg16, InstructionEnd]"

definition EncodeIDIV_Reg32 :: "u8 \<Rightarrow> enc" where
  "EncodeIDIV_Reg32 Reg32 =
     steps [InstructionBegin, InstructionPrefix, EncodeDM_Reg 0xF738 Reg32, InstructionEnd]"

definition EncodeIDIV_Mem8 :: "u8 \<Rightarrow> u8 \<Rightarrow> u32 \<Rightarrow> u32 \<Rightarrow> enc" where
  "EncodeIDIV_Mem8 Reg1 Reg2 OffType Off =
     steps [InstructionBegin, EncodeDM_Mem 0xF638 Reg1 Reg2 OffType Off, InstructionEnd]"

definition EncodeIDIV_Mem16 :: "u8 \<Rightarrow> u8 \<Rightarrow> u32 \<Rightarrow> u32 \<Rightarrow> enc" where
  "EncodeIDIV_Mem16 Reg1 Reg2 OffType Off =
     steps [InstructionBegin, InstructionPrefix, EncodeDM_Mem 0xF738 Reg1 Reg2 OffType Off, InstructionEnd]"

definition EncodeIDIV_Mem32 :: "u8 \<Rightarrow> u8 \<Rightarrow> u32 \<Rightarrow> u32 \<Rightarrow> enc" where
  "EncodeIDIV_Mem32 Reg1 Reg2 OffType Off =
     steps [InstructionBegin, InstructionPrefix, EncodeDM_Mem 0xF738 Reg1 Reg2 OffType Off, InstructionEnd]"

definition EncodeIMUL_Reg8 :: "u8 \<Rightarrow> enc" where
  "EncodeIMUL_Reg8 Reg8 =
     steps [InstructionBegin, EncodeDM_Reg 0xF628 Reg8, InstructionEnd]"

definition EncodeIMUL_Reg16 :: "u8 \<Rightarrow> enc" where
  "EncodeIMUL_Reg16 Reg16 =
     steps [InstructionBegin, InstructionPrefix, EncodeDM_Reg 0xF728 Reg16, InstructionEnd]"

definition EncodeIMUL_Reg32 :: "u8 \<Rightarrow> enc" where
  "EncodeIMUL_Reg32 Reg32 =
     steps [InstructionBegin, InstructionPrefix, EncodeDM_Reg 0xF728 Reg32, InstructionEnd]"

definition EncodeIMUL_Mem8 :: "u8 \<Rightarrow> u8 \<Rightarrow> u32 \<Rightarrow> u32 \<Rightarrow> enc" where
  "EncodeIMUL_Mem8 Reg1 Reg2 OffType Off =
     steps [InstructionBegin, EncodeDM_Mem 0xF628 Reg1 Reg2 OffType Off, InstructionEnd]"

definition EncodeIMUL_Mem16 :: "u8 \<Rightarrow> u8 \<Rightarrow> u32 \<Rightarrow> u32 \<Rightarrow> enc" where
  "EncodeIMUL_Mem16 Reg1 Reg2 OffType Off =
     steps [InstructionBegin, InstructionPrefix, EncodeDM_Mem 0xF728 Reg1 Reg2 OffType Off, InstructionEnd]"

definition EncodeIMUL_Mem32 :: "u8 \<Rightarrow> u8 \<Rightarrow> u32 \<Rightarrow> u32 \<Rightarrow> enc" where
  "EncodeIMUL_Mem32 Reg1 Reg2 OffType Off =
     steps [InstructionBegin, InstructionPrefix, EncodeDM_Mem 0xF728 Reg1 Reg2 OffType Off, InstructionEnd]"

definition EncodeINB_Imm8 :: "u8 \<Rightarrow> enc" where
  "EncodeINB_Imm8 Imm8 =
     steps [InstructionBegin, ToBuffer 0xE4, ToBuffer Imm8, InstructionEnd]"

definition EncodeINW_Imm8 :: "u8 \<Rightarrow> enc" where
  "EncodeINW_Imm8 Imm8 =
     steps [InstructionBegin, InstructionPrefix, ToBuffer 0xE5, ToBuffer Imm8, InstructionEnd]"

definition EncodeIND_Imm8 :: "u8 \<Rightarrow> enc" where
  "EncodeIND_Imm8 Imm8 =
     steps [InstructionBegin, InstructionPrefix, ToBuffer 0xE5, ToBuffer Imm8, InstructionEnd]"

definition EncodeINB_DX :: "enc" where
  "EncodeINB_DX =
     steps [InstructionBegin, ToBuffer 0xEC, InstructionEnd]"

definition EncodeINW_DX :: "enc" where
  "EncodeINW_DX =
     steps [InstructionBegin, InstructionPrefix, ToBuffer 0xED, InstructionEnd]"

definition EncodeIND_DX :: "enc" where
  "EncodeIND_DX =
     steps [InstructionBegin, InstructionPrefix, ToBuffer 0xED, InstructionEnd]"

definition EncodeINSB :: "enc" where
  "EncodeINSB =
     steps [InstructionBegin, ToBuffer 0x6C, InstructionEnd]"

definition EncodeINSW :: "enc" where
  "EncodeINSW =
     steps [InstructionBegin, InstructionPrefix, ToBuffer 0x6D, InstructionEnd]"

definition EncodeINSD :: "enc" where
  "EncodeINSD =
     steps [InstructionBegin, InstructionPrefix, ToBuffer 0x6D, InstructionEnd]"

definition EncodeINT_3 :: "enc" where
  "EncodeINT_3 =
     steps [InstructionBegin, ToBuffer 0xCC, InstructionEnd]"

definition EncodeINT_Imm8 :: "u8 \<Rightarrow> enc" where
  "EncodeINT_Imm8 Imm8 =
     steps [InstructionBegin, ToBuffer 0xCD, ToBuffer Imm8, InstructionEnd]"

definition EncodeINTO :: "enc" where
  "EncodeINTO =
     steps [InstructionBegin, ToBuffer 0xCE, InstructionEnd]"

definition EncodeINC_Reg8 :: "u8 \<Rightarrow> enc" where
  "EncodeINC_Reg8 Reg8 =
     steps [InstructionBegin, EncodeDI_Reg 0xFE00 Reg8, InstructionEnd]"

definition EncodeINC_Reg16 :: "u8 \<Rightarrow> enc" where
  "EncodeINC_Reg16 Reg16 =
     steps [InstructionBegin, InstructionPrefix, EncodeDI_Reg 0xFF00 Reg16, InstructionEnd]"

definition EncodeINC_Reg32 :: "u8 \<Rightarrow> enc" where
  "EncodeINC_Reg32 Reg32 =
     steps [InstructionBegin, InstructionPrefix, EncodeDI_Reg 0xFF00 Reg32, InstructionEnd]"

definition EncodeINC_Mem8 :: "u8 \<Rightarrow> u8 \<Rightarrow> u32 \<Rightarrow> u32 \<Rightarrow> enc" where
  "EncodeINC_Mem8 Reg1 Reg2 OffType Off =
     steps [InstructionBegin, EncodeDI_Mem 0xFE00 Reg1 Reg2 OffType Off, InstructionEnd]"

definition EncodeINC_Mem16 :: "u8 \<Rightarrow> u8 \<Rightarrow> u32 \<Rightarrow> u32 \<Rightarrow> enc" where
  "EncodeINC_Mem16 Reg1 Reg2 OffType Off =
     steps [InstructionBegin, InstructionPrefix, EncodeDI_Mem 0xFF00 Reg1 Reg2 OffType Off, InstructionEnd]"

definition EncodeINC_Mem32 :: "u8 \<Rightarrow> u8 \<Rightarrow> u32 \<Rightarrow> u32 \<Rightarrow> enc" where
  "EncodeINC_Mem32 Reg1 Reg2 OffType Off =
     steps [InstructionBegin, InstructionPrefix, EncodeDI_Mem 0xFF00 Reg1 Reg2 OffType Off, InstructionEnd]"

definition EncodeIRET :: "enc" where
  "EncodeIRET =
     steps [InstructionBegin, ToBuffer 0xCF, InstructionEnd]"

definition EncodeLAHF :: "enc" where
  "EncodeLAHF =
     steps [InstructionBegin, ToBuffer 0x9F, InstructionEnd]"

definition EncodeLDS_Reg16_Mem32 :: "u8 \<Rightarrow> u8 \<Rightarrow> u8 \<Rightarrow> u32 \<Rightarrow> u32 \<Rightarrow> enc" where
  "EncodeLDS_Reg16_Mem32 Reg16 Reg1 Reg2 OffType Off =
     steps [InstructionBegin, InstructionPrefix, OpcodeW_Reg16_Mem16 0xC500 Reg16 Reg1 Reg2 OffType Off,
       InstructionEnd]"

definition EncodeLES_Reg16_Mem32 :: "u8 \<Rightarrow> u8 \<Rightarrow> u8 \<Rightarrow> u32 \<Rightarrow> u32 \<Rightarrow> enc" where
  "EncodeLES_Reg16_Mem32 Reg16 Reg1 Reg2 OffType Off =
     steps [InstructionBegin, InstructionPrefix, OpcodeW_Reg16_Mem16 0xC400 Reg16 Reg1 Reg2 OffType Off,
       InstructionEnd]"

definition EncodeLEA_Reg16_Mem :: "u8 \<Rightarrow> u8 \<Rightarrow> u8 \<Rightarrow> u32 \<Rightarrow> u32 \<Rightarrow> enc" where
  "EncodeLEA_Reg16_Mem Reg16 Reg1 Reg2 OffType Off =
     steps [InstructionBegin, InstructionPrefix, OpcodeW_Reg16_Mem16 0x8D00 Reg16 Reg1 Reg2 OffType Off,
       InstructionEnd]"

definition EncodeLEAVE :: "enc" where
  "EncodeLEAVE =
     steps [InstructionBegin, ToBuffer 0xC9, InstructionEnd]"

definition EncodeLGDT_Mem1632 :: "u8 \<Rightarrow> u8 \<Rightarrow> u8 \<Rightarrow> u32 \<Rightarrow> enc" where
  "EncodeLGDT_Mem1632 Reg1 Reg2 OffType Off =
     steps [InstructionBegin, Opcode3B_Mem_X 0xF0110 Reg1 Reg2 OffType Off 0 0, InstructionEnd]"

definition EncodeLIDT_Mem1632 :: "u8 \<Rightarrow> u8 \<Rightarrow> u8 \<Rightarrow> u32 \<Rightarrow> enc" where
  "EncodeLIDT_Mem1632 Reg1 Reg2 OffType Off =
     steps [InstructionBegin, Opcode3B_Mem_X 0xF0118 Reg1 Reg2 OffType Off 0 0, InstructionEnd]"

definition EncodeLMSW_Reg16 :: "u8 \<Rightarrow> enc" where
  "EncodeLMSW_Reg16 Reg16 =
     steps [InstructionBegin, Opcode3B_Reg 0xF0130 Reg16, InstructionEnd]"

definition EncodeLMSW_Mem16 :: "u8 \<Rightarrow> u8 \<Rightarrow> u8 \<Rightarrow> u32 \<Rightarrow> enc" where
  "EncodeLMSW_Mem16 Reg1 Reg2 OffType Off =
     steps [InstructionBegin, Opcode3B_Mem_X 0xF0130 Reg1 Reg2 OffType Off 0 0, InstructionEnd]"

definition EncodeLODSB :: "enc" where
  "EncodeLODSB =
     steps [InstructionBegin, ToBuffer 0xAC, InstructionEnd]"

definition EncodeLODSW :: "enc" where
  "EncodeLODSW =
     steps [InstructionBegin, InstructionPrefix, ToBuffer 0xAC, InstructionEnd]"

definition EncodeLODSD :: "enc" where
  "EncodeLODSD =
     steps [InstructionBegin, InstructionPrefix, ToBuffer 0xAD, InstructionEnd]"

definition EncodeLSL_Reg16_Reg16 :: "u8 \<Rightarrow> u8 \<Rightarrow> enc" where
  "EncodeLSL_Reg16_Reg16 DstReg SrcReg =
     (let Opcode = (0xF0300 :: u32); Opcode = Opcode OR ((push_bit 3 (ucast DstReg :: u32)) AND (0xFF :: u32)) in
       steps [InstructionBegin, InstructionPrefix, Opcode3B_Reg Opcode SrcReg, InstructionEnd])"

definition EncodeLSL_Reg16_Mem16 :: "u8 \<Rightarrow> u8 \<Rightarrow> u8 \<Rightarrow> u8 \<Rightarrow> u32 \<Rightarrow> enc" where
  "EncodeLSL_Reg16_Mem16 DstReg Reg1 Reg2 OffType Off =
     (let Opcode = (0xF0300 :: u32); Opcode = Opcode OR ((push_bit 3 (ucast DstReg :: u32)) AND (0xFF :: u32)) in
       steps [InstructionBegin, InstructionPrefix, Opcode3B_Mem_X Opcode Reg1 Reg2 OffType Off 0 0, InstructionEnd])"

definition EncodeLSL_Reg32_Reg32 :: "u8 \<Rightarrow> u8 \<Rightarrow> enc" where
  "EncodeLSL_Reg32_Reg32 DstReg SrcReg =
     (let Opcode = (0xF0300 :: u32); Opcode = Opcode OR ((push_bit 3 (ucast DstReg :: u32)) AND (0xFF :: u32)) in
       steps [InstructionBegin, InstructionPrefix, Opcode3B_Reg Opcode SrcReg, InstructionEnd])"

definition EncodeLSL_Reg32_Mem16 :: "u8 \<Rightarrow> u8 \<Rightarrow> u8 \<Rightarrow> u8 \<Rightarrow> u32 \<Rightarrow> enc" where
  "EncodeLSL_Reg32_Mem16 DstReg Reg1 Reg2 OffType Off =
     (let Opcode = (0xF0300 :: u32); Opcode = Opcode OR ((push_bit 3 (ucast DstReg :: u32)) AND (0xFF :: u32)) in
       steps [InstructionBegin, InstructionPrefix, Opcode3B_Mem_X Opcode Reg1 Reg2 OffType Off 0 0, InstructionEnd])"

definition EncodeLTR_Reg16 :: "u8 \<Rightarrow> enc" where
  "EncodeLTR_Reg16 Reg16 =
     steps [InstructionBegin, Opcode3B_Reg 0xF0018 Reg16, InstructionEnd]"

definition EncodeLTR_Mem16 :: "u8 \<Rightarrow> u8 \<Rightarrow> u8 \<Rightarrow> u32 \<Rightarrow> enc" where
  "EncodeLTR_Mem16 Reg1 Reg2 OffType Off =
     steps [InstructionBegin, Opcode3B_Mem_X 0xF0018 Reg1 Reg2 OffType Off 0 0, InstructionEnd]"

definition EncodeMOV_MemOff_Acc8 :: "u32 \<Rightarrow> enc" where
  "EncodeMOV_MemOff_Acc8 MemOff =
     steps [InstructionBegin, ToBuffer 0xA2, ToBuffer (ucast MemOff), ToBuffer (ucast (drop_bit 8 MemOff)),
       InstructionEnd]"

definition EncodeMOV_MemOff_Acc16 :: "u32 \<Rightarrow> enc" where
  "EncodeMOV_MemOff_Acc16 MemOff =
     steps [InstructionBegin, InstructionPrefix, ToBuffer 0xA3, ToBuffer (ucast MemOff),
       ToBuffer (ucast (drop_bit 8 MemOff)), InstructionEnd]"

definition EncodeMOV_MemOff_Acc32 :: "u32 \<Rightarrow> enc" where
  "EncodeMOV_MemOff_Acc32 MemOff =
     steps [InstructionBegin, InstructionPrefix, ToBuffer 0xA3, ToBuffer (ucast MemOff),
       ToBuffer (ucast (drop_bit 8 MemOff)), ToBuffer (ucast (drop_bit 16 MemOff)),
       ToBuffer (ucast (drop_bit 24 MemOff)), InstructionEnd]"

definition EncodeMOV_Acc8_MemOff :: "u32 \<Rightarrow> enc" where
  "EncodeMOV_Acc8_MemOff MemOff =
     steps [InstructionBegin, ToBuffer 0xA0, ToBuffer (ucast MemOff), ToBuffer (ucast (drop_bit 8 MemOff)),
       InstructionEnd]"

definition EncodeMOV_Acc16_MemOff :: "u32 \<Rightarrow> enc" where
  "EncodeMOV_Acc16_MemOff MemOff =
     steps [InstructionBegin, InstructionPrefix, ToBuffer 0xA1, ToBuffer (ucast MemOff),
       ToBuffer (ucast (drop_bit 8 MemOff)), InstructionEnd]"

definition EncodeMOV_Acc32_MemOff :: "u32 \<Rightarrow> enc" where
  "EncodeMOV_Acc32_MemOff MemOff =
     steps [InstructionBegin, InstructionPrefix, ToBuffer 0xA1, ToBuffer (ucast MemOff),
       ToBuffer (ucast (drop_bit 8 MemOff)), ToBuffer (ucast (drop_bit 16 MemOff)),
       ToBuffer (ucast (drop_bit 24 MemOff)), InstructionEnd]"

definition EncodeMOV_Reg8_Imm8 :: "u8 \<Rightarrow> u8 \<Rightarrow> enc" where
  "EncodeMOV_Reg8_Imm8 Reg8 Imm8 =
     steps [InstructionBegin, ToBuffer (ucast ((0xB0 :: u32) OR (ucast Reg8 :: u32))), ToBuffer Imm8, InstructionEnd]"

definition EncodeMOV_Reg16_Imm16 :: "u8 \<Rightarrow> u32 \<Rightarrow> enc" where
  "EncodeMOV_Reg16_Imm16 Reg16 Imm16 =
     steps [InstructionBegin, InstructionPrefix, ToBuffer (ucast ((0xB8 :: u32) OR (ucast Reg16 :: u32))),
       ToBuffer (ucast Imm16), ToBuffer (ucast (drop_bit 8 Imm16)), InstructionEnd]"

definition EncodeMOV_Reg32_Imm32 :: "u8 \<Rightarrow> u32 \<Rightarrow> enc" where
  "EncodeMOV_Reg32_Imm32 Reg32 Imm32 =
     steps [InstructionBegin, InstructionPrefix, ToBuffer (ucast ((0xB8 :: u32) OR (ucast Reg32 :: u32))),
       ToBuffer (ucast Imm32), ToBuffer (ucast (drop_bit 8 Imm32)), ToBuffer (ucast (drop_bit 16 Imm32)),
       ToBuffer (ucast (drop_bit 24 Imm32)), InstructionEnd]"

definition EncodeMOV_Mem8_Imm8 :: "u8 \<Rightarrow> u8 \<Rightarrow> u32 \<Rightarrow> u32 \<Rightarrow> u8 \<Rightarrow> enc" where
  "EncodeMOV_Mem8_Imm8 Reg1 Reg2 OffType Off Imm8 =
     steps [InstructionBegin, OpcodeW_Mem_X 0xC600 Reg1 Reg2 (ucast OffType) Off 1 (ucast Imm8), InstructionEnd]"

end
