(* ===== verification/Iasm_Instructions_B.thy ===== *)
theory Iasm_Instructions_B
  imports Iasm_Encoder
begin

text \<open>
  \<^verbatim>\<open>apps/iasm/encoder.c\<close>: the encoders of single instructions from \<open>EncodeMOV_Mem16_Imm16\<close> to \<open>EncodeXLAT\<close>, in the
  order of the file, with the opcodes of \<^verbatim>\<open>opcode.h\<close> filled in.
\<close>

definition EncodeMOV_Mem16_Imm16 :: "u8 \<Rightarrow> u8 \<Rightarrow> u32 \<Rightarrow> u32 \<Rightarrow> u32 \<Rightarrow> enc" where
  "EncodeMOV_Mem16_Imm16 Reg1 Reg2 OffType Off Imm16 =
     steps [InstructionBegin, InstructionPrefix, OpcodeW_Mem_X 0xC700 Reg1 Reg2 (ucast OffType) Off 2 Imm16,
       InstructionEnd]"

definition EncodeMOV_Mem32_Imm32 :: "u8 \<Rightarrow> u8 \<Rightarrow> u32 \<Rightarrow> u32 \<Rightarrow> u32 \<Rightarrow> enc" where
  "EncodeMOV_Mem32_Imm32 Reg1 Reg2 OffType Off Imm32 =
     steps [InstructionBegin, InstructionPrefix, OpcodeW_Mem_X 0xC700 Reg1 Reg2 (ucast OffType) Off 3 Imm32,
       InstructionEnd]"

definition EncodeMOV_Reg8_Reg8 :: "u8 \<Rightarrow> u8 \<Rightarrow> enc" where
  "EncodeMOV_Reg8_Reg8 DstReg SrcReg =
     (let Opcode = (0x8800 :: u32); Opcode = Opcode OR ((push_bit 3 (ucast SrcReg :: u32)) AND (0xFF :: u32)) in
       steps [InstructionBegin,
       with_reg DstReg (\<lambda>Mod RM. let Opcode = Opcode OR ((ucast RM :: u32) AND (0xFF :: u32));
       Opcode = Opcode OR ((push_bit 6 (ucast Mod :: u32)) AND (0xFF :: u32)) in
       steps [ToBuffer (ucast (drop_bit 8 Opcode)), ToBuffer (ucast Opcode), InstructionEnd])])"

definition EncodeMOV_Reg16_Reg16 :: "u8 \<Rightarrow> u8 \<Rightarrow> enc" where
  "EncodeMOV_Reg16_Reg16 DstReg SrcReg =
     (let Opcode = (0x8900 :: u32); Opcode = Opcode OR ((push_bit 3 (ucast SrcReg :: u32)) AND (0xFF :: u32)) in
       steps [InstructionBegin, InstructionPrefix,
       with_reg DstReg (\<lambda>Mod RM. let Opcode = Opcode OR ((ucast RM :: u32) AND (0xFF :: u32));
       Opcode = Opcode OR ((push_bit 6 (ucast Mod :: u32)) AND (0xFF :: u32)) in
       steps [ToBuffer (ucast (drop_bit 8 Opcode)), ToBuffer (ucast Opcode), InstructionEnd])])"

definition EncodeMOV_Reg32_Reg32 :: "u8 \<Rightarrow> u8 \<Rightarrow> enc" where
  "EncodeMOV_Reg32_Reg32 DstReg SrcReg =
     (let Opcode = (0x8900 :: u32); Opcode = Opcode OR ((push_bit 3 (ucast SrcReg :: u32)) AND (0xFF :: u32)) in
       steps [InstructionBegin, InstructionPrefix,
       with_reg DstReg (\<lambda>Mod RM. let Opcode = Opcode OR ((ucast RM :: u32) AND (0xFF :: u32));
       Opcode = Opcode OR ((push_bit 6 (ucast Mod :: u32)) AND (0xFF :: u32)) in
       steps [ToBuffer (ucast (drop_bit 8 Opcode)), ToBuffer (ucast Opcode), InstructionEnd])])"

definition EncodeMOV_Reg8_Mem8 :: "u8 \<Rightarrow> u8 \<Rightarrow> u8 \<Rightarrow> u32 \<Rightarrow> u32 \<Rightarrow> enc" where
  "EncodeMOV_Reg8_Mem8 DstReg Reg1 Reg2 OffType Off =
     (let Opcode = (0x8A00 :: u32); Opcode = Opcode OR ((push_bit 3 (ucast DstReg :: u32)) AND (0xFF :: u32)) in
       steps [InstructionBegin, OpcodeW_Mem_X Opcode Reg1 Reg2 (ucast OffType) Off 0 0, InstructionEnd])"

definition EncodeMOV_Reg16_Mem16 :: "u8 \<Rightarrow> u8 \<Rightarrow> u8 \<Rightarrow> u32 \<Rightarrow> u32 \<Rightarrow> enc" where
  "EncodeMOV_Reg16_Mem16 DstReg Reg1 Reg2 OffType Off =
     (let Opcode = (0x8B00 :: u32); Opcode = Opcode OR ((push_bit 3 (ucast DstReg :: u32)) AND (0xFF :: u32)) in
       steps [InstructionBegin, InstructionPrefix, OpcodeW_Mem_X Opcode Reg1 Reg2 (ucast OffType) Off 0 0,
       InstructionEnd])"

definition EncodeMOV_Reg32_Mem32 :: "u8 \<Rightarrow> u8 \<Rightarrow> u8 \<Rightarrow> u32 \<Rightarrow> u32 \<Rightarrow> enc" where
  "EncodeMOV_Reg32_Mem32 DstReg Reg1 Reg2 OffType Off =
     (let Opcode = (0x8B00 :: u32); Opcode = Opcode OR ((push_bit 3 (ucast DstReg :: u32)) AND (0xFF :: u32)) in
       steps [InstructionBegin, InstructionPrefix, OpcodeW_Mem_X Opcode Reg1 Reg2 (ucast OffType) Off 0 0,
       InstructionEnd])"

definition EncodeMOV_Mem8_Reg8 :: "u8 \<Rightarrow> u8 \<Rightarrow> u32 \<Rightarrow> u32 \<Rightarrow> u8 \<Rightarrow> enc" where
  "EncodeMOV_Mem8_Reg8 Reg1 Reg2 OffType Off SrcReg =
     (let Opcode = (0x8800 :: u32); Opcode = Opcode OR ((push_bit 3 (ucast SrcReg :: u32)) AND (0xFF :: u32)) in
       steps [InstructionBegin, OpcodeW_Mem_X Opcode Reg1 Reg2 (ucast OffType) Off 0 0, InstructionEnd])"

definition EncodeMOV_Mem16_Reg16 :: "u8 \<Rightarrow> u8 \<Rightarrow> u32 \<Rightarrow> u32 \<Rightarrow> u8 \<Rightarrow> enc" where
  "EncodeMOV_Mem16_Reg16 Reg1 Reg2 OffType Off SrcReg =
     (let Opcode = (0x8900 :: u32); Opcode = Opcode OR ((push_bit 3 (ucast SrcReg :: u32)) AND (0xFF :: u32)) in
       steps [InstructionBegin, InstructionPrefix, OpcodeW_Mem_X Opcode Reg1 Reg2 (ucast OffType) Off 0 0,
       InstructionEnd])"

definition EncodeMOV_Mem32_Reg32 :: "u8 \<Rightarrow> u8 \<Rightarrow> u32 \<Rightarrow> u32 \<Rightarrow> u8 \<Rightarrow> enc" where
  "EncodeMOV_Mem32_Reg32 Reg1 Reg2 OffType Off SrcReg =
     (let Opcode = (0x8900 :: u32); Opcode = Opcode OR ((push_bit 3 (ucast SrcReg :: u32)) AND (0xFF :: u32)) in
       steps [InstructionBegin, InstructionPrefix, OpcodeW_Mem_X Opcode Reg1 Reg2 (ucast OffType) Off 0 0,
       InstructionEnd])"

definition EncodeMOV_Reg16_Seg :: "u8 \<Rightarrow> u8 \<Rightarrow> enc" where
  "EncodeMOV_Reg16_Seg Reg16 Seg =
     (let Opcode = (0x8C00 :: u32) in steps [InstructionBegin, InstructionPrefix,
       with_reg Reg16 (\<lambda>Mod RM. let Opcode = Opcode OR ((push_bit 3 (ucast Seg :: u32)) AND (0xFF :: u32));
       Opcode = Opcode OR ((ucast RM :: u32) AND (0xFF :: u32));
       Opcode = Opcode OR ((push_bit 6 (ucast Mod :: u32)) AND (0xFF :: u32)) in
       steps [ToBuffer (ucast (drop_bit 8 Opcode)), ToBuffer (ucast Opcode), InstructionEnd])])"

definition EncodeMOV_Seg_Reg16 :: "u8 \<Rightarrow> u8 \<Rightarrow> enc" where
  "EncodeMOV_Seg_Reg16 Seg Reg16 =
     (let Opcode = (0x8E00 :: u32) in steps [InstructionBegin, InstructionPrefix,
       with_reg Reg16 (\<lambda>Mod RM. let Opcode = Opcode OR ((push_bit 3 (ucast Seg :: u32)) AND (0xFF :: u32));
       Opcode = Opcode OR ((ucast RM :: u32) AND (0xFF :: u32));
       Opcode = Opcode OR ((push_bit 6 (ucast Mod :: u32)) AND (0xFF :: u32)) in
       steps [ToBuffer (ucast (drop_bit 8 Opcode)), ToBuffer (ucast Opcode), InstructionEnd])])"

definition EncodeMOV_Mem16_Seg :: "u8 \<Rightarrow> u8 \<Rightarrow> u32 \<Rightarrow> u32 \<Rightarrow> u8 \<Rightarrow> enc" where
  "EncodeMOV_Mem16_Seg Reg1 Reg2 OffType Off Seg =
     (let Opcode = (0x8C00 :: u32); Opcode = Opcode OR ((push_bit 3 (ucast Seg :: u32)) AND (0xFF :: u32)) in
       steps [InstructionBegin, InstructionPrefix, OpcodeW_Mem_X Opcode Reg1 Reg2 (ucast OffType) Off 0 0,
       InstructionEnd])"

definition EncodeMOV_Seg_Mem16 :: "u8 \<Rightarrow> u8 \<Rightarrow> u8 \<Rightarrow> u32 \<Rightarrow> u32 \<Rightarrow> enc" where
  "EncodeMOV_Seg_Mem16 Seg Reg1 Reg2 OffType Off =
     (let Opcode = (0x8E00 :: u32); Opcode = Opcode OR ((push_bit 3 (ucast Seg :: u32)) AND (0xFF :: u32)) in
       steps [InstructionBegin, InstructionPrefix, OpcodeW_Mem_X Opcode Reg1 Reg2 (ucast OffType) Off 0 0,
       InstructionEnd])"

definition EncodeMOV_Reg32_Cr :: "u8 \<Rightarrow> u8 \<Rightarrow> enc" where
  "EncodeMOV_Reg32_Cr Reg Cr =
     (let Opcode = (0xF2000 :: u32); Opcode = Opcode OR ((push_bit 3 (ucast Cr :: u32)) AND (0xFF :: u32)) in
       steps [InstructionBegin, Opcode3B_Reg Opcode Reg, InstructionEnd])"

definition EncodeMOV_Cr_Reg32 :: "u8 \<Rightarrow> u8 \<Rightarrow> enc" where
  "EncodeMOV_Cr_Reg32 Cr Reg =
     (let Opcode = (0xF2200 :: u32); Opcode = Opcode OR ((push_bit 3 (ucast Cr :: u32)) AND (0xFF :: u32)) in
       steps [InstructionBegin, Opcode3B_Reg Opcode Reg, InstructionEnd])"

definition EncodeMOV_Reg32_Dr :: "u8 \<Rightarrow> u8 \<Rightarrow> enc" where
  "EncodeMOV_Reg32_Dr Reg Dr =
     (let Opcode = (0xF2100 :: u32); Opcode = Opcode OR ((push_bit 3 (ucast Dr :: u32)) AND (0xFF :: u32)) in
       steps [InstructionBegin, Opcode3B_Reg Opcode Reg, InstructionEnd])"

definition EncodeMOV_Dr_Reg32 :: "u8 \<Rightarrow> u8 \<Rightarrow> enc" where
  "EncodeMOV_Dr_Reg32 Dr Reg =
     (let Opcode = (0xF2300 :: u32); Opcode = Opcode OR ((push_bit 3 (ucast Dr :: u32)) AND (0xFF :: u32)) in
       steps [InstructionBegin, Opcode3B_Reg Opcode Reg, InstructionEnd])"

definition EncodeMOV_Reg32_Tr :: "u8 \<Rightarrow> u8 \<Rightarrow> enc" where
  "EncodeMOV_Reg32_Tr Reg Tr =
     (let Opcode = (0xF2400 :: u32); Opcode = Opcode OR ((push_bit 3 (ucast Tr :: u32)) AND (0xFF :: u32)) in
       steps [InstructionBegin, Opcode3B_Reg Opcode Reg, InstructionEnd])"

definition EncodeMOV_Tr_Reg32 :: "u8 \<Rightarrow> u8 \<Rightarrow> enc" where
  "EncodeMOV_Tr_Reg32 Tr Reg =
     (let Opcode = (0xF2600 :: u32); Opcode = Opcode OR ((push_bit 3 (ucast Tr :: u32)) AND (0xFF :: u32)) in
       steps [InstructionBegin, Opcode3B_Reg Opcode Reg, InstructionEnd])"

definition EncodeMOVSB :: "enc" where
  "EncodeMOVSB =
     steps [InstructionBegin, ToBuffer 0xA4, InstructionEnd]"

definition EncodeMOVSW :: "enc" where
  "EncodeMOVSW =
     steps [InstructionBegin, InstructionPrefix, ToBuffer 0xA5, InstructionEnd]"

definition EncodeMOVSD :: "enc" where
  "EncodeMOVSD =
     steps [InstructionBegin, InstructionPrefix, ToBuffer 0xA5, InstructionEnd]"

definition EncodeMUL_Reg8 :: "u8 \<Rightarrow> enc" where
  "EncodeMUL_Reg8 Reg8 =
     steps [InstructionBegin, OpcodeW_Reg 0xF620 Reg8, InstructionEnd]"

definition EncodeMUL_Reg16 :: "u8 \<Rightarrow> enc" where
  "EncodeMUL_Reg16 Reg16 =
     steps [InstructionBegin, InstructionPrefix, OpcodeW_Reg 0xF720 Reg16, InstructionEnd]"

definition EncodeMUL_Reg32 :: "u8 \<Rightarrow> enc" where
  "EncodeMUL_Reg32 Reg32 =
     steps [InstructionBegin, InstructionPrefix, OpcodeW_Reg 0xF720 Reg32, InstructionEnd]"

definition EncodeMUL_Mem8 :: "u8 \<Rightarrow> u8 \<Rightarrow> u32 \<Rightarrow> u32 \<Rightarrow> enc" where
  "EncodeMUL_Mem8 Reg1 Reg2 OffType Off =
     steps [InstructionBegin, OpcodeW_Mem_X 0xF620 Reg1 Reg2 (ucast OffType) Off 0 0, InstructionEnd]"

definition EncodeMUL_Mem16 :: "u8 \<Rightarrow> u8 \<Rightarrow> u32 \<Rightarrow> u32 \<Rightarrow> enc" where
  "EncodeMUL_Mem16 Reg1 Reg2 OffType Off =
     steps [InstructionBegin, InstructionPrefix, OpcodeW_Mem_X 0xF720 Reg1 Reg2 (ucast OffType) Off 0 0,
       InstructionEnd]"

definition EncodeMUL_Mem32 :: "u8 \<Rightarrow> u8 \<Rightarrow> u32 \<Rightarrow> u32 \<Rightarrow> enc" where
  "EncodeMUL_Mem32 Reg1 Reg2 OffType Off =
     steps [InstructionBegin, InstructionPrefix, OpcodeW_Mem_X 0xF720 Reg1 Reg2 (ucast OffType) Off 0 0,
       InstructionEnd]"

definition EncodeNEG_Reg8 :: "u8 \<Rightarrow> enc" where
  "EncodeNEG_Reg8 Reg8 =
     steps [InstructionBegin, OpcodeW_Reg 0xF618 Reg8, InstructionEnd]"

definition EncodeNEG_Reg16 :: "u8 \<Rightarrow> enc" where
  "EncodeNEG_Reg16 Reg16 =
     steps [InstructionBegin, InstructionPrefix, OpcodeW_Reg 0xF618 Reg16, InstructionEnd]"

definition EncodeNEG_Reg32 :: "u8 \<Rightarrow> enc" where
  "EncodeNEG_Reg32 Reg32 =
     steps [InstructionBegin, InstructionPrefix, OpcodeW_Reg 0xF618 Reg32, InstructionEnd]"

definition EncodeNEG_Mem8 :: "u8 \<Rightarrow> u8 \<Rightarrow> u32 \<Rightarrow> u32 \<Rightarrow> enc" where
  "EncodeNEG_Mem8 Reg1 Reg2 OffType Off =
     steps [InstructionBegin, OpcodeW_Mem_X 0xF718 Reg1 Reg2 (ucast OffType) Off 0 0, InstructionEnd]"

definition EncodeNEG_Mem16 :: "u8 \<Rightarrow> u8 \<Rightarrow> u32 \<Rightarrow> u32 \<Rightarrow> enc" where
  "EncodeNEG_Mem16 Reg1 Reg2 OffType Off =
     steps [InstructionBegin, InstructionPrefix, OpcodeW_Mem_X 0xF718 Reg1 Reg2 (ucast OffType) Off 0 0,
       InstructionEnd]"

definition EncodeNEG_Mem32 :: "u8 \<Rightarrow> u8 \<Rightarrow> u32 \<Rightarrow> u32 \<Rightarrow> enc" where
  "EncodeNEG_Mem32 Reg1 Reg2 OffType Off =
     steps [InstructionBegin, InstructionPrefix, OpcodeW_Mem_X 0xF718 Reg1 Reg2 (ucast OffType) Off 0 0,
       InstructionEnd]"

definition EncodeNOP :: "enc" where
  "EncodeNOP =
     steps [InstructionBegin, ToBuffer 0x90, InstructionEnd]"

definition EncodeNOT_Reg8 :: "u8 \<Rightarrow> enc" where
  "EncodeNOT_Reg8 Reg8 =
     steps [InstructionBegin, OpcodeW_Reg 0xF610 Reg8, InstructionEnd]"

definition EncodeNOT_Reg16 :: "u8 \<Rightarrow> enc" where
  "EncodeNOT_Reg16 Reg16 =
     steps [InstructionBegin, InstructionPrefix, OpcodeW_Reg 0xF610 Reg16, InstructionEnd]"

definition EncodeNOT_Reg32 :: "u8 \<Rightarrow> enc" where
  "EncodeNOT_Reg32 Reg32 =
     steps [InstructionBegin, InstructionPrefix, OpcodeW_Reg 0xF610 Reg32, InstructionEnd]"

definition EncodeNOT_Mem8 :: "u8 \<Rightarrow> u8 \<Rightarrow> u32 \<Rightarrow> u32 \<Rightarrow> enc" where
  "EncodeNOT_Mem8 Reg1 Reg2 OffType Off =
     steps [InstructionBegin, OpcodeW_Mem_X 0xF710 Reg1 Reg2 (ucast OffType) Off 0 0, InstructionEnd]"

definition EncodeNOT_Mem16 :: "u8 \<Rightarrow> u8 \<Rightarrow> u32 \<Rightarrow> u32 \<Rightarrow> enc" where
  "EncodeNOT_Mem16 Reg1 Reg2 OffType Off =
     steps [InstructionBegin, InstructionPrefix, OpcodeW_Mem_X 0xF710 Reg1 Reg2 (ucast OffType) Off 0 0,
       InstructionEnd]"

definition EncodeNOT_Mem32 :: "u8 \<Rightarrow> u8 \<Rightarrow> u32 \<Rightarrow> u32 \<Rightarrow> enc" where
  "EncodeNOT_Mem32 Reg1 Reg2 OffType Off =
     steps [InstructionBegin, InstructionPrefix, OpcodeW_Mem_X 0xF710 Reg1 Reg2 (ucast OffType) Off 0 0,
       InstructionEnd]"

definition EncodeOUTB_Imm8 :: "u8 \<Rightarrow> enc" where
  "EncodeOUTB_Imm8 Imm8 =
     steps [InstructionBegin, ToBuffer 0xE6, ToBuffer Imm8, InstructionEnd]"

definition EncodeOUTW_Imm8 :: "u8 \<Rightarrow> enc" where
  "EncodeOUTW_Imm8 Imm8 =
     steps [InstructionBegin, InstructionPrefix, ToBuffer 0xE7, ToBuffer Imm8, InstructionEnd]"

definition EncodeOUTD_Imm8 :: "u8 \<Rightarrow> enc" where
  "EncodeOUTD_Imm8 Imm8 =
     steps [InstructionBegin, InstructionPrefix, ToBuffer 0xE7, ToBuffer Imm8, InstructionEnd]"

definition EncodeOUTB_DX :: "enc" where
  "EncodeOUTB_DX =
     steps [InstructionBegin, ToBuffer 0xEE, InstructionEnd]"

definition EncodeOUTW_DX :: "enc" where
  "EncodeOUTW_DX =
     steps [InstructionBegin, InstructionPrefix, ToBuffer 0xEF, InstructionEnd]"

definition EncodeOUTD_DX :: "enc" where
  "EncodeOUTD_DX =
     steps [InstructionBegin, InstructionPrefix, ToBuffer 0xEF, InstructionEnd]"

definition EncodeOUTSB :: "enc" where
  "EncodeOUTSB =
     steps [InstructionBegin, ToBuffer 0x6E, InstructionEnd]"

definition EncodeOUTSW :: "enc" where
  "EncodeOUTSW =
     steps [InstructionBegin, InstructionPrefix, ToBuffer 0x6F, InstructionEnd]"

definition EncodeOUTSD :: "enc" where
  "EncodeOUTSD =
     steps [InstructionBegin, InstructionPrefix, ToBuffer 0x6F, InstructionEnd]"

definition EncodePOP_Reg16 :: "u8 \<Rightarrow> enc" where
  "EncodePOP_Reg16 Reg16 =
     steps [InstructionBegin, InstructionPrefix, ToBuffer (ucast ((0x58 :: u32) OR (ucast Reg16 :: u32))),
       InstructionEnd]"

definition EncodePOP_Reg32 :: "u8 \<Rightarrow> enc" where
  "EncodePOP_Reg32 Reg32 =
     steps [InstructionBegin, InstructionPrefix, ToBuffer (ucast ((0x58 :: u32) OR (ucast Reg32 :: u32))),
       InstructionEnd]"

definition EncodePOP_Mem16 :: "u8 \<Rightarrow> u8 \<Rightarrow> u32 \<Rightarrow> u32 \<Rightarrow> enc" where
  "EncodePOP_Mem16 Reg1 Reg2 OffType Off =
     steps [InstructionBegin, InstructionPrefix, OpcodeW_Mem_X 0x8F00 Reg1 Reg2 (ucast OffType) Off 0 0,
       InstructionEnd]"

definition EncodePOP_Mem32 :: "u8 \<Rightarrow> u8 \<Rightarrow> u32 \<Rightarrow> u32 \<Rightarrow> enc" where
  "EncodePOP_Mem32 Reg1 Reg2 OffType Off =
     steps [InstructionBegin, InstructionPrefix, OpcodeW_Mem_X 0x8F00 Reg1 Reg2 (ucast OffType) Off 0 0,
       InstructionEnd]"

definition EncodePOP_Seg :: "u8 \<Rightarrow> enc" where
  "EncodePOP_Seg Seg =
     steps [InstructionBegin,
       (if Seg = 0 then ToBuffer 0x7
        else if Seg = 1 then ToBuffer 0xF
        else if Seg = 2 then ToBuffer 0x17
        else if Seg = 3 then ToBuffer 0x1F
        else if Seg = 4 then steps [ToBuffer (ucast (drop_bit 8 (0xFA1 :: u32))), ToBuffer (ucast (0xFA1 :: u32))]
        else if Seg = 5 then steps [ToBuffer (ucast (drop_bit 8 (0xFA9 :: u32))), ToBuffer (ucast (0xFA9 :: u32))]
        else enc_error ''assert''),
       InstructionEnd]"

definition EncodePOPA :: "enc" where
  "EncodePOPA =
     steps [InstructionBegin, ToBuffer 0x61, InstructionEnd]"

definition EncodePOPF :: "enc" where
  "EncodePOPF =
     steps [InstructionBegin, ToBuffer 0x9D, InstructionEnd]"

definition EncodePUSH_Reg16 :: "u8 \<Rightarrow> enc" where
  "EncodePUSH_Reg16 Reg16 =
     steps [InstructionBegin, InstructionPrefix, ToBuffer (ucast ((0x50 :: u32) OR (ucast Reg16 :: u32))),
       InstructionEnd]"

definition EncodePUSH_Reg32 :: "u8 \<Rightarrow> enc" where
  "EncodePUSH_Reg32 Reg32 =
     steps [InstructionBegin, InstructionPrefix, ToBuffer (ucast ((0x50 :: u32) OR (ucast Reg32 :: u32))),
       InstructionEnd]"

definition EncodePUSH_Mem16 :: "u8 \<Rightarrow> u8 \<Rightarrow> u32 \<Rightarrow> u32 \<Rightarrow> enc" where
  "EncodePUSH_Mem16 Reg1 Reg2 OffType Off =
     steps [InstructionBegin, InstructionPrefix, OpcodeW_Mem_X 0xFF30 Reg1 Reg2 (ucast OffType) Off 0 0,
       InstructionEnd]"

definition EncodePUSH_Mem32 :: "u8 \<Rightarrow> u8 \<Rightarrow> u32 \<Rightarrow> u32 \<Rightarrow> enc" where
  "EncodePUSH_Mem32 Reg1 Reg2 OffType Off =
     steps [InstructionBegin, InstructionPrefix, OpcodeW_Mem_X 0xFF30 Reg1 Reg2 (ucast OffType) Off 0 0,
       InstructionEnd]"

definition EncodePUSH_Imm8 :: "u32 \<Rightarrow> enc" where
  "EncodePUSH_Imm8 Imm8 =
     steps [InstructionBegin, ToBuffer 0x6A, ToBuffer (ucast Imm8), InstructionEnd]"

definition EncodePUSH_Imm16 :: "u32 \<Rightarrow> enc" where
  "EncodePUSH_Imm16 Imm16 s =
     (if e_Mode s \<noteq> MODE_BIT16 then enc_error ''Invalid PUSH instruction with 16 bits immediate operand.'' s
      else steps [InstructionBegin, ToBuffer 0x68, ToBuffer (ucast Imm16), ToBuffer (ucast (drop_bit 8 Imm16)), InstructionEnd] s)"

definition EncodePUSH_Imm32 :: "u32 \<Rightarrow> enc" where
  "EncodePUSH_Imm32 Imm32 s =
     (if e_Mode s \<noteq> MODE_BIT32 then enc_error ''Invalid PUSH instruction with 32 bits immediate operand.'' s
      else steps [InstructionBegin, ToBuffer 0x68, ToBuffer (ucast Imm32), ToBuffer (ucast (drop_bit 8 Imm32)), ToBuffer (ucast (drop_bit 16 Imm32)), ToBuffer (ucast (drop_bit 24 Imm32)), InstructionEnd] s)"

definition EncodePUSH_Seg :: "u8 \<Rightarrow> enc" where
  "EncodePUSH_Seg Seg =
     steps [InstructionBegin,
       (if Seg = 0 then ToBuffer 0x6
        else if Seg = 1 then ToBuffer 0xE
        else if Seg = 2 then ToBuffer 0x16
        else if Seg = 3 then ToBuffer 0x1E
        else if Seg = 4 then steps [ToBuffer (ucast (drop_bit 8 (0xFA0 :: u32))), ToBuffer (ucast (0xFA0 :: u32))]
        else if Seg = 5 then steps [ToBuffer (ucast (drop_bit 8 (0xFA8 :: u32))), ToBuffer (ucast (0xFA8 :: u32))]
        else enc_error ''assert''),
       InstructionEnd]"

definition EncodePUSHA :: "enc" where
  "EncodePUSHA =
     steps [InstructionBegin, ToBuffer 0x60, InstructionEnd]"

definition EncodePUSHF :: "enc" where
  "EncodePUSHF =
     steps [InstructionBegin, ToBuffer 0x9C, InstructionEnd]"

definition EncodeRDMSR :: "enc" where
  "EncodeRDMSR =
     steps [InstructionBegin, ToBuffer (ucast (drop_bit 8 (0xF32 :: u32))), ToBuffer 0xF32, InstructionEnd]"

definition EncodeRDTSC :: "enc" where
  "EncodeRDTSC =
     steps [InstructionBegin, ToBuffer (ucast (drop_bit 8 (0xF31 :: u32))), ToBuffer 0xF31, InstructionEnd]"

definition EncodeRET_Near :: "enc" where
  "EncodeRET_Near =
     steps [InstructionBegin, ToBuffer 0xC3, InstructionEnd]"

definition EncodeRET_Imm16Near :: "u32 \<Rightarrow> enc" where
  "EncodeRET_Imm16Near Imm16 =
     steps [InstructionBegin, ToBuffer 0xC2, ToBuffer (ucast Imm16), ToBuffer (ucast (drop_bit 8 Imm16)),
       InstructionEnd]"

definition EncodeRET_Far :: "enc" where
  "EncodeRET_Far =
     steps [InstructionBegin, ToBuffer 0xCB, InstructionEnd]"

definition EncodeRET_Imm16Far :: "u32 \<Rightarrow> enc" where
  "EncodeRET_Imm16Far Imm16 =
     steps [InstructionBegin, ToBuffer 0xCA, ToBuffer (ucast Imm16), ToBuffer (ucast (drop_bit 8 Imm16)),
       InstructionEnd]"

definition EncodeRDPMC :: "enc" where
  "EncodeRDPMC =
     steps [InstructionBegin, ToBuffer (ucast (drop_bit 8 (0xF33 :: u32))), ToBuffer 0xF33, InstructionEnd]"

definition EncodeRSM :: "enc" where
  "EncodeRSM =
     steps [InstructionBegin, ToBuffer (ucast (drop_bit 8 (0xFAA :: u32))), ToBuffer 0xFAA, InstructionEnd]"

definition EncodeSETcc_Reg8 :: "u8 \<Rightarrow> u8 \<Rightarrow> enc" where
  "EncodeSETcc_Reg8 CCCC Reg8 =
     (let Opcode = (0xF90 :: u32); Opcode = Opcode OR (ucast CCCC) in steps [InstructionBegin,
       Opcode3B_Reg (push_bit 8 Opcode) Reg8, InstructionEnd])"

definition EncodeSETcc_Mem8 :: "u8 \<Rightarrow> u8 \<Rightarrow> u8 \<Rightarrow> u32 \<Rightarrow> u32 \<Rightarrow> enc" where
  "EncodeSETcc_Mem8 CCCC Reg1 Reg2 OffType Off =
     (let Opcode = (0xF90 :: u32); Opcode = Opcode OR (ucast CCCC) in steps [InstructionBegin,
       OpcodeW_Mem_X (push_bit 8 Opcode) Reg1 Reg2 (ucast OffType) Off 0 0, InstructionEnd])"

definition EncodeSAHF :: "enc" where
  "EncodeSAHF =
     steps [InstructionBegin, ToBuffer 0x9E, InstructionEnd]"

definition EncodeSCANSB :: "enc" where
  "EncodeSCANSB =
     steps [InstructionBegin, ToBuffer 0xAE, InstructionEnd]"

definition EncodeSCANSW :: "enc" where
  "EncodeSCANSW =
     steps [InstructionBegin, InstructionPrefix, ToBuffer 0xAF, InstructionEnd]"

definition EncodeSCANSD :: "enc" where
  "EncodeSCANSD =
     steps [InstructionBegin, InstructionPrefix, ToBuffer 0xAF, InstructionEnd]"

definition EncodeSGDT_Mem1632 :: "u8 \<Rightarrow> u8 \<Rightarrow> u8 \<Rightarrow> u32 \<Rightarrow> enc" where
  "EncodeSGDT_Mem1632 Reg1 Reg2 OffType Off =
     steps [InstructionBegin, Opcode3B_Mem_X 0xF0100 Reg1 Reg2 OffType Off 0 0, InstructionEnd]"

definition EncodeSIDT_Mem1632 :: "u8 \<Rightarrow> u8 \<Rightarrow> u8 \<Rightarrow> u32 \<Rightarrow> enc" where
  "EncodeSIDT_Mem1632 Reg1 Reg2 OffType Off =
     steps [InstructionBegin, Opcode3B_Mem_X 0xF0108 Reg1 Reg2 OffType Off 0 0, InstructionEnd]"

definition EncodeSLDT_Reg16 :: "u8 \<Rightarrow> enc" where
  "EncodeSLDT_Reg16 Reg16 =
     steps [InstructionBegin, InstructionPrefix, Opcode3B_Reg 0xF0000 Reg16, InstructionEnd]"

definition EncodeSLDT_Mem16 :: "u8 \<Rightarrow> u8 \<Rightarrow> u8 \<Rightarrow> u32 \<Rightarrow> enc" where
  "EncodeSLDT_Mem16 Reg1 Reg2 OffType Off =
     steps [InstructionBegin, Opcode3B_Mem_X 0xF0000 Reg1 Reg2 OffType Off 0 0, InstructionEnd]"

definition EncodeSMSW_Reg16 :: "u8 \<Rightarrow> enc" where
  "EncodeSMSW_Reg16 Reg16 =
     steps [InstructionBegin, InstructionPrefix, Opcode3B_Reg 0xF0120 Reg16, InstructionEnd]"

definition EncodeSMSW_Reg32 :: "u8 \<Rightarrow> enc" where
  "EncodeSMSW_Reg32 Reg32 =
     steps [InstructionBegin, InstructionPrefix, Opcode3B_Reg 0xF0120 Reg32, InstructionEnd]"

definition EncodeSMSW_Mem16 :: "u8 \<Rightarrow> u8 \<Rightarrow> u8 \<Rightarrow> u32 \<Rightarrow> enc" where
  "EncodeSMSW_Mem16 Reg1 Reg2 OffType Off =
     steps [InstructionBegin, Opcode3B_Mem_X 0xF0120 Reg1 Reg2 OffType Off 0 0, InstructionEnd]"

definition EncodeSTC :: "enc" where
  "EncodeSTC =
     steps [InstructionBegin, ToBuffer 0xF9, InstructionEnd]"

definition EncodeSTD :: "enc" where
  "EncodeSTD =
     steps [InstructionBegin, ToBuffer 0xFD, InstructionEnd]"

definition EncodeSTI :: "enc" where
  "EncodeSTI =
     steps [InstructionBegin, ToBuffer 0xFB, InstructionEnd]"

definition EncodeSTOSB :: "enc" where
  "EncodeSTOSB =
     steps [InstructionBegin, ToBuffer 0xAA, InstructionEnd]"

definition EncodeSTOSW :: "enc" where
  "EncodeSTOSW =
     steps [InstructionBegin, InstructionPrefix, ToBuffer 0xAB, InstructionEnd]"

definition EncodeSTOSD :: "enc" where
  "EncodeSTOSD =
     steps [InstructionBegin, InstructionPrefix, ToBuffer 0xAB, InstructionEnd]"

definition EncodeSTR_Reg16 :: "u8 \<Rightarrow> enc" where
  "EncodeSTR_Reg16 Reg16 =
     steps [InstructionBegin, InstructionPrefix, Opcode3B_Reg 0xF0008 Reg16, InstructionEnd]"

definition EncodeSTR_Mem16 :: "u8 \<Rightarrow> u8 \<Rightarrow> u8 \<Rightarrow> u32 \<Rightarrow> enc" where
  "EncodeSTR_Mem16 Reg1 Reg2 OffType Off =
     steps [InstructionBegin, Opcode3B_Mem_X 0xF0008 Reg1 Reg2 OffType Off 0 0, InstructionEnd]"

definition EncodeVERR_Reg16 :: "u8 \<Rightarrow> enc" where
  "EncodeVERR_Reg16 Reg =
     steps [InstructionBegin, Opcode3B_Reg 0xF0020 Reg, InstructionEnd]"

definition EncodeVERR_Mem16 :: "u8 \<Rightarrow> u8 \<Rightarrow> u32 \<Rightarrow> u32 \<Rightarrow> enc" where
  "EncodeVERR_Mem16 Reg1 Reg2 OffType Off =
     steps [InstructionBegin, Opcode3B_Mem_X 0xF0020 Reg1 Reg2 (ucast OffType) Off 0 0, InstructionEnd]"

definition EncodeVERW_Reg16 :: "u8 \<Rightarrow> enc" where
  "EncodeVERW_Reg16 Reg =
     steps [InstructionBegin, Opcode3B_Reg 0xF0028 Reg, InstructionEnd]"

definition EncodeVERW_Mem16 :: "u8 \<Rightarrow> u8 \<Rightarrow> u32 \<Rightarrow> u32 \<Rightarrow> enc" where
  "EncodeVERW_Mem16 Reg1 Reg2 OffType Off =
     steps [InstructionBegin, Opcode3B_Mem_X 0xF0028 Reg1 Reg2 (ucast OffType) Off 0 0, InstructionEnd]"

definition EncodeWAIT :: "enc" where
  "EncodeWAIT =
     steps [InstructionBegin, ToBuffer 0x9B, InstructionEnd]"

definition EncodeWBINVD :: "enc" where
  "EncodeWBINVD =
     (let Opcode = (0xF09 :: u32) in steps [InstructionBegin, ToBuffer (ucast (drop_bit 8 Opcode)),
       ToBuffer (ucast Opcode), InstructionEnd])"

definition EncodeWRMSR :: "enc" where
  "EncodeWRMSR =
     (let Opcode = (0xF30 :: u32) in steps [InstructionBegin, ToBuffer (ucast (drop_bit 8 Opcode)),
       ToBuffer (ucast Opcode), InstructionEnd])"

definition EncodeXCHG_Acc16_Reg16 :: "u8 \<Rightarrow> enc" where
  "EncodeXCHG_Acc16_Reg16 Reg16 =
     steps [InstructionBegin, InstructionPrefix, ToBuffer (ucast ((0x90 :: u32) OR (ucast Reg16 :: u32))),
       InstructionEnd]"

definition EncodeXCHG_Reg16_Acc16 :: "u8 \<Rightarrow> enc" where
  "EncodeXCHG_Reg16_Acc16 Reg16 =
     steps [InstructionBegin, InstructionPrefix, ToBuffer (ucast ((0x90 :: u32) OR (ucast Reg16 :: u32))),
       InstructionEnd]"

definition EncodeXCHG_Reg8_Reg8 :: "u8 \<Rightarrow> u8 \<Rightarrow> enc" where
  "EncodeXCHG_Reg8_Reg8 DstReg SrcReg =
     steps [InstructionBegin, OpcodeW_Reg8_Reg8 0x8600 DstReg SrcReg, InstructionEnd]"

definition EncodeXCHG_Reg16_Reg16 :: "u8 \<Rightarrow> u8 \<Rightarrow> enc" where
  "EncodeXCHG_Reg16_Reg16 DstReg SrcReg =
     steps [InstructionBegin, InstructionPrefix, OpcodeW_Reg16_Reg16 0x8700 DstReg SrcReg, InstructionEnd]"

definition EncodeXCHG_Mem8_Reg8 :: "u8 \<Rightarrow> u8 \<Rightarrow> u32 \<Rightarrow> u8 \<Rightarrow> u8 \<Rightarrow> enc" where
  "EncodeXCHG_Mem8_Reg8 Reg1 Reg2 OffType Off SrcReg =
     steps [InstructionBegin, OpcodeW_Mem8_Reg8 0x8600 Reg1 Reg2 OffType (ucast Off) SrcReg, InstructionEnd]"

definition EncodeXCHG_Mem16_Reg16 :: "u8 \<Rightarrow> u8 \<Rightarrow> u32 \<Rightarrow> u8 \<Rightarrow> u8 \<Rightarrow> enc" where
  "EncodeXCHG_Mem16_Reg16 Reg1 Reg2 OffType Off SrcReg =
     steps [InstructionBegin, InstructionPrefix, OpcodeW_Mem16_Reg16 0x8700 Reg1 Reg2 OffType (ucast Off) SrcReg,
       InstructionEnd]"

definition EncodeXCHG_Reg8_Mem8 :: "u8 \<Rightarrow> u8 \<Rightarrow> u8 \<Rightarrow> u32 \<Rightarrow> u8 \<Rightarrow> enc" where
  "EncodeXCHG_Reg8_Mem8 DstReg Reg1 Reg2 OffType Off =
     steps [InstructionBegin, OpcodeW_Reg8_Mem8 0x8600 DstReg Reg1 Reg2 OffType (ucast Off), InstructionEnd]"

definition EncodeXCHG_Reg16_Mem16 :: "u8 \<Rightarrow> u8 \<Rightarrow> u8 \<Rightarrow> u32 \<Rightarrow> u8 \<Rightarrow> enc" where
  "EncodeXCHG_Reg16_Mem16 DstReg Reg1 Reg2 OffType Off =
     steps [InstructionBegin, InstructionPrefix, OpcodeW_Reg16_Mem16 0x8700 DstReg Reg1 Reg2 OffType (ucast Off),
       InstructionEnd]"

definition EncodeXLAT :: "enc" where
  "EncodeXLAT =
     steps [InstructionBegin, ToBuffer 0xD7, InstructionEnd]"

end
