(* ===== verification/Iasm_Instructions_C.thy ===== *)
theory Iasm_Instructions_C
  imports Iasm_Encoder
begin

text \<open>
  \<^verbatim>\<open>apps/iasm/encoder.c\<close>: the encoders of single instructions from \<open>EncodeCALL_Near_Rel16\<close> to \<open>EncodeFYL2XP1\<close>, in the
  order of the file, with the opcodes of \<^verbatim>\<open>opcode.h\<close> filled in.
\<close>

definition EncodeCALL_Near_Rel16 :: "u32 \<Rightarrow> enc" where
  "EncodeCALL_Near_Rel16 Rel16 =
     steps [InstructionBegin, ToBuffer 0xE8, ToBufferW Rel16, InstructionEnd]"

definition EncodeCALL_Near_Rel32 :: "u32 \<Rightarrow> enc" where
  "EncodeCALL_Near_Rel32 Rel32 =
     steps [InstructionBegin, ToBuffer 0xE8, ToBufferD Rel32, InstructionEnd]"

definition EncodeCALL_Near_Mem16 :: "u8 \<Rightarrow> u8 \<Rightarrow> u32 \<Rightarrow> u32 \<Rightarrow> enc" where
  "EncodeCALL_Near_Mem16 Reg1 Reg2 OffType Off =
     steps [InstructionBegin, SwitchOprdToBit16, InstructionPrefix,
       OpcodeW_Mem_X 0xFF10 Reg1 Reg2 (ucast OffType) Off 0 0, InstructionEnd]"

definition EncodeCALL_Near_Mem32 :: "u8 \<Rightarrow> u8 \<Rightarrow> u32 \<Rightarrow> u32 \<Rightarrow> enc" where
  "EncodeCALL_Near_Mem32 Reg1 Reg2 OffType Off =
     steps [InstructionBegin, SwitchOprdToBit32, InstructionPrefix,
       OpcodeW_Mem_X 0xFF10 Reg1 Reg2 (ucast OffType) Off 0 0, InstructionEnd]"

definition EncodeCALL_Far_Ptr1616 :: "u32 \<Rightarrow> u32 \<Rightarrow> enc" where
  "EncodeCALL_Far_Ptr1616 Seg Offset =
     steps [InstructionBegin, ToBuffer 0x9A, ToBufferW Offset, ToBufferW Seg, InstructionEnd]"

definition EncodeCALL_Far_Ptr1632 :: "u32 \<Rightarrow> u32 \<Rightarrow> enc" where
  "EncodeCALL_Far_Ptr1632 Seg Offset =
     steps [InstructionBegin, ToBuffer 0x9A, ToBufferD Offset, ToBufferW Seg, InstructionEnd]"

definition Encode_CALL_Far_Mem1616 :: "u8 \<Rightarrow> u8 \<Rightarrow> u32 \<Rightarrow> u32 \<Rightarrow> enc" where
  "Encode_CALL_Far_Mem1616 Reg1 Reg2 OffType Off =
     steps [InstructionBegin, SwitchOprdToBit16, InstructionPrefix,
       OpcodeW_Mem_X 0xFF18 Reg1 Reg2 (ucast OffType) Off 0 0, InstructionEnd]"

definition Encode_CALL_Far_Mem1632 :: "u8 \<Rightarrow> u8 \<Rightarrow> u32 \<Rightarrow> u32 \<Rightarrow> enc" where
  "Encode_CALL_Far_Mem1632 Reg1 Reg2 OffType Off =
     steps [InstructionBegin, SwitchOprdToBit32, InstructionPrefix,
       OpcodeW_Mem_X 0xFF18 Reg1 Reg2 (ucast OffType) Off 0 0, InstructionEnd]"

definition EncodeJcc_SHORT :: "u8 \<Rightarrow> u8 \<Rightarrow> enc" where
  "EncodeJcc_SHORT CCCC Offset =
     steps [InstructionBegin, ToBuffer (ucast ((0x70 :: u32) OR (ucast CCCC :: u32))), ToBuffer Offset,
       InstructionEnd]"

definition EncodeJMP_Near_Rel8 :: "u32 \<Rightarrow> enc" where
  "EncodeJMP_Near_Rel8 Rel8 =
     steps [InstructionBegin, ToBuffer 0xEB, ToBuffer (ucast Rel8), InstructionEnd]"

definition EncodeJMP_Near_Rel16 :: "u32 \<Rightarrow> enc" where
  "EncodeJMP_Near_Rel16 Rel16 =
     steps [InstructionBegin, ToBuffer 0xE9, ToBufferW Rel16, InstructionEnd]"

definition EncodeJMP_Near_Rel32 :: "u32 \<Rightarrow> enc" where
  "EncodeJMP_Near_Rel32 Rel32 =
     steps [InstructionBegin, ToBuffer 0xE9, ToBufferD Rel32, InstructionEnd]"

definition EncodeJMP_Near_Mem16 :: "u8 \<Rightarrow> u8 \<Rightarrow> u32 \<Rightarrow> u32 \<Rightarrow> enc" where
  "EncodeJMP_Near_Mem16 Reg1 Reg2 OffType Off =
     steps [InstructionBegin, SwitchOprdToBit16, InstructionPrefix,
       OpcodeW_Mem_X 0xFF20 Reg1 Reg2 (ucast OffType) Off 0 0, InstructionEnd]"

definition EncodeJMP_Near_Mem32 :: "u8 \<Rightarrow> u8 \<Rightarrow> u32 \<Rightarrow> u32 \<Rightarrow> enc" where
  "EncodeJMP_Near_Mem32 Reg1 Reg2 OffType Off =
     steps [InstructionBegin, SwitchOprdToBit32, InstructionPrefix,
       OpcodeW_Mem_X 0xFF20 Reg1 Reg2 (ucast OffType) Off 0 0, InstructionEnd]"

definition EncodeJMP_Far_Ptr1616 :: "u32 \<Rightarrow> u32 \<Rightarrow> enc" where
  "EncodeJMP_Far_Ptr1616 Seg Offset =
     steps [InstructionBegin, ToBuffer 0xEA, ToBufferW Offset, ToBufferW Seg, InstructionEnd]"

definition EncodeJMP_Far_Ptr1632 :: "u32 \<Rightarrow> u32 \<Rightarrow> enc" where
  "EncodeJMP_Far_Ptr1632 Seg Offset =
     steps [InstructionBegin, ToBuffer 0xEA, ToBufferD Offset, ToBufferW Seg, InstructionEnd]"

definition Encode_JMP_Far_Mem1616 :: "u8 \<Rightarrow> u8 \<Rightarrow> u32 \<Rightarrow> u32 \<Rightarrow> enc" where
  "Encode_JMP_Far_Mem1616 Reg1 Reg2 OffType Off =
     steps [InstructionBegin, SwitchOprdToBit16, InstructionPrefix,
       OpcodeW_Mem_X 0xFF28 Reg1 Reg2 (ucast OffType) Off 0 0, InstructionEnd]"

definition Encode_JMP_Far_Mem1632 :: "u8 \<Rightarrow> u8 \<Rightarrow> u32 \<Rightarrow> u32 \<Rightarrow> enc" where
  "Encode_JMP_Far_Mem1632 Reg1 Reg2 OffType Off =
     steps [InstructionBegin, SwitchOprdToBit32, InstructionPrefix,
       OpcodeW_Mem_X 0xFF28 Reg1 Reg2 (ucast OffType) Off 0 0, InstructionEnd]"

definition EncodeJCXZ_SHORT :: "u8 \<Rightarrow> enc" where
  "EncodeJCXZ_SHORT Offset =
     steps [InstructionBegin, ToBuffer 0xE3, ToBuffer Offset, InstructionEnd]"

definition EncodeJECXZ_SHORT :: "u8 \<Rightarrow> enc" where
  "EncodeJECXZ_SHORT Offset =
     steps [InstructionBegin, ToBuffer 0xE3, ToBuffer Offset, InstructionEnd]"

definition EncodeLOOP_SHORT :: "u8 \<Rightarrow> enc" where
  "EncodeLOOP_SHORT Offset =
     steps [InstructionBegin, ToBuffer 0xE2, ToBuffer Offset, InstructionEnd]"

definition EncodeLOOPZ_SHORT :: "u8 \<Rightarrow> enc" where
  "EncodeLOOPZ_SHORT Offset =
     steps [InstructionBegin, ToBuffer 0xE1, ToBuffer Offset, InstructionEnd]"

definition EncodeLOOPNZ_SHORT :: "u8 \<Rightarrow> enc" where
  "EncodeLOOPNZ_SHORT Offset =
     steps [InstructionBegin, ToBuffer 0xE0, ToBuffer Offset, InstructionEnd]"

definition EncodeF2XM1 :: "enc" where
  "EncodeF2XM1 =
     steps [InstructionBegin, ToBuffer (ucast (drop_bit 8 (0xD9F0 :: u32))), ToBuffer 0xD9F0, InstructionEnd]"

definition EncodeFABS :: "enc" where
  "EncodeFABS =
     steps [InstructionBegin, ToBuffer (ucast (drop_bit 8 (0xD9E1 :: u32))), ToBuffer 0xD9E1, InstructionEnd]"

definition EncodeFBLD_Mem80 :: "u8 \<Rightarrow> u8 \<Rightarrow> u32 \<Rightarrow> u32 \<Rightarrow> enc" where
  "EncodeFBLD_Mem80 Reg1 Reg2 OffType Off =
     steps [InstructionBegin, OpcodeW_Mem_X 0xDF20 Reg1 Reg2 (ucast OffType) Off 0 0, InstructionEnd]"

definition EncodeFBSTP_Mem80 :: "u8 \<Rightarrow> u8 \<Rightarrow> u32 \<Rightarrow> u32 \<Rightarrow> enc" where
  "EncodeFBSTP_Mem80 Reg1 Reg2 OffType Off =
     steps [InstructionBegin, OpcodeW_Mem_X 0xDF30 Reg1 Reg2 (ucast OffType) Off 0 0, InstructionEnd]"

definition EncodeFCHS :: "enc" where
  "EncodeFCHS =
     steps [InstructionBegin, ToBuffer (ucast (drop_bit 8 (0xD9E0 :: u32))), ToBuffer 0xD9E0, InstructionEnd]"

definition EncodeFCLEX :: "enc" where
  "EncodeFCLEX =
     steps [InstructionBegin, ToBuffer (ucast (drop_bit 16 (0x9BDBE2 :: u32))),
       ToBuffer (ucast (drop_bit 8 (0x9BDBE2 :: u32))), ToBuffer 0x9BDBE2, InstructionEnd]"

definition EncodeFNCLEX :: "enc" where
  "EncodeFNCLEX =
     steps [InstructionBegin, ToBuffer (ucast (drop_bit 8 (0xDBE2 :: u32))), ToBuffer 0xDBE2, InstructionEnd]"

definition EncodeFCOM_ST0_Mem32 :: "u8 \<Rightarrow> u8 \<Rightarrow> u32 \<Rightarrow> u32 \<Rightarrow> enc" where
  "EncodeFCOM_ST0_Mem32 Reg1 Reg2 OffType Off =
     steps [InstructionBegin, OpcodeW_Mem_X 0xD810 Reg1 Reg2 (ucast OffType) Off 0 0, InstructionEnd]"

definition EncodeFCOM_ST0_Mem64 :: "u8 \<Rightarrow> u8 \<Rightarrow> u32 \<Rightarrow> u32 \<Rightarrow> enc" where
  "EncodeFCOM_ST0_Mem64 Reg1 Reg2 OffType Off =
     steps [InstructionBegin, OpcodeW_Mem_X 0xDC10 Reg1 Reg2 (ucast OffType) Off 0 0, InstructionEnd]"

definition EncodeFCOM_ST0_STi :: "u8 \<Rightarrow> enc" where
  "EncodeFCOM_ST0_STi STi =
     steps [InstructionBegin, ToBufferW ((0xD8D0 :: u32) OR (ucast STi :: u32)), InstructionEnd]"

definition EncodeFCOMP_ST0_Mem32 :: "u8 \<Rightarrow> u8 \<Rightarrow> u32 \<Rightarrow> u32 \<Rightarrow> enc" where
  "EncodeFCOMP_ST0_Mem32 Reg1 Reg2 OffType Off =
     steps [InstructionBegin, OpcodeW_Mem_X 0xD818 Reg1 Reg2 (ucast OffType) Off 0 0, InstructionEnd]"

definition EncodeFCOMP_ST0_Mem64 :: "u8 \<Rightarrow> u8 \<Rightarrow> u32 \<Rightarrow> u32 \<Rightarrow> enc" where
  "EncodeFCOMP_ST0_Mem64 Reg1 Reg2 OffType Off =
     steps [InstructionBegin, OpcodeW_Mem_X 0xDC18 Reg1 Reg2 (ucast OffType) Off 0 0, InstructionEnd]"

definition EncodeFCOMP_ST0_STi :: "u8 \<Rightarrow> enc" where
  "EncodeFCOMP_ST0_STi STi =
     steps [InstructionBegin, ToBufferW ((0xD8D8 :: u32) OR (ucast STi :: u32)), InstructionEnd]"

definition EncodeFCOMPP_ST0_ST1 :: "enc" where
  "EncodeFCOMPP_ST0_ST1 =
     steps [InstructionBegin, ToBufferW 0xDED9, InstructionEnd]"

definition EncodeFCOMI_ST0_STi :: "u8 \<Rightarrow> enc" where
  "EncodeFCOMI_ST0_STi STi =
     steps [InstructionBegin, ToBufferW ((0xDBF0 :: u32) OR (ucast STi :: u32)), InstructionEnd]"

definition EncodeFCOMIP_ST0_STi :: "u8 \<Rightarrow> enc" where
  "EncodeFCOMIP_ST0_STi STi =
     steps [InstructionBegin, ToBufferW ((0xDFF0 :: u32) OR (ucast STi :: u32)), InstructionEnd]"

definition EncodeFUCOMI_ST0_STi :: "u8 \<Rightarrow> enc" where
  "EncodeFUCOMI_ST0_STi STi =
     steps [InstructionBegin, ToBufferW ((0xDBE8 :: u32) OR (ucast STi :: u32)), InstructionEnd]"

definition EncodeFUCOMIP_ST0_STi :: "u8 \<Rightarrow> enc" where
  "EncodeFUCOMIP_ST0_STi STi =
     steps [InstructionBegin, ToBufferW ((0xDFE8 :: u32) OR (ucast STi :: u32)), InstructionEnd]"

definition EncodeFCOS :: "enc" where
  "EncodeFCOS =
     steps [InstructionBegin, ToBufferW 0xD9FF, InstructionEnd]"

definition EncodeFDECSTP :: "enc" where
  "EncodeFDECSTP =
     steps [InstructionBegin, ToBufferW 0xD9F6, InstructionEnd]"

definition EncodeFFREE_STi :: "u8 \<Rightarrow> enc" where
  "EncodeFFREE_STi STi =
     steps [InstructionBegin, ToBufferW ((0xDDC0 :: u32) OR (ucast STi :: u32)), InstructionEnd]"

definition EncodeFICOM_MEM16 :: "u8 \<Rightarrow> u8 \<Rightarrow> u32 \<Rightarrow> u32 \<Rightarrow> enc" where
  "EncodeFICOM_MEM16 Reg1 Reg2 OffType Off =
     steps [InstructionBegin, OpcodeW_Mem_X 0xDE10 Reg1 Reg2 (ucast OffType) Off 0 0, InstructionEnd]"

definition EncodeFICOM_MEM32 :: "u8 \<Rightarrow> u8 \<Rightarrow> u32 \<Rightarrow> u32 \<Rightarrow> enc" where
  "EncodeFICOM_MEM32 Reg1 Reg2 OffType Off =
     steps [InstructionBegin, OpcodeW_Mem_X 0xDA10 Reg1 Reg2 (ucast OffType) Off 0 0, InstructionEnd]"

definition EncodeFICOMP_MEM16 :: "u8 \<Rightarrow> u8 \<Rightarrow> u32 \<Rightarrow> u32 \<Rightarrow> enc" where
  "EncodeFICOMP_MEM16 Reg1 Reg2 OffType Off =
     steps [InstructionBegin, OpcodeW_Mem_X 0xDE18 Reg1 Reg2 (ucast OffType) Off 0 0, InstructionEnd]"

definition EncodeFICOMP_MEM32 :: "u8 \<Rightarrow> u8 \<Rightarrow> u32 \<Rightarrow> u32 \<Rightarrow> enc" where
  "EncodeFICOMP_MEM32 Reg1 Reg2 OffType Off =
     steps [InstructionBegin, OpcodeW_Mem_X 0xDA18 Reg1 Reg2 (ucast OffType) Off 0 0, InstructionEnd]"

definition EncodeFILD_MEM16 :: "u8 \<Rightarrow> u8 \<Rightarrow> u32 \<Rightarrow> u32 \<Rightarrow> enc" where
  "EncodeFILD_MEM16 Reg1 Reg2 OffType Off =
     steps [InstructionBegin, OpcodeW_Mem_X 0xDF00 Reg1 Reg2 (ucast OffType) Off 0 0, InstructionEnd]"

definition EncodeFILD_MEM32 :: "u8 \<Rightarrow> u8 \<Rightarrow> u32 \<Rightarrow> u32 \<Rightarrow> enc" where
  "EncodeFILD_MEM32 Reg1 Reg2 OffType Off =
     steps [InstructionBegin, OpcodeW_Mem_X 0xDB00 Reg1 Reg2 (ucast OffType) Off 0 0, InstructionEnd]"

definition EncodeFILD_MEM64 :: "u8 \<Rightarrow> u8 \<Rightarrow> u32 \<Rightarrow> u32 \<Rightarrow> enc" where
  "EncodeFILD_MEM64 Reg1 Reg2 OffType Off =
     steps [InstructionBegin, OpcodeW_Mem_X 0xDF28 Reg1 Reg2 (ucast OffType) Off 0 0, InstructionEnd]"

definition EncodeFINCSTP :: "enc" where
  "EncodeFINCSTP =
     steps [InstructionBegin, ToBufferW 0xD9F7, InstructionEnd]"

definition EncodeFINIT :: "enc" where
  "EncodeFINIT =
     steps [InstructionBegin, ToBuffer3B 0x9BDBE3, InstructionEnd]"

definition EncodeFNINIT :: "enc" where
  "EncodeFNINIT =
     steps [InstructionBegin, ToBufferW 0xDBE3, InstructionEnd]"

definition EncodeFIST_MEM16 :: "u8 \<Rightarrow> u8 \<Rightarrow> u32 \<Rightarrow> u32 \<Rightarrow> enc" where
  "EncodeFIST_MEM16 Reg1 Reg2 OffType Off =
     steps [InstructionBegin, OpcodeW_Mem_X 0xDF10 Reg1 Reg2 (ucast OffType) Off 0 0, InstructionEnd]"

definition EncodeFIST_MEM32 :: "u8 \<Rightarrow> u8 \<Rightarrow> u32 \<Rightarrow> u32 \<Rightarrow> enc" where
  "EncodeFIST_MEM32 Reg1 Reg2 OffType Off =
     steps [InstructionBegin, OpcodeW_Mem_X 0xDB10 Reg1 Reg2 (ucast OffType) Off 0 0, InstructionEnd]"

definition EncodeFISTP_MEM16 :: "u8 \<Rightarrow> u8 \<Rightarrow> u32 \<Rightarrow> u32 \<Rightarrow> enc" where
  "EncodeFISTP_MEM16 Reg1 Reg2 OffType Off =
     steps [InstructionBegin, OpcodeW_Mem_X 0xDF18 Reg1 Reg2 (ucast OffType) Off 0 0, InstructionEnd]"

definition EncodeFISTP_MEM32 :: "u8 \<Rightarrow> u8 \<Rightarrow> u32 \<Rightarrow> u32 \<Rightarrow> enc" where
  "EncodeFISTP_MEM32 Reg1 Reg2 OffType Off =
     steps [InstructionBegin, OpcodeW_Mem_X 0xDB18 Reg1 Reg2 (ucast OffType) Off 0 0, InstructionEnd]"

definition EncodeFISTP_MEM64 :: "u8 \<Rightarrow> u8 \<Rightarrow> u32 \<Rightarrow> u32 \<Rightarrow> enc" where
  "EncodeFISTP_MEM64 Reg1 Reg2 OffType Off =
     steps [InstructionBegin, OpcodeW_Mem_X 0xDF38 Reg1 Reg2 (ucast OffType) Off 0 0, InstructionEnd]"

definition EncodeFISTTP_MEM16 :: "u8 \<Rightarrow> u8 \<Rightarrow> u32 \<Rightarrow> u32 \<Rightarrow> enc" where
  "EncodeFISTTP_MEM16 Reg1 Reg2 OffType Off =
     steps [InstructionBegin, OpcodeW_Mem_X 0xDF08 Reg1 Reg2 (ucast OffType) Off 0 0, InstructionEnd]"

definition EncodeFISTTP_MEM32 :: "u8 \<Rightarrow> u8 \<Rightarrow> u32 \<Rightarrow> u32 \<Rightarrow> enc" where
  "EncodeFISTTP_MEM32 Reg1 Reg2 OffType Off =
     steps [InstructionBegin, OpcodeW_Mem_X 0xDB08 Reg1 Reg2 (ucast OffType) Off 0 0, InstructionEnd]"

definition EncodeFISTTP_MEM64 :: "u8 \<Rightarrow> u8 \<Rightarrow> u32 \<Rightarrow> u32 \<Rightarrow> enc" where
  "EncodeFISTTP_MEM64 Reg1 Reg2 OffType Off =
     steps [InstructionBegin, OpcodeW_Mem_X 0xDD08 Reg1 Reg2 (ucast OffType) Off 0 0, InstructionEnd]"

definition EncodeFLD_MEM32 :: "u8 \<Rightarrow> u8 \<Rightarrow> u32 \<Rightarrow> u32 \<Rightarrow> enc" where
  "EncodeFLD_MEM32 Reg1 Reg2 OffType Off =
     steps [InstructionBegin, OpcodeW_Mem_X 0xD900 Reg1 Reg2 (ucast OffType) Off 0 0, InstructionEnd]"

definition EncodeFLD_MEM64 :: "u8 \<Rightarrow> u8 \<Rightarrow> u32 \<Rightarrow> u32 \<Rightarrow> enc" where
  "EncodeFLD_MEM64 Reg1 Reg2 OffType Off =
     steps [InstructionBegin, OpcodeW_Mem_X 0xDD00 Reg1 Reg2 (ucast OffType) Off 0 0, InstructionEnd]"

definition EncodeFLD_MEM80 :: "u8 \<Rightarrow> u8 \<Rightarrow> u32 \<Rightarrow> u32 \<Rightarrow> enc" where
  "EncodeFLD_MEM80 Reg1 Reg2 OffType Off =
     steps [InstructionBegin, OpcodeW_Mem_X 0xDB28 Reg1 Reg2 (ucast OffType) Off 0 0, InstructionEnd]"

definition EncodeFLD_STi :: "u8 \<Rightarrow> enc" where
  "EncodeFLD_STi STi =
     steps [InstructionBegin, ToBufferW ((0xD9C0 :: u32) OR (ucast STi :: u32)), InstructionEnd]"

definition EncodeFLD1 :: "enc" where
  "EncodeFLD1 =
     steps [InstructionBegin, ToBufferW 0xD9E8, InstructionEnd]"

definition EncodeFLDL2T :: "enc" where
  "EncodeFLDL2T =
     steps [InstructionBegin, ToBufferW 0xD9E9, InstructionEnd]"

definition EncodeFLDL2E :: "enc" where
  "EncodeFLDL2E =
     steps [InstructionBegin, ToBufferW 0xD9EA, InstructionEnd]"

definition EncodeFLDPI :: "enc" where
  "EncodeFLDPI =
     steps [InstructionBegin, ToBufferW 0xD9EB, InstructionEnd]"

definition EncodeFLDLG2 :: "enc" where
  "EncodeFLDLG2 =
     steps [InstructionBegin, ToBufferW 0xD9EC, InstructionEnd]"

definition EncodeFLDLN2 :: "enc" where
  "EncodeFLDLN2 =
     steps [InstructionBegin, ToBufferW 0xD9ED, InstructionEnd]"

definition EncodeFLDZ :: "enc" where
  "EncodeFLDZ =
     steps [InstructionBegin, ToBufferW 0xD9EE, InstructionEnd]"

definition EncodeFLDCW_MEM :: "u8 \<Rightarrow> u8 \<Rightarrow> u32 \<Rightarrow> u32 \<Rightarrow> enc" where
  "EncodeFLDCW_MEM Reg1 Reg2 OffType Off =
     steps [InstructionBegin, OpcodeW_Mem_X 0xD928 Reg1 Reg2 (ucast OffType) Off 0 0, InstructionEnd]"

definition EncodeFLDENV_MEM :: "u8 \<Rightarrow> u8 \<Rightarrow> u32 \<Rightarrow> u32 \<Rightarrow> enc" where
  "EncodeFLDENV_MEM Reg1 Reg2 OffType Off =
     steps [InstructionBegin, OpcodeW_Mem_X 0xD920 Reg1 Reg2 (ucast OffType) Off 0 0, InstructionEnd]"

definition EncodeFNOP :: "enc" where
  "EncodeFNOP =
     steps [InstructionBegin, ToBufferW 0xD9D0, InstructionEnd]"

definition EncodeFPATAN :: "enc" where
  "EncodeFPATAN =
     steps [InstructionBegin, ToBufferW 0xD9F3, InstructionEnd]"

definition EncodeFPREM :: "enc" where
  "EncodeFPREM =
     steps [InstructionBegin, ToBufferW 0xD9F8, InstructionEnd]"

definition EncodeFPREM1 :: "enc" where
  "EncodeFPREM1 =
     steps [InstructionBegin, ToBufferW 0xD9F5, InstructionEnd]"

definition EncodeFPTAN :: "enc" where
  "EncodeFPTAN =
     steps [InstructionBegin, ToBufferW 0xD9F2, InstructionEnd]"

definition EncodeFRNDINT :: "enc" where
  "EncodeFRNDINT =
     steps [InstructionBegin, ToBufferW 0xD9FC, InstructionEnd]"

definition EncodeFRSTOR_MEM :: "u8 \<Rightarrow> u8 \<Rightarrow> u32 \<Rightarrow> u32 \<Rightarrow> enc" where
  "EncodeFRSTOR_MEM Reg1 Reg2 OffType Off =
     steps [InstructionBegin, OpcodeW_Mem_X 0xDD20 Reg1 Reg2 (ucast OffType) Off 0 0, InstructionEnd]"

definition EncodeFSAVE_MEM :: "u8 \<Rightarrow> u8 \<Rightarrow> u32 \<Rightarrow> u32 \<Rightarrow> enc" where
  "EncodeFSAVE_MEM Reg1 Reg2 OffType Off =
     steps [InstructionBegin, Opcode3B_Mem_X 0x9BDD30 Reg1 Reg2 (ucast OffType) Off 0 0, InstructionEnd]"

definition EncodeFNSAVE_MEM :: "u8 \<Rightarrow> u8 \<Rightarrow> u32 \<Rightarrow> u32 \<Rightarrow> enc" where
  "EncodeFNSAVE_MEM Reg1 Reg2 OffType Off =
     steps [InstructionBegin, OpcodeW_Mem_X 0xDD30 Reg1 Reg2 (ucast OffType) Off 0 0, InstructionEnd]"

definition EncodeFSCALE :: "enc" where
  "EncodeFSCALE =
     steps [InstructionBegin, ToBufferW 0xD9FD, InstructionEnd]"

definition EncodeFSIN :: "enc" where
  "EncodeFSIN =
     steps [InstructionBegin, ToBufferW 0xD9FE, InstructionEnd]"

definition EncodeFSINCOS :: "enc" where
  "EncodeFSINCOS =
     steps [InstructionBegin, ToBufferW 0xD9FB, InstructionEnd]"

definition EncodeFSQRT :: "enc" where
  "EncodeFSQRT =
     steps [InstructionBegin, ToBufferW 0xD9FA, InstructionEnd]"

definition EncodeFST_MEM32 :: "u8 \<Rightarrow> u8 \<Rightarrow> u32 \<Rightarrow> u32 \<Rightarrow> enc" where
  "EncodeFST_MEM32 Reg1 Reg2 OffType Off =
     steps [InstructionBegin, OpcodeW_Mem_X 0xD910 Reg1 Reg2 (ucast OffType) Off 0 0, InstructionEnd]"

definition EncodeFST_MEM64 :: "u8 \<Rightarrow> u8 \<Rightarrow> u32 \<Rightarrow> u32 \<Rightarrow> enc" where
  "EncodeFST_MEM64 Reg1 Reg2 OffType Off =
     steps [InstructionBegin, OpcodeW_Mem_X 0xDD10 Reg1 Reg2 (ucast OffType) Off 0 0, InstructionEnd]"

definition EncodeFST_STi :: "u8 \<Rightarrow> enc" where
  "EncodeFST_STi STi =
     steps [InstructionBegin, ToBufferW ((0xDDD0 :: u32) OR (ucast STi :: u32)), InstructionEnd]"

definition EncodeFSTP_MEM32 :: "u8 \<Rightarrow> u8 \<Rightarrow> u32 \<Rightarrow> u32 \<Rightarrow> enc" where
  "EncodeFSTP_MEM32 Reg1 Reg2 OffType Off =
     steps [InstructionBegin, OpcodeW_Mem_X 0xD918 Reg1 Reg2 (ucast OffType) Off 0 0, InstructionEnd]"

definition EncodeFSTP_MEM64 :: "u8 \<Rightarrow> u8 \<Rightarrow> u32 \<Rightarrow> u32 \<Rightarrow> enc" where
  "EncodeFSTP_MEM64 Reg1 Reg2 OffType Off =
     steps [InstructionBegin, OpcodeW_Mem_X 0xDD18 Reg1 Reg2 (ucast OffType) Off 0 0, InstructionEnd]"

definition EncodeFSTP_MEM80 :: "u8 \<Rightarrow> u8 \<Rightarrow> u32 \<Rightarrow> u32 \<Rightarrow> enc" where
  "EncodeFSTP_MEM80 Reg1 Reg2 OffType Off =
     steps [InstructionBegin, OpcodeW_Mem_X 0xDB38 Reg1 Reg2 (ucast OffType) Off 0 0, InstructionEnd]"

definition EncodeFSTP_STi :: "u8 \<Rightarrow> enc" where
  "EncodeFSTP_STi STi =
     steps [InstructionBegin, ToBufferW ((0xDDD8 :: u32) OR (ucast STi :: u32)), InstructionEnd]"

definition EncodeFSTCW_MEM :: "u8 \<Rightarrow> u8 \<Rightarrow> u32 \<Rightarrow> u32 \<Rightarrow> enc" where
  "EncodeFSTCW_MEM Reg1 Reg2 OffType Off =
     steps [InstructionBegin, Opcode3B_Mem_X 0x9BD938 Reg1 Reg2 (ucast OffType) Off 0 0, InstructionEnd]"

definition EncodeFNSTCW_MEM :: "u8 \<Rightarrow> u8 \<Rightarrow> u32 \<Rightarrow> u32 \<Rightarrow> enc" where
  "EncodeFNSTCW_MEM Reg1 Reg2 OffType Off =
     steps [InstructionBegin, OpcodeW_Mem_X 0xD938 Reg1 Reg2 (ucast OffType) Off 0 0, InstructionEnd]"

definition EncodeFSTENV_MEM :: "u8 \<Rightarrow> u8 \<Rightarrow> u32 \<Rightarrow> u32 \<Rightarrow> enc" where
  "EncodeFSTENV_MEM Reg1 Reg2 OffType Off =
     steps [InstructionBegin, Opcode3B_Mem_X 0x9BD930 Reg1 Reg2 (ucast OffType) Off 0 0, InstructionEnd]"

definition EncodeFNSTENV_MEM :: "u8 \<Rightarrow> u8 \<Rightarrow> u32 \<Rightarrow> u32 \<Rightarrow> enc" where
  "EncodeFNSTENV_MEM Reg1 Reg2 OffType Off =
     steps [InstructionBegin, OpcodeW_Mem_X 0xD930 Reg1 Reg2 (ucast OffType) Off 0 0, InstructionEnd]"

definition EncodeFSTSW_MEM :: "u8 \<Rightarrow> u8 \<Rightarrow> u32 \<Rightarrow> u32 \<Rightarrow> enc" where
  "EncodeFSTSW_MEM Reg1 Reg2 OffType Off =
     steps [InstructionBegin, Opcode3B_Mem_X 0x9BDD38 Reg1 Reg2 (ucast OffType) Off 0 0, InstructionEnd]"

definition EncodeFSTSW_AX :: "enc" where
  "EncodeFSTSW_AX =
     steps [InstructionBegin, ToBuffer3B 0x9BDFE0, InstructionEnd]"

definition EncodeFNSTSW_MEM :: "u8 \<Rightarrow> u8 \<Rightarrow> u32 \<Rightarrow> u32 \<Rightarrow> enc" where
  "EncodeFNSTSW_MEM Reg1 Reg2 OffType Off =
     steps [InstructionBegin, OpcodeW_Mem_X 0xDD38 Reg1 Reg2 (ucast OffType) Off 0 0, InstructionEnd]"

definition EncodeFNSTSW_AX :: "enc" where
  "EncodeFNSTSW_AX =
     steps [InstructionBegin, ToBufferW 0xDFE0, InstructionEnd]"

definition EncodeFTST :: "enc" where
  "EncodeFTST =
     steps [InstructionBegin, ToBufferW 0xD9E4, InstructionEnd]"

definition EncodeFUCOM_STi :: "u8 \<Rightarrow> enc" where
  "EncodeFUCOM_STi STi =
     steps [InstructionBegin, ToBufferW ((0xDDE0 :: u32) OR (ucast STi :: u32)), InstructionEnd]"

definition EncodeFUCOMP_STi :: "u8 \<Rightarrow> enc" where
  "EncodeFUCOMP_STi STi =
     steps [InstructionBegin, ToBufferW ((0xDDE8 :: u32) OR (ucast STi :: u32)), InstructionEnd]"

definition EncodeFUCOMPP :: "enc" where
  "EncodeFUCOMPP =
     steps [InstructionBegin, ToBufferW 0xDAE9, InstructionEnd]"

definition EncodeFXAM :: "enc" where
  "EncodeFXAM =
     steps [InstructionBegin, ToBufferW 0xD9E5, InstructionEnd]"

definition EncodeFXCH_STi :: "u8 \<Rightarrow> enc" where
  "EncodeFXCH_STi STi =
     steps [InstructionBegin, ToBufferW ((0xD9C8 :: u32) OR (ucast STi :: u32)), InstructionEnd]"

definition EncodeFXRSTOR_MEM :: "u8 \<Rightarrow> u8 \<Rightarrow> u32 \<Rightarrow> u32 \<Rightarrow> enc" where
  "EncodeFXRSTOR_MEM Reg1 Reg2 OffType Off =
     steps [InstructionBegin, Opcode3B_Mem_X 0xFAE08 Reg1 Reg2 (ucast OffType) Off 0 0, InstructionEnd]"

definition EncodeFXSAVE_MEM :: "u8 \<Rightarrow> u8 \<Rightarrow> u32 \<Rightarrow> u32 \<Rightarrow> enc" where
  "EncodeFXSAVE_MEM Reg1 Reg2 OffType Off =
     steps [InstructionBegin, Opcode3B_Mem_X 0xFAE08 Reg1 Reg2 (ucast OffType) Off 0 0, InstructionEnd]"

definition EncodeFXTRACT :: "enc" where
  "EncodeFXTRACT =
     steps [InstructionBegin, ToBufferW 0xD9F4, InstructionEnd]"

definition EncodeFYL2X :: "enc" where
  "EncodeFYL2X =
     steps [InstructionBegin, ToBufferW 0xD9F1, InstructionEnd]"

definition EncodeFYL2XP1 :: "enc" where
  "EncodeFYL2XP1 =
     steps [InstructionBegin, ToBufferW 0xD9F9, InstructionEnd]"

end
