(* ===== verification/Iasm_Parser_1.thy ===== *)
theory Iasm_Parser_1
  imports Iasm_Operands Iasm_Macros Iasm_Instructions_A Iasm_Instructions_B Iasm_Instructions_C
begin

text \<open>
  The instructions of \<^verbatim>\<open>apps/iasm/parser.c\<close>, first part: the macros of \<^verbatim>\<open>parser.h\<close> that parse a family of
  instructions, the functions that apply them, and \<open>_Parse_1\<close>.  A chain of \<open>else if(StringCmp(Token, X))\<close> is a
  list of pairs, in the order of the tests, of which the first with the name of the instruction is taken.  The
  arguments of a call of the encoder are evaluated from left to right.
\<close>

definition OPT :: "string \<Rightarrow> (string \<times> unit asm_m) list" where
  "OPT x =
   (let opc = the (map_of alu_opcodes x) in
   [(x @ ''B'',
      bnd GET_TOKEN (\<lambda>OPRD1.
      bnd GET_TOKEN (\<lambda>OPRD2.
      bnd (ExpectComma OPRD2) (\<lambda>_. bnd GET_TOKEN (\<lambda>OPRD2.
      (if IsReg OPRD1 \<and> IsReg OPRD2
       then bnd (GetReg OPRD1) (\<lambda>r1. bnd (GetReg OPRD2) (\<lambda>r2.
         emit (EncodeALU_Reg8_Reg8 (opc ! 0) r1 r2)))
       else if IsMem OPRD1 \<and> IsReg OPRD2
       then bnd (GetMem OPRD1) (\<lambda>(Reg1, Reg2, Offset).
         bnd (GetReg OPRD2) (\<lambda>r2. emit (EncodeALU_Mem8_Reg8 (opc ! 3) Reg1 Reg2 (GetOffType Offset) Offset
           r2)))
       else if IsReg OPRD1 \<and> IsMem OPRD2
       then bnd (GetMem OPRD2) (\<lambda>(Reg1, Reg2, Offset).
         bnd (GetReg OPRD1) (\<lambda>r1. emit (EncodeALU_Reg8_Mem8 (opc ! 6) r1 Reg1 Reg2 (GetOffType Offset)
           Offset)))
       else if IsReg OPRD1 \<and> IsConstant OPRD2
       then (if OPRD1 = ''%AL'' \<and> IsConstant OPRD2
          then bnd (GetConstant OPRD2) (\<lambda>c2. emit (EncodeALU_Acc8_Imm8 (opc ! 9) (ucast c2)))
          else bnd (GetReg OPRD1) (\<lambda>r1. bnd (GetConstant OPRD2) (\<lambda>c2.
            emit (EncodeALU_Reg8_Imm8 (opc ! 12) r1 (ucast c2)))))
       else if IsMem OPRD1 \<and> IsConstant OPRD2
       then bnd (GetMem OPRD1) (\<lambda>(Reg1, Reg2, Offset).
         bnd (GetConstant OPRD2) (\<lambda>c2. emit (EncodeALU_Mem8_Imm8 (opc ! 15) Reg1 Reg2 (GetOffType Offset)
           Offset (ucast c2))))
       else InvalidInstruction)))))),
    (x @ ''W'',
      bnd GET_TOKEN (\<lambda>OPRD1.
      bnd GET_TOKEN (\<lambda>OPRD2.
      bnd (ExpectComma OPRD2) (\<lambda>_. bnd GET_TOKEN (\<lambda>OPRD2.
      (if IsReg OPRD1 \<and> IsReg OPRD2
       then bnd (GetReg OPRD1) (\<lambda>r1. bnd (GetReg OPRD2) (\<lambda>r2.
         emit (EncodeALU_Reg16_Reg16 (opc ! 1) r1 r2)))
       else if IsMem OPRD1 \<and> IsReg OPRD2
       then bnd (GetMem OPRD1) (\<lambda>(Reg1, Reg2, Offset).
         bnd (GetReg OPRD2) (\<lambda>r2. emit (EncodeALU_Mem16_Reg16 (opc ! 4) Reg1 Reg2 (GetOffType Offset) Offset
           r2)))
       else if IsReg OPRD1 \<and> IsMem OPRD2
       then bnd (GetMem OPRD2) (\<lambda>(Reg1, Reg2, Offset).
         bnd (GetReg OPRD1) (\<lambda>r1. emit (EncodeALU_Reg16_Mem16 (opc ! 7) r1 Reg1 Reg2 (GetOffType Offset)
           Offset)))
       else if IsReg OPRD1 \<and> IsConstant OPRD2
       then (if OPRD1 = ''%AX''
          then bnd (GetConstant OPRD2) (\<lambda>c2. emit (EncodeALU_Acc16_Imm16 (opc ! 10) c2))
          else bnd (GetReg OPRD1) (\<lambda>r1. bnd (GetConstant OPRD2) (\<lambda>c2.
            emit (EncodeALU_Reg16_Imm16 (opc ! 13) r1 c2))))
       else if IsMem OPRD1 \<and> IsConstant OPRD2
       then bnd (GetMem OPRD1) (\<lambda>(Reg1, Reg2, Offset).
         bnd (GetConstant OPRD2) (\<lambda>c2. emit (EncodeALU_Mem16_Imm16 (opc ! 16) Reg1 Reg2 (GetOffType Offset)
           Offset c2)))
       else InvalidInstruction)))))),
    (x @ ''D'',
      bnd GET_TOKEN (\<lambda>OPRD1.
      bnd GET_TOKEN (\<lambda>OPRD2.
      bnd (ExpectComma OPRD2) (\<lambda>_. bnd GET_TOKEN (\<lambda>OPRD2.
      (if IsReg OPRD1 \<and> IsReg OPRD2
       then bnd (GetReg OPRD1) (\<lambda>r1. bnd (GetReg OPRD2) (\<lambda>r2.
         emit (EncodeALU_Reg32_Reg32 (opc ! 2) r1 r2)))
       else if IsMem OPRD1 \<and> IsReg OPRD2
       then bnd (GetMem OPRD1) (\<lambda>(Reg1, Reg2, Offset).
         bnd (GetReg OPRD2) (\<lambda>r2. emit (EncodeALU_Mem32_Reg32 (opc ! 5) Reg1 Reg2 (GetOffType Offset) Offset
           r2)))
       else if IsReg OPRD1 \<and> IsMem OPRD2
       then bnd (GetMem OPRD2) (\<lambda>(Reg1, Reg2, Offset).
         bnd (GetReg OPRD1) (\<lambda>r1. emit (EncodeALU_Reg32_Mem32 (opc ! 8) r1 Reg1 Reg2 (GetOffType Offset)
           Offset)))
       else if IsReg OPRD1 \<and> IsConstant OPRD2
       then (if OPRD1 = ''%EAX''
          then bnd (GetConstant OPRD2) (\<lambda>c2. emit (EncodeALU_Acc32_Imm32 (opc ! 11) c2))
          else bnd (GetReg OPRD1) (\<lambda>r1. bnd (GetConstant OPRD2) (\<lambda>c2.
            emit (EncodeALU_Reg32_Imm32 (opc ! 14) r1 c2))))
       else if IsMem OPRD1 \<and> IsConstant OPRD2
       then bnd (GetMem OPRD1) (\<lambda>(Reg1, Reg2, Offset).
         bnd (GetConstant OPRD2) (\<lambda>c2. emit (EncodeALU_Mem32_Imm32 (opc ! 17) Reg1 Reg2 (GetOffType Offset)
           Offset c2)))
       else InvalidInstruction))))))])"

definition SHIFT :: "string \<Rightarrow> (string \<times> unit asm_m) list" where
  "SHIFT x =
   (let opc = the (map_of shift_opcodes x) in
   [(x @ ''B'',
      bnd GET_TOKEN (\<lambda>OPRD1.
      bnd GET_TOKEN (\<lambda>OPRD2.
      bnd (ExpectComma OPRD2) (\<lambda>_. bnd GET_TOKEN (\<lambda>OPRD2.
      (bnd (andalso (IsReg OPRD1 \<and> IsConstant OPRD2) (bnd (GetConstant OPRD2) (\<lambda>N.
        ret (N = 1)))) (\<lambda>ok.
       if ok then bnd (GetReg OPRD1) (\<lambda>r1. emit (EncodeShift_Reg8_1 (opc ! 0) r1))
       else if IsReg OPRD1 \<and> OPRD2 = ''%CL''
       then bnd (GetReg OPRD1) (\<lambda>r1. emit (EncodeShift_Reg8_CL (opc ! 6) r1))
       else if IsMem OPRD1
       then bnd (GetMem OPRD1) (\<lambda>(Reg1, Reg2, Offset).
         (bnd (andalso (IsConstant OPRD2) (bnd (GetConstant OPRD2) (\<lambda>N. ret (N = 1)))) (\<lambda>ok.
          if ok then emit (EncodeShift_Mem8_1 (opc ! 3) Reg1 Reg2 (GetOffType Offset) Offset)
          else if OPRD2 = ''%CL''
          then emit (EncodeShift_Mem8_CL (opc ! 9) Reg1 Reg2 (GetOffType Offset) Offset)
          else InvalidInstruction)))
       else InvalidInstruction))))))),
    (x @ ''W'',
      bnd GET_TOKEN (\<lambda>OPRD1.
      bnd GET_TOKEN (\<lambda>OPRD2.
      bnd (ExpectComma OPRD2) (\<lambda>_. bnd GET_TOKEN (\<lambda>OPRD2.
      (bnd (andalso (IsReg OPRD1 \<and> IsConstant OPRD2) (bnd (GetConstant OPRD2) (\<lambda>N.
        ret (N = 1)))) (\<lambda>ok.
       if ok then bnd (GetReg OPRD1) (\<lambda>r1. emit (EncodeShift_Reg16_1 (opc ! 1) r1))
       else if IsReg OPRD1 \<and> OPRD2 = ''%CL''
       then bnd (GetReg OPRD1) (\<lambda>r1. emit (EncodeShift_Reg16_CL (opc ! 7) r1))
       else if IsMem OPRD1
       then bnd (GetMem OPRD1) (\<lambda>(Reg1, Reg2, Offset).
         (bnd (andalso (IsConstant OPRD2) (bnd (GetConstant OPRD2) (\<lambda>N. ret (N = 1)))) (\<lambda>ok.
          if ok then emit (EncodeShift_Mem16_1 (opc ! 4) Reg1 Reg2 (GetOffType Offset) Offset)
          else if OPRD2 = ''%CL''
          then emit (EncodeShift_Mem16_CL (opc ! 10) Reg1 Reg2 (GetOffType Offset) Offset)
          else InvalidInstruction)))
       else InvalidInstruction))))))),
    (x @ ''D'',
      bnd GET_TOKEN (\<lambda>OPRD1.
      bnd GET_TOKEN (\<lambda>OPRD2.
      bnd (ExpectComma OPRD2) (\<lambda>_. bnd GET_TOKEN (\<lambda>OPRD2.
      (bnd (andalso (IsReg OPRD1 \<and> IsConstant OPRD2) (bnd (GetConstant OPRD2) (\<lambda>N.
        ret (N = 1)))) (\<lambda>ok.
       if ok then bnd (GetReg OPRD1) (\<lambda>r1. emit (EncodeShift_Reg32_1 (opc ! 2) r1))
       else if IsReg OPRD1 \<and> OPRD2 = ''%CL''
       then bnd (GetReg OPRD1) (\<lambda>r1. emit (EncodeShift_Reg32_CL (opc ! 8) r1))
       else if IsMem OPRD1
       then bnd (GetMem OPRD1) (\<lambda>(Reg1, Reg2, Offset).
         (bnd (andalso (IsConstant OPRD2) (bnd (GetConstant OPRD2) (\<lambda>N. ret (N = 1)))) (\<lambda>ok.
          if ok then emit (EncodeShift_Mem32_1 (opc ! 5) Reg1 Reg2 (GetOffType Offset) Offset)
          else if OPRD2 = ''%CL''
          then emit (EncodeShift_Mem32_CL (opc ! 11) Reg1 Reg2 (GetOffType Offset) Offset)
          else InvalidInstruction)))
       else InvalidInstruction)))))))])"

definition SHxD :: "string \<Rightarrow> (string \<times> unit asm_m) list" where
  "SHxD x =
   (let opc = the (map_of shxd_opcodes x) in
   [(x @ ''W'',
      bnd GET_TOKEN (\<lambda>OPRD1.
      bnd GET_TOKEN (\<lambda>OPRD2.
      bnd (ExpectComma OPRD2) (\<lambda>_. bnd GET_TOKEN (\<lambda>OPRD2.
      bnd GET_TOKEN (\<lambda>OPRD3.
      bnd (ExpectComma OPRD3) (\<lambda>_. bnd GET_TOKEN (\<lambda>OPRD3.
      (bnd (andalso (IsReg OPRD1 \<and> IsReg16 OPRD1 \<and> IsReg OPRD2 \<and> IsReg16 OPRD2) (IsImm8 OPRD3))
        (\<lambda>ok.
       if ok then bnd (GetReg OPRD1) (\<lambda>r1. bnd (GetReg OPRD2) (\<lambda>r2.
         bnd (GetConstant OPRD3) (\<lambda>c3. emit (EncodeSHxD_Reg16_Reg16_Imm8 (opc ! 0) r1 r2 c3))))
       else bnd (andalso (IsMem OPRD1 \<and> IsReg OPRD2 \<and> IsReg16 OPRD2) (IsImm8 OPRD3)) (\<lambda>ok.
       if ok then bnd (GetMem OPRD1) (\<lambda>(Reg1, Reg2, Offset).
         bnd (GetReg OPRD2) (\<lambda>r2. bnd (GetConstant OPRD3) (\<lambda>c3.
           emit (EncodeSHxD_Mem16_Reg16_Imm8 (opc ! 2) Reg1 Reg2 (GetOffType Offset) Offset r2 c3))))
       else if IsReg OPRD1 \<and> IsReg16 OPRD1 \<and> IsReg OPRD2 \<and> IsReg16 OPRD2 \<and> IsReg OPRD3 \<and>
         OPRD3 = ''%CL''
       then bnd (GetReg OPRD1) (\<lambda>r1. bnd (GetReg OPRD2) (\<lambda>r2.
         emit (EncodeSHxD_Reg16_Reg16_CL (opc ! 4) r1 r2)))
       else if IsMem OPRD1 \<and> IsReg OPRD2 \<and> IsReg16 OPRD2 \<and> IsReg OPRD3 \<and> OPRD3 = ''%CL''
       then bnd (GetMem OPRD1) (\<lambda>(Reg1, Reg2, Offset).
         bnd (GetReg OPRD2) (\<lambda>r2. emit (EncodeSHxD_Mem16_Reg16_CL (opc ! 6) Reg1 Reg2 (GetOffType Offset)
           Offset r2)))
       else InvalidInstruction))))))))))),
    (x @ ''D'',
      bnd GET_TOKEN (\<lambda>OPRD1.
      bnd GET_TOKEN (\<lambda>OPRD2.
      bnd (ExpectComma OPRD2) (\<lambda>_. bnd GET_TOKEN (\<lambda>OPRD2.
      bnd GET_TOKEN (\<lambda>OPRD3.
      bnd (ExpectComma OPRD3) (\<lambda>_. bnd GET_TOKEN (\<lambda>OPRD3.
      (bnd (andalso (IsReg OPRD1 \<and> IsReg32 OPRD1 \<and> IsReg OPRD2 \<and> IsReg32 OPRD2) (IsImm8 OPRD3))
        (\<lambda>ok.
       if ok then bnd (GetReg OPRD1) (\<lambda>r1. bnd (GetReg OPRD2) (\<lambda>r2.
         bnd (GetConstant OPRD3) (\<lambda>c3. emit (EncodeSHxD_Reg32_Reg32_Imm8 (opc ! 1) r1 r2 c3))))
       else bnd (andalso (IsMem OPRD1 \<and> IsReg OPRD2 \<and> IsReg32 OPRD2) (IsImm8 OPRD3)) (\<lambda>ok.
       if ok then bnd (GetMem OPRD1) (\<lambda>(Reg1, Reg2, Offset).
         bnd (GetReg OPRD2) (\<lambda>r2. bnd (GetConstant OPRD3) (\<lambda>c3.
           emit (EncodeSHxD_Mem32_Reg32_Imm8 (opc ! 3) Reg1 Reg2 (GetOffType Offset) Offset r2 c3))))
       else if IsReg OPRD1 \<and> IsReg32 OPRD1 \<and> IsReg OPRD2 \<and> IsReg32 OPRD2 \<and> IsReg OPRD3 \<and>
         OPRD3 = ''%CL''
       then bnd (GetReg OPRD1) (\<lambda>r1. bnd (GetReg OPRD2) (\<lambda>r2.
         emit (EncodeSHxD_Reg32_Reg32_CL (opc ! 5) r1 r2)))
       else if IsMem OPRD1 \<and> IsReg OPRD2 \<and> IsReg32 OPRD2 \<and> IsReg OPRD3 \<and> OPRD3 = ''%CL''
       then bnd (GetMem OPRD1) (\<lambda>(Reg1, Reg2, Offset).
         bnd (GetReg OPRD2) (\<lambda>r2. emit (EncodeSHxD_Mem32_Reg32_CL (opc ! 7) Reg1 Reg2 (GetOffType Offset)
           Offset r2)))
       else InvalidInstruction)))))))))))])"

definition FOPT :: "string \<Rightarrow> (string \<times> unit asm_m) list" where
  "FOPT x =
   (let opc = the (map_of farith_opcodes x) in
   [(''F'' @ x @ ''R4'',
      bnd GET_TOKEN (\<lambda>OPRD1.
      (if IsMem OPRD1
       then bnd (GetMem OPRD1) (\<lambda>(Reg1, Reg2, Offset).
         emit (EncodeFArith_Mem32 (opc ! 0) Reg1 Reg2 (GetOffType Offset) Offset))
       else InvalidInstruction))),
    (''F'' @ x @ ''R8'',
      bnd GET_TOKEN (\<lambda>OPRD1.
      (if IsMem OPRD1
       then bnd (GetMem OPRD1) (\<lambda>(Reg1, Reg2, Offset).
         emit (EncodeFArith_Mem64 (opc ! 1) Reg1 Reg2 (GetOffType Offset) Offset))
       else InvalidInstruction))),
    (''F'' @ x,
      bnd GET_TOKEN (\<lambda>OPRD1.
      bnd GET_TOKEN (\<lambda>OPRD2.
      bnd (ExpectComma OPRD2) (\<lambda>_. bnd GET_TOKEN (\<lambda>OPRD2.
      (if IsReg OPRD1 \<and> IsX87DataReg OPRD1 \<and> IsX87DataReg0 OPRD1 \<and> IsReg OPRD2 \<and> IsX87DataReg
        OPRD2
       then bnd (GetReg OPRD2) (\<lambda>r2. emit (EncodeFArith_ST0_STi (opc ! 2) r2))
       else if IsReg OPRD1 \<and> IsX87DataReg OPRD1 \<and> IsReg OPRD2 \<and> IsX87DataReg OPRD2 \<and>
         IsX87DataReg0 OPRD2
       then bnd (GetReg OPRD1) (\<lambda>r1. emit (EncodeFArith_STi_ST0 (opc ! 3) r1))
       else InvalidInstruction)))))),
    (''F'' @ x @ ''P'',
      bnd GET_TOKEN (\<lambda>OPRD1.
      bnd GET_TOKEN (\<lambda>OPRD2.
      bnd (ExpectComma OPRD2) (\<lambda>_. bnd GET_TOKEN (\<lambda>OPRD2.
      (if IsReg OPRD1 \<and> IsX87DataReg OPRD1 \<and> IsReg OPRD2 \<and> IsX87DataReg OPRD2 \<and> IsX87DataReg0
        OPRD2
       then bnd (GetReg OPRD1) (\<lambda>r1. emit (EncodeFArithP_STi_ST0 (opc ! 4) r1))
       else InvalidInstruction)))))),
    (''FI'' @ x @ ''D'',
      bnd GET_TOKEN (\<lambda>OPRD1.
      (if IsMem OPRD1
       then bnd (GetMem OPRD1) (\<lambda>(Reg1, Reg2, Offset).
         emit (EncodeFArithI_Mem32 (opc ! 5) Reg1 Reg2 (GetOffType Offset) Offset))
       else InvalidInstruction))),
    (''FI'' @ x @ ''W'',
      bnd GET_TOKEN (\<lambda>OPRD1.
      (if IsMem OPRD1
       then bnd (GetMem OPRD1) (\<lambda>(Reg1, Reg2, Offset).
         emit (EncodeFArithI_Mem16 (opc ! 6) Reg1 Reg2 (GetOffType Offset) Offset))
       else InvalidInstruction)))])"

definition FCMOVcc :: "string \<Rightarrow> (string \<times> unit asm_m) list" where
  "FCMOVcc x =
   (let opc = the (map_of fcmovcc_opcodes x) in
   [(x,
      bnd GET_TOKEN (\<lambda>OPRD1.
      bnd GET_TOKEN (\<lambda>OPRD2.
      bnd (ExpectComma OPRD2) (\<lambda>_. bnd GET_TOKEN (\<lambda>OPRD2.
      (if IsReg OPRD1 \<and> IsX87DataReg OPRD1 \<and> IsX87DataReg0 OPRD1 \<and> IsReg OPRD2 \<and> IsX87DataReg
        OPRD2
       then bnd (GetReg OPRD2) (\<lambda>r2. emit (EncodeFCMOVcc_ST0_STi (opc ! 0) r2))
       else InvalidInstruction))))))])"

definition ParseOperator :: "(string \<times> unit asm_m) list" where
  "ParseOperator =
     concat (map OPT [''ADC'', ''ADD'', ''AND'', ''CMP'', ''OR'', ''SBB'', ''SUB'', ''TEST'', ''XOR''])"

definition ParseShift :: "(string \<times> unit asm_m) list" where
  "ParseShift =
     concat (map SHIFT [''RCL'', ''RCR'', ''ROL'', ''ROR'', ''SAL'', ''SAR'', ''SHL'', ''SHR''])"

text \<open>\<open>JCC\<close> and \<open>SETCC\<close>: the names that belong to a condition.  The name \<open>XXXX\<close> stands for none, but is one.\<close>

definition JCC :: "string list \<Rightarrow> u8 \<Rightarrow> (string \<times> unit asm_m) list" where
  "JCC ccccs CCCC =
     map (\<lambda>cccc. (''J'' @ cccc,
       bnd (\<lambda>s. ret (GetCurrentPos (a_enc s)) s) (\<lambda>CurrentPos.
       bnd GET_TOKEN (\<lambda>OPRD.
       if IsConstant OPRD
       then bnd (GetConstant OPRD) (\<lambda>Offset. emit (EncodeJcc_SHORT CCCC (ucast (Offset - (CurrentPos + 2)))))
       else InvalidInstruction)))) ccccs"

definition SETCC :: "string list \<Rightarrow> u8 \<Rightarrow> (string \<times> unit asm_m) list" where
  "SETCC ccccs CCCC =
     map (\<lambda>cccc. (''SET'' @ cccc,
       bnd GET_TOKEN (\<lambda>OPRD.
       if IsReg OPRD \<and> IsReg8 OPRD
       then bnd (GetReg OPRD) (\<lambda>r. emit (EncodeSETcc_Reg8 CCCC r))
       else if IsMem OPRD
       then bnd (GetMem OPRD) (\<lambda>(Reg1, Reg2, Offset). emit (EncodeSETcc_Mem8 CCCC Reg1 Reg2 (GetOffType Offset) Offset))
       else InvalidInstruction))) ccccs"

definition ParseJcc :: "(string \<times> unit asm_m) list" where
  "ParseJcc =
     JCC [''O'', ''XXXX'', ''XXXX''] 0x0 @ JCC [''NO'', ''XXXX'', ''XXXX''] 0x1
     @ JCC [''C'', ''B'', ''NAE''] 0x2 @ JCC [''NC'', ''AE'', ''NB''] 0x3 @ JCC [''E'', ''Z'', ''XXXX''] 0x4
     @ JCC [''NE'', ''NZ'', ''XXXX''] 0x5 @ JCC [''BE'', ''NA'', ''XXXX''] 0x6
     @ JCC [''A'', ''NBE'', ''XXXX''] 0x7 @ JCC [''S'', ''XXXX'', ''XXXX''] 0x8
     @ JCC [''NS'', ''XXXX'', ''XXXX''] 0x9 @ JCC [''P'', ''PE'', ''XXXX''] 0xA
     @ JCC [''NP'', ''PO'', ''XXXX''] 0xB @ JCC [''L'', ''NGE'', ''XXXX''] 0xC
     @ JCC [''GE'', ''NL'', ''XXXX''] 0xD @ JCC [''LE'', ''NG'', ''XXXX''] 0xE
     @ JCC [''G'', ''NLE'', ''XXXX''] 0xF"

definition ParseSETcc :: "(string \<times> unit asm_m) list" where
  "ParseSETcc =
     SETCC [''O'', ''XXXX'', ''XXXX''] 0x0 @ SETCC [''NO'', ''XXXX'', ''XXXX''] 0x1
     @ SETCC [''C'', ''B'', ''NAE''] 0x2 @ SETCC [''NC'', ''AE'', ''NB''] 0x3
     @ SETCC [''E'', ''Z'', ''XXXX''] 0x4 @ SETCC [''NE'', ''NZ'', ''XXXX''] 0x5
     @ SETCC [''BE'', ''NA'', ''XXXX''] 0x6 @ SETCC [''A'', ''NBE'', ''XXXX''] 0x7
     @ SETCC [''S'', ''XXXX'', ''XXXX''] 0x8 @ SETCC [''NS'', ''XXXX'', ''XXXX''] 0x9
     @ SETCC [''P'', ''PE'', ''XXXX''] 0xA @ SETCC [''NP'', ''PO'', ''XXXX''] 0xB
     @ SETCC [''L'', ''NGE'', ''XXXX''] 0xC @ SETCC [''GE'', ''NL'', ''XXXX''] 0xD
     @ SETCC [''LE'', ''NG'', ''XXXX''] 0xE @ SETCC [''G'', ''NLE'', ''XXXX''] 0xF"

definition Parse_1_a :: "(string \<times> unit asm_m) list" where
  "Parse_1_a =
   [(''CBW'',
      emit EncodeCBW),
    (''CLC'',
      emit EncodeCLC),
    (''CLD'',
      emit EncodeCLD),
    (''CLI'',
      emit EncodeCLI),
    (''CMC'',
      emit EncodeCMC),
    (''CMPSB'',
      emit EncodeCMPSB),
    (''CMPSW'',
      emit EncodeCMPSW),
    (''CWD'',
      emit EncodeCWD),
    (''DAS'',
      emit EncodeDAS),
    (''DECB'',
      bnd GET_TOKEN (\<lambda>OPRD.
      (if IsReg OPRD \<and> IsReg8 OPRD
       then bnd (GetReg OPRD) (\<lambda>r. emit (EncodeDEC_Reg8 r))
       else if IsMem OPRD
       then bnd (GetMem OPRD) (\<lambda>(Reg1, Reg2, Offset).
         emit (EncodeDEC_Mem8 Reg1 Reg2 (GetOffType Offset) Offset))
       else InvalidInstruction))),
    (''DECW'',
      bnd GET_TOKEN (\<lambda>OPRD.
      (if IsReg OPRD \<and> IsReg16 OPRD
       then bnd (GetReg OPRD) (\<lambda>r. emit (EncodeDEC_Reg16 r))
       else if IsMem OPRD
       then bnd (GetMem OPRD) (\<lambda>(Reg1, Reg2, Offset).
         emit (EncodeDEC_Mem16 Reg1 Reg2 (GetOffType Offset) Offset))
       else InvalidInstruction))),
    (''DECD'',
      bnd GET_TOKEN (\<lambda>OPRD.
      (if IsReg OPRD \<and> IsReg32 OPRD
       then bnd (GetReg OPRD) (\<lambda>r. emit (EncodeDEC_Reg32 r))
       else if IsMem OPRD
       then bnd (GetMem OPRD) (\<lambda>(Reg1, Reg2, Offset).
         emit (EncodeDEC_Mem32 Reg1 Reg2 (GetOffType Offset) Offset))
       else InvalidInstruction))),
    (''DIVB'',
      bnd GET_TOKEN (\<lambda>OPRD.
      (if IsReg OPRD \<and> IsReg8 OPRD
       then bnd (GetReg OPRD) (\<lambda>r. emit (EncodeDIV_Reg8 r))
       else if IsMem OPRD
       then bnd (GetMem OPRD) (\<lambda>(Reg1, Reg2, Offset).
         emit (EncodeDIV_Mem8 Reg1 Reg2 (GetOffType Offset) Offset))
       else InvalidInstruction)))]"

definition Parse_1_b :: "(string \<times> unit asm_m) list" where
  "Parse_1_b =
   [(''DIVW'',
      bnd GET_TOKEN (\<lambda>OPRD.
      (if IsReg OPRD \<and> IsReg16 OPRD
       then bnd (GetReg OPRD) (\<lambda>r. emit (EncodeDIV_Reg16 r))
       else if IsMem OPRD
       then bnd (GetMem OPRD) (\<lambda>(Reg1, Reg2, Offset).
         emit (EncodeDIV_Mem16 Reg1 Reg2 (GetOffType Offset) Offset))
       else InvalidInstruction))),
    (''DIVD'',
      bnd GET_TOKEN (\<lambda>OPRD.
      (if IsReg OPRD \<and> IsReg32 OPRD
       then bnd (GetReg OPRD) (\<lambda>r. emit (EncodeDIV_Reg32 r))
       else if IsMem OPRD
       then bnd (GetMem OPRD) (\<lambda>(Reg1, Reg2, Offset).
         emit (EncodeDIV_Mem32 Reg1 Reg2 (GetOffType Offset) Offset))
       else InvalidInstruction))),
    (''ENTER'',
      bnd GET_TOKEN (\<lambda>OPRD1.
      bnd GET_TOKEN (\<lambda>OPRD2.
      bnd (ExpectComma OPRD2) (\<lambda>_. bnd GET_TOKEN (\<lambda>OPRD2.
      (if IsConstant OPRD1 \<and> IsConstant OPRD2
       then bnd (GetConstant OPRD1) (\<lambda>c1. bnd (GetConstant OPRD2) (\<lambda>c2.
         emit (EncodeENTER_Imm16_Imm8 (ucast c1) (ucast c2))))
       else InvalidInstruction)))))),
    (''HLT'',
      emit EncodeHLT),
    (''IDIVB'',
      bnd GET_TOKEN (\<lambda>OPRD.
      (if IsReg OPRD \<and> IsReg16 OPRD
       then bnd (GetReg OPRD) (\<lambda>r. emit (EncodeIDIV_Reg8 r))
       else if IsMem OPRD
       then bnd (GetMem OPRD) (\<lambda>(Reg1, Reg2, Offset).
         emit (EncodeIDIV_Mem8 Reg1 Reg2 (GetOffType Offset) Offset))
       else InvalidInstruction))),
    (''IDIVW'',
      bnd GET_TOKEN (\<lambda>OPRD.
      (if IsReg OPRD \<and> IsReg16 OPRD
       then bnd (GetReg OPRD) (\<lambda>r. emit (EncodeIDIV_Reg16 r))
       else if IsMem OPRD
       then bnd (GetMem OPRD) (\<lambda>(Reg1, Reg2, Offset).
         emit (EncodeIDIV_Mem16 Reg1 Reg2 (GetOffType Offset) Offset))
       else InvalidInstruction))),
    (''IDIVD'',
      bnd GET_TOKEN (\<lambda>OPRD.
      (if IsReg OPRD \<and> IsReg32 OPRD
       then bnd (GetReg OPRD) (\<lambda>r. emit (EncodeIDIV_Reg32 r))
       else if IsMem OPRD
       then bnd (GetMem OPRD) (\<lambda>(Reg1, Reg2, Offset).
         emit (EncodeIDIV_Mem32 Reg1 Reg2 (GetOffType Offset) Offset))
       else InvalidInstruction)))]"

definition Parse_1_c :: "(string \<times> unit asm_m) list" where
  "Parse_1_c =
   [(''IMULB'',
      bnd GET_TOKEN (\<lambda>OPRD.
      (if IsReg OPRD \<and> IsReg8 OPRD
       then bnd (GetReg OPRD) (\<lambda>r. emit (EncodeIMUL_Reg8 r))
       else if IsMem OPRD
       then bnd (GetMem OPRD) (\<lambda>(Reg1, Reg2, Offset).
         emit (EncodeIMUL_Mem8 Reg1 Reg2 (GetOffType Offset) Offset))
       else InvalidInstruction))),
    (''IMULW'',
      bnd GET_TOKEN (\<lambda>OPRD.
      (if IsReg OPRD \<and> IsReg16 OPRD
       then bnd (GetReg OPRD) (\<lambda>r. emit (EncodeIMUL_Reg16 r))
       else if IsMem OPRD
       then bnd (GetMem OPRD) (\<lambda>(Reg1, Reg2, Offset).
         emit (EncodeIMUL_Mem16 Reg1 Reg2 (GetOffType Offset) Offset))
       else InvalidInstruction))),
    (''IMULD'',
      bnd GET_TOKEN (\<lambda>OPRD.
      (if IsReg OPRD \<and> IsReg32 OPRD
       then bnd (GetReg OPRD) (\<lambda>r. emit (EncodeIMUL_Reg32 r))
       else if IsMem OPRD
       then bnd (GetMem OPRD) (\<lambda>(Reg1, Reg2, Offset).
         emit (EncodeIMUL_Mem32 Reg1 Reg2 (GetOffType Offset) Offset))
       else InvalidInstruction))),
    (''INB'',
      bnd GET_TOKEN (\<lambda>OPRD.
      (if IsConstant OPRD
       then bnd (GetConstant OPRD) (\<lambda>c. emit (EncodeINB_Imm8 (ucast c)))
       else if OPRD = ''%DX''
       then emit EncodeINB_DX
       else InvalidInstruction))),
    (''INW'',
      bnd GET_TOKEN (\<lambda>OPRD.
      (if IsConstant OPRD
       then bnd (GetConstant OPRD) (\<lambda>c. emit (EncodeINW_Imm8 (ucast c)))
       else if OPRD = ''%DX''
       then emit EncodeINW_DX
       else InvalidInstruction))),
    (''IND'',
      bnd GET_TOKEN (\<lambda>OPRD.
      (if IsConstant OPRD
       then bnd (GetConstant OPRD) (\<lambda>c. emit (EncodeIND_Imm8 (ucast c)))
       else if OPRD = ''%DX''
       then emit EncodeIND_DX
       else InvalidInstruction))),
    (''INSB'',
      emit EncodeINSB),
    (''INSW'',
      emit EncodeINSW),
    (''INSD'',
      emit EncodeINSD)]"

definition Parse_1_d :: "(string \<times> unit asm_m) list" where
  "Parse_1_d =
   [(''INCB'',
      bnd GET_TOKEN (\<lambda>OPRD.
      (if IsReg OPRD \<and> IsReg8 OPRD
       then bnd (GetReg OPRD) (\<lambda>r. emit (EncodeINC_Reg8 r))
       else if IsMem OPRD
       then bnd (GetMem OPRD) (\<lambda>(Reg1, Reg2, Offset).
         emit (EncodeINC_Mem8 Reg1 Reg2 (GetOffType Offset) Offset))
       else InvalidInstruction))),
    (''INCW'',
      bnd GET_TOKEN (\<lambda>OPRD.
      (if IsReg OPRD \<and> IsReg16 OPRD
       then bnd (GetReg OPRD) (\<lambda>r. emit (EncodeINC_Reg16 r))
       else if IsMem OPRD
       then bnd (GetMem OPRD) (\<lambda>(Reg1, Reg2, Offset).
         emit (EncodeINC_Mem16 Reg1 Reg2 (GetOffType Offset) Offset))
       else InvalidInstruction))),
    (''INCD'',
      bnd GET_TOKEN (\<lambda>OPRD.
      (if IsReg OPRD \<and> IsReg32 OPRD
       then bnd (GetReg OPRD) (\<lambda>r. emit (EncodeINC_Reg32 r))
       else if IsMem OPRD
       then bnd (GetMem OPRD) (\<lambda>(Reg1, Reg2, Offset).
         emit (EncodeINC_Mem32 Reg1 Reg2 (GetOffType Offset) Offset))
       else InvalidInstruction))),
    (''IRET'',
      emit EncodeIRET),
    (''LAHF'',
      emit EncodeLAHF),
    (''LDS'',
      bnd GET_TOKEN (\<lambda>OPRD1.
      bnd GET_TOKEN (\<lambda>OPRD2.
      bnd (ExpectComma OPRD2) (\<lambda>_. bnd GET_TOKEN (\<lambda>OPRD2.
      (if IsReg OPRD1 \<and> IsReg16 OPRD1 \<and> IsMem OPRD2
       then bnd (GetMem OPRD2) (\<lambda>(Reg1, Reg2, Offset).
         bnd (GetReg OPRD1) (\<lambda>r1. emit (EncodeLDS_Reg16_Mem32 r1 Reg1 Reg2 (GetOffType Offset) Offset)))
       else InvalidInstruction)))))),
    (''LES'',
      bnd GET_TOKEN (\<lambda>OPRD1.
      bnd GET_TOKEN (\<lambda>OPRD2.
      bnd (ExpectComma OPRD2) (\<lambda>_. bnd GET_TOKEN (\<lambda>OPRD2.
      (if IsReg OPRD1 \<and> IsReg16 OPRD1 \<and> IsMem OPRD2
       then bnd (GetMem OPRD2) (\<lambda>(Reg1, Reg2, Offset).
         bnd (GetReg OPRD1) (\<lambda>r1. emit (EncodeLES_Reg16_Mem32 r1 Reg1 Reg2 (GetOffType Offset) Offset)))
       else InvalidInstruction)))))),
    (''LEA'',
      bnd GET_TOKEN (\<lambda>OPRD1.
      bnd GET_TOKEN (\<lambda>OPRD2.
      bnd (ExpectComma OPRD2) (\<lambda>_. bnd GET_TOKEN (\<lambda>OPRD2.
      (if IsReg OPRD1 \<and> IsReg16 OPRD1 \<and> IsMem OPRD2
       then bnd (GetMem OPRD2) (\<lambda>(Reg1, Reg2, Offset).
         bnd (GetReg OPRD1) (\<lambda>r1. emit (EncodeLEA_Reg16_Mem r1 Reg1 Reg2 (GetOffType Offset) Offset)))
       else InvalidInstruction))))))]"

definition Parse_1_e :: "(string \<times> unit asm_m) list" where
  "Parse_1_e =
   [(''LEAVE'',
      emit EncodeLEAVE),
    (''LGDT'',
      bnd GET_TOKEN (\<lambda>OPRD.
      (if IsMem OPRD
       then bnd (GetMem OPRD) (\<lambda>(Reg1, Reg2, Offset).
         emit (EncodeLGDT_Mem1632 Reg1 Reg2 (ucast (GetOffType Offset)) Offset))
       else InvalidInstruction))),
    (''LIDT'',
      bnd GET_TOKEN (\<lambda>OPRD.
      (if IsMem OPRD
       then bnd (GetMem OPRD) (\<lambda>(Reg1, Reg2, Offset).
         emit (EncodeLIDT_Mem1632 Reg1 Reg2 (ucast (GetOffType Offset)) Offset))
       else InvalidInstruction))),
    (''LODSB'',
      emit EncodeLODSB),
    (''LODSW'',
      emit EncodeLODSW),
    (''LODSD'',
      emit EncodeLODSD),
    (''MOVSB'',
      emit EncodeMOVSB),
    (''MOVSW'',
      emit EncodeMOVSW),
    (''MOVSD'',
      emit EncodeMOVSD),
    (''MULB'',
      bnd GET_TOKEN (\<lambda>OPRD.
      (if IsReg OPRD \<and> IsReg8 OPRD
       then bnd (GetReg OPRD) (\<lambda>r. emit (EncodeMUL_Reg8 r))
       else if IsMem OPRD
       then bnd (GetMem OPRD) (\<lambda>(Reg1, Reg2, Offset).
         emit (EncodeMUL_Mem8 Reg1 Reg2 (GetOffType Offset) Offset))
       else InvalidInstruction))),
    (''MULW'',
      bnd GET_TOKEN (\<lambda>OPRD.
      (if IsReg OPRD \<and> IsReg16 OPRD
       then bnd (GetReg OPRD) (\<lambda>r. emit (EncodeMUL_Reg16 r))
       else if IsMem OPRD
       then bnd (GetMem OPRD) (\<lambda>(Reg1, Reg2, Offset).
         emit (EncodeMUL_Mem16 Reg1 Reg2 (GetOffType Offset) Offset))
       else InvalidInstruction))),
    (''MULD'',
      bnd GET_TOKEN (\<lambda>OPRD.
      (if IsReg OPRD \<and> IsReg32 OPRD
       then bnd (GetReg OPRD) (\<lambda>r. emit (EncodeMUL_Reg32 r))
       else if IsMem OPRD
       then bnd (GetMem OPRD) (\<lambda>(Reg1, Reg2, Offset).
         emit (EncodeMUL_Mem32 Reg1 Reg2 (GetOffType Offset) Offset))
       else InvalidInstruction)))]"

definition Parse_1_f :: "(string \<times> unit asm_m) list" where
  "Parse_1_f =
   [(''NEGB'',
      bnd GET_TOKEN (\<lambda>OPRD.
      (if IsReg OPRD \<and> IsReg8 OPRD
       then bnd (GetReg OPRD) (\<lambda>r. emit (EncodeNEG_Reg8 r))
       else if IsMem OPRD
       then bnd (GetMem OPRD) (\<lambda>(Reg1, Reg2, Offset).
         emit (EncodeNEG_Mem8 Reg1 Reg2 (GetOffType Offset) Offset))
       else InvalidInstruction))),
    (''NEGW'',
      bnd GET_TOKEN (\<lambda>OPRD.
      (if IsReg OPRD \<and> IsReg16 OPRD
       then bnd (GetReg OPRD) (\<lambda>r. emit (EncodeNEG_Reg16 r))
       else if IsMem OPRD
       then bnd (GetMem OPRD) (\<lambda>(Reg1, Reg2, Offset).
         emit (EncodeNEG_Mem16 Reg1 Reg2 (GetOffType Offset) Offset))
       else InvalidInstruction))),
    (''NEGD'',
      bnd GET_TOKEN (\<lambda>OPRD.
      (if IsReg OPRD \<and> IsReg32 OPRD
       then bnd (GetReg OPRD) (\<lambda>r. emit (EncodeNEG_Reg32 r))
       else if IsMem OPRD
       then bnd (GetMem OPRD) (\<lambda>(Reg1, Reg2, Offset).
         emit (EncodeNEG_Mem32 Reg1 Reg2 (GetOffType Offset) Offset))
       else InvalidInstruction))),
    (''NOP'',
      emit EncodeNOP),
    (''NOTB'',
      bnd GET_TOKEN (\<lambda>OPRD.
      (if IsReg OPRD \<and> IsReg8 OPRD
       then bnd (GetReg OPRD) (\<lambda>r. emit (EncodeNOT_Reg8 r))
       else if IsMem OPRD
       then bnd (GetMem OPRD) (\<lambda>(Reg1, Reg2, Offset).
         emit (EncodeNOT_Mem8 Reg1 Reg2 (GetOffType Offset) Offset))
       else InvalidInstruction))),
    (''NOTW'',
      bnd GET_TOKEN (\<lambda>OPRD.
      (if IsReg OPRD \<and> IsReg16 OPRD
       then bnd (GetReg OPRD) (\<lambda>r. emit (EncodeNOT_Reg16 r))
       else if IsMem OPRD
       then bnd (GetMem OPRD) (\<lambda>(Reg1, Reg2, Offset).
         emit (EncodeNOT_Mem16 Reg1 Reg2 (GetOffType Offset) Offset))
       else InvalidInstruction))),
    (''NOTD'',
      bnd GET_TOKEN (\<lambda>OPRD.
      (if IsReg OPRD \<and> IsReg32 OPRD
       then bnd (GetReg OPRD) (\<lambda>r. emit (EncodeNOT_Reg32 r))
       else if IsMem OPRD
       then bnd (GetMem OPRD) (\<lambda>(Reg1, Reg2, Offset).
         emit (EncodeNOT_Mem32 Reg1 Reg2 (GetOffType Offset) Offset))
       else InvalidInstruction)))]"

definition Parse_1_g :: "(string \<times> unit asm_m) list" where
  "Parse_1_g =
   [(''OUTB'',
      bnd GET_TOKEN (\<lambda>OPRD.
      (if IsConstant OPRD
       then bnd (GetConstant OPRD) (\<lambda>c. emit (EncodeOUTB_Imm8 (ucast c)))
       else if OPRD = ''%DX''
       then emit EncodeOUTB_DX
       else InvalidInstruction))),
    (''OUTW'',
      bnd GET_TOKEN (\<lambda>OPRD.
      (if IsConstant OPRD
       then bnd (GetConstant OPRD) (\<lambda>c. emit (EncodeOUTW_Imm8 (ucast c)))
       else if OPRD = ''%DX''
       then emit EncodeOUTW_DX
       else InvalidInstruction))),
    (''OUTD'',
      bnd GET_TOKEN (\<lambda>OPRD.
      (if IsConstant OPRD
       then bnd (GetConstant OPRD) (\<lambda>c. emit (EncodeOUTD_Imm8 (ucast c)))
       else if OPRD = ''%DX''
       then emit EncodeOUTD_DX
       else InvalidInstruction))),
    (''OUTSB'',
      emit EncodeOUTSB),
    (''OUTSW'',
      emit EncodeOUTSW),
    (''OUTSD'',
      emit EncodeOUTSD),
    (''POPW'',
      bnd GET_TOKEN (\<lambda>OPRD.
      (if IsReg OPRD \<and> IsReg16 OPRD
       then bnd (GetReg OPRD) (\<lambda>r. emit (EncodePOP_Reg16 r))
       else if IsMem OPRD
       then bnd (GetMem OPRD) (\<lambda>(Reg1, Reg2, Offset).
         emit (EncodePOP_Mem16 Reg1 Reg2 (GetOffType Offset) Offset))
       else bnd (IsSeg OPRD) (\<lambda>ok.
       if ok then bnd (GetReg OPRD) (\<lambda>r. emit (EncodePOP_Seg r))
       else InvalidInstruction)))),
    (''POPD'',
      bnd GET_TOKEN (\<lambda>OPRD.
      (if IsReg OPRD \<and> IsReg32 OPRD
       then bnd (GetReg OPRD) (\<lambda>r. emit (EncodePOP_Reg32 r))
       else if IsMem OPRD
       then bnd (GetMem OPRD) (\<lambda>(Reg1, Reg2, Offset).
         emit (EncodePOP_Mem32 Reg1 Reg2 (GetOffType Offset) Offset))
       else InvalidInstruction))),
    (''POPA'',
      emit EncodePOPA),
    (''POPF'',
      emit EncodePOPF)]"

definition Parse_1_h :: "(string \<times> unit asm_m) list" where
  "Parse_1_h =
   [(''PUSHB'',
      bnd GET_TOKEN (\<lambda>OPRD.
      (if IsConstant OPRD
       then bnd (GetConstant OPRD) (\<lambda>c. emit (EncodePUSH_Imm8 c))
       else InvalidInstruction))),
    (''PUSHW'',
      bnd GET_TOKEN (\<lambda>OPRD.
      (if IsReg OPRD \<and> IsReg16 OPRD
       then bnd (GetReg OPRD) (\<lambda>r. emit (EncodePUSH_Reg16 r))
       else if IsMem OPRD
       then bnd (GetMem OPRD) (\<lambda>(Reg1, Reg2, Offset).
         emit (EncodePUSH_Mem16 Reg1 Reg2 (GetOffType Offset) Offset))
       else if IsConstant OPRD
       then bnd (GetConstant OPRD) (\<lambda>c. emit (EncodePUSH_Imm16 c))
       else bnd (IsSeg OPRD) (\<lambda>ok.
       if ok then bnd (GetReg OPRD) (\<lambda>r. emit (EncodePUSH_Seg r))
       else InvalidInstruction)))),
    (''PUSHD'',
      bnd GET_TOKEN (\<lambda>OPRD.
      (if IsReg OPRD \<and> IsReg32 OPRD
       then bnd (GetReg OPRD) (\<lambda>r. emit (EncodePUSH_Reg32 r))
       else if IsMem OPRD
       then bnd (GetMem OPRD) (\<lambda>(Reg1, Reg2, Offset).
         emit (EncodePUSH_Mem32 Reg1 Reg2 (GetOffType Offset) Offset))
       else if IsConstant OPRD
       then bnd (GetConstant OPRD) (\<lambda>c. emit (EncodePUSH_Imm32 c))
       else InvalidInstruction))),
    (''PUSHA'',
      emit EncodePUSHA),
    (''PUSHF'',
      emit EncodePUSHF),
    (''RDMSR'',
      emit EncodeRDMSR),
    (''RDTSC'',
      emit EncodeRDTSC),
    (''RDPMC'',
      emit EncodeRDPMC),
    (''RSM'',
      emit EncodeRSM)]"

definition Parse_1_i :: "(string \<times> unit asm_m) list" where
  "Parse_1_i =
   [(''SGDT'',
      bnd GET_TOKEN (\<lambda>OPRD.
      (if IsMem OPRD
       then bnd (GetMem OPRD) (\<lambda>(Reg1, Reg2, Offset).
         emit (EncodeSGDT_Mem1632 Reg1 Reg2 (ucast (GetOffType Offset)) Offset))
       else InvalidInstruction)))]"

definition Parse_1_j :: "(string \<times> unit asm_m) list" where
  "Parse_1_j =
   [(''SIDT'',
      bnd GET_TOKEN (\<lambda>OPRD.
      (if IsMem OPRD
       then bnd (GetMem OPRD) (\<lambda>(Reg1, Reg2, Offset).
         emit (EncodeSIDT_Mem1632 Reg1 Reg2 (ucast (GetOffType Offset)) Offset))
       else InvalidInstruction))),
    (''SLDT'',
      bnd GET_TOKEN (\<lambda>OPRD.
      (if IsReg OPRD \<and> IsReg16 OPRD
       then bnd (GetReg OPRD) (\<lambda>r. emit (EncodeSLDT_Reg16 r))
       else if IsMem OPRD
       then bnd (GetMem OPRD) (\<lambda>(Reg1, Reg2, Offset).
         emit (EncodeSLDT_Mem16 Reg1 Reg2 (ucast (GetOffType Offset)) Offset))
       else InvalidInstruction))),
    (''SMSW'',
      bnd GET_TOKEN (\<lambda>OPRD.
      (if IsReg OPRD \<and> IsReg16 OPRD
       then bnd (GetReg OPRD) (\<lambda>r. emit (EncodeSMSW_Reg16 r))
       else if IsReg OPRD \<and> IsReg32 OPRD
       then bnd (GetReg OPRD) (\<lambda>r. emit (EncodeSMSW_Reg32 r))
       else if IsMem OPRD
       then bnd (GetMem OPRD) (\<lambda>(Reg1, Reg2, Offset).
         emit (EncodeSMSW_Mem16 Reg1 Reg2 (ucast (GetOffType Offset)) Offset))
       else InvalidInstruction))),
    (''STR'',
      bnd GET_TOKEN (\<lambda>OPRD.
      (if IsReg OPRD \<and> IsReg16 OPRD
       then bnd (GetReg OPRD) (\<lambda>r. emit (EncodeSTR_Reg16 r))
       else if IsMem OPRD
       then bnd (GetMem OPRD) (\<lambda>(Reg1, Reg2, Offset).
         emit (EncodeSTR_Mem16 Reg1 Reg2 (ucast (GetOffType Offset)) Offset))
       else InvalidInstruction))),
    (''LTR'',
      bnd GET_TOKEN (\<lambda>OPRD.
      (if IsReg OPRD \<and> IsReg16 OPRD
       then bnd (GetReg OPRD) (\<lambda>r. emit (EncodeLTR_Reg16 r))
       else if IsMem OPRD
       then bnd (GetMem OPRD) (\<lambda>(Reg1, Reg2, Offset).
         emit (EncodeLTR_Mem16 Reg1 Reg2 (ucast (GetOffType Offset)) Offset))
       else InvalidInstruction))),
    (''LMSW'',
      bnd GET_TOKEN (\<lambda>OPRD.
      (if IsReg OPRD \<and> IsReg16 OPRD
       then bnd (GetReg OPRD) (\<lambda>r. emit (EncodeLMSW_Reg16 r))
       else if IsMem OPRD
       then bnd (GetMem OPRD) (\<lambda>(Reg1, Reg2, Offset).
         emit (EncodeLMSW_Mem16 Reg1 Reg2 (ucast (GetOffType Offset)) Offset))
       else InvalidInstruction))),
    (''LSL'',
      bnd GET_TOKEN (\<lambda>OPRD1.
      bnd GET_TOKEN (\<lambda>OPRD2.
      bnd (ExpectComma OPRD2) (\<lambda>_. bnd GET_TOKEN (\<lambda>OPRD2.
      (if IsReg OPRD1 \<and> IsReg16 OPRD1 \<and> IsReg OPRD2 \<and> IsReg16 OPRD2
       then bnd (GetReg OPRD1) (\<lambda>r1. bnd (GetReg OPRD2) (\<lambda>r2. emit (EncodeLSL_Reg16_Reg16 r1 r2)))
       else InvalidInstruction))))))]"

definition Parse_1_k :: "(string \<times> unit asm_m) list" where
  "Parse_1_k =
   [(''VERR'',
      bnd GET_TOKEN (\<lambda>OPRD.
      (if IsReg OPRD \<and> IsReg16 OPRD
       then bnd (GetReg OPRD) (\<lambda>r. emit (EncodeVERR_Reg16 r))
       else if IsMem OPRD
       then bnd (GetMem OPRD) (\<lambda>(Reg1, Reg2, Offset).
         emit (EncodeVERR_Mem16 Reg1 Reg2 (GetOffType Offset) Offset))
       else InvalidInstruction))),
    (''VERW'',
      bnd GET_TOKEN (\<lambda>OPRD.
      (if IsReg OPRD \<and> IsReg16 OPRD
       then bnd (GetReg OPRD) (\<lambda>r. emit (EncodeVERW_Reg16 r))
       else if IsMem OPRD
       then bnd (GetMem OPRD) (\<lambda>(Reg1, Reg2, Offset).
         emit (EncodeVERW_Mem16 Reg1 Reg2 (GetOffType Offset) Offset))
       else InvalidInstruction))),
    (''WBINVD'',
      emit EncodeWBINVD),
    (''WRMSR'',
      emit EncodeWRMSR)]"

definition Parse_1 :: "(string \<times> unit asm_m) list" where
  "Parse_1 =
     Parse_1_a @ Parse_1_b @ Parse_1_c @ Parse_1_d @ Parse_1_e @ Parse_1_f @ Parse_1_g @ Parse_1_h
     @ ParseSETcc @ Parse_1_i @ SHxD ''SHLD'' @ SHxD ''SHRD'' @ Parse_1_j @ Parse_1_k"

end
