(* ===== verification/Iasm_Parser.thy ===== *)
theory Iasm_Parser
  imports Iasm_Parser_1
begin

text \<open>
  The instructions of \<^verbatim>\<open>apps/iasm/parser.c\<close>, second part: the directives, the instructions of \<open>_Parse\<close>, its
  loop and the three passes.
\<close>

section \<open>Directives\<close>

text \<open>\<open>.DB\<close>, \<open>.DW\<close>, \<open>.DD\<close> and what \<open>.DBS\<close>, \<open>.DWS\<close>, \<open>.DDS\<close> repeat.\<close>

definition parse_data :: "(u32 \<Rightarrow> enc) \<Rightarrow> unit asm_m" where
  "parse_data encode =
     bnd GET_TOKEN (\<lambda>OPRD.
     if IsConstant OPRD then bnd (GetConstant OPRD) (\<lambda>Data. emit (encode Data)) else InvalidInstruction)"

primrec repeat_times :: "nat \<Rightarrow> unit asm_m \<Rightarrow> unit asm_m" where
  "repeat_times 0 m = ret ()"
| "repeat_times (Suc n) m = bnd m (\<lambda>_. repeat_times n m)"

definition parse_fill :: "enc \<Rightarrow> unit asm_m" where
  "parse_fill encode =
     bnd GET_TOKEN (\<lambda>OPRD.
     if IsConstant OPRD
     then bnd (GetConstant OPRD) (\<lambda>Count. repeat_times (unat Count) (emit encode))
     else InvalidInstruction)"

definition get_operation :: "operation asm_m" where "get_operation s = ret (a_CurrentOperation s) s"
definition set_operation :: "operation \<Rightarrow> unit asm_m" where
  "set_operation opt s = ret () (s\<lparr>a_CurrentOperation := opt\<rparr>)"
definition get_pos :: "u32 asm_m" where "get_pos s = ret (GetCurrentPos (a_enc s)) s"

definition parse_SET :: "unit asm_m" where
  "parse_SET =
     bnd GET_TOKEN (\<lambda>Label.
     bnd GET_TOKEN (\<lambda>Value.
     bnd (ExpectComma Value) (\<lambda>_. bnd GET_TOKEN (\<lambda>Value.
     if IsLabel Label \<and> IsConstant Value
     then bnd get_operation (\<lambda>opt.
       if opt = OPT_SCAN then bnd (GetConstant Value) (\<lambda>v. AddLabelToSTable Label v) else ret ())
     else InvalidInstruction))))"

definition parse_LABEL :: "unit asm_m" where
  "parse_LABEL =
     bnd GET_TOKEN (\<lambda>Label.
     if IsLabel Label
     then bnd get_operation (\<lambda>opt.
       if opt = OPT_SCAN
       then bnd (HasLabel Label) (\<lambda>has.
         if has then ERROR ''Label is redefined.'' else bnd get_pos (\<lambda>pos. AddLabelToSTable Label pos))
       else ret ())
     else InvalidInstruction)"

primrec emit_string :: "string \<Rightarrow> unit asm_m" where
  "emit_string [] = ret ()"
| "emit_string (c # cs) = bnd (emit (EncodeDB (of_char c))) (\<lambda>_. emit_string cs)"

text \<open>An operand that is no string is skipped.\<close>

definition parse_STRING :: "unit asm_m" where
  "parse_STRING = bnd GET_TOKEN (\<lambda>OPRD. if IsString OPRD then emit_string (GetString OPRD) else ret ())"

definition parse_ORG :: "unit asm_m" where
  "parse_ORG =
     bnd GET_TOKEN (\<lambda>OPRD.
     if IsConstant OPRD
     then bnd (GetConstant OPRD) (\<lambda>NewCurrentPos. emit (SetCurrentPos NewCurrentPos))
     else InvalidInstruction)"

definition parse_PEEK :: "unit asm_m" where
  "parse_PEEK =
     bnd GET_TOKEN (\<lambda>OPRD.
     if IsConstant OPRD
     then bnd get_operation (\<lambda>opt.
       if opt = OPT_PARSE
       then bnd (GetConstant OPRD) (\<lambda>Value s.
         ret () (s\<lparr>a_peeked := a_peeked s @ [(a_CurrentLine s, OPRD, Value)]\<rparr>))
       else ret ())
     else InvalidInstruction)"

text \<open>The operations of \<open>.CALC\<close>; \<^const>\<open>None\<close>: a division by zero.\<close>

definition calc_operations :: "(string \<times> (u32 \<Rightarrow> u32 \<Rightarrow> u32 option)) list" where
  "calc_operations =
     [(''.ADD'', \<lambda>a b. Some (a + b)), (''.SUB'', \<lambda>a b. Some (a - b)), (''.MUL'', \<lambda>a b. Some (a * b)),
      (''.DIV'', \<lambda>a b. if b = 0 then None else Some (a div b)),
      (''.MOD'', \<lambda>a b. if b = 0 then None else Some (a mod b)),
      (''.AND'', \<lambda>a b. Some (a AND b)), (''.OR'', \<lambda>a b. Some (a OR b)), (''.XOR'', \<lambda>a b. Some (a XOR b))]"

definition set_result :: "string \<Rightarrow> u32 \<Rightarrow> unit asm_m" where
  "set_result ResultOPRD Result =
     bnd get_operation (\<lambda>opt. if opt = OPT_SCAN1 then SetLabelToSTable ResultOPRD Result else ret ())"

definition parse_CALC :: "unit asm_m" where
  "parse_CALC =
     bnd GET_TOKEN (\<lambda>OPT.
     case map_of calc_operations OPT of
       Some f \<Rightarrow>
         bnd GET_TOKEN (\<lambda>ResultOPRD.
         bnd GET_TOKEN (\<lambda>OPRD1.
         bnd (ExpectComma OPRD1) (\<lambda>_. bnd GET_TOKEN (\<lambda>OPRD1.
         bnd GET_TOKEN (\<lambda>OPRD2.
         bnd (ExpectComma OPRD2) (\<lambda>_. bnd GET_TOKEN (\<lambda>OPRD2.
         if IsLabel ResultOPRD \<and> IsConstant OPRD1 \<and> IsConstant OPRD2
         then bnd (GetConstant OPRD1) (\<lambda>Value1. bnd (GetConstant OPRD2) (\<lambda>Value2.
           case f Value1 Value2 of None \<Rightarrow> undefined_behaviour | Some Result \<Rightarrow> set_result ResultOPRD Result))
         else InvalidInstruction)))))))
     | None \<Rightarrow>
         if OPT = ''.NOT''
         then bnd GET_TOKEN (\<lambda>ResultOPRD.
           bnd GET_TOKEN (\<lambda>OPRD.
           bnd (ExpectComma OPRD) (\<lambda>_. bnd GET_TOKEN (\<lambda>OPRD.
           if IsLabel ResultOPRD \<and> IsConstant OPRD
           then bnd (GetConstant OPRD) (\<lambda>Value. set_result ResultOPRD (NOT Value))
           else InvalidInstruction))))
         else InvalidInstruction)"

definition directives :: "(string \<times> unit asm_m) list" where
  "directives =
     [([CHR 0x0A], ret ()),
      (''.DB'', parse_data (\<lambda>ByteData. EncodeDB (ucast ByteData))), (''.DW'', parse_data EncodeDW),
      (''.DD'', parse_data EncodeDD), (''.SET'', parse_SET), (''.LABEL'', parse_LABEL),
      (''.DBS'', parse_fill (EncodeDB 0)), (''.DWS'', parse_fill (EncodeDW 0)), (''.DDS'', parse_fill (EncodeDD 0)),
      (''.STRING'', parse_STRING), (''.BIT16'', emit SwitchToBit16), (''.BIT32'', emit SwitchToBit32),
      (''.ORG'', parse_ORG), (''.OPRD16'', emit SwitchOprdToBit16), (''.OPRD32'', emit SwitchOprdToBit32),
      (''.ADDR16'', emit SwitchAddrToBit16), (''.ADDR32'', emit SwitchAddrToBit32), (''.PEEK'', parse_PEEK),
      (''.CALC'', parse_CALC)]"

section \<open>Instructions\<close>

definition Parse_a :: "(string \<times> unit asm_m) list" where
  "Parse_a =
   [(''AAA'',
      emit EncodeAAA),
    (''AAD'',
      bnd PEEK_TOKEN (\<lambda>OPRD.
      (bnd (IsImm8 OPRD) (\<lambda>ok.
       if ok then bnd GET_TOKEN (\<lambda>OPRD.
         bnd (GetConstant OPRD) (\<lambda>c. emit (EncodeAAD_Imm8 (ucast c))))
       else emit EncodeAAD)))),
    (''AAM'',
      bnd PEEK_TOKEN (\<lambda>OPRD.
      (bnd (IsImm8 OPRD) (\<lambda>ok.
       if ok then bnd GET_TOKEN (\<lambda>OPRD.
         bnd (GetConstant OPRD) (\<lambda>c. emit (EncodeAAM_Imm8 (ucast c))))
       else emit EncodeAAM)))),
    (''AAS'',
      emit EncodeAAS)]"

definition Parse_b :: "(string \<times> unit asm_m) list" where
  "Parse_b =
   [(''ARPL'',
      bnd GET_TOKEN (\<lambda>OPRD1.
      bnd GET_TOKEN (\<lambda>OPRD2.
      bnd (ExpectComma OPRD2) (\<lambda>_. bnd GET_TOKEN (\<lambda>OPRD2.
      (if IsReg OPRD1 \<and> IsReg16 OPRD1 \<and> IsReg OPRD2 \<and> IsReg16 OPRD2
       then bnd (GetReg OPRD1) (\<lambda>r1. bnd (GetReg OPRD2) (\<lambda>r2. emit (EncodeARPL_Reg16_Reg16 r1 r2)))
       else if IsMem OPRD1 \<and> IsReg OPRD2 \<and> IsReg16 OPRD2
       then bnd (GetMem OPRD1) (\<lambda>(Reg1, Reg2, Offset).
         bnd (GetReg OPRD2) (\<lambda>r2. emit (EncodeARPL_Mem16_Reg16 Reg1 Reg2 (GetOffType Offset) Offset r2)))
       else InvalidInstruction)))))),
    (''BOUNDW'',
      bnd GET_TOKEN (\<lambda>OPRD1.
      bnd GET_TOKEN (\<lambda>OPRD2.
      bnd (ExpectComma OPRD2) (\<lambda>_. bnd GET_TOKEN (\<lambda>OPRD2.
      (if IsReg OPRD1 \<and> IsReg16 OPRD1 \<and> IsMem OPRD2
       then bnd (GetMem OPRD2) (\<lambda>(Reg1, Reg2, Offset).
         bnd (GetReg OPRD1) (\<lambda>r1. emit (EncodeBOUND_Reg16_Mem1616 r1 Reg1 Reg2 (GetOffType Offset) Offset)))
       else InvalidInstruction)))))),
    (''BOUNDD'',
      bnd GET_TOKEN (\<lambda>OPRD1.
      bnd GET_TOKEN (\<lambda>OPRD2.
      bnd (ExpectComma OPRD2) (\<lambda>_. bnd GET_TOKEN (\<lambda>OPRD2.
      (if IsReg OPRD1 \<and> IsReg32 OPRD1 \<and> IsMem OPRD2
       then bnd (GetMem OPRD2) (\<lambda>(Reg1, Reg2, Offset).
         bnd (GetReg OPRD1) (\<lambda>r1. emit (EncodeBOUND_Reg32_Mem3232 r1 Reg1 Reg2 (GetOffType Offset) Offset)))
       else InvalidInstruction)))))),
    (''BSFW'',
      bnd GET_TOKEN (\<lambda>OPRD1.
      bnd GET_TOKEN (\<lambda>OPRD2.
      bnd (ExpectComma OPRD2) (\<lambda>_. bnd GET_TOKEN (\<lambda>OPRD2.
      (if IsReg OPRD1 \<and> IsReg16 OPRD1 \<and> IsReg OPRD2 \<and> IsReg16 OPRD2
       then bnd (GetReg OPRD1) (\<lambda>r1. bnd (GetReg OPRD2) (\<lambda>r2. emit (EncodeBSF_Reg16_Reg16 r1 r2)))
       else if IsReg OPRD1 \<and> IsReg16 OPRD1 \<and> IsMem OPRD2
       then bnd (GetMem OPRD2) (\<lambda>(Reg1, Reg2, Offset).
         bnd (GetReg OPRD1) (\<lambda>r1. emit (EncodeBSF_Reg16_Mem16 r1 Reg1 Reg2 (GetOffType Offset) Offset)))
       else InvalidInstruction)))))),
    (''BSFD'',
      bnd GET_TOKEN (\<lambda>OPRD1.
      bnd GET_TOKEN (\<lambda>OPRD2.
      bnd (ExpectComma OPRD2) (\<lambda>_. bnd GET_TOKEN (\<lambda>OPRD2.
      (if IsReg OPRD1 \<and> IsReg32 OPRD1 \<and> IsReg OPRD2 \<and> IsReg32 OPRD2
       then bnd (GetReg OPRD1) (\<lambda>r1. bnd (GetReg OPRD2) (\<lambda>r2. emit (EncodeBSF_Reg32_Reg32 r1 r2)))
       else if IsReg OPRD1 \<and> IsReg32 OPRD1 \<and> IsMem OPRD2
       then bnd (GetMem OPRD2) (\<lambda>(Reg1, Reg2, Offset).
         bnd (GetReg OPRD1) (\<lambda>r1. emit (EncodeBSF_Reg32_Mem32 r1 Reg1 Reg2 (GetOffType Offset) Offset)))
       else InvalidInstruction))))))]"

definition Parse_c :: "(string \<times> unit asm_m) list" where
  "Parse_c =
   [(''BSRW'',
      bnd GET_TOKEN (\<lambda>OPRD1.
      bnd GET_TOKEN (\<lambda>OPRD2.
      bnd (ExpectComma OPRD2) (\<lambda>_. bnd GET_TOKEN (\<lambda>OPRD2.
      (if IsReg OPRD1 \<and> IsReg16 OPRD1 \<and> IsReg OPRD2 \<and> IsReg16 OPRD2
       then bnd (GetReg OPRD1) (\<lambda>r1. bnd (GetReg OPRD2) (\<lambda>r2. emit (EncodeBSR_Reg16_Reg16 r1 r2)))
       else if IsReg OPRD1 \<and> IsReg16 OPRD1 \<and> IsMem OPRD2
       then bnd (GetMem OPRD2) (\<lambda>(Reg1, Reg2, Offset).
         bnd (GetReg OPRD1) (\<lambda>r1. emit (EncodeBSR_Reg16_Mem16 r1 Reg1 Reg2 (GetOffType Offset) Offset)))
       else InvalidInstruction)))))),
    (''BSRD'',
      bnd GET_TOKEN (\<lambda>OPRD1.
      bnd GET_TOKEN (\<lambda>OPRD2.
      bnd (ExpectComma OPRD2) (\<lambda>_. bnd GET_TOKEN (\<lambda>OPRD2.
      (if IsReg OPRD1 \<and> IsReg32 OPRD1 \<and> IsReg OPRD2 \<and> IsReg32 OPRD2
       then bnd (GetReg OPRD1) (\<lambda>r1. bnd (GetReg OPRD2) (\<lambda>r2. emit (EncodeBSR_Reg32_Reg32 r1 r2)))
       else if IsReg OPRD1 \<and> IsReg32 OPRD1 \<and> IsMem OPRD2
       then bnd (GetMem OPRD2) (\<lambda>(Reg1, Reg2, Offset).
         bnd (GetReg OPRD1) (\<lambda>r1. emit (EncodeBSR_Reg32_Mem32 r1 Reg1 Reg2 (GetOffType Offset) Offset)))
       else InvalidInstruction)))))),
    (''INT3'',
      emit EncodeINT_3),
    (''INT'',
      bnd GET_TOKEN (\<lambda>OPRD.
      bnd (GetConstant OPRD) (\<lambda>FuncNumber. 
      emit (EncodeINT_Imm8 (ucast FuncNumber))))),
    (''INTO'',
      emit EncodeINTO)]"

definition Parse_d :: "(string \<times> unit asm_m) list" where
  "Parse_d =
   [(''MOVB'',
      bnd GET_TOKEN (\<lambda>OPRD1.
      bnd GET_TOKEN (\<lambda>OPRD2.
      bnd (ExpectComma OPRD2) (\<lambda>_. bnd GET_TOKEN (\<lambda>OPRD2.
      (if IsMem OPRD1 \<and> IsReg OPRD2
       then bnd (GetMem OPRD1) (\<lambda>(Reg1, Reg2, Offset).
         (if Reg1 = REG_NONE \<and> Reg2 = REG_NONE \<and> OPRD2 = ''%AL''
          then emit (EncodeMOV_MemOff_Acc8 Offset)
          else if IsReg8 OPRD2
          then bnd (GetReg OPRD2) (\<lambda>r2. emit (EncodeMOV_Mem8_Reg8 Reg1 Reg2 (GetOffType Offset) Offset r2))
          else InvalidInstruction))
       else if IsReg OPRD1 \<and> IsMem OPRD2
       then bnd (GetMem OPRD2) (\<lambda>(Reg1, Reg2, Offset).
         (if Reg1 = REG_NONE \<and> Reg2 = REG_NONE \<and> OPRD2 = ''%AL''
          then emit (EncodeMOV_Acc8_MemOff Offset)
          else if IsReg8 OPRD1
          then bnd (GetReg OPRD1) (\<lambda>r1. emit (EncodeMOV_Reg8_Mem8 r1 Reg1 Reg2 (GetOffType Offset) Offset))
          else InvalidInstruction))
       else if IsReg OPRD1 \<and> IsReg8 OPRD1 \<and> IsConstant OPRD2
       then bnd (GetReg OPRD1) (\<lambda>Reg. 
         bnd (GetConstant OPRD2) (\<lambda>c2. let Imm8 = (ucast c2) in
         emit (EncodeMOV_Reg8_Imm8 Reg Imm8)))
       else if IsMem OPRD1 \<and> IsConstant OPRD2
       then bnd (GetConstant OPRD2) (\<lambda>c2. let Imm8 = (ucast c2) in
         bnd (GetMem OPRD1) (\<lambda>(Reg1, Reg2, Offset).
         emit (EncodeMOV_Mem8_Imm8 Reg1 Reg2 (GetOffType Offset) Offset Imm8)))
       else if IsReg OPRD1 \<and> IsReg8 OPRD1 \<and> IsReg OPRD2 \<and> IsReg8 OPRD2
       then bnd (GetReg OPRD1) (\<lambda>r1. bnd (GetReg OPRD2) (\<lambda>r2. emit (EncodeMOV_Reg8_Reg8 r1 r2)))
       else InvalidInstruction))))))]"

definition Parse_e :: "(string \<times> unit asm_m) list" where
  "Parse_e =
   [(''MOVW'',
      bnd GET_TOKEN (\<lambda>OPRD1.
      bnd GET_TOKEN (\<lambda>OPRD2.
      bnd (ExpectComma OPRD2) (\<lambda>_. bnd GET_TOKEN (\<lambda>OPRD2.
      (if IsMem OPRD1 \<and> IsReg OPRD2
       then bnd (GetMem OPRD1) (\<lambda>(Reg1, Reg2, Offset).
         (if Reg1 = REG_NONE \<and> Reg2 = REG_NONE \<and> OPRD2 = ''%AX''
          then emit (EncodeMOV_MemOff_Acc16 Offset)
          else bnd (IsSeg OPRD2) (\<lambda>ok.
          if ok then bnd (GetReg OPRD2) (\<lambda>r2. emit (EncodeMOV_Mem16_Seg Reg1 Reg2 (GetOffType Offset) Offset
            r2))
          else if IsReg16 OPRD2
          then bnd (GetReg OPRD2) (\<lambda>r2. emit (EncodeMOV_Mem16_Reg16 Reg1 Reg2 (GetOffType Offset) Offset r2))
          else InvalidInstruction)))
       else if IsReg OPRD1 \<and> IsMem OPRD2
       then bnd (GetMem OPRD2) (\<lambda>(Reg1, Reg2, Offset).
         (if Reg1 = REG_NONE \<and> Reg2 = REG_NONE \<and> OPRD1 = ''%AX''
          then emit (EncodeMOV_Acc16_MemOff Offset)
          else bnd (IsSeg OPRD1) (\<lambda>ok.
          if ok then bnd (GetReg OPRD1) (\<lambda>r1. emit (EncodeMOV_Seg_Mem16 r1 Reg1 Reg2 (GetOffType Offset)
            Offset))
          else if IsReg16 OPRD1
          then bnd (GetReg OPRD1) (\<lambda>r1. emit (EncodeMOV_Reg16_Mem16 r1 Reg1 Reg2 (GetOffType Offset) Offset))
          else InvalidInstruction)))
       else if IsReg OPRD1 \<and> IsReg16 OPRD1 \<and> IsConstant OPRD2
       then bnd (GetReg OPRD1) (\<lambda>Reg. 
         bnd (GetConstant OPRD2) (\<lambda>Imm16. 
         emit (EncodeMOV_Reg16_Imm16 Reg Imm16)))
       else if IsMem OPRD1 \<and> IsConstant OPRD2
       then bnd (GetConstant OPRD2) (\<lambda>Imm16. 
         bnd (GetMem OPRD1) (\<lambda>(Reg1, Reg2, Offset).
         emit (EncodeMOV_Mem16_Imm16 Reg1 Reg2 (GetOffType Offset) Offset Imm16)))
       else bnd (andalso (IsReg OPRD1 \<and> IsReg16 OPRD1) (IsSeg OPRD2)) (\<lambda>ok.
       if ok then bnd (GetReg OPRD1) (\<lambda>r1. bnd (GetReg OPRD2) (\<lambda>r2. emit (EncodeMOV_Reg16_Seg r1 r2)))
       else bnd (bnd (IsSeg OPRD1) (\<lambda>ok. ret (ok \<and> IsReg OPRD2 \<and> IsReg16 OPRD2))) (\<lambda>ok.
       if ok then bnd (GetReg OPRD1) (\<lambda>r1. bnd (GetReg OPRD2) (\<lambda>r2. emit (EncodeMOV_Seg_Reg16 r1 r2)))
       else if IsReg OPRD1 \<and> IsReg16 OPRD1 \<and> IsReg OPRD2 \<and> IsReg16 OPRD2
       then bnd (GetReg OPRD1) (\<lambda>r1. bnd (GetReg OPRD2) (\<lambda>r2. emit (EncodeMOV_Reg16_Reg16 r1 r2)))
       else InvalidInstruction))))))))]"

definition Parse_f :: "(string \<times> unit asm_m) list" where
  "Parse_f =
   [(''MOVD'',
      bnd GET_TOKEN (\<lambda>OPRD1.
      bnd GET_TOKEN (\<lambda>OPRD2.
      bnd (ExpectComma OPRD2) (\<lambda>_. bnd GET_TOKEN (\<lambda>OPRD2.
      (if IsMem OPRD1 \<and> IsReg OPRD2
       then bnd (GetMem OPRD1) (\<lambda>(Reg1, Reg2, Offset).
         (if Reg1 = REG_NONE \<and> Reg2 = REG_NONE \<and> OPRD2 = ''%EAX''
          then emit (EncodeMOV_MemOff_Acc32 Offset)
          else if IsReg32 OPRD2
          then bnd (GetReg OPRD2) (\<lambda>r2. emit (EncodeMOV_Mem32_Reg32 Reg1 Reg2 (GetOffType Offset) Offset r2))
          else InvalidInstruction))
       else if IsReg OPRD1 \<and> IsMem OPRD2
       then bnd (GetMem OPRD2) (\<lambda>(Reg1, Reg2, Offset).
         (if Reg1 = REG_NONE \<and> Reg2 = REG_NONE \<and> OPRD1 = ''%AX''
          then emit (EncodeMOV_Acc32_MemOff Offset)
          else if IsReg32 OPRD1
          then bnd (GetReg OPRD1) (\<lambda>r1. emit (EncodeMOV_Reg32_Mem32 r1 Reg1 Reg2 (GetOffType Offset) Offset))
          else InvalidInstruction))
       else if IsReg OPRD1 \<and> IsReg32 OPRD1 \<and> IsConstant OPRD2
       then bnd (GetReg OPRD1) (\<lambda>Reg. 
         bnd (GetConstant OPRD2) (\<lambda>Imm32. 
         emit (EncodeMOV_Reg32_Imm32 Reg Imm32)))
       else if IsMem OPRD1 \<and> IsConstant OPRD2
       then bnd (GetConstant OPRD2) (\<lambda>Imm32. 
         bnd (GetMem OPRD1) (\<lambda>(Reg1, Reg2, Offset).
         emit (EncodeMOV_Mem32_Imm32 Reg1 Reg2 (GetOffType Offset) Offset Imm32)))
       else if IsReg OPRD1 \<and> IsReg32 OPRD1 \<and> IsReg OPRD2 \<and> IsReg32 OPRD2
       then bnd (GetReg OPRD1) (\<lambda>r1. bnd (GetReg OPRD2) (\<lambda>r2. emit (EncodeMOV_Reg32_Reg32 r1 r2)))
       else if IsReg OPRD1 \<and> IsReg32 OPRD1 \<and> IsReg OPRD2 \<and> IsControlReg OPRD2
       then bnd (GetReg OPRD1) (\<lambda>r1. bnd (GetReg OPRD2) (\<lambda>r2. emit (EncodeMOV_Reg32_Cr r1 r2)))
       else if IsReg OPRD1 \<and> IsControlReg OPRD1 \<and> IsReg OPRD2 \<and> IsReg32 OPRD2
       then bnd (GetReg OPRD1) (\<lambda>r1. bnd (GetReg OPRD2) (\<lambda>r2. emit (EncodeMOV_Cr_Reg32 r1 r2)))
       else if IsReg OPRD1 \<and> IsReg32 OPRD1 \<and> IsReg OPRD2 \<and> IsDebugReg OPRD2
       then bnd (GetReg OPRD1) (\<lambda>r1. bnd (GetReg OPRD2) (\<lambda>r2. emit (EncodeMOV_Reg32_Dr r1 r2)))
       else if IsReg OPRD1 \<and> IsDebugReg OPRD1 \<and> IsReg OPRD2 \<and> IsReg32 OPRD2
       then bnd (GetReg OPRD1) (\<lambda>r1. bnd (GetReg OPRD2) (\<lambda>r2. emit (EncodeMOV_Dr_Reg32 r1 r2)))
       else if IsReg OPRD1 \<and> IsReg32 OPRD1 \<and> IsReg OPRD2 \<and> IsTestReg OPRD2
       then bnd (GetReg OPRD1) (\<lambda>r1. bnd (GetReg OPRD2) (\<lambda>r2. emit (EncodeMOV_Reg32_Tr r1 r2)))
       else if IsReg OPRD1 \<and> IsTestReg OPRD1 \<and> IsReg OPRD2 \<and> IsReg32 OPRD2
       then bnd (GetReg OPRD1) (\<lambda>r1. bnd (GetReg OPRD2) (\<lambda>r2. emit (EncodeMOV_Tr_Reg32 r1 r2)))
       else InvalidInstruction))))))]"

definition Parse_g :: "(string \<times> unit asm_m) list" where
  "Parse_g =
   [(''SAHF'',
      emit EncodeSAHF)]"

definition Parse_h :: "(string \<times> unit asm_m) list" where
  "Parse_h =
   [(''SCANSB'',
      emit EncodeSCANSB),
    (''SCANSW'',
      emit EncodeSCANSW),
    (''SCANSD'',
      emit EncodeSCANSD),
    (''STC'',
      emit EncodeSTC),
    (''STD'',
      emit EncodeSTD),
    (''STI'',
      emit EncodeSTI),
    (''STOSB'',
      emit EncodeSTOSB),
    (''STOSW'',
      emit EncodeSTOSW),
    (''STOSD'',
      emit EncodeSTOSD),
    (''WAIT'',
      emit EncodeWAIT),
    (''XCHGB'',
      bnd GET_TOKEN (\<lambda>OPRD1.
      bnd GET_TOKEN (\<lambda>OPRD2.
      bnd (ExpectComma OPRD2) (\<lambda>_. bnd GET_TOKEN (\<lambda>OPRD2.
      (if IsReg OPRD1 \<and> IsReg8 OPRD1 \<and> IsReg OPRD2 \<and> IsReg8 OPRD2
       then bnd (GetReg OPRD1) (\<lambda>r1. bnd (GetReg OPRD2) (\<lambda>r2. emit (EncodeXCHG_Reg8_Reg8 r1 r2)))
       else if IsMem OPRD1 \<and> IsReg OPRD2 \<and> IsReg8 OPRD2
       then bnd (GetMem OPRD1) (\<lambda>(Reg1, Reg2, Offset).
         bnd (GetReg OPRD2) (\<lambda>r2. emit (EncodeXCHG_Mem8_Reg8 Reg1 Reg2 (GetOffType Offset) (ucast Offset)
           r2)))
       else if IsReg OPRD1 \<and> IsReg8 OPRD1 \<and> IsMem OPRD2
       then bnd (GetMem OPRD2) (\<lambda>(Reg1, Reg2, Offset).
         bnd (GetReg OPRD1) (\<lambda>r1. emit (EncodeXCHG_Reg8_Mem8 r1 Reg1 Reg2 (GetOffType Offset) (ucast
           Offset))))
       else InvalidInstruction)))))),
    (''XCHGW'',
      bnd GET_TOKEN (\<lambda>OPRD1.
      bnd GET_TOKEN (\<lambda>OPRD2.
      bnd (ExpectComma OPRD2) (\<lambda>_. bnd GET_TOKEN (\<lambda>OPRD2.
      (if OPRD1 = ''%AX'' \<and> IsReg OPRD2 \<and> IsReg16 OPRD2
       then bnd (GetReg OPRD2) (\<lambda>r2. emit (EncodeXCHG_Acc16_Reg16 r2))
       else if IsReg OPRD1 \<and> IsReg16 OPRD1 \<and> OPRD2 = ''%AX''
       then bnd (GetReg OPRD1) (\<lambda>r1. emit (EncodeXCHG_Reg16_Acc16 r1))
       else if IsReg OPRD1 \<and> IsReg16 OPRD1 \<and> IsReg OPRD2 \<and> IsReg16 OPRD2
       then bnd (GetReg OPRD1) (\<lambda>r1. bnd (GetReg OPRD2) (\<lambda>r2. emit (EncodeXCHG_Reg16_Reg16 r1 r2)))
       else if IsMem OPRD1 \<and> IsReg OPRD2 \<and> IsReg16 OPRD2
       then bnd (GetMem OPRD1) (\<lambda>(Reg1, Reg2, Offset).
         bnd (GetReg OPRD2) (\<lambda>r2. emit (EncodeXCHG_Mem16_Reg16 Reg1 Reg2 (GetOffType Offset) (ucast Offset)
           r2)))
       else if IsReg OPRD1 \<and> IsReg16 OPRD1 \<and> IsMem OPRD2
       then bnd (GetMem OPRD2) (\<lambda>(Reg1, Reg2, Offset).
         bnd (GetReg OPRD1) (\<lambda>r1. emit (EncodeXCHG_Reg16_Mem16 r1 Reg1 Reg2 (GetOffType Offset) (ucast
           Offset))))
       else InvalidInstruction)))))),
    (''XLAT'',
      emit EncodeXLAT),
    (''RETN'',
      emit EncodeRET_Near)]"

definition Parse_i :: "(string \<times> unit asm_m) list" where
  "Parse_i =
   [(''RETNN'',
      bnd GET_TOKEN (\<lambda>OPRD.
      bnd (GetConstant OPRD) (\<lambda>c. emit (EncodeRET_Imm16Near c)))),
    (''RETF'',
      emit EncodeRET_Far),
    (''RETFN'',
      bnd GET_TOKEN (\<lambda>OPRD.
      bnd (GetConstant OPRD) (\<lambda>c. emit (EncodeRET_Imm16Far c)))),
    (''CALLN'',
      bnd GET_TOKEN (\<lambda>OPRD.
      (if IsConstant OPRD
       then bnd (\<lambda>s. ret (GetCurrentPos (a_enc s)) s) (\<lambda>CurrentPos. 
         (bnd (\<lambda>s. ret (IsBit16 (a_enc s)) s) (\<lambda>ok.
          if ok then bnd (GetConstant OPRD) (\<lambda>c. let Offset = (c - (CurrentPos + 3)) in
            emit (EncodeCALL_Near_Rel16 Offset))
          else bnd (\<lambda>s. ret (IsBit32 (a_enc s)) s) (\<lambda>ok.
          if ok then bnd (GetConstant OPRD) (\<lambda>c. let Offset = (c - (CurrentPos + 5)) in
            emit (EncodeCALL_Near_Rel32 Offset))
          else emit (enc_error ''assert'')))))
       else if IsMem OPRD
       then bnd (GetMem OPRD) (\<lambda>(Reg1, Reg2, Offset).
         (bnd (\<lambda>s. ret (IsBit16 (a_enc s)) s) (\<lambda>ok.
          if ok then emit (EncodeCALL_Near_Mem16 Reg1 Reg2 (GetOffType Offset) Offset)
          else bnd (\<lambda>s. ret (IsBit32 (a_enc s)) s) (\<lambda>ok.
          if ok then emit (EncodeCALL_Near_Mem32 Reg1 Reg2 (GetOffType Offset) Offset)
          else emit (enc_error ''assert'')))))
       else InvalidInstruction))),
    (''CALLF'',
      bnd GET_TOKEN (\<lambda>OPRD1.
      bnd PEEK_TOKEN (\<lambda>OPRD2.
      (if OPRD2 = '',''
       then bnd GET_TOKEN (\<lambda>OPRD2.
         bnd (ExpectComma OPRD2) (\<lambda>_. bnd GET_TOKEN (\<lambda>OPRD2.
         (if IsConstant OPRD1 \<and> IsConstant OPRD2
          then bnd (GetConstant OPRD1) (\<lambda>Seg. 
            bnd (GetConstant OPRD2) (\<lambda>Offset. 
            (bnd (\<lambda>s. ret (IsBit16 (a_enc s)) s) (\<lambda>ok.
             if ok then emit (EncodeCALL_Far_Ptr1616 Seg Offset)
             else bnd (\<lambda>s. ret (IsBit32 (a_enc s)) s) (\<lambda>ok.
             if ok then emit (EncodeCALL_Far_Ptr1632 Seg Offset)
             else emit (enc_error ''assert''))))))
          else InvalidInstruction))))
       else if IsMem OPRD1
       then bnd (GetMem OPRD1) (\<lambda>(Reg1, Reg2, Offset).
         (bnd (\<lambda>s. ret (IsBit16 (a_enc s)) s) (\<lambda>ok.
          if ok then emit (Encode_CALL_Far_Mem1616 Reg1 Reg2 (GetOffType Offset) Offset)
          else bnd (\<lambda>s. ret (IsBit32 (a_enc s)) s) (\<lambda>ok.
          if ok then emit (Encode_CALL_Far_Mem1632 Reg1 Reg2 (GetOffType Offset) Offset)
          else emit (enc_error ''assert'')))))
       else InvalidInstruction))))]"

definition Parse_j :: "(string \<times> unit asm_m) list" where
  "Parse_j =
   [(''JMPS'',
      bnd GET_TOKEN (\<lambda>OPRD.
      (if IsConstant OPRD
       then bnd (\<lambda>s. ret (GetCurrentPos (a_enc s)) s) (\<lambda>CurrentPos. 
         bnd (GetConstant OPRD) (\<lambda>c. let Offset = (c - (CurrentPos + 2)) in
         emit (EncodeJMP_Near_Rel8 Offset)))
       else InvalidInstruction))),
    (''JMPN'',
      bnd GET_TOKEN (\<lambda>OPRD.
      (if IsConstant OPRD
       then bnd (\<lambda>s. ret (GetCurrentPos (a_enc s)) s) (\<lambda>CurrentPos. 
         (bnd (\<lambda>s. ret (IsBit16 (a_enc s)) s) (\<lambda>ok.
          if ok then bnd (GetConstant OPRD) (\<lambda>c. let Offset = (c - (CurrentPos + 3)) in
            emit (EncodeJMP_Near_Rel16 Offset))
          else bnd (\<lambda>s. ret (IsBit32 (a_enc s)) s) (\<lambda>ok.
          if ok then bnd (GetConstant OPRD) (\<lambda>c. let Offset = (c - (CurrentPos + 5)) in
            emit (EncodeJMP_Near_Rel32 Offset))
          else emit (enc_error ''assert'')))))
       else if IsMem OPRD
       then bnd (GetMem OPRD) (\<lambda>(Reg1, Reg2, Offset).
         (bnd (\<lambda>s. ret (IsBit16 (a_enc s)) s) (\<lambda>ok.
          if ok then emit (EncodeJMP_Near_Mem16 Reg1 Reg2 (GetOffType Offset) Offset)
          else bnd (\<lambda>s. ret (IsBit32 (a_enc s)) s) (\<lambda>ok.
          if ok then emit (EncodeJMP_Near_Mem32 Reg1 Reg2 (GetOffType Offset) Offset)
          else emit (enc_error ''assert'')))))
       else InvalidInstruction))),
    (''JMPF'',
      bnd GET_TOKEN (\<lambda>OPRD1.
      bnd PEEK_TOKEN (\<lambda>OPRD2.
      (if OPRD2 = '',''
       then bnd GET_TOKEN (\<lambda>OPRD2.
         bnd (ExpectComma OPRD2) (\<lambda>_. bnd GET_TOKEN (\<lambda>OPRD2.
         (if IsConstant OPRD1 \<and> IsConstant OPRD2
          then bnd (GetConstant OPRD1) (\<lambda>Seg. 
            bnd (GetConstant OPRD2) (\<lambda>Offset. 
            (bnd (\<lambda>s. ret (IsBit16 (a_enc s)) s) (\<lambda>ok.
             if ok then emit (EncodeJMP_Far_Ptr1616 Seg Offset)
             else bnd (\<lambda>s. ret (IsBit32 (a_enc s)) s) (\<lambda>ok.
             if ok then emit (EncodeJMP_Far_Ptr1632 Seg Offset)
             else emit (enc_error ''assert''))))))
          else InvalidInstruction))))
       else if IsMem OPRD1
       then bnd (GetMem OPRD1) (\<lambda>(Reg1, Reg2, Offset).
         (bnd (\<lambda>s. ret (IsBit16 (a_enc s)) s) (\<lambda>ok.
          if ok then emit (Encode_JMP_Far_Mem1616 Reg1 Reg2 (GetOffType Offset) Offset)
          else bnd (\<lambda>s. ret (IsBit32 (a_enc s)) s) (\<lambda>ok.
          if ok then emit (Encode_JMP_Far_Mem1632 Reg1 Reg2 (GetOffType Offset) Offset)
          else emit (enc_error ''assert'')))))
       else InvalidInstruction)))),
    (''JCXZ'',
      bnd GET_TOKEN (\<lambda>OPRD.
      (if IsConstant OPRD
       then bnd (\<lambda>s. ret (GetCurrentPos (a_enc s)) s) (\<lambda>CurrentPos. 
         bnd (GetConstant OPRD) (\<lambda>c. let Offset = (c - (CurrentPos + 2)) in
         emit (EncodeJCXZ_SHORT (ucast Offset))))
       else InvalidInstruction))),
    (''JECXZ'',
      bnd GET_TOKEN (\<lambda>OPRD.
      (if IsConstant OPRD
       then bnd (\<lambda>s. ret (GetCurrentPos (a_enc s)) s) (\<lambda>CurrentPos. 
         bnd (GetConstant OPRD) (\<lambda>c. let Offset = (c - (CurrentPos + 2)) in
         emit (EncodeJECXZ_SHORT (ucast Offset))))
       else InvalidInstruction)))]"

definition Parse_k :: "(string \<times> unit asm_m) list" where
  "Parse_k =
   [(''LOOP'',
      bnd GET_TOKEN (\<lambda>OPRD.
      (if IsConstant OPRD
       then bnd (\<lambda>s. ret (GetCurrentPos (a_enc s)) s) (\<lambda>CurrentPos. 
         bnd (GetConstant OPRD) (\<lambda>c. let Offset = (c - (CurrentPos + 2)) in
         emit (EncodeLOOP_SHORT (ucast Offset))))
       else InvalidInstruction))),
    (''LOOPZ'',
      bnd GET_TOKEN (\<lambda>OPRD.
      (if IsConstant OPRD
       then bnd (\<lambda>s. ret (GetCurrentPos (a_enc s)) s) (\<lambda>CurrentPos. 
         bnd (GetConstant OPRD) (\<lambda>c. let Offset = (c - (CurrentPos + 2)) in
         emit (EncodeLOOPZ_SHORT (ucast Offset))))
       else InvalidInstruction))),
    (''LOOPNZ'',
      bnd GET_TOKEN (\<lambda>OPRD.
      (if IsConstant OPRD
       then bnd (\<lambda>s. ret (GetCurrentPos (a_enc s)) s) (\<lambda>CurrentPos. 
         bnd (GetConstant OPRD) (\<lambda>c. let Offset = (c - (CurrentPos + 2)) in
         emit (EncodeLOOPNZ_SHORT (ucast Offset))))
       else InvalidInstruction))),
    (''LOCK'',
      emit EncodePrefixLOCK),
    (''REP'',
      emit EncodePrefixREP),
    (''REPNZ'',
      emit EncodePrefixREPNZ),
    (''CS'',
      emit EncodePrefixCS),
    (''DS'',
      emit EncodePrefixDS),
    (''ES'',
      emit EncodePrefixES),
    (''SS'',
      emit EncodePrefixSS),
    (''FS'',
      emit EncodePrefixFS),
    (''GS'',
      emit EncodePrefixGS),
    (''F2XM1'',
      emit EncodeF2XM1),
    (''FABS'',
      emit EncodeFABS)]"

definition Parse_l :: "(string \<times> unit asm_m) list" where
  "Parse_l =
   [(''FBLD'',
      bnd GET_TOKEN (\<lambda>OPRD1.
      (if IsMem OPRD1
       then bnd (GetMem OPRD1) (\<lambda>(Reg1, Reg2, Offset).
         emit (EncodeFBLD_Mem80 Reg1 Reg2 (GetOffType Offset) Offset))
       else InvalidInstruction))),
    (''FBSTP'',
      bnd GET_TOKEN (\<lambda>OPRD1.
      (if IsMem OPRD1
       then bnd (GetMem OPRD1) (\<lambda>(Reg1, Reg2, Offset).
         emit (EncodeFBSTP_Mem80 Reg1 Reg2 (GetOffType Offset) Offset))
       else InvalidInstruction))),
    (''FCHS'',
      emit EncodeFCHS),
    (''FCLEX'',
      emit EncodeFCLEX),
    (''FNCLEX'',
      emit EncodeFNCLEX)]"

definition Parse_m :: "(string \<times> unit asm_m) list" where
  "Parse_m =
   [(''FCOMR4'',
      bnd GET_TOKEN (\<lambda>OPRD1.
      (if IsMem OPRD1
       then bnd (GetMem OPRD1) (\<lambda>(Reg1, Reg2, Offset).
         emit (EncodeFCOM_ST0_Mem32 Reg1 Reg2 (GetOffType Offset) Offset))
       else InvalidInstruction))),
    (''FCOMR8'',
      bnd GET_TOKEN (\<lambda>OPRD1.
      (if IsMem OPRD1
       then bnd (GetMem OPRD1) (\<lambda>(Reg1, Reg2, Offset).
         emit (EncodeFCOM_ST0_Mem64 Reg1 Reg2 (GetOffType Offset) Offset))
       else InvalidInstruction))),
    (''FCOM'',
      bnd GET_TOKEN (\<lambda>OPRD1.
      (if IsReg OPRD1 \<and> IsX87DataReg OPRD1
       then bnd (GetReg OPRD1) (\<lambda>r1. emit (EncodeFCOM_ST0_STi r1))
       else InvalidInstruction))),
    (''FCOMPR4'',
      bnd GET_TOKEN (\<lambda>OPRD1.
      (if IsMem OPRD1
       then bnd (GetMem OPRD1) (\<lambda>(Reg1, Reg2, Offset).
         emit (EncodeFCOMP_ST0_Mem32 Reg1 Reg2 (GetOffType Offset) Offset))
       else InvalidInstruction))),
    (''FCOMPR8'',
      bnd GET_TOKEN (\<lambda>OPRD1.
      (if IsMem OPRD1
       then bnd (GetMem OPRD1) (\<lambda>(Reg1, Reg2, Offset).
         emit (EncodeFCOMP_ST0_Mem64 Reg1 Reg2 (GetOffType Offset) Offset))
       else InvalidInstruction))),
    (''FCOMP'',
      bnd GET_TOKEN (\<lambda>OPRD1.
      (if IsReg OPRD1 \<and> IsX87DataReg OPRD1
       then bnd (GetReg OPRD1) (\<lambda>r1. emit (EncodeFCOMP_ST0_STi r1))
       else InvalidInstruction))),
    (''FCOMPP'',
      emit EncodeFCOMPP_ST0_ST1),
    (''FCOMI'',
      bnd GET_TOKEN (\<lambda>OPRD1.
      bnd GET_TOKEN (\<lambda>OPRD2.
      bnd (ExpectComma OPRD2) (\<lambda>_. bnd GET_TOKEN (\<lambda>OPRD2.
      (if IsReg OPRD1 \<and> IsX87DataReg OPRD1 \<and> IsX87DataReg0 OPRD1 \<and> IsReg OPRD2 \<and> IsX87DataReg
        OPRD2
       then bnd (GetReg OPRD2) (\<lambda>r2. emit (EncodeFCOMI_ST0_STi r2))
       else InvalidInstruction)))))),
    (''FCOMIP'',
      bnd GET_TOKEN (\<lambda>OPRD1.
      bnd GET_TOKEN (\<lambda>OPRD2.
      bnd (ExpectComma OPRD2) (\<lambda>_. bnd GET_TOKEN (\<lambda>OPRD2.
      (if IsReg OPRD1 \<and> IsX87DataReg OPRD1 \<and> IsX87DataReg0 OPRD1 \<and> IsReg OPRD2 \<and> IsX87DataReg
        OPRD2
       then bnd (GetReg OPRD2) (\<lambda>r2. emit (EncodeFCOMIP_ST0_STi r2))
       else InvalidInstruction)))))),
    (''FUCOMI'',
      bnd GET_TOKEN (\<lambda>OPRD1.
      bnd GET_TOKEN (\<lambda>OPRD2.
      bnd (ExpectComma OPRD2) (\<lambda>_. bnd GET_TOKEN (\<lambda>OPRD2.
      (if IsReg OPRD1 \<and> IsX87DataReg OPRD1 \<and> IsX87DataReg0 OPRD1 \<and> IsReg OPRD2 \<and> IsX87DataReg
        OPRD2
       then bnd (GetReg OPRD2) (\<lambda>r2. emit (EncodeFUCOMI_ST0_STi r2))
       else InvalidInstruction))))))]"

definition Parse_n :: "(string \<times> unit asm_m) list" where
  "Parse_n =
   [(''FUCOMIP'',
      bnd GET_TOKEN (\<lambda>OPRD1.
      bnd GET_TOKEN (\<lambda>OPRD2.
      bnd (ExpectComma OPRD2) (\<lambda>_. bnd GET_TOKEN (\<lambda>OPRD2.
      (if IsReg OPRD1 \<and> IsX87DataReg OPRD1 \<and> IsX87DataReg0 OPRD1 \<and> IsReg OPRD2 \<and> IsX87DataReg
        OPRD2
       then bnd (GetReg OPRD2) (\<lambda>r2. emit (EncodeFUCOMIP_ST0_STi r2))
       else InvalidInstruction)))))),
    (''FCOS'',
      emit EncodeFCOS),
    (''FDECSTP'',
      emit EncodeFDECSTP)]"

definition Parse_o :: "(string \<times> unit asm_m) list" where
  "Parse_o =
   [(''FFREE'',
      bnd GET_TOKEN (\<lambda>OPRD1.
      (if IsReg OPRD1 \<and> IsX87DataReg OPRD1
       then bnd (GetReg OPRD1) (\<lambda>r1. emit (EncodeFFREE_STi r1))
       else InvalidInstruction))),
    (''FICOMW'',
      bnd GET_TOKEN (\<lambda>OPRD1.
      (if IsMem OPRD1
       then bnd (GetMem OPRD1) (\<lambda>(Reg1, Reg2, Offset).
         emit (EncodeFICOM_MEM16 Reg1 Reg2 (GetOffType Offset) Offset))
       else InvalidInstruction))),
    (''FICOMD'',
      bnd GET_TOKEN (\<lambda>OPRD1.
      (if IsMem OPRD1
       then bnd (GetMem OPRD1) (\<lambda>(Reg1, Reg2, Offset).
         emit (EncodeFICOM_MEM32 Reg1 Reg2 (GetOffType Offset) Offset))
       else InvalidInstruction))),
    (''FICOMPW'',
      bnd GET_TOKEN (\<lambda>OPRD1.
      (if IsMem OPRD1
       then bnd (GetMem OPRD1) (\<lambda>(Reg1, Reg2, Offset).
         emit (EncodeFICOMP_MEM16 Reg1 Reg2 (GetOffType Offset) Offset))
       else InvalidInstruction))),
    (''FICOMPD'',
      bnd GET_TOKEN (\<lambda>OPRD1.
      (if IsMem OPRD1
       then bnd (GetMem OPRD1) (\<lambda>(Reg1, Reg2, Offset).
         emit (EncodeFICOMP_MEM32 Reg1 Reg2 (GetOffType Offset) Offset))
       else InvalidInstruction))),
    (''FILDW'',
      bnd GET_TOKEN (\<lambda>OPRD1.
      (if IsMem OPRD1
       then bnd (GetMem OPRD1) (\<lambda>(Reg1, Reg2, Offset).
         emit (EncodeFILD_MEM16 Reg1 Reg2 (GetOffType Offset) Offset))
       else InvalidInstruction))),
    (''FILDD'',
      bnd GET_TOKEN (\<lambda>OPRD1.
      (if IsMem OPRD1
       then bnd (GetMem OPRD1) (\<lambda>(Reg1, Reg2, Offset).
         emit (EncodeFILD_MEM32 Reg1 Reg2 (GetOffType Offset) Offset))
       else InvalidInstruction))),
    (''FILDQ'',
      bnd GET_TOKEN (\<lambda>OPRD1.
      (if IsMem OPRD1
       then bnd (GetMem OPRD1) (\<lambda>(Reg1, Reg2, Offset).
         emit (EncodeFILD_MEM64 Reg1 Reg2 (GetOffType Offset) Offset))
       else InvalidInstruction))),
    (''FINCSTP'',
      emit EncodeFINCSTP),
    (''FINIT'',
      emit EncodeFINIT),
    (''FNINIT'',
      emit EncodeFNINIT)]"

definition Parse_p :: "(string \<times> unit asm_m) list" where
  "Parse_p =
   [(''FISTW'',
      bnd GET_TOKEN (\<lambda>OPRD1.
      (if IsMem OPRD1
       then bnd (GetMem OPRD1) (\<lambda>(Reg1, Reg2, Offset).
         emit (EncodeFIST_MEM16 Reg1 Reg2 (GetOffType Offset) Offset))
       else InvalidInstruction))),
    (''FISTD'',
      bnd GET_TOKEN (\<lambda>OPRD1.
      (if IsMem OPRD1
       then bnd (GetMem OPRD1) (\<lambda>(Reg1, Reg2, Offset).
         emit (EncodeFIST_MEM32 Reg1 Reg2 (GetOffType Offset) Offset))
       else InvalidInstruction))),
    (''FISTPW'',
      bnd GET_TOKEN (\<lambda>OPRD1.
      (if IsMem OPRD1
       then bnd (GetMem OPRD1) (\<lambda>(Reg1, Reg2, Offset).
         emit (EncodeFISTP_MEM16 Reg1 Reg2 (GetOffType Offset) Offset))
       else InvalidInstruction))),
    (''FISTPD'',
      bnd GET_TOKEN (\<lambda>OPRD1.
      (if IsMem OPRD1
       then bnd (GetMem OPRD1) (\<lambda>(Reg1, Reg2, Offset).
         emit (EncodeFISTP_MEM32 Reg1 Reg2 (GetOffType Offset) Offset))
       else InvalidInstruction))),
    (''FISTPQ'',
      bnd GET_TOKEN (\<lambda>OPRD1.
      (if IsMem OPRD1
       then bnd (GetMem OPRD1) (\<lambda>(Reg1, Reg2, Offset).
         emit (EncodeFISTP_MEM64 Reg1 Reg2 (GetOffType Offset) Offset))
       else InvalidInstruction))),
    (''FISTTPW'',
      bnd GET_TOKEN (\<lambda>OPRD1.
      (if IsMem OPRD1
       then bnd (GetMem OPRD1) (\<lambda>(Reg1, Reg2, Offset).
         emit (EncodeFISTTP_MEM16 Reg1 Reg2 (GetOffType Offset) Offset))
       else InvalidInstruction))),
    (''FISTTPD'',
      bnd GET_TOKEN (\<lambda>OPRD1.
      (if IsMem OPRD1
       then bnd (GetMem OPRD1) (\<lambda>(Reg1, Reg2, Offset).
         emit (EncodeFISTTP_MEM32 Reg1 Reg2 (GetOffType Offset) Offset))
       else InvalidInstruction))),
    (''FISTTPQ'',
      bnd GET_TOKEN (\<lambda>OPRD1.
      (if IsMem OPRD1
       then bnd (GetMem OPRD1) (\<lambda>(Reg1, Reg2, Offset).
         emit (EncodeFISTTP_MEM64 Reg1 Reg2 (GetOffType Offset) Offset))
       else InvalidInstruction))),
    (''FLDR4'',
      bnd GET_TOKEN (\<lambda>OPRD1.
      (if IsMem OPRD1
       then bnd (GetMem OPRD1) (\<lambda>(Reg1, Reg2, Offset).
         emit (EncodeFLD_MEM32 Reg1 Reg2 (GetOffType Offset) Offset))
       else InvalidInstruction)))]"

definition Parse_q :: "(string \<times> unit asm_m) list" where
  "Parse_q =
   [(''FLDR8'',
      bnd GET_TOKEN (\<lambda>OPRD1.
      (if IsMem OPRD1
       then bnd (GetMem OPRD1) (\<lambda>(Reg1, Reg2, Offset).
         emit (EncodeFLD_MEM64 Reg1 Reg2 (GetOffType Offset) Offset))
       else InvalidInstruction))),
    (''FLDR10'',
      bnd GET_TOKEN (\<lambda>OPRD1.
      (if IsMem OPRD1
       then bnd (GetMem OPRD1) (\<lambda>(Reg1, Reg2, Offset).
         emit (EncodeFLD_MEM80 Reg1 Reg2 (GetOffType Offset) Offset))
       else InvalidInstruction))),
    (''FLD'',
      bnd GET_TOKEN (\<lambda>OPRD1.
      (if IsReg OPRD1 \<and> IsX87DataReg OPRD1
       then bnd (GetReg OPRD1) (\<lambda>r1. emit (EncodeFLD_STi r1))
       else InvalidInstruction))),
    (''FLD1'',
      emit EncodeFLD1),
    (''FLDL2T'',
      emit EncodeFLDL2T),
    (''FLDL2E'',
      emit EncodeFLDL2E),
    (''FLDPI'',
      emit EncodeFLDPI),
    (''FLDLG2'',
      emit EncodeFLDLG2),
    (''FLDLN2'',
      emit EncodeFLDLN2),
    (''FLDZ'',
      emit EncodeFLDZ),
    (''FLDCW'',
      bnd GET_TOKEN (\<lambda>OPRD1.
      (if IsMem OPRD1
       then bnd (GetMem OPRD1) (\<lambda>(Reg1, Reg2, Offset).
         emit (EncodeFLDCW_MEM Reg1 Reg2 (GetOffType Offset) Offset))
       else InvalidInstruction))),
    (''FLDENV'',
      bnd GET_TOKEN (\<lambda>OPRD1.
      (if IsMem OPRD1
       then bnd (GetMem OPRD1) (\<lambda>(Reg1, Reg2, Offset).
         emit (EncodeFLDENV_MEM Reg1 Reg2 (GetOffType Offset) Offset))
       else InvalidInstruction)))]"

definition Parse_r :: "(string \<times> unit asm_m) list" where
  "Parse_r =
   [(''FNOP'',
      emit EncodeFNOP),
    (''FPATAN'',
      emit EncodeFPATAN),
    (''FPREM'',
      emit EncodeFPREM),
    (''FPREM1'',
      emit EncodeFPREM1),
    (''FPTAN'',
      emit EncodeFPTAN),
    (''FRNDINT'',
      emit EncodeFRNDINT),
    (''FRSTOR'',
      bnd GET_TOKEN (\<lambda>OPRD1.
      (if IsMem OPRD1
       then bnd (GetMem OPRD1) (\<lambda>(Reg1, Reg2, Offset).
         emit (EncodeFRSTOR_MEM Reg1 Reg2 (GetOffType Offset) Offset))
       else InvalidInstruction))),
    (''FSAVE'',
      bnd GET_TOKEN (\<lambda>OPRD1.
      (if IsMem OPRD1
       then bnd (GetMem OPRD1) (\<lambda>(Reg1, Reg2, Offset).
         emit (EncodeFSAVE_MEM Reg1 Reg2 (GetOffType Offset) Offset))
       else InvalidInstruction))),
    (''FNSAVE'',
      bnd GET_TOKEN (\<lambda>OPRD1.
      (if IsMem OPRD1
       then bnd (GetMem OPRD1) (\<lambda>(Reg1, Reg2, Offset).
         emit (EncodeFNSAVE_MEM Reg1 Reg2 (GetOffType Offset) Offset))
       else InvalidInstruction))),
    (''FSCALE'',
      emit EncodeFSCALE),
    (''FSIN'',
      emit EncodeFSIN),
    (''FSINCOS'',
      emit EncodeFSINCOS),
    (''FSQRT'',
      emit EncodeFSQRT),
    (''FSTR4'',
      bnd GET_TOKEN (\<lambda>OPRD1.
      (if IsMem OPRD1
       then bnd (GetMem OPRD1) (\<lambda>(Reg1, Reg2, Offset).
         emit (EncodeFST_MEM32 Reg1 Reg2 (GetOffType Offset) Offset))
       else InvalidInstruction))),
    (''FSTR8'',
      bnd GET_TOKEN (\<lambda>OPRD1.
      (if IsMem OPRD1
       then bnd (GetMem OPRD1) (\<lambda>(Reg1, Reg2, Offset).
         emit (EncodeFST_MEM64 Reg1 Reg2 (GetOffType Offset) Offset))
       else InvalidInstruction))),
    (''FST'',
      bnd GET_TOKEN (\<lambda>OPRD1.
      (if IsReg OPRD1 \<and> IsX87DataReg OPRD1
       then bnd (GetReg OPRD1) (\<lambda>r1. emit (EncodeFST_STi r1))
       else InvalidInstruction)))]"

definition Parse_s :: "(string \<times> unit asm_m) list" where
  "Parse_s =
   [(''FSTPR4'',
      bnd GET_TOKEN (\<lambda>OPRD1.
      (if IsMem OPRD1
       then bnd (GetMem OPRD1) (\<lambda>(Reg1, Reg2, Offset).
         emit (EncodeFSTP_MEM32 Reg1 Reg2 (GetOffType Offset) Offset))
       else InvalidInstruction))),
    (''FSTPR8'',
      bnd GET_TOKEN (\<lambda>OPRD1.
      (if IsMem OPRD1
       then bnd (GetMem OPRD1) (\<lambda>(Reg1, Reg2, Offset).
         emit (EncodeFSTP_MEM64 Reg1 Reg2 (GetOffType Offset) Offset))
       else InvalidInstruction))),
    (''FSTPR10'',
      bnd GET_TOKEN (\<lambda>OPRD1.
      (if IsMem OPRD1
       then bnd (GetMem OPRD1) (\<lambda>(Reg1, Reg2, Offset).
         emit (EncodeFSTP_MEM80 Reg1 Reg2 (GetOffType Offset) Offset))
       else InvalidInstruction))),
    (''FSTP'',
      bnd GET_TOKEN (\<lambda>OPRD1.
      (if IsReg OPRD1 \<and> IsX87DataReg OPRD1
       then bnd (GetReg OPRD1) (\<lambda>r1. emit (EncodeFSTP_STi r1))
       else InvalidInstruction))),
    (''FSTCW'',
      bnd GET_TOKEN (\<lambda>OPRD1.
      (if IsMem OPRD1
       then bnd (GetMem OPRD1) (\<lambda>(Reg1, Reg2, Offset).
         emit (EncodeFSTCW_MEM Reg1 Reg2 (GetOffType Offset) Offset))
       else InvalidInstruction))),
    (''FNSTCW'',
      bnd GET_TOKEN (\<lambda>OPRD1.
      (if IsMem OPRD1
       then bnd (GetMem OPRD1) (\<lambda>(Reg1, Reg2, Offset).
         emit (EncodeFNSTCW_MEM Reg1 Reg2 (GetOffType Offset) Offset))
       else InvalidInstruction))),
    (''FSTENV'',
      bnd GET_TOKEN (\<lambda>OPRD1.
      (if IsMem OPRD1
       then bnd (GetMem OPRD1) (\<lambda>(Reg1, Reg2, Offset).
         emit (EncodeFSTENV_MEM Reg1 Reg2 (GetOffType Offset) Offset))
       else InvalidInstruction))),
    (''FNSTENV'',
      bnd GET_TOKEN (\<lambda>OPRD1.
      (if IsMem OPRD1
       then bnd (GetMem OPRD1) (\<lambda>(Reg1, Reg2, Offset).
         emit (EncodeFNSTENV_MEM Reg1 Reg2 (GetOffType Offset) Offset))
       else InvalidInstruction))),
    (''FSTSW'',
      bnd GET_TOKEN (\<lambda>OPRD1.
      (if IsMem OPRD1
       then bnd (GetMem OPRD1) (\<lambda>(Reg1, Reg2, Offset).
         emit (EncodeFSTSW_MEM Reg1 Reg2 (GetOffType Offset) Offset))
       else if IsReg OPRD1 \<and> IsRegAX OPRD1
       then emit EncodeFSTSW_AX
       else InvalidInstruction)))]"

definition Parse_t :: "(string \<times> unit asm_m) list" where
  "Parse_t =
   [(''FNSTSW'',
      bnd GET_TOKEN (\<lambda>OPRD1.
      (if IsMem OPRD1
       then bnd (GetMem OPRD1) (\<lambda>(Reg1, Reg2, Offset).
         emit (EncodeFNSTSW_MEM Reg1 Reg2 (GetOffType Offset) Offset))
       else if IsReg OPRD1 \<and> IsRegAX OPRD1
       then emit EncodeFNSTSW_AX
       else InvalidInstruction)))]"

definition Parse_u :: "(string \<times> unit asm_m) list" where
  "Parse_u =
   [(''FTST'',
      emit EncodeFTST),
    (''FUCOM'',
      bnd GET_TOKEN (\<lambda>OPRD1.
      (if IsReg OPRD1 \<and> IsX87DataReg OPRD1
       then bnd (GetReg OPRD1) (\<lambda>r1. emit (EncodeFUCOM_STi r1))
       else InvalidInstruction))),
    (''FUCOMP'',
      bnd GET_TOKEN (\<lambda>OPRD1.
      (if IsReg OPRD1 \<and> IsX87DataReg OPRD1
       then bnd (GetReg OPRD1) (\<lambda>r1. emit (EncodeFUCOMP_STi r1))
       else InvalidInstruction))),
    (''FUCOMPP'',
      emit EncodeFUCOMPP),
    (''FXAM'',
      emit EncodeFXAM),
    (''FXCH'',
      bnd GET_TOKEN (\<lambda>OPRD1.
      (if IsReg OPRD1 \<and> IsX87DataReg OPRD1
       then bnd (GetReg OPRD1) (\<lambda>r1. emit (EncodeFXCH_STi r1))
       else InvalidInstruction))),
    (''FXRSTOR'',
      bnd GET_TOKEN (\<lambda>OPRD1.
      (if IsMem OPRD1
       then bnd (GetMem OPRD1) (\<lambda>(Reg1, Reg2, Offset).
         emit (EncodeFXRSTOR_MEM Reg1 Reg2 (GetOffType Offset) Offset))
       else InvalidInstruction))),
    (''FXSAVE'',
      bnd GET_TOKEN (\<lambda>OPRD1.
      (if IsMem OPRD1
       then bnd (GetMem OPRD1) (\<lambda>(Reg1, Reg2, Offset).
         emit (EncodeFXSAVE_MEM Reg1 Reg2 (GetOffType Offset) Offset))
       else InvalidInstruction))),
    (''FXTRACT'',
      emit EncodeFXTRACT),
    (''FYL2X'',
      emit EncodeFYL2X),
    (''FYL2XP1'',
      emit EncodeFYL2XP1)]"

definition Parse_instructions :: "(string \<times> unit asm_m) list" where
  "Parse_instructions =
     Parse_a @ ParseOperator @ Parse_b @ Parse_c @ Parse_d @ Parse_e @ Parse_f @ Parse_1 @ Parse_g
     @ ParseShift @ Parse_h @ Parse_i @ ParseJcc @ Parse_j @ Parse_k @ FOPT ''ADD'' @ Parse_l
     @ FCMOVcc ''FCMOVB'' @ FCMOVcc ''FCMOVE'' @ FCMOVcc ''FCMOVBE'' @ FCMOVcc ''FCMOVU''
     @ FCMOVcc ''FCMOVNB'' @ FCMOVcc ''FCMOVNE'' @ FCMOVcc ''FCMOVNBE'' @ FCMOVcc ''FCMOVNU'' @ Parse_m
     @ Parse_n @ FOPT ''DIV'' @ FOPT ''DIVR'' @ Parse_o @ Parse_p @ Parse_q @ FOPT ''MUL'' @ Parse_r
     @ Parse_s @ Parse_t @ FOPT ''SUB'' @ FOPT ''SUBR'' @ Parse_u"

section \<open>Passes\<close>

text \<open>One round of the loop of \<open>_Parse\<close> after the token is read.\<close>

definition parse_statement :: "string \<Rightarrow> unit asm_m" where
  "parse_statement Token =
     (case map_of (directives @ Parse_instructions) Token of
        Some m \<Rightarrow> m
      | None \<Rightarrow> InvalidInstruction)"

text \<open>
  \<open>_Parse\<close>.  A token may have 255 characters; the array \<open>Token\<close> has 50.  The loop has a number of rounds;
  the outer \<^const>\<open>None\<close> says that they were not enough, so that it is told apart from the inner one, undefined
  behaviour.  \<open>Parse_source\<close> gives one round more than there are characters left.
\<close>

primrec statement_loop :: "nat \<Rightarrow> asm \<Rightarrow> (asm_error + unit \<times> asm) option option" where
  "statement_loop 0 s = None"
| "statement_loop (Suc n) s =
     (case GET_TOKEN s of
        None \<Rightarrow> Some None
      | Some (Inl e) \<Rightarrow> Some (Some (Inl e))
      | Some (Inr (Token, s)) \<Rightarrow>
          if 50 \<le> length Token then Some None
          else if Token = [] \<or> Token = ''.END'' then Some (ret () s)
          else (case parse_statement Token s of
                  None \<Rightarrow> Some None
                | Some (Inl e) \<Rightarrow> Some (Some (Inl e))
                | Some (Inr (_, s)) \<Rightarrow> statement_loop n s))"

definition Parse_source :: "unit asm_m" where
  "Parse_source s = (case statement_loop (Suc (length (a_rest s))) s of None \<Rightarrow> None | Some r \<Rightarrow> r)"

definition Scan :: "unit asm_m" where
  "Scan =
     bnd (set_operation OPT_SCAN) (\<lambda>_. bnd Parse_source (\<lambda>_. bnd ResetLexer (\<lambda>_.
     bnd (emit ResetEncoder) (\<lambda>_. set_operation OPT_NONE))))"

definition Scan1 :: "unit asm_m" where
  "Scan1 =
     bnd (set_operation OPT_SCAN1) (\<lambda>_. bnd Parse_source (\<lambda>_. bnd ResetLexer (\<lambda>_.
     bnd (emit ResetEncoder) (\<lambda>_. set_operation OPT_NONE))))"

definition Parse :: "unit asm_m" where
  "Parse =
     bnd (set_operation OPT_PARSE) (\<lambda>_. bnd Parse_source (\<lambda>_. bnd ResetLexer (\<lambda>_. set_operation OPT_NONE)))"

definition InitParser :: "string \<Rightarrow> unit asm_m" where
  "InitParser Src =
     bnd (InitLexer Src) (\<lambda>_. bnd (emit (InitEncoder True (\<lambda>_. 0))) (\<lambda>_. InitSTable))"

text \<open>\<open>main\<close> between reading the source and writing the two files, and the state at its start.\<close>

definition assemble :: "bool \<Rightarrow> string \<Rightarrow> (u8 list \<times> string) asm_m" where
  "assemble ListingFileFlag Src =
     bnd (InitParser Src) (\<lambda>_. bnd Scan (\<lambda>_. bnd Scan1 (\<lambda>_.
     bnd (if ListingFileFlag then emit (EnableListing True (\<lambda>_. CHR 0x00)) else ret ()) (\<lambda>_.
     bnd Parse (\<lambda>_ s. ret (e_Buffer (a_enc s), e_ListingBuffer (a_enc s)) s)))))"

definition initial_encoder :: encoder where
  "initial_encoder =
     \<lparr>e_allocated = False, e_Buffer = [], e_listing = False, e_ListingBuffer = [], e_InstructionBuffer = [],
      e_InstructionBeginPos = 0, e_CurrentPos = 0, e_Mode = MODE_BIT32, e_OprdMode = MODE_BIT32, e_AddrMode = MODE_BIT32\<rparr>"

definition initial_asm :: "(nat \<Rightarrow> nat \<Rightarrow> string) \<Rightarrow> (u32 \<Rightarrow> u32 \<Rightarrow> u32) \<Rightarrow> asm" where
  "initial_asm stack pow =
     \<lparr>a_enc = initial_encoder, a_Source = [], a_rest = [], a_Line = 1, a_Symbols = [], a_CurrentLine = 0,
      a_CurrentOperation = OPT_NONE, a_peeked = [], a_stack = stack, a_pow = pow\<rparr>"

end
