(* ===== verification/Iasm_Steps.thy ===== *)
theory Iasm_Steps
  imports Iasm_Macros Iasm_Instructions_A Iasm_Instructions_B Iasm_Instructions_C
begin

text \<open>
  The encoder as a state machine: its elementary steps as a relation, and the fact that every encoder of
  \<^verbatim>\<open>apps/iasm/encoder.c\<close> is a sequence of them.  What is to hold for all instructions is proved for the
  elementary steps, by rule induction.
\<close>

section \<open>Elementary steps\<close>

inductive enc_step :: "encoder \<Rightarrow> encoder \<Rightarrow> bool" where
  byte: "ToBuffer b s = Some (Inr s') \<Longrightarrow> enc_step s s'"
| first: "InstructionBegin s = Some (Inr s') \<Longrightarrow> enc_step s s'"
| last: "InstructionEnd s = Some (Inr s') \<Longrightarrow> enc_step s s'"
| mode: "enc_step s (s\<lparr>e_Mode := m\<rparr>)"
| oprd_mode: "enc_step s (s\<lparr>e_OprdMode := m\<rparr>)"
| addr_mode: "enc_step s (s\<lparr>e_AddrMode := m\<rparr>)"
| pos: "enc_step s (s\<lparr>e_CurrentPos := p\<rparr>)"

definition runs :: "enc \<Rightarrow> bool" where
  "runs m = (\<forall>s s'. m s = Some (Inr s') \<longrightarrow> enc_step\<^sup>*\<^sup>* s s')"

named_theorems runs_code

lemma runsI: "(\<And>s s'. m s = Some (Inr s') \<Longrightarrow> enc_step\<^sup>*\<^sup>* s s') \<Longrightarrow> runs m"
  by (simp add: runs_def)

lemma runsD: "runs m \<Longrightarrow> m s = Some (Inr s') \<Longrightarrow> enc_step\<^sup>*\<^sup>* s s'"
  by (simp add: runs_def)

lemma runs_step: "(\<And>s s'. m s = Some (Inr s') \<Longrightarrow> enc_step s s') \<Longrightarrow> runs m"
  by (auto intro: runsI)

lemma runs_cases:
  "runs m \<Longrightarrow> runs m' \<Longrightarrow> runs (\<lambda>s. if b s then m s else m' s)"
  "runs m \<Longrightarrow> runs m' \<Longrightarrow> runs (\<lambda>s. case f s of MODE_BIT16 \<Rightarrow> m s | MODE_BIT32 \<Rightarrow> m' s)"
  by (auto simp: runs_def split: enc_mode.splits)

lemma runs_elementary [runs_code]: "runs (ToBuffer b)" "runs InstructionBegin" "runs InstructionEnd"
  by (auto intro!: runs_step intro: enc_step.intros)

lemma runs_modes [runs_code]: "runs SwitchToBit16" "runs SwitchToBit32" "runs SwitchOprdToBit16" "runs SwitchOprdToBit32"
  "runs SwitchAddrToBit16" "runs SwitchAddrToBit32"
  by (auto intro!: runs_step simp: SwitchToBit16_def SwitchToBit32_def SwitchOprdToBit16_def SwitchOprdToBit32_def
    SwitchAddrToBit16_def SwitchAddrToBit32_def intro: enc_step.intros)

lemma runs_pos [runs_code]: "runs (SetCurrentPos p)"
  by (auto intro!: runs_step simp: SetCurrentPos_def intro: enc_step.pos)

lemma runs_failure [runs_code]: "runs (enc_error msg)" "runs (\<lambda>s. None)"
  by (simp_all add: runs_def enc_error_def)

lemma runs_Nil [runs_code]: "runs (steps [])"
  by (auto intro: runsI)

lemma runs_Cons [runs_code]:
  assumes "runs m" "runs (steps ms)"
  shows "runs (steps (m # ms))"
proof (rule runsI)
  fix s s'
  assume "steps (m # ms) s = Some (Inr s')"
  then obtain t where "m s = Some (Inr t)" "steps ms t = Some (Inr s')"
    by (auto split: option.splits sum.splits)
  with assms show "enc_step\<^sup>*\<^sup>* s s'"
    by (meson runsD rtranclp_trans)
qed

lemma runs_if [runs_code]: "runs m \<Longrightarrow> runs m' \<Longrightarrow> runs (if b then m else m')"
  by simp

lemma runs_with_reg [runs_code]: "(\<And>Mod RM. runs (k Mod RM)) \<Longrightarrow> runs (with_reg Reg k)"
  by (simp add: with_reg_def runs_code split: sum.split prod.split)

lemma runs_ToBuffer [runs_code]: "runs (ToBufferW w)" "runs (ToBuffer3B w)" "runs (ToBufferD w)"
  unfolding ToBufferW_def ToBuffer3B_def ToBufferD_def
  by (intro runs_code)+

lemma runs_prefix [runs_code]: "runs InstructionPrefix"
proof (rule runsI)
  fix s s'
  assume "InstructionPrefix s = Some (Inr s')"
  moreover have "runs (steps [(if e_Mode s \<noteq> e_OprdMode s then ToBuffer 0x66 else steps []),
      (if e_Mode s \<noteq> e_AddrMode s then ToBuffer 0x67 else steps [])])"
    by (intro runs_code)
  ultimately show "enc_step\<^sup>*\<^sup>* s s'"
    unfolding InstructionPrefix_def by (rule runsD [rotated])
qed

lemma runs_parts [runs_code]: "runs (imm_to_buffer t i)" "runs (opcode_to_buffer n opc)"
  unfolding imm_to_buffer_def opcode_to_buffer_def
  by (intro runs_code)+

lemma runs_mem [runs_code]:
  assumes "runs w"
  shows "runs (mem16 opc r1 r2 t d w it i n)" "runs (mem32 opc r1 r2 t d w it i n)"
  using assms by (auto simp: mem16_def mem32_def split: sum.split option.split intro!: runs_code)

lemma runs_Opcode_Mem_X [runs_code]: "runs (Opcode_Mem_X opc r1 r2 ot off it i n)"
  unfolding Opcode_Mem_X_def [abs_def]
  by (intro runs_cases runs_code)

section \<open>All encoders\<close>

lemma runs_opcodes [runs_code]:
  "runs (OpcodeW_Mem_X w1 b2 b3 b4 w5 w6 w7)" "runs (Opcode3B_Mem_X w1 b2 b3 b4 w5 w6 w7)"
  "runs (OpcodeD_Mem_X w1 b2 b3 b4 w5 w6 w7)" "runs (OpcodeW_Reg w1 b2)" "runs (Opcode3B_Reg w1 b2)"
  "runs (Opcode3B_Reg_Imm8 w1 b2 w3)" "runs (OpcodeW_Reg8_Reg8 w1 b2 b3)"
  "runs (OpcodeW_Reg16_Reg16 w1 b2 b3)" "runs (OpcodeW_Reg32_Reg32 w1 b2 b3)"
  "runs (OpcodeW_Mem8_Reg8 w1 b2 b3 w4 w5 b6)" "runs (OpcodeW_Mem16_Reg16 w1 b2 b3 w4 w5 b6)"
  "runs (OpcodeW_Mem32_Reg32 w1 b2 b3 w4 w5 b6)" "runs (OpcodeW_Reg8_Mem8 w1 b2 b3 b4 w5 w6)"
  "runs (OpcodeW_Reg16_Mem16 w1 b2 b3 b4 w5 w6)" "runs (OpcodeW_Reg32_Mem32 w1 b2 b3 b4 w5 w6)"
  "runs (OpcodeB_Acc8_Imm8 b1 w2)" "runs (OpcodeB_Acc16_Imm16 b1 w2)" "runs (OpcodeB_Acc32_Imm32 b1 w2)"
  "runs (OpcodeW_Reg_Imm8 w1 w2 b3 w4)" "runs (OpcodeW_Mem_Imm8 w1 w2 b3 b4 w5 w6 w7)"
  "runs (OpcodeW_Reg8_Imm8 w1 b2 w3)" "runs (OpcodeW_Reg16_Imm16 w1 b2 w3)"
  "runs (OpcodeW_Reg32_Imm32 w1 b2 w3)" "runs (OpcodeW_Mem8_Imm8 w1 b2 b3 w4 w5 w6)"
  "runs (OpcodeW_Mem16_Imm16 w1 b2 b3 w4 w5 w6)" "runs (OpcodeW_Mem32_Imm32 w1 b2 b3 w4 w5 w6)"
  unfolding OpcodeW_Mem_X_def Opcode3B_Mem_X_def OpcodeD_Mem_X_def OpcodeW_Reg_def Opcode3B_Reg_def Opcode3B_Reg_Imm8_def
    OpcodeW_Reg8_Reg8_def OpcodeW_Reg16_Reg16_def OpcodeW_Reg32_Reg32_def OpcodeW_Mem8_Reg8_def
    OpcodeW_Mem16_Reg16_def OpcodeW_Mem32_Reg32_def OpcodeW_Reg8_Mem8_def OpcodeW_Reg16_Mem16_def
    OpcodeW_Reg32_Mem32_def OpcodeB_Acc8_Imm8_def OpcodeB_Acc16_Imm16_def OpcodeB_Acc32_Imm32_def
    OpcodeW_Reg_Imm8_def OpcodeW_Mem_Imm8_def OpcodeW_Reg8_Imm8_def OpcodeW_Reg16_Imm16_def
    OpcodeW_Reg32_Imm32_def OpcodeW_Mem8_Imm8_def OpcodeW_Mem16_Imm16_def OpcodeW_Mem32_Imm32_def Let_def
  by (intro runs_code)+

lemma runs_encode [runs_code]:
  "runs (EncodeOpt_Reg8_Reg8 w1 b2 b3)" "runs (EncodeOpt_Reg16_Reg16 w1 b2 b3)"
  "runs (EncodeOpt_Reg32_Reg32 w1 b2 b3)" "runs (EncodeOpt_Mem8_Reg8 w1 b2 b3 w4 w5 b6)"
  "runs (EncodeOpt_Mem16_Reg16 w1 b2 b3 w4 w5 b6)" "runs (EncodeOpt_Mem32_Reg32 w1 b2 b3 w4 w5 b6)"
  "runs (EncodeOpt_Reg8_Mem8 w1 b2 b3 b4 w5 w6)" "runs (EncodeOpt_Reg16_Mem16 w1 b2 b3 b4 w5 w6)"
  "runs (EncodeOpt_Reg32_Mem32 w1 b2 b3 b4 w5 w6)" "runs (EncodeOpt_Acc8_Imm8 b1 w2)"
  "runs (EncodeOpt_Acc16_Imm16 b1 w2)" "runs (EncodeOpt_Acc32_Imm32 b1 w2)"
  "runs (EncodeOpt_Reg8_Imm8 w1 b2 w3)" "runs (EncodeOpt_Reg16_Imm16 w1 b2 w3)"
  "runs (EncodeOpt_Reg32_Imm32 w1 b2 w3)" "runs (EncodeOpt_Mem8_Imm8 w1 b2 b3 w4 w5 w6)"
  "runs (EncodeOpt_Mem16_Imm16 w1 b2 b3 w4 w5 w6)" "runs (EncodeOpt_Mem32_Imm32 w1 b2 b3 w4 w5 w6)"
  "runs (EncodeDI_RegW b1 b2)" "runs (EncodeDI_Reg w1 b2)" "runs (EncodeDI_Mem w1 b2 b3 w4 w5)"
  "runs (EncodeDM_Reg w1 b2)" "runs (EncodeDM_Mem w1 b2 b3 w4 w5)"
  unfolding EncodeOpt_Reg8_Reg8_def EncodeOpt_Reg16_Reg16_def EncodeOpt_Reg32_Reg32_def EncodeOpt_Mem8_Reg8_def
    EncodeOpt_Mem16_Reg16_def EncodeOpt_Mem32_Reg32_def EncodeOpt_Reg8_Mem8_def EncodeOpt_Reg16_Mem16_def
    EncodeOpt_Reg32_Mem32_def EncodeOpt_Acc8_Imm8_def EncodeOpt_Acc16_Imm16_def EncodeOpt_Acc32_Imm32_def
    EncodeOpt_Reg8_Imm8_def EncodeOpt_Reg16_Imm16_def EncodeOpt_Reg32_Imm32_def EncodeOpt_Mem8_Imm8_def
    EncodeOpt_Mem16_Imm16_def EncodeOpt_Mem32_Imm32_def EncodeDI_RegW_def EncodeDI_Reg_def EncodeDI_Mem_def
    EncodeDM_Reg_def EncodeDM_Mem_def Let_def
  by (intro runs_code)+

lemma runs_a1 [runs_code]:
  "runs (EncodeDB b1)" "runs (EncodeDW w1)" "runs (EncodeDD w1)" "runs EncodePrefixLOCK"
  "runs EncodePrefixREP" "runs EncodePrefixREPNZ" "runs EncodePrefixCS" "runs EncodePrefixDS"
  "runs EncodePrefixES" "runs EncodePrefixSS" "runs EncodePrefixFS" "runs EncodePrefixGS" "runs EncodeAAA"
  "runs (EncodeAAD_Imm8 b1)" "runs EncodeAAD" "runs (EncodeAAM_Imm8 b1)" "runs EncodeAAM" "runs EncodeAAS"
  "runs (EncodeARPL_Reg16_Reg16 b1 b2)" "runs (EncodeARPL_Mem16_Reg16 b1 b2 w3 w4 b5)"
  "runs (EncodeBOUND_Reg16_Mem1616 b1 b2 b3 w4 w5)" "runs (EncodeBOUND_Reg32_Mem3232 b1 b2 b3 w4 w5)"
  "runs (EncodeBSF_Reg16_Reg16 b1 b2)" "runs (EncodeBSF_Reg16_Mem16 b1 b2 b3 w4 w5)"
  "runs (EncodeBSF_Reg32_Reg32 b1 b2)" "runs (EncodeBSF_Reg32_Mem32 b1 b2 b3 w4 w5)"
  "runs (EncodeBSR_Reg16_Reg16 b1 b2)" "runs (EncodeBSR_Reg16_Mem16 b1 b2 b3 w4 w5)"
  "runs (EncodeBSR_Reg32_Reg32 b1 b2)" "runs (EncodeBSR_Reg32_Mem32 b1 b2 b3 w4 w5)" "runs EncodeCBW"
  "runs EncodeCLC" "runs EncodeCLD" "runs EncodeCLI" "runs EncodeCMC" "runs EncodeCMPSB" "runs EncodeCMPSW"
  "runs EncodeCWD" "runs EncodeDAA" "runs EncodeDAS"
  unfolding EncodeDB_def EncodeDW_def EncodeDD_def EncodePrefixLOCK_def EncodePrefixREP_def EncodePrefixREPNZ_def
    EncodePrefixCS_def EncodePrefixDS_def EncodePrefixES_def EncodePrefixSS_def EncodePrefixFS_def
    EncodePrefixGS_def EncodeAAA_def EncodeAAD_Imm8_def EncodeAAD_def EncodeAAM_Imm8_def EncodeAAM_def
    EncodeAAS_def EncodeARPL_Reg16_Reg16_def EncodeARPL_Mem16_Reg16_def EncodeBOUND_Reg16_Mem1616_def
    EncodeBOUND_Reg32_Mem3232_def EncodeBSF_Reg16_Reg16_def EncodeBSF_Reg16_Mem16_def EncodeBSF_Reg32_Reg32_def
    EncodeBSF_Reg32_Mem32_def EncodeBSR_Reg16_Reg16_def EncodeBSR_Reg16_Mem16_def EncodeBSR_Reg32_Reg32_def
    EncodeBSR_Reg32_Mem32_def EncodeCBW_def EncodeCLC_def EncodeCLD_def EncodeCLI_def EncodeCMC_def
    EncodeCMPSB_def EncodeCMPSW_def EncodeCWD_def EncodeDAA_def EncodeDAS_def Let_def
  by (intro runs_code)+

lemma runs_a2 [runs_code]:
  "runs (EncodeDEC_Reg8 b1)" "runs (EncodeDEC_Reg16 b1)" "runs (EncodeDEC_Reg32 b1)"
  "runs (EncodeDEC_Mem8 b1 b2 w3 w4)" "runs (EncodeDEC_Mem16 b1 b2 w3 w4)"
  "runs (EncodeDEC_Mem32 b1 b2 w3 w4)" "runs (EncodeDIV_Reg8 b1)" "runs (EncodeDIV_Reg16 b1)"
  "runs (EncodeDIV_Reg32 b1)" "runs (EncodeDIV_Mem8 b1 b2 w3 w4)" "runs (EncodeDIV_Mem16 b1 b2 w3 w4)"
  "runs (EncodeDIV_Mem32 b1 b2 w3 w4)" "runs (EncodeENTER_Imm16_Imm8 b1 b2)" "runs EncodeHLT"
  "runs (EncodeIDIV_Reg8 b1)" "runs (EncodeIDIV_Reg16 b1)" "runs (EncodeIDIV_Reg32 b1)"
  "runs (EncodeIDIV_Mem8 b1 b2 w3 w4)" "runs (EncodeIDIV_Mem16 b1 b2 w3 w4)"
  "runs (EncodeIDIV_Mem32 b1 b2 w3 w4)" "runs (EncodeIMUL_Reg8 b1)" "runs (EncodeIMUL_Reg16 b1)"
  "runs (EncodeIMUL_Reg32 b1)" "runs (EncodeIMUL_Mem8 b1 b2 w3 w4)" "runs (EncodeIMUL_Mem16 b1 b2 w3 w4)"
  "runs (EncodeIMUL_Mem32 b1 b2 w3 w4)" "runs (EncodeINB_Imm8 b1)" "runs (EncodeINW_Imm8 b1)"
  "runs (EncodeIND_Imm8 b1)" "runs EncodeINB_DX" "runs EncodeINW_DX" "runs EncodeIND_DX" "runs EncodeINSB"
  "runs EncodeINSW" "runs EncodeINSD" "runs EncodeINT_3" "runs (EncodeINT_Imm8 b1)" "runs EncodeINTO"
  "runs (EncodeINC_Reg8 b1)" "runs (EncodeINC_Reg16 b1)"
  unfolding EncodeDEC_Reg8_def EncodeDEC_Reg16_def EncodeDEC_Reg32_def EncodeDEC_Mem8_def EncodeDEC_Mem16_def
    EncodeDEC_Mem32_def EncodeDIV_Reg8_def EncodeDIV_Reg16_def EncodeDIV_Reg32_def EncodeDIV_Mem8_def
    EncodeDIV_Mem16_def EncodeDIV_Mem32_def EncodeENTER_Imm16_Imm8_def EncodeHLT_def EncodeIDIV_Reg8_def
    EncodeIDIV_Reg16_def EncodeIDIV_Reg32_def EncodeIDIV_Mem8_def EncodeIDIV_Mem16_def EncodeIDIV_Mem32_def
    EncodeIMUL_Reg8_def EncodeIMUL_Reg16_def EncodeIMUL_Reg32_def EncodeIMUL_Mem8_def EncodeIMUL_Mem16_def
    EncodeIMUL_Mem32_def EncodeINB_Imm8_def EncodeINW_Imm8_def EncodeIND_Imm8_def EncodeINB_DX_def
    EncodeINW_DX_def EncodeIND_DX_def EncodeINSB_def EncodeINSW_def EncodeINSD_def EncodeINT_3_def
    EncodeINT_Imm8_def EncodeINTO_def EncodeINC_Reg8_def EncodeINC_Reg16_def Let_def
  by (intro runs_code)+

lemma runs_a3 [runs_code]:
  "runs (EncodeINC_Reg32 b1)" "runs (EncodeINC_Mem8 b1 b2 w3 w4)" "runs (EncodeINC_Mem16 b1 b2 w3 w4)"
  "runs (EncodeINC_Mem32 b1 b2 w3 w4)" "runs EncodeIRET" "runs EncodeLAHF"
  "runs (EncodeLDS_Reg16_Mem32 b1 b2 b3 w4 w5)" "runs (EncodeLES_Reg16_Mem32 b1 b2 b3 w4 w5)"
  "runs (EncodeLEA_Reg16_Mem b1 b2 b3 w4 w5)" "runs EncodeLEAVE" "runs (EncodeLGDT_Mem1632 b1 b2 b3 w4)"
  "runs (EncodeLIDT_Mem1632 b1 b2 b3 w4)" "runs (EncodeLMSW_Reg16 b1)" "runs (EncodeLMSW_Mem16 b1 b2 b3 w4)"
  "runs EncodeLODSB" "runs EncodeLODSW" "runs EncodeLODSD" "runs (EncodeLSL_Reg16_Reg16 b1 b2)"
  "runs (EncodeLSL_Reg16_Mem16 b1 b2 b3 b4 w5)" "runs (EncodeLSL_Reg32_Reg32 b1 b2)"
  "runs (EncodeLSL_Reg32_Mem16 b1 b2 b3 b4 w5)" "runs (EncodeLTR_Reg16 b1)"
  "runs (EncodeLTR_Mem16 b1 b2 b3 w4)" "runs (EncodeMOV_MemOff_Acc8 w1)" "runs (EncodeMOV_MemOff_Acc16 w1)"
  "runs (EncodeMOV_MemOff_Acc32 w1)" "runs (EncodeMOV_Acc8_MemOff w1)" "runs (EncodeMOV_Acc16_MemOff w1)"
  "runs (EncodeMOV_Acc32_MemOff w1)" "runs (EncodeMOV_Reg8_Imm8 b1 b2)" "runs (EncodeMOV_Reg16_Imm16 b1 w2)"
  "runs (EncodeMOV_Reg32_Imm32 b1 w2)" "runs (EncodeMOV_Mem8_Imm8 b1 b2 w3 w4 b5)"
  unfolding EncodeINC_Reg32_def EncodeINC_Mem8_def EncodeINC_Mem16_def EncodeINC_Mem32_def EncodeIRET_def EncodeLAHF_def
    EncodeLDS_Reg16_Mem32_def EncodeLES_Reg16_Mem32_def EncodeLEA_Reg16_Mem_def EncodeLEAVE_def
    EncodeLGDT_Mem1632_def EncodeLIDT_Mem1632_def EncodeLMSW_Reg16_def EncodeLMSW_Mem16_def EncodeLODSB_def
    EncodeLODSW_def EncodeLODSD_def EncodeLSL_Reg16_Reg16_def EncodeLSL_Reg16_Mem16_def EncodeLSL_Reg32_Reg32_def
    EncodeLSL_Reg32_Mem16_def EncodeLTR_Reg16_def EncodeLTR_Mem16_def EncodeMOV_MemOff_Acc8_def
    EncodeMOV_MemOff_Acc16_def EncodeMOV_MemOff_Acc32_def EncodeMOV_Acc8_MemOff_def EncodeMOV_Acc16_MemOff_def
    EncodeMOV_Acc32_MemOff_def EncodeMOV_Reg8_Imm8_def EncodeMOV_Reg16_Imm16_def EncodeMOV_Reg32_Imm32_def
    EncodeMOV_Mem8_Imm8_def Let_def
  by (intro runs_code)+

lemma runs_push_imm [runs_code]: "runs (EncodePUSH_Imm16 x1)" "runs (EncodePUSH_Imm32 x1)"
  unfolding EncodePUSH_Imm16_def [abs_def] EncodePUSH_Imm32_def [abs_def]
  by (intro runs_cases runs_code)+

lemma runs_b1 [runs_code]:
  "runs (EncodeMOV_Mem16_Imm16 b1 b2 w3 w4 w5)" "runs (EncodeMOV_Mem32_Imm32 b1 b2 w3 w4 w5)"
  "runs (EncodeMOV_Reg8_Reg8 b1 b2)" "runs (EncodeMOV_Reg16_Reg16 b1 b2)"
  "runs (EncodeMOV_Reg32_Reg32 b1 b2)" "runs (EncodeMOV_Reg8_Mem8 b1 b2 b3 w4 w5)"
  "runs (EncodeMOV_Reg16_Mem16 b1 b2 b3 w4 w5)" "runs (EncodeMOV_Reg32_Mem32 b1 b2 b3 w4 w5)"
  "runs (EncodeMOV_Mem8_Reg8 b1 b2 w3 w4 b5)" "runs (EncodeMOV_Mem16_Reg16 b1 b2 w3 w4 b5)"
  "runs (EncodeMOV_Mem32_Reg32 b1 b2 w3 w4 b5)" "runs (EncodeMOV_Reg16_Seg b1 b2)"
  "runs (EncodeMOV_Seg_Reg16 b1 b2)" "runs (EncodeMOV_Mem16_Seg b1 b2 w3 w4 b5)"
  "runs (EncodeMOV_Seg_Mem16 b1 b2 b3 w4 w5)" "runs (EncodeMOV_Reg32_Cr b1 b2)"
  "runs (EncodeMOV_Cr_Reg32 b1 b2)" "runs (EncodeMOV_Reg32_Dr b1 b2)" "runs (EncodeMOV_Dr_Reg32 b1 b2)"
  "runs (EncodeMOV_Reg32_Tr b1 b2)" "runs (EncodeMOV_Tr_Reg32 b1 b2)" "runs EncodeMOVSB" "runs EncodeMOVSW"
  "runs EncodeMOVSD" "runs (EncodeMUL_Reg8 b1)" "runs (EncodeMUL_Reg16 b1)" "runs (EncodeMUL_Reg32 b1)"
  "runs (EncodeMUL_Mem8 b1 b2 w3 w4)" "runs (EncodeMUL_Mem16 b1 b2 w3 w4)"
  "runs (EncodeMUL_Mem32 b1 b2 w3 w4)" "runs (EncodeNEG_Reg8 b1)" "runs (EncodeNEG_Reg16 b1)"
  "runs (EncodeNEG_Reg32 b1)" "runs (EncodeNEG_Mem8 b1 b2 w3 w4)" "runs (EncodeNEG_Mem16 b1 b2 w3 w4)"
  "runs (EncodeNEG_Mem32 b1 b2 w3 w4)" "runs EncodeNOP" "runs (EncodeNOT_Reg8 b1)"
  "runs (EncodeNOT_Reg16 b1)" "runs (EncodeNOT_Reg32 b1)"
  unfolding EncodeMOV_Mem16_Imm16_def EncodeMOV_Mem32_Imm32_def EncodeMOV_Reg8_Reg8_def EncodeMOV_Reg16_Reg16_def
    EncodeMOV_Reg32_Reg32_def EncodeMOV_Reg8_Mem8_def EncodeMOV_Reg16_Mem16_def EncodeMOV_Reg32_Mem32_def
    EncodeMOV_Mem8_Reg8_def EncodeMOV_Mem16_Reg16_def EncodeMOV_Mem32_Reg32_def EncodeMOV_Reg16_Seg_def
    EncodeMOV_Seg_Reg16_def EncodeMOV_Mem16_Seg_def EncodeMOV_Seg_Mem16_def EncodeMOV_Reg32_Cr_def
    EncodeMOV_Cr_Reg32_def EncodeMOV_Reg32_Dr_def EncodeMOV_Dr_Reg32_def EncodeMOV_Reg32_Tr_def
    EncodeMOV_Tr_Reg32_def EncodeMOVSB_def EncodeMOVSW_def EncodeMOVSD_def EncodeMUL_Reg8_def EncodeMUL_Reg16_def
    EncodeMUL_Reg32_def EncodeMUL_Mem8_def EncodeMUL_Mem16_def EncodeMUL_Mem32_def EncodeNEG_Reg8_def
    EncodeNEG_Reg16_def EncodeNEG_Reg32_def EncodeNEG_Mem8_def EncodeNEG_Mem16_def EncodeNEG_Mem32_def
    EncodeNOP_def EncodeNOT_Reg8_def EncodeNOT_Reg16_def EncodeNOT_Reg32_def Let_def
  by (intro runs_code)+

lemma runs_b2 [runs_code]:
  "runs (EncodeNOT_Mem8 b1 b2 w3 w4)" "runs (EncodeNOT_Mem16 b1 b2 w3 w4)"
  "runs (EncodeNOT_Mem32 b1 b2 w3 w4)" "runs (EncodeOUTB_Imm8 b1)" "runs (EncodeOUTW_Imm8 b1)"
  "runs (EncodeOUTD_Imm8 b1)" "runs EncodeOUTB_DX" "runs EncodeOUTW_DX" "runs EncodeOUTD_DX"
  "runs EncodeOUTSB" "runs EncodeOUTSW" "runs EncodeOUTSD" "runs (EncodePOP_Reg16 b1)"
  "runs (EncodePOP_Reg32 b1)" "runs (EncodePOP_Mem16 b1 b2 w3 w4)" "runs (EncodePOP_Mem32 b1 b2 w3 w4)"
  "runs (EncodePOP_Seg b1)" "runs EncodePOPA" "runs EncodePOPF" "runs (EncodePUSH_Reg16 b1)"
  "runs (EncodePUSH_Reg32 b1)" "runs (EncodePUSH_Mem16 b1 b2 w3 w4)" "runs (EncodePUSH_Mem32 b1 b2 w3 w4)"
  "runs (EncodePUSH_Imm8 w1)" "runs (EncodePUSH_Seg b1)" "runs EncodePUSHA" "runs EncodePUSHF"
  "runs EncodeRDMSR" "runs EncodeRDTSC" "runs EncodeRET_Near" "runs (EncodeRET_Imm16Near w1)"
  "runs EncodeRET_Far" "runs (EncodeRET_Imm16Far w1)" "runs EncodeRDPMC" "runs EncodeRSM"
  "runs (EncodeSETcc_Reg8 b1 b2)" "runs (EncodeSETcc_Mem8 b1 b2 b3 w4 w5)" "runs EncodeSAHF"
  "runs EncodeSCANSB" "runs EncodeSCANSW"
  unfolding EncodeNOT_Mem8_def EncodeNOT_Mem16_def EncodeNOT_Mem32_def EncodeOUTB_Imm8_def EncodeOUTW_Imm8_def
    EncodeOUTD_Imm8_def EncodeOUTB_DX_def EncodeOUTW_DX_def EncodeOUTD_DX_def EncodeOUTSB_def EncodeOUTSW_def
    EncodeOUTSD_def EncodePOP_Reg16_def EncodePOP_Reg32_def EncodePOP_Mem16_def EncodePOP_Mem32_def
    EncodePOP_Seg_def EncodePOPA_def EncodePOPF_def EncodePUSH_Reg16_def EncodePUSH_Reg32_def
    EncodePUSH_Mem16_def EncodePUSH_Mem32_def EncodePUSH_Imm8_def EncodePUSH_Seg_def EncodePUSHA_def
    EncodePUSHF_def EncodeRDMSR_def EncodeRDTSC_def EncodeRET_Near_def EncodeRET_Imm16Near_def EncodeRET_Far_def
    EncodeRET_Imm16Far_def EncodeRDPMC_def EncodeRSM_def EncodeSETcc_Reg8_def EncodeSETcc_Mem8_def EncodeSAHF_def
    EncodeSCANSB_def EncodeSCANSW_def Let_def
  by (intro runs_code)+

lemma runs_b3 [runs_code]:
  "runs EncodeSCANSD" "runs (EncodeSGDT_Mem1632 b1 b2 b3 w4)" "runs (EncodeSIDT_Mem1632 b1 b2 b3 w4)"
  "runs (EncodeSLDT_Reg16 b1)" "runs (EncodeSLDT_Mem16 b1 b2 b3 w4)" "runs (EncodeSMSW_Reg16 b1)"
  "runs (EncodeSMSW_Reg32 b1)" "runs (EncodeSMSW_Mem16 b1 b2 b3 w4)" "runs EncodeSTC" "runs EncodeSTD"
  "runs EncodeSTI" "runs EncodeSTOSB" "runs EncodeSTOSW" "runs EncodeSTOSD" "runs (EncodeSTR_Reg16 b1)"
  "runs (EncodeSTR_Mem16 b1 b2 b3 w4)" "runs (EncodeVERR_Reg16 b1)" "runs (EncodeVERR_Mem16 b1 b2 w3 w4)"
  "runs (EncodeVERW_Reg16 b1)" "runs (EncodeVERW_Mem16 b1 b2 w3 w4)" "runs EncodeWAIT" "runs EncodeWBINVD"
  "runs EncodeWRMSR" "runs (EncodeXCHG_Acc16_Reg16 b1)" "runs (EncodeXCHG_Reg16_Acc16 b1)"
  "runs (EncodeXCHG_Reg8_Reg8 b1 b2)" "runs (EncodeXCHG_Reg16_Reg16 b1 b2)"
  "runs (EncodeXCHG_Mem8_Reg8 b1 b2 w3 b4 b5)" "runs (EncodeXCHG_Mem16_Reg16 b1 b2 w3 b4 b5)"
  "runs (EncodeXCHG_Reg8_Mem8 b1 b2 b3 w4 b5)" "runs (EncodeXCHG_Reg16_Mem16 b1 b2 b3 w4 b5)"
  "runs EncodeXLAT"
  unfolding EncodeSCANSD_def EncodeSGDT_Mem1632_def EncodeSIDT_Mem1632_def EncodeSLDT_Reg16_def EncodeSLDT_Mem16_def
    EncodeSMSW_Reg16_def EncodeSMSW_Reg32_def EncodeSMSW_Mem16_def EncodeSTC_def EncodeSTD_def EncodeSTI_def
    EncodeSTOSB_def EncodeSTOSW_def EncodeSTOSD_def EncodeSTR_Reg16_def EncodeSTR_Mem16_def EncodeVERR_Reg16_def
    EncodeVERR_Mem16_def EncodeVERW_Reg16_def EncodeVERW_Mem16_def EncodeWAIT_def EncodeWBINVD_def
    EncodeWRMSR_def EncodeXCHG_Acc16_Reg16_def EncodeXCHG_Reg16_Acc16_def EncodeXCHG_Reg8_Reg8_def
    EncodeXCHG_Reg16_Reg16_def EncodeXCHG_Mem8_Reg8_def EncodeXCHG_Mem16_Reg16_def EncodeXCHG_Reg8_Mem8_def
    EncodeXCHG_Reg16_Mem16_def EncodeXLAT_def Let_def
  by (intro runs_code)+

lemma runs_c1 [runs_code]:
  "runs (EncodeCALL_Near_Rel16 w1)" "runs (EncodeCALL_Near_Rel32 w1)"
  "runs (EncodeCALL_Near_Mem16 b1 b2 w3 w4)" "runs (EncodeCALL_Near_Mem32 b1 b2 w3 w4)"
  "runs (EncodeCALL_Far_Ptr1616 w1 w2)" "runs (EncodeCALL_Far_Ptr1632 w1 w2)"
  "runs (Encode_CALL_Far_Mem1616 b1 b2 w3 w4)" "runs (Encode_CALL_Far_Mem1632 b1 b2 w3 w4)"
  "runs (EncodeJcc_SHORT b1 b2)" "runs (EncodeJMP_Near_Rel8 w1)" "runs (EncodeJMP_Near_Rel16 w1)"
  "runs (EncodeJMP_Near_Rel32 w1)" "runs (EncodeJMP_Near_Mem16 b1 b2 w3 w4)"
  "runs (EncodeJMP_Near_Mem32 b1 b2 w3 w4)" "runs (EncodeJMP_Far_Ptr1616 w1 w2)"
  "runs (EncodeJMP_Far_Ptr1632 w1 w2)" "runs (Encode_JMP_Far_Mem1616 b1 b2 w3 w4)"
  "runs (Encode_JMP_Far_Mem1632 b1 b2 w3 w4)" "runs (EncodeJCXZ_SHORT b1)" "runs (EncodeJECXZ_SHORT b1)"
  "runs (EncodeLOOP_SHORT b1)" "runs (EncodeLOOPZ_SHORT b1)" "runs (EncodeLOOPNZ_SHORT b1)"
  "runs EncodeF2XM1" "runs EncodeFABS" "runs (EncodeFBLD_Mem80 b1 b2 w3 w4)"
  "runs (EncodeFBSTP_Mem80 b1 b2 w3 w4)" "runs EncodeFCHS" "runs EncodeFCLEX" "runs EncodeFNCLEX"
  "runs (EncodeFCOM_ST0_Mem32 b1 b2 w3 w4)" "runs (EncodeFCOM_ST0_Mem64 b1 b2 w3 w4)"
  "runs (EncodeFCOM_ST0_STi b1)" "runs (EncodeFCOMP_ST0_Mem32 b1 b2 w3 w4)"
  "runs (EncodeFCOMP_ST0_Mem64 b1 b2 w3 w4)" "runs (EncodeFCOMP_ST0_STi b1)" "runs EncodeFCOMPP_ST0_ST1"
  "runs (EncodeFCOMI_ST0_STi b1)" "runs (EncodeFCOMIP_ST0_STi b1)" "runs (EncodeFUCOMI_ST0_STi b1)"
  unfolding EncodeCALL_Near_Rel16_def EncodeCALL_Near_Rel32_def EncodeCALL_Near_Mem16_def EncodeCALL_Near_Mem32_def
    EncodeCALL_Far_Ptr1616_def EncodeCALL_Far_Ptr1632_def Encode_CALL_Far_Mem1616_def Encode_CALL_Far_Mem1632_def
    EncodeJcc_SHORT_def EncodeJMP_Near_Rel8_def EncodeJMP_Near_Rel16_def EncodeJMP_Near_Rel32_def
    EncodeJMP_Near_Mem16_def EncodeJMP_Near_Mem32_def EncodeJMP_Far_Ptr1616_def EncodeJMP_Far_Ptr1632_def
    Encode_JMP_Far_Mem1616_def Encode_JMP_Far_Mem1632_def EncodeJCXZ_SHORT_def EncodeJECXZ_SHORT_def
    EncodeLOOP_SHORT_def EncodeLOOPZ_SHORT_def EncodeLOOPNZ_SHORT_def EncodeF2XM1_def EncodeFABS_def
    EncodeFBLD_Mem80_def EncodeFBSTP_Mem80_def EncodeFCHS_def EncodeFCLEX_def EncodeFNCLEX_def
    EncodeFCOM_ST0_Mem32_def EncodeFCOM_ST0_Mem64_def EncodeFCOM_ST0_STi_def EncodeFCOMP_ST0_Mem32_def
    EncodeFCOMP_ST0_Mem64_def EncodeFCOMP_ST0_STi_def EncodeFCOMPP_ST0_ST1_def EncodeFCOMI_ST0_STi_def
    EncodeFCOMIP_ST0_STi_def EncodeFUCOMI_ST0_STi_def Let_def
  by (intro runs_code)+

lemma runs_c2 [runs_code]:
  "runs (EncodeFUCOMIP_ST0_STi b1)" "runs EncodeFCOS" "runs EncodeFDECSTP" "runs (EncodeFFREE_STi b1)"
  "runs (EncodeFICOM_MEM16 b1 b2 w3 w4)" "runs (EncodeFICOM_MEM32 b1 b2 w3 w4)"
  "runs (EncodeFICOMP_MEM16 b1 b2 w3 w4)" "runs (EncodeFICOMP_MEM32 b1 b2 w3 w4)"
  "runs (EncodeFILD_MEM16 b1 b2 w3 w4)" "runs (EncodeFILD_MEM32 b1 b2 w3 w4)"
  "runs (EncodeFILD_MEM64 b1 b2 w3 w4)" "runs EncodeFINCSTP" "runs EncodeFINIT" "runs EncodeFNINIT"
  "runs (EncodeFIST_MEM16 b1 b2 w3 w4)" "runs (EncodeFIST_MEM32 b1 b2 w3 w4)"
  "runs (EncodeFISTP_MEM16 b1 b2 w3 w4)" "runs (EncodeFISTP_MEM32 b1 b2 w3 w4)"
  "runs (EncodeFISTP_MEM64 b1 b2 w3 w4)" "runs (EncodeFISTTP_MEM16 b1 b2 w3 w4)"
  "runs (EncodeFISTTP_MEM32 b1 b2 w3 w4)" "runs (EncodeFISTTP_MEM64 b1 b2 w3 w4)"
  "runs (EncodeFLD_MEM32 b1 b2 w3 w4)" "runs (EncodeFLD_MEM64 b1 b2 w3 w4)"
  "runs (EncodeFLD_MEM80 b1 b2 w3 w4)" "runs (EncodeFLD_STi b1)" "runs EncodeFLD1" "runs EncodeFLDL2T"
  "runs EncodeFLDL2E" "runs EncodeFLDPI" "runs EncodeFLDLG2" "runs EncodeFLDLN2" "runs EncodeFLDZ"
  "runs (EncodeFLDCW_MEM b1 b2 w3 w4)" "runs (EncodeFLDENV_MEM b1 b2 w3 w4)" "runs EncodeFNOP"
  "runs EncodeFPATAN" "runs EncodeFPREM" "runs EncodeFPREM1" "runs EncodeFPTAN"
  unfolding EncodeFUCOMIP_ST0_STi_def EncodeFCOS_def EncodeFDECSTP_def EncodeFFREE_STi_def EncodeFICOM_MEM16_def
    EncodeFICOM_MEM32_def EncodeFICOMP_MEM16_def EncodeFICOMP_MEM32_def EncodeFILD_MEM16_def EncodeFILD_MEM32_def
    EncodeFILD_MEM64_def EncodeFINCSTP_def EncodeFINIT_def EncodeFNINIT_def EncodeFIST_MEM16_def
    EncodeFIST_MEM32_def EncodeFISTP_MEM16_def EncodeFISTP_MEM32_def EncodeFISTP_MEM64_def EncodeFISTTP_MEM16_def
    EncodeFISTTP_MEM32_def EncodeFISTTP_MEM64_def EncodeFLD_MEM32_def EncodeFLD_MEM64_def EncodeFLD_MEM80_def
    EncodeFLD_STi_def EncodeFLD1_def EncodeFLDL2T_def EncodeFLDL2E_def EncodeFLDPI_def EncodeFLDLG2_def
    EncodeFLDLN2_def EncodeFLDZ_def EncodeFLDCW_MEM_def EncodeFLDENV_MEM_def EncodeFNOP_def EncodeFPATAN_def
    EncodeFPREM_def EncodeFPREM1_def EncodeFPTAN_def Let_def
  by (intro runs_code)+

lemma runs_c3 [runs_code]:
  "runs EncodeFRNDINT" "runs (EncodeFRSTOR_MEM b1 b2 w3 w4)" "runs (EncodeFSAVE_MEM b1 b2 w3 w4)"
  "runs (EncodeFNSAVE_MEM b1 b2 w3 w4)" "runs EncodeFSCALE" "runs EncodeFSIN" "runs EncodeFSINCOS"
  "runs EncodeFSQRT" "runs (EncodeFST_MEM32 b1 b2 w3 w4)" "runs (EncodeFST_MEM64 b1 b2 w3 w4)"
  "runs (EncodeFST_STi b1)" "runs (EncodeFSTP_MEM32 b1 b2 w3 w4)" "runs (EncodeFSTP_MEM64 b1 b2 w3 w4)"
  "runs (EncodeFSTP_MEM80 b1 b2 w3 w4)" "runs (EncodeFSTP_STi b1)" "runs (EncodeFSTCW_MEM b1 b2 w3 w4)"
  "runs (EncodeFNSTCW_MEM b1 b2 w3 w4)" "runs (EncodeFSTENV_MEM b1 b2 w3 w4)"
  "runs (EncodeFNSTENV_MEM b1 b2 w3 w4)" "runs (EncodeFSTSW_MEM b1 b2 w3 w4)" "runs EncodeFSTSW_AX"
  "runs (EncodeFNSTSW_MEM b1 b2 w3 w4)" "runs EncodeFNSTSW_AX" "runs EncodeFTST" "runs (EncodeFUCOM_STi b1)"
  "runs (EncodeFUCOMP_STi b1)" "runs EncodeFUCOMPP" "runs EncodeFXAM" "runs (EncodeFXCH_STi b1)"
  "runs (EncodeFXRSTOR_MEM b1 b2 w3 w4)" "runs (EncodeFXSAVE_MEM b1 b2 w3 w4)" "runs EncodeFXTRACT"
  "runs EncodeFYL2X" "runs EncodeFYL2XP1"
  unfolding EncodeFRNDINT_def EncodeFRSTOR_MEM_def EncodeFSAVE_MEM_def EncodeFNSAVE_MEM_def EncodeFSCALE_def
    EncodeFSIN_def EncodeFSINCOS_def EncodeFSQRT_def EncodeFST_MEM32_def EncodeFST_MEM64_def EncodeFST_STi_def
    EncodeFSTP_MEM32_def EncodeFSTP_MEM64_def EncodeFSTP_MEM80_def EncodeFSTP_STi_def EncodeFSTCW_MEM_def
    EncodeFNSTCW_MEM_def EncodeFSTENV_MEM_def EncodeFNSTENV_MEM_def EncodeFSTSW_MEM_def EncodeFSTSW_AX_def
    EncodeFNSTSW_MEM_def EncodeFNSTSW_AX_def EncodeFTST_def EncodeFUCOM_STi_def EncodeFUCOMP_STi_def
    EncodeFUCOMPP_def EncodeFXAM_def EncodeFXCH_STi_def EncodeFXRSTOR_MEM_def EncodeFXSAVE_MEM_def
    EncodeFXTRACT_def EncodeFYL2X_def EncodeFYL2XP1_def Let_def
  by (intro runs_code)+

lemma runs_macros [runs_code]:
  "runs (EncodeALU_Reg8_Reg8 w1 b2 b3)" "runs (EncodeALU_Reg16_Reg16 w1 b2 b3)"
  "runs (EncodeALU_Reg32_Reg32 w1 b2 b3)" "runs (EncodeALU_Mem8_Reg8 w1 b2 b3 w4 w5 b6)"
  "runs (EncodeALU_Mem16_Reg16 w1 b2 b3 w4 w5 b6)" "runs (EncodeALU_Mem32_Reg32 w1 b2 b3 w4 w5 b6)"
  "runs (EncodeALU_Reg8_Mem8 w1 b2 b3 b4 w5 w6)" "runs (EncodeALU_Reg16_Mem16 w1 b2 b3 b4 w5 w6)"
  "runs (EncodeALU_Reg32_Mem32 w1 b2 b3 b4 w5 w6)" "runs (EncodeALU_Acc8_Imm8 w1 b2)"
  "runs (EncodeALU_Acc16_Imm16 w1 w2)" "runs (EncodeALU_Acc32_Imm32 w1 w2)"
  "runs (EncodeALU_Reg8_Imm8 w1 b2 b3)" "runs (EncodeALU_Reg16_Imm16 w1 b2 w3)"
  "runs (EncodeALU_Reg32_Imm32 w1 b2 w3)" "runs (EncodeALU_Mem8_Imm8 w1 b2 b3 w4 w5 b6)"
  "runs (EncodeALU_Mem16_Imm16 w1 b2 b3 w4 w5 w6)" "runs (EncodeALU_Mem32_Imm32 w1 b2 b3 w4 w5 w6)"
  "runs (EncodeShift_Reg8_1 w1 b2)" "runs (EncodeShift_Reg16_1 w1 b2)" "runs (EncodeShift_Reg32_1 w1 b2)"
  "runs (EncodeShift_Mem8_1 w1 b2 b3 w4 w5)" "runs (EncodeShift_Mem16_1 w1 b2 b3 w4 w5)"
  "runs (EncodeShift_Mem32_1 w1 b2 b3 w4 w5)" "runs (EncodeShift_Reg8_CL w1 b2)"
  "runs (EncodeShift_Reg16_CL w1 b2)" "runs (EncodeShift_Reg32_CL w1 b2)"
  "runs (EncodeShift_Mem8_CL w1 b2 b3 w4 w5)" "runs (EncodeShift_Mem16_CL w1 b2 b3 w4 w5)"
  "runs (EncodeShift_Mem32_CL w1 b2 b3 w4 w5)" "runs (EncodeSHxD_Reg16_Reg16_Imm8 w1 b2 b3 w4)"
  "runs (EncodeSHxD_Reg32_Reg32_Imm8 w1 b2 b3 w4)" "runs (EncodeSHxD_Mem16_Reg16_Imm8 w1 b2 b3 w4 w5 b6 w7)"
  "runs (EncodeSHxD_Mem32_Reg32_Imm8 w1 b2 b3 w4 w5 b6 w7)" "runs (EncodeSHxD_Reg16_Reg16_CL w1 b2 b3)"
  "runs (EncodeSHxD_Reg32_Reg32_CL w1 b2 b3)" "runs (EncodeSHxD_Mem16_Reg16_CL w1 b2 b3 w4 w5 b6)"
  "runs (EncodeSHxD_Mem32_Reg32_CL w1 b2 b3 w4 w5 b6)" "runs (EncodeFArith_Mem32 w1 b2 b3 w4 w5)"
  "runs (EncodeFArith_Mem64 w1 b2 b3 w4 w5)" "runs (EncodeFArith_ST0_STi w1 b2)"
  "runs (EncodeFArith_STi_ST0 w1 b2)" "runs (EncodeFArithP_STi_ST0 w1 b2)"
  "runs (EncodeFArithI_Mem32 w1 b2 b3 w4 w5)" "runs (EncodeFArithI_Mem16 w1 b2 b3 w4 w5)"
  "runs (EncodeFCMOVcc_ST0_STi w1 b2)"
  unfolding EncodeALU_Reg8_Reg8_def EncodeALU_Reg16_Reg16_def EncodeALU_Reg32_Reg32_def EncodeALU_Mem8_Reg8_def
    EncodeALU_Mem16_Reg16_def EncodeALU_Mem32_Reg32_def EncodeALU_Reg8_Mem8_def EncodeALU_Reg16_Mem16_def
    EncodeALU_Reg32_Mem32_def EncodeALU_Acc8_Imm8_def EncodeALU_Acc16_Imm16_def EncodeALU_Acc32_Imm32_def
    EncodeALU_Reg8_Imm8_def EncodeALU_Reg16_Imm16_def EncodeALU_Reg32_Imm32_def EncodeALU_Mem8_Imm8_def
    EncodeALU_Mem16_Imm16_def EncodeALU_Mem32_Imm32_def EncodeShift_Reg8_1_def EncodeShift_Reg16_1_def
    EncodeShift_Reg32_1_def EncodeShift_Mem8_1_def EncodeShift_Mem16_1_def EncodeShift_Mem32_1_def
    EncodeShift_Reg8_CL_def EncodeShift_Reg16_CL_def EncodeShift_Reg32_CL_def EncodeShift_Mem8_CL_def
    EncodeShift_Mem16_CL_def EncodeShift_Mem32_CL_def EncodeSHxD_Reg16_Reg16_Imm8_def
    EncodeSHxD_Reg32_Reg32_Imm8_def EncodeSHxD_Mem16_Reg16_Imm8_def EncodeSHxD_Mem32_Reg32_Imm8_def
    EncodeSHxD_Reg16_Reg16_CL_def EncodeSHxD_Reg32_Reg32_CL_def EncodeSHxD_Mem16_Reg16_CL_def
    EncodeSHxD_Mem32_Reg32_CL_def EncodeFArith_Mem32_def EncodeFArith_Mem64_def EncodeFArith_ST0_STi_def
    EncodeFArith_STi_ST0_def EncodeFArithP_STi_ST0_def EncodeFArithI_Mem32_def EncodeFArithI_Mem16_def
    EncodeFCMOVcc_ST0_STi_def Let_def
  by (intro runs_code)+

end
