(* ===== verification/Iasm_Parser_Steps.thy ===== *)
theory Iasm_Parser_Steps
  imports Iasm_Parser Iasm_Steps
begin

text \<open>
  The assembler as a state machine: whatever a statement does, it does in steps of six kinds, reading a
  token, a step of the encoder and four assignments; the symbols change in the first two passes only.  Hence an invariant of the steps holds for every
  statement and for the loop of \<^verbatim>\<open>_Parse\<close>.
\<close>

section \<open>Steps\<close>

inductive asm_step :: "asm \<Rightarrow> asm \<Rightarrow> bool" where
  token: "GET_TOKEN s = Some (Inr (t, s')) \<Longrightarrow> asm_step s s'"
| peek: "asm_step s (s\<lparr>a_CurrentLine := n\<rparr>)"
| code: "enc_step (a_enc s) e \<Longrightarrow> asm_step s (s\<lparr>a_enc := e\<rparr>)"
| symbols: "length (a_Symbols s) \<noteq> MAX_SYMBOL_COUNT \<Longrightarrow> length xs \<le> Suc (length (a_Symbols s)) \<Longrightarrow>
    a_CurrentOperation s = OPT_SCAN \<or> a_CurrentOperation s = OPT_SCAN1 \<Longrightarrow> asm_step s (s\<lparr>a_Symbols := xs\<rparr>)"
| stack: "asm_step s (s\<lparr>a_stack := f\<rparr>)"
| peeked: "asm_step s (s\<lparr>a_peeked := ps\<rparr>)"

definition walks :: "'a asm_m \<Rightarrow> bool" where
  "walks m = (\<forall>s x s'. m s = Some (Inr (x, s')) \<longrightarrow> asm_step\<^sup>*\<^sup>* s s')"

named_theorems walks_code

lemma walksI: "(\<And>s x s'. m s = Some (Inr (x, s')) \<Longrightarrow> asm_step\<^sup>*\<^sup>* s s') \<Longrightarrow> walks m"
  by (simp add: walks_def)

lemma walksD: "walks m \<Longrightarrow> m s = Some (Inr (x, s')) \<Longrightarrow> asm_step\<^sup>*\<^sup>* s s'"
  by (simp add: walks_def)

lemma walks_ret [walks_code]: "walks (ret x)" "walks (\<lambda>s. ret (f s) s)"
  by (auto simp: walks_def ret_def)

lemma walks_failure [walks_code]: "walks (Error msg)" "walks (ERROR msg)" "walks undefined_behaviour" "walks InvalidInstruction"
  by (auto simp: walks_def Error_def ERROR_def undefined_behaviour_def InvalidInstruction_def)

lemma bnd_Some:
  assumes "bnd m k s = Some (Inr (y, s'))"
  obtains x t where "m s = Some (Inr (x, t))" "k x t = Some (Inr (y, s'))"
  using assms by (auto simp: bnd_def split: option.splits sum.splits)

lemma walks_bnd [walks_code]:
  assumes "walks m" "\<And>x. walks (k x)"
  shows "walks (bnd m k)"
proof (rule walksI)
  fix s y s'
  assume "bnd m k s = Some (Inr (y, s'))"
  then obtain x t where "m s = Some (Inr (x, t))" "k x t = Some (Inr (y, s'))"
    by (rule bnd_Some)
  with assms show "asm_step\<^sup>*\<^sup>* s s'"
    by (meson walksD rtranclp_trans)
qed

lemma walks_if [walks_code]: "walks m \<Longrightarrow> walks m' \<Longrightarrow> walks (if b then m else m')"
  by simp

lemma walks_cases [walks_code]:
  "(\<And>x y z. walks (k x y z)) \<Longrightarrow> walks (case t of (x, y, z) \<Rightarrow> k x y z)"
  "walks m \<Longrightarrow> (\<And>x. walks (l x)) \<Longrightarrow> walks (case v of None \<Rightarrow> m | Some x \<Rightarrow> l x)"
  by (simp_all split: prod.split option.split)

lemma walks_state: "(\<And>t. walks (m t)) \<Longrightarrow> walks (\<lambda>s. m s s)"
  by (simp add: walks_def)

lemma walks_andalso [walks_code]: "walks m \<Longrightarrow> walks (andalso b m)"
  by (simp add: andalso_def walks_ret)

lemma walks_step:
  assumes "\<And>s x s'. m s = Some (Inr (x, s')) \<Longrightarrow> asm_step s s'"
  shows "walks m"
  using assms by (auto simp: walks_def)

lemma walks_token [walks_code]: "walks GET_TOKEN" "walks PEEK_TOKEN"
  by (rule walks_step, erule asm_step.token)
    (auto intro!: walks_step asm_step.peek simp: PEEK_TOKEN_def split: option.splits sum.splits)

lemma enc_steps_asm_steps: "enc_step\<^sup>*\<^sup>* e e' \<Longrightarrow> a_enc s = e \<Longrightarrow> asm_step\<^sup>*\<^sup>* s (s\<lparr>a_enc := e'\<rparr>)"
proof (induction rule: rtranclp_induct)
  case base
  then have "s\<lparr>a_enc := e\<rparr> = s" by simp
  then show ?case by simp
next
  case (step e' e'')
  have "asm_step (s\<lparr>a_enc := e'\<rparr>) (s\<lparr>a_enc := e'\<rparr>\<lparr>a_enc := e''\<rparr>)"
    using step(2) by (intro asm_step.code) simp
  then have "asm_step (s\<lparr>a_enc := e'\<rparr>) (s\<lparr>a_enc := e''\<rparr>)"
    by simp
  with step(3) [OF step(4)] show ?case by (rule rtranclp.rtrancl_into_rtrancl)
qed

lemma walks_emit [walks_code]: "runs m \<Longrightarrow> walks (emit m)"
  by (auto intro!: walksI enc_steps_asm_steps dest: runsD simp: emit_def split: option.splits sum.splits)

section \<open>Operands\<close>

text \<open>Reading an operand leaves the state as it is, but for the calls of \<open>GetMem\<close>.\<close>

lemma walks_CheckLabelName [walks_code]: "walks (CheckLabelName Name)"
  by (auto simp: walks_def CheckLabelName_def Error_def ret_def)

lemma CheckLabelName_Some:
  "CheckLabelName Name s = Some (Inr (x, s')) \<Longrightarrow> s' = s \<and> length (a_Symbols s) \<noteq> MAX_SYMBOL_COUNT"
  by (auto simp: CheckLabelName_def Error_def ret_def split: if_splits)

lemma walks_labels [walks_code]: "walks (HasLabel Name)" "walks (GetLabelOffsetFromSTable Name)"
  unfolding HasLabel_def GetLabelOffsetFromSTable_def
  by (intro walks_code)+

lemma walks_GetLabel [walks_code]: "walks (GetLabel Name)"
proof (rule walksI)
  fix s x s'
  assume "GetLabel Name s = Some (Inr (x, s'))"
  moreover have "walks (bnd (bnd (andalso (a_CurrentOperation s = OPT_SCAN) (HasLabel Name))
      (\<lambda>has. ret (a_CurrentOperation s = OPT_SCAN \<and> \<not> has)))
    (\<lambda>forward. if forward then ret 0
      else bnd (GetLabelOffsetFromSTable Name) (\<lambda>v.
        case v of Some Value \<Rightarrow> ret Value | None \<Rightarrow> ERROR ''Unknown label.'')))"
    by (intro walks_code)
  ultimately show "asm_step\<^sup>*\<^sup>* s s'"
    unfolding GetLabel_def by (rule walksD [rotated])
qed

lemma walks_Number [walks_code]: "walks (Number S)"
  unfolding Number_def Let_def
  by (intro walks_code)

definition walks_cexpr :: "cexpr \<Rightarrow> bool" where "walks_cexpr e = (\<forall>ts. walks (e ts))"

lemma walks_cexprI: "(\<And>ts. walks (e ts)) \<Longrightarrow> walks_cexpr e"
  by (simp add: walks_cexpr_def)

lemma walks_pair: "(\<And>v ts. walks (k v ts)) \<Longrightarrow> walks (case x of (v, ts) \<Rightarrow> k v ts)"
  by (simp split: prod.split)

lemma walks_cexpr_loop: "walks_cexpr right \<Longrightarrow> walks (cexpr_loop n oprs right v ts)"
proof (induction n arbitrary: v ts)
  case 0
  then show ?case by (simp add: walks_code)
next
  case (Suc n)
  then have "walks (right ts)" for ts
    by (simp add: walks_cexpr_def)
  then show ?case
    by (auto split: list.split option.split intro!: walks_code walks_pair Suc.IH [OF Suc.prems])
qed

lemma walks_CalcCExpr: "walks_cexpr (CalcCExpr n)"
proof (induction n)
  case 0
  then show ?case by (simp add: walks_cexpr_def walks_code)
next
  case (Suc n)
  have loop: "walks_cexpr r \<Longrightarrow> walks_cexpr l \<Longrightarrow> walks (bnd (l ts) (\<lambda>(v, ts). while_operator oprs r v ts))" for r l oprs ts
    unfolding while_operator_def
    by (intro walks_code walks_pair walks_cexpr_loop) (auto simp: walks_cexpr_def)
  have "walks_cexpr (CalcCExpr_Parentheses (CalcCExpr n))"
    using Suc by (auto simp: walks_cexpr_def CalcCExpr_Parentheses_def CalcCExpr_Atom_def split: list.split
      intro!: walks_code walks_pair)
  then have unary: "walks_cexpr (CalcCExpr_Unary (CalcCExpr_Parentheses (CalcCExpr n)))" (is "walks_cexpr ?unary")
    by (auto simp: walks_cexpr_def CalcCExpr_Unary_def split: list.split intro!: walks_code walks_pair)
  have pow: "walks_cexpr (CalcCExpr_Pow ?unary)" (is "walks_cexpr ?pow")
  proof (intro walks_cexprI walksI)
    fix ts s x s'
    assume "CalcCExpr_Pow ?unary ts s = Some (Inr (x, s'))"
    then show "asm_step\<^sup>*\<^sup>* s s'"
      unfolding CalcCExpr_Pow_def by (rule walksD [OF loop [OF unary unary]])
  qed
  have mul: "walks_cexpr (CalcCExpr_Mul_Div_Mod ?pow)" (is "walks_cexpr ?mul")
    by (intro walks_cexprI, unfold CalcCExpr_Mul_Div_Mod_def) (intro loop pow)
  have add: "walks_cexpr (CalcCExpr_Add_Sub ?mul)"
    by (intro walks_cexprI, unfold CalcCExpr_Add_Sub_def) (intro loop mul)
  have shift: "walks_cexpr (CalcCExpr_Shift (CalcCExpr_Add_Sub ?mul) ?mul)"
    by (intro walks_cexprI, unfold CalcCExpr_Shift_def) (intro loop mul add)
  show ?case
    by (intro walks_cexprI, unfold CalcCExpr.simps Let_def CalcCExpr_And_Or_Xor_def) (intro loop shift)
qed

lemma walks_GetCExprResult [walks_code]: "walks (GetCExprResult CExpr)"
  using walks_CalcCExpr
  by (auto simp: GetCExprResult_def walks_cexpr_def split: sum.split intro!: walks_code walks_pair simp del: CalcCExpr.simps)

lemma walks_GetConstant [walks_code]: "walks (GetConstant S)" "walks (IsImm8 S)" "walks (IsImm16 S)" "walks (IsImm32 S)"
  unfolding GetConstant_def IsImm8_def IsImm16_def IsImm32_def
  by (intro walks_code)+

lemma walks_GetReg [walks_code]: "walks (GetReg S)"
  unfolding GetReg_def
  by (intro walks_code)

lemma walks_IsSeg [walks_code]: "walks (IsSeg S)"
  unfolding IsSeg_def
  by (simp split: list.split add: walks_code)

lemma walks_ExpectComma [walks_code]: "walks (ExpectComma S)"
  unfolding ExpectComma_def
  by (intro walks_code)

lemma walks_GetMem [walks_code]: "walks (GetMem Mem)"
proof (rule walksI)
  fix s x s'
  assume "GetMem Mem s = Some (Inr (x, s'))"
  then obtain T n where "mem_operands T n (s\<lparr>a_stack := \<lambda>n. a_stack s (Suc n)\<rparr>) = Some (Inr (x, s'))"
    by (auto simp: GetMem_def ERROR_def split: sum.splits if_splits)
  moreover have "walks (mem_operands T n)"
    unfolding mem_operands_def Let_def
    by (intro walks_code)
  ultimately show "asm_step\<^sup>*\<^sup>* s s'"
    by (rule converse_rtranclp_into_rtranclp [where r = asm_step, OF asm_step.stack walksD, rotated])
qed

section \<open>Statements\<close>

text \<open>What is done in one of the first two passes only.\<close>

definition walks_in :: "operation \<Rightarrow> 'a asm_m \<Rightarrow> bool" where
  "walks_in opt m = (\<forall>s x s'. a_CurrentOperation s = opt \<longrightarrow> m s = Some (Inr (x, s')) \<longrightarrow> asm_step\<^sup>*\<^sup>* s s')"

lemma asm_step_operation: "asm_step s s' \<Longrightarrow> a_CurrentOperation s' = a_CurrentOperation s"
  by (induction rule: asm_step.induct) (auto simp: GET_TOKEN_def split: option.splits sum.splits)

lemma asm_steps_operation: "asm_step\<^sup>*\<^sup>* s s' \<Longrightarrow> a_CurrentOperation s' = a_CurrentOperation s"
  by (induction rule: rtranclp_induct) (simp_all add: asm_step_operation)

lemma walks_in_walks: "walks m \<Longrightarrow> walks_in opt m"
  by (simp add: walks_in_def walks_def)

lemma walks_in_bnd:
  assumes "walks_in opt m" "\<And>x. walks_in opt (k x)"
  shows "walks_in opt (bnd m k)"
  unfolding walks_in_def
proof (intro allI impI)
  fix s y s'
  assume opt: "a_CurrentOperation s = opt" and run: "bnd m k s = Some (Inr (y, s'))"
  from run obtain x t where step: "m s = Some (Inr (x, t))" "k x t = Some (Inr (y, s'))"
    by (rule bnd_Some)
  with opt assms(1) have walk: "asm_step\<^sup>*\<^sup>* s t"
    by (simp add: walks_in_def)
  then have "a_CurrentOperation t = opt"
    using opt by (simp add: asm_steps_operation)
  with step(2) assms(2) [of x] have "asm_step\<^sup>*\<^sup>* t s'"
    by (simp add: walks_in_def)
  with walk show "asm_step\<^sup>*\<^sup>* s s'"
    by (rule rtranclp_trans)
qed

lemma walks_in_if: "walks_in opt m \<Longrightarrow> walks_in opt m' \<Longrightarrow> walks_in opt (if b then m else m')"
  by simp

lemma walks_in_AddLabel: "opt = OPT_SCAN \<or> opt = OPT_SCAN1 \<Longrightarrow> walks_in opt (AddLabelToSTable Name Off)"
  by (auto intro!: r_into_rtranclp asm_step.symbols elim!: bnd_Some dest!: CheckLabelName_Some
    simp: AddLabelToSTable_def walks_in_def)

lemma walks_in_SetLabel: "walks_in OPT_SCAN1 (SetLabelToSTable Name Off)"
  unfolding walks_in_def
proof (intro allI impI)
  fix s x s'
  assume opt: "a_CurrentOperation s = OPT_SCAN1" and "SetLabelToSTable Name Off s = Some (Inr (x, s'))"
  then have "length (a_Symbols s) \<noteq> MAX_SYMBOL_COUNT" "AddLabelToSTable Name Off s = Some (Inr (x, s')) \<or>
      s' = s\<lparr>a_Symbols := map (\<lambda>(n, off). if n = Name then (n, Off) else (n, off)) (a_Symbols s)\<rparr>"
    by (auto simp: SetLabelToSTable_def HasLabel_def ret_def elim!: bnd_Some dest!: CheckLabelName_Some split: if_splits)
  then consider "AddLabelToSTable Name Off s = Some (Inr (x, s'))" | "length (a_Symbols s) \<noteq> MAX_SYMBOL_COUNT"
    "s' = s\<lparr>a_Symbols := map (\<lambda>(n, off). if n = Name then (n, Off) else (n, off)) (a_Symbols s)\<rparr>"
    by blast
  then show "asm_step\<^sup>*\<^sup>* s s'"
  proof cases
    case 1
    then show ?thesis
      using opt walks_in_AddLabel [of OPT_SCAN1 Name Off] by (simp add: walks_in_def)
  next
    case 2
    then show ?thesis
      using opt by (intro r_into_rtranclp) (simp add: asm_step.symbols)
  qed
qed

lemma walks_in_pass [walks_code]:
  assumes "walks_in pass m"
  shows "walks (bnd get_operation (\<lambda>opt. if opt = pass then m else ret ()))"
  using assms by (auto simp: walks_def walks_in_def bnd_def get_operation_def ret_def split: if_splits)

lemma walks_parts [walks_code]: "walks get_pos" "walks (set_result r v)"
  unfolding get_pos_def [abs_def] set_result_def
  by (intro walks_code walks_in_SetLabel)+

lemma walks_parse_data [walks_code]: "(\<And>w. runs (f w)) \<Longrightarrow> walks (parse_data f)"
  unfolding parse_data_def
  by (intro walks_code)

definition walks_all :: "(string \<times> unit asm_m) list \<Rightarrow> bool" where "walks_all tab = (\<forall>e \<in> set tab. walks (snd e))"

named_theorems walks_tables

lemma walks_all_intros [walks_tables]:
  "walks_all []" "walks m \<Longrightarrow> walks_all tab \<Longrightarrow> walks_all ((n, m) # tab)"
  "walks_all tab \<Longrightarrow> walks_all tab' \<Longrightarrow> walks_all (tab @ tab')" "(\<And>x. walks_all (f x)) \<Longrightarrow> walks_all (concat (map f xs))"
  by (auto simp: walks_all_def)

lemma walks_OPT [walks_tables]: "walks_all (OPT x)"
  unfolding OPT_def Let_def
  by (intro walks_tables walks_code runs_code)

lemma walks_SHIFT [walks_tables]: "walks_all (SHIFT x)"
  unfolding SHIFT_def Let_def
  by (intro walks_tables walks_code runs_code)

lemma walks_SHxD [walks_tables]: "walks_all (SHxD x)"
  unfolding SHxD_def Let_def
  by (intro walks_tables walks_code runs_code)

lemma walks_FOPT [walks_tables]: "walks_all (FOPT x)"
  unfolding FOPT_def Let_def
  by (intro walks_tables walks_code runs_code)

lemma walks_FCMOVcc [walks_tables]: "walks_all (FCMOVcc x)"
  unfolding FCMOVcc_def Let_def
  by (intro walks_tables walks_code runs_code)

lemma walks_conditions [walks_tables]: "walks_all (JCC ccccs c)" "walks_all (SETCC ccccs c)"
  by (auto simp: walks_all_def JCC_def SETCC_def intro!: walks_code runs_code)

lemma walks_ParseOperator [walks_tables]: "walks_all ParseOperator"
  unfolding ParseOperator_def Let_def
  by (intro walks_tables walks_code runs_code)

lemma walks_ParseShift [walks_tables]: "walks_all ParseShift"
  unfolding ParseShift_def Let_def
  by (intro walks_tables walks_code runs_code)

lemma walks_ParseJcc [walks_tables]: "walks_all ParseJcc"
  unfolding ParseJcc_def Let_def
  by (intro walks_tables walks_code runs_code)

lemma walks_ParseSETcc [walks_tables]: "walks_all ParseSETcc"
  unfolding ParseSETcc_def Let_def
  by (intro walks_tables walks_code runs_code)

lemma walks_Parse_1_a [walks_tables]: "walks_all Parse_1_a"
  unfolding Parse_1_a_def Let_def
  by (intro walks_tables walks_code runs_code)

lemma walks_Parse_1_b [walks_tables]: "walks_all Parse_1_b"
  unfolding Parse_1_b_def Let_def
  by (intro walks_tables walks_code runs_code)

lemma walks_Parse_1_c [walks_tables]: "walks_all Parse_1_c"
  unfolding Parse_1_c_def Let_def
  by (intro walks_tables walks_code runs_code)

lemma walks_Parse_1_d [walks_tables]: "walks_all Parse_1_d"
  unfolding Parse_1_d_def Let_def
  by (intro walks_tables walks_code runs_code)

lemma walks_Parse_1_e [walks_tables]: "walks_all Parse_1_e"
  unfolding Parse_1_e_def Let_def
  by (intro walks_tables walks_code runs_code)

lemma walks_Parse_1_f [walks_tables]: "walks_all Parse_1_f"
  unfolding Parse_1_f_def Let_def
  by (intro walks_tables walks_code runs_code)

lemma walks_Parse_1_g [walks_tables]: "walks_all Parse_1_g"
  unfolding Parse_1_g_def Let_def
  by (intro walks_tables walks_code runs_code)

lemma walks_Parse_1_h [walks_tables]: "walks_all Parse_1_h"
  unfolding Parse_1_h_def Let_def
  by (intro walks_tables walks_code runs_code)

lemma walks_Parse_1_i [walks_tables]: "walks_all Parse_1_i"
  unfolding Parse_1_i_def Let_def
  by (intro walks_tables walks_code runs_code)

lemma walks_Parse_1_j [walks_tables]: "walks_all Parse_1_j"
  unfolding Parse_1_j_def Let_def
  by (intro walks_tables walks_code runs_code)

lemma walks_Parse_1_k [walks_tables]: "walks_all Parse_1_k"
  unfolding Parse_1_k_def Let_def
  by (intro walks_tables walks_code runs_code)

lemma walks_Parse_1 [walks_tables]: "walks_all Parse_1"
  unfolding Parse_1_def Let_def
  by (intro walks_tables walks_code runs_code)

lemma walks_Parse_a [walks_tables]: "walks_all Parse_a"
  unfolding Parse_a_def Let_def
  by (intro walks_tables walks_code runs_code)

lemma walks_Parse_b [walks_tables]: "walks_all Parse_b"
  unfolding Parse_b_def Let_def
  by (intro walks_tables walks_code runs_code)

lemma walks_Parse_c [walks_tables]: "walks_all Parse_c"
  unfolding Parse_c_def Let_def
  by (intro walks_tables walks_code runs_code)

lemma walks_Parse_d [walks_tables]: "walks_all Parse_d"
  unfolding Parse_d_def Let_def
  by (intro walks_tables walks_code runs_code)

lemma walks_Parse_e [walks_tables]: "walks_all Parse_e"
  unfolding Parse_e_def Let_def
  by (intro walks_tables walks_code runs_code)

lemma walks_Parse_f [walks_tables]: "walks_all Parse_f"
  unfolding Parse_f_def Let_def
  by (intro walks_tables walks_code runs_code)

lemma walks_Parse_g [walks_tables]: "walks_all Parse_g"
  unfolding Parse_g_def Let_def
  by (intro walks_tables walks_code runs_code)

lemma walks_Parse_h [walks_tables]: "walks_all Parse_h"
  unfolding Parse_h_def Let_def
  by (intro walks_tables walks_code runs_code)

lemma walks_Parse_i [walks_tables]: "walks_all Parse_i"
  unfolding Parse_i_def Let_def
  by (intro walks_tables walks_code runs_code)

lemma walks_Parse_j [walks_tables]: "walks_all Parse_j"
  unfolding Parse_j_def Let_def
  by (intro walks_tables walks_code runs_code)

lemma walks_Parse_k [walks_tables]: "walks_all Parse_k"
  unfolding Parse_k_def Let_def
  by (intro walks_tables walks_code runs_code)

lemma walks_Parse_l [walks_tables]: "walks_all Parse_l"
  unfolding Parse_l_def Let_def
  by (intro walks_tables walks_code runs_code)

lemma walks_Parse_m [walks_tables]: "walks_all Parse_m"
  unfolding Parse_m_def Let_def
  by (intro walks_tables walks_code runs_code)

lemma walks_Parse_n [walks_tables]: "walks_all Parse_n"
  unfolding Parse_n_def Let_def
  by (intro walks_tables walks_code runs_code)

lemma walks_Parse_o [walks_tables]: "walks_all Parse_o"
  unfolding Parse_o_def Let_def
  by (intro walks_tables walks_code runs_code)

lemma walks_Parse_p [walks_tables]: "walks_all Parse_p"
  unfolding Parse_p_def Let_def
  by (intro walks_tables walks_code runs_code)

lemma walks_Parse_q [walks_tables]: "walks_all Parse_q"
  unfolding Parse_q_def Let_def
  by (intro walks_tables walks_code runs_code)

lemma walks_Parse_r [walks_tables]: "walks_all Parse_r"
  unfolding Parse_r_def Let_def
  by (intro walks_tables walks_code runs_code)

lemma walks_Parse_s [walks_tables]: "walks_all Parse_s"
  unfolding Parse_s_def Let_def
  by (intro walks_tables walks_code runs_code)

lemma walks_Parse_t [walks_tables]: "walks_all Parse_t"
  unfolding Parse_t_def Let_def
  by (intro walks_tables walks_code runs_code)

lemma walks_Parse_u [walks_tables]: "walks_all Parse_u"
  unfolding Parse_u_def Let_def
  by (intro walks_tables walks_code runs_code)

lemma walks_Parse_instructions [walks_tables]: "walks_all Parse_instructions"
  unfolding Parse_instructions_def Let_def
  by (intro walks_tables walks_code runs_code)

lemma walks_repeat [walks_code]: "walks m \<Longrightarrow> walks (repeat_times n m)"
  by (induction n) (auto intro!: walks_code)

lemma walks_string [walks_code]: "walks (emit_string cs)"
  by (induction cs) (auto intro!: walks_code runs_code)

lemma walks_peeked: "walks (\<lambda>s. ret () (s\<lparr>a_peeked := f s\<rparr>))"
  by (auto intro!: walks_step asm_step.peeked simp: ret_def)

lemma walks_SET [walks_code]: "walks parse_SET"
  unfolding parse_SET_def
  by (intro walks_code walks_in_bnd walks_in_AddLabel disjI1 refl) (intro walks_in_walks walks_code)

lemma walks_LABEL [walks_code]: "walks parse_LABEL"
  unfolding parse_LABEL_def
  by (intro walks_code walks_in_bnd walks_in_if walks_in_AddLabel disjI1 refl; intro walks_in_walks walks_code)

lemma walks_PEEK [walks_code]: "walks parse_PEEK"
  unfolding parse_PEEK_def
  by (intro walks_code walks_in_walks walks_peeked)

lemma walks_directives [walks_tables]: "walks_all directives"
  unfolding directives_def parse_fill_def parse_STRING_def parse_ORG_def parse_CALC_def
  by (intro walks_tables walks_code runs_code)

lemma walks_all_lookup: "walks_all tab \<Longrightarrow> map_of tab n = Some m \<Longrightarrow> walks m"
  unfolding walks_all_def by (metis map_of_SomeD snd_conv)

theorem walks_statement: "walks (parse_statement Token)"
proof -
  have "walks_all (directives @ Parse_instructions)"
    by (intro walks_tables)
  from walks_all_lookup [OF this, of Token] show ?thesis
    unfolding parse_statement_def
    by (auto split: option.split intro: walks_code simp del: map_of_append)
qed

lemma asm_step_token: "GET_TOKEN s = Some (Inr (t, u)) \<Longrightarrow> asm_step\<^sup>*\<^sup>* s u"
  by (rule r_into_rtranclp) (rule asm_step.token)

lemma statement_loop_steps:
  "statement_loop n s = Some (Some (Inr (x, s'))) \<Longrightarrow> asm_step\<^sup>*\<^sup>* s s'"
proof (induction n arbitrary: s)
  case 0
  then show ?case by simp
next
  case (Suc n)
  then obtain t u where t: "GET_TOKEN s = Some (Inr (t, u))"
    by (auto split: option.splits sum.splits)
  have "asm_step\<^sup>*\<^sup>* u s'"
  proof (cases "t = [] \<or> t = ''.END''")
    case True
    with Suc.prems t show ?thesis by (auto simp: ret_def split: if_splits)
  next
    case False
    with Suc.prems t obtain y v where v: "parse_statement t u = Some (Inr (y, v))"
      "statement_loop n v = Some (Some (Inr (x, s')))"
      by (auto split: option.splits sum.splits if_splits)
    then show ?thesis
      using walksD [OF walks_statement v(1)] Suc.IH [OF v(2)] by simp
  qed
  with asm_step_token [OF t] show ?case by simp
qed

lemma walks_Parse_source: "walks Parse_source"
  unfolding walks_def Parse_source_def by (auto simp del: statement_loop.simps intro: statement_loop_steps split: option.splits)

end
