(* ===== verification/Iasm_Lexer_Props.thy ===== *)
theory Iasm_Lexer_Props
  imports Iasm_Parser_Steps "HOL-Library.Sublist"
begin

text \<open>
  What the passes of the assembler keep: the bounds of its arrays, the code that is written already and,
  while code is generated, the symbols.  The loop ends after at most one round for every character, and
  words with blanks between them are read back one by one.
\<close>

section \<open>Tokens\<close>

lemma skip_comment_suffix: "skip_comment cs = Some ds \<Longrightarrow> suffix ds cs"
  by (induction cs) (auto split: if_splits simp: suffix_ConsI)

lemma token_fits_Some: "token_fits n T l r = Some (Inr x) \<longleftrightarrow> length T + 1 < n \<and> r = Some (Inr x)"
  by (auto simp: token_fits_def)

text \<open>One character: the token ends before it, at it or behind it, or the reading goes on.\<close>

lemma lex_character:
  assumes "lex n st T l (c # cs) = Some (Inr (t, l', ds))"
  obtains "t = T" "ds = c # cs" | "t = T" "ds = cs" | "t = T @ [c]" "ds = cs" "length T + 1 < n"
  | st' cs' where "suffix cs' cs" "lex n st' T l cs' = Some (Inr (t, l', ds))"
  | st' where "length T + 1 < n" "lex n st' (T @ [c]) l cs = Some (Inr (t, l', ds))"
  using assms
  by (subst (asm) lex.simps) (auto simp: token_fits_Some split: if_splits option.splits dest: skip_comment_suffix)

lemma lex_rest:
  "lex n st T l cs = Some (Inr (t, l', ds)) \<Longrightarrow> length T < n \<Longrightarrow>
    suffix ds cs \<and> length t + length ds \<le> length T + length cs \<and> length t < n"
proof (induction cs arbitrary: st T l t l' ds rule: length_induct)
  case (1 cs)
  show ?case
  proof (cases cs)
    case Nil
    with 1(2,3) show ?thesis by simp
  next
    case (Cons c cs')
    from 1(2) [unfolded Cons] show ?thesis
    proof (cases rule: lex_character)
      case (4 st' cs'')
      then have "length cs'' < length cs" "suffix cs'' cs" "length cs'' \<le> length cs"
        using Cons suffix_length_le [OF 4(1)] by (simp_all add: suffix_ConsI)
      with 1(1) 1(3) 4(2) show ?thesis
        by (fastforce intro: suffix_order.trans)
    next
      case (5 st')
      with 1(1) Cons have "suffix ds cs' \<and> length t + length ds \<le> length (T @ [c]) + length cs' \<and> length t < n"
        by (metis length_append_singleton length_Cons lessI Suc_eq_plus1)
      with Cons show ?thesis by (auto intro: suffix_ConsI)
    qed (use 1(3) Cons in \<open>auto intro: suffix_ConsI\<close>)
  qed
qed

lemma GET_TOKEN_rest:
  assumes "GET_TOKEN s = Some (Inr (t, s'))"
  shows "suffix (a_rest s') (a_rest s) \<and> length t + length (a_rest s') \<le> length (a_rest s) \<and> length t < OPRD_SIZE"
    and "a_enc s' = a_enc s" "a_Symbols s' = a_Symbols s" "a_CurrentOperation s' = a_CurrentOperation s"
    "a_Source s' = a_Source s"
  using assms by (auto simp: GET_TOKEN_def OPRD_SIZE_def split: option.splits sum.splits dest!: lex_rest)

section \<open>Invariant\<close>

definition asm_ok :: "asm \<Rightarrow> bool" where
  "asm_ok s =
     (length (e_Buffer (a_enc s)) \<le> MAX_BUFFER_SIZE \<and>
      length (e_InstructionBuffer (a_enc s)) \<le> INSTRUCTION_BUFFER_SIZE \<and>
      length (a_Symbols s) \<le> MAX_SYMBOL_COUNT)"

lemma ToBuffer_Some:
  "ToBuffer b e = Some (Inr e') \<Longrightarrow>
    length (e_Buffer e) < MAX_BUFFER_SIZE \<and> length (e_InstructionBuffer e) < INSTRUCTION_BUFFER_SIZE \<and>
    e' = e\<lparr>e_Buffer := e_Buffer e @ [b], e_CurrentPos := e_CurrentPos e + 1,
           e_InstructionBuffer := e_InstructionBuffer e @ [b]\<rparr>"
  by (auto simp: ToBuffer_def split: if_splits)

lemma enc_step_keeps:
  assumes "enc_step e e'"
  shows "prefix (e_Buffer e) (e_Buffer e')" "asm_ok (s\<lparr>a_enc := e\<rparr>) \<Longrightarrow> asm_ok (s\<lparr>a_enc := e'\<rparr>)" "e_allocated e' = e_allocated e"
  using assms
  by (induction rule: enc_step.induct)
    (auto simp: asm_ok_def InstructionBegin_def InstructionEnd_def dest!: ToBuffer_Some split: if_splits option.splits)

definition asm_keeps :: "asm \<Rightarrow> asm \<Rightarrow> bool" where
  "asm_keeps s s' =
     (suffix (a_rest s') (a_rest s) \<and> prefix (e_Buffer (a_enc s)) (e_Buffer (a_enc s')) \<and> a_Source s' = a_Source s \<and>
      (asm_ok s \<longrightarrow> asm_ok s') \<and> (a_CurrentOperation s = OPT_PARSE \<longrightarrow> a_Symbols s' = a_Symbols s))"

lemma asm_step_keeps: "asm_step s s' \<Longrightarrow> asm_keeps s s'"
proof (induction rule: asm_step.induct)
  case (token s t s')
  with GET_TOKEN_rest [OF token] show ?case by (simp add: asm_keeps_def asm_ok_def)
next
  case (code s e)
  have "asm_ok (s\<lparr>a_enc := a_enc s\<rparr>) \<Longrightarrow> asm_ok (s\<lparr>a_enc := e\<rparr>)"
    by (rule enc_step_keeps(2) [OF code])
  with enc_step_keeps(1) [OF code] show ?case by (simp add: asm_keeps_def)
qed (auto simp: asm_keeps_def asm_ok_def)

lemma asm_steps_keep: "asm_step\<^sup>*\<^sup>* s s' \<Longrightarrow> asm_keeps s s'"
proof (induction rule: rtranclp_induct)
  case base
  show ?case by (simp add: asm_keeps_def)
next
  case (step s' s'')
  from step(3) asm_step_keeps [OF step(2)] asm_steps_operation [OF step(1)] show ?case
    by (auto simp: asm_keeps_def intro: suffix_order.trans prefix_order.trans)
qed

lemma walks_keeps: "walks m \<Longrightarrow> m s = Some (Inr (x, s')) \<Longrightarrow> asm_keeps s s'"
  by (rule asm_steps_keep [OF walksD])

text \<open>C17: What a pass of the assembler over a source keeps when it comes to its end, without an error and without
  an access outside an array.  The code has at most 64 KB, the bytes of the current instruction are at most
  2048 and the symbols at most 1024, if that held before; the code that was written stays in front of the
  new code, the rest of the source is an end of what it was, and in the pass that generates the code no
  symbol is added or changes its value.\<close>

theorem iasm_pass_keeps:
  assumes "Parse_source s = Some (Inr (x, s'))" "asm_ok s"
  shows "asm_ok s' \<and> prefix (e_Buffer (a_enc s)) (e_Buffer (a_enc s')) \<and> suffix (a_rest s') (a_rest s) \<and>
    (a_CurrentOperation s = OPT_PARSE \<longrightarrow> a_Symbols s' = a_Symbols s)"
  using walks_keeps [OF walks_Parse_source assms(1)] assms(2) by (simp add: asm_keeps_def)

lemmas pass_eval = initial_asm_def initial_encoder_def GET_TOKEN_def lex.simps token_fits_def OPRD_SIZE_def bnd_def
  ret_def parse_statement_def directives_def map_add_def parse_data_def IsConstant_def IsNumber_def GetConstant_def
  Number_def emit_def EncodeDB_def InstructionBegin_def InstructionEnd_def ToBuffer_def MAX_BUFFER_SIZE_def
  INSTRUCTION_BUFFER_SIZE_def in_range_def StringToUInteger_def digit_value_def

definition one_byte :: "string \<Rightarrow> u8 list \<Rightarrow> asm" where
  "one_byte rest code =
     (initial_asm (\<lambda>_ _. []) (\<lambda>_ _. 0))\<lparr>a_rest := rest, a_CurrentLine := if rest = [] then 1 else 0,
       a_enc := initial_encoder\<lparr>e_allocated := True, e_Buffer := code, e_CurrentPos := of_nat (length code)\<rparr>\<rparr>"

lemma one_byte_pass: "Parse_source (one_byte ''.DB 1'' []) = Some (Inr ((), one_byte [] [1]))"
  by (simp add: Parse_source_def one_byte_def pass_eval)

lemma one_byte_ok: "asm_ok (one_byte ''.DB 1'' [])"
  by (simp add: one_byte_def asm_ok_def initial_asm_def initial_encoder_def)

theorem iasm_pass_keeps_witness:
  "Parse_source (one_byte ''.DB 1'' []) = Some (Inr ((), one_byte [] [1])) \<and> asm_ok (one_byte [] [1])"
  using iasm_pass_keeps [OF one_byte_pass one_byte_ok] one_byte_pass by simp

section \<open>Termination\<close>

lemma statement_loop_ends: "length (a_rest s) < n \<Longrightarrow> \<exists>r. statement_loop n s = Some r"
proof (induction n arbitrary: s)
  case 0
  then show ?case by simp
next
  case (Suc n)
  have "\<exists>r. statement_loop n v = Some r"
    if "GET_TOKEN s = Some (Inr (t, u))" "t \<noteq> []" "parse_statement t u = Some (Inr (x, v))" for t u x v
  proof -
    have "length (a_rest v) \<le> length (a_rest u)"
      using walks_keeps [OF walks_statement that(3)] by (simp add: asm_keeps_def suffix_length_le)
    with GET_TOKEN_rest(1) [OF that(1)] that(2) Suc.prems show ?thesis
      by (intro Suc.IH) (cases t; simp)
  qed
  then show ?case
    by (auto split: option.split sum.split)
qed

lemma statement_loop_more: "statement_loop n s = Some r \<Longrightarrow> statement_loop (n + k) s = Some r"
proof (induction n arbitrary: s)
  case (Suc n)
  then show ?case
    by (auto split: option.splits sum.splits if_splits)
qed simp

text \<open>C16: The loop of the parser over the statements of a source comes to its end after at most one round for
  every character that is left and one more for the end of the source, whatever the source and the state
  are: with so many rounds, and with any more, they are never used up, and the result is that of the
  parser, an error and undefined behaviour included.\<close>

theorem iasm_parse_terminates: "statement_loop (Suc (length (a_rest s)) + k) s = Some (Parse_source s)"
proof -
  obtain r where r: "statement_loop (Suc (length (a_rest s))) s = Some r"
    using statement_loop_ends [of s "Suc (length (a_rest s))"] by auto
  then show ?thesis
    using statement_loop_more [OF r, of k] by (simp add: Parse_source_def)
qed

section \<open>Words\<close>

text \<open>A character that is part of a token wherever it stands.\<close>

definition word_char :: "char \<Rightarrow> bool" where
  "word_char c =
     (c \<notin> {CHR 0x0A, CHR 0x09, CHR 0x0D, CHR 0x0C, CHR 0x0B, CHR 0x20, CHR 0x2C, CHR 0x27, CHR 0x60, CHR 0x5B, CHR 0x5D, CHR 0x3B})"

lemma lex_word:
  "list_all word_char w \<Longrightarrow> length T + length w < n \<Longrightarrow>
    lex n STATUS_TOKEN T l (w @ CHR 0x20 # cs) = Some (Inr (T @ w, l, cs))"
  by (induction w arbitrary: T) (simp_all add: lex.simps token_fits_def word_char_def)

lemma lex_first_word:
  assumes "list_all word_char w" "w \<noteq> []" "length w < n"
  shows "lex n STATUS_NONE [] l (w @ CHR 0x20 # cs) = Some (Inr (w, l, cs))"
  using assms lex_word [of "tl w" "[hd w]" n l cs]
  by (cases w) (simp_all add: lex.simps(2) [of _ STATUS_NONE] token_fits_def word_char_def)

primrec read_tokens :: "nat \<Rightarrow> string list asm_m" where
  "read_tokens 0 = ret []"
| "read_tokens (Suc n) = bnd GET_TOKEN (\<lambda>t. bnd (read_tokens n) (\<lambda>ts. ret (t # ts)))"

definition line_of :: "string list \<Rightarrow> string" where "line_of ws = concat (map (\<lambda>w. w @ '' '') ws)"

text \<open>tokens that are written one after the other with a blank behind each are read back as they are, and the
  lexer stands behind the last blank.
\<close>

theorem iasm_words_read_back:
  assumes "list_all (\<lambda>w. list_all word_char w \<and> w \<noteq> [] \<and> length w < OPRD_SIZE) ws"
  shows "\<exists>l. read_tokens (length ws) (s\<lparr>a_rest := line_of ws @ rest\<rparr>) =
    Some (Inr (ws, s\<lparr>a_rest := rest, a_CurrentLine := l\<rparr>))"
  using assms
proof (induction ws arbitrary: s)
  case Nil
  show ?case
    by (intro exI [of _ "a_CurrentLine s"]) (simp add: ret_def line_of_def)
next
  case (Cons w ws)
  let ?s = "s\<lparr>a_CurrentLine := a_Line s\<rparr>"
  have "GET_TOKEN (s\<lparr>a_rest := line_of (w # ws) @ rest\<rparr>) = Some (Inr (w, ?s\<lparr>a_rest := line_of ws @ rest\<rparr>))"
    using Cons.prems lex_first_word [of w OPRD_SIZE "a_Line s" "line_of ws @ rest"]
    by (simp add: GET_TOKEN_def line_of_def)
  with Cons.IH [of ?s] Cons.prems show ?case
    by (auto simp: bnd_def ret_def)
qed

theorem iasm_words_read_back_witness:
  "\<exists>l. read_tokens 2 ((one_byte [] [])\<lparr>a_rest := ''ADDD %EAX ''\<rparr>) =
    Some (Inr ([''ADDD'', ''%EAX''], (one_byte [] [])\<lparr>a_rest := [], a_CurrentLine := l\<rparr>))"
  using iasm_words_read_back [where ws = "[''ADDD'', ''%EAX'']" and s = "one_byte [] []" and rest = "[]"]
  by (simp add: word_char_def OPRD_SIZE_def line_of_def numeral_2_eq_2)

end
