(* ===== verification/Iasm_Constants_Props.thy ===== *)
theory Iasm_Constants_Props
  imports Iasm_Lexer_Props
begin

text \<open>
  The values of constants: every 32-bit number can be written as a hexadecimal constant, a sum of products
  has the value it has in arithmetic, and a constant expression ends at the first closing parenthesis of
  its outermost level.
\<close>

section \<open>Hexadecimal numbers\<close>

definition nibble :: "u32 \<Rightarrow> nat \<Rightarrow> u32" where "nibble w k = take_bit 4 (drop_bit (4 * k) w)"

definition hex_char :: "u32 \<Rightarrow> char" where "hex_char v = ''0123456789ABCDEF'' ! unat v"

text \<open>A zero, eight digits and the letter \<open>H\<close>.\<close>

definition hex_string :: "u32 \<Rightarrow> string" where
  "hex_string w = ''0'' @ map (\<lambda>k. hex_char (nibble w k)) (rev [0..<8]) @ ''H''"

lemma hex_char:
  assumes "v < 16"
  shows "hex_value (hex_char v) = Some v \<and> (in_range CHR ''0'' CHR ''9'' (hex_char v) \<or>
    in_range CHR ''a'' CHR ''f'' (hex_char v) \<or> in_range CHR ''A'' CHR ''F'' (hex_char v))"
proof -
  from assms have "unat v \<in> set [0..<16]"
    by (simp add: word_less_nat_alt)
  then have "word_of_nat (unat v) \<in> (word_of_nat :: nat \<Rightarrow> u32) ` set [0..<16]"
    by (rule imageI)
  then show ?thesis
    by (auto simp: upt_conv_Cons hex_char_def hex_value_def digit_value_def in_range_def)
qed

lemma nibble_less: "nibble w k < 16"
  using take_bit_nat_less_exp [of 4 "unat (drop_bit (4 * k) w)"]
  by (simp add: nibble_def word_less_nat_alt unsigned_take_bit_eq)

lemma add_nibble: "take_bit (4 * k) w + nibble w k * 16 ^ k = take_bit (4 * Suc k) w"
proof -
  have "nibble w k * 16 ^ k = push_bit (4 * k) (drop_bit (4 * k) (take_bit (4 * k + 4) w))"
    by (simp add: nibble_def drop_bit_take_bit push_bit_eq_mult power_mult)
  moreover have "take_bit (4 * k) w = take_bit (4 * k) (take_bit (4 * k + 4) w)"
    by simp
  ultimately show ?thesis
    using bits_ident [of "4 * k" "take_bit (4 * k + 4) w"] by (simp add: add.commute)
qed

lemma hex_digits_loop:
  "digits_loop hex_value 16 (map (\<lambda>k. hex_char (nibble w k)) [k..<k + n]) (16 ^ k) (take_bit (4 * k) w) = take_bit (4 * (k + n)) w"
proof (induction n arbitrary: k)
  case 0
  show ?case by simp
next
  case (Suc n)
  have "[k..<k + Suc n] = k # [Suc k..<Suc k + n]"
    by (simp add: upt_conv_Cons del: upt_Suc)
  moreover have "digits_loop hex_value 16 (map (\<lambda>k. hex_char (nibble w k)) [Suc k..<Suc k + n]) (16 ^ k * 16)
      (take_bit (4 * k) w + nibble w k * 16 ^ k) = take_bit (4 * (k + Suc n)) w"
    using Suc.IH [of "Suc k"] by (simp only: add_nibble) (simp add: mult.commute)
  ultimately show ?case
    by (simp add: hex_char [OF nibble_less, THEN conjunct1] del: upt_Suc)
qed

text \<open>every 32-bit number is read back from its hexadecimal digits: a zero, the eight digits from the highest on
  and the letter H.
\<close>

theorem iasm_hex_number: "GetConstant (hex_string w) s = Some (Inr (w, s))"
proof -
  have "list_all (\<lambda>c. in_range CHR ''0'' CHR ''9'' c \<or> in_range CHR ''a'' CHR ''f'' c \<or> in_range CHR ''A'' CHR ''F'' c)
      (map (\<lambda>k. hex_char (nibble w k)) (rev [0..<8]))"
    using hex_char [OF nibble_less] by (simp add: list_all_iff)
  then have "IsNumber (hex_string w)"
    by (simp add: IsNumber_def hex_string_def Let_def in_range_def [of _ _ "CHR ''0''"] in_range_def [of _ _ "CHR ''H''"] butlast_append
      del: upt_Suc)
  moreover have "HexStringToUInteger (butlast (hex_string w)) = w"
  proof -
    have digits: "rev (butlast (hex_string w)) = map (\<lambda>k. hex_char (nibble w k)) [0..<8] @ ''0''"
      by (simp add: hex_string_def rev_map flip: map_append)
    have split: "digits_loop v b (xs @ ''0'') u m = (if \<forall>x \<in> set xs. v x \<noteq> None then digits_loop v b xs u m else 0)"
      if "v CHR ''0'' = Some 0" for v b xs u m
      using that by (induction xs arbitrary: u m) (auto split: option.split)
    have "digits_loop hex_value 16 (map (\<lambda>k. hex_char (nibble w k)) [0..<8]) 1 0 = take_bit 32 w"
      using hex_digits_loop [of w 0 8] by simp
    moreover have "hex_value CHR ''0'' = Some 0"
      by (simp add: hex_value_def digit_value_def in_range_def)
    ultimately show ?thesis
      unfolding HexStringToUInteger_def digits
      by (subst split) (auto simp: hex_char [OF nibble_less, THEN conjunct1] take_bit_word_eq_self)
  qed
  ultimately show ?thesis
    by (simp add: GetConstant_def Number_def Let_def hex_string_def ret_def)
qed

section \<open>Expressions\<close>

definition stops :: "(string \<Rightarrow> 'a option) \<Rightarrow> string list \<Rightarrow> bool" where
  "stops oprs ts = (ts = [] \<or> oprs (hd ts) = None)"

lemma while_operator_stops: "stops oprs ts \<Longrightarrow> while_operator oprs right v ts = ret (v, ts)"
  by (cases ts) (auto simp: while_operator_def stops_def)

lemma bnd_ret [simp]: "bnd (ret x) k = k x"
  by (rule ext) (simp add: bnd_def ret_def)

text \<open>C19: An expression that begins with a parenthesis has the value of what is in the parentheses, whatever follows
  the closing parenthesis: \<open>CalcCExpr_Parentheses\<close> does not read over it, so that every loop of operators stops at
  it.  The value of \<open>(1+2)*3\<close> is 3.
\<close>

theorem iasm_parenthesis_ends_expression:
  assumes "IsCExpr CExpr" "GetCExprTokens CExpr [] [] = Inr (''('' # ts)"
    and "CalcCExpr (Suc (length ts)) ts s = Some (Inr ((v, '')'' # rest), s'))"
  shows "GetCExprResult CExpr s = Some (Inr (v, s'))"
proof -
  let ?paren = "CalcCExpr_Parentheses (CalcCExpr (Suc (length ts)))"
  have stop: "stops (pow_oprs p) ('')'' # rest)" "stops mul_oprs ('')'' # rest)" "stops add_oprs ('')'' # rest)"
    "stops shift_oprs ('')'' # rest)" "stops bit_oprs ('')'' # rest)" for p
    by (simp_all add: stops_def pow_oprs_def mul_oprs_def add_oprs_def shift_oprs_def bit_oprs_def)
  note ends = while_operator_stops [OF stop(1)] while_operator_stops [OF stop(2)] while_operator_stops [OF stop(3)]
    while_operator_stops [OF stop(4)] while_operator_stops [OF stop(5)]
  let ?unary = "CalcCExpr_Unary ?paren" let ?pow = "CalcCExpr_Pow ?unary" let ?mul = "CalcCExpr_Mul_Div_Mod ?pow"
  have "?paren (''('' # ts) s = Some (Inr ((v, '')'' # rest), s'))"
    using assms(3) by (simp add: CalcCExpr_Parentheses_def bnd_def ret_def del: CalcCExpr.simps)
  then have "?unary (''('' # ts) s = Some (Inr ((v, '')'' # rest), s'))"
    by (simp add: CalcCExpr_Unary_def)
  then have "?pow (''('' # ts) s = Some (Inr ((v, '')'' # rest), s'))"
    by (simp add: CalcCExpr_Pow_def bnd_def ends ret_def)
  then have "?mul (''('' # ts) s = Some (Inr ((v, '')'' # rest), s'))"
    by (simp add: CalcCExpr_Mul_Div_Mod_def bnd_def ends ret_def)
  then have "CalcCExpr_Add_Sub ?mul (''('' # ts) s = Some (Inr ((v, '')'' # rest), s'))"
    by (simp add: CalcCExpr_Add_Sub_def bnd_def ends ret_def)
  then have "CalcCExpr_Shift (CalcCExpr_Add_Sub ?mul) ?mul (''('' # ts) s = Some (Inr ((v, '')'' # rest), s'))"
    by (simp add: CalcCExpr_Shift_def bnd_def ends ret_def)
  then have "CalcCExpr (Suc (Suc (length ts))) (''('' # ts) s = Some (Inr ((v, '')'' # rest), s'))"
    by (subst CalcCExpr.simps(2)) (simp add: CalcCExpr_And_Or_Xor_def bnd_def ends ret_def Let_def del: CalcCExpr.simps)
  with assms(1,2) show ?thesis
    by (simp add: GetCExprResult_def bnd_def ret_def del: CalcCExpr.simps)
qed

lemmas cexpr_eval = CalcCExpr_And_Or_Xor_def CalcCExpr_Shift_def CalcCExpr_Add_Sub_def CalcCExpr_Mul_Div_Mod_def
  CalcCExpr_Pow_def CalcCExpr_Unary_def CalcCExpr_Parentheses_def CalcCExpr_Atom_def while_operator_def pow_oprs_def
  mul_oprs_def add_oprs_def shift_oprs_def bit_oprs_def bnd_def ret_def Number_def IsNumber_def in_range_def
  StringToUInteger_def digit_value_def

theorem iasm_parenthesis_ends_expression_witness:
  "GetCExprResult (CHR 0x60 # ''(1+2)*3'' @ [CHR 0x60]) (one_byte [] []) = Some (Inr (3, one_byte [] []))"
proof (rule iasm_parenthesis_ends_expression)
  show "GetCExprTokens (CHR 0x60 # ''(1+2)*3'' @ [CHR 0x60]) [] [] = Inr (''('' # [''1'', ''+'', ''2'', '')'', ''*'', ''3''])"
    by (simp add: GetCExprTokens.simps cexpr_blank_def cexpr_operator_def append_token_def append_char_def valid_char_def
      valid_first_char_def in_range_def MAX_TOKEN_LEN_def TOKEN_BUFFER_SIZE_def)
  have "CalcCExpr (Suc n) [''1'', ''+'', ''2'', '')'', ''*'', ''3''] (one_byte [] []) =
      Some (Inr ((3, '')'' # [''*'', ''3'']), one_byte [] []))" for n
    by (simp add: cexpr_eval Let_def)
  then show "CalcCExpr (Suc (length [''1'', ''+'', ''2'', '')'', ''*'', ''3''])) [''1'', ''+'', ''2'', '')'', ''*'', ''3''] (one_byte [] []) =
      Some (Inr ((3, '')'' # [''*'', ''3'']), one_byte [] []))" .
qed (simp add: IsCExpr_def)

section \<open>Sums of products\<close>

definition number_value :: "string \<Rightarrow> u32" where
  "number_value S =
     (let LastChar = last S; Str = butlast S in
      if LastChar \<in> {CHR ''h'', CHR ''H''} then HexStringToUInteger Str
      else if LastChar \<in> {CHR ''b'', CHR ''B''} then BinStringToUInteger Str
      else if LastChar \<in> {CHR ''o'', CHR ''O''} then OctStringToUInteger Str
      else if LastChar \<in> {CHR ''d'', CHR ''D''} then StringToUInteger Str
      else StringToUInteger S)"

lemma octal_digit: "in_range CHR ''0'' CHR ''7'' c \<Longrightarrow> in_range CHR ''0'' CHR ''9'' c"
  by (simp add: in_range_def)

lemma binary_digit: "in_range CHR ''0'' CHR ''9'' CHR ''0''" "in_range CHR ''0'' CHR ''9'' CHR ''1''"
  by (simp_all add: in_range_def)

text \<open>A number begins with a digit and ends with one or with the letter of its base.\<close>

lemma IsNumber_ends:
  assumes "IsNumber t"
  shows "t \<noteq> []" "in_range CHR ''0'' CHR ''9'' (hd t)"
    "in_range CHR ''0'' CHR ''9'' (last t) \<or> last t \<in> {CHR ''d'', CHR ''D'', CHR ''h'', CHR ''H'', CHR ''b'', CHR ''B'', CHR ''o'', CHR ''O''}"
proof -
  have "t \<noteq> [] \<and> in_range CHR ''0'' CHR ''9'' (hd t) \<and> (in_range CHR ''0'' CHR ''9'' (last t) \<or>
      last t \<in> {CHR ''d'', CHR ''D'', CHR ''h'', CHR ''H'', CHR ''b'', CHR ''B'', CHR ''o'', CHR ''O''})"
  proof (cases t)
    case Nil
    with assms show ?thesis by (simp add: IsNumber_def)
  next
    case (Cons c r)
    note t = this
    show ?thesis
    proof (cases r)
      case Nil
      with t assms show ?thesis by (simp add: IsNumber_def)
    next
      case (Cons d r')
      define l where "l = last r"
      define front where "front = butlast r"
      have "last t = l" "butlast t = c # front" "length t = Suc (Suc (length r'))" "hd t = c" "t \<noteq> []"
        using t Cons by (simp_all add: l_def front_def)
      with assms show ?thesis
        by (simp add: IsNumber_def Let_def split: if_split_asm) (auto intro: octal_digit simp: binary_digit)
    qed
  qed
  then show "t \<noteq> []" "in_range CHR ''0'' CHR ''9'' (hd t)"
    "in_range CHR ''0'' CHR ''9'' (last t) \<or> last t \<in> {CHR ''d'', CHR ''D'', CHR ''h'', CHR ''H'', CHR ''b'', CHR ''B'', CHR ''o'', CHR ''O''}"
    by blast+
qed

lemma Number_value: "IsNumber t \<Longrightarrow> Number t = ret (number_value t)"
  using IsNumber_ends(3) [of t] by (auto simp: Number_def number_value_def Let_def)

text \<open>A number is no operator and no parenthesis.\<close>

lemma number_operand:
  assumes "IsNumber t"
  shows "CalcCExpr_Unary (CalcCExpr_Parentheses e) (t # ts) = ret (number_value t, ts)"
proof -
  have "t \<noteq> ''(''" "t \<noteq> ''+''" "t \<noteq> ''-''" "t \<noteq> ''~''"
    using IsNumber_ends(2) [OF assms] by (auto simp: in_range_def)
  then show ?thesis
    using assms by (simp add: CalcCExpr_Unary_def CalcCExpr_Parentheses_def CalcCExpr_Atom_def Number_value)
qed

text \<open>The tokens of a product and of a sum of products, and their values.\<close>

definition product_tokens :: "string \<times> string list \<Rightarrow> string list" where
  "product_tokens p = fst p # concat (map (\<lambda>t. [''*'', t]) (snd p))"

definition product_value :: "string \<times> string list \<Rightarrow> u32" where
  "product_value p = foldl (\<lambda>v t. v * number_value t) (number_value (fst p)) (snd p)"

definition sum_tokens :: "string \<times> string list \<Rightarrow> (bool \<times> string \<times> string list) list \<Rightarrow> string list" where
  "sum_tokens p qs = product_tokens p @ concat (map (\<lambda>(minus, q). (if minus then ''-'' else ''+'') # product_tokens q) qs)"

definition sum_value :: "string \<times> string list \<Rightarrow> (bool \<times> string \<times> string list) list \<Rightarrow> u32" where
  "sum_value p qs =
     foldl (\<lambda>v (minus, q). if minus then v - product_value q else v + product_value q) (product_value p) qs"

definition numbers :: "string \<times> string list \<Rightarrow> bool" where "numbers p = (list_all IsNumber (fst p # snd p))"

lemma power_operand:
  assumes "IsNumber t" "ts = [] \<or> hd ts \<noteq> ''POW''"
  shows "CalcCExpr_Pow (CalcCExpr_Unary (CalcCExpr_Parentheses e)) (t # ts) = ret (number_value t, ts)"
proof -
  have "stops (pow_oprs p) ts" for p
    using assms(2) by (auto simp: stops_def pow_oprs_def)
  then show ?thesis
    by (intro ext) (simp add: CalcCExpr_Pow_def number_operand [OF assms(1)] while_operator_stops)
qed

lemma mul_loop:
  assumes "list_all IsNumber fs" "ts = [] \<or> hd ts = ''+'' \<or> hd ts = ''-''" "length fs < n"
  shows "cexpr_loop n mul_oprs (CalcCExpr_Pow (CalcCExpr_Unary (CalcCExpr_Parentheses e))) v
      (concat (map (\<lambda>t. [''*'', t]) fs) @ ts) =
    ret (foldl (\<lambda>v t. v * number_value t) v fs, ts)"
  using assms
proof (induction fs arbitrary: v n)
  case Nil
  then obtain m where "n = Suc m" by (cases n) auto
  with Nil.prems(2) show ?case by (auto simp: mul_oprs_def split: list.split)
next
  case (Cons f fs)
  then obtain m where "n = Suc m" by (cases n) auto
  moreover have "CalcCExpr_Pow (CalcCExpr_Unary (CalcCExpr_Parentheses e)) (f # concat (map (\<lambda>t. [''*'', t]) fs) @ ts) =
      ret (number_value f, concat (map (\<lambda>t. [''*'', t]) fs) @ ts)"
    using Cons.prems by (intro power_operand) (cases fs; auto)+
  ultimately show ?case
    using Cons by (simp add: mul_oprs_def)
qed

lemma length_factors: "length (concat (map (\<lambda>t. [''*'', t]) fs)) = 2 * length fs"
  by (induction fs) simp_all

lemma product_operand:
  assumes "numbers p" "ts = [] \<or> hd ts = ''+'' \<or> hd ts = ''-''"
  shows "CalcCExpr_Mul_Div_Mod (CalcCExpr_Pow (CalcCExpr_Unary (CalcCExpr_Parentheses e))) (product_tokens p @ ts) =
    ret (product_value p, ts)"
proof -
  have "CalcCExpr_Pow (CalcCExpr_Unary (CalcCExpr_Parentheses e)) (product_tokens p @ ts) =
      ret (number_value (fst p), concat (map (\<lambda>t. [''*'', t]) (snd p)) @ ts)"
    using assms unfolding product_tokens_def numbers_def by simp (intro power_operand; cases "snd p"; auto)
  with assms show ?thesis
    by (simp add: CalcCExpr_Mul_Div_Mod_def while_operator_def numbers_def product_value_def mul_loop length_factors del: cexpr_loop.simps)
qed

lemma add_loop:
  assumes "list_all (\<lambda>(minus, q). numbers q) qs" "length qs < n"
  shows "cexpr_loop n add_oprs (CalcCExpr_Mul_Div_Mod (CalcCExpr_Pow (CalcCExpr_Unary (CalcCExpr_Parentheses e)))) v
      (concat (map (\<lambda>(minus, q). (if minus then ''-'' else ''+'') # product_tokens q) qs)) =
    ret (foldl (\<lambda>v (minus, q). if minus then v - product_value q else v + product_value q) v qs, [])"
  using assms
proof (induction qs arbitrary: v n)
  case Nil
  then obtain m where "n = Suc m" by (cases n) auto
  then show ?case by simp
next
  case (Cons q qs)
  then obtain m where m: "n = Suc m" by (cases n) auto
  obtain minus p where q: "q = (minus, p)" by (cases q)
  let ?ts = "concat (map (\<lambda>(minus, q). (if minus then ''-'' else ''+'') # product_tokens q) qs)"
  have "?ts = [] \<or> hd ?ts = ''+'' \<or> hd ?ts = ''-''"
    by (cases qs) (auto split: prod.split)
  then have "CalcCExpr_Mul_Div_Mod (CalcCExpr_Pow (CalcCExpr_Unary (CalcCExpr_Parentheses e))) (product_tokens p @ ?ts) =
      ret (product_value p, ?ts)"
    using Cons.prems q by (intro product_operand) auto
  with Cons m q show ?case
    by (simp add: add_oprs_def)
qed

text \<open>C18: An expression of numbers, products and sums without parentheses has the value it has in arithmetic modulo
  2^32: products before sums, sums and differences from left to right.
\<close>

theorem iasm_sum_of_products:
  assumes "numbers p" "list_all (\<lambda>(minus, q). numbers q) qs"
  shows "CalcCExpr (Suc n) (sum_tokens p qs) s = Some (Inr ((sum_value p qs, []), s))"
proof -
  let ?mul = "CalcCExpr_Mul_Div_Mod (CalcCExpr_Pow (CalcCExpr_Unary (CalcCExpr_Parentheses (CalcCExpr n))))"
  let ?ts = "concat (map (\<lambda>(minus, q). (if minus then ''-'' else ''+'') # product_tokens q) qs)"
  have "?ts = [] \<or> hd ?ts = ''+'' \<or> hd ?ts = ''-''"
    by (cases qs) (auto split: prod.split)
  then have "?mul (sum_tokens p qs) = ret (product_value p, ?ts)"
    unfolding sum_tokens_def by (rule product_operand [OF assms(1)])
  moreover have "length qs \<le> length ?ts"
    by (induction qs) auto
  ultimately have "CalcCExpr_Add_Sub ?mul (sum_tokens p qs) = ret (sum_value p qs, [])"
    using add_loop [OF assms(2), of "Suc (length ?ts)" "CalcCExpr n" "product_value p"]
    by (simp add: CalcCExpr_Add_Sub_def while_operator_def sum_value_def del: cexpr_loop.simps)
  then show ?thesis
    by (simp add: CalcCExpr_Shift_def CalcCExpr_And_Or_Xor_def while_operator_stops stops_def Let_def ret_def [of _ s])
qed

theorem iasm_sum_of_products_witness:
  "CalcCExpr (Suc 5) [''9'', ''-'', ''2'', ''*'', ''3'', ''-'', ''1''] (one_byte [] []) = Some (Inr ((2, []), one_byte [] []))"
  using iasm_sum_of_products [of "(''9'', [])" "[(True, ''2'', [''3'']), (True, ''1'', [])]" 5 "one_byte [] []"]
  by (simp add: numbers_def IsNumber_def in_range_def sum_tokens_def product_tokens_def sum_value_def product_value_def
    number_value_def StringToUInteger_def digit_value_def del: CalcCExpr.simps)

end
