(* ===== verification/Iasm_Encoder_Proofs.thy ===== *)
theory Iasm_Encoder_Proofs
  imports Iasm_Encoder Iasm_Macros
begin

text \<open>
  The bytes that the assembler writes for an operand, read the way the processor reads them: a
  decoder for \<open>ModRM\<close>, \<open>SIB\<close> and displacements as the manual of the processor describes them.
\<close>

section \<open>Operations that write some bytes\<close>

definition enc_room :: "nat \<Rightarrow> encoder \<Rightarrow> bool" where
  "enc_room n s =
     (e_allocated s \<and> length (e_Buffer s) + n \<le> MAX_BUFFER_SIZE \<and>
      length (e_InstructionBuffer s) + n \<le> INSTRUCTION_BUFFER_SIZE)"

definition put :: "u8 list \<Rightarrow> encoder \<Rightarrow> encoder" where
  "put bs s = s\<lparr>e_Buffer := e_Buffer s @ bs, e_CurrentPos := e_CurrentPos s + word_of_nat (length bs),
     e_InstructionBuffer := e_InstructionBuffer s @ bs\<rparr>"

definition writes :: "enc \<Rightarrow> u8 list \<Rightarrow> bool" where
  "writes m bs = (\<forall>s. enc_room (length bs) s \<longrightarrow> m s = Some (Inr (put bs s)))"

lemma put_put [simp]: "put cs (put bs s) = put (bs @ cs) s"
  by (simp add: put_def)

lemma put_Nil [simp]: "put [] s = s"
  by (simp add: put_def)

lemma put_fields [simp]:
  "e_Buffer (put bs s) = e_Buffer s @ bs" "e_AddrMode (put bs s) = e_AddrMode s" "e_Mode (put bs s) = e_Mode s"
  "e_OprdMode (put bs s) = e_OprdMode s"
  by (simp_all add: put_def)

lemma enc_room_put [simp]: "enc_room n (put bs s) = (enc_room (length bs + n) s)"
  by (auto simp: enc_room_def put_def)

lemma enc_room_less: "enc_room m s \<Longrightarrow> n \<le> m \<Longrightarrow> enc_room n s"
  by (auto simp: enc_room_def)

lemma writes_ToBuffer: "writes (ToBuffer b) [b]"
  by (auto simp: writes_def ToBuffer_def enc_room_def put_def)

lemma writes_Nil: "writes (steps []) []"
  by (simp add: writes_def)

lemma writes_Cons:
  assumes "writes m bs" "writes (steps ms) cs"
  shows "writes (steps (m # ms)) (bs @ cs)"
  unfolding writes_def
proof (intro allI impI)
  fix s
  assume room: "enc_room (length (bs @ cs)) s"
  then have "enc_room (length bs) s"
    by (auto intro: enc_room_less)
  then have "m s = Some (Inr (put bs s))"
    using assms(1) by (simp add: writes_def)
  then show "steps (m # ms) s = Some (Inr (put (bs @ cs) s))"
    using assms(2) room by (simp add: writes_def)
qed

lemma writes_single: "writes m bs \<Longrightarrow> writes (steps [m]) bs"
  using writes_Cons [OF _ writes_Nil] by simp

lemmas writes_intros = writes_ToBuffer writes_Nil writes_Cons

definition le_word :: "u32 \<Rightarrow> u8 list" where "le_word w = [ucast w, ucast (drop_bit 8 w)]"
definition le_dword :: "u32 \<Rightarrow> u8 list" where
  "le_dword w = [ucast w, ucast (drop_bit 8 w), ucast (drop_bit 16 w), ucast (drop_bit 24 w)]"

lemma writes_ToBufferW: "writes (ToBufferW w) (le_word w)"
  using writes_Cons [OF writes_ToBuffer writes_single [OF writes_ToBuffer]] by (simp add: ToBufferW_def le_word_def)

lemma writes_ToBufferD: "writes (ToBufferD w) (le_dword w)"
  using writes_Cons [OF writes_ToBuffer writes_Cons [OF writes_ToBuffer writes_Cons [OF writes_ToBuffer
    writes_single [OF writes_ToBuffer]]]]
  by (simp add: ToBufferD_def le_dword_def)

definition imm_bytes :: "u32 \<Rightarrow> u32 \<Rightarrow> u8 list" where
  "imm_bytes typ imm = (if typ = 3 then le_dword imm else if typ = 2 then le_word imm else if typ = 1 then [ucast imm] else [])"

lemma writes_imm: "typ \<in> {0, 1, 2, 3} \<Longrightarrow> writes (imm_to_buffer typ imm) (imm_bytes typ imm)"
  by (auto simp: imm_to_buffer_def imm_bytes_def writes_ToBufferW writes_ToBufferD writes_ToBuffer writes_Nil)

section \<open>The decoder\<close>

text \<open>
  An operand is a register or an address: base, index and displacement.  Registers are their
  numbers.  \<open>decode_rm32\<close> reads \<open>ModRM\<close> and what belongs to it, and returns the register field, the operand
  and what follows.
\<close>

datatype operand = Register u8 | Address "u8 option" "u8 option" u32

fun displacement :: "u8 \<Rightarrow> u8 list \<Rightarrow> (u32 \<times> u8 list) option" where
  "displacement m bs =
     (if m = 0 then Some (0, bs)
      else if m = 1 then (case bs of b # bs \<Rightarrow> Some (scast b, bs) | _ \<Rightarrow> None)
      else (case bs of
              b0 # b1 # b2 # b3 # bs \<Rightarrow>
                Some (ucast b0 OR push_bit 8 (ucast b1) OR push_bit 16 (ucast b2) OR push_bit 24 (ucast b3), bs)
            | _ \<Rightarrow> None))"

definition decode_rm32 :: "u8 list \<Rightarrow> (u8 \<times> operand \<times> u8 list) option" where
  "decode_rm32 bs =
     (case bs of
        [] \<Rightarrow> None
      | b # bs \<Rightarrow>
          (let m = drop_bit 6 b; r = drop_bit 3 b AND 7; rm = b AND 7 in
           if m = 3 then Some (r, Register rm, bs)
           else if rm = 4 then
             (case bs of
                [] \<Rightarrow> None
              | sib # bs \<Rightarrow>
                  (let index = drop_bit 3 sib AND 7; base = sib AND 7;
                       no_base = (base = 5 \<and> m = 0) in
                   case displacement (if no_base then 2 else m) bs of
                     None \<Rightarrow> None
                   | Some (d, bs) \<Rightarrow>
                       if drop_bit 6 sib \<noteq> 0 then None
                       else Some (r, Address (if no_base then None else Some base) (if index = 4 then None else Some index) d, bs)))
           else
             (let direct = (rm = 5 \<and> m = 0) in
              case displacement (if direct then 2 else m) bs of
                None \<Rightarrow> None
              | Some (d, bs) \<Rightarrow> Some (r, Address (if direct then None else Some rm) None d, bs))))"

lemma bit_small: "x < 2 ^ k \<Longrightarrow> k < LENGTH('a) \<Longrightarrow> bit x n \<Longrightarrow> n < k" for x :: "'a::len word"
  by (metis bit_take_bit_iff less_mask_eq take_bit_eq_mask)

lemma mod_rm_fields:
  fixes op r m rm :: u8
  assumes "r < 8" "m < 4" "rm < 8"
  defines "c \<equiv> opcode_mod_rm (push_bit 8 (ucast op) OR push_bit 3 (ucast r)) m rm"
  shows "drop_bit 6 (ucast c :: u8) = m \<and> drop_bit 3 (ucast c :: u8) AND 7 = r \<and> (ucast c :: u8) AND 7 = rm \<and>
    ucast (drop_bit 8 c) = op"
proof -
  have small: "\<And>n. bit r n \<Longrightarrow> n < 3" "\<And>n. bit m n \<Longrightarrow> n < 2" "\<And>n. bit rm n \<Longrightarrow> n < 3"
    using bit_small [of r 3] bit_small [of m 2] bit_small [of rm 3] assms by auto
  have masks: "(0xFF :: u32) = mask 8" "(7 :: u8) = mask 3"
    by (simp_all add: mask_eq_exp_minus_1)
  show ?thesis
    unfolding c_def opcode_mod_rm_def masks
    by (intro conjI bit_word_eqI) (auto simp: bit_simps dest: small)
qed

lemma join_dword:
  "ucast (ucast w :: u8) OR push_bit 8 (ucast (ucast (drop_bit 8 w) :: u8)) OR
   push_bit 16 (ucast (ucast (drop_bit 16 w) :: u8)) OR push_bit 24 (ucast (ucast (drop_bit 24 w) :: u8)) = w" for w :: u32
  by (simp add: first_byte next_byte take_bit_word_eq_self flip: or.assoc)

section \<open>Addresses of 32 bits\<close>

text \<open>The opcode of an instruction with a register field, as the encoders pass it on.\<close>

definition opcode :: "u8 \<Rightarrow> u8 \<Rightarrow> u32" where "opcode op r = push_bit 8 (ucast op) OR push_bit 3 (ucast r)"

definition mod_rm :: "u8 \<Rightarrow> u8 \<Rightarrow> u8 \<Rightarrow> u8" where
  "mod_rm r m rm = ucast (opcode_mod_rm (opcode 0 r) m rm)"

lemma opcode_bytes:
  assumes "r < 8" "m < 4" "rm < 8"
  shows "ucast (drop_bit 8 (opcode_mod_rm (opcode op r) m rm)) = op"
    "ucast (opcode_mod_rm (opcode op r) m rm) = mod_rm r m rm"
    "drop_bit 6 (mod_rm r m rm) = m" "drop_bit 3 (mod_rm r m rm) AND 7 = r" "mod_rm r m rm AND 7 = rm"
proof -
  show "ucast (drop_bit 8 (opcode_mod_rm (opcode op r) m rm)) = op"
    "drop_bit 6 (mod_rm r m rm) = m" "drop_bit 3 (mod_rm r m rm) AND 7 = r" "mod_rm r m rm AND 7 = rm"
    using mod_rm_fields [OF assms, of op] mod_rm_fields [OF assms, of 0] by (simp_all add: opcode_def mod_rm_def)
  have "(0xFF :: u32) = mask 8"
    by (simp add: mask_eq_exp_minus_1)
  then show "ucast (opcode_mod_rm (opcode op r) m rm) = mod_rm r m rm"
    unfolding mod_rm_def opcode_mod_rm_def opcode_def
    by (intro bit_word_eqI) (auto simp: bit_simps)
qed

lemma writes_opcode:
  assumes "r < 8" "m < 4" "rm < 8"
  shows "writes (opcode_to_buffer 2 (opcode_mod_rm (opcode op r) m rm)) [op, mod_rm r m rm]"
  using writes_Cons [OF writes_ToBuffer writes_single [OF writes_ToBuffer]]
  by (simp add: opcode_to_buffer_def opcode_bytes [OF assms])

lemma sib_fields:
  assumes "i < 8" "b < 8"
  shows "drop_bit 6 (SIB_byte 0 i b) = 0" "drop_bit 3 (SIB_byte 0 i b) AND 7 = i" "SIB_byte 0 i b AND 7 = b"
proof -
  have small: "\<And>n. bit i n \<Longrightarrow> n < 3" "\<And>n. bit b n \<Longrightarrow> n < 3"
    using bit_small [of i 3] bit_small [of b 3] assms by auto
  have masks: "(7 :: u8) = mask 3"
    by (simp_all add: mask_eq_exp_minus_1)
  show "drop_bit 6 (SIB_byte 0 i b) = 0" "drop_bit 3 (SIB_byte 0 i b) AND 7 = i" "SIB_byte 0 i b AND 7 = b"
    unfolding SIB_byte_def masks
    by (auto intro!: bit_word_eqI simp: bit_simps dest: small) (use small in fastforce)+
qed

text \<open>The displacement that is written for a type of offset, and the one that is meant.\<close>

definition off_bytes :: "u8 \<Rightarrow> u32 \<Rightarrow> u8 list" where
  "off_bytes OffType Off = (if OffType = 0 then [] else if OffType = 1 then [ucast Off] else le_dword Off)"

definition off_value :: "u8 \<Rightarrow> u32 \<Rightarrow> u32" where
  "off_value OffType Off = (if OffType = 0 then 0 else if OffType = 1 then scast (ucast Off :: u8) else Off)"

definition off_mod :: "u8 \<Rightarrow> u8" where
  "off_mod OffType = (if OffType = 0 then 0 else if OffType = 1 then 1 else 2)"

lemma displacement_off:
  "OffType \<in> {0, 1, 2, 3} \<Longrightarrow> displacement (off_mod OffType) (off_bytes OffType Off @ bs) = Some (off_value OffType Off, bs)"
  by (auto simp: off_mod_def off_bytes_def off_value_def le_dword_def join_dword)

lemma displacement_dword: "displacement 2 (le_dword Off @ bs) = Some (Off, bs)"
  by (simp add: le_dword_def join_dword)

text \<open>What \<open>Opcode_Mem_X\<close> does in the 32-bit mode, once \<open>GetMem_Mod_RM32\<close> has succeeded.\<close>

definition sib_bytes :: "u8 \<Rightarrow> u8 option \<Rightarrow> u8 list" where
  "sib_bytes rm sib = (if rm = 4 then [the sib] else [])"

lemma writes_mem32:
  assumes "GetMem_Mod_RM32 Reg1 Reg2 typ direct = Inr (m, rm, sib)" "r < 8" "m < 4" "rm < 8" "rm = 4 \<Longrightarrow> sib \<noteq> None"
    "writes write_off ofs" "ImmType \<in> {0, 1, 2, 3}"
  shows "writes (mem32 (opcode op r) Reg1 Reg2 typ direct write_off ImmType Imm 2)
    (op # mod_rm r m rm # sib_bytes rm sib @ ofs @ imm_bytes ImmType Imm)"
proof -
  have "writes (if rm = 4 then (case sib of None \<Rightarrow> (\<lambda>s. None) | Some b \<Rightarrow> ToBuffer b) else steps []) (sib_bytes rm sib)"
    using assms(5) by (auto simp: sib_bytes_def writes_ToBuffer writes_Nil)
  then show ?thesis
    using writes_Cons [OF writes_opcode [OF assms(2,3,4), of op] writes_Cons [OF _ writes_Cons [OF assms(6)
      writes_single [OF writes_imm [OF assms(7)]]]]]
    by (simp add: mem32_def assms(1))
qed

lemma writes_Mem_X:
  assumes "GetMem_Mod_RM32 Reg1 Reg2 (if OffType = 2 then 3 else ucast OffType) 0 = Inr (off_mod OffType, rm, sib)" "rm < 8"
    "rm = 4 \<Longrightarrow> sib \<noteq> None" "Reg1 \<noteq> REG_NONE" "OffType \<in> {0, 1, 2, 3}" "r < 8" "ImmType \<in> {0, 1, 2, 3}"
    "e_AddrMode s = MODE_BIT32" "enc_room 11 s"
  shows "OpcodeW_Mem_X (opcode op r) Reg1 Reg2 OffType Off ImmType Imm s =
    Some (Inr (put (op # mod_rm r (off_mod OffType) rm # sib_bytes rm sib @ off_bytes OffType Off @ imm_bytes ImmType Imm) s))"
proof -
  let ?off = "if OffType = 0 then steps [] else if OffType = 1 then ToBuffer (ucast Off) else ToBufferD Off"
  have "OpcodeW_Mem_X (opcode op r) Reg1 Reg2 OffType Off ImmType Imm s =
      mem32 (opcode op r) Reg1 Reg2 (if OffType = 2 then 3 else ucast OffType) 0 ?off ImmType Imm 2 s"
    using assms(4,5,8) by (auto simp: OpcodeW_Mem_X_def Opcode_Mem_X_def)
  moreover have "writes ?off (off_bytes OffType Off)"
    by (auto simp: off_bytes_def writes_ToBuffer writes_Nil writes_ToBufferD)
  moreover have "length (op # mod_rm r (off_mod OffType) rm # sib_bytes rm sib @ off_bytes OffType Off @ imm_bytes ImmType Imm) \<le> 11"
    by (simp add: sib_bytes_def off_bytes_def imm_bytes_def le_dword_def le_word_def)
  ultimately show ?thesis
    using writes_mem32 [OF assms(1,6) _ assms(2,3) _ assms(7)] enc_room_less [OF assms(9)]
    by (simp add: writes_def off_mod_def)
qed

text \<open>The addresses that are encoded as they are meant, and what is meant.\<close>

definition mem32_fine :: "u8 \<Rightarrow> u8 \<Rightarrow> u8 \<Rightarrow> bool" where
  "mem32_fine Reg1 Reg2 OffType =
     (Reg1 < 8 \<and> (Reg2 = REG_NONE \<and> Reg1 \<noteq> REG_ESP \<and> Reg1 \<noteq> REG_EBP \<or>
        Reg2 < 8 \<and> Reg2 \<noteq> REG_ESP \<and> (Reg1 = REG_EBP \<longrightarrow> OffType \<noteq> 0)))"

definition address32 :: "u8 \<Rightarrow> u8 \<Rightarrow> u8 \<Rightarrow> u32 \<Rightarrow> operand" where
  "address32 Reg1 Reg2 OffType Off =
     Address (Some Reg1) (if Reg2 = REG_NONE then None else Some Reg2) (off_value OffType Off)"

lemma reg_cases: "Reg < 8 \<Longrightarrow> Reg \<in> {0, 1, 2, 3, 4, 5, 6, 7}" for Reg :: u8
proof -
  assume "Reg < 8"
  then have "unat Reg \<in> set [0..<8]"
    by (simp add: word_less_nat_alt)
  then have "word_of_nat (unat Reg) \<in> (word_of_nat :: nat \<Rightarrow> u8) ` set [0..<8]"
    by (rule imageI)
  then show ?thesis
    by (simp add: upt_conv_Cons)
qed

lemma GetMem32_single:
  assumes "Reg < 8" "Reg \<noteq> REG_ESP" "Reg \<noteq> REG_EBP" "OffType \<in> {0, 1, 2, 3}"
  shows "GetMem_Mod_RM32 Reg REG_NONE (if OffType = 2 then 3 else ucast OffType) 0 = Inr (off_mod OffType, Reg, None)"
  using reg_cases [OF assms(1)] assms(2-) by (auto simp: GetMem_Mod_RM32_def off_mod_def)

lemma GetMem32_frame:
  assumes "Reg = REG_ESP \<or> Reg = REG_EBP" "OffType \<in> {0, 1, 2, 3}"
  shows "GetMem_Mod_RM32 Reg REG_NONE (if OffType = 2 then 3 else ucast OffType) 0 =
    Inr (off_mod OffType, 4, Some (SIB_byte 0 0 Reg))"
  using assms by (auto simp: GetMem_Mod_RM32_def off_mod_def)

lemma GetMem32_two:
  assumes "Reg1 < 8" "Reg2 < 8" "OffType \<in> {0, 1, 2, 3}"
  shows "GetMem_Mod_RM32 Reg1 Reg2 (if OffType = 2 then 3 else ucast OffType) 0 =
    Inr (off_mod OffType, 4, Some (SIB_byte 0 Reg2 Reg1))"
  using assms by (auto simp: GetMem_Mod_RM32_def off_mod_def)

lemma off_mod_less: "off_mod OffType < 4" "off_mod OffType < 3" "off_mod OffType \<noteq> 3"
  by (simp_all add: off_mod_def)

lemma decode_single:
  assumes "r < 8" "Reg < 8" "Reg \<noteq> 4" "Reg \<noteq> 5" "OffType \<in> {0, 1, 2, 3}"
  shows "decode_rm32 (mod_rm r (off_mod OffType) Reg # off_bytes OffType Off @ bs) =
    Some (r, Address (Some Reg) None (off_value OffType Off), bs)"
  using assms displacement_off [OF assms(5), of Off bs]
  by (simp add: decode_rm32_def opcode_bytes off_mod_less del: displacement.simps)

lemma decode_sib:
  assumes "r < 8" "i < 8" "b < 8" "\<not> (b = 5 \<and> OffType = 0)" "OffType \<in> {0, 1, 2, 3}"
  shows "decode_rm32 (mod_rm r (off_mod OffType) 4 # SIB_byte 0 i b # off_bytes OffType Off @ bs) =
    Some (r, Address (Some b) (if i = 4 then None else Some i) (off_value OffType Off), bs)"
proof (cases "b = 5")
  case True
  then have "off_mod OffType \<noteq> 0"
    using assms(4,5) by (auto simp: off_mod_def)
  then show ?thesis
    using True assms displacement_off [OF assms(5), of Off bs] off_mod_less [of OffType]
    by (simp add: decode_rm32_def opcode_bytes sib_fields Let_def del: displacement.simps)
next
  case False
  then show ?thesis
    using assms displacement_off [OF assms(5), of Off bs] off_mod_less [of OffType]
    by (simp add: decode_rm32_def opcode_bytes sib_fields Let_def del: displacement.simps)
qed

lemma mem32_decodes:
  assumes "mem32_fine Reg1 Reg2 OffType" "OffType \<in> {0, 1, 2, 3}" "r < 8" "ImmType \<in> {0, 1, 2, 3}"
    "e_AddrMode s = MODE_BIT32" "enc_room 11 s"
  shows "\<exists>bs. OpcodeW_Mem_X (opcode op r) Reg1 Reg2 OffType Off ImmType Imm s = Some (Inr (put (op # bs) s)) \<and>
    decode_rm32 bs = Some (r, address32 Reg1 Reg2 OffType Off, imm_bytes ImmType Imm)"
proof (cases "Reg2 = REG_NONE")
  case True
  then have reg: "Reg1 < 8" "Reg1 \<noteq> REG_ESP" "Reg1 \<noteq> REG_EBP" "Reg1 \<noteq> REG_NONE"
    using assms(1) by (auto simp: mem32_fine_def)
  show ?thesis
    using writes_Mem_X [OF GetMem32_single [OF reg(1-3) assms(2)] reg(1) _ reg(4) assms(2-6), of op Off Imm] reg True
      decode_single [OF assms(3) reg(1-3) assms(2), of Off "imm_bytes ImmType Imm"]
    by (intro exI [of _ "mod_rm r (off_mod OffType) Reg1 # off_bytes OffType Off @ imm_bytes ImmType Imm"])
      (simp add: sib_bytes_def address32_def)
next
  case False
  then have reg: "Reg1 < 8" "Reg2 < 8" "Reg1 \<noteq> REG_NONE" "Reg2 \<noteq> REG_ESP" "\<not> (Reg1 = 5 \<and> OffType = 0)"
    using assms(1) by (auto simp: mem32_fine_def)
  show ?thesis
    using writes_Mem_X [OF GetMem32_two [OF reg(1,2) assms(2)] _ _ reg(3) assms(2-6), of op Off Imm] reg False
      decode_sib [OF assms(3) reg(2,1,5) assms(2), of Off "imm_bytes ImmType Imm"]
    by (intro exI [of _ "mod_rm r (off_mod OffType) 4 # SIB_byte 0 Reg2 Reg1 # off_bytes OffType Off @ imm_bytes ImmType Imm"])
      (simp add: sib_bytes_def address32_def)
qed

lemma frame_misencoded:
  assumes "Reg = REG_ESP \<or> Reg = REG_EBP \<and> OffType \<noteq> 0" "OffType \<in> {0, 1, 2, 3}" "r < 8" "ImmType \<in> {0, 1, 2, 3}"
    "e_AddrMode s = MODE_BIT32" "enc_room 11 s"
  shows "\<exists>bs. OpcodeW_Mem_X (opcode op r) Reg REG_NONE OffType Off ImmType Imm s = Some (Inr (put (op # bs) s)) \<and>
    decode_rm32 bs = Some (r, Address (Some Reg) (Some REG_EAX) (off_value OffType Off), imm_bytes ImmType Imm)"
proof -
  have reg: "Reg = REG_ESP \<or> Reg = REG_EBP" "Reg \<noteq> REG_NONE" "Reg < 8" "\<not> (Reg = 5 \<and> OffType = 0)"
    using assms(1) by auto
  show ?thesis
    using writes_Mem_X [OF GetMem32_frame [OF reg(1) assms(2)] _ _ reg(2) assms(2-6), of op Off Imm] reg
      decode_sib [OF assms(3) _ reg(3,4) assms(2), of 0 Off "imm_bytes ImmType Imm"]
    by (intro exI [of _ "mod_rm r (off_mod OffType) 4 # SIB_byte 0 0 Reg # off_bytes OffType Off @ imm_bytes ImmType Imm"])
      (simp add: sib_bytes_def)
qed

end
