(* ===== verification/Iasm_Encoder_Props.thy ===== *)
theory Iasm_Encoder_Props
  imports Iasm_Encoder_Proofs Iasm_Operands
begin

text \<open>
  What the processor makes of the instructions that the assembler writes: memory operands with a small or
  a wide offset, offsets between 80H and FFH, frames on the stack, two registers, and shifts of two sizes.
\<close>

section \<open>One instruction\<close>

text \<open>32-bit code with room for an instruction, and the state after the bytes \<open>bs\<close>.\<close>

definition plain32 :: "encoder \<Rightarrow> bool" where
  "plain32 s = (e_Mode s = MODE_BIT32 \<and> e_AddrMode s = MODE_BIT32 \<and> \<not> e_listing s \<and> enc_room 11 s)"

definition emitted :: "u8 list \<Rightarrow> encoder \<Rightarrow> encoder" where
  "emitted bs s =
     s\<lparr>e_Buffer := e_Buffer s @ bs, e_CurrentPos := e_CurrentPos s + word_of_nat (length bs),
       e_InstructionBeginPos := e_CurrentPos s, e_InstructionBuffer := [], e_OprdMode := MODE_BIT32\<rparr>"

definition begun :: "encoder \<Rightarrow> encoder" where
  "begun s = s\<lparr>e_InstructionBeginPos := e_CurrentPos s, e_OprdMode := MODE_BIT32\<rparr>"

lemma begun_fields: "plain32 s \<Longrightarrow> e_AddrMode (begun s) = MODE_BIT32 \<and> enc_room 11 (begun s)"
  by (simp add: plain32_def begun_def enc_room_def)

lemma instruction32:
  assumes "plain32 s" "m (begun s) = Some (Inr (put bs (begun s)))"
  shows "steps [InstructionBegin, SwitchOprdToBit32, InstructionPrefix, m, InstructionEnd] s = Some (Inr (emitted bs s))"
  using assms
  by (simp add: plain32_def begun_def InstructionBegin_def SwitchOprdToBit32_def InstructionPrefix_def InstructionEnd_def
    put_def emitted_def)

text \<open>The opcodes of the family ADC, ADD, ..., XOR.\<close>

lemma alu_rows:
  assumes "(x, opc) \<in> set alu_opcodes"
  shows "opc ! 8 = push_bit 8 (ucast (ucast (drop_bit 8 (opc ! 8)) :: u8))"
  using assms by (auto simp: alu_opcodes_def)

lemma reg_field: "r < 8 \<Longrightarrow> push_bit 8 (ucast op) OR (push_bit 3 (ucast r) AND 0xFF) = opcode op r" for r op :: u8
proof -
  assume "r < 8"
  then have small: "\<And>n. bit r n \<Longrightarrow> n < 3"
    using bit_small [of r 3] by simp
  have masks: "(0xFF :: u32) = mask 8"
    by (simp add: mask_eq_exp_minus_1)
  show ?thesis
    unfolding opcode_def masks by (intro bit_word_eqI) (auto simp: bit_simps dest: small)
qed

lemma GetOffType_range: "ucast (GetOffType Off) \<in> {0, 1, 2, 3 :: u8}"
  by (simp add: GetOffType_def)

lemma off_value_meant: "Off < 0x80 \<or> 0xFF < Off \<Longrightarrow> off_value (ucast (GetOffType Off)) Off = Off"
proof -
  assume range: "Off < 0x80 \<or> 0xFF < Off"
  have "scast (ucast Off :: u8) = Off" if "Off < 0x80"
  proof -
    from that have "Off < 2 ^ 7" by simp
    then have "\<And>n. bit Off n \<Longrightarrow> n < 7"
      using bit_small [of Off 7] by simp
    then show ?thesis
      by (intro bit_word_eqI) (fastforce simp: bit_simps)
  qed
  with range show ?thesis
    by (auto simp: off_value_def GetOffType_def not_less)
qed

text \<open>An instruction with a register and a memory operand, before the memory operand is looked at.\<close>

lemma reg_mem_instruction:
  assumes "(x, opc) \<in> set alu_opcodes" "plain32 s" "Dst < 8"
    and "\<And>op s. e_AddrMode s = MODE_BIT32 \<Longrightarrow> enc_room 11 s \<Longrightarrow>
      \<exists>bs. OpcodeW_Mem_X (opcode op Dst) Reg1 Reg2 (ucast (GetOffType Off)) Off 0 0 s = Some (Inr (put (op # bs) s)) \<and>
        decode_rm32 bs = Some (Dst, M, imm_bytes 0 0)"
  shows "\<exists>bs. EncodeALU_Reg32_Mem32 (opc ! 8) Dst Reg1 Reg2 (GetOffType Off) Off s =
      Some (Inr (emitted (ucast (drop_bit 8 (opc ! 8)) # bs) s)) \<and> decode_rm32 bs = Some (Dst, M, [])"
proof -
  let ?op = "ucast (drop_bit 8 (opc ! 8)) :: u8"
  obtain bs where bs: "OpcodeW_Mem_X (opcode ?op Dst) Reg1 Reg2 (ucast (GetOffType Off)) Off 0 0 (begun s) =
      Some (Inr (put (?op # bs) (begun s)))" "decode_rm32 bs = Some (Dst, M, [])"
    using assms(4) [of "begun s" ?op] begun_fields [OF assms(2)] by (auto simp: imm_bytes_def)
  have "(opc ! 8) OR (push_bit 3 (ucast Dst) AND 0xFF) = opcode ?op Dst"
    using reg_field [OF assms(3), of ?op] alu_rows(1) [OF assms(1)] by simp
  then have "EncodeOpt_Reg32_Mem32 (opc ! 8) Dst Reg1 Reg2 (GetOffType Off) Off (begun s) = Some (Inr (put (?op # bs) (begun s)))"
    using bs(1) by (simp add: EncodeOpt_Reg32_Mem32_def OpcodeW_Reg32_Mem32_def)
  from instruction32 [where m = "EncodeOpt_Reg32_Mem32 (opc ! 8) Dst Reg1 Reg2 (GetOffType Off) Off", OF assms(2) this] bs(2) show ?thesis
    unfolding EncodeALU_Reg32_Mem32_def by blast
qed

section \<open>Memory operands\<close>

text \<open>C20: The memory operand of an arithmetic instruction whose other operand is a 32-bit register, in 32-bit code, without
  a listing and with room in the buffers, is
  encoded as it is written, and the processor reads back its base, its index and its offset: for all
  registers but a base ESP alone, a base EBP alone or without an offset, and an index ESP, and for offsets
  below 80H and above FFH.\<close>

theorem iasm_memory_operand:
  assumes "(x, opc) \<in> set alu_opcodes" "plain32 s" "Dst < 8" "mem32_fine Reg1 Reg2 (ucast (GetOffType Off))"
    and "Off < 0x80 \<or> 0xFF < Off"
  shows "\<exists>bs. EncodeALU_Reg32_Mem32 (opc ! 8) Dst Reg1 Reg2 (GetOffType Off) Off s =
      Some (Inr (emitted (ucast (drop_bit 8 (opc ! 8)) # bs) s)) \<and>
    decode_rm32 bs = Some (Dst, Address (Some Reg1) (if Reg2 = REG_NONE then None else Some Reg2) Off, [])"
proof (rule reg_mem_instruction [OF assms(1-3)])
  fix op s
  assume "e_AddrMode s = MODE_BIT32" "enc_room 11 s"
  from mem32_decodes [OF assms(4) GetOffType_range assms(3) _ this, of 0 op Off 0] off_value_meant [OF assms(5)]
  show "\<exists>bs. OpcodeW_Mem_X (opcode op Dst) Reg1 Reg2 (ucast (GetOffType Off)) Off 0 0 s = Some (Inr (put (op # bs) s)) \<and>
      decode_rm32 bs = Some (Dst, Address (Some Reg1) (if Reg2 = REG_NONE then None else Some Reg2) Off, imm_bytes 0 0)"
    by (simp add: address32_def)
qed

definition example_encoder :: encoder where
  "example_encoder =
     \<lparr>e_allocated = True, e_Buffer = [], e_listing = False, e_ListingBuffer = [], e_InstructionBuffer = [],
      e_InstructionBeginPos = 0, e_CurrentPos = 0, e_Mode = MODE_BIT32, e_OprdMode = MODE_BIT16, e_AddrMode = MODE_BIT32\<rparr>"

lemma example_plain: "plain32 example_encoder"
  by (simp add: plain32_def example_encoder_def enc_room_def MAX_BUFFER_SIZE_def INSTRUCTION_BUFFER_SIZE_def)

lemma alu_add: "(''ADD'', [0x200, 0x300, 0x300, 0x0, 0x100, 0x100, 0x200, 0x300, 0x300, 0x4, 0x5, 0x5, 0x8000,
    0x8100, 0x8100, 0x8000, 0x8100, 0x8100]) \<in> set alu_opcodes"
  by (simp add: alu_opcodes_def)

theorem iasm_memory_operand_witness:
  "\<exists>bs. EncodeALU_Reg32_Mem32 0x300 REG_ECX REG_EBX REG_ESI (GetOffType 0x1234) 0x1234 example_encoder =
      Some (Inr (emitted (3 # bs) example_encoder)) \<and>
    decode_rm32 bs = Some (REG_ECX, Address (Some REG_EBX) (Some REG_ESI) 0x1234, [])"
  using iasm_memory_operand [OF alu_add example_plain, of REG_ECX REG_EBX REG_ESI "0x1234"]
  by (simp add: mem32_fine_def)

lemma sign_extended:
  assumes "0x80 \<le> Off" "Off \<le> (0xFF :: u32)"
  shows "scast (ucast Off :: u8) = Off - 0x100"
proof -
  have range: "128 \<le> uint Off" "uint Off \<le> 255"
    using assms by (simp_all add: word_le_def)
  have "uint Off div 128 = 1"
    using range by presburger
  then have "bit (uint Off) 7"
    by (simp add: bit_iff_odd)
  with range have "sint (ucast Off :: u8) = uint Off - 256"
    by (simp add: sint_uint unsigned_ucast_eq signed_take_bit_eq_take_bit_minus take_bit_int_eq_self)
  then have "of_int (sint (ucast Off :: u8)) = (of_int (uint Off - 256) :: u32)"
    by (rule arg_cong)
  then show ?thesis
    by simp
qed

text \<open>C21: The same operands with an offset between 80H and FFH: an arithmetic instruction in 32-bit code, without a listing
  and with room in the buffers, a 32-bit register,
  and a memory operand with a base register, an index or none, but neither a base ESP or EBP alone nor an
  index ESP.  The offset is written as one byte, which the processor extends with its sign: the address is 256
  below the one that is written.\<close>

theorem iasm_offset_sign:
  assumes "(x, opc) \<in> set alu_opcodes" "plain32 s" "Dst < 8" "mem32_fine Reg1 Reg2 (ucast (GetOffType Off))"
    and "0x80 \<le> Off" "Off \<le> 0xFF"
  shows "\<exists>bs. EncodeALU_Reg32_Mem32 (opc ! 8) Dst Reg1 Reg2 (GetOffType Off) Off s =
      Some (Inr (emitted (ucast (drop_bit 8 (opc ! 8)) # bs) s)) \<and>
    decode_rm32 bs = Some (Dst, Address (Some Reg1) (if Reg2 = REG_NONE then None else Some Reg2) (Off - 0x100), [])"
proof -
  have "Off \<noteq> 0"
    using assms(5) by auto
  then have off: "off_value (ucast (GetOffType Off)) Off = Off - 0x100"
    using assms(6) sign_extended [OF assms(5,6)] by (simp add: off_value_def GetOffType_def)
  show ?thesis
  proof (rule reg_mem_instruction [OF assms(1-3)])
    fix op s
    assume "e_AddrMode s = MODE_BIT32" "enc_room 11 s"
    from mem32_decodes [OF assms(4) GetOffType_range assms(3) _ this, of 0 op Off 0] off
    show "\<exists>bs. OpcodeW_Mem_X (opcode op Dst) Reg1 Reg2 (ucast (GetOffType Off)) Off 0 0 s = Some (Inr (put (op # bs) s)) \<and>
        decode_rm32 bs = Some (Dst, Address (Some Reg1) (if Reg2 = REG_NONE then None else Some Reg2) (Off - 0x100), imm_bytes 0 0)"
      by (simp add: address32_def)
  qed
qed

theorem iasm_offset_sign_witness:
  "\<exists>bs. EncodeALU_Reg32_Mem32 0x300 REG_ECX REG_EBX REG_NONE (GetOffType 200) 200 example_encoder =
      Some (Inr (emitted (3 # bs) example_encoder)) \<and>
    decode_rm32 bs = Some (REG_ECX, Address (Some REG_EBX) None (200 - 0x100), [])"
  using iasm_offset_sign [OF alu_add example_plain, of REG_ECX REG_EBX REG_NONE 200]
  by (simp add: mem32_fine_def)

text \<open>C22: In an arithmetic instruction of 32-bit code, without a listing and with room in the buffers, with a 32-bit register, a memory operand with the base ESP, or with
  the base EBP and an offset that is not zero, and no index, the offset being below 80H or above FFH, is encoded
  with EAX as its index, so that the instruction reads the word at base + EAX + offset: \<open>_SIB(0, 0, base)\<close> means
  the index EAX, no index is 4.\<close>

theorem iasm_stack_frame_index:
  assumes "(x, opc) \<in> set alu_opcodes" "plain32 s" "Dst < 8" "Reg = REG_ESP \<or> Reg = REG_EBP \<and> Off \<noteq> 0"
    and "Off < 0x80 \<or> 0xFF < Off"
  shows "\<exists>bs. EncodeALU_Reg32_Mem32 (opc ! 8) Dst Reg REG_NONE (GetOffType Off) Off s =
      Some (Inr (emitted (ucast (drop_bit 8 (opc ! 8)) # bs) s)) \<and>
    decode_rm32 bs = Some (Dst, Address (Some Reg) (Some REG_EAX) Off, [])"
proof -
  have "Reg = REG_ESP \<or> Reg = REG_EBP \<and> ucast (GetOffType Off) \<noteq> (0 :: u8)"
    using assms(4) by (auto simp: GetOffType_def)
  note frame = frame_misencoded [OF this GetOffType_range assms(3)]
  show ?thesis
  proof (rule reg_mem_instruction [OF assms(1-3)])
    fix op s
    assume "e_AddrMode s = MODE_BIT32" "enc_room 11 s"
    from frame [OF _ this, of 0 op Off 0] off_value_meant [OF assms(5)]
    show "\<exists>bs. OpcodeW_Mem_X (opcode op Dst) Reg REG_NONE (ucast (GetOffType Off)) Off 0 0 s = Some (Inr (put (op # bs) s)) \<and>
        decode_rm32 bs = Some (Dst, Address (Some Reg) (Some REG_EAX) Off, imm_bytes 0 0)"
      by simp
  qed
qed

theorem iasm_stack_frame_index_witness:
  "\<exists>bs. EncodeALU_Reg32_Mem32 0x300 REG_ECX REG_EBP REG_NONE (GetOffType 8) 8 example_encoder =
      Some (Inr (emitted (3 # bs) example_encoder)) \<and>
    decode_rm32 bs = Some (REG_ECX, Address (Some REG_EBP) (Some REG_EAX) 8, [])"
  using iasm_stack_frame_index [OF alu_add example_plain, where Dst = REG_ECX and Reg = REG_EBP and Off = 8] by simp

section \<open>Registers\<close>

text \<open>
  How the processor reads the two register forms of the family in 32-bit code: the name of the
  instruction, the size of its operands, its destination and its source.  Bits 3 to 5 of the opcode say
  what is computed, bit 1 that the destination is the register field of \<open>ModRM\<close>, bit 0 that the operands
  are not bytes; the prefix 66H makes them words.
\<close>

definition alu_names :: "string list" where
  "alu_names = [''ADD'', ''OR'', ''ADC'', ''SBB'', ''AND'', ''SUB'', ''XOR'', ''CMP'']"

definition decode_alu :: "u8 list \<Rightarrow> (string \<times> nat \<times> u8 \<times> u8) option" where
  "decode_alu code =
     (let prefix = (code \<noteq> [] \<and> hd code = 0x66) in
      case (if prefix then tl code else code) of
        [op, b] \<Rightarrow>
          if 0x40 \<le> op \<or> bit op 2 \<or> drop_bit 6 b \<noteq> 3 then None
          else let reg = drop_bit 3 b AND 7; rm = b AND 7;
                   operand_size = (if \<not> bit op 0 then 8 else if prefix then 16 else 32)
               in Some (alu_names ! unat (drop_bit 3 op), operand_size, if bit op 1 then (reg, rm) else (rm, reg))
      | _ \<Rightarrow> None)"

lemma with_reg_less: "Reg < 8 \<Longrightarrow> with_reg Reg k = k 3 Reg"
  using reg_cases [of Reg] by (auto simp: with_reg_def GetReg_Mod_RM_def)

definition alu_opcode_ok :: "string \<Rightarrow> nat \<Rightarrow> u32 \<Rightarrow> bool" where
  "alu_opcode_ok x m w =
     (let op = ucast (drop_bit 8 w) :: u8 in
      w = push_bit 8 (ucast op) \<and> op < 0x40 \<and> \<not> bit op 2 \<and> bit op 1 \<and> bit op 0 = (m \<noteq> 8) \<and>
      alu_names ! unat (drop_bit 3 op) = x)"

lemma alu_opcodes_ok:
  "\<forall>(x, opc) \<in> set alu_opcodes. x \<noteq> ''TEST'' \<longrightarrow>
     alu_opcode_ok x 8 (opc ! 0) \<and> alu_opcode_ok x 16 (opc ! 1) \<and> alu_opcode_ok x 32 (opc ! 2)"
  by code_simp

lemma alu_row_opcode:
  assumes "(x, opc) \<in> set alu_opcodes" "x \<noteq> ''TEST''" "(k, m) \<in> {(0, 8), (1, 16), (2, 32 :: nat)}"
  defines "op \<equiv> ucast (drop_bit 8 (opc ! k)) :: u8"
  shows "opc ! k = push_bit 8 (ucast op)" "op < 0x40" "\<not> bit op 2" "bit op 1" "bit op 0 \<longleftrightarrow> m \<noteq> 8"
    "alu_names ! unat (drop_bit 3 op) = x"
proof -
  have "alu_opcode_ok x m (opc ! k)"
    using bspec [OF alu_opcodes_ok assms(1)] assms(2,3) by auto
  then show "opc ! k = push_bit 8 (ucast op)" "op < 0x40" "\<not> bit op 2" "bit op 1" "bit op 0 \<longleftrightarrow> m \<noteq> 8"
    "alu_names ! unat (drop_bit 3 op) = x"
    by (simp_all add: alu_opcode_ok_def op_def Let_def)
qed

lemma decode_alu_row:
  assumes "(x, opc) \<in> set alu_opcodes" "x \<noteq> ''TEST''" "(k, m) \<in> {(0, 8), (1, 16), (2, 32 :: nat)}" "drop_bit 6 b = 3"
  shows "decode_alu ((if m = 16 then [0x66] else []) @ [ucast (drop_bit 8 (opc ! k)), b]) =
    Some (x, m, drop_bit 3 b AND 7, b AND 7)"
proof -
  have "ucast (drop_bit 8 (opc ! k)) \<noteq> (0x66 :: u8)"
    using alu_row_opcode(2) [OF assms(1-3)] by auto
  then show ?thesis
    using alu_row_opcode(2-) [OF assms(1-3)] assms(3,4) by (auto simp: decode_alu_def Let_def)
qed

lemma writes_reg_reg:
  assumes "w = push_bit 8 (ucast op)" "Dst < 8" "Src < 8"
  shows "writes (EncodeOpt_Reg8_Reg8 w Dst Src) [op, mod_rm Src 3 Dst]"
    "EncodeOpt_Reg16_Reg16 w Dst Src = EncodeOpt_Reg8_Reg8 w Dst Src"
    "EncodeOpt_Reg32_Reg32 w Dst Src = EncodeOpt_Reg8_Reg8 w Dst Src"
proof -
  have "w OR (push_bit 3 (ucast Src) AND 0xFF) = opcode op Src"
    using reg_field [OF assms(3), of op] assms(1) by simp
  then have "EncodeOpt_Reg8_Reg8 w Dst Src =
      steps [ToBuffer (ucast (drop_bit 8 (opcode_mod_rm (opcode op Src) 3 Dst))), ToBuffer (ucast (opcode_mod_rm (opcode op Src) 3 Dst))]"
    using with_reg_less [OF assms(2)]
    by (simp add: EncodeOpt_Reg8_Reg8_def OpcodeW_Reg8_Reg8_def OpcodeW_Reg_def opcode_mod_rm_def Let_def del: steps.simps)
  also have "\<dots> = steps [ToBuffer op, ToBuffer (mod_rm Src 3 Dst)]"
    using opcode_bytes(1,2) [OF assms(3) _ assms(2), of 3 op] by (simp del: steps.simps)
  finally show "writes (EncodeOpt_Reg8_Reg8 w Dst Src) [op, mod_rm Src 3 Dst]"
    using writes_Cons [OF writes_ToBuffer writes_single [OF writes_ToBuffer], of op "mod_rm Src 3 Dst"] by simp
qed (simp_all add: EncodeOpt_Reg8_Reg8_def EncodeOpt_Reg16_Reg16_def EncodeOpt_Reg32_Reg32_def
    OpcodeW_Reg8_Reg8_def OpcodeW_Reg16_Reg16_def OpcodeW_Reg32_Reg32_def)

text \<open>The three encoders of an instruction with two registers, with the size of the registers and the place of the opcode.\<close>

definition alu_forms :: "(nat \<times> nat \<times> (u32 \<Rightarrow> u8 \<Rightarrow> u8 \<Rightarrow> enc)) list" where
  "alu_forms = [(0, 8, EncodeALU_Reg8_Reg8), (1, 16, EncodeALU_Reg16_Reg16), (2, 32, EncodeALU_Reg32_Reg32)]"

text \<open>C23: In 32-bit code, without a listing and with room in the buffers, the instructions ADC, ADD, AND, CMP, OR, SBB, SUB
  and XOR with two registers, of 8, 16 or 32 bits, are
  encoded with their operands exchanged: the processor reads the same instruction with operands of
  the same size, but its destination is the second operand and its source the first.  SUB EAX, EBX
  computes EBX - EAX in EBX.\<close>

theorem iasm_registers_exchanged:
  assumes "(x, opc) \<in> set alu_opcodes" "x \<noteq> ''TEST''" "(k, m, encode) \<in> set alu_forms"
    "plain32 s" "Dst < 8" "Src < 8"
  shows "\<exists>code s'. encode (opc ! k) Dst Src s = Some (Inr s') \<and> e_Buffer s' = e_Buffer s @ code \<and>
    decode_alu code = Some (x, m, Src, Dst)"
proof -
  let ?op = "ucast (drop_bit 8 (opc ! k)) :: u8" and ?b = "mod_rm Src 3 Dst"
  let ?code = "(if m = 16 then [0x66] else []) @ [?op, ?b]"
  have b: "drop_bit 6 ?b = 3" "drop_bit 3 ?b AND 7 = Src" "?b AND 7 = Dst"
    using opcode_bytes(3-5) [OF assms(6) _ assms(5), of 3] by simp_all
  have km: "(k, m) \<in> {(0, 8), (1, 16), (2, 32)}"
    using assms(3) by (auto simp: alu_forms_def)
  have w: "EncodeOpt_Reg8_Reg8 (opc ! k) Dst Src t = Some (Inr (put [?op, ?b] t))" if "enc_room 2 t" for t
    using writes_reg_reg(1) [OF alu_row_opcode(1) [OF assms(1,2) km] assms(5,6)] that
    by (simp add: writes_def numeral_2_eq_2)
  have wide: "EncodeOpt_Reg16_Reg16 (opc ! k) Dst Src = EncodeOpt_Reg8_Reg8 (opc ! k) Dst Src"
    "EncodeOpt_Reg32_Reg32 (opc ! k) Dst Src = EncodeOpt_Reg8_Reg8 (opc ! k) Dst Src"
    using writes_reg_reg(2,3) [OF alu_row_opcode(1) [OF assms(1,2) km] assms(5,6)] by simp_all
  have "\<exists>s'. encode (opc ! k) Dst Src s = Some (Inr s') \<and> e_Buffer s' = e_Buffer s @ ?code"
    using assms(3,4) w wide
    by (auto simp: alu_forms_def EncodeALU_Reg8_Reg8_def EncodeALU_Reg16_Reg16_def EncodeALU_Reg32_Reg32_def
        plain32_def enc_room_def InstructionBegin_def InstructionEnd_def SwitchOprdToBit16_def SwitchOprdToBit32_def
        InstructionPrefix_def ToBuffer_def put_def)
  then show ?thesis
    using decode_alu_row [OF assms(1,2) km b(1)] b(2,3) by auto
qed

theorem iasm_registers_exchanged_witness:
  "\<exists>code s'. EncodeALU_Reg32_Reg32 0x300 REG_EAX REG_EBX example_encoder = Some (Inr s') \<and> e_Buffer s' = code \<and>
    decode_alu code = Some (''ADD'', 32, REG_EBX, REG_EAX)"
  using iasm_registers_exchanged [OF alu_add _ _ example_plain, where k = 2 and m = 32 and encode = EncodeALU_Reg32_Reg32 and
    Dst = REG_EAX and Src = REG_EBX] by (simp add: alu_forms_def example_encoder_def)

section \<open>Shifts\<close>

text \<open>the word and the double word form of a shift or rotation are the same encoder, and no form chooses an
  operand size: it is that of the instruction or directive before it.
\<close>

theorem iasm_shift_size:
  assumes "(x, opc) \<in> set shift_opcodes"
  shows "EncodeShift_Reg16_1 (opc ! 1) = EncodeShift_Reg32_1 (opc ! 2) \<and>
    EncodeShift_Mem16_1 (opc ! 4) = EncodeShift_Mem32_1 (opc ! 5) \<and>
    EncodeShift_Reg16_CL (opc ! 7) = EncodeShift_Reg32_CL (opc ! 8) \<and>
    EncodeShift_Mem16_CL (opc ! 10) = EncodeShift_Mem32_CL (opc ! 11)"
  using assms
  by (auto simp: shift_opcodes_def fun_eq_iff EncodeShift_Reg16_1_def EncodeShift_Reg32_1_def EncodeShift_Mem16_1_def
    EncodeShift_Mem32_1_def EncodeShift_Reg16_CL_def EncodeShift_Reg32_CL_def EncodeShift_Mem16_CL_def EncodeShift_Mem32_CL_def simp del: steps.simps)

end
