(* ===== verification/Net.thy ===== *)
theory Net
  imports Prelude
begin

text \<open>
  The network stack above the drivers: \<^verbatim>\<open>kernel/net/endian.c\<close>, \<^verbatim>\<open>helper.c\<close> and \<^verbatim>\<open>net.c\<close>.  A packet is a
  list of bytes; the packed structures of \<^verbatim>\<open>net.h\<close> are records with their byte order in memory.  A
  result \<^const>\<open>None\<close> is an access outside a packet or a buffer.
\<close>

section \<open>\<open>endian.c\<close>\<close>

definition le16 :: "u16 \<Rightarrow> u8 list" where "le16 w = [ucast w, ucast (drop_bit 8 w)]"
definition le32 :: "u32 \<Rightarrow> u8 list" where
  "le32 w = [ucast w, ucast (drop_bit 8 w), ucast (drop_bit 16 w), ucast (drop_bit 24 w)]"
definition word16 :: "u8 \<Rightarrow> u8 \<Rightarrow> u16" where "word16 a b = ucast a OR push_bit 8 (ucast b)"
definition word32 :: "u8 list \<Rightarrow> u32" where
  "word32 r = ucast (r ! 0) OR push_bit 8 (ucast (r ! 1)) OR push_bit 16 (ucast (r ! 2)) OR push_bit 24 (ucast (r ! 3))"

function reverse_loop :: "nat \<Rightarrow> nat \<Rightarrow> nat \<Rightarrow> u8 list \<Rightarrow> u8 list" where
  "reverse_loop left right m buf =
     (if left < m then reverse_loop (Suc left) (right - 1) m (buf[right := buf ! left, left := buf ! right]) else buf)"
  by pat_completeness auto
termination
  by (relation "measure (\<lambda>(left, right, m, buf). m - left)") auto

definition NetReverseByteOrder :: "u8 list \<Rightarrow> nat \<Rightarrow> u8 list" where
  "NetReverseByteOrder buf len = reverse_loop 0 (len - 1) (len div 2) buf"

definition NetSwitchEndian16 :: "u16 \<Rightarrow> u16" where
  "NetSwitchEndian16 d = (let r = NetReverseByteOrder (le16 d) 2 in word16 (r ! 0) (r ! 1))"

definition NetSwitchEndian32 :: "u32 \<Rightarrow> u32" where
  "NetSwitchEndian32 d = word32 (NetReverseByteOrder (le32 d) 4)"

section \<open>\<open>helper.c\<close>\<close>

text \<open>
  The loops that read at most \<open>m\<close> digits.  The functions that parse give the result and the bytes
  stored at \<open>b[0]\<close>, \<open>b[1]\<close> and so on, also when they fail; \<open>nonnull\<close> says that \<open>b\<close> is not NULL.
\<close>

fun digits :: "(char \<Rightarrow> bool) \<Rightarrow> (char \<Rightarrow> u32) \<Rightarrow> u32 \<Rightarrow> nat \<Rightarrow> nat \<Rightarrow> u32 \<Rightarrow> string \<Rightarrow> nat \<times> u32 \<times> string" where
  "digits P v radix m i n [] = (i, n, [])"
| "digits P v radix m i n (c # cs) =
     (if i < m \<and> P c then digits P v radix m (Suc i) (n * radix + v c) cs else (i, n, c # cs))"

definition char_in :: "char \<Rightarrow> char \<Rightarrow> char \<Rightarrow> bool" where
  "char_in lo hi c = ((of_char lo :: nat) \<le> of_char c \<and> (of_char c :: nat) \<le> of_char hi)"

definition NetIsHex :: "char \<Rightarrow> bool" where
  "NetIsHex c = (char_in CHR ''0'' CHR ''9'' c \<or> char_in CHR ''a'' CHR ''f'' c \<or> char_in CHR ''A'' CHR ''F'' c)"

definition NetHex :: "char \<Rightarrow> u8" where
  "NetHex c =
     (if char_in CHR ''0'' CHR ''9'' c then of_char c - of_char CHR ''0''
      else if char_in CHR ''a'' CHR ''f'' c then 10 + (of_char c - of_char CHR ''a'')
      else if char_in CHR ''A'' CHR ''F'' c then 10 + (of_char c - of_char CHR ''A'')
      else 0)"

definition decimal :: "nat \<Rightarrow> string \<Rightarrow> nat \<times> u32 \<times> string" where
  "decimal m s = digits (char_in CHR ''0'' CHR ''9'') (\<lambda>c. of_char c - of_char CHR ''0'') 10 m 0 0 s"

text \<open>The groups that end with a separator, and the one at the end of the text.\<close>

primrec groups :: "nat \<Rightarrow> (string \<Rightarrow> nat \<times> u32 \<times> string) \<Rightarrow> char \<Rightarrow> string \<Rightarrow> u8 list \<Rightarrow> bool \<times> string \<times> u8 list" where
  "groups 0 number sep s b = (True, s, b)"
| "groups (Suc k) number sep s b =
     (let (i, n, rest) = number s in
      if i = 0 \<or> rest = [] \<or> hd rest \<noteq> sep \<or> 255 < n then (False, rest, b)
      else groups k number sep (tl rest) (b @ [ucast n]))"

definition last_group :: "(string \<Rightarrow> nat \<times> u32 \<times> string) \<Rightarrow> string \<Rightarrow> u8 list \<Rightarrow> bool \<times> u8 list" where
  "last_group number s b =
     (let (i, n, rest) = number s in if i = 0 \<or> rest \<noteq> [] \<or> 255 < n then (False, b) else (True, b @ [ucast n]))"

definition NetParseIP :: "bool \<Rightarrow> string \<Rightarrow> bool \<times> u8 list" where
  "NetParseIP nonnull s =
     (if \<not> nonnull then (False, [])
      else let (ok, s, b) = groups 3 (decimal 3) CHR ''.'' s [] in if ok then last_group (decimal 3) s b else (False, b))"

definition NetParsePort :: "bool \<Rightarrow> string \<Rightarrow> u16 option" where
  "NetParsePort nonnull s =
     (if \<not> nonnull then None
      else let (i, n, rest) = decimal 5 s in if i = 0 \<or> rest \<noteq> [] \<or> 65535 < n then None else Some (ucast n))"

text \<open>The number of the last group is built with the factor 10.\<close>

definition NetParseMAC :: "bool \<Rightarrow> string \<Rightarrow> bool \<times> u8 list" where
  "NetParseMAC nonnull s =
     (let number = (\<lambda>radix. digits NetIsHex (\<lambda>c. ucast (NetHex c)) radix 2 0 0) in
      if \<not> nonnull then (False, [])
      else let (ok, s, b) = groups 5 (number 0x10) CHR '':'' s [] in if ok then last_group (number 10) s b else (False, b))"

definition NetCompareIP :: "u8 list \<Rightarrow> u8 list \<Rightarrow> bool" where "NetCompareIP a b = (take 4 a = take 4 b)"
definition NetCompareMAC :: "u8 list \<Rightarrow> u8 list \<Rightarrow> bool" where
  "NetCompareMAC a b = (take 4 a = take 4 b \<and> a ! 4 = b ! 4 \<and> a ! 5 = b ! 5)"

section \<open>\<open>net.h\<close>\<close>

definition MAX_NET_PACKET_LEN :: nat where "MAX_NET_PACKET_LEN = 1024"
definition MAX_NET_DEVICE :: nat where "MAX_NET_DEVICE = 4"
definition MAX_ARP_RECORD :: nat where "MAX_ARP_RECORD = 64"

record eth_frame =
  eth_mac_dst :: "u8 list"
  eth_mac_src :: "u8 list"
  eth_type :: u16

record ipv4_frame =
  ipv4_ihl :: u8
  ipv4_version :: u8
  ipv4_ecn :: u8
  ipv4_dscp :: u8
  ipv4_total_length :: u16
  ipv4_identification :: u16
  ipv4_fragment_offset_h5 :: u8
  ipv4_flags :: u8
  ipv4_fragment_offset_l8 :: u8
  ipv4_ttl :: u8
  ipv4_protocol :: u8
  ipv4_checksum :: u16
  ipv4_src :: "u8 list"
  ipv4_dst :: "u8 list"

record udp_frame =
  udp_port_src :: u16
  udp_port_dst :: u16
  udp_length :: u16
  udp_checksum :: u16

record arp_frame =
  arp_htype :: u16
  arp_ptype :: u16
  arp_hlen :: u8
  arp_plen :: u8
  arp_oper :: u16
  arp_sha :: "u8 list"
  arp_spa :: "u8 list"
  arp_tha :: "u8 list"
  arp_tpa :: "u8 list"

record icmp_frame =
  icmp_type :: u8
  icmp_code :: u8
  icmp_checksum :: u16
  icmp_data :: "u8 list"

text \<open>The bytes of a structure.  The first bit field of a byte is in its low bits.\<close>

definition eth_bytes :: "eth_frame \<Rightarrow> u8 list" where
  "eth_bytes f = eth_mac_dst f @ eth_mac_src f @ le16 (eth_type f)"

definition ipv4_bytes :: "ipv4_frame \<Rightarrow> u8 list" where
  "ipv4_bytes f =
     [(ipv4_ihl f AND 15) OR push_bit 4 (ipv4_version f AND 15), (ipv4_ecn f AND 3) OR push_bit 2 (ipv4_dscp f AND 63)] @
     le16 (ipv4_total_length f) @ le16 (ipv4_identification f) @
     [(ipv4_fragment_offset_h5 f AND 31) OR push_bit 5 (ipv4_flags f AND 7), ipv4_fragment_offset_l8 f, ipv4_ttl f, ipv4_protocol f] @
     le16 (ipv4_checksum f) @ ipv4_src f @ ipv4_dst f"

definition udp_bytes :: "udp_frame \<Rightarrow> u8 list" where
  "udp_bytes f = le16 (udp_port_src f) @ le16 (udp_port_dst f) @ le16 (udp_length f) @ le16 (udp_checksum f)"

definition arp_bytes :: "arp_frame \<Rightarrow> u8 list" where
  "arp_bytes f =
     le16 (arp_htype f) @ le16 (arp_ptype f) @ [arp_hlen f, arp_plen f] @ le16 (arp_oper f) @
     arp_sha f @ arp_spa f @ arp_tha f @ arp_tpa f"

definition icmp_bytes :: "icmp_frame \<Rightarrow> u8 list" where
  "icmp_bytes f = [icmp_type f, icmp_code f] @ le16 (icmp_checksum f) @ icmp_data f"

abbreviation "sizeof_eth \<equiv> 14 :: nat"
abbreviation "sizeof_ipv4 \<equiv> 34 :: nat"
abbreviation "sizeof_udp \<equiv> 42 :: nat"
abbreviation "sizeof_icmp \<equiv> 42 :: nat"
abbreviation "sizeof_arp \<equiv> 42 :: nat"

definition MAX_UDP_DATA_LEN :: nat where "MAX_UDP_DATA_LEN = MAX_NET_PACKET_LEN - sizeof_udp"

text \<open>The bytes of an array from \<open>off\<close> on, and an array with some bytes replaced.\<close>

definition part :: "nat \<Rightarrow> nat \<Rightarrow> u8 list \<Rightarrow> u8 list option" where
  "part off n bs = (if off + n \<le> length bs then Some (take n (drop off bs)) else None)"

definition patch :: "nat \<Rightarrow> u8 list \<Rightarrow> u8 list \<Rightarrow> u8 list option" where
  "patch off xs bs =
     (if off + length xs \<le> length bs then Some (take off bs @ xs @ drop (off + length xs) bs) else None)"

definition arp_of :: "u8 list \<Rightarrow> arp_frame" where
  "arp_of bs =
     \<lparr>arp_htype = word16 (bs ! 0) (bs ! 1), arp_ptype = word16 (bs ! 2) (bs ! 3), arp_hlen = bs ! 4, arp_plen = bs ! 5,
      arp_oper = word16 (bs ! 6) (bs ! 7), arp_sha = take 6 (drop 8 bs), arp_spa = take 4 (drop 14 bs),
      arp_tha = take 6 (drop 18 bs), arp_tpa = take 4 (drop 24 bs)\<rparr>"

section \<open>State\<close>

text \<open>
  The function pointers of a device give its addresses and the result of \<open>SendPacket\<close>; \<open>nd_ProcessUDP\<close> has
  the number of the function that a port calls.  \<open>n_dev\<close> is the structure at an address, \<open>n_sent\<close> what was
  handed to \<open>SendPacket\<close>, \<open>n_udp_calls\<close> the calls of functions of ports.
\<close>

record net_device =
  nd_mac :: "u8 list"
  nd_ip :: "u8 list"
  nd_SendPacket :: "u8 list \<Rightarrow> bool"
  nd_ProcessPacket :: bool
  nd_ProcessUDP :: "u16 \<Rightarrow> nat option"

record arp_record =
  ar_ip :: "u8 list"
  ar_mac :: "u8 list"

record udp_call =
  uc_function :: nat
  uc_device :: nat
  uc_ip_src :: "u8 list"
  uc_port_src :: u16
  uc_ip_dst :: "u8 list"
  uc_port_dst :: u16
  uc_data :: "u8 list"

record net =
  n_devices :: "nat option list"
  n_count :: nat
  n_arp_records :: "arp_record list"
  n_dev :: "nat \<Rightarrow> net_device"
  n_sent :: "(nat \<times> u8 list) list"
  n_udp_calls :: "udp_call list"

definition SendPacket :: "nat \<Rightarrow> u8 list \<Rightarrow> net \<Rightarrow> bool \<times> net" where
  "SendPacket d packet s = (nd_SendPacket (n_dev s d) packet, s\<lparr>n_sent := n_sent s @ [(d, packet)]\<rparr>)"

section \<open>Checksums\<close>

text \<open>The loop over words, the loop over bytes with their index, and the loop that adds the carries.\<close>

fun sum_words :: "u8 list \<Rightarrow> u32 \<Rightarrow> u32" where
  "sum_words (a # b # bs) checksum = sum_words bs (checksum + ucast (word16 a b))"
| "sum_words _ checksum = checksum"

fun sum_bytes :: "nat \<Rightarrow> u8 list \<Rightarrow> u32 \<Rightarrow> u32" where
  "sum_bytes i [] checksum = checksum"
| "sum_bytes i (a # bs) checksum =
     sum_bytes (Suc i) bs (checksum + (if i mod 2 = 1 then push_bit 8 (ucast a) else ucast a))"

lemma carries_smaller:
  assumes "c AND 0xffff0000 \<noteq> (0 :: u32)"
  shows "unat ((c AND 0x0000ffff) + (drop_bit 16 c AND 0x0000ffff)) < unat c"
proof -
  have low: "w AND 0x0000ffff = take_bit 16 w" for w :: u32
    by (simp add: take_bit_eq_mask mask_eq_exp_minus_1)
  have split: "unat c = unat (take_bit 16 c) + 65536 * unat (drop_bit 16 c)"
    by (simp add: take_bit_eq_mod drop_bit_eq_div unat_mod_distrib unat_div_distrib)
  have high: "drop_bit 16 c \<noteq> 0"
  proof
    assume "drop_bit 16 c = 0"
    then have "take_bit 16 c = c"
      using bits_ident [of 16 c] by simp
    then have "c AND 0xffff0000 = take_bit 16 c AND 0xffff0000"
      by simp
    also have "\<dots> = 0"
      by (simp add: take_bit_eq_mask mask_eq_exp_minus_1 and.assoc)
    finally show False
      using assms by simp
  qed
  then have pos: "0 < unat (drop_bit 16 c)"
    by (simp add: unat_gt_0)
  have "unat (take_bit 16 c + take_bit 16 (drop_bit 16 c)) \<le> unat (take_bit 16 c) + unat (take_bit 16 (drop_bit 16 c))"
    by (simp add: unat_word_ariths)
  also have "\<dots> \<le> unat (take_bit 16 c) + unat (drop_bit 16 c)"
    by (simp add: take_bit_eq_mod unat_mod_distrib)
  also have "\<dots> < unat c"
    using split pos by simp
  finally show ?thesis
    by (simp add: low)
qed

function add_carries :: "u32 \<Rightarrow> u32" where
  "add_carries c =
     (if c AND 0xffff0000 \<noteq> 0 then add_carries ((c AND 0x0000ffff) + (drop_bit 16 c AND 0x0000ffff)) else c)"
  by pat_completeness auto
termination
  by (relation "measure unat") (auto intro: carries_smaller)

declare add_carries.simps [simp del]

definition checksum16 :: "u32 \<Rightarrow> u16" where "checksum16 c = ucast (NOT (add_carries c))"

section \<open>\<open>net.c\<close>\<close>

text \<open>\<open>NetFillIPv4Packet\<close>, whose statements \<open>NetSendUDP\<close> repeats: the two frames.\<close>

definition eth_ipv4 :: "net_device \<Rightarrow> u32 \<Rightarrow> u8 \<Rightarrow> u8 \<Rightarrow> u8 \<Rightarrow> u8 \<Rightarrow> u8 list \<Rightarrow> u8 list \<Rightarrow> u8 list" where
  "eth_ipv4 dev buffer_len dscp ecn ttl protocol mac_dst ip_dst =
     (let eth = \<lparr>eth_mac_dst = take 6 mac_dst, eth_mac_src = take 6 (nd_mac dev), eth_type = NetSwitchEndian16 0x0800\<rparr>;
          ip = \<lparr>ipv4_ihl = 5, ipv4_version = 4, ipv4_ecn = ecn, ipv4_dscp = dscp,
                ipv4_total_length = NetSwitchEndian16 (ucast (buffer_len - 14)), ipv4_identification = 0,
                ipv4_fragment_offset_h5 = 0, ipv4_flags = 0x02, ipv4_fragment_offset_l8 = 0, ipv4_ttl = ttl,
                ipv4_protocol = protocol, ipv4_checksum = 0, ipv4_src = take 4 (nd_ip dev), ipv4_dst = take 4 ip_dst\<rparr>
      in eth_bytes eth @ ipv4_bytes (ip\<lparr>ipv4_checksum := checksum16 (sum_words (ipv4_bytes ip) 0)\<rparr>))"

definition NetFillIPv4Packet :: "net_device \<Rightarrow> u8 list \<Rightarrow> u32 \<Rightarrow> u8 \<Rightarrow> u8 \<Rightarrow> u8 \<Rightarrow> u8 \<Rightarrow> u8 list \<Rightarrow> u8 list \<Rightarrow> u8 list option" where
  "NetFillIPv4Packet dev pk_ipv4 buffer_len dscp ecn ttl protocol mac_dst ip_dst =
     patch 0 (eth_ipv4 dev buffer_len dscp ecn ttl protocol mac_dst ip_dst) pk_ipv4"

definition NetFindARPRecord :: "u8 list option \<Rightarrow> net \<Rightarrow> arp_record option" where
  "NetFindARPRecord ip s =
     (case ip of None \<Rightarrow> None | Some ip \<Rightarrow> find (\<lambda>r. take 4 ip = take 4 (ar_ip r)) (n_arp_records s))"

text \<open>The UDP frame behind its pseudo header; the checksum goes over both and the data.\<close>

definition udp_with_pseudo_header :: "u8 list \<Rightarrow> u8 list \<Rightarrow> udp_frame \<Rightarrow> u8 list" where
  "udp_with_pseudo_header src dst f =
     take 4 src @ take 4 dst @ [0, 17] @ le16 (udp_length f) @ udp_bytes f"

definition NetSendUDP :: "nat option \<Rightarrow> u16 \<Rightarrow> u8 list option \<Rightarrow> u16 \<Rightarrow> u8 list option \<Rightarrow> u16 \<Rightarrow> net \<Rightarrow> (bool \<times> net) option" where
  "NetSendUDP netdev port_src ip_dst port_dst data len s =
     (case (netdev, ip_dst, data) of
        (Some d, Some ip, Some dat) \<Rightarrow>
          if MAX_UDP_DATA_LEN < unat len then Some (False, s)
          else (case NetFindARPRecord (Some ip) s of
              None \<Rightarrow> Some (False, s)
            | Some record \<Rightarrow>
                let dev = n_dev s d;
                    pk_len = 42 + ucast len;
                    ulen = NetSwitchEndian16 (8 + len);
                    udp = \<lparr>udp_port_src = NetSwitchEndian16 port_src, udp_port_dst = NetSwitchEndian16 port_dst,
                           udp_length = ulen, udp_checksum = 0\<rparr>
                in do {
                  buffer \<leftarrow> patch 0 (eth_ipv4 dev pk_len 0x08 0x00 50 17 (ar_mac record) ip)
                             (replicate MAX_NET_PACKET_LEN 0);
                  content \<leftarrow> part 0 (unat len) dat;
                  buffer \<leftarrow> patch sizeof_udp content buffer;
                  let checksum = sum_bytes 0 content (sum_words (udp_with_pseudo_header (nd_ip dev) ip udp) 0);
                  buffer \<leftarrow> patch sizeof_ipv4 (udp_bytes (udp\<lparr>udp_checksum := checksum16 checksum\<rparr>)) buffer;
                  Some (SendPacket d (take (unat pk_len) buffer) s) })
      | _ \<Rightarrow> Some (False, s))"

text \<open>
  The condition at the beginning of \<open>NetProcessPing\<close> asks for a length that is below 42 and above 1024.
  \<open>junk\<close> is what the stack holds at \<open>buffer\<close>.
\<close>

definition NetProcessPing :: "(nat \<Rightarrow> u8) \<Rightarrow> nat \<Rightarrow> u8 list \<Rightarrow> u16 \<Rightarrow> net \<Rightarrow> net option" where
  "NetProcessPing junk d packet len s =
     (if unat len < sizeof_icmp \<and> MAX_NET_PACKET_LEN < unat len then Some s
      else do {
        mac_src \<leftarrow> part 6 6 packet;
        ip_src \<leftarrow> part 26 4 packet;
        buffer \<leftarrow> NetFillIPv4Packet (n_dev s d) (map junk [0..<MAX_NET_PACKET_LEN]) (ucast len) 0 0 56 1 mac_src ip_src;
        content \<leftarrow> part 38 4 packet;
        let icmp = \<lparr>icmp_type = 0, icmp_code = 0, icmp_checksum = 0, icmp_data = content\<rparr>;
        buffer \<leftarrow> patch sizeof_ipv4 (icmp_bytes icmp) buffer;
        rest \<leftarrow> part sizeof_icmp (unat len - sizeof_icmp) packet;
        buffer \<leftarrow> patch sizeof_icmp rest buffer;
        summed \<leftarrow> part sizeof_ipv4 (unat len - sizeof_ipv4) buffer;
        buffer \<leftarrow> patch sizeof_ipv4 (icmp_bytes (icmp\<lparr>icmp_checksum := checksum16 (sum_bytes 0 summed 0)\<rparr>)) buffer;
        Some (snd (SendPacket d (take (unat len) buffer) s)) })"

definition NetProcessICMP :: "(nat \<Rightarrow> u8) \<Rightarrow> nat \<Rightarrow> u8 list \<Rightarrow> u16 \<Rightarrow> net \<Rightarrow> net option" where
  "NetProcessICMP junk d packet len s =
     (if unat len < sizeof_icmp then Some s
      else do {
        icmp \<leftarrow> part sizeof_ipv4 8 packet;
        if icmp ! 0 = 8 then NetProcessPing junk d packet len s else Some s })"

definition NetProcessUDP :: "nat \<Rightarrow> u8 list \<Rightarrow> u16 \<Rightarrow> net \<Rightarrow> net option" where
  "NetProcessUDP d packet len s =
     (if unat len < sizeof_udp then Some s
      else do {
        pk_udp \<leftarrow> part 0 sizeof_udp packet;
        let ip_dst = take 4 (drop 30 pk_udp);
        if NetCompareMAC (nd_mac (n_dev s d)) (take 6 pk_udp) \<and> NetCompareIP (nd_ip (n_dev s d)) ip_dst
        then do {
          content \<leftarrow> part sizeof_udp (unat len - sizeof_udp) packet;
          let port_src = NetSwitchEndian16 (word16 (pk_udp ! 34) (pk_udp ! 35));
          let port_dst = NetSwitchEndian16 (word16 (pk_udp ! 36) (pk_udp ! 37));
          case nd_ProcessUDP (n_dev s d) port_dst of
            None \<Rightarrow> Some s
          | Some f \<Rightarrow>
              Some (s\<lparr>n_udp_calls := n_udp_calls s @
                [\<lparr>uc_function = f, uc_device = d, uc_ip_src = take 4 (drop 26 pk_udp), uc_port_src = port_src,
                  uc_ip_dst = ip_dst, uc_port_dst = port_dst, uc_data = content\<rparr>]\<rparr>) }
        else Some s })"

definition NetProcessTCP :: "nat \<Rightarrow> u8 list \<Rightarrow> u16 \<Rightarrow> net \<Rightarrow> net option" where "NetProcessTCP d packet len s = Some s"

definition NetProcessIPv4 :: "(nat \<Rightarrow> u8) \<Rightarrow> nat \<Rightarrow> u8 list \<Rightarrow> u16 \<Rightarrow> net \<Rightarrow> net option" where
  "NetProcessIPv4 junk d packet len s =
     (if unat len < sizeof_ipv4 then Some s
      else do {
        fr_ipv4 \<leftarrow> part sizeof_eth 20 packet;
        let protocol = fr_ipv4 ! 9;
        if protocol = 1 then NetProcessICMP junk d packet len s
        else if protocol = 6 then NetProcessTCP d packet len s
        else if protocol = 17 then NetProcessUDP d packet len s
        else Some s })"

definition NetProcessARP :: "nat \<Rightarrow> u8 list \<Rightarrow> u16 \<Rightarrow> net \<Rightarrow> net option" where
  "NetProcessARP d packet len s =
     (if unat len < sizeof_arp then Some s
      else do {
        fr \<leftarrow> part sizeof_eth 28 packet;
        let arp = arp_of fr;
        let mac = take 6 (nd_mac (n_dev s d));
        let ip = take 4 (nd_ip (n_dev s d));
        if arp_htype arp = NetSwitchEndian16 0x0001 \<and> arp_ptype arp = NetSwitchEndian16 0x0800 \<and>
           arp_hlen arp = 6 \<and> arp_plen arp = 4 \<and> arp_tpa arp = ip
        then if arp_oper arp = NetSwitchEndian16 0x0001
          then let eth = \<lparr>eth_mac_dst = arp_sha arp, eth_mac_src = mac, eth_type = NetSwitchEndian16 0x0806\<rparr>;
                   reply = \<lparr>arp_htype = NetSwitchEndian16 0x0001, arp_ptype = NetSwitchEndian16 0x0800, arp_hlen = 6,
                            arp_plen = 4, arp_oper = NetSwitchEndian16 0x0002, arp_sha = mac, arp_spa = ip,
                            arp_tha = arp_sha arp, arp_tpa = arp_spa arp\<rparr>
               in Some (snd (SendPacket d (eth_bytes eth @ arp_bytes reply) s))
          else if arp_oper arp = NetSwitchEndian16 0x0002 \<and> length (n_arp_records s) < MAX_ARP_RECORD
          then Some (s\<lparr>n_arp_records := n_arp_records s @ [\<lparr>ar_ip = arp_spa arp, ar_mac = arp_sha arp\<rparr>]\<rparr>)
          else Some s
        else Some s })"

definition NetProcessPacket :: "(nat \<Rightarrow> u8) \<Rightarrow> nat \<Rightarrow> u8 list \<Rightarrow> u16 \<Rightarrow> net \<Rightarrow> net option" where
  "NetProcessPacket junk d packet len s =
     (if unat len < sizeof_eth then Some s
      else do {
        fr_eth \<leftarrow> part 0 sizeof_eth packet;
        let type = NetSwitchEndian16 (word16 (fr_eth ! 12) (fr_eth ! 13));
        if type = 0x0800 then NetProcessIPv4 junk d packet len s
        else if type = 0x0806 then NetProcessARP d packet len s
        else Some s })"

text \<open>\<open>NetAdd\<close> returns no value, although it promises one.\<close>

definition NetAdd :: "nat option \<Rightarrow> net \<Rightarrow> net" where
  "NetAdd device s =
     (case device of
        None \<Rightarrow> s
      | Some d \<Rightarrow>
          if MAX_NET_DEVICE \<le> n_count s then s
          else s\<lparr>n_dev := (n_dev s)(d := (n_dev s d)\<lparr>nd_ProcessPacket := True, nd_ProcessUDP := \<lambda>_. None\<rparr>),
                 n_devices := (n_devices s)[n_count s := Some d], n_count := n_count s + 1\<rparr>)"

definition NetGetCount :: "net \<Rightarrow> nat" where "NetGetCount s = n_count s"
definition NetGet :: "nat \<Rightarrow> net \<Rightarrow> nat option" where
  "NetGet index s = (if n_count s \<le> index then None else n_devices s ! index)"
definition NetGetARPRecordCount :: "net \<Rightarrow> nat" where "NetGetARPRecordCount s = length (n_arp_records s)"
definition NetGetARPRecord :: "nat \<Rightarrow> net \<Rightarrow> arp_record option" where
  "NetGetARPRecord index s = (if length (n_arp_records s) \<le> index then None else Some (n_arp_records s ! index))"

text \<open>\<open>NetInit\<close>: \<open>found\<close> are the devices for which the two drivers call \<open>NetAdd\<close>.\<close>

definition NetInit :: "nat option list \<Rightarrow> net \<Rightarrow> net" where
  "NetInit found s = fold NetAdd found (s\<lparr>n_devices := replicate MAX_NET_DEVICE None\<rparr>)"

end
