(* ===== verification/Net_Props.thy ===== *)
theory Net_Props
  imports Net
begin

text \<open>
  What the network stack does: byte order, the checksums of RFC 1071, delivery of UDP datagrams, the
  answers to echo and address requests.
\<close>

section \<open>Byte order\<close>

lemma word16_le16 [simp]: "word16 (ucast w) (ucast (drop_bit 8 w)) = w"
  unfolding word16_def by (rule bit_word_eqI) (auto simp: bit_simps)

lemma le16_word16 [simp]: "le16 (word16 a b) = [a, b]"
proof -
  have "ucast (word16 a b) = a"
    unfolding word16_def by (rule bit_word_eqI) (auto simp: bit_simps dest: bit_imp_le_length)
  moreover have "ucast (drop_bit 8 (word16 a b)) = b"
    unfolding word16_def by (rule bit_word_eqI) (auto simp: bit_simps dest: bit_imp_le_length)
  ultimately show ?thesis
    by (simp add: le16_def)
qed

lemma length_le16 [simp]: "length (le16 w) = 2"
  by (simp add: le16_def)

lemma switch16: "NetSwitchEndian16 w = word16 (ucast (drop_bit 8 w)) (ucast w)"
  by (simp add: NetSwitchEndian16_def NetReverseByteOrder_def le16_def reverse_loop.simps)

lemma switch16_word16 [simp]: "NetSwitchEndian16 (word16 a b) = word16 b a"
proof -
  have "[ucast (word16 a b), ucast (drop_bit 8 (word16 a b))] = [a, b]"
    using le16_word16 [of a b] by (simp only: le16_def)
  then show ?thesis
    by (simp add: switch16)
qed

lemma switch16_switch16 [simp]: "NetSwitchEndian16 (NetSwitchEndian16 w) = w"
  by (subst (2) switch16) simp

lemma le16_switch16: "le16 (NetSwitchEndian16 w) = [ucast (drop_bit 8 w), ucast w]"
  by (simp add: switch16)

lemma byte_less: "unat (a :: u8) \<le> 255"
  using unsigned_less [of a, where ?'a = nat] by simp

lemma unat_word16: "unat (word16 a b) = unat a + 256 * unat b"
proof -
  have "word16 a b = ucast a + push_bit 8 (ucast b)"
    unfolding word16_def
    by (rule disjunctive_add [symmetric]) (auto simp: bit_simps dest: bit_imp_le_length)
  then show ?thesis
    using byte_less [of a] byte_less [of b]
    by (simp add: unat_word_ariths push_bit_eq_mult unsigned_ucast_eq take_bit_nat_eq_self)
qed

section \<open>Checksums\<close>

text \<open>RFC 1071: the sum of the big-endian words in ones' complement, with zero as the padding.\<close>

definition ones_add :: "nat \<Rightarrow> nat \<Rightarrow> nat" where
  "ones_add a b = (if 65536 \<le> a + b then a + b - 65535 else a + b)"

fun ones_sum :: "u8 list \<Rightarrow> nat" where
  "ones_sum [] = 0"
| "ones_sum [a] = 256 * unat a"
| "ones_sum (a # b # bs) = ones_add (256 * unat a + unat b) (ones_sum bs)"

fun le_sum :: "u8 list \<Rightarrow> nat" where
  "le_sum [] = 0"
| "le_sum [a] = unat a"
| "le_sum (a # b # bs) = unat a + 256 * unat b + le_sum bs"

lemma ones_sum_less: "ones_sum bs < 65536"
proof (induction bs rule: ones_sum.induct)
  case (2 a) show ?case using byte_less [of a] by simp
next
  case (3 a b bs) then show ?case using byte_less [of a] byte_less [of b] by (auto simp: ones_add_def)
qed simp

lemma ones_sum_0: "ones_sum bs = 0 \<longleftrightarrow> le_sum bs = 0"
proof (induction bs rule: ones_sum.induct)
  case (3 a b bs) then show ?case by (auto simp: ones_add_def)
qed simp_all

lemma ones_sum_cong: "ones_sum bs mod 65535 = 256 * le_sum bs mod 65535"
proof (induction bs rule: ones_sum.induct)
  case (3 a b bs)
  have "ones_add (256 * unat a + unat b) (ones_sum bs) mod 65535 = (256 * unat a + unat b + ones_sum bs) mod 65535"
    by (auto simp: ones_add_def mod_if [of "_ + _"])
  also have "\<dots> = (256 * unat a + unat b + 256 * le_sum bs) mod 65535"
    using 3 by (intro mod_add_cong) auto
  also have "\<dots> = (256 * unat a + unat b + 256 * le_sum bs + 65535 * unat b) mod 65535"
    by (rule mod_mult_self2 [symmetric])
  also have "256 * unat a + unat b + 256 * le_sum bs + 65535 * unat b = 256 * le_sum (a # b # bs)"
    by simp
  finally show ?case by simp
qed simp_all

text \<open>The sum is all ones exactly when the little-endian sum is a positive multiple of 65535.\<close>

lemma ones_sum_all_ones: "ones_sum bs = 65535 \<longleftrightarrow> 65535 dvd le_sum bs \<and> le_sum bs \<noteq> 0"
proof -
  have "coprime (65535::nat) (2 ^ 8)"
    unfolding coprime_power_right_iff by simp
  then have "65535 dvd 256 * le_sum bs \<longleftrightarrow> 65535 dvd le_sum bs"
    by (simp add: coprime_dvd_mult_right_iff)
  then have dvd: "65535 dvd ones_sum bs \<longleftrightarrow> 65535 dvd le_sum bs"
    using ones_sum_cong [of bs] by (simp only: dvd_eq_mod_eq_0)
  have "ones_sum bs = 65535 \<longleftrightarrow> 65535 dvd ones_sum bs \<and> ones_sum bs \<noteq> 0"
    using ones_sum_less [of bs] by (auto elim!: dvdE)
  with dvd ones_sum_0 show ?thesis
    by simp
qed

lemma le_sum_append: "even (length xs) \<Longrightarrow> le_sum (xs @ ys) = le_sum xs + le_sum ys"
  by (induction xs rule: le_sum.induct) auto

lemma le_sum_le16 [simp]: "le_sum (le16 w) = unat w"
proof -
  obtain a b where "w = word16 a b"
    using word16_le16 [of w] by metis
  then show ?thesis
    by (simp add: unat_word16)
qed

lemma le_sum_less: "le_sum bs \<le> 65535 * length bs"
proof (induction bs rule: le_sum.induct)
  case (2 a) show ?case using byte_less [of a] by simp
next
  case (3 a b bs) then show ?case using byte_less [of a] byte_less [of b] by simp
qed simp

lemma sum_words_le_sum: "even (length bs) \<Longrightarrow> sum_words bs c = c + of_nat (le_sum bs)"
proof (induction bs c rule: sum_words.induct)
  case (1 a b bs c)
  have "ucast (word16 a b) = (of_nat (unat a + 256 * unat b) :: u32)"
    by (simp only: flip: unat_word16) simp
  with 1 show ?case
    by (simp add: algebra_simps)
qed auto

lemma sum_bytes_le_sum: "even i \<Longrightarrow> sum_bytes i bs c = c + of_nat (le_sum bs)"
proof (induction bs arbitrary: i c rule: le_sum.induct)
  case (3 a b bs)
  have "push_bit 8 (ucast b) = (256 * of_nat (unat b) :: u32)"
    by (simp add: push_bit_eq_mult)
  with 3 show ?case
    by (simp add: algebra_simps mod2_eq_if)
qed (simp_all add: mod2_eq_if)

lemma low: "w AND 0x0000ffff = take_bit 16 w" for w :: u32
  by (simp add: take_bit_eq_mask mask_eq_exp_minus_1)

lemma low_high: "unat c = unat (c AND 0x0000ffff) + 65536 * unat (drop_bit 16 c AND 0x0000ffff)" for c :: u32
proof -
  have "unat c = unat c mod 65536 + 65536 * (unat c div 65536)" "unat c div 65536 < 65536"
    using unat32_lt [of c] by auto
  then show ?thesis
    by (simp add: low take_bit_eq_mod drop_bit_eq_div unat_mod_distrib unat_div_distrib)
qed

lemma add_carries_mod:
  "unat (add_carries c) mod 65535 = unat c mod 65535 \<and> unat (add_carries c) < 65536 \<and>
   unat (add_carries c) \<le> unat c \<and> (add_carries c = 0 \<longleftrightarrow> c = 0)"
proof (induction c rule: add_carries.induct)
  case (1 c)
  let ?l = "c AND 0x0000ffff" and ?h = "drop_bit 16 c AND 0x0000ffff"
  have lh: "unat ?l \<le> 65535" "unat ?h \<le> 65535"
    by (simp_all add: low unat_mod_distrib take_bit_eq_mod)
  show ?case
  proof (cases "c AND 0xffff0000 = 0")
    case True
    have "?h = 0"
    proof -
      have "drop_bit 16 (c AND 0xffff0000) = ?h"
        by (simp add: drop_bit_and) 
      with True show ?thesis by simp
    qed
    then have "unat c < 65536"
      using low_high [of c] lh by simp
    with True show ?thesis
      by (subst (1 2 3 4) add_carries.simps) simp
  next
    case False
    have sum: "unat (?l + ?h) = unat ?l + unat ?h"
      using lh by (simp add: unat_plus_if_lt)
    have "unat c = unat ?l + unat ?h + 65535 * unat ?h"
      using low_high [of c] by linarith
    then have "unat c mod 65535 = (unat ?l + unat ?h + 65535 * unat ?h) mod 65535"
      by (rule arg_cong)
    then have "unat c mod 65535 = unat (?l + ?h) mod 65535"
      by (simp only: mod_mult_self2 sum)
    moreover have "?l + ?h = 0 \<longleftrightarrow> c = 0"
      using sum low_high [of c] by (auto simp: unat_eq_0 [symmetric] simp del: unat_eq_0)
    moreover have "unat (?l + ?h) \<le> unat c"
      using sum low_high [of c] by simp
    ultimately show ?thesis
      using 1 [OF False] False by (subst (1 2 3 4) add_carries.simps) auto
  qed
qed

text \<open>The checksum makes the sum a positive multiple of 65535.\<close>

lemma checksum16_dvd:
  fixes c :: u32
  shows "65535 dvd unat c + unat (checksum16 c)" "unat c + unat (checksum16 c) \<noteq> 0"
proof -
  let ?r = "add_carries c"
  have r: "unat ?r mod 65535 = unat c mod 65535" "unat ?r < 65536" "unat ?r \<le> unat c"
    using add_carries_mod [of c] by auto
  have "ucast (NOT ?r) = - 1 - (ucast ?r :: u16)"
    unfolding not_eq_complement [symmetric] minus_diff_commute [of 1] by (rule bit_word_eqI) (auto simp: bit_simps)
  moreover have "unat (ucast ?r :: u16) = unat ?r"
    using r(2) by (simp add: unsigned_ucast_eq take_bit_nat_eq_self)
  ultimately have n: "unat (checksum16 c) = 65535 - unat ?r"
    using r(2) unat_minus_le [of "ucast ?r :: u16" "- 1"] by (simp add: checksum16_def unsigned_minus_1_eq_mask mask_eq_exp_minus_1)
  have "(unat c + unat (checksum16 c)) mod 65535 = (unat ?r + (65535 - unat ?r)) mod 65535"
    using r n by (metis mod_add_left_eq)
  then show "65535 dvd unat c + unat (checksum16 c)"
    using r(2) by (simp add: dvd_eq_mod_eq_0)
  show "unat c + unat (checksum16 c) \<noteq> 0"
    using n r by simp
qed

text \<open>A checksum in an even position, computed with zero in its place.\<close>

lemma checksum_valid:
  assumes "even (length xs)" "length xs + length ys < 65536"
  shows "ones_sum (xs @ le16 (checksum16 (of_nat (le_sum (xs @ le16 0 @ ys)))) @ ys) = 65535"
proof -
  let ?n = "le_sum (xs @ le16 0 @ ys)"
  have "?n \<le> 65535 * (length xs + length ys + 2)"
    using le_sum_less [of "xs @ le16 0 @ ys"] by simp
  with assms(2) have u: "unat (of_nat ?n :: u32) = ?n"
    by (simp add: unsigned_of_nat take_bit_nat_eq_self)
  have "le_sum (xs @ le16 c @ ys) = ?n + unat c" for c
    using assms(1) by (simp add: le_sum_append)
  then have "le_sum (xs @ le16 (checksum16 (of_nat ?n)) @ ys) = unat (of_nat ?n :: u32) + unat (checksum16 (of_nat ?n))"
    unfolding u .
  then show ?thesis
    unfolding ones_sum_all_ones using checksum16_dvd [of "of_nat ?n"] by (simp only: simp_thms)
qed

section \<open>Packets\<close>

lemma patch_append: "length xs = off \<Longrightarrow> length ys \<le> length zs \<Longrightarrow>
    patch off ys (xs @ zs) = Some (xs @ ys @ drop (length ys) zs)"
  by (simp add: patch_def)

lemma part_append: "length xs = off \<Longrightarrow> length ys = n \<Longrightarrow> part off n (xs @ ys @ zs) = Some ys"
  by (simp add: part_def)

text \<open>Arrays of the sizes in \<open>net.h\<close>.\<close>

definition addresses_ok :: "net_device \<Rightarrow> u8 list \<Rightarrow> u8 list \<Rightarrow> bool" where
  "addresses_ok dev mac ip = (length (nd_mac dev) = 6 \<and> length (nd_ip dev) = 4 \<and> length mac = 6 \<and> length ip = 4)"

definition ipv4_head :: "net_device \<Rightarrow> u32 \<Rightarrow> u8 \<Rightarrow> u8 \<Rightarrow> u8 \<Rightarrow> u8 \<Rightarrow> u8 list" where
  "ipv4_head dev buffer_len dscp ecn ttl protocol =
     [0x45, (ecn AND 3) OR push_bit 2 (dscp AND 63)] @ le16 (NetSwitchEndian16 (ucast (buffer_len - 14))) @
     [0, 0, 0x40, 0, ttl, protocol]"

lemma eth_ipv4_eq:
  assumes "addresses_ok dev mac ip"
  shows "eth_ipv4 dev n dscp ecn ttl protocol mac ip =
    mac @ nd_mac dev @ [8, 0] @ ipv4_head dev n dscp ecn ttl protocol @
      le16 (checksum16 (of_nat (le_sum (ipv4_head dev n dscp ecn ttl protocol @ le16 0 @ nd_ip dev @ ip)))) @ nd_ip dev @ ip"
proof -
  have z: "le16 0 = [0, 0]" "le16 (NetSwitchEndian16 0x0800) = [8, 0]"
    by (simp add: le16_def, simp add: le16_switch16)
  have b: "ipv4_bytes \<lparr>ipv4_ihl = 5, ipv4_version = 4, ipv4_ecn = ecn, ipv4_dscp = dscp,
      ipv4_total_length = NetSwitchEndian16 (ucast (n - 14)), ipv4_identification = 0, ipv4_fragment_offset_h5 = 0,
      ipv4_flags = 0x02, ipv4_fragment_offset_l8 = 0, ipv4_ttl = ttl, ipv4_protocol = protocol, ipv4_checksum = c,
      ipv4_src = nd_ip dev, ipv4_dst = ip\<rparr> = ipv4_head dev n dscp ecn ttl protocol @ le16 c @ nd_ip dev @ ip" for c
    using z(1) by (simp add: ipv4_bytes_def ipv4_head_def)
  have "even (length (ipv4_head dev n dscp ecn ttl protocol @ le16 0 @ nd_ip dev @ ip))"
    using assms by (simp add: addresses_ok_def ipv4_head_def)
  then show ?thesis
    using assms z(2) by (simp add: eth_ipv4_def Let_def eth_bytes_def addresses_ok_def b sum_words_le_sum)
qed

lemma length_eth_ipv4 [simp]: "addresses_ok dev mac ip \<Longrightarrow> length (eth_ipv4 dev n dscp ecn ttl protocol mac ip) = 34"
  by (simp add: eth_ipv4_eq) (simp add: addresses_ok_def ipv4_head_def)

section \<open>Sending\<close>

definition udp_head :: "u16 \<Rightarrow> u16 \<Rightarrow> nat \<Rightarrow> u8 list" where
  "udp_head port_src port_dst n =
     le16 (NetSwitchEndian16 port_src) @ le16 (NetSwitchEndian16 port_dst) @ le16 (NetSwitchEndian16 (8 + of_nat n))"

definition pseudo_head :: "u8 list \<Rightarrow> u8 list \<Rightarrow> nat \<Rightarrow> u8 list" where
  "pseudo_head src dst n = src @ dst @ [0, 17] @ le16 (NetSwitchEndian16 (8 + of_nat n))"

definition udp_packet :: "net_device \<Rightarrow> u8 list \<Rightarrow> u8 list \<Rightarrow> u16 \<Rightarrow> u16 \<Rightarrow> u8 list \<Rightarrow> u8 list" where
  "udp_packet dev mac ip port_src port_dst dat =
     eth_ipv4 dev (42 + of_nat (length dat)) 8 0 50 17 mac ip @ udp_head port_src port_dst (length dat) @
     le16 (checksum16 (of_nat (le_sum (pseudo_head (nd_ip dev) ip (length dat) @
       udp_head port_src port_dst (length dat) @ le16 0 @ dat)))) @ dat"

lemma length_udp_head [simp]: "length (udp_head a b n) = 6" "length (pseudo_head x y n) = length x + length y + 4"
  by (simp_all add: udp_head_def pseudo_head_def)

lemma udp_bytes_head:
  "udp_bytes \<lparr>udp_port_src = NetSwitchEndian16 a, udp_port_dst = NetSwitchEndian16 b,
     udp_length = NetSwitchEndian16 (8 + of_nat n), udp_checksum = c\<rparr> = udp_head a b n @ le16 c"
  by (simp add: udp_bytes_def udp_head_def)

lemma NetSendUDP_packet:
  assumes r: "NetFindARPRecord (Some ip) s = Some r" and ok: "addresses_ok (n_dev s d) (ar_mac r) ip"
    and len: "length dat = unat len" "unat len \<le> 982"
  shows "NetSendUDP (Some d) port_src (Some ip) port_dst (Some dat) len s =
    Some (SendPacket d (udp_packet (n_dev s d) (ar_mac r) ip port_src port_dst dat) s)"
proof -
  let ?dev = "n_dev s d" and ?n = "length dat"
  let ?eth = "eth_ipv4 ?dev (42 + of_nat ?n) 8 0 50 17 (ar_mac r) ip"
  define csum where "csum = checksum16 (of_nat (le_sum (pseudo_head (nd_ip ?dev) ip ?n @ udp_head port_src port_dst ?n @ le16 0 @ dat)))"
  have l: "of_nat ?n = len" "ucast len = (of_nat ?n :: u32)" "unat (42 + of_nat ?n :: u32) = 42 + ?n"
    using len by (simp_all add: unat_word_ariths unsigned_ucast_eq take_bit_nat_eq_self unsigned_of_nat)
  have e: "length ?eth = 34"
    using ok by simp
  have ub: "udp_bytes \<lparr>udp_port_src = NetSwitchEndian16 port_src, udp_port_dst = NetSwitchEndian16 port_dst,
      udp_length = NetSwitchEndian16 (8 + len), udp_checksum = x\<rparr> = udp_head port_src port_dst ?n @ le16 x" for x
    using udp_bytes_head [of port_src port_dst ?n x] unfolding l(1) .
  have h: "udp_with_pseudo_header (nd_ip ?dev) ip \<lparr>udp_port_src = NetSwitchEndian16 port_src, udp_port_dst = NetSwitchEndian16 port_dst,
      udp_length = NetSwitchEndian16 (8 + len), udp_checksum = 0\<rparr> =
    pseudo_head (nd_ip ?dev) ip ?n @ udp_head port_src port_dst ?n @ le16 0"
    unfolding udp_with_pseudo_header_def ub using ok l(1) by (simp add: pseudo_head_def addresses_ok_def)
  have c: "checksum16 (sum_bytes 0 dat (sum_words (pseudo_head (nd_ip ?dev) ip ?n @ udp_head port_src port_dst ?n @ le16 0) 0)) = csum"
    using ok by (simp add: sum_bytes_le_sum sum_words_le_sum le_sum_append addresses_ok_def csum_def ac_simps)
  have p0: "patch 0 ?eth (replicate MAX_NET_PACKET_LEN 0) = Some (?eth @ replicate 990 0)"
    using patch_append [of "[]" 0 ?eth] e by (simp add: MAX_NET_PACKET_LEN_def)
  have p1: "part 0 (unat len) dat = Some dat"
    using len(1) by (simp add: part_def)
  have p2: "patch sizeof_udp dat (?eth @ replicate 990 0) = Some (?eth @ replicate 8 0 @ dat @ replicate (982 - ?n) 0)"
    using patch_append [of "?eth @ replicate 8 0" 42 dat "replicate 982 0"] e len by (simp flip: replicate_add)
  have p3: "patch sizeof_ipv4 (udp_head port_src port_dst ?n @ le16 csum) (?eth @ replicate 8 0 @ dat @ replicate (982 - ?n) 0) =
      Some (?eth @ (udp_head port_src port_dst ?n @ le16 csum) @ dat @ replicate (982 - ?n) 0)"
    using patch_append [of ?eth 34 "udp_head port_src port_dst ?n @ le16 csum" "replicate 8 0 @ dat @ replicate (982 - ?n) 0"] e
    by simp
  have t: "take (42 + ?n) (?eth @ (udp_head port_src port_dst ?n @ le16 csum) @ dat @ replicate (982 - ?n) 0) =
      udp_packet ?dev (ar_mac r) ip port_src port_dst dat"
    using e by (simp add: udp_packet_def csum_def)
  have g: "MAX_UDP_DATA_LEN < unat len \<longleftrightarrow> False"
    using len(2) by (simp add: MAX_UDP_DATA_LEN_def MAX_NET_PACKET_LEN_def)
  show ?thesis
    by (simp only: NetSendUDP_def prod.case option.case r Let_def g if_False l(2,3) p0 bind.bind_lunit h c p1 p2 p3
        udp_frame.update_convs ub t)
qed

text \<open>The receiver finds all ones in the sum over the header, and over the pseudo header with the datagram.\<close>

lemma sent_checksums_valid:
  assumes "addresses_ok dev mac ip" "length dat \<le> 982"
  shows "ones_sum (take 20 (drop 14 (udp_packet dev mac ip port_src port_dst dat))) = 65535"
    "ones_sum (pseudo_head (nd_ip dev) ip (length dat) @ drop 34 (udp_packet dev mac ip port_src port_dst dat)) = 65535"
proof -
  let ?h = "ipv4_head dev (42 + of_nat (length dat)) 8 0 50 17"
  have h: "length ?h = 10"
    by (simp add: ipv4_head_def)
  then have "take 20 (drop 14 (udp_packet dev mac ip port_src port_dst dat)) =
      ?h @ le16 (checksum16 (of_nat (le_sum (?h @ le16 0 @ nd_ip dev @ ip)))) @ nd_ip dev @ ip"
    using assms(1) by (simp add: udp_packet_def eth_ipv4_eq) (simp add: addresses_ok_def)
  then show "ones_sum (take 20 (drop 14 (udp_packet dev mac ip port_src port_dst dat))) = 65535"
    using checksum_valid [of ?h "nd_ip dev @ ip"] h assms(1) by (simp add: addresses_ok_def)
  let ?p = "pseudo_head (nd_ip dev) ip (length dat) @ udp_head port_src port_dst (length dat)"
  have "drop 34 (udp_packet dev mac ip port_src port_dst dat) =
      udp_head port_src port_dst (length dat) @ le16 (checksum16 (of_nat (le_sum (?p @ le16 0 @ dat)))) @ dat"
    using assms(1) by (simp add: udp_packet_def)
  then show "ones_sum (pseudo_head (nd_ip dev) ip (length dat) @ drop 34 (udp_packet dev mac ip port_src port_dst dat)) = 65535"
    using checksum_valid [of ?p dat] assms by (simp add: addresses_ok_def)
qed

section \<open>Receiving\<close>

lemma nth_head: "length xs = n \<Longrightarrow> (xs @ y # zs) ! n = y" "length xs = n \<Longrightarrow> (xs @ y # z # zs) ! Suc n = z"
  by (auto simp: nth_append)

text \<open>What one machine sends, the function of the port of the other one gets.\<close>

lemma udp_delivered:
  assumes ok: "addresses_ok dev (nd_mac (n_dev s d)) (nd_ip (n_dev s d))" and n: "length dat \<le> 982"
    and f: "nd_ProcessUDP (n_dev s d) port_dst = Some f"
  shows "NetProcessPacket junk d (udp_packet dev (nd_mac (n_dev s d)) (nd_ip (n_dev s d)) port_src port_dst dat)
      (of_nat (42 + length dat)) s =
    Some (s\<lparr>n_udp_calls := n_udp_calls s @
      [\<lparr>uc_function = f, uc_device = d, uc_ip_src = nd_ip dev, uc_port_src = port_src,
        uc_ip_dst = nd_ip (n_dev s d), uc_port_dst = port_dst, uc_data = dat\<rparr>]\<rparr>)"
proof -
  let ?mac = "nd_mac (n_dev s d)" and ?ip = "nd_ip (n_dev s d)"
  define h where "h = [0x45, 32] @ le16 (NetSwitchEndian16 (ucast (42 + of_nat (length dat) - 14 :: u32))) @ [0, 0, 0x40, 0 :: u8]"
  have head: "ipv4_head dev (42 + of_nat (length dat)) 8 0 50 17 = h @ [50, 17]" and h: "length h = 8"
    by (simp_all add: h_def ipv4_head_def)
  define P where "P = udp_packet dev ?mac ?ip port_src port_dst dat"
  have "\<exists>c1 c2. P =
      ?mac @ nd_mac dev @ [8, 0] @ h @ [50, 17] @ le16 c1 @ nd_ip dev @ ?ip @ le16 (NetSwitchEndian16 port_src) @
      le16 (NetSwitchEndian16 port_dst) @ le16 (NetSwitchEndian16 (8 + of_nat (length dat))) @ le16 c2 @ dat"
    unfolding P_def udp_packet_def eth_ipv4_eq [OF ok] head udp_head_def append_assoc by blast
  then obtain c1 c2 where p: "P =
      ?mac @ nd_mac dev @ [8, 0] @ h @ [50, 17] @ le16 c1 @ nd_ip dev @ ?ip @ le16 (NetSwitchEndian16 port_src) @
      le16 (NetSwitchEndian16 port_dst) @ le16 (NetSwitchEndian16 (8 + of_nat (length dat))) @ le16 c2 @ dat"
    by blast
  have l: "unat (of_nat (42 + length dat) :: u16) = 42 + length dat"
    using n by (simp add: unsigned_of_nat take_bit_nat_eq_self del: of_nat_add)
  have len: "length ?mac = 6" "length (nd_mac dev) = 6" "length ?ip = 4" "length (nd_ip dev) = 4" "length h = 8"
    using ok h by (simp_all add: addresses_ok_def)
  have a: "part 0 14 P = Some (?mac @ nd_mac dev @ [8, 0])"
    using len by (simp add: p part_def)
  have b: "part 14 20 P = Some (h @ [50, 17] @ le16 c1 @ nd_ip dev @ ?ip)"
    using len by (simp add: p part_def)
  have c: "part 0 42 P = Some (?mac @ nd_mac dev @ [8, 0] @ h @ [50, 17] @ le16 c1 @ nd_ip dev @ ?ip @
      le16 (NetSwitchEndian16 port_src) @ le16 (NetSwitchEndian16 port_dst) @ le16 (NetSwitchEndian16 (8 + of_nat (length dat))) @ le16 c2)"
    using len by (simp add: p part_def)
  have e: "part 42 (length dat) P = Some dat"
    using len by (simp add: p part_def)
  have t: "word16 0 8 = 0x800"
    by (simp add: word16_def)
  show ?thesis
    using f len unfolding P_def [symmetric] NetProcessPacket_def NetProcessIPv4_def NetProcessUDP_def l
    by (simp add: a b c e t nth_append le16_switch16 NetCompareMAC_def NetCompareIP_def Let_def)
qed

text \<open>An address request for the device is answered with its address.\<close>

lemma arp_answered:
  assumes "length eth = 12" "length sha = 6" "length spa = 4" "length tha = 6" "length (nd_mac (n_dev s d)) = 6" "length (nd_ip (n_dev s d)) = 4"
  shows "NetProcessPacket junk d (eth @ [8, 6, 0, 1, 8, 0, 6, 4, 0, 1] @ sha @ spa @ tha @ nd_ip (n_dev s d)) 42 s =
    Some (snd (SendPacket d (sha @ nd_mac (n_dev s d) @ [8, 6, 0, 1, 8, 0, 6, 4, 0, 2] @
      nd_mac (n_dev s d) @ nd_ip (n_dev s d) @ sha @ spa) s))"
proof -
  let ?a = "sha @ spa @ tha @ nd_ip (n_dev s d)"
  have a: "part 0 14 (eth @ [8, 6, 0, 1, 8, 0, 6, 4, 0, 1] @ ?a) = Some (eth @ [8, 6])"
    "part 14 28 (eth @ [8, 6, 0, 1, 8, 0, 6, 4, 0, 1] @ ?a) = Some ([0, 1, 8, 0, 6, 4, 0, 1] @ ?a)"
    using assms by (simp_all add: part_def)
  have r: "arp_of ([0, 1, 8, 0, 6, 4, 0, 1] @ ?a) = \<lparr>arp_htype = word16 0 1, arp_ptype = word16 8 0, arp_hlen = 6, arp_plen = 4,
      arp_oper = word16 0 1, arp_sha = sha, arp_spa = spa, arp_tha = tha, arp_tpa = nd_ip (n_dev s d)\<rparr>"
    using assms by (simp add: arp_of_def)
  have w: "NetSwitchEndian16 1 = word16 0 1" "NetSwitchEndian16 2 = word16 0 2" "NetSwitchEndian16 0x800 = word16 8 0"
    "NetSwitchEndian16 0x806 = word16 8 6" "word16 6 8 = 0x806"
    by (simp_all add: switch16) (simp_all add: word16_def)
  show ?thesis
    using assms(1,5,6) unfolding NetProcessPacket_def NetProcessARP_def a
    by (simp add: Let_def a r [simplified] w nth_append eth_bytes_def arp_bytes_def)
qed

text \<open>The answer to an echo request of more than 1024 bytes is written behind the buffer.\<close>

lemma long_ping_overflows:
  assumes "1024 < unat len" "length packet = unat len" "addresses_ok (n_dev s d) (take 6 (drop 6 packet)) (take 4 (drop 26 packet))"
  shows "NetProcessPing junk d packet len s = None"
  using assms by (simp add: NetProcessPing_def MAX_NET_PACKET_LEN_def part_def patch_def NetFillIPv4Packet_def icmp_bytes_def split: bind_splits)

text \<open>The last number of a hardware address is read with the factor 10.\<close>

lemma mac_last_number: "NetParseMAC True ''00:11:22:33:44:55'' = (True, [0x00, 0x11, 0x22, 0x33, 0x44, 55])"
  by code_simp

end
