(* ===== verification/Spec2Isabelle.thy ===== *)
theory Spec2Isabelle
  imports Memory_Props Linked_List_Proofs Array_List Hash_Table_Proofs Mem_Pool_Proofs
    Strings_Proofs MQueue Timer Time Ifs1_File_Props Paging_Proofs Syscall_Proofs
    Vars Path_Lib Config Wdvm_Props
    Iasm_Constants_Props Iasm_Encoder_Props Net_Props
begin

text \<open>
  \<^bold>\<open>Isystemx86\<close> is an operating system for 32-bit x86 processors: a kernel (\<^verbatim>\<open>src/kernel/\<close>), the
  libraries it shares with its programs (\<^verbatim>\<open>src/libs/\<close>) and the programs themselves
  (\<^verbatim>\<open>src/apps/\<close>).  This library holds Isabelle models of the kernel's own logic and of the
  libraries below it, translated function by function from the C code, and the theorems that say
  what these parts do for each other.

  \<^bold>\<open>The parts and how they interact.\<close>  The physical allocator hands out 4 KB blocks from tables of
  descriptors that it links itself.  The pool, the dslib containers, the queues, the timers and the
  file system allocate from it.  A task owns a page directory, page tables, a code block and the
  blocks it has asked for; creating a task, giving it memory and killing it go through the
  allocator and the paging functions.  The timer interrupt runs the timers and the scheduler,
  which picks the next task.  A system call traps into the kernel, which reads the parameters from
  the task's memory, and calls the file system (over the disk layer), the task functions and the
  queues on its behalf.

  \<^bold>\<open>Theories and sources.\<close>
  \<^item> Prelude: the C integer types, their arithmetic, bytes of words, partial maps and lists.
  \<^item> Lock (\<^verbatim>\<open>kernel/lock.c\<close>, \<^verbatim>\<open>lock.h\<close>, \<^verbatim>\<open>cmlock.h\<close>): the nesting interrupt lock.
  \<^item> Dll, Memory (\<^verbatim>\<open>kernel/memory.c\<close>): linked lists in a store, the allocator's tables.
    Memory_Blocks abstracts them to lists of (start, length) pairs, Memory_Proofs proves the
    refinement and the invariant, Memory_Props states what callers rely on, and what happens when
    the free list runs empty.
  \<^item> Linked_List, Array_List, Hash_Table (\<^verbatim>\<open>libs/dslib/\<close>) with Linked_List_Proofs and
    Hash_Table_Proofs: a list header represents a list of nodes, the hash table represents a map;
    the interface \<^theory_text>\<open>dictionary\<close> is interpreted on the code's model.
  \<^item> Mem_Pool, Mem_Pool_Proofs (\<^verbatim>\<open>libs/mempoollib/mempoollib.c\<close>, \<^verbatim>\<open>kernel/kmpool.c\<close>): size classes.
  \<^item> Strings, Strings_Proofs (\<^verbatim>\<open>libs/ilib/string.c\<close>, \<^verbatim>\<open>kernel/kstring.c\<close>, \<^verbatim>\<open>kernel/utils.c\<close>).
  \<^item> MQueue (\<^verbatim>\<open>kernel/mqueue.c\<close>), Timer (\<^verbatim>\<open>kernel/timer.c\<close>), Time (\<^verbatim>\<open>kernel/time.c\<close>,
    \<^verbatim>\<open>kernel/klib.c\<close>).
  \<^item> Disks, Disks_Proofs (\<^verbatim>\<open>kernel/disk.c\<close>, \<^verbatim>\<open>kernel/vdisk.c\<close>): a RAM disk is an array of sectors.
  \<^item> Ifs1_Layout, Ifs1_Blocks, Ifs1_Dirs, Ifs1_Resolve, Ifs1_Files, Ifs1_Paths
    (\<^verbatim>\<open>kernel/fs/ifs1/blocks.c\<close>, \<^verbatim>\<open>fs.c\<close>): packed blocks, the allocation table, directories
    and links, path resolution, open files with their buffers, path strings.  The
    \<^verbatim>\<open>_Proofs\<close> theories view the disk as an array of 64 KB blocks, a directory as a map from
    names, a path as a walk in the tree, and an open file as a list of bytes.
  \<^item> Paging, Paging_Proofs (\<^verbatim>\<open>kernel/paging.c\<close>): the page walk of the processor over the tables
    that the code writes.
  \<^item> Elf (\<^verbatim>\<open>kernel/elf/\<close>, \<^verbatim>\<open>kernel/so.c\<close>), Tasks, Task_Memory (\<^verbatim>\<open>kernel/tasks.c\<close>,
    \<^verbatim>\<open>kernel/386.c\<close>) with Task_Proofs: the address spaces of tasks are disjoint.
  \<^item> Scheduler (\<^verbatim>\<open>kernel/tasks.c\<close>, the timer interrupt of \<^verbatim>\<open>kernel/kernel.c\<close>) with
    Scheduler_Proofs and Scheduler_Props: dispatching in a cycle, and its progress.
  \<^item> Syscalls, Syscall_Proofs (\<^verbatim>\<open>kernel/syscall/system.c\<close>, \<^verbatim>\<open>fs.c\<close>, the system call interrupt of
    \<^verbatim>\<open>kernel/kernel.c\<close>): what a task can do to itself and to others.
  \<^item> Vars (\<^verbatim>\<open>kernel/vars.c\<close>): the shell's variables as a bounded map.  Path_Lib
    (\<^verbatim>\<open>libs/pathlib/\<close>): paths taken apart and put together.  Logs (\<^verbatim>\<open>kernel/log.c\<close>): the log
    as one text.
  \<^item> Json, Json_Proofs (\<^verbatim>\<open>libs/jsonlib/\<close>): the configuration parser against a grammar, its
    termination and its memory; Config (\<^verbatim>\<open>kernel/config.c\<close>): the values that the kernel reads.
  \<^item> Net, Net_Props (\<^verbatim>\<open>kernel/net/net.c\<close>, \<^verbatim>\<open>helper.c\<close>, \<^verbatim>\<open>endian.c\<close>): the network stack above the cards; its
    checksums are those of RFC 1071, and what one machine sends another one gets.
  \<^item> Wdvm, Wdvm_Load (\<^verbatim>\<open>apps/WDVM-ISystemx86/\<close>): the virtual machine with its decision trees, and how
    it reads programs.  Wdvm_Proofs, Wdvm_Stack, Wdvm_Props: the trees as tables, the stack as a
    list, a type system whose programs never go wrong.
  \<^item> Iasm_Source, Iasm_Operands, Iasm_Parser_1, Iasm_Parser (\<^verbatim>\<open>apps/iasm/\<close>: \<^verbatim>\<open>lexer.c\<close>, \<^verbatim>\<open>stable.c\<close>,
    \<^verbatim>\<open>cexpr.c\<close>, \<^verbatim>\<open>parser.c\<close>, \<^verbatim>\<open>parser.h\<close>): the front end of the assembler, its directives, and a table
    entry for every instruction; Iasm_Encoder, Iasm_Macros, Iasm_Instructions_A to C (\<^verbatim>\<open>encoder.c\<close>,
    \<^verbatim>\<open>encoder.h\<close>): the functions that write the bytes of an instruction.  Iasm_Steps and
    Iasm_Parser_Steps view a pass as a sequence of elementary steps, which Iasm_Lexer_Props uses for
    the end of every pass and its invariant; Iasm_Encoder_Proofs and Iasm_Encoder_Props decode what
    the encoder writes the way the processor does; Iasm_Constants_Props: numbers and expressions.
  \<^bold>\<open>State.\<close>  Each component keeps the C globals of its file in a record; a pointer to a table slot
  is the slot's index or the address itself, memory is a total map from addresses to bytes or words,
  and a call returns the value with the new state.  A C function that dereferences a null pointer,
  or leaves an array that the model does not lay out, returns \<open>None\<close>; error codes of the C code
  stay values.  Machine integers are words of their width, so wrap-around is that of the code.

  \<^bold>\<open>Parameters of the model.\<close>  The ATA, ATAPI and AHCI drivers and the network
  cards; the functions of UDP ports (logged); the answers of the allocator where
  a library only asks for memory (a stream of addresses or failures); the event functions of the
  timers; the exit functions of tasks (logged); the value \<open>fninit\<close> leaves in the floating point
  unit; the system call classes of screen, keyboard, mouse and windows; the stale bytes of
  parameter blocks.  Page tables are kept apart from the other physical memory.

  \<^bold>\<open>Fuel and bounds.\<close>  Loops that end on their own are recursion with a measure.  Where a loop
  follows links that a corrupted store can make cyclic, it runs on fuel and gives \<open>None\<close> when this
  runs out: walks of descriptor lists take the number of descriptors, which the invariant shows to
  be enough; path resolution takes a depth for the nesting of links, and deletion and repair of
  directories one for the nesting of directories, where a cyclic directory graph makes the code
  recurse for ever.  The loop of the assembler's parser over the statements tells the end of its
  rounds apart from undefined behaviour, and one round for each character and one more are enough;
  a run of the virtual machine is a number of clock ticks.  RAM disks have 39 blocks of 64 KB as the
  code creates them.  The progress bounds of the scheduler are in timer interrupts.

  \<^bold>\<open>Not modelled.\<close>  Code whose effect is on hardware registers (port input and output: drivers,
  interrupt controllers, PCI, network cards), drawing (screen, windows, fonts), the command shell
  and the start-up of the kernel, which is glue; floating point printing; assembly; the third-party
  programs (Lua, ubasic, GNU C library parts) and public domain hash functions.
\<close>

end
